(* ===== verification/Prelude.thy ===== *)
theory Prelude
  imports "HOL-Library.Word" "HOL-Library.Product_Lexorder"
begin

text \<open>
  Shared vocabulary of the development: the Go values the services exchange
  (identifiers, times, strings, dynamically typed JSON values), the errors they
  return, everything a request takes from outside the program (clock, fresh
  identifiers, random tokens, cryptographic libraries, database faults), and the
  relational operations the repositories perform on tables through gorm.
\<close>

section \<open>Values\<close>

type_synonym uuid = "128 word"
type_synonym time = int

abbreviation uuid_nil :: uuid where
  "uuid_nil \<equiv> 0"

text \<open>
  A time is a count of nanoseconds since the Unix epoch, a duration a count of nanoseconds.
  \<open>unix\<close> is Go's \<open>Time.Unix\<close>: whole seconds, rounded towards minus infinity.
\<close>

definition seconds :: "int \<Rightarrow> time" where
  "seconds n = n * 1000000000"

definition minutes :: "int \<Rightarrow> time" where
  "minutes n = seconds (60 * n)"

definition days :: "int \<Rightarrow> time" where
  "days n = minutes (1440 * n)"

definition unix :: "time \<Rightarrow> int" where
  "unix t = t div 1000000000"

definition unix_milli :: "time \<Rightarrow> int" where
  "unix_milli t = t div 1000000"

text \<open>Go's \<open>any\<close>, restricted to the dynamic types the source stores in a \<open>datatypes.JSONMap\<close>.
  A 64-bit float is only ever copied there, so it is kept as its bits.\<close>

datatype any =
    ANil
  | ABool bool
  | AInt int
  | AStr string
  | ATime time
  | AFloat "64 word"
  | ASeq "any list"
  | AMap "(string \<times> any) list"

type_synonym json_map = "(string \<times> any) list"

text \<open>\<open>m[k]\<close> on a map with dynamic values: a missing key reads as \<open>nil\<close>.\<close>

definition jget :: "json_map \<Rightarrow> string \<Rightarrow> any" where
  "jget m k = (case map_of m k of None \<Rightarrow> ANil | Some v \<Rightarrow> v)"

text \<open>\<open>m[k] = v\<close>.\<close>

fun jset :: "json_map \<Rightarrow> string \<Rightarrow> any \<Rightarrow> json_map" where
  "jset [] k v = [(k, v)]"
| "jset ((k', v') # m) k v = (if k' = k then (k, v) # m else (k', v') # jset m k v)"

lemma map_of_jset [simp]: "map_of (jset m k v) = (map_of m)(k \<mapsto> v)"
  by (induction m) auto

lemma jget_jset [simp]: "jget (jset m k v) k' = (if k' = k then v else jget m k')"
  by (simp add: jget_def)

text \<open>An optional pointer as a dynamic value.\<close>

definition any_opt :: "('a \<Rightarrow> any) \<Rightarrow> 'a option \<Rightarrow> any" where
  "any_opt f x = (case x of None \<Rightarrow> ANil | Some y \<Rightarrow> f y)"

section \<open>Strings\<close>

text \<open>
  A Go string is a sequence of bytes. \<open>strings.TrimSpace\<close> and \<open>strings.ToLower\<close> are
  modelled on their ASCII behaviour: the six ASCII white-space bytes and the letters A to Z.
\<close>

definition is_space :: "char \<Rightarrow> bool" where
  "is_space c \<longleftrightarrow> c \<in> {CHR 0x09, CHR 0x0A, CHR 0x0B, CHR 0x0C, CHR 0x0D, CHR 0x20}"

definition trim :: "string \<Rightarrow> string" where
  "trim s = rev (dropWhile is_space (rev (dropWhile is_space s)))"

definition lower_char :: "char \<Rightarrow> char" where
  "lower_char c =
     (let n = (of_char c :: nat) in if 65 \<le> n \<and> n \<le> 90 then char_of (n + 32) else c)"

definition to_lower :: "string \<Rightarrow> string" where
  "to_lower s = map lower_char s"

definition has_prefix :: "string \<Rightarrow> string \<Rightarrow> bool" where
  "has_prefix s p \<longleftrightarrow> take (length p) s = p"

definition has_suffix :: "string \<Rightarrow> string \<Rightarrow> bool" where
  "has_suffix s p \<longleftrightarrow> has_prefix (rev s) (rev p)"

fun contains_str :: "string \<Rightarrow> string \<Rightarrow> bool" where
  "contains_str [] p \<longleftrightarrow> p = []"
| "contains_str (c # s) p \<longleftrightarrow> has_prefix (c # s) p \<or> contains_str s p"

text \<open>\<open>fmt.Sprintf\<close> with \<open>%d\<close>.\<close>

function digits :: "int \<Rightarrow> string" where
  "digits n = (if n < 10 then [char_of (48 + n)] else digits (n div 10) @ [char_of (48 + n mod 10)])"
  by auto

termination by (relation "measure nat") auto

declare digits.simps [simp del]

definition int_dec :: "int \<Rightarrow> string" where
  "int_dec n = (if n < 0 then CHR ''-'' # digits (- n) else digits n)"

lemma trim_Nil [simp]: "trim [] = []"
  by (simp add: trim_def)

lemma dropWhile_idem [simp]: "dropWhile P (dropWhile P xs) = dropWhile P xs"
  by (induction xs) auto

lemma dropWhile_hd: "dropWhile P xs = x # ys \<Longrightarrow> \<not> P x"
  by (induction xs) (auto split: if_splits)

lemma dropWhile_fix: "xs = [] \<or> \<not> P (hd xs) \<Longrightarrow> dropWhile P xs = xs"
  by (cases xs) auto

lemma dropWhile_rev_hd:
  assumes "\<not> P (hd xs)" "dropWhile P (rev xs) \<noteq> []"
  shows "last (dropWhile P (rev xs)) = hd xs"
proof -
  obtain ys where ys: "rev xs = ys @ dropWhile P (rev xs)"
    by (metis takeWhile_dropWhile_id)
  then have "last (rev xs) = last (dropWhile P (rev xs))"
    using assms(2) by (metis last_appendR)
  with assms(2) show ?thesis
    by (metis dropWhile.simps(1) hd_rev rev_rev_ident)
qed

text \<open>Trimming twice is trimming once: what the services store is already trimmed.\<close>

lemma trim_trim [simp]: "trim (trim s) = trim s"
proof -
  let ?a = "dropWhile is_space s"
  let ?b = "dropWhile is_space (rev ?a)"
  have b: "dropWhile is_space (rev ?b) = rev ?b"
  proof (cases "?b = []")
    case False
    then have "?a \<noteq> []" by (metis dropWhile.simps(1) rev.simps(1))
    then have "\<not> is_space (hd ?a)" by (metis dropWhile_hd list.collapse)
    then have "last ?b = hd ?a" using False by (rule dropWhile_rev_hd)
    with False \<open>\<not> is_space (hd ?a)\<close> have "\<not> is_space (hd (rev ?b))" by (simp add: hd_rev)
    then show ?thesis by (intro dropWhile_fix) simp
  next
    case True
    then show ?thesis by (metis dropWhile.simps(1) rev.simps(1))
  qed
  show ?thesis unfolding trim_def by (simp add: b)
qed


section \<open>Errors\<close>

text \<open>
  The error values of the services: messages built with \<open>fmt.Errorf\<close> or \<open>errors.New\<close>,
  wrapped errors (\<open>%w\<close>), the sentinels callers compare against, gorm's own errors, a violated
  unique index, and a failure of the database itself in a named repository call.
\<close>

datatype error =
    Errorf string
  | Wrapf string error
  | ErrRecordNotFound
  | ErrInvalidData
  | ErrDuplicateKey
  | ErrDB string
  | ErrUnsupportedSyncEvent
  | ErrSyncIdempotencyConflict
  | ErrKnowledgeEntryNotFound
  | ErrKnowledgeEntryDeleted
  | ErrKnowledgeEntryConflict
  | ErrContactNotFound
  | ErrContactDeleted
  | ErrContactConflict
  | ErrSkillNotFound
  | ErrSkillVersionNotFound
  | ErrSkillInstallationNotFound
  | ErrSkillInvalid
  | ErrSkillForbidden
  | ErrSkillPublisherBlocked
  | ErrGovernanceInvalidInput
  | ErrApprovalReceiptInvalid
  | ErrGovernanceDenied
  | ErrGovernanceApprovalRequired
  | ErrGovernanceApprovalInvalid
  | ErrObjectNotFound
  | ErrObjectForbidden
  | ErrObjectInvalid
  | ErrObjectNotActive
  | ErrObjectHashMismatch
  | ErrObjectSizeMismatch
  | ErrObjectTypeMismatch
  | ErrObjectHasReferences
  | ErrKBCollectionNotFound
  | ErrKBSnapshotNotFound
  | ErrKBSubscriptionNeeded
  | ErrKBInvalid
  | ErrKBNoEntries
  | ErrSAGEPluginNotFound
  | ErrSAGEVersionNotFound
  | ErrSAGEInstallationNotFound
  | ErrSAGEInvalid
  | ErrSAGEForbidden

text \<open>\<open>errors.Is\<close>: the target occurs in the chain of wrapped errors.\<close>

fun err_is :: "error \<Rightarrow> error \<Rightarrow> bool" where
  "err_is (Wrapf m e) t \<longleftrightarrow> Wrapf m e = t \<or> err_is e t"
| "err_is e t \<longleftrightarrow> e = t"

text \<open>\<open>Error()\<close>. The sentinels' own texts matter nowhere and are their names here.\<close>

fun err_text :: "error \<Rightarrow> string" where
  "err_text (Errorf m) = m"
| "err_text (Wrapf m e) = m @ '': '' @ err_text e"
| "err_text ErrRecordNotFound = ''record not found''"
| "err_text ErrDuplicateKey = ''duplicated key not allowed''"
| "err_text ErrInvalidData = ''unsupported data''"
| "err_text (ErrDB op) = ''database error''"
| "err_text e = ''error''"

type_synonym 'a result = "error + 'a"

definition succeeds :: "'a result \<Rightarrow> bool" where
  "succeeds r \<longleftrightarrow> (case r of Inl _ \<Rightarrow> False | Inr _ \<Rightarrow> True)"

lemma succeeds_simps [simp]: "succeeds (Inr x)" "\<not> succeeds (Inl e)"
  by (simp_all add: succeeds_def)

lemma succeedsE: "succeeds r \<Longrightarrow> (\<And>x. r = Inr x \<Longrightarrow> P) \<Longrightarrow> P"
  by (cases r) auto

lemma succeeds_projr: "succeeds r \<Longrightarrow> r = Inr (projr r)"
  by (cases r) auto

lemma succeeds_fst: "succeeds r \<Longrightarrow> fst (projr r) = a \<Longrightarrow> r = Inr (a, snd (projr r))"
  by (cases r) auto

lemma succeeds_pair: "succeeds (fst p) \<Longrightarrow> p = (Inr (projr (fst p)), snd p)"
  by (cases p; cases "fst p") auto

section \<open>The environment of a request\<close>

text \<open>
  What a request takes from outside the program. \<open>e_now\<close> is the clock, read once per request.
  \<open>e_uuid t n\<close> is the n-th identifier the request draws from \<open>uuid.New\<close> for the table \<open>t\<close>,
  \<open>e_rand w n\<close> the n-th draw of random bytes for the purpose \<open>w\<close>, already in the text form
  the code encodes it to (an error if \<open>crypto/rand\<close> fails). \<open>e_db op n\<close> says whether
  the n-th call of the repository method \<open>op\<close> in this request fails in the database.
  \<open>e_db_time\<close> is the time the database returns for a stored time: a PostgreSQL timestamp has a
  resolution of one microsecond. Only the audit log depends on it, elsewhere times are kept as
  they were written. The remaining fields are libraries: the text of an identifier, the hex digest of SHA-256,
  bcrypt, the Ed25519 verifier, JSON and base64 encoding and decoding, and the parsing of identifiers;
  \<open>e_client_ip\<close> and \<open>e_user_agent\<close> come with the request.
\<close>

record env =
  e_now :: time
  e_uuid :: "string \<Rightarrow> nat \<Rightarrow> uuid"
  e_rand :: "string \<Rightarrow> nat \<Rightarrow> string result"
  e_db :: "string \<Rightarrow> nat \<Rightarrow> bool"
  e_db_time :: "time \<Rightarrow> time"
  e_uuid_str :: "uuid \<Rightarrow> string"
  e_sha256_hex :: "string \<Rightarrow> string"
  e_bcrypt :: "string \<Rightarrow> string result"
  e_bcrypt_ok :: "string \<Rightarrow> string \<Rightarrow> bool"
  e_verify :: "string \<Rightarrow> string \<Rightarrow> string \<Rightarrow> bool result"
  e_json :: "json_map \<Rightarrow> string result"
  e_unjson :: "string \<Rightarrow> json_map result"
  e_b64 :: "string \<Rightarrow> string"
  e_unb64 :: "string \<Rightarrow> string result"
  e_uuid_parse :: "string \<Rightarrow> uuid option"
  e_client_ip :: string
  e_user_agent :: string

definition no_faults :: "env \<Rightarrow> bool" where
  "no_faults E \<longleftrightarrow> e_db E = (\<lambda>_ _. False)"

lemma no_faultsD [simp]: "no_faults E \<Longrightarrow> e_db E op n = False"
  by (simp add: no_faults_def)

text \<open>Environments to evaluate the definitions in: the k-th request of a run, one second and a
  thousand identifiers after the one before. The libraries are toy functions of the right type.\<close>

fun toy_value :: "any \<Rightarrow> string" where
  "toy_value (AStr s) = s"
| "toy_value (AInt n) = int_dec n"
| "toy_value (ATime n) = int_dec n"
| "toy_value _ = ''?''"

definition toy_json :: "json_map \<Rightarrow> string" where
  "toy_json m = concat (map (\<lambda>(k, v). k @ CHR '':'' # toy_value v @ '' '') m)"

definition env0 :: env where
  "env0 = \<lparr>e_now = seconds 1700000000,
     e_uuid = (\<lambda>t n. of_int (1000 + int n)),
     e_rand = (\<lambda>w n. Inr (''r'' @ replicate n CHR ''r'')), e_db = (\<lambda>_ _. False),
     e_db_time = (\<lambda>t. t div 1000 * 1000),
     e_uuid_str = (\<lambda>u. int_dec (uint u)), e_sha256_hex = (\<lambda>s. ''h'' @ s),
     e_bcrypt = (\<lambda>s. Inr (''b'' @ s)), e_bcrypt_ok = (\<lambda>h s. h = ''b'' @ s),
     e_verify = (\<lambda>k m sig. Inr (sig = ''s'' @ k @ m)), e_json = (\<lambda>m. Inr (toy_json m)),
     e_unjson = (\<lambda>_. Inl (Errorf ''json'')), e_b64 = (\<lambda>s. s), e_unb64 = Inr, e_uuid_parse = (\<lambda>_. None),
     e_client_ip = ''203.0.113.7'', e_user_agent = ''agent''\<rparr>"

definition env_at :: "nat \<Rightarrow> env" where
  "env_at k = env0\<lparr>e_now := seconds (1700000000 + int k),
     e_uuid := \<lambda>t n. of_int (1000 * (int k + 1) + int n)\<rparr>"

section \<open>Tables\<close>

text \<open>
  A table is the list of its rows in insertion order. gorm's \<open>First\<close> without an explicit order
  takes the matching row with the least primary key.
\<close>

definition first_by :: "('r \<Rightarrow> 'k::linorder) \<Rightarrow> ('r \<Rightarrow> bool) \<Rightarrow> 'r list \<Rightarrow> 'r option" where
  "first_by k P t = (case sort_key k (filter P t) of [] \<Rightarrow> None | r # _ \<Rightarrow> Some r)"

definition upd_where :: "('r \<Rightarrow> bool) \<Rightarrow> ('r \<Rightarrow> 'r) \<Rightarrow> 'r list \<Rightarrow> 'r list" where
  "upd_where P f t = map (\<lambda>r. if P r then f r else r) t"

definition count_where :: "('r \<Rightarrow> bool) \<Rightarrow> 'r list \<Rightarrow> nat" where
  "count_where P t = length (filter P t)"

definition del_where :: "('r \<Rightarrow> bool) \<Rightarrow> 'r list \<Rightarrow> 'r list" where
  "del_where P t = filter (\<lambda>r. \<not> P r) t"

text \<open>gorm's \<open>Save\<close>: replace the row with the same primary key, or insert it.\<close>

definition save_row :: "('r \<Rightarrow> 'k) \<Rightarrow> 'r \<Rightarrow> 'r list \<Rightarrow> 'r list" where
  "save_row k r t = (if \<exists>x\<in>set t. k x = k r then upd_where (\<lambda>x. k x = k r) (\<lambda>_. r) t else t @ [r])"

text \<open>The repository calls, with the two ways they can fail.\<close>

definition db_first :: "env \<Rightarrow> string \<Rightarrow> nat \<Rightarrow> ('r \<Rightarrow> 'k::linorder) \<Rightarrow> ('r \<Rightarrow> bool) \<Rightarrow> 'r list \<Rightarrow> 'r result" where
  "db_first E op n k P t =
     (if e_db E op n then Inl (ErrDB op)
      else case first_by k P t of None \<Rightarrow> Inl ErrRecordNotFound | Some r \<Rightarrow> Inr r)"

definition db_find :: "env \<Rightarrow> string \<Rightarrow> nat \<Rightarrow> ('r \<Rightarrow> bool) \<Rightarrow> 'r list \<Rightarrow> 'r list result" where
  "db_find E op n P t = (if e_db E op n then Inl (ErrDB op) else Inr (filter P t))"

definition db_count :: "env \<Rightarrow> string \<Rightarrow> nat \<Rightarrow> ('r \<Rightarrow> bool) \<Rightarrow> 'r list \<Rightarrow> nat result" where
  "db_count E op n P t = (if e_db E op n then Inl (ErrDB op) else Inr (count_where P t))"

definition db_insert :: "env \<Rightarrow> string \<Rightarrow> nat \<Rightarrow> ('r \<Rightarrow> 'r \<Rightarrow> bool) \<Rightarrow> 'r \<Rightarrow> 'r list \<Rightarrow> 'r list result" where
  "db_insert E op n clash r t =
     (if e_db E op n then Inl (ErrDB op)
      else if list_ex (clash r) t then Inl ErrDuplicateKey
      else Inr (t @ [r]))"

definition db_save :: "env \<Rightarrow> string \<Rightarrow> nat \<Rightarrow> ('r \<Rightarrow> 'k) \<Rightarrow> 'r \<Rightarrow> 'r list \<Rightarrow> 'r list result" where
  "db_save E op n k r t = (if e_db E op n then Inl (ErrDB op) else Inr (save_row k r t))"

definition db_update :: "env \<Rightarrow> string \<Rightarrow> nat \<Rightarrow> ('r \<Rightarrow> bool) \<Rightarrow> ('r \<Rightarrow> 'r) \<Rightarrow> 'r list \<Rightarrow> 'r list result" where
  "db_update E op n P f t = (if e_db E op n then Inl (ErrDB op) else Inr (upd_where P f t))"

definition db_delete :: "env \<Rightarrow> string \<Rightarrow> nat \<Rightarrow> ('r \<Rightarrow> bool) \<Rightarrow> 'r list \<Rightarrow> 'r list result" where
  "db_delete E op n P t = (if e_db E op n then Inl (ErrDB op) else Inr (del_where P t))"


text \<open>A \<open>BIGINT\<close> column: the database refuses to increment its largest value.\<close>

definition max_bigint :: int where
  "max_bigint = 2 ^ 63 - 1"

section \<open>Facts about tables\<close>

text \<open>
  The facts every component proof uses. \<open>db_simps\<close> says when a repository call succeeds and
  with what; \<open>table_simps\<close> rewrites rows, lengths and memberships of updated tables.
\<close>

named_theorems db_simps
named_theorems table_simps

lemma distinct_map_same: "distinct (map f xs) \<Longrightarrow> x \<in> set xs \<Longrightarrow> y \<in> set xs \<Longrightarrow> f x = f y \<Longrightarrow> x = y"
  by (induction xs) (auto simp: image_iff)

lemma first_by_sorted: "first_by k P t = Some r \<Longrightarrow> \<exists>rs. sort_key k (filter P t) = r # rs"
  by (auto simp: first_by_def split: list.splits)

lemma first_by_Some:
  assumes "first_by k P t = Some r"
  shows "r \<in> set t" and "P r"
proof -
  obtain rs where "sort_key k (filter P t) = r # rs" using first_by_sorted [OF assms] by blast
  then have "r \<in> set (sort_key k (filter P t))" by simp
  then have "r \<in> set (filter P t)" by (simp only: set_sort)
  then show "r \<in> set t" and "P r" by simp_all
qed

lemma first_by_None: "first_by k P t = None \<longleftrightarrow> (\<forall>r\<in>set t. \<not> P r)"
proof -
  have "first_by k P t = None \<longleftrightarrow> sort_key k (filter P t) = []"
    by (cases "sort_key k (filter P t)") (simp_all add: first_by_def)
  also have "\<dots> \<longleftrightarrow> set (sort_key k (filter P t)) = {}" by (simp only: set_empty)
  also have "\<dots> \<longleftrightarrow> set (filter P t) = {}" by (simp only: set_sort)
  finally show ?thesis by auto
qed

lemma first_by_least:
  assumes "first_by k P t = Some r" "r' \<in> set t" "P r'"
  shows "k r \<le> k r'"
proof -
  obtain rs where rs: "sort_key k (filter P t) = r # rs"
    using first_by_sorted [OF assms(1)] by blast
  have "sorted (map k (r # rs))" using sorted_sort_key [of k "filter P t"] rs by simp
  moreover have "r' \<in> set (r # rs)"
    using assms(2,3) by (simp flip: rs)
  ultimately show ?thesis by auto
qed

lemma first_by_unique:
  assumes "r \<in> set t" "P r" "\<And>r'. r' \<in> set t \<Longrightarrow> P r' \<Longrightarrow> r' = r"
  shows "first_by k P t = Some r"
proof (cases "first_by k P t")
  case None
  with assms(1,2) show ?thesis by (auto simp: first_by_None)
next
  case (Some x)
  then show ?thesis using assms(3) first_by_Some [OF Some] by simp
qed

lemma first_by_key_unique:
  assumes "r \<in> set t" "P r" "\<And>r'. r' \<in> set t \<Longrightarrow> P r' \<Longrightarrow> r' \<noteq> r \<Longrightarrow> k r < k r'"
  shows "first_by k P t = Some r"
proof (cases "first_by k P t")
  case None
  with assms(1,2) show ?thesis by (auto simp: first_by_None)
next
  case (Some x)
  have "k x \<le> k r" using first_by_least [OF Some assms(1,2)] .
  with assms(3) [of x] first_by_Some [OF Some] Some show ?thesis by (cases "x = r") auto
qed

lemma first_by_append_miss [simp]: "\<not> P r \<Longrightarrow> first_by k P (t @ [r]) = first_by k P t"
  by (simp add: first_by_def)

lemma first_by_ex: "r \<in> set t \<Longrightarrow> P r \<Longrightarrow> \<exists>x. first_by k P t = Some x"
  by (cases "first_by k P t") (auto simp: first_by_None)

lemma upd_where_Nil [simp]: "upd_where P f [] = []"
  by (simp add: upd_where_def)

lemma upd_where_append [simp]: "upd_where P f (s @ t) = upd_where P f s @ upd_where P f t"
  by (simp add: upd_where_def)

lemma set_upd_where [table_simps]: "set (upd_where P f t) = (\<lambda>r. if P r then f r else r) ` set t"
  by (simp add: upd_where_def)

lemma length_upd_where [simp]: "length (upd_where P f t) = length t"
  by (simp add: upd_where_def)

lemma upd_where_miss: "(\<And>r. r \<in> set t \<Longrightarrow> \<not> P r) \<Longrightarrow> upd_where P f t = t"
  by (induction t) (auto simp: upd_where_def)

lemma map_upd_where: "(\<And>r. r \<in> set t \<Longrightarrow> P r \<Longrightarrow> g (f r) = g r) \<Longrightarrow> map g (upd_where P f t) = map g t"
  by (induction t) (auto simp: upd_where_def)

lemma in_upd_whereE:
  assumes "r \<in> set (upd_where P f t)"
  obtains (same) "r \<in> set t" "\<not> P r" | (upd) r0 where "r0 \<in> set t" "P r0" "r = f r0"
  using assms by (auto simp: upd_where_def split: if_splits)

lemma count_where_Nil [simp]: "count_where P [] = 0"
  by (simp add: count_where_def)

lemma count_where_append [simp]: "count_where P (s @ t) = count_where P s + count_where P t"
  by (simp add: count_where_def)

lemma count_where_Cons: "count_where P (r # t) = (if P r then Suc (count_where P t) else count_where P t)"
  by (simp add: count_where_def)

lemma count_where_pos: "0 < count_where P t \<longleftrightarrow> (\<exists>r\<in>set t. P r)"
  by (induction t) (auto simp: count_where_Cons)

lemma count_where_0 [simp]: "count_where P t = 0 \<longleftrightarrow> (\<forall>r\<in>set t. \<not> P r)"
  by (induction t) (auto simp: count_where_Cons)

lemma set_del_where [table_simps]: "set (del_where P t) = {r \<in> set t. \<not> P r}"
  by (simp add: del_where_def)

lemma del_where_append [simp]: "del_where P (s @ t) = del_where P s @ del_where P t"
  by (simp add: del_where_def)

lemma count_del_where_le: "count_where Q (del_where P t) \<le> count_where Q t"
  by (induction t) (auto simp: count_where_Cons del_where_def)

lemma set_save_row [table_simps]: "set (save_row k r t) = insert r {x \<in> set t. k x \<noteq> k r}"
  by (auto simp: save_row_def upd_where_def)

lemma save_row_present: "x \<in> set t \<Longrightarrow> k x = k r \<Longrightarrow> save_row k r t = upd_where (\<lambda>x. k x = k r) (\<lambda>_. r) t"
  by (auto simp: save_row_def)

lemma map_key_save_row: "x \<in> set t \<Longrightarrow> k x = k r \<Longrightarrow> map k (save_row k r t) = map k t"
  by (auto simp: save_row_def upd_where_def)

lemma db_first_Inr [db_simps]:
  "db_first E op n k P t = Inr r \<longleftrightarrow> \<not> e_db E op n \<and> first_by k P t = Some r"
  by (auto simp: db_first_def split: option.splits)

lemma db_first_Inl [db_simps]:
  "db_first E op n k P t = Inl e \<longleftrightarrow>
     (if e_db E op n then e = ErrDB op else e = ErrRecordNotFound \<and> (\<forall>r\<in>set t. \<not> P r))"
proof (cases "first_by k P t")
  case (Some r)
  then have "\<not> (\<forall>r\<in>set t. \<not> P r)" by (simp flip: first_by_None [of k P t])
  with Some show ?thesis by (auto simp: db_first_def)
next
  case None
  then have "\<forall>r\<in>set t. \<not> P r" by (simp add: first_by_None)
  with None show ?thesis by (auto simp: db_first_def)
qed

lemma db_find_Inr [db_simps]: "db_find E op n P t = Inr rs \<longleftrightarrow> \<not> e_db E op n \<and> rs = filter P t"
  by (auto simp: db_find_def)

lemma db_count_Inr [db_simps]: "db_count E op n P t = Inr c \<longleftrightarrow> \<not> e_db E op n \<and> c = count_where P t"
  by (auto simp: db_count_def)

lemma db_insert_Inr [db_simps]:
  "db_insert E op n clash r t = Inr t' \<longleftrightarrow> \<not> e_db E op n \<and> (\<forall>x\<in>set t. \<not> clash r x) \<and> t' = t @ [r]"
  by (auto simp: db_insert_def list_ex_iff)

lemma db_save_Inr [db_simps]: "db_save E op n k r t = Inr t' \<longleftrightarrow> \<not> e_db E op n \<and> t' = save_row k r t"
  by (auto simp: db_save_def)

lemma db_update_Inr [db_simps]: "db_update E op n P f t = Inr t' \<longleftrightarrow> \<not> e_db E op n \<and> t' = upd_where P f t"
  by (auto simp: db_update_def)

lemma db_delete_Inr [db_simps]: "db_delete E op n P t = Inr t' \<longleftrightarrow> \<not> e_db E op n \<and> t' = del_where P t"
  by (auto simp: db_delete_def)

text \<open>Saving a row that a query does not see leaves the answer of the query.\<close>

lemma filter_upd_where_other:
  assumes "\<And>x. x \<in> set t \<Longrightarrow> Q x \<Longrightarrow> \<not> P x \<and> \<not> P (f x)"
  shows "filter P (upd_where Q f t) = filter P t"
  using assms by (induction t) (auto simp: upd_where_def)

lemma in_save_row [simp]: "r \<in> set (save_row k r t)"
  by (auto simp: save_row_def upd_where_def image_iff)

lemma filter_save_row_other:
  assumes "\<not> P r" "\<And>x. x \<in> set t \<Longrightarrow> k x = k r \<Longrightarrow> \<not> P x"
  shows "filter P (save_row k r t) = filter P t"
  using assms by (auto simp: save_row_def filter_upd_where_other)

text \<open>Saving over an existing row keeps the columns it does not change, and keeps a unique column
  unique when no other row has the new value.\<close>

lemma map_save_row:
  assumes "distinct (map k t)" "r0 \<in> set t" "k r = k r0" "g r = g r0"
  shows "map g (save_row k r t) = map g t"
proof -
  have "g r = g x" if "x \<in> set t" "k x = k r" for x
    using assms that by (metis distinct_map inj_onD)
  moreover have "save_row k r t = upd_where (\<lambda>x. k x = k r) (\<lambda>_. r) t"
    using assms(2,3) by (intro save_row_present [of r0]) simp_all
  ultimately show ?thesis by (simp add: map_upd_where)
qed

lemma distinct_upd_key:
  assumes "distinct (map k t)" "distinct (map g t)" "\<And>x. x \<in> set t \<Longrightarrow> k x \<noteq> i \<Longrightarrow> g x \<noteq> g r"
  shows "distinct (map g (upd_where (\<lambda>x. k x = i) (\<lambda>_. r) t))"
  using assms
proof (induction t)
  case (Cons a t)
  show ?case
  proof (cases "k a = i")
    case True
    have other: "k x \<noteq> i" if "x \<in> set t" for x using Cons.prems(1) True that by (auto simp: image_iff)
    then have "upd_where (\<lambda>x. k x = i) (\<lambda>_. r) t = t" by (intro upd_where_miss) auto
    moreover have "g r \<notin> g ` set t" using other Cons.prems(3) by (fastforce simp: image_iff)
    ultimately show ?thesis using Cons.prems(2) True by (simp add: upd_where_def)
  next
    case False
    have "g a \<notin> (\<lambda>x. g (if k x = i then r else x)) ` set t"
      using Cons.prems(2) Cons.prems(3) [of a] False by (auto split: if_splits)
    with Cons False show ?thesis by (auto simp: upd_where_def o_def)
  qed
qed simp

lemma distinct_save_row:
  assumes "distinct (map k t)" "distinct (map g t)" "r0 \<in> set t" "k r = k r0"
    "\<And>x. x \<in> set t \<Longrightarrow> k x \<noteq> k r \<Longrightarrow> g x \<noteq> g r"
  shows "distinct (map g (save_row k r t))"
  using distinct_upd_key [OF assms(1,2,5)] save_row_present [of r0 t k r] assms(3,4) by simp

end
