(* ===== verification/SyncContract.thy ===== *)
theory SyncContract
  imports Prelude
begin

text \<open>
  The sync contract (\<open>internal/service/sync_contract.go\<close>): the object types and operations a
  sync event may carry, the event type built from them, and the object families the server
  announces to its clients (\<open>SyncSupportedObjectFamilies\<close>, \<open>GetCapabilities\<close>).
\<close>

section \<open>Constants\<close>

definition SyncSchemaVersion :: int where
  "SyncSchemaVersion = 1"

abbreviation "SyncObjectMessage \<equiv> ''message''"
abbreviation "SyncObjectConversation \<equiv> ''conversation''"
abbreviation "SyncObjectParticipant \<equiv> ''participant''"
abbreviation "SyncObjectMessageReaction \<equiv> ''message_reaction''"
abbreviation "SyncObjectConversationRead \<equiv> ''conversation_read''"
abbreviation "SyncObjectKnowledge \<equiv> ''knowledge''"
abbreviation "SyncObjectContact \<equiv> ''contact''"
abbreviation "SyncObjectSkill \<equiv> ''skill''"
abbreviation "SyncObjectAgent \<equiv> ''agent''"
abbreviation "SyncObjectServer \<equiv> ''server''"
abbreviation "SyncObjectPlugin \<equiv> ''plugin''"
abbreviation "SyncObjectProfile \<equiv> ''profile''"

abbreviation "SyncOperationCreated \<equiv> ''created''"
abbreviation "SyncOperationUpdated \<equiv> ''updated''"
abbreviation "SyncOperationDeleted \<equiv> ''deleted''"
abbreviation "SyncOperationAdded \<equiv> ''added''"
abbreviation "SyncOperationRemoved \<equiv> ''removed''"
abbreviation "SyncOperationEnabled \<equiv> ''enabled''"
abbreviation "SyncOperationDisabled \<equiv> ''disabled''"
abbreviation "SyncOperationInstalled \<equiv> ''installed''"
abbreviation "SyncOperationUninstalled \<equiv> ''uninstalled''"
abbreviation "SyncOperationPermissionGranted \<equiv> ''permission_granted''"
abbreviation "SyncOperationPermissionRevoked \<equiv> ''permission_revoked''"
abbreviation "SyncOperationRead \<equiv> ''read''"
abbreviation "SyncOperationReactionAdded \<equiv> ''reaction_added''"
abbreviation "SyncOperationReactionRemoved \<equiv> ''reaction_removed''"

section \<open>Supported events\<close>

text \<open>The map \<open>supportedSyncOperations\<close>: per object type, the operations mapped to \<open>true\<close>.\<close>

definition supportedSyncOperations :: "(string \<times> string list) list" where
  "supportedSyncOperations =
    [(SyncObjectMessage, [SyncOperationCreated, SyncOperationUpdated, SyncOperationDeleted,
        SyncOperationReactionAdded, SyncOperationReactionRemoved]),
     (SyncObjectConversation, [SyncOperationCreated, SyncOperationUpdated, SyncOperationRead]),
     (SyncObjectParticipant, [SyncOperationAdded, SyncOperationUpdated, SyncOperationRemoved]),
     (SyncObjectMessageReaction, [SyncOperationAdded, SyncOperationRemoved]),
     (SyncObjectConversationRead, [SyncOperationUpdated]),
     (SyncObjectKnowledge, [SyncOperationCreated, SyncOperationUpdated, SyncOperationDeleted]),
     (SyncObjectContact, [SyncOperationCreated, SyncOperationUpdated, SyncOperationDeleted]),
     (SyncObjectSkill, [SyncOperationEnabled, SyncOperationDisabled, SyncOperationUpdated,
        SyncOperationInstalled, SyncOperationUninstalled]),
     (SyncObjectAgent, [SyncOperationUpdated]),
     (SyncObjectServer, [SyncOperationAdded, SyncOperationUpdated, SyncOperationRemoved]),
     (SyncObjectPlugin, [SyncOperationAdded, SyncOperationUpdated, SyncOperationRemoved,
        SyncOperationInstalled, SyncOperationUninstalled, SyncOperationEnabled,
        SyncOperationDisabled, SyncOperationPermissionGranted, SyncOperationPermissionRevoked]),
     (SyncObjectProfile, [SyncOperationUpdated])]"

definition ValidateSyncEvent :: "string \<Rightarrow> string \<Rightarrow> unit result" where
  "ValidateSyncEvent objectType operation =
     (case map_of supportedSyncOperations objectType of
        None \<Rightarrow> Inl (Wrapf (''unsupported object type '' @ objectType) ErrUnsupportedSyncEvent)
      | Some allowedOperations \<Rightarrow>
          if operation \<notin> set allowedOperations
          then Inl (Wrapf (''unsupported operation '' @ operation @ '' for object type '' @ objectType)
                      ErrUnsupportedSyncEvent)
          else Inr ())"

definition BuildSyncEventType :: "string \<Rightarrow> string \<Rightarrow> string result" where
  "BuildSyncEventType objectType operation =
     (case ValidateSyncEvent objectType operation of
        Inl e \<Rightarrow> Inl e
      | Inr _ \<Rightarrow> Inr (objectType @ ''.'' @ operation))"

text \<open>The families announced to clients, in the order of the source's literal.\<close>

definition SyncSupportedObjectFamilies :: "(string \<times> string list) list" where
  "SyncSupportedObjectFamilies =
    [(SyncObjectProfile, [SyncOperationUpdated]),
     (SyncObjectConversation, [SyncOperationCreated, SyncOperationUpdated, SyncOperationRead]),
     (SyncObjectParticipant, [SyncOperationAdded, SyncOperationUpdated, SyncOperationRemoved]),
     (SyncObjectMessage, [SyncOperationCreated, SyncOperationUpdated, SyncOperationDeleted,
        SyncOperationReactionAdded, SyncOperationReactionRemoved]),
     (SyncObjectKnowledge, [SyncOperationCreated, SyncOperationUpdated, SyncOperationDeleted]),
     (SyncObjectContact, [SyncOperationCreated, SyncOperationUpdated, SyncOperationDeleted]),
     (SyncObjectSkill, [SyncOperationInstalled, SyncOperationUninstalled, SyncOperationEnabled,
        SyncOperationDisabled, SyncOperationUpdated]),
     (SyncObjectAgent, [SyncOperationUpdated]),
     (SyncObjectServer, [SyncOperationAdded, SyncOperationUpdated, SyncOperationRemoved]),
     (SyncObjectPlugin, [SyncOperationInstalled, SyncOperationUninstalled, SyncOperationEnabled,
        SyncOperationDisabled, SyncOperationPermissionGranted, SyncOperationPermissionRevoked,
        SyncOperationAdded, SyncOperationUpdated, SyncOperationRemoved])]"

section \<open>Facts about the contract\<close>

definition sync_pair_supported :: "string \<Rightarrow> string \<Rightarrow> bool" where
  "sync_pair_supported t p \<longleftrightarrow> (\<exists>ops. map_of supportedSyncOperations t = Some ops \<and> p \<in> set ops)"

lemma ValidateSyncEvent_Inr: "ValidateSyncEvent t p = Inr u \<longleftrightarrow> sync_pair_supported t p"
  by (auto simp: ValidateSyncEvent_def sync_pair_supported_def split: option.splits)

lemma BuildSyncEventType_Inr:
  "BuildSyncEventType t p = Inr et \<longleftrightarrow> sync_pair_supported t p \<and> et = t @ ''.'' @ p"
proof (cases "ValidateSyncEvent t p")
  case (Inl e)
  then have "\<not> sync_pair_supported t p" by (metis sum.distinct(1) ValidateSyncEvent_Inr)
  with Inl show ?thesis by (simp add: BuildSyncEventType_def)
next
  case (Inr u)
  then have "sync_pair_supported t p" by (simp add: ValidateSyncEvent_Inr)
  with Inr show ?thesis by (auto simp: BuildSyncEventType_def)
qed

lemma BuildSyncEventType_Inl:
  "BuildSyncEventType t p = Inl e \<Longrightarrow> err_is e ErrUnsupportedSyncEvent \<and> \<not> sync_pair_supported t p"
  by (auto simp: BuildSyncEventType_def ValidateSyncEvent_def sync_pair_supported_def
      split: option.splits if_splits)

lemma supported_no_dot: "sync_pair_supported t p \<Longrightarrow> CHR ''.'' \<notin> set t"
  by (auto simp: sync_pair_supported_def supportedSyncOperations_def split: if_splits)

lemma append_sep_inject:
  assumes "x \<notin> set s" "x \<notin> set s'" "s @ x # r = s' @ x # r'"
  shows "s = s' \<and> r = r'"
  using assms by (induction s arbitrary: s') (auto simp: Cons_eq_append_conv append_eq_Cons_conv)

lemma BuildSyncEventType_refused:
  "\<not> sync_pair_supported t p \<longleftrightarrow>
     (\<exists>e. BuildSyncEventType t p = Inl e \<and> err_is e ErrUnsupportedSyncEvent)"
  using BuildSyncEventType_Inr [of t p] BuildSyncEventType_Inl [of t p]
  by (cases "BuildSyncEventType t p") auto

text \<open>A family table as the list of its pairs.\<close>

definition family_pairs :: "(string \<times> string list) list \<Rightarrow> (string \<times> string) list" where
  "family_pairs f = concat (map (\<lambda>(t, ops). map (Pair t) ops) f)"

lemma family_pairs_iff:
  "distinct (map fst f) \<Longrightarrow>
     (\<exists>ops. map_of f t = Some ops \<and> p \<in> set ops) \<longleftrightarrow> (t, p) \<in> set (family_pairs f)"
  by (force simp: family_pairs_def)

lemma distinct_families:
  "distinct (map fst supportedSyncOperations)" "distinct (map fst SyncSupportedObjectFamilies)"
  by (simp_all add: supportedSyncOperations_def SyncSupportedObjectFamilies_def)

section \<open>Properties\<close>

text \<open>An event type names one object type and one operation. Two pairs that build the same
  event type string are the same pair, so a client recovers both from the string it receives.\<close>

theorem event_type_determines_pair:
  assumes "BuildSyncEventType t p = Inr et" and "BuildSyncEventType t' p' = Inr et"
  shows "t = t' \<and> p = p'"
proof -
  from assms have sup: "sync_pair_supported t p" "sync_pair_supported t' p'"
    and eq: "t @ CHR ''.'' # p = t' @ CHR ''.'' # p'"
    by (auto simp: BuildSyncEventType_Inr)
  from sup have "CHR ''.'' \<notin> set t" "CHR ''.'' \<notin> set t'" by (auto dest: supported_no_dot)
  from append_sep_inject [OF this eq] show ?thesis .
qed

theorem event_type_determines_pair_witness:
  "BuildSyncEventType ''plugin'' ''permission_granted'' = Inr ''plugin.permission_granted'' \<and>
   {(t, p). BuildSyncEventType t p = Inr ''plugin.permission_granted''} = {(''plugin'', ''permission_granted'')}"
proof -
  have b: "BuildSyncEventType ''plugin'' ''permission_granted'' = Inr ''plugin.permission_granted''"
    by (simp add: BuildSyncEventType_Inr sync_pair_supported_def supportedSyncOperations_def)
  have "{(t, p). BuildSyncEventType t p = Inr et} = {(t0, p0)}"
    if "BuildSyncEventType t0 p0 = Inr et" for t0 p0 et
    using that event_type_determines_pair [OF _ that] by blast
  from this [OF b] b show ?thesis by (rule conjI [rotated])
qed

text \<open>What the capabilities endpoint announces is accepted: every object type and operation of
  \<open>SyncSupportedObjectFamilies\<close> passes \<open>ValidateSyncEvent\<close>. The converse fails, for exactly the two
  object types \<open>message_reaction\<close> and \<open>conversation_read\<close>, which the server accepts and does not
  announce.\<close>

theorem announced_families_are_supported:
  "{(t, p). sync_pair_supported t p} =
     {(t, p). \<exists>ops. map_of SyncSupportedObjectFamilies t = Some ops \<and> p \<in> set ops} \<union>
     {(SyncObjectMessageReaction, SyncOperationAdded), (SyncObjectMessageReaction, SyncOperationRemoved),
      (SyncObjectConversationRead, SyncOperationUpdated)} \<and>
   map_of SyncSupportedObjectFamilies SyncObjectMessageReaction = None \<and>
   map_of SyncSupportedObjectFamilies SyncObjectConversationRead = None"
proof -
  have "{(t, p). sync_pair_supported t p} = set (family_pairs supportedSyncOperations)"
    by (simp only: sync_pair_supported_def family_pairs_iff [OF distinct_families(1)]) auto
  moreover have "{(t, p). \<exists>ops. map_of SyncSupportedObjectFamilies t = Some ops \<and> p \<in> set ops} =
      set (family_pairs SyncSupportedObjectFamilies)"
    by (simp only: family_pairs_iff [OF distinct_families(2)]) auto
  moreover have "set (family_pairs supportedSyncOperations) = set (family_pairs SyncSupportedObjectFamilies) \<union>
     {(SyncObjectMessageReaction, SyncOperationAdded), (SyncObjectMessageReaction, SyncOperationRemoved),
      (SyncObjectConversationRead, SyncOperationUpdated)}"
    by code_simp
  ultimately show ?thesis by (simp add: SyncSupportedObjectFamilies_def)
qed

end
