(* ===== verification/Sync.thy ===== *)
theory Sync
  imports SyncContract
begin

text \<open>
  Cross-device sync: the sync events of a user, the per-user sequence counters, the per-device
  cursors (\<open>internal/repository/sync_repo.go\<close>), the service that records, lists and acknowledges
  events (\<open>internal/service/sync.go\<close>) and the pull and ack endpoints
  (\<open>internal/handler/sync.go\<close>). Notifications to the WebSocket hub are collected in an outbox.
\<close>

section \<open>State\<close>

record sync_event =
  ev_id :: uuid
  ev_created_at :: time
  ev_updated_at :: time
  ev_user_id :: uuid
  ev_device_id :: string
  ev_event_type :: string
  ev_schema_version :: int
  ev_object_type :: string
  ev_object_id :: string
  ev_operation :: string
  ev_source_device_id :: string
  ev_client_event_id :: string
  ev_payload :: "json_map option"
  ev_timestamp :: time
  ev_sequence :: "64 word"

record sync_cursor =
  cu_user_id :: uuid
  cu_device_id :: string
  cu_last_synced :: "64 word"
  cu_updated_at :: time

record sync_sequence =
  sq_user_id :: uuid
  sq_next :: "64 word"
  sq_updated_at :: time

record sync_envelope =
  en_user_id :: uuid
  en_source_device_id :: string
  en_object_type :: string
  en_object_id :: string
  en_operation :: string
  en_client_event_id :: string
  en_payload :: "json_map option"

record sync_event_msg =
  sm_event_type :: string
  sm_schema_version :: int
  sm_object_type :: string
  sm_object_id :: string
  sm_operation :: string
  sm_source_device_id :: string
  sm_client_event_id :: string
  sm_sequence :: "64 word"
  sm_timestamp :: int
  sm_payload :: "json_map option"

text \<open>\<open>ss_hub\<close> says whether a hub is configured; \<open>ss_outbox\<close> is what was handed to
  \<open>SendToUserExceptDevice\<close>: the user, the device left out and the message.\<close>

record sync_state =
  ss_events :: "sync_event list"
  ss_cursors :: "sync_cursor list"
  ss_seqs :: "sync_sequence list"
  ss_hub :: bool
  ss_outbox :: "(uuid \<times> string \<times> sync_event_msg) list"

definition sync_init :: sync_state where
  "sync_init = \<lparr>ss_events = [], ss_cursors = [], ss_seqs = [], ss_hub = True, ss_outbox = []\<rparr>"

section \<open>Repository\<close>

text \<open>The unique indexes of \<open>sync_events\<close>: the primary key, (user, sequence), and
  (user, client event id) where the client event id is not empty.\<close>

definition ev_clash :: "sync_event \<Rightarrow> sync_event \<Rightarrow> bool" where
  "ev_clash e x \<longleftrightarrow> ev_id x = ev_id e
     \<or> ev_user_id x = ev_user_id e \<and> ev_sequence x = ev_sequence e
     \<or> ev_user_id x = ev_user_id e \<and> ev_client_event_id x = ev_client_event_id e \<and> ev_client_event_id e \<noteq> ''''"

definition CreateEvent :: "env \<Rightarrow> nat \<Rightarrow> sync_event \<Rightarrow> sync_state \<Rightarrow> sync_state result" where
  "CreateEvent E n ev s =
     (case db_insert E ''CreateEvent'' n ev_clash ev (ss_events s) of
        Inl e \<Rightarrow> Inl e
      | Inr evs \<Rightarrow> Inr (s\<lparr>ss_events := evs\<rparr>))"

definition events_since :: "uuid \<Rightarrow> 64 word \<Rightarrow> sync_event list \<Rightarrow> sync_event list" where
  "events_since u since evs =
     sort_key ev_sequence (filter (\<lambda>e. ev_user_id e = u \<and> since < ev_sequence e) evs)"

definition GetEventsSince :: "env \<Rightarrow> uuid \<Rightarrow> 64 word \<Rightarrow> int \<Rightarrow> sync_state \<Rightarrow> sync_event list result" where
  "GetEventsSince E u since limit s =
     (if e_db E ''GetEventsSince'' 0 then Inl (ErrDB ''GetEventsSince'')
      else Inr (take (nat limit) (events_since u since (ss_events s))))"

definition GetEventByClientEventID :: "env \<Rightarrow> nat \<Rightarrow> uuid \<Rightarrow> string \<Rightarrow> sync_state \<Rightarrow> sync_event result" where
  "GetEventByClientEventID E n u c s =
     (if c = '''' then Inl ErrRecordNotFound
      else db_first E ''GetEventByClientEventID'' n ev_id
             (\<lambda>e. ev_user_id e = u \<and> ev_client_event_id e = c) (ss_events s))"

text \<open>
  \<open>GetNextSequence\<close> runs in a transaction of its own: seed the counter if the user has none
  (\<open>ON CONFLICT DO NOTHING\<close>), lock and read it, write it back incremented. The addition is on
  \<open>uint64\<close> and wraps. A failing step rolls the transaction back.
\<close>

definition seed_sequence :: "env \<Rightarrow> uuid \<Rightarrow> sync_sequence list \<Rightarrow> sync_sequence list" where
  "seed_sequence E u seqs =
     (if \<exists>q\<in>set seqs. sq_user_id q = u then seqs
      else seqs @ [\<lparr>sq_user_id = u, sq_next = 1, sq_updated_at = e_now E\<rparr>])"

definition GetNextSequence :: "env \<Rightarrow> nat \<Rightarrow> uuid \<Rightarrow> sync_state \<Rightarrow> (64 word \<times> sync_state) result" where
  "GetNextSequence E n u s =
     (if e_db E ''GetNextSequence.seed'' n then Inl (ErrDB ''GetNextSequence.seed'') else
      let seqs = seed_sequence E u (ss_seqs s) in
      case db_first E ''GetNextSequence.lock'' n sq_user_id (\<lambda>q. sq_user_id q = u) seqs of
        Inl e \<Rightarrow> Inl e
      | Inr seq \<Rightarrow>
          (case db_update E ''GetNextSequence.update'' n (\<lambda>q. sq_user_id q = u)
                  (\<lambda>q. q\<lparr>sq_next := sq_next seq + 1, sq_updated_at := e_now E\<rparr>) seqs of
             Inl e \<Rightarrow> Inl e
           | Inr seqs' \<Rightarrow> Inr (sq_next seq, s\<lparr>ss_seqs := seqs'\<rparr>)))"

definition GetCursor :: "env \<Rightarrow> uuid \<Rightarrow> string \<Rightarrow> sync_state \<Rightarrow> sync_cursor result" where
  "GetCursor E u d s =
     (case db_first E ''GetCursor'' 0 cu_user_id (\<lambda>c. cu_user_id c = u \<and> cu_device_id c = d) (ss_cursors s) of
        Inl e \<Rightarrow>
          if e = ErrRecordNotFound
          then Inr \<lparr>cu_user_id = u, cu_device_id = d, cu_last_synced = 0, cu_updated_at = 0\<rparr>
          else Inl e
      | Inr c \<Rightarrow> Inr c)"

definition UpdateCursor :: "env \<Rightarrow> uuid \<Rightarrow> string \<Rightarrow> 64 word \<Rightarrow> sync_state \<Rightarrow> sync_state result" where
  "UpdateCursor E u d sequence s =
     (case GetCursor E u d s of
        Inl e \<Rightarrow> Inl e
      | Inr cursor \<Rightarrow>
          let sequence' = (if sequence < cu_last_synced cursor then cu_last_synced cursor else sequence);
              cursor' = cursor\<lparr>cu_last_synced := sequence', cu_updated_at := e_now E\<rparr>
          in case db_save E ''UpdateCursor'' 0 (\<lambda>c. (cu_user_id c, cu_device_id c)) cursor' (ss_cursors s) of
               Inl e \<Rightarrow> Inl e
             | Inr cs \<Rightarrow> Inr (s\<lparr>ss_cursors := cs\<rparr>))"

definition CleanupOldEvents_repo :: "env \<Rightarrow> time \<Rightarrow> sync_state \<Rightarrow> (nat \<times> sync_state) result" where
  "CleanupOldEvents_repo E before s =
     (case db_delete E ''CleanupOldEvents'' 0 (\<lambda>e. ev_timestamp e < before) (ss_events s) of
        Inl e \<Rightarrow> Inl e
      | Inr evs \<Rightarrow> Inr (count_where (\<lambda>e. ev_timestamp e < before) (ss_events s), s\<lparr>ss_events := evs\<rparr>))"

section \<open>Service\<close>

definition validateIdempotentReplay :: "sync_event \<Rightarrow> sync_envelope \<Rightarrow> unit result" where
  "validateIdempotentReplay existing en =
     (if ev_object_type existing \<noteq> en_object_type en \<or> ev_object_id existing \<noteq> en_object_id en
         \<or> ev_operation existing \<noteq> en_operation en \<or> ev_source_device_id existing \<noteq> en_source_device_id en
      then Inl (Wrapf ''client_event_id already used for different sync event'' ErrSyncIdempotencyConflict)
      else Inr ())"

definition new_sync_event :: "env \<Rightarrow> nat \<Rightarrow> sync_envelope \<Rightarrow> string \<Rightarrow> 64 word \<Rightarrow> sync_event" where
  "new_sync_event E n en eventType seq =
     \<lparr>ev_id = e_uuid E ''sync_events'' n, ev_created_at = e_now E, ev_updated_at = e_now E,
      ev_user_id = en_user_id en, ev_device_id = en_source_device_id en, ev_event_type = eventType,
      ev_schema_version = SyncSchemaVersion, ev_object_type = en_object_type en,
      ev_object_id = en_object_id en, ev_operation = en_operation en,
      ev_source_device_id = en_source_device_id en, ev_client_event_id = en_client_event_id en,
      ev_payload = en_payload en, ev_timestamp = e_now E, ev_sequence = seq\<rparr>"

text \<open>
  \<open>recordEnvelopeWithRepo\<close>. A replay returns the stored event together with the verdict of
  \<open>validateIdempotentReplay\<close>. A counter that was taken stays taken when the insert fails, since it
  was committed by its own transaction; inside a caller's transaction the caller rolls it back.
  Go returns the event beside a non-nil error for a conflicting replay; both callers drop it then.
\<close>

definition recordEnvelopeWithRepo :: "env \<Rightarrow> nat \<Rightarrow> sync_envelope \<Rightarrow> sync_state \<Rightarrow> sync_event result \<times> sync_state" where
  "recordEnvelopeWithRepo E n en s =
     (case BuildSyncEventType (en_object_type en) (en_operation en) of
        Inl e \<Rightarrow> (Inl e, s)
      | Inr eventType \<Rightarrow>
          (case (if en_client_event_id en \<noteq> ''''
                 then GetEventByClientEventID E n (en_user_id en) (en_client_event_id en) s
                 else Inl ErrRecordNotFound) of
             Inr existing \<Rightarrow>
               (case validateIdempotentReplay existing en of
                  Inl e \<Rightarrow> (Inl e, s)
                | Inr _ \<Rightarrow> (Inr existing, s))
           | Inl _ \<Rightarrow>
               (case GetNextSequence E n (en_user_id en) s of
                  Inl e \<Rightarrow> (Inl (Wrapf ''get next sequence'' e), s)
                | Inr (seq, s1) \<Rightarrow>
                    let event = new_sync_event E n en eventType seq
                    in case CreateEvent E n event s1 of
                         Inl e \<Rightarrow> (Inl (Wrapf ''create sync event'' e), s1)
                       | Inr s2 \<Rightarrow> (Inr event, s2))))"

definition event_msg :: "sync_event \<Rightarrow> sync_event_msg" where
  "event_msg e =
     \<lparr>sm_event_type = ev_event_type e, sm_schema_version = ev_schema_version e,
      sm_object_type = ev_object_type e, sm_object_id = ev_object_id e, sm_operation = ev_operation e,
      sm_source_device_id = ev_source_device_id e, sm_client_event_id = ev_client_event_id e,
      sm_sequence = ev_sequence e, sm_timestamp = unix_milli (ev_timestamp e), sm_payload = ev_payload e\<rparr>"

definition notifyDevices :: "uuid \<Rightarrow> string \<Rightarrow> sync_event \<Rightarrow> sync_state \<Rightarrow> sync_state" where
  "notifyDevices u d event s =
     (if \<not> ss_hub s then s else s\<lparr>ss_outbox := ss_outbox s @ [(u, d, event_msg event)]\<rparr>)"

definition RecordEnvelope :: "env \<Rightarrow> nat \<Rightarrow> sync_envelope \<Rightarrow> sync_state \<Rightarrow> sync_event result \<times> sync_state" where
  "RecordEnvelope E n en s =
     (case recordEnvelopeWithRepo E n en s of
        (Inl e, s1) \<Rightarrow> (Inl e, s1)
      | (Inr event, s1) \<Rightarrow> (Inr event, notifyDevices (en_user_id en) (en_source_device_id en) event s1))"

definition RecordEvent :: "env \<Rightarrow> uuid \<Rightarrow> string \<Rightarrow> string \<Rightarrow> string \<Rightarrow> json_map option \<Rightarrow> sync_state \<Rightarrow> sync_event result \<times> sync_state" where
  "RecordEvent E u d eventType action payload s =
     (let objectID = (case payload of None \<Rightarrow> ''''
                      | Some m \<Rightarrow> (case jget m ''object_id'' of AStr v \<Rightarrow> v | _ \<Rightarrow> ''''))
      in RecordEnvelope E 0
           \<lparr>en_user_id = u, en_source_device_id = d, en_object_type = eventType, en_object_id = objectID,
            en_operation = action, en_client_event_id = '''', en_payload = payload\<rparr> s)"

definition GetEventsAfter :: "env \<Rightarrow> uuid \<Rightarrow> 64 word \<Rightarrow> int \<Rightarrow> sync_state \<Rightarrow> sync_event list result" where
  "GetEventsAfter E u afterSequence limit s =
     (let limit' = (if limit \<le> 0 \<or> 500 < limit then 100 else limit)
      in GetEventsSince E u afterSequence limit' s)"

definition GetEvents :: "env \<Rightarrow> uuid \<Rightarrow> string \<Rightarrow> int \<Rightarrow> sync_state \<Rightarrow> sync_event list result" where
  "GetEvents E u d limit s =
     (case GetCursor E u d s of
        Inl e \<Rightarrow> Inl (Wrapf ''get cursor'' e)
      | Inr cursor \<Rightarrow> GetEventsAfter E u (cu_last_synced cursor) limit s)"

definition AckEvents :: "env \<Rightarrow> uuid \<Rightarrow> string \<Rightarrow> 64 word \<Rightarrow> sync_state \<Rightarrow> sync_state result" where
  "AckEvents E u d lastSequence s = UpdateCursor E u d lastSequence s"

definition CleanupOldEvents :: "env \<Rightarrow> int \<Rightarrow> sync_state \<Rightarrow> (nat \<times> sync_state) result" where
  "CleanupOldEvents E retentionDays s = CleanupOldEvents_repo E (e_now E - days retentionDays) s"

section \<open>Endpoints\<close>

record sync_pull_response =
  pr_events :: "sync_event list"
  pr_next_after :: "64 word"
  pr_has_more :: bool
  pr_server_time :: int
  pr_schema_version :: int

definition normalizeSyncLimit :: "int \<Rightarrow> int" where
  "normalizeSyncLimit limit = (if limit \<le> 0 \<or> 500 < limit then 100 else limit)"

text \<open>\<open>GET /api/v1/sync/events\<close>: one row more than the page is asked for, to learn whether
  there is more.\<close>

definition pull_events :: "env \<Rightarrow> uuid \<Rightarrow> string \<Rightarrow> int \<Rightarrow> 64 word option \<Rightarrow> sync_state \<Rightarrow> sync_pull_response result" where
  "pull_events E u d req_limit afterSequence s =
     (let limit = normalizeSyncLimit req_limit; queryLimit = limit + 1 in
      case (case afterSequence of
              Some a \<Rightarrow> GetEventsAfter E u a queryLimit s
            | None \<Rightarrow> GetEvents E u d queryLimit s) of
        Inl e \<Rightarrow> Inl e
      | Inr events \<Rightarrow>
          let hasMore = limit < int (length events);
              page = (if hasMore then take (nat limit) events else events);
              next = (if page \<noteq> [] then ev_sequence (last page)
                      else case afterSequence of Some a \<Rightarrow> a | None \<Rightarrow> 0)
          in Inr \<lparr>pr_events = page, pr_next_after = next, pr_has_more = hasMore,
                 pr_server_time = unix_milli (e_now E), pr_schema_version = SyncSchemaVersion\<rparr>)"

text \<open>\<open>POST /api/v1/sync/ack\<close>. The binding \<open>required\<close> refuses a missing number and zero.\<close>

definition ack_events :: "env \<Rightarrow> uuid \<Rightarrow> string \<Rightarrow> 64 word \<Rightarrow> sync_state \<Rightarrow> sync_state result" where
  "ack_events E u d lastSequence s =
     (if lastSequence = 0 then Inl (Errorf ''last_sequence is required'')
      else AckEvents E u d lastSequence s)"

section \<open>Announced capabilities\<close>

record sync_pull_capabilities =
  pc_endpoint :: string
  pc_default_limit :: int
  pc_max_limit :: int
  pc_ack_endpoint :: string

record sync_bridge_capabilities =
  bc_projection :: string
  bc_ffi_symbol :: string
  bc_ffi_version :: string

record sync_retention_capabilities =
  rc_fine_grained_events_days :: int
  rc_compaction_supported :: bool
  rc_repair_supported :: bool

record sync_capabilities =
  sc_schema_version :: int
  sc_min_supported :: int
  sc_max_supported :: int
  sc_pull :: sync_pull_capabilities
  sc_bridge :: sync_bridge_capabilities
  sc_object_families :: "(string \<times> string list) list"
  sc_retention :: sync_retention_capabilities

definition GetCapabilities :: sync_capabilities where
  "GetCapabilities =
     \<lparr>sc_schema_version = SyncSchemaVersion,
      sc_min_supported = SyncSchemaVersion,
      sc_max_supported = SyncSchemaVersion,
      sc_pull = \<lparr>pc_endpoint = ''/api/v1/sync/events'', pc_default_limit = 100, pc_max_limit = 500,
                 pc_ack_endpoint = ''/api/v1/sync/ack''\<rparr>,
      sc_bridge = \<lparr>bc_projection = ''ClientReadySyncProjection'',
                   bc_ffi_symbol = ''agentos_apply_sync_pull_response_json'', bc_ffi_version = ''0.1.0''\<rparr>,
      sc_object_families = SyncSupportedObjectFamilies,
      sc_retention = \<lparr>rc_fine_grained_events_days = 30, rc_compaction_supported = False,
                      rc_repair_supported = False\<rparr>\<rparr>"

end
