(* ===== verification/SyncProps.thy ===== *)
theory SyncProps
  imports Sync
begin

text \<open>
  What the sync component guarantees when requests run one after the other: sequence numbers are
  unique and grow per user, events are only appended, retries with a client event id are
  idempotent, cursors never move back, and reading page after page delivers every event in order.
  The interface other services rely on is the locale \<open>event_log\<close>.
\<close>

section \<open>Interfaces\<close>

text \<open>A log that operations only append to. \<open>put E n m s\<close> records the message \<open>m\<close>.\<close>

locale append_log =
  fixes put :: "env \<Rightarrow> nat \<Rightarrow> 'm \<Rightarrow> 's \<Rightarrow> 'e result \<times> 's"
    and log :: "'s \<Rightarrow> 'e list"
  assumes put_appends: "\<exists>es. log (snd (put E n m s)) = log s @ es"
begin

definition extends :: "'s \<Rightarrow> 's \<Rightarrow> bool" where
  "extends s s' \<longleftrightarrow> (\<exists>es. log s' = log s @ es)"

lemma extends_refl [simp]: "extends s s"
  by (simp add: extends_def)

lemma extends_trans: "extends s s' \<Longrightarrow> extends s' s'' \<Longrightarrow> extends s s''"
  by (auto simp: extends_def)

lemma extends_put: "extends s (snd (put E n m s))"
  using put_appends by (simp add: extends_def)

lemma extends_same_log: "log s' = log s \<Longrightarrow> extends s s'"
  by (simp add: extends_def)

lemma extends_fold:
  "(\<And>x s. extends s (f x s)) \<Longrightarrow> extends s (fold f xs s)"
  by (induction xs arbitrary: s) (auto intro: extends_trans)

lemma extends_mem: "extends s s' \<Longrightarrow> e \<in> set (log s) \<Longrightarrow> e \<in> set (log s')"
  by (auto simp: extends_def)

end

text \<open>An append-only log whose entries answer the messages they were recorded for, and where a
  message whose key is already taken by an entry that answers it is answered by that entry.\<close>

locale event_log = append_log put log
  for put :: "env \<Rightarrow> nat \<Rightarrow> 'm \<Rightarrow> 's \<Rightarrow> 'e result \<times> 's" and log :: "'s \<Rightarrow> 'e list" +
  fixes answers :: "'e \<Rightarrow> 'm \<Rightarrow> bool"
    and keyed :: "'m \<Rightarrow> bool"
    and reachable_db :: "env \<Rightarrow> bool"
    and inv :: "'s \<Rightarrow> bool"
  assumes put_Inr: "put E n m s = (Inr e, s') \<Longrightarrow> e \<in> set (log s') \<and> answers e m"
    and put_keeps: "inv s \<Longrightarrow> inv (snd (put E n m s))"
    and put_again: "inv s \<Longrightarrow> keyed m \<Longrightarrow> e \<in> set (log s) \<Longrightarrow> answers e m
       \<Longrightarrow> log (snd (put E n m s)) = log s
         \<and> (fst (put E n m s) = Inr e \<or> \<not> reachable_db E \<and> \<not> succeeds (fst (put E n m s)))"
begin

text \<open>A retry of a keyed message appends nothing and is answered by the event of the first attempt, or by an
  error of the database, as long as that event is in the log; and it stays there while the log only grows.\<close>

lemma retry:
  assumes "put E n m s = (Inr e, s')" "keyed m" "inv s''" "e \<in> set (log s'')"
  shows "log (snd (put E' n' m s'')) = log s''
     \<and> (fst (put E' n' m s'') = Inr e \<or> \<not> reachable_db E' \<and> \<not> succeeds (fst (put E' n' m s'')))"
  using put_Inr [OF assms(1)] assms(2-4) by (intro put_again) simp_all

lemma retry_after_appends:
  assumes "put E n m s = (Inr e, s')" "keyed m" "inv s''" "extends s' s''"
  shows "log (snd (put E' n' m s'')) = log s''
     \<and> (fst (put E' n' m s'') = Inr e \<or> \<not> reachable_db E' \<and> \<not> succeeds (fst (put E' n' m s'')))"
  using put_Inr [OF assms(1)] extends_mem [OF assms(4)] by (intro retry [OF assms(1-3)]) simp

end

section \<open>Sequence counters\<close>

definition next_seq :: "uuid \<Rightarrow> sync_sequence list \<Rightarrow> 64 word" where
  "next_seq u seqs = (case filter (\<lambda>q. sq_user_id q = u) seqs of [] \<Rightarrow> 1 | q # _ \<Rightarrow> sq_next q)"

definition one_counter :: "sync_sequence list \<Rightarrow> bool" where
  "one_counter seqs \<longleftrightarrow> distinct (map sq_user_id seqs)"

lemma filter_user_None: "u \<notin> sq_user_id ` set seqs \<Longrightarrow> filter (\<lambda>q. sq_user_id q = u) seqs = []"
  by (auto simp: filter_empty_conv)

lemma filter_user_single:
  assumes "one_counter seqs" "q \<in> set seqs" "sq_user_id q = u"
  shows "filter (\<lambda>q. sq_user_id q = u) seqs = [q]"
  using assms
proof (induction seqs)
  case (Cons a seqs)
  then have a: "sq_user_id a \<notin> sq_user_id ` set seqs" and d: "one_counter seqs"
    by (auto simp: one_counter_def)
  show ?case
  proof (cases "a = q")
    case True
    with a Cons.prems(3) show ?thesis by (simp add: filter_user_None)
  next
    case False
    with Cons.prems have "q \<in> set seqs" by simp
    with a Cons.prems(3) have "sq_user_id a \<noteq> u" by force
    with Cons.IH [OF d \<open>q \<in> set seqs\<close> Cons.prems(3)] show ?thesis by simp
  qed
qed simp

lemma next_seq_member: "one_counter seqs \<Longrightarrow> q \<in> set seqs \<Longrightarrow> next_seq (sq_user_id q) seqs = sq_next q"
  by (simp add: next_seq_def filter_user_single)

lemma next_seq_absent: "u \<notin> sq_user_id ` set seqs \<Longrightarrow> next_seq u seqs = 1"
  by (simp add: next_seq_def filter_user_None)

lemma one_counter_seed: "one_counter seqs \<Longrightarrow> one_counter (seed_sequence E u seqs)"
  by (auto simp: one_counter_def seed_sequence_def)

lemma next_seq_seed: "next_seq v (seed_sequence E u seqs) = next_seq v seqs"
  by (auto simp: next_seq_def seed_sequence_def filter_empty_conv split: list.splits)

lemma user_in_seed: "u \<in> sq_user_id ` set (seed_sequence E u seqs)"
  by (auto simp: seed_sequence_def)

lemma next_seq_update:
  assumes "one_counter seqs" "u \<in> sq_user_id ` set seqs"
  shows "next_seq v (upd_where (\<lambda>q. sq_user_id q = u) (\<lambda>q. q\<lparr>sq_next := k, sq_updated_at := t\<rparr>) seqs) =
         (if v = u then k else next_seq v seqs)"
proof -
  have f: "filter (\<lambda>q. sq_user_id q = v)
      (upd_where (\<lambda>q. sq_user_id q = u) (\<lambda>q. q\<lparr>sq_next := k, sq_updated_at := t\<rparr>) seqs) =
    map (\<lambda>q. if v = u then q\<lparr>sq_next := k, sq_updated_at := t\<rparr> else q) (filter (\<lambda>q. sq_user_id q = v) seqs)"
    by (induction seqs) (auto simp: upd_where_def)
  show ?thesis
  proof (cases "v = u")
    case True
    from assms(2) have "filter (\<lambda>q. sq_user_id q = u) seqs \<noteq> []" by (auto simp: filter_empty_conv)
    with True f show ?thesis by (auto simp: next_seq_def split: list.splits)
  next
    case False
    with f show ?thesis by (simp add: next_seq_def)
  qed
qed

text \<open>What taking a number does: it returns the counter, moves it by one, and touches nothing else.\<close>

lemma GetNextSequence_Inr:
  assumes "GetNextSequence E n u s = Inr (k, s')" "one_counter (ss_seqs s)"
  shows "k = next_seq u (ss_seqs s)" and "ss_events s' = ss_events s" and "ss_cursors s' = ss_cursors s"
    and "ss_hub s' = ss_hub s" and "ss_outbox s' = ss_outbox s" and "one_counter (ss_seqs s')"
    and "next_seq v (ss_seqs s') = (if v = u then k + 1 else next_seq v (ss_seqs s))"
proof -
  let ?seqs = "seed_sequence E u (ss_seqs s)"
  from assms(1) obtain q where q: "first_by sq_user_id (\<lambda>q. sq_user_id q = u) ?seqs = Some q"
    and k: "k = sq_next q"
    and s': "s' = s\<lparr>ss_seqs := upd_where (\<lambda>q. sq_user_id q = u)
                 (\<lambda>x. x\<lparr>sq_next := sq_next q + 1, sq_updated_at := e_now E\<rparr>) ?seqs\<rparr>"
    by (auto simp: GetNextSequence_def Let_def db_simps split: if_splits sum.splits)
  have oc: "one_counter ?seqs" using assms(2) by (rule one_counter_seed)
  from first_by_Some [OF q] have qin: "q \<in> set ?seqs" "sq_user_id q = u" by auto
  then have "next_seq u ?seqs = k" using next_seq_member [OF oc] k by auto
  then show k': "k = next_seq u (ss_seqs s)" by (simp add: next_seq_seed)
  show "ss_events s' = ss_events s" "ss_cursors s' = ss_cursors s" "ss_hub s' = ss_hub s"
    "ss_outbox s' = ss_outbox s" by (simp_all add: s')
  show "one_counter (ss_seqs s')" using oc by (simp add: s' one_counter_def map_upd_where)
  show "next_seq v (ss_seqs s') = (if v = u then k + 1 else next_seq v (ss_seqs s))"
    using next_seq_update [OF oc user_in_seed] by (simp add: s' k next_seq_seed)
qed

section \<open>What one recording does\<close>

definition client_keys_unique :: "sync_event list \<Rightarrow> bool" where
  "client_keys_unique evs \<longleftrightarrow>
     (\<forall>e\<in>set evs. \<forall>e'\<in>set evs. ev_user_id e = ev_user_id e' \<and> ev_client_event_id e = ev_client_event_id e'
        \<and> ev_client_event_id e \<noteq> '''' \<longrightarrow> e = e')"

text \<open>The event says what the envelope asked for.\<close>

definition records_envelope :: "sync_event \<Rightarrow> sync_envelope \<Rightarrow> bool" where
  "records_envelope e en \<longleftrightarrow>
     succeeds (BuildSyncEventType (en_object_type en) (en_operation en))
     \<and> ev_user_id e = en_user_id en \<and> ev_object_type e = en_object_type en
     \<and> ev_object_id e = en_object_id en \<and> ev_operation e = en_operation en
     \<and> ev_source_device_id e = en_source_device_id en
     \<and> ev_client_event_id e = en_client_event_id en"

lemma CreateEvent_Inr:
  "CreateEvent E n ev s = Inr s' \<Longrightarrow>
     (\<forall>x\<in>set (ss_events s). \<not> ev_clash ev x) \<and> s' = s\<lparr>ss_events := ss_events s @ [ev]\<rparr>"
  by (auto simp: CreateEvent_def db_simps split: sum.splits)

lemma GetEventByClientEventID_Inr:
  "GetEventByClientEventID E n u c s = Inr e \<Longrightarrow>
     e \<in> set (ss_events s) \<and> ev_user_id e = u \<and> ev_client_event_id e = c \<and> c \<noteq> ''''"
  by (auto simp: GetEventByClientEventID_def db_simps dest: first_by_Some split: if_splits)

text \<open>The four outcomes: refused, refused after a number was taken, a replay, a fresh event.\<close>

lemma recordEnvelopeWithRepo_cases:
  assumes "recordEnvelopeWithRepo E n en s = (r, s')"
  obtains (refused) e where "r = Inl e" "s' = s"
  | (taken) e k where "r = Inl e" "GetNextSequence E n (en_user_id en) s = Inr (k, s')"
  | (replay) e where "r = Inr e" "s' = s" "e \<in> set (ss_events s)" "records_envelope e en"
      "en_client_event_id en \<noteq> ''''"
  | (fresh) e k s1 where "r = Inr e" "GetNextSequence E n (en_user_id en) s = Inr (k, s1)"
      "\<forall>x\<in>set (ss_events s1). \<not> ev_clash e x" "s' = s1\<lparr>ss_events := ss_events s1 @ [e]\<rparr>"
      "records_envelope e en" "ev_sequence e = k" "ev_payload e = en_payload en"
proof (cases "BuildSyncEventType (en_object_type en) (en_operation en)")
  case (Inl e)
  with assms show ?thesis by (intro refused [of e]) (auto simp: recordEnvelopeWithRepo_def)
next
  case b: (Inr eventType)
  let ?look = "if en_client_event_id en \<noteq> ''''
     then GetEventByClientEventID E n (en_user_id en) (en_client_event_id en) s else Inl ErrRecordNotFound"
  show ?thesis
  proof (cases ?look)
    case l: (Inr x)
    then have x: "x \<in> set (ss_events s)" "ev_user_id x = en_user_id en"
      "ev_client_event_id x = en_client_event_id en" "en_client_event_id en \<noteq> ''''"
      using GetEventByClientEventID_Inr [of E n "en_user_id en" "en_client_event_id en" s x]
      by (auto split: if_splits)
    show ?thesis
    proof (cases "validateIdempotentReplay x en")
      case (Inl e)
      with assms b l show ?thesis by (intro refused [of e]) (auto simp: recordEnvelopeWithRepo_def)
    next
      case (Inr w)
      then have "records_envelope x en" using x b
        by (auto simp: validateIdempotentReplay_def records_envelope_def split: if_splits)
      with Inr assms b l x show ?thesis
        by (intro replay [of x]) (auto simp: recordEnvelopeWithRepo_def)
    qed
  next
    case l: (Inl le)
    show ?thesis
    proof (cases "GetNextSequence E n (en_user_id en) s")
      case (Inl e)
      with assms b l show ?thesis
        by (intro refused [of "Wrapf ''get next sequence'' e"]) (auto simp: recordEnvelopeWithRepo_def)
    next
      case g: (Inr ks)
      obtain k s1 where ks: "ks = (k, s1)" by (cases ks)
      let ?e = "new_sync_event E n en eventType k"
      show ?thesis
      proof (cases "CreateEvent E n ?e s1")
        case (Inl e)
        with assms b l g ks show ?thesis
          by (intro taken [of "Wrapf ''create sync event'' e" k]) (auto simp: recordEnvelopeWithRepo_def)
      next
        case (Inr s2)
        from assms b l g ks Inr have "r = Inr ?e" "s' = s2"
          by (auto simp: recordEnvelopeWithRepo_def Let_def)
        moreover have "records_envelope ?e en" using b by (simp add: records_envelope_def new_sync_event_def)
        moreover have "ev_sequence ?e = k" "ev_payload ?e = en_payload en" by (simp_all add: new_sync_event_def)
        ultimately show ?thesis using CreateEvent_Inr [OF Inr] g ks by (intro fresh [of ?e k s1]) simp_all
      qed
    qed
  qed
qed

lemma notifyDevices_simps [simp]:
  "ss_events (notifyDevices u d e s) = ss_events s" "ss_seqs (notifyDevices u d e s) = ss_seqs s"
  "ss_cursors (notifyDevices u d e s) = ss_cursors s" "ss_hub (notifyDevices u d e s) = ss_hub s"
  by (simp_all add: notifyDevices_def)

lemma RecordEnvelope_tables:
  "RecordEnvelope E n en s = (r, s') \<Longrightarrow>
   \<exists>s1. recordEnvelopeWithRepo E n en s = (r, s1) \<and> ss_events s' = ss_events s1
      \<and> ss_seqs s' = ss_seqs s1 \<and> ss_cursors s' = ss_cursors s1"
  by (auto simp: RecordEnvelope_def split: prod.splits sum.splits)

lemma GetNextSequence_events:
  "GetNextSequence E n u s = Inr (k, s') \<Longrightarrow> ss_events s' = ss_events s \<and> ss_cursors s' = ss_cursors s"
  by (auto simp: GetNextSequence_def Let_def split: if_splits sum.splits)

text \<open>Recording touches the table of events in one way only: it appends at most one event, and
  that event clashes with none.\<close>

lemma RecordEnvelope_events:
  assumes "RecordEnvelope E n en s = (r, s')"
  shows "ss_events s' = ss_events s \<and> (case r of Inl _ \<Rightarrow> True | Inr e \<Rightarrow> e \<in> set (ss_events s) \<and> records_envelope e en)
     \<or> (\<exists>e. r = Inr e \<and> ss_events s' = ss_events s @ [e] \<and> records_envelope e en
           \<and> ev_payload e = en_payload en \<and> (\<forall>x\<in>set (ss_events s). \<not> ev_clash e x))"
proof -
  obtain s1 where s1: "recordEnvelopeWithRepo E n en s = (r, s1)" "ss_events s' = ss_events s1"
    using RecordEnvelope_tables [OF assms] by blast
  from s1(1) show ?thesis
    by (cases rule: recordEnvelopeWithRepo_cases) (auto simp: s1(2) dest: GetNextSequence_events)
qed

section \<open>The invariant\<close>

text \<open>
  One counter per user, above the numbers of all the user's events and never zero; the events of
  a user stand in the table in strictly increasing order; a client event id names one event.
\<close>

definition events_ordered :: "sync_event list \<Rightarrow> bool" where
  "events_ordered evs \<longleftrightarrow>
     sorted_wrt (\<lambda>e e'. ev_user_id e = ev_user_id e' \<longrightarrow> ev_sequence e < ev_sequence e') evs"

definition below_counter :: "sync_sequence list \<Rightarrow> sync_event \<Rightarrow> bool" where
  "below_counter seqs e \<longleftrightarrow> 0 < ev_sequence e \<and> ev_sequence e < next_seq (ev_user_id e) seqs"

definition sync_inv :: "sync_state \<Rightarrow> bool" where
  "sync_inv s \<longleftrightarrow> one_counter (ss_seqs s) \<and> list_all (\<lambda>q. sq_next q \<noteq> 0) (ss_seqs s)
     \<and> list_all (below_counter (ss_seqs s)) (ss_events s)
     \<and> events_ordered (ss_events s) \<and> client_keys_unique (ss_events s)"

text \<open>The counter of the user can still be incremented.\<close>

definition seq_room :: "uuid \<Rightarrow> sync_state \<Rightarrow> bool" where
  "seq_room u s \<longleftrightarrow> next_seq u (ss_seqs s) \<noteq> - 1"

lemma sync_inv_init: "sync_inv sync_init"
  by (simp add: sync_inv_def sync_init_def one_counter_def events_ordered_def client_keys_unique_def)

lemma client_keys_unique_snoc:
  assumes "client_keys_unique evs" "\<forall>x\<in>set evs. \<not> ev_clash e x"
  shows "client_keys_unique (evs @ [e])"
  using assms unfolding client_keys_unique_def ev_clash_def by (auto; metis)

lemma client_keys_unique_Record:
  "client_keys_unique (ss_events s) \<Longrightarrow> client_keys_unique (ss_events (snd (RecordEnvelope E n en s)))"
  using RecordEnvelope_events [of E n en s] client_keys_unique_snoc
  by (cases "RecordEnvelope E n en s") fastforce

lemma next_seq_nonzero: "list_all (\<lambda>q. sq_next q \<noteq> 0) seqs \<Longrightarrow> next_seq u seqs \<noteq> 0"
  by (induction seqs) (auto simp: next_seq_def)

lemma word_less_inc:
  assumes "b \<noteq> (- 1 :: 64 word)"
  shows "a < b + 1 \<longleftrightarrow> a \<le> b"
proof -
  have "unat b < 2 ^ 64 - 1"
  proof -
    have "unat b < 2 ^ LENGTH(64)" by (rule unsigned_less)
    then have "unat b \<le> 2 ^ 64 - 1" by simp
    moreover have "unat b \<noteq> 2 ^ 64 - 1"
    proof
      assume "unat b = 2 ^ 64 - 1"
      also have "\<dots> = unat (- 1 :: 64 word)" by (simp add: unsigned_minus_1_eq_mask mask_eq_exp_minus_1)
      finally show False using assms by (metis word_unat_eq_iff)
    qed
    ultimately show ?thesis by simp
  qed
  then have "unat (b + 1) = unat b + 1" by (simp add: unat_word_ariths)
  then show ?thesis by (simp add: word_less_nat_alt word_le_nat_alt less_Suc_eq_le)
qed

text \<open>Taking a number keeps the counters sound.\<close>

lemma GetNextSequence_nonzero:
  assumes "GetNextSequence E n u s = Inr (k, s')" "list_all (\<lambda>q. sq_next q \<noteq> 0) (ss_seqs s)"
    and "one_counter (ss_seqs s)" "seq_room u s"
  shows "list_all (\<lambda>q. sq_next q \<noteq> 0) (ss_seqs s')"
proof -
  have "k + 1 \<noteq> 0" using GetNextSequence_Inr(1) [OF assms(1,3)] assms(4)
    by (metis seq_room_def add.commute add_eq_0_iff)
  moreover from assms(1,2) have "list_all (\<lambda>q. sq_next q \<noteq> 0 \<or> sq_next q = k + 1) (ss_seqs s')"
    by (auto simp: GetNextSequence_def Let_def db_simps list_all_iff table_simps seed_sequence_def
        split: if_splits sum.splits)
  ultimately show ?thesis by (auto simp: list_all_iff)
qed

lemma below_counter_GetNext:
  assumes "GetNextSequence E n u s = Inr (k, s')" "one_counter (ss_seqs s)" "seq_room u s"
    "below_counter (ss_seqs s) e"
  shows "below_counter (ss_seqs s') e"
  using assms GetNextSequence_Inr(1,7) [OF assms(1,2)]
  by (auto simp: below_counter_def seq_room_def word_less_inc)

lemma sync_inv_taken:
  assumes "GetNextSequence E n u s = Inr (k, s')" "sync_inv s" "seq_room u s"
  shows "sync_inv s'"
proof -
  from assms(2) have inv: "one_counter (ss_seqs s)" "list_all (\<lambda>q. sq_next q \<noteq> 0) (ss_seqs s)"
    "list_all (below_counter (ss_seqs s)) (ss_events s)" by (auto simp: sync_inv_def)
  with assms below_counter_GetNext [OF assms(1) inv(1) assms(3)]
    GetNextSequence_nonzero [OF assms(1) inv(2,1) assms(3)] GetNextSequence_Inr(2,6) [OF assms(1) inv(1)]
  show ?thesis by (auto simp: sync_inv_def list_all_iff)
qed

lemma sync_inv_append:
  assumes "sync_inv s1" "\<forall>x\<in>set (ss_events s1). \<not> ev_clash e x" "below_counter (ss_seqs s1) e"
    "\<forall>x\<in>set (ss_events s1). ev_user_id x = ev_user_id e \<longrightarrow> ev_sequence x < ev_sequence e"
  shows "sync_inv (s1\<lparr>ss_events := ss_events s1 @ [e]\<rparr>)"
  using assms by (auto simp: sync_inv_def events_ordered_def sorted_wrt_append intro: client_keys_unique_snoc)

lemma sync_inv_recordEnvelope:
  assumes "sync_inv s" "seq_room (en_user_id en) s" "recordEnvelopeWithRepo E n en s = (r, s')"
  shows "sync_inv s'"
  using assms(3)
proof (cases rule: recordEnvelopeWithRepo_cases)
  case (taken e k)
  with assms show ?thesis by (blast intro: sync_inv_taken)
next
  case (fresh e k s1)
  have oc: "one_counter (ss_seqs s)" using assms(1) by (simp add: sync_inv_def)
  note g = GetNextSequence_Inr [OF fresh(2) oc]
  have i1: "sync_inv s1" using fresh(2) assms(1,2) by (rule sync_inv_taken)
  have u: "ev_user_id e = en_user_id en" using fresh(5) by (simp add: records_envelope_def)
  have old: "ev_sequence x < ev_sequence e" if "x \<in> set (ss_events s1)" "ev_user_id x = ev_user_id e" for x
    using that assms(1) g(1,2) fresh(6) u by (auto simp: sync_inv_def below_counter_def list_all_iff)
  have "below_counter (ss_seqs s1) e"
  proof -
    have "k \<noteq> 0" using assms(1) g(1) next_seq_nonzero by (simp add: sync_inv_def)
    moreover have "k < k + 1" using assms(2) g(1) by (simp add: seq_room_def word_less_inc)
    ultimately show ?thesis using g(7) [of "ev_user_id e"] fresh(6) u
      by (simp add: below_counter_def word_neq_0_conv)
  qed
  with i1 fresh(3) old show ?thesis unfolding fresh(4) by (intro sync_inv_append) auto
qed (use assms in auto)

lemma sync_inv_cong:
  "ss_events s = ss_events t \<Longrightarrow> ss_seqs s = ss_seqs t \<Longrightarrow> sync_inv s = sync_inv t"
  by (simp add: sync_inv_def)

lemma sync_inv_RecordEnvelope:
  assumes "sync_inv s" "seq_room (en_user_id en) s"
  shows "sync_inv (snd (RecordEnvelope E n en s))"
proof -
  obtain r s' where rs: "RecordEnvelope E n en s = (r, s')" by fastforce
  from RecordEnvelope_tables [OF rs] obtain s1 where
    s1: "recordEnvelopeWithRepo E n en s = (r, s1)" "ss_events s' = ss_events s1" "ss_seqs s' = ss_seqs s1"
    by blast
  show ?thesis using sync_inv_recordEnvelope [OF assms s1(1)] sync_inv_cong [OF s1(2,3)] rs by simp
qed

text \<open>When nothing fails, an envelope that no event of its user answers yet is appended.\<close>

definition no_key :: "uuid \<Rightarrow> string \<Rightarrow> sync_state \<Rightarrow> bool" where
  "no_key u c s \<longleftrightarrow> c = '''' \<or> list_all (\<lambda>e. \<not> (ev_user_id e = u \<and> ev_client_event_id e = c)) (ss_events s)"

lemma GetNextSequence_ok:
  assumes "no_faults E"
  shows "\<exists>k s'. GetNextSequence E n u s = Inr (k, s')"
proof -
  obtain q where "first_by sq_user_id (\<lambda>q. sq_user_id q = u) (seed_sequence E u (ss_seqs s)) = Some q"
    using user_in_seed [of u E "ss_seqs s"] first_by_ex [of _ "seed_sequence E u (ss_seqs s)" "\<lambda>q. sq_user_id q = u"]
    by (metis (no_types, lifting) imageE)
  with assms show ?thesis by (simp add: GetNextSequence_def db_first_def db_update_def)
qed

lemma RecordEnvelope_fresh_ok:
  assumes "no_faults E" "sync_inv s" "BuildSyncEventType (en_object_type en) (en_operation en) = Inr t"
    "no_key (en_user_id en) (en_client_event_id en) s" "e_uuid E ''sync_events'' n \<notin> ev_id ` set (ss_events s)"
  shows "\<exists>e. ss_events (snd (RecordEnvelope E n en s)) = ss_events s @ [e] \<and> records_envelope e en
     \<and> ev_payload e = en_payload en \<and> ev_id e = e_uuid E ''sync_events'' n"
proof -
  let ?u = "en_user_id en"
  obtain k s1 where g: "GetNextSequence E n ?u s = Inr (k, s1)" using GetNextSequence_ok [OF assms(1)] by blast
  let ?e = "new_sync_event E n en t k"
  have evs: "ss_events s1 = ss_events s" and k: "k = next_seq ?u (ss_seqs s)"
    using GetNextSequence_Inr(1,2) [OF g] assms(2) by (auto simp: sync_inv_def)
  have "\<not> ev_clash ?e x" if "x \<in> set (ss_events s)" for x
  proof -
    have "ev_id x \<noteq> e_uuid E ''sync_events'' n" using assms(5) that by (metis imageI)
    then show ?thesis using that assms(2,4) k
    by (auto simp: ev_clash_def new_sync_event_def sync_inv_def below_counter_def list_all_iff no_key_def)
  qed
  then have "CreateEvent E n ?e s1 = Inr (s1\<lparr>ss_events := ss_events s @ [?e]\<rparr>)"
    using assms(1) evs by (simp add: CreateEvent_def db_insert_def list_ex_iff)
  moreover
  let ?look = "if en_client_event_id en \<noteq> '''' then GetEventByClientEventID E n ?u (en_client_event_id en) s
     else Inl ErrRecordNotFound"
  have "\<not> succeeds ?look"
    using assms(4) by (auto simp: no_key_def list_all_iff dest!: GetEventByClientEventID_Inr elim!: succeedsE)
  then obtain le where "?look = Inl le" by (cases ?look) simp_all
  ultimately have "recordEnvelopeWithRepo E n en s = (Inr ?e, s1\<lparr>ss_events := ss_events s @ [?e]\<rparr>)"
    using assms(3) g by (simp add: recordEnvelopeWithRepo_def Let_def)
  then have "ss_events (snd (RecordEnvelope E n en s)) = ss_events s @ [?e]" by (simp add: RecordEnvelope_def)
  then show ?thesis using assms(3) by (intro exI [of _ ?e]) (simp add: records_envelope_def new_sync_event_def)
qed

section \<open>The log interface, provided\<close>

definition lookup_ok :: "env \<Rightarrow> bool" where
  "lookup_ok E \<longleftrightarrow> (\<forall>n. \<not> e_db E ''GetEventByClientEventID'' n)"

definition keyed_envelope :: "sync_envelope \<Rightarrow> bool" where
  "keyed_envelope en \<longleftrightarrow> en_client_event_id en \<noteq> ''''"

lemma RecordEnvelope_appends: "\<exists>es. ss_events (snd (RecordEnvelope E n en s)) = ss_events s @ es"
  using RecordEnvelope_events [of E n en s] by (cases "RecordEnvelope E n en s") auto

lemma RecordEnvelope_Inr:
  "RecordEnvelope E n en s = (Inr e, s') \<Longrightarrow> e \<in> set (ss_events s') \<and> records_envelope e en"
  using RecordEnvelope_events [of E n en s "Inr e" s'] by auto

lemma lookup_unique:
  assumes "client_keys_unique evs" "e \<in> set evs" "ev_client_event_id e \<noteq> ''''"
  shows "first_by ev_id (\<lambda>x. ev_user_id x = ev_user_id e \<and> ev_client_event_id x = ev_client_event_id e) evs = Some e"
  using assms by (intro first_by_unique) (auto simp: client_keys_unique_def)

lemma RecordEnvelope_replay:
  assumes "client_keys_unique (ss_events s)" "keyed_envelope en" "e \<in> set (ss_events s)" "records_envelope e en"
  shows "ss_events (snd (RecordEnvelope E n en s)) = ss_events s
     \<and> (fst (RecordEnvelope E n en s) = Inr e \<or> \<not> lookup_ok E \<and> \<not> succeeds (fst (RecordEnvelope E n en s)))"
proof -
  obtain r s' where run: "RecordEnvelope E n en s = (r, s')" by (cases "RecordEnvelope E n en s")
  from assms(2,4) have m: "ev_user_id e = en_user_id en" "ev_client_event_id e = en_client_event_id en" "ev_client_event_id e \<noteq> ''''"
    and v: "validateIdempotentReplay e en = Inr ()"
    and b: "\<exists>t. BuildSyncEventType (en_object_type en) (en_operation en) = Inr t"
    by (auto simp: records_envelope_def validateIdempotentReplay_def keyed_envelope_def elim: succeedsE)
  have same: "x = e" if "x \<in> set (ss_events s)" "records_envelope x en" for x
    using assms(1,3) that m by (auto simp: records_envelope_def client_keys_unique_def)
  have "ev_clash x e" if "records_envelope x en" for x
    using that m by (auto simp: records_envelope_def ev_clash_def)
  with RecordEnvelope_events [OF run] assms(3) same
  have t: "ss_events s' = ss_events s \<and> (r = Inr e \<or> \<not> succeeds r)" by (cases r) (fastforce simp: succeeds_def)+
  show ?thesis
  proof (cases "lookup_ok E")
    case True
    then have "GetEventByClientEventID E n (en_user_id en) (en_client_event_id en) s = Inr e"
      using lookup_unique [OF assms(1,3)] m by (simp add: GetEventByClientEventID_def db_simps lookup_ok_def)
    with b v assms(2) have "fst (RecordEnvelope E n en s) = Inr e"
      by (auto simp: RecordEnvelope_def recordEnvelopeWithRepo_def keyed_envelope_def)
    with t run show ?thesis by simp
  qed (use t run in simp)
qed

interpretation sync_log: event_log RecordEnvelope ss_events records_envelope keyed_envelope lookup_ok
  "\<lambda>s. client_keys_unique (ss_events s)"
  by unfold_locales
     (fact RecordEnvelope_appends RecordEnvelope_Inr client_keys_unique_Record RecordEnvelope_replay)+

section \<open>Runs of requests\<close>

text \<open>What changes the sync tables: a recording, an acknowledgement, the retention job. A request
  that fails leaves the state to the next one as the database keeps it.\<close>

datatype sync_req =
    RRecord env nat sync_envelope
  | RAck env uuid string "64 word"
  | RCleanup env int

fun sync_serve :: "sync_req \<Rightarrow> sync_state \<Rightarrow> sync_state" where
  "sync_serve (RRecord E n en) s = snd (RecordEnvelope E n en s)"
| "sync_serve (RAck E u d k) s = (case AckEvents E u d k s of Inl _ \<Rightarrow> s | Inr s' \<Rightarrow> s')"
| "sync_serve (RCleanup E n) s = (case CleanupOldEvents E n s of Inl _ \<Rightarrow> s | Inr (_, s') \<Rightarrow> s')"

lemma AckEvents_tables:
  "AckEvents E u d k s = Inr s' \<Longrightarrow> ss_events s' = ss_events s \<and> ss_seqs s' = ss_seqs s"
  by (auto simp: AckEvents_def UpdateCursor_def Let_def split: sum.splits)

lemma CleanupOldEvents_tables:
  "CleanupOldEvents E d s = Inr (n, s') \<Longrightarrow> ss_seqs s' = ss_seqs s \<and> ss_cursors s' = ss_cursors s
     \<and> (\<exists>P. ss_events s' = filter P (ss_events s))"
  by (auto simp: CleanupOldEvents_def CleanupOldEvents_repo_def db_delete_def del_where_def
      split: if_splits sum.splits)

lemma sync_inv_filter:
  "sync_inv s \<Longrightarrow> ss_seqs s' = ss_seqs s \<Longrightarrow> ss_events s' = filter P (ss_events s) \<Longrightarrow> sync_inv s'"
  by (auto simp: sync_inv_def list_all_iff events_ordered_def client_keys_unique_def
      intro: sorted_wrt_filter)

lemma next_seq_GetNext:
  "one_counter (ss_seqs s) \<Longrightarrow> GetNextSequence E n u s = Inr (k, s') \<Longrightarrow>
   next_seq v (ss_seqs s') = (if v = u then next_seq v (ss_seqs s) + 1 else next_seq v (ss_seqs s))"
  using GetNextSequence_Inr(1) [of E n u s k s'] GetNextSequence_Inr(7) [of E n u s k s' v] by simp

lemma next_seq_RecordEnvelope:
  assumes "one_counter (ss_seqs s)" "RecordEnvelope E n en s = (r, s')"
  shows "next_seq u (ss_seqs s') = next_seq u (ss_seqs s) \<or> next_seq u (ss_seqs s') = next_seq u (ss_seqs s) + 1"
proof -
  obtain s1 where s1: "recordEnvelopeWithRepo E n en s = (r, s1)" "ss_seqs s' = ss_seqs s1"
    using RecordEnvelope_tables [OF assms(2)] by blast
  from s1(1) show ?thesis
    by (cases rule: recordEnvelopeWithRepo_cases) (auto simp: s1(2) next_seq_GetNext [OF assms(1)])
qed

text \<open>After n requests no counter is beyond n + 1.\<close>

definition sync_inv_upto :: "nat \<Rightarrow> sync_state \<Rightarrow> bool" where
  "sync_inv_upto n s \<longleftrightarrow> sync_inv s \<and> (\<forall>u. unat (next_seq u (ss_seqs s)) \<le> n + 1)"

lemma unat_inc_le: "unat (w + 1 :: 64 word) \<le> unat w + 1"
  by (simp add: unat_word_ariths)

lemma sync_inv_upto_step:
  assumes "sync_inv_upto n s" "n + 2 < 2 ^ 64"
  shows "sync_inv_upto (Suc n) (sync_serve r s)"
proof (cases r)
  case (RRecord E m en)
  from assms(1) have i: "sync_inv s" and le: "\<And>u. unat (next_seq u (ss_seqs s)) \<le> n + 1"
    by (auto simp: sync_inv_upto_def)
  have "seq_room u s" for u
  proof -
    have "unat (next_seq u (ss_seqs s)) \<noteq> 2 ^ 64 - 1" using le [of u] assms(2) by simp
    then show ?thesis by (auto simp: seq_room_def unsigned_minus_1_eq_mask mask_eq_exp_minus_1)
  qed
  then have "sync_inv (sync_serve r s)" using i RRecord by (simp add: sync_inv_RecordEnvelope)
  moreover have "unat (next_seq u (ss_seqs (sync_serve r s))) \<le> Suc n + 1" for u
    using next_seq_RecordEnvelope [of s E m en _ _ u] le [of u] unat_inc_le [of "next_seq u (ss_seqs s)"] i RRecord
    by (cases "RecordEnvelope E m en s") (fastforce simp: sync_inv_def)
  ultimately show ?thesis by (simp add: sync_inv_upto_def)
next
  case (RAck E u d k)
  have "ss_events (sync_serve r s) = ss_events s \<and> ss_seqs (sync_serve r s) = ss_seqs s"
    using RAck by (auto split: sum.splits dest: AckEvents_tables)
  with assms(1) show ?thesis
    using sync_inv_cong [of "sync_serve r s" s] by (auto simp: sync_inv_upto_def intro: le_SucI)
next
  case (RCleanup E d)
  have "ss_seqs (sync_serve r s) = ss_seqs s \<and> (\<exists>P. ss_events (sync_serve r s) = filter P (ss_events s))"
  proof (cases "CleanupOldEvents E d s")
    case (Inr p)
    then show ?thesis using RCleanup CleanupOldEvents_tables [of E d s] by (cases p) auto
  qed (use RCleanup in \<open>auto intro: exI [of _ "\<lambda>_. True"]\<close>)
  with assms(1) show ?thesis using sync_inv_filter by (auto simp: sync_inv_upto_def intro: le_SucI)
qed

lemma sync_inv_upto_run:
  "sync_inv_upto n s \<Longrightarrow> n + length rs < 2 ^ 64 - 1 \<Longrightarrow> sync_inv_upto (n + length rs) (fold sync_serve rs s)"
proof (induction rs arbitrary: n s)
  case (Cons r rs)
  from Cons.prems have "sync_inv_upto (Suc n) (sync_serve r s)" by (intro sync_inv_upto_step) auto
  with Cons.IH [of "Suc n" "sync_serve r s"] Cons.prems show ?case by simp
qed simp

lemma sync_inv_upto_init: "sync_inv_upto 0 sync_init"
  by (simp add: sync_inv_upto_def sync_inv_init) (simp add: sync_init_def next_seq_def)

section \<open>Properties\<close>

text \<open>
  C1: Whatever requests are served, in whatever order and with whatever database failures, the sync
  tables stay sound for the first 2^64 - 2 requests: one counter per user above all the numbers
  handed out, the events of a user in strictly increasing order of number, and one event per
  client event id.
\<close>

theorem sync_tables_stay_sound:
  assumes "length rs < 2 ^ 64 - 1"
  shows "sync_inv (fold sync_serve rs sync_init)"
  using sync_inv_upto_run [OF sync_inv_upto_init, of rs] assms by (simp add: sync_inv_upto_def)

lemma lookup_ok_env_at [simp]: "lookup_ok (env_at k)"
  by (simp add: lookup_ok_def env_at_def env0_def)

definition demo_envelope :: "string \<Rightarrow> string \<Rightarrow> sync_envelope" where
  "demo_envelope cid obj = \<lparr>en_user_id = 7, en_source_device_id = ''laptop'',
     en_object_type = ''conversation'', en_object_id = obj, en_operation = ''created'',
     en_client_event_id = cid, en_payload = None\<rparr>"

definition demo_log :: sync_state where
  "demo_log = fold (\<lambda>k s. snd (RecordEnvelope (env_at k) 0 (demo_envelope '''' ''o'') s)) [0, 1, 2] sync_init"

theorem sync_tables_stay_sound_witness:
  "sync_inv (fold sync_serve [RRecord env0 0 (demo_envelope ''c1'' ''o''), RAck env0 7 ''laptop'' 1,
                              RCleanup env0 30] sync_init)"
  by (rule sync_tables_stay_sound) simp

text \<open>
  A recorded event gets a number above the numbers of all earlier events of its user, so a
  device that has read up to some number finds everything newer above it.
\<close>

theorem new_event_above_old:
  assumes "sync_inv s" "seq_room (en_user_id en) s" "RecordEnvelope E n en s = (Inr e, s')"
    "ss_events s' \<noteq> ss_events s" "x \<in> set (ss_events s)" "ev_user_id x = en_user_id en"
  shows "ev_sequence x < ev_sequence e"
proof -
  have "ss_events s' = ss_events s @ [e]" "ev_user_id e = en_user_id en"
    using RecordEnvelope_events [OF assms(3)] assms(4) by (auto simp: records_envelope_def)
  moreover have "sync_inv s'" using sync_inv_RecordEnvelope [OF assms(1,2)] assms(3) by (metis snd_conv)
  ultimately show ?thesis using assms(5,6) by (auto simp: sync_inv_def events_ordered_def sorted_wrt_append)
qed

theorem new_event_above_old_witness:
  "\<exists>e. fst (RecordEnvelope (env_at 3) 0 (demo_envelope '''' ''o'') demo_log) = Inr e
      \<and> ev_sequence (ss_events demo_log ! 0) < ev_sequence e"
proof -
  let ?p = "RecordEnvelope (env_at 3) 0 (demo_envelope '''' ''o'') demo_log"
  have i: "sync_inv demo_log"
    using sync_inv_upto_run [OF sync_inv_upto_init,
        of "map (\<lambda>k. RRecord (env_at k) 0 (demo_envelope '''' ''o'')) [0, 1, 2]"]
    by (simp add: sync_inv_upto_def demo_log_def)
  have "succeeds (fst ?p)" by code_simp
  then obtain e where p: "?p = (Inr e, snd ?p)" by (metis succeeds_pair)
  have r: "seq_room 7 demo_log" by code_simp
  have l: "length (ss_events (snd ?p)) = 4" by code_simp
  have m: "length (ss_events demo_log) = 3" by code_simp
  have v: "ev_user_id (ss_events demo_log ! 0) = 7" by code_simp
  from l m have "ss_events (snd ?p) \<noteq> ss_events demo_log" by auto
  moreover have "ss_events demo_log ! 0 \<in> set (ss_events demo_log)" using m by (intro nth_mem) simp
  ultimately have "ev_sequence (ss_events demo_log ! 0) < ev_sequence e"
    using new_event_above_old [OF i _ p] r v by (simp add: demo_envelope_def)
  with p show ?thesis by (metis fst_conv)
qed

text \<open>The retention job leaves an event alone while it is young enough.\<close>

fun spares :: "sync_event \<Rightarrow> sync_req \<Rightarrow> bool" where
  "spares e (RCleanup E d) \<longleftrightarrow> e_now E - days d \<le> ev_timestamp e"
| "spares e _ \<longleftrightarrow> True"

lemma sync_serve_keeps_event:
  assumes "spares e q" "e \<in> set (ss_events s)"
  shows "e \<in> set (ss_events (sync_serve q s))"
proof (cases q)
  case (RRecord E n en)
  then show ?thesis using RecordEnvelope_appends [of E n en s] assms(2) by auto
next
  case (RAck E u d k)
  then show ?thesis using assms(2) by (auto dest: AckEvents_tables split: sum.split)
next
  case (RCleanup E d)
  then show ?thesis using assms
    by (auto simp: CleanupOldEvents_def CleanupOldEvents_repo_def db_simps table_simps del_where_def split: sum.split)
qed

lemma sync_run_keeps_event:
  "list_all (spares e) qs \<Longrightarrow> e \<in> set (ss_events s) \<Longrightarrow> e \<in> set (ss_events (fold sync_serve qs s))"
  by (induction qs arbitrary: s) (simp_all add: sync_serve_keeps_event)

lemma sync_serve_client_keys: "client_keys_unique (ss_events s) \<Longrightarrow> client_keys_unique (ss_events (sync_serve q s))"
proof (cases q)
  case (RCleanup E d)
  assume "client_keys_unique (ss_events s)"
  with RCleanup show ?thesis by (auto dest!: CleanupOldEvents_tables simp: client_keys_unique_def split: sum.split)
qed (auto simp: client_keys_unique_Record dest!: AckEvents_tables split: sum.split)

lemma sync_run_client_keys: "client_keys_unique (ss_events s) \<Longrightarrow> client_keys_unique (ss_events (fold sync_serve qs s))"
  by (induction qs arbitrary: s) (simp_all add: sync_serve_client_keys)

lemma client_keys_init: "client_keys_unique (ss_events sync_init)"
  by (simp add: client_keys_unique_def sync_init_def)

text \<open>
  C26: Recording with a client event id is idempotent. Once it has succeeded, the same envelope sent again after any
  further recordings, acknowledgements and cleanups appends nothing, as long as no cleanup was due to delete the event
  (a cleanup with a cutoff after its timestamp); and the answer is the event of the first attempt, unless the database
  fails to look it up, which is an error.
\<close>

theorem record_retry:
  assumes "keyed_envelope en" "RecordEnvelope E n en (fold sync_serve qs sync_init) = (Inr e, s1)" "list_all (spares e) rs"
  shows "let s2 = fold sync_serve rs s1; (answer, s3) = RecordEnvelope E' n' en s2 in
     ss_events s3 = ss_events s2 \<and> (answer = Inr e \<or> \<not> lookup_ok E' \<and> \<not> succeeds answer)"
proof -
  let ?s = "fold sync_serve qs sync_init" and ?s2 = "fold sync_serve rs s1"
  have "e \<in> set (ss_events ?s2)" using RecordEnvelope_Inr [OF assms(2)] assms(3) by (simp add: sync_run_keeps_event)
  moreover have "client_keys_unique (ss_events s1)"
    using client_keys_unique_Record [OF sync_run_client_keys [OF client_keys_init]] assms(2) by (metis snd_conv)
  ultimately show ?thesis
    using sync_log.retry [OF assms(2,1) sync_run_client_keys, of s1 rs E' n'] by (simp add: Let_def case_prod_unfold)
qed

theorem record_retry_witness:
  "let s1 = snd (RecordEnvelope (env_at 0) 0 (demo_envelope ''c1'' ''o'') sync_init);
       s2 = fold sync_serve [RRecord (env_at 1) 0 (demo_envelope ''c2'' ''p''), RAck (env_at 2) 7 ''phone'' 2, RCleanup (env_at 3) 1] s1
   in fst (RecordEnvelope (env_at 4) 0 (demo_envelope ''c1'' ''o'') s2)
       = fst (RecordEnvelope (env_at 0) 0 (demo_envelope ''c1'' ''o'') sync_init)"
proof -
  let ?p = "RecordEnvelope (env_at 0) 0 (demo_envelope ''c1'' ''o'') sync_init"
  let ?rs = "[RRecord (env_at 1) 0 (demo_envelope ''c2'' ''p''), RAck (env_at 2) 7 ''phone'' 2, RCleanup (env_at 3) 1]"
  have "succeeds (fst ?p)" by code_simp
  then obtain e where p: "?p = (Inr e, snd ?p)" by (metis succeeds_pair)
  have k: "keyed_envelope (demo_envelope ''c1'' ''o'')" by (simp add: keyed_envelope_def demo_envelope_def)
  have "list_all (\<lambda>x. list_all (spares x) ?rs) (ss_events (snd ?p))" by code_simp
  then have young: "list_all (spares e) ?rs" using RecordEnvelope_Inr [OF p] unfolding list_all_iff by blast
  have "RecordEnvelope (env_at 0) 0 (demo_envelope ''c1'' ''o'') (fold sync_serve [] sync_init) = (Inr e, snd ?p)"
    using p by simp
  from record_retry [OF k this young, of "env_at 4" 0]
  have "fst (RecordEnvelope (env_at 4) 0 (demo_envelope ''c1'' ''o'') (fold sync_serve ?rs (snd ?p))) = Inr e"
    by (auto simp: Let_def case_prod_unfold)
  also have "Inr e = fst ?p" by (subst p) (rule fst_conv [symmetric])
  finally show ?thesis by (simp only: Let_def)
qed

text \<open>
  C40: Reusing a client event id for something else is refused: if the id belongs to an event with
  another object, operation or source device, the request fails with the conflict sentinel and
  changes nothing.
\<close>

theorem record_conflict:
  assumes "client_keys_unique (ss_events s)" "keyed_envelope en" "lookup_ok E"
    "BuildSyncEventType (en_object_type en) (en_operation en) = Inr t"
    "x \<in> set (ss_events s)" "ev_user_id x = en_user_id en" "ev_client_event_id x = en_client_event_id en"
    "(ev_object_type x, ev_object_id x, ev_operation x, ev_source_device_id x)
       \<noteq> (en_object_type en, en_object_id en, en_operation en, en_source_device_id en)"
  shows "\<exists>e. RecordEnvelope E n en s = (Inl e, s) \<and> err_is e ErrSyncIdempotencyConflict"
proof -
  have "GetEventByClientEventID E n (en_user_id en) (en_client_event_id en) s = Inr x"
    using lookup_unique [OF assms(1,5)] assms(2,3,6,7)
    by (simp add: GetEventByClientEventID_def db_simps lookup_ok_def keyed_envelope_def)
  with assms(2,4,8) show ?thesis
    by (auto simp: RecordEnvelope_def recordEnvelopeWithRepo_def keyed_envelope_def validateIdempotentReplay_def)
qed

definition demo_one :: sync_state where
  "demo_one = snd (RecordEnvelope (env_at 0) 0 (demo_envelope ''c1'' ''o'') sync_init)"

theorem record_conflict_witness:
  "\<exists>e. RecordEnvelope (env_at 1) 0 (demo_envelope ''c1'' ''other'') demo_one = (Inl e, demo_one)
     \<and> err_is e ErrSyncIdempotencyConflict"
proof (rule record_conflict [where t = "''conversation.created''" and x = "hd (ss_events demo_one)"])
  show "client_keys_unique (ss_events demo_one)"
    unfolding demo_one_def by (intro client_keys_unique_Record) (simp add: client_keys_unique_def sync_init_def)
  have "ss_events demo_one \<noteq> []" by code_simp
  then show "hd (ss_events demo_one) \<in> set (ss_events demo_one)" by simp
  show "BuildSyncEventType (en_object_type (demo_envelope ''c1'' ''other''))
      (en_operation (demo_envelope ''c1'' ''other'')) = Inr ''conversation.created''" by code_simp
  show "ev_user_id (hd (ss_events demo_one)) = en_user_id (demo_envelope ''c1'' ''other'')" by code_simp
  show "ev_client_event_id (hd (ss_events demo_one)) = en_client_event_id (demo_envelope ''c1'' ''other'')"
    by code_simp
  have "ev_object_id (hd (ss_events demo_one)) \<noteq> en_object_id (demo_envelope ''c1'' ''other'')" by code_simp
  then show "(ev_object_type (hd (ss_events demo_one)), ev_object_id (hd (ss_events demo_one)),
      ev_operation (hd (ss_events demo_one)), ev_source_device_id (hd (ss_events demo_one)))
    \<noteq> (en_object_type (demo_envelope ''c1'' ''other''), en_object_id (demo_envelope ''c1'' ''other''),
       en_operation (demo_envelope ''c1'' ''other''), en_source_device_id (demo_envelope ''c1'' ''other''))"
    by simp
qed (simp_all add: keyed_envelope_def demo_envelope_def)

lemma UpdateCursor_Inr:
  assumes "UpdateCursor E u d k s = Inr s'"
  obtains c where "GetCursor E u d s = Inr c" "ss_cursors s' = save_row (\<lambda>c. (cu_user_id c, cu_device_id c))
      (c\<lparr>cu_last_synced := max k (cu_last_synced c), cu_updated_at := e_now E\<rparr>) (ss_cursors s)"
proof -
  from assms obtain c where c: "GetCursor E u d s = Inr c"
    by (auto simp: UpdateCursor_def split: sum.splits)
  have m: "(if k < cu_last_synced c then cu_last_synced c else k) = max k (cu_last_synced c)"
    by (auto simp: max_def)
  have "ss_cursors s' = save_row (\<lambda>c. (cu_user_id c, cu_device_id c))
      (c\<lparr>cu_last_synced := max k (cu_last_synced c), cu_updated_at := e_now E\<rparr>) (ss_cursors s)"
    using assms by (cases "e_db E ''UpdateCursor'' 0") (auto simp: UpdateCursor_def Let_def db_save_def c simp flip: m)
  with c that show ?thesis by blast
qed

text \<open>
  An acknowledgement moves the cursor of its own device forward to the acknowledged number, and
  never back: a stale or repeated acknowledgement leaves it where it was.
\<close>

theorem ack_is_monotone:
  assumes "AckEvents E u d k s = Inr s'" "GetCursor E u d s = Inr c" "GetCursor E u d s' = Inr c'"
  shows "cu_last_synced c' = max k (cu_last_synced c)"
proof -
  let ?P = "\<lambda>c. cu_user_id c = u \<and> cu_device_id c = d"
  from assms(1,2) obtain t where sv: "ss_cursors s' = save_row (\<lambda>c. (cu_user_id c, cu_device_id c))
      (c\<lparr>cu_last_synced := max k (cu_last_synced c), cu_updated_at := t\<rparr>) (ss_cursors s)"
    unfolding AckEvents_def by (auto elim!: UpdateCursor_Inr)
  have c: "cu_user_id c = u" "cu_device_id c = d"
    using assms(2) by (auto simp: GetCursor_def db_simps dest: first_by_Some split: sum.splits if_splits)
  have "first_by cu_user_id ?P (ss_cursors s') =
      Some (c\<lparr>cu_last_synced := max k (cu_last_synced c), cu_updated_at := t\<rparr>)"
    using c by (intro first_by_unique) (auto simp: sv table_simps)
  with assms(3) show ?thesis
    by (auto simp: GetCursor_def db_first_def split: if_splits)
qed

theorem ack_is_monotone_witness:
  "\<exists>s1 s2 c1 c2. AckEvents env0 7 ''laptop'' 5 sync_init = Inr s1 \<and> AckEvents env0 7 ''laptop'' 3 s1 = Inr s2
     \<and> GetCursor env0 7 ''laptop'' s1 = Inr c1 \<and> GetCursor env0 7 ''laptop'' s2 = Inr c2
     \<and> cu_last_synced c2 = max 3 (cu_last_synced c1) \<and> cu_last_synced c1 = 5"
proof -
  define s1 where "s1 = projr (AckEvents env0 7 ''laptop'' 5 sync_init)"
  define s2 where "s2 = projr (AckEvents env0 7 ''laptop'' 3 s1)"
  define c1 where "c1 = projr (GetCursor env0 7 ''laptop'' s1)"
  define c2 where "c2 = projr (GetCursor env0 7 ''laptop'' s2)"
  have a: "AckEvents env0 7 ''laptop'' 5 sync_init = Inr s1" "AckEvents env0 7 ''laptop'' 3 s1 = Inr s2"
    "GetCursor env0 7 ''laptop'' s1 = Inr c1" "GetCursor env0 7 ''laptop'' s2 = Inr c2" "cu_last_synced c1 = 5"
    unfolding c2_def c1_def s2_def s1_def by code_simp+
  from ack_is_monotone [OF a(2,3,4)] a show ?thesis by blast
qed

end
