(* ===== verification/SyncPaging.thy ===== *)
theory SyncPaging
  imports SyncProps
begin

text \<open>
  Reading the log page by page through the pull endpoint: a client that follows \<open>next_after\<close> while
  \<open>has_more\<close> is set reads every event after its starting point, once and in order. The one
  page size for which this fails, 500, is shown too.
\<close>

section \<open>Pages of an ordered log\<close>

abbreviation by_sequence :: "sync_event list \<Rightarrow> bool" where
  "by_sequence \<equiv> sorted_wrt (\<lambda>e e'. ev_sequence e < ev_sequence e')"

lemma events_since_ordered:
  assumes "events_ordered evs"
  shows "by_sequence (events_since u a evs)"
proof -
  let ?xs = "filter (\<lambda>e. ev_user_id e = u \<and> a < ev_sequence e) evs"
  have "by_sequence ?xs" using assms
    by (induction evs) (auto simp: events_ordered_def)
  then have "sorted (map ev_sequence ?xs)"
    by (induction ?xs) (auto simp: sorted_wrt_map elim!: sorted_wrt_mono_rel [rotated])
  then have "events_since u a evs = ?xs" by (simp add: events_since_def sort_key_id_if_sorted)
  with \<open>by_sequence ?xs\<close> show ?thesis by simp
qed

lemma events_since_later:
  "a \<le> m \<Longrightarrow> events_since u m evs = filter (\<lambda>e. m < ev_sequence e) (events_since u a evs)"
  by (auto simp: events_since_def filter_sort intro!: arg_cong [of _ _ "sort_key ev_sequence"] filter_cong)

lemma in_events_since: "e \<in> set (events_since u a evs) \<longleftrightarrow> e \<in> set evs \<and> ev_user_id e = u \<and> a < ev_sequence e"
  by (auto simp: events_since_def)

lemma drop_page:
  assumes "by_sequence L" "0 < k" "k < length L"
  shows "filter (\<lambda>e. ev_sequence (last (take k L)) < ev_sequence e) L = drop k L"
proof -
  let ?m = "ev_sequence (last (take k L))"
  have ne: "take k L \<noteq> []" using assms(2,3) by auto
  have s: "by_sequence (take k L @ drop k L)" using assms(1) by simp
  have "\<forall>e\<in>set (drop k L). ?m < ev_sequence e"
    using s last_in_set [OF ne] unfolding sorted_wrt_append by blast
  moreover have "\<forall>e\<in>set (take k L). \<not> ?m < ev_sequence e"
  proof
    fix e assume e: "e \<in> set (take k L)"
    have "by_sequence (butlast (take k L) @ [last (take k L)])" using s ne by (simp add: sorted_wrt_append)
    moreover have "e = last (take k L) \<or> e \<in> set (butlast (take k L))"
      using e ne by (metis in_set_butlastD append_butlast_last_id Un_iff set_append empty_iff insert_iff list.set)
    ultimately show "\<not> ?m < ev_sequence e" by (auto simp: sorted_wrt_append)
  qed
  ultimately have "filter (\<lambda>e. ?m < ev_sequence e) (take k L @ drop k L) = drop k L"
    unfolding filter_append by (simp add: filter_id_conv)
  then show ?thesis by simp
qed

section \<open>The endpoint\<close>

text \<open>Whatever size a client asks for, except 500, a page holds the first events after the given
  number, up to the normalised limit, and says truthfully whether more follow.\<close>

lemma pull_events_page:
  assumes "\<not> e_db E ''GetEventsSince'' 0" "limit \<noteq> 500"
  shows "\<exists>p. pull_events E u d limit (Some a) s = Inr p
     \<and> pr_events p = take (nat (normalizeSyncLimit limit)) (events_since u a (ss_events s))
     \<and> (pr_has_more p \<longleftrightarrow> nat (normalizeSyncLimit limit) < length (events_since u a (ss_events s)))
     \<and> pr_next_after p = (if pr_events p = [] then a else ev_sequence (last (pr_events p)))"
proof -
  let ?L = "events_since u a (ss_events s)"
  obtain k where k: "normalizeSyncLimit limit = int k" "0 < k" "k < 500"
  proof (rule that [of "nat (normalizeSyncLimit limit)"])
  qed (use assms(2) in \<open>auto simp: normalizeSyncLimit_def\<close>)
  have g: "GetEventsAfter E u a (int k + 1) s = Inr (take (Suc k) ?L)"
    using k assms(1) by (simp add: GetEventsAfter_def GetEventsSince_def nat_add_distrib)
  have more: "int k < int (length (take (Suc k) ?L)) \<longleftrightarrow> k < length ?L" by auto
  have page: "(if k < length ?L then take k (take (Suc k) ?L) else take (Suc k) ?L) = take k ?L"
    by (simp add: min_def)
  show ?thesis unfolding pull_events_def Let_def k(1) option.case g sum.case more nat_int page by simp
qed

text \<open>A client that reads on until it is told there is no more; \<open>None\<close> if a request fails or the
  bound on the number of pages is reached.\<close>

fun drain :: "env \<Rightarrow> uuid \<Rightarrow> string \<Rightarrow> int \<Rightarrow> nat \<Rightarrow> 64 word \<Rightarrow> sync_state \<Rightarrow> sync_event list option" where
  "drain E u d limit 0 a s = None"
| "drain E u d limit (Suc n) a s =
     (case pull_events E u d limit (Some a) s of
        Inl _ \<Rightarrow> None
      | Inr p \<Rightarrow> if pr_has_more p
                 then map_option (\<lambda>es. pr_events p @ es) (drain E u d limit n (pr_next_after p) s)
                 else Some (pr_events p))"

text \<open>
  C2: A client that pages through the log with any page size other than 500 gets exactly the events
  after its starting number, each once and in order of number, in at most one more page than there
  are events.
\<close>

theorem paging_delivers_everything:
  assumes "events_ordered (ss_events s)" "\<not> e_db E ''GetEventsSince'' 0" "limit \<noteq> 500"
    "length (events_since u a (ss_events s)) < n"
  shows "drain E u d limit n a s = Some (events_since u a (ss_events s))"
  using assms(4)
proof (induction n arbitrary: a)
  case (Suc n)
  let ?L = "events_since u a (ss_events s)" and ?k = "nat (normalizeSyncLimit limit)"
  obtain p where p: "pull_events E u d limit (Some a) s = Inr p" "pr_events p = take ?k ?L"
    "pr_has_more p \<longleftrightarrow> ?k < length ?L"
    "pr_next_after p = (if pr_events p = [] then a else ev_sequence (last (pr_events p)))"
    using pull_events_page [OF assms(2,3)] by blast
  show ?case
  proof (cases "?k < length ?L")
    case True
    have k: "0 < ?k" by (auto simp: normalizeSyncLimit_def)
    then have ne: "take ?k ?L \<noteq> []" using True by auto
    let ?m = "ev_sequence (last (take ?k ?L))"
    have next_m: "pr_next_after p = ?m" using p(2,4) ne by simp
    have "last (take ?k ?L) \<in> set ?L" using ne by (metis last_in_set in_set_takeD)
    then have "a < ?m" by (simp add: in_events_since)
    then have "a \<le> ?m" by simp
    then have rest: "events_since u ?m (ss_events s) = drop ?k ?L"
      using drop_page [OF events_since_ordered [OF assms(1)] k True] by (simp add: events_since_later)
    have "drain E u d limit n ?m s = Some (drop ?k ?L)"
      using Suc.IH [of ?m] Suc.prems k True by (simp add: rest)
    with p True next_m show ?thesis by simp
  next
    case False
    with p show ?thesis by simp
  qed
qed simp

theorem paging_delivers_everything_witness:
  "drain env0 7 ''laptop'' 2 9 0 demo_log = Some (events_since 7 0 (ss_events demo_log))
   \<and> length (events_since 7 0 (ss_events demo_log)) = 3"
proof -
  have "events_ordered (ss_events demo_log)" by code_simp
  moreover have l: "length (events_since 7 0 (ss_events demo_log)) = 3" by code_simp
  ultimately have "drain env0 7 ''laptop'' 2 9 0 demo_log = Some (events_since 7 0 (ss_events demo_log))"
    by (intro paging_delivers_everything) (simp_all add: env0_def)
  with l show ?thesis by simp
qed

text \<open>
  With the largest page size the server announces, 500, the endpoint asks the service for 501
  rows, which the service takes as out of range and cuts to 100: a client with more than 100
  pending events gets 100 of them and is told that there are no more.
\<close>

theorem limit_500_says_done_too_early:
  assumes "\<not> e_db E ''GetEventsSince'' 0" "100 < length (events_since u a (ss_events s))"
  shows "\<exists>p. pull_events E u d (pc_max_limit (sc_pull GetCapabilities)) (Some a) s = Inr p \<and> length (pr_events p) = 100 \<and> \<not> pr_has_more p"
  using assms
  by (auto simp: GetCapabilities_def pull_events_def normalizeSyncLimit_def GetEventsAfter_def GetEventsSince_def Let_def)

definition long_log :: sync_state where
  "long_log = sync_init\<lparr>ss_events := map (\<lambda>k.
     new_sync_event (env_at k) 0 (demo_envelope '''' ''o'') ''conversation.created'' (of_nat (Suc k))) [0..<150]\<rparr>"

theorem limit_500_says_done_too_early_witness:
  "\<exists>p. pull_events env0 7 ''laptop'' (pc_max_limit (sc_pull GetCapabilities)) (Some 0) long_log = Inr p
      \<and> length (pr_events p) = 100 \<and> \<not> pr_has_more p"
proof (rule limit_500_says_done_too_early)
  have f: "filter (\<lambda>e. ev_user_id e = 7 \<and> 0 < ev_sequence e) (ss_events long_log) = ss_events long_log"
    unfolding filter_id_conv
    by (auto simp: long_log_def new_sync_event_def demo_envelope_def word_less_nat_alt unat_of_nat simp del: of_nat_Suc)
  then have "length (events_since 7 0 (ss_events long_log)) = length (ss_events long_log)"
    unfolding events_since_def f by simp
  also have "\<dots> = 150" by (simp add: long_log_def)
  finally show "100 < length (events_since 7 0 (ss_events long_log))" by simp
qed (simp add: env0_def)

end
