(* ===== verification/SyncRace.thy ===== *)
theory SyncRace
  imports SyncPaging
begin

text \<open>
  A device that reads from its cursor and acknowledges no more than it was given. As long as recordings do not
  overlap, its cursor never passes an event it was not given (\<open>quiet_reach\<close>). The service takes the
  sequence number and inserts the event in two transactions, so recordings of different requests
  can overlap (\<open>racing_step\<close>); then the cursor can pass an event for ever.
\<close>

section \<open>Where a cursor stands\<close>

definition cursor_of :: "uuid \<Rightarrow> string \<Rightarrow> sync_state \<Rightarrow> 64 word" where
  "cursor_of u d s =
     (case first_by cu_user_id (\<lambda>c. cu_user_id c = u \<and> cu_device_id c = d) (ss_cursors s) of
        None \<Rightarrow> 0 | Some c \<Rightarrow> cu_last_synced c)"

lemma GetCursor_cursor_of: "GetCursor E u d s = Inr c \<Longrightarrow> cu_last_synced c = cursor_of u d s
    \<and> cu_user_id c = u \<and> cu_device_id c = d"
  by (auto simp: GetCursor_def db_first_def cursor_of_def dest: first_by_Some split: if_splits option.splits)

lemma AckEvents_ok:
  "\<not> e_db E ''GetCursor'' 0 \<Longrightarrow> \<not> e_db E ''UpdateCursor'' 0 \<Longrightarrow> succeeds (AckEvents E u d k s)"
  by (auto simp: AckEvents_def UpdateCursor_def GetCursor_def db_first_def db_save_def Let_def
      split: option.splits)

lemma cursor_of_Ack:
  assumes "AckEvents E u d k s = Inr s'"
  shows "cursor_of u' d' s' = (if u' = u \<and> d' = d then max k (cursor_of u d s) else cursor_of u' d' s)"
proof -
  let ?key = "\<lambda>c. (cu_user_id c, cu_device_id c)"
  from assms obtain c where c: "GetCursor E u d s = Inr c" and
    sv: "ss_cursors s' = save_row ?key
      (c\<lparr>cu_last_synced := max k (cu_last_synced c), cu_updated_at := e_now E\<rparr>) (ss_cursors s)"
    unfolding AckEvents_def by (rule UpdateCursor_Inr)
  note cc = GetCursor_cursor_of [OF c]
  show ?thesis
  proof (cases "u' = u \<and> d' = d")
    case True
    have "first_by cu_user_id (\<lambda>c. cu_user_id c = u \<and> cu_device_id c = d) (ss_cursors s') =
      Some (c\<lparr>cu_last_synced := max k (cu_last_synced c), cu_updated_at := e_now E\<rparr>)"
      using cc by (intro first_by_unique) (auto simp: sv table_simps)
    with True cc show ?thesis by (simp add: cursor_of_def)
  next
    case False
    with cc have "filter (\<lambda>c. cu_user_id c = u' \<and> cu_device_id c = d') (ss_cursors s') =
      filter (\<lambda>c. cu_user_id c = u' \<and> cu_device_id c = d') (ss_cursors s)"
      unfolding sv by (intro filter_save_row_other) auto
    then have "cursor_of u' d' s' = cursor_of u' d' s" by (simp add: cursor_of_def first_by_def)
    with False show ?thesis by (simp only: if_False)
  qed
qed

section \<open>Recordings that do not overlap\<close>

text \<open>The state of the server and the events each device of each user has been given.\<close>

type_synonym deliveries = "(uuid \<times> string \<times> sync_event) set"

text \<open>A device may acknowledge, whenever it likes, any number up to that of an event it has been given, or none above
  its cursor; between reading and acknowledging other requests may run.\<close>

inductive quiet_reach :: "sync_state \<Rightarrow> deliveries \<Rightarrow> bool" where
  start: "quiet_reach sync_init {}"
| rec_event: "quiet_reach s seen \<Longrightarrow> seq_room (en_user_id en) s \<Longrightarrow>
    quiet_reach (snd (RecordEnvelope E n en s)) seen"
| read: "quiet_reach s seen \<Longrightarrow> pull_events E u d limit None s = Inr p \<Longrightarrow>
    quiet_reach s (seen \<union> (\<lambda>e. (u, d, e)) ` set (pr_events p))"
| ack: "quiet_reach s seen \<Longrightarrow> (u, d, e) \<in> seen \<Longrightarrow> k \<le> ev_sequence e \<Longrightarrow> AckEvents E u d k s = Inr s' \<Longrightarrow>
    quiet_reach s' seen"
| ack_nothing_new: "quiet_reach s seen \<Longrightarrow> k \<le> cursor_of u d s \<Longrightarrow> AckEvents E u d k s = Inr s' \<Longrightarrow> quiet_reach s' seen"
| clean: "quiet_reach s seen \<Longrightarrow> CleanupOldEvents E days_kept s = Inr (n, s') \<Longrightarrow> quiet_reach s' seen"

text \<open>What a pull from the cursor gives: the first events above the cursor, and the number of the
  last of them.\<close>

lemma pull_from_cursor:
  assumes "pull_events E u d limit None s = Inr p"
  obtains m where "pr_events p = take m (events_since u (cursor_of u d s) (ss_events s))"
    "pr_next_after p = (if pr_events p = [] then 0 else ev_sequence (last (pr_events p)))"
proof -
  let ?l = "normalizeSyncLimit limit"
  obtain evs where evs: "GetEvents E u d (?l + 1) s = Inr evs"
    and p: "pr_events p = (if ?l < int (length evs) then take (nat ?l) evs else evs)"
      "pr_next_after p = (if pr_events p = [] then 0 else ev_sequence (last (pr_events p)))"
    using assms by (auto simp: pull_events_def Let_def split: sum.splits)
  from evs obtain m where "evs = take m (events_since u (cursor_of u d s) (ss_events s))"
    by (auto simp: GetEvents_def GetEventsAfter_def GetEventsSince_def Let_def
        dest: GetCursor_cursor_of split: sum.splits if_splits)
  then obtain m' where "pr_events p = take m' (events_since u (cursor_of u d s) (ss_events s))"
    using p(1) by (auto simp: take_take split: if_splits)
  with p(2) that show thesis by blast
qed

definition nothing_skipped :: "sync_state \<Rightarrow> deliveries \<Rightarrow> bool" where
  "nothing_skipped s seen \<longleftrightarrow>
     (\<forall>e\<in>set (ss_events s). \<forall>d. ev_sequence e \<le> cursor_of (ev_user_id e) d s \<longrightarrow> (ev_user_id e, d, e) \<in> seen)"

definition cursors_below :: "sync_state \<Rightarrow> bool" where
  "cursors_below s \<longleftrightarrow> (\<forall>u d. cursor_of u d s < next_seq u (ss_seqs s))"

lemma in_take_before_last:
  assumes "by_sequence L" "e \<in> set L" "take m L \<noteq> []" "ev_sequence e \<le> ev_sequence (last (take m L))"
  shows "e \<in> set (take m L)"
proof (rule ccontr)
  assume "e \<notin> set (take m L)"
  then have "e \<in> set (drop m L)" using assms(2) by (metis append_take_drop_id Un_iff set_append)
  moreover have "by_sequence (take m L @ drop m L)" using assms(1) by simp
  ultimately have "ev_sequence (last (take m L)) < ev_sequence e"
    using last_in_set [OF assms(3)] unfolding sorted_wrt_append by blast
  with assms(4) show False by simp
qed

lemma RecordEnvelope_cursors: "ss_cursors (snd (RecordEnvelope E n en s)) = ss_cursors s"
proof -
  obtain r s' where rs: "RecordEnvelope E n en s = (r, s')" by fastforce
  from RecordEnvelope_tables [OF rs] obtain s1 where
    s1: "recordEnvelopeWithRepo E n en s = (r, s1)" "ss_cursors s' = ss_cursors s1" by blast
  from s1(1) have "ss_cursors s1 = ss_cursors s"
    by (cases rule: recordEnvelopeWithRepo_cases) (auto dest: GetNextSequence_events)
  with s1 rs show ?thesis by simp
qed

lemma RecordEnvelope_fresh_seq:
  assumes "one_counter (ss_seqs s)" "RecordEnvelope E n en s = (r, s')" "e \<in> set (ss_events s')"
    "e \<notin> set (ss_events s)"
  shows "ev_sequence e = next_seq (ev_user_id e) (ss_seqs s)"
proof -
  obtain s1 where s1: "recordEnvelopeWithRepo E n en s = (r, s1)" "ss_events s' = ss_events s1"
    using RecordEnvelope_tables [OF assms(2)] by blast
  from s1(1) show ?thesis
  proof (cases rule: recordEnvelopeWithRepo_cases)
    case (fresh e' k s2)
    have "ss_events s2 = ss_events s" using GetNextSequence_events [OF fresh(2)] by simp
    then have "e = e'" using fresh(4) s1(2) assms(3,4) by simp
    with fresh(5,6) GetNextSequence_Inr(1) [OF fresh(2) assms(1)] show ?thesis
      by (simp add: records_envelope_def)
  qed (use assms(3,4) s1(2) in \<open>auto dest: GetNextSequence_events\<close>)
qed

text \<open>Everything up to a delivered event has been delivered too, and no delivered event is ahead of its counter.\<close>

definition delivered_in_order :: "sync_state \<Rightarrow> deliveries \<Rightarrow> bool" where
  "delivered_in_order s seen \<longleftrightarrow>
     (\<forall>(u, d, e)\<in>seen. ev_sequence e < next_seq u (ss_seqs s)
        \<and> (\<forall>e'\<in>set (ss_events s). ev_user_id e' = u \<and> ev_sequence e' \<le> ev_sequence e \<longrightarrow> (u, d, e') \<in> seen))"

definition quiet_inv :: "sync_state \<Rightarrow> deliveries \<Rightarrow> bool" where
  "quiet_inv s seen \<longleftrightarrow> sync_inv s \<and> cursors_below s \<and> nothing_skipped s seen \<and> delivered_in_order s seen"

lemma RecordEnvelope_next_seq:
  assumes "one_counter (ss_seqs s)" "seq_room (en_user_id en) s" "k < next_seq u (ss_seqs s)"
  shows "k < next_seq u (ss_seqs (snd (RecordEnvelope E n en s)))"
proof -
  obtain r s' where rs: "RecordEnvelope E n en s = (r, s')" by fastforce
  obtain s1 where s1: "recordEnvelopeWithRepo E n en s = (r, s1)" "ss_seqs s' = ss_seqs s1"
    using RecordEnvelope_tables [OF rs] by blast
  from s1(1) show ?thesis
    using assms(2,3) word_less_inc [of "next_seq u (ss_seqs s)" k]
    by (cases rule: recordEnvelopeWithRepo_cases)
       (auto simp: rs s1(2) next_seq_GetNext [OF assms(1)] seq_room_def)
qed

lemma quiet_inv_record:
  assumes "quiet_inv s seen" "seq_room (en_user_id en) s"
  shows "quiet_inv (snd (RecordEnvelope E n en s)) seen"
proof -
  obtain r s' where rs: "RecordEnvelope E n en s = (r, s')" by fastforce
  have oc: "one_counter (ss_seqs s)" using assms(1) by (simp add: quiet_inv_def sync_inv_def)
  have inv: "sync_inv s'" using sync_inv_RecordEnvelope [of s en E n] assms rs by (simp add: quiet_inv_def)
  have cur: "cursor_of u d s' = cursor_of u d s" for u d
    using RecordEnvelope_cursors [of E n en s] rs by (simp add: cursor_of_def)
  have up: "k < next_seq u (ss_seqs s')" if "k < next_seq u (ss_seqs s)" for u k
    using RecordEnvelope_next_seq [OF oc assms(2) that, of E n] rs by simp
  have fresh: "ev_sequence e = next_seq (ev_user_id e) (ss_seqs s)" if "e \<in> set (ss_events s')" "e \<notin> set (ss_events s)" for e
    by (rule RecordEnvelope_fresh_seq [OF oc rs that])
  have "(ev_user_id e, d, e) \<in> seen"
    if e: "e \<in> set (ss_events s')" and le: "ev_sequence e \<le> cursor_of (ev_user_id e) d s'" for e d
  proof (cases "e \<in> set (ss_events s)")
    case True
    with le cur assms(1) show ?thesis by (auto simp: quiet_inv_def nothing_skipped_def)
  next
    case False
    have "cursor_of (ev_user_id e) d s < next_seq (ev_user_id e) (ss_seqs s)"
      using assms(1) by (simp add: quiet_inv_def cursors_below_def)
    with fresh [OF e False] le cur show ?thesis by simp
  qed
  moreover have "(u, d, e') \<in> seen" if x: "(u, d, e) \<in> seen" and e': "e' \<in> set (ss_events s')" "ev_user_id e' = u"
    and le: "ev_sequence e' \<le> ev_sequence e" for u d e e'
  proof (cases "e' \<in> set (ss_events s)")
    case True
    with x e' le assms(1) show ?thesis by (auto simp: quiet_inv_def delivered_in_order_def)
  next
    case False
    have "ev_sequence e < next_seq u (ss_seqs s)" using x assms(1) by (auto simp: quiet_inv_def delivered_in_order_def)
    with fresh [OF e'(1) False] e'(2) le show ?thesis by simp
  qed
  moreover have "ev_sequence e < next_seq u (ss_seqs s')" if "(u, d, e) \<in> seen" for u d e
    using that assms(1) by (intro up) (auto simp: quiet_inv_def delivered_in_order_def)
  moreover have "cursors_below s'" using assms(1) cur up by (auto simp: quiet_inv_def cursors_below_def)
  ultimately show ?thesis using inv rs by (auto simp: quiet_inv_def nothing_skipped_def delivered_in_order_def)
qed

lemma quiet_inv_read:
  assumes "quiet_inv s seen" "pull_events E u d limit None s = Inr p"
  shows "quiet_inv s (seen \<union> (\<lambda>e. (u, d, e)) ` set (pr_events p))"
proof -
  let ?L = "events_since u (cursor_of u d s) (ss_events s)"
  obtain m where page: "pr_events p = take m ?L" using assms(2) by (rule pull_from_cursor)
  have inv: "sync_inv s" using assms(1) by (simp add: quiet_inv_def)
  have ord: "by_sequence ?L" using inv by (intro events_since_ordered) (simp add: sync_inv_def)
  have "ev_sequence e < next_seq u (ss_seqs s)
      \<and> (\<forall>e'\<in>set (ss_events s). ev_user_id e' = u \<and> ev_sequence e' \<le> ev_sequence e \<longrightarrow>
          (u, d, e') \<in> seen \<union> (\<lambda>e. (u, d, e)) ` set (pr_events p))" if e: "e \<in> set (pr_events p)" for e
  proof
    have "e \<in> set ?L" using e page by (metis in_set_takeD)
    then have "e \<in> set (ss_events s)" "ev_user_id e = u" by (simp_all add: in_events_since)
    with inv show "ev_sequence e < next_seq u (ss_seqs s)" by (auto simp: sync_inv_def below_counter_def list_all_iff)
    have ne: "take m ?L \<noteq> []" using e page by (metis empty_iff empty_set)
    have top: "ev_sequence e \<le> ev_sequence (last (take m ?L))"
    proof -
      have "by_sequence (take m ?L)" using ord by (rule sorted_wrt_take)
      then have "by_sequence (butlast (take m ?L) @ [last (take m ?L)])" using ne by simp
      moreover have "e \<in> set (butlast (take m ?L) @ [last (take m ?L)])" using e page ne by simp
      ultimately show ?thesis by (auto simp: sorted_wrt_append)
    qed
    show "\<forall>e'\<in>set (ss_events s). ev_user_id e' = u \<and> ev_sequence e' \<le> ev_sequence e \<longrightarrow>
        (u, d, e') \<in> seen \<union> (\<lambda>e. (u, d, e)) ` set (pr_events p)"
    proof (intro ballI impI)
      fix e' assume e': "e' \<in> set (ss_events s)" "ev_user_id e' = u \<and> ev_sequence e' \<le> ev_sequence e"
      show "(u, d, e') \<in> seen \<union> (\<lambda>e. (u, d, e)) ` set (pr_events p)"
      proof (cases "ev_sequence e' \<le> cursor_of u d s")
        case True
        with e' assms(1) show ?thesis by (auto simp: quiet_inv_def nothing_skipped_def)
      next
        case False
        with e' have "e' \<in> set ?L" by (simp add: in_events_since)
        moreover have "ev_sequence e' \<le> ev_sequence (last (take m ?L))" using top e'(2) by (meson order_trans)
        ultimately have "e' \<in> set (take m ?L)" by (intro in_take_before_last [OF ord _ ne])
        then show ?thesis by (simp add: page)
      qed
    qed
  qed
  moreover have "delivered_in_order s seen" "nothing_skipped s seen" "cursors_below s" using assms(1) by (simp_all add: quiet_inv_def)
  ultimately show ?thesis using inv
    by (auto simp: quiet_inv_def nothing_skipped_def delivered_in_order_def)
qed

lemma quiet_inv_ack:
  assumes "quiet_inv s seen" "AckEvents E u d k s = Inr s'"
    and "k \<le> cursor_of u d s \<or> (u, d, e) \<in> seen \<and> k \<le> ev_sequence e"
  shows "quiet_inv s' seen"
proof -
  note t = AckEvents_tables [OF assms(2)]
  note cur = cursor_of_Ack [OF assms(2)]
  have d: "delivered_in_order s seen" "nothing_skipped s seen" "cursors_below s" "sync_inv s"
    using assms(1) by (simp_all add: quiet_inv_def)
  have "k < next_seq u (ss_seqs s)"
  proof (cases "k \<le> cursor_of u d s")
    case True
    with d(3) show ?thesis using order_le_less_trans unfolding cursors_below_def by blast
  next
    case False
    with assms(3) d(1) have "k \<le> ev_sequence e" "ev_sequence e < next_seq u (ss_seqs s)" by (auto simp: delivered_in_order_def)
    then show ?thesis by (rule order_le_less_trans)
  qed
  then have below: "cursors_below s'" using d(3) t by (auto simp: cursors_below_def cur max_def)
  have "(ev_user_id x, d', x) \<in> seen"
    if x: "x \<in> set (ss_events s')" and le: "ev_sequence x \<le> cursor_of (ev_user_id x) d' s'" for x d'
  proof (cases "ev_sequence x \<le> cursor_of (ev_user_id x) d' s")
    case True
    with x t d(2) show ?thesis by (auto simp: nothing_skipped_def)
  next
    case False
    with le cur have ud: "ev_user_id x = u" "d' = d" and k: "ev_sequence x \<le> k" "\<not> k \<le> cursor_of u d s"
      by (auto simp: max_def split: if_splits)
    with assms(3) have "(u, d, e) \<in> seen" "ev_sequence x \<le> ev_sequence e" by auto
    with x t ud d(1) show ?thesis by (auto simp: delivered_in_order_def)
  qed
  then show ?thesis using below d t sync_inv_cong [of s' s]
    by (simp add: quiet_inv_def nothing_skipped_def delivered_in_order_def)
qed

lemma quiet_inv_clean:
  assumes "quiet_inv s seen" "CleanupOldEvents E k s = Inr (n, s')"
  shows "quiet_inv s' seen"
proof -
  from CleanupOldEvents_tables [OF assms(2)] obtain P where
    t: "ss_seqs s' = ss_seqs s" "ss_cursors s' = ss_cursors s" "ss_events s' = filter P (ss_events s)" by blast
  have "cursor_of u d s' = cursor_of u d s" for u d by (simp add: cursor_of_def t(2))
  with t assms(1) sync_inv_filter [of s s' P] show ?thesis
    by (auto simp: quiet_inv_def cursors_below_def nothing_skipped_def delivered_in_order_def)
qed

lemma quiet_inv_init: "quiet_inv sync_init {}"
  by (simp add: quiet_inv_def sync_inv_init cursors_below_def nothing_skipped_def delivered_in_order_def)
     (simp add: sync_init_def cursor_of_def first_by_def next_seq_def)

lemma quiet_reach_inv: "quiet_reach s seen \<Longrightarrow> quiet_inv s seen"
  by (induction rule: quiet_reach.induct)
     (auto intro: quiet_inv_init quiet_inv_record quiet_inv_read quiet_inv_ack quiet_inv_clean)

text \<open>
  C3: When recordings do not overlap, and a device reads from its cursor and acknowledges no number above what it was
  given, at any time and in any order with other requests, then every event at or below its cursor has been delivered
  to it. (The service itself takes any number a device acknowledges.)
\<close>

theorem cursor_never_passes_undelivered:
  assumes "quiet_reach s seen" "e \<in> set (ss_events s)" "ev_sequence e \<le> cursor_of (ev_user_id e) d s"
  shows "(ev_user_id e, d, e) \<in> seen"
  using quiet_reach_inv [OF assms(1)] assms(2,3) by (simp add: quiet_inv_def nothing_skipped_def)

lemma quiet_reach_demo_one: "quiet_reach demo_one {}"
proof -
  have "seq_room (en_user_id (demo_envelope ''c1'' ''o'')) sync_init" by code_simp
  then show ?thesis unfolding demo_one_def by (intro quiet_reach.rec_event quiet_reach.start)
qed

theorem cursor_never_passes_undelivered_witness:
  "\<exists>s seen e. e \<in> set (ss_events s) \<and> cursor_of 7 ''phone'' s = 1 \<and> ev_sequence e = 1 \<and> (7, ''phone'', e) \<in> seen"
proof -
  define p where "p = projr (pull_events env0 7 ''phone'' 10 None demo_one)"
  define s where "s = projr (AckEvents env0 7 ''phone'' 1 demo_one)"
  have p: "pull_events env0 7 ''phone'' 10 None demo_one = Inr p"
    unfolding p_def by (rule succeeds_projr) code_simp
  have "pr_next_after p = 1" unfolding p_def by code_simp
  moreover have "AckEvents env0 7 ''phone'' 1 demo_one = Inr s"
    unfolding s_def by (rule succeeds_projr) (rule AckEvents_ok; simp add: env0_def)
  ultimately have s: "AckEvents env0 7 ''phone'' (pr_next_after p) demo_one = Inr s" by simp
  have ne: "ss_events demo_one \<noteq> []" by code_simp
  have h: "ev_user_id (hd (ss_events demo_one)) = 7" "ev_sequence (hd (ss_events demo_one)) = 1" by code_simp+
  have "ss_cursors demo_one = []" by code_simp
  with cursor_of_Ack [OF s, of 7 "''phone''"] \<open>pr_next_after p = 1\<close> have k: "cursor_of 7 ''phone'' s = 1"
    by (simp add: cursor_of_def first_by_def)
  have "hd (ss_events demo_one) \<in> set (ss_events s)" using ne AckEvents_tables [OF s] by simp
  note in_s = this
  have "ev_sequence (hd (ss_events demo_one)) \<le> cursor_of (ev_user_id (hd (ss_events demo_one))) ''phone'' s"
    by (simp only: h k order_refl)
  have "hd (ss_events demo_one) \<in> set (pr_events p)" unfolding p_def by code_simp
  then have "(7 :: uuid, ''phone'', hd (ss_events demo_one)) \<in> {} \<union> (\<lambda>e. (7, ''phone'', e)) ` set (pr_events p)" by blast
  note reach = quiet_reach.ack [OF quiet_reach.read [OF quiet_reach_demo_one p] this _ s]
  have "pr_next_after p \<le> ev_sequence (hd (ss_events demo_one))" by (simp only: h \<open>pr_next_after p = 1\<close> order_refl)
  note reach = reach [OF this]
  have "ev_sequence (hd (ss_events demo_one)) \<le> cursor_of (ev_user_id (hd (ss_events demo_one))) ''phone'' s"
    by (simp only: h k order_refl)
  from cursor_never_passes_undelivered [OF reach in_s this]
  have "(7 :: uuid, ''phone'', hd (ss_events demo_one)) \<in> {} \<union> (\<lambda>e. (7, ''phone'', e)) ` set (pr_events p)"
    by (simp only: h)
  with in_s k h show ?thesis by blast
qed

section \<open>Recordings that overlap\<close>

text \<open>
  \<open>RecordEnvelope\<close> outside a caller's transaction takes the number in one transaction and
  inserts the event in another. \<open>reserve\<close> is its part up to and including \<open>GetNextSequence\<close>,
  \<open>insert_event\<close> the rest; between the two, other requests run.
\<close>

record sync_world =
  w_db :: sync_state
  w_open :: "(env \<times> nat \<times> sync_envelope \<times> 64 word) list"
  w_seen :: deliveries

definition reserve :: "env \<Rightarrow> nat \<Rightarrow> sync_envelope \<Rightarrow> sync_state \<Rightarrow> (64 word \<times> sync_state) result" where
  "reserve E n en s =
     (case BuildSyncEventType (en_object_type en) (en_operation en) of
        Inl e \<Rightarrow> Inl e
      | Inr _ \<Rightarrow>
          (case (if en_client_event_id en \<noteq> ''''
                 then GetEventByClientEventID E n (en_user_id en) (en_client_event_id en) s
                 else Inl ErrRecordNotFound) of
             Inr _ \<Rightarrow> Inl ErrDuplicateKey
           | Inl _ \<Rightarrow> GetNextSequence E n (en_user_id en) s))"

definition insert_event :: "env \<Rightarrow> nat \<Rightarrow> sync_envelope \<Rightarrow> 64 word \<Rightarrow> sync_state \<Rightarrow> sync_state result" where
  "insert_event E n en k s =
     (case BuildSyncEventType (en_object_type en) (en_operation en) of
        Inl e \<Rightarrow> Inl e
      | Inr eventType \<Rightarrow>
          (let event = new_sync_event E n en eventType k
           in case CreateEvent E n event s of
                Inl e \<Rightarrow> Inl e
              | Inr s1 \<Rightarrow> Inr (notifyDevices (en_user_id en) (en_source_device_id en) event s1)))"

text \<open>The two halves run back to back are a recording: the split adds no behaviour of its own.\<close>

lemma RecordEnvelope_halves:
  assumes "reserve E n en s = Inr (k, s1)" "insert_event E n en k s1 = Inr s2"
  shows "snd (RecordEnvelope E n en s) = s2"
  using assms
  by (auto simp: reserve_def insert_event_def RecordEnvelope_def recordEnvelopeWithRepo_def Let_def
      split: sum.splits if_splits)

inductive racing_step :: "sync_world \<Rightarrow> sync_world \<Rightarrow> bool" where
  reserve: "reserve E n en (w_db w) = Inr (k, s) \<Longrightarrow>
    racing_step w (w\<lparr>w_db := s, w_open := w_open w @ [(E, n, en, k)]\<rparr>)"
| insert_ev: "w_open w = xs @ (E, n, en, k) # ys \<Longrightarrow> insert_event E n en k (w_db w) = Inr s \<Longrightarrow>
    racing_step w (w\<lparr>w_db := s, w_open := xs @ ys\<rparr>)"
| read_ack: "pull_events E u d limit None (w_db w) = Inr p \<Longrightarrow>
    AckEvents E u d (pr_next_after p) (w_db w) = Inr s \<Longrightarrow>
    racing_step w (w\<lparr>w_db := s, w_seen := w_seen w \<union> (\<lambda>e. (u, d, e)) ` set (pr_events p)\<rparr>)"

definition racing_start :: sync_world where
  "racing_start = \<lparr>w_db = sync_init, w_open = [], w_seen = {}\<rparr>"

inductive_cases racing_stepE: "racing_step w w'"

text \<open>Two recordings by one user: the first takes number 1, the second number 2 and is inserted,
  the phone reads and acknowledges, then the first is inserted.\<close>

definition race1 :: sync_state where
  "race1 = snd (projr (reserve (env_at 0) 0 (demo_envelope '''' ''a'') sync_init))"

definition race2 :: sync_state where
  "race2 = snd (projr (reserve (env_at 1) 0 (demo_envelope '''' ''b'') race1))"

definition race3 :: sync_state where
  "race3 = projr (insert_event (env_at 1) 0 (demo_envelope '''' ''b'') 2 race2)"

definition race_page :: sync_pull_response where
  "race_page = projr (pull_events (env_at 2) 7 ''phone'' 10 None race3)"

definition race4 :: sync_state where
  "race4 = projr (AckEvents (env_at 2) 7 ''phone'' 2 race3)"

definition race5 :: sync_state where
  "race5 = projr (insert_event (env_at 0) 0 (demo_envelope '''' ''a'') 1 race4)"

lemma race_reserve1: "reserve (env_at 0) 0 (demo_envelope '''' ''a'') sync_init = Inr (1, race1)"
  unfolding race1_def by (rule succeeds_fst) code_simp+

lemma race_reserve2: "reserve (env_at 1) 0 (demo_envelope '''' ''b'') race1 = Inr (2, race2)"
  unfolding race2_def by (rule succeeds_fst) code_simp+

lemma race_insert2: "insert_event (env_at 1) 0 (demo_envelope '''' ''b'') 2 race2 = Inr race3"
  unfolding race3_def by (rule succeeds_projr) code_simp

lemma race_pull: "pull_events (env_at 2) 7 ''phone'' 10 None race3 = Inr race_page"
  unfolding race_page_def by (rule succeeds_projr) code_simp

lemma race_ack: "AckEvents (env_at 2) 7 ''phone'' (pr_next_after race_page) race3 = Inr race4"
proof -
  have "pr_next_after race_page = 2" by code_simp
  moreover have "AckEvents (env_at 2) 7 ''phone'' 2 race3 = Inr race4"
    unfolding race4_def by (rule succeeds_projr) (rule AckEvents_ok; simp add: env_at_def env0_def)
  ultimately show ?thesis by simp
qed

lemma race_insert1: "insert_event (env_at 0) 0 (demo_envelope '''' ''a'') 1 race4 = Inr race5"
  unfolding race5_def by (rule succeeds_projr) code_simp

text \<open>
  Because the number is taken and the event inserted in separate transactions, a device can lose
  an event: there is a run, in which all requests succeed and finish, after which the phone's cursor
  is above an event of its user that was never delivered to it, and pulls start above the cursor.
\<close>

theorem cursor_can_pass_an_event:
  "\<exists>w e. racing_step\<^sup>*\<^sup>* racing_start w \<and> w_open w = [] \<and> e \<in> set (ss_events (w_db w))
     \<and> ev_sequence e \<le> cursor_of (ev_user_id e) ''phone'' (w_db w) \<and> (ev_user_id e, ''phone'', e) \<notin> w_seen w"
proof -
  let ?a = "(env_at 0, 0::nat, demo_envelope '''' ''a'', 1::64 word)"
  let ?b = "(env_at 1, 0::nat, demo_envelope '''' ''b'', 2::64 word)"
  let ?seen = "(\<lambda>e. (7::uuid, ''phone'', e)) ` set (pr_events race_page)"
  let ?w1 = "\<lparr>w_db = race1, w_open = [?a], w_seen = {}\<rparr>"
  let ?w2 = "\<lparr>w_db = race2, w_open = [?a, ?b], w_seen = {}\<rparr>"
  let ?w3 = "\<lparr>w_db = race3, w_open = [?a], w_seen = {}\<rparr>"
  let ?w4 = "\<lparr>w_db = race4, w_open = [?a], w_seen = ?seen\<rparr>"
  let ?w5 = "\<lparr>w_db = race5, w_open = [], w_seen = ?seen\<rparr>"
  have 1: "racing_step racing_start ?w1"
    using racing_step.reserve [of _ _ _ racing_start, unfolded racing_start_def sync_world.simps, OF race_reserve1]
    by (simp add: racing_start_def)
  have 2: "racing_step ?w1 ?w2" using racing_step.reserve [of "env_at 1" 0 _ ?w1 2 race2] race_reserve2 by simp
  have 3: "racing_step ?w2 ?w3"
    using racing_step.insert_ev [of ?w2 "[?a]" "env_at 1" 0 _ 2 "[]" race3] race_insert2 by simp
  have 4: "racing_step ?w3 ?w4" using racing_step.read_ack [of "env_at 2" 7 "''phone''" 10 ?w3 race_page race4] race_pull race_ack
    by simp
  have 5: "racing_step ?w4 ?w5"
    using racing_step.insert_ev [of ?w4 "[]" "env_at 0" 0 _ 1 "[]" race5] race_insert1 by simp
  let ?e = "last (ss_events race5)"
  have ne: "ss_events race5 \<noteq> []" by code_simp
  have u: "ev_user_id ?e = 7" and k: "ev_sequence ?e = 1" by code_simp+
  have c: "cursor_of 7 ''phone'' race5 = 2" by code_simp
  have p: "map ev_sequence (pr_events race_page) = [2]" by code_simp
  have "?e \<notin> set (pr_events race_page)"
  proof
    assume "?e \<in> set (pr_events race_page)"
    then have "ev_sequence ?e \<in> set (map ev_sequence (pr_events race_page))" unfolding set_map by (rule imageI)
    with k show False unfolding p by simp
  qed
  then have n: "(ev_user_id ?e, ''phone'', ?e) \<notin> ?seen" by auto
  have le: "ev_sequence ?e \<le> cursor_of (ev_user_id ?e) ''phone'' race5" unfolding u k c by simp
  have "racing_step\<^sup>*\<^sup>* racing_start ?w5"
    using 1 2 3 4 5 by (meson rtranclp.rtrancl_refl rtranclp.rtrancl_into_rtrancl)
  with n le last_in_set [OF ne] show ?thesis by (intro exI [of _ ?w5] exI [of _ ?e]) simp
qed

end
