(* ===== verification/AuditLog.thy ===== *)
theory AuditLog
  imports Prelude
begin

text \<open>
  The audit log: events appended in a hash chain (\<open>internal/service/audit.go\<close> over
  \<open>internal/repository/audit_repo.go\<close>) and the verification of the chain that administrators run.
\<close>

section \<open>State\<close>

record audit_event =
  ae_id :: uuid
  ae_actor_user_id :: "uuid option"
  ae_actor_device_id :: string
  ae_action :: string
  ae_resource_type :: string
  ae_resource_id :: string
  ae_outcome :: string
  ae_ip_address :: string
  ae_user_agent :: string
  ae_metadata :: json_map
  ae_occurred_at :: time
  ae_sequence :: int
  ae_previous_hash :: string
  ae_event_hash :: string
  ae_hash_algorithm :: string

record audit_input =
  ai_actor_user_id :: "uuid option"
  ai_actor_device_id :: string
  ai_action :: string
  ai_resource_type :: string
  ai_resource_id :: string
  ai_outcome :: string
  ai_ip_address :: string
  ai_user_agent :: string
  ai_metadata :: "json_map option"

type_synonym audit_state = "audit_event list"

abbreviation "AuditOutcomeSuccess \<equiv> ''success''"
abbreviation "AuditGenesisHash \<equiv> ''GENESIS''"
abbreviation "AuditHashAlgorithmSHA256 \<equiv> ''sha256''"
abbreviation "AuditChainBreakHashMismatch \<equiv> ''hash_mismatch''"
abbreviation "AuditChainBreakLinkMismatch \<equiv> ''link_mismatch''"
abbreviation "AuditChainBreakSequenceGap \<equiv> ''sequence_gap''"
abbreviation "AuditChainBreakMissingHash \<equiv> ''missing_hash''"
abbreviation "AuditChainBreakUnsupportedAlg \<equiv> ''unsupported_hash_algorithm''"

section \<open>Repository\<close>

text \<open>The indexes of \<open>audit_events\<close>: the primary key, and the sequence where it is positive.\<close>

definition ae_clash :: "audit_event \<Rightarrow> audit_event \<Rightarrow> bool" where
  "ae_clash e x \<longleftrightarrow> ae_id x = ae_id e \<or> ae_sequence x = ae_sequence e \<and> 0 < ae_sequence e"

text \<open>The table's check constraint on the outcome, and the row as it is stored: the time has the
  resolution of the database.\<close>

definition audit_insert :: "env \<Rightarrow> nat \<Rightarrow> audit_event \<Rightarrow> audit_state \<Rightarrow> audit_state result" where
  "audit_insert E n ev s =
     (if ae_outcome ev \<notin> {''success'', ''failure'', ''denied''} then Inl (Errorf ''chk_audit_events_outcome'')
      else db_insert E ''AppendHashChained.create'' n ae_clash
             (ev\<lparr>ae_occurred_at := e_db_time E (ae_occurred_at ev)\<rparr>) s)"

definition append_prepared :: "env \<Rightarrow> nat \<Rightarrow> (audit_event option \<Rightarrow> int \<Rightarrow> audit_event result) \<Rightarrow> audit_event option
    \<Rightarrow> int \<Rightarrow> audit_state \<Rightarrow> (audit_event \<times> audit_state) result" where
  "append_prepared E n prepare previousPtr nextSequence s =
     (case prepare previousPtr nextSequence of
        Inl e \<Rightarrow> Inl e
      | Inr ev \<Rightarrow>
          (case audit_insert E n ev s of Inl e \<Rightarrow> Inl e | Inr s' \<Rightarrow> Inr (ev, s')))"

text \<open>One transaction: lock and read the row with the highest sequence, let the service complete
  the event, insert it.\<close>

definition AppendHashChained :: "env \<Rightarrow> nat \<Rightarrow> (audit_event option \<Rightarrow> int \<Rightarrow> audit_event result) \<Rightarrow> audit_state
    \<Rightarrow> (audit_event \<times> audit_state) result" where
  "AppendHashChained E n prepare s =
     (let found = db_first E ''AppendHashChained.last'' n (\<lambda>e. (- ae_sequence e, ae_id e)) (\<lambda>_. True) s;
          previousPtr = (case found of Inl _ \<Rightarrow> None | Inr previous \<Rightarrow> Some previous);
          nextSequence = (case found of Inl _ \<Rightarrow> 1 | Inr previous \<Rightarrow> ae_sequence previous + 1)
      in case found of
           Inl e \<Rightarrow>
             if e \<noteq> ErrRecordNotFound then Inl e
             else append_prepared E n prepare previousPtr nextSequence s
         | Inr _ \<Rightarrow> append_prepared E n prepare previousPtr nextSequence s)"

definition ListHashChain :: "env \<Rightarrow> int \<Rightarrow> audit_state \<Rightarrow> audit_event list result" where
  "ListHashChain E limit s =
     (if e_db E ''ListHashChain'' 0 then Inl (ErrDB ''ListHashChain'')
      else let evs = sort_key ae_sequence s in Inr (if 0 < limit then take (nat limit) evs else evs))"

section \<open>Service\<close>

text \<open>The text that is hashed: a JSON object, with the identifiers as text and the time in RFC 3339
  form, written here as the values they are texts of.\<close>

definition audit_payload :: "env \<Rightarrow> audit_event \<Rightarrow> json_map" where
  "audit_payload E e =
     [(''id'', AStr (e_uuid_str E (ae_id e))),
      (''sequence'', AInt (ae_sequence e)),
      (''previous_hash'', AStr (ae_previous_hash e)),
      (''actor_user_id'', AStr (case ae_actor_user_id e of None \<Rightarrow> '''' | Some u \<Rightarrow> e_uuid_str E u)),
      (''actor_device_id'', AStr (ae_actor_device_id e)),
      (''action'', AStr (ae_action e)),
      (''resource_type'', AStr (ae_resource_type e)),
      (''resource_id'', AStr (ae_resource_id e)),
      (''outcome'', AStr (ae_outcome e)),
      (''ip_address'', AStr (ae_ip_address e)),
      (''user_agent'', AStr (ae_user_agent e)),
      (''metadata'', AMap (ae_metadata e)),
      (''occurred_at'', ATime (ae_occurred_at e))]"

definition computeAuditEventHash :: "env \<Rightarrow> audit_event \<Rightarrow> string result" where
  "computeAuditEventHash E e =
     (case e_json E (audit_payload E e) of Inl err \<Rightarrow> Inl err | Inr text \<Rightarrow> Inr (e_sha256_hex E text))"

definition audit_prepare :: "env \<Rightarrow> audit_event \<Rightarrow> audit_event option \<Rightarrow> int \<Rightarrow> audit_event result" where
  "audit_prepare E event previous nextSequence =
     (let event = event\<lparr>ae_sequence := nextSequence, ae_hash_algorithm := AuditHashAlgorithmSHA256,
                       ae_previous_hash := (case previous of None \<Rightarrow> AuditGenesisHash
                                                           | Some p \<Rightarrow> ae_event_hash p)\<rparr>
      in case computeAuditEventHash E event of
           Inl e \<Rightarrow> Inl e
         | Inr hash \<Rightarrow> Inr (event\<lparr>ae_event_hash := hash\<rparr>))"

text \<open>\<open>Record\<close>. Nothing is written for a blank action or resource type.\<close>

definition Record_audit :: "env \<Rightarrow> nat \<Rightarrow> audit_input \<Rightarrow> audit_state \<Rightarrow> audit_event option result \<times> audit_state" where
  "Record_audit E n input s =
     (let action = trim (ai_action input); resourceType = trim (ai_resource_type input) in
      if action = '''' \<or> resourceType = '''' then (Inr None, s)
      else
        let outcome = trim (ai_outcome input);
            outcome' = (if outcome = '''' then AuditOutcomeSuccess else outcome);
            event = \<lparr>ae_id = e_uuid E ''audit_events'' n, ae_actor_user_id = ai_actor_user_id input,
               ae_actor_device_id = trim (ai_actor_device_id input), ae_action = action,
               ae_resource_type = resourceType, ae_resource_id = trim (ai_resource_id input),
               ae_outcome = outcome', ae_ip_address = trim (ai_ip_address input),
               ae_user_agent = trim (ai_user_agent input),
               ae_metadata = (case ai_metadata input of None \<Rightarrow> [] | Some m \<Rightarrow> m),
               ae_occurred_at = e_now E, ae_sequence = 0, ae_previous_hash = '''', ae_event_hash = '''',
               ae_hash_algorithm = ''''\<rparr>
        in case AppendHashChained E n (audit_prepare E event) s of
             Inl e \<Rightarrow> (Inl e, s)
           | Inr (ev, s') \<Rightarrow> (Inr (Some ev), s'))"

record audit_break =
  ab_sequence :: int
  ab_event_id :: uuid
  ab_reason :: string
  ab_expected :: string
  ab_actual :: string

record audit_verification =
  av_valid :: bool
  av_checked :: nat
  av_head_hash :: string
  av_head_sequence :: int
  av_breaks :: "audit_break list"

definition addBreak :: "audit_event \<Rightarrow> string \<Rightarrow> string \<Rightarrow> string \<Rightarrow> audit_verification \<Rightarrow> audit_verification" where
  "addBreak e reason expected actual r =
     r\<lparr>av_valid := False,
       av_breaks := av_breaks r @ [\<lparr>ab_sequence = ae_sequence e, ab_event_id = ae_id e, ab_reason = reason,
                                    ab_expected = expected, ab_actual = actual\<rparr>]\<rparr>"

text \<open>The body of the loop for one event, after the check of the algorithm.\<close>

definition verify_links :: "audit_event \<Rightarrow> string \<Rightarrow> int \<Rightarrow> audit_verification \<Rightarrow> audit_verification" where
  "verify_links e previousHash previousSequence r =
     (let r1 = (if ae_sequence e \<noteq> previousSequence + 1
                then addBreak e AuditChainBreakSequenceGap (int_dec (previousSequence + 1)) (int_dec (ae_sequence e)) r
                else r)
      in if ae_previous_hash e \<noteq> previousHash
         then addBreak e AuditChainBreakLinkMismatch previousHash (ae_previous_hash e) r1
         else r1)"

definition verify_hash :: "env \<Rightarrow> audit_event \<Rightarrow> audit_verification \<Rightarrow> audit_verification result" where
  "verify_hash E e r =
     (if ae_event_hash e = '''' \<or> ae_previous_hash e = ''''
      then Inr (addBreak e AuditChainBreakMissingHash ''non-empty hashes'' ''empty hash'' r)
      else case computeAuditEventHash E e of
             Inl err \<Rightarrow> Inl err
           | Inr expectedHash \<Rightarrow>
               Inr (if ae_event_hash e \<noteq> expectedHash
                    then addBreak e AuditChainBreakHashMismatch expectedHash (ae_event_hash e) r else r))"

fun verify_chain :: "env \<Rightarrow> audit_event list \<Rightarrow> string \<Rightarrow> int \<Rightarrow> audit_verification \<Rightarrow> audit_verification result" where
  "verify_chain E [] previousHash previousSequence r = Inr r"
| "verify_chain E (e # evs) previousHash previousSequence r =
     (if ae_hash_algorithm e \<noteq> AuditHashAlgorithmSHA256
      then verify_chain E evs previousHash previousSequence
             (addBreak e AuditChainBreakUnsupportedAlg AuditHashAlgorithmSHA256 (ae_hash_algorithm e) r)
      else case verify_hash E e (verify_links e previousHash previousSequence r) of
             Inl err \<Rightarrow> Inl err
           | Inr r2 \<Rightarrow> verify_chain E evs (ae_event_hash e) (ae_sequence e)
                       (r2\<lparr>av_head_hash := ae_event_hash e, av_head_sequence := ae_sequence e\<rparr>))"

definition VerifyHashChain :: "env \<Rightarrow> int \<Rightarrow> audit_state \<Rightarrow> audit_verification result" where
  "VerifyHashChain E limit s =
     (case ListHashChain E limit s of
        Inl e \<Rightarrow> Inl e
      | Inr events \<Rightarrow>
          verify_chain E events AuditGenesisHash 0
            \<lparr>av_valid = True, av_checked = length events, av_head_hash = '''', av_head_sequence = 0, av_breaks = []\<rparr>)"

section \<open>Listing\<close>

record audit_query =
  aq_actor_user_id :: "uuid option"
  aq_action :: string
  aq_resource_type :: string
  aq_resource_id :: string
  aq_outcome :: string
  aq_limit :: int
  aq_offset :: int

record audit_page =
  ap_items :: "audit_event list"
  ap_limit :: int
  ap_offset :: int
  ap_total :: nat

definition audit_matches :: "audit_query \<Rightarrow> audit_event \<Rightarrow> bool" where
  "audit_matches q e \<longleftrightarrow>
     (case aq_actor_user_id q of None \<Rightarrow> True
      | Some u \<Rightarrow> u = uuid_nil \<or> ae_actor_user_id e = Some u)
     \<and> (aq_action q = '''' \<or> ae_action e = aq_action q)
     \<and> (aq_resource_type q = '''' \<or> ae_resource_type e = aq_resource_type q)
     \<and> (aq_resource_id q = '''' \<or> ae_resource_id e = aq_resource_id q)
     \<and> (aq_outcome q = '''' \<or> ae_outcome e = aq_outcome q)"

definition List_audit :: "env \<Rightarrow> audit_query \<Rightarrow> audit_state \<Rightarrow> audit_event list result" where
  "List_audit E q s =
     (let limit = (if aq_limit q \<le> 0 \<or> 100 < aq_limit q then 50 else aq_limit q);
          offset = (if aq_offset q < 0 then 0 else aq_offset q)
      in if e_db E ''List_audit'' 0 then Inl (ErrDB ''List_audit'')
         else Inr (take (nat limit) (drop (nat offset)
                (sort_key (\<lambda>e. - ae_occurred_at e) (filter (audit_matches q) s)))))"

definition ListAuditEvents :: "env \<Rightarrow> audit_query \<Rightarrow> audit_state \<Rightarrow> audit_page result" where
  "ListAuditEvents E input s =
     (let limit = (if aq_limit input \<le> 0 \<or> 100 < aq_limit input then 50 else aq_limit input);
          offset = (if aq_offset input < 0 then 0 else aq_offset input);
          q = input\<lparr>aq_limit := limit, aq_offset := offset\<rparr>
      in case List_audit E q s of
           Inl e \<Rightarrow> Inl e
         | Inr events \<Rightarrow>
             (case db_count E ''Count_audit'' 0 (audit_matches q) s of
                Inl e \<Rightarrow> Inl e
              | Inr cnt \<Rightarrow> Inr \<lparr>ap_items = events, ap_limit = limit, ap_offset = offset, ap_total = cnt\<rparr>))"

end
