(* ===== verification/AuditProps.thy ===== *)
theory AuditProps
  imports AuditLog
begin

text \<open>
  What the hash chain is good for: the log that the service writes verifies, a log that verifies
  determines its whole history from its head hash unless SHA-256 collides, and the log stops
  verifying when the clock is finer than the database.
\<close>

section \<open>Chains\<close>

text \<open>The events form a chain that starts after the hash \<open>ph\<close> and the number \<open>ps\<close>.\<close>

fun chained :: "env \<Rightarrow> string \<Rightarrow> int \<Rightarrow> audit_event list \<Rightarrow> bool" where
  "chained E ph ps [] \<longleftrightarrow> True"
| "chained E ph ps (e # evs) \<longleftrightarrow>
     ae_hash_algorithm e = AuditHashAlgorithmSHA256 \<and> ae_sequence e = ps + 1 \<and> ae_previous_hash e = ph
     \<and> ph \<noteq> '''' \<and> ae_event_hash e \<noteq> '''' \<and> computeAuditEventHash E e = Inr (ae_event_hash e)
     \<and> chained E (ae_event_hash e) (ae_sequence e) evs"

fun head_hash :: "string \<Rightarrow> audit_event list \<Rightarrow> string" where
  "head_hash h [] = h"
| "head_hash h (e # evs) = head_hash (ae_event_hash e) evs"

lemma chained_append:
  "chained E ph ps (evs @ evs') \<longleftrightarrow>
     chained E ph ps evs \<and> chained E (head_hash ph evs) (ps + int (length evs)) evs'"
  by (induction evs arbitrary: ph ps) (auto simp: algebra_simps)

lemma chained_sequences: "chained E ph ps evs \<Longrightarrow> map ae_sequence evs = map (\<lambda>i. ps + 1 + int i) [0..<length evs]"
proof (induction evs arbitrary: ph ps)
  case (Cons e evs)
  then have "map ae_sequence evs = map (\<lambda>i. (ps + 1) + 1 + int i) [0..<length evs]" by auto
  moreover have "[0..<length (e # evs)] = 0 # map Suc [0..<length evs]" by (simp add: upt_conv_Cons map_Suc_upt del: upt_Suc)
  ultimately show ?case using Cons.prems by (simp add: algebra_simps)
qed simp

lemma chained_sorted: "chained E ph ps evs \<Longrightarrow> sort_key ae_sequence evs = evs"
  by (intro sort_key_id_if_sorted) (auto simp: chained_sequences sorted_map sorted_wrt_iff_nth_less)

text \<open>The verification accepts exactly the chains.\<close>

lemma verify_chain_chained:
  "chained E ph ps evs \<Longrightarrow> \<exists>r'. verify_chain E evs ph ps r = Inr r' \<and> av_valid r' = av_valid r
     \<and> av_checked r' = av_checked r \<and> av_breaks r' = av_breaks r
     \<and> (evs \<noteq> [] \<longrightarrow> av_head_hash r' = head_hash ph evs)"
proof (induction evs arbitrary: ph ps r)
  case (Cons e evs)
  let ?r = "r\<lparr>av_head_hash := ae_event_hash e, av_head_sequence := ae_sequence e\<rparr>"
  from Cons.IH [of "ae_event_hash e" "ae_sequence e" ?r] Cons.prems
  obtain r' where "verify_chain E evs (ae_event_hash e) (ae_sequence e) ?r = Inr r'"
    "av_valid r' = av_valid r" "av_checked r' = av_checked r" "av_breaks r' = av_breaks r"
    "evs \<noteq> [] \<longrightarrow> av_head_hash r' = head_hash (ae_event_hash e) evs"
    by auto
  moreover have "av_head_hash r' = ae_event_hash e" if "evs = []" using that calculation(1) by auto
  ultimately show ?case using Cons.prems
    by (cases "evs = []") (auto simp: verify_links_def verify_hash_def)
qed simp

lemma addBreak_invalid [simp]: "\<not> av_valid (addBreak e a b c r)"
  by (simp add: addBreak_def)

lemma verify_chain_invalid: "verify_chain E evs ph ps r = Inr r' \<Longrightarrow> \<not> av_valid r \<Longrightarrow> \<not> av_valid r'"
proof (induction evs arbitrary: ph ps r)
  case (Cons e evs)
  have l: "\<not> av_valid (verify_links e ph ps r)" using Cons.prems(2) by (auto simp: verify_links_def Let_def)
  show ?case
  proof (cases "ae_hash_algorithm e = AuditHashAlgorithmSHA256")
    case True
    with Cons.prems(1) obtain r2 where r2: "verify_hash E e (verify_links e ph ps r) = Inr r2"
      "verify_chain E evs (ae_event_hash e) (ae_sequence e)
         (r2\<lparr>av_head_hash := ae_event_hash e, av_head_sequence := ae_sequence e\<rparr>) = Inr r'"
      by (auto split: sum.splits)
    from r2(1) l have "\<not> av_valid r2" by (auto simp: verify_hash_def split: if_splits sum.splits)
    with Cons.IH [OF r2(2)] show ?thesis by simp
  next
    case False
    with Cons.prems(1) Cons.IH show ?thesis by auto
  qed
qed simp

lemma verify_chain_valid:
  "verify_chain E evs ph ps r = Inr r' \<Longrightarrow> av_valid r' \<Longrightarrow> chained E ph ps evs"
proof (induction evs arbitrary: ph ps r)
  case (Cons e evs)
  have a: "ae_hash_algorithm e = AuditHashAlgorithmSHA256"
  proof (rule ccontr)
    assume "ae_hash_algorithm e \<noteq> AuditHashAlgorithmSHA256"
    with Cons.prems verify_chain_invalid show False by auto
  qed
  with Cons.prems(1) obtain r2 where r2: "verify_hash E e (verify_links e ph ps r) = Inr r2"
    "verify_chain E evs (ae_event_hash e) (ae_sequence e)
       (r2\<lparr>av_head_hash := ae_event_hash e, av_head_sequence := ae_sequence e\<rparr>) = Inr r'"
    by (auto split: sum.splits)
  have "av_valid r2" using verify_chain_invalid [OF r2(2)] Cons.prems(2) by auto
  with r2(1) have "ae_event_hash e \<noteq> ''''" "ae_previous_hash e \<noteq> ''''"
    "computeAuditEventHash E e = Inr (ae_event_hash e)" "av_valid (verify_links e ph ps r)"
    by (auto simp: verify_hash_def split: if_splits sum.splits)
  moreover from this(4) have "ae_sequence e = ps + 1" "ae_previous_hash e = ph"
    by (auto simp: verify_links_def Let_def split: if_splits)
  ultimately show ?case using a Cons.IH [OF r2(2) Cons.prems(2)] by simp
qed simp

section \<open>Appending\<close>

text \<open>Two environments hash alike: the same encoder, digest and text of identifiers.\<close>

definition same_hashing :: "env \<Rightarrow> env \<Rightarrow> bool" where
  "same_hashing E E' \<longleftrightarrow> e_json E = e_json E' \<and> e_sha256_hex E = e_sha256_hex E' \<and> e_uuid_str E = e_uuid_str E'"

text \<open>A clock that ticks in the resolution of the database.\<close>

definition clock_stored_exactly :: "env \<Rightarrow> bool" where
  "clock_stored_exactly E \<longleftrightarrow> e_db_time E (e_now E) = e_now E"

definition digests_nonempty :: "env \<Rightarrow> bool" where
  "digests_nonempty E \<longleftrightarrow> '''' \<notin> range (e_sha256_hex E)"

lemma computeAuditEventHash_cong:
  assumes "same_hashing E E'"
  shows "computeAuditEventHash E = computeAuditEventHash E'"
proof
  fix e
  have "audit_payload E e = audit_payload E' e"
    using assms by (cases "ae_actor_user_id e") (simp_all add: audit_payload_def same_hashing_def)
  with assms show "computeAuditEventHash E e = computeAuditEventHash E' e"
    by (cases "e_json E' (audit_payload E' e)") (simp_all add: computeAuditEventHash_def same_hashing_def)
qed

lemma chained_cong: "same_hashing E E' \<Longrightarrow> chained E = chained E'"
proof -
  assume s: "same_hashing E E'"
  have "chained E ph ps evs = chained E' ph ps evs" for ph ps evs
    by (induction evs arbitrary: ph ps) (simp_all add: computeAuditEventHash_cong [OF s])
  then show ?thesis by (intro ext)
qed

lemma computeAuditEventHash_event_hash [simp]:
  "computeAuditEventHash E (e\<lparr>ae_event_hash := h\<rparr>) = computeAuditEventHash E e"
  by (simp add: computeAuditEventHash_def audit_payload_def)

text \<open>What one recording does to the log: nothing, or it appends one row, at the number after the
  highest and linked to the row that has it.\<close>

lemma Record_audit_cases:
  assumes "Record_audit E n inp s = (r, s')"
  obtains (same) "s' = s"
  | (appended) ev row where "s' = s @ [row]" "r = Inr (Some ev)"
      "row = ev\<lparr>ae_occurred_at := e_db_time E (ae_occurred_at ev)\<rparr>"
      "ae_occurred_at ev = e_now E"
      "computeAuditEventHash E ev = Inr (ae_event_hash ev)"
      "ae_hash_algorithm ev = AuditHashAlgorithmSHA256"
      "case first_by (\<lambda>e. (- ae_sequence e, ae_id e)) (\<lambda>_. True) s of
         None \<Rightarrow> ae_sequence ev = 1 \<and> ae_previous_hash ev = AuditGenesisHash
       | Some p \<Rightarrow> ae_sequence ev = ae_sequence p + 1 \<and> ae_previous_hash ev = ae_event_hash p"
proof (cases "s' = s")
  case False
  let ?found = "first_by (\<lambda>e. (- ae_sequence e, ae_id e)) (\<lambda>_. True) s"
  let ?next = "case ?found of None \<Rightarrow> 1 | Some p \<Rightarrow> ae_sequence p + 1"
  from False assms obtain event ev where
    a: "AppendHashChained E n (audit_prepare E event) s = Inr (ev, s')" "ae_occurred_at event = e_now E"
      "r = Inr (Some ev)"
    by (auto simp: Record_audit_def Let_def split: if_splits sum.splits prod.splits)
  from a(1) have "append_prepared E n (audit_prepare E event) ?found ?next s = Inr (ev, s')"
    by (auto simp: AppendHashChained_def Let_def db_first_def split: if_splits option.splits)
  then have p: "audit_prepare E event ?found ?next = Inr ev"
    and i: "s' = s @ [ev\<lparr>ae_occurred_at := e_db_time E (ae_occurred_at ev)\<rparr>]"
    by (auto simp: append_prepared_def audit_insert_def db_insert_def split: sum.splits if_splits)
  from p a(2) have "ae_occurred_at ev = e_now E" "ae_hash_algorithm ev = AuditHashAlgorithmSHA256"
    "computeAuditEventHash E ev = Inr (ae_event_hash ev)"
    "ae_sequence ev = ?next"
    "ae_previous_hash ev = (case ?found of None \<Rightarrow> AuditGenesisHash | Some p \<Rightarrow> ae_event_hash p)"
    by (auto simp: audit_prepare_def Let_def split: sum.splits)
  with i a(3) show ?thesis by (intro appended [OF i a(3) refl]) (auto split: option.splits)
qed (rule same)

lemma chained_last:
  assumes "chained E ph 0 evs" "evs \<noteq> []"
  shows "first_by (\<lambda>e. (- ae_sequence e, ae_id e)) (\<lambda>_. True) evs = Some (last evs)"
proof (rule first_by_key_unique)
  show "last evs \<in> set evs" using assms(2) by simp
  fix r assume r: "r \<in> set evs" "r \<noteq> last evs"
  obtain k where k: "k < length evs" "evs ! k = r" using r(1) by (auto simp: in_set_conv_nth)
  have seq: "ae_sequence (evs ! i) = 1 + int i" if "i < length evs" for i
    using arg_cong [OF chained_sequences [OF assms(1)], of "\<lambda>l. l ! i"] that by simp
  have "k \<noteq> length evs - 1" using k r(2) assms(2) by (auto simp: last_conv_nth)
  then have "ae_sequence r < ae_sequence (last evs)"
    using seq [of k] seq [of "length evs - 1"] k assms(2) by (auto simp: last_conv_nth)
  then show "(- ae_sequence (last evs), ae_id (last evs)) < (- ae_sequence r, ae_id r)" by simp
qed simp

lemma head_hash_last: "evs \<noteq> [] \<Longrightarrow> head_hash h evs = ae_event_hash (last evs)"
  by (induction evs arbitrary: h) auto

lemma Record_audit_chained:
  assumes "chained E AuditGenesisHash 0 s" "clock_stored_exactly E" "digests_nonempty E"
  shows "chained E AuditGenesisHash 0 (snd (Record_audit E n inp s))"
proof -
  obtain r s' where rs: "Record_audit E n inp s = (r, s')" by fastforce
  then show ?thesis
  proof (cases rule: Record_audit_cases)
    case same
    with assms(1) rs show ?thesis by simp
  next
    case (appended ev row)
    have row: "row = ev" using appended(3,4) assms(2) by (simp add: clock_stored_exactly_def)
    have "ae_event_hash ev \<noteq> ''''"
    proof -
      have "\<exists>x. e_sha256_hex E x = ae_event_hash ev"
        using appended(5) by (cases "e_json E (audit_payload E ev)") (auto simp: computeAuditEventHash_def)
      then obtain x where "e_sha256_hex E x = ae_event_hash ev" by blast
      with assms(3) show ?thesis by (metis digests_nonempty_def rangeI)
    qed
    moreover have "ae_sequence ev = int (length s) + 1 \<and> ae_previous_hash ev = head_hash AuditGenesisHash s"
    proof (cases "s = []")
      case True
      with appended(7) show ?thesis by (simp add: first_by_def)
    next
      case False
      have "ae_sequence (last s) = int (length s)"
        using arg_cong [OF chained_sequences [OF assms(1)], of last] False by (simp add: last_map of_nat_diff Suc_leI)
      with appended(7) chained_last [OF assms(1) False] show ?thesis by (simp add: head_hash_last [OF False])
    qed
    moreover have "head_hash AuditGenesisHash s \<noteq> ''''"
      using assms(1) by (induction s rule: rev_induct) (auto simp: chained_append head_hash_last)
    ultimately show ?thesis using rs appended(1,5,6) assms(1) row by (simp add: chained_append)
  qed
qed

section \<open>Properties\<close>

lemma VerifyHashChain_chained:
  assumes "chained E AuditGenesisHash 0 s" "\<not> e_db E ''ListHashChain'' 0"
  shows "\<exists>v. VerifyHashChain E 0 s = Inr v \<and> av_valid v \<and> av_breaks v = [] \<and> av_checked v = length s
     \<and> (s \<noteq> [] \<longrightarrow> av_head_hash v = ae_event_hash (last s))"
  using verify_chain_chained [OF assms(1)] chained_sorted [OF assms(1)] assms(2)
  by (fastforce simp: VerifyHashChain_def ListHashChain_def head_hash_last)

definition record_all :: "(env \<times> nat \<times> audit_input) list \<Rightarrow> audit_state \<Rightarrow> audit_state" where
  "record_all rs s = fold (\<lambda>(E, n, inp) s. snd (Record_audit E n inp s)) rs s"

text \<open>A request that hashes like \<open>E0\<close> and whose clock the database stores exactly.\<close>

definition sound_request :: "env \<Rightarrow> env \<times> nat \<times> audit_input \<Rightarrow> bool" where
  "sound_request E0 r \<longleftrightarrow> same_hashing E0 (fst r) \<and> clock_stored_exactly (fst r)"

lemma record_all_chained:
  assumes "list_all (sound_request E0) rs" "digests_nonempty E0" "chained E0 AuditGenesisHash 0 s"
  shows "chained E0 AuditGenesisHash 0 (record_all rs s)"
  using assms
proof (induction rs arbitrary: s)
  case (Cons r rs)
  obtain E n inp where r: "r = (E, n, inp)" by (cases r)
  from Cons.prems r have h: "same_hashing E0 E" "clock_stored_exactly E" by (auto simp: sound_request_def)
  have "digests_nonempty E" using h(1) Cons.prems(2) by (simp add: digests_nonempty_def same_hashing_def)
  then have "chained E0 AuditGenesisHash 0 (snd (Record_audit E n inp s))"
    using Record_audit_chained [of E s n inp] Cons.prems(3) h by (simp add: chained_cong [OF h(1)])
  with Cons r show ?case by (simp add: record_all_def)
qed (simp add: record_all_def)

text \<open>
  C20: The log the service writes verifies: after any sequence of recordings, including ones the
  database or the encoder refuses, verification of the whole log reports it valid, with every
  event checked, no break, and the hash of the last event as head, provided the clock has the
  resolution of the database.
\<close>

theorem audit_log_verifies:
  assumes "list_all (sound_request E0) rs" "digests_nonempty E0" "\<not> e_db E0 ''ListHashChain'' 0"
  shows "\<exists>v. VerifyHashChain E0 0 (record_all rs []) = Inr v \<and> av_valid v \<and> av_breaks v = []
     \<and> av_checked v = length (record_all rs [])
     \<and> (record_all rs [] \<noteq> [] \<longrightarrow> av_head_hash v = ae_event_hash (last (record_all rs [])))"
  by (rule VerifyHashChain_chained [OF record_all_chained [OF assms(1,2)] assms(3)]) simp

definition demo_audit :: "string \<Rightarrow> audit_input" where
  "demo_audit a = \<lparr>ai_actor_user_id = Some 7, ai_actor_device_id = ''laptop'', ai_action = a,
     ai_resource_type = ''skill'', ai_resource_id = '' s1 '', ai_outcome = '''', ai_ip_address = '''',
     ai_user_agent = '''', ai_metadata = None\<rparr>"

lemma env_at_sound: "sound_request env0 (env_at k, n, inp)"
  by (simp add: sound_request_def same_hashing_def clock_stored_exactly_def env_at_def env0_def seconds_def)

theorem audit_log_verifies_witness:
  "\<exists>v. VerifyHashChain env0 0 (record_all [(env_at 1, 0, demo_audit ''skill.created''), (env_at 2, 0, demo_audit ''skill.takedown'')] []) = Inr v
     \<and> av_valid v \<and> av_checked v = 2"
proof -
  let ?rs = "[(env_at 1, 0, demo_audit ''skill.created''), (env_at 2, 0, demo_audit ''skill.takedown'')]"
  have "list_all (sound_request env0) ?rs" by (simp add: env_at_sound)
  moreover have "digests_nonempty env0" by (auto simp: digests_nonempty_def env0_def)
  moreover have "\<not> e_db env0 ''ListHashChain'' 0" by (simp add: env0_def)
  ultimately have "\<exists>v. VerifyHashChain env0 0 (record_all ?rs []) = Inr v \<and> av_valid v \<and> av_breaks v = []
     \<and> av_checked v = length (record_all ?rs [])
     \<and> (record_all ?rs [] \<noteq> [] \<longrightarrow> av_head_hash v = ae_event_hash (last (record_all ?rs [])))"
    by (rule audit_log_verifies)
  then obtain v where v: "VerifyHashChain env0 0 (record_all ?rs []) = Inr v" "av_valid v"
    "av_checked v = length (record_all ?rs [])" by (elim exE conjE)
  have "length (record_all ?rs []) = 2" by code_simp
  with v(3) have "av_checked v = 2" by (rule trans)
  with v(1,2) show ?thesis by (intro exI [of _ v] conjI)
qed

text \<open>The text an event is hashed as; and a pair of different texts with the same digest, one from either log.\<close>

definition hashed_text :: "env \<Rightarrow> audit_event \<Rightarrow> string option" where
  "hashed_text E e = (case e_json E (audit_payload E e) of Inl _ \<Rightarrow> None | Inr t \<Rightarrow> Some t)"

definition sha_collision :: "env \<Rightarrow> audit_event list \<Rightarrow> audit_event list \<Rightarrow> bool" where
  "sha_collision E as bs \<longleftrightarrow> (\<exists>a\<in>set as. \<exists>b\<in>set bs. \<exists>t u. hashed_text E a = Some t \<and> hashed_text E b = Some u
     \<and> t \<noteq> u \<and> e_sha256_hex E t = e_sha256_hex E u)"

text \<open>What is needed of \<open>encoding/json\<close>: a text has one \<open>previous_hash\<close> field, so payloads that are encoded as the same text
  have the same previous hash, when these are digests or the hash of the genesis.\<close>

definition digest_of :: "env \<Rightarrow> string \<Rightarrow> bool" where
  "digest_of E h \<longleftrightarrow> h = AuditGenesisHash \<or> h \<in> range (e_sha256_hex E)"

definition previous_hash_readable :: "env \<Rightarrow> bool" where
  "previous_hash_readable E \<longleftrightarrow> (\<forall>a b t. hashed_text E a = Some t \<and> hashed_text E b = Some t
     \<and> digest_of E (ae_previous_hash a) \<and> digest_of E (ae_previous_hash b) \<longrightarrow> ae_previous_hash a = ae_previous_hash b)"

lemma computeAuditEventHash_text:
  "computeAuditEventHash E e = Inr h \<Longrightarrow> \<exists>t. hashed_text E e = Some t \<and> e_sha256_hex E t = h"
  by (auto simp: computeAuditEventHash_def hashed_text_def split: sum.splits)

lemma same_hash_same_text:
  assumes "computeAuditEventHash E a = Inr h" "computeAuditEventHash E b = Inr h" "\<not> sha_collision E as bs"
    "a \<in> set as" "b \<in> set bs"
  shows "hashed_text E a = hashed_text E b"
proof -
  obtain t u where "hashed_text E a = Some t" "hashed_text E b = Some u" "e_sha256_hex E t = h" "e_sha256_hex E u = h"
    using computeAuditEventHash_text [OF assms(1)] computeAuditEventHash_text [OF assms(2)] by blast
  with assms(3-5) show ?thesis unfolding sha_collision_def by metis
qed

lemma chained_digest:
  assumes "chained E AuditGenesisHash 0 evs"
  shows "digest_of E (head_hash AuditGenesisHash evs)"
proof (cases evs rule: rev_cases)
  case (snoc es e)
  then have "computeAuditEventHash E e = Inr (ae_event_hash e)" using assms by (simp add: chained_append)
  from computeAuditEventHash_text [OF this] have "ae_event_hash e \<in> range (e_sha256_hex E)" by (metis rangeI)
  then show ?thesis using snoc by (simp add: head_hash_last digest_of_def)
qed (simp add: digest_of_def)

lemma chained_determined:
  assumes "chained E AuditGenesisHash 0 evs" "chained E AuditGenesisHash 0 evs'"
    "length evs = length evs'" "head_hash AuditGenesisHash evs = head_hash AuditGenesisHash evs'"
    "\<not> sha_collision E as bs" "set evs \<subseteq> set as" "set evs' \<subseteq> set bs" "previous_hash_readable E"
  shows "map (hashed_text E) evs = map (hashed_text E) evs'"
  using assms(1-4,6,7)
proof (induction evs arbitrary: evs' rule: rev_induct)
  case (snoc e evs)
  obtain es e' where s: "evs' = es @ [e']" using snoc.prems(3) by (cases evs' rule: rev_cases) auto
  from snoc.prems s have c: "chained E AuditGenesisHash 0 evs" "chained E AuditGenesisHash 0 es" by (auto simp: chained_append)
  from snoc.prems s have h: "computeAuditEventHash E e = Inr (ae_event_hash e)"
    "computeAuditEventHash E e' = Inr (ae_event_hash e)"
    "ae_previous_hash e = head_hash AuditGenesisHash evs" "ae_previous_hash e' = head_hash AuditGenesisHash es"
    by (auto simp: chained_append head_hash_last)
  have t: "hashed_text E e = hashed_text E e'"
    using same_hash_same_text [OF h(1,2) assms(5)] snoc.prems(5,6) s by simp
  moreover obtain x where "hashed_text E e = Some x" using computeAuditEventHash_text [OF h(1)] by blast
  moreover have "digest_of E (ae_previous_hash e)" "digest_of E (ae_previous_hash e')"
    using chained_digest [OF c(1)] chained_digest [OF c(2)] h(3,4) by simp_all
  ultimately have "ae_previous_hash e = ae_previous_hash e'" using assms(8) unfolding previous_hash_readable_def by metis
  with snoc.prems s h c have "map (hashed_text E) evs = map (hashed_text E) es"
    by (intro snoc.IH) auto
  with t s show ?case by simp
qed simp

text \<open>
  C36: The head hash commits to the history. If two logs both verify in full, with the same number of events and the
  same head hash, then event for event they are hashed as the same text, or the two logs exhibit a collision of SHA-256:
  an event of either with different texts and the same digest. So an administrator who keeps count and head notices any
  later change of what is hashed. Of the JSON encoder it is used only that the previous hash can be read back.
\<close>

theorem head_hash_commits:
  assumes "VerifyHashChain E 0 s = Inr v" "VerifyHashChain E 0 s' = Inr v'" "av_valid v" "av_valid v'"
    "av_checked v = av_checked v'" "av_head_hash v = av_head_hash v'" "previous_hash_readable E"
  shows "map (hashed_text E) (sort_key ae_sequence s) = map (hashed_text E) (sort_key ae_sequence s') \<or> sha_collision E s s'"
proof (rule disjCI)
  assume n: "\<not> sha_collision E s s'"
  have c: "chained E AuditGenesisHash 0 (sort_key ae_sequence t)
      \<and> av_checked w = length (sort_key ae_sequence t)
      \<and> (t \<noteq> [] \<longrightarrow> head_hash AuditGenesisHash (sort_key ae_sequence t) = av_head_hash w)"
    if a: "VerifyHashChain E 0 t = Inr w" "av_valid w" for t w
  proof -
    let ?r0 = "\<lparr>av_valid = True, av_checked = length t, av_head_hash = '''', av_head_sequence = 0, av_breaks = []\<rparr>"
    from a(1) have v: "verify_chain E (sort_key ae_sequence t) AuditGenesisHash 0 ?r0 = Inr w"
      by (auto simp: VerifyHashChain_def ListHashChain_def split: sum.splits if_splits)
    have "chained E AuditGenesisHash 0 (sort_key ae_sequence t)" using verify_chain_valid [OF v a(2)] .
    moreover have "t \<noteq> [] \<Longrightarrow> sort_key ae_sequence t \<noteq> []" by (metis length_0_conv length_sort)
    ultimately show ?thesis using verify_chain_chained [of E AuditGenesisHash 0 "sort_key ae_sequence t" ?r0] v by auto
  qed
  from c [OF assms(1,3)] c [OF assms(2,4)] assms(5,6)
  have "length (sort_key ae_sequence s) = length (sort_key ae_sequence s')"
    "head_hash AuditGenesisHash (sort_key ae_sequence s) = head_hash AuditGenesisHash (sort_key ae_sequence s')"
    by (auto; metis length_0_conv length_sort)+
  with c [OF assms(1,3)] c [OF assms(2,4)] n assms(7)
  show "map (hashed_text E) (sort_key ae_sequence s) = map (hashed_text E) (sort_key ae_sequence s')"
    by (intro chained_determined) auto
qed

text \<open>Libraries for the demo: an encoder that writes the length of the previous hash in unary, the hash and the action, and
  leaves the other fields out.\<close>

definition str_of :: "json_map \<Rightarrow> string \<Rightarrow> string" where
  "str_of m k = (case map_of m k of Some (AStr v) \<Rightarrow> v | _ \<Rightarrow> '''')"

definition env_lengths :: env where
  "env_lengths = (env_at 1)\<lparr>e_json := \<lambda>m. Inr (replicate (length (str_of m ''previous_hash'')) CHR ''x'' @ ''.''
     @ str_of m ''previous_hash'' @ str_of m ''action'')\<rparr>"

lemma previous_hash_env_lengths: "previous_hash_readable env_lengths"
proof -
  have enc: "hashed_text env_lengths e = Some (replicate (length (ae_previous_hash e)) CHR ''x'' @ CHR ''.'' # ae_previous_hash e @ ae_action e)" for e
    by (simp add: hashed_text_def env_lengths_def str_of_def audit_payload_def)
  have len: "length (takeWhile (\<lambda>c. c = CHR ''x'') (replicate n CHR ''x'' @ CHR ''.'' # r)) = n" for n r
    by (induction n) simp_all
  have "h = h'" if "replicate (length h) CHR ''x'' @ CHR ''.'' # h @ r = replicate (length h') CHR ''x'' @ CHR ''.'' # h' @ r'"
    for h h' r r' :: string
  proof -
    have "length h = length h'" using arg_cong [OF that, of "\<lambda>t. length (takeWhile (\<lambda>c. c = CHR ''x'') t)"] by (simp only: len)
    with that show ?thesis by simp
  qed
  then show ?thesis unfolding previous_hash_readable_def enc by (metis option.inject)
qed

lemma clock_env_lengths: "clock_stored_exactly env_lengths"
  by (simp add: clock_stored_exactly_def env_lengths_def env_at_def env0_def seconds_def)

lemma digests_env_lengths: "digests_nonempty env_lengths"
  by (auto simp: digests_nonempty_def env_lengths_def env_at_def env0_def)

theorem head_hash_commits_witness:
  "\<exists>v. VerifyHashChain env_lengths 0 (record_all [(env_lengths, 0, demo_audit ''skill.created'')] []) = Inr v
     \<and> av_valid v
     \<and> (map (hashed_text env_lengths) (sort_key ae_sequence (record_all [(env_lengths, 0, demo_audit ''skill.created'')] []))
         = map (hashed_text env_lengths) (sort_key ae_sequence (record_all [(env_lengths, 0, demo_audit '' skill.created '')] []))
        \<or> sha_collision env_lengths (record_all [(env_lengths, 0, demo_audit ''skill.created'')] [])
            (record_all [(env_lengths, 0, demo_audit '' skill.created '')] []))"
proof -
  define s where "s = record_all [(env_lengths, 0, demo_audit ''skill.created'')] []"
  define s' where "s' = record_all [(env_lengths, 0, demo_audit '' skill.created '')] []"
  have "trim '' skill.created '' = trim ''skill.created''" by code_simp
  then have "Record_audit env_lengths 0 (demo_audit '' skill.created '') [] = Record_audit env_lengths 0 (demo_audit ''skill.created'') []"
    by (simp add: Record_audit_def demo_audit_def Let_def)
  then have same: "s' = s" by (simp add: s_def s'_def record_all_def)
  have c: "chained env_lengths AuditGenesisHash 0 s" unfolding s_def
  proof (rule record_all_chained)
    show "list_all (sound_request env_lengths) [(env_lengths, 0, demo_audit ''skill.created'')]"
      by (simp add: sound_request_def same_hashing_def clock_env_lengths)
    show "digests_nonempty env_lengths" by (rule digests_env_lengths)
  qed simp
  have "\<not> e_db env_lengths ''ListHashChain'' 0" by (simp add: env_lengths_def env_at_def env0_def)
  from VerifyHashChain_chained [OF c this] obtain v where
    v: "VerifyHashChain env_lengths 0 s = Inr v" "av_valid v" by (elim exE conjE)
  have v': "VerifyHashChain env_lengths 0 s' = Inr v" using v(1) by (simp only: same)
  from head_hash_commits [OF v(1) v' v(2) v(2) refl refl previous_hash_env_lengths] v
  show ?thesis unfolding s_def s'_def by (intro exI [of _ v] conjI)
qed

definition demo_audit_log :: audit_state where
  "demo_audit_log = record_all [(env_at 1, 0, demo_audit ''skill.created''), (env_at 2, 0, demo_audit ''skill.takedown'')] []"

text \<open>\<open>row_altered\<close>: someone rewrites the action of the first event in the table.\<close>

definition row_altered :: audit_state where
  "row_altered = demo_audit_log[0 := (demo_audit_log ! 0)\<lparr>ae_action := ''skill.installed''\<rparr>]"

lemma row_altered_is_noticed:
  "\<exists>v. VerifyHashChain env0 0 row_altered = Inr v \<and> \<not> av_valid v
     \<and> map ab_reason (av_breaks v) = [AuditChainBreakHashMismatch]"
proof -
  have "case VerifyHashChain env0 0 row_altered of Inl _ \<Rightarrow> False
    | Inr v \<Rightarrow> \<not> av_valid v \<and> map ab_reason (av_breaks v) = [AuditChainBreakHashMismatch]" by code_simp
  then show ?thesis by (auto split: sum.splits)
qed

text \<open>
  The stored event keeps the time at the resolution of the database while the hash was taken over
  the time the clock gave. When the two differ and so do their hashes, the first event ever recorded
  already fails verification, with a hash mismatch, although nobody touched the log.
\<close>

theorem finer_clock_breaks_the_log:
  assumes "Record_audit E n inp [] = (Inr (Some ev), s')" "\<not> e_db E ''ListHashChain'' 0"
    "computeAuditEventHash E (ev\<lparr>ae_occurred_at := e_db_time E (e_now E)\<rparr>) = Inr h" "h \<noteq> ae_event_hash ev"
    "ae_event_hash ev \<noteq> ''''"
  shows "\<exists>v. VerifyHashChain E 0 s' = Inr v \<and> \<not> av_valid v
     \<and> map ab_reason (av_breaks v) = [AuditChainBreakHashMismatch]"
  using assms(1)
proof (cases rule: Record_audit_cases)
  case (appended ev' row)
  have e: "ev' = ev" using appended(2) by simp
  have seq: "ae_sequence ev = 1" "ae_previous_hash ev = AuditGenesisHash"
    using appended(7) e by (auto simp: first_by_def)
  show ?thesis using assms(2-5) appended(1,3,4,6) e seq
    by (auto simp: VerifyHashChain_def ListHashChain_def verify_hash_def verify_links_def addBreak_def)
next
  case same
  with assms(1) show ?thesis
    by (auto simp: Record_audit_def AppendHashChained_def append_prepared_def audit_insert_def db_insert_def Let_def
        split: if_splits sum.splits)
qed

definition env_fine :: env where
  "env_fine = env0\<lparr>e_now := 1700000000123456789\<rparr>"

theorem finer_clock_breaks_the_log_witness:
  "\<exists>v. VerifyHashChain env_fine 0 (snd (Record_audit env_fine 0 (demo_audit ''skill.created'') [])) = Inr v
     \<and> \<not> av_valid v \<and> map ab_reason (av_breaks v) = [AuditChainBreakHashMismatch]"
proof -
  let ?p = "Record_audit env_fine 0 (demo_audit ''skill.created'') []"
  define ev where "ev = the (projr (fst ?p))"
  define h where "h = projr (computeAuditEventHash env_fine (ev\<lparr>ae_occurred_at := 1700000000123456000\<rparr>))"
  have "succeeds (fst ?p)" by code_simp
  moreover have "projr (fst ?p) \<noteq> None" by code_simp
  ultimately have p: "?p = (Inr (Some ev), snd ?p)"
    unfolding ev_def by (metis option.collapse succeeds_pair)
  have h: "computeAuditEventHash env_fine (ev\<lparr>ae_occurred_at := 1700000000123456000\<rparr>) = Inr h"
    unfolding h_def by (rule succeeds_projr) (simp only: ev_def, code_simp)
  have t: "e_db_time env_fine (e_now env_fine) = 1700000000123456000" by (simp add: env_fine_def env0_def)
  have n: "h \<noteq> ae_event_hash ev" unfolding h_def ev_def by code_simp
  have ne: "ae_event_hash ev \<noteq> ''''" unfolding ev_def by code_simp
  have l: "\<not> e_db env_fine ''ListHashChain'' 0" by (simp add: env_fine_def env0_def)
  show ?thesis by (rule finer_clock_breaks_the_log [OF p l _ n ne]) (simp only: t h)
qed

end
