(* ===== verification/Identity.thy ===== *)
theory Identity
  imports Sync AuditLog
begin

text \<open>
  Users, devices, login challenges and server admission: \<open>internal/service/identity.go\<close> and
  \<open>internal/service/admission.go\<close> over \<open>internal/repository/user_repo.go\<close> and
  \<open>internal/repository/admission_repo.go\<close>. The state also holds the tables of device pairing and of
  sensitive operations, which work on the same users and devices.
\<close>

section \<open>State\<close>

record user =
  us_id :: uuid
  us_created_at :: time
  us_updated_at :: time
  us_pubkey :: string
  us_password_hash :: string
  us_display_name :: string
  us_avatar_url :: string
  us_status :: string
  us_role :: string
  us_is_admin :: bool

record device =
  dv_id :: uuid
  dv_user_id :: uuid
  dv_device_id :: string
  dv_device_name :: string
  dv_pubkey :: string
  dv_status :: string
  dv_paired_at :: time
  dv_last_seen_at :: "time option"
  dv_revoked_at :: "time option"
  dv_revoked_by :: "uuid option"

record auth_challenge =
  ch_id :: uuid
  ch_device_id :: string
  ch_user_pubkey :: string
  ch_nonce :: string
  ch_challenge :: string
  ch_expires_at :: time
  ch_used_at :: "time option"

record admission_request =
  ar_id :: uuid
  ar_created_at :: time
  ar_user_pubkey :: string
  ar_device_id :: string
  ar_status :: string
  ar_reason :: string

record server_admission =
  sa_id :: uuid
  sa_server_id :: string
  sa_policy_type :: string
  sa_invitation_code_hash :: string
  sa_admin_approval_required :: bool
  sa_updated_by :: "uuid option"

record pairing_session =
  ps_id :: uuid
  ps_user_id :: uuid
  ps_token_hash :: string
  ps_qr_hash :: string
  ps_expires_at :: time
  ps_used_at :: "time option"
  ps_created_by_device :: string
  ps_claimed_by_device :: string

record confirmation =
  cf_id :: uuid
  cf_user_id :: uuid
  cf_device_id :: string
  cf_operation :: string
  cf_token_hash :: string
  cf_expires_at :: time
  cf_used_at :: "time option"
  cf_consumed_by :: string

record id_state =
  is_users :: "user list"
  is_devices :: "device list"
  is_challenges :: "auth_challenge list"
  is_requests :: "admission_request list"
  is_admissions :: "server_admission list"
  is_pairings :: "pairing_session list"
  is_confirmations :: "confirmation list"
  is_audit :: audit_state
  is_sync :: sync_state

definition id_init :: id_state where
  "id_init = \<lparr>is_users = [], is_devices = [], is_challenges = [], is_requests = [], is_admissions = [],
     is_pairings = [], is_confirmations = [], is_audit = [], is_sync = sync_init\<rparr>"

text \<open>What the identity and admission services are configured with. \<open>ic_sign\<close> is the JWT library's
  signing of a user, a device and an expiry with the server's secret and issuer.\<close>

record id_config =
  ic_policy_type :: string
  ic_invitation_code :: string
  ic_token_mins :: int
  ic_sign :: "uuid \<Rightarrow> string \<Rightarrow> time \<Rightarrow> string result"

section \<open>User repository\<close>

definition us_clash :: "user \<Rightarrow> user \<Rightarrow> bool" where
  "us_clash u x \<longleftrightarrow> us_id x = us_id u \<or> us_pubkey x = us_pubkey u"

definition dv_clash :: "device \<Rightarrow> device \<Rightarrow> bool" where
  "dv_clash d x \<longleftrightarrow> dv_id x = dv_id d \<or> dv_device_id x = dv_device_id d"

definition CreateUser :: "env \<Rightarrow> user \<Rightarrow> id_state \<Rightarrow> id_state result" where
  "CreateUser E u s =
     (case db_insert E ''CreateUser'' 0 us_clash u (is_users s) of
        Inl e \<Rightarrow> Inl e | Inr t \<Rightarrow> Inr (s\<lparr>is_users := t\<rparr>))"

definition GetByID :: "env \<Rightarrow> uuid \<Rightarrow> id_state \<Rightarrow> user result" where
  "GetByID E u s = db_first E ''GetByID'' 0 us_id (\<lambda>x. us_id x = u) (is_users s)"

definition GetByPubKey :: "env \<Rightarrow> string \<Rightarrow> id_state \<Rightarrow> user result" where
  "GetByPubKey E k s = db_first E ''GetByPubKey'' 0 us_id (\<lambda>x. us_pubkey x = k) (is_users s)"

text \<open>\<open>Save\<close> refreshes \<open>updated_at\<close>.\<close>

definition UpdateUser :: "env \<Rightarrow> user \<Rightarrow> id_state \<Rightarrow> (user \<times> id_state) result" where
  "UpdateUser E u s =
     (let u' = u\<lparr>us_updated_at := e_now E\<rparr> in
      case db_save E ''UpdateUser'' 0 us_id u' (is_users s) of
        Inl e \<Rightarrow> Inl e | Inr t \<Rightarrow> Inr (u', s\<lparr>is_users := t\<rparr>))"

definition PubKeyExists :: "env \<Rightarrow> string \<Rightarrow> id_state \<Rightarrow> bool result" where
  "PubKeyExists E k s =
     (case db_count E ''PubKeyExists'' 0 (\<lambda>x. us_pubkey x = k) (is_users s) of
        Inl e \<Rightarrow> Inl e | Inr n \<Rightarrow> Inr (0 < n))"

definition CreateDevice :: "env \<Rightarrow> device \<Rightarrow> id_state \<Rightarrow> id_state result" where
  "CreateDevice E d s =
     (case db_insert E ''CreateDevice'' 0 dv_clash d (is_devices s) of
        Inl e \<Rightarrow> Inl e | Inr t \<Rightarrow> Inr (s\<lparr>is_devices := t\<rparr>))"

definition GetDevice :: "env \<Rightarrow> nat \<Rightarrow> string \<Rightarrow> id_state \<Rightarrow> device result" where
  "GetDevice E n d s = db_first E ''GetDevice'' n dv_id (\<lambda>x. dv_device_id x = d) (is_devices s)"

definition GetUserDevices :: "env \<Rightarrow> nat \<Rightarrow> uuid \<Rightarrow> id_state \<Rightarrow> device list result" where
  "GetUserDevices E n u s =
     (case db_find E ''GetUserDevices'' n (\<lambda>x. dv_user_id x = u) (is_devices s) of
        Inl e \<Rightarrow> Inl e | Inr ds \<Rightarrow> Inr (sort_key (\<lambda>x. - dv_paired_at x) ds))"

definition CountActiveDevices :: "env \<Rightarrow> uuid \<Rightarrow> id_state \<Rightarrow> nat result" where
  "CountActiveDevices E u s =
     db_count E ''CountActiveDevices'' 0 (\<lambda>x. dv_user_id x = u \<and> dv_status x = ''active'') (is_devices s)"

definition UpdateDevice :: "env \<Rightarrow> device \<Rightarrow> id_state \<Rightarrow> id_state result" where
  "UpdateDevice E d s =
     (case db_save E ''UpdateDevice'' 0 dv_id d (is_devices s) of
        Inl e \<Rightarrow> Inl e | Inr t \<Rightarrow> Inr (s\<lparr>is_devices := t\<rparr>))"

definition RevokeDevice_repo :: "env \<Rightarrow> string \<Rightarrow> uuid \<Rightarrow> id_state \<Rightarrow> id_state result" where
  "RevokeDevice_repo E d revokedBy s =
     (case db_update E ''RevokeDevice'' 0 (\<lambda>x. dv_device_id x = d \<and> dv_status x = ''active'')
             (\<lambda>x. x\<lparr>dv_status := ''revoked'', dv_revoked_at := Some (e_now E), dv_revoked_by := Some revokedBy\<rparr>)
             (is_devices s) of
        Inl e \<Rightarrow> Inl e | Inr t \<Rightarrow> Inr (s\<lparr>is_devices := t\<rparr>))"

definition UpdateDeviceLastSeen :: "env \<Rightarrow> string \<Rightarrow> id_state \<Rightarrow> id_state result" where
  "UpdateDeviceLastSeen E d s =
     (case db_update E ''UpdateDeviceLastSeen'' 0 (\<lambda>x. dv_device_id x = d \<and> dv_status x = ''active'')
             (\<lambda>x. x\<lparr>dv_last_seen_at := Some (e_now E)\<rparr>) (is_devices s) of
        Inl e \<Rightarrow> Inl e | Inr t \<Rightarrow> Inr (s\<lparr>is_devices := t\<rparr>))"

definition DeviceBelongsToUser :: "env \<Rightarrow> string \<Rightarrow> uuid \<Rightarrow> id_state \<Rightarrow> bool result" where
  "DeviceBelongsToUser E d u s =
     (case db_count E ''DeviceBelongsToUser'' 0 (\<lambda>x. dv_device_id x = d \<and> dv_user_id x = u) (is_devices s) of
        Inl e \<Rightarrow> Inl e | Inr n \<Rightarrow> Inr (0 < n))"

definition SaveChallenge :: "env \<Rightarrow> auth_challenge \<Rightarrow> id_state \<Rightarrow> id_state result" where
  "SaveChallenge E ch s =
     (case db_insert E ''SaveChallenge'' 0 (\<lambda>c x. ch_id x = ch_id c) ch (is_challenges s) of
        Inl e \<Rightarrow> Inl e | Inr t \<Rightarrow> Inr (s\<lparr>is_challenges := t\<rparr>))"

definition GetChallenge :: "env \<Rightarrow> string \<Rightarrow> string \<Rightarrow> id_state \<Rightarrow> auth_challenge result" where
  "GetChallenge E d nonce s =
     db_first E ''GetChallenge'' 0 ch_id
       (\<lambda>c. ch_device_id c = d \<and> ch_nonce c = nonce \<and> ch_used_at c = None \<and> e_now E < ch_expires_at c)
       (is_challenges s)"

definition MarkChallengeUsed :: "env \<Rightarrow> uuid \<Rightarrow> id_state \<Rightarrow> id_state result" where
  "MarkChallengeUsed E i s =
     (case db_update E ''MarkChallengeUsed'' 0 (\<lambda>c. ch_id c = i) (\<lambda>c. c\<lparr>ch_used_at := Some (e_now E)\<rparr>)
             (is_challenges s) of
        Inl e \<Rightarrow> Inl e | Inr t \<Rightarrow> Inr (s\<lparr>is_challenges := t\<rparr>))"

definition CreateAdmissionRequest :: "env \<Rightarrow> admission_request \<Rightarrow> id_state \<Rightarrow> id_state result" where
  "CreateAdmissionRequest E r s =
     (case db_insert E ''CreateAdmissionRequest'' 0 (\<lambda>r x. ar_id x = ar_id r) r (is_requests s) of
        Inl e \<Rightarrow> Inl e | Inr t \<Rightarrow> Inr (s\<lparr>is_requests := t\<rparr>))"

definition GetAdmissionRequest :: "env \<Rightarrow> uuid \<Rightarrow> id_state \<Rightarrow> admission_request result" where
  "GetAdmissionRequest E i s = db_first E ''GetAdmissionRequest'' 0 ar_id (\<lambda>r. ar_id r = i) (is_requests s)"

definition GetLatestAdmissionRequestByPubKey :: "env \<Rightarrow> nat \<Rightarrow> string \<Rightarrow> id_state \<Rightarrow> admission_request result" where
  "GetLatestAdmissionRequestByPubKey E n k s =
     db_first E ''GetLatestAdmissionRequestByPubKey'' n (\<lambda>r. (- ar_created_at r, ar_id r))
       (\<lambda>r. ar_user_pubkey r = k) (is_requests s)"

definition UpdateAdmissionRequest :: "env \<Rightarrow> admission_request \<Rightarrow> id_state \<Rightarrow> id_state result" where
  "UpdateAdmissionRequest E r s =
     (case db_save E ''UpdateAdmissionRequest'' 0 ar_id r (is_requests s) of
        Inl e \<Rightarrow> Inl e | Inr t \<Rightarrow> Inr (s\<lparr>is_requests := t\<rparr>))"

definition GetPendingAdmissionRequests :: "env \<Rightarrow> id_state \<Rightarrow> admission_request list result" where
  "GetPendingAdmissionRequests E s =
     (case db_find E ''GetPendingAdmissionRequests'' 0 (\<lambda>r. ar_status r = ''pending'') (is_requests s) of
        Inl e \<Rightarrow> Inl e | Inr rs \<Rightarrow> Inr (sort_key ar_created_at rs))"

section \<open>Admission\<close>

definition GetServerAdmission :: "env \<Rightarrow> string \<Rightarrow> id_state \<Rightarrow> server_admission result" where
  "GetServerAdmission E sid s =
     db_first E ''GetServerAdmission'' 0 sa_id (\<lambda>a. sa_server_id a = sid) (is_admissions s)"

definition CreateServerAdmission :: "env \<Rightarrow> server_admission \<Rightarrow> id_state \<Rightarrow> id_state result" where
  "CreateServerAdmission E a s =
     (case db_insert E ''CreateServerAdmission'' 0
             (\<lambda>a x. sa_id x = sa_id a \<or> sa_server_id x = sa_server_id a) a (is_admissions s) of
        Inl e \<Rightarrow> Inl e | Inr t \<Rightarrow> Inr (s\<lparr>is_admissions := t\<rparr>))"

definition SaveServerAdmission :: "env \<Rightarrow> server_admission \<Rightarrow> id_state \<Rightarrow> id_state result" where
  "SaveServerAdmission E a s =
     (case db_save E ''SaveServerAdmission'' 0 sa_id a (is_admissions s) of
        Inl e \<Rightarrow> Inl e | Inr t \<Rightarrow> Inr (s\<lparr>is_admissions := t\<rparr>))"

text \<open>The server always configures the admission repository, so the service without one is left out.\<close>

definition GetPolicy :: "env \<Rightarrow> id_config \<Rightarrow> string \<Rightarrow> id_state \<Rightarrow> server_admission result \<times> id_state" where
  "GetPolicy E cfg serverID s =
     (let sid = (if trim serverID = '''' then ''default'' else serverID) in
      case GetServerAdmission E sid s of
        Inr policy \<Rightarrow> (Inr policy, s)
      | Inl e \<Rightarrow>
          if e \<noteq> ErrRecordNotFound then (Inl e, s)
          else
            let policy = \<lparr>sa_id = e_uuid E ''server_admissions'' 0, sa_server_id = sid,
                  sa_policy_type = ic_policy_type cfg, sa_invitation_code_hash = '''',
                  sa_admin_approval_required = (ic_policy_type cfg = ''approval''), sa_updated_by = None\<rparr>
            in case CreateServerAdmission E policy s of
                 Inl e \<Rightarrow> (Inl e, s)
               | Inr s' \<Rightarrow> (Inr policy, s'))"

definition isSupportedAdmissionPolicy :: "string \<Rightarrow> bool" where
  "isSupportedAdmissionPolicy p \<longleftrightarrow> p \<in> {''protocol'', ''invitation'', ''approval''}"

definition UpdatePolicy :: "env \<Rightarrow> id_config \<Rightarrow> string \<Rightarrow> string \<Rightarrow> uuid \<Rightarrow> id_state \<Rightarrow> server_admission result \<times> id_state" where
  "UpdatePolicy E cfg serverID policyType updatedBy s =
     (let policyType = trim policyType in
      if \<not> isSupportedAdmissionPolicy policyType then (Inl (Errorf ''unsupported admission policy''), s)
      else case GetPolicy E cfg serverID s of
             (Inl e, s1) \<Rightarrow> (Inl e, s1)
           | (Inr policy, s1) \<Rightarrow>
               let policy' = policy\<lparr>sa_policy_type := policyType,
                     sa_admin_approval_required := (policyType = ''approval''), sa_updated_by := Some updatedBy\<rparr>
               in case SaveServerAdmission E policy' s1 of
                    Inl e \<Rightarrow> (Inl e, s1)
                  | Inr s2 \<Rightarrow> (Inr policy', s2))"

definition UpdateInvitationCode :: "env \<Rightarrow> id_config \<Rightarrow> string \<Rightarrow> string \<Rightarrow> uuid \<Rightarrow> id_state \<Rightarrow> server_admission result \<times> id_state" where
  "UpdateInvitationCode E cfg serverID code updatedBy s =
     (let code = trim code in
      if code = '''' then (Inl (Errorf ''invitation code is required''), s)
      else case GetPolicy E cfg serverID s of
             (Inl e, s1) \<Rightarrow> (Inl e, s1)
           | (Inr policy, s1) \<Rightarrow>
               (case e_bcrypt E code of
                  Inl e \<Rightarrow> (Inl (Wrapf ''hash invitation code'' e), s1)
                | Inr hash \<Rightarrow>
                    let policy' = policy\<lparr>sa_invitation_code_hash := hash, sa_updated_by := Some updatedBy\<rparr>
                    in case SaveServerAdmission E policy' s1 of
                         Inl e \<Rightarrow> (Inl e, s1)
                       | Inr s2 \<Rightarrow> (Inr policy', s2)))"

text \<open>The three policies. \<open>CheckAdmission\<close> returns whether the key is admitted and the reason.\<close>

definition check_invitation :: "env \<Rightarrow> id_config \<Rightarrow> string \<Rightarrow> string option \<Rightarrow> bool \<times> string" where
  "check_invitation E cfg codeHash invitationCode =
     (case invitationCode of
        None \<Rightarrow> (False, ''invalid_invitation_code'')
      | Some code \<Rightarrow>
          if trim code = '''' then (False, ''invalid_invitation_code'')
          else if codeHash \<noteq> ''''
          then if e_bcrypt_ok E codeHash code then (True, ''admitted_via_invitation'')
               else (False, ''invalid_invitation_code'')
          else if code \<noteq> ic_invitation_code cfg then (False, ''invalid_invitation_code'')
          else (True, ''admitted_via_invitation''))"

definition request_admission :: "env \<Rightarrow> string \<Rightarrow> id_state \<Rightarrow> (bool \<times> string) result \<times> id_state" where
  "request_admission E pubKey s =
     (let req = \<lparr>ar_id = e_uuid E ''admission_requests'' 0, ar_created_at = e_now E, ar_user_pubkey = pubKey,
                 ar_device_id = '''', ar_status = ''pending'', ar_reason = ''''\<rparr>
      in case CreateAdmissionRequest E req s of
           Inl e \<Rightarrow> (Inl (Wrapf ''create admission request'' e), s)
         | Inr s' \<Rightarrow> (Inr (False, ''pending_approval''), s'))"

definition check_approval :: "env \<Rightarrow> string \<Rightarrow> id_state \<Rightarrow> (bool \<times> string) result \<times> id_state" where
  "check_approval E pubKey s =
     (case GetLatestAdmissionRequestByPubKey E 0 pubKey s of
        Inr existing \<Rightarrow>
          if ar_status existing = ''approved'' then (Inr (True, ''approved''), s)
          else if ar_status existing = ''pending'' then (Inr (False, ''pending_approval''), s)
          else if ar_status existing = ''rejected'' then (Inr (False, ''admission_rejected''), s)
          else request_admission E pubKey s
      | Inl e \<Rightarrow> if e \<noteq> ErrRecordNotFound then (Inl e, s) else request_admission E pubKey s)"

definition CheckAdmission :: "env \<Rightarrow> id_config \<Rightarrow> string \<Rightarrow> string option \<Rightarrow> id_state \<Rightarrow> (bool \<times> string) result \<times> id_state" where
  "CheckAdmission E cfg pubKey invitationCode s =
     (case GetPolicy E cfg ''default'' s of
        (Inl e, s1) \<Rightarrow> (Inl e, s1)
      | (Inr policy, s1) \<Rightarrow>
          if sa_policy_type policy = ''protocol'' then (Inr (True, ''auto_admitted''), s1)
          else if sa_policy_type policy = ''invitation''
          then (Inr (check_invitation E cfg (sa_invitation_code_hash policy) invitationCode), s1)
          else if sa_policy_type policy = ''approval'' then check_approval E pubKey s1
          else (Inl (Errorf ''unknown admission policy''), s1))"

text \<open>\<open>ApproveRequest\<close> and \<open>RejectRequest\<close>.\<close>

definition ApproveRequest :: "env \<Rightarrow> uuid \<Rightarrow> id_state \<Rightarrow> id_state result" where
  "ApproveRequest E i s =
     (case GetAdmissionRequest E i s of
        Inl e \<Rightarrow> Inl (Wrapf ''request not found'' e)
      | Inr req \<Rightarrow>
          if ar_status req \<noteq> ''pending'' then Inl (Errorf (''request already '' @ ar_status req))
          else UpdateAdmissionRequest E (req\<lparr>ar_status := ''approved''\<rparr>) s)"

definition RejectRequest :: "env \<Rightarrow> uuid \<Rightarrow> string \<Rightarrow> id_state \<Rightarrow> id_state result" where
  "RejectRequest E i reason s =
     (case GetAdmissionRequest E i s of
        Inl e \<Rightarrow> Inl (Wrapf ''request not found'' e)
      | Inr req \<Rightarrow>
          if ar_status req \<noteq> ''pending'' then Inl (Errorf (''request already '' @ ar_status req))
          else UpdateAdmissionRequest E (req\<lparr>ar_status := ''rejected'', ar_reason := reason\<rparr>) s)"

section \<open>Login\<close>

record challenge_result =
  cr_challenge :: string
  cr_nonce :: string
  cr_expires_at :: int

definition InitiateChallenge :: "env \<Rightarrow> string \<Rightarrow> string \<Rightarrow> id_state \<Rightarrow> (challenge_result \<times> id_state) result" where
  "InitiateChallenge E deviceID userPubKey s =
     (case e_rand E ''nonce'' 0 of
        Inl e \<Rightarrow> Inl (Wrapf ''generate nonce'' e)
      | Inr nonce \<Rightarrow>
          (case e_rand E ''challenge'' 0 of
             Inl e \<Rightarrow> Inl (Wrapf ''generate challenge'' e)
           | Inr challenge \<Rightarrow>
               let ch = \<lparr>ch_id = e_uuid E ''auth_challenges'' 0, ch_device_id = deviceID,
                         ch_user_pubkey = userPubKey, ch_nonce = nonce, ch_challenge = challenge,
                         ch_expires_at = e_now E + minutes 2, ch_used_at = None\<rparr>
               in case SaveChallenge E ch s of
                    Inl e \<Rightarrow> Inl (Wrapf ''save challenge'' e)
                  | Inr s' \<Rightarrow> Inr (\<lparr>cr_challenge = challenge, cr_nonce = nonce,
                                     cr_expires_at = unix (ch_expires_at ch)\<rparr>, s')))"

record verify_request =
  vr_device_id :: string
  vr_user_pubkey :: string
  vr_nonce :: string
  vr_signature :: string
  vr_invitation_code :: "string option"

record auth_response =
  au_access_token :: string
  au_user :: "user option"
  au_device :: "device option"
  au_is_new_user :: bool
  au_admission_status :: string
  au_admission_request_id :: "uuid option"

definition createUser :: "env \<Rightarrow> string \<Rightarrow> id_state \<Rightarrow> (user option \<times> bool) result \<times> id_state" where
  "createUser E pubKey s =
     (let user = \<lparr>us_id = e_uuid E ''users'' 0, us_created_at = e_now E, us_updated_at = e_now E,
                  us_pubkey = pubKey, us_password_hash = '''', us_display_name = ''AgentOS User'',
                  us_avatar_url = '''', us_status = ''active'', us_role = ''user'', us_is_admin = False\<rparr>
      in case CreateUser E user s of
           Inl e \<Rightarrow> (Inl (Wrapf ''create user'' e), s)
         | Inr s' \<Rightarrow> (Inr (Some user, True), s'))"

definition findOrCreateUserWithAdmission :: "env \<Rightarrow> id_config \<Rightarrow> string \<Rightarrow> string option \<Rightarrow> id_state
    \<Rightarrow> (user option \<times> bool) result \<times> id_state" where
  "findOrCreateUserWithAdmission E cfg pubKey invitationCode s =
     (case GetByPubKey E pubKey s of
        Inr user \<Rightarrow> (Inr (Some user, False), s)
      | Inl _ \<Rightarrow>
          (case CheckAdmission E cfg pubKey invitationCode s of
             (Inl e, s1) \<Rightarrow> (Inl e, s1)
           | (Inr (allowed, reason), s1) \<Rightarrow>
               if \<not> allowed
               then if reason = ''pending_approval'' then (Inr (None, True), s1)
                    else (Inl (Errorf (''admission denied: '' @ reason)), s1)
               else createUser E pubKey s1))"

definition pendingAdmissionResponse :: "env \<Rightarrow> string \<Rightarrow> id_state \<Rightarrow> auth_response" where
  "pendingAdmissionResponse E pubKey s =
     (let res = \<lparr>au_access_token = '''', au_user = None, au_device = None, au_is_new_user = True,
                 au_admission_status = ''pending_approval'', au_admission_request_id = None\<rparr>
      in case GetLatestAdmissionRequestByPubKey E 1 pubKey s of
           Inl _ \<Rightarrow> res
         | Inr req \<Rightarrow> res\<lparr>au_admission_request_id := Some (ar_id req)\<rparr>)"

definition findOrCreateDevice :: "env \<Rightarrow> string \<Rightarrow> uuid \<Rightarrow> string \<Rightarrow> id_state \<Rightarrow> device result \<times> id_state" where
  "findOrCreateDevice E deviceID userID pubKey s =
     (case GetDevice E 0 deviceID s of
        Inr device \<Rightarrow>
          if dv_user_id device \<noteq> userID then (Inl (Errorf ''device belongs to another user''), s)
          else if dv_status device = ''revoked'' then (Inl (Errorf ''device revoked''), s)
          else (Inr (if dv_status device = '''' then device\<lparr>dv_status := ''active''\<rparr> else device), s)
      | Inl _ \<Rightarrow>
          let device = \<lparr>dv_id = e_uuid E ''devices'' 0, dv_user_id = userID, dv_device_id = deviceID,
                dv_device_name = ''New Device'', dv_pubkey = pubKey, dv_status = ''active'',
                dv_paired_at = e_now E, dv_last_seen_at = None, dv_revoked_at = None, dv_revoked_by = None\<rparr>
          in case CreateDevice E device s of
               Inl e \<Rightarrow> (Inl (Wrapf ''create device'' e), s)
             | Inr s' \<Rightarrow> (Inr device, s'))"

text \<open>A call whose error is dropped: the state it leaves.\<close>

definition ignore_error :: "id_state result \<Rightarrow> id_state \<Rightarrow> id_state" where
  "ignore_error r s = (case r of Inl _ \<Rightarrow> s | Inr s' \<Rightarrow> s')"

definition VerifySignature :: "env \<Rightarrow> id_config \<Rightarrow> verify_request \<Rightarrow> id_state \<Rightarrow> auth_response result \<times> id_state" where
  "VerifySignature E cfg req s =
     (case GetChallenge E (vr_device_id req) (vr_nonce req) s of
        Inl _ \<Rightarrow> (Inl (Errorf ''invalid or expired challenge''), s)
      | Inr ch \<Rightarrow>
          (case e_verify E (ch_challenge ch) (vr_signature req) (vr_user_pubkey req) of
             Inl e \<Rightarrow> (Inl e, s)
           | Inr valid \<Rightarrow>
               if \<not> valid then (Inl (Errorf ''signature verification failed''), s)
               else
                 let s1 = ignore_error (MarkChallengeUsed E (ch_id ch) s) s
                 in case findOrCreateUserWithAdmission E cfg (vr_user_pubkey req) (vr_invitation_code req) s1 of
                      (Inl e, s2) \<Rightarrow> (Inl e, s2)
                    | (Inr (None, _), s2) \<Rightarrow> (Inr (pendingAdmissionResponse E (vr_user_pubkey req) s2), s2)
                    | (Inr (Some user, isNew), s2) \<Rightarrow>
                        (case findOrCreateDevice E (vr_device_id req) (us_id user) (vr_user_pubkey req) s2 of
                           (Inl e, s3) \<Rightarrow> (Inl e, s3)
                         | (Inr device, s3) \<Rightarrow>
                             let s4 = ignore_error (UpdateDeviceLastSeen E (vr_device_id req) s3) s3
                             in case ic_sign cfg (us_id user) (vr_device_id req)
                                       (e_now E + minutes (ic_token_mins cfg)) of
                                  Inl e \<Rightarrow> (Inl (Wrapf ''generate token'' e), s4)
                                | Inr token \<Rightarrow>
                                    (Inr \<lparr>au_access_token = token, au_user = Some user, au_device = Some device,
                                          au_is_new_user = isNew, au_admission_status = '''',
                                          au_admission_request_id = None\<rparr>, s4))))"

section \<open>Accounts and devices\<close>

definition Register :: "env \<Rightarrow> string \<Rightarrow> string \<Rightarrow> string \<Rightarrow> id_state \<Rightarrow> (user \<times> id_state) result" where
  "Register E pubKey displayName password s =
     (case PubKeyExists E pubKey s of
        Inl e \<Rightarrow> Inl e
      | Inr exists_already \<Rightarrow>
          if exists_already then Inl (Errorf ''public key already registered'')
          else
            (case (if password = '''' then Inr '''' else e_bcrypt E password) of
               Inl e \<Rightarrow> Inl (Wrapf ''hash password'' e)
             | Inr hash \<Rightarrow>
                 let user = \<lparr>us_id = e_uuid E ''users'' 0, us_created_at = e_now E, us_updated_at = e_now E,
                       us_pubkey = pubKey, us_password_hash = hash, us_display_name = displayName,
                       us_avatar_url = '''', us_status = ''active'', us_role = ''user'', us_is_admin = False\<rparr>
                 in case CreateUser E user s of
                      Inl e \<Rightarrow> Inl (Wrapf ''create user'' e)
                    | Inr s' \<Rightarrow> Inr (user, s')))"

definition UpdateProfile :: "env \<Rightarrow> uuid \<Rightarrow> string \<Rightarrow> string option \<Rightarrow> string option \<Rightarrow> id_state \<Rightarrow> user result \<times> id_state" where
  "UpdateProfile E userID sourceDeviceID displayName avatarURL s =
     (case GetByID E userID s of
        Inl e \<Rightarrow> (Inl e, s)
      | Inr user \<Rightarrow>
          let user1 = (case displayName of None \<Rightarrow> user | Some n \<Rightarrow> user\<lparr>us_display_name := n\<rparr>);
              user2 = (case avatarURL of None \<Rightarrow> user1 | Some a \<Rightarrow> user1\<lparr>us_avatar_url := a\<rparr>)
          in case UpdateUser E user2 s of
               Inl e \<Rightarrow> (Inl e, s)
             | Inr (user3, s1) \<Rightarrow>
                 let oid = e_uuid_str E (us_id user3);
                     payload = [(''object_id'', AStr oid), (''user_id'', AStr oid),
                       (''display_name'', AStr (us_display_name user3)),
                       (''avatar_url'', AStr (us_avatar_url user3)), (''updated_at'', ATime (us_updated_at user3))];
                     en = \<lparr>en_user_id = us_id user3, en_source_device_id = sourceDeviceID,
                       en_object_type = SyncObjectProfile, en_object_id = oid,
                       en_operation = SyncOperationUpdated, en_client_event_id = '''', en_payload = Some payload\<rparr>
                 in (Inr user3, s1\<lparr>is_sync := snd (RecordEnvelope E 0 en (is_sync s1))\<rparr>))"

text \<open>\<open>PairDevice\<close>, which its endpoint no longer calls.\<close>

definition PairDevice :: "env \<Rightarrow> uuid \<Rightarrow> string \<Rightarrow> string \<Rightarrow> string \<Rightarrow> id_state \<Rightarrow> device result \<times> id_state" where
  "PairDevice E userID deviceID deviceName devicePubKey s =
     (case GetDevice E 0 deviceID s of
        Inr existing \<Rightarrow>
          if dv_user_id existing \<noteq> userID then (Inl (Errorf ''device belongs to another user''), s)
          else (Inr existing, s)
      | Inl _ \<Rightarrow>
          let device = \<lparr>dv_id = e_uuid E ''devices'' 0, dv_user_id = userID, dv_device_id = deviceID,
                dv_device_name = deviceName, dv_pubkey = devicePubKey, dv_status = ''active'',
                dv_paired_at = e_now E, dv_last_seen_at = None, dv_revoked_at = None, dv_revoked_by = None\<rparr>
          in case CreateDevice E device s of
               Inl e \<Rightarrow> (Inl (Wrapf ''pair device'' e), s)
             | Inr s' \<Rightarrow> (Inr device, s'))"

definition RenameDevice :: "env \<Rightarrow> uuid \<Rightarrow> string \<Rightarrow> string \<Rightarrow> id_state \<Rightarrow> (device \<times> id_state) result" where
  "RenameDevice E userID deviceID deviceName s =
     (if deviceName = '''' then Inl (Errorf ''device_name is required'')
      else case GetDevice E 0 deviceID s of
             Inl e \<Rightarrow> Inl (Wrapf ''device not found'' e)
           | Inr device \<Rightarrow>
               if dv_user_id device \<noteq> userID then Inl (Errorf ''device does not belong to user'')
               else if dv_status device = ''revoked'' then Inl (Errorf ''device revoked'')
               else
                 let device' = device\<lparr>dv_device_name := deviceName,
                       dv_status := (if dv_status device = '''' then ''active'' else dv_status device)\<rparr>
                 in case UpdateDevice E device' s of
                      Inl e \<Rightarrow> Inl e
                    | Inr s' \<Rightarrow> Inr (device', s'))"

definition RevokeDevice :: "env \<Rightarrow> uuid \<Rightarrow> string \<Rightarrow> string \<Rightarrow> id_state \<Rightarrow> device result \<times> id_state" where
  "RevokeDevice E userID currentDeviceID targetDeviceID s =
     (if targetDeviceID = '''' then (Inl (Errorf ''device_id is required''), s)
      else if targetDeviceID = currentDeviceID then (Inl (Errorf ''cannot revoke current device''), s)
      else case GetDevice E 0 targetDeviceID s of
             Inl e \<Rightarrow> (Inl (Wrapf ''device not found'' e), s)
           | Inr device \<Rightarrow>
               if dv_user_id device \<noteq> userID then (Inl (Errorf ''device does not belong to user''), s)
               else if dv_status device = ''revoked'' then (Inl (Errorf ''device already revoked''), s)
               else (case CountActiveDevices E userID s of
                       Inl e \<Rightarrow> (Inl e, s)
                     | Inr activeCount \<Rightarrow>
                         if activeCount \<le> 1 then (Inl (Errorf ''cannot revoke the only active device''), s)
                         else (case RevokeDevice_repo E targetDeviceID userID s of
                                 Inl e \<Rightarrow> (Inl e, s)
                               | Inr s1 \<Rightarrow>
                                   (case GetDevice E 1 targetDeviceID s1 of
                                      Inl e \<Rightarrow> (Inl e, s1)
                                    | Inr device' \<Rightarrow> (Inr device', s1)))))"

definition VerifyPassword :: "env \<Rightarrow> uuid \<Rightarrow> string \<Rightarrow> id_state \<Rightarrow> bool result" where
  "VerifyPassword E userID password s =
     (case GetByID E userID s of
        Inl e \<Rightarrow> Inl (Wrapf ''user not found'' e)
      | Inr user \<Rightarrow>
          if us_password_hash user = '''' then Inl (Errorf ''no password set'')
          else Inr (e_bcrypt_ok E (us_password_hash user) password))"

text \<open>The identity service's own \<open>SetPassword\<close>, which no endpoint calls.\<close>

definition SetPassword_identity :: "env \<Rightarrow> uuid \<Rightarrow> string \<Rightarrow> id_state \<Rightarrow> id_state result" where
  "SetPassword_identity E userID password s =
     (case GetByID E userID s of
        Inl e \<Rightarrow> Inl (Wrapf ''user not found'' e)
      | Inr user \<Rightarrow>
          (case e_bcrypt E password of
             Inl e \<Rightarrow> Inl (Wrapf ''hash password'' e)
           | Inr hash \<Rightarrow>
               (case UpdateUser E (user\<lparr>us_password_hash := hash\<rparr>) s of
                  Inl e \<Rightarrow> Inl e
                | Inr (_, s') \<Rightarrow> Inr s')))"

section \<open>Access\<close>

text \<open>The admin middleware: who may call the endpoints under \<open>/admin\<close>.\<close>

definition AdminMiddleware :: "env \<Rightarrow> uuid \<Rightarrow> id_state \<Rightarrow> bool" where
  "AdminMiddleware E userID s =
     (case GetByID E userID s of
        Inl _ \<Rightarrow> False
      | Inr user \<Rightarrow> us_status user = ''active''
          \<and> (us_is_admin user \<or> us_role user = ''admin'' \<or> us_role user = ''owner''))"

text \<open>The JWT middleware, over the library's \<open>parse\<close> of a token with the server's secret: the user
  and device it names when it is valid, signed with an HMAC method and not expired.\<close>

definition JWTAuth :: "(string \<Rightarrow> time \<Rightarrow> (uuid \<times> string) option) \<Rightarrow> env \<Rightarrow> string \<Rightarrow> (uuid \<times> string) result" where
  "JWTAuth parse E auth =
     (if auth = '''' \<or> \<not> has_prefix auth ''Bearer '' then Inl (Errorf ''missing or invalid authorization header'')
      else case parse (drop 7 auth) (e_now E) of
             None \<Rightarrow> Inl (Errorf ''invalid or expired token'')
           | Some claims \<Rightarrow> Inr claims)"

end
