(* ===== verification/Tokens.thy ===== *)
theory Tokens
  imports Identity
begin

text \<open>
  One-time tokens over users and devices: the QR pairing of a new device
  (\<open>internal/service/device_pairing.go\<close>) and the password-backed confirmations of sensitive operations
  (\<open>internal/service/sensitive_operation.go\<close>, \<open>internal/handler/sensitive_confirmation_enforcement.go\<close>).
\<close>

definition record_id_audit :: "env \<Rightarrow> nat \<Rightarrow> uuid \<Rightarrow> string \<Rightarrow> string \<Rightarrow> string \<Rightarrow> string \<Rightarrow> string \<Rightarrow> json_map option
    \<Rightarrow> id_state \<Rightarrow> id_state" where
  "record_id_audit E n actor deviceID action resourceType resourceID outcome meta s =
     s\<lparr>is_audit := snd (Record_audit E n
        \<lparr>ai_actor_user_id = Some actor, ai_actor_device_id = deviceID, ai_action = action,
         ai_resource_type = resourceType, ai_resource_id = resourceID, ai_outcome = outcome,
         ai_ip_address = '''', ai_user_agent = '''', ai_metadata = meta\<rparr> (is_audit s))\<rparr>"

text \<open>The audit entry of an endpoint also has the address and agent of the request.\<close>

definition recordAuditFromContext :: "env \<Rightarrow> nat \<Rightarrow> uuid \<Rightarrow> string \<Rightarrow> string \<Rightarrow> string \<Rightarrow> string \<Rightarrow> string
    \<Rightarrow> json_map option \<Rightarrow> id_state \<Rightarrow> id_state" where
  "recordAuditFromContext E n actor deviceID action resourceType resourceID outcome meta s =
     s\<lparr>is_audit := snd (Record_audit E n
        \<lparr>ai_actor_user_id = Some actor, ai_actor_device_id = deviceID, ai_action = action,
         ai_resource_type = resourceType, ai_resource_id = resourceID, ai_outcome = outcome,
         ai_ip_address = e_client_ip E, ai_user_agent = e_user_agent E, ai_metadata = meta\<rparr> (is_audit s))\<rparr>"

section \<open>Pairing repository\<close>

definition CreatePairingSession :: "env \<Rightarrow> pairing_session \<Rightarrow> id_state \<Rightarrow> id_state result" where
  "CreatePairingSession E p s =
     (case db_insert E ''CreatePairingSession'' 0 (\<lambda>p x. ps_id x = ps_id p \<or> ps_qr_hash x = ps_qr_hash p) p
             (is_pairings s) of
        Inl e \<Rightarrow> Inl e | Inr t \<Rightarrow> Inr (s\<lparr>is_pairings := t\<rparr>))"

definition GetPairingSession :: "env \<Rightarrow> uuid \<Rightarrow> id_state \<Rightarrow> pairing_session result" where
  "GetPairingSession E i s = db_first E ''GetPairingSession'' 0 ps_id (\<lambda>p. ps_id p = i) (is_pairings s)"

text \<open>One transaction: an error rolls everything back.\<close>

definition ClaimPairingSession :: "env \<Rightarrow> uuid \<Rightarrow> device \<Rightarrow> id_state \<Rightarrow> id_state result" where
  "ClaimPairingSession E sessionID device s =
     (case db_first E ''ClaimPairingSession.lock'' 0 ps_id (\<lambda>p. ps_id p = sessionID) (is_pairings s) of
        Inl e \<Rightarrow> Inl (Wrapf ''pairing session not found'' e)
      | Inr session \<Rightarrow>
          if ps_used_at session \<noteq> None then Inl (Errorf ''pairing session already used'')
          else if ps_expires_at session < e_now E then Inl (Errorf ''pairing session expired'')
          else case CreateDevice E device s of
                 Inl e \<Rightarrow> Inl (Wrapf ''create paired device'' e)
               | Inr s1 \<Rightarrow>
                   (case db_update E ''ClaimPairingSession.mark'' 0 (\<lambda>p. ps_id p = sessionID \<and> ps_used_at p = None)
                           (\<lambda>p. p\<lparr>ps_used_at := Some (e_now E), ps_claimed_by_device := dv_device_id device\<rparr>)
                           (is_pairings s1) of
                      Inl e \<Rightarrow> Inl (Wrapf ''mark pairing session used'' e)
                    | Inr t \<Rightarrow>
                        if count_where (\<lambda>p. ps_id p = sessionID \<and> ps_used_at p = None) (is_pairings s1) \<noteq> 1
                        then Inl (Errorf ''pairing session already used'')
                        else Inr (s1\<lparr>is_pairings := t\<rparr>)))"

section \<open>Pairing service\<close>

record qr_payload =
  qr_version :: int
  qr_server_id :: string
  qr_session_id :: uuid
  qr_token :: string
  qr_expires_at :: int

definition encodeQRPayload :: "env \<Rightarrow> qr_payload \<Rightarrow> string result" where
  "encodeQRPayload E p =
     (case e_json E [(''version'', AInt (qr_version p)), (''server_id'', AStr (qr_server_id p)),
                     (''pairing_session_id'', AStr (e_uuid_str E (qr_session_id p))),
                     (''pairing_token'', AStr (qr_token p)), (''expires_at'', AInt (qr_expires_at p))] of
        Inl e \<Rightarrow> Inl (Wrapf ''marshal qr payload'' e)
      | Inr text \<Rightarrow> Inr (e_b64 E text))"

text \<open>Unmarshalling into a struct: an absent field has the zero value, a field of the wrong type is
  an error.\<close>

definition str_field :: "json_map \<Rightarrow> string \<Rightarrow> string result" where
  "str_field m k = (case jget m k of AStr v \<Rightarrow> Inr v | ANil \<Rightarrow> Inr '''' | _ \<Rightarrow> Inl (Errorf ''invalid qr payload''))"

definition int_field :: "json_map \<Rightarrow> string \<Rightarrow> int result" where
  "int_field m k = (case jget m k of AInt v \<Rightarrow> Inr v | ANil \<Rightarrow> Inr 0 | _ \<Rightarrow> Inl (Errorf ''invalid qr payload''))"

definition uuid_field :: "env \<Rightarrow> json_map \<Rightarrow> string \<Rightarrow> uuid result" where
  "uuid_field E m k =
     (case jget m k of
        AStr v \<Rightarrow> (case e_uuid_parse E v of None \<Rightarrow> Inl (Errorf ''invalid qr payload'') | Some u \<Rightarrow> Inr u)
      | ANil \<Rightarrow> Inr uuid_nil | _ \<Rightarrow> Inl (Errorf ''invalid qr payload''))"

definition decodeQRPayload :: "env \<Rightarrow> string \<Rightarrow> qr_payload result" where
  "decodeQRPayload E encoded =
     (case e_unb64 E encoded of
        Inl e \<Rightarrow> Inl (Wrapf ''invalid qr payload'' e)
      | Inr text \<Rightarrow>
          (case e_unjson E text of
             Inl e \<Rightarrow> Inl (Wrapf ''invalid qr payload'' e)
           | Inr m \<Rightarrow>
               (case (int_field m ''version'', str_field m ''server_id'', uuid_field E m ''pairing_session_id'',
                      str_field m ''pairing_token'', int_field m ''expires_at'') of
                  (Inr v, Inr sid, Inr i, Inr tok, Inr x) \<Rightarrow>
                    Inr \<lparr>qr_version = v, qr_server_id = sid, qr_session_id = i, qr_token = tok, qr_expires_at = x\<rparr>
                | _ \<Rightarrow> Inl (Errorf ''invalid qr payload''))))"

abbreviation pairing_server_id :: string where
  "pairing_server_id \<equiv> ''default''"

record start_pairing_response =
  sp_session_id :: uuid
  sp_qr_payload :: string
  sp_expires_at :: int

definition StartPairing :: "env \<Rightarrow> uuid \<Rightarrow> string \<Rightarrow> id_state \<Rightarrow> (start_pairing_response \<times> id_state) result" where
  "StartPairing E userID createdByDeviceID s =
     (case GetDevice E 0 createdByDeviceID s of
        Inl e \<Rightarrow> Inl (Wrapf ''device not found'' e)
      | Inr oldDevice \<Rightarrow>
          if dv_user_id oldDevice \<noteq> userID then Inl (Errorf ''device does not belong to user'')
          else if dv_status oldDevice = ''revoked'' then Inl (Errorf ''device revoked'')
          else
            (case e_rand E ''pairing token'' 0 of
               Inl e \<Rightarrow> Inl (Wrapf ''generate pairing token'' e)
             | Inr token \<Rightarrow>
                 let expiresAt = e_now E + minutes 2;
                     sid = e_uuid E ''device_pairing_sessions'' 0;
                     payload = \<lparr>qr_version = 1, qr_server_id = pairing_server_id, qr_session_id = sid,
                                qr_token = token, qr_expires_at = unix expiresAt\<rparr>
                 in case encodeQRPayload E payload of
                      Inl e \<Rightarrow> Inl e
                    | Inr encodedPayload \<Rightarrow>
                        (case e_bcrypt E token of
                           Inl e \<Rightarrow> Inl (Wrapf ''hash pairing token'' e)
                         | Inr tokenHash \<Rightarrow>
                             let session = \<lparr>ps_id = sid, ps_user_id = userID, ps_token_hash = tokenHash,
                                   ps_qr_hash = e_sha256_hex E encodedPayload, ps_expires_at = expiresAt,
                                   ps_used_at = None, ps_created_by_device = createdByDeviceID,
                                   ps_claimed_by_device = ''''\<rparr>
                             in case CreatePairingSession E session s of
                                  Inl e \<Rightarrow> Inl (Wrapf ''create pairing session'' e)
                                | Inr s1 \<Rightarrow>
                                    Inr (\<lparr>sp_session_id = sid, sp_qr_payload = encodedPayload,
                                          sp_expires_at = unix expiresAt\<rparr>,
                                         record_id_audit E 0 userID createdByDeviceID ''device.pairing.started''
                                           ''device_pairing_session'' (e_uuid_str E sid) AuditOutcomeSuccess
                                           (Some [(''expires_at'', AInt (unix expiresAt))]) s1))))"

record claim_pairing_request =
  cp_qr_payload :: string
  cp_new_device_id :: string
  cp_new_device_name :: string
  cp_new_device_pubkey :: string
  cp_signature :: string

text \<open>The challenge the new device signs; its marshalling error is dropped and leaves no bytes.\<close>

definition canonicalClaimChallenge :: "env \<Rightarrow> qr_payload \<Rightarrow> claim_pairing_request \<Rightarrow> string" where
  "canonicalClaimChallenge E payload req =
     (case e_json E [(''expires_at'', AInt (qr_expires_at payload)),
                     (''new_device_id'', AStr (cp_new_device_id req)),
                     (''new_device_pubkey'', AStr (cp_new_device_pubkey req)),
                     (''pairing_session_id'', AStr (e_uuid_str E (qr_session_id payload))),
                     (''purpose'', AStr ''agentos.device_pairing.claim''),
                     (''server_id'', AStr (qr_server_id payload)),
                     (''version'', AInt (qr_version payload))] of
        Inl _ \<Rightarrow> '''' | Inr text \<Rightarrow> text)"

definition check_pairing_claim :: "env \<Rightarrow> claim_pairing_request \<Rightarrow> id_state \<Rightarrow> (qr_payload \<times> pairing_session) result" where
  "check_pairing_claim E req s =
     (case decodeQRPayload E (cp_qr_payload req) of
        Inl e \<Rightarrow> Inl e
      | Inr payload \<Rightarrow>
          if qr_server_id payload \<noteq> pairing_server_id then Inl (Errorf ''invalid pairing server'')
          else if qr_expires_at payload \<le> unix (e_now E) then Inl (Errorf ''pairing session expired'')
          else case GetPairingSession E (qr_session_id payload) s of
                 Inl e \<Rightarrow> Inl (Wrapf ''pairing session not found'' e)
               | Inr session \<Rightarrow>
                   if ps_used_at session \<noteq> None then Inl (Errorf ''pairing session already used'')
                   else if ps_expires_at session < e_now E then Inl (Errorf ''pairing session expired'')
                   else if ps_qr_hash session \<noteq> e_sha256_hex E (cp_qr_payload req)
                   then Inl (Errorf ''invalid qr payload'')
                   else if \<not> e_bcrypt_ok E (ps_token_hash session) (qr_token payload)
                   then Inl (Errorf ''invalid pairing token'')
                   else (case GetDevice E 0 (cp_new_device_id req) s of
                           Inr _ \<Rightarrow> Inl (Errorf ''device id already exists'')
                         | Inl _ \<Rightarrow>
                             (case e_verify E (canonicalClaimChallenge E payload req) (cp_signature req)
                                     (cp_new_device_pubkey req) of
                                Inl e \<Rightarrow> Inl (Wrapf ''verify new device signature'' e)
                              | Inr valid \<Rightarrow>
                                  if \<not> valid then Inl (Errorf ''new device signature verification failed'')
                                  else Inr (payload, session))))"

definition ClaimPairing :: "env \<Rightarrow> claim_pairing_request \<Rightarrow> id_state \<Rightarrow> (device \<times> id_state) result" where
  "ClaimPairing E req s =
     (case check_pairing_claim E req s of
        Inl e \<Rightarrow> Inl e
      | Inr (payload, session) \<Rightarrow>
          let deviceName = (if cp_new_device_name req = '''' then ''New Device'' else cp_new_device_name req);
              device = \<lparr>dv_id = e_uuid E ''devices'' 0, dv_user_id = ps_user_id session,
                dv_device_id = cp_new_device_id req, dv_device_name = deviceName,
                dv_pubkey = cp_new_device_pubkey req, dv_status = ''active'', dv_paired_at = e_now E,
                dv_last_seen_at = None, dv_revoked_at = None, dv_revoked_by = None\<rparr>
          in case ClaimPairingSession E (ps_id session) device s of
               Inl e \<Rightarrow> Inl e
             | Inr s1 \<Rightarrow>
                 Inr (device, record_id_audit E 0 (ps_user_id session) (cp_new_device_id req)
                        ''device.pairing.claimed'' ''device'' (cp_new_device_id req) AuditOutcomeSuccess
                        (Some [(''pairing_session_id'', AStr (e_uuid_str E (ps_id session))),
                               (''created_by_device_id'', AStr (ps_created_by_device session))]) s1))"

section \<open>Sensitive operations\<close>

definition CreateConfirmation :: "env \<Rightarrow> confirmation \<Rightarrow> id_state \<Rightarrow> id_state result" where
  "CreateConfirmation E c s =
     (case db_insert E ''CreateConfirmation'' 0 (\<lambda>c x. cf_id x = cf_id c \<or> cf_token_hash x = cf_token_hash c) c
             (is_confirmations s) of
        Inl e \<Rightarrow> Inl e | Inr t \<Rightarrow> Inr (s\<lparr>is_confirmations := t\<rparr>))"

definition GetUsableConfirmation :: "env \<Rightarrow> uuid \<Rightarrow> string \<Rightarrow> string \<Rightarrow> id_state \<Rightarrow> confirmation result" where
  "GetUsableConfirmation E u tokenHash operation s =
     db_first E ''GetUsableConfirmation'' 0 cf_id
       (\<lambda>c. cf_user_id c = u \<and> cf_token_hash c = tokenHash \<and> cf_operation c = operation
            \<and> cf_used_at c = None \<and> e_now E < cf_expires_at c)
       (is_confirmations s)"

definition MarkUsed :: "env \<Rightarrow> uuid \<Rightarrow> string \<Rightarrow> id_state \<Rightarrow> id_state result" where
  "MarkUsed E i consumedBy s =
     (case db_update E ''MarkUsed'' 0 (\<lambda>c. cf_id c = i \<and> cf_used_at c = None)
             (\<lambda>c. c\<lparr>cf_used_at := Some (e_now E), cf_consumed_by := consumedBy\<rparr>) (is_confirmations s) of
        Inl e \<Rightarrow> Inl e | Inr t \<Rightarrow> Inr (s\<lparr>is_confirmations := t\<rparr>))"

definition DeleteExpired :: "env \<Rightarrow> time \<Rightarrow> id_state \<Rightarrow> (nat \<times> id_state) result" where
  "DeleteExpired E before s =
     (case db_delete E ''DeleteExpired'' 0 (\<lambda>c. cf_expires_at c \<le> before) (is_confirmations s) of
        Inl e \<Rightarrow> Inl e
      | Inr t \<Rightarrow> Inr (count_where (\<lambda>c. cf_expires_at c \<le> before) (is_confirmations s), s\<lparr>is_confirmations := t\<rparr>))"

definition SetPassword :: "env \<Rightarrow> uuid \<Rightarrow> string \<Rightarrow> string \<Rightarrow> id_state \<Rightarrow> id_state result" where
  "SetPassword E userID actorDeviceID password s =
     (let password = trim password in
      if length password < 8 then Inl (Errorf ''password must be at least 8 characters'')
      else case GetByID E userID s of
             Inl e \<Rightarrow> Inl (Wrapf ''user not found'' e)
           | Inr user \<Rightarrow>
               if us_password_hash user \<noteq> '''' then Inl (Errorf ''password already set'')
               else (case e_bcrypt E password of
                       Inl e \<Rightarrow> Inl e
                     | Inr hash \<Rightarrow>
                         (case UpdateUser E (user\<lparr>us_password_hash := hash\<rparr>) s of
                            Inl e \<Rightarrow> Inl e
                          | Inr (_, s1) \<Rightarrow>
                              Inr (record_id_audit E 0 userID actorDeviceID ''identity.password.set'' ''user''
                                     (e_uuid_str E userID) AuditOutcomeSuccess None s1))))"

definition ChangePassword :: "env \<Rightarrow> uuid \<Rightarrow> string \<Rightarrow> string \<Rightarrow> string \<Rightarrow> id_state \<Rightarrow> unit result \<times> id_state" where
  "ChangePassword E userID actorDeviceID currentPassword newPassword s =
     (let newPassword = trim newPassword in
      if length newPassword < 8 then (Inl (Errorf ''password must be at least 8 characters''), s)
      else case GetByID E userID s of
             Inl e \<Rightarrow> (Inl (Wrapf ''user not found'' e), s)
           | Inr user \<Rightarrow>
               if us_password_hash user = '''' then (Inl (Errorf ''no password set''), s)
               else if \<not> e_bcrypt_ok E (us_password_hash user) currentPassword
               then (Inl (Errorf ''invalid current password''),
                     record_id_audit E 0 userID actorDeviceID ''identity.password.changed'' ''user''
                       (e_uuid_str E userID) ''denied'' (Some [(''reason'', AStr ''invalid_current_password'')]) s)
               else (case e_bcrypt E newPassword of
                       Inl e \<Rightarrow> (Inl e, s)
                     | Inr hash \<Rightarrow>
                         (case UpdateUser E (user\<lparr>us_password_hash := hash\<rparr>) s of
                            Inl e \<Rightarrow> (Inl e, s)
                          | Inr (_, s1) \<Rightarrow>
                              (Inr (), record_id_audit E 0 userID actorDeviceID ''identity.password.changed''
                                 ''user'' (e_uuid_str E userID) AuditOutcomeSuccess None s1))))"

record confirmation_response =
  co_token :: string
  co_operation :: string
  co_expires_at :: time

definition IssueConfirmation :: "env \<Rightarrow> uuid \<Rightarrow> string \<Rightarrow> string \<Rightarrow> string \<Rightarrow> id_state
    \<Rightarrow> confirmation_response result \<times> id_state" where
  "IssueConfirmation E userID actorDeviceID password operation s =
     (let operation = trim operation in
      if operation = '''' then (Inl (Errorf ''operation is required''), s)
      else case VerifyPassword E userID password s of
             Inl e \<Rightarrow> (Inl e, s)
           | Inr ok \<Rightarrow>
               if \<not> ok
               then (Inl (Errorf ''invalid password''),
                     record_id_audit E 0 userID actorDeviceID ''sensitive_operation.confirmation.issued''
                       ''sensitive_operation'' operation ''denied'' (Some [(''reason'', AStr ''invalid_password'')]) s)
               else (case e_rand E ''confirmation'' 0 of
                       Inl e \<Rightarrow> (Inl e, s)
                     | Inr token \<Rightarrow>
                         let expiresAt = e_now E + minutes 5;
                             c = \<lparr>cf_id = e_uuid E ''sensitive_operation_confirmations'' 0, cf_user_id = userID,
                                  cf_device_id = actorDeviceID, cf_operation = operation,
                                  cf_token_hash = e_sha256_hex E token, cf_expires_at = expiresAt,
                                  cf_used_at = None, cf_consumed_by = ''''\<rparr>
                         in case CreateConfirmation E c s of
                              Inl e \<Rightarrow> (Inl e, s)
                            | Inr s1 \<Rightarrow>
                                (Inr \<lparr>co_token = token, co_operation = operation, co_expires_at = expiresAt\<rparr>,
                                 record_id_audit E 0 userID actorDeviceID ''sensitive_operation.confirmation.issued''
                                   ''sensitive_operation'' operation AuditOutcomeSuccess
                                   (Some [(''expires_at'', AInt (unix expiresAt))]) s1)))"

definition CleanupExpiredConfirmations :: "env \<Rightarrow> time option \<Rightarrow> id_state \<Rightarrow> (nat \<times> id_state) result" where
  "CleanupExpiredConfirmations E now s = DeleteExpired E (case now of None \<Rightarrow> e_now E | Some t \<Rightarrow> t) s"

definition ConsumeConfirmation :: "env \<Rightarrow> uuid \<Rightarrow> string \<Rightarrow> string \<Rightarrow> string \<Rightarrow> id_state \<Rightarrow> unit result \<times> id_state" where
  "ConsumeConfirmation E userID token operation consumedBy s =
     (if trim token = '''' then (Inl (Errorf ''confirmation token is required''), s)
      else case GetUsableConfirmation E userID (e_sha256_hex E token) operation s of
             Inl _ \<Rightarrow> (Inl (Errorf ''invalid or expired confirmation token''), s)
           | Inr c \<Rightarrow>
               (case MarkUsed E (cf_id c) consumedBy s of
                  Inl e \<Rightarrow> (Inl e, s)
                | Inr s1 \<Rightarrow>
                    (Inr (), record_id_audit E 0 userID (cf_device_id c)
                       ''sensitive_operation.confirmation.consumed'' ''sensitive_operation'' operation
                       AuditOutcomeSuccess (Some [(''consumed_by'', AStr consumedBy)]) s1)))"

text \<open>The endpoint of device revocation: the confirmation is consumed first, then the device revoked,
  and both outcomes are audited.\<close>

definition enforceSensitiveConfirmation :: "env \<Rightarrow> uuid \<Rightarrow> string \<Rightarrow> string \<Rightarrow> string \<Rightarrow> string \<Rightarrow> string
    \<Rightarrow> string \<Rightarrow> string \<Rightarrow> id_state \<Rightarrow> bool \<times> id_state" where
  "enforceSensitiveConfirmation E userID deviceID token operation consumedBy deniedAction resourceType resourceID s =
     (case ConsumeConfirmation E userID token operation consumedBy s of
        (Inl e, s1) \<Rightarrow>
          (False, recordAuditFromContext E 1 userID deviceID deniedAction resourceType resourceID ''denied''
             (Some [(''error'', AStr (err_text e)), (''reason'', AStr ''confirmation_required''), (''operation'', AStr operation)]) s1)
      | (Inr _, s1) \<Rightarrow> (True, s1))"

definition revoke_device_endpoint :: "env \<Rightarrow> uuid \<Rightarrow> string \<Rightarrow> string \<Rightarrow> string \<Rightarrow> id_state \<Rightarrow> device result \<times> id_state" where
  "revoke_device_endpoint E userID currentDeviceID targetDeviceID token s =
     (if token = '''' then (Inl (Errorf ''confirmation_token is required''), s)
      else case enforceSensitiveConfirmation E userID currentDeviceID token ''device.revoke'' ''device.revoke''
                  ''device.revoked'' ''device'' targetDeviceID s of
             (False, s1) \<Rightarrow> (Inl (Errorf ''forbidden''), s1)
           | (True, s1) \<Rightarrow>
               (case RevokeDevice E userID currentDeviceID targetDeviceID s1 of
                  (Inl e, s2) \<Rightarrow>
                    (Inl e, recordAuditFromContext E 2 userID currentDeviceID ''device.revoked'' ''device'' targetDeviceID
                              ''failure'' (Some [(''error'', AStr (err_text e))]) s2)
                | (Inr d, s2) \<Rightarrow>
                    (Inr d, recordAuditFromContext E 2 userID currentDeviceID ''device.revoked'' ''device'' targetDeviceID
                              AuditOutcomeSuccess None s2)))"

end
