(* ===== verification/SingleUse.thy ===== *)
theory SingleUse
  imports Prelude
begin

text \<open>
  The contract of one-time tokens, which several services share: an attempt succeeds only for a key
  that is not spent, spends it, and nothing else un-spends it. Then, in any sequence of requests, a
  key is accepted at most once.
\<close>

text \<open>The number of successful attempts with the key \<open>k\<close> in a sequence of attempts (left) and other
  requests (right).\<close>

fun wins :: "('q \<Rightarrow> 's \<Rightarrow> 'r result \<times> 's) \<Rightarrow> ('o \<Rightarrow> 's \<Rightarrow> 's) \<Rightarrow> ('q \<Rightarrow> 'k) \<Rightarrow> 'k \<Rightarrow> ('q + 'o) list \<Rightarrow> 's \<Rightarrow> nat" where
  "wins attempt other key k [] s = 0"
| "wins attempt other key k (Inl q # xs) s =
     (case attempt q s of
        (Inl _, s') \<Rightarrow> wins attempt other key k xs s'
      | (Inr _, s') \<Rightarrow> (if key q = k then 1 else 0) + wins attempt other key k xs s')"
| "wins attempt other key k (Inr x # xs) s = wins attempt other key k xs (other x s)"

locale single_use =
  fixes attempt :: "'q \<Rightarrow> 's \<Rightarrow> 'r result \<times> 's"
    and other :: "'o \<Rightarrow> 's \<Rightarrow> 's"
    and key :: "'q \<Rightarrow> 'k"
    and harmless :: "'k \<Rightarrow> 'o \<Rightarrow> bool"
    and spent :: "'k \<Rightarrow> 's \<Rightarrow> bool"
    and inv :: "'s \<Rightarrow> bool"
  assumes attempt_fresh: "inv s \<Longrightarrow> attempt q s = (Inr r, s') \<Longrightarrow> \<not> spent (key q) s"
    and attempt_spends: "inv s \<Longrightarrow> attempt q s = (Inr r, s') \<Longrightarrow> spent (key q) s'"
    and attempt_keeps: "inv s \<Longrightarrow> spent k s \<Longrightarrow> spent k (snd (attempt q s))"
    and other_keeps: "inv s \<Longrightarrow> harmless k x \<Longrightarrow> spent k s \<Longrightarrow> spent k (other x s)"
    and inv_attempt: "inv s \<Longrightarrow> inv (snd (attempt q s))"
    and inv_other: "inv s \<Longrightarrow> inv (other x s)"
begin

abbreviation harmless_run :: "'k \<Rightarrow> ('q + 'o) list \<Rightarrow> bool" where
  "harmless_run k xs \<equiv> list_all (case_sum (\<lambda>_. True) (harmless k)) xs"

lemma wins_spent: "inv s \<Longrightarrow> spent k s \<Longrightarrow> harmless_run k xs \<Longrightarrow> wins attempt other key k xs s = 0"
proof (induction xs arbitrary: s)
  case (Cons x xs)
  show ?case
  proof (cases x)
    case (Inl q)
    obtain r s' where a: "attempt q s = (r, s')" by fastforce
    have "inv s'" "spent k s'" using inv_attempt [OF Cons.prems(1), of q] attempt_keeps [OF Cons.prems(1,2), of q] a by auto
    then have "wins attempt other key k xs s' = 0" using Cons.IH Cons.prems(3) by simp
    with a attempt_fresh [OF Cons.prems(1)] Cons.prems(2) Inl show ?thesis by (cases r) auto
  next
    case (Inr y)
    with Cons show ?thesis by (simp add: inv_other other_keeps)
  qed
qed simp

lemma at_most_once: "inv s \<Longrightarrow> harmless_run k xs \<Longrightarrow> wins attempt other key k xs s \<le> 1"
proof (induction xs arbitrary: s)
  case (Cons x xs)
  show ?case
  proof (cases x)
    case (Inl q)
    obtain r s' where a: "attempt q s = (r, s')" by fastforce
    have i: "inv s'" using inv_attempt [OF Cons.prems(1), of q] a by simp
    then have le: "wins attempt other key k xs s' \<le> 1" using Cons.IH Cons.prems(2) by simp
    show ?thesis
    proof (cases "\<exists>y. r = Inr y \<and> key q = k")
      case True
      with attempt_spends [OF Cons.prems(1)] a have "spent k s'" by auto
      with wins_spent i Cons.prems(2) have "wins attempt other key k xs s' = 0" by simp
      with True a Inl show ?thesis by auto
    next
      case False
      with a Inl le show ?thesis by (cases r) auto
    qed
  next
    case (Inr y)
    with Cons show ?thesis by (simp add: inv_other)
  qed
qed simp

end

end
