(* ===== verification/TokenProps.thy ===== *)
theory TokenProps
  imports Tokens SingleUse
begin

text \<open>
  Confirmations of sensitive operations and pairing sessions are one-time tokens (\<open>single_use\<close>);
  what a claimed pairing and a consumed confirmation guarantee; where the two differ when requests
  run at the same time.
\<close>

section \<open>Confirmations\<close>

lemma record_id_audit_simps [simp]:
  "is_users (record_id_audit E n a d x y z w m s) = is_users s"
  "is_devices (record_id_audit E n a d x y z w m s) = is_devices s"
  "is_pairings (record_id_audit E n a d x y z w m s) = is_pairings s"
  "is_confirmations (record_id_audit E n a d x y z w m s) = is_confirmations s"
  by (simp_all add: record_id_audit_def)

lemma recordAuditFromContext_simps [simp]:
  "is_users (recordAuditFromContext E n a d x y z w m s) = is_users s"
  "is_devices (recordAuditFromContext E n a d x y z w m s) = is_devices s"
  "is_pairings (recordAuditFromContext E n a d x y z w m s) = is_pairings s"
  "is_confirmations (recordAuditFromContext E n a d x y z w m s) = is_confirmations s"
  by (simp_all add: recordAuditFromContext_def)

text \<open>A request to consume: environment, user, token, operation, purpose. Its key is the digest
  under which the token is stored.\<close>

type_synonym consume_req = "env \<times> uuid \<times> string \<times> string \<times> string"

fun consume :: "consume_req \<Rightarrow> id_state \<Rightarrow> unit result \<times> id_state" where
  "consume (E, u, token, operation, purpose) s = ConsumeConfirmation E u token operation purpose s"

fun consume_digest :: "consume_req \<Rightarrow> string" where
  "consume_digest (E, u, token, operation, purpose) = e_sha256_hex E token"

text \<open>The other requests on accounts that come in between.\<close>

datatype account_req =
    QSetPassword env uuid string string
  | QChangePassword env uuid string string string
  | QIssue env uuid string string string
  | QCleanup env "time option"
  | QRevoke env uuid string string

fun account_serve :: "account_req \<Rightarrow> id_state \<Rightarrow> id_state" where
  "account_serve (QSetPassword E u d p) s = (case SetPassword E u d p s of Inl _ \<Rightarrow> s | Inr s' \<Rightarrow> s')"
| "account_serve (QChangePassword E u d p p') s = snd (ChangePassword E u d p p' s)"
| "account_serve (QIssue E u d p operation) s = snd (IssueConfirmation E u d p operation s)"
| "account_serve (QCleanup E t) s = (case CleanupExpiredConfirmations E t s of Inl _ \<Rightarrow> s | Inr (_, s') \<Rightarrow> s')"
| "account_serve (QRevoke E u d d') s = snd (RevokeDevice E u d d' s)"

text \<open>An issue is harmless to a digest unless the random token drawn has that very digest.\<close>

fun new_digest :: "string \<Rightarrow> account_req \<Rightarrow> bool" where
  "new_digest k (QIssue E u d p operation) =
     (case e_rand E ''confirmation'' 0 of Inl _ \<Rightarrow> True | Inr token \<Rightarrow> e_sha256_hex E token \<noteq> k)"
| "new_digest k _ = True"

definition digest_spent :: "string \<Rightarrow> id_state \<Rightarrow> bool" where
  "digest_spent k s \<longleftrightarrow> (\<forall>c\<in>set (is_confirmations s). cf_token_hash c = k \<longrightarrow> cf_used_at c \<noteq> None)"

definition digests_distinct :: "id_state \<Rightarrow> bool" where
  "digests_distinct s \<longleftrightarrow> distinct (map cf_token_hash (is_confirmations s))"

lemma ConsumeConfirmation_Inr:
  assumes "ConsumeConfirmation E u token operation purpose s = (Inr r, s')"
  obtains c where "c \<in> set (is_confirmations s)" "cf_user_id c = u" "cf_operation c = operation"
    "cf_token_hash c = e_sha256_hex E token" "cf_used_at c = None" "e_now E < cf_expires_at c"
    "is_confirmations s' = upd_where (\<lambda>x. cf_id x = cf_id c \<and> cf_used_at x = None)
       (\<lambda>x. x\<lparr>cf_used_at := Some (e_now E), cf_consumed_by := purpose\<rparr>) (is_confirmations s)"
proof -
  from assms obtain c where g: "GetUsableConfirmation E u (e_sha256_hex E token) operation s = Inr c"
    and m: "is_confirmations s' = upd_where (\<lambda>x. cf_id x = cf_id c \<and> cf_used_at x = None)
       (\<lambda>x. x\<lparr>cf_used_at := Some (e_now E), cf_consumed_by := purpose\<rparr>) (is_confirmations s)"
    by (auto simp: ConsumeConfirmation_def MarkUsed_def db_update_def split: if_splits sum.splits)
  from g have "first_by cf_id (\<lambda>c. cf_user_id c = u \<and> cf_token_hash c = e_sha256_hex E token
      \<and> cf_operation c = operation \<and> cf_used_at c = None \<and> e_now E < cf_expires_at c) (is_confirmations s) = Some c"
    by (simp add: GetUsableConfirmation_def db_simps)
  from first_by_Some [OF this] m that show thesis by blast
qed

lemma ConsumeConfirmation_confirmations:
  "is_confirmations (snd (ConsumeConfirmation E u token operation purpose s)) = is_confirmations s
   \<or> (\<exists>i. is_confirmations (snd (ConsumeConfirmation E u token operation purpose s)) =
        upd_where (\<lambda>x. cf_id x = i \<and> cf_used_at x = None)
          (\<lambda>x. x\<lparr>cf_used_at := Some (e_now E), cf_consumed_by := purpose\<rparr>) (is_confirmations s))"
  by (cases "ConsumeConfirmation E u token operation purpose s"; cases "fst (ConsumeConfirmation E u token operation purpose s)")
     (auto simp: ConsumeConfirmation_def MarkUsed_def db_update_def split: if_splits sum.splits)

lemma IssueConfirmation_confirmations:
  "is_confirmations (snd (IssueConfirmation E u d p operation s)) = is_confirmations s
   \<or> (\<exists>token c. e_rand E ''confirmation'' 0 = Inr token \<and> cf_token_hash c = e_sha256_hex E token
        \<and> (\<forall>y\<in>set (is_confirmations s). cf_token_hash y \<noteq> cf_token_hash c)
        \<and> is_confirmations (snd (IssueConfirmation E u d p operation s)) = is_confirmations s @ [c])"
  by (cases "e_rand E ''confirmation'' 0"; cases "VerifyPassword E u p s")
     (auto simp: IssueConfirmation_def CreateConfirmation_def db_insert_def list_ex_iff Let_def
       split: sum.splits if_splits)

text \<open>What the other requests do to the confirmations.\<close>

lemma account_serve_confirmations:
  obtains (same) "is_confirmations (account_serve x s) = is_confirmations s"
  | (filtered) P where "is_confirmations (account_serve x s) = filter P (is_confirmations s)"
  | (issued) E u d p operation c where "x = QIssue E u d p operation"
      "is_confirmations (account_serve x s) = is_confirmations s @ [c]"
      "\<forall>y\<in>set (is_confirmations s). cf_token_hash y \<noteq> cf_token_hash c"
      "\<not> new_digest (cf_token_hash c) x"
proof (cases x)
  case (QSetPassword E u d p)
  then show ?thesis by (intro same)
    (auto simp: SetPassword_def UpdateUser_def Let_def split: sum.splits if_splits)
next
  case (QChangePassword E u d p p')
  then show ?thesis by (intro same)
    (auto simp: ChangePassword_def UpdateUser_def Let_def split: sum.splits if_splits)
next
  case (QIssue E u d p operation)
  with IssueConfirmation_confirmations [of E u d p operation s] show ?thesis
    by (auto intro: same issued [OF QIssue])
next
  case (QCleanup E t)
  have "is_confirmations (account_serve x s) = is_confirmations s
      \<or> (\<exists>P. is_confirmations (account_serve x s) = filter P (is_confirmations s))"
    using QCleanup
    by (auto simp: CleanupExpiredConfirmations_def DeleteExpired_def db_delete_def del_where_def split: sum.splits if_splits)
  then show ?thesis using same filtered by blast
next
  case (QRevoke E u d d')
  then show ?thesis by (intro same)
    (auto simp: RevokeDevice_def RevokeDevice_repo_def split: sum.splits if_splits)
qed

interpretation confirmations: single_use consume account_serve consume_digest new_digest digest_spent digests_distinct
proof
  fix s :: id_state and q :: consume_req and r s'
  assume d: "digests_distinct s" and a: "consume q s = (Inr r, s')"
  obtain E u token operation purpose where q: "q = (E, u, token, operation, purpose)" by (cases q)
  from a q have "ConsumeConfirmation E u token operation purpose s = (Inr r, s')" by simp
  then obtain c where c: "c \<in> set (is_confirmations s)" "cf_token_hash c = e_sha256_hex E token" "cf_used_at c = None"
    and upd: "is_confirmations s' = upd_where (\<lambda>x. cf_id x = cf_id c \<and> cf_used_at x = None)
       (\<lambda>x. x\<lparr>cf_used_at := Some (e_now E), cf_consumed_by := purpose\<rparr>) (is_confirmations s)"
    by (rule ConsumeConfirmation_Inr)
  show "\<not> digest_spent (consume_digest q) s" using c q by (auto simp: digest_spent_def)
  show "digest_spent (consume_digest q) s'"
    unfolding digest_spent_def
  proof (intro ballI impI)
    fix y assume "y \<in> set (is_confirmations s')" and k: "cf_token_hash y = consume_digest q"
    then show "cf_used_at y \<noteq> None" unfolding upd
    proof (cases rule: in_upd_whereE)
      case same
      with k q c have "y = c"
        using distinct_map_same [OF d [unfolded digests_distinct_def] same(1) c(1)] by simp
      with same(2) c show ?thesis by auto
    qed auto
  qed
next
  fix s :: id_state and k :: string and q :: consume_req
  assume "digests_distinct s" "digest_spent k s"
  obtain E u token operation purpose where q: "q = (E, u, token, operation, purpose)" by (cases q)
  show "digest_spent k (snd (consume q s))"
    using ConsumeConfirmation_confirmations [of E u token operation purpose s] \<open>digest_spent k s\<close>
    by (auto simp: q digest_spent_def table_simps)
next
  fix s k x
  assume d: "digests_distinct s" "new_digest k x" "digest_spent k s"
  show "digest_spent k (account_serve x s)"
    by (cases rule: account_serve_confirmations [of x s]) (use d in \<open>auto simp: digest_spent_def\<close>)
next
  fix s :: id_state and q :: consume_req
  assume d: "digests_distinct s"
  obtain E u token operation purpose where q: "q = (E, u, token, operation, purpose)" by (cases q)
  show "digests_distinct (snd (consume q s))"
    using ConsumeConfirmation_confirmations [of E u token operation purpose s] d
    by (auto simp: q digests_distinct_def map_upd_where)
next
  fix s x
  assume d: "digests_distinct s"
  show "digests_distinct (account_serve x s)"
    by (cases rule: account_serve_confirmations [of x s]) (use d in \<open>auto simp: digests_distinct_def distinct_map_filter\<close>)
qed

text \<open>
  C6: A confirmation token is accepted at most once: in any sequence of attempts to consume tokens, by
  any users and for any operations, with password changes, new confirmations, cleanups and device
  revocations in between, at most one attempt with a given digest succeeds, as long as no newly
  drawn token has that digest.
\<close>

theorem confirmation_single_use:
  assumes "digests_distinct s" "list_all (case_sum (\<lambda>_. True) (new_digest k)) xs"
  shows "wins consume account_serve consume_digest k xs s \<le> 1"
  using assms by (rule confirmations.at_most_once)

definition demo_user :: user where
  "demo_user = \<lparr>us_id = 7, us_created_at = 0, us_updated_at = 0, us_pubkey = ''pk'', us_password_hash = ''bcorrect horse'',
     us_display_name = ''U'', us_avatar_url = '''', us_status = ''active'', us_role = ''user'', us_is_admin = False\<rparr>"

definition demo_device :: "uuid \<Rightarrow> string \<Rightarrow> device" where
  "demo_device i name = \<lparr>dv_id = i, dv_user_id = 7, dv_device_id = name, dv_device_name = name, dv_pubkey = ''pk'',
     dv_status = ''active'', dv_paired_at = 0, dv_last_seen_at = None, dv_revoked_at = None, dv_revoked_by = None\<rparr>"

definition demo_account :: id_state where
  "demo_account = id_init\<lparr>is_users := [demo_user], is_devices := [demo_device 1 ''laptop'', demo_device 2 ''phone'']\<rparr>"

definition demo_confirmed :: id_state where
  "demo_confirmed = snd (IssueConfirmation (env_at 1) 7 ''laptop'' ''correct horse'' ''device.revoke'' demo_account)"

theorem confirmation_single_use_witness:
  "wins consume account_serve consume_digest ''hr''
     [Inl (env_at 2, 7, ''r'', ''device.revoke'', ''a''), Inr (QRevoke (env_at 3) 7 ''laptop'' ''phone''),
      Inl (env_at 4, 7, ''r'', ''device.revoke'', ''b'')] demo_confirmed \<le> 1
   \<and> fst (ConsumeConfirmation (env_at 2) 7 ''r'' ''device.revoke'' ''a'' demo_confirmed) = Inr ()"
proof -
  have "length (is_confirmations demo_confirmed) = 1" by code_simp
  then have "digests_distinct demo_confirmed"
    by (auto simp: digests_distinct_def length_Suc_conv)
  then have "wins consume account_serve consume_digest ''hr''
     [Inl (env_at 2, 7, ''r'', ''device.revoke'', ''a''), Inr (QRevoke (env_at 3) 7 ''laptop'' ''phone''),
      Inl (env_at 4, 7, ''r'', ''device.revoke'', ''b'')] demo_confirmed \<le> 1"
    by (rule confirmation_single_use) simp
  moreover have "fst (ConsumeConfirmation (env_at 2) 7 ''r'' ''device.revoke'' ''a'' demo_confirmed) = Inr ()" by code_simp
  ultimately show ?thesis by (rule conjI)
qed

text \<open>Revoking leaves every device with its identifier and owner; the device read back is the one
  that was checked.\<close>

lemma first_by_upd_key:
  assumes "\<And>x. k (f x) = k x" "\<And>x. P (f x) = P x"
  shows "first_by k P (upd_where Q f t) = map_option (\<lambda>r. if Q r then f r else r) (first_by k P t)"
proof -
  let ?g = "\<lambda>r. if Q r then f r else r"
  have "filter P (upd_where Q f t) = map ?g (filter P t)"
    using assms(2) by (induction t) (auto simp: upd_where_def)
  moreover have "sort_key k (map ?g xs) = map ?g (sort_key k xs)" for xs
  proof (induction xs)
    case (Cons x xs)
    have "insort_key k (?g x) (map ?g ys) = map ?g (insort_key k x ys)" for ys
      using assms(1) by (induction ys) auto
    with Cons show ?case by simp
  qed simp
  ultimately show ?thesis by (auto simp: first_by_def split: list.splits)
qed

lemma owner_after_revoke:
  assumes "GetDevice E 0 target s1 = Inr dv" "RevokeDevice_repo E target u s1 = Inr s3" "GetDevice E 1 target s3 = Inr dev"
  shows "dv_device_id dev = target \<and> dv_user_id dev = dv_user_id dv"
proof -
  from assms(1) have f: "first_by dv_id (\<lambda>x. dv_device_id x = target) (is_devices s1) = Some dv"
    by (simp add: GetDevice_def db_simps)
  from assms(2,3) f have "dev = (if dv_device_id dv = target \<and> dv_status dv = ''active''
      then dv\<lparr>dv_status := ''revoked'', dv_revoked_at := Some (e_now E), dv_revoked_by := Some u\<rparr> else dv)"
    by (auto simp: RevokeDevice_repo_def GetDevice_def db_simps first_by_upd_key split: sum.splits)
  with first_by_Some(2) [OF f] show ?thesis by auto
qed

text \<open>
  A device is revoked through its endpoint only with an unused, unexpired confirmation that was
  issued to the same user for exactly this operation; the confirmation is used up, whatever comes
  of the revocation.
\<close>

theorem revocation_needs_confirmation:
  assumes "revoke_device_endpoint E u d target token s = (Inr dev, s')"
  shows "\<exists>c\<in>set (is_confirmations s). cf_user_id c = u \<and> cf_operation c = ''device.revoke''
     \<and> cf_token_hash c = e_sha256_hex E token \<and> cf_used_at c = None \<and> e_now E < cf_expires_at c
     \<and> dv_user_id dev = u \<and> dv_device_id dev = target \<and> target \<noteq> d"
proof -
  from assms obtain s1 s2 r where c: "ConsumeConfirmation E u token ''device.revoke'' ''device.revoke'' s = (Inr r, s1)"
    and r: "RevokeDevice E u d target s1 = (Inr dev, s2)"
    by (auto simp: revoke_device_endpoint_def enforceSensitiveConfirmation_def
        split: if_splits prod.splits sum.splits bool.splits)
  from r obtain dv where dv: "GetDevice E 0 target s1 = Inr dv" "dv_user_id dv = u" "target \<noteq> d"
    and dev: "\<exists>s3. RevokeDevice_repo E target u s1 = Inr s3 \<and> GetDevice E 1 target s3 = Inr dev"
    by (auto simp: RevokeDevice_def split: if_splits sum.splits)
  have "dv_device_id dev = target" "dv_user_id dev = u"
    using dev dv owner_after_revoke [of E target s1 dv u _ dev] by auto
  from c obtain c where "c \<in> set (is_confirmations s)" "cf_user_id c = u" "cf_operation c = ''device.revoke''"
    "cf_token_hash c = e_sha256_hex E token" "cf_used_at c = None" "e_now E < cf_expires_at c"
    by (rule ConsumeConfirmation_Inr)
  with \<open>dv_device_id dev = target\<close> \<open>dv_user_id dev = u\<close> dv(3) show ?thesis by blast
qed

theorem revocation_needs_confirmation_witness:
  "\<exists>dev. fst (revoke_device_endpoint (env_at 2) 7 ''laptop'' ''phone'' ''r'' demo_confirmed) = Inr dev
     \<and> dv_status dev = ''revoked'' \<and> dv_user_id dev = 7"
proof -
  let ?p = "revoke_device_endpoint (env_at 2) 7 ''laptop'' ''phone'' ''r'' demo_confirmed"
  have "succeeds (fst ?p)" by code_simp
  then have p: "?p = (Inr (projr (fst ?p)), snd ?p)" by (rule succeeds_pair)
  have st: "dv_status (projr (fst ?p)) = ''revoked''" by code_simp
  from revocation_needs_confirmation [OF p] have "dv_user_id (projr (fst ?p)) = 7" by blast
  with st have "dv_status (projr (fst ?p)) = ''revoked'' \<and> dv_user_id (projr (fst ?p)) = 7" by (rule conjI)
  moreover have "fst ?p = Inr (projr (fst ?p))" by (subst (1) p) (rule fst_conv)
  ultimately show ?thesis by blast
qed

text \<open>
  Marking a confirmation used does not look at the number of rows it changed. Of two requests that
  both found the confirmation usable before either marked it, the second one's mark succeeds too
  and changes nothing, so both operations go through.
\<close>

theorem late_mark_still_succeeds:
  assumes "GetUsableConfirmation E u h operation s = Inr c" "GetUsableConfirmation E' u h operation s = Inr c"
    "MarkUsed E (cf_id c) purpose s = Inr s1" "\<not> e_db E' ''MarkUsed'' 0"
  shows "MarkUsed E' (cf_id c) purpose' s1 = Inr s1 \<and> is_confirmations s1 \<noteq> is_confirmations s"
proof -
  from assms(1) have f: "first_by cf_id (\<lambda>c. cf_user_id c = u \<and> cf_token_hash c = h
      \<and> cf_operation c = operation \<and> cf_used_at c = None \<and> e_now E < cf_expires_at c) (is_confirmations s) = Some c"
    by (simp add: GetUsableConfirmation_def db_simps)
  from assms(3) have u: "is_confirmations s1 = upd_where (\<lambda>x. cf_id x = cf_id c \<and> cf_used_at x = None)
       (\<lambda>x. x\<lparr>cf_used_at := Some (e_now E), cf_consumed_by := purpose\<rparr>) (is_confirmations s)"
    by (auto simp: MarkUsed_def db_update_def split: if_splits)
  have n: "\<not> (cf_id x = cf_id c \<and> cf_used_at x = None)" if "x \<in> set (is_confirmations s1)" for x
    using that unfolding u by (auto elim: in_upd_whereE)
  then have "upd_where (\<lambda>x. cf_id x = cf_id c \<and> cf_used_at x = None)
       (\<lambda>x. x\<lparr>cf_used_at := Some (e_now E'), cf_consumed_by := purpose'\<rparr>) (is_confirmations s1) = is_confirmations s1"
    by (intro upd_where_miss)
  moreover have "c \<in> set (is_confirmations s)" "cf_used_at c = None" using first_by_Some [OF f] by auto
  then have "is_confirmations s1 \<noteq> is_confirmations s" using n [of c] by metis
  ultimately show ?thesis using assms(4) by (simp add: MarkUsed_def db_update_def)
qed

theorem late_mark_still_succeeds_witness:
  "\<exists>(c :: confirmation) s1. MarkUsed (env_at 2) (cf_id c) ''a'' demo_confirmed = Inr s1 \<and> MarkUsed (env_at 3) (cf_id c) ''b'' s1 = Inr s1
     \<and> is_confirmations s1 \<noteq> is_confirmations demo_confirmed"
proof -
  define c where "c = hd (is_confirmations demo_confirmed)"
  have one: "is_confirmations demo_confirmed = [c]"
  proof -
    have "length (is_confirmations demo_confirmed) = 1" by code_simp
    then show ?thesis by (auto simp: c_def length_Suc_conv)
  qed
  have h: "cf_user_id c = 7" "cf_token_hash c = ''hr''" "cf_operation c = ''device.revoke''" "cf_used_at c = None"
    and x: "e_now (env_at 2) < cf_expires_at c" "e_now (env_at 3) < cf_expires_at c"
    unfolding c_def by code_simp+
  have db: "\<not> e_db (env_at k) m i" for k m i by (simp add: env_at_def env0_def)
  have g: "GetUsableConfirmation (env_at 2) 7 ''hr'' ''device.revoke'' demo_confirmed = Inr c"
    "GetUsableConfirmation (env_at 3) 7 ''hr'' ''device.revoke'' demo_confirmed = Inr c"
    unfolding GetUsableConfirmation_def db_simps using db x h
    by (auto simp: first_by_def one)
  have "succeeds (MarkUsed (env_at 2) (cf_id c) ''a'' demo_confirmed)" using db by (simp add: MarkUsed_def db_update_def)
  then obtain s1 where s1: "MarkUsed (env_at 2) (cf_id c) ''a'' demo_confirmed = Inr s1" by (rule succeedsE)
  from late_mark_still_succeeds [OF g s1 db, of "''b''"]
  have "MarkUsed (env_at 3) (cf_id c) ''b'' s1 = Inr s1 \<and> is_confirmations s1 \<noteq> is_confirmations demo_confirmed" .
  with s1 show ?thesis by (intro exI [of _ c] exI [of _ s1] conjI) simp_all
qed

section \<open>Pairing\<close>

type_synonym claim_req = "env \<times> claim_pairing_request"

fun claim_pairing :: "claim_req \<Rightarrow> id_state \<Rightarrow> device result \<times> id_state" where
  "claim_pairing (E, req) s =
     (case ClaimPairing E req s of Inl e \<Rightarrow> (Inl e, s) | Inr (d, s') \<Rightarrow> (Inr d, s'))"

text \<open>The pairing session a claim names, if its QR payload can be read.\<close>

fun claimed_session :: "claim_req \<Rightarrow> uuid option" where
  "claimed_session (E, req) =
     (case decodeQRPayload E (cp_qr_payload req) of Inl _ \<Rightarrow> None | Inr p \<Rightarrow> Some (qr_session_id p))"

text \<open>The requests in between: new pairings, and account requests.\<close>

fun pairing_serve :: "(env \<times> uuid \<times> string) + account_req \<Rightarrow> id_state \<Rightarrow> id_state" where
  "pairing_serve (Inl (E, u, d)) s = (case StartPairing E u d s of Inl _ \<Rightarrow> s | Inr (_, s') \<Rightarrow> s')"
| "pairing_serve (Inr x) s = account_serve x s"

definition session_spent :: "uuid option \<Rightarrow> id_state \<Rightarrow> bool" where
  "session_spent k s \<longleftrightarrow> (\<exists>p\<in>set (is_pairings s). Some (ps_id p) = k \<and> ps_used_at p \<noteq> None)"

definition sessions_distinct :: "id_state \<Rightarrow> bool" where
  "sessions_distinct s \<longleftrightarrow> distinct (map ps_id (is_pairings s))"

lemma account_serve_pairings [simp]: "is_pairings (account_serve x s) = is_pairings s"
  by (cases x)
     (auto simp: SetPassword_def UpdateUser_def ChangePassword_def IssueConfirmation_def CreateConfirmation_def
       CleanupExpiredConfirmations_def DeleteExpired_def RevokeDevice_def RevokeDevice_repo_def Let_def
       split: sum.splits if_splits prod.splits)

lemma StartPairing_pairings:
  "StartPairing E u d s = Inr (r, s') \<Longrightarrow>
     \<exists>p. is_pairings s' = is_pairings s @ [p] \<and> ps_used_at p = None \<and> (\<forall>x\<in>set (is_pairings s). ps_id x \<noteq> ps_id p)"
  by (auto simp: StartPairing_def CreatePairingSession_def db_insert_def list_ex_iff Let_def
      split: sum.splits if_splits)

lemma check_pairing_claim_Inr:
  assumes "check_pairing_claim E req s = Inr (payload, p)"
  shows "decodeQRPayload E (cp_qr_payload req) = Inr payload" and "p \<in> set (is_pairings s)"
    and "ps_id p = qr_session_id payload" and "ps_used_at p = None" and "e_now E \<le> ps_expires_at p"
    and "ps_qr_hash p = e_sha256_hex E (cp_qr_payload req)"
    and "e_bcrypt_ok E (ps_token_hash p) (qr_token payload)"
    and "e_verify E (canonicalClaimChallenge E payload req) (cp_signature req) (cp_new_device_pubkey req) = Inr True"
proof -
  from assms have g: "GetPairingSession E (qr_session_id payload) s = Inr p"
    and rest: "decodeQRPayload E (cp_qr_payload req) = Inr payload" "ps_used_at p = None" "\<not> ps_expires_at p < e_now E"
      "ps_qr_hash p = e_sha256_hex E (cp_qr_payload req)" "e_bcrypt_ok E (ps_token_hash p) (qr_token payload)"
      "e_verify E (canonicalClaimChallenge E payload req) (cp_signature req) (cp_new_device_pubkey req) = Inr True"
    by (auto simp: check_pairing_claim_def split: sum.splits if_splits)
  from g have "first_by ps_id (\<lambda>x. ps_id x = qr_session_id payload) (is_pairings s) = Some p"
    by (simp add: GetPairingSession_def db_simps)
  from first_by_Some [OF this] show "p \<in> set (is_pairings s)" "ps_id p = qr_session_id payload" by auto
  show "decodeQRPayload E (cp_qr_payload req) = Inr payload" "ps_used_at p = None" "e_now E \<le> ps_expires_at p"
    "ps_qr_hash p = e_sha256_hex E (cp_qr_payload req)" "e_bcrypt_ok E (ps_token_hash p) (qr_token payload)"
    "e_verify E (canonicalClaimChallenge E payload req) (cp_signature req) (cp_new_device_pubkey req) = Inr True"
    using rest by auto
qed

lemma ClaimPairingSession_Inr:
  assumes "ClaimPairingSession E i d s = Inr s'"
  shows "is_devices s' = is_devices s @ [d]" and "\<forall>x\<in>set (is_devices s). \<not> dv_clash d x"
    and "is_pairings s' = upd_where (\<lambda>p. ps_id p = i \<and> ps_used_at p = None)
       (\<lambda>p. p\<lparr>ps_used_at := Some (e_now E), ps_claimed_by_device := dv_device_id d\<rparr>) (is_pairings s)"
    and "\<exists>p\<in>set (is_pairings s). ps_id p = i \<and> ps_used_at p = None"
  using assms
  by (auto simp: ClaimPairingSession_def CreateDevice_def db_simps count_where_pos [symmetric]
      split: sum.splits if_splits)

lemma ClaimPairing_Inr:
  assumes "ClaimPairing E req s = Inr (d, s')"
  obtains payload p where "check_pairing_claim E req s = Inr (payload, p)"
    "is_devices s' = is_devices s @ [d]" "\<forall>x\<in>set (is_devices s). \<not> dv_clash d x"
    "is_pairings s' = upd_where (\<lambda>x. ps_id x = ps_id p \<and> ps_used_at x = None)
       (\<lambda>x. x\<lparr>ps_used_at := Some (e_now E), ps_claimed_by_device := dv_device_id d\<rparr>) (is_pairings s)"
    "dv_user_id d = ps_user_id p" "dv_device_id d = cp_new_device_id req" "dv_pubkey d = cp_new_device_pubkey req"
    "dv_status d = ''active''"
proof -
  from assms obtain payload p s1 where c: "check_pairing_claim E req s = Inr (payload, p)"
    and cl: "ClaimPairingSession E (ps_id p) d s = Inr s1" "is_devices s' = is_devices s1" "is_pairings s' = is_pairings s1"
    and d: "dv_user_id d = ps_user_id p" "dv_device_id d = cp_new_device_id req" "dv_pubkey d = cp_new_device_pubkey req"
      "dv_status d = ''active''"
    by (auto simp: ClaimPairing_def Let_def split: sum.splits prod.splits)
  from ClaimPairingSession_Inr [OF cl(1)] cl(2,3) d that [OF c] show thesis by simp
qed

lemma ClaimPairing_pairings:
  "ClaimPairing E req s = Inr (d, s') \<Longrightarrow>
   \<exists>i. is_pairings s' = upd_where (\<lambda>x. ps_id x = i \<and> ps_used_at x = None)
     (\<lambda>x. x\<lparr>ps_used_at := Some (e_now E), ps_claimed_by_device := dv_device_id d\<rparr>) (is_pairings s)"
  by (elim ClaimPairing_Inr) blast

interpretation pairings: single_use claim_pairing pairing_serve claimed_session "\<lambda>_ _. True" session_spent sessions_distinct
proof
  fix s :: id_state and q :: claim_req and d s'
  assume dist: "sessions_distinct s" and a: "claim_pairing q s = (Inr d, s')"
  obtain E req where q: "q = (E, req)" by (cases q)
  from a q have "ClaimPairing E req s = Inr (d, s')" by (auto split: sum.splits)
  then obtain payload p where c: "check_pairing_claim E req s = Inr (payload, p)"
    and upd: "is_pairings s' = upd_where (\<lambda>x. ps_id x = ps_id p \<and> ps_used_at x = None)
       (\<lambda>x. x\<lparr>ps_used_at := Some (e_now E), ps_claimed_by_device := dv_device_id d\<rparr>) (is_pairings s)"
    by (rule ClaimPairing_Inr)
  note k = check_pairing_claim_Inr [OF c]
  have key: "claimed_session q = Some (ps_id p)" using k(1,3) q by simp
  show "\<not> session_spent (claimed_session q) s"
  proof
    assume "session_spent (claimed_session q) s"
    then obtain x where x: "x \<in> set (is_pairings s)" "ps_id x = ps_id p" "ps_used_at x \<noteq> None"
      using key by (auto simp: session_spent_def)
    then have "x = p" using distinct_map_same [OF dist [unfolded sessions_distinct_def] x(1) k(2)] by simp
    with x(3) k(4) show False by simp
  qed
  show "session_spent (claimed_session q) s'"
    unfolding session_spent_def key upd set_upd_where using k(2,4)
    by (intro bexI [of _ "p\<lparr>ps_used_at := Some (e_now E), ps_claimed_by_device := dv_device_id d\<rparr>"] image_eqI [of _ _ p]) auto
next
  fix s :: id_state and k :: "uuid option" and q :: claim_req
  assume dist: "sessions_distinct s" and sp: "session_spent k s"
  obtain E req where q: "q = (E, req)" by (cases q)
  show "session_spent k (snd (claim_pairing q s))"
  proof (cases "ClaimPairing E req s")
    case (Inr ds)
    then obtain d s' where "ClaimPairing E req s = Inr (d, s')" by (cases ds) simp
    then obtain i where upd: "is_pairings s' = upd_where (\<lambda>x. ps_id x = i \<and> ps_used_at x = None)
       (\<lambda>x. x\<lparr>ps_used_at := Some (e_now E), ps_claimed_by_device := dv_device_id d\<rparr>) (is_pairings s)"
      using ClaimPairing_pairings by blast
    with sp have "session_spent k s'" by (auto simp: session_spent_def table_simps)
    with \<open>ClaimPairing E req s = Inr (d, s')\<close> q show ?thesis by simp
  qed (use q sp in simp)
next
  fix s :: id_state and k :: "uuid option" and x
  assume "session_spent k s"
  then show "session_spent k (pairing_serve x s)"
    by (cases "(x, s)" rule: pairing_serve.cases)
       (auto simp: session_spent_def split: sum.splits dest!: StartPairing_pairings)
next
  fix s :: id_state and q :: claim_req
  assume dist: "sessions_distinct s"
  obtain E req where q: "q = (E, req)" by (cases q)
  show "sessions_distinct (snd (claim_pairing q s))"
  proof (cases "ClaimPairing E req s")
    case (Inr ds)
    then obtain d s' where c: "ClaimPairing E req s = Inr (d, s')" by (cases ds) simp
    then obtain i where upd: "is_pairings s' = upd_where (\<lambda>x. ps_id x = i \<and> ps_used_at x = None)
       (\<lambda>x. x\<lparr>ps_used_at := Some (e_now E), ps_claimed_by_device := dv_device_id d\<rparr>) (is_pairings s)"
      using ClaimPairing_pairings by blast
    with c q dist show ?thesis by (simp add: sessions_distinct_def map_upd_where)
  qed (use q dist in simp)
next
  fix s :: id_state and x
  assume "sessions_distinct s"
  then show "sessions_distinct (pairing_serve x s)"
    by (cases "(x, s)" rule: pairing_serve.cases)
       (fastforce simp: sessions_distinct_def split: sum.splits dest!: StartPairing_pairings)+
qed

text \<open>
  A pairing code adds at most one device: in any sequence of claims, new pairings and account
  requests, at most one claim of a session succeeds.
\<close>

theorem pairing_single_use:
  assumes "sessions_distinct s"
  shows "wins claim_pairing pairing_serve claimed_session (Some i) xs s \<le> 1"
  using assms by (rule pairings.at_most_once) (simp add: list.pred_True split: sum.split)

text \<open>
  What a claim that succeeds guarantees: the QR payload is byte for byte the one issued for a live,
  unused session, it holds that session's token, the new device's key signed the claim, and exactly
  one device is added, active, under an unused device id, for the user who started the pairing.
\<close>

theorem claim_adds_the_right_device:
  assumes "ClaimPairing E req s = Inr (d, s')"
  shows "\<exists>payload p. p \<in> set (is_pairings s) \<and> ps_used_at p = None \<and> e_now E \<le> ps_expires_at p
     \<and> ps_qr_hash p = e_sha256_hex E (cp_qr_payload req)
     \<and> decodeQRPayload E (cp_qr_payload req) = Inr payload
     \<and> e_bcrypt_ok E (ps_token_hash p) (qr_token payload)
     \<and> e_verify E (canonicalClaimChallenge E payload req) (cp_signature req) (cp_new_device_pubkey req) = Inr True
     \<and> is_devices s' = is_devices s @ [d] \<and> dv_user_id d = ps_user_id p
     \<and> dv_device_id d = cp_new_device_id req \<and> dv_pubkey d = cp_new_device_pubkey req \<and> dv_status d = ''active''
     \<and> cp_new_device_id req \<notin> dv_device_id ` set (is_devices s)"
proof -
  from assms obtain payload p where c: "check_pairing_claim E req s = Inr (payload, p)"
    and d: "is_devices s' = is_devices s @ [d]" "\<forall>x\<in>set (is_devices s). \<not> dv_clash d x"
      "dv_user_id d = ps_user_id p" "dv_device_id d = cp_new_device_id req" "dv_pubkey d = cp_new_device_pubkey req"
      "dv_status d = ''active''"
    by (rule ClaimPairing_Inr)
  from d(2,4) have "cp_new_device_id req \<notin> dv_device_id ` set (is_devices s)" by (auto simp: dv_clash_def)
  with check_pairing_claim_Inr [OF c] d show ?thesis by (intro exI [of _ payload] exI [of _ p]) simp
qed

text \<open>A pairing started by the laptop, and libraries that read its code back.\<close>

definition pairing_started :: id_state where
  "pairing_started = snd (projr (StartPairing (env_at 1) 7 ''laptop'' demo_account))"

definition env_claim :: "nat \<Rightarrow> env" where
  "env_claim k = (env_at k)\<lparr>e_unjson := \<lambda>_. Inr [(''version'', AInt 1), (''server_id'', AStr ''default''),
       (''pairing_session_id'', AStr ''p''), (''pairing_token'', AStr ''r''), (''expires_at'', AInt 1700000121)],
     e_uuid_parse := \<lambda>_. Some 2000, e_verify := \<lambda>_ _ _. Inr True\<rparr>"

definition demo_claim :: "string \<Rightarrow> claim_pairing_request" where
  "demo_claim d = \<lparr>cp_qr_payload = sp_qr_payload (fst (projr (StartPairing (env_at 1) 7 ''laptop'' demo_account))),
     cp_new_device_id = d, cp_new_device_name = '''', cp_new_device_pubkey = ''npk'', cp_signature = ''sig''\<rparr>"

theorem pairing_single_use_witness:
  "wins claim_pairing pairing_serve claimed_session (Some 2000)
     [Inl (env_claim 2, demo_claim ''tablet''), Inl (env_claim 3, demo_claim ''watch'')] pairing_started \<le> 1
   \<and> succeeds (ClaimPairing (env_claim 2) (demo_claim ''tablet'') pairing_started)"
proof -
  have "length (is_pairings pairing_started) = 1" by code_simp
  then have "sessions_distinct pairing_started" by (auto simp: sessions_distinct_def length_Suc_conv)
  then have "wins claim_pairing pairing_serve claimed_session (Some 2000)
     [Inl (env_claim 2, demo_claim ''tablet''), Inl (env_claim 3, demo_claim ''watch'')] pairing_started \<le> 1"
    by (rule pairing_single_use)
  moreover have "succeeds (ClaimPairing (env_claim 2) (demo_claim ''tablet'') pairing_started)" by code_simp
  ultimately show ?thesis by (rule conjI)
qed

theorem claim_adds_the_right_device_witness:
  "\<exists>d s'. ClaimPairing (env_claim 2) (demo_claim ''tablet'') pairing_started = Inr (d, s')
     \<and> is_devices s' = is_devices pairing_started @ [d] \<and> dv_user_id d = 7 \<and> dv_device_id d = ''tablet''"
proof -
  define r where "r = projr (ClaimPairing (env_claim 2) (demo_claim ''tablet'') pairing_started)"
  have c: "ClaimPairing (env_claim 2) (demo_claim ''tablet'') pairing_started = Inr (fst r, snd r)"
    unfolding r_def prod.collapse by (rule succeeds_projr) code_simp
  have u: "dv_user_id (fst r) = 7" unfolding r_def by code_simp
  have n: "cp_new_device_id (demo_claim ''tablet'') = ''tablet''" by (simp add: demo_claim_def)
  from claim_adds_the_right_device [OF c] have "is_devices (snd r) = is_devices pairing_started @ [fst r]
    \<and> dv_device_id (fst r) = cp_new_device_id (demo_claim ''tablet'')" by (elim exE conjE) (rule conjI)
  with c u n show ?thesis by (intro exI [of _ "fst r"] exI [of _ "snd r"] conjI) simp_all
qed

end
