(* ===== verification/IdentityProps.thy ===== *)
theory IdentityProps
  imports TokenProps
begin

text \<open>
  What a login proves about the client, who may join a server that asks for approval, and that a user
  cannot revoke away the last active device.
\<close>

section \<open>Login\<close>

lemma GetByPubKey_Inr: "GetByPubKey E k s = Inr u \<Longrightarrow> us_pubkey u = k \<and> u \<in> set (is_users s)"
  by (auto simp: GetByPubKey_def db_simps dest: first_by_Some)

lemma CreateUser_Inr: "CreateUser E u s = Inr s' \<Longrightarrow> is_users s' = is_users s @ [u]"
  by (auto simp: CreateUser_def db_simps split: sum.splits)

lemma GetPolicy_tables:
  "GetPolicy E cfg sid s = (r, s') \<Longrightarrow> is_users s' = is_users s \<and> is_devices s' = is_devices s
     \<and> is_requests s' = is_requests s"
  by (auto simp: GetPolicy_def CreateServerAdmission_def Let_def split: sum.splits if_splits)

lemma request_admission_tables:
  "request_admission E k s = (r, s') \<Longrightarrow> is_users s' = is_users s \<and> is_devices s' = is_devices s"
  by (auto simp: request_admission_def CreateAdmissionRequest_def Let_def split: sum.splits)

lemma CheckAdmission_tables:
  "CheckAdmission E cfg k code s = (r, s') \<Longrightarrow> is_users s' = is_users s \<and> is_devices s' = is_devices s"
  by (auto simp: CheckAdmission_def check_approval_def split: sum.splits if_splits prod.splits
      dest!: GetPolicy_tables request_admission_tables)

lemma findOrCreateUser_Some:
  assumes "findOrCreateUserWithAdmission E cfg k code s = (Inr (Some u, n), s')"
  shows "us_pubkey u = k \<and> u \<in> set (is_users s') \<and> is_devices s' = is_devices s"
proof (cases "GetByPubKey E k s")
  case (Inr u')
  with assms GetByPubKey_Inr [OF Inr] show ?thesis by (auto simp: findOrCreateUserWithAdmission_def)
next
  case (Inl e)
  with assms obtain reason s1 where c: "CheckAdmission E cfg k code s = (Inr (True, reason), s1)"
    and cu: "createUser E k s1 = (Inr (Some u, n), s')"
    by (auto simp: findOrCreateUserWithAdmission_def split: sum.splits prod.splits if_splits)
  from cu have "us_pubkey u = k" "CreateUser E u s1 = Inr s'"
    by (auto simp: createUser_def Let_def split: sum.splits)
  moreover from this(2) have "is_devices s' = is_devices s1" by (auto simp: CreateUser_def split: sum.splits)
  ultimately show ?thesis using CreateUser_Inr CheckAdmission_tables [OF c] by simp
qed

lemma findOrCreateDevice_Inr:
  assumes "findOrCreateDevice E d u k s = (Inr dev, s')"
  shows "dv_user_id dev = u \<and> dv_status dev \<noteq> ''revoked'' \<and> dv_device_id dev = d \<and> is_users s' = is_users s"
proof (cases "GetDevice E 0 d s")
  case (Inr x)
  then have "dv_device_id x = d" by (auto simp: GetDevice_def db_simps dest: first_by_Some)
  with Inr assms show ?thesis by (auto simp: findOrCreateDevice_def split: if_splits)
next
  case (Inl e)
  with assms show ?thesis by (auto simp: findOrCreateDevice_def CreateDevice_def Let_def split: sum.splits)
qed

text \<open>A login that returns a user went through all the steps.\<close>

lemma VerifySignature_steps:
  assumes "VerifySignature E cfg req s = (Inr r, s')" "au_user r = Some u"
  obtains ch s2 s3 dev where "GetChallenge E (vr_device_id req) (vr_nonce req) s = Inr ch"
    "e_verify E (ch_challenge ch) (vr_signature req) (vr_user_pubkey req) = Inr True"
    "findOrCreateUserWithAdmission E cfg (vr_user_pubkey req) (vr_invitation_code req)
       (ignore_error (MarkChallengeUsed E (ch_id ch) s) s) = (Inr (Some u, au_is_new_user r), s2)"
    "findOrCreateDevice E (vr_device_id req) (us_id u) (vr_user_pubkey req) s2 = (Inr dev, s3)"
    "au_device r = Some dev" "is_users s' = is_users s3"
proof -
  have np: "au_user (pendingAdmissionResponse E k s) = None" for k s
    by (auto simp: pendingAdmissionResponse_def Let_def split: sum.splits)
  have users: "is_users (ignore_error (UpdateDeviceLastSeen E d s) s) = is_users s" for d s
    by (auto simp: ignore_error_def UpdateDeviceLastSeen_def split: sum.splits)
  from assms(1) obtain ch where ch: "GetChallenge E (vr_device_id req) (vr_nonce req) s = Inr ch"
      "e_verify E (ch_challenge ch) (vr_signature req) (vr_user_pubkey req) = Inr True"
    by (auto simp: VerifySignature_def split: sum.splits if_splits)
  let ?s1 = "ignore_error (MarkChallengeUsed E (ch_id ch) s) s"
  obtain f s2 where f: "findOrCreateUserWithAdmission E cfg (vr_user_pubkey req) (vr_invitation_code req) ?s1 = (f, s2)"
    by fastforce
  from assms ch f np obtain u' n where f': "f = Inr (Some u', n)"
    by (auto simp: VerifySignature_def Let_def split: sum.splits option.splits prod.splits)
  obtain dr s3 where d: "findOrCreateDevice E (vr_device_id req) (us_id u') (vr_user_pubkey req) s2 = (dr, s3)" by fastforce
  from assms ch f f' d obtain dev where d': "dr = Inr dev"
    by (auto simp: VerifySignature_def Let_def split: sum.splits)
  from assms ch f f' d d' users have "u' = u" "n = au_is_new_user r" "au_device r = Some dev" "is_users s' = is_users s3"
    by (auto simp: VerifySignature_def Let_def split: sum.splits)
  with ch f f' d d' that show thesis by blast
qed

text \<open>
  C35: A login that yields a token proves possession of the key: there was an unused, unexpired challenge
  issued for that device and nonce, the verifier accepted the signature over it under the client's
  public key, and the token is for the user with exactly that key, on a device of that user that
  is not revoked.
\<close>

theorem login_needs_signed_challenge:
  assumes "VerifySignature E cfg req s = (Inr r, s')" "au_user r = Some u"
  shows "\<exists>ch dev. ch \<in> set (is_challenges s) \<and> ch_device_id ch = vr_device_id req \<and> ch_nonce ch = vr_nonce req
     \<and> ch_used_at ch = None \<and> e_now E < ch_expires_at ch
     \<and> e_verify E (ch_challenge ch) (vr_signature req) (vr_user_pubkey req) = Inr True
     \<and> us_pubkey u = vr_user_pubkey req \<and> u \<in> set (is_users s')
     \<and> au_device r = Some dev \<and> dv_device_id dev = vr_device_id req \<and> dv_user_id dev = us_id u
     \<and> dv_status dev \<noteq> ''revoked''"
  using assms
proof (rule VerifySignature_steps)
  fix ch s2 s3 dev
  assume g: "GetChallenge E (vr_device_id req) (vr_nonce req) s = Inr ch"
    and v: "e_verify E (ch_challenge ch) (vr_signature req) (vr_user_pubkey req) = Inr True"
    and u: "findOrCreateUserWithAdmission E cfg (vr_user_pubkey req) (vr_invitation_code req)
       (ignore_error (MarkChallengeUsed E (ch_id ch) s) s) = (Inr (Some u, au_is_new_user r), s2)"
    and d: "findOrCreateDevice E (vr_device_id req) (us_id u) (vr_user_pubkey req) s2 = (Inr dev, s3)"
    and e: "au_device r = Some dev" "is_users s' = is_users s3"
  from g have "first_by ch_id (\<lambda>c. ch_device_id c = vr_device_id req \<and> ch_nonce c = vr_nonce req
      \<and> ch_used_at c = None \<and> e_now E < ch_expires_at c) (is_challenges s) = Some ch"
    by (simp add: GetChallenge_def db_simps)
  from first_by_Some [OF this] findOrCreateUser_Some [OF u] findOrCreateDevice_Inr [OF d] v e
  show ?thesis by (intro exI [of _ ch] exI [of _ dev]) simp
qed

definition demo_cfg :: "string \<Rightarrow> id_config" where
  "demo_cfg policy = \<lparr>ic_policy_type = policy, ic_invitation_code = ''welcome'', ic_token_mins = 60,
     ic_sign = (\<lambda>u d t. Inr (''token for '' @ d))\<rparr>"

definition env_login :: "nat \<Rightarrow> env" where
  "env_login k = (env_at k)\<lparr>e_verify := \<lambda>c sig pk. Inr (sig = pk @ c)\<rparr>"

definition demo_login :: verify_request where
  "demo_login = \<lparr>vr_device_id = ''laptop'', vr_user_pubkey = ''pk'', vr_nonce = ''r'', vr_signature = ''pkr'',
     vr_invitation_code = None\<rparr>"

definition challenged :: id_state where
  "challenged = snd (projr (InitiateChallenge (env_login 1) ''laptop'' ''pk'' demo_account))"

theorem login_needs_signed_challenge_witness:
  "\<exists>r u. fst (VerifySignature (env_login 2) (demo_cfg ''approval'') demo_login challenged) = Inr r
     \<and> au_user r = Some u \<and> au_access_token r = ''token for laptop'' \<and> us_pubkey u = vr_user_pubkey demo_login"
proof -
  let ?p = "VerifySignature (env_login 2) (demo_cfg ''approval'') demo_login challenged"
  have "succeeds (fst ?p)" by code_simp
  then have p: "?p = (Inr (projr (fst ?p)), snd ?p)" by (rule succeeds_pair)
  have "au_user (projr (fst ?p)) \<noteq> None" by code_simp
  then obtain u where u: "au_user (projr (fst ?p)) = Some u" by blast
  have t: "au_access_token (projr (fst ?p)) = ''token for laptop''" by code_simp
  from login_needs_signed_challenge [OF p u] have "us_pubkey u = vr_user_pubkey demo_login" by (elim exE conjE)
  moreover have "fst ?p = Inr (projr (fst ?p))" by (subst (1) p) (rule fst_conv)
  ultimately show ?thesis using u t by (intro exI [of _ "projr (fst ?p)"] exI [of _ u] conjI)
qed

section \<open>Admission\<close>

lemma check_approval_True:
  assumes "check_approval E k s = (Inr (True, reason), s')"
  shows "\<exists>a\<in>set (is_requests s). ar_user_pubkey a = k \<and> ar_status a = ''approved''"
proof -
  from assms obtain a where a: "GetLatestAdmissionRequestByPubKey E 0 k s = Inr a" "ar_status a = ''approved''"
    by (auto simp: check_approval_def request_admission_def Let_def split: sum.splits if_splits)
  from a(1) have "first_by (\<lambda>r. (- ar_created_at r, ar_id r)) (\<lambda>r. ar_user_pubkey r = k) (is_requests s) = Some a"
    by (simp add: GetLatestAdmissionRequestByPubKey_def db_simps)
  with first_by_Some [OF this] a(2) show ?thesis by auto
qed

lemma MarkChallengeUsed_tables:
  "is_admissions (ignore_error (MarkChallengeUsed E i s) s) = is_admissions s \<and>
   is_requests (ignore_error (MarkChallengeUsed E i s) s) = is_requests s \<and>
   is_users (ignore_error (MarkChallengeUsed E i s) s) = is_users s"
  by (auto simp: ignore_error_def MarkChallengeUsed_def split: sum.splits)

text \<open>
  On a server whose policy is approval, a first login creates an account only for a key that has an
  approved admission request; any other new key is refused or left pending.
\<close>

theorem approval_policy_admits_only_approved:
  assumes "VerifySignature E cfg req s = (Inr r, s')" "au_user r = Some u" "au_is_new_user r"
    "GetServerAdmission E ''default'' s = Inr policy" "sa_policy_type policy = ''approval''"
  shows "\<exists>a\<in>set (is_requests s). ar_user_pubkey a = vr_user_pubkey req \<and> ar_status a = ''approved''"
  using assms(1,2)
proof (rule VerifySignature_steps)
  fix ch s2
  let ?s1 = "ignore_error (MarkChallengeUsed E (ch_id ch) s) s"
  assume u: "findOrCreateUserWithAdmission E cfg (vr_user_pubkey req) (vr_invitation_code req) ?s1
      = (Inr (Some u, au_is_new_user r), s2)"
  note t = MarkChallengeUsed_tables [of E "ch_id ch" s]
  have gp: "GetPolicy E cfg ''default'' ?s1 = (Inr policy, ?s1)"
  proof -
    have "trim ''default'' = ''default''" by code_simp
    moreover have "GetServerAdmission E ''default'' ?s1 = Inr policy"
      using assms(4) t by (simp add: GetServerAdmission_def)
    ultimately show ?thesis by (simp add: GetPolicy_def Let_def)
  qed
  from u assms(3) obtain reason s3 where
    "CheckAdmission E cfg (vr_user_pubkey req) (vr_invitation_code req) ?s1 = (Inr (True, reason), s3)"
    by (auto simp: findOrCreateUserWithAdmission_def split: sum.splits prod.splits if_splits)
  with gp assms(5) have "check_approval E (vr_user_pubkey req) ?s1 = (Inr (True, reason), s3)"
    by (simp add: CheckAdmission_def)
  from check_approval_True [OF this] t show ?thesis by simp
qed

definition approved_server :: id_state where
  "approved_server = id_init\<lparr>
     is_admissions := [\<lparr>sa_id = 5, sa_server_id = ''default'', sa_policy_type = ''approval'',
       sa_invitation_code_hash = '''', sa_admin_approval_required = True, sa_updated_by = None\<rparr>],
     is_requests := [\<lparr>ar_id = 6, ar_created_at = 0, ar_user_pubkey = ''pk'', ar_device_id = '''',
       ar_status = ''approved'', ar_reason = ''''\<rparr>],
     is_challenges := [\<lparr>ch_id = 8, ch_device_id = ''laptop'', ch_user_pubkey = ''pk'', ch_nonce = ''r'',
       ch_challenge = ''r'', ch_expires_at = seconds 1700000100, ch_used_at = None\<rparr>]\<rparr>"

theorem approval_policy_admits_only_approved_witness:
  "\<exists>r a. fst (VerifySignature (env_login 2) (demo_cfg ''protocol'') demo_login approved_server) = Inr r
     \<and> au_is_new_user r \<and> a \<in> set (is_requests approved_server) \<and> ar_status a = ''approved''"
proof -
  let ?p = "VerifySignature (env_login 2) (demo_cfg ''protocol'') demo_login approved_server"
  have "succeeds (fst ?p)" by code_simp
  then have p: "?p = (Inr (projr (fst ?p)), snd ?p)" by (rule succeeds_pair)
  have "au_user (projr (fst ?p)) \<noteq> None" by code_simp
  then obtain u where u: "au_user (projr (fst ?p)) = Some u" by blast
  have n: "au_is_new_user (projr (fst ?p))" by code_simp
  have "succeeds (GetServerAdmission (env_login 2) ''default'' approved_server)" by code_simp
  then have g: "GetServerAdmission (env_login 2) ''default'' approved_server
      = Inr (projr (GetServerAdmission (env_login 2) ''default'' approved_server))" by (rule succeeds_projr)
  have t: "sa_policy_type (projr (GetServerAdmission (env_login 2) ''default'' approved_server)) = ''approval''"
    by code_simp
  from approval_policy_admits_only_approved [OF p u n g t] obtain a where
    a: "a \<in> set (is_requests approved_server)" "ar_status a = ''approved''" by blast
  have "fst ?p = Inr (projr (fst ?p))" by (subst (1) p) (rule fst_conv)
  with n a show ?thesis by (intro exI [of _ "projr (fst ?p)"] exI [of _ a] conjI)
qed

section \<open>Devices\<close>

definition active_devices :: "uuid \<Rightarrow> id_state \<Rightarrow> nat" where
  "active_devices u s = count_where (\<lambda>d. dv_user_id d = u \<and> dv_status d = ''active'') (is_devices s)"

definition device_ids_distinct :: "id_state \<Rightarrow> bool" where
  "device_ids_distinct s \<longleftrightarrow> distinct (map dv_device_id (is_devices s))"

definition revoke_row :: "env \<Rightarrow> uuid \<Rightarrow> device \<Rightarrow> device" where
  "revoke_row E u x = x\<lparr>dv_status := ''revoked'', dv_revoked_at := Some (e_now E), dv_revoked_by := Some u\<rparr>"

lemma revoke_row_simps [simp]:
  "dv_device_id (revoke_row E u x) = dv_device_id x" "dv_user_id (revoke_row E u x) = dv_user_id x"
  "dv_status (revoke_row E u x) = ''revoked''"
  by (simp_all add: revoke_row_def)

lemma revoke_row_fold:
  "(\<lambda>x. x\<lparr>dv_status := ''revoked'', dv_revoked_at := Some (e_now E), dv_revoked_by := Some u\<rparr>) = revoke_row E u"
  by (rule ext) (simp add: revoke_row_def)

text \<open>A revocation does nothing, or revokes one active device of a user who has another.\<close>

lemma RevokeDevice_effect:
  "is_devices (snd (RevokeDevice E u d target s)) = is_devices s \<or>
   (2 \<le> active_devices u s \<and> (\<exists>dv. first_by dv_id (\<lambda>x. dv_device_id x = target) (is_devices s) = Some dv \<and> dv_user_id dv = u)
    \<and> is_devices (snd (RevokeDevice E u d target s)) =
        upd_where (\<lambda>x. dv_device_id x = target \<and> dv_status x = ''active'') (revoke_row E u) (is_devices s))"
  by (auto simp: RevokeDevice_def RevokeDevice_repo_def GetDevice_def CountActiveDevices_def active_devices_def
      revoke_row_fold db_simps split: sum.splits if_splits)

lemma count_where_upd_one:
  assumes "distinct (map k t)" "\<And>x. Q x \<Longrightarrow> k x = i"
  shows "count_where P t \<le> Suc (count_where P (upd_where Q f t))"
  using assms(1)
proof (induction t)
  case (Cons a t)
  show ?case
  proof (cases "Q a")
    case True
    then have "x \<in> set t \<Longrightarrow> \<not> Q x" for x using Cons.prems assms(2) by (metis distinct.simps(2) image_eqI list.map(2) list.set_map)
    then have "upd_where Q f t = t" by (intro upd_where_miss)
    then have "upd_where Q f (a # t) = (if Q a then f a else a) # t" by (simp add: upd_where_def)
    then show ?thesis by (simp add: count_where_Cons)
  next
    case False
    then have "upd_where Q f (a # t) = a # upd_where Q f t" by (simp add: upd_where_def)
    with Cons show ?thesis by (simp add: count_where_Cons)
  qed
qed simp

lemma count_where_upd_other:
  assumes "\<And>x. x \<in> set t \<Longrightarrow> Q x \<Longrightarrow> \<not> P x \<and> \<not> P (f x)"
  shows "count_where P (upd_where Q f t) = count_where P t"
  unfolding count_where_def by (subst filter_upd_where_other) (use assms in auto)

lemma RevokeDevice_keeps_active:
  assumes "device_ids_distinct s" "1 \<le> active_devices v s"
  shows "1 \<le> active_devices v (snd (RevokeDevice E u d target s))
     \<and> device_ids_distinct (snd (RevokeDevice E u d target s))"
  using RevokeDevice_effect [of E u d target s]
proof (elim disjE conjE exE)
  assume two: "2 \<le> active_devices u s"
    and eff: "is_devices (snd (RevokeDevice E u d target s)) =
        upd_where (\<lambda>x. dv_device_id x = target \<and> dv_status x = ''active'') (revoke_row E u) (is_devices s)"
  fix dv assume "first_by dv_id (\<lambda>x. dv_device_id x = target) (is_devices s) = Some dv" and o: "dv_user_id dv = u"
  from first_by_Some [OF this(1)] have dv: "dv \<in> set (is_devices s)" "dv_device_id dv = target" by auto
  have own: "dv_user_id x = u" if "x \<in> set (is_devices s)" "dv_device_id x = target" for x
    using distinct_map_same [OF assms(1) [unfolded device_ids_distinct_def] that(1) dv(1)] that(2) dv(2) o by simp
  have "1 \<le> active_devices v (snd (RevokeDevice E u d target s))"
  proof (cases "v = u")
    case True
    have "active_devices u s \<le> Suc (active_devices u (snd (RevokeDevice E u d target s)))"
      unfolding active_devices_def eff
      by (rule count_where_upd_one [OF assms(1) [unfolded device_ids_distinct_def], where i = target]) simp
    with two True show ?thesis by simp
  next
    case False
    have "active_devices v (snd (RevokeDevice E u d target s)) = active_devices v s"
      unfolding active_devices_def eff by (rule count_where_upd_other) (use own False in auto)
    with assms(2) show ?thesis by simp
  qed
  moreover have "device_ids_distinct (snd (RevokeDevice E u d target s))"
    using assms(1) by (simp add: device_ids_distinct_def eff map_upd_where)
  ultimately show ?thesis by (rule conjI)
qed (use assms in \<open>simp add: active_devices_def device_ids_distinct_def\<close>)

text \<open>
  No sequence of revocations, by any users from any devices, takes a user's last active device: a
  user with an active device keeps one.
\<close>

theorem revocations_leave_an_active_device:
  assumes "device_ids_distinct s" "1 \<le> active_devices v s"
  shows "1 \<le> active_devices v (fold (\<lambda>(E, u, d, target) s. snd (RevokeDevice E u d target s)) rs s)"
  using assms
proof (induction rs arbitrary: s)
  case (Cons r rs)
  obtain E u d target where r: "r = (E, u, d, target)" by (cases r)
  from RevokeDevice_keeps_active [OF Cons.prems] Cons.IH r show ?case by simp
qed simp

theorem revocations_leave_an_active_device_witness:
  "1 \<le> active_devices 7 (fold (\<lambda>(E, u, d, target) s. snd (RevokeDevice E u d target s))
     [(env_at 1, 7, ''laptop'', ''phone''), (env_at 2, 7, ''phone'', ''laptop'')] demo_account)
   \<and> active_devices 7 demo_account = 2"
proof -
  have "device_ids_distinct demo_account" by (simp add: device_ids_distinct_def demo_account_def demo_device_def)
  moreover have two: "active_devices 7 demo_account = 2" by code_simp
  then have "1 \<le> active_devices 7 demo_account" by simp
  ultimately have "1 \<le> active_devices 7 (fold (\<lambda>(E, u, d, target) s. snd (RevokeDevice E u d target s))
     [(env_at 1, 7, ''laptop'', ''phone''), (env_at 2, 7, ''phone'', ''laptop'')] demo_account)"
    by (rule revocations_leave_an_active_device)
  with two show ?thesis by (rule conjI [rotated])
qed

section \<open>Passwords\<close>

text \<open>
  Setting a password trims it, checking one does not: a user who sets a password that begins or
  ends with white space is told it is set, and the same password is then refused.
\<close>

theorem padded_password_is_refused:
  assumes "SetPassword E u d p s = Inr s'" "\<not> e_db E' ''GetByID'' 0"
    "e_bcrypt E (trim p) = Inr h" "h \<noteq> ''''" "\<not> e_bcrypt_ok E' h p"
  shows "VerifyPassword E' u p s' = Inr False"
proof -
  let ?P = "\<lambda>x. us_id x = u"
  from assms(1,3) obtain user where g: "GetByID E u s = Inr user"
    and users: "is_users s' = save_row us_id (user\<lparr>us_password_hash := h, us_updated_at := e_now E\<rparr>) (is_users s)"
    by (auto simp: SetPassword_def UpdateUser_def db_save_def Let_def split: sum.splits if_splits)
  from g have u: "us_id user = u" by (auto simp: GetByID_def db_simps dest: first_by_Some)
  have "first_by us_id ?P (is_users s') = Some (user\<lparr>us_password_hash := h, us_updated_at := e_now E\<rparr>)"
    using u by (intro first_by_unique) (auto simp: users table_simps)
  with assms(2,4,5) show ?thesis by (simp add: VerifyPassword_def GetByID_def db_first_def)
qed

definition no_password :: id_state where
  "no_password = id_init\<lparr>is_users := [demo_user\<lparr>us_password_hash := ''''\<rparr>]\<rparr>"

theorem padded_password_is_refused_witness:
  "VerifyPassword (env_at 2) 7 '' secret 99 '' (projr (SetPassword (env_at 1) 7 ''laptop'' '' secret 99 '' no_password)) = Inr False"
proof (rule padded_password_is_refused)
  have "succeeds (SetPassword (env_at 1) 7 ''laptop'' '' secret 99 '' no_password)" by code_simp
  then show "SetPassword (env_at 1) 7 ''laptop'' '' secret 99 '' no_password
      = Inr (projr (SetPassword (env_at 1) 7 ''laptop'' '' secret 99 '' no_password))" by (rule succeeds_projr)
  show "e_bcrypt (env_at 1) (trim '' secret 99 '') = Inr ''bsecret 99''" by code_simp
qed (simp_all add: env_at_def env0_def)

end
