(* ===== verification/Governance.thy ===== *)
theory Governance
  imports Prelude
begin

text \<open>
  The governance plane: capabilities, policy rules, policy decisions, kill switches, approval receipts
  and scan results (\<open>internal/service/governance.go\<close> over \<open>internal/repository/governance_repo.go\<close>), and
  the enforcer that services call before a governed operation
  (\<open>internal/service/governance_enforcer.go\<close>).
\<close>

section \<open>State\<close>

record capability =
  ca_id :: uuid
  ca_created_at :: time
  ca_key :: string
  ca_name :: string
  ca_description :: string
  ca_risk_level :: string
  ca_status :: string
  ca_metadata :: json_map

record policy_rule =
  pl_id :: uuid
  pl_created_at :: time
  pl_name :: string
  pl_description :: string
  pl_capability_key :: string
  pl_subject_type :: string
  pl_subject_id :: string
  pl_actor_user_id :: "uuid option"
  pl_risk_level :: string
  pl_effect :: string
  pl_priority :: int
  pl_status :: string
  pl_conditions :: json_map
  pl_metadata :: json_map

record policy_decision =
  pd_id :: uuid
  pd_created_at :: time
  pd_actor_user_id :: "uuid option"
  pd_actor_device_id :: string
  pd_subject_type :: string
  pd_subject_id :: string
  pd_capability_key :: string
  pd_risk_level :: string
  pd_decision :: string
  pd_reason :: string
  pd_policy_rule_id :: "uuid option"
  pd_kill_switch_id :: "uuid option"
  pd_context :: json_map
  pd_decided_at :: time

record approval_receipt =
  rc_id :: uuid
  rc_created_at :: time
  rc_policy_decision_id :: uuid
  rc_actor_user_id :: uuid
  rc_subject_type :: string
  rc_subject_id :: string
  rc_capability_key :: string
  rc_decision :: string
  rc_token_hash :: string
  rc_status :: string
  rc_expires_at :: time
  rc_consumed_at :: "time option"
  rc_consumed_by :: string
  rc_metadata :: json_map

record kill_switch =
  ks_id :: uuid
  ks_created_at :: time
  ks_scope_type :: string
  ks_scope_id :: string
  ks_reason :: string
  ks_status :: string
  ks_expires_at :: "time option"
  ks_created_by :: "uuid option"
  ks_metadata :: json_map

record scan_result =
  sr_id :: uuid
  sr_created_at :: time
  sr_subject_type :: string
  sr_subject_id :: string
  sr_scanner :: string
  sr_severity :: string
  sr_status :: string
  sr_message :: string
  sr_details :: json_map
  sr_resolved_at :: "time option"
  sr_resolved_by :: "uuid option"

record gov_state =
  gs_capabilities :: "capability list"
  gs_rules :: "policy_rule list"
  gs_decisions :: "policy_decision list"
  gs_receipts :: "approval_receipt list"
  gs_switches :: "kill_switch list"
  gs_scans :: "scan_result list"

definition gov_init :: gov_state where
  "gov_init = \<lparr>gs_capabilities = [], gs_rules = [], gs_decisions = [], gs_receipts = [], gs_switches = [], gs_scans = []\<rparr>"

abbreviation "GovernanceStatusActive \<equiv> ''active''"
abbreviation "GovernanceRiskLow \<equiv> ''low''"
abbreviation "GovernanceDecisionAllow \<equiv> ''allow''"
abbreviation "GovernanceDecisionRequireUserApproval \<equiv> ''require_user_approval''"
abbreviation "GovernanceDecisionRequireAdminApproval \<equiv> ''require_admin_approval''"
abbreviation "GovernanceDecisionDeny \<equiv> ''deny''"
abbreviation "GovernanceApprovalPending \<equiv> ''pending''"
abbreviation "GovernanceApprovalConsumed \<equiv> ''consumed''"
abbreviation "GovernanceApprovalRevoked \<equiv> ''revoked''"
abbreviation "GovernanceEnforcementModeDisabled \<equiv> ''disabled''"
abbreviation "GovernanceEnforcementModeObserve \<equiv> ''observe''"
abbreviation "GovernanceEnforcementModeEnforce \<equiv> ''enforce''"

section \<open>Helpers\<close>

definition normalizePage :: "int \<Rightarrow> int \<Rightarrow> int \<times> int" where
  "normalizePage limit offset = (if limit \<le> 0 \<or> 100 < limit then 50 else limit, if offset < 0 then 0 else offset)"

definition normalizeOrDefault :: "string \<Rightarrow> string \<Rightarrow> string" where
  "normalizeOrDefault value fallback = (let v = trim value in if v = '''' then fallback else v)"

definition normalizeDecision :: "string \<Rightarrow> string" where
  "normalizeDecision value =
     (let v = trim value in
      if v \<in> {GovernanceDecisionAllow, GovernanceDecisionRequireUserApproval,
              GovernanceDecisionRequireAdminApproval, GovernanceDecisionDeny}
      then v else '''')"

definition toJSONMap :: "json_map option \<Rightarrow> json_map" where
  "toJSONMap input = (case input of None \<Rightarrow> [] | Some m \<Rightarrow> m)"

definition newGovernanceToken :: "env \<Rightarrow> (string \<times> string) result" where
  "newGovernanceToken E =
     (case e_rand E ''governance token'' 0 of Inl e \<Rightarrow> Inl e | Inr token \<Rightarrow> Inr (token, e_sha256_hex E token))"

text \<open>A page of a table: the number of matching rows and the rows of the page in the given order.\<close>

record 'r page =
  pg_items :: "'r list"
  pg_limit :: int
  pg_offset :: int
  pg_total :: nat

definition list_page :: "env \<Rightarrow> string \<Rightarrow> ('r \<Rightarrow> 'k::linorder) \<Rightarrow> ('r \<Rightarrow> bool) \<Rightarrow> int \<Rightarrow> int \<Rightarrow> 'r list \<Rightarrow> 'r page result" where
  "list_page E op key P limit offset t =
     (case db_count E op 0 P t of
        Inl e \<Rightarrow> Inl e
      | Inr n \<Rightarrow>
          (case db_find E op 1 P t of
             Inl e \<Rightarrow> Inl e
           | Inr rows \<Rightarrow>
               Inr \<lparr>pg_items = take (nat limit) (drop (nat offset) (sort_key key rows)),
                    pg_limit = limit, pg_offset = offset, pg_total = n\<rparr>))"

section \<open>Capabilities and rules\<close>

record capability_input =
  ci_key :: string
  ci_name :: string
  ci_description :: string
  ci_risk_level :: string
  ci_status :: string
  ci_metadata :: "json_map option"

definition CreateCapability :: "env \<Rightarrow> capability_input \<Rightarrow> gov_state \<Rightarrow> (capability \<times> gov_state) result" where
  "CreateCapability E input s =
     (let key = trim (ci_key input); nm = trim (ci_name input) in
      if key = '''' \<or> nm = '''' then Inl ErrGovernanceInvalidInput
      else
        let c = \<lparr>ca_id = e_uuid E ''capability_definitions'' 0, ca_created_at = e_now E, ca_key = key, ca_name = nm,
              ca_description = trim (ci_description input),
              ca_risk_level = normalizeOrDefault (ci_risk_level input) GovernanceRiskLow,
              ca_status = normalizeOrDefault (ci_status input) GovernanceStatusActive,
              ca_metadata = toJSONMap (ci_metadata input)\<rparr>
        in case db_insert E ''CreateCapability'' 0 (\<lambda>c x. ca_id x = ca_id c \<or> ca_key x = ca_key c) c (gs_capabilities s) of
             Inl e \<Rightarrow> Inl e
           | Inr t \<Rightarrow> Inr (c, s\<lparr>gs_capabilities := t\<rparr>))"

definition ListCapabilities :: "env \<Rightarrow> int \<Rightarrow> int \<Rightarrow> gov_state \<Rightarrow> capability page result" where
  "ListCapabilities E limit offset s =
     (let (l, off) = normalizePage limit offset
      in list_page E ''ListCapabilities'' (\<lambda>c. - ca_created_at c) (\<lambda>_. True) l off (gs_capabilities s))"

record policy_rule_input =
  pi_name :: string
  pi_description :: string
  pi_capability_key :: string
  pi_subject_type :: string
  pi_subject_id :: string
  pi_actor_user_id :: "uuid option"
  pi_risk_level :: string
  pi_effect :: string
  pi_priority :: int
  pi_status :: string
  pi_conditions :: "json_map option"
  pi_metadata :: "json_map option"

definition CreatePolicyRule :: "env \<Rightarrow> policy_rule_input \<Rightarrow> gov_state \<Rightarrow> (policy_rule \<times> gov_state) result" where
  "CreatePolicyRule E input s =
     (let nm = trim (pi_name input); eff = normalizeDecision (pi_effect input) in
      if nm = '''' \<or> eff = '''' then Inl ErrGovernanceInvalidInput
      else
        let priority = (if pi_priority input = 0 then 100 else pi_priority input);
            rule = \<lparr>pl_id = e_uuid E ''policy_rules'' 0, pl_created_at = e_now E, pl_name = nm,
              pl_description = trim (pi_description input), pl_capability_key = trim (pi_capability_key input),
              pl_subject_type = trim (pi_subject_type input), pl_subject_id = trim (pi_subject_id input),
              pl_actor_user_id = pi_actor_user_id input, pl_risk_level = trim (pi_risk_level input),
              pl_effect = eff, pl_priority = priority,
              pl_status = normalizeOrDefault (pi_status input) GovernanceStatusActive,
              pl_conditions = toJSONMap (pi_conditions input), pl_metadata = toJSONMap (pi_metadata input)\<rparr>
        in case db_insert E ''CreatePolicyRule'' 0 (\<lambda>r x. pl_id x = pl_id r) rule (gs_rules s) of
             Inl e \<Rightarrow> Inl e
           | Inr t \<Rightarrow> Inr (rule, s\<lparr>gs_rules := t\<rparr>))"

definition ListPolicyRules :: "env \<Rightarrow> int \<Rightarrow> int \<Rightarrow> gov_state \<Rightarrow> policy_rule page result" where
  "ListPolicyRules E limit offset s =
     (let (l, off) = normalizePage limit offset
      in list_page E ''ListPolicyRules'' (\<lambda>r. (pl_priority r, - pl_created_at r)) (\<lambda>_. True) l off (gs_rules s))"

record rule_query =
  rq_capability_key :: string
  rq_subject_type :: string
  rq_subject_id :: string
  rq_actor_user_id :: "uuid option"
  rq_risk_level :: string

text \<open>A rule matches an operation when it is active and every criterion it states is the
  operation's; a criterion left empty matches everything.\<close>

definition rule_matches :: "rule_query \<Rightarrow> policy_rule \<Rightarrow> bool" where
  "rule_matches q r \<longleftrightarrow>
     pl_status r = ''active''
     \<and> (pl_capability_key r = rq_capability_key q \<or> pl_capability_key r = '''')
     \<and> (pl_subject_type r = rq_subject_type q \<or> pl_subject_type r = '''')
     \<and> (pl_subject_id r = rq_subject_id q \<or> pl_subject_id r = '''')
     \<and> (pl_risk_level r = rq_risk_level q \<or> pl_risk_level r = '''')
     \<and> (case rq_actor_user_id q of
          Some u \<Rightarrow> if u \<noteq> uuid_nil then pl_actor_user_id r = Some u \<or> pl_actor_user_id r = None
                    else pl_actor_user_id r = None
        | None \<Rightarrow> pl_actor_user_id r = None)"

definition FindMatchingPolicyRules :: "env \<Rightarrow> rule_query \<Rightarrow> gov_state \<Rightarrow> policy_rule list result" where
  "FindMatchingPolicyRules E q s =
     (case db_find E ''FindMatchingPolicyRules'' 0 (rule_matches q) (gs_rules s) of
        Inl e \<Rightarrow> Inl e
      | Inr rs \<Rightarrow> Inr (sort_key (\<lambda>r. (pl_priority r, pl_created_at r)) rs))"

section \<open>Kill switches\<close>

record kill_switch_input =
  ki_scope_type :: string
  ki_scope_id :: string
  ki_reason :: string
  ki_status :: string
  ki_expires_at :: "time option"
  ki_created_by :: "uuid option"
  ki_metadata :: "json_map option"

definition CreateKillSwitch :: "env \<Rightarrow> kill_switch_input \<Rightarrow> gov_state \<Rightarrow> (kill_switch \<times> gov_state) result" where
  "CreateKillSwitch E input s =
     (let scopeType = trim (ki_scope_type input) in
      if scopeType = '''' then Inl ErrGovernanceInvalidInput
      else
        let k = \<lparr>ks_id = e_uuid E ''kill_switches'' 0, ks_created_at = e_now E, ks_scope_type = scopeType,
              ks_scope_id = trim (ki_scope_id input), ks_reason = trim (ki_reason input),
              ks_status = normalizeOrDefault (ki_status input) GovernanceStatusActive,
              ks_expires_at = ki_expires_at input, ks_created_by = ki_created_by input,
              ks_metadata = toJSONMap (ki_metadata input)\<rparr>
        in case db_insert E ''CreateKillSwitch'' 0 (\<lambda>k x. ks_id x = ks_id k) k (gs_switches s) of
             Inl e \<Rightarrow> Inl e
           | Inr t \<Rightarrow> Inr (k, s\<lparr>gs_switches := t\<rparr>))"

record switch_query =
  kq_scope_id :: string
  kq_capability_key :: string
  kq_actor_user_id :: "uuid option"

definition switch_live :: "time \<Rightarrow> kill_switch \<Rightarrow> bool" where
  "switch_live now k \<longleftrightarrow> ks_status k = ''active''
     \<and> (case ks_expires_at k of None \<Rightarrow> True | Some x \<Rightarrow> now < x)"

text \<open>The body of the loop over the switches.\<close>

definition switch_applies :: "env \<Rightarrow> switch_query \<Rightarrow> kill_switch \<Rightarrow> bool" where
  "switch_applies E q k \<longleftrightarrow>
     ks_scope_type k = ''global''
     \<or> ks_scope_type k \<in> {''plugin'', ''user'', ''server''} \<and> ks_scope_id k = kq_scope_id q
     \<or> ks_scope_type k = ''capability'' \<and> ks_scope_id k = kq_capability_key q
     \<or> ks_scope_type k = ''user''
       \<and> (case kq_actor_user_id q of None \<Rightarrow> False | Some u \<Rightarrow> ks_scope_id k = e_uuid_str E u)"

definition FindActiveKillSwitch :: "env \<Rightarrow> switch_query \<Rightarrow> gov_state \<Rightarrow> kill_switch result" where
  "FindActiveKillSwitch E q s =
     (case db_find E ''FindActiveKillSwitch'' 0 (switch_live (e_now E)) (gs_switches s) of
        Inl e \<Rightarrow> Inl e
      | Inr switches \<Rightarrow>
          (case List.find (switch_applies E q) (sort_key ks_created_at switches) of
             None \<Rightarrow> Inl ErrRecordNotFound
           | Some k \<Rightarrow> Inr k))"

section \<open>Evaluation\<close>

record evaluate_input =
  ei_actor_user_id :: "uuid option"
  ei_actor_device_id :: string
  ei_subject_type :: string
  ei_subject_id :: string
  ei_capability_key :: string
  ei_risk_level :: string
  ei_context :: "json_map option"

definition persistDecision :: "env \<Rightarrow> evaluate_input \<Rightarrow> string \<Rightarrow> string \<Rightarrow> string \<Rightarrow> uuid option \<Rightarrow> uuid option
    \<Rightarrow> gov_state \<Rightarrow> (policy_decision \<times> gov_state) result" where
  "persistDecision E input riskLevel verdict reason ruleID killSwitchID s =
     (let d = \<lparr>pd_id = e_uuid E ''policy_decisions'' 0, pd_created_at = e_now E,
            pd_actor_user_id = ei_actor_user_id input, pd_actor_device_id = trim (ei_actor_device_id input),
            pd_subject_type = trim (ei_subject_type input), pd_subject_id = trim (ei_subject_id input),
            pd_capability_key = trim (ei_capability_key input), pd_risk_level = riskLevel, pd_decision = verdict,
            pd_reason = reason, pd_policy_rule_id = ruleID, pd_kill_switch_id = killSwitchID,
            pd_context = toJSONMap (ei_context input), pd_decided_at = e_now E\<rparr>
      in case db_insert E ''CreatePolicyDecision'' 0 (\<lambda>d x. pd_id x = pd_id d) d (gs_decisions s) of
           Inl e \<Rightarrow> Inl e
         | Inr t \<Rightarrow> Inr (d, s\<lparr>gs_decisions := t\<rparr>))"

definition Evaluate :: "env \<Rightarrow> evaluate_input \<Rightarrow> gov_state \<Rightarrow> (policy_decision \<times> gov_state) result" where
  "Evaluate E input s =
     (let subjectType = trim (ei_subject_type input); capabilityKey = trim (ei_capability_key input) in
      if subjectType = '''' \<or> capabilityKey = '''' then Inl ErrGovernanceInvalidInput
      else
        let riskLevel = normalizeOrDefault (ei_risk_level input) GovernanceRiskLow;
            subjectID = trim (ei_subject_id input)
        in case FindActiveKillSwitch E \<lparr>kq_scope_id = subjectID, kq_capability_key = capabilityKey,
                                         kq_actor_user_id = ei_actor_user_id input\<rparr> s of
             Inr k \<Rightarrow>
               persistDecision E input riskLevel GovernanceDecisionDeny
                 (''blocked by '' @ ks_scope_type k @ '' kill switch'') None (Some (ks_id k)) s
           | Inl e \<Rightarrow>
               if e \<noteq> ErrRecordNotFound then Inl e
               else (case FindMatchingPolicyRules E \<lparr>rq_capability_key = capabilityKey, rq_subject_type = subjectType,
                            rq_subject_id = subjectID, rq_actor_user_id = ei_actor_user_id input,
                            rq_risk_level = riskLevel\<rparr> s of
                       Inl e \<Rightarrow> Inl e
                     | Inr [] \<Rightarrow> persistDecision E input riskLevel GovernanceDecisionAllow
                                   ''default allow: no matching active policy rule'' None None s
                     | Inr (rule # _) \<Rightarrow> persistDecision E input riskLevel (pl_effect rule)
                                   (''matched policy rule: '' @ pl_name rule) (Some (pl_id rule)) None s))"

record decision_filter =
  df_subject_type :: string
  df_subject_id :: string
  df_capability_key :: string
  df_decision :: string
  df_risk_level :: string

definition field_ok :: "string \<Rightarrow> string \<Rightarrow> bool" where
  "field_ok wanted actual \<longleftrightarrow> trim wanted = '''' \<or> actual = trim wanted"

definition ListPolicyDecisions :: "env \<Rightarrow> decision_filter \<Rightarrow> int \<Rightarrow> int \<Rightarrow> gov_state \<Rightarrow> policy_decision page result" where
  "ListPolicyDecisions E f limit offset s =
     (let (l, off) = normalizePage limit offset
      in list_page E ''ListPolicyDecisions'' (\<lambda>d. (- pd_decided_at d, - pd_created_at d))
           (\<lambda>d. field_ok (df_subject_type f) (pd_subject_type d) \<and> field_ok (df_subject_id f) (pd_subject_id d)
              \<and> field_ok (df_capability_key f) (pd_capability_key d) \<and> field_ok (df_decision f) (pd_decision d)
              \<and> field_ok (df_risk_level f) (pd_risk_level d)) l off (gs_decisions s))"

definition GetPolicyDecision :: "env \<Rightarrow> uuid \<Rightarrow> gov_state \<Rightarrow> policy_decision result" where
  "GetPolicyDecision E i s =
     (if i = uuid_nil then Inl ErrGovernanceInvalidInput
      else db_first E ''GetPolicyDecision'' 0 pd_id (\<lambda>d. pd_id d = i) (gs_decisions s))"

section \<open>Approval receipts\<close>

text \<open>The indexes of \<open>approval_receipts\<close>: the primary key and the token hash.\<close>

definition rc_clash :: "approval_receipt \<Rightarrow> approval_receipt \<Rightarrow> bool" where
  "rc_clash r x \<longleftrightarrow> rc_id x = rc_id r \<or> rc_token_hash x = rc_token_hash r"

record receipt_input =
  ri_policy_decision_id :: uuid
  ri_actor_user_id :: uuid
  ri_subject_type :: string
  ri_subject_id :: string
  ri_capability_key :: string
  ri_decision :: string
  ri_expires_at :: "time option"
  ri_metadata :: "json_map option"

definition CreateApprovalReceipt :: "env \<Rightarrow> receipt_input \<Rightarrow> gov_state
    \<Rightarrow> (approval_receipt \<times> string \<times> gov_state) result" where
  "CreateApprovalReceipt E input s =
     (if ri_policy_decision_id input = uuid_nil \<or> ri_actor_user_id input = uuid_nil
         \<or> trim (ri_subject_type input) = '''' \<or> trim (ri_capability_key input) = ''''
      then Inl ErrGovernanceInvalidInput
      else
        let expiresAt = (case ri_expires_at input of None \<Rightarrow> e_now E + minutes 15 | Some x \<Rightarrow> x)
        in case newGovernanceToken E of
             Inl e \<Rightarrow> Inl e
           | Inr (token, tokenHash) \<Rightarrow>
               let receipt = \<lparr>rc_id = e_uuid E ''approval_receipts'' 0, rc_created_at = e_now E,
                     rc_policy_decision_id = ri_policy_decision_id input,
                     rc_actor_user_id = ri_actor_user_id input, rc_subject_type = trim (ri_subject_type input),
                     rc_subject_id = trim (ri_subject_id input), rc_capability_key = trim (ri_capability_key input),
                     rc_decision = normalizeDecision (ri_decision input), rc_token_hash = tokenHash,
                     rc_status = GovernanceApprovalPending, rc_expires_at = expiresAt, rc_consumed_at = None,
                     rc_consumed_by = '''', rc_metadata = toJSONMap (ri_metadata input)\<rparr>
               in case db_insert E ''CreateApprovalReceipt'' 0 rc_clash receipt (gs_receipts s) of
                    Inl e \<Rightarrow> Inl e
                  | Inr t \<Rightarrow> Inr (receipt, token, s\<lparr>gs_receipts := t\<rparr>))"

record consume_constraints =
  cc_actor_user_id :: "uuid option"
  cc_subject_type :: string
  cc_subject_id :: string
  cc_capability_key :: string

text \<open>The checks of \<open>ConsumeApprovalReceiptByTokenHash\<close> on the locked row: pending, not expired, and
  each constraint the caller states.\<close>

definition receipt_allows :: "time \<Rightarrow> consume_constraints \<Rightarrow> approval_receipt \<Rightarrow> bool" where
  "receipt_allows now c r \<longleftrightarrow>
     rc_status r = GovernanceApprovalPending \<and> now < rc_expires_at r
     \<and> (case cc_actor_user_id c of None \<Rightarrow> True | Some u \<Rightarrow> u = uuid_nil \<or> rc_actor_user_id r = u)
     \<and> (cc_subject_type c = '''' \<or> rc_subject_type r = cc_subject_type c)
     \<and> (cc_subject_id c = '''' \<or> rc_subject_id r = cc_subject_id c)
     \<and> (cc_capability_key c = '''' \<or> rc_capability_key r = cc_capability_key c)"

definition ConsumeApprovalReceiptByTokenHash :: "env \<Rightarrow> string \<Rightarrow> string \<Rightarrow> consume_constraints \<Rightarrow> gov_state
    \<Rightarrow> (approval_receipt \<times> gov_state) result" where
  "ConsumeApprovalReceiptByTokenHash E tokenHash consumedBy c s =
     (case db_first E ''ConsumeApprovalReceipt.lock'' 0 rc_id (\<lambda>r. rc_token_hash r = tokenHash) (gs_receipts s) of
        Inl e \<Rightarrow> Inl e
      | Inr r \<Rightarrow>
          if \<not> receipt_allows (e_now E) c r then Inl ErrInvalidData
          else
            let r' = r\<lparr>rc_status := GovernanceApprovalConsumed, rc_consumed_at := Some (e_now E),
                       rc_consumed_by := consumedBy\<rparr>
            in case db_save E ''ConsumeApprovalReceipt.save'' 0 rc_id r' (gs_receipts s) of
                 Inl e \<Rightarrow> Inl e
               | Inr t \<Rightarrow> Inr (r', s\<lparr>gs_receipts := t\<rparr>))"

record consume_input =
  ni_token :: string
  ni_consumed_by :: string
  ni_actor_user_id :: "uuid option"
  ni_subject_type :: string
  ni_subject_id :: string
  ni_capability_key :: string

definition ConsumeApprovalReceiptForOperation :: "env \<Rightarrow> consume_input \<Rightarrow> gov_state
    \<Rightarrow> (approval_receipt \<times> gov_state) result" where
  "ConsumeApprovalReceiptForOperation E input s =
     (if trim (ni_token input) = '''' then Inl ErrGovernanceInvalidInput
      else case ConsumeApprovalReceiptByTokenHash E (e_sha256_hex E (ni_token input)) (trim (ni_consumed_by input))
                  \<lparr>cc_actor_user_id = ni_actor_user_id input, cc_subject_type = trim (ni_subject_type input),
                   cc_subject_id = trim (ni_subject_id input), cc_capability_key = trim (ni_capability_key input)\<rparr> s of
             Inl _ \<Rightarrow> Inl ErrApprovalReceiptInvalid
           | Inr rs \<Rightarrow> Inr rs)"

definition ConsumeApprovalReceipt :: "env \<Rightarrow> string \<Rightarrow> string \<Rightarrow> gov_state \<Rightarrow> (approval_receipt \<times> gov_state) result" where
  "ConsumeApprovalReceipt E token consumedBy s =
     ConsumeApprovalReceiptForOperation E \<lparr>ni_token = token, ni_consumed_by = consumedBy, ni_actor_user_id = None,
       ni_subject_type = '''', ni_subject_id = '''', ni_capability_key = ''''\<rparr> s"

definition RevokeApprovalReceipt :: "env \<Rightarrow> uuid \<Rightarrow> string \<Rightarrow> gov_state \<Rightarrow> (approval_receipt \<times> gov_state) result" where
  "RevokeApprovalReceipt E i reason s =
     (if i = uuid_nil then Inl ErrGovernanceInvalidInput
      else case db_first E ''RevokeApprovalReceipt.lock'' 0 rc_id (\<lambda>r. rc_id r = i) (gs_receipts s) of
             Inl e \<Rightarrow> Inl ErrApprovalReceiptInvalid
           | Inr r \<Rightarrow>
               if rc_status r \<noteq> GovernanceApprovalPending then Inl ErrApprovalReceiptInvalid
               else
                 let m1 = jset (rc_metadata r) ''revoked_at'' (ATime (e_now E));
                     m2 = (if trim reason \<noteq> '''' then jset m1 ''revocation_reason'' (AStr (trim reason)) else m1);
                     r' = r\<lparr>rc_status := GovernanceApprovalRevoked, rc_metadata := m2\<rparr>
                 in case db_save E ''RevokeApprovalReceipt.save'' 0 rc_id r' (gs_receipts s) of
                      Inl e \<Rightarrow> Inl ErrApprovalReceiptInvalid
                    | Inr t \<Rightarrow> Inr (r', s\<lparr>gs_receipts := t\<rparr>))"

text \<open>Reissuing replaces the token. The unique index refuses a token hash another receipt has.\<close>

definition ReissueApprovalReceiptToken :: "env \<Rightarrow> uuid \<Rightarrow> string \<Rightarrow> time \<Rightarrow> gov_state
    \<Rightarrow> (approval_receipt \<times> string \<times> gov_state) result" where
  "ReissueApprovalReceiptToken E i reason ttl s =
     (if i = uuid_nil then Inl ErrGovernanceInvalidInput
      else
        let ttl' = (if ttl \<le> 0 \<or> minutes 60 < ttl then minutes 15 else ttl)
        in case newGovernanceToken E of
             Inl e \<Rightarrow> Inl e
           | Inr (token, tokenHash) \<Rightarrow>
               (case db_first E ''ReissueApprovalReceipt.lock'' 0 rc_id (\<lambda>r. rc_id r = i) (gs_receipts s) of
                  Inl e \<Rightarrow> Inl ErrApprovalReceiptInvalid
                | Inr r \<Rightarrow>
                    if rc_status r \<noteq> GovernanceApprovalPending \<or> \<not> e_now E < rc_expires_at r
                    then Inl ErrApprovalReceiptInvalid
                    else
                      let m1 = jset (rc_metadata r) ''token_reissued_at'' (ATime (e_now E));
                          m2 = (if trim reason \<noteq> '''' then jset m1 ''token_reissue_reason'' (AStr (trim reason)) else m1);
                          r' = r\<lparr>rc_token_hash := tokenHash, rc_expires_at := e_now E + ttl', rc_metadata := m2\<rparr>
                      in if list_ex (\<lambda>x. rc_id x \<noteq> i \<and> rc_token_hash x = tokenHash) (gs_receipts s)
                         then Inl ErrApprovalReceiptInvalid
                         else case db_save E ''ReissueApprovalReceipt.save'' 0 rc_id r' (gs_receipts s) of
                                Inl e \<Rightarrow> Inl ErrApprovalReceiptInvalid
                              | Inr t \<Rightarrow> Inr (r', token, s\<lparr>gs_receipts := t\<rparr>)))"

record receipt_filter =
  rf_subject_type :: string
  rf_subject_id :: string
  rf_capability_key :: string
  rf_status :: string

definition ListApprovalReceipts :: "env \<Rightarrow> receipt_filter \<Rightarrow> int \<Rightarrow> int \<Rightarrow> gov_state \<Rightarrow> approval_receipt page result" where
  "ListApprovalReceipts E f limit offset s =
     (let (l, off) = normalizePage limit offset
      in list_page E ''ListApprovalReceipts'' (\<lambda>r. - rc_created_at r)
           (\<lambda>r. field_ok (rf_subject_type f) (rc_subject_type r) \<and> field_ok (rf_subject_id f) (rc_subject_id r)
              \<and> field_ok (rf_capability_key f) (rc_capability_key r) \<and> field_ok (rf_status f) (rc_status r))
           l off (gs_receipts s))"

section \<open>Scan results\<close>

record scan_filter =
  sf_subject_type :: string
  sf_subject_id :: string
  sf_scanner :: string
  sf_severity :: string
  sf_status :: string

definition ListScanResults :: "env \<Rightarrow> scan_filter \<Rightarrow> int \<Rightarrow> int \<Rightarrow> gov_state \<Rightarrow> scan_result page result" where
  "ListScanResults E f limit offset s =
     (let (l, off) = normalizePage limit offset
      in list_page E ''ListScanResults'' (\<lambda>r. - sr_created_at r)
           (\<lambda>r. field_ok (sf_subject_type f) (sr_subject_type r) \<and> field_ok (sf_subject_id f) (sr_subject_id r)
              \<and> field_ok (sf_scanner f) (sr_scanner r) \<and> field_ok (sf_severity f) (sr_severity r)
              \<and> field_ok (sf_status f) (sr_status r)) l off (gs_scans s))"

definition ResolveScanResult :: "env \<Rightarrow> uuid \<Rightarrow> uuid \<Rightarrow> gov_state \<Rightarrow> (scan_result \<times> gov_state) result" where
  "ResolveScanResult E i resolvedBy s =
     (if i = uuid_nil then Inl ErrGovernanceInvalidInput
      else case db_first E ''ResolveScanResult.lock'' 0 sr_id (\<lambda>r. sr_id r = i) (gs_scans s) of
             Inl e \<Rightarrow> Inl e
           | Inr r \<Rightarrow>
               let r1 = r\<lparr>sr_status := ''resolved'', sr_resolved_at := Some (e_now E)\<rparr>;
                   r2 = (if resolvedBy \<noteq> uuid_nil then r1\<lparr>sr_resolved_by := Some resolvedBy\<rparr> else r1)
               in case db_save E ''ResolveScanResult.save'' 0 sr_id r2 (gs_scans s) of
                    Inl e \<Rightarrow> Inl e
                  | Inr t \<Rightarrow> Inr (r2, s\<lparr>gs_scans := t\<rparr>))"

section \<open>Enforcement\<close>

record enforcement_config =
  ec_mode :: string
  ec_sage_mode :: string
  ec_object_mode :: string
  ec_kb_mode :: string

definition normalizeGovernanceEnforcementMode :: "string \<Rightarrow> string" where
  "normalizeGovernanceEnforcementMode mode =
     (let m = to_lower (trim mode) in
      if m \<in> {GovernanceEnforcementModeDisabled, GovernanceEnforcementModeObserve, GovernanceEnforcementModeEnforce}
      then m else '''')"

definition NewGovernanceEnforcer :: "enforcement_config \<Rightarrow> enforcement_config" where
  "NewGovernanceEnforcer cfg =
     (let m = normalizeGovernanceEnforcementMode (ec_mode cfg) in
      \<lparr>ec_mode = (if m = '''' then GovernanceEnforcementModeObserve else m),
       ec_sage_mode = normalizeGovernanceEnforcementMode (ec_sage_mode cfg),
       ec_object_mode = normalizeGovernanceEnforcementMode (ec_object_mode cfg),
       ec_kb_mode = normalizeGovernanceEnforcementMode (ec_kb_mode cfg)\<rparr>)"

definition modeFor :: "enforcement_config \<Rightarrow> string \<Rightarrow> string" where
  "modeFor cfg subjectType =
     (let t = trim subjectType in
      if t \<in> {''sage_plugin'', ''sage_permission_grant'', ''sage_invocation''} \<and> ec_sage_mode cfg \<noteq> '''' then ec_sage_mode cfg
      else if t = ''object_operation'' \<and> ec_object_mode cfg \<noteq> '''' then ec_object_mode cfg
      else if t = ''kb_operation'' \<and> ec_kb_mode cfg \<noteq> '''' then ec_kb_mode cfg
      else if ec_mode cfg \<noteq> '''' then ec_mode cfg
      else GovernanceEnforcementModeObserve)"

record enforcement_input =
  fi_actor_user_id :: "uuid option"
  fi_actor_device_id :: string
  fi_subject_type :: string
  fi_subject_id :: string
  fi_capability_key :: string
  fi_risk_level :: string
  fi_context :: "json_map option"
  fi_approval_token :: string
  fi_approval_consumed_by :: string

record enforcement_result =
  er_allowed :: bool
  er_mode :: string
  er_would_have_blocked :: bool
  er_decision :: "policy_decision option"
  er_approval_receipt :: "approval_receipt option"
  er_approval_token :: string
  er_consumed_receipt :: "approval_receipt option"

definition enforcement_base :: "bool \<Rightarrow> string \<Rightarrow> bool \<Rightarrow> policy_decision option \<Rightarrow> enforcement_result" where
  "enforcement_base allowed mode blocked d =
     \<lparr>er_allowed = allowed, er_mode = mode, er_would_have_blocked = blocked, er_decision = d,
      er_approval_receipt = None, er_approval_token = '''', er_consumed_receipt = None\<rparr>"

text \<open>Go returns a result and an error; a refusal has both. The error that carries the input and the
  result wraps its cause. Here a call gives the result if there is one, and the error if there is one.\<close>

definition enforce_with_token :: "env \<Rightarrow> string \<Rightarrow> enforcement_input \<Rightarrow> gov_state
    \<Rightarrow> enforcement_result option \<times> error option \<times> gov_state" where
  "enforce_with_token E mode input s =
     (let c = trim (fi_approval_consumed_by input);
          consumedBy = (if c = '''' then trim (fi_actor_device_id input) else c)
      in case ConsumeApprovalReceiptForOperation E
                \<lparr>ni_token = fi_approval_token input, ni_consumed_by = consumedBy,
                 ni_actor_user_id = fi_actor_user_id input, ni_subject_type = fi_subject_type input,
                 ni_subject_id = fi_subject_id input, ni_capability_key = fi_capability_key input\<rparr> s of
           Inl e \<Rightarrow>
             if mode = GovernanceEnforcementModeObserve
             then (Some (enforcement_base True mode True None), None, s)
             else (Some (enforcement_base False mode True None),
                   Some (Wrapf '''' ErrGovernanceApprovalInvalid), s)
         | Inr (receipt, s') \<Rightarrow>
             (Some ((enforcement_base True mode False None)\<lparr>er_consumed_receipt := Some receipt\<rparr>), None, s'))"

definition ask_for_approval :: "env \<Rightarrow> string \<Rightarrow> enforcement_input \<Rightarrow> policy_decision \<Rightarrow> gov_state
    \<Rightarrow> enforcement_result option \<times> error option \<times> gov_state" where
  "ask_for_approval E mode input d s =
     (let res = enforcement_base False mode True (Some d); err = Some (Wrapf '''' ErrGovernanceApprovalRequired)
      in case fi_actor_user_id input of
           None \<Rightarrow> (Some res, err, s)
         | Some u \<Rightarrow>
             if u = uuid_nil then (Some res, err, s)
             else (case CreateApprovalReceipt E
                          \<lparr>ri_policy_decision_id = pd_id d, ri_actor_user_id = u,
                           ri_subject_type = fi_subject_type input, ri_subject_id = fi_subject_id input,
                           ri_capability_key = fi_capability_key input, ri_decision = pd_decision d,
                           ri_expires_at = Some (e_now E + minutes 15),
                           ri_metadata = Some [(''actor_device_id'', AStr (fi_actor_device_id input)),
                                               (''risk_level'', AStr (fi_risk_level input))]\<rparr> s of
                     Inl e \<Rightarrow> (None, Some e, s)
                   | Inr (receipt, token, s') \<Rightarrow>
                       (Some (res\<lparr>er_approval_receipt := Some receipt, er_approval_token := token\<rparr>), err, s')))"

definition Enforce :: "env \<Rightarrow> enforcement_config \<Rightarrow> enforcement_input \<Rightarrow> gov_state
    \<Rightarrow> enforcement_result option \<times> error option \<times> gov_state" where
  "Enforce E cfg input s =
     (let mode = modeFor cfg (fi_subject_type input) in
      if mode = GovernanceEnforcementModeDisabled then (Some (enforcement_base True mode False None), None, s)
      else if fi_approval_token input \<noteq> '''' then enforce_with_token E mode input s
      else case Evaluate E \<lparr>ei_actor_user_id = fi_actor_user_id input, ei_actor_device_id = fi_actor_device_id input,
                   ei_subject_type = fi_subject_type input, ei_subject_id = fi_subject_id input,
                   ei_capability_key = fi_capability_key input, ei_risk_level = fi_risk_level input,
                   ei_context = fi_context input\<rparr> s of
             Inl e \<Rightarrow> (None, Some e, s)
           | Inr (d, s1) \<Rightarrow>
               if mode = GovernanceEnforcementModeObserve
               then (Some (enforcement_base True mode (pd_decision d \<noteq> GovernanceDecisionAllow) (Some d)), None, s1)
               else if pd_decision d = GovernanceDecisionAllow
               then (Some (enforcement_base True mode False (Some d)), None, s1)
               else if pd_decision d = GovernanceDecisionDeny
               then (Some (enforcement_base False mode True (Some d)), Some (Wrapf '''' ErrGovernanceDenied), s1)
               else if pd_decision d \<in> {GovernanceDecisionRequireUserApproval, GovernanceDecisionRequireAdminApproval}
               then ask_for_approval E mode input d s1
               else (Some (enforcement_base False mode True (Some d)), Some (Wrapf '''' ErrGovernanceDenied), s1))"

end
