(* ===== verification/GovernanceProps.thy ===== *)
theory GovernanceProps
  imports Governance SingleUse
begin

text \<open>
  What the governance plane guarantees: kill switches deny whatever the rules say, the first matching
  rule decides, observation never blocks, and approval receipts are one-time tokens bound to their
  operation.
\<close>

section \<open>Approval receipts are one-time tokens\<close>

type_synonym receipt_req = "env \<times> consume_input"

fun consume_receipt :: "receipt_req \<Rightarrow> gov_state \<Rightarrow> approval_receipt result \<times> gov_state" where
  "consume_receipt (E, input) s =
     (case ConsumeApprovalReceiptForOperation E input s of Inl e \<Rightarrow> (Inl e, s) | Inr (r, s') \<Rightarrow> (Inr r, s'))"

fun receipt_digest :: "receipt_req \<Rightarrow> string" where
  "receipt_digest (E, input) = e_sha256_hex E (ni_token input)"

datatype gov_req =
    GCreateReceipt env receipt_input
  | GRevokeReceipt env uuid string
  | GReissueReceipt env uuid string time
  | GEvaluate env evaluate_input
  | GCreateRule env policy_rule_input
  | GCreateKillSwitch env kill_switch_input

fun gov_serve :: "gov_req \<Rightarrow> gov_state \<Rightarrow> gov_state" where
  "gov_serve (GCreateReceipt E i) s = (case CreateApprovalReceipt E i s of Inl _ \<Rightarrow> s | Inr (_, _, s') \<Rightarrow> s')"
| "gov_serve (GRevokeReceipt E i reason) s = (case RevokeApprovalReceipt E i reason s of Inl _ \<Rightarrow> s | Inr (_, s') \<Rightarrow> s')"
| "gov_serve (GReissueReceipt E i reason ttl) s =
     (case ReissueApprovalReceiptToken E i reason ttl s of Inl _ \<Rightarrow> s | Inr (_, _, s') \<Rightarrow> s')"
| "gov_serve (GEvaluate E i) s = (case Evaluate E i s of Inl _ \<Rightarrow> s | Inr (_, s') \<Rightarrow> s')"
| "gov_serve (GCreateRule E i) s = (case CreatePolicyRule E i s of Inl _ \<Rightarrow> s | Inr (_, s') \<Rightarrow> s')"
| "gov_serve (GCreateKillSwitch E i) s = (case CreateKillSwitch E i s of Inl _ \<Rightarrow> s | Inr (_, s') \<Rightarrow> s')"

text \<open>A request that draws a token is harmless to a digest unless the token drawn has it.\<close>

definition draws_other :: "string \<Rightarrow> env \<Rightarrow> bool" where
  "draws_other k E \<longleftrightarrow> (case newGovernanceToken E of Inl _ \<Rightarrow> True | Inr (_, h) \<Rightarrow> h \<noteq> k)"

fun new_receipt_digest :: "string \<Rightarrow> gov_req \<Rightarrow> bool" where
  "new_receipt_digest k (GCreateReceipt E i) = draws_other k E"
| "new_receipt_digest k (GReissueReceipt E i reason ttl) = draws_other k E"
| "new_receipt_digest k _ = True"

definition receipt_spent :: "string \<Rightarrow> gov_state \<Rightarrow> bool" where
  "receipt_spent k s \<longleftrightarrow>
     (\<forall>r\<in>set (gs_receipts s). rc_token_hash r = k \<longrightarrow> rc_status r \<noteq> GovernanceApprovalPending)"

definition receipts_unique :: "gov_state \<Rightarrow> bool" where
  "receipts_unique s \<longleftrightarrow> distinct (map rc_id (gs_receipts s)) \<and> distinct (map rc_token_hash (gs_receipts s))"

lemma ConsumeForOperation_Inr:
  assumes "ConsumeApprovalReceiptForOperation E input s = Inr (r', s')"
  obtains r where "r \<in> set (gs_receipts s)" "rc_token_hash r = e_sha256_hex E (ni_token input)"
    "receipt_allows (e_now E) \<lparr>cc_actor_user_id = ni_actor_user_id input, cc_subject_type = trim (ni_subject_type input),
       cc_subject_id = trim (ni_subject_id input), cc_capability_key = trim (ni_capability_key input)\<rparr> r"
    "r' = r\<lparr>rc_status := GovernanceApprovalConsumed, rc_consumed_at := Some (e_now E),
            rc_consumed_by := trim (ni_consumed_by input)\<rparr>"
    "gs_receipts s' = save_row rc_id r' (gs_receipts s)"
proof -
  let ?h = "e_sha256_hex E (ni_token input)"
  from assms obtain r where f: "first_by rc_id (\<lambda>r. rc_token_hash r = ?h) (gs_receipts s) = Some r"
    and rest: "receipt_allows (e_now E) \<lparr>cc_actor_user_id = ni_actor_user_id input, cc_subject_type = trim (ni_subject_type input),
       cc_subject_id = trim (ni_subject_id input), cc_capability_key = trim (ni_capability_key input)\<rparr> r"
    "r' = r\<lparr>rc_status := GovernanceApprovalConsumed, rc_consumed_at := Some (e_now E),
            rc_consumed_by := trim (ni_consumed_by input)\<rparr>"
    "gs_receipts s' = save_row rc_id r' (gs_receipts s)"
    by (auto simp: ConsumeApprovalReceiptForOperation_def ConsumeApprovalReceiptByTokenHash_def db_first_def db_save_def
        Let_def split: if_splits sum.splits option.splits)
  from first_by_Some [OF f] rest that show thesis by blast
qed

text \<open>What the other requests do to the receipts: nothing, add one under a new token, or save one of
  them, with the same token and no longer pending, or under a new token.\<close>

lemma gov_serve_receipts:
  obtains (same) "gs_receipts (gov_serve x s) = gs_receipts s"
  | (created) r where "gs_receipts (gov_serve x s) = gs_receipts s @ [r]" "\<forall>y\<in>set (gs_receipts s). \<not> rc_clash r y"
      "\<not> new_receipt_digest (rc_token_hash r) x"
  | (revoked) r0 r where "gs_receipts (gov_serve x s) = save_row rc_id r (gs_receipts s)" "r0 \<in> set (gs_receipts s)"
      "rc_id r = rc_id r0" "rc_token_hash r = rc_token_hash r0" "rc_status r \<noteq> GovernanceApprovalPending"
  | (reissued) r0 r where "gs_receipts (gov_serve x s) = save_row rc_id r (gs_receipts s)" "r0 \<in> set (gs_receipts s)"
      "rc_id r = rc_id r0" "\<forall>y\<in>set (gs_receipts s). rc_id y \<noteq> rc_id r \<longrightarrow> rc_token_hash y \<noteq> rc_token_hash r"
      "\<not> new_receipt_digest (rc_token_hash r) x"
proof (cases x)
  case (GCreateReceipt E i)
  show ?thesis
  proof (cases "CreateApprovalReceipt E i s")
    case (Inr p)
    then obtain r token s' where c: "CreateApprovalReceipt E i s = Inr (r, token, s')" by (cases p) auto
    then have "gs_receipts s' = gs_receipts s @ [r]" "\<forall>y\<in>set (gs_receipts s). \<not> rc_clash r y"
      "newGovernanceToken E = Inr (token, rc_token_hash r)"
      by (auto simp: CreateApprovalReceipt_def db_simps Let_def split: if_splits sum.splits)
    with GCreateReceipt c show ?thesis by (intro created [of r]) (auto simp: draws_other_def)
  qed (use GCreateReceipt same in simp)
next
  case (GRevokeReceipt E i reason)
  show ?thesis
  proof (cases "RevokeApprovalReceipt E i reason s")
    case (Inr p)
    then obtain r s' where c: "RevokeApprovalReceipt E i reason s = Inr (r, s')" by (cases p) auto
    then obtain r0 where f: "first_by rc_id (\<lambda>r. rc_id r = i) (gs_receipts s) = Some r0"
      and r: "gs_receipts s' = save_row rc_id r (gs_receipts s)" "rc_id r = rc_id r0"
        "rc_token_hash r = rc_token_hash r0" "rc_status r = GovernanceApprovalRevoked"
      by (auto simp: RevokeApprovalReceipt_def db_first_def db_save_def Let_def split: if_splits sum.splits option.splits)
    from first_by_Some(1) [OF f] r GRevokeReceipt c show ?thesis by (intro revoked [of r r0]) auto
  qed (use GRevokeReceipt same in simp)
next
  case (GReissueReceipt E i reason ttl)
  show ?thesis
  proof (cases "ReissueApprovalReceiptToken E i reason ttl s")
    case (Inr p)
    then obtain r token s' where c: "ReissueApprovalReceiptToken E i reason ttl s = Inr (r, token, s')" by (cases p) auto
    then obtain r0 where f: "first_by rc_id (\<lambda>r. rc_id r = i) (gs_receipts s) = Some r0"
      and r: "gs_receipts s' = save_row rc_id r (gs_receipts s)" "rc_id r = rc_id r0"
        "newGovernanceToken E = Inr (token, rc_token_hash r)"
        "\<not> list_ex (\<lambda>x. rc_id x \<noteq> i \<and> rc_token_hash x = rc_token_hash r) (gs_receipts s)"
      by (auto simp: ReissueApprovalReceiptToken_def db_first_def db_save_def Let_def
          split: if_splits sum.splits option.splits prod.splits)
    from first_by_Some [OF f] r GReissueReceipt c show ?thesis
      by (intro reissued [of r r0]) (auto simp: draws_other_def list_ex_iff)
  qed (use GReissueReceipt same in simp)
next
  case (GEvaluate E i)
  then show ?thesis by (intro same)
    (auto simp: Evaluate_def persistDecision_def Let_def split: sum.splits list.splits if_splits)
next
  case (GCreateRule E i)
  then show ?thesis by (intro same) (auto simp: CreatePolicyRule_def Let_def split: sum.splits)
next
  case (GCreateKillSwitch E i)
  then show ?thesis by (intro same) (auto simp: CreateKillSwitch_def Let_def split: sum.splits)
qed

interpretation receipts: single_use consume_receipt gov_serve receipt_digest new_receipt_digest receipt_spent receipts_unique
proof
  fix s :: gov_state and q :: receipt_req and r s'
  assume u: "receipts_unique s" and a: "consume_receipt q s = (Inr r, s')"
  obtain E input where q: "q = (E, input)" by (cases q)
  from a q have "ConsumeApprovalReceiptForOperation E input s = Inr (r, s')" by (auto split: sum.splits)
  then obtain r0 where r0: "r0 \<in> set (gs_receipts s)" "rc_token_hash r0 = e_sha256_hex E (ni_token input)"
    and p: "rc_status r0 = GovernanceApprovalPending"
    and r: "rc_id r = rc_id r0" "rc_status r = GovernanceApprovalConsumed" "gs_receipts s' = save_row rc_id r (gs_receipts s)"
    by (rule ConsumeForOperation_Inr) (auto simp: receipt_allows_def)
  show "\<not> receipt_spent (receipt_digest q) s" using r0 p q by (auto simp: receipt_spent_def)
  show "receipt_spent (receipt_digest q) s'"
    unfolding receipt_spent_def
  proof (intro ballI impI)
    fix x assume x: "x \<in> set (gs_receipts s')" "rc_token_hash x = receipt_digest q"
    then show "rc_status x \<noteq> GovernanceApprovalPending"
      using distinct_map_same [of rc_token_hash "gs_receipts s" x r0] u r0 r q
      by (auto simp: receipts_unique_def table_simps)
  qed
next
  fix s :: gov_state and k :: string and q :: receipt_req
  assume "receipts_unique s" and sp: "receipt_spent k s"
  obtain E input where q: "q = (E, input)" by (cases q)
  show "receipt_spent k (snd (consume_receipt q s))"
  proof (cases "ConsumeApprovalReceiptForOperation E input s")
    case (Inr p)
    then obtain r s' where c: "ConsumeApprovalReceiptForOperation E input s = Inr (r, s')" by (cases p) auto
    then have "gs_receipts s' = save_row rc_id r (gs_receipts s)" "rc_status r = GovernanceApprovalConsumed"
      by (auto elim: ConsumeForOperation_Inr)
    with sp q c show ?thesis by (auto simp: receipt_spent_def table_simps)
  qed (use sp q in simp)
next
  fix s :: gov_state and k :: string and x
  assume "receipts_unique s" "new_receipt_digest k x" "receipt_spent k s"
  then show "receipt_spent k (gov_serve x s)"
    by (cases rule: gov_serve_receipts [of x s]) (auto simp: receipt_spent_def table_simps)
next
  fix s :: gov_state and q :: receipt_req
  assume u: "receipts_unique s"
  obtain E input where q: "q = (E, input)" by (cases q)
  show "receipts_unique (snd (consume_receipt q s))"
  proof (cases "ConsumeApprovalReceiptForOperation E input s")
    case (Inr p)
    then obtain r s' where c: "ConsumeApprovalReceiptForOperation E input s = Inr (r, s')" by (cases p) auto
    then obtain r0 where "r0 \<in> set (gs_receipts s)" "rc_id r = rc_id r0" "rc_token_hash r = rc_token_hash r0"
      "gs_receipts s' = save_row rc_id r (gs_receipts s)" by (rule ConsumeForOperation_Inr) auto
    with u q c show ?thesis by (simp add: receipts_unique_def map_save_row [of rc_id _ r0])
  qed (use u q in simp)
next
  fix s :: gov_state and x
  assume u: "receipts_unique s"
  show "receipts_unique (gov_serve x s)"
  proof (cases rule: gov_serve_receipts [of x s])
    case (created r)
    with u show ?thesis by (auto simp: receipts_unique_def rc_clash_def)
  next
    case (revoked r0 r)
    with u show ?thesis by (simp add: receipts_unique_def map_save_row [of rc_id _ r0])
  next
    case (reissued r0 r)
    with u show ?thesis
      by (auto simp: receipts_unique_def map_save_row [of rc_id _ r0] intro: distinct_save_row)
  qed (use u in \<open>simp add: receipts_unique_def\<close>)
qed

text \<open>
  C5: An approval is used at most once: in any sequence of attempts to consume receipts, with receipts
  created, revoked and reissued and operations evaluated in between, at most one attempt with a
  given token digest succeeds, as long as no newly drawn token has that digest.
\<close>

theorem approval_single_use:
  assumes "receipts_unique s" "list_all (case_sum (\<lambda>_. True) (new_receipt_digest k)) xs"
  shows "wins consume_receipt gov_serve receipt_digest k xs s \<le> 1"
  using assms by (rule receipts.at_most_once)

text \<open>A store with one pending receipt, consumed twice with a revocation attempt in between.\<close>

definition demo_decision :: evaluate_input where
  "demo_decision = \<lparr>ei_actor_user_id = Some 7, ei_actor_device_id = ''phone'', ei_subject_type = ''object_operation'',
     ei_subject_id = ''doc'', ei_capability_key = ''object.delete'', ei_risk_level = ''high'', ei_context = None\<rparr>"

definition demo_rule :: policy_rule_input where
  "demo_rule = \<lparr>pi_name = ''ask'', pi_description = '''', pi_capability_key = ''object.delete'', pi_subject_type = '''',
     pi_subject_id = '''', pi_actor_user_id = None, pi_risk_level = '''', pi_effect = ''require_user_approval'',
     pi_priority = 0, pi_status = '''', pi_conditions = None, pi_metadata = None\<rparr>"

definition demo_op :: enforcement_input where
  "demo_op = \<lparr>fi_actor_user_id = Some 7, fi_actor_device_id = ''phone'', fi_subject_type = ''object_operation'',
     fi_subject_id = ''doc'', fi_capability_key = ''object.delete'', fi_risk_level = ''high'', fi_context = None,
     fi_approval_token = '''', fi_approval_consumed_by = ''''\<rparr>"

definition demo_enforcing :: enforcement_config where
  "demo_enforcing = NewGovernanceEnforcer \<lparr>ec_mode = ''Enforce'', ec_sage_mode = '''', ec_object_mode = '''', ec_kb_mode = ''''\<rparr>"

definition demo_ruled :: gov_state where
  "demo_ruled = snd (projr (CreatePolicyRule (env_at 1) demo_rule gov_init))"

definition demo_asked :: gov_state where
  "demo_asked = snd (snd (Enforce (env_at 2) demo_enforcing demo_op demo_ruled))"

definition demo_use :: consume_input where
  "demo_use = \<lparr>ni_token = ''r'', ni_consumed_by = ''phone'', ni_actor_user_id = Some 7,
     ni_subject_type = ''object_operation'', ni_subject_id = ''doc'', ni_capability_key = ''object.delete''\<rparr>"

theorem approval_single_use_witness:
  "wins consume_receipt gov_serve receipt_digest ''hr''
     [Inl (env_at 3, demo_use), Inr (GRevokeReceipt (env_at 4) 3000 ''late''), Inl (env_at 5, demo_use)] demo_asked \<le> 1
   \<and> succeeds (fst (consume_receipt (env_at 3, demo_use) demo_asked))"
proof -
  have "length (gs_receipts demo_asked) = 1" by code_simp
  then have "receipts_unique demo_asked" by (auto simp: receipts_unique_def length_Suc_conv)
  then have "wins consume_receipt gov_serve receipt_digest ''hr''
     [Inl (env_at 3, demo_use), Inr (GRevokeReceipt (env_at 4) 3000 ''late''), Inl (env_at 5, demo_use)] demo_asked \<le> 1"
    by (rule approval_single_use) simp
  moreover have "succeeds (fst (consume_receipt (env_at 3, demo_use) demo_asked))" by code_simp
  ultimately show ?thesis by (rule conjI)
qed

section \<open>Evaluation\<close>

text \<open>The query that \<open>Evaluate\<close> makes of an operation.\<close>

definition switch_query_of :: "evaluate_input \<Rightarrow> switch_query" where
  "switch_query_of i = \<lparr>kq_scope_id = trim (ei_subject_id i), kq_capability_key = trim (ei_capability_key i),
     kq_actor_user_id = ei_actor_user_id i\<rparr>"

definition rule_query_of :: "evaluate_input \<Rightarrow> rule_query" where
  "rule_query_of i = \<lparr>rq_capability_key = trim (ei_capability_key i), rq_subject_type = trim (ei_subject_type i),
     rq_subject_id = trim (ei_subject_id i), rq_actor_user_id = ei_actor_user_id i,
     rq_risk_level = normalizeOrDefault (ei_risk_level i) GovernanceRiskLow\<rparr>"

definition stopped_by :: "env \<Rightarrow> evaluate_input \<Rightarrow> gov_state \<Rightarrow> kill_switch \<Rightarrow> bool" where
  "stopped_by E i s k \<longleftrightarrow> k \<in> set (gs_switches s) \<and> switch_live (e_now E) k \<and> switch_applies E (switch_query_of i) k"

text \<open>What a decision should be: a denial by a kill switch that stops the operation if there is one;
  otherwise the effect of a matching rule that no matching rule precedes in (priority, creation time);
  otherwise an approval.\<close>

definition decided_by_rule :: "evaluate_input \<Rightarrow> gov_state \<Rightarrow> policy_decision \<Rightarrow> policy_rule \<Rightarrow> bool" where
  "decided_by_rule i s d r \<longleftrightarrow>
     r \<in> set (gs_rules s) \<and> rule_matches (rule_query_of i) r \<and> pd_decision d = pl_effect r \<and> pd_policy_rule_id d = Some (pl_id r)
     \<and> (\<forall>r'\<in>set (gs_rules s). rule_matches (rule_query_of i) r'
          \<longrightarrow> (pl_priority r, pl_created_at r) \<le> (pl_priority r', pl_created_at r'))"

definition sound_decision :: "env \<Rightarrow> evaluate_input \<Rightarrow> gov_state \<Rightarrow> policy_decision \<Rightarrow> bool" where
  "sound_decision E i s d \<longleftrightarrow>
     (if \<exists>k\<in>set (gs_switches s). stopped_by E i s k
      then pd_decision d = GovernanceDecisionDeny \<and> (\<exists>k\<in>set (gs_switches s). stopped_by E i s k \<and> pd_kill_switch_id d = Some (ks_id k))
      else if \<exists>r\<in>set (gs_rules s). rule_matches (rule_query_of i) r
      then \<exists>r\<in>set (gs_rules s). decided_by_rule i s d r
      else pd_decision d = GovernanceDecisionAllow \<and> pd_policy_rule_id d = None \<and> pd_kill_switch_id d = None)"

lemma find_sorted_None: "List.find P (sort_key k xs) = None \<longleftrightarrow> (\<forall>x\<in>set xs. \<not> P x)"
  by (simp add: find_None_iff Ball_def)

lemma find_sorted_Some:
  assumes "List.find P (sort_key k xs) = Some x"
  shows "x \<in> set xs \<and> P x"
proof -
  from assms obtain i where i: "i < length (sort_key k xs)" "P (sort_key k xs ! i)" "x = sort_key k xs ! i"
    unfolding find_Some_iff by blast
  from nth_mem [OF i(1)] i(2,3) show ?thesis by (simp only: set_sort)
qed

lemma FindActiveKillSwitch_Inr:
  "FindActiveKillSwitch E (switch_query_of i) s = Inr k \<Longrightarrow> stopped_by E i s k"
  by (auto simp: FindActiveKillSwitch_def db_find_def stopped_by_def split: if_splits option.splits
      dest!: find_sorted_Some)

lemma FindActiveKillSwitch_none:
  "FindActiveKillSwitch E (switch_query_of i) s = Inl ErrRecordNotFound \<Longrightarrow> \<not> stopped_by E i s k"
  by (auto simp: FindActiveKillSwitch_def db_find_def stopped_by_def find_sorted_None split: if_splits option.splits)

lemma sorted_hd_least: "sort_key f xs = x # ys \<Longrightarrow> x \<in> set xs \<and> (\<forall>y\<in>set xs. f x \<le> f y)"
proof
  assume a: "sort_key f xs = x # ys"
  have "set (x # ys) = set xs" by (simp flip: a)
  moreover have "sorted (map f (x # ys))" using sorted_sort_key [of f xs] a by simp
  ultimately show "x \<in> set xs" "\<forall>y\<in>set xs. f x \<le> f y" by auto
qed

lemma FindMatchingPolicyRules_Inr:
  assumes "FindMatchingPolicyRules E q s = Inr rs"
  shows "rs = sort_key (\<lambda>r. (pl_priority r, pl_created_at r)) (filter (rule_matches q) (gs_rules s))"
  using assms by (auto simp: FindMatchingPolicyRules_def db_find_def split: if_splits)

lemma persistDecision_Inr:
  assumes "persistDecision E i risk v why ri ki s = Inr (d, s')"
  shows "pd_decision d = v \<and> pd_policy_rule_id d = ri \<and> pd_kill_switch_id d = ki
    \<and> s' = s\<lparr>gs_decisions := gs_decisions s @ [d]\<rparr>"
  using assms by (auto simp: persistDecision_def db_insert_def Let_def split: if_splits)

lemma evaluation_sound:
  assumes "Evaluate E i s = Inr (d, s')"
  shows "sound_decision E i s d"
proof (cases "FindActiveKillSwitch E (switch_query_of i) s")
  case (Inr k)
  with assms have "persistDecision E i (normalizeOrDefault (ei_risk_level i) GovernanceRiskLow) GovernanceDecisionDeny
      (''blocked by '' @ ks_scope_type k @ '' kill switch'') None (Some (ks_id k)) s = Inr (d, s')"
    by (simp add: Evaluate_def switch_query_of_def Let_def split: if_splits)
  from persistDecision_Inr [OF this] FindActiveKillSwitch_Inr [OF Inr] show ?thesis
    by (auto simp: sound_decision_def stopped_by_def)
next
  case (Inl e)
  with assms have e: "e = ErrRecordNotFound"
    by (simp add: Evaluate_def switch_query_of_def Let_def split: if_splits)
  then have no: "\<not> stopped_by E i s k" for k using FindActiveKillSwitch_none Inl by simp
  from assms Inl e obtain rs where rs: "FindMatchingPolicyRules E (rule_query_of i) s = Inr rs"
    by (auto simp: Evaluate_def switch_query_of_def rule_query_of_def Let_def split: if_splits sum.splits)
  note sorted = FindMatchingPolicyRules_Inr [OF rs]
  show ?thesis
  proof (cases rs)
    case Nil
    with assms Inl e rs have "pd_decision d = GovernanceDecisionAllow \<and> pd_policy_rule_id d = None \<and> pd_kill_switch_id d = None"
      by (auto simp: Evaluate_def switch_query_of_def rule_query_of_def Let_def split: if_splits dest!: persistDecision_Inr)
    moreover have "\<not> rule_matches (rule_query_of i) r" if "r \<in> set (gs_rules s)" for r
      using sorted Nil that by (metis (no_types, lifting) filter_empty_conv length_0_conv length_sort)
    ultimately show ?thesis using no by (simp add: sound_decision_def)
  next
    case (Cons r rest)
    with assms Inl e rs have "pd_decision d = pl_effect r \<and> pd_policy_rule_id d = Some (pl_id r)"
      by (auto simp: Evaluate_def switch_query_of_def rule_query_of_def Let_def split: if_splits dest!: persistDecision_Inr)
    with sorted_hd_least [OF sorted [symmetric, unfolded Cons]] have "decided_by_rule i s d r"
      by (auto simp: decided_by_rule_def)
    with no show ?thesis by (auto simp: sound_decision_def decided_by_rule_def)
  qed
qed

text \<open>
  The decision follows the rules' precedence: if a live kill switch covers the operation the
  decision is to deny and names such a switch; otherwise the first active rule that matches, in order
  of priority and age, gives its effect; with neither, the operation is allowed.
\<close>

theorem evaluation_follows_precedence:
  assumes "Evaluate E i s = Inr (d, s')"
  shows "sound_decision E i s d"
  using assms by (rule evaluation_sound)

definition demo_halted :: gov_state where
  "demo_halted = snd (projr (CreateKillSwitch (env_at 4)
     \<lparr>ki_scope_type = ''global'', ki_scope_id = '''', ki_reason = '''', ki_status = '''', ki_expires_at = None,
      ki_created_by = None, ki_metadata = None\<rparr> demo_asked))"

theorem evaluation_follows_precedence_witness:
  "\<exists>d s'. Evaluate (env_at 3) demo_decision demo_ruled = Inr (d, s') \<and> pd_decision d = GovernanceDecisionRequireUserApproval
     \<and> sound_decision (env_at 3) demo_decision demo_ruled d"
proof -
  have "succeeds (Evaluate (env_at 3) demo_decision demo_ruled)" by code_simp
  then obtain d s' where e: "Evaluate (env_at 3) demo_decision demo_ruled = Inr (d, s')"
    by (elim succeedsE) (metis surj_pair)
  have "pd_decision (fst (projr (Evaluate (env_at 3) demo_decision demo_ruled))) = GovernanceDecisionRequireUserApproval" by code_simp
  then have "pd_decision d = GovernanceDecisionRequireUserApproval" using e by simp
  with e evaluation_follows_precedence [OF e] show ?thesis by (intro exI conjI)
qed

section \<open>Enforcement\<close>

text \<open>A call lets its caller go on only when it returns no error; the services then run the operation.\<close>

fun lets_pass :: "enforcement_result option \<times> error option \<times> gov_state \<Rightarrow> bool" where
  "lets_pass (r, e, _) \<longleftrightarrow> e = None"

fun reports_allowed :: "enforcement_result option \<times> error option \<times> gov_state \<Rightarrow> bool" where
  "reports_allowed (r, e, _) \<longleftrightarrow> (case r of None \<Rightarrow> False | Some x \<Rightarrow> er_allowed x)"

definition evaluate_input_of :: "enforcement_input \<Rightarrow> evaluate_input" where
  "evaluate_input_of i = \<lparr>ei_actor_user_id = fi_actor_user_id i, ei_actor_device_id = fi_actor_device_id i,
     ei_subject_type = fi_subject_type i, ei_subject_id = fi_subject_id i, ei_capability_key = fi_capability_key i,
     ei_risk_level = fi_risk_level i, ei_context = fi_context i\<rparr>"

lemmas enforce_defs = Enforce_def enforce_with_token_def ask_for_approval_def enforcement_base_def Let_def

lemma Enforce_without_token:
  assumes "modeFor cfg (fi_subject_type i) = GovernanceEnforcementModeEnforce" "fi_approval_token i = ''''"
    "lets_pass (Enforce E cfg i s)"
  obtains d s' where "Evaluate E (evaluate_input_of i) s = Inr (d, s')" "pd_decision d = GovernanceDecisionAllow"
proof (cases "Evaluate E (evaluate_input_of i) s")
  case (Inl e)
  with assms show ?thesis by (simp add: Enforce_def evaluate_input_of_def)
next
  case (Inr p)
  obtain d s' where p: "p = (d, s')" by (cases p)
  have "pd_decision d = GovernanceDecisionAllow"
  proof (rule ccontr)
    assume "pd_decision d \<noteq> GovernanceDecisionAllow"
    with assms Inr p show False
      by (auto simp: Enforce_def evaluate_input_of_def ask_for_approval_def Let_def
          split: if_splits option.splits sum.splits)
  qed
  with that Inr p show ?thesis by simp
qed

lemma allowed_passes: "reports_allowed (Enforce E cfg i s) \<Longrightarrow> lets_pass (Enforce E cfg i s)"
  by (auto simp: enforce_defs split: if_splits option.splits sum.splits prod.splits)

lemma demo_stopped:
  "stopped_by (env_at 5) (evaluate_input_of demo_op) demo_halted (hd (gs_switches demo_halted))"
proof -
  have "length (gs_switches demo_halted) = 1
     \<and> switch_live (e_now (env_at 5)) (hd (gs_switches demo_halted))
     \<and> switch_applies (env_at 5) (switch_query_of (evaluate_input_of demo_op)) (hd (gs_switches demo_halted))" by code_simp
  then show ?thesis by (auto simp: stopped_by_def length_Suc_conv)
qed

text \<open>The modes of a constructed enforcer are the three known ones.\<close>

lemma modeFor_known:
  "modeFor (NewGovernanceEnforcer cfg) t
     \<in> {GovernanceEnforcementModeDisabled, GovernanceEnforcementModeObserve, GovernanceEnforcementModeEnforce}"
proof -
  have "normalizeGovernanceEnforcementMode m
     \<in> {'''', GovernanceEnforcementModeDisabled, GovernanceEnforcementModeObserve, GovernanceEnforcementModeEnforce}" for m
    by (simp add: normalizeGovernanceEnforcementMode_def Let_def)
  from this [of "ec_mode cfg"] this [of "ec_sage_mode cfg"] this [of "ec_object_mode cfg"] this [of "ec_kb_mode cfg"]
  show ?thesis by (auto simp: modeFor_def NewGovernanceEnforcer_def Let_def)
qed

text \<open>The use of a receipt that a call with a token makes, and the receipts that approve the call.\<close>

definition token_use :: "enforcement_input \<Rightarrow> consume_input" where
  "token_use i = (let c = trim (fi_approval_consumed_by i) in
     \<lparr>ni_token = fi_approval_token i, ni_consumed_by = (if c = '''' then trim (fi_actor_device_id i) else c),
      ni_actor_user_id = fi_actor_user_id i, ni_subject_type = fi_subject_type i, ni_subject_id = fi_subject_id i,
      ni_capability_key = fi_capability_key i\<rparr>)"

definition approves :: "env \<Rightarrow> enforcement_input \<Rightarrow> approval_receipt \<Rightarrow> bool" where
  "approves E i r \<longleftrightarrow>
     rc_token_hash r = e_sha256_hex E (fi_approval_token i) \<and> rc_status r = GovernanceApprovalPending \<and> e_now E < rc_expires_at r
     \<and> (fi_actor_user_id i = None \<or> fi_actor_user_id i = Some uuid_nil \<or> fi_actor_user_id i = Some (rc_actor_user_id r))
     \<and> trim (fi_subject_type i) \<in> {'''', rc_subject_type r} \<and> trim (fi_subject_id i) \<in> {'''', rc_subject_id r}
     \<and> trim (fi_capability_key i) \<in> {'''', rc_capability_key r}"

definition consumed_in :: "approval_receipt \<Rightarrow> gov_state \<Rightarrow> bool" where
  "consumed_in r s \<longleftrightarrow> (\<exists>x\<in>set (gs_receipts s). rc_id x = rc_id r \<and> rc_token_hash x = rc_token_hash r
     \<and> rc_status x = GovernanceApprovalConsumed)"

text \<open>
  C4: Kill switches fail closed: in enforcing mode an operation presented without an approval token does
  not pass while a live kill switch covers it, even when the database fails in any of the calls
  the evaluation makes.
\<close>

theorem kill_switch_fails_closed:
  assumes "modeFor cfg (fi_subject_type i) = GovernanceEnforcementModeEnforce" "fi_approval_token i = ''''"
    "stopped_by E (evaluate_input_of i) s k"
  shows "\<not> lets_pass (Enforce E cfg i s) \<and> \<not> reports_allowed (Enforce E cfg i s)"
proof -
  have "\<not> lets_pass (Enforce E cfg i s)"
  proof
    assume "lets_pass (Enforce E cfg i s)"
    with assms(1,2) obtain d s' where e: "Evaluate E (evaluate_input_of i) s = Inr (d, s')"
      and allow: "pd_decision d = GovernanceDecisionAllow" by (rule Enforce_without_token)
    have "k \<in> set (gs_switches s)" using assms(3) by (simp add: stopped_by_def)
    with assms(3) have "\<exists>k\<in>set (gs_switches s). stopped_by E (evaluate_input_of i) s k" by (intro bexI)
    with evaluation_sound [OF e] have "pd_decision d = GovernanceDecisionDeny" by (simp add: sound_decision_def)
    with allow show False by simp
  qed
  with allowed_passes show ?thesis by blast
qed

theorem kill_switch_fails_closed_witness:
  "\<not> lets_pass (Enforce (env_at 5) demo_enforcing demo_op demo_halted)
   \<and> \<not> reports_allowed (Enforce (env_at 5) demo_enforcing demo_op demo_halted)"
proof (rule kill_switch_fails_closed)
  show "modeFor demo_enforcing (fi_subject_type demo_op) = GovernanceEnforcementModeEnforce" by code_simp
  show "fi_approval_token demo_op = ''''" by (simp add: demo_op_def)
  show "stopped_by (env_at 5) (evaluate_input_of demo_op) demo_halted (hd (gs_switches demo_halted))" by (rule demo_stopped)
qed

text \<open>
  Observation does not block: outside enforcing mode a call reports the operation as allowed, with no
  error, unless the evaluation of the policy itself failed (an operation without subject type or
  capability, or a database failure), which is then the error.
\<close>

theorem observation_never_blocks:
  assumes "modeFor (NewGovernanceEnforcer cfg) (fi_subject_type i) \<noteq> GovernanceEnforcementModeEnforce"
  shows "reports_allowed (Enforce E (NewGovernanceEnforcer cfg) i s)
    \<or> (\<exists>e. Evaluate E (evaluate_input_of i) s = Inl e \<and> Enforce E (NewGovernanceEnforcer cfg) i s = (None, Some e, s))"
proof -
  have "modeFor (NewGovernanceEnforcer cfg) (fi_subject_type i) \<in> {GovernanceEnforcementModeDisabled, GovernanceEnforcementModeObserve}"
    using modeFor_known [of cfg "fi_subject_type i"] assms by auto
  then show ?thesis
    by (auto simp: enforce_defs evaluate_input_of_def split: sum.splits)
qed

definition demo_observing :: enforcement_config where
  "demo_observing = \<lparr>ec_mode = '' observe'', ec_sage_mode = ''enforce'', ec_object_mode = '''', ec_kb_mode = ''''\<rparr>"

theorem observation_never_blocks_witness:
  "(reports_allowed (Enforce (env_at 5) (NewGovernanceEnforcer demo_observing) demo_op demo_halted)
    \<or> (\<exists>e. Evaluate (env_at 5) (evaluate_input_of demo_op) demo_halted = Inl e
          \<and> Enforce (env_at 5) (NewGovernanceEnforcer demo_observing) demo_op demo_halted = (None, Some e, demo_halted)))
   \<and> stopped_by (env_at 5) (evaluate_input_of demo_op) demo_halted (hd (gs_switches demo_halted))"
proof
  show "reports_allowed (Enforce (env_at 5) (NewGovernanceEnforcer demo_observing) demo_op demo_halted)
    \<or> (\<exists>e. Evaluate (env_at 5) (evaluate_input_of demo_op) demo_halted = Inl e
          \<and> Enforce (env_at 5) (NewGovernanceEnforcer demo_observing) demo_op demo_halted = (None, Some e, demo_halted))"
    by (rule observation_never_blocks) code_simp
  show "stopped_by (env_at 5) (evaluate_input_of demo_op) demo_halted (hd (gs_switches demo_halted))"
    by (rule demo_stopped)
qed

text \<open>
  A token passes only the operation it was issued for: when an enforced call with a token passes, a
  pending, unexpired receipt with the token's digest was in the store, issued to the calling user, for
  the subject and the capability of the call wherever the call names them, and the call consumed it.
\<close>

theorem token_passes_its_own_operation:
  assumes "modeFor cfg (fi_subject_type i) = GovernanceEnforcementModeEnforce" "fi_approval_token i \<noteq> ''''"
    "Enforce E cfg i s = (res, None, s')"
  shows "\<exists>r\<in>set (gs_receipts s). approves E i r \<and> consumed_in r s'"
proof -
  from assms obtain r' where "ConsumeApprovalReceiptForOperation E (token_use i) s = Inr (r', s')"
    by (auto simp: enforce_defs token_use_def split: sum.splits)
  then obtain r where r: "r \<in> set (gs_receipts s)" "rc_token_hash r = e_sha256_hex E (ni_token (token_use i))"
    "receipt_allows (e_now E) \<lparr>cc_actor_user_id = ni_actor_user_id (token_use i), cc_subject_type = trim (ni_subject_type (token_use i)),
       cc_subject_id = trim (ni_subject_id (token_use i)), cc_capability_key = trim (ni_capability_key (token_use i))\<rparr> r"
    and r': "r' = r\<lparr>rc_status := GovernanceApprovalConsumed, rc_consumed_at := Some (e_now E),
            rc_consumed_by := trim (ni_consumed_by (token_use i))\<rparr>" "gs_receipts s' = save_row rc_id r' (gs_receipts s)"
    by (rule ConsumeForOperation_Inr)
  have "approves E i r" using r by (auto simp: approves_def receipt_allows_def token_use_def Let_def split: option.splits)
  moreover have "r' \<in> set (gs_receipts s')" using r' by (simp add: in_save_row)
  then have "consumed_in r s'" unfolding consumed_in_def by (rule bexI [rotated]) (simp add: r'(1))
  ultimately show ?thesis using r(1) by blast
qed

definition demo_approved :: enforcement_input where
  "demo_approved = demo_op\<lparr>fi_approval_token := ''r''\<rparr>"

theorem token_passes_its_own_operation_witness:
  "\<exists>r\<in>set (gs_receipts demo_asked). approves (env_at 6) demo_approved r
     \<and> consumed_in r (snd (snd (Enforce (env_at 6) demo_enforcing demo_approved demo_asked)))"
proof (rule token_passes_its_own_operation)
  show "modeFor demo_enforcing (fi_subject_type demo_approved) = GovernanceEnforcementModeEnforce" by code_simp
  show "fi_approval_token demo_approved \<noteq> ''''" by (simp add: demo_approved_def)
  have "lets_pass (Enforce (env_at 6) demo_enforcing demo_approved demo_asked)" by code_simp
  then show "Enforce (env_at 6) demo_enforcing demo_approved demo_asked =
    (fst (Enforce (env_at 6) demo_enforcing demo_approved demo_asked), None,
     snd (snd (Enforce (env_at 6) demo_enforcing demo_approved demo_asked)))"
    by (cases "Enforce (env_at 6) demo_enforcing demo_approved demo_asked") simp
qed

text \<open>
  An approval token outranks the kill switches: a call with a token answers the same, whatever kill
  switches are in force. An approval given before a switch was set keeps working until it expires.
\<close>

theorem approval_ignores_kill_switches:
  assumes "fi_approval_token i \<noteq> ''''"
  shows "lets_pass (Enforce E cfg i (s\<lparr>gs_switches := ks\<rparr>)) = lets_pass (Enforce E cfg i s)"
  using assms
  by (auto simp: enforce_defs ConsumeApprovalReceiptForOperation_def ConsumeApprovalReceiptByTokenHash_def
      split: sum.splits if_splits)

theorem approval_ignores_kill_switches_witness:
  "lets_pass (Enforce (env_at 6) demo_enforcing demo_approved (demo_asked\<lparr>gs_switches := gs_switches demo_halted\<rparr>))
   \<and> stopped_by (env_at 5) (evaluate_input_of demo_approved) demo_halted (hd (gs_switches demo_halted))"
proof
  have "fi_approval_token demo_approved \<noteq> ''''" by (simp add: demo_approved_def)
  moreover have "lets_pass (Enforce (env_at 6) demo_enforcing demo_approved demo_asked)" by code_simp
  ultimately show "lets_pass (Enforce (env_at 6) demo_enforcing demo_approved (demo_asked\<lparr>gs_switches := gs_switches demo_halted\<rparr>))"
    by (simp add: approval_ignores_kill_switches)
  show "stopped_by (env_at 5) (evaluate_input_of demo_approved) demo_halted (hd (gs_switches demo_halted))"
    using demo_stopped by (simp add: demo_approved_def evaluate_input_of_def)
qed

end
