(* ===== verification/Conversation.thy ===== *)
theory Conversation
  imports Identity
begin

text \<open>
  Conversations and messages: the tables of \<open>internal/repository/conversation_repo.go\<close>, the
  conversation service (\<open>internal/service/conversation.go\<close>) and the message service
  (\<open>internal/service/message.go\<close>). Neither service uses transactions: an operation that fails midway
  keeps what it has written, so operations return their result beside the new state. Foreign keys are
  not modelled; a call that one refuses is a call that \<open>e_db\<close> lets fail.
\<close>

section \<open>State\<close>

record conversation =
  cv_id :: uuid
  cv_created_at :: time
  cv_updated_at :: time
  cv_type :: string
  cv_name :: string
  cv_created_by :: uuid
  cv_geo_lat :: "64 word option"
  cv_geo_lng :: "64 word option"
  cv_geo_radius :: "64 word option"

record participant =
  pt_conversation_id :: uuid
  pt_user_id :: uuid
  pt_role :: string
  pt_joined_at :: time

text \<open>The columns \<open>created_at\<close> and \<open>updated_at\<close> of read states and reactions' \<open>updated_at\<close> are read nowhere.\<close>

record read_state =
  rs_conversation_id :: uuid
  rs_user_id :: uuid
  rs_last_read_message_id :: "uuid option"
  rs_last_read_at :: time

record message =
  ms_id :: uuid
  ms_created_at :: time
  ms_updated_at :: time
  ms_conversation_id :: uuid
  ms_sender_id :: uuid
  ms_type :: string
  ms_content :: string
  ms_metadata :: "json_map option"
  ms_reply_to :: "uuid option"
  ms_thread_id :: string
  ms_visibility :: "json_map option"
  ms_client_event_id :: string
  ms_status :: string
  ms_edited_at :: "time option"
  ms_deleted_at :: "time option"
  ms_deleted_by :: "uuid option"
  ms_delivered_at :: "time option"

record offline_message =
  om_id :: uuid
  om_created_at :: time
  om_user_id :: uuid
  om_device_id :: string
  om_message_id :: uuid
  om_delivered :: bool

record reaction =
  rx_id :: uuid
  rx_created_at :: time
  rx_conversation_id :: uuid
  rx_message_id :: uuid
  rx_user_id :: uuid
  rx_emoji :: string

record conv_state =
  vs_convs :: "conversation list"
  vs_parts :: "participant list"
  vs_reads :: "read_state list"
  vs_messages :: "message list"
  vs_reactions :: "reaction list"
  vs_offline :: "offline_message list"
  vs_sync :: sync_state

definition conv_init :: conv_state where
  "conv_init = \<lparr>vs_convs = [], vs_parts = [], vs_reads = [], vs_messages = [], vs_reactions = [], vs_offline = [],
     vs_sync = sync_init\<rparr>"

section \<open>Repository\<close>

definition CreateConversation_repo :: "env \<Rightarrow> conversation \<Rightarrow> conv_state \<Rightarrow> conv_state result" where
  "CreateConversation_repo E c s =
     (case db_insert E ''CreateConversation'' 0 (\<lambda>c x. cv_id x = cv_id c) c (vs_convs s) of
        Inl e \<Rightarrow> Inl e | Inr t \<Rightarrow> Inr (s\<lparr>vs_convs := t\<rparr>))"

definition GetConversationByID :: "env \<Rightarrow> uuid \<Rightarrow> conv_state \<Rightarrow> conversation result" where
  "GetConversationByID E i s = db_first E ''GetConversationByID'' 0 cv_id (\<lambda>c. cv_id c = i) (vs_convs s)"

text \<open>gorm's \<open>Save\<close> stamps \<open>updated_at\<close>, in the row and in the caller's copy.\<close>

definition UpdateConversation_repo :: "env \<Rightarrow> conversation \<Rightarrow> conv_state \<Rightarrow> (conversation \<times> conv_state) result" where
  "UpdateConversation_repo E c s =
     (let c' = c\<lparr>cv_updated_at := e_now E\<rparr>
      in case db_save E ''UpdateConversation'' 0 cv_id c' (vs_convs s) of
           Inl e \<Rightarrow> Inl e | Inr t \<Rightarrow> Inr (c', s\<lparr>vs_convs := t\<rparr>))"

text \<open>The joins give one row for each matching participant, of which the primary key allows one.\<close>

definition is_part :: "uuid \<Rightarrow> uuid \<Rightarrow> participant \<Rightarrow> bool" where
  "is_part c u p \<longleftrightarrow> pt_conversation_id p = c \<and> pt_user_id p = u"

definition GetUserConversations :: "env \<Rightarrow> uuid \<Rightarrow> conv_state \<Rightarrow> conversation list result" where
  "GetUserConversations E u s =
     (case db_find E ''GetUserConversations'' 0 (\<lambda>c. list_ex (is_part (cv_id c) u) (vs_parts s)) (vs_convs s) of
        Inl e \<Rightarrow> Inl e
      | Inr cs \<Rightarrow> Inr (sort_key (\<lambda>c. - cv_updated_at c) cs))"

definition AddParticipant_repo :: "env \<Rightarrow> nat \<Rightarrow> participant \<Rightarrow> conv_state \<Rightarrow> conv_state result" where
  "AddParticipant_repo E n p s =
     (case db_insert E ''AddParticipant'' n (\<lambda>p. is_part (pt_conversation_id p) (pt_user_id p)) p (vs_parts s) of
        Inl e \<Rightarrow> Inl e | Inr t \<Rightarrow> Inr (s\<lparr>vs_parts := t\<rparr>))"

definition RemoveParticipant_repo :: "env \<Rightarrow> uuid \<Rightarrow> uuid \<Rightarrow> conv_state \<Rightarrow> conv_state result" where
  "RemoveParticipant_repo E c u s =
     (case db_delete E ''RemoveParticipant'' 0 (is_part c u) (vs_parts s) of
        Inl e \<Rightarrow> Inl e | Inr t \<Rightarrow> Inr (s\<lparr>vs_parts := t\<rparr>))"

definition GetParticipants :: "env \<Rightarrow> uuid \<Rightarrow> conv_state \<Rightarrow> participant list result" where
  "GetParticipants E c s = db_find E ''GetParticipants'' 0 (\<lambda>p. pt_conversation_id p = c) (vs_parts s)"

definition IsParticipant :: "env \<Rightarrow> uuid \<Rightarrow> uuid \<Rightarrow> conv_state \<Rightarrow> bool result" where
  "IsParticipant E c u s =
     (case db_count E ''IsParticipant'' 0 (is_part c u) (vs_parts s) of Inl e \<Rightarrow> Inl e | Inr n \<Rightarrow> Inr (0 < n))"

definition GetParticipant :: "env \<Rightarrow> nat \<Rightarrow> uuid \<Rightarrow> uuid \<Rightarrow> conv_state \<Rightarrow> participant result" where
  "GetParticipant E n c u s = db_first E ''GetParticipant'' n pt_conversation_id (is_part c u) (vs_parts s)"

text \<open>The primary key of \<open>conversation_participants\<close>.\<close>

definition part_key :: "participant \<Rightarrow> uuid \<times> uuid" where
  "part_key p = (pt_conversation_id p, pt_user_id p)"

definition UpdateParticipant_repo :: "env \<Rightarrow> participant \<Rightarrow> conv_state \<Rightarrow> conv_state result" where
  "UpdateParticipant_repo E p s =
     (case db_save E ''UpdateParticipant'' 0 part_key p (vs_parts s) of
        Inl e \<Rightarrow> Inl e | Inr t \<Rightarrow> Inr (s\<lparr>vs_parts := t\<rparr>))"

definition CountParticipantsByRole :: "env \<Rightarrow> uuid \<Rightarrow> string \<Rightarrow> conv_state \<Rightarrow> nat result" where
  "CountParticipantsByRole E c role s =
     db_count E ''CountParticipantsByRole'' 0 (\<lambda>p. pt_conversation_id p = c \<and> pt_role p = role) (vs_parts s)"

definition UpsertReadState :: "env \<Rightarrow> read_state \<Rightarrow> conv_state \<Rightarrow> conv_state result" where
  "UpsertReadState E r s =
     (case db_save E ''UpsertReadState'' 0 (\<lambda>r. (rs_conversation_id r, rs_user_id r)) r (vs_reads s) of
        Inl e \<Rightarrow> Inl e | Inr t \<Rightarrow> Inr (s\<lparr>vs_reads := t\<rparr>))"

definition FindPrivateConversation :: "env \<Rightarrow> uuid \<Rightarrow> uuid \<Rightarrow> conv_state \<Rightarrow> conversation result" where
  "FindPrivateConversation E a b s =
     db_first E ''FindPrivateConversation'' 0 cv_id
       (\<lambda>c. cv_type c = ''private'' \<and> list_ex (is_part (cv_id c) a) (vs_parts s) \<and> list_ex (is_part (cv_id c) b) (vs_parts s))
       (vs_convs s)"

text \<open>The unique index on sender and client event identifier leaves out the empty identifier.\<close>

definition ms_clash :: "message \<Rightarrow> message \<Rightarrow> bool" where
  "ms_clash m x \<longleftrightarrow> ms_id x = ms_id m
     \<or> ms_client_event_id m \<noteq> '''' \<and> ms_sender_id x = ms_sender_id m \<and> ms_client_event_id x = ms_client_event_id m"

definition CreateMessage :: "env \<Rightarrow> message \<Rightarrow> conv_state \<Rightarrow> conv_state result" where
  "CreateMessage E m s =
     (case db_insert E ''CreateMessage'' 0 ms_clash m (vs_messages s) of
        Inl e \<Rightarrow> Inl e | Inr t \<Rightarrow> Inr (s\<lparr>vs_messages := t\<rparr>))"

definition GetMessageByID :: "env \<Rightarrow> nat \<Rightarrow> uuid \<Rightarrow> conv_state \<Rightarrow> message result" where
  "GetMessageByID E n i s = db_first E ''GetMessageByID'' n ms_id (\<lambda>m. ms_id m = i) (vs_messages s)"

definition FindMessageByClientEventID :: "env \<Rightarrow> uuid \<Rightarrow> string \<Rightarrow> conv_state \<Rightarrow> message result" where
  "FindMessageByClientEventID E u c s =
     db_first E ''FindMessageByClientEventID'' 0 ms_id (\<lambda>m. ms_sender_id m = u \<and> ms_client_event_id m = c) (vs_messages s)"

definition UpdateMessage_repo :: "env \<Rightarrow> message \<Rightarrow> conv_state \<Rightarrow> (message \<times> conv_state) result" where
  "UpdateMessage_repo E m s =
     (let m' = m\<lparr>ms_updated_at := e_now E\<rparr>
      in case db_save E ''UpdateMessage'' 0 ms_id m' (vs_messages s) of
           Inl e \<Rightarrow> Inl e | Inr t \<Rightarrow> Inr (m', s\<lparr>vs_messages := t\<rparr>))"

definition SoftDeleteMessage :: "env \<Rightarrow> uuid \<Rightarrow> uuid \<Rightarrow> time \<Rightarrow> conv_state \<Rightarrow> message result \<times> conv_state" where
  "SoftDeleteMessage E i actor deletedAt s =
     (case db_update E ''SoftDeleteMessage'' 0 (\<lambda>m. ms_id m = i)
             (\<lambda>m. m\<lparr>ms_status := ''deleted'', ms_deleted_at := Some deletedAt, ms_deleted_by := Some actor,
                    ms_updated_at := deletedAt\<rparr>) (vs_messages s) of
        Inl e \<Rightarrow> (Inl e, s)
      | Inr t \<Rightarrow> let s1 = s\<lparr>vs_messages := t\<rparr> in (GetMessageByID E 1 i s1, s1))"

definition GetMessages_repo :: "env \<Rightarrow> uuid \<Rightarrow> int \<Rightarrow> time option \<Rightarrow> conv_state \<Rightarrow> message list result" where
  "GetMessages_repo E c limit before s =
     (case db_find E ''GetMessages'' 0
             (\<lambda>m. ms_conversation_id m = c \<and> (case before of None \<Rightarrow> True | Some b \<Rightarrow> ms_created_at m < b)) (vs_messages s) of
        Inl e \<Rightarrow> Inl e
      | Inr ms \<Rightarrow> Inr (take (nat limit) (sort_key (\<lambda>m. - ms_created_at m) ms)))"

definition rx_is :: "uuid \<Rightarrow> uuid \<Rightarrow> string \<Rightarrow> reaction \<Rightarrow> bool" where
  "rx_is m u emoji x \<longleftrightarrow> rx_message_id x = m \<and> rx_user_id x = u \<and> rx_emoji x = emoji"

text \<open>\<open>FirstOrCreate\<close>: nothing is written when the reaction is there.\<close>

definition AddReaction_repo :: "env \<Rightarrow> reaction \<Rightarrow> conv_state \<Rightarrow> conv_state result" where
  "AddReaction_repo E r s =
     (case db_first E ''AddReaction.find'' 0 rx_id (rx_is (rx_message_id r) (rx_user_id r) (rx_emoji r)) (vs_reactions s) of
        Inr _ \<Rightarrow> Inr s
      | Inl e \<Rightarrow>
          if e \<noteq> ErrRecordNotFound then Inl e
          else case db_insert E ''AddReaction.create'' 0
                      (\<lambda>r x. rx_id x = rx_id r \<or> rx_is (rx_message_id r) (rx_user_id r) (rx_emoji r) x) r (vs_reactions s) of
                 Inl e \<Rightarrow> Inl e | Inr t \<Rightarrow> Inr (s\<lparr>vs_reactions := t\<rparr>))"

definition GetReaction :: "env \<Rightarrow> uuid \<Rightarrow> uuid \<Rightarrow> string \<Rightarrow> conv_state \<Rightarrow> reaction result" where
  "GetReaction E m u emoji s = db_first E ''GetReaction'' 0 rx_id (rx_is m u emoji) (vs_reactions s)"

definition RemoveReaction_repo :: "env \<Rightarrow> uuid \<Rightarrow> uuid \<Rightarrow> string \<Rightarrow> conv_state \<Rightarrow> conv_state result" where
  "RemoveReaction_repo E m u emoji s =
     (case db_delete E ''RemoveReaction'' 0 (rx_is m u emoji) (vs_reactions s) of
        Inl e \<Rightarrow> Inl e | Inr t \<Rightarrow> Inr (s\<lparr>vs_reactions := t\<rparr>))"

definition SaveOfflineMessage :: "env \<Rightarrow> nat \<Rightarrow> offline_message \<Rightarrow> conv_state \<Rightarrow> conv_state result" where
  "SaveOfflineMessage E n om s =
     (case db_insert E ''SaveOfflineMessage'' n (\<lambda>w x. om_id x = om_id w) om (vs_offline s) of
        Inl e \<Rightarrow> Inl e | Inr t \<Rightarrow> Inr (s\<lparr>vs_offline := t\<rparr>))"

text \<open>The rows carry the message of each, which \<open>Preload\<close> reads; a missing one is left empty.\<close>

definition GetUndeliveredMessages :: "env \<Rightarrow> uuid \<Rightarrow> string \<Rightarrow> int \<Rightarrow> conv_state
    \<Rightarrow> (offline_message \<times> message option) list result" where
  "GetUndeliveredMessages E u d limit s =
     (case db_find E ''GetUndeliveredMessages'' 0
             (\<lambda>w. om_user_id w = u \<and> om_device_id w = d \<and> \<not> om_delivered w) (vs_offline s) of
        Inl e \<Rightarrow> Inl e
      | Inr os \<Rightarrow>
          if e_db E ''GetUndeliveredMessages.preload'' 0 then Inl (ErrDB ''GetUndeliveredMessages.preload'')
          else Inr (map (\<lambda>w. (w, List.find (\<lambda>m. ms_id m = om_message_id w) (vs_messages s)))
                      (take (nat limit) (sort_key om_created_at os))))"

definition MarkOfflineDelivered :: "env \<Rightarrow> uuid list \<Rightarrow> conv_state \<Rightarrow> conv_state result" where
  "MarkOfflineDelivered E ids s =
     (case db_update E ''MarkOfflineDelivered'' 0 (\<lambda>w. om_id w \<in> set ids) (\<lambda>w. w\<lparr>om_delivered := True\<rparr>) (vs_offline s) of
        Inl e \<Rightarrow> Inl e | Inr t \<Rightarrow> Inr (s\<lparr>vs_offline := t\<rparr>))"

definition CleanupExpiredOffline_repo :: "env \<Rightarrow> time \<Rightarrow> conv_state \<Rightarrow> (nat \<times> conv_state) result" where
  "CleanupExpiredOffline_repo E before s =
     (case db_delete E ''CleanupExpiredOffline'' 0 (\<lambda>w. om_created_at w < before) (vs_offline s) of
        Inl e \<Rightarrow> Inl e
      | Inr t \<Rightarrow> Inr (count_where (\<lambda>w. om_created_at w < before) (vs_offline s), s\<lparr>vs_offline := t\<rparr>))"

section \<open>Recording sync events for many users\<close>

text \<open>The loops over participants record one event each and drop the result of every recording.\<close>

fun record_for :: "env \<Rightarrow> nat \<Rightarrow> (uuid \<Rightarrow> sync_envelope) \<Rightarrow> uuid list \<Rightarrow> sync_state \<Rightarrow> sync_state" where
  "record_for E n mk [] s = s"
| "record_for E n mk (u # us) s = record_for E (n + 1) mk us (snd (RecordEnvelope E n (mk u) s))"

definition conversationSyncPayload :: "env \<Rightarrow> conversation \<Rightarrow> json_map" where
  "conversationSyncPayload E c =
     [(''object_id'', AStr (e_uuid_str E (cv_id c))), (''conversation_id'', AStr (e_uuid_str E (cv_id c))),
      (''type'', AStr (cv_type c)), (''name'', AStr (cv_name c)), (''created_by'', AStr (e_uuid_str E (cv_created_by c))),
      (''geo_lat'', any_opt AFloat (cv_geo_lat c)), (''geo_lng'', any_opt AFloat (cv_geo_lng c)),
      (''geo_radius'', any_opt AFloat (cv_geo_radius c)), (''created_at'', ATime (cv_created_at c)),
      (''updated_at'', ATime (cv_updated_at c))]"

definition recordConversationSyncEvents :: "env \<Rightarrow> participant list \<Rightarrow> conversation \<Rightarrow> string \<Rightarrow> conv_state \<Rightarrow> conv_state" where
  "recordConversationSyncEvents E ps c operation s =
     s\<lparr>vs_sync := record_for E 0
        (\<lambda>u. \<lparr>en_user_id = u, en_source_device_id = '''', en_object_type = ''conversation'',
              en_object_id = e_uuid_str E (cv_id c), en_operation = operation, en_client_event_id = '''',
              en_payload = Some (conversationSyncPayload E c)\<rparr>)
        (map pt_user_id ps) (vs_sync s)\<rparr>"

definition participant_key :: "env \<Rightarrow> uuid \<Rightarrow> uuid \<Rightarrow> string" where
  "participant_key E c u = e_uuid_str E c @ '':'' @ e_uuid_str E u"

definition participantSyncPayload :: "env \<Rightarrow> participant \<Rightarrow> string \<Rightarrow> uuid \<Rightarrow> json_map" where
  "participantSyncPayload E p operation actor =
     (let m0 = [(''object_id'', AStr (participant_key E (pt_conversation_id p) (pt_user_id p))),
                (''conversation_id'', AStr (e_uuid_str E (pt_conversation_id p))),
                (''user_id'', AStr (e_uuid_str E (pt_user_id p))), (''role'', AStr (pt_role p)),
                (''status'', AStr ''active''), (''joined_at'', ATime (pt_joined_at p)), (''updated_at'', ATime (e_now E))];
          m1 = (if operation = ''added'' then jset m0 ''added_by'' (AStr (e_uuid_str E actor)) else m0);
          m2 = (if operation = ''updated'' then jset m1 ''updated_by'' (AStr (e_uuid_str E actor)) else m1)
      in if operation = ''removed''
         then jset (jset m2 ''status'' (AStr ''removed'')) ''removed_by'' (AStr (e_uuid_str E actor)) else m2)"

definition recordParticipantSyncEvents :: "env \<Rightarrow> participant list \<Rightarrow> participant \<Rightarrow> string \<Rightarrow> uuid \<Rightarrow> conv_state \<Rightarrow> conv_state" where
  "recordParticipantSyncEvents E recipients p operation actor s =
     s\<lparr>vs_sync := record_for E 0
        (\<lambda>u. \<lparr>en_user_id = u, en_source_device_id = '''', en_object_type = ''participant'',
              en_object_id = participant_key E (pt_conversation_id p) (pt_user_id p), en_operation = operation,
              en_client_event_id = '''', en_payload = Some (participantSyncPayload E p operation actor)\<rparr>)
        (map pt_user_id recipients) (vs_sync s)\<rparr>"

definition recordConversationReadSyncEvent :: "env \<Rightarrow> read_state \<Rightarrow> conv_state \<Rightarrow> conv_state" where
  "recordConversationReadSyncEvent E r s =
     (let key = participant_key E (rs_conversation_id r) (rs_user_id r) in
      s\<lparr>vs_sync := snd (RecordEnvelope E 0
        \<lparr>en_user_id = rs_user_id r, en_source_device_id = '''', en_object_type = ''conversation'', en_object_id = key,
         en_operation = ''read'', en_client_event_id = '''',
         en_payload = Some [(''object_id'', AStr key),
           (''conversation_id'', AStr (e_uuid_str E (rs_conversation_id r))), (''user_id'', AStr (e_uuid_str E (rs_user_id r))),
           (''last_read_message_id'', any_opt (\<lambda>i. AStr (e_uuid_str E i)) (rs_last_read_message_id r)),
           (''last_read_at'', ATime (rs_last_read_at r))]\<rparr> (vs_sync s))\<rparr>)"

section \<open>Conversation service\<close>

record create_conversation_request =
  cq_type :: string
  cq_name :: string
  cq_participant_ids :: "uuid list"
  cq_geo_lat :: "64 word option"
  cq_geo_lng :: "64 word option"
  cq_geo_radius :: "64 word option"

text \<open>The loops that add participants stop at the first failure and keep the rows added before it.\<close>

fun add_participants :: "env \<Rightarrow> nat \<Rightarrow> uuid \<Rightarrow> uuid list \<Rightarrow> conv_state \<Rightarrow> unit result \<times> conv_state" where
  "add_participants E n c [] s = (Inr (), s)"
| "add_participants E n c (u # us) s =
     (case AddParticipant_repo E n \<lparr>pt_conversation_id = c, pt_user_id = u, pt_role = ''member'', pt_joined_at = e_now E\<rparr> s of
        Inl e \<Rightarrow> (Inl (Wrapf ''add participant'' e), s)
      | Inr s' \<Rightarrow> add_participants E (n + 1) c us s')"

text \<open>The common end of both creations: read the participants back and tell them.\<close>

definition announce_created :: "env \<Rightarrow> conversation \<Rightarrow> conv_state \<Rightarrow> conversation result \<times> conv_state" where
  "announce_created E c s =
     (case GetParticipants E (cv_id c) s of
        Inl e \<Rightarrow> (Inl (Wrapf ''get participants'' e), s)
      | Inr ps \<Rightarrow> (Inr c, recordConversationSyncEvents E ps c ''created'' s))"

definition create_private_new :: "env \<Rightarrow> uuid \<Rightarrow> uuid \<Rightarrow> conv_state \<Rightarrow> conversation result \<times> conv_state" where
  "create_private_new E creator other s =
     (let c = \<lparr>cv_id = e_uuid E ''conversations'' 0, cv_created_at = e_now E, cv_updated_at = e_now E,
            cv_type = ''private'', cv_name = '''', cv_created_by = creator, cv_geo_lat = None, cv_geo_lng = None,
            cv_geo_radius = None\<rparr>
      in case CreateConversation_repo E c s of
           Inl e \<Rightarrow> (Inl (Wrapf ''create conversation'' e), s)
         | Inr s1 \<Rightarrow>
             (case add_participants E 0 (cv_id c) [creator, other] s1 of
                (Inl e, s2) \<Rightarrow> (Inl e, s2)
              | (Inr _, s2) \<Rightarrow> announce_created E c s2))"

definition createPrivate :: "env \<Rightarrow> uuid \<Rightarrow> uuid list \<Rightarrow> conv_state \<Rightarrow> conversation result \<times> conv_state" where
  "createPrivate E creator ids s =
     (case ids of
        [other] \<Rightarrow>
          (case FindPrivateConversation E creator other s of
             Inr existing \<Rightarrow> if cv_id existing \<noteq> uuid_nil then (Inr existing, s) else create_private_new E creator other s
           | Inl _ \<Rightarrow> create_private_new E creator other s)
      | _ \<Rightarrow> (Inl (Errorf ''private conversation requires exactly one other participant''), s))"

definition createGroup :: "env \<Rightarrow> uuid \<Rightarrow> create_conversation_request \<Rightarrow> conv_state \<Rightarrow> conversation result \<times> conv_state" where
  "createGroup E creator req s =
     (let c = \<lparr>cv_id = e_uuid E ''conversations'' 0, cv_created_at = e_now E, cv_updated_at = e_now E,
            cv_type = cq_type req, cv_name = cq_name req, cv_created_by = creator, cv_geo_lat = cq_geo_lat req,
            cv_geo_lng = cq_geo_lng req, cv_geo_radius = cq_geo_radius req\<rparr>
      in case CreateConversation_repo E c s of
           Inl e \<Rightarrow> (Inl (Wrapf ''create conversation'' e), s)
         | Inr s1 \<Rightarrow>
             (case AddParticipant_repo E 0 \<lparr>pt_conversation_id = cv_id c, pt_user_id = creator, pt_role = ''admin'',
                     pt_joined_at = e_now E\<rparr> s1 of
                Inl e \<Rightarrow> (Inl (Wrapf ''add creator'' e), s1)
              | Inr s2 \<Rightarrow>
                  (case add_participants E 1 (cv_id c) (filter (\<lambda>u. u \<noteq> creator) (cq_participant_ids req)) s2 of
                     (Inl e, s3) \<Rightarrow> (Inl e, s3)
                   | (Inr _, s3) \<Rightarrow> announce_created E c s3)))"

definition CreateConversation :: "env \<Rightarrow> uuid \<Rightarrow> create_conversation_request \<Rightarrow> conv_state \<Rightarrow> conversation result \<times> conv_state" where
  "CreateConversation E creator req s =
     (if cq_type req = ''private'' then createPrivate E creator (cq_participant_ids req) s
      else if cq_type req \<in> {''group'', ''agent_conversation''} then createGroup E creator req s
      else (Inl (Errorf (''unsupported conversation type: '' @ cq_type req)), s))"

definition GetConversation :: "env \<Rightarrow> uuid \<Rightarrow> uuid \<Rightarrow> conv_state \<Rightarrow> conversation result" where
  "GetConversation E c u s =
     (case IsParticipant E c u s of
        Inl e \<Rightarrow> Inl e
      | Inr isp \<Rightarrow> if \<not> isp then Inl (Errorf ''access denied: not a participant'') else GetConversationByID E c s)"

definition requireAdminOrOwner :: "env \<Rightarrow> uuid \<Rightarrow> uuid \<Rightarrow> conv_state \<Rightarrow> participant result" where
  "requireAdminOrOwner E c actor s =
     (case GetParticipant E 0 c actor s of
        Inl e \<Rightarrow> Inl (Errorf ''access denied'')
      | Inr p \<Rightarrow> if pt_role p \<noteq> ''admin'' \<and> pt_role p \<noteq> ''owner'' then Inl (Errorf ''access denied'') else Inr p)"

definition ensureNotLastOwner :: "env \<Rightarrow> uuid \<Rightarrow> uuid \<Rightarrow> conv_state \<Rightarrow> unit result" where
  "ensureNotLastOwner E c target s =
     (case CountParticipantsByRole E c ''owner'' s of
        Inl e \<Rightarrow> Inl e
      | Inr ownerCount \<Rightarrow>
          if ownerCount \<le> 1
          then (case GetParticipant E 2 c target s of
                  Inl e \<Rightarrow> Inl e
                | Inr p \<Rightarrow> if pt_role p = ''owner'' then Inl (Errorf ''cannot remove or demote last owner'') else Inr ())
          else Inr ())"

record update_conversation_request =
  cr_name :: "string option"
  cr_geo_lat :: "64 word option"
  cr_geo_lng :: "64 word option"
  cr_geo_radius :: "64 word option"

definition UpdateConversation :: "env \<Rightarrow> uuid \<Rightarrow> uuid \<Rightarrow> update_conversation_request \<Rightarrow> conv_state
    \<Rightarrow> conversation result \<times> conv_state" where
  "UpdateConversation E actor c req s =
     (case requireAdminOrOwner E c actor s of
        Inl e \<Rightarrow> (Inl e, s)
      | Inr _ \<Rightarrow>
          (case GetConversationByID E c s of
             Inl e \<Rightarrow> (Inl (Errorf ''conversation not found''), s)
           | Inr conv \<Rightarrow>
               let c1 = (case cr_name req of None \<Rightarrow> conv | Some n \<Rightarrow> conv\<lparr>cv_name := n\<rparr>);
                   c2 = (case cr_geo_lat req of None \<Rightarrow> c1 | Some v \<Rightarrow> c1\<lparr>cv_geo_lat := Some v\<rparr>);
                   c3 = (case cr_geo_lng req of None \<Rightarrow> c2 | Some v \<Rightarrow> c2\<lparr>cv_geo_lng := Some v\<rparr>);
                   c4 = (case cr_geo_radius req of None \<Rightarrow> c3 | Some v \<Rightarrow> c3\<lparr>cv_geo_radius := Some v\<rparr>)
               in case UpdateConversation_repo E c4 s of
                    Inl e \<Rightarrow> (Inl (Wrapf ''update conversation'' e), s)
                  | Inr (c5, s1) \<Rightarrow>
                      (case GetParticipants E c s1 of
                         Inl e \<Rightarrow> (Inl (Wrapf ''get participants'' e), s1)
                       | Inr ps \<Rightarrow> (Inr c5, recordConversationSyncEvents E ps c5 ''updated'' s1))))"

definition AddParticipant :: "env \<Rightarrow> uuid \<Rightarrow> uuid \<Rightarrow> uuid \<Rightarrow> conv_state \<Rightarrow> unit result \<times> conv_state" where
  "AddParticipant E c actor target s =
     (case requireAdminOrOwner E c actor s of
        Inl e \<Rightarrow> (Inl e, s)
      | Inr _ \<Rightarrow>
          let cp = \<lparr>pt_conversation_id = c, pt_user_id = target, pt_role = ''member'', pt_joined_at = e_now E\<rparr>
          in case AddParticipant_repo E 0 cp s of
               Inl e \<Rightarrow> (Inl e, s)
             | Inr s1 \<Rightarrow>
                 (case GetParticipants E c s1 of
                    Inl e \<Rightarrow> (Inl (Wrapf ''get participants'' e), s1)
                  | Inr ps \<Rightarrow> (Inr (), recordParticipantSyncEvents E ps cp ''added'' actor s1)))"

definition removeParticipant :: "env \<Rightarrow> uuid \<Rightarrow> uuid \<Rightarrow> uuid \<Rightarrow> conv_state \<Rightarrow> unit result \<times> conv_state" where
  "removeParticipant E c actor target s =
     (case GetParticipant E 1 c target s of
        Inl e \<Rightarrow> (Inl e, s)
      | Inr removed \<Rightarrow>
          (case (if pt_role removed = ''owner'' then ensureNotLastOwner E c target s else Inr ()) of
             Inl e \<Rightarrow> (Inl e, s)
           | Inr _ \<Rightarrow>
               (case GetParticipants E c s of
                  Inl e \<Rightarrow> (Inl (Wrapf ''get participants'' e), s)
                | Inr before \<Rightarrow>
                    (case RemoveParticipant_repo E c target s of
                       Inl e \<Rightarrow> (Inl e, s)
                     | Inr s1 \<Rightarrow> (Inr (), recordParticipantSyncEvents E before removed ''removed'' actor s1)))))"

definition LeaveConversation :: "env \<Rightarrow> uuid \<Rightarrow> uuid \<Rightarrow> conv_state \<Rightarrow> unit result \<times> conv_state" where
  "LeaveConversation E c u s = removeParticipant E c u u s"

definition RemoveParticipant :: "env \<Rightarrow> uuid \<Rightarrow> uuid \<Rightarrow> uuid \<Rightarrow> conv_state \<Rightarrow> unit result \<times> conv_state" where
  "RemoveParticipant E c actor target s =
     (if actor \<noteq> target
      then (case requireAdminOrOwner E c actor s of Inl e \<Rightarrow> (Inl e, s) | Inr _ \<Rightarrow> removeParticipant E c actor target s)
      else removeParticipant E c actor target s)"

definition UpdateParticipant :: "env \<Rightarrow> uuid \<Rightarrow> uuid \<Rightarrow> uuid \<Rightarrow> string option \<Rightarrow> conv_state \<Rightarrow> participant result \<times> conv_state" where
  "UpdateParticipant E c actor target role s =
     (case requireAdminOrOwner E c actor s of
        Inl e \<Rightarrow> (Inl e, s)
      | Inr _ \<Rightarrow>
          (case GetParticipant E 1 c target s of
             Inl e \<Rightarrow> (Inl e, s)
           | Inr p \<Rightarrow>
               (case (case role of
                        None \<Rightarrow> Inr p
                      | Some r \<Rightarrow>
                          if r \<noteq> ''owner'' \<and> r \<noteq> ''admin'' \<and> r \<noteq> ''member''
                          then Inl (Errorf (''unsupported participant role: '' @ r))
                          else (case (if pt_role p = ''owner'' \<and> r \<noteq> ''owner'' then ensureNotLastOwner E c target s else Inr ()) of
                                  Inl e \<Rightarrow> Inl e
                                | Inr _ \<Rightarrow> Inr (p\<lparr>pt_role := r\<rparr>))) of
                  Inl e \<Rightarrow> (Inl e, s)
                | Inr p' \<Rightarrow>
                    (case UpdateParticipant_repo E p' s of
                       Inl e \<Rightarrow> (Inl (Wrapf ''update participant'' e), s)
                     | Inr s1 \<Rightarrow>
                         (case GetParticipants E c s1 of
                            Inl e \<Rightarrow> (Inl (Wrapf ''get participants'' e), s1)
                          | Inr ps \<Rightarrow> (Inr p', recordParticipantSyncEvents E ps p' ''updated'' actor s1))))))"

definition MarkConversationRead :: "env \<Rightarrow> uuid \<Rightarrow> uuid \<Rightarrow> uuid \<Rightarrow> conv_state \<Rightarrow> read_state result \<times> conv_state" where
  "MarkConversationRead E actor c messageID s =
     (if IsParticipant E c actor s \<noteq> Inr True then (Inl (Errorf ''access denied: not a participant''), s)
      else case GetMessageByID E 0 messageID s of
             Inl e \<Rightarrow> (Inl (Errorf ''message not found''), s)
           | Inr msg \<Rightarrow>
               if ms_conversation_id msg \<noteq> c then (Inl (Errorf ''message is not in the conversation''), s)
               else
                 let r = \<lparr>rs_conversation_id = c, rs_user_id = actor, rs_last_read_message_id = Some messageID,
                        rs_last_read_at = e_now E\<rparr>
                 in case UpsertReadState E r s of
                      Inl e \<Rightarrow> (Inl (Wrapf ''upsert read state'' e), s)
                    | Inr s1 \<Rightarrow> (Inr r, recordConversationReadSyncEvent E r s1))"

definition GetMessages :: "env \<Rightarrow> uuid \<Rightarrow> uuid \<Rightarrow> int \<Rightarrow> time option \<Rightarrow> conv_state \<Rightarrow> message list result" where
  "GetMessages E c u limit before s =
     (if IsParticipant E c u s \<noteq> Inr True then Inl (Errorf ''access denied'')
      else GetMessages_repo E c (if limit \<le> 0 \<or> 100 < limit then 50 else limit) before s)"

section \<open>Message service\<close>

record send_message_request =
  sm_conversation_id :: uuid
  sm_type :: string
  sm_content :: string
  sm_metadata :: "json_map option"
  sm_reply_to :: "uuid option"
  sm_thread_id :: string
  sm_visibility :: "json_map option"
  sm_client_event_id :: string

definition blank :: "any \<Rightarrow> bool" where
  "blank v \<longleftrightarrow> v = ANil \<or> v = AStr ''''"

definition validateMessageMetadata :: "string \<Rightarrow> json_map \<Rightarrow> unit result" where
  "validateMessageMetadata msgType metadata =
     (if msgType \<in> {'''', ''text'', ''system''} then Inr ()
      else if msgType \<in> {''image'', ''file'', ''audio'', ''video''}
      then (if blank (jget metadata ''object_id'')
            then Inl (Errorf (''metadata.object_id is required for '' @ msgType @ '' messages'')) else Inr ())
      else if msgType = ''card''
      then (if blank (jget metadata ''card_type'') then Inl (Errorf ''metadata.card_type is required for card messages'') else Inr ())
      else Inl (Errorf (''unsupported message type: '' @ msgType)))"

definition messageSyncPayload :: "env \<Rightarrow> message \<Rightarrow> json_map" where
  "messageSyncPayload E m =
     (let metadata = (case ms_metadata m of None \<Rightarrow> [] | Some x \<Rightarrow> x);
          visibility = (case ms_visibility m of None \<Rightarrow> [(''scope'', AStr ''conversation'')] | Some x \<Rightarrow> x);
          p0 = [(''object_id'', AStr (e_uuid_str E (ms_id m))),
                (''conversation_id'', AStr (e_uuid_str E (ms_conversation_id m))),
                (''message_id'', AStr (e_uuid_str E (ms_id m))), (''sender_id'', AStr (e_uuid_str E (ms_sender_id m))),
                (''type'', AStr (ms_type m)), (''content'', AStr (ms_content m)), (''metadata'', AMap metadata),
                (''thread_id'', AStr (ms_thread_id m)), (''visibility'', AMap visibility), (''status'', AStr (ms_status m)),
                (''created_at'', ATime (ms_created_at m)), (''edited_at'', any_opt ATime (ms_edited_at m)),
                (''deleted_at'', any_opt ATime (ms_deleted_at m))];
          p1 = (case ms_reply_to m of None \<Rightarrow> p0 | Some i \<Rightarrow> jset p0 ''reply_to'' (AStr (e_uuid_str E i)))
      in case ms_deleted_by m of None \<Rightarrow> p1 | Some i \<Rightarrow> jset p1 ''deleted_by'' (AStr (e_uuid_str E i)))"

definition message_envelope :: "env \<Rightarrow> message \<Rightarrow> string \<Rightarrow> string \<Rightarrow> uuid \<Rightarrow> sync_envelope" where
  "message_envelope E m operation clientEventID u =
     \<lparr>en_user_id = u, en_source_device_id = '''', en_object_type = ''message'', en_object_id = e_uuid_str E (ms_id m),
      en_operation = operation, en_client_event_id = clientEventID, en_payload = Some (messageSyncPayload E m)\<rparr>"

definition recordMessageSyncEvents :: "env \<Rightarrow> participant list \<Rightarrow> message \<Rightarrow> string \<Rightarrow> string \<Rightarrow> conv_state \<Rightarrow> conv_state" where
  "recordMessageSyncEvents E ps m operation clientEventID s =
     s\<lparr>vs_sync := record_for E 0 (message_envelope E m operation clientEventID) (map pt_user_id ps) (vs_sync s)\<rparr>"

definition reaction_key :: "env \<Rightarrow> reaction \<Rightarrow> string" where
  "reaction_key E x = e_uuid_str E (rx_message_id x) @ '':'' @ e_uuid_str E (rx_user_id x) @ '':'' @ rx_emoji x"

definition reactionSyncPayload :: "env \<Rightarrow> reaction \<Rightarrow> json_map" where
  "reactionSyncPayload E x =
     [(''object_id'', AStr (reaction_key E x)), (''conversation_id'', AStr (e_uuid_str E (rx_conversation_id x))),
      (''message_id'', AStr (e_uuid_str E (rx_message_id x))), (''user_id'', AStr (e_uuid_str E (rx_user_id x))),
      (''emoji'', AStr (rx_emoji x)), (''created_at'', ATime (rx_created_at x))]"

definition recordReactionSyncEvents :: "env \<Rightarrow> participant list \<Rightarrow> reaction \<Rightarrow> string \<Rightarrow> conv_state \<Rightarrow> conv_state" where
  "recordReactionSyncEvents E ps x operation s =
     s\<lparr>vs_sync := record_for E 0
        (\<lambda>u. \<lparr>en_user_id = u, en_source_device_id = '''', en_object_type = ''message'', en_object_id = reaction_key E x,
              en_operation = operation, en_client_event_id = '''', en_payload = Some (reactionSyncPayload E x)\<rparr>)
        (map pt_user_id ps) (vs_sync s)\<rparr>"

text \<open>A reply must be to a message of the same conversation; it joins that message's thread unless the
  request names one.\<close>

definition reply_thread :: "env \<Rightarrow> send_message_request \<Rightarrow> conv_state \<Rightarrow> string result" where
  "reply_thread E req s =
     (case sm_reply_to req of
        None \<Rightarrow> Inr (sm_thread_id req)
      | Some i \<Rightarrow>
          (case GetMessageByID E 0 i s of
             Inl e \<Rightarrow> Inl (Errorf ''reply_to message not found'')
           | Inr r \<Rightarrow>
               if ms_conversation_id r \<noteq> sm_conversation_id req
               then Inl (Errorf ''reply_to message is not in the same conversation'')
               else Inr (if sm_thread_id req \<noteq> '''' then sm_thread_id req
                         else if ms_thread_id r \<noteq> '''' then ms_thread_id r else e_uuid_str E (ms_id r))))"

definition new_message :: "env \<Rightarrow> uuid \<Rightarrow> send_message_request \<Rightarrow> string \<Rightarrow> json_map \<Rightarrow> string \<Rightarrow> message" where
  "new_message E sender req msgType metadata threadID =
     \<lparr>ms_id = e_uuid E ''messages'' 0, ms_created_at = e_now E, ms_updated_at = e_now E,
      ms_conversation_id = sm_conversation_id req, ms_sender_id = sender, ms_type = msgType, ms_content = sm_content req,
      ms_metadata = Some metadata, ms_reply_to = sm_reply_to req, ms_thread_id = threadID,
      ms_visibility = Some (case sm_visibility req of None \<Rightarrow> [(''scope'', AStr ''conversation'')] | Some v \<Rightarrow> v),
      ms_client_event_id = sm_client_event_id req, ms_status = ''active'', ms_edited_at = None, ms_deleted_at = None,
      ms_deleted_by = None, ms_delivered_at = None\<rparr>"

text \<open>\<open>SendMessage\<close> after the replay check.\<close>

definition send_new :: "env \<Rightarrow> uuid \<Rightarrow> send_message_request \<Rightarrow> conv_state \<Rightarrow> (message \<times> participant list) result \<times> conv_state" where
  "send_new E sender req s =
     (let msgType = (if sm_type req = '''' then ''text'' else sm_type req);
          metadata = (case sm_metadata req of None \<Rightarrow> [] | Some m \<Rightarrow> m)
      in case validateMessageMetadata msgType metadata of
           Inl e \<Rightarrow> (Inl e, s)
         | Inr _ \<Rightarrow>
             (case reply_thread E req s of
                Inl e \<Rightarrow> (Inl e, s)
              | Inr threadID \<Rightarrow>
                  let msg = new_message E sender req msgType metadata threadID
                  in case CreateMessage E msg s of
                       Inl e \<Rightarrow> (Inl (Wrapf ''create message'' e), s)
                     | Inr s1 \<Rightarrow>
                         (case GetParticipants E (sm_conversation_id req) s1 of
                            Inl e \<Rightarrow> (Inl (Wrapf ''get participants'' e), s1)
                          | Inr ps \<Rightarrow> (Inr (msg, ps), recordMessageSyncEvents E ps msg ''created'' (sm_client_event_id req) s1))))"

definition SendMessage :: "env \<Rightarrow> uuid \<Rightarrow> send_message_request \<Rightarrow> conv_state \<Rightarrow> (message \<times> participant list) result \<times> conv_state" where
  "SendMessage E sender req s =
     (if IsParticipant E (sm_conversation_id req) sender s \<noteq> Inr True
      then (Inl (Errorf ''access denied: not a participant''), s)
      else case (if sm_client_event_id req \<noteq> '''' then FindMessageByClientEventID E sender (sm_client_event_id req) s
                 else Inl ErrRecordNotFound) of
             Inr existing \<Rightarrow>
               (case GetParticipants E (ms_conversation_id existing) s of
                  Inl e \<Rightarrow> (Inl (Wrapf ''get participants'' e), s)
                | Inr ps \<Rightarrow> (Inr (existing, ps), s))
           | Inl _ \<Rightarrow> send_new E sender req s)"

text \<open>What editing and deleting check first.\<close>

definition own_message :: "env \<Rightarrow> string \<Rightarrow> uuid \<Rightarrow> uuid \<Rightarrow> uuid \<Rightarrow> conv_state \<Rightarrow> message result" where
  "own_message E verb actor c i s =
     (case GetMessageByID E 0 i s of
        Inl e \<Rightarrow> Inl (Errorf ''message not found'')
      | Inr msg \<Rightarrow>
          if ms_conversation_id msg \<noteq> c then Inl (Errorf ''message is not in the conversation'')
          else if ms_sender_id msg \<noteq> actor then Inl (Errorf (''access denied: only sender can '' @ verb @ '' message''))
          else Inr msg)"

record update_message_request =
  um_content :: string
  um_metadata :: "json_map option"
  um_client_event_id :: string

definition UpdateMessage :: "env \<Rightarrow> uuid \<Rightarrow> uuid \<Rightarrow> uuid \<Rightarrow> update_message_request \<Rightarrow> conv_state \<Rightarrow> message result \<times> conv_state" where
  "UpdateMessage E actor c i req s =
     (case own_message E ''edit'' actor c i s of
        Inl e \<Rightarrow> (Inl e, s)
      | Inr msg \<Rightarrow>
          if ms_status msg = ''deleted'' then (Inl (Errorf ''message is deleted''), s)
          else
            let msg' = msg\<lparr>ms_content := um_content req,
                           ms_metadata := Some (case um_metadata req of None \<Rightarrow> [] | Some m \<Rightarrow> m), ms_edited_at := Some (e_now E)\<rparr>
            in case UpdateMessage_repo E msg' s of
                 Inl e \<Rightarrow> (Inl (Wrapf ''update message'' e), s)
               | Inr (m2, s1) \<Rightarrow>
                   (case GetParticipants E c s1 of
                      Inl e \<Rightarrow> (Inl (Wrapf ''get participants'' e), s1)
                    | Inr ps \<Rightarrow> (Inr m2, recordMessageSyncEvents E ps m2 ''updated'' (um_client_event_id req) s1)))"

definition DeleteMessage :: "env \<Rightarrow> uuid \<Rightarrow> uuid \<Rightarrow> uuid \<Rightarrow> string \<Rightarrow> conv_state \<Rightarrow> message result \<times> conv_state" where
  "DeleteMessage E actor c i clientEventID s =
     (case own_message E ''delete'' actor c i s of
        Inl e \<Rightarrow> (Inl e, s)
      | Inr msg \<Rightarrow>
          if ms_status msg = ''deleted'' then (Inr msg, s)
          else (case SoftDeleteMessage E i actor (e_now E) s of
                  (Inl e, s1) \<Rightarrow> (Inl (Wrapf ''delete message'' e), s1)
                | (Inr deleted, s1) \<Rightarrow>
                    (case GetParticipants E c s1 of
                       Inl e \<Rightarrow> (Inl (Wrapf ''get participants'' e), s1)
                     | Inr ps \<Rightarrow> (Inr deleted, recordMessageSyncEvents E ps deleted ''deleted'' clientEventID s1))))"

text \<open>What adding and removing a reaction check first.\<close>

definition reaction_target :: "env \<Rightarrow> uuid \<Rightarrow> uuid \<Rightarrow> uuid \<Rightarrow> conv_state \<Rightarrow> unit result" where
  "reaction_target E actor c i s =
     (case GetMessageByID E 0 i s of
        Inl e \<Rightarrow> Inl (Errorf ''message not found'')
      | Inr msg \<Rightarrow>
          if ms_conversation_id msg \<noteq> c then Inl (Errorf ''message is not in the conversation'')
          else if IsParticipant E c actor s \<noteq> Inr True then Inl (Errorf ''access denied: not a participant'')
          else Inr ())"

definition AddReaction :: "env \<Rightarrow> uuid \<Rightarrow> uuid \<Rightarrow> uuid \<Rightarrow> string \<Rightarrow> conv_state \<Rightarrow> reaction result \<times> conv_state" where
  "AddReaction E actor c i emoji s =
     (if emoji = '''' then (Inl (Errorf ''emoji is required''), s)
      else case reaction_target E actor c i s of
             Inl e \<Rightarrow> (Inl e, s)
           | Inr _ \<Rightarrow>
               (case AddReaction_repo E \<lparr>rx_id = e_uuid E ''message_reactions'' 0, rx_created_at = e_now E,
                       rx_conversation_id = c, rx_message_id = i, rx_user_id = actor, rx_emoji = emoji\<rparr> s of
                  Inl e \<Rightarrow> (Inl (Wrapf ''add reaction'' e), s)
                | Inr s1 \<Rightarrow>
                    (case GetReaction E i actor emoji s1 of
                       Inl e \<Rightarrow> (Inl (Wrapf ''get reaction'' e), s1)
                     | Inr stored \<Rightarrow>
                         (case GetParticipants E c s1 of
                            Inl e \<Rightarrow> (Inl (Wrapf ''get participants'' e), s1)
                          | Inr ps \<Rightarrow> (Inr stored, recordReactionSyncEvents E ps stored ''reaction_added'' s1)))))"

definition RemoveReaction :: "env \<Rightarrow> uuid \<Rightarrow> uuid \<Rightarrow> uuid \<Rightarrow> string \<Rightarrow> conv_state \<Rightarrow> unit result \<times> conv_state" where
  "RemoveReaction E actor c i emoji s =
     (case reaction_target E actor c i s of
        Inl e \<Rightarrow> (Inl e, s)
      | Inr _ \<Rightarrow>
          (case GetReaction E i actor emoji s of
             Inl e \<Rightarrow> (Inr (), s)
           | Inr x \<Rightarrow>
               (case RemoveReaction_repo E i actor emoji s of
                  Inl e \<Rightarrow> (Inl (Wrapf ''remove reaction'' e), s)
                | Inr s1 \<Rightarrow>
                    (case GetParticipants E c s1 of
                       Inl e \<Rightarrow> (Inl (Wrapf ''get participants'' e), s1)
                     | Inr ps \<Rightarrow> (Inr (), recordReactionSyncEvents E ps x ''reaction_removed'' s1)))))"

section \<open>Offline messages\<close>

text \<open>One row for each device that is not connected, of every participant but the sender. A failing call
  is logged and skipped.\<close>

fun save_offline_devices :: "env \<Rightarrow> nat \<Rightarrow> message \<Rightarrow> uuid \<Rightarrow> string list \<Rightarrow> device list \<Rightarrow> conv_state \<Rightarrow> nat \<times> conv_state" where
  "save_offline_devices E n msg u online [] s = (n, s)"
| "save_offline_devices E n msg u online (d # ds) s =
     (if dv_device_id d \<in> set online then save_offline_devices E n msg u online ds s
      else case SaveOfflineMessage E n \<lparr>om_id = e_uuid E ''offline_messages'' n, om_created_at = e_now E, om_user_id = u,
                  om_device_id = dv_device_id d, om_message_id = ms_id msg, om_delivered = False\<rparr> s of
             Inl e \<Rightarrow> save_offline_devices E (n + 1) msg u online ds s
           | Inr s' \<Rightarrow> save_offline_devices E (n + 1) msg u online ds s')"

fun save_offline_users :: "env \<Rightarrow> nat \<Rightarrow> nat \<Rightarrow> message \<Rightarrow> uuid list \<Rightarrow> string list \<Rightarrow> id_state \<Rightarrow> conv_state \<Rightarrow> conv_state" where
  "save_offline_users E k n msg [] online ids s = s"
| "save_offline_users E k n msg (u # us) online ids s =
     (if u = ms_sender_id msg then save_offline_users E k n msg us online ids s
      else case GetUserDevices E k u ids of
             Inl e \<Rightarrow> save_offline_users E (k + 1) n msg us online ids s
           | Inr ds \<Rightarrow>
               (case save_offline_devices E n msg u online ds s of
                  (n', s') \<Rightarrow> save_offline_users E (k + 1) n' msg us online ids s'))"

definition SaveOfflineMessages :: "env \<Rightarrow> message \<Rightarrow> participant list \<Rightarrow> string list \<Rightarrow> id_state \<Rightarrow> conv_state \<Rightarrow> conv_state" where
  "SaveOfflineMessages E msg ps online ids s = save_offline_users E 0 0 msg (map pt_user_id ps) online ids s"

definition FetchOfflineMessages :: "env \<Rightarrow> uuid \<Rightarrow> string \<Rightarrow> conv_state \<Rightarrow> (offline_message \<times> message option) list result" where
  "FetchOfflineMessages E u d s = GetUndeliveredMessages E u d 100 s"

definition AckOfflineMessages :: "env \<Rightarrow> uuid list \<Rightarrow> conv_state \<Rightarrow> conv_state result" where
  "AckOfflineMessages E ids s = MarkOfflineDelivered E ids s"

definition CleanupExpiredOffline :: "env \<Rightarrow> int \<Rightarrow> conv_state \<Rightarrow> (nat \<times> conv_state) result" where
  "CleanupExpiredOffline E retentionDays s = CleanupExpiredOffline_repo E (e_now E - days retentionDays) s"

end
