(* ===== verification/ConversationProps.thy ===== *)
theory ConversationProps
  imports Conversation SyncProps
begin

text \<open>
  What the conversation and message services guarantee: who may change the membership of a
  conversation, that a conversation with an owner keeps one, and what happens to messages.
\<close>

section \<open>Requests\<close>

datatype conv_req =
    VCreate env uuid create_conversation_request
  | VRename env uuid uuid update_conversation_request
  | VAdd env uuid uuid uuid
  | VLeave env uuid uuid
  | VRemove env uuid uuid uuid
  | VRole env uuid uuid uuid "string option"
  | VRead env uuid uuid uuid
  | VSend env uuid send_message_request
  | VEdit env uuid uuid uuid update_message_request
  | VDelete env uuid uuid uuid string
  | VReact env uuid uuid uuid string
  | VUnreact env uuid uuid uuid string

fun conv_serve :: "conv_req \<Rightarrow> conv_state \<Rightarrow> conv_state" where
  "conv_serve (VCreate E u req) s = snd (CreateConversation E u req s)"
| "conv_serve (VRename E u c req) s = snd (UpdateConversation E u c req s)"
| "conv_serve (VAdd E c actor target) s = snd (AddParticipant E c actor target s)"
| "conv_serve (VLeave E c u) s = snd (LeaveConversation E c u s)"
| "conv_serve (VRemove E c actor target) s = snd (RemoveParticipant E c actor target s)"
| "conv_serve (VRole E c actor target role) s = snd (UpdateParticipant E c actor target role s)"
| "conv_serve (VRead E u c m) s = snd (MarkConversationRead E u c m s)"
| "conv_serve (VSend E u req) s = snd (SendMessage E u req s)"
| "conv_serve (VEdit E u c m req) s = snd (UpdateMessage E u c m req s)"
| "conv_serve (VDelete E u c m ceid) s = snd (DeleteMessage E u c m ceid s)"
| "conv_serve (VReact E u c m emoji) s = snd (AddReaction E u c m emoji s)"
| "conv_serve (VUnreact E u c m emoji) s = snd (RemoveReaction E u c m emoji s)"

section \<open>Rows and roles\<close>

lemma is_part_key: "is_part c u p \<longleftrightarrow> part_key p = (c, u)"
  by (simp add: is_part_def part_key_def)

definition role_of :: "uuid \<Rightarrow> uuid \<Rightarrow> conv_state \<Rightarrow> string option" where
  "role_of c u s = map_option pt_role (List.find (is_part c u) (vs_parts s))"

definition runs :: "uuid \<Rightarrow> uuid \<Rightarrow> conv_state \<Rightarrow> bool" where
  "runs c u s \<longleftrightarrow> list_ex (\<lambda>p. is_part c u p \<and> pt_role p \<in> {''admin'', ''owner''}) (vs_parts s)"

definition owned :: "uuid \<Rightarrow> conv_state \<Rightarrow> bool" where
  "owned c s \<longleftrightarrow> list_ex (\<lambda>p. pt_conversation_id p = c \<and> pt_role p = ''owner'') (vs_parts s)"

definition parts_unique :: "conv_state \<Rightarrow> bool" where
  "parts_unique s \<longleftrightarrow> distinct (map part_key (vs_parts s))"

text \<open>The bookkeeping of sync events touches only the sync tables.\<close>

lemmas record_defs = recordConversationSyncEvents_def recordParticipantSyncEvents_def
  recordConversationReadSyncEvent_def recordMessageSyncEvents_def recordReactionSyncEvents_def

lemma record_parts [simp]:
  "vs_parts (recordConversationSyncEvents E ps cv operation s) = vs_parts s"
  "vs_parts (recordParticipantSyncEvents E ps p operation actor s) = vs_parts s"
  "vs_parts (recordConversationReadSyncEvent E rs s) = vs_parts s"
  "vs_parts (recordMessageSyncEvents E ps m operation ceid s) = vs_parts s"
  "vs_parts (recordReactionSyncEvents E ps x operation s) = vs_parts s"
  by (simp_all add: record_defs Let_def)

lemma record_messages [simp]:
  "vs_messages (recordConversationSyncEvents E ps cv operation s) = vs_messages s"
  "vs_messages (recordParticipantSyncEvents E ps p operation actor s) = vs_messages s"
  "vs_messages (recordConversationReadSyncEvent E rs s) = vs_messages s"
  "vs_messages (recordMessageSyncEvents E ps m operation ceid s) = vs_messages s"
  "vs_messages (recordReactionSyncEvents E ps x operation s) = vs_messages s"
  by (simp_all add: record_defs Let_def)

lemma AddParticipant_repo_Inr:
  assumes "AddParticipant_repo E n p s = Inr s'"
  shows "vs_parts s' = vs_parts s @ [p] \<and> (parts_unique s \<longrightarrow> parts_unique s') \<and> vs_messages s' = vs_messages s
    \<and> \<not> list_ex (is_part (pt_conversation_id p) (pt_user_id p)) (vs_parts s)"
proof -
  from assms have s': "s' = s\<lparr>vs_parts := vs_parts s @ [p]\<rparr>"
    and n: "\<not> list_ex (is_part (pt_conversation_id p) (pt_user_id p)) (vs_parts s)"
    by (auto simp: AddParticipant_repo_def db_insert_def split: if_splits)
  from n have "part_key p \<notin> part_key ` set (vs_parts s)"
    by (auto simp: list_ex_iff is_part_key part_key_def image_iff)
  with s' n show ?thesis by (simp add: parts_unique_def)
qed

lemma add_participants_adds:
  "\<exists>ps. vs_parts (snd (add_participants E n c us s)) = vs_parts s @ ps \<and> list_all (\<lambda>p. pt_conversation_id p = c) ps
     \<and> (parts_unique s \<longrightarrow> parts_unique (snd (add_participants E n c us s)))
     \<and> vs_messages (snd (add_participants E n c us s)) = vs_messages s"
proof (induction us arbitrary: n s)
  case (Cons u us)
  let ?p = "\<lparr>pt_conversation_id = c, pt_user_id = u, pt_role = ''member'', pt_joined_at = e_now E\<rparr>"
  show ?case
  proof (cases "AddParticipant_repo E n ?p s")
    case (Inr s')
    then have s': "vs_parts s' = vs_parts s @ [?p]" "parts_unique s \<longrightarrow> parts_unique s'" "vs_messages s' = vs_messages s"
      by (auto dest: AddParticipant_repo_Inr)
    from Cons.IH [of "n + 1" s'] obtain ps where
      "vs_parts (snd (add_participants E (n + 1) c us s')) = vs_parts s' @ ps" "list_all (\<lambda>p. pt_conversation_id p = c) ps"
      "parts_unique s' \<longrightarrow> parts_unique (snd (add_participants E (n + 1) c us s'))"
      "vs_messages (snd (add_participants E (n + 1) c us s')) = vs_messages s'" by blast
    with Inr s' show ?thesis by (intro exI [of _ "?p # ps"]) simp
  qed simp
qed simp

lemma announce_created_tables [simp]:
  "vs_parts (snd (announce_created E c s)) = vs_parts s" "vs_messages (snd (announce_created E c s)) = vs_messages s"
  by (simp_all add: announce_created_def split: sum.split)

lemma GetParticipant_Inr: "GetParticipant E n c u s = Inr p \<Longrightarrow> p \<in> set (vs_parts s) \<and> is_part c u p"
  by (auto simp: GetParticipant_def db_first_def dest: first_by_Some split: if_splits option.splits)

lemma requireAdminOrOwner_Inr: "requireAdminOrOwner E c u s = Inr p \<Longrightarrow> runs c u s"
  by (auto simp: requireAdminOrOwner_def runs_def list_ex_iff dest!: GetParticipant_Inr split: sum.splits if_splits)

text \<open>A row with another key than the counted ones.\<close>

lemma count_two_other_key:
  assumes "distinct (map k t)" "2 \<le> count_where P t"
  shows "\<exists>x\<in>set t. P x \<and> k x \<noteq> i"
proof (rule ccontr)
  assume "\<not> ?thesis"
  then have "k x = i" if "x \<in> set (filter P t)" for x using that by auto
  then have "set (map k (filter P t)) \<subseteq> {i}" by auto
  moreover have "distinct (map k (filter P t))" using assms(1) by (simp add: distinct_map_filter)
  ultimately have "length (map k (filter P t)) \<le> 1"
    by (metis card_mono card.empty card_insert_if distinct_card empty_iff finite.intros One_nat_def)
  with assms(2) show False by (simp add: count_where_def)
qed

lemma ensureNotLastOwner_Inr:
  assumes "ensureNotLastOwner E c u s = Inr ()" "p \<in> set (vs_parts s)" "is_part c u p" "pt_role p = ''owner''" "parts_unique s"
  shows "\<exists>x\<in>set (vs_parts s). pt_conversation_id x = c \<and> pt_role x = ''owner'' \<and> part_key x \<noteq> (c, u)"
proof -
  have "q = p" if "q \<in> set (vs_parts s)" "is_part c u q" for q
    using that assms(2,3,5) distinct_map_same [of part_key "vs_parts s" q p] by (simp add: parts_unique_def is_part_key)
  then have "2 \<le> count_where (\<lambda>p. pt_conversation_id p = c \<and> pt_role p = ''owner'') (vs_parts s)"
    using assms(1,4)
    by (auto simp: ensureNotLastOwner_def CountParticipantsByRole_def db_count_def dest!: GetParticipant_Inr
        split: sum.splits if_splits)
  from count_two_other_key [OF _ this, of part_key "(c, u)"] assms(5) show ?thesis by (auto simp: parts_unique_def)
qed

section \<open>Who changes the membership\<close>

text \<open>What each request does to the rows of participants.\<close>

lemma AddParticipant_parts:
  obtains "vs_parts (snd (AddParticipant E c actor target s)) = vs_parts s"
  | p where "runs c actor s" "is_part c target p" "pt_role p = ''member''" "\<not> list_ex (is_part c target) (vs_parts s)"
      "vs_parts (snd (AddParticipant E c actor target s)) = vs_parts s @ [p]"
proof (cases "requireAdminOrOwner E c actor s")
  case (Inl e)
  then show ?thesis using that(1) by (simp add: AddParticipant_def)
next
  case (Inr a)
  let ?p = "\<lparr>pt_conversation_id = c, pt_user_id = target, pt_role = ''member'', pt_joined_at = e_now E\<rparr>"
  note runs = requireAdminOrOwner_Inr [OF Inr]
  show ?thesis
  proof (cases "AddParticipant_repo E 0 ?p s")
    case (Inl e)
    with Inr show ?thesis using that(1) by (simp add: AddParticipant_def)
  next
    case (Inr s1)
    then have "\<not> list_ex (is_part c target) (vs_parts s)" "vs_parts s1 = vs_parts s @ [?p]"
      by (auto dest: AddParticipant_repo_Inr)
    moreover have "vs_parts (snd (AddParticipant E c actor target s)) = vs_parts s1"
      using Inr \<open>requireAdminOrOwner E c actor s = Inr a\<close> by (simp add: AddParticipant_def split: sum.split)
    ultimately show ?thesis using runs by (intro that(2) [of ?p]) (simp_all add: is_part_def)
  qed
qed

lemma removeParticipant_parts:
  obtains "vs_parts (snd (removeParticipant E c actor target s)) = vs_parts s"
  | p where "p \<in> set (vs_parts s)" "is_part c target p" "pt_role p = ''owner'' \<longrightarrow> ensureNotLastOwner E c target s = Inr ()"
      "vs_parts (snd (removeParticipant E c actor target s)) = del_where (is_part c target) (vs_parts s)"
proof (cases "GetParticipant E 1 c target s")
  case (Inl e)
  then show ?thesis using that(1) by (simp add: removeParticipant_def)
next
  case (Inr p)
  note p = GetParticipant_Inr [OF Inr]
  show ?thesis
  proof (cases "if pt_role p = ''owner'' then ensureNotLastOwner E c target s else Inr ()")
    case (Inl e)
    with Inr show ?thesis using that(1) by (simp add: removeParticipant_def)
  next
    case ok: (Inr u)
    show ?thesis
    proof (cases "vs_parts (snd (removeParticipant E c actor target s)) = vs_parts s")
      case False
      with Inr ok have "vs_parts (snd (removeParticipant E c actor target s)) = del_where (is_part c target) (vs_parts s)"
        by (auto simp: removeParticipant_def RemoveParticipant_repo_def db_delete_def split: sum.splits if_splits)
      with p ok show ?thesis by (intro that(2) [of p]) (auto split: if_splits)
    qed (rule that(1))
  qed
qed

lemma UpdateParticipant_parts:
  obtains "vs_parts (snd (UpdateParticipant E c actor target role s)) = vs_parts s"
  | p p' where "runs c actor s" "p \<in> set (vs_parts s)" "is_part c target p" "part_key p' = part_key p"
      "pt_role p = ''owner'' \<and> pt_role p' \<noteq> ''owner'' \<longrightarrow> ensureNotLastOwner E c target s = Inr ()"
      "pt_role p' = pt_role p \<or> pt_role p' \<in> {''owner'', ''admin'', ''member''}"
      "vs_parts (snd (UpdateParticipant E c actor target role s)) = save_row part_key p' (vs_parts s)"
proof (cases "vs_parts (snd (UpdateParticipant E c actor target role s)) = vs_parts s")
  case False
  then obtain a p where a: "requireAdminOrOwner E c actor s = Inr a" and p: "GetParticipant E 1 c target s = Inr p"
    by (auto simp: UpdateParticipant_def split: sum.splits)
  let ?res = "case role of None \<Rightarrow> Inr p
     | Some r \<Rightarrow> if r \<noteq> ''owner'' \<and> r \<noteq> ''admin'' \<and> r \<noteq> ''member''
                 then Inl (Errorf (''unsupported participant role: '' @ r))
                 else (case (if pt_role p = ''owner'' \<and> r \<noteq> ''owner'' then ensureNotLastOwner E c target s else Inr ()) of
                         Inl e \<Rightarrow> Inl e | Inr _ \<Rightarrow> Inr (p\<lparr>pt_role := r\<rparr>))"
  from False a p obtain p' where res: "?res = Inr p'" by (cases ?res) (simp_all add: UpdateParticipant_def)
  with False a p have parts: "vs_parts (snd (UpdateParticipant E c actor target role s)) = save_row part_key p' (vs_parts s)"
    by (auto simp: UpdateParticipant_def UpdateParticipant_repo_def db_save_def part_key_def split: sum.splits if_splits)
  from res have "part_key p' = part_key p"
    "pt_role p = ''owner'' \<and> pt_role p' \<noteq> ''owner'' \<longrightarrow> ensureNotLastOwner E c target s = Inr ()"
    "pt_role p' = pt_role p \<or> pt_role p' \<in> {''owner'', ''admin'', ''member''}"
    by (auto simp: part_key_def split: option.splits if_splits sum.splits)
  with parts GetParticipant_Inr [OF p] requireAdminOrOwner_Inr [OF a] show ?thesis by (intro that(2)) auto
qed (rule that(1))

text \<open>A creation only adds rows of a conversation that was not there.\<close>

definition creates :: "env \<Rightarrow> conv_state \<Rightarrow> conv_state \<Rightarrow> bool" where
  "creates E s s' \<longleftrightarrow> vs_parts s' = vs_parts s
     \<or> (let c = e_uuid E ''conversations'' 0
         in \<not> list_ex (\<lambda>x. cv_id x = c) (vs_convs s)
            \<and> (\<exists>ps. vs_parts s' = vs_parts s @ ps \<and> list_all (\<lambda>p. pt_conversation_id p = c) ps))"

lemma CreateConversation_repo_Inr:
  "CreateConversation_repo E c s = Inr s1 \<Longrightarrow>
     vs_parts s1 = vs_parts s \<and> vs_messages s1 = vs_messages s \<and> \<not> list_ex (\<lambda>x. cv_id x = cv_id c) (vs_convs s)"
  by (auto simp: CreateConversation_repo_def db_insert_def split: if_splits)

lemma create_private_new_creates:
  "creates E s (snd (create_private_new E u v s)) \<and> (parts_unique s \<longrightarrow> parts_unique (snd (create_private_new E u v s)))
   \<and> vs_messages (snd (create_private_new E u v s)) = vs_messages s"
proof -
  let ?c = "\<lparr>cv_id = e_uuid E ''conversations'' 0, cv_created_at = e_now E, cv_updated_at = e_now E,
            cv_type = ''private'', cv_name = '''', cv_created_by = u, cv_geo_lat = None, cv_geo_lng = None,
            cv_geo_radius = None\<rparr>"
  show ?thesis
  proof (cases "CreateConversation_repo E ?c s")
    case (Inr s1)
    then have s1: "vs_parts s1 = vs_parts s" "vs_messages s1 = vs_messages s"
      "\<not> list_ex (\<lambda>x. cv_id x = e_uuid E ''conversations'' 0) (vs_convs s)"
      by (auto dest: CreateConversation_repo_Inr)
    let ?r = "add_participants E 0 (e_uuid E ''conversations'' 0) [u, v] s1"
    have t: "vs_parts (snd (create_private_new E u v s)) = vs_parts (snd ?r)"
      "vs_messages (snd (create_private_new E u v s)) = vs_messages (snd ?r)"
      using Inr by (auto simp add: create_private_new_def Let_def split: prod.split sum.split)
    obtain ps where "vs_parts (snd ?r) = vs_parts s1 @ ps"
      "list_all (\<lambda>p. pt_conversation_id p = e_uuid E ''conversations'' 0) ps"
      "parts_unique s1 \<longrightarrow> parts_unique (snd ?r)" "vs_messages (snd ?r) = vs_messages s1"
      using add_participants_adds by blast
    with s1 t show ?thesis unfolding creates_def parts_unique_def Let_def by (auto simp del: add_participants.simps)
  qed (simp add: create_private_new_def Let_def creates_def)
qed

lemma createGroup_creates:
  "creates E s (snd (createGroup E u req s)) \<and> (parts_unique s \<longrightarrow> parts_unique (snd (createGroup E u req s)))
   \<and> vs_messages (snd (createGroup E u req s)) = vs_messages s"
proof -
  let ?i = "e_uuid E ''conversations'' 0"
  let ?c = "\<lparr>cv_id = ?i, cv_created_at = e_now E, cv_updated_at = e_now E,
            cv_type = cq_type req, cv_name = cq_name req, cv_created_by = u, cv_geo_lat = cq_geo_lat req,
            cv_geo_lng = cq_geo_lng req, cv_geo_radius = cq_geo_radius req\<rparr>"
  let ?p = "\<lparr>pt_conversation_id = ?i, pt_user_id = u, pt_role = ''admin'', pt_joined_at = e_now E\<rparr>"
  show ?thesis
  proof (cases "CreateConversation_repo E ?c s")
    case c: (Inr s1)
    then have s1: "vs_parts s1 = vs_parts s" "vs_messages s1 = vs_messages s" "\<not> list_ex (\<lambda>x. cv_id x = ?i) (vs_convs s)"
      by (auto dest: CreateConversation_repo_Inr)
    show ?thesis
    proof (cases "AddParticipant_repo E 0 ?p s1")
      case a: (Inr s2)
      then have s2: "vs_parts s2 = vs_parts s @ [?p]" "parts_unique s \<longrightarrow> parts_unique s2" "vs_messages s2 = vs_messages s"
        using s1 AddParticipant_repo_Inr [OF a] by (auto simp: parts_unique_def)
      let ?r = "add_participants E 1 ?i (filter (\<lambda>v. v \<noteq> u) (cq_participant_ids req)) s2"
      have t: "vs_parts (snd (createGroup E u req s)) = vs_parts (snd ?r)"
        "vs_messages (snd (createGroup E u req s)) = vs_messages (snd ?r)"
        using c a by (auto simp add: createGroup_def Let_def split: prod.split sum.split)
      obtain ps where "vs_parts (snd ?r) = vs_parts s2 @ ps" "list_all (\<lambda>p. pt_conversation_id p = ?i) ps"
        "parts_unique s2 \<longrightarrow> parts_unique (snd ?r)" "vs_messages (snd ?r) = vs_messages s2"
        using add_participants_adds by blast
      with s1 s2 t show ?thesis unfolding creates_def parts_unique_def Let_def by (auto intro!: exI [of _ "?p # ps"])
    next
      case (Inl e)
      with c s1 show ?thesis by (simp add: createGroup_def Let_def creates_def parts_unique_def)
    qed
  qed (simp add: createGroup_def Let_def creates_def)
qed

lemma CreateConversation_creates:
  "creates E s (snd (CreateConversation E u req s))
   \<and> (parts_unique s \<longrightarrow> parts_unique (snd (CreateConversation E u req s)))
   \<and> vs_messages (snd (CreateConversation E u req s)) = vs_messages s"
  using create_private_new_creates [of E s u] createGroup_creates [of E s u req]
  by (auto simp: CreateConversation_def createPrivate_def creates_def split: list.split sum.split)

text \<open>The other requests leave the participants alone.\<close>

lemma other_parts [simp]:
  "vs_parts (snd (UpdateConversation E u c req s)) = vs_parts s"
  "vs_parts (snd (MarkConversationRead E u c m s)) = vs_parts s"
  "vs_parts (snd (UpdateMessage E u c m ureq s)) = vs_parts s"
  "vs_parts (snd (DeleteMessage E u c m ceid s)) = vs_parts s"
  "vs_parts (snd (AddReaction E u c m emoji s)) = vs_parts s"
  "vs_parts (snd (RemoveReaction E u c m emoji s)) = vs_parts s"
  by (auto simp: UpdateConversation_def UpdateConversation_repo_def MarkConversationRead_def UpsertReadState_def
      UpdateMessage_def UpdateMessage_repo_def DeleteMessage_def SoftDeleteMessage_def AddReaction_def AddReaction_repo_def
      RemoveReaction_def RemoveReaction_repo_def Let_def split: sum.splits option.splits if_splits prod.splits)

lemma SendMessage_parts [simp]: "vs_parts (snd (SendMessage E u req s)) = vs_parts s"
  by (auto simp: SendMessage_def send_new_def CreateMessage_def Let_def split: sum.splits)

text \<open>Who may change the role of user \<open>u\<close> in the conversation \<open>c\<close>.\<close>

fun may_change :: "conv_req \<Rightarrow> uuid \<Rightarrow> uuid \<Rightarrow> conv_state \<Rightarrow> bool" where
  "may_change (VCreate E actor req) c u s \<longleftrightarrow> \<not> list_ex (\<lambda>x. cv_id x = c) (vs_convs s)"
| "may_change (VAdd E c' actor target) c u s \<longleftrightarrow> c' = c \<and> target = u \<and> runs c actor s \<and> role_of c u s = None"
| "may_change (VLeave E c' actor) c u s \<longleftrightarrow> c' = c \<and> actor = u"
| "may_change (VRemove E c' actor target) c u s \<longleftrightarrow> c' = c \<and> target = u \<and> (actor = u \<or> runs c actor s)"
| "may_change (VRole E c' actor target role) c u s \<longleftrightarrow> c' = c \<and> target = u \<and> runs c actor s \<and> role_of c u s \<noteq> None"
| "may_change _ c u s \<longleftrightarrow> False"

lemma find_append_miss: "list_all (\<lambda>x. \<not> P x) ys \<Longrightarrow> List.find P (xs @ ys) = List.find P xs"
proof (induction xs)
  case Nil
  then show ?case by (induction ys) auto
qed simp

lemma find_del_other: "(\<And>x. P x \<Longrightarrow> \<not> Q x) \<Longrightarrow> List.find P (del_where Q t) = List.find P t"
  unfolding del_where_def by (induction t) auto

lemma find_save_other:
  assumes "r0 \<in> set t" "k r = k r0" "\<And>x. P x \<Longrightarrow> k x \<noteq> k r"
  shows "List.find P (save_row k r t) = List.find P t"
proof -
  have "List.find P (upd_where (\<lambda>x. k x = k r) (\<lambda>_. r) t) = List.find P t"
    using assms(3) unfolding upd_where_def by (induction t) auto
  with assms(1,2) show ?thesis by (simp add: save_row_present [of r0])
qed

lemma find_is_part: "role_of c u s = None \<longleftrightarrow> \<not> list_ex (is_part c u) (vs_parts s)"
  by (auto simp: role_of_def find_None_iff list_ex_iff)

lemma role_of_remove:
  "(c, u) \<noteq> (c', target) \<Longrightarrow> role_of c u (snd (removeParticipant E c' actor target s)) = role_of c u s"
  by (cases rule: removeParticipant_parts [of E c' actor target s])
    (auto simp: role_of_def is_part_key intro!: arg_cong [where f = "map_option pt_role"] find_del_other)

text \<open>
  C25: Only those who run a conversation change its membership: a request changes the role a user has in
  a conversation only by creating that conversation, or on the word of one of its admins or owners, or
  when the user leaves. Adding affects only users who were not in it, setting a role only those who were.
\<close>

theorem membership_needs_authority:
  assumes "role_of c u (conv_serve x s) \<noteq> role_of c u s"
  shows "may_change x c u s"
proof (cases x)
  case (VCreate E actor req)
  show ?thesis
  proof (rule ccontr)
    assume n: "\<not> ?thesis"
    from CreateConversation_creates [of E s actor req] have "creates E s (conv_serve x s)" using VCreate by simp
    then have "vs_parts (conv_serve x s) = vs_parts s
        \<or> (\<exists>ps. vs_parts (conv_serve x s) = vs_parts s @ ps \<and> list_all (\<lambda>p. \<not> is_part c u p) ps)"
      using n VCreate by (auto simp: creates_def Let_def is_part_def list_ex_iff list_all_iff)
    then have "role_of c u (conv_serve x s) = role_of c u s" by (auto simp: role_of_def find_append_miss)
    with assms show False by simp
  qed
next
  case (VAdd E c' actor target)
  show ?thesis
  proof (cases rule: AddParticipant_parts [of E c' actor target s])
    case (2 p)
    with assms VAdd have "c' = c \<and> target = u"
      by (cases "is_part c u p") (auto simp: role_of_def find_append_miss is_part_def)
    with 2 VAdd show ?thesis by (simp add: find_is_part)
  qed (use assms VAdd in \<open>simp add: role_of_def\<close>)
next
  case (VLeave E c' actor)
  with assms show ?thesis using role_of_remove [of c u c' actor E actor s] by (auto simp: LeaveConversation_def)
next
  case (VRemove E c' actor target)
  with assms have "c' = c \<and> target = u" using role_of_remove [of c u c' target E actor s]
    by (auto simp: RemoveParticipant_def split: if_splits sum.splits)
  with assms VRemove show ?thesis by (auto simp: RemoveParticipant_def dest: requireAdminOrOwner_Inr split: if_splits sum.splits)
next
  case (VRole E c' actor target role)
  show ?thesis
  proof (cases rule: UpdateParticipant_parts [of E c' actor target role s])
    case (2 p p')
    have "c' = c \<and> target = u"
    proof (rule ccontr)
      assume "\<not> (c' = c \<and> target = u)"
      then have "List.find (is_part c u) (save_row part_key p' (vs_parts s)) = List.find (is_part c u) (vs_parts s)"
        using 2 by (intro find_save_other [of p]) (auto simp: is_part_key)
      with 2 assms VRole show False by (simp add: role_of_def)
    qed
    with 2 VRole show ?thesis by (auto simp: find_is_part list_ex_iff)
  qed (use assms VRole in \<open>simp add: role_of_def\<close>)
qed (use assms in \<open>simp_all add: role_of_def\<close>)

text \<open>A group with its creator as admin and a member, who tries to add and is refused.\<close>

definition demo_group :: create_conversation_request where
  "demo_group = \<lparr>cq_type = ''group'', cq_name = ''team'', cq_participant_ids = [2, 3], cq_geo_lat = None,
     cq_geo_lng = None, cq_geo_radius = None\<rparr>"

definition demo_chat :: conv_state where
  "demo_chat = conv_serve (VCreate (env_at 1) 1 demo_group) conv_init"

theorem membership_needs_authority_witness:
  "may_change (VAdd (env_at 2) 2000 1 4) 2000 4 demo_chat
   \<and> role_of 2000 4 (conv_serve (VAdd (env_at 2) 2000 2 4) demo_chat) = None"
proof
  have "role_of 2000 4 (conv_serve (VAdd (env_at 2) 2000 1 4) demo_chat) \<noteq> role_of 2000 4 demo_chat" by code_simp
  then show "may_change (VAdd (env_at 2) 2000 1 4) 2000 4 demo_chat" by (rule membership_needs_authority)
  show "role_of 2000 4 (conv_serve (VAdd (env_at 2) 2000 2 4) demo_chat) = None" by code_simp
qed

section \<open>Owners\<close>

lemma map_key_del: "map k (del_where P t) = map k (filter (\<lambda>x. \<not> P x) t)"
  by (simp add: del_where_def)

lemma parts_unique_removeParticipant: "parts_unique s \<Longrightarrow> parts_unique (snd (removeParticipant E c actor target s))"
  by (cases rule: removeParticipant_parts [of E c actor target s])
    (simp_all add: parts_unique_def del_where_def distinct_map_filter)

lemma parts_unique_serve: "parts_unique s \<Longrightarrow> parts_unique (conv_serve x s)"
proof (cases x)
  case (VCreate E u req)
  assume "parts_unique s"
  with CreateConversation_creates [of E s u req] VCreate show ?thesis by simp
next
  case (VAdd E c actor target)
  assume u: "parts_unique s"
  show ?thesis
  proof (cases rule: AddParticipant_parts [of E c actor target s])
    case (2 p)
    then have "part_key p \<notin> part_key ` set (vs_parts s)" by (auto simp: list_ex_iff is_part_key image_iff)
    with 2 u VAdd show ?thesis by (simp add: parts_unique_def)
  qed (use u VAdd in \<open>simp add: parts_unique_def\<close>)
next
  case (VRole E c actor target role)
  assume u: "parts_unique s"
  show ?thesis
  proof (cases rule: UpdateParticipant_parts [of E c actor target role s])
    case (2 p p')
    with u VRole map_save_row [of part_key "vs_parts s" p p' part_key] show ?thesis by (simp add: parts_unique_def)
  qed (use u VRole in \<open>simp add: parts_unique_def\<close>)
qed (auto simp: LeaveConversation_def RemoveParticipant_def parts_unique_def [of "snd _"] parts_unique_def [of s]
      parts_unique_removeParticipant [unfolded parts_unique_def] split: sum.split)

text \<open>An owner's row survives, or another owner is there.\<close>

lemma owned_removeParticipant:
  assumes "parts_unique s" "owned c s"
  shows "owned c (snd (removeParticipant E c' actor target s))"
proof (cases rule: removeParticipant_parts [of E c' actor target s])
  case (2 p)
  from assms(2) obtain w where w: "w \<in> set (vs_parts s)" "pt_conversation_id w = c" "pt_role w = ''owner''"
    by (auto simp: owned_def list_ex_iff)
  have "\<exists>x\<in>set (vs_parts s). pt_conversation_id x = c \<and> pt_role x = ''owner'' \<and> \<not> is_part c' target x"
  proof (cases "is_part c' target w")
    case True
    then have "w = p" using w(1) 2(1,2) assms(1) distinct_map_same [of part_key "vs_parts s" w p]
      by (simp add: is_part_key parts_unique_def)
    moreover have "c' = c" using True w(2) by (simp add: is_part_def)
    ultimately have "\<exists>x\<in>set (vs_parts s). pt_conversation_id x = c \<and> pt_role x = ''owner'' \<and> part_key x \<noteq> (c', target)"
      using ensureNotLastOwner_Inr [of E c' target s p] 2(1-3) w assms(1) by simp
    then show ?thesis by (simp add: is_part_key)
  qed (use w in blast)
  with 2(4) show ?thesis by (auto simp: owned_def list_ex_iff set_del_where)
qed (use assms(2) in \<open>simp add: owned_def\<close>)

lemma owned_UpdateParticipant:
  assumes "parts_unique s" "owned c s"
  shows "owned c (snd (UpdateParticipant E c' actor target role s))"
proof (cases rule: UpdateParticipant_parts [of E c' actor target role s])
  case (2 p p')
  from assms(2) obtain w where w: "w \<in> set (vs_parts s)" "pt_conversation_id w = c" "pt_role w = ''owner''"
    by (auto simp: owned_def list_ex_iff)
  have stays: "x \<in> set (save_row part_key p' (vs_parts s))" if "x \<in> set (vs_parts s)" "part_key x \<noteq> part_key p'" for x
    using that by (auto simp: save_row_def upd_where_def image_iff)
  have "\<exists>x\<in>set (save_row part_key p' (vs_parts s)). pt_conversation_id x = c \<and> pt_role x = ''owner''"
  proof (cases "part_key w = part_key p'")
    case False
    with stays w show ?thesis by blast
  next
    case True
    then have "w = p" using w(1) 2(2,4) assms(1) distinct_map_same [of part_key "vs_parts s" w p]
      by (simp add: parts_unique_def)
    have c: "c' = c" "part_key p' = (c', target)" using \<open>w = p\<close> w(2) 2(3,4) by (auto simp: is_part_key part_key_def)
    show ?thesis
    proof (cases "pt_role p' = ''owner''")
      case True
      with c show ?thesis by (intro bexI [of _ p']) (simp_all add: part_key_def)
    next
      case False
      with 2(2,3,5) w(3) \<open>w = p\<close> ensureNotLastOwner_Inr [of E c' target s p] assms(1)
      obtain x where "x \<in> set (vs_parts s)" "pt_conversation_id x = c'" "pt_role x = ''owner''" "part_key x \<noteq> (c', target)"
        by auto
      with stays [of x] c show ?thesis by auto
    qed
  qed
  with 2(7) show ?thesis by (simp add: owned_def list_ex_iff)
qed (use assms(2) in \<open>simp add: owned_def\<close>)

lemma owned_serve:
  assumes "parts_unique s" "owned c s"
  shows "owned c (conv_serve x s)"
proof (cases x)
  case (VCreate E u req)
  with CreateConversation_creates [of E s u req] assms(2) show ?thesis by (auto simp: creates_def owned_def Let_def)
next
  case (VAdd E c' actor target)
  with assms(2) show ?thesis
    by (cases rule: AddParticipant_parts [of E c' actor target s]) (auto simp: owned_def)
next
  case (VLeave E c' u)
  with owned_removeParticipant [OF assms] show ?thesis by (simp add: LeaveConversation_def)
next
  case (VRemove E c' actor target)
  with owned_removeParticipant [OF assms] assms(2) show ?thesis by (auto simp: RemoveParticipant_def split: sum.split)
next
  case (VRole E c' actor target role)
  with owned_UpdateParticipant [OF assms] show ?thesis by simp
qed (use assms(2) in \<open>simp_all add: owned_def\<close>)

text \<open>
  C21: A conversation that has an owner keeps one: no sequence of requests, by whomever, with whatever
  database failures, removes or demotes the last owner of a conversation.
\<close>

theorem an_owner_remains:
  assumes "parts_unique s" "owned c s"
  shows "owned c (fold conv_serve xs s)"
  using assms
proof (induction xs arbitrary: s)
  case (Cons x xs)
  with parts_unique_serve owned_serve show ?case by simp
qed simp

text \<open>A new group has an admin and no owner; the admin makes himself one.\<close>

definition demo_owned :: conv_state where
  "demo_owned = conv_serve (VRole (env_at 2) 2000 1 1 (Some ''owner'')) demo_chat"

theorem an_owner_remains_witness:
  "owned 2000 (fold conv_serve [VRole (env_at 3) 2000 1 2 (Some ''owner''), VLeave (env_at 4) 2000 1, VLeave (env_at 5) 2000 2] demo_owned)
   \<and> \<not> owned 2000 demo_chat"
proof
  have "parts_unique demo_owned" by code_simp
  moreover have "owned 2000 demo_owned" by code_simp
  ultimately show "owned 2000 (fold conv_serve
      [VRole (env_at 3) 2000 1 2 (Some ''owner''), VLeave (env_at 4) 2000 1, VLeave (env_at 5) 2000 2] demo_owned)"
    by (rule an_owner_remains)
  show "\<not> owned 2000 demo_chat" by code_simp
qed

end
