(* ===== verification/MessageProps.thy ===== *)
theory MessageProps
  imports ConversationProps
begin

text \<open>
  What happens to messages: who may change them, that sending is idempotent for a client event
  identifier, that every participant is told of a new message, and which device gets an offline copy.
\<close>

section \<open>What requests do to messages\<close>

text \<open>The columns of a message that never change, and the uniqueness that the indexes enforce.\<close>

definition msg_key :: "message \<Rightarrow> uuid \<times> uuid \<times> uuid \<times> string" where
  "msg_key m = (ms_id m, ms_conversation_id m, ms_sender_id m, ms_client_event_id m)"

definition messages_unique :: "conv_state \<Rightarrow> bool" where
  "messages_unique s \<longleftrightarrow> distinct (map ms_id (vs_messages s))
     \<and> sorted_wrt (\<lambda>m x. \<not> ms_clash m x) (vs_messages s)"

lemma ms_clash_key: "ms_clash m x \<longleftrightarrow>
    fst (msg_key x) = fst (msg_key m)
    \<or> snd (snd (snd (msg_key m))) \<noteq> '''' \<and> snd (snd (msg_key x)) = snd (snd (msg_key m))"
  by (auto simp: ms_clash_def msg_key_def)

lemma messages_unique_map:
  "messages_unique s \<longleftrightarrow> (let ks = map msg_key (vs_messages s) in distinct (map fst ks)
     \<and> sorted_wrt (\<lambda>k k'. \<not> (fst k' = fst k \<or> snd (snd (snd k)) \<noteq> '''' \<and> snd (snd k') = snd (snd k))) ks)"
  by (simp add: messages_unique_def Let_def sorted_wrt_map ms_clash_key o_def msg_key_def)

lemma GetMessageByID_Inr: "GetMessageByID E n i s = Inr m \<Longrightarrow> m \<in> set (vs_messages s) \<and> ms_id m = i"
  by (auto simp: GetMessageByID_def db_first_def dest: first_by_Some split: if_splits option.splits)

lemma own_message_Inr:
  "own_message E verb actor c i s = Inr m \<Longrightarrow>
     m \<in> set (vs_messages s) \<and> ms_id m = i \<and> ms_conversation_id m = c \<and> ms_sender_id m = actor"
  by (auto simp: own_message_def dest: GetMessageByID_Inr split: sum.splits if_splits)

text \<open>Sending appends a message that clashes with none, or leaves the messages alone.\<close>

lemma SendMessage_messages:
  obtains "vs_messages (snd (SendMessage E u req s)) = vs_messages s"
  | m where "vs_messages (snd (SendMessage E u req s)) = vs_messages s @ [m]" "list_all (\<lambda>x. \<not> ms_clash m x) (vs_messages s)"
      "ms_sender_id m = u" "ms_client_event_id m = sm_client_event_id req" "ms_conversation_id m = sm_conversation_id req"
proof (cases "vs_messages (snd (SendMessage E u req s)) = vs_messages s")
  case False
  then have new: "SendMessage E u req s = send_new E u req s"
    by (auto simp: SendMessage_def split: sum.splits if_splits)
  let ?type = "if sm_type req = '''' then ''text'' else sm_type req"
  let ?meta = "case sm_metadata req of None \<Rightarrow> [] | Some m \<Rightarrow> m"
  from False new obtain t where t: "reply_thread E req s = Inr t" "validateMessageMetadata ?type ?meta = Inr ()"
    by (auto simp: send_new_def Let_def split: sum.splits)
  let ?m = "new_message E u req ?type ?meta t"
  from False new t obtain s1 where "CreateMessage E ?m s = Inr s1"
    by (cases "CreateMessage E ?m s") (auto simp: send_new_def Let_def)
  then have "vs_messages s1 = vs_messages s @ [?m]" "list_all (\<lambda>x. \<not> ms_clash ?m x) (vs_messages s)"
    by (auto simp: CreateMessage_def db_insert_def list_all_iff list_ex_iff split: if_splits)
  moreover have "vs_messages (snd (SendMessage E u req s)) = vs_messages s1"
    using \<open>CreateMessage E ?m s = Inr s1\<close> new t by (simp add: send_new_def Let_def split: sum.split)
  ultimately show ?thesis by (intro that(2) [of ?m]) (simp_all add: new_message_def)
qed (rule that(1))

lemma UpdateMessage_messages:
  obtains "vs_messages (snd (UpdateMessage E u c i req s)) = vs_messages s"
  | m m' where "vs_messages (snd (UpdateMessage E u c i req s)) = save_row ms_id m' (vs_messages s)"
      "m \<in> set (vs_messages s)" "ms_id m = i" "ms_conversation_id m = c" "ms_sender_id m = u" "ms_status m \<noteq> ''deleted''"
      "msg_key m' = msg_key m"
proof (cases "vs_messages (snd (UpdateMessage E u c i req s)) = vs_messages s")
  case False
  then obtain m where m: "own_message E ''edit'' u c i s = Inr m" and d: "ms_status m \<noteq> ''deleted''"
    by (auto simp: UpdateMessage_def split: sum.splits if_splits)
  let ?m = "m\<lparr>ms_content := um_content req, ms_metadata := Some (case um_metadata req of None \<Rightarrow> [] | Some m \<Rightarrow> m),
    ms_edited_at := Some (e_now E), ms_updated_at := e_now E\<rparr>"
  from False m d have "vs_messages (snd (UpdateMessage E u c i req s)) = save_row ms_id ?m (vs_messages s)"
    by (auto simp: UpdateMessage_def UpdateMessage_repo_def db_save_def Let_def split: sum.splits if_splits)
  with own_message_Inr [OF m] d show ?thesis by (intro that(2) [of ?m m]) (simp_all add: msg_key_def)
qed (rule that(1))

lemma DeleteMessage_messages:
  obtains "vs_messages (snd (DeleteMessage E u c i ceid s)) = vs_messages s"
  | m f where "vs_messages (snd (DeleteMessage E u c i ceid s)) = upd_where (\<lambda>m. ms_id m = i) f (vs_messages s)"
      "m \<in> set (vs_messages s)" "ms_id m = i" "ms_conversation_id m = c" "ms_sender_id m = u" "ms_status m \<noteq> ''deleted''"
      "\<And>x. msg_key (f x) = msg_key x"
proof (cases "vs_messages (snd (DeleteMessage E u c i ceid s)) = vs_messages s")
  case False
  then obtain m where m: "own_message E ''delete'' u c i s = Inr m" and d: "ms_status m \<noteq> ''deleted''"
    by (auto simp: DeleteMessage_def split: sum.splits if_splits)
  let ?f = "\<lambda>m. m\<lparr>ms_status := ''deleted'', ms_deleted_at := Some (e_now E), ms_deleted_by := Some u, ms_updated_at := e_now E\<rparr>"
  from False m d have "vs_messages (snd (DeleteMessage E u c i ceid s)) = upd_where (\<lambda>m. ms_id m = i) ?f (vs_messages s)"
    by (auto simp: DeleteMessage_def SoftDeleteMessage_def db_update_def Let_def split: sum.splits if_splits prod.splits)
  with own_message_Inr [OF m] d show ?thesis by (intro that(2) [of ?f m]) (simp_all add: msg_key_def)
qed (rule that(1))

lemma other_messages [simp]:
  "vs_messages (snd (UpdateConversation E u c creq s)) = vs_messages s"
  "vs_messages (snd (AddParticipant E c u v s)) = vs_messages s"
  "vs_messages (snd (removeParticipant E c u v s)) = vs_messages s"
  "vs_messages (snd (MarkConversationRead E u c m s)) = vs_messages s"
  "vs_messages (snd (AddReaction E u c m emoji s)) = vs_messages s"
  "vs_messages (snd (RemoveReaction E u c m emoji s)) = vs_messages s"
  by (auto simp: UpdateConversation_def UpdateConversation_repo_def AddParticipant_def AddParticipant_repo_def
      removeParticipant_def RemoveParticipant_repo_def MarkConversationRead_def UpsertReadState_def
      AddReaction_def AddReaction_repo_def RemoveReaction_def RemoveReaction_repo_def Let_def
      split: sum.splits option.splits if_splits prod.splits)

lemma UpdateParticipant_messages [simp]: "vs_messages (snd (UpdateParticipant E c u v role s)) = vs_messages s"
  by (auto simp: UpdateParticipant_def UpdateParticipant_repo_def split: sum.splits)

text \<open>Every request keeps the keys of the stored messages and adds at most one that clashes with none.\<close>

lemma conv_serve_keys:
  assumes "messages_unique s"
  shows "map msg_key (vs_messages (conv_serve x s)) = map msg_key (vs_messages s)
    \<or> (\<exists>m. vs_messages (conv_serve x s) = vs_messages s @ [m] \<and> list_all (\<lambda>x. \<not> ms_clash m x) (vs_messages s))"
proof (cases x)
  case (VSend E u req)
  then show ?thesis by (cases rule: SendMessage_messages [of E u req s]) auto
next
  case (VEdit E u c i req)
  show ?thesis
  proof (cases rule: UpdateMessage_messages [of E u c i req s])
    case (2 m m')
    with assms VEdit map_save_row [of ms_id "vs_messages s" m m' msg_key] show ?thesis
      by (simp add: messages_unique_def msg_key_def)
  qed (use VEdit in simp)
next
  case (VDelete E u c i ceid)
  show ?thesis
  proof (cases rule: DeleteMessage_messages [of E u c i ceid s])
    case (2 m f)
    with VDelete show ?thesis by (simp add: map_upd_where)
  qed (use VDelete in simp)
next
  case (VCreate E u req)
  then show ?thesis using CreateConversation_creates [of E s u req] by simp
qed (auto simp: LeaveConversation_def RemoveParticipant_def split: sum.split)

lemma messages_unique_serve:
  assumes "messages_unique s"
  shows "messages_unique (conv_serve x s)"
  using conv_serve_keys [OF assms, of x]
proof (elim disjE exE conjE)
  fix m assume "vs_messages (conv_serve x s) = vs_messages s @ [m]" "list_all (\<lambda>x. \<not> ms_clash m x) (vs_messages s)"
  with assms show ?thesis
    by (auto simp: messages_unique_def sorted_wrt_append list_all_iff ms_clash_def)
qed (use assms in \<open>simp add: messages_unique_map\<close>)

section \<open>Who changes a message\<close>

fun may_edit :: "conv_req \<Rightarrow> message \<Rightarrow> bool" where
  "may_edit (VEdit E u c i req) m \<longleftrightarrow>
     u = ms_sender_id m \<and> c = ms_conversation_id m \<and> i = ms_id m \<and> ms_status m \<noteq> ''deleted''"
| "may_edit (VDelete E u c i ceid) m \<longleftrightarrow>
     u = ms_sender_id m \<and> c = ms_conversation_id m \<and> i = ms_id m \<and> ms_status m \<noteq> ''deleted''"
| "may_edit _ m \<longleftrightarrow> False"

lemma messages_same:
  "messages_unique s \<Longrightarrow> m \<in> set (vs_messages s) \<Longrightarrow> x \<in> set (vs_messages s) \<Longrightarrow> ms_id x = ms_id m \<Longrightarrow> x = m"
  using distinct_map_same [of ms_id "vs_messages s" x m] by (simp add: messages_unique_def)

lemma in_save_rowD: "x \<in> set (save_row k r t) \<Longrightarrow> x = r \<or> x \<in> set t \<and> k x \<noteq> k r"
  by (auto simp: save_row_def upd_where_def split: if_splits)

text \<open>
  C38: A stored message is its sender's: whatever request is served, the row of a message stays as it was,
  unless the request is an edit or a deletion of that message by its sender and the message was not
  deleted before. Deletion is final.
\<close>

theorem only_the_sender_changes_a_message:
  assumes "messages_unique s" "m \<in> set (vs_messages s)" "m' \<in> set (vs_messages (conv_serve x s))" "ms_id m' = ms_id m" "m' \<noteq> m"
  shows "may_edit x m"
proof (cases x)
  case (VSend E u req)
  show ?thesis
  proof (cases rule: SendMessage_messages [of E u req s])
    case 1
    with assms VSend messages_same [OF assms(1,2), of m'] show ?thesis by simp
  next
    case (2 n)
    with assms VSend messages_same [OF assms(1,2), of m'] show ?thesis by (auto simp: list_all_iff ms_clash_def)
  qed
next
  case (VEdit E u c i req)
  show ?thesis
  proof (cases rule: UpdateMessage_messages [of E u c i req s])
    case 1
    with assms VEdit messages_same [OF assms(1,2), of m'] show ?thesis by simp
  next
    case (2 n n')
    with assms VEdit have "m' = n' \<or> m' \<in> set (vs_messages s)" by (auto dest: in_save_rowD)
    with assms(4,5) messages_same [OF assms(1,2), of m'] have "m' = n'" by blast
    with 2(2,7) assms(4) messages_same [OF assms(1,2), of n] have "n = m" by (simp add: msg_key_def)
    with 2 VEdit show ?thesis by simp
  qed
next
  case (VDelete E u c i ceid)
  show ?thesis
  proof (cases rule: DeleteMessage_messages [of E u c i ceid s])
    case 1
    with assms VDelete messages_same [OF assms(1,2), of m'] show ?thesis by simp
  next
    case (2 n f)
    with assms(3) VDelete obtain y where y: "y \<in> set (vs_messages s)" "m' = (if ms_id y = i then f y else y)"
      by (auto simp: set_upd_where)
    have "ms_id (f y) = ms_id y" using 2(7) [of y] by (simp add: msg_key_def)
    then have "y = m" using y assms(4) messages_same [OF assms(1,2), of y] by (auto split: if_splits)
    moreover have "ms_id y = i" using y(2) assms(5) \<open>y = m\<close> by (auto split: if_splits)
    ultimately have "n = m" using 2(2,3) messages_same [OF assms(1,2), of n] by simp
    with 2 VDelete show ?thesis by simp
  qed
next
  case (VCreate E u req)
  with assms messages_same [OF assms(1,2), of m'] CreateConversation_creates [of E s u req] show ?thesis by simp
qed (use assms messages_same [OF assms(1,2), of m'] in
    \<open>auto simp: LeaveConversation_def RemoveParticipant_def split: sum.splits if_splits\<close>)

definition demo_send :: "string \<Rightarrow> send_message_request" where
  "demo_send ceid = \<lparr>sm_conversation_id = 2000, sm_type = '''', sm_content = ''hello'', sm_metadata = None,
     sm_reply_to = None, sm_thread_id = '''', sm_visibility = None, sm_client_event_id = ceid\<rparr>"

definition demo_said :: conv_state where
  "demo_said = conv_serve (VSend (env_at 2) 1 (demo_send ''k'')) demo_chat"

definition demo_edit :: update_message_request where
  "demo_edit = \<lparr>um_content = ''bye'', um_metadata = None, um_client_event_id = ''''\<rparr>"

text \<open>The facts the examples rest on, read off one run each.\<close>

lemma demo_chat_facts:
  "let s = demo_chat
   in messages_unique s \<and> parts_unique s \<and> length (vs_messages s) = 0
      \<and> 2 < length (vs_parts s) \<and> pt_conversation_id (vs_parts s ! 2) = 2000 \<and> pt_user_id (vs_parts s ! 2) = 3
      \<and> succeeds (fst (SendMessage (env_at 2) 1 (demo_send ''k'') s))"
  by code_simp

lemma demo_said_facts:
  "let x = VEdit (env_at 3) 1 2000 3000 demo_edit; s = demo_said; t = conv_serve x s
   in messages_unique s \<and> length (vs_messages s) = 1 \<and> length (vs_messages t) = 1
      \<and> ms_id (hd (vs_messages t)) = ms_id (hd (vs_messages s)) \<and> ms_content (hd (vs_messages t)) \<noteq> ms_content (hd (vs_messages s))
      \<and> role_of 2000 1 t \<noteq> None \<and> \<not> succeeds (own_message (env_at 3) ''edit'' 2 2000 3000 s)"
  by code_simp

lemmas demo_chat_simps = demo_chat_facts [unfolded Let_def] demo_said_facts [unfolded Let_def]

theorem only_the_sender_changes_a_message_witness:
  "may_edit (VEdit (env_at 3) 1 2000 3000 demo_edit) (hd (vs_messages demo_said))
   \<and> vs_messages (conv_serve (VEdit (env_at 3) 2 2000 3000 demo_edit) demo_said) = vs_messages demo_said"
proof
  let ?x = "VEdit (env_at 3) 1 2000 3000 demo_edit"
  have "messages_unique demo_said" using demo_chat_simps by blast
  moreover have n: "length (vs_messages demo_said) = 1" "length (vs_messages (conv_serve ?x demo_said)) = 1"
    using demo_chat_simps by blast+
  then have "hd (vs_messages demo_said) \<in> set (vs_messages demo_said)"
    "hd (vs_messages (conv_serve ?x demo_said)) \<in> set (vs_messages (conv_serve ?x demo_said))"
    by (auto simp: length_Suc_conv simp del: conv_serve.simps)
  moreover have "ms_id (hd (vs_messages (conv_serve ?x demo_said))) = ms_id (hd (vs_messages demo_said))"
    using demo_chat_simps by blast
  moreover have "ms_content (hd (vs_messages (conv_serve ?x demo_said))) \<noteq> ms_content (hd (vs_messages demo_said))"
    using demo_chat_simps by blast
  then have "hd (vs_messages (conv_serve ?x demo_said)) \<noteq> hd (vs_messages demo_said)" by (rule contrapos_nn) (rule arg_cong)
  ultimately show "may_edit ?x (hd (vs_messages demo_said))" by (rule only_the_sender_changes_a_message)
  obtain err where "own_message (env_at 3) ''edit'' 2 2000 3000 demo_said = Inl err"
    using demo_chat_simps by (cases "own_message (env_at 3) ''edit'' 2 2000 3000 demo_said") auto
  then show "vs_messages (conv_serve (VEdit (env_at 3) 2 2000 3000 demo_edit) demo_said) = vs_messages demo_said"
    by (simp add: UpdateMessage_def)
qed

section \<open>Sending twice\<close>

lemma keys_persist:
  assumes "messages_unique s" "m \<in> set (vs_messages s)"
  shows "\<exists>m'\<in>set (vs_messages (fold conv_serve xs s)). msg_key m' = msg_key m"
  using assms
proof (induction xs arbitrary: s m)
  case (Cons x xs)
  have "msg_key m \<in> set (map msg_key (vs_messages (conv_serve x s)))"
    using conv_serve_keys [OF Cons.prems(1), of x]
  proof (elim disjE exE conjE)
    assume k: "map msg_key (vs_messages (conv_serve x s)) = map msg_key (vs_messages s)"
    have "msg_key m \<in> set (map msg_key (vs_messages s))" using Cons.prems(2) by simp
    then show ?thesis by (simp only: k)
  qed (use Cons.prems(2) in simp)
  then obtain m' where "m' \<in> set (vs_messages (conv_serve x s))" "msg_key m' = msg_key m" by auto
  with Cons.IH [OF messages_unique_serve [OF Cons.prems(1)], of m' x] show ?case by simp
qed auto

lemma messages_unique_fold: "messages_unique s \<Longrightarrow> messages_unique (fold conv_serve xs s)"
  by (induction xs arbitrary: s) (auto simp: messages_unique_serve)

lemma sorted_wrt_clash:
  "sorted_wrt (\<lambda>m x. \<not> ms_clash m x) t \<Longrightarrow> m \<in> set t \<Longrightarrow> x \<in> set t \<Longrightarrow> ms_sender_id x = ms_sender_id m
   \<Longrightarrow> ms_client_event_id x = ms_client_event_id m \<Longrightarrow> ms_client_event_id m \<noteq> '''' \<Longrightarrow> x = m"
  by (induction t) (auto simp: ms_clash_def)

lemma SendMessage_Inr:
  assumes "SendMessage E u req s = (Inr (m, ps), s')" "sm_client_event_id req \<noteq> ''''"
  shows "m \<in> set (vs_messages s') \<and> ms_sender_id m = u \<and> ms_client_event_id m = sm_client_event_id req"
proof (cases "FindMessageByClientEventID E u (sm_client_event_id req) s")
  case (Inr x)
  then have "x \<in> set (vs_messages s) \<and> ms_sender_id x = u \<and> ms_client_event_id x = sm_client_event_id req"
    by (auto simp: FindMessageByClientEventID_def db_first_def dest: first_by_Some split: if_splits option.splits)
  with assms Inr show ?thesis by (auto simp: SendMessage_def split: sum.splits if_splits)
next
  case (Inl e)
  with assms have "send_new E u req s = (Inr (m, ps), s')" by (auto simp: SendMessage_def split: if_splits)
  then show ?thesis
    by (auto simp: send_new_def CreateMessage_def db_insert_def new_message_def Let_def split: sum.splits if_splits)
qed

text \<open>
  Sending can be retried: once a message with a client event identifier was accepted, sending it again
  after any requests answers with the same message and writes nothing, as long as the sender is still a
  participant and the database answers. The message may have been edited in the meantime.
\<close>

theorem sending_is_idempotent:
  assumes "messages_unique s" "SendMessage E u req s = (Inr (m, ps), s1)" "sm_client_event_id req \<noteq> ''''"
    "t = fold conv_serve xs s1" "no_faults E'" "role_of (sm_conversation_id req) u t \<noteq> None"
  shows "\<exists>m' ps'. SendMessage E' u req t = (Inr (m', ps'), t) \<and> msg_key m' = msg_key m"
proof -
  have u1: "messages_unique s1" using messages_unique_serve [OF assms(1), of "VSend E u req"] assms(2) by simp
  note m = SendMessage_Inr [OF assms(2,3)]
  obtain m' where m': "m' \<in> set (vs_messages t)" "msg_key m' = msg_key m"
    using keys_persist [OF u1] m assms(4) by blast
  have ut: "messages_unique t" using messages_unique_fold [OF u1] assms(4) by simp
  have k: "ms_sender_id m' = u" "ms_client_event_id m' = sm_client_event_id req"
    using m m'(2) by (simp_all add: msg_key_def)
  have "sorted_wrt (\<lambda>m x. \<not> ms_clash m x) (vs_messages t)" using ut by (simp add: messages_unique_def)
  then have "first_by ms_id (\<lambda>x. ms_sender_id x = u \<and> ms_client_event_id x = sm_client_event_id req) (vs_messages t) = Some m'"
    using m'(1) k assms(3) by (intro first_by_unique) (auto intro: sorted_wrt_clash)
  then have f: "FindMessageByClientEventID E' u (sm_client_event_id req) t = Inr m'"
    using assms(5) by (simp add: FindMessageByClientEventID_def db_first_def)
  have "list_ex (is_part (sm_conversation_id req) u) (vs_parts t)" using assms(6) by (simp add: find_is_part)
  then have "IsParticipant E' (sm_conversation_id req) u t = Inr True"
    using assms(5) by (auto simp: IsParticipant_def db_count_def count_where_def list_ex_iff filter_empty_conv)
  moreover obtain ps' where "GetParticipants E' (ms_conversation_id m') t = Inr ps'"
    using assms(5) by (simp add: GetParticipants_def db_find_def)
  ultimately have "SendMessage E' u req t = (Inr (m', ps'), t)" using f assms(3) by (simp add: SendMessage_def)
  with m'(2) show ?thesis by blast
qed

theorem sending_is_idempotent_witness:
  "\<exists>m' ps'. SendMessage (env_at 5) 1 (demo_send ''k'') (fold conv_serve [VEdit (env_at 3) 1 2000 3000 demo_edit] demo_said)
      = (Inr (m', ps'), fold conv_serve [VEdit (env_at 3) 1 2000 3000 demo_edit] demo_said)
     \<and> msg_key m' = msg_key (hd (vs_messages demo_said))"
proof -
  have ok: "succeeds (fst (SendMessage (env_at 2) 1 (demo_send ''k'') demo_chat))" using demo_chat_simps by blast
  obtain m ps where sent: "SendMessage (env_at 2) 1 (demo_send ''k'') demo_chat = (Inr (m, ps), demo_said)"
    using succeeds_pair [OF ok] unfolding demo_said_def conv_serve.simps by (metis surj_pair)
  have "messages_unique demo_chat" using demo_chat_simps by blast
  moreover have "sm_client_event_id (demo_send ''k'') \<noteq> ''''" by (simp add: demo_send_def)
  moreover have "no_faults (env_at 5)" by (simp add: no_faults_def env_at_def env0_def)
  moreover have "role_of (sm_conversation_id (demo_send ''k'')) 1
      (fold conv_serve [VEdit (env_at 3) 1 2000 3000 demo_edit] demo_said) \<noteq> None"
    using demo_chat_simps by (simp add: demo_send_def del: conv_serve.simps)
  ultimately obtain m' ps' where r: "SendMessage (env_at 5) 1 (demo_send ''k'') (fold conv_serve [VEdit (env_at 3) 1 2000 3000 demo_edit] demo_said)
      = (Inr (m', ps'), fold conv_serve [VEdit (env_at 3) 1 2000 3000 demo_edit] demo_said)" "msg_key m' = msg_key m"
    using sending_is_idempotent [OF _ sent _ refl] by blast
  have "m \<in> set (vs_messages demo_said)" using SendMessage_Inr [OF sent] by (simp add: demo_send_def)
  moreover have "length (vs_messages demo_said) = 1" using demo_chat_simps by blast
  ultimately have "hd (vs_messages demo_said) = m" by (auto simp: length_Suc_conv)
  with r have "msg_key m' = msg_key (hd (vs_messages demo_said))" by simp
  with r(1) show ?thesis by (intro exI conjI)
qed

section \<open>Every participant is told\<close>

text \<open>The next \<open>k\<close> identifiers from the \<open>n\<close>-th on are new and differ.\<close>

definition fresh_run :: "(nat \<Rightarrow> uuid) \<Rightarrow> nat \<Rightarrow> nat \<Rightarrow> uuid list \<Rightarrow> bool" where
  "fresh_run f n k used \<longleftrightarrow> distinct (map f [n..<n + k] @ used)"

lemma fresh_run_Suc:
  "fresh_run f n (Suc k) used \<longleftrightarrow> f n \<notin> set used \<and> f n \<notin> f ` {n + 1..<n + 1 + k} \<and> fresh_run f (n + 1) k used"
proof -
  have "[n..<n + Suc k] = n # [n + 1..<n + 1 + k]" by (simp add: upt_conv_Cons del: upt_Suc)
  then show ?thesis unfolding fresh_run_def by (auto simp only: list.map append_Cons distinct.simps set_append set_map set_upt Un_iff)
qed

lemma fresh_run_used: "fresh_run f n (Suc k) used \<Longrightarrow> fresh_run f (n + 1) k (used @ [f n])"
  unfolding fresh_run_Suc by (auto simp: fresh_run_def)

lemma fresh_run_le: "fresh_run f n k used \<Longrightarrow> j \<le> k \<Longrightarrow> fresh_run f n j used"
proof -
  assume a: "fresh_run f n k used" "j \<le> k"
  obtain d where d: "k = j + d" using a(2) le_Suc_ex by blast
  have "[n..<n + k] = [n..<n + j] @ [n + j..<n + k]"
    using upt_add_eq_append [of n "n + j" d] by (simp add: d add.assoc)
  with a(1) show ?thesis by (auto simp: fresh_run_def)
qed

definition fresh_ids :: "env \<Rightarrow> nat \<Rightarrow> nat \<Rightarrow> sync_state \<Rightarrow> bool" where
  "fresh_ids E n k s \<longleftrightarrow> fresh_run (e_uuid E ''sync_events'') n k (map ev_id (ss_events s))"

lemma seq_room_other:
  assumes "sync_inv s" "seq_room v s" "v \<noteq> en_user_id en"
  shows "seq_room v (snd (RecordEnvelope E n en s))"
proof -
  have oc: "one_counter (ss_seqs s)" using assms(1) by (simp add: sync_inv_def)
  obtain r s' where rs: "RecordEnvelope E n en s = (r, s')" by fastforce
  obtain s1 where s1: "recordEnvelopeWithRepo E n en s = (r, s1)" "ss_seqs s' = ss_seqs s1"
    using RecordEnvelope_tables [OF rs] by blast
  from s1(1) have "next_seq v (ss_seqs s') = next_seq v (ss_seqs s)"
    using assms(3) by (cases rule: recordEnvelopeWithRepo_cases) (auto simp: s1(2) next_seq_GetNext [OF oc])
  with assms(2) rs show ?thesis by (simp add: seq_room_def)
qed

lemma record_for_appends: "\<exists>es. ss_events (record_for E n mk us s) = ss_events s @ es"
proof (induction us arbitrary: n s)
  case (Cons u us)
  obtain es where "ss_events (snd (RecordEnvelope E n (mk u) s)) = ss_events s @ es" using RecordEnvelope_appends by blast
  with Cons.IH [of "n + 1" "snd (RecordEnvelope E n (mk u) s)"] show ?case by auto
qed simp

text \<open>When nothing fails and the envelope of each user is new to that user, each user gets an event.\<close>

lemma record_for_reaches:
  assumes "no_faults E" "sync_inv s" "fresh_ids E n (length us) s" "distinct us"
    "\<And>u. en_user_id (mk u) = u" "\<And>u. BuildSyncEventType (en_object_type (mk u)) (en_operation (mk u)) = Inr t"
    "\<And>u. u \<in> set us \<Longrightarrow> no_key u (en_client_event_id (mk u)) s" "\<And>u. u \<in> set us \<Longrightarrow> seq_room u s" "v \<in> set us"
  shows "\<exists>e\<in>set (ss_events (record_for E n mk us s)). records_envelope e (mk v) \<and> ev_payload e = en_payload (mk v)"
  using assms
proof (induction us arbitrary: n s)
  case (Cons u us)
  let ?s = "snd (RecordEnvelope E n (mk u) s)"
  have fresh: "e_uuid E ''sync_events'' n \<notin> ev_id ` set (ss_events s)"
    using Cons.prems(3) by (simp add: fresh_ids_def fresh_run_Suc)
  obtain e where e: "ss_events ?s = ss_events s @ [e]" "records_envelope e (mk u)" "ev_payload e = en_payload (mk u)"
      "ev_id e = e_uuid E ''sync_events'' n"
    using RecordEnvelope_fresh_ok [OF Cons.prems(1,2) Cons.prems(6), of u n] Cons.prems(5,7) fresh by auto
  have ue: "ev_user_id e = u" using e(2) Cons.prems(5) by (simp add: records_envelope_def)
  show ?case
  proof (cases "v = u")
    case True
    obtain es where "ss_events (record_for E (n + 1) mk us ?s) = ss_events ?s @ es" using record_for_appends by blast
    with e True show ?thesis by auto
  next
    case False
    have "sync_inv ?s" using Cons.prems(2,5,8) by (intro sync_inv_RecordEnvelope) simp_all
    moreover have "fresh_ids E (n + 1) (length us) ?s"
      using Cons.prems(3) fresh_run_used [of "e_uuid E ''sync_events''" n "length us" "map ev_id (ss_events s)"] e(1,4)
      by (simp add: fresh_ids_def)
    moreover have "no_key w (en_client_event_id (mk w)) ?s" if "w \<in> set us" for w
      using Cons.prems(4) Cons.prems(7) [of w] that e(1) ue by (auto simp: no_key_def)
    moreover have "seq_room w ?s" if "w \<in> set us" for w
      using seq_room_other [OF Cons.prems(2), of w "mk u"] Cons.prems(4,5) Cons.prems(8) [of w] that by auto
    ultimately have "\<exists>e\<in>set (ss_events (record_for E (n + 1) mk us ?s)). records_envelope e (mk v) \<and> ev_payload e = en_payload (mk v)"
      using Cons.prems(1,4,5,6,9) False by (intro Cons.IH) simp_all
    then show ?thesis by simp
  qed
qed simp

text \<open>The sync tables are ready for the events of one request about conversation \<open>c\<close>.\<close>

definition sync_ready :: "env \<Rightarrow> uuid \<Rightarrow> string \<Rightarrow> conv_state \<Rightarrow> bool" where
  "sync_ready E c ceid s \<longleftrightarrow> sync_inv (vs_sync s) \<and> fresh_ids E 0 (length (vs_parts s)) (vs_sync s)
     \<and> list_all (\<lambda>p. pt_conversation_id p = c \<longrightarrow> no_key (pt_user_id p) ceid (vs_sync s) \<and> seq_room (pt_user_id p) (vs_sync s))
         (vs_parts s)"

lemma send_new_Inr:
  assumes "SendMessage E u req s = (Inr (m, ps), s')" "m \<notin> set (vs_messages s)"
  shows "ps = filter (\<lambda>p. pt_conversation_id p = sm_conversation_id req) (vs_parts s)
    \<and> vs_sync s' = record_for E 0 (message_envelope E m ''created'' (sm_client_event_id req)) (map pt_user_id ps) (vs_sync s)"
proof -
  have "send_new E u req s = (Inr (m, ps), s')"
  proof (cases "if sm_client_event_id req \<noteq> '''' then FindMessageByClientEventID E u (sm_client_event_id req) s
                 else Inl ErrRecordNotFound")
    case (Inr x)
    then have "x \<in> set (vs_messages s)"
      by (auto simp: FindMessageByClientEventID_def db_first_def dest: first_by_Some split: if_splits option.splits)
    with Inr assms show ?thesis by (auto simp: SendMessage_def split: sum.splits if_splits)
  qed (use assms(1) in \<open>auto simp: SendMessage_def split: if_splits\<close>)
  then show ?thesis
    by (auto simp: send_new_def CreateMessage_def db_insert_def GetParticipants_def db_find_def recordMessageSyncEvents_def Let_def
        split: sum.splits if_splits)
qed

text \<open>
  Every participant is told of a new message: when the database answers, the event numbers last and no
  participant's log has an event with the client event identifier yet, then after sending each
  participant's log has an event that carries the message.
\<close>

theorem message_reaches_every_participant:
  assumes "no_faults E" "parts_unique s" "sync_ready E (sm_conversation_id req) (sm_client_event_id req) s"
    "SendMessage E u req s = (Inr (m, ps), s')" "m \<notin> set (vs_messages s)"
    "p \<in> set (vs_parts s)" "pt_conversation_id p = sm_conversation_id req"
  shows "\<exists>e\<in>set (ss_events (vs_sync s')).
    records_envelope e (message_envelope E m ''created'' (sm_client_event_id req) (pt_user_id p))
    \<and> ev_payload e = Some (messageSyncPayload E m)"
proof -
  let ?mk = "message_envelope E m ''created'' (sm_client_event_id req)"
  note t = send_new_Inr [OF assms(4,5)]
  have "distinct (map part_key ps)" using assms(2) t by (simp add: parts_unique_def distinct_map_filter)
  moreover have "map pt_user_id ps = map snd (map part_key ps)" by (simp add: part_key_def)
  moreover have "inj_on snd (set (map part_key ps))" using t by (auto simp: inj_on_def part_key_def)
  ultimately have d: "distinct (map pt_user_id ps)" by (simp only: distinct_map [of snd "map part_key ps"])
  have "length ps \<le> length (vs_parts s)" using t by simp
  then have f: "fresh_ids E 0 (length (map pt_user_id ps)) (vs_sync s)"
    using assms(3) by (auto simp: sync_ready_def fresh_ids_def intro: fresh_run_le)
  have "\<exists>e\<in>set (ss_events (record_for E 0 ?mk (map pt_user_id ps) (vs_sync s))).
      records_envelope e (?mk (pt_user_id p)) \<and> ev_payload e = en_payload (?mk (pt_user_id p))"
  proof (rule record_for_reaches [OF assms(1) _ f d])
    show "BuildSyncEventType (en_object_type (?mk v)) (en_operation (?mk v)) = Inr ''message.created''" for v
      unfolding message_envelope_def by simp code_simp
    show "no_key v (en_client_event_id (?mk v)) (vs_sync s)" "seq_room v (vs_sync s)" if "v \<in> set (map pt_user_id ps)" for v
      using assms(3) that t by (auto simp: sync_ready_def list_all_iff message_envelope_def)
    show "pt_user_id p \<in> set (map pt_user_id ps)" using assms(6,7) t by auto
  qed (use assms(3) in \<open>simp_all add: sync_ready_def message_envelope_def\<close>)
  with t show ?thesis by (simp add: message_envelope_def)
qed

theorem message_reaches_every_participant_witness:
  "\<exists>m. \<exists>e\<in>set (ss_events (vs_sync demo_said)).
     records_envelope e (message_envelope (env_at 2) m ''created'' ''k'' 3) \<and> ev_payload e = Some (messageSyncPayload (env_at 2) m)"
proof -
  let ?p = "vs_parts demo_chat ! 2"
  have ok: "succeeds (fst (SendMessage (env_at 2) 1 (demo_send ''k'') demo_chat))" using demo_chat_simps by blast
  obtain m ps where sent: "SendMessage (env_at 2) 1 (demo_send ''k'') demo_chat = (Inr (m, ps), demo_said)"
    using succeeds_pair [OF ok] unfolding demo_said_def conv_serve.simps by (metis surj_pair)
  have "no_faults (env_at 2)" by (simp add: no_faults_def env_at_def env0_def)
  moreover have "parts_unique demo_chat" using demo_chat_simps by blast
  moreover have "sync_ready (env_at 2) 2000 ''k'' demo_chat" by code_simp
  moreover have "length (vs_messages demo_chat) = 0" using demo_chat_simps by blast
  then have "m \<notin> set (vs_messages demo_chat)" by simp
  moreover have "2 < length (vs_parts demo_chat)" using demo_chat_simps by blast
  then have "?p \<in> set (vs_parts demo_chat)" by (rule nth_mem)
  moreover have "pt_conversation_id ?p = 2000" "pt_user_id ?p = 3" using demo_chat_simps by blast+
  ultimately have "\<exists>e\<in>set (ss_events (vs_sync demo_said)).
     records_envelope e (message_envelope (env_at 2) m ''created'' (sm_client_event_id (demo_send ''k'')) (pt_user_id ?p))
     \<and> ev_payload e = Some (messageSyncPayload (env_at 2) m)"
    using sent by (intro message_reaches_every_participant) (simp_all add: demo_send_def)
  with \<open>pt_user_id ?p = 3\<close> show ?thesis by (intro exI [of _ m]) (simp add: demo_send_def)
qed

section \<open>Offline copies\<close>

text \<open>The copies a delivery should leave: one for each device, not connected, of every participant but the
  sender, in order.\<close>

definition offline_targets :: "message \<Rightarrow> uuid list \<Rightarrow> string list \<Rightarrow> id_state \<Rightarrow> (uuid \<times> string) list" where
  "offline_targets msg us online ids =
     concat (map (\<lambda>u. map (\<lambda>d. (u, dv_device_id d))
         (filter (\<lambda>d. dv_device_id d \<notin> set online)
            (sort_key (\<lambda>x. - dv_paired_at x) (filter (\<lambda>x. dv_user_id x = u) (is_devices ids)))))
       (filter (\<lambda>u. u \<noteq> ms_sender_id msg) us))"

definition offline_key :: "offline_message \<Rightarrow> uuid \<times> string" where
  "offline_key w = (om_user_id w, om_device_id w)"

definition fresh_offline :: "env \<Rightarrow> nat \<Rightarrow> nat \<Rightarrow> conv_state \<Rightarrow> bool" where
  "fresh_offline E n k s \<longleftrightarrow> fresh_run (e_uuid E ''offline_messages'') n k (map om_id (vs_offline s))"

definition copies_of :: "message \<Rightarrow> (uuid \<times> string) list \<Rightarrow> offline_message list \<Rightarrow> bool" where
  "copies_of msg ks ws \<longleftrightarrow> map offline_key ws = ks
     \<and> list_all (\<lambda>w. om_message_id w = ms_id msg \<and> \<not> om_delivered w) ws"

definition offline_of :: "uuid \<Rightarrow> string list \<Rightarrow> device list \<Rightarrow> (uuid \<times> string) list" where
  "offline_of u online ds = map (\<lambda>d. (u, dv_device_id d)) (filter (\<lambda>d. dv_device_id d \<notin> set online) ds)"

lemma save_offline_devices_ok:
  assumes "no_faults E" "fresh_offline E n (length (offline_of u online ds) + k) s"
  shows "\<exists>ws n' s'. save_offline_devices E n msg u online ds s = (n', s') \<and> vs_offline s' = vs_offline s @ ws
      \<and> copies_of msg (offline_of u online ds) ws \<and> fresh_offline E n' k s'"
  using assms
proof (induction ds arbitrary: n s)
  case (Cons d ds)
  show ?case
  proof (cases "dv_device_id d \<in> set online")
    case False
    let ?w = "\<lparr>om_id = e_uuid E ''offline_messages'' n, om_created_at = e_now E, om_user_id = u,
                  om_device_id = dv_device_id d, om_message_id = ms_id msg, om_delivered = False\<rparr>"
    let ?s = "s\<lparr>vs_offline := vs_offline s @ [?w]\<rparr>"
    have f: "fresh_run (e_uuid E ''offline_messages'') n (Suc (length (offline_of u online ds) + k)) (map om_id (vs_offline s))"
      using Cons.prems(2) False by (simp add: fresh_offline_def offline_of_def)
    then have "e_uuid E ''offline_messages'' n \<notin> set (map om_id (vs_offline s))" unfolding fresh_run_Suc by blast
    then have "\<not> list_ex (\<lambda>x. om_id x = om_id ?w) (vs_offline s)" by (auto simp: list_ex_iff image_iff)
    then have "SaveOfflineMessage E n ?w s = Inr ?s"
      using Cons.prems(1) by (simp add: SaveOfflineMessage_def db_insert_def)
    moreover have "fresh_offline E (n + 1) (length (offline_of u online ds) + k) ?s"
      using fresh_run_used [OF f] by (simp add: fresh_offline_def)
    from Cons.IH [OF Cons.prems(1) this] obtain ws n' s' where
      "save_offline_devices E (n + 1) msg u online ds ?s = (n', s')" "vs_offline s' = vs_offline ?s @ ws"
      "copies_of msg (offline_of u online ds) ws" "fresh_offline E n' k s'" by blast
    ultimately show ?thesis using False
      by (intro exI [of _ "?w # ws"]) (simp add: copies_of_def offline_key_def offline_of_def)
  qed (use Cons in \<open>auto simp: offline_of_def\<close>)
qed (simp add: copies_of_def offline_of_def)

lemma save_offline_users_ok:
  assumes "no_faults E" "fresh_offline E n (length (offline_targets msg us online ids)) s"
  shows "\<exists>ws. vs_offline (save_offline_users E k n msg us online ids s) = vs_offline s @ ws
      \<and> copies_of msg (offline_targets msg us online ids) ws"
  using assms
proof (induction us arbitrary: k n s)
  case (Cons u us)
  show ?case
  proof (cases "u = ms_sender_id msg")
    case False
    let ?ds = "sort_key (\<lambda>x. - dv_paired_at x) (filter (\<lambda>x. dv_user_id x = u) (is_devices ids))"
    have g: "GetUserDevices E k u ids = Inr ?ds" using Cons.prems(1) by (simp add: GetUserDevices_def db_find_def)
    have t: "offline_targets msg (u # us) online ids = offline_of u online ?ds @ offline_targets msg us online ids"
      using False by (simp add: offline_targets_def offline_of_def)
    then have "fresh_offline E n (length (offline_of u online ?ds) + length (offline_targets msg us online ids)) s"
      using Cons.prems(2) by simp
    from save_offline_devices_ok [OF Cons.prems(1) this, of msg] obtain ws n' s' where
      d: "save_offline_devices E n msg u online ?ds s = (n', s')" "vs_offline s' = vs_offline s @ ws"
        "copies_of msg (offline_of u online ?ds) ws" "fresh_offline E n' (length (offline_targets msg us online ids)) s'" by blast
    obtain ws' where "vs_offline (save_offline_users E (k + 1) n' msg us online ids s') = vs_offline s' @ ws'"
      "copies_of msg (offline_targets msg us online ids) ws'"
      using Cons.IH [OF Cons.prems(1) d(4)] by blast
    with d(1-3) g t False show ?thesis
      by (intro exI [of _ "ws @ ws'"]) (simp add: copies_of_def)
  qed (use Cons in \<open>auto simp: offline_targets_def\<close>)
qed (simp add: copies_of_def offline_targets_def)

text \<open>
  Offline delivery is exact: when the database answers, storing the offline copies of a message adds
  one undelivered copy for each device that is not connected, of each participant but the sender, in
  the order of participants and of their devices, and nothing else.
\<close>

theorem offline_copies_are_exact:
  assumes "no_faults E" "fresh_offline E 0 (length (offline_targets msg (map pt_user_id ps) online ids)) s"
  shows "\<exists>ws. vs_offline (SaveOfflineMessages E msg ps online ids s) = vs_offline s @ ws
     \<and> copies_of msg (offline_targets msg (map pt_user_id ps) online ids) ws"
  using save_offline_users_ok [OF assms] by (simp add: SaveOfflineMessages_def)

definition demo_devices :: id_state where
  "demo_devices = id_init\<lparr>is_devices := map (\<lambda>(i, u, d). \<lparr>dv_id = i, dv_user_id = u, dv_device_id = d, dv_device_name = '''',
     dv_pubkey = '''', dv_status = ''active'', dv_paired_at = 0, dv_last_seen_at = None, dv_revoked_at = None,
     dv_revoked_by = None\<rparr>) [(1, 1, ''a''), (2, 2, ''b''), (3, 2, ''c''), (4, 3, ''d'')]\<rparr>"

theorem offline_copies_are_exact_witness:
  "\<exists>ws. vs_offline (SaveOfflineMessages (env_at 4) (hd (vs_messages demo_said)) (vs_parts demo_said) [''b''] demo_devices demo_said)
       = vs_offline demo_said @ ws
     \<and> copies_of (hd (vs_messages demo_said)) [(2, ''c''), (3, ''d'')] ws"
proof -
  have t: "offline_targets (hd (vs_messages demo_said)) (map pt_user_id (vs_parts demo_said)) [''b''] demo_devices
      = [(2, ''c''), (3, ''d'')]" by code_simp
  have "no_faults (env_at 4)" by (simp add: no_faults_def env_at_def env0_def)
  moreover have "fresh_offline (env_at 4) 0 2 demo_said" by code_simp
  then have "fresh_offline (env_at 4) 0
      (length (offline_targets (hd (vs_messages demo_said)) (map pt_user_id (vs_parts demo_said)) [''b''] demo_devices)) demo_said"
    by (simp add: t numeral_2_eq_2)
  ultimately show ?thesis using offline_copies_are_exact by (simp only: t [symmetric])
qed

section \<open>Two gaps\<close>

text \<open>The event log of a user has one event for each client event identifier, whoever chose it. A second
  sender who reuses the identifier of a message hides his message from the logs that have the first.\<close>

definition demo_hidden :: conv_state where
  "demo_hidden = conv_serve (VSend (env_at 3) 2 (demo_send ''k'')) demo_said"

theorem reused_event_id_hides_a_message:
  "let s = demo_hidden
   in map ms_id (vs_messages s) = [3000, 4000]
      \<and> map ev_object_id (filter (\<lambda>e. ev_object_type e = ''message'') (ss_events (vs_sync s))) = [''3000'', ''3000'', ''3000'']"
  by code_simp

text \<open>The metadata a message type requires is checked when it is sent and not when it is edited.\<close>

definition demo_image :: send_message_request where
  "demo_image = (demo_send '''')\<lparr>sm_type := ''image'', sm_metadata := Some [(''object_id'', AStr ''o'')]\<rparr>"

definition demo_bare :: conv_state where
  "demo_bare = conv_serve (VEdit (env_at 3) 1 2000 3000 demo_edit) (conv_serve (VSend (env_at 2) 1 demo_image) demo_chat)"

theorem edit_drops_required_metadata:
  "let ms = vs_messages demo_bare
   in map ms_type ms = [''image''] \<and> map ms_metadata ms = [Some []] \<and> \<not> succeeds (validateMessageMetadata ''image'' [])"
  by code_simp

text \<open>Asked for a conversation with himself, a user gets one with somebody else.\<close>

definition demo_private :: "uuid \<Rightarrow> create_conversation_request" where
  "demo_private u = \<lparr>cq_type = ''private'', cq_name = '''', cq_participant_ids = [u], cq_geo_lat = None,
     cq_geo_lng = None, cq_geo_radius = None\<rparr>"

theorem note_to_self_opens_other_chat:
  "let s = conv_serve (VCreate (env_at 1) 1 (demo_private 2)) conv_init;
       r = fst (CreateConversation (env_at 2) 1 (demo_private 1) s)
   in map pt_user_id (vs_parts s) = [1, 2] \<and> succeeds r \<and> cv_id (projr r) = 2000"
  by code_simp

end
