(* ===== verification/Knowledge.thy ===== *)
theory Knowledge
  imports Sync "HOL-Library.List_Lexorder" "HOL-Library.Char_ord"
begin

text \<open>
  Knowledge entries (\<open>internal/service/knowledge_entries.go\<close> over
  \<open>internal/repository/knowledge_entries_repo.go\<close>): versioned documents of a user, changed under an
  optional base version, each change in one transaction with its sync event. The server always builds
  the service with a sync service.
\<close>

section \<open>State\<close>

record knowledge_entry =
  kn_id :: uuid
  kn_created_at :: time
  kn_updated_at :: time
  kn_user_id :: uuid
  kn_entry_id :: string
  kn_title :: string
  kn_content :: string
  kn_summary :: string
  kn_tags :: "string list option"
  kn_metadata :: json_map
  kn_source_uri :: string
  kn_status :: string
  kn_version :: int
  kn_content_hash :: string
  kn_deleted_at :: "time option"
  kn_updated_by_device_id :: string

record know_state =
  ns_entries :: "knowledge_entry list"
  ns_sync :: sync_state

definition know_init :: know_state where
  "know_init = \<lparr>ns_entries = [], ns_sync = sync_init\<rparr>"

section \<open>Repository\<close>

definition kn_is :: "uuid \<Rightarrow> string \<Rightarrow> knowledge_entry \<Rightarrow> bool" where
  "kn_is u i e \<longleftrightarrow> kn_user_id e = u \<and> kn_entry_id e = i"

definition ListEntries :: "env \<Rightarrow> uuid \<Rightarrow> bool \<Rightarrow> know_state \<Rightarrow> knowledge_entry list result" where
  "ListEntries E u includeDeleted s =
     (case db_find E ''ListByUser'' 0 (\<lambda>e. kn_user_id e = u \<and> (includeDeleted \<or> kn_status e = ''active'')) (ns_entries s) of
        Inl e \<Rightarrow> Inl e | Inr es \<Rightarrow> Inr (sort_key kn_entry_id es))"

definition GetByEntryID :: "env \<Rightarrow> nat \<Rightarrow> uuid \<Rightarrow> string \<Rightarrow> bool \<Rightarrow> know_state \<Rightarrow> knowledge_entry result" where
  "GetByEntryID E n u i includeDeleted s =
     db_first E ''GetByEntryID'' n kn_id (\<lambda>e. kn_is u i e \<and> (includeDeleted \<or> kn_status e = ''active'')) (ns_entries s)"

definition CreateEntry_repo :: "env \<Rightarrow> knowledge_entry \<Rightarrow> know_state \<Rightarrow> know_state result" where
  "CreateEntry_repo E e s =
     (case db_insert E ''CreateEntry'' 0 (\<lambda>e x. kn_id x = kn_id e \<or> kn_is (kn_user_id e) (kn_entry_id e) x) e (ns_entries s) of
        Inl e \<Rightarrow> Inl e | Inr t \<Rightarrow> Inr (s\<lparr>ns_entries := t\<rparr>))"

definition kn_live :: "uuid \<Rightarrow> string \<Rightarrow> knowledge_entry \<Rightarrow> bool" where
  "kn_live u i e \<longleftrightarrow> kn_is u i e \<and> kn_status e = ''active''"

definition kn_overflow :: "uuid \<Rightarrow> string \<Rightarrow> know_state \<Rightarrow> bool" where
  "kn_overflow u i s \<longleftrightarrow> list_ex (\<lambda>e. kn_live u i e \<and> max_bigint \<le> kn_version e) (ns_entries s)"

text \<open>The number of rows updated is not looked at.\<close>

definition UpdateActive :: "env \<Rightarrow> knowledge_entry \<Rightarrow> know_state \<Rightarrow> know_state result" where
  "UpdateActive E n s =
     (if kn_overflow (kn_user_id n) (kn_entry_id n) s then Inl (ErrDB ''UpdateActive'')
      else case db_update E ''UpdateActive'' 0 (kn_live (kn_user_id n) (kn_entry_id n))
             (\<lambda>e. e\<lparr>kn_title := kn_title n, kn_content := kn_content n, kn_summary := kn_summary n, kn_tags := kn_tags n,
                    kn_metadata := kn_metadata n, kn_source_uri := kn_source_uri n, kn_version := kn_version e + 1,
                    kn_content_hash := kn_content_hash n, kn_updated_by_device_id := kn_updated_by_device_id n,
                    kn_updated_at := e_now E\<rparr>) (ns_entries s) of
             Inl e \<Rightarrow> Inl e | Inr t \<Rightarrow> Inr (s\<lparr>ns_entries := t\<rparr>))"

text \<open>\<open>Tombstone\<close> looks only at the number of rows, which is zero when the statement fails.\<close>

definition Tombstone :: "env \<Rightarrow> uuid \<Rightarrow> string \<Rightarrow> string \<Rightarrow> string \<Rightarrow> time \<Rightarrow> know_state \<Rightarrow> know_state result" where
  "Tombstone E u i d hash deletedAt s =
     (if e_db E ''Tombstone'' 0 \<or> kn_overflow u i s \<or> count_where (kn_live u i) (ns_entries s) = 0 then Inl ErrRecordNotFound
      else Inr (s\<lparr>ns_entries := upd_where (kn_live u i)
             (\<lambda>e. e\<lparr>kn_status := ''deleted'', kn_version := kn_version e + 1, kn_content_hash := hash,
                    kn_deleted_at := Some deletedAt, kn_updated_by_device_id := d, kn_updated_at := deletedAt\<rparr>) (ns_entries s)\<rparr>))"

section \<open>Service\<close>

record knowledge_input =
  kx_entry_id :: string
  kx_title :: string
  kx_content :: string
  kx_summary :: string
  kx_tags :: "string list option"
  kx_metadata :: "json_map option"
  kx_source_uri :: string
  kx_client_event_id :: string
  kx_base_version :: "int option"

definition GetEntry :: "env \<Rightarrow> uuid \<Rightarrow> string \<Rightarrow> bool \<Rightarrow> know_state \<Rightarrow> knowledge_entry result" where
  "GetEntry E u i includeDeleted s =
     (case GetByEntryID E 0 u (trim i) includeDeleted s of
        Inl e \<Rightarrow> if e = ErrRecordNotFound then Inl ErrKnowledgeEntryNotFound else Inl e
      | Inr x \<Rightarrow> Inr x)"

definition validateKnowledgeInput :: "knowledge_input \<Rightarrow> bool \<Rightarrow> unit result" where
  "validateKnowledgeInput input requireEntryID =
     (if requireEntryID \<and> trim (kx_entry_id input) = '''' then Inl (Errorf ''entry_id is required'')
      else if trim (kx_title input) = '''' then Inl (Errorf ''title is required'')
      else if trim (kx_content input) = '''' then Inl (Errorf ''content_markdown is required'')
      else Inr ())"

definition validateKnowledgeBaseVersion :: "int option \<Rightarrow> int \<Rightarrow> unit result" where
  "validateKnowledgeBaseVersion base current =
     (case base of
        None \<Rightarrow> Inr ()
      | Some b \<Rightarrow>
          if b \<noteq> current
          then Inl (Wrapf (''base_version '' @ int_dec b @ '' does not match current version '' @ int_dec current) ErrKnowledgeEntryConflict)
          else Inr ())"

definition knowledgeContentHash :: "env \<Rightarrow> string \<Rightarrow> string" where
  "knowledgeContentHash E content = e_sha256_hex E content"

definition knowledgeEntryPayload :: "knowledge_entry \<Rightarrow> json_map" where
  "knowledgeEntryPayload e =
     [(''object_id'', AStr (kn_entry_id e)), (''entry_id'', AStr (kn_entry_id e)), (''title'', AStr (kn_title e)),
      (''content_markdown'', AStr (kn_content e)), (''summary'', AStr (kn_summary e)),
      (''tags'', any_opt (\<lambda>ts. ASeq (map AStr ts)) (kn_tags e)), (''metadata'', AMap (kn_metadata e)),
      (''source_uri'', AStr (kn_source_uri e)), (''status'', AStr (kn_status e)), (''version'', AInt (kn_version e)),
      (''content_hash'', AStr (kn_content_hash e)), (''updated_by_device_id'', AStr (kn_updated_by_device_id e)),
      (''updated_at'', ATime (kn_updated_at e))]
     @ (case kn_deleted_at e of None \<Rightarrow> [] | Some t \<Rightarrow> [(''deleted_at'', ATime t)])"

definition knowledge_envelope :: "uuid \<Rightarrow> string \<Rightarrow> knowledge_entry \<Rightarrow> string \<Rightarrow> string \<Rightarrow> sync_envelope" where
  "knowledge_envelope u d e operation ceid =
     \<lparr>en_user_id = u, en_source_device_id = d, en_object_type = ''knowledge'', en_object_id = kn_entry_id e,
      en_operation = operation, en_client_event_id = ceid, en_payload = Some (knowledgeEntryPayload e)\<rparr>"

text \<open>The replay check: nothing, or the stored event and the entry, or an error.\<close>

definition idempotentKnowledgeReplay :: "env \<Rightarrow> uuid \<Rightarrow> string \<Rightarrow> string \<Rightarrow> string \<Rightarrow> string \<Rightarrow> know_state
    \<Rightarrow> (knowledge_entry \<times> sync_event) option result" where
  "idempotentKnowledgeReplay E u d i operation ceid s =
     (if ceid = '''' then Inr None
      else case GetEventByClientEventID E 0 u ceid (ns_sync s) of
             Inl _ \<Rightarrow> Inr None
           | Inr ev \<Rightarrow>
               if ev_object_type ev \<noteq> ''knowledge'' \<or> ev_object_id ev \<noteq> i \<or> ev_operation ev \<noteq> operation
                  \<or> ev_source_device_id ev \<noteq> d
               then Inl ErrSyncIdempotencyConflict
               else (case GetByEntryID E 0 u i True s of
                       Inl e \<Rightarrow> if e = ErrRecordNotFound then Inl ErrKnowledgeEntryNotFound else Inl e
                     | Inr entry \<Rightarrow> Inr (Some (entry, ev))))"

text \<open>The second half of the three transactions: read the entry back and record its event. An error rolls
  the transaction back, which the callers show by keeping the state they had.\<close>

definition finish_knowledge :: "env \<Rightarrow> uuid \<Rightarrow> string \<Rightarrow> string \<Rightarrow> string \<Rightarrow> string \<Rightarrow> know_state
    \<Rightarrow> (knowledge_entry \<times> sync_event \<times> know_state) result" where
  "finish_knowledge E u d i operation ceid s =
     (case GetByEntryID E 2 u i True s of
        Inl e \<Rightarrow> Inl (if operation = ''created'' then Wrapf ''get created knowledge entry'' e else e)
      | Inr entry \<Rightarrow>
          (case recordEnvelopeWithRepo E 1 (knowledge_envelope u d entry operation ceid) (ns_sync s) of
             (Inl e, _) \<Rightarrow> Inl e
           | (Inr ev, t) \<Rightarrow> Inr (entry, ev, s\<lparr>ns_sync := notifyDevices u d ev t\<rparr>)))"

definition CreateEntry :: "env \<Rightarrow> uuid \<Rightarrow> string \<Rightarrow> knowledge_input \<Rightarrow> know_state
    \<Rightarrow> (knowledge_entry \<times> sync_event) result \<times> know_state" where
  "CreateEntry E u d input s =
     (case validateKnowledgeInput input True of
        Inl e \<Rightarrow> (Inl e, s)
      | Inr _ \<Rightarrow>
          let i = trim (kx_entry_id input) in
          case idempotentKnowledgeReplay E u d i ''created'' (kx_client_event_id input) s of
            Inl e \<Rightarrow> (Inl e, s)
          | Inr (Some r) \<Rightarrow> (Inr r, s)
          | Inr None \<Rightarrow>
              let entry = \<lparr>kn_id = e_uuid E ''user_knowledge_entries'' 0, kn_created_at = e_now E, kn_updated_at = e_now E,
                    kn_user_id = u, kn_entry_id = i, kn_title = trim (kx_title input), kn_content = kx_content input,
                    kn_summary = kx_summary input, kn_tags = kx_tags input,
                    kn_metadata = (case kx_metadata input of None \<Rightarrow> [] | Some m \<Rightarrow> m),
                    kn_source_uri = kx_source_uri input, kn_status = ''active'', kn_version = 1,
                    kn_content_hash = knowledgeContentHash E (kx_content input), kn_deleted_at = None,
                    kn_updated_by_device_id = d\<rparr>
              in case CreateEntry_repo E entry s of
                   Inl e \<Rightarrow> (Inl (Wrapf ''create knowledge entry'' e), s)
                 | Inr s1 \<Rightarrow>
                     (case finish_knowledge E u d i ''created'' (kx_client_event_id input) s1 of
                        Inl e \<Rightarrow> (Inl e, s)
                      | Inr (x, ev, s2) \<Rightarrow> (Inr (x, ev), s2)))"

text \<open>What updating and deleting check before they write: the entry, not deleted, at the base version.\<close>

definition current_entry :: "env \<Rightarrow> uuid \<Rightarrow> string \<Rightarrow> int option \<Rightarrow> know_state \<Rightarrow> knowledge_entry result" where
  "current_entry E u i base s =
     (case GetByEntryID E 1 u i True s of
        Inl e \<Rightarrow> Inl (if e = ErrRecordNotFound then ErrKnowledgeEntryNotFound else e)
      | Inr x \<Rightarrow>
          if kn_status x = ''deleted'' then Inl ErrKnowledgeEntryDeleted
          else (case validateKnowledgeBaseVersion base (kn_version x) of Inl e \<Rightarrow> Inl e | Inr _ \<Rightarrow> Inr x))"

definition UpdateEntry :: "env \<Rightarrow> uuid \<Rightarrow> string \<Rightarrow> string \<Rightarrow> knowledge_input \<Rightarrow> know_state
    \<Rightarrow> (knowledge_entry \<times> sync_event) result \<times> know_state" where
  "UpdateEntry E u d entryID input s =
     (let i = trim entryID in
      if i = '''' then (Inl (Errorf ''entry_id is required''), s)
      else case validateKnowledgeInput input False of
        Inl e \<Rightarrow> (Inl e, s)
      | Inr _ \<Rightarrow>
          (case idempotentKnowledgeReplay E u d i ''updated'' (kx_client_event_id input) s of
             Inl e \<Rightarrow> (Inl e, s)
           | Inr (Some r) \<Rightarrow> (Inr r, s)
           | Inr None \<Rightarrow>
               (case current_entry E u i (kx_base_version input) s of
                  Inl e \<Rightarrow> (Inl e, s)
                | Inr _ \<Rightarrow>
                    let n = \<lparr>kn_id = uuid_nil, kn_created_at = 0, kn_updated_at = 0, kn_user_id = u, kn_entry_id = i,
                          kn_title = trim (kx_title input), kn_content = kx_content input, kn_summary = kx_summary input,
                          kn_tags = kx_tags input, kn_metadata = (case kx_metadata input of None \<Rightarrow> [] | Some m \<Rightarrow> m),
                          kn_source_uri = kx_source_uri input, kn_status = '''', kn_version = 0,
                          kn_content_hash = knowledgeContentHash E (kx_content input), kn_deleted_at = None,
                          kn_updated_by_device_id = d\<rparr>
                    in case UpdateActive E n s of
                         Inl e \<Rightarrow> (Inl (Wrapf ''update knowledge entry'' e), s)
                       | Inr s1 \<Rightarrow>
                           (case finish_knowledge E u d i ''updated'' (kx_client_event_id input) s1 of
                              Inl e \<Rightarrow> (Inl e, s)
                            | Inr (x, ev, s2) \<Rightarrow> (Inr (x, ev), s2)))))"

definition DeleteEntry :: "env \<Rightarrow> uuid \<Rightarrow> string \<Rightarrow> string \<Rightarrow> string \<Rightarrow> int option \<Rightarrow> know_state
    \<Rightarrow> (knowledge_entry \<times> sync_event) result \<times> know_state" where
  "DeleteEntry E u d entryID ceid base s =
     (let i = trim entryID in
      if i = '''' then (Inl (Errorf ''entry_id is required''), s)
      else case idempotentKnowledgeReplay E u d i ''deleted'' ceid s of
        Inl e \<Rightarrow> (Inl e, s)
      | Inr (Some r) \<Rightarrow> (Inr r, s)
      | Inr None \<Rightarrow>
          (case current_entry E u i base s of
             Inl e \<Rightarrow> (Inl e, s)
           | Inr x \<Rightarrow>
               (case Tombstone E u i d (knowledgeContentHash E (kn_content x)) (e_now E) s of
                  Inl e \<Rightarrow> (Inl (if e = ErrRecordNotFound then ErrKnowledgeEntryNotFound else e), s)
                | Inr s1 \<Rightarrow>
                    (case finish_knowledge E u d i ''deleted'' ceid s1 of
                       Inl e \<Rightarrow> (Inl e, s)
                     | Inr (y, ev, s2) \<Rightarrow> (Inr (y, ev), s2)))))"

end
