(* ===== verification/VersionedStore.thy ===== *)
theory VersionedStore
  imports SingleUse
begin

text \<open>
  What the versioned collections of a user promise: an abstract store of objects with a version, in
  which an object is put once, changed only at the version the client names, and never comes back once
  dropped. A service that refines it accepts at most one change for each version of an object.
\<close>

datatype 'c obj = Live int 'c | Dead int

fun obj_version :: "'c obj \<Rightarrow> int" where
  "obj_version (Live v c) = v"
| "obj_version (Dead v) = v"

datatype 'c change = Put 'c | Edit "int option" 'c | Drop "int option"

definition base_ok :: "int option \<Rightarrow> int \<Rightarrow> bool" where
  "base_ok b v \<longleftrightarrow> (case b of None \<Rightarrow> True | Some w \<Rightarrow> w = v)"

text \<open>One change of one object; \<open>None\<close> when the change is refused.\<close>

fun vstep :: "'c change \<Rightarrow> 'c obj option \<Rightarrow> 'c obj option" where
  "vstep (Put c) None = Some (Live 1 c)"
| "vstep (Edit b c) (Some (Live v d)) = (if base_ok b v then Some (Live (v + 1) c) else None)"
| "vstep (Drop b) (Some (Live v d)) = (if base_ok b v then Some (Dead (v + 1)) else None)"
| "vstep _ _ = None"

fun base_of :: "'c change \<Rightarrow> int option" where
  "base_of (Put c) = None"
| "base_of (Edit b c) = b"
| "base_of (Drop b) = b"

lemma vstep_version:
  assumes "vstep ch x = Some y"
  shows "(case x of None \<Rightarrow> obj_version y = 1 | Some z \<Rightarrow> obj_version y = obj_version z + 1 \<and> base_ok (base_of ch) (obj_version z))"
  using assms by (cases ch; cases x; cases "the x") (auto split: if_splits)

lemma vstep_Dead [simp]: "vstep ch (Some (Dead v)) = None"
  by (cases ch) auto

text \<open>The version of the object \<open>k\<close> in a store with the given view of its objects.\<close>

definition version_in :: "('s \<Rightarrow> 'k \<Rightarrow> 'c obj option) \<Rightarrow> 'k \<Rightarrow> 's \<Rightarrow> int option" where
  "version_in view k s = map_option obj_version (view s k)"

text \<open>A request with a base version, counted as a success when it changed its object. A repetition of an
  accepted request answers without changing anything and does not count.\<close>

definition based_attempt :: "('q \<Rightarrow> 's \<Rightarrow> 'e result \<times> 's) \<Rightarrow> ('s \<Rightarrow> 'k \<Rightarrow> 'c obj option) \<Rightarrow> ('q \<Rightarrow> 'k) \<Rightarrow> ('q \<Rightarrow> 'c change)
    \<Rightarrow> 'q \<Rightarrow> 's \<Rightarrow> unit result \<times> 's" where
  "based_attempt serve view target ch q s =
     (let s' = snd (serve q s)
      in (if base_of (ch q) \<noteq> None \<and> version_in view (target q) s' \<noteq> version_in view (target q) s then Inr ()
          else Inl (Errorf ''not applied''), s'))"

definition version_passed :: "('s \<Rightarrow> 'k \<Rightarrow> 'c obj option) \<Rightarrow> 'k \<times> int option \<Rightarrow> 's \<Rightarrow> bool" where
  "version_passed view kb s \<longleftrightarrow>
     (case (snd kb, version_in view (fst kb) s) of (Some b, Some v) \<Rightarrow> b < v | _ \<Rightarrow> False)"

locale versioned_store =
  fixes serve :: "'q \<Rightarrow> 's \<Rightarrow> 'e result \<times> 's"
    and view :: "'s \<Rightarrow> 'k \<Rightarrow> 'c obj option"
    and target :: "'q \<Rightarrow> 'k"
    and ch :: "'q \<Rightarrow> 'c change"
    and inv :: "'s \<Rightarrow> bool"
  assumes accepted: "inv s \<Longrightarrow> serve q s = (Inr r, s') \<Longrightarrow>
      s' = s \<or> (\<exists>x. vstep (ch q) (view s (target q)) = Some x \<and> view s' = (view s)(target q := Some x))"
    and refused: "inv s \<Longrightarrow> serve q s = (Inl e, s') \<Longrightarrow> s' = s"
    and inv_serve: "inv s \<Longrightarrow> inv (snd (serve q s))"
begin

lemma step_cases:
  assumes "inv s"
  obtains "snd (serve q s) = s"
  | x where "vstep (ch q) (view s (target q)) = Some x" "view (snd (serve q s)) = (view s)(target q := Some x)"
proof -
  obtain r s' where rs: "serve q s = (r, s')" by fastforce
  show thesis
  proof (cases r)
    case (Inl e)
    with refused assms rs that(1) show ?thesis by simp
  next
    case (Inr y)
    with accepted [OF assms] rs that show ?thesis by auto
  qed
qed

lemma versions_grow:
  assumes "inv s" "version_in view k s = Some v"
  shows "\<exists>w\<ge>v. version_in view k (snd (serve q s)) = Some w"
proof (cases rule: step_cases [OF assms(1), of q])
  case (2 x)
  with assms(2) vstep_version [OF 2(1)] show ?thesis
    by (cases "k = target q") (auto simp: version_in_def split: option.splits)
qed (use assms(2) in auto)

lemma dead_stays:
  assumes "inv s" "view s k = Some (Dead v)"
  shows "view (snd (serve q s)) k = Some (Dead v)"
proof (cases rule: step_cases [OF assms(1), of q])
  case (2 x)
  with assms(2) show ?thesis by (cases "k = target q") auto
qed (use assms(2) in auto)

lemma inv_run: "inv s \<Longrightarrow> inv (fold (\<lambda>q s. snd (serve q s)) qs s)"
  by (induction qs arbitrary: s) (auto simp: inv_serve)

lemma dead_stays_run: "inv s \<Longrightarrow> view s k = Some (Dead v) \<Longrightarrow> view (fold (\<lambda>q s. snd (serve q s)) qs s) k = Some (Dead v)"
  by (induction qs arbitrary: s) (auto simp: inv_serve dead_stays)

lemma attempt_Inr:
  assumes "inv s" "based_attempt serve view target ch q s = (Inr r, s')"
  obtains b where "base_of (ch q) = Some b" "version_in view (target q) s = Some b" "version_in view (target q) s' = Some (b + 1)"
proof (cases rule: step_cases [OF assms(1), of q])
  case 1
  with assms(2) show ?thesis by (simp add: based_attempt_def Let_def split: if_splits)
next
  case (2 x)
  have s': "s' = snd (serve q s)" and b: "base_of (ch q) \<noteq> None" using assms(2) by (auto simp: based_attempt_def Let_def split: if_splits)
  then obtain b where b: "base_of (ch q) = Some b" by blast
  then obtain z where z: "view s (target q) = Some z" using 2(1) by (cases "view s (target q)"; cases "ch q") auto
  with vstep_version [OF 2(1)] b 2(2) s' show ?thesis
    by (intro that [of b]) (auto simp: version_in_def base_ok_def)
qed

end

sublocale versioned_store \<subseteq> one_change: single_use "based_attempt serve view target ch" "\<lambda>q s. snd (serve q s)"
  "\<lambda>q. (target q, base_of (ch q))" "\<lambda>_ _. True" "version_passed view" inv
proof
  show "\<not> version_passed view (target q, base_of (ch q)) s"
    if "inv s" "based_attempt serve view target ch q s = (Inr r, s')" for s q r s'
    using that by (elim attempt_Inr) (auto simp: version_passed_def)
  show "version_passed view (target q, base_of (ch q)) s'"
    if "inv s" "based_attempt serve view target ch q s = (Inr r, s')" for s q r s'
    using that by (elim attempt_Inr) (auto simp: version_passed_def)
  show keep: "version_passed view k (snd (serve x s))" if "inv s" "version_passed view k s" for s k x
    using that versions_grow [OF that(1), of "fst k" _ x] by (fastforce simp: version_passed_def split: option.splits)
  then show "version_passed view k (snd (based_attempt serve view target ch q s))"
    if "inv s" "version_passed view k s" for s k q
    using that by (simp add: based_attempt_def Let_def)
  show "inv (snd (based_attempt serve view target ch q s))" if "inv s" for s q
    using that inv_serve by (simp add: based_attempt_def Let_def)
qed (rule inv_serve)

section \<open>Stores kept in a table\<close>

text \<open>A service keeps its objects as the rows of a table, found by a key.\<close>

definition row_view :: "('r \<Rightarrow> 'k) \<Rightarrow> ('r \<Rightarrow> 'c obj) \<Rightarrow> 'r list \<Rightarrow> 'k \<Rightarrow> 'c obj option" where
  "row_view key ob t i = map_option ob (List.find (\<lambda>y. key y = i) t)"

lemma find_key:
  assumes "distinct (map key t)" "x \<in> set t" "key x = i"
  shows "List.find (\<lambda>y. key y = i) t = Some x"
  using assms by (induction t) (auto simp: image_iff)

lemma find_upd_key:
  assumes "\<And>y. key (f y) = key y"
  shows "List.find (\<lambda>y. key y = i) (upd_where P f t) = map_option (\<lambda>y. if P y then f y else y) (List.find (\<lambda>y. key y = i) t)"
  unfolding upd_where_def using assms by (induction t) auto

lemma find_snoc:
  "List.find P (xs @ [y]) = (case List.find P xs of None \<Rightarrow> if P y then Some y else None | Some z \<Rightarrow> Some z)"
  by (induction xs) auto

lemma row_view_row: "distinct (map key t) \<Longrightarrow> x \<in> set t \<Longrightarrow> row_view key ob t (key x) = Some (ob x)"
  by (simp add: row_view_def find_key)

lemma row_view_None: "\<forall>x\<in>set t. key x \<noteq> i \<Longrightarrow> row_view key ob t i = None"
  by (auto simp: row_view_def find_None_iff)

lemma row_view_snoc:
  assumes "\<forall>x\<in>set t. key x \<noteq> key e"
  shows "row_view key ob (t @ [e]) = (row_view key ob t)(key e := Some (ob e))"
proof -
  have "List.find (\<lambda>y. key y = key e) t = None" using assms by (auto simp: find_None_iff)
  then show ?thesis by (intro ext) (auto simp: row_view_def find_snoc split: option.splits)
qed

text \<open>An update that only touches the rows with the key \<open>i\<close>, of which there is one, changes the object \<open>i\<close>.\<close>

lemma row_view_upd:
  assumes "distinct (map key t)" "x \<in> set t" "P x" "\<And>y. P y \<Longrightarrow> key y = key x" "\<And>y. key (f y) = key y"
  shows "row_view key ob (upd_where P f t) = (row_view key ob t)(key x := Some (ob (f x)))"
proof
  fix j
  have up: "row_view key ob (upd_where P f t) j = map_option (\<lambda>y. ob (if P y then f y else y)) (List.find (\<lambda>y. key y = j) t)"
    by (simp add: row_view_def find_upd_key [of key f, OF assms(5)] option.map_comp comp_def)
  show "row_view key ob (upd_where P f t) j = ((row_view key ob t)(key x := Some (ob (f x)))) j"
  proof (cases "j = key x")
    case True
    with up assms(1-3) show ?thesis by (simp add: find_key)
  next
    case False
    have "ob (if P y then f y else y) = ob y" if "List.find (\<lambda>y. key y = j) t = Some y" for y
      using that False assms(4) [of y] by (auto simp: find_Some_iff)
    with up False show ?thesis by (cases "List.find (\<lambda>y. key y = j) t") (auto simp: row_view_def)
  qed
qed

end
