(* ===== verification/KnowledgeProps.thy ===== *)
theory KnowledgeProps
  imports Knowledge VersionedStore SyncProps
begin

text \<open>
  The knowledge service refines the abstract versioned store: seen through the versions and contents of
  the entries, every request is one step of the store or nothing.
\<close>

datatype know_req =
    KCreate env uuid string knowledge_input
  | KUpdate env uuid string string knowledge_input
  | KDelete env uuid string string string "int option"

fun know_serve :: "know_req \<Rightarrow> know_state \<Rightarrow> (knowledge_entry \<times> sync_event) result \<times> know_state" where
  "know_serve (KCreate E u d input) s = CreateEntry E u d input s"
| "know_serve (KUpdate E u d i input) s = UpdateEntry E u d i input s"
| "know_serve (KDelete E u d i ceid base) s = DeleteEntry E u d i ceid base s"

section \<open>The abstract view\<close>

text \<open>What a user writes into an entry.\<close>

type_synonym know_content = "string \<times> string \<times> string \<times> string list option \<times> json_map \<times> string"

definition entry_content :: "knowledge_entry \<Rightarrow> know_content" where
  "entry_content e = (kn_title e, kn_content e, kn_summary e, kn_tags e, kn_metadata e, kn_source_uri e)"

definition input_content :: "knowledge_input \<Rightarrow> know_content" where
  "input_content i = (trim (kx_title i), kx_content i, kx_summary i, kx_tags i,
     (case kx_metadata i of None \<Rightarrow> [] | Some m \<Rightarrow> m), kx_source_uri i)"

definition entry_obj :: "knowledge_entry \<Rightarrow> know_content obj" where
  "entry_obj e = (if kn_status e = ''active'' then Live (kn_version e) (entry_content e) else Dead (kn_version e))"

definition kn_key :: "knowledge_entry \<Rightarrow> uuid \<times> string" where
  "kn_key e = (kn_user_id e, kn_entry_id e)"

definition know_view :: "know_state \<Rightarrow> uuid \<times> string \<Rightarrow> know_content obj option" where
  "know_view s = row_view kn_key entry_obj (ns_entries s)"

fun know_target :: "know_req \<Rightarrow> uuid \<times> string" where
  "know_target (KCreate E u d input) = (u, trim (kx_entry_id input))"
| "know_target (KUpdate E u d i input) = (u, trim i)"
| "know_target (KDelete E u d i ceid base) = (u, trim i)"

fun know_change :: "know_req \<Rightarrow> know_content change" where
  "know_change (KCreate E u d input) = Put (input_content input)"
| "know_change (KUpdate E u d i input) = Edit (kx_base_version input) (input_content input)"
| "know_change (KDelete E u d i ceid base) = Drop base"

definition know_inv :: "know_state \<Rightarrow> bool" where
  "know_inv s \<longleftrightarrow> distinct (map kn_key (ns_entries s))
     \<and> list_all (\<lambda>e. kn_status e = ''active'' \<or> kn_status e = ''deleted'') (ns_entries s)"

lemma kn_is_key: "kn_is u i e \<longleftrightarrow> kn_key e = (u, i)"
  by (simp add: kn_is_def kn_key_def)

section \<open>One request\<close>

lemma finish_knowledge_Inr:
  "finish_knowledge E u d i operation ceid s = Inr (x, ev, s') \<Longrightarrow> ns_entries s' = ns_entries s"
  by (auto simp: finish_knowledge_def split: sum.splits prod.splits)

lemma current_entry_Inr:
  assumes "current_entry E u i base s = Inr x" "know_inv s"
  shows "x \<in> set (ns_entries s) \<and> kn_is u i x \<and> kn_status x = ''active'' \<and> base_ok base (kn_version x)"
proof -
  from assms(1) have g: "GetByEntryID E 1 u i True s = Inr x" and st: "kn_status x \<noteq> ''deleted''"
    and b: "base_ok base (kn_version x)"
    by (auto simp: current_entry_def validateKnowledgeBaseVersion_def base_ok_def split: sum.splits if_splits option.splits)
  from g have "x \<in> set (ns_entries s)" "kn_is u i x"
    by (auto simp: GetByEntryID_def db_first_def dest: first_by_Some split: if_splits option.splits)
  with st b assms(2) show ?thesis by (auto simp: know_inv_def list_all_iff)
qed

lemma know_upd:
  assumes "know_inv s" "x \<in> set (ns_entries s)" "kn_is u i x" "kn_status x = ''active''" "\<And>y. kn_key (f y) = kn_key y"
    "\<And>y. kn_status (f y) = kn_status y \<or> kn_status (f y) = ''deleted''"
    "ns_entries s' = upd_where (kn_live u i) f (ns_entries s)"
  shows "know_inv s'" and "know_view s' = (know_view s)((u, i) := Some (entry_obj (f x)))"
    and "know_view s (u, i) = Some (entry_obj x)"
proof -
  have d: "distinct (map kn_key (ns_entries s))" using assms(1) by (simp add: know_inv_def)
  have k: "kn_key x = (u, i)" using assms(3) by (simp add: kn_is_key)
  show "know_view s (u, i) = Some (entry_obj x)" using row_view_row [OF d assms(2), of entry_obj] k by (simp add: know_view_def)
  have "kn_live u i x" "\<And>y. kn_live u i y \<Longrightarrow> kn_key y = kn_key x" using assms(3,4) by (auto simp: kn_live_def kn_is_key)
  from row_view_upd [where key = kn_key and f = f and P = "kn_live u i" and ob = entry_obj, OF d assms(2) this assms(5)] k
  show "know_view s' = (know_view s)((u, i) := Some (entry_obj (f x)))" by (simp add: know_view_def assms(7))
  have "kn_status y = ''active'' \<or> kn_status y = ''deleted''" if "y \<in> set (ns_entries s')" for y
    using that unfolding assms(7)
  proof (cases rule: in_upd_whereE)
    case (upd r)
    with assms(6) [of r] show ?thesis by (auto simp: kn_live_def)
  qed (use assms(1) in \<open>auto simp: know_inv_def list_all_iff\<close>)
  moreover have "map kn_key (ns_entries s') = map kn_key (ns_entries s)"
    unfolding assms(7) by (rule map_upd_where) (rule assms(5))
  ultimately show "know_inv s'" using d by (simp add: know_inv_def list_all_iff)
qed

text \<open>An answer from the log: the user's event with the client's event id, which the same device recorded for the same
  operation on the same entry, and the entry as it stands.\<close>

definition know_replayed :: "uuid \<Rightarrow> string \<Rightarrow> string \<Rightarrow> string \<Rightarrow> string \<Rightarrow> knowledge_entry \<times> sync_event \<Rightarrow> know_state \<Rightarrow> bool" where
  "know_replayed u d i operation ceid r s \<longleftrightarrow> ceid \<noteq> '''' \<and> snd r \<in> set (ss_events (ns_sync s)) \<and> ev_user_id (snd r) = u
     \<and> ev_client_event_id (snd r) = ceid \<and> ev_object_type (snd r) = ''knowledge'' \<and> ev_object_id (snd r) = i
     \<and> ev_operation (snd r) = operation \<and> ev_source_device_id (snd r) = d \<and> fst r \<in> set (ns_entries s) \<and> kn_key (fst r) = (u, i)"

lemma idempotentKnowledgeReplay_Some:
  assumes "idempotentKnowledgeReplay E u d i operation ceid s = Inr (Some r)"
  shows "know_replayed u d i operation ceid r s"
proof -
  from assms obtain ev x where e: "GetEventByClientEventID E 0 u ceid (ns_sync s) = Inr ev"
    and x: "GetByEntryID E 0 u i True s = Inr x" and r: "r = (x, ev)" "ceid \<noteq> ''''"
    and m: "ev_object_type ev = ''knowledge''" "ev_object_id ev = i" "ev_operation ev = operation" "ev_source_device_id ev = d"
    by (auto simp: idempotentKnowledgeReplay_def split: if_splits sum.splits)
  from x have "x \<in> set (ns_entries s)" "kn_is u i x"
    by (auto simp: GetByEntryID_def db_first_def dest: first_by_Some split: if_splits option.splits)
  moreover from e have "ev \<in> set (ss_events (ns_sync s))" "ev_user_id ev = u" "ev_client_event_id ev = ceid"
    by (auto simp: GetEventByClientEventID_def db_first_def dest: first_by_Some split: if_splits option.splits)
  ultimately show ?thesis using r m by (simp add: know_replayed_def kn_is_key)
qed

lemma CreateEntry_Inr:
  assumes "CreateEntry E u d input s = (Inr r, s')"
  shows "s' = s \<and> know_replayed u d (trim (kx_entry_id input)) ''created'' (kx_client_event_id input) r s \<or> (\<exists>e. ns_entries s' = ns_entries s @ [e] \<and> kn_key e = (u, trim (kx_entry_id input))
      \<and> entry_obj e = Live 1 (input_content input) \<and> kn_status e = ''active''
      \<and> (\<forall>x\<in>set (ns_entries s). kn_key x \<noteq> kn_key e))"
proof (cases "idempotentKnowledgeReplay E u d (trim (kx_entry_id input)) ''created'' (kx_client_event_id input) s = Inr (Some r)")
  case True
  with assms idempotentKnowledgeReplay_Some [OF True] show ?thesis by (auto simp: CreateEntry_def Let_def split: sum.splits)
next
  case False
  let ?i = "trim (kx_entry_id input)"
  let ?e = "\<lparr>kn_id = e_uuid E ''user_knowledge_entries'' 0, kn_created_at = e_now E, kn_updated_at = e_now E,
                    kn_user_id = u, kn_entry_id = ?i, kn_title = trim (kx_title input), kn_content = kx_content input,
                    kn_summary = kx_summary input, kn_tags = kx_tags input,
                    kn_metadata = (case kx_metadata input of None \<Rightarrow> [] | Some m \<Rightarrow> m),
                    kn_source_uri = kx_source_uri input, kn_status = ''active'', kn_version = 1,
                    kn_content_hash = knowledgeContentHash E (kx_content input), kn_deleted_at = None,
                    kn_updated_by_device_id = d\<rparr>"
  from assms False obtain s1 x ev where c: "CreateEntry_repo E ?e s = Inr s1"
    and "finish_knowledge E u d ?i ''created'' (kx_client_event_id input) s1 = Inr (x, ev, s')"
    by (auto simp: CreateEntry_def Let_def split: sum.splits option.splits)
  then have "ns_entries s' = ns_entries s1" by (auto dest: finish_knowledge_Inr)
  moreover from c have "ns_entries s1 = ns_entries s @ [?e]" "\<forall>x\<in>set (ns_entries s). kn_key x \<noteq> kn_key ?e"
    by (auto simp: CreateEntry_repo_def db_insert_def list_ex_iff kn_is_key kn_key_def split: if_splits)
  ultimately show ?thesis
    by (intro disjI2 exI [of _ ?e]) (simp add: kn_key_def entry_obj_def entry_content_def input_content_def)
qed

lemma UpdateEntry_Inr:
  assumes "UpdateEntry E u d i input s = (Inr r, s')" "know_inv s"
  shows "s' = s \<and> know_replayed u d (trim i) ''updated'' (kx_client_event_id input) r s
    \<or> (\<exists>x f. x \<in> set (ns_entries s) \<and> kn_is u (trim i) x \<and> kn_status x = ''active''
      \<and> base_ok (kx_base_version input) (kn_version x) \<and> ns_entries s' = upd_where (kn_live u (trim i)) f (ns_entries s)
      \<and> (\<forall>y. kn_key (f y) = kn_key y \<and> kn_status (f y) = kn_status y)
      \<and> entry_obj (f x) = Live (kn_version x + 1) (input_content input))"
proof (cases "idempotentKnowledgeReplay E u d (trim i) ''updated'' (kx_client_event_id input) s = Inr (Some r)")
  case True
  with assms idempotentKnowledgeReplay_Some [OF True] show ?thesis by (auto simp: UpdateEntry_def Let_def split: sum.splits if_splits)
next
  case False
  let ?n = "\<lparr>kn_id = uuid_nil, kn_created_at = 0, kn_updated_at = 0, kn_user_id = u, kn_entry_id = trim i,
                          kn_title = trim (kx_title input), kn_content = kx_content input, kn_summary = kx_summary input,
                          kn_tags = kx_tags input, kn_metadata = (case kx_metadata input of None \<Rightarrow> [] | Some m \<Rightarrow> m),
                          kn_source_uri = kx_source_uri input, kn_status = '''', kn_version = 0,
                          kn_content_hash = knowledgeContentHash E (kx_content input), kn_deleted_at = None,
                          kn_updated_by_device_id = d\<rparr>"
  let ?f = "\<lambda>e. e\<lparr>kn_title := kn_title ?n, kn_content := kn_content ?n, kn_summary := kn_summary ?n, kn_tags := kn_tags ?n,
                    kn_metadata := kn_metadata ?n, kn_source_uri := kn_source_uri ?n, kn_version := kn_version e + 1,
                    kn_content_hash := kn_content_hash ?n, kn_updated_by_device_id := kn_updated_by_device_id ?n,
                    kn_updated_at := e_now E\<rparr>"
  from assms(1) False obtain x s1 y ev where c: "current_entry E u (trim i) (kx_base_version input) s = Inr x"
    and a: "UpdateActive E ?n s = Inr s1"
    and "finish_knowledge E u d (trim i) ''updated'' (kx_client_event_id input) s1 = Inr (y, ev, s')"
    by (auto simp: UpdateEntry_def Let_def split: sum.splits option.splits if_splits)
  then have "ns_entries s' = ns_entries s1" by (auto dest: finish_knowledge_Inr)
  moreover from a have "ns_entries s1 = upd_where (kn_live u (trim i)) ?f (ns_entries s)"
    by (auto simp: UpdateActive_def db_update_def split: if_splits)
  ultimately show ?thesis using current_entry_Inr [OF c assms(2)]
    by (intro disjI2 exI [of _ x] exI [of _ ?f]) (simp add: kn_key_def entry_obj_def entry_content_def input_content_def)
qed

lemma DeleteEntry_Inr:
  assumes "DeleteEntry E u d i ceid base s = (Inr r, s')" "know_inv s"
  shows "s' = s \<and> know_replayed u d (trim i) ''deleted'' ceid r s
    \<or> (\<exists>x f. x \<in> set (ns_entries s) \<and> kn_is u (trim i) x \<and> kn_status x = ''active''
      \<and> base_ok base (kn_version x) \<and> ns_entries s' = upd_where (kn_live u (trim i)) f (ns_entries s)
      \<and> (\<forall>y. kn_key (f y) = kn_key y \<and> kn_status (f y) = ''deleted'') \<and> entry_obj (f x) = Dead (kn_version x + 1))"
proof (cases "idempotentKnowledgeReplay E u d (trim i) ''deleted'' ceid s = Inr (Some r)")
  case True
  with assms idempotentKnowledgeReplay_Some [OF True] show ?thesis by (auto simp: DeleteEntry_def Let_def split: sum.splits if_splits)
next
  case False
  from assms(1) False obtain x s1 y ev where c: "current_entry E u (trim i) base s = Inr x"
    and a: "Tombstone E u (trim i) d (knowledgeContentHash E (kn_content x)) (e_now E) s = Inr s1"
    and "finish_knowledge E u d (trim i) ''deleted'' ceid s1 = Inr (y, ev, s')"
    by (auto simp: DeleteEntry_def Let_def split: sum.splits option.splits if_splits)
  then have "ns_entries s' = ns_entries s1" by (auto dest: finish_knowledge_Inr)
  moreover let ?f = "\<lambda>e. e\<lparr>kn_status := ''deleted'', kn_version := kn_version e + 1,
     kn_content_hash := knowledgeContentHash E (kn_content x), kn_deleted_at := Some (e_now E), kn_updated_by_device_id := d,
     kn_updated_at := e_now E\<rparr>"
  from a have "ns_entries s1 = upd_where (kn_live u (trim i)) ?f (ns_entries s)"
    by (auto simp: Tombstone_def split: if_splits)
  ultimately show ?thesis using current_entry_Inr [OF c assms(2)]
    by (intro disjI2 exI [of _ x] exI [of _ ?f]) (simp add: kn_key_def entry_obj_def)
qed

lemma know_refused: "know_serve q s = (Inl e, s') \<Longrightarrow> s' = s"
  by (cases q) (auto simp: CreateEntry_def UpdateEntry_def DeleteEntry_def Let_def
      split: sum.splits option.splits if_splits)

text \<open>The request was answered from the log.\<close>

fun know_replay :: "know_req \<Rightarrow> knowledge_entry \<times> sync_event \<Rightarrow> know_state \<Rightarrow> bool" where
  "know_replay (KCreate E u d input) r s = know_replayed u d (trim (kx_entry_id input)) ''created'' (kx_client_event_id input) r s"
| "know_replay (KUpdate E u d i input) r s = know_replayed u d (trim i) ''updated'' (kx_client_event_id input) r s"
| "know_replay (KDelete E u d i ceid base) r s = know_replayed u d (trim i) ''deleted'' ceid r s"

lemma know_accepted:
  assumes "know_inv s" "know_serve q s = (Inr r, s')" "\<not> (s' = s \<and> know_replay q r s)"
  shows "know_inv s' \<and> (\<exists>x. vstep (know_change q) (know_view s (know_target q)) = Some x
     \<and> know_view s' = (know_view s)(know_target q := Some x))"
proof (cases q)
  case (KCreate E u d input)
  with assms CreateEntry_Inr [of E u d input s r s'] obtain e where
    e: "ns_entries s' = ns_entries s @ [e]" "kn_key e = (u, trim (kx_entry_id input))" "entry_obj e = Live 1 (input_content input)"
      "kn_status e = ''active''" "\<forall>x\<in>set (ns_entries s). kn_key x \<noteq> kn_key e" by auto
  have "know_view s' = (know_view s)((u, trim (kx_entry_id input)) := Some (entry_obj e))"
    using row_view_snoc [OF e(5), of entry_obj] e(1,2) by (simp add: know_view_def)
  moreover have "know_view s (u, trim (kx_entry_id input)) = None"
    using row_view_None [OF e(5), of entry_obj] e(2) by (simp add: know_view_def)
  moreover have "know_inv s'" using assms(1) e(1,4,5) by (auto simp: know_inv_def)
  ultimately show ?thesis using KCreate e(3) by simp
next
  case (KUpdate E u d i input)
  with assms UpdateEntry_Inr [of E u d i input s r s'] obtain x f where
    x: "x \<in> set (ns_entries s)" "kn_is u (trim i) x" "kn_status x = ''active''" "base_ok (kx_base_version input) (kn_version x)"
      "ns_entries s' = upd_where (kn_live u (trim i)) f (ns_entries s)"
      "\<And>y. kn_key (f y) = kn_key y" "\<And>y. kn_status (f y) = kn_status y"
      "entry_obj (f x) = Live (kn_version x + 1) (input_content input)" by auto
  from know_upd [where f = f, OF assms(1) x(1-3,6) _ x(5)] x(3,4,7,8) KUpdate
  show ?thesis by (simp add: entry_obj_def [of x])
next
  case (KDelete E u d i ceid base)
  with assms DeleteEntry_Inr [of E u d i ceid base s r s'] obtain x f where
    x: "x \<in> set (ns_entries s)" "kn_is u (trim i) x" "kn_status x = ''active''" "base_ok base (kn_version x)"
      "ns_entries s' = upd_where (kn_live u (trim i)) f (ns_entries s)"
      "\<And>y. kn_key (f y) = kn_key y" "\<And>y. kn_status (f y) = ''deleted''"
      "entry_obj (f x) = Dead (kn_version x + 1)" by auto
  from know_upd [where f = f, OF assms(1) x(1-3,6) _ x(5)] x(3,4,7,8) KDelete
  show ?thesis by (simp add: entry_obj_def [of x])
qed

interpretation knowledge: versioned_store know_serve know_view know_target know_change know_inv
proof
  show "s' = s \<or> (\<exists>x. vstep (know_change q) (know_view s (know_target q)) = Some x
     \<and> know_view s' = (know_view s)(know_target q := Some x))" if "know_inv s" "know_serve q s = (Inr r, s')" for s q r s'
    using know_accepted [OF that] by (cases "s' = s") auto
  show "s' = s" if "know_inv s" "know_serve q s = (Inl e, s')" for s q e s'
    using know_refused that(2) .
  show "know_inv (snd (know_serve q s))" if "know_inv s" for s q
  proof (cases "know_serve q s")
    case (Pair r s')
    then show ?thesis using know_refused [of q s _ s'] know_accepted [OF that, of q _ s'] that by (cases r; cases "s' = s") auto
  qed
qed

text \<open>
  C8: The knowledge service refines the versioned store: an accepted request is exactly the step of the abstract store
  for the entry it names (created at version 1, edited or deleted at the version the client names, one version up), with
  every other entry as it was. Only a request that repeats an earlier one, whose event of the same user, device,
  operation, entry and client event id is in the log, is accepted without changing anything.
\<close>

theorem knowledge_refines_versioned_store:
  assumes "know_inv s" "know_serve q s = (Inr r, s')"
  shows "s' = s \<and> know_replay q r s \<or> (\<exists>x. vstep (know_change q) (know_view s (know_target q)) = Some x
     \<and> know_view s' = (know_view s)(know_target q := Some x))"
  using know_accepted [OF assms] by blast

definition demo_doc :: "string \<Rightarrow> int option \<Rightarrow> knowledge_input" where
  "demo_doc title base = \<lparr>kx_entry_id = ''doc'', kx_title = title, kx_content = ''text'', kx_summary = '''', kx_tags = None,
     kx_metadata = None, kx_source_uri = '''', kx_client_event_id = '''', kx_base_version = base\<rparr>"

definition demo_doc1 :: know_state where
  "demo_doc1 = snd (know_serve (KCreate (env_at 1) 7 ''phone'' (demo_doc ''one'' None)) know_init)"

definition demo_doc2 :: know_state where
  "demo_doc2 = snd (know_serve (KUpdate (env_at 2) 7 ''phone'' ''doc'' (demo_doc ''two'' (Some 1))) demo_doc1)"

theorem knowledge_refines_versioned_store_witness:
  "\<exists>x. vstep (know_change (KUpdate (env_at 2) 7 ''phone'' ''doc'' (demo_doc ''two'' (Some 1)))) (know_view demo_doc1 (7, ''doc'')) = Some x
     \<and> know_view demo_doc2 = (know_view demo_doc1)((7, ''doc'') := Some x)"
proof -
  let ?q = "KUpdate (env_at 2) 7 ''phone'' ''doc'' (demo_doc ''two'' (Some 1))"
  have ok: "succeeds (fst (know_serve ?q demo_doc1))" by code_simp
  have "know_inv demo_doc1" by code_simp
  moreover have "know_serve ?q demo_doc1 = (Inr (projr (fst (know_serve ?q demo_doc1))), demo_doc2)"
    using succeeds_pair [OF ok] unfolding demo_doc2_def by (metis snd_conv)
  ultimately have "demo_doc2 = demo_doc1 \<and> know_replay ?q (projr (fst (know_serve ?q demo_doc1))) demo_doc1
     \<or> (\<exists>x. vstep (know_change ?q) (know_view demo_doc1 (know_target ?q)) = Some x
     \<and> know_view demo_doc2 = (know_view demo_doc1)(know_target ?q := Some x))"
    by (rule knowledge_refines_versioned_store)
  moreover have "\<not> know_replay ?q r demo_doc1" for r by (simp add: know_replayed_def demo_doc_def)
  moreover have "know_target ?q = (7, ''doc'')" by code_simp
  ultimately show ?thesis by simp
qed

text \<open>
  C9: When requests are served one after the other, no update is lost: of all updates and deletions that name the same
  version of an entry as their base, at most one is applied. Requests that overlap can still overwrite each other
  (\<open>concurrent_updates_lose_one\<close>).
\<close>

theorem one_change_per_base_version:
  assumes "know_inv s"
  shows "wins (based_attempt know_serve know_view know_target know_change) (\<lambda>q s. snd (know_serve q s))
     (\<lambda>q. (know_target q, base_of (know_change q))) ((u, i), Some v) xs s \<le> 1"
  by (rule knowledge.one_change.at_most_once) (simp_all add: assms list_all_iff split: sum.split)

theorem one_change_per_base_version_witness:
  "wins (based_attempt know_serve know_view know_target know_change) (\<lambda>q s. snd (know_serve q s))
     (\<lambda>q. (know_target q, base_of (know_change q))) ((7, ''doc''), Some 1)
     [Inl (KUpdate (env_at 2) 7 ''phone'' ''doc'' (demo_doc ''two'' (Some 1))),
      Inl (KUpdate (env_at 3) 7 ''laptop'' ''doc'' (demo_doc ''three'' (Some 1)))] demo_doc1 \<le> 1
   \<and> version_in know_view (7, ''doc'') (snd (know_serve (KUpdate (env_at 3) 7 ''laptop'' ''doc'' (demo_doc ''three'' (Some 1))) demo_doc2)) = Some 2"
proof
  have "know_inv demo_doc1" by code_simp
  then show "wins (based_attempt know_serve know_view know_target know_change) (\<lambda>q s. snd (know_serve q s))
     (\<lambda>q. (know_target q, base_of (know_change q))) ((7, ''doc''), Some 1)
     [Inl (KUpdate (env_at 2) 7 ''phone'' ''doc'' (demo_doc ''two'' (Some 1))),
      Inl (KUpdate (env_at 3) 7 ''laptop'' ''doc'' (demo_doc ''three'' (Some 1)))] demo_doc1 \<le> 1"
    by (rule one_change_per_base_version)
  show "version_in know_view (7, ''doc'') (snd (know_serve (KUpdate (env_at 3) 7 ''laptop'' ''doc'' (demo_doc ''three'' (Some 1))) demo_doc2)) = Some 2"
    by code_simp
qed

section \<open>The base version is checked before the transaction\<close>

text \<open>
  Two servers, or two requests of one server, can interleave: \<open>UpdateEntry\<close> reads the entry and compares
  the base version outside the transaction that writes. Here is an update split at that point.
\<close>

definition update_check :: "env \<Rightarrow> uuid \<Rightarrow> string \<Rightarrow> knowledge_input \<Rightarrow> know_state \<Rightarrow> bool" where
  "update_check E u entryID input s \<longleftrightarrow> trim entryID \<noteq> '''' \<and> validateKnowledgeInput input False = Inr ()
     \<and> kx_client_event_id input = '''' \<and> succeeds (current_entry E u (trim entryID) (kx_base_version input) s)"

definition update_tx :: "env \<Rightarrow> uuid \<Rightarrow> string \<Rightarrow> string \<Rightarrow> knowledge_input \<Rightarrow> know_state
    \<Rightarrow> (knowledge_entry \<times> sync_event) result \<times> know_state" where
  "update_tx E u d i input s =
     (case UpdateActive E \<lparr>kn_id = uuid_nil, kn_created_at = 0, kn_updated_at = 0, kn_user_id = u, kn_entry_id = i,
                          kn_title = trim (kx_title input), kn_content = kx_content input, kn_summary = kx_summary input,
                          kn_tags = kx_tags input, kn_metadata = (case kx_metadata input of None \<Rightarrow> [] | Some m \<Rightarrow> m),
                          kn_source_uri = kx_source_uri input, kn_status = '''', kn_version = 0,
                          kn_content_hash = knowledgeContentHash E (kx_content input), kn_deleted_at = None,
                          kn_updated_by_device_id = d\<rparr> s of
        Inl e \<Rightarrow> (Inl (Wrapf ''update knowledge entry'' e), s)
      | Inr s1 \<Rightarrow>
          (case finish_knowledge E u d i ''updated'' (kx_client_event_id input) s1 of
             Inl e \<Rightarrow> (Inl e, s)
           | Inr (x, ev, s2) \<Rightarrow> (Inr (x, ev), s2)))"

lemma update_is_check_then_tx:
  assumes "update_check E u i input s"
  shows "UpdateEntry E u d i input s = update_tx E u d (trim i) input s"
  using assms by (auto simp: update_check_def UpdateEntry_def update_tx_def idempotentKnowledgeReplay_def succeeds_def Let_def
      split: sum.splits)

text \<open>Both devices name version 1 and both checks pass before either writes: then both updates are applied, and
  the first one is overwritten although its author was never told of a conflict.\<close>

theorem concurrent_updates_lose_one:
  "let a = demo_doc ''two'' (Some 1); b = demo_doc ''three'' (Some 1);
       sa = snd (update_tx (env_at 2) 7 ''phone'' ''doc'' a demo_doc1);
       rb = update_tx (env_at 3) 7 ''laptop'' ''doc'' b sa
   in update_check (env_at 2) 7 ''doc'' a demo_doc1 \<and> update_check (env_at 3) 7 ''doc'' b demo_doc1
      \<and> succeeds (fst rb) \<and> know_view (snd rb) (7, ''doc'') = Some (Live 3 (input_content b))"
  by code_simp

end
