(* ===== verification/Contacts.thy ===== *)
theory Contacts
  imports Sync "HOL-Library.List_Lexorder" "HOL-Library.Char_ord"
begin

text \<open>
  The address book (\<open>internal/service/contacts.go\<close> over
  \<open>internal/repository/contacts_repo.go\<close>): versioned contacts of a user, changed under an optional
  base version, each change in one transaction with its sync event. The server always builds the service
  with a sync service. A value its column cannot hold is one of the ways a statement fails (\<open>e_db\<close>).
\<close>

section \<open>State\<close>

record contact =
  ct_id :: uuid
  ct_created_at :: time
  ct_updated_at :: time
  ct_user_id :: uuid
  ct_contact_id :: string
  ct_linked_user_id :: "uuid option"
  ct_agentos_pubkey :: string
  ct_display_name :: string
  ct_alias :: string
  ct_avatar_url :: string
  ct_phones :: "string list option"
  ct_emails :: "string list option"
  ct_labels :: "string list option"
  ct_notes :: string
  ct_metadata :: json_map
  ct_status :: string
  ct_version :: int
  ct_deleted_at :: "time option"
  ct_updated_by_device_id :: string

record contacts_state =
  cs_contacts :: "contact list"
  cs_sync :: sync_state

definition contacts_init :: contacts_state where
  "contacts_init = \<lparr>cs_contacts = [], cs_sync = sync_init\<rparr>"

section \<open>Repository\<close>

definition ct_is :: "uuid \<Rightarrow> string \<Rightarrow> contact \<Rightarrow> bool" where
  "ct_is u i c \<longleftrightarrow> ct_user_id c = u \<and> ct_contact_id c = i"

definition ct_live :: "uuid \<Rightarrow> string \<Rightarrow> contact \<Rightarrow> bool" where
  "ct_live u i c \<longleftrightarrow> ct_is u i c \<and> ct_status c = ''active''"

definition ct_overflow :: "uuid \<Rightarrow> string \<Rightarrow> contacts_state \<Rightarrow> bool" where
  "ct_overflow u i s \<longleftrightarrow> list_ex (\<lambda>c. ct_live u i c \<and> max_bigint \<le> ct_version c) (cs_contacts s)"

definition ListContacts :: "env \<Rightarrow> uuid \<Rightarrow> bool \<Rightarrow> contacts_state \<Rightarrow> contact list result" where
  "ListContacts E u includeDeleted s =
     (case db_find E ''ListByUser'' 0 (\<lambda>c. ct_user_id c = u \<and> (includeDeleted \<or> ct_status c = ''active'')) (cs_contacts s) of
        Inl e \<Rightarrow> Inl e | Inr cs \<Rightarrow> Inr (sort_key (\<lambda>c. (ct_display_name c, ct_contact_id c)) cs))"

definition GetByContactID :: "env \<Rightarrow> nat \<Rightarrow> uuid \<Rightarrow> string \<Rightarrow> bool \<Rightarrow> contacts_state \<Rightarrow> contact result" where
  "GetByContactID E n u i includeDeleted s =
     db_first E ''GetByContactID'' n ct_id (\<lambda>c. ct_is u i c \<and> (includeDeleted \<or> ct_status c = ''active'')) (cs_contacts s)"

definition CreateContact_repo :: "env \<Rightarrow> contact \<Rightarrow> contacts_state \<Rightarrow> contacts_state result" where
  "CreateContact_repo E c s =
     (case db_insert E ''Create'' 0 (\<lambda>c x. ct_id x = ct_id c \<or> ct_is (ct_user_id c) (ct_contact_id c) x) c (cs_contacts s) of
        Inl e \<Rightarrow> Inl e | Inr t \<Rightarrow> Inr (s\<lparr>cs_contacts := t\<rparr>))"

text \<open>The number of rows updated is not looked at.\<close>

definition UpdateActiveContact :: "env \<Rightarrow> contact \<Rightarrow> contacts_state \<Rightarrow> contacts_state result" where
  "UpdateActiveContact E n s =
     (if ct_overflow (ct_user_id n) (ct_contact_id n) s then Inl (ErrDB ''UpdateActive'')
      else case db_update E ''UpdateActive'' 0 (ct_live (ct_user_id n) (ct_contact_id n))
             (\<lambda>c. c\<lparr>ct_linked_user_id := ct_linked_user_id n, ct_agentos_pubkey := ct_agentos_pubkey n,
                    ct_display_name := ct_display_name n, ct_alias := ct_alias n, ct_avatar_url := ct_avatar_url n,
                    ct_phones := ct_phones n, ct_emails := ct_emails n, ct_labels := ct_labels n, ct_notes := ct_notes n,
                    ct_metadata := ct_metadata n, ct_version := ct_version c + 1,
                    ct_updated_by_device_id := ct_updated_by_device_id n, ct_updated_at := e_now E\<rparr>) (cs_contacts s) of
             Inl e \<Rightarrow> Inl e | Inr t \<Rightarrow> Inr (s\<lparr>cs_contacts := t\<rparr>))"

text \<open>\<open>Tombstone\<close> looks only at the number of rows, which is zero when the statement fails.\<close>

definition TombstoneContact :: "env \<Rightarrow> uuid \<Rightarrow> string \<Rightarrow> string \<Rightarrow> time \<Rightarrow> contacts_state \<Rightarrow> contacts_state result" where
  "TombstoneContact E u i d deletedAt s =
     (if e_db E ''Tombstone'' 0 \<or> ct_overflow u i s \<or> count_where (ct_live u i) (cs_contacts s) = 0 then Inl ErrRecordNotFound
      else Inr (s\<lparr>cs_contacts := upd_where (ct_live u i)
             (\<lambda>c. c\<lparr>ct_status := ''deleted'', ct_version := ct_version c + 1, ct_deleted_at := Some deletedAt,
                    ct_updated_by_device_id := d, ct_updated_at := deletedAt\<rparr>) (cs_contacts s)\<rparr>))"

section \<open>Service\<close>

record contact_input =
  ci_contact_id :: string
  ci_linked_user_id :: "uuid option"
  ci_agentos_pubkey :: string
  ci_display_name :: string
  ci_alias :: string
  ci_avatar_url :: string
  ci_phones :: "string list option"
  ci_emails :: "string list option"
  ci_labels :: "string list option"
  ci_notes :: string
  ci_metadata :: "json_map option"
  ci_client_event_id :: string
  ci_base_version :: "int option"

definition GetContact :: "env \<Rightarrow> uuid \<Rightarrow> string \<Rightarrow> bool \<Rightarrow> contacts_state \<Rightarrow> contact result" where
  "GetContact E u i includeDeleted s =
     (case GetByContactID E 0 u (trim i) includeDeleted s of
        Inl e \<Rightarrow> if e = ErrRecordNotFound then Inl ErrContactNotFound else Inl e
      | Inr c \<Rightarrow> Inr c)"

text \<open>\<open>len\<close> of a possibly nil slice.\<close>

definition len_opt :: "string list option \<Rightarrow> nat" where
  "len_opt xs = (case xs of None \<Rightarrow> 0 | Some ys \<Rightarrow> length ys)"

definition validateContactInput :: "contact_input \<Rightarrow> bool \<Rightarrow> unit result" where
  "validateContactInput input creating =
     (if trim (ci_display_name input) = '''' then Inl (Errorf ''display_name is required'')
      else if creating \<and> 128 < length (trim (ci_contact_id input)) then Inl (Errorf ''contact_id is too long'')
      else if 50 < len_opt (ci_phones input) \<or> 50 < len_opt (ci_emails input) \<or> 50 < len_opt (ci_labels input)
      then Inl (Errorf ''too many contact values'')
      else Inr ())"

definition validateContactBaseVersion :: "int option \<Rightarrow> int \<Rightarrow> unit result" where
  "validateContactBaseVersion expected actual =
     (case expected of Some b \<Rightarrow> if b \<noteq> actual then Inl ErrContactConflict else Inr () | None \<Rightarrow> Inr ())"

definition contactFromInput :: "uuid \<Rightarrow> string \<Rightarrow> string \<Rightarrow> contact_input \<Rightarrow> contact" where
  "contactFromInput u i d input =
     \<lparr>ct_id = uuid_nil, ct_created_at = 0, ct_updated_at = 0, ct_user_id = u, ct_contact_id = i,
      ct_linked_user_id = ci_linked_user_id input, ct_agentos_pubkey = trim (ci_agentos_pubkey input),
      ct_display_name = trim (ci_display_name input), ct_alias = trim (ci_alias input), ct_avatar_url = trim (ci_avatar_url input),
      ct_phones = ci_phones input, ct_emails = ci_emails input, ct_labels = ci_labels input, ct_notes = ci_notes input,
      ct_metadata = (case ci_metadata input of None \<Rightarrow> [] | Some m \<Rightarrow> m), ct_status = '''', ct_version = 0,
      ct_deleted_at = None, ct_updated_by_device_id = d\<rparr>"

definition any_strings :: "string list option \<Rightarrow> any" where
  "any_strings xs = any_opt (\<lambda>ss. ASeq (map AStr ss)) xs"

definition contactPayload :: "env \<Rightarrow> contact \<Rightarrow> json_map" where
  "contactPayload E c =
     [(''contact_id'', AStr (ct_contact_id c)), (''object_id'', AStr (ct_contact_id c)),
      (''user_id'', AStr (e_uuid_str E (ct_user_id c))), (''agentos_pubkey'', AStr (ct_agentos_pubkey c)),
      (''display_name'', AStr (ct_display_name c)), (''alias'', AStr (ct_alias c)), (''avatar_url'', AStr (ct_avatar_url c)),
      (''phones'', any_strings (ct_phones c)), (''emails'', any_strings (ct_emails c)), (''labels'', any_strings (ct_labels c)),
      (''notes'', AStr (ct_notes c)), (''metadata'', AMap (ct_metadata c)), (''status'', AStr (ct_status c)),
      (''version'', AInt (ct_version c)), (''updated_by_device_id'', AStr (ct_updated_by_device_id c)),
      (''updated_at'', ATime (ct_updated_at c)),
      (''linked_user_id'', any_opt (\<lambda>l. AStr (e_uuid_str E l)) (ct_linked_user_id c)),
      (''deleted_at'', any_opt ATime (ct_deleted_at c))]"

definition contact_envelope :: "env \<Rightarrow> uuid \<Rightarrow> string \<Rightarrow> contact \<Rightarrow> string \<Rightarrow> string \<Rightarrow> sync_envelope" where
  "contact_envelope E u d c operation ceid =
     \<lparr>en_user_id = u, en_source_device_id = d, en_object_type = ''contact'', en_object_id = ct_contact_id c,
      en_operation = operation, en_client_event_id = ceid, en_payload = Some (contactPayload E c)\<rparr>"

text \<open>The replay check: nothing, or the stored event and the contact (nil when it is gone), or an error.\<close>

definition idempotentContactReplay :: "env \<Rightarrow> uuid \<Rightarrow> string \<Rightarrow> string \<Rightarrow> string \<Rightarrow> string \<Rightarrow> contacts_state
    \<Rightarrow> (contact option \<times> sync_event) option result" where
  "idempotentContactReplay E u d i operation ceid s =
     (if ceid = '''' then Inr None
      else case GetEventByClientEventID E 0 u ceid (cs_sync s) of
             Inl _ \<Rightarrow> Inr None
           | Inr ev \<Rightarrow>
               if ev_object_type ev \<noteq> ''contact'' \<or> ev_object_id ev \<noteq> i \<or> ev_operation ev \<noteq> operation
                  \<or> ev_source_device_id ev \<noteq> d
               then Inl ErrSyncIdempotencyConflict
               else (case GetByContactID E 0 u i True s of
                       Inl e \<Rightarrow> if e = ErrRecordNotFound then Inr (Some (None, ev)) else Inl e
                     | Inr c \<Rightarrow> Inr (Some (Some c, ev))))"

text \<open>The second half of the three transactions: read the contact back and record its event. An error
  rolls the transaction back, which the callers show by keeping the state they had.\<close>

definition finish_contact :: "env \<Rightarrow> uuid \<Rightarrow> string \<Rightarrow> string \<Rightarrow> string \<Rightarrow> string \<Rightarrow> contacts_state
    \<Rightarrow> (contact \<times> sync_event \<times> contacts_state) result" where
  "finish_contact E u d i operation ceid s =
     (case GetByContactID E 2 u i True s of
        Inl e \<Rightarrow> Inl e
      | Inr c \<Rightarrow>
          (case recordEnvelopeWithRepo E 1 (contact_envelope E u d c operation ceid) (cs_sync s) of
             (Inl e, _) \<Rightarrow> Inl e
           | (Inr ev, t) \<Rightarrow> Inr (c, ev, s\<lparr>cs_sync := notifyDevices u d ev t\<rparr>)))"

definition CreateContact :: "env \<Rightarrow> uuid \<Rightarrow> string \<Rightarrow> contact_input \<Rightarrow> contacts_state
    \<Rightarrow> (contact option \<times> sync_event) result \<times> contacts_state" where
  "CreateContact E u d input s =
     (case validateContactInput input True of
        Inl e \<Rightarrow> (Inl e, s)
      | Inr _ \<Rightarrow>
          let given = trim (ci_contact_id input);
              i = (if given = '''' then e_uuid_str E (e_uuid E ''contact_id'' 0) else given) in
          case idempotentContactReplay E u d i ''created'' (ci_client_event_id input) s of
            Inl e \<Rightarrow> (Inl e, s)
          | Inr (Some r) \<Rightarrow> (Inr r, s)
          | Inr None \<Rightarrow>
              let c = (contactFromInput u i d input)\<lparr>ct_status := ''active'', ct_version := 1,
                    ct_id := e_uuid E ''contacts'' 0, ct_created_at := e_now E, ct_updated_at := e_now E\<rparr>
              in case CreateContact_repo E c s of
                   Inl e \<Rightarrow> (Inl (Wrapf ''create contact'' e), s)
                 | Inr s1 \<Rightarrow>
                     (case finish_contact E u d i ''created'' (ci_client_event_id input) s1 of
                        Inl e \<Rightarrow> (Inl e, s)
                      | Inr (x, ev, s2) \<Rightarrow> (Inr (Some x, ev), s2)))"

text \<open>What updating and deleting check before they write: the contact, not deleted, at the base version.\<close>

definition current_contact :: "env \<Rightarrow> uuid \<Rightarrow> string \<Rightarrow> int option \<Rightarrow> contacts_state \<Rightarrow> contact result" where
  "current_contact E u i base s =
     (case GetByContactID E 1 u i True s of
        Inl e \<Rightarrow> Inl (if e = ErrRecordNotFound then ErrContactNotFound else e)
      | Inr c \<Rightarrow>
          if ct_status c = ''deleted'' then Inl ErrContactDeleted
          else (case validateContactBaseVersion base (ct_version c) of Inl e \<Rightarrow> Inl e | Inr _ \<Rightarrow> Inr c))"

definition UpdateContact :: "env \<Rightarrow> uuid \<Rightarrow> string \<Rightarrow> string \<Rightarrow> contact_input \<Rightarrow> contacts_state
    \<Rightarrow> (contact option \<times> sync_event) result \<times> contacts_state" where
  "UpdateContact E u d contactID input s =
     (let i = trim contactID in
      if i = '''' then (Inl (Errorf ''contact_id is required''), s)
      else case validateContactInput input False of
        Inl e \<Rightarrow> (Inl e, s)
      | Inr _ \<Rightarrow>
          (case idempotentContactReplay E u d i ''updated'' (ci_client_event_id input) s of
             Inl e \<Rightarrow> (Inl e, s)
           | Inr (Some r) \<Rightarrow> (Inr r, s)
           | Inr None \<Rightarrow>
               (case current_contact E u i (ci_base_version input) s of
                  Inl e \<Rightarrow> (Inl e, s)
                | Inr _ \<Rightarrow>
                    (case UpdateActiveContact E (contactFromInput u i d input) s of
                       Inl e \<Rightarrow> (Inl (Wrapf ''update contact'' e), s)
                     | Inr s1 \<Rightarrow>
                         (case finish_contact E u d i ''updated'' (ci_client_event_id input) s1 of
                            Inl e \<Rightarrow> (Inl e, s)
                          | Inr (x, ev, s2) \<Rightarrow> (Inr (Some x, ev), s2))))))"

definition DeleteContact :: "env \<Rightarrow> uuid \<Rightarrow> string \<Rightarrow> string \<Rightarrow> string \<Rightarrow> int option \<Rightarrow> contacts_state
    \<Rightarrow> (contact option \<times> sync_event) result \<times> contacts_state" where
  "DeleteContact E u d contactID ceid base s =
     (let i = trim contactID in
      if i = '''' then (Inl (Errorf ''contact_id is required''), s)
      else case idempotentContactReplay E u d i ''deleted'' ceid s of
        Inl e \<Rightarrow> (Inl e, s)
      | Inr (Some r) \<Rightarrow> (Inr r, s)
      | Inr None \<Rightarrow>
          (case current_contact E u i base s of
             Inl e \<Rightarrow> (Inl e, s)
           | Inr _ \<Rightarrow>
               (case TombstoneContact E u i d (e_now E) s of
                  Inl e \<Rightarrow> (Inl (if e = ErrRecordNotFound then ErrContactNotFound else e), s)
                | Inr s1 \<Rightarrow>
                    (case finish_contact E u d i ''deleted'' ceid s1 of
                       Inl e \<Rightarrow> (Inl e, s)
                     | Inr (y, ev, s2) \<Rightarrow> (Inr (Some y, ev), s2)))))"

end
