(* ===== verification/ContactsProps.thy ===== *)
theory ContactsProps
  imports Contacts VersionedStore SyncProps
begin

text \<open>
  The address book refines the abstract versioned store too; what the store proves of deleted objects
  holds of contacts.
\<close>

datatype contact_req =
    CCreate env uuid string contact_input
  | CUpdate env uuid string string contact_input
  | CDelete env uuid string string string "int option"

fun contact_serve :: "contact_req \<Rightarrow> contacts_state \<Rightarrow> (contact option \<times> sync_event) result \<times> contacts_state" where
  "contact_serve (CCreate E u d input) s = CreateContact E u d input s"
| "contact_serve (CUpdate E u d i input) s = UpdateContact E u d i input s"
| "contact_serve (CDelete E u d i ceid base) s = DeleteContact E u d i ceid base s"

section \<open>The abstract view\<close>

text \<open>What a user writes into a contact: the linked user, the seven texts and lists, the metadata.\<close>

datatype contact_content =
  Content "uuid option" string string string string "string list option" "string list option" "string list option" string json_map

definition contact_content :: "contact \<Rightarrow> contact_content" where
  "contact_content c = Content (ct_linked_user_id c) (ct_agentos_pubkey c) (ct_display_name c) (ct_alias c) (ct_avatar_url c)
     (ct_phones c) (ct_emails c) (ct_labels c) (ct_notes c) (ct_metadata c)"

definition input_contact :: "contact_input \<Rightarrow> contact_content" where
  "input_contact i = Content (ci_linked_user_id i) (trim (ci_agentos_pubkey i)) (trim (ci_display_name i)) (trim (ci_alias i))
     (trim (ci_avatar_url i)) (ci_phones i) (ci_emails i) (ci_labels i) (ci_notes i)
     (case ci_metadata i of None \<Rightarrow> [] | Some m \<Rightarrow> m)"

definition contact_obj :: "contact \<Rightarrow> contact_content obj" where
  "contact_obj c = (if ct_status c = ''active'' then Live (ct_version c) (contact_content c) else Dead (ct_version c))"

definition ct_key :: "contact \<Rightarrow> uuid \<times> string" where
  "ct_key c = (ct_user_id c, ct_contact_id c)"

definition contacts_view :: "contacts_state \<Rightarrow> uuid \<times> string \<Rightarrow> contact_content obj option" where
  "contacts_view s = row_view ct_key contact_obj (cs_contacts s)"

definition new_contact_id :: "env \<Rightarrow> contact_input \<Rightarrow> string" where
  "new_contact_id E input =
     (if trim (ci_contact_id input) = '''' then e_uuid_str E (e_uuid E ''contact_id'' 0) else trim (ci_contact_id input))"

fun contact_target :: "contact_req \<Rightarrow> uuid \<times> string" where
  "contact_target (CCreate E u d input) = (u, new_contact_id E input)"
| "contact_target (CUpdate E u d i input) = (u, trim i)"
| "contact_target (CDelete E u d i ceid base) = (u, trim i)"

fun contact_change :: "contact_req \<Rightarrow> contact_content change" where
  "contact_change (CCreate E u d input) = Put (input_contact input)"
| "contact_change (CUpdate E u d i input) = Edit (ci_base_version input) (input_contact input)"
| "contact_change (CDelete E u d i ceid base) = Drop base"

definition contacts_inv :: "contacts_state \<Rightarrow> bool" where
  "contacts_inv s \<longleftrightarrow> distinct (map ct_key (cs_contacts s))
     \<and> list_all (\<lambda>c. ct_status c = ''active'' \<or> ct_status c = ''deleted'') (cs_contacts s)"

lemma ct_is_key: "ct_is u i c \<longleftrightarrow> ct_key c = (u, i)"
  by (simp add: ct_is_def ct_key_def)

section \<open>One request\<close>

lemma finish_contact_Inr:
  "finish_contact E u d i operation ceid s = Inr (x, ev, s') \<Longrightarrow> cs_contacts s' = cs_contacts s"
  by (auto simp: finish_contact_def split: sum.splits prod.splits)

lemma current_contact_Inr:
  assumes "current_contact E u i base s = Inr x" "contacts_inv s"
  shows "x \<in> set (cs_contacts s) \<and> ct_is u i x \<and> ct_status x = ''active'' \<and> base_ok base (ct_version x)"
proof -
  from assms(1) have g: "GetByContactID E 1 u i True s = Inr x" and st: "ct_status x \<noteq> ''deleted''"
    and b: "base_ok base (ct_version x)"
    by (auto simp: current_contact_def validateContactBaseVersion_def base_ok_def split: sum.splits if_splits option.splits)
  from g have "x \<in> set (cs_contacts s)" "ct_is u i x"
    by (auto simp: GetByContactID_def db_first_def dest: first_by_Some split: if_splits option.splits)
  with st b assms(2) show ?thesis by (auto simp: contacts_inv_def list_all_iff)
qed

text \<open>What the two updating statements do to the row \<open>x\<close> they find.\<close>

lemma contacts_upd:
  assumes "contacts_inv s" "x \<in> set (cs_contacts s)" "ct_is u i x" "ct_status x = ''active''" "\<And>y. ct_key (f y) = ct_key y"
    "\<And>y. ct_status (f y) = ct_status y \<or> ct_status (f y) = ''deleted''"
    "cs_contacts s' = upd_where (ct_live u i) f (cs_contacts s)"
  shows "contacts_inv s'" and "contacts_view s' = (contacts_view s)((u, i) := Some (contact_obj (f x)))"
    and "contacts_view s (u, i) = Some (contact_obj x)"
proof -
  have d: "distinct (map ct_key (cs_contacts s))" using assms(1) by (simp add: contacts_inv_def)
  have k: "ct_key x = (u, i)" using assms(3) by (simp add: ct_is_key)
  show "contacts_view s (u, i) = Some (contact_obj x)" using row_view_row [OF d assms(2), of contact_obj] k by (simp add: contacts_view_def)
  have "ct_live u i x" "\<And>y. ct_live u i y \<Longrightarrow> ct_key y = ct_key x" using assms(3,4) by (auto simp: ct_live_def ct_is_key)
  from row_view_upd [where key = ct_key and f = f and P = "ct_live u i" and ob = contact_obj, OF d assms(2) this assms(5)] k
  show "contacts_view s' = (contacts_view s)((u, i) := Some (contact_obj (f x)))" by (simp add: contacts_view_def assms(7))
  have "ct_status y = ''active'' \<or> ct_status y = ''deleted''" if "y \<in> set (cs_contacts s')" for y
    using that unfolding assms(7)
  proof (cases rule: in_upd_whereE)
    case (upd r)
    with assms(6) [of r] show ?thesis by (auto simp: ct_live_def)
  qed (use assms(1) in \<open>auto simp: contacts_inv_def list_all_iff\<close>)
  moreover have "map ct_key (cs_contacts s') = map ct_key (cs_contacts s)"
    unfolding assms(7) by (rule map_upd_where) (rule assms(5))
  ultimately show "contacts_inv s'" using d by (simp add: contacts_inv_def list_all_iff)
qed

lemma CreateContact_Inr:
  assumes "CreateContact E u d input s = (Inr r, s')"
  shows "s' = s \<or> (\<exists>c. cs_contacts s' = cs_contacts s @ [c] \<and> ct_key c = (u, new_contact_id E input)
      \<and> contact_obj c = Live 1 (input_contact input) \<and> ct_status c = ''active''
      \<and> (\<forall>x\<in>set (cs_contacts s). ct_key x \<noteq> ct_key c))"
proof (cases "s' = s")
  case False
  let ?i = "new_contact_id E input"
  let ?c = "(contactFromInput u ?i d input)\<lparr>ct_status := ''active'', ct_version := 1,
                    ct_id := e_uuid E ''contacts'' 0, ct_created_at := e_now E, ct_updated_at := e_now E\<rparr>"
  from assms False obtain s1 x ev where c: "CreateContact_repo E ?c s = Inr s1"
    and "finish_contact E u d ?i ''created'' (ci_client_event_id input) s1 = Inr (x, ev, s')"
    unfolding CreateContact_def Let_def new_contact_id_def [symmetric]
    by (auto split: sum.splits option.splits)
  then have "cs_contacts s' = cs_contacts s1" by (auto dest: finish_contact_Inr)
  moreover from c have "cs_contacts s1 = cs_contacts s @ [?c]" "\<forall>x\<in>set (cs_contacts s). ct_key x \<noteq> ct_key ?c"
    by (auto simp: CreateContact_repo_def db_insert_def list_ex_iff ct_is_key ct_key_def split: if_splits)
  ultimately show ?thesis
    by (intro disjI2 exI [of _ ?c])
      (simp add: ct_key_def contact_obj_def contact_content_def input_contact_def contactFromInput_def)
qed simp

lemma UpdateContact_Inr:
  assumes "UpdateContact E u d i input s = (Inr r, s')" "contacts_inv s"
  shows "s' = s \<or> (\<exists>x f. x \<in> set (cs_contacts s) \<and> ct_is u (trim i) x \<and> ct_status x = ''active''
      \<and> base_ok (ci_base_version input) (ct_version x) \<and> cs_contacts s' = upd_where (ct_live u (trim i)) f (cs_contacts s)
      \<and> (\<forall>y. ct_key (f y) = ct_key y \<and> ct_status (f y) = ct_status y)
      \<and> contact_obj (f x) = Live (ct_version x + 1) (input_contact input))"
proof (cases "s' = s")
  case False
  let ?n = "contactFromInput u (trim i) d input"
  let ?f = "\<lambda>c. c\<lparr>ct_linked_user_id := ct_linked_user_id ?n, ct_agentos_pubkey := ct_agentos_pubkey ?n,
                    ct_display_name := ct_display_name ?n, ct_alias := ct_alias ?n, ct_avatar_url := ct_avatar_url ?n,
                    ct_phones := ct_phones ?n, ct_emails := ct_emails ?n, ct_labels := ct_labels ?n, ct_notes := ct_notes ?n,
                    ct_metadata := ct_metadata ?n, ct_version := ct_version c + 1,
                    ct_updated_by_device_id := ct_updated_by_device_id ?n, ct_updated_at := e_now E\<rparr>"
  from assms(1) False obtain x s1 y ev where c: "current_contact E u (trim i) (ci_base_version input) s = Inr x"
    and a: "UpdateActiveContact E ?n s = Inr s1"
    and "finish_contact E u d (trim i) ''updated'' (ci_client_event_id input) s1 = Inr (y, ev, s')"
    by (auto simp: UpdateContact_def Let_def split: sum.splits option.splits if_splits)
  then have "cs_contacts s' = cs_contacts s1" by (auto dest: finish_contact_Inr)
  moreover from a have "cs_contacts s1 = upd_where (ct_live u (trim i)) ?f (cs_contacts s)"
    by (auto simp: UpdateActiveContact_def db_update_def contactFromInput_def split: if_splits)
  ultimately show ?thesis using current_contact_Inr [OF c assms(2)]
    by (intro disjI2 exI [of _ x] exI [of _ ?f])
      (simp add: ct_key_def contact_obj_def contact_content_def input_contact_def contactFromInput_def)
qed simp

lemma DeleteContact_Inr:
  assumes "DeleteContact E u d i ceid base s = (Inr r, s')" "contacts_inv s"
  shows "s' = s \<or> (\<exists>x f. x \<in> set (cs_contacts s) \<and> ct_is u (trim i) x \<and> ct_status x = ''active''
      \<and> base_ok base (ct_version x) \<and> cs_contacts s' = upd_where (ct_live u (trim i)) f (cs_contacts s)
      \<and> (\<forall>y. ct_key (f y) = ct_key y \<and> ct_status (f y) = ''deleted'') \<and> contact_obj (f x) = Dead (ct_version x + 1))"
proof (cases "s' = s")
  case False
  from assms(1) False obtain x s1 y ev where c: "current_contact E u (trim i) base s = Inr x"
    and a: "TombstoneContact E u (trim i) d (e_now E) s = Inr s1"
    and "finish_contact E u d (trim i) ''deleted'' ceid s1 = Inr (y, ev, s')"
    by (auto simp: DeleteContact_def Let_def split: sum.splits option.splits if_splits)
  then have "cs_contacts s' = cs_contacts s1" by (auto dest: finish_contact_Inr)
  moreover let ?f = "\<lambda>c. c\<lparr>ct_status := ''deleted'', ct_version := ct_version c + 1, ct_deleted_at := Some (e_now E),
     ct_updated_by_device_id := d, ct_updated_at := e_now E\<rparr>"
  from a have "cs_contacts s1 = upd_where (ct_live u (trim i)) ?f (cs_contacts s)"
    by (auto simp: TombstoneContact_def split: if_splits)
  ultimately show ?thesis using current_contact_Inr [OF c assms(2)]
    by (intro disjI2 exI [of _ x] exI [of _ ?f]) (simp add: ct_key_def contact_obj_def)
qed simp

lemma contact_refused: "contact_serve q s = (Inl e, s') \<Longrightarrow> s' = s"
  by (cases q) (auto simp: CreateContact_def UpdateContact_def DeleteContact_def Let_def
      split: sum.splits option.splits if_splits)

lemma contact_accepted:
  assumes "contacts_inv s" "contact_serve q s = (Inr r, s')" "s' \<noteq> s"
  shows "contacts_inv s' \<and> (\<exists>x. vstep (contact_change q) (contacts_view s (contact_target q)) = Some x
     \<and> contacts_view s' = (contacts_view s)(contact_target q := Some x))"
proof (cases q)
  case (CCreate E u d input)
  with assms CreateContact_Inr [of E u d input s r s'] obtain c where
    c: "cs_contacts s' = cs_contacts s @ [c]" "ct_key c = (u, new_contact_id E input)" "contact_obj c = Live 1 (input_contact input)"
      "ct_status c = ''active''" "\<forall>x\<in>set (cs_contacts s). ct_key x \<noteq> ct_key c" by auto
  have "contacts_view s' = (contacts_view s)((u, new_contact_id E input) := Some (contact_obj c))"
    using row_view_snoc [OF c(5), of contact_obj] c(1,2) by (simp add: contacts_view_def)
  moreover have "contacts_view s (u, new_contact_id E input) = None"
    using row_view_None [OF c(5), of contact_obj] c(2) by (simp add: contacts_view_def)
  moreover have "contacts_inv s'" using assms(1) c(1,4,5) by (auto simp: contacts_inv_def)
  ultimately show ?thesis using CCreate c(3) by simp
next
  case (CUpdate E u d i input)
  with assms UpdateContact_Inr [of E u d i input s r s'] obtain x f where
    x: "x \<in> set (cs_contacts s)" "ct_is u (trim i) x" "ct_status x = ''active''" "base_ok (ci_base_version input) (ct_version x)"
      "cs_contacts s' = upd_where (ct_live u (trim i)) f (cs_contacts s)"
      "\<And>y. ct_key (f y) = ct_key y" "\<And>y. ct_status (f y) = ct_status y"
      "contact_obj (f x) = Live (ct_version x + 1) (input_contact input)" by auto
  from contacts_upd [where f = f, OF assms(1) x(1-3,6) _ x(5)] x(3,4,7,8) CUpdate
  show ?thesis by (simp add: contact_obj_def [of x])
next
  case (CDelete E u d i ceid base)
  with assms DeleteContact_Inr [of E u d i ceid base s r s'] obtain x f where
    x: "x \<in> set (cs_contacts s)" "ct_is u (trim i) x" "ct_status x = ''active''" "base_ok base (ct_version x)"
      "cs_contacts s' = upd_where (ct_live u (trim i)) f (cs_contacts s)"
      "\<And>y. ct_key (f y) = ct_key y" "\<And>y. ct_status (f y) = ''deleted''"
      "contact_obj (f x) = Dead (ct_version x + 1)" by auto
  from contacts_upd [where f = f, OF assms(1) x(1-3,6) _ x(5)] x(3,4,7,8) CDelete
  show ?thesis by (simp add: contact_obj_def [of x])
qed

interpretation contacts: versioned_store contact_serve contacts_view contact_target contact_change contacts_inv
proof
  show "s' = s \<or> (\<exists>x. vstep (contact_change q) (contacts_view s (contact_target q)) = Some x
     \<and> contacts_view s' = (contacts_view s)(contact_target q := Some x))"
    if "contacts_inv s" "contact_serve q s = (Inr r, s')" for s q r s'
    using contact_accepted [OF that] by blast
  show "s' = s" if "contacts_inv s" "contact_serve q s = (Inl e, s')" for s q e s'
    using contact_refused that(2) .
  show "contacts_inv (snd (contact_serve q s))" if "contacts_inv s" for s q
  proof (cases "contact_serve q s")
    case (Pair r s')
    then show ?thesis using contact_refused [of q s _ s'] contact_accepted [OF that, of q _ s'] that by (cases r; cases "s' = s") auto
  qed
qed

text \<open>
  The address book refines the versioned store: an accepted request either repeats an earlier one and
  changes nothing, or is exactly the step of the abstract store for the contact it names, with every other
  contact of every user as it was.
\<close>

theorem contacts_refine_versioned_store:
  assumes "contacts_inv s" "contact_serve q s = (Inr r, s')"
  shows "s' = s \<or> (\<exists>x. vstep (contact_change q) (contacts_view s (contact_target q)) = Some x
     \<and> contacts_view s' = (contacts_view s)(contact_target q := Some x))"
  using assms by (rule contacts.accepted)

definition demo_contact :: "string \<Rightarrow> int option \<Rightarrow> contact_input" where
  "demo_contact name base = \<lparr>ci_contact_id = ''bob'', ci_linked_user_id = None, ci_agentos_pubkey = '''', ci_display_name = name,
     ci_alias = '''', ci_avatar_url = '''', ci_phones = Some [''1''], ci_emails = None, ci_labels = None, ci_notes = '''',
     ci_metadata = None, ci_client_event_id = '''', ci_base_version = base\<rparr>"

definition demo_book :: contacts_state where
  "demo_book = snd (contact_serve (CCreate (env_at 1) 7 ''phone'' (demo_contact ''Bob'' None)) contacts_init)"

definition demo_book_deleted :: contacts_state where
  "demo_book_deleted = snd (contact_serve (CDelete (env_at 2) 7 ''phone'' ''bob'' '''' (Some 1)) demo_book)"

theorem contacts_refine_versioned_store_witness:
  "(demo_book_deleted = demo_book \<or> (\<exists>x. vstep (contact_change (CDelete (env_at 2) 7 ''phone'' ''bob'' '''' (Some 1)))
        (contacts_view demo_book (7, ''bob'')) = Some x \<and> contacts_view demo_book_deleted = (contacts_view demo_book)((7, ''bob'') := Some x)))
   \<and> contacts_view demo_book_deleted (7, ''bob'') = Some (Dead 2)"
proof
  let ?q = "CDelete (env_at 2) 7 ''phone'' ''bob'' '''' (Some 1)"
  have ok: "succeeds (fst (contact_serve ?q demo_book))" by code_simp
  have "contacts_inv demo_book" by code_simp
  moreover have "contact_serve ?q demo_book = (Inr (projr (fst (contact_serve ?q demo_book))), demo_book_deleted)"
    using succeeds_pair [OF ok] unfolding demo_book_deleted_def by (metis snd_conv)
  ultimately have "demo_book_deleted = demo_book \<or> (\<exists>x. vstep (contact_change ?q) (contacts_view demo_book (contact_target ?q)) = Some x
     \<and> contacts_view demo_book_deleted = (contacts_view demo_book)(contact_target ?q := Some x))"
    by (rule contacts_refine_versioned_store)
  moreover have "contact_target ?q = (7, ''bob'')" by code_simp
  ultimately show "demo_book_deleted = demo_book \<or> (\<exists>x. vstep (contact_change ?q) (contacts_view demo_book (7, ''bob'')) = Some x
     \<and> contacts_view demo_book_deleted = (contacts_view demo_book)((7, ''bob'') := Some x))" by simp
  show "contacts_view demo_book_deleted (7, ''bob'') = Some (Dead 2)" by code_simp
qed

text \<open>
  Deletion is final: a deleted contact keeps its tombstone and the version it was deleted at through
  every later sequence of requests, creating it again included.
\<close>

theorem deleted_contact_stays_deleted:
  assumes "contacts_inv s" "contacts_view s (u, i) = Some (Dead v)"
  shows "contacts_view (fold (\<lambda>q s. snd (contact_serve q s)) qs s) (u, i) = Some (Dead v)"
  using assms by (rule contacts.dead_stays_run)

theorem deleted_contact_stays_deleted_witness:
  "contacts_view (fold (\<lambda>q s. snd (contact_serve q s))
       [CCreate (env_at 3) 7 ''phone'' (demo_contact ''Bob'' None), CUpdate (env_at 4) 7 ''laptop'' ''bob'' (demo_contact ''Rob'' None)]
       demo_book_deleted) (7, ''bob'') = Some (Dead 2)"
proof (rule deleted_contact_stays_deleted)
  show "contacts_inv demo_book_deleted" by code_simp
  show "contacts_view demo_book_deleted (7, ''bob'') = Some (Dead 2)" by code_simp
qed

end
