(* ===== verification/Settings.thy ===== *)
theory Settings
  imports Sync "HOL-Library.List_Lexorder" "HOL-Library.Char_ord"
begin

text \<open>
  The settings a user keeps on the server: skills (\<open>internal/service/skill_settings.go\<close>), agents
  (\<open>internal/service/agent_settings.go\<close>) and server connections
  (\<open>internal/service/server_connections.go\<close>), each over its repository. Unlike contacts and knowledge
  entries they have no version, and the row and its sync event are written in separate transactions. The
  server always builds the services with a sync service.
\<close>

section \<open>State\<close>

record skill_setting =
  sk_id :: uuid
  sk_created_at :: time
  sk_updated_at :: time
  sk_user_id :: uuid
  sk_skill_id :: string
  sk_enabled :: bool
  sk_config :: json_map
  sk_updated_by_device_id :: string

record agent_setting =
  ag_id :: uuid
  ag_created_at :: time
  ag_updated_at :: time
  ag_user_id :: uuid
  ag_agent_id :: string
  ag_display_name :: string
  ag_config :: json_map
  ag_updated_by_device_id :: string

record server_connection =
  sv_id :: uuid
  sv_created_at :: time
  sv_updated_at :: time
  sv_user_id :: uuid
  sv_server_id :: string
  sv_name :: string
  sv_base_url :: string
  sv_status :: string
  sv_config :: json_map
  sv_updated_by_device_id :: string

record settings_state =
  st_skills :: "skill_setting list"
  st_agents :: "agent_setting list"
  st_servers :: "server_connection list"
  st_sync :: sync_state

definition settings_init :: settings_state where
  "settings_init = \<lparr>st_skills = [], st_agents = [], st_servers = [], st_sync = sync_init\<rparr>"

text \<open>A nil map from the request is replaced by an empty one.\<close>

definition config_or_empty :: "json_map option \<Rightarrow> json_map" where
  "config_or_empty c = (case c of None \<Rightarrow> [] | Some m \<Rightarrow> m)"

section \<open>Skill settings\<close>

definition ListSkillSettings :: "env \<Rightarrow> uuid \<Rightarrow> settings_state \<Rightarrow> skill_setting list result" where
  "ListSkillSettings E u s =
     (case db_find E ''ListSkillSettings'' 0 (\<lambda>x. sk_user_id x = u) (st_skills s) of
        Inl e \<Rightarrow> Inl e | Inr xs \<Rightarrow> Inr (sort_key sk_skill_id xs))"

definition GetByUserAndSkill :: "env \<Rightarrow> uuid \<Rightarrow> string \<Rightarrow> settings_state \<Rightarrow> skill_setting result" where
  "GetByUserAndSkill E u i s =
     db_first E ''GetByUserAndSkill'' 0 sk_id (\<lambda>x. sk_user_id x = u \<and> sk_skill_id x = i) (st_skills s)"

text \<open>\<open>INSERT ... ON CONFLICT (user_id, skill_id) DO UPDATE\<close> of the listed columns.\<close>

definition UpsertSkill :: "env \<Rightarrow> skill_setting \<Rightarrow> settings_state \<Rightarrow> settings_state result" where
  "UpsertSkill E r s =
     (let same = (\<lambda>x. sk_user_id x = sk_user_id r \<and> sk_skill_id x = sk_skill_id r) in
      if e_db E ''UpsertSkill'' 0 then Inl (ErrDB ''UpsertSkill'')
      else if list_ex same (st_skills s)
      then Inr (s\<lparr>st_skills := upd_where same
             (\<lambda>x. x\<lparr>sk_enabled := sk_enabled r, sk_config := sk_config r,
                    sk_updated_by_device_id := sk_updated_by_device_id r, sk_updated_at := sk_updated_at r\<rparr>) (st_skills s)\<rparr>)
      else if list_ex (\<lambda>x. sk_id x = sk_id r) (st_skills s) then Inl ErrDuplicateKey
      else Inr (s\<lparr>st_skills := st_skills s @ [r]\<rparr>))"

definition skill_payload :: "skill_setting \<Rightarrow> json_map" where
  "skill_payload x =
     [(''object_id'', AStr (sk_skill_id x)), (''skill_id'', AStr (sk_skill_id x)), (''enabled'', ABool (sk_enabled x)),
      (''config'', AMap (sk_config x)), (''updated_by_device_id'', AStr (sk_updated_by_device_id x)),
      (''updated_at'', ATime (sk_updated_at x))]"

text \<open>Recording the event of a change. The row stays as written when the event is refused.\<close>

definition record_setting :: "env \<Rightarrow> uuid \<Rightarrow> string \<Rightarrow> string \<Rightarrow> string \<Rightarrow> string \<Rightarrow> string \<Rightarrow> json_map \<Rightarrow> settings_state
    \<Rightarrow> sync_event result \<times> settings_state" where
  "record_setting E u d objectType i operation ceid payload s =
     (case RecordEnvelope E 0 \<lparr>en_user_id = u, en_source_device_id = d, en_object_type = objectType, en_object_id = i,
             en_operation = operation, en_client_event_id = ceid, en_payload = Some payload\<rparr> (st_sync s) of
        (r, t) \<Rightarrow> (r, s\<lparr>st_sync := t\<rparr>))"

definition upsertAndSync :: "env \<Rightarrow> uuid \<Rightarrow> string \<Rightarrow> string \<Rightarrow> bool \<Rightarrow> json_map option \<Rightarrow> string \<Rightarrow> string \<Rightarrow> settings_state
    \<Rightarrow> (skill_setting \<times> sync_event) result \<times> settings_state" where
  "upsertAndSync E u d skillID enabled config operation ceid s =
     (let i = trim skillID in
      if i = '''' then (Inl (Errorf ''skill_id is required''), s)
      else case UpsertSkill E \<lparr>sk_id = e_uuid E ''user_skill_settings'' 0, sk_created_at = e_now E, sk_updated_at = e_now E,
                 sk_user_id = u, sk_skill_id = i, sk_enabled = enabled, sk_config = config_or_empty config,
                 sk_updated_by_device_id = d\<rparr> s of
        Inl e \<Rightarrow> (Inl (Wrapf ''upsert skill setting'' e), s)
      | Inr s1 \<Rightarrow>
          (case GetByUserAndSkill E u i s1 of
             Inl e \<Rightarrow> (Inl (Wrapf ''get skill setting'' e), s1)
           | Inr x \<Rightarrow>
               (case record_setting E u d ''skill'' i operation ceid (skill_payload x) s1 of
                  (Inl e, s2) \<Rightarrow> (Inl e, s2)
                | (Inr ev, s2) \<Rightarrow> (Inr (x, ev), s2))))"

definition EnableSkill :: "env \<Rightarrow> uuid \<Rightarrow> string \<Rightarrow> string \<Rightarrow> string \<Rightarrow> settings_state
    \<Rightarrow> (skill_setting \<times> sync_event) result \<times> settings_state" where
  "EnableSkill E u d i ceid s = upsertAndSync E u d i True None ''enabled'' ceid s"

definition DisableSkill :: "env \<Rightarrow> uuid \<Rightarrow> string \<Rightarrow> string \<Rightarrow> string \<Rightarrow> settings_state
    \<Rightarrow> (skill_setting \<times> sync_event) result \<times> settings_state" where
  "DisableSkill E u d i ceid s = upsertAndSync E u d i False None ''disabled'' ceid s"

definition UpdateSkill :: "env \<Rightarrow> uuid \<Rightarrow> string \<Rightarrow> string \<Rightarrow> json_map option \<Rightarrow> string \<Rightarrow> settings_state
    \<Rightarrow> (skill_setting \<times> sync_event) result \<times> settings_state" where
  "UpdateSkill E u d i config ceid s = upsertAndSync E u d i True config ''updated'' ceid s"

section \<open>Agent settings\<close>

definition ListAgentSettings :: "env \<Rightarrow> uuid \<Rightarrow> settings_state \<Rightarrow> agent_setting list result" where
  "ListAgentSettings E u s =
     (case db_find E ''ListAgentSettings'' 0 (\<lambda>x. ag_user_id x = u) (st_agents s) of
        Inl e \<Rightarrow> Inl e | Inr xs \<Rightarrow> Inr (sort_key ag_agent_id xs))"

definition GetByUserAndAgent :: "env \<Rightarrow> uuid \<Rightarrow> string \<Rightarrow> settings_state \<Rightarrow> agent_setting result" where
  "GetByUserAndAgent E u i s =
     db_first E ''GetByUserAndAgent'' 0 ag_id (\<lambda>x. ag_user_id x = u \<and> ag_agent_id x = i) (st_agents s)"

definition UpsertAgent :: "env \<Rightarrow> agent_setting \<Rightarrow> settings_state \<Rightarrow> settings_state result" where
  "UpsertAgent E r s =
     (let same = (\<lambda>x. ag_user_id x = ag_user_id r \<and> ag_agent_id x = ag_agent_id r) in
      if e_db E ''UpsertAgent'' 0 then Inl (ErrDB ''UpsertAgent'')
      else if list_ex same (st_agents s)
      then Inr (s\<lparr>st_agents := upd_where same
             (\<lambda>x. x\<lparr>ag_display_name := ag_display_name r, ag_config := ag_config r,
                    ag_updated_by_device_id := ag_updated_by_device_id r, ag_updated_at := ag_updated_at r\<rparr>) (st_agents s)\<rparr>)
      else if list_ex (\<lambda>x. ag_id x = ag_id r) (st_agents s) then Inl ErrDuplicateKey
      else Inr (s\<lparr>st_agents := st_agents s @ [r]\<rparr>))"

definition agent_payload :: "agent_setting \<Rightarrow> json_map" where
  "agent_payload x =
     [(''object_id'', AStr (ag_agent_id x)), (''agent_id'', AStr (ag_agent_id x)), (''display_name'', AStr (ag_display_name x)),
      (''config'', AMap (ag_config x)), (''updated_by_device_id'', AStr (ag_updated_by_device_id x)),
      (''updated_at'', ATime (ag_updated_at x))]"

definition UpdateAgent :: "env \<Rightarrow> uuid \<Rightarrow> string \<Rightarrow> string \<Rightarrow> string option \<Rightarrow> json_map option \<Rightarrow> string \<Rightarrow> settings_state
    \<Rightarrow> (agent_setting \<times> sync_event) result \<times> settings_state" where
  "UpdateAgent E u d agentID displayName config ceid s =
     (let i = trim agentID in
      if i = '''' then (Inl (Errorf ''agent_id is required''), s)
      else case UpsertAgent E \<lparr>ag_id = e_uuid E ''user_agent_settings'' 0, ag_created_at = e_now E, ag_updated_at = e_now E,
                 ag_user_id = u, ag_agent_id = i, ag_display_name = (case displayName of None \<Rightarrow> '''' | Some n \<Rightarrow> n),
                 ag_config = config_or_empty config, ag_updated_by_device_id = d\<rparr> s of
        Inl e \<Rightarrow> (Inl (Wrapf ''upsert agent setting'' e), s)
      | Inr s1 \<Rightarrow>
          (case GetByUserAndAgent E u i s1 of
             Inl e \<Rightarrow> (Inl (Wrapf ''get agent setting'' e), s1)
           | Inr x \<Rightarrow>
               (case record_setting E u d ''agent'' i ''updated'' ceid (agent_payload x) s1 of
                  (Inl e, s2) \<Rightarrow> (Inl e, s2)
                | (Inr ev, s2) \<Rightarrow> (Inr (x, ev), s2))))"

section \<open>Server connections\<close>

record add_server_request =
  as_server_id :: string
  as_name :: string
  as_base_url :: string
  as_status :: string
  as_config :: "json_map option"
  as_client_event_id :: string

record update_server_request =
  us_name :: "string option"
  us_base_url :: "string option"
  us_status :: "string option"
  us_config :: "json_map option"
  us_client_event_id :: string

definition ListServers :: "env \<Rightarrow> uuid \<Rightarrow> settings_state \<Rightarrow> server_connection list result" where
  "ListServers E u s =
     (case db_find E ''ListServers'' 0 (\<lambda>x. sv_user_id x = u) (st_servers s) of
        Inl e \<Rightarrow> Inl e | Inr xs \<Rightarrow> Inr (sort_key sv_created_at xs))"

definition GetByUserAndID :: "env \<Rightarrow> uuid \<Rightarrow> uuid \<Rightarrow> settings_state \<Rightarrow> server_connection result" where
  "GetByUserAndID E u i s = db_first E ''GetByUserAndID'' 0 sv_id (\<lambda>x. sv_user_id x = u \<and> sv_id x = i) (st_servers s)"

definition GetByUserAndServerID :: "env \<Rightarrow> uuid \<Rightarrow> string \<Rightarrow> settings_state \<Rightarrow> server_connection result" where
  "GetByUserAndServerID E u i s =
     db_first E ''GetByUserAndServerID'' 0 sv_id (\<lambda>x. sv_user_id x = u \<and> sv_server_id x = i) (st_servers s)"

definition CreateServer :: "env \<Rightarrow> server_connection \<Rightarrow> settings_state \<Rightarrow> settings_state result" where
  "CreateServer E r s =
     (case db_insert E ''CreateServer'' 0
             (\<lambda>r x. sv_id x = sv_id r \<or> sv_user_id x = sv_user_id r \<and> sv_server_id x = sv_server_id r) r (st_servers s) of
        Inl e \<Rightarrow> Inl e | Inr t \<Rightarrow> Inr (s\<lparr>st_servers := t\<rparr>))"

text \<open>gorm's \<open>Save\<close> also sets \<open>UpdatedAt\<close>, in the row and in the value it was given.\<close>

definition UpdateServer_repo :: "env \<Rightarrow> server_connection \<Rightarrow> settings_state \<Rightarrow> (server_connection \<times> settings_state) result" where
  "UpdateServer_repo E r s =
     (let r' = r\<lparr>sv_updated_at := e_now E\<rparr>
      in case db_save E ''UpdateServer'' 0 sv_id r' (st_servers s) of
           Inl e \<Rightarrow> Inl e | Inr t \<Rightarrow> Inr (r', s\<lparr>st_servers := t\<rparr>))"

definition DeleteServer :: "env \<Rightarrow> server_connection \<Rightarrow> settings_state \<Rightarrow> settings_state result" where
  "DeleteServer E r s =
     (case db_delete E ''DeleteServer'' 0 (\<lambda>x. sv_id x = sv_id r) (st_servers s) of
        Inl e \<Rightarrow> Inl e | Inr t \<Rightarrow> Inr (s\<lparr>st_servers := t\<rparr>))"

definition server_payload :: "env \<Rightarrow> server_connection \<Rightarrow> bool \<Rightarrow> json_map" where
  "server_payload E x removed =
     [(''object_id'', AStr (e_uuid_str E (sv_id x))), (''connection_id'', AStr (e_uuid_str E (sv_id x))),
      (''server_id'', AStr (sv_server_id x)), (''name'', AStr (sv_name x)), (''base_url'', AStr (sv_base_url x)),
      (''status'', AStr (sv_status x)), (''config'', AMap (sv_config x)),
      (''updated_by_device_id'', AStr (sv_updated_by_device_id x)), (''updated_at'', ATime (sv_updated_at x))]
     @ (if removed then [(''removed'', ABool True)] else [])"

definition recordServerEvent :: "env \<Rightarrow> uuid \<Rightarrow> string \<Rightarrow> server_connection \<Rightarrow> string \<Rightarrow> string \<Rightarrow> bool \<Rightarrow> settings_state
    \<Rightarrow> sync_event result \<times> settings_state" where
  "recordServerEvent E u d x operation ceid removed s =
     record_setting E u d ''server'' (e_uuid_str E (sv_id x)) operation ceid (server_payload E x removed) s"

definition AddServer :: "env \<Rightarrow> uuid \<Rightarrow> string \<Rightarrow> add_server_request \<Rightarrow> settings_state
    \<Rightarrow> (server_connection \<times> sync_event) result \<times> settings_state" where
  "AddServer E u d req s =
     (let i = trim (as_server_id req);
          status = (if as_status req = '''' then ''active'' else as_status req) in
      if i = '''' then (Inl (Errorf ''server_id is required''), s)
      else case (case GetByUserAndServerID E u i s of
             Inl e \<Rightarrow>
               if e \<noteq> ErrRecordNotFound then Inl (Wrapf ''get server connection'' e)
               else let x = \<lparr>sv_id = e_uuid E ''user_server_connections'' 0, sv_created_at = e_now E, sv_updated_at = e_now E,
                          sv_user_id = u, sv_server_id = i, sv_name = as_name req, sv_base_url = as_base_url req,
                          sv_status = status, sv_config = config_or_empty (as_config req), sv_updated_by_device_id = d\<rparr>
                    in (case CreateServer E x s of
                          Inl e' \<Rightarrow> Inl (Wrapf ''create server connection'' e')
                        | Inr s1 \<Rightarrow> Inr (x, s1))
           | Inr x \<Rightarrow>
               if as_client_event_id req = '''' then Inl (Errorf ''server connection already exists'') else Inr (x, s)) of
        Inl e \<Rightarrow> (Inl e, s)
      | Inr (x, s1) \<Rightarrow>
          (case recordServerEvent E u d x ''added'' (as_client_event_id req) False s1 of
             (Inl e, s2) \<Rightarrow> (Inl e, s2)
           | (Inr ev, s2) \<Rightarrow> (Inr (x, ev), s2)))"

definition UpdateServer :: "env \<Rightarrow> uuid \<Rightarrow> string \<Rightarrow> uuid \<Rightarrow> update_server_request \<Rightarrow> settings_state
    \<Rightarrow> (server_connection \<times> sync_event) result \<times> settings_state" where
  "UpdateServer E u d i req s =
     (case GetByUserAndID E u i s of
        Inl e \<Rightarrow> (Inl (Errorf ''server connection not found''), s)
      | Inr x \<Rightarrow>
          let x' = x\<lparr>sv_name := (case us_name req of None \<Rightarrow> sv_name x | Some v \<Rightarrow> v),
                     sv_base_url := (case us_base_url req of None \<Rightarrow> sv_base_url x | Some v \<Rightarrow> v),
                     sv_status := (case us_status req of None \<Rightarrow> sv_status x | Some v \<Rightarrow> v),
                     sv_config := (case us_config req of None \<Rightarrow> sv_config x | Some v \<Rightarrow> v),
                     sv_updated_by_device_id := d\<rparr>
          in case UpdateServer_repo E x' s of
               Inl e \<Rightarrow> (Inl (Wrapf ''update server connection'' e), s)
             | Inr (x'', s1) \<Rightarrow>
                 (case recordServerEvent E u d x'' ''updated'' (us_client_event_id req) False s1 of
                    (Inl e, s2) \<Rightarrow> (Inl e, s2)
                  | (Inr ev, s2) \<Rightarrow> (Inr (x'', ev), s2)))"

definition RemoveServer :: "env \<Rightarrow> uuid \<Rightarrow> string \<Rightarrow> uuid \<Rightarrow> string \<Rightarrow> settings_state \<Rightarrow> sync_event result \<times> settings_state" where
  "RemoveServer E u d i ceid s =
     (case GetByUserAndID E u i s of
        Inl e \<Rightarrow> (Inl (Errorf ''server connection not found''), s)
      | Inr x \<Rightarrow>
          let x' = x\<lparr>sv_updated_by_device_id := d, sv_updated_at := e_now E\<rparr>
          in case recordServerEvent E u d x' ''removed'' ceid True s of
               (Inl e, s1) \<Rightarrow> (Inl e, s1)
             | (Inr ev, s1) \<Rightarrow>
                 (case DeleteServer E x' s1 of
                    Inl e \<Rightarrow> (Inl (Wrapf ''delete server connection'' e), s1)
                  | Inr s2 \<Rightarrow> (Inr ev, s2)))"

end
