(* ===== verification/SettingsProps.thy ===== *)
theory SettingsProps
  imports Settings SyncProps
begin

text \<open>
  The settings services: an accepted change with a new event id is stored and announced by one event that
  describes the stored row. What goes wrong with reused ids and with failures, because the row is written
  first and on its own, stands at the end.
\<close>

datatype settings_req =
    SEnable env uuid string string string
  | SDisable env uuid string string string
  | SUpdate env uuid string string "json_map option" string
  | SAgent env uuid string string "string option" "json_map option" string
  | SAddServer env uuid string add_server_request
  | SUpdateServer env uuid string uuid update_server_request
  | SRemoveServer env uuid string uuid string

definition event_only :: "('a \<times> sync_event) result \<times> settings_state \<Rightarrow> sync_event result \<times> settings_state" where
  "event_only p = (case fst p of Inl e \<Rightarrow> Inl e | Inr y \<Rightarrow> Inr (snd y), snd p)"

fun settings_serve :: "settings_req \<Rightarrow> settings_state \<Rightarrow> sync_event result \<times> settings_state" where
  "settings_serve (SEnable E u d i ceid) s = event_only (EnableSkill E u d i ceid s)"
| "settings_serve (SDisable E u d i ceid) s = event_only (DisableSkill E u d i ceid s)"
| "settings_serve (SUpdate E u d i config ceid) s = event_only (UpdateSkill E u d i config ceid s)"
| "settings_serve (SAgent E u d i name config ceid) s = event_only (UpdateAgent E u d i name config ceid s)"
| "settings_serve (SAddServer E u d req) s = event_only (AddServer E u d req s)"
| "settings_serve (SUpdateServer E u d i req) s = event_only (UpdateServer E u d i req s)"
| "settings_serve (SRemoveServer E u d i ceid) s = RemoveServer E u d i ceid s"

fun settings_key :: "settings_req \<Rightarrow> uuid \<times> string" where
  "settings_key (SEnable E u d i ceid) = (u, ceid)"
| "settings_key (SDisable E u d i ceid) = (u, ceid)"
| "settings_key (SUpdate E u d i config ceid) = (u, ceid)"
| "settings_key (SAgent E u d i name config ceid) = (u, ceid)"
| "settings_key (SAddServer E u d req) = (u, as_client_event_id req)"
| "settings_key (SUpdateServer E u d i req) = (u, us_client_event_id req)"
| "settings_key (SRemoveServer E u d i ceid) = (u, ceid)"

text \<open>The row a change asks for stands in the table, and \<open>m\<close> is its description; a removed connection is in
  the table no more.\<close>

definition skill_stored :: "uuid \<Rightarrow> string \<Rightarrow> bool \<Rightarrow> json_map \<Rightarrow> settings_state \<Rightarrow> json_map \<Rightarrow> bool" where
  "skill_stored u i enabled config s m \<longleftrightarrow>
     (\<exists>x\<in>set (st_skills s). sk_user_id x = u \<and> sk_skill_id x = trim i \<and> sk_enabled x = enabled \<and> sk_config x = config
        \<and> m = skill_payload x)"

fun stored :: "settings_req \<Rightarrow> settings_state \<Rightarrow> json_map \<Rightarrow> bool" where
  "stored (SEnable E u d i ceid) s m \<longleftrightarrow> skill_stored u i True [] s m"
| "stored (SDisable E u d i ceid) s m \<longleftrightarrow> skill_stored u i False [] s m"
| "stored (SUpdate E u d i config ceid) s m \<longleftrightarrow> skill_stored u i True (config_or_empty config) s m"
| "stored (SAgent E u d i name config ceid) s m \<longleftrightarrow>
     (\<exists>x\<in>set (st_agents s). ag_user_id x = u \<and> ag_agent_id x = trim i \<and> ag_display_name x = (case name of None \<Rightarrow> '''' | Some n \<Rightarrow> n)
        \<and> ag_config x = config_or_empty config \<and> m = agent_payload x)"
| "stored (SAddServer E u d req) s m \<longleftrightarrow>
     (\<exists>x\<in>set (st_servers s). sv_user_id x = u \<and> sv_server_id x = trim (as_server_id req) \<and> m = server_payload E x False)"
| "stored (SUpdateServer E u d i req) s m \<longleftrightarrow>
     (\<exists>x\<in>set (st_servers s). sv_user_id x = u \<and> sv_id x = i \<and> (\<forall>v. us_name req = Some v \<longrightarrow> sv_name x = v)
        \<and> (\<forall>v. us_base_url req = Some v \<longrightarrow> sv_base_url x = v) \<and> (\<forall>v. us_status req = Some v \<longrightarrow> sv_status x = v)
        \<and> (\<forall>v. us_config req = Some v \<longrightarrow> sv_config x = v) \<and> m = server_payload E x False)"
| "stored (SRemoveServer E u d i ceid) s m \<longleftrightarrow>
     (\<forall>x\<in>set (st_servers s). sv_id x \<noteq> i) \<and> (\<exists>x. sv_user_id x = u \<and> sv_id x = i \<and> m = server_payload E x True)"

section \<open>Recording\<close>

lemma record_setting_fresh:
  assumes "record_setting E u d t i operation ceid m s = (Inr ev, s')" "no_key u ceid (st_sync s)"
  shows "ss_events (st_sync s') = ss_events (st_sync s) @ [ev] \<and> ev_user_id ev = u \<and> ev_payload ev = Some m
    \<and> st_skills s' = st_skills s \<and> st_agents s' = st_agents s \<and> st_servers s' = st_servers s"
proof -
  let ?en = "\<lparr>en_user_id = u, en_source_device_id = d, en_object_type = t, en_object_id = i,
             en_operation = operation, en_client_event_id = ceid, en_payload = Some m\<rparr>"
  from assms(1) obtain ts where r: "RecordEnvelope E 0 ?en (st_sync s) = (Inr ev, ts)" "s' = s\<lparr>st_sync := ts\<rparr>"
    by (auto simp: record_setting_def split: prod.splits)
  obtain t1 where t1: "recordEnvelopeWithRepo E 0 ?en (st_sync s) = (Inr ev, t1)" "ss_events ts = ss_events t1"
    using RecordEnvelope_tables [OF r(1)] by blast
  from t1(1) show ?thesis
  proof (cases rule: recordEnvelopeWithRepo_cases)
    case (replay e)
    with assms(2) show ?thesis by (auto simp: no_key_def list_all_iff records_envelope_def)
  next
    case (fresh e k s1)
    with t1(2) r(2) show ?thesis by (auto simp: records_envelope_def dest: GetNextSequence_events)
  qed simp_all
qed

lemma UpsertSkill_Inr:
  assumes "UpsertSkill E r s = Inr s1"
  shows "st_sync s1 = st_sync s" and "\<And>x. x \<in> set (st_skills s1) \<Longrightarrow> sk_user_id x = sk_user_id r \<Longrightarrow>
     sk_skill_id x = sk_skill_id r \<Longrightarrow> sk_enabled x = sk_enabled r \<and> sk_config x = sk_config r"
proof -
  let ?same = "\<lambda>x. sk_user_id x = sk_user_id r \<and> sk_skill_id x = sk_skill_id r"
  let ?f = "\<lambda>x. x\<lparr>sk_enabled := sk_enabled r, sk_config := sk_config r,
                    sk_updated_by_device_id := sk_updated_by_device_id r, sk_updated_at := sk_updated_at r\<rparr>"
  from assms consider "s1 = s\<lparr>st_skills := upd_where ?same ?f (st_skills s)\<rparr>"
    | "s1 = s\<lparr>st_skills := st_skills s @ [r]\<rparr>" "\<forall>x\<in>set (st_skills s). \<not> ?same x"
    by (simp add: UpsertSkill_def Let_def list_ex_iff split: if_splits)
  note cases = this
  from cases show "st_sync s1 = st_sync s" by cases simp_all
  from cases show "sk_enabled x = sk_enabled r \<and> sk_config x = sk_config r"
    if "x \<in> set (st_skills s1)" "sk_user_id x = sk_user_id r" "sk_skill_id x = sk_skill_id r" for x
    using that by cases (auto elim: in_upd_whereE)
qed

lemma UpsertAgent_Inr:
  assumes "UpsertAgent E r s = Inr s1"
  shows "st_sync s1 = st_sync s" and "\<And>x. x \<in> set (st_agents s1) \<Longrightarrow> ag_user_id x = ag_user_id r \<Longrightarrow>
     ag_agent_id x = ag_agent_id r \<Longrightarrow> ag_display_name x = ag_display_name r \<and> ag_config x = ag_config r"
proof -
  let ?same = "\<lambda>x. ag_user_id x = ag_user_id r \<and> ag_agent_id x = ag_agent_id r"
  let ?f = "\<lambda>x. x\<lparr>ag_display_name := ag_display_name r, ag_config := ag_config r,
                    ag_updated_by_device_id := ag_updated_by_device_id r, ag_updated_at := ag_updated_at r\<rparr>"
  from assms consider "s1 = s\<lparr>st_agents := upd_where ?same ?f (st_agents s)\<rparr>"
    | "s1 = s\<lparr>st_agents := st_agents s @ [r]\<rparr>" "\<forall>x\<in>set (st_agents s). \<not> ?same x"
    by (simp add: UpsertAgent_def Let_def list_ex_iff split: if_splits)
  note cases = this
  from cases show "st_sync s1 = st_sync s" by cases simp_all
  from cases show "ag_display_name x = ag_display_name r \<and> ag_config x = ag_config r"
    if "x \<in> set (st_agents s1)" "ag_user_id x = ag_user_id r" "ag_agent_id x = ag_agent_id r" for x
    using that by cases (auto elim: in_upd_whereE)
qed

lemma upsertAndSync_Inr:
  assumes "upsertAndSync E u d i enabled config operation ceid s = (Inr (x, ev), s')" "no_key u ceid (st_sync s)"
  shows "\<exists>m. ss_events (st_sync s') = ss_events (st_sync s) @ [ev] \<and> ev_user_id ev = u \<and> ev_payload ev = Some m
     \<and> skill_stored u i enabled (config_or_empty config) s' m"
proof -
  let ?r = "\<lparr>sk_id = e_uuid E ''user_skill_settings'' 0, sk_created_at = e_now E, sk_updated_at = e_now E,
                 sk_user_id = u, sk_skill_id = trim i, sk_enabled = enabled, sk_config = config_or_empty config,
                 sk_updated_by_device_id = d\<rparr>"
  from assms(1) obtain s1 where up: "UpsertSkill E ?r s = Inr s1" and g: "GetByUserAndSkill E u (trim i) s1 = Inr x"
    and r: "record_setting E u d ''skill'' (trim i) operation ceid (skill_payload x) s1 = (Inr ev, s')"
    by (auto simp: upsertAndSync_def Let_def split: sum.splits if_splits prod.splits)
  have x: "x \<in> set (st_skills s1)" "sk_user_id x = u" "sk_skill_id x = trim i"
    using g by (auto simp: GetByUserAndSkill_def db_simps dest: first_by_Some)
  with UpsertSkill_Inr [OF up] have "sk_enabled x = enabled" "sk_config x = config_or_empty config" "st_sync s1 = st_sync s"
    by auto
  with record_setting_fresh [OF r] assms(2) x show ?thesis by (auto simp: skill_stored_def)
qed

lemma UpdateAgent_Inr:
  assumes "UpdateAgent E u d i name config ceid s = (Inr (x, ev), s')" "no_key u ceid (st_sync s)"
  shows "\<exists>m. ss_events (st_sync s') = ss_events (st_sync s) @ [ev] \<and> ev_user_id ev = u \<and> ev_payload ev = Some m
     \<and> stored (SAgent E u d i name config ceid) s' m"
proof -
  let ?r = "\<lparr>ag_id = e_uuid E ''user_agent_settings'' 0, ag_created_at = e_now E, ag_updated_at = e_now E,
                 ag_user_id = u, ag_agent_id = trim i, ag_display_name = (case name of None \<Rightarrow> '''' | Some n \<Rightarrow> n),
                 ag_config = config_or_empty config, ag_updated_by_device_id = d\<rparr>"
  from assms(1) obtain s1 where up: "UpsertAgent E ?r s = Inr s1" and g: "GetByUserAndAgent E u (trim i) s1 = Inr x"
    and r: "record_setting E u d ''agent'' (trim i) ''updated'' ceid (agent_payload x) s1 = (Inr ev, s')"
    by (auto simp: UpdateAgent_def Let_def split: sum.splits if_splits prod.splits)
  have x: "x \<in> set (st_agents s1)" "ag_user_id x = u" "ag_agent_id x = trim i"
    using g by (auto simp: GetByUserAndAgent_def db_simps dest: first_by_Some)
  with UpsertAgent_Inr [OF up] have "ag_display_name x = ag_display_name ?r" "ag_config x = config_or_empty config"
    "st_sync s1 = st_sync s" by auto
  with record_setting_fresh [OF r] assms(2) x show ?thesis by auto
qed

lemma AddServer_Inr:
  assumes "AddServer E u d req s = (Inr (x, ev), s')" "no_key u (as_client_event_id req) (st_sync s)"
  shows "\<exists>m. ss_events (st_sync s') = ss_events (st_sync s) @ [ev] \<and> ev_user_id ev = u \<and> ev_payload ev = Some m
     \<and> stored (SAddServer E u d req) s' m"
proof -
  let ?i = "trim (as_server_id req)"
  from assms(1) obtain s1 where
    x: "CreateServer E x s = Inr s1 \<and> sv_user_id x = u \<and> sv_server_id x = ?i \<or> GetByUserAndServerID E u ?i s = Inr x \<and> s1 = s"
    and r: "record_setting E u d ''server'' (e_uuid_str E (sv_id x)) ''added'' (as_client_event_id req) (server_payload E x False) s1 = (Inr ev, s')"
    by (auto simp: AddServer_def Let_def recordServerEvent_def split: sum.splits if_splits prod.splits)
  from x have "x \<in> set (st_servers s1) \<and> sv_user_id x = u \<and> sv_server_id x = ?i \<and> st_sync s1 = st_sync s"
    by (auto simp: CreateServer_def GetByUserAndServerID_def db_simps dest: first_by_Some split: sum.splits)
  with record_setting_fresh [OF r] assms(2) show ?thesis by auto
qed

lemma GetByUserAndID_Inr: "GetByUserAndID E u i s = Inr x \<Longrightarrow> x \<in> set (st_servers s) \<and> sv_user_id x = u \<and> sv_id x = i"
  by (auto simp: GetByUserAndID_def db_simps dest: first_by_Some)

lemma UpdateServer_Inr:
  assumes "UpdateServer E u d i req s = (Inr (y, ev), s')" "no_key u (us_client_event_id req) (st_sync s)"
  shows "\<exists>m. ss_events (st_sync s') = ss_events (st_sync s) @ [ev] \<and> ev_user_id ev = u \<and> ev_payload ev = Some m
     \<and> stored (SUpdateServer E u d i req) s' m"
proof -
  from assms(1) obtain x where g: "GetByUserAndID E u i s = Inr x"
    by (auto simp: UpdateServer_def split: sum.splits)
  let ?x = "x\<lparr>sv_name := (case us_name req of None \<Rightarrow> sv_name x | Some v \<Rightarrow> v),
                     sv_base_url := (case us_base_url req of None \<Rightarrow> sv_base_url x | Some v \<Rightarrow> v),
                     sv_status := (case us_status req of None \<Rightarrow> sv_status x | Some v \<Rightarrow> v),
                     sv_config := (case us_config req of None \<Rightarrow> sv_config x | Some v \<Rightarrow> v),
                     sv_updated_by_device_id := d\<rparr>"
  from assms(1) g obtain s1 where up: "UpdateServer_repo E ?x s = Inr (y, s1)"
    and r: "record_setting E u d ''server'' (e_uuid_str E (sv_id y)) ''updated'' (us_client_event_id req) (server_payload E y False) s1 = (Inr ev, s')"
    by (auto simp: UpdateServer_def Let_def recordServerEvent_def split: sum.splits prod.splits)
  from up have y: "y = ?x\<lparr>sv_updated_at := e_now E\<rparr>" and s1: "y \<in> set (st_servers s1)" "st_sync s1 = st_sync s"
    by (auto simp: UpdateServer_repo_def Let_def db_simps split: sum.splits)
  have "sv_user_id y = u" "sv_id y = i" using GetByUserAndID_Inr [OF g] y by simp_all
  moreover have "\<forall>v. us_name req = Some v \<longrightarrow> sv_name y = v" "\<forall>v. us_base_url req = Some v \<longrightarrow> sv_base_url y = v"
    "\<forall>v. us_status req = Some v \<longrightarrow> sv_status y = v" "\<forall>v. us_config req = Some v \<longrightarrow> sv_config y = v"
    by (simp_all add: y)
  ultimately show ?thesis using record_setting_fresh [OF r] assms(2) s1 by auto
qed

lemma RemoveServer_Inr:
  assumes "RemoveServer E u d i ceid s = (Inr ev, s')" "no_key u ceid (st_sync s)"
  shows "\<exists>m. ss_events (st_sync s') = ss_events (st_sync s) @ [ev] \<and> ev_user_id ev = u \<and> ev_payload ev = Some m
     \<and> stored (SRemoveServer E u d i ceid) s' m"
proof -
  from assms(1) obtain x where g: "GetByUserAndID E u i s = Inr x"
    by (auto simp: RemoveServer_def split: sum.splits)
  let ?x = "x\<lparr>sv_updated_by_device_id := d, sv_updated_at := e_now E\<rparr>"
  from assms(1) g obtain s1 where del: "DeleteServer E ?x s1 = Inr s'"
    and r: "record_setting E u d ''server'' (e_uuid_str E (sv_id ?x)) ''removed'' ceid (server_payload E ?x True) s = (Inr ev, s1)"
    by (auto simp: RemoveServer_def Let_def recordServerEvent_def split: sum.splits prod.splits)
  have id: "sv_id ?x = i" "sv_user_id ?x = u" using GetByUserAndID_Inr [OF g] by simp_all
  from del id have gone: "\<forall>y\<in>set (st_servers s'). sv_id y \<noteq> i" and sync: "st_sync s' = st_sync s1"
    by (auto simp: DeleteServer_def db_simps table_simps split: sum.splits)
  have "stored (SRemoveServer E u d i ceid) s' (server_payload E ?x True)"
    using gone id by (auto intro!: exI [of _ ?x])
  with record_setting_fresh [OF r assms(2)] sync show ?thesis by auto
qed

lemma event_only_Inr: "event_only p = (Inr ev, s') \<longleftrightarrow> (\<exists>x. p = (Inr (x, ev), s'))"
  by (cases p) (auto simp: event_only_def split: sum.splits)

text \<open>
  Every accepted change of a setting, under a client event id its user has not used yet, is stored and
  announced: the log of the user grows by exactly one event, the payload of that event describes the row
  that now stands in the table with the values asked for, and after a removal the row is gone.
\<close>

theorem setting_change_is_stored_and_announced:
  assumes "settings_serve q s = (Inr ev, s')" "no_key (fst (settings_key q)) (snd (settings_key q)) (st_sync s)"
  shows "\<exists>m. ss_events (st_sync s') = ss_events (st_sync s) @ [ev] \<and> ev_user_id ev = fst (settings_key q)
     \<and> ev_payload ev = Some m \<and> stored q s' m"
  using assms
proof (cases q)
  case (SEnable E u d i ceid)
  with assms upsertAndSync_Inr [of E u d i True None] show ?thesis by (force simp: event_only_Inr EnableSkill_def config_or_empty_def)
next
  case (SDisable E u d i ceid)
  with assms upsertAndSync_Inr [of E u d i False None] show ?thesis by (force simp: event_only_Inr DisableSkill_def config_or_empty_def)
next
  case (SUpdate E u d i config ceid)
  with assms upsertAndSync_Inr [of E u d i True config] show ?thesis by (force simp: event_only_Inr UpdateSkill_def)
next
  case (SAgent E u d i name config ceid)
  with assms UpdateAgent_Inr [of E u d i name config ceid s] show ?thesis by (auto simp: event_only_Inr simp del: stored.simps)
next
  case (SAddServer E u d req)
  with assms AddServer_Inr [of E u d req s] show ?thesis by (auto simp: event_only_Inr simp del: stored.simps)
next
  case (SUpdateServer E u d i req)
  with assms UpdateServer_Inr [of E u d i req s] show ?thesis by (auto simp: event_only_Inr simp del: stored.simps)
next
  case (SRemoveServer E u d i ceid)
  with assms RemoveServer_Inr [of E u d i ceid s] show ?thesis by (auto simp del: stored.simps)
qed

definition demo_settings :: settings_state where
  "demo_settings = snd (settings_serve (SUpdate (env_at 1) 7 ''phone'' ''mail'' (Some [(''size'', AInt 3)]) ''e1'') settings_init)"

theorem setting_change_is_stored_and_announced_witness:
  "\<exists>ev s' m. settings_serve (SDisable (env_at 2) 7 ''laptop'' ''mail '' ''e2'') demo_settings = (Inr ev, s')
     \<and> ss_events (st_sync s') = ss_events (st_sync demo_settings) @ [ev] \<and> ev_payload ev = Some m
     \<and> stored (SDisable (env_at 2) 7 ''laptop'' ''mail '' ''e2'') s' m"
proof -
  let ?q = "SDisable (env_at 2) 7 ''laptop'' ''mail '' ''e2''"
  have ok: "succeeds (fst (settings_serve ?q demo_settings))" by code_simp
  from succeeds_pair [OF ok] obtain ev s' where r: "settings_serve ?q demo_settings = (Inr ev, s')" by metis
  have "no_key (fst (settings_key ?q)) (snd (settings_key ?q)) (st_sync demo_settings)" by code_simp
  from setting_change_is_stored_and_announced [OF r this] r show ?thesis by blast
qed

section \<open>Reused event ids, toggles and failures\<close>

text \<open>A request that is refused because its client event id belongs to another event has already been applied.\<close>

theorem refused_change_is_applied:
  "let (r, s') = settings_serve (SDisable (env_at 2) 7 ''phone'' ''mail'' ''e1'') demo_settings
   in \<not> succeeds r \<and> map sk_enabled (st_skills demo_settings) = [True] \<and> map sk_enabled (st_skills s') = [False]
      \<and> ss_events (st_sync s') = ss_events (st_sync demo_settings)"
  by code_simp

text \<open>A late repetition of an accepted request is answered with its old event, but it writes its old values over
  everything that was changed since, and no event tells the other devices.\<close>

theorem late_retry_reverts_silently:
  "let s1 = snd (settings_serve (SUpdate (env_at 2) 7 ''laptop'' ''mail'' (Some [(''size'', AInt 9)]) ''e2'') demo_settings);
       (r, s2) = settings_serve (SUpdate (env_at 3) 7 ''phone'' ''mail'' (Some [(''size'', AInt 3)]) ''e1'') s1
   in succeeds r \<and> map sk_config (st_skills s1) = [[(''size'', AInt 9)]] \<and> map sk_config (st_skills s2) = [[(''size'', AInt 3)]]
      \<and> ss_events (st_sync s2) = ss_events (st_sync s1)"
  by code_simp

text \<open>Enabling or disabling a skill erases its stored configuration.\<close>

theorem toggle_wipes_config:
  "map sk_config (st_skills demo_settings) = [[(''size'', AInt 3)]]
   \<and> map sk_config (st_skills (snd (settings_serve (SEnable (env_at 2) 7 ''phone'' ''mail'' '''') demo_settings))) = [[]]"
  by code_simp

text \<open>When the delete fails, the other devices have already been told that the connection is gone.\<close>

theorem removal_announced_but_not_done:
  "let s1 = snd (settings_serve (SAddServer (env_at 1) 7 ''phone'' \<lparr>as_server_id = ''srv'', as_name = ''n'', as_base_url = ''u'',
              as_status = '''', as_config = None, as_client_event_id = ''''\<rparr>) settings_init);
       i = sv_id (hd (st_servers s1));
       (r, s2) = settings_serve (SRemoveServer ((env_at 2)\<lparr>e_db := \<lambda>op n. op = ''DeleteServer''\<rparr>) 7 ''phone'' i '''') s1
   in \<not> succeeds r \<and> length (st_servers s2) = 1 \<and> map ev_operation (ss_events (st_sync s2)) = [''added'', ''removed'']"
  by code_simp

end
