(* ===== verification/Objects.thy ===== *)
theory Objects
  imports Governance
begin

text \<open>
  Stored objects (\<open>internal/service/object_storage.go\<close> over
  \<open>internal/repository/object_records_repo.go\<close>): the record of an object goes from pending to active to
  deleted, the bytes stay with a storage backend the service only calls. The backend is an interface of the
  source; its MinIO implementation only calls the client library. What it answers in one request is a
  parameter.
\<close>

section \<open>State and backend\<close>

record object_record =
  ob_id :: uuid
  ob_created_at :: time
  ob_updated_at :: time
  ob_owner_id :: uuid
  ob_scope :: string
  ob_bucket :: string
  ob_object_key :: string
  ob_object_uri :: string
  ob_filename :: string
  ob_content_type :: string
  ob_content_hash :: string
  ob_content_size :: int
  ob_status :: string
  ob_ref_count :: int
  ob_expires_at :: "time option"
  ob_completed_at :: "time option"
  ob_deleted_at :: "time option"

record object_state =
  obs_records :: "object_record list"
  obs_gov :: gov_state

definition objects_init :: object_state where
  "objects_init = \<lparr>obs_records = [], obs_gov = gov_init\<rparr>"

record object_head =
  oh_content_hash :: string
  oh_content_size :: int
  oh_content_type :: string

record storage_backend =
  sb_ensure_bucket :: "string \<Rightarrow> unit result"
  sb_put :: "string \<Rightarrow> string \<Rightarrow> string \<Rightarrow> string \<Rightarrow> unit result"
  sb_presign_put :: "string \<Rightarrow> string \<Rightarrow> int \<Rightarrow> string \<Rightarrow> string result"
  sb_presign_get :: "string \<Rightarrow> string \<Rightarrow> int \<Rightarrow> string \<Rightarrow> string result"
  sb_head :: "string \<Rightarrow> string \<Rightarrow> object_head result"
  sb_read :: "string \<Rightarrow> string \<Rightarrow> int \<Rightarrow> string result"

text \<open>The configuration of the service, with its governance enforcer, if one is set.\<close>

record object_config =
  oc_bucket :: string
  oc_upload_ttl_secs :: int
  oc_download_ttl_secs :: int
  oc_enforcer :: "enforcement_config option"

section \<open>Repository\<close>

text \<open>The primary key and the unique indexes on object key and URI.\<close>

definition ob_clash :: "object_record \<Rightarrow> object_record \<Rightarrow> bool" where
  "ob_clash r x \<longleftrightarrow> ob_id x = ob_id r \<or> ob_object_key x = ob_object_key r \<or> ob_object_uri x = ob_object_uri r"

definition CreateObject :: "env \<Rightarrow> object_record \<Rightarrow> object_state \<Rightarrow> object_state result" where
  "CreateObject E r s =
     (case db_insert E ''CreateObject'' 0 ob_clash r (obs_records s) of
        Inl e \<Rightarrow> Inl e | Inr t \<Rightarrow> Inr (s\<lparr>obs_records := t\<rparr>))"

definition GetByIDForOwner :: "env \<Rightarrow> nat \<Rightarrow> uuid \<Rightarrow> uuid \<Rightarrow> object_state \<Rightarrow> object_record result" where
  "GetByIDForOwner E n owner i s =
     db_first E ''GetByIDForOwner'' n ob_id (\<lambda>r. ob_id r = i \<and> ob_owner_id r = owner) (obs_records s)"

definition GetByObjectURI :: "env \<Rightarrow> string \<Rightarrow> object_state \<Rightarrow> object_record result" where
  "GetByObjectURI E uri s = db_first E ''GetByObjectURI'' 0 ob_id (\<lambda>r. ob_object_uri r = uri) (obs_records s)"

definition MarkActive :: "env \<Rightarrow> uuid \<Rightarrow> object_state \<Rightarrow> object_state result" where
  "MarkActive E i s =
     (case db_update E ''MarkActive'' 0 (\<lambda>r. ob_id r = i \<and> ob_status r = ''pending'')
             (\<lambda>r. r\<lparr>ob_status := ''active'', ob_completed_at := Some (e_now E), ob_updated_at := e_now E\<rparr>) (obs_records s) of
        Inl e \<Rightarrow> Inl e | Inr t \<Rightarrow> Inr (s\<lparr>obs_records := t\<rparr>))"

definition SoftDelete :: "env \<Rightarrow> uuid \<Rightarrow> object_state \<Rightarrow> object_state result" where
  "SoftDelete E i s =
     (let P = (\<lambda>r. ob_id r = i \<and> ob_status r \<noteq> ''deleted'') in
      case db_update E ''SoftDelete'' 0 P
             (\<lambda>r. r\<lparr>ob_status := ''deleted'', ob_deleted_at := Some (e_now E), ob_updated_at := e_now E\<rparr>) (obs_records s) of
        Inl e \<Rightarrow> Inl e
      | Inr t \<Rightarrow> if count_where P (obs_records s) = 0 then Inl ErrRecordNotFound else Inr (s\<lparr>obs_records := t\<rparr>))"

section \<open>Object keys\<close>

text \<open>\<open>url.PathEscape\<close>, byte by byte: what a path segment may not hold is written in hexadecimal.\<close>

definition hex_digit :: "nat \<Rightarrow> char" where
  "hex_digit n = (if n < 10 then char_of (48 + n) else char_of (55 + n))"

definition path_safe :: "char \<Rightarrow> bool" where
  "path_safe c \<longleftrightarrow>
     (let n = (of_char c :: nat) in 97 \<le> n \<and> n \<le> 122 \<or> 65 \<le> n \<and> n \<le> 90 \<or> 48 \<le> n \<and> n \<le> 57)
     \<or> c \<in> set ''-_.~$&+:=@''"

definition PathEscape :: "string \<Rightarrow> string" where
  "PathEscape s = concat (map (\<lambda>c. if path_safe c then [c]
     else [CHR ''%'', hex_digit (of_char c div 16), hex_digit (of_char c mod 16)]) s)"

text \<open>\<open>strings.FieldsFunc\<close>: the maximal runs of characters that are no separators.\<close>

fun fields_acc :: "(char \<Rightarrow> bool) \<Rightarrow> string \<Rightarrow> string \<Rightarrow> string list" where
  "fields_acc sep acc [] = (if acc = [] then [] else [rev acc])"
| "fields_acc sep acc (c # s) =
     (if sep c then (if acc = [] then fields_acc sep [] s else rev acc # fields_acc sep [] s) else fields_acc sep (c # acc) s)"

definition FieldsFunc :: "(char \<Rightarrow> bool) \<Rightarrow> string \<Rightarrow> string list" where
  "FieldsFunc sep s = fields_acc sep [] s"

text \<open>\<open>strings.Join\<close>.\<close>

fun join :: "string \<Rightarrow> string list \<Rightarrow> string" where
  "join sep [] = ''''"
| "join sep [s] = s"
| "join sep (s # t # ss) = s @ sep @ join sep (t # ss)"

definition is_separator :: "char \<Rightarrow> bool" where
  "is_separator c \<longleftrightarrow> c \<in> set ''/:?#&''"

definition sanitizePathSegment :: "string \<Rightarrow> string" where
  "sanitizePathSegment value =
     (let v = map (\<lambda>c. if c = CHR 0x5C then CHR ''/'' else c) (trim value);
          parts = filter (\<lambda>p. p \<notin> {'''', ''.'', ''..''}) (map trim (FieldsFunc is_separator v));
          clean = map PathEscape parts
      in if clean = [] then ''default'' else join ''-'' clean)"

text \<open>\<open>filepath.Base\<close> on Unix.\<close>

definition filepath_Base :: "string \<Rightarrow> string" where
  "filepath_Base path =
     (if path = '''' then ''.''
      else let p = rev (dropWhile (\<lambda>c. c = CHR ''/'') (rev path));
               b = rev (takeWhile (\<lambda>c. c \<noteq> CHR ''/'') (rev p))
           in if b = '''' then ''/'' else b)"

definition buildObjectKey :: "env \<Rightarrow> uuid \<Rightarrow> uuid \<Rightarrow> string \<Rightarrow> string \<Rightarrow> string" where
  "buildObjectKey E owner i scope filename =
     (let safeScope = sanitizePathSegment scope;
          name = sanitizePathSegment (filepath_Base filename);
          safeName = (if name \<in> {''.'', ''/'', ''''} then ''object.bin'' else name)
      in ''objects/'' @ e_uuid_str E owner @ ''/'' @ safeScope @ ''/'' @ e_uuid_str E i @ ''/'' @ safeName)"

section \<open>Governance of objects\<close>

definition objectCapability :: "string \<Rightarrow> string \<Rightarrow> string" where
  "objectCapability operation scope =
     (let normalized = map (\<lambda>c. if c = CHR ''-'' \<or> c = CHR ''/'' then CHR ''_'' else c) (trim scope)
      in if normalized = '''' then ''object.'' @ trim operation else ''object.'' @ trim operation @ ''.'' @ normalized)"

definition object_governance_input :: "uuid \<Rightarrow> string \<Rightarrow> string \<Rightarrow> string \<Rightarrow> json_map \<Rightarrow> enforcement_input" where
  "object_governance_input owner operation scope subjectID context =
     \<lparr>fi_actor_user_id = Some owner, fi_actor_device_id = '''', fi_subject_type = ''object_operation'',
      fi_subject_id = subjectID, fi_capability_key = objectCapability operation scope, fi_risk_level = ''medium'',
      fi_context = Some context, fi_approval_token = '''', fi_approval_consumed_by = ''''\<rparr>"

definition enforceObjectGovernance :: "env \<Rightarrow> object_config \<Rightarrow> uuid \<Rightarrow> string \<Rightarrow> string \<Rightarrow> string \<Rightarrow> json_map \<Rightarrow> object_state
    \<Rightarrow> unit result \<times> object_state" where
  "enforceObjectGovernance E C owner operation scope subjectID context s =
     (case oc_enforcer C of
        None \<Rightarrow> (Inr (), s)
      | Some cfg \<Rightarrow>
          (case Enforce E cfg (object_governance_input owner operation scope subjectID context) (obs_gov s) of
             (_, None, g) \<Rightarrow> (Inr (), s\<lparr>obs_gov := g\<rparr>)
           | (_, Some e, g) \<Rightarrow> (Inl e, s\<lparr>obs_gov := g\<rparr>)))"

section \<open>Service\<close>

record store_object_input =
  so_scope :: string
  so_filename :: string
  so_content_type :: string
  so_content :: string

record upload_intent_input =
  ui_scope :: string
  ui_filename :: string
  ui_content_type :: string
  ui_content_size :: int
  ui_sha256 :: string

record upload_intent_response =
  ur_object :: object_record
  ur_upload_url :: string
  ur_method :: string
  ur_expires_at :: time

record complete_upload_input =
  cx_observed_hash :: string
  cx_observed_size :: int

record download_url_response =
  dr_object :: object_record
  dr_download_url :: string
  dr_expires_at :: time

definition object_uri :: "object_config \<Rightarrow> string \<Rightarrow> string" where
  "object_uri C key = ''minio://'' @ oc_bucket C @ ''/'' @ key"

definition StoreObject :: "env \<Rightarrow> object_config \<Rightarrow> storage_backend \<Rightarrow> uuid \<Rightarrow> store_object_input \<Rightarrow> object_state
    \<Rightarrow> object_record result \<times> object_state" where
  "StoreObject E C B owner input s =
     (if owner = uuid_nil then (Inl ErrObjectForbidden, s)
      else if trim (so_scope input) = '''' \<or> contains_str (so_scope input) ''..'' then (Inl (Wrapf ''invalid scope'' ErrObjectInvalid), s)
      else if trim (so_filename input) = '''' then (Inl (Wrapf ''filename is required'' ErrObjectInvalid), s)
      else if so_content input = '''' then (Inl (Wrapf ''content is required'' ErrObjectInvalid), s)
      else case sb_ensure_bucket B (oc_bucket C) of
        Inl e \<Rightarrow> (Inl e, s)
      | Inr _ \<Rightarrow>
          let i = e_uuid E ''object_records'' 0;
              hash = e_sha256_hex E (so_content input);
              key = buildObjectKey E owner i (so_scope input) (so_filename input);
              ct = (if trim (so_content_type input) = '''' then ''application/octet-stream'' else trim (so_content_type input))
          in case sb_put B (oc_bucket C) key (so_content input) ct of
               Inl e \<Rightarrow> (Inl e, s)
             | Inr _ \<Rightarrow>
                 let r = \<lparr>ob_id = i, ob_created_at = e_now E, ob_updated_at = e_now E, ob_owner_id = owner,
                       ob_scope = trim (so_scope input), ob_bucket = oc_bucket C, ob_object_key = key,
                       ob_object_uri = object_uri C key, ob_filename = trim (so_filename input), ob_content_type = ct,
                       ob_content_hash = hash, ob_content_size = int (length (so_content input)), ob_status = ''active'',
                       ob_ref_count = 0, ob_expires_at = None, ob_completed_at = Some (e_now E), ob_deleted_at = None\<rparr>
                 in case CreateObject E r s of Inl e \<Rightarrow> (Inl e, s) | Inr s' \<Rightarrow> (Inr r, s'))"

definition validateUploadIntentInput :: "upload_intent_input \<Rightarrow> unit result" where
  "validateUploadIntentInput input =
     (if trim (ui_scope input) = '''' then Inl (Wrapf ''scope is required'' ErrObjectInvalid)
      else if contains_str (ui_scope input) ''..'' then Inl (Wrapf ''invalid scope'' ErrObjectInvalid)
      else if trim (ui_filename input) = '''' then Inl (Wrapf ''filename is required'' ErrObjectInvalid)
      else if ui_content_size input \<le> 0 then Inl (Wrapf ''content_size must be positive'' ErrObjectInvalid)
      else if trim (ui_sha256 input) = '''' then Inl (Wrapf ''sha256 is required'' ErrObjectInvalid)
      else if length (trim (ui_sha256 input)) \<noteq> 64 then Inl (Wrapf ''sha256 must be 64 hex characters'' ErrObjectInvalid)
      else Inr ())"

definition CreateUploadIntent :: "env \<Rightarrow> object_config \<Rightarrow> storage_backend \<Rightarrow> uuid \<Rightarrow> upload_intent_input \<Rightarrow> object_state
    \<Rightarrow> upload_intent_response result \<times> object_state" where
  "CreateUploadIntent E C B owner input s =
     (if owner = uuid_nil then (Inl ErrObjectForbidden, s)
      else case validateUploadIntentInput input of
        Inl e \<Rightarrow> (Inl e, s)
      | Inr _ \<Rightarrow>
          (case enforceObjectGovernance E C owner ''upload'' (ui_scope input) (trim (ui_scope input))
                  [(''scope'', AStr (ui_scope input)), (''filename'', AStr (ui_filename input)),
                   (''content_type'', AStr (ui_content_type input)), (''content_size'', AInt (ui_content_size input))] s of
             (Inl e, s1) \<Rightarrow> (Inl e, s1)
           | (Inr _, s1) \<Rightarrow>
               (case sb_ensure_bucket B (oc_bucket C) of
                  Inl e \<Rightarrow> (Inl e, s1)
                | Inr _ \<Rightarrow>
                    let i = e_uuid E ''object_records'' 0;
                        ttl = seconds (oc_upload_ttl_secs C);
                        expiresAt = e_now E + ttl;
                        key = buildObjectKey E owner i (ui_scope input) (ui_filename input)
                    in case sb_presign_put B (oc_bucket C) key ttl (trim (ui_content_type input)) of
                         Inl e \<Rightarrow> (Inl e, s1)
                       | Inr url \<Rightarrow>
                           let r = \<lparr>ob_id = i, ob_created_at = e_now E, ob_updated_at = e_now E, ob_owner_id = owner,
                                 ob_scope = trim (ui_scope input), ob_bucket = oc_bucket C, ob_object_key = key,
                                 ob_object_uri = object_uri C key, ob_filename = trim (ui_filename input),
                                 ob_content_type = trim (ui_content_type input),
                                 ob_content_hash = to_lower (trim (ui_sha256 input)), ob_content_size = ui_content_size input,
                                 ob_status = ''pending'', ob_ref_count = 0, ob_expires_at = Some expiresAt,
                                 ob_completed_at = None, ob_deleted_at = None\<rparr>
                           in case CreateObject E r s1 of
                                Inl e \<Rightarrow> (Inl e, s1)
                              | Inr s2 \<Rightarrow>
                                  (Inr \<lparr>ur_object = r, ur_upload_url = url, ur_method = ''PUT'', ur_expires_at = expiresAt\<rparr>, s2))))"

definition getOwned :: "env \<Rightarrow> nat \<Rightarrow> uuid \<Rightarrow> uuid \<Rightarrow> object_state \<Rightarrow> object_record result" where
  "getOwned E n owner i s =
     (if owner = uuid_nil then Inl ErrObjectForbidden
      else case GetByIDForOwner E n owner i s of
             Inl e \<Rightarrow> Inl (if e = ErrRecordNotFound then ErrObjectNotFound else e)
           | Inr r \<Rightarrow> Inr r)"

text \<open>What a completion compares: the hash and size the client says it observed, else those the backend
  reports, with the declared ones; and the content types.\<close>

definition upload_matches :: "object_record \<Rightarrow> complete_upload_input \<Rightarrow> object_head \<Rightarrow> unit result" where
  "upload_matches r input head =
     (let given = to_lower (trim (cx_observed_hash input));
          observedHash = (if given \<noteq> '''' then given else to_lower (trim (oh_content_hash head)));
          observedSize = (if cx_observed_size input = 0 then oh_content_size head else cx_observed_size input)
      in if observedHash \<noteq> '''' \<and> observedHash \<noteq> to_lower (ob_content_hash r) then Inl ErrObjectHashMismatch
         else if observedSize \<noteq> 0 \<and> observedSize \<noteq> ob_content_size r then Inl ErrObjectSizeMismatch
         else if oh_content_type head \<noteq> '''' \<and> ob_content_type r \<noteq> '''' \<and> oh_content_type head \<noteq> ob_content_type r
         then Inl ErrObjectTypeMismatch
         else Inr ())"

definition CompleteUpload :: "env \<Rightarrow> storage_backend \<Rightarrow> uuid \<Rightarrow> uuid \<Rightarrow> complete_upload_input \<Rightarrow> object_state
    \<Rightarrow> object_record result \<times> object_state" where
  "CompleteUpload E B owner i input s =
     (case getOwned E 0 owner i s of
        Inl e \<Rightarrow> (Inl e, s)
      | Inr r \<Rightarrow>
          if ob_status r \<noteq> ''pending'' then (Inl ErrObjectInvalid, s)
          else if (case ob_expires_at r of None \<Rightarrow> False | Some t \<Rightarrow> t < e_now E)
          then (Inl (Wrapf ''upload intent expired'' ErrObjectInvalid), s)
          else case sb_head B (ob_bucket r) (ob_object_key r) of
            Inl e \<Rightarrow> (Inl e, s)
          | Inr head \<Rightarrow>
              (case upload_matches r input head of
                 Inl e \<Rightarrow> (Inl e, s)
               | Inr _ \<Rightarrow>
                   (case MarkActive E (ob_id r) s of
                      Inl e \<Rightarrow> (Inl e, s)
                    | Inr s1 \<Rightarrow> (GetByIDForOwner E 1 owner i s1, s1))))"

definition GetObject :: "env \<Rightarrow> uuid \<Rightarrow> uuid \<Rightarrow> object_state \<Rightarrow> object_record result" where
  "GetObject E owner i s = getOwned E 0 owner i s"

definition RequireActiveOwnedObject :: "env \<Rightarrow> nat \<Rightarrow> uuid \<Rightarrow> uuid \<Rightarrow> object_state \<Rightarrow> object_record result" where
  "RequireActiveOwnedObject E n owner i s =
     (case getOwned E n owner i s of
        Inl e \<Rightarrow> Inl e
      | Inr r \<Rightarrow> if ob_status r \<noteq> ''active'' then Inl ErrObjectNotActive else Inr r)"

definition createDownloadURLForRecord :: "env \<Rightarrow> object_config \<Rightarrow> storage_backend \<Rightarrow> object_record \<Rightarrow> string \<Rightarrow> download_url_response result" where
  "createDownloadURLForRecord E C B r disp =
     (if ob_status r \<noteq> ''active'' then Inl ErrObjectNotActive
      else let disposition = (if trim disp = '''' then ''attachment'' else trim disp) in
        if disposition \<noteq> ''attachment'' \<and> disposition \<noteq> ''inline''
        then Inl (Wrapf ''disposition must be attachment or inline'' ErrObjectInvalid)
        else let ttl = seconds (oc_download_ttl_secs C) in
          case sb_presign_get B (ob_bucket r) (ob_object_key r) ttl disposition of
            Inl e \<Rightarrow> Inl e
          | Inr url \<Rightarrow> Inr \<lparr>dr_object = r, dr_download_url = url, dr_expires_at = e_now E + ttl\<rparr>)"

definition CreateDownloadURL :: "env \<Rightarrow> object_config \<Rightarrow> storage_backend \<Rightarrow> uuid \<Rightarrow> uuid \<Rightarrow> string \<Rightarrow> object_state
    \<Rightarrow> download_url_response result \<times> object_state" where
  "CreateDownloadURL E C B owner i disp s =
     (case getOwned E 0 owner i s of
        Inl e \<Rightarrow> (Inl e, s)
      | Inr r \<Rightarrow>
          (case enforceObjectGovernance E C owner ''download'' (ob_scope r) (e_uuid_str E (ob_id r))
                  [(''object_id'', AStr (e_uuid_str E (ob_id r))), (''scope'', AStr (ob_scope r)),
                   (''content_type'', AStr (ob_content_type r))] s of
             (Inl e, s1) \<Rightarrow> (Inl e, s1)
           | (Inr _, s1) \<Rightarrow> (createDownloadURLForRecord E C B r disp, s1)))"

definition CreateDownloadURLByObjectURI :: "env \<Rightarrow> object_config \<Rightarrow> storage_backend \<Rightarrow> string \<Rightarrow> string \<Rightarrow> object_state
    \<Rightarrow> download_url_response result" where
  "CreateDownloadURLByObjectURI E C B uri disp s =
     (case GetByObjectURI E uri s of
        Inl e \<Rightarrow> Inl (if e = ErrRecordNotFound then ErrObjectNotFound else e)
      | Inr r \<Rightarrow> createDownloadURLForRecord E C B r disp)"

definition ReadObjectByObjectURI :: "env \<Rightarrow> storage_backend \<Rightarrow> string \<Rightarrow> int \<Rightarrow> object_state \<Rightarrow> (object_record \<times> string) result" where
  "ReadObjectByObjectURI E B uri maxBytes s =
     (case GetByObjectURI E uri s of
        Inl e \<Rightarrow> Inl (if e = ErrRecordNotFound then ErrObjectNotFound else e)
      | Inr r \<Rightarrow>
          if ob_status r \<noteq> ''active'' then Inl ErrObjectNotActive
          else let m = (if maxBytes \<le> 0 then 1048576 else maxBytes) in
            if m < ob_content_size r then Inl (Wrapf ''object exceeds max read size'' ErrObjectInvalid)
            else case sb_read B (ob_bucket r) (ob_object_key r) m of Inl e \<Rightarrow> Inl e | Inr content \<Rightarrow> Inr (r, content))"

definition DeleteObject :: "env \<Rightarrow> object_config \<Rightarrow> uuid \<Rightarrow> uuid \<Rightarrow> object_state \<Rightarrow> object_record result \<times> object_state" where
  "DeleteObject E C owner i s =
     (case getOwned E 0 owner i s of
        Inl e \<Rightarrow> (Inl e, s)
      | Inr r \<Rightarrow>
          (case enforceObjectGovernance E C owner ''delete'' (ob_scope r) (e_uuid_str E (ob_id r))
                  [(''object_id'', AStr (e_uuid_str E (ob_id r))), (''scope'', AStr (ob_scope r))] s of
             (Inl e, s1) \<Rightarrow> (Inl e, s1)
           | (Inr _, s1) \<Rightarrow>
               if 0 < ob_ref_count r then (Inl ErrObjectHasReferences, s1)
               else case SoftDelete E (ob_id r) s1 of
                      Inl e \<Rightarrow> (Inl (if e = ErrRecordNotFound then ErrObjectNotFound else e), s1)
                    | Inr s2 \<Rightarrow> (GetByIDForOwner E 1 owner i s2, s2)))"

end
