(* ===== verification/ObjectProps.thy ===== *)
theory ObjectProps
  imports Objects GovernanceProps
begin

text \<open>
  Stored objects: their life is a one-way road on which nothing but the status changes, their keys stay
  inside the directory of their owner, and the governance of \<open>Governance\<close> binds them.
\<close>

datatype object_req =
    OStore env object_config storage_backend uuid store_object_input
  | OIntent env object_config storage_backend uuid upload_intent_input
  | OComplete env storage_backend uuid uuid complete_upload_input
  | ODownload env object_config storage_backend uuid uuid string
  | ODelete env object_config uuid uuid

fun object_serve :: "object_req \<Rightarrow> object_state \<Rightarrow> object_state" where
  "object_serve (OStore E C B u input) s = snd (StoreObject E C B u input s)"
| "object_serve (OIntent E C B u input) s = snd (CreateUploadIntent E C B u input s)"
| "object_serve (OComplete E B u i input) s = snd (CompleteUpload E B u i input s)"
| "object_serve (ODownload E C B u i disp) s = snd (CreateDownloadURL E C B u i disp s)"
| "object_serve (ODelete E C u i) s = snd (DeleteObject E C u i s)"

section \<open>The life of an object\<close>

inductive life_step :: "string \<Rightarrow> string \<Rightarrow> bool" where
  activate: "life_step ''pending'' ''active''"
| abandon: "life_step ''pending'' ''deleted''"
| remove: "life_step ''active'' ''deleted''"

inductive_simps life_step_from_deleted: "life_step ''deleted'' x"

lemma deleted_is_final: "life_step\<^sup>*\<^sup>* ''deleted'' x \<Longrightarrow> x = ''deleted''"
  by (induction rule: rtranclp_induct) (auto simp: life_step_from_deleted)

lemma life_step_to_deleted: "a \<in> {''pending'', ''active'', ''deleted''} \<Longrightarrow> a \<noteq> ''deleted'' \<Longrightarrow> life_step a ''deleted''"
  by (auto intro: life_step.intros)

text \<open>What identifies an object and its contents.\<close>

definition obj_ident :: "object_record \<Rightarrow> (uuid \<times> uuid \<times> string \<times> string \<times> string) \<times> string \<times> string \<times> string \<times> int" where
  "obj_ident r = ((ob_id r, ob_owner_id r, ob_bucket r, ob_object_key r, ob_object_uri r),
     ob_filename r, ob_content_type r, ob_content_hash r, ob_content_size r)"

definition object_inv :: "object_state \<Rightarrow> bool" where
  "object_inv s \<longleftrightarrow> distinct (map ob_id (obs_records s))
     \<and> list_all (\<lambda>r. ob_status r \<in> {''pending'', ''active'', ''deleted''}) (obs_records s)"

text \<open>One request adds a record or moves some records along their road.\<close>

definition moves :: "object_record list \<Rightarrow> object_record list \<Rightarrow> bool" where
  "moves t t' \<longleftrightarrow> t' = t \<or> (\<exists>r. t' = t @ [r] \<and> (\<forall>x\<in>set t. ob_id x \<noteq> ob_id r) \<and> ob_status r \<in> {''pending'', ''active''})
     \<or> (\<exists>P f. t' = upd_where P f t \<and> (\<forall>x\<in>set t. P x \<longrightarrow> obj_ident (f x) = obj_ident x \<and> life_step (ob_status x) (ob_status (f x))))"

lemma CreateObject_moves:
  "CreateObject E r s = Inr s' \<Longrightarrow> ob_status r \<in> {''pending'', ''active''} \<Longrightarrow> moves (obs_records s) (obs_records s')"
  by (auto simp: CreateObject_def db_simps moves_def ob_clash_def split: sum.splits)

lemma MarkActive_moves:
  assumes "MarkActive E i s = Inr s'"
  shows "moves (obs_records s) (obs_records s')"
proof -
  let ?P = "\<lambda>r. ob_id r = i \<and> ob_status r = ''pending''"
  let ?f = "\<lambda>r. r\<lparr>ob_status := ''active'', ob_completed_at := Some (e_now E), ob_updated_at := e_now E\<rparr>"
  have "obs_records s' = upd_where ?P ?f (obs_records s)"
    using assms by (auto simp: MarkActive_def db_simps split: sum.splits)
  moreover have "\<forall>x. ?P x \<longrightarrow> obj_ident (?f x) = obj_ident x \<and> life_step (ob_status x) (ob_status (?f x))"
    by (auto simp: obj_ident_def intro: life_step.intros)
  ultimately show ?thesis unfolding moves_def by blast
qed

lemma SoftDelete_moves:
  assumes "SoftDelete E i s = Inr s'" "object_inv s"
  shows "moves (obs_records s) (obs_records s')"
proof -
  let ?P = "\<lambda>r. ob_id r = i \<and> ob_status r \<noteq> ''deleted''"
  let ?f = "\<lambda>r. r\<lparr>ob_status := ''deleted'', ob_deleted_at := Some (e_now E), ob_updated_at := e_now E\<rparr>"
  have "obs_records s' = upd_where ?P ?f (obs_records s)"
    using assms(1) by (auto simp: SoftDelete_def Let_def db_simps split: sum.splits if_splits)
  moreover have "\<forall>x\<in>set (obs_records s). ?P x \<longrightarrow> obj_ident (?f x) = obj_ident x \<and> life_step (ob_status x) (ob_status (?f x))"
  proof (intro ballI impI conjI)
    fix x assume "x \<in> set (obs_records s)" "?P x"
    with assms(2) life_step_to_deleted show "life_step (ob_status x) (ob_status (?f x))"
      by (auto simp: object_inv_def list_all_iff)
  qed (simp add: obj_ident_def)
  ultimately show ?thesis unfolding moves_def by blast
qed

lemma enforceObjectGovernance_records:
  "enforceObjectGovernance E C u op scope subj ctx s = (r, s') \<Longrightarrow> obs_records s' = obs_records s"
  by (auto simp: enforceObjectGovernance_def split: option.splits prod.splits)

lemma object_inv_cong: "obs_records s' = obs_records s \<Longrightarrow> object_inv s' = object_inv s"
  by (simp add: object_inv_def)

lemma moves_refl: "moves t t"
  by (simp add: moves_def)

lemma object_serve_moves:
  assumes "object_inv s"
  shows "moves (obs_records s) (obs_records (object_serve q s))"
proof (cases q)
  case (OStore E C B u input)
  then show ?thesis
    by (auto simp: StoreObject_def Let_def moves_refl intro: CreateObject_moves split: sum.splits)
next
  case (OIntent E C B u input)
  have "moves (obs_records s) (obs_records (snd (CreateUploadIntent E C B u input s)))"
    by (auto simp: CreateUploadIntent_def Let_def moves_refl dest!: enforceObjectGovernance_records dest: CreateObject_moves
        split: sum.splits prod.splits)
  with OIntent show ?thesis by simp
next
  case (OComplete E B u i input)
  then show ?thesis
    by (auto simp: CompleteUpload_def moves_refl intro: MarkActive_moves split: sum.splits)
next
  case (ODownload E C B u i disp)
  then show ?thesis
    by (auto simp: CreateDownloadURL_def moves_refl dest!: enforceObjectGovernance_records split: sum.splits prod.splits)
next
  case (ODelete E C u i)
  have "moves (obs_records s) (obs_records (snd (DeleteObject E C u i s)))"
  proof (cases "getOwned E 0 u i s")
    case (Inr r)
    obtain g s1 where g: "enforceObjectGovernance E C u ''delete'' (ob_scope r) (e_uuid_str E (ob_id r))
                  [(''object_id'', AStr (e_uuid_str E (ob_id r))), (''scope'', AStr (ob_scope r))] s = (g, s1)" by fastforce
    have s1: "obs_records s1 = obs_records s" using enforceObjectGovernance_records [OF g] .
    with assms have "object_inv s1" by (simp add: object_inv_def)
    with Inr g s1 SoftDelete_moves [of E "ob_id r" s1] show ?thesis
      by (auto simp: DeleteObject_def moves_refl split: sum.splits)
  qed (simp add: DeleteObject_def moves_refl)
  with ODelete show ?thesis by simp
qed

lemma life_step_status: "life_step a b \<Longrightarrow> b \<in> {''pending'', ''active'', ''deleted''}"
  by (auto elim: life_step.cases)

lemma moves_inv:
  assumes "moves (obs_records s) (obs_records s')" "object_inv s"
  shows "object_inv s'"
proof -
  consider "obs_records s' = obs_records s"
    | r where "obs_records s' = obs_records s @ [r]" "\<forall>x\<in>set (obs_records s). ob_id x \<noteq> ob_id r" "ob_status r \<in> {''pending'', ''active''}"
    | P f where "obs_records s' = upd_where P f (obs_records s)"
        "\<forall>x\<in>set (obs_records s). P x \<longrightarrow> obj_ident (f x) = obj_ident x \<and> life_step (ob_status x) (ob_status (f x))"
    using assms(1) unfolding moves_def by blast
  then show ?thesis
  proof cases
    case (3 P f)
    have "map ob_id (obs_records s') = map ob_id (obs_records s)"
      unfolding 3(1) using 3(2) by (intro map_upd_where) (simp add: obj_ident_def)
    moreover have "ob_status y \<in> {''pending'', ''active'', ''deleted''}" if "y \<in> set (obs_records s')" for y
      using that unfolding 3(1)
    proof (cases rule: in_upd_whereE)
      case (upd x)
      with 3(2) life_step_status show ?thesis by metis
    qed (use assms(2) in \<open>auto simp: object_inv_def list_all_iff\<close>)
    ultimately show ?thesis using assms(2) by (simp add: object_inv_def list_all_iff)
  qed (use assms(2) in \<open>auto simp: object_inv_def\<close>)
qed

lemma moves_row:
  assumes "moves t t'" "x \<in> set t"
  obtains y where "y \<in> set t'" "obj_ident y = obj_ident x" "life_step\<^sup>*\<^sup>* (ob_status x) (ob_status y)"
proof -
  have "\<exists>y\<in>set t'. obj_ident y = obj_ident x \<and> life_step\<^sup>*\<^sup>* (ob_status x) (ob_status y)"
    using assms unfolding moves_def
  proof (elim disjE exE conjE)
    fix P f
    assume t': "t' = upd_where P f t"
      and f: "\<forall>x\<in>set t. P x \<longrightarrow> obj_ident (f x) = obj_ident x \<and> life_step (ob_status x) (ob_status (f x))"
    let ?y = "if P x then f x else x"
    have "?y \<in> set t'" using assms(2) by (simp add: t' set_upd_where)
    moreover have "obj_ident ?y = obj_ident x \<and> life_step\<^sup>*\<^sup>* (ob_status x) (ob_status ?y)" using f assms(2) by auto
    ultimately show ?thesis by blast
  qed auto
  then show ?thesis using that by blast
qed

text \<open>
  C28: The life of an object is a one-way road: through every sequence of requests a record stays, with its
  owner, its place in the store and the hash, size and type it was declared with, and its status only moves
  from pending to active or deleted and from active to deleted.
\<close>

theorem object_life_is_one_way:
  assumes "object_inv s" "x \<in> set (obs_records s)"
  shows "\<exists>y\<in>set (obs_records (fold object_serve qs s)). obj_ident y = obj_ident x \<and> life_step\<^sup>*\<^sup>* (ob_status x) (ob_status y)"
  using assms
proof (induction qs arbitrary: s x)
  case (Cons q qs)
  note m = object_serve_moves [OF Cons.prems(1), of q]
  obtain y where y: "y \<in> set (obs_records (object_serve q s))" "obj_ident y = obj_ident x"
    "life_step\<^sup>*\<^sup>* (ob_status x) (ob_status y)" using moves_row [OF m Cons.prems(2)] .
  from Cons.IH [OF moves_inv [OF m Cons.prems(1)] y(1)] y(2,3) show ?case by (auto intro: rtranclp_trans)
qed auto

section \<open>Keys\<close>

text \<open>The segments of a path, empty ones included.\<close>

fun segments :: "string \<Rightarrow> string list" where
  "segments [] = [[]]"
| "segments (c # s) = (if c = CHR ''/'' then [] # segments s else (c # hd (segments s)) # tl (segments s))"

lemma segments_ne [simp]: "segments s \<noteq> []"
  by (cases s) auto

lemma segments_single: "CHR ''/'' \<notin> set s \<Longrightarrow> segments s = [s]"
  by (induction s) auto

lemma segments_append: "CHR ''/'' \<notin> set a \<Longrightarrow> segments (a @ CHR ''/'' # b) = a # segments b"
  by (induction a) auto

text \<open>A segment that stays where it is: not empty, not the directory itself or the one above.\<close>

definition plain_segment :: "string \<Rightarrow> bool" where
  "plain_segment s \<longleftrightarrow> CHR ''/'' \<notin> set s \<and> s \<notin> {'''', ''.'', ''..''}"

lemma not_safe: "\<not> path_safe CHR ''/''" "\<not> path_safe CHR ''%''"
  by code_simp+

lemma hex_digit_not_slash: "n < 16 \<Longrightarrow> hex_digit n \<noteq> CHR ''/''"
proof -
  have "list_all (\<lambda>n. hex_digit n \<noteq> CHR ''/'') [0..<16]" by code_simp
  then show "n < 16 \<Longrightarrow> hex_digit n \<noteq> CHR ''/''" by (simp add: list_all_iff)
qed

lemma PathEscape_Cons: "PathEscape (c # s) = (if path_safe c then [c]
     else [CHR ''%'', hex_digit (of_char c div 16), hex_digit (of_char c mod 16)]) @ PathEscape s"
  by (simp add: PathEscape_def)

lemma PathEscape_Nil [simp]: "PathEscape [] = []"
  by (simp add: PathEscape_def)

lemma slash_not_in_PathEscape: "CHR ''/'' \<notin> set (PathEscape s)"
proof (induction s)
  case (Cons c s)
  have "(of_char c :: nat) < 256" by simp
  then have "(of_char c :: nat) div 16 < 16" "(of_char c :: nat) mod 16 < 16" by linarith+
  then have "hex_digit (of_char c div 16) \<noteq> CHR ''/''" "hex_digit (of_char c mod 16) \<noteq> CHR ''/''"
    by (simp_all only: hex_digit_not_slash not_False_eq_True)
  with Cons not_safe(1) show ?case by (auto simp: PathEscape_Cons)
qed simp

lemma PathEscape_plain: "CHR ''%'' \<notin> set (PathEscape s) \<Longrightarrow> PathEscape s = s"
  by (induction s) (auto simp: PathEscape_Cons split: if_splits)

lemma plain_PathEscape: "p \<notin> {'''', ''.'', ''..''} \<Longrightarrow> plain_segment (PathEscape p)"
proof -
  assume p: "p \<notin> {'''', ''.'', ''..''}"
  have "PathEscape p \<notin> {'''', ''.'', ''..''}"
  proof
    assume a: "PathEscape p \<in> {'''', ''.'', ''..''}"
    then have "CHR ''%'' \<notin> set (PathEscape p)" by auto
    with a p PathEscape_plain show False by metis
  qed
  then show ?thesis by (simp add: plain_segment_def slash_not_in_PathEscape)
qed

lemma set_join: "set (join sep ss) \<subseteq> set sep \<union> \<Union> (set ` set ss)"
  by (induction sep ss rule: join.induct) auto

lemma plain_join:
  assumes "list_all plain_segment ss" "ss \<noteq> []"
  shows "plain_segment (join ''-'' ss)"
proof (cases "tl ss = []")
  case True
  with assms show ?thesis by (cases ss) simp_all
next
  case False
  then obtain s t us where ss: "ss = s # t # us" using assms(2) by (cases ss; cases "tl ss") auto
  have "CHR ''-'' \<in> set (join ''-'' ss)" by (simp add: ss)
  then have "join ''-'' ss \<notin> {'''', ''.'', ''..''}" by auto
  moreover have "CHR ''/'' \<notin> set (join ''-'' ss)"
    using set_join [of "''-''" ss] assms(1) by (auto simp: list_all_iff plain_segment_def)
  ultimately show ?thesis by (simp add: plain_segment_def)
qed

lemma plain_sanitize: "plain_segment (sanitizePathSegment v)"
proof -
  let ?v = "map (\<lambda>c. if c = CHR 0x5C then CHR ''/'' else c) (trim v)"
  let ?parts = "filter (\<lambda>p. p \<notin> {'''', ''.'', ''..''}) (map trim (FieldsFunc is_separator ?v))"
  have "list_all plain_segment (map PathEscape ?parts)"
    using plain_PathEscape by (auto simp: list_all_iff)
  moreover have "plain_segment ''default''" by code_simp
  ultimately show ?thesis using plain_join [of "map PathEscape ?parts"] by (auto simp: sanitizePathSegment_def Let_def)
qed

text \<open>
  C27: No object can be stored outside the directory of its owner: whatever scope and file name a client
  sends, the key has exactly five segments, the second is the owner, the fourth the record, and none of
  them is empty or a step to the same or the upper directory.
\<close>

theorem object_key_is_confined:
  assumes "plain_segment (e_uuid_str E owner)" "plain_segment (e_uuid_str E i)"
  shows "\<exists>sc nm. segments (buildObjectKey E owner i scope filename) = [''objects'', e_uuid_str E owner, sc, e_uuid_str E i, nm]
     \<and> plain_segment sc \<and> plain_segment nm"
proof -
  let ?nm = "if sanitizePathSegment (filepath_Base filename) \<in> {''.'', ''/'', ''''} then ''object.bin''
     else sanitizePathSegment (filepath_Base filename)"
  have nm: "plain_segment ?nm" using plain_sanitize [of "filepath_Base filename"] by (auto simp: plain_segment_def)
  have key: "buildObjectKey E owner i scope filename =
     ''objects'' @ CHR ''/'' # e_uuid_str E owner @ CHR ''/'' # sanitizePathSegment scope @ CHR ''/'' # e_uuid_str E i @ CHR ''/'' # ?nm"
    by (simp add: buildObjectKey_def Let_def)
  have "segments (buildObjectKey E owner i scope filename) = [''objects'', e_uuid_str E owner, sanitizePathSegment scope, e_uuid_str E i, ?nm]"
    using assms plain_sanitize [of scope] nm unfolding key plain_segment_def
    by (simp add: segments_append segments_single del: append.simps append_Cons)
  with nm plain_sanitize show ?thesis by metis
qed

theorem object_key_is_confined_witness:
  "\<exists>sc nm. segments (buildObjectKey env0 7 9 ''a/../../b'' ''..'') = [''objects'', ''7'', sc, ''9'', nm]
     \<and> plain_segment sc \<and> plain_segment nm"
proof -
  have "plain_segment (e_uuid_str env0 7)" "plain_segment (e_uuid_str env0 9)" by code_simp+
  moreover have "e_uuid_str env0 7 = ''7''" "e_uuid_str env0 9 = ''9''" by code_simp+
  ultimately show ?thesis using object_key_is_confined [of env0 7 9 "''a/../../b''" "''..''"] by simp
qed

section \<open>Governance binds objects\<close>

lemma modeFor_object: "modeFor cfg ''object_operation'' = m \<Longrightarrow> modeFor cfg (fi_subject_type (object_governance_input u op sc subj ctx)) = m"
  by (simp add: object_governance_input_def)

text \<open>A live switch for everything.\<close>

definition halted :: "env \<Rightarrow> object_config \<Rightarrow> object_state \<Rightarrow> bool" where
  "halted E C s \<longleftrightarrow> (\<exists>cfg. oc_enforcer C = Some cfg \<and> modeFor cfg ''object_operation'' = GovernanceEnforcementModeEnforce)
     \<and> list_ex (\<lambda>k. switch_live (e_now E) k \<and> ks_scope_type k = ''global'') (gs_switches (obs_gov s))"

lemma halted_refuses:
  assumes "halted E C s"
  shows "\<not> succeeds (fst (enforceObjectGovernance E C u op sc subj ctx s))"
proof -
  let ?i = "object_governance_input u op sc subj ctx"
  obtain cfg k where cfg: "oc_enforcer C = Some cfg" "modeFor cfg ''object_operation'' = GovernanceEnforcementModeEnforce"
    and k: "k \<in> set (gs_switches (obs_gov s))" "switch_live (e_now E) k" "ks_scope_type k = ''global''"
    using assms by (auto simp: halted_def list_ex_iff)
  have stopped: "stopped_by E (evaluate_input_of ?i) (obs_gov s) k"
    using k by (simp add: stopped_by_def switch_applies_def)
  have "\<not> lets_pass (Enforce E cfg ?i (obs_gov s))"
  proof
    assume "lets_pass (Enforce E cfg ?i (obs_gov s))"
    then obtain d s' where e: "Evaluate E (evaluate_input_of ?i) (obs_gov s) = Inr (d, s')" and allow: "pd_decision d = GovernanceDecisionAllow"
      by (rule Enforce_without_token [rotated 2]) (simp_all add: modeFor_object cfg(2), simp add: object_governance_input_def)
    from stopped have "\<exists>k\<in>set (gs_switches (obs_gov s)). stopped_by E (evaluate_input_of ?i) (obs_gov s) k" using k(1) by blast
    with evaluation_sound [OF e] have "pd_decision d = GovernanceDecisionDeny" by (simp add: sound_decision_def)
    with allow show False by simp
  qed
  then show ?thesis using cfg(1)
    by (cases "Enforce E cfg ?i (obs_gov s)") (auto simp: enforceObjectGovernance_def split: option.splits)
qed

text \<open>
  Governance binds the object store: while a global kill switch is live and the enforcer is in enforcing
  mode, no upload intent is issued, no download link is given out and nothing is deleted, and the records
  stay as they are.
\<close>

theorem kill_switch_stops_object_operations:
  assumes "halted E C s"
  shows "\<not> succeeds (fst (CreateUploadIntent E C B u input s)) \<and> \<not> succeeds (fst (CreateDownloadURL E C B u i disp s))
     \<and> \<not> succeeds (fst (DeleteObject E C u i s))
     \<and> obs_records (object_serve (OIntent E C B u input) s) = obs_records s
     \<and> obs_records (object_serve (ODelete E C u i) s) = obs_records s"
proof -
  have no: "\<exists>e s1. enforceObjectGovernance E C u op sc subj ctx s = (Inl e, s1) \<and> obs_records s1 = obs_records s" for op sc subj ctx
  proof -
    obtain r s1 where e: "enforceObjectGovernance E C u op sc subj ctx s = (r, s1)" by fastforce
    with halted_refuses [OF assms, of u op sc subj ctx] obtain err where "r = Inl err" by (cases r) auto
    with e enforceObjectGovernance_records [OF e] show ?thesis by blast
  qed
  have intent: "\<exists>e s1. CreateUploadIntent E C B u input s = (Inl e, s1) \<and> obs_records s1 = obs_records s"
    using no [of "''upload''" "ui_scope input" "trim (ui_scope input)"
        "[(''scope'', AStr (ui_scope input)), (''filename'', AStr (ui_filename input)),
          (''content_type'', AStr (ui_content_type input)), (''content_size'', AInt (ui_content_size input))]"]
    by (auto simp: CreateUploadIntent_def split: sum.splits)
  have delete: "\<exists>e s1. DeleteObject E C u i s = (Inl e, s1) \<and> obs_records s1 = obs_records s"
  proof (cases "getOwned E 0 u i s")
    case (Inr r)
    with no [of "''delete''" "ob_scope r" "e_uuid_str E (ob_id r)"
        "[(''object_id'', AStr (e_uuid_str E (ob_id r))), (''scope'', AStr (ob_scope r))]"]
    show ?thesis by (auto simp: DeleteObject_def)
  qed (simp add: DeleteObject_def)
  have "\<not> succeeds (fst (CreateDownloadURL E C B u i disp s))"
  proof (cases "getOwned E 0 u i s")
    case (Inr r)
    with no [of "''download''" "ob_scope r" "e_uuid_str E (ob_id r)"
        "[(''object_id'', AStr (e_uuid_str E (ob_id r))), (''scope'', AStr (ob_scope r)), (''content_type'', AStr (ob_content_type r))]"]
    show ?thesis by (auto simp: CreateDownloadURL_def)
  qed (simp add: CreateDownloadURL_def)
  with intent delete show ?thesis by auto
qed

definition demo_backend :: storage_backend where
  "demo_backend = \<lparr>sb_ensure_bucket = (\<lambda>_. Inr ()), sb_put = (\<lambda>_ _ _ _. Inr ()), sb_presign_put = (\<lambda>_ k _ _. Inr k),
     sb_presign_get = (\<lambda>_ k _ _. Inr k),
     sb_head = (\<lambda>_ _. Inr \<lparr>oh_content_hash = replicate 64 CHR ''b'', oh_content_size = 5, oh_content_type = ''''\<rparr>),
     sb_read = (\<lambda>_ _ _. Inr '''')\<rparr>"

definition demo_object_config :: object_config where
  "demo_object_config = \<lparr>oc_bucket = ''b'', oc_upload_ttl_secs = 900, oc_download_ttl_secs = 900, oc_enforcer = Some demo_enforcing\<rparr>"

definition demo_intent :: upload_intent_input where
  "demo_intent = \<lparr>ui_scope = ''kb'', ui_filename = ''a.txt'', ui_content_type = '''', ui_content_size = 5,
     ui_sha256 = replicate 64 CHR ''a''\<rparr>"

definition demo_stored :: object_state where
  "demo_stored = object_serve (OIntent (env_at 1) demo_object_config demo_backend 7 demo_intent) objects_init"

theorem kill_switch_stops_object_operations_witness:
  "\<not> succeeds (fst (CreateUploadIntent (env_at 5) demo_object_config demo_backend 7 demo_intent (demo_stored\<lparr>obs_gov := demo_halted\<rparr>)))
   \<and> succeeds (fst (CreateUploadIntent (env_at 5) demo_object_config demo_backend 7 demo_intent demo_stored))"
proof
  have "halted (env_at 5) demo_object_config (demo_stored\<lparr>obs_gov := demo_halted\<rparr>)"
    unfolding halted_def
  proof
    have "oc_enforcer demo_object_config = Some demo_enforcing" by code_simp
    moreover have "modeFor demo_enforcing ''object_operation'' = GovernanceEnforcementModeEnforce" by code_simp
    ultimately show "\<exists>cfg. oc_enforcer demo_object_config = Some cfg \<and> modeFor cfg ''object_operation'' = GovernanceEnforcementModeEnforce" by blast
    show "list_ex (\<lambda>k. switch_live (e_now (env_at 5)) k \<and> ks_scope_type k = ''global'')
       (gs_switches (obs_gov (demo_stored\<lparr>obs_gov := demo_halted\<rparr>)))" by code_simp
  qed
  from kill_switch_stops_object_operations [OF this]
  show "\<not> succeeds (fst (CreateUploadIntent (env_at 5) demo_object_config demo_backend 7 demo_intent (demo_stored\<lparr>obs_gov := demo_halted\<rparr>)))"
    by blast
  show "succeeds (fst (CreateUploadIntent (env_at 5) demo_object_config demo_backend 7 demo_intent demo_stored))" by code_simp
qed

theorem object_life_is_one_way_witness:
  "\<exists>y\<in>set (obs_records (fold object_serve [OComplete (env_at 2) demo_backend 7 (ob_id (hd (obs_records demo_stored)))
         \<lparr>cx_observed_hash = replicate 64 CHR ''a'', cx_observed_size = 0\<rparr>,
       ODelete (env_at 3) demo_object_config 7 (ob_id (hd (obs_records demo_stored)))] demo_stored)).
     obj_ident y = obj_ident (hd (obs_records demo_stored)) \<and> life_step\<^sup>*\<^sup>* (ob_status (hd (obs_records demo_stored))) (ob_status y)"
proof (rule object_life_is_one_way)
  show "object_inv demo_stored" by code_simp
  have "obs_records demo_stored \<noteq> []" by code_simp
  then show "hd (obs_records demo_stored) \<in> set (obs_records demo_stored)" by simp
qed

section \<open>Two gaps\<close>

text \<open>The hash the client claims to have observed replaces the one the backend reports: an object whose stored
  bytes have another hash than declared becomes active.\<close>

theorem client_hash_overrides_storage:
  "let i = ob_id (hd (obs_records demo_stored));
       (r, s') = CompleteUpload (env_at 2) demo_backend 7 i \<lparr>cx_observed_hash = replicate 64 CHR ''a'', cx_observed_size = 0\<rparr> demo_stored
   in succeeds r \<and> map ob_status (obs_records s') = [''active'']
      \<and> map ob_content_hash (obs_records s') = [replicate 64 CHR ''a'']
      \<and> oh_content_hash (projr (sb_head demo_backend ''b'' ''k'')) = replicate 64 CHR ''b''"
  by code_simp

text \<open>Under a rule that asks for approval every attempt issues a new approval token, but the object service
  presents none: whatever receipts exist, approved operations are refused like the first.\<close>

theorem object_approval_leads_nowhere:
  "let s0 = demo_stored\<lparr>obs_gov := snd (projr (CreatePolicyRule (env_at 2) (demo_rule\<lparr>pi_capability_key := ''object.delete.kb''\<rparr>) gov_init))\<rparr>;
       i = ob_id (hd (obs_records s0));
       (r1, s1) = DeleteObject (env_at 3) demo_object_config 7 i s0;
       (r2, s2) = DeleteObject ((env_at 4)\<lparr>e_rand := \<lambda>w n. Inr ''q''\<rparr>) demo_object_config 7 i s1
   in \<not> succeeds r1 \<and> \<not> succeeds r2 \<and> length (gs_receipts (obs_gov s1)) = 1 \<and> length (gs_receipts (obs_gov s2)) = 2"
  by code_simp

end
