(* ===== verification/Float64.thy ===== *)
theory Float64
  imports Complex_Main "HOL-Library.Log_Nat"
begin

text \<open>
  Go's \<open>float64\<close> for positive numbers of ordinary size: the value of a conversion or of a quotient is the exact one
  rounded to 53 binary digits, to the even neighbour when it lies half way. Signs, infinities and the numbers next to
  zero, which the source never reaches here, are left out.
\<close>

section \<open>Rounding\<close>

text \<open>The place of the leading binary digit of a positive fraction.\<close>

definition leading_place :: "rat \<Rightarrow> int" where
  "leading_place q =
     (case quotient_of q of (a, b) \<Rightarrow>
        let e = bitlen a - bitlen b in if 2 powi e \<le> q then e else e - 1)"

definition round_half_even :: "rat \<Rightarrow> int" where
  "round_half_even x =
     (let n = \<lfloor>x\<rfloor>; r = x - of_int n in
      if r < 1 / 2 then n else if 1 / 2 < r then n + 1 else if even n then n else n + 1)"

definition float64 :: "rat \<Rightarrow> rat" where
  "float64 q = (if q \<le> 0 then 0 else let unit = 2 powi (leading_place q - 52) in of_int (round_half_even (q / unit)) * unit)"

section \<open>How good it is\<close>

lemma round_half_even_near: "\<bar>of_int (round_half_even x) - x\<bar> \<le> 1 / 2"
proof -
  have "of_int \<lfloor>x\<rfloor> \<le> x" "x < of_int \<lfloor>x\<rfloor> + 1" by linarith+
  then show ?thesis unfolding round_half_even_def Let_def by (auto simp: abs_le_iff split del: if_split split: if_split_asm if_split)
qed

lemma round_half_even_int [simp]: "round_half_even (of_int n) = n"
  by (simp add: round_half_even_def)

lemma round_half_even_ge:
  assumes "of_int n \<le> x"
  shows "n \<le> round_half_even x"
proof -
  have "n \<le> \<lfloor>x\<rfloor>" using assms by (simp add: le_floor_iff)
  then show ?thesis by (auto simp: round_half_even_def Let_def)
qed

lemma round_half_even_le:
  assumes "x \<le> of_int n"
  shows "round_half_even x \<le> n"
proof (cases "x = of_int n")
  case False
  with assms have "x < of_int n" by simp
  then have "\<lfloor>x\<rfloor> < n" by (simp add: floor_less_iff)
  then show ?thesis by (auto simp: round_half_even_def Let_def)
qed simp

lemma leading_place_bounds:
  assumes "0 < q"
  shows "2 powi leading_place q \<le> q" and "q < 2 powi (leading_place q + 1)"
proof -
  obtain a b where ab: "quotient_of q = (a, b)" by fastforce
  then have q: "q = of_int a / of_int b" and b: "0 < b" using quotient_of_div quotient_of_denom_pos by blast+
  with assms have a: "0 < a" by (auto simp: zero_less_divide_iff)
  let ?m = "bitlen a" and ?k = "bitlen b"
  have two: "(2 :: rat) powi (bitlen n - 1) \<le> of_int n \<and> (of_int n :: rat) < 2 powi bitlen n" if "0 < n" for n
  proof -
    have p: "0 < bitlen n" using that bitlen_nonneg [of n] bitlen_eq_zero_iff [of n] by linarith
    have "2 ^ nat (bitlen n - 1) \<le> n \<and> n < 2 ^ nat (bitlen n)" by (rule bitlen_bounds [OF that])
    then have "(of_int (2 ^ nat (bitlen n - 1)) :: rat) \<le> of_int n \<and> (of_int n :: rat) < of_int (2 ^ nat (bitlen n))"
      by (simp only: of_int_le_iff of_int_less_iff)
    with p show ?thesis by (simp add: power_int_def)
  qed
  have low: "2 powi (?m - ?k - 1) < q"
  proof -
    have "(2 :: rat) powi (?m - ?k - 1) = 2 powi (?m - 1) / 2 powi ?k"
      by (simp add: power_int_diff [symmetric] algebra_simps)
    also have "\<dots> \<le> of_int a / 2 powi ?k" using two [OF a] by (intro divide_right_mono) simp_all
    also have "\<dots> < of_int a / of_int b" using two [OF b] a b by (intro divide_strict_left_mono) simp_all
    finally show ?thesis by (simp add: q)
  qed
  have high: "q < 2 powi (?m - ?k + 1)"
  proof -
    have "q \<le> of_int a / 2 powi (?k - 1)" unfolding q using two [OF b] a b by (intro divide_left_mono) simp_all
    also have "\<dots> < 2 powi ?m / 2 powi (?k - 1)" using two [OF a] by (intro divide_strict_right_mono) simp_all
    also have "\<dots> = 2 powi (?m - ?k + 1)" by (simp add: power_int_diff [symmetric] algebra_simps)
    finally show ?thesis .
  qed
  show "2 powi leading_place q \<le> q" "q < 2 powi (leading_place q + 1)"
    using low high by (auto simp: leading_place_def ab Let_def)
qed

text \<open>A whole number below two to the 53 is kept.\<close>

lemma float64_of_int:
  assumes "0 \<le> n" "n < 2 ^ 53"
  shows "float64 (of_int n) = of_int n"
proof (cases "n = 0")
  case False
  then have pos: "0 < (of_int n :: rat)" using assms(1) by simp
  let ?e = "leading_place (of_int n)"
  have e: "?e \<le> 52"
  proof (rule ccontr)
    assume "\<not> ?e \<le> 52"
    then have "(2 :: rat) powi 53 \<le> 2 powi ?e" by (intro power_int_increasing) auto
    also have "\<dots> \<le> of_int n" by (rule leading_place_bounds [OF pos])
    finally have "(of_int (2 ^ 53) :: rat) \<le> of_int n" by (simp add: power_int_def)
    with assms(2) show False unfolding of_int_le_iff by simp
  qed
  have u: "(2 :: rat) powi (?e - 52) = 1 / of_int (2 ^ nat (52 - ?e))"
    using e by (auto simp: power_int_def field_simps power_one_over nat_diff_distrib)
  have "(of_int n :: rat) / 2 powi (?e - 52) = of_int (n * 2 ^ nat (52 - ?e))" unfolding u by simp
  then have "float64 (of_int n) = of_int (n * 2 ^ nat (52 - ?e)) * 2 powi (?e - 52)"
    using pos by (simp only: float64_def Let_def round_half_even_int) simp
  also have "\<dots> = of_int n" unfolding u by simp
  finally show ?thesis .
qed (simp add: float64_def)

text \<open>Between 1 and 5 it stays between 1 and 5 and is off by at most two to the minus 51.\<close>

lemma float64_small:
  assumes "1 \<le> q" "q \<le> 5"
  shows "1 \<le> float64 q \<and> float64 q \<le> 5 \<and> \<bar>float64 q - q\<bar> \<le> 1 / 2 ^ 51"
proof -
  have pos: "0 < q" using assms(1) by linarith
  let ?e = "leading_place q"
  have lo: "2 powi ?e \<le> q" and hi: "q < 2 powi (?e + 1)" using leading_place_bounds [OF pos] .
  have e0: "0 \<le> ?e"
  proof (rule ccontr)
    assume "\<not> 0 \<le> ?e"
    then have "(2 :: rat) powi (?e + 1) \<le> 2 powi 0" by (intro power_int_increasing) auto
    with hi assms(1) show False by simp
  qed
  have e2: "?e \<le> 2"
  proof (rule ccontr)
    assume "\<not> ?e \<le> 2"
    then have "(2 :: rat) powi 3 \<le> 2 powi ?e" by (intro power_int_increasing) auto
    with lo assms(2) show False by (simp add: power_int_def)
  qed
  let ?w = "2 ^ nat (52 - ?e) :: int"
  have u: "(2 :: rat) powi (?e - 52) = 1 / of_int ?w"
    using e2 by (auto simp: power_int_def field_simps power_one_over nat_diff_distrib)
  have w: "0 < (of_int ?w :: rat)" by simp
  let ?r = "round_half_even (q * of_int ?w)"
  have f: "float64 q = of_int ?r / of_int ?w" using pos by (simp add: float64_def Let_def u)
  have "1 * ?w \<le> ?r" using assms(1) w by (intro round_half_even_ge) simp
  then have ge: "1 \<le> float64 q" using w unfolding f by (simp add: pos_le_divide_eq del: of_int_power)
  have "?r \<le> 5 * ?w" using assms(2) w by (intro round_half_even_le) simp
  then have "(of_int ?r :: rat) \<le> of_int (5 * ?w)" by (simp only: of_int_le_iff)
  then have le: "float64 q \<le> 5" using w unfolding f by (simp add: pos_divide_le_eq del: of_int_power)
  have "float64 q - q = (of_int ?r - q * of_int ?w) / of_int ?w" using w by (simp add: f field_simps)
  then have "\<bar>float64 q - q\<bar> = \<bar>of_int ?r - q * of_int ?w\<bar> / of_int ?w" using w by simp
  also have "\<dots> \<le> (1 / 2) / of_int ?w" using w round_half_even_near [of "q * of_int ?w"] by (intro divide_right_mono) simp_all
  also have "\<dots> \<le> (1 / 2) / 2 ^ 50"
  proof -
    have "(2 :: int) ^ 50 \<le> ?w" using e0 e2 by (intro power_increasing) auto
    then have "(of_int (2 ^ 50) :: rat) \<le> of_int ?w" by (simp only: of_int_le_iff)
    then show ?thesis by (intro divide_left_mono) simp_all
  qed
  finally show ?thesis using ge le by simp
qed

end
