(* ===== verification/SkillManifest.thy ===== *)
theory SkillManifest
  imports Prelude
begin

text \<open>
  The validator of skill manifests (\<open>internal/service/skill_manifest_validator.go\<close>): the rules for a
  skill key, the fields it reads out of a dynamically typed manifest, and the verdict.
\<close>

section \<open>Skill keys\<close>

text \<open>The part of the syntax of \<open>regexp\<close> the pattern of a key uses: a class of bytes, a class repeated
  between zero and \<open>n\<close> times, concatenation and alternation; a match covers the whole text
  (\<open>^ ... $\<close>).\<close>

datatype rx = Class string | Upto string nat | Seq rx rx | Alt rx rx

fun rx_match :: "rx \<Rightarrow> string \<Rightarrow> bool" where
  "rx_match (Class cs) s \<longleftrightarrow> (case s of [c] \<Rightarrow> c \<in> set cs | _ \<Rightarrow> False)"
| "rx_match (Upto cs n) s \<longleftrightarrow> length s \<le> n \<and> list_all (\<lambda>c. c \<in> set cs) s"
| "rx_match (Seq a b) s \<longleftrightarrow> list_ex (\<lambda>k. rx_match a (take k s) \<and> rx_match b (drop k s)) [0..<length s + 1]"
| "rx_match (Alt a b) s \<longleftrightarrow> rx_match a s \<or> rx_match b s"

definition alnum :: string where
  "alnum = ''abcdefghijklmnopqrstuvwxyz0123456789''"

definition skillKeyPattern :: rx where
  "skillKeyPattern = Alt (Seq (Class alnum) (Seq (Upto (alnum @ ''.-'') 126) (Class alnum))) (Class alnum)"

definition validateSkillKey :: "string \<Rightarrow> unit result" where
  "validateSkillKey raw =
     (let value = trim raw in
      if value = '''' then Inl (Errorf ''skill key is required'')
      else if 128 < length value then Inl (Errorf ''skill key must be at most 128 bytes'')
      else if has_prefix value ''-'' \<or> has_prefix value ''.'' \<or> has_suffix value ''-'' \<or> has_suffix value ''.''
      then Inl (Errorf ''skill key must not start or end with '-' or '.' '')
      else if contains_str value ''..'' then Inl (Errorf ''skill key must not contain consecutive dots'')
      else if \<not> rx_match skillKeyPattern value
      then Inl (Errorf ''skill key may only contain lowercase ASCII letters, numbers, '-', and '.' '')
      else Inr ())"

section \<open>Reading a manifest\<close>

text \<open>\<open>cloneMap\<close>: through JSON and back, ignoring errors.\<close>

definition cloneMap :: "env \<Rightarrow> json_map \<Rightarrow> json_map" where
  "cloneMap E m = (case e_json E m of Inl _ \<Rightarrow> [] | Inr raw \<Rightarrow> (case e_unjson E raw of Inl _ \<Rightarrow> [] | Inr out \<Rightarrow> out))"

fun firstString :: "json_map \<Rightarrow> string list \<Rightarrow> string" where
  "firstString m [] = ''''"
| "firstString m (k # ks) =
     (case jget m k of AStr s \<Rightarrow> if trim s \<noteq> '''' then trim s else firstString m ks | _ \<Rightarrow> firstString m ks)"

definition firstStringFromNested :: "json_map \<Rightarrow> string \<Rightarrow> string \<Rightarrow> string" where
  "firstStringFromNested m parent child = (case jget m parent of AMap n \<Rightarrow> firstString n [child] | _ \<Rightarrow> '''')"

definition nestedAny :: "json_map \<Rightarrow> string \<Rightarrow> string \<Rightarrow> any" where
  "nestedAny m parent child = (case jget m parent of AMap n \<Rightarrow> jget n child | _ \<Rightarrow> ANil)"

fun nonblank_strings :: "any list \<Rightarrow> string list" where
  "nonblank_strings [] = []"
| "nonblank_strings (x # xs) =
     (case x of AStr s \<Rightarrow> if trim s \<noteq> '''' then trim s # nonblank_strings xs else nonblank_strings xs
              | _ \<Rightarrow> nonblank_strings xs)"

definition stringSliceFromAny :: "any \<Rightarrow> string list" where
  "stringSliceFromAny v = (case v of ASeq xs \<Rightarrow> nonblank_strings xs | _ \<Rightarrow> [])"

definition instruction_item :: "any \<Rightarrow> bool" where
  "instruction_item x \<longleftrightarrow>
     (case x of AStr s \<Rightarrow> trim s \<noteq> '''' | AMap m \<Rightarrow> trim (firstString m [''content'', ''text'']) \<noteq> '''' | _ \<Rightarrow> False)"

definition hasSkillInstructions :: "json_map \<Rightarrow> bool" where
  "hasSkillInstructions m \<longleftrightarrow>
     trim (firstString m [''entrypoint'']) \<noteq> '''' \<or> trim (firstString m [''instructions_object_id'']) \<noteq> ''''
     \<or> (case jget m ''instructions'' of ASeq xs \<Rightarrow> list_ex instruction_item xs | _ \<Rightarrow> False)"

section \<open>The verdict\<close>

record manifest_verdict =
  mv_valid :: bool
  mv_errors :: "string list"
  mv_warnings :: "string list"
  mv_manifest_hash :: string
  mv_snapshot :: json_map
  mv_skill_key :: string
  mv_name :: string
  mv_version :: string
  mv_summary :: string
  mv_description :: string
  mv_category :: string
  mv_tags :: "string list"
  mv_homepage_url :: string

text \<open>\<open>fmt.Sprintf\<close> with \<open>%q\<close>, for ASCII text.\<close>

definition hex_lower :: "nat \<Rightarrow> char" where
  "hex_lower n = (if n < 10 then char_of (48 + n) else char_of (87 + n))"

definition quote_char :: "char \<Rightarrow> string" where
  "quote_char c =
     (let n = (of_char c :: nat); bs = CHR 0x5C in
      if c = CHR 0x22 \<or> c = bs then [bs, c]
      else if n = 7 then [bs, CHR ''a''] else if n = 8 then [bs, CHR ''b''] else if n = 12 then [bs, CHR ''f'']
      else if n = 10 then [bs, CHR ''n''] else if n = 13 then [bs, CHR ''r''] else if n = 9 then [bs, CHR ''t'']
      else if n = 11 then [bs, CHR ''v'']
      else if n < 32 \<or> n = 127 then [bs, CHR ''x'', hex_lower (n div 16), hex_lower (n mod 16)]
      else [c])"

definition go_quote :: "string \<Rightarrow> string" where
  "go_quote s = [CHR 0x22] @ concat (map quote_char s) @ [CHR 0x22]"

definition or_else :: "string \<Rightarrow> string \<Rightarrow> string" where
  "or_else a b = (if a = '''' then b else a)"

definition manifest_errors :: "json_map \<Rightarrow> string \<Rightarrow> string \<Rightarrow> string \<Rightarrow> string \<Rightarrow> string list" where
  "manifest_errors snapshot expectedSkillKey key name version =
     (let expected = trim expectedSkillKey in
      (case validateSkillKey key of Inl e \<Rightarrow> [err_text e] | Inr _ \<Rightarrow> [])
      @ (if expected \<noteq> '''' \<and> key \<noteq> '''' \<and> expected \<noteq> key
         then [''manifest skill key '' @ go_quote key @ '' does not match expected key '' @ go_quote expected] else [])
      @ (if trim name = '''' then [''name is required''] else [])
      @ (if trim version = '''' then [''version is required''] else [])
      @ (if \<not> hasSkillInstructions snapshot
         then [''at least one instruction, entrypoint, or instruction object is required''] else []))"

text \<open>A nil manifest reads as an empty one. The hash is of the JSON text of the snapshot.\<close>

definition ValidateManifest :: "env \<Rightarrow> string \<Rightarrow> json_map option \<Rightarrow> manifest_verdict result" where
  "ValidateManifest E expectedSkillKey manifest =
     (let snapshot = cloneMap E (case manifest of None \<Rightarrow> [] | Some m \<Rightarrow> m) in
      case e_json E snapshot of
        Inl e \<Rightarrow> Inl e
      | Inr raw \<Rightarrow>
          let key = or_else (firstString snapshot [''id'', ''skill_key'']) (trim expectedSkillKey);
              name = firstString snapshot [''name''];
              version = firstString snapshot [''version''];
              description = firstString snapshot [''description''];
              summary = or_else (firstString snapshot [''summary'']) description;
              tags0 = stringSliceFromAny (jget snapshot ''tags'');
              tags = (if tags0 = [] then stringSliceFromAny (nestedAny snapshot ''metadata'' ''tags'') else tags0);
              errors = manifest_errors snapshot expectedSkillKey key name version;
              warnings = (if tags = [] then [''tags are recommended''] else [])
                @ (if trim description = '''' \<and> trim summary = '''' then [''description or summary is recommended''] else [])
          in Inr \<lparr>mv_valid = (errors = []), mv_errors = errors, mv_warnings = warnings, mv_manifest_hash = e_sha256_hex E raw,
                  mv_snapshot = snapshot, mv_skill_key = key, mv_name = name, mv_version = version, mv_summary = summary,
                  mv_description = description, mv_category = firstString snapshot [''category''], mv_tags = tags,
                  mv_homepage_url = or_else (firstStringFromNested snapshot ''metadata'' ''homepage'')
                    (firstString snapshot [''homepage'', ''homepage_url''])\<rparr>)"

section \<open>What the rules mean\<close>

text \<open>The rules for a key, read as one condition: 1 to 128 letters, digits, dots and dashes, with a letter or
  digit at both ends and no two dots in a row.\<close>

fun two_dots :: "string \<Rightarrow> bool" where
  "two_dots (a # b # s) \<longleftrightarrow> a = CHR ''.'' \<and> b = CHR ''.'' \<or> two_dots (b # s)"
| "two_dots _ \<longleftrightarrow> False"

definition well_formed_key :: "string \<Rightarrow> bool" where
  "well_formed_key s \<longleftrightarrow> s \<noteq> '''' \<and> length s \<le> 128 \<and> set s \<subseteq> set (alnum @ ''.-'') \<and> hd s \<in> set alnum \<and> last s \<in> set alnum
     \<and> \<not> two_dots s"

lemma two_dots_contains: "contains_str s ''..'' \<longleftrightarrow> two_dots s"
  by (induction s rule: two_dots.induct) (auto simp: has_prefix_def)

lemma match_Class: "rx_match (Class cs) s \<longleftrightarrow> (\<exists>c\<in>set cs. s = [c])"
  by (auto split: list.splits)

lemma match_Seq: "rx_match (Seq a b) s \<longleftrightarrow> (\<exists>u v. s = u @ v \<and> rx_match a u \<and> rx_match b v)"
proof
  assume "rx_match (Seq a b) s"
  then obtain k where "rx_match a (take k s)" "rx_match b (drop k s)" unfolding rx_match.simps list_ex_iff by blast
  then show "\<exists>u v. s = u @ v \<and> rx_match a u \<and> rx_match b v" by (metis append_take_drop_id)
next
  assume "\<exists>u v. s = u @ v \<and> rx_match a u \<and> rx_match b v"
  then obtain u v where s: "s = u @ v" "rx_match a u" "rx_match b v" by blast
  have "length u \<in> set [0..<length s + 1]" using s(1) by simp
  moreover have "take (length u) s = u" "drop (length u) s = v" using s(1) by simp_all
  ultimately show "rx_match (Seq a b) s" unfolding rx_match.simps list_ex_iff using s(2,3) by metis
qed

declare rx_match.simps(1,3) [simp del]

lemma match_Seq_last: "rx_match (Seq a (Class cs)) s \<longleftrightarrow> s \<noteq> '''' \<and> rx_match a (butlast s) \<and> last s \<in> set cs"
proof
  assume "s \<noteq> '''' \<and> rx_match a (butlast s) \<and> last s \<in> set cs"
  then show "rx_match (Seq a (Class cs)) s" unfolding match_Seq match_Class by (metis append_butlast_last_id)
qed (auto simp: match_Seq match_Class)

lemma match_Seq_hd: "rx_match (Seq (Class cs) b) s \<longleftrightarrow> s \<noteq> '''' \<and> hd s \<in> set cs \<and> rx_match b (tl s)"
proof
  assume "s \<noteq> '''' \<and> hd s \<in> set cs \<and> rx_match b (tl s)"
  then show "rx_match (Seq (Class cs) b) s" unfolding match_Seq match_Class
    by (intro exI [of _ "[hd s]"] exI [of _ "tl s"]) auto
qed (auto simp: match_Seq match_Class)

lemma pattern_match:
  "rx_match skillKeyPattern s \<longleftrightarrow> s \<noteq> '''' \<and> length s \<le> 128 \<and> set s \<subseteq> set (alnum @ ''.-'') \<and> hd s \<in> set alnum \<and> last s \<in> set alnum"
proof (cases s)
  case (Cons c t)
  show ?thesis
  proof (cases "t = []")
    case True
    with Cons show ?thesis by (auto simp: skillKeyPattern_def match_Seq_hd match_Seq_last match_Class)
  next
    case False
    then obtain m z where t: "t = m @ [z]" by (metis rev_exhaust)
    have "rx_match (Class alnum) s = False" using Cons False by (simp add: match_Class)
    moreover have "rx_match (Upto (alnum @ ''.-'') 126) m \<longleftrightarrow> length m \<le> 126 \<and> set m \<subseteq> set (alnum @ ''.-'')"
      by (auto simp: list_all_iff)
    ultimately show ?thesis using Cons t
      by (simp add: skillKeyPattern_def match_Seq_hd match_Seq_last del: rx_match.simps(2)) auto
  qed
qed (simp add: skillKeyPattern_def match_Seq_hd match_Class)

lemma alnum_ends: "CHR ''-'' \<notin> set alnum" "CHR ''.'' \<notin> set alnum"
  by code_simp+

lemma validateSkillKey_iff: "succeeds (validateSkillKey raw) \<longleftrightarrow> well_formed_key (trim raw)"
proof -
  let ?s = "trim raw"
  have pre: "has_prefix s [c] \<longleftrightarrow> hd s = c" if "s \<noteq> ''''" for s c using that by (cases s) (simp_all add: has_prefix_def)
  have ends: "has_prefix s [c] \<longleftrightarrow> hd s = c" "has_suffix s [c] \<longleftrightarrow> last s = c" if "s \<noteq> ''''" for s c
    using pre [OF that] pre [of "rev s"] that by (simp_all add: has_suffix_def hd_rev)
  have accepted: "succeeds (validateSkillKey raw) \<longleftrightarrow> ?s \<noteq> '''' \<and> length ?s \<le> 128
      \<and> \<not> (hd ?s = CHR ''-'' \<or> hd ?s = CHR ''.'' \<or> last ?s = CHR ''-'' \<or> last ?s = CHR ''.'') \<and> \<not> two_dots ?s
      \<and> rx_match skillKeyPattern ?s"
    by (cases "?s = ''''") (simp_all add: validateSkillKey_def Let_def two_dots_contains ends not_less)
  have "hd ?s \<in> set alnum \<Longrightarrow> hd ?s \<noteq> CHR ''-'' \<and> hd ?s \<noteq> CHR ''.''"
    "last ?s \<in> set alnum \<Longrightarrow> last ?s \<noteq> CHR ''-'' \<and> last ?s \<noteq> CHR ''.''"
    using alnum_ends by metis+
  then show ?thesis unfolding accepted pattern_match well_formed_key_def by blast
qed

text \<open>
  C39: The five checks on a skill key amount to one rule: a key is accepted exactly when, trimmed, it has 1 to
  128 bytes, all of them lower-case letters, digits, dots or dashes, a letter or digit at both ends, and no
  two dots in a row.
\<close>

theorem skill_key_rules:
  "succeeds (validateSkillKey raw) \<longleftrightarrow> well_formed_key (trim raw)"
  by (rule validateSkillKey_iff)

end
