(* ===== verification/SkillHub.thy ===== *)
theory SkillHub
  imports Float64 SkillManifest Objects Sync AuditLog
begin

text \<open>
  The skill catalog (\<open>internal/service/skill_hub.go\<close> over \<open>internal/repository/skill_hub_repo.go\<close>):
  publishers create skills and submit versions, which the manifest validator accepts or not; users install
  and rate them; moderators take skills down and restrict publishers. The server always builds the service
  with sync, audit and object services.
\<close>

section \<open>State\<close>

text \<open>The average rating is a \<open>float64\<close>, kept as the fraction it stands for; the column holds its exact decimal text.\<close>

record skill =
  hk_id :: uuid
  hk_created_at :: time
  hk_updated_at :: time
  hk_skill_key :: string
  hk_publisher_id :: uuid
  hk_name :: string
  hk_summary :: string
  hk_description :: string
  hk_category :: string
  hk_tags :: "string list"
  hk_icon_object_id :: "uuid option"
  hk_homepage_url :: string
  hk_status :: string
  hk_visibility :: string
  hk_latest_version_id :: "uuid option"
  hk_published_version_id :: "uuid option"
  hk_download_count :: int
  hk_rating_count :: int
  hk_rating_sum :: int
  hk_rating_average :: rat

record skill_rating =
  hr_id :: uuid
  hr_created_at :: time
  hr_updated_at :: time
  hr_skill_id :: uuid
  hr_user_id :: uuid
  hr_rating :: int

record skill_version =
  hv_id :: uuid
  hv_created_at :: time
  hv_skill_id :: uuid
  hv_version :: string
  hv_manifest_hash :: string
  hv_manifest_snapshot :: json_map
  hv_package_object_id :: "uuid option"
  hv_instructions_object_id :: "uuid option"
  hv_examples_object_ids :: "string list"
  hv_validation_status :: string
  hv_validation_errors :: "string list"
  hv_validation_warnings :: "string list"
  hv_status :: string
  hv_published_at :: "time option"

record skill_installation =
  hi_id :: uuid
  hi_created_at :: time
  hi_updated_at :: time
  hi_user_id :: uuid
  hi_skill_id :: uuid
  hi_version_id :: uuid
  hi_status :: string
  hi_install_source :: string
  hi_track_mode :: string
  hi_config :: json_map
  hi_installed_at :: time
  hi_disabled_at :: "time option"

record publisher_restriction =
  hp_id :: uuid
  hp_created_at :: time
  hp_updated_at :: time
  hp_publisher_id :: uuid
  hp_status :: string
  hp_reason :: string
  hp_created_by :: uuid
  hp_lifted_by :: "uuid option"
  hp_lifted_at :: "time option"

record hub_state =
  hs_skills :: "skill list"
  hs_versions :: "skill_version list"
  hs_installs :: "skill_installation list"
  hs_ratings :: "skill_rating list"
  hs_restrictions :: "publisher_restriction list"
  hs_objects :: object_state
  hs_sync :: sync_state
  hs_audit :: audit_state

definition hub_init :: hub_state where
  "hub_init = \<lparr>hs_skills = [], hs_versions = [], hs_installs = [], hs_ratings = [], hs_restrictions = [],
     hs_objects = objects_init, hs_sync = sync_init, hs_audit = []\<rparr>"

section \<open>Repository\<close>

definition CreateSkill_repo :: "env \<Rightarrow> skill \<Rightarrow> hub_state \<Rightarrow> hub_state result" where
  "CreateSkill_repo E k s =
     (case db_insert E ''CreateSkill'' 0 (\<lambda>k x. hk_id x = hk_id k \<or> hk_skill_key x = hk_skill_key k) k (hs_skills s) of
        Inl e \<Rightarrow> Inl e | Inr t \<Rightarrow> Inr (s\<lparr>hs_skills := t\<rparr>))"

text \<open>gorm's \<open>Save\<close>, which also sets \<open>UpdatedAt\<close> in the value it was given.\<close>

definition UpdateSkill_repo :: "env \<Rightarrow> skill \<Rightarrow> hub_state \<Rightarrow> (skill \<times> hub_state) result" where
  "UpdateSkill_repo E k s =
     (let k' = k\<lparr>hk_updated_at := e_now E\<rparr> in
      case db_save E ''UpdateSkill'' 0 hk_id k' (hs_skills s) of
        Inl e \<Rightarrow> Inl e | Inr t \<Rightarrow> Inr (k', s\<lparr>hs_skills := t\<rparr>))"

definition CreateVersion :: "env \<Rightarrow> skill_version \<Rightarrow> hub_state \<Rightarrow> hub_state result" where
  "CreateVersion E v s =
     (case db_insert E ''CreateVersion'' 0
             (\<lambda>v x. hv_id x = hv_id v \<or> hv_skill_id x = hv_skill_id v \<and> hv_version x = hv_version v) v (hs_versions s) of
        Inl e \<Rightarrow> Inl e | Inr t \<Rightarrow> Inr (s\<lparr>hs_versions := t\<rparr>))"

definition CreateInstallation :: "env \<Rightarrow> skill_installation \<Rightarrow> hub_state \<Rightarrow> hub_state result" where
  "CreateInstallation E i s =
     (case db_insert E ''CreateInstallation'' 0
             (\<lambda>i x. hi_id x = hi_id i \<or> hi_user_id x = hi_user_id i \<and> hi_skill_id x = hi_skill_id i) i (hs_installs s) of
        Inl e \<Rightarrow> Inl e | Inr t \<Rightarrow> Inr (s\<lparr>hs_installs := t\<rparr>))"

definition UpdateInstallation_repo :: "env \<Rightarrow> skill_installation \<Rightarrow> hub_state \<Rightarrow> (skill_installation \<times> hub_state) result" where
  "UpdateInstallation_repo E i s =
     (let i' = i\<lparr>hi_updated_at := e_now E\<rparr> in
      case db_save E ''UpdateInstallation'' 0 hi_id i' (hs_installs s) of
        Inl e \<Rightarrow> Inl e | Inr t \<Rightarrow> Inr (i', s\<lparr>hs_installs := t\<rparr>))"

definition CreateRestriction :: "env \<Rightarrow> publisher_restriction \<Rightarrow> hub_state \<Rightarrow> hub_state result" where
  "CreateRestriction E r s =
     (case db_insert E ''CreateRestriction'' 0 (\<lambda>r x. hp_id x = hp_id r) r (hs_restrictions s) of
        Inl e \<Rightarrow> Inl e | Inr t \<Rightarrow> Inr (s\<lparr>hs_restrictions := t\<rparr>))"

definition UpdateRestriction :: "env \<Rightarrow> publisher_restriction \<Rightarrow> hub_state \<Rightarrow> (publisher_restriction \<times> hub_state) result" where
  "UpdateRestriction E r s =
     (let r' = r\<lparr>hp_updated_at := e_now E\<rparr> in
      case db_save E ''UpdateRestriction'' 0 hp_id r' (hs_restrictions s) of
        Inl e \<Rightarrow> Inl e | Inr t \<Rightarrow> Inr (r', s\<lparr>hs_restrictions := t\<rparr>))"

definition GetSkill :: "env \<Rightarrow> uuid \<Rightarrow> hub_state \<Rightarrow> skill result" where
  "GetSkill E i s = db_first E ''GetSkill'' 0 hk_id (\<lambda>k. hk_id k = i) (hs_skills s)"

definition in_catalog :: "skill \<Rightarrow> bool" where
  "in_catalog k \<longleftrightarrow> hk_status k = ''published'' \<and> hk_visibility k \<in> {''public'', ''unlisted''}"

definition GetPublishedSkillByKey :: "env \<Rightarrow> string \<Rightarrow> hub_state \<Rightarrow> skill result" where
  "GetPublishedSkillByKey E key s =
     db_first E ''GetPublishedSkillByKey'' 0 hk_id (\<lambda>k. hk_skill_key k = trim key \<and> in_catalog k) (hs_skills s)"

definition GetVersion :: "env \<Rightarrow> nat \<Rightarrow> uuid \<Rightarrow> hub_state \<Rightarrow> skill_version result" where
  "GetVersion E n i s = db_first E ''GetVersion'' n hv_id (\<lambda>v. hv_id v = i) (hs_versions s)"

text \<open>SQL's \<open>LIKE\<close>: a percent sign matches any text, an underscore any character, a backslash makes the next
  character literal.\<close>

function like_match :: "string \<Rightarrow> string \<Rightarrow> bool" where
  "like_match [] s \<longleftrightarrow> s = []"
| "like_match (c # p) s \<longleftrightarrow>
     (if c = CHR ''%'' then like_match p s \<or> (case s of [] \<Rightarrow> False | x # t \<Rightarrow> like_match (c # p) t)
      else if c = CHR ''_'' then (case s of [] \<Rightarrow> False | x # t \<Rightarrow> like_match p t)
      else if c = CHR 0x5C
      then (case (p, s) of (d # p', x # t) \<Rightarrow> x = d \<and> like_match p' t | _ \<Rightarrow> False)
      else (case s of [] \<Rightarrow> False | x # t \<Rightarrow> x = c \<and> like_match p t))"
  by pat_completeness auto

termination by (relation "measure (\<lambda>(p, s). length p + length s)") auto

definition catalog_matches :: "string \<Rightarrow> string \<Rightarrow> skill \<Rightarrow> bool" where
  "catalog_matches q category k \<longleftrightarrow>
     hk_status k = ''published'' \<and> hk_visibility k = ''public''
     \<and> (trim category \<noteq> '''' \<longrightarrow> hk_category k = trim category)
     \<and> (trim q \<noteq> '''' \<longrightarrow>
          (let pat = ''%'' @ to_lower (trim q) @ ''%'' in
           like_match pat (to_lower (hk_name k)) \<or> like_match pat (to_lower (hk_summary k))
           \<or> like_match pat (to_lower (hk_description k)) \<or> like_match pat (to_lower (hk_skill_key k))))"

text \<open>The orders of the catalog, as a sort key: every listed column descends. The recommendation score is
  computed exactly.\<close>

definition skillCatalogOrder :: "string \<Rightarrow> skill \<Rightarrow> rat \<times> rat \<times> rat \<times> rat" where
  "skillCatalogOrder srt k =
     (let dc = - of_int (hk_download_count k); avg = - hk_rating_average k; rc = - of_int (hk_rating_count k);
          ua = - of_int (hk_updated_at k);
          score = - ((of_int (hk_rating_sum k) + 15) / (of_int (hk_rating_count k) + 5)) in
      if trim srt = ''downloads'' then (dc, avg, rc, ua)
      else if trim srt = ''rating'' then (avg, rc, dc, ua)
      else if trim srt = ''recent'' then (ua, 0, 0, 0)
      else (score, dc, ua, 0))"

definition normalizeLimit :: "int \<Rightarrow> int" where
  "normalizeLimit limit = (if limit \<le> 0 \<or> 100 < limit then 20 else limit)"

definition SearchPublishedSkillsSorted :: "env \<Rightarrow> string \<Rightarrow> string \<Rightarrow> string \<Rightarrow> int \<Rightarrow> int \<Rightarrow> hub_state \<Rightarrow> skill list result" where
  "SearchPublishedSkillsSorted E q category srt limit offset s =
     (case db_find E ''SearchPublishedSkills'' 0 (catalog_matches q category) (hs_skills s) of
        Inl e \<Rightarrow> Inl e
      | Inr ks \<Rightarrow> Inr (take (nat (normalizeLimit limit)) (drop (nat (max 0 offset)) (sort_key (skillCatalogOrder srt) ks))))"

definition CountPublishedSkills :: "env \<Rightarrow> string \<Rightarrow> string \<Rightarrow> hub_state \<Rightarrow> nat result" where
  "CountPublishedSkills E q category s = db_count E ''CountPublishedSkills'' 0 (catalog_matches q category) (hs_skills s)"

definition GetInstallation :: "env \<Rightarrow> uuid \<Rightarrow> hub_state \<Rightarrow> skill_installation result" where
  "GetInstallation E i s = db_first E ''GetInstallation'' 0 hi_id (\<lambda>x. hi_id x = i) (hs_installs s)"

definition GetInstallationByUserSkill :: "env \<Rightarrow> uuid \<Rightarrow> uuid \<Rightarrow> hub_state \<Rightarrow> skill_installation result" where
  "GetInstallationByUserSkill E u k s =
     db_first E ''GetInstallationByUserSkill'' 0 hi_id (\<lambda>x. hi_user_id x = u \<and> hi_skill_id x = k) (hs_installs s)"

definition ListInstallations :: "env \<Rightarrow> uuid \<Rightarrow> hub_state \<Rightarrow> skill_installation list result" where
  "ListInstallations E u s =
     (case db_find E ''ListInstallations'' 0 (\<lambda>x. hi_user_id x = u) (hs_installs s) of
        Inl e \<Rightarrow> Inl e | Inr xs \<Rightarrow> Inr (sort_key (\<lambda>x. - hi_created_at x) xs))"

definition GetActiveRestriction :: "env \<Rightarrow> uuid \<Rightarrow> hub_state \<Rightarrow> publisher_restriction result" where
  "GetActiveRestriction E p s =
     db_first E ''GetActiveRestriction'' 0 hp_id (\<lambda>r. hp_publisher_id r = p \<and> hp_status r = ''active'') (hs_restrictions s)"

text \<open>\<open>UpdateColumn\<close> leaves \<open>UpdatedAt\<close> alone. Both callers ignore its error.\<close>

definition IncrementDownloadCount :: "env \<Rightarrow> uuid \<Rightarrow> hub_state \<Rightarrow> hub_state" where
  "IncrementDownloadCount E i s =
     (case db_update E ''IncrementDownloadCount'' 0 (\<lambda>k. hk_id k = i)
             (\<lambda>k. k\<lparr>hk_download_count := hk_download_count k + 1\<rparr>) (hs_skills s) of
        Inl _ \<Rightarrow> s | Inr t \<Rightarrow> s\<lparr>hs_skills := t\<rparr>)"

definition GetRating :: "env \<Rightarrow> nat \<Rightarrow> uuid \<Rightarrow> uuid \<Rightarrow> hub_state \<Rightarrow> skill_rating result" where
  "GetRating E n k u s = db_first E ''GetRating'' n hr_id (\<lambda>r. hr_skill_id r = k \<and> hr_user_id r = u) (hs_ratings s)"

definition UpsertRating :: "env \<Rightarrow> uuid \<Rightarrow> uuid \<Rightarrow> int \<Rightarrow> hub_state \<Rightarrow> hub_state result" where
  "UpsertRating E k u rating s =
     (case GetRating E 0 k u s of
        Inr existing \<Rightarrow>
          (case db_save E ''SaveRating'' 0 hr_id (existing\<lparr>hr_rating := rating, hr_updated_at := e_now E\<rparr>) (hs_ratings s) of
             Inl e \<Rightarrow> Inl e | Inr t \<Rightarrow> Inr (s\<lparr>hs_ratings := t\<rparr>))
      | Inl e \<Rightarrow>
          if e \<noteq> ErrRecordNotFound then Inl e
          else (case db_insert E ''CreateRating'' 0
                       (\<lambda>r x. hr_id x = hr_id r \<or> hr_skill_id x = hr_skill_id r \<and> hr_user_id x = hr_user_id r)
                       \<lparr>hr_id = e_uuid E ''skill_ratings'' 0, hr_created_at = e_now E, hr_updated_at = e_now E,
                        hr_skill_id = k, hr_user_id = u, hr_rating = rating\<rparr> (hs_ratings s) of
                  Inl e \<Rightarrow> Inl e | Inr t \<Rightarrow> Inr (s\<lparr>hs_ratings := t\<rparr>)))"

definition DeleteRating_repo :: "env \<Rightarrow> uuid \<Rightarrow> uuid \<Rightarrow> hub_state \<Rightarrow> hub_state result" where
  "DeleteRating_repo E k u s =
     (case db_delete E ''DeleteRating'' 0 (\<lambda>r. hr_skill_id r = k \<and> hr_user_id r = u) (hs_ratings s) of
        Inl e \<Rightarrow> Inl e | Inr t \<Rightarrow> Inr (s\<lparr>hs_ratings := t\<rparr>))"

definition RecalculateSkillRatingAggregate :: "env \<Rightarrow> uuid \<Rightarrow> hub_state \<Rightarrow> hub_state result" where
  "RecalculateSkillRatingAggregate E i s =
     (case db_find E ''SelectRatingAggregate'' 0 (\<lambda>r. hr_skill_id r = i) (hs_ratings s) of
        Inl e \<Rightarrow> Inl e
      | Inr rows \<Rightarrow>
          let cnt = int (length rows); sm = sum_list (map hr_rating rows);
              avg = (if 0 < cnt then float64 (float64 (of_int sm) / float64 (of_int cnt)) else 0)
          in case db_update E ''UpdateRatingAggregate'' 0 (\<lambda>k. hk_id k = i)
                    (\<lambda>k. k\<lparr>hk_rating_count := cnt, hk_rating_sum := sm, hk_rating_average := avg, hk_updated_at := e_now E\<rparr>)
                    (hs_skills s) of
               Inl e \<Rightarrow> Inl e | Inr t \<Rightarrow> Inr (s\<lparr>hs_skills := t\<rparr>))"

section \<open>Service: helpers\<close>

fun cleanStrings :: "string list \<Rightarrow> string list" where
  "cleanStrings [] = []"
| "cleanStrings (v # vs) = (if trim v \<noteq> '''' then trim v # cleanStrings vs else cleanStrings vs)"

definition firstNonBlank :: "string \<Rightarrow> string \<Rightarrow> string" where
  "firstNonBlank a b = (if trim a \<noteq> '''' then trim a else trim b)"

definition normalizeSkillTrackMode :: "string \<Rightarrow> string" where
  "normalizeSkillTrackMode track = (if trim track = ''pinned'' then ''pinned'' else ''latest'')"

definition normalizeSkillCatalogSort :: "string \<Rightarrow> string" where
  "normalizeSkillCatalogSort srt =
     (if trim srt \<in> {''downloads'', ''rating'', ''recent''} then trim srt else ''recommended'')"

definition record_hub_audit :: "env \<Rightarrow> uuid \<Rightarrow> string \<Rightarrow> string \<Rightarrow> string \<Rightarrow> string \<Rightarrow> json_map option \<Rightarrow> hub_state \<Rightarrow> hub_state" where
  "record_hub_audit E actor deviceID action resourceType resourceID meta s =
     s\<lparr>hs_audit := snd (Record_audit E 0
        \<lparr>ai_actor_user_id = Some actor, ai_actor_device_id = deviceID, ai_action = action,
         ai_resource_type = resourceType, ai_resource_id = resourceID, ai_outcome = ''success'',
         ai_ip_address = '''', ai_user_agent = '''', ai_metadata = meta\<rparr> (hs_audit s))\<rparr>"

definition ensurePublisherAllowed :: "env \<Rightarrow> uuid \<Rightarrow> hub_state \<Rightarrow> unit result" where
  "ensurePublisherAllowed E publisher s =
     (if publisher = uuid_nil then Inl ErrSkillForbidden
      else case GetActiveRestriction E publisher s of
             Inr _ \<Rightarrow> Inl ErrSkillPublisherBlocked
           | Inl e \<Rightarrow> if e \<noteq> ErrRecordNotFound then Inl e else Inr ())"

definition allowed_type :: "string \<Rightarrow> string \<Rightarrow> bool" where
  "allowed_type ct allowed \<longleftrightarrow> (if has_suffix allowed ''/'' then has_prefix ct allowed else ct = allowed)"

definition requireActiveOwnedAsset :: "env \<Rightarrow> nat \<Rightarrow> uuid \<Rightarrow> uuid \<Rightarrow> string \<Rightarrow> string list \<Rightarrow> hub_state \<Rightarrow> object_record result" where
  "requireActiveOwnedAsset E n owner i assetKind allowedTypes s =
     (case RequireActiveOwnedObject E n owner i (hs_objects s) of
        Inl e \<Rightarrow> Inl e
      | Inr r \<Rightarrow>
          if \<not> has_prefix (trim (ob_scope r)) ''skill-''
          then Inl (Wrapf (assetKind @ '' object scope must start with skill-'') ErrSkillInvalid)
          else if list_ex (allowed_type (ob_content_type r)) allowedTypes then Inr r
          else Inl (Wrapf (''unsupported '' @ assetKind @ '' content type '' @ ob_content_type r) ErrSkillInvalid))"

text \<open>An optional asset: its identifier when it is usable.\<close>

definition optional_asset :: "env \<Rightarrow> nat \<Rightarrow> uuid \<Rightarrow> uuid option \<Rightarrow> string \<Rightarrow> string list \<Rightarrow> hub_state \<Rightarrow> uuid option result" where
  "optional_asset E n owner given assetKind allowedTypes s =
     (case given of
        None \<Rightarrow> Inr None
      | Some i \<Rightarrow> (case requireActiveOwnedAsset E n owner i assetKind allowedTypes s of
                     Inl e \<Rightarrow> Inl e | Inr r \<Rightarrow> Inr (Some (ob_id r))))"

section \<open>Service: publishing\<close>

record create_skill_input =
  xi_skill_key :: string
  xi_name :: string
  xi_summary :: string
  xi_description :: string
  xi_category :: string
  xi_tags :: "string list"
  xi_icon_object_id :: "uuid option"
  xi_homepage_url :: string

record submit_version_input =
  xv_version :: string
  xv_manifest :: "json_map option"
  xv_package_object_id :: "uuid option"
  xv_instructions_object_id :: "uuid option"
  xv_examples_object_ids :: "string list"

definition CreateSkill :: "env \<Rightarrow> uuid \<Rightarrow> create_skill_input \<Rightarrow> hub_state \<Rightarrow> skill result \<times> hub_state" where
  "CreateSkill E publisher input s =
     (case ensurePublisherAllowed E publisher s of
        Inl e \<Rightarrow> (Inl e, s)
      | Inr _ \<Rightarrow>
          let key = trim (xi_skill_key input); name = trim (xi_name input) in
          case validateSkillKey key of
            Inl e \<Rightarrow> (Inl (Wrapf (err_text e) ErrSkillInvalid), s)
          | Inr _ \<Rightarrow>
              if name = '''' then (Inl (Wrapf ''name is required'' ErrSkillInvalid), s)
              else case optional_asset E 0 publisher (xi_icon_object_id input) ''icon'' [''image/''] s of
                Inl e \<Rightarrow> (Inl e, s)
              | Inr icon \<Rightarrow>
                  let k = \<lparr>hk_id = e_uuid E ''skills'' 0, hk_created_at = e_now E, hk_updated_at = e_now E, hk_skill_key = key,
                        hk_publisher_id = publisher, hk_name = name, hk_summary = trim (xi_summary input),
                        hk_description = trim (xi_description input), hk_category = trim (xi_category input),
                        hk_tags = cleanStrings (xi_tags input), hk_icon_object_id = icon,
                        hk_homepage_url = trim (xi_homepage_url input), hk_status = ''draft'', hk_visibility = ''private'',
                        hk_latest_version_id = None, hk_published_version_id = None, hk_download_count = 0,
                        hk_rating_count = 0, hk_rating_sum = 0, hk_rating_average = 0\<rparr>
                  in case CreateSkill_repo E k s of
                       Inl e \<Rightarrow> (Inl e, s)
                     | Inr s1 \<Rightarrow>
                         (Inr k, record_hub_audit E publisher '''' ''skill.created'' ''skill'' (e_uuid_str E (hk_id k))
                                   (Some [(''skill_key'', AStr key)]) s1))"

text \<open>What a valid manifest changes in the skill it belongs to.\<close>

definition apply_manifest :: "manifest_verdict \<Rightarrow> uuid \<Rightarrow> skill \<Rightarrow> skill" where
  "apply_manifest v versionID k =
     k\<lparr>hk_name := firstNonBlank (mv_name v) (hk_name k), hk_summary := firstNonBlank (mv_summary v) (hk_summary k),
       hk_description := firstNonBlank (mv_description v) (hk_description k),
       hk_category := firstNonBlank (mv_category v) (hk_category k),
       hk_tags := (if mv_tags v \<noteq> [] then mv_tags v else hk_tags k),
       hk_homepage_url := firstNonBlank (mv_homepage_url v) (hk_homepage_url k),
       hk_status := ''published'', hk_visibility := ''public'', hk_published_version_id := Some versionID\<rparr>"

definition new_version :: "env \<Rightarrow> uuid \<Rightarrow> string \<Rightarrow> manifest_verdict \<Rightarrow> uuid option \<Rightarrow> uuid option \<Rightarrow> string list \<Rightarrow> skill_version" where
  "new_version E skillID version v package instructions examples =
     \<lparr>hv_id = e_uuid E ''skill_versions'' 0, hv_created_at = e_now E, hv_skill_id = skillID, hv_version = version,
      hv_manifest_hash = mv_manifest_hash v, hv_manifest_snapshot = mv_snapshot v, hv_package_object_id = package,
      hv_instructions_object_id = instructions, hv_examples_object_ids = cleanStrings examples,
      hv_validation_status = (if mv_valid v then ''valid'' else ''invalid''), hv_validation_errors = mv_errors v,
      hv_validation_warnings = mv_warnings v, hv_status = (if mv_valid v then ''published'' else ''draft''),
      hv_published_at = (if mv_valid v then Some (e_now E) else None)\<rparr>"

text \<open>The transaction: insert the version, point the skill at it, publish the skill if it is valid.\<close>

definition publish_tx :: "env \<Rightarrow> skill \<Rightarrow> skill_version \<Rightarrow> manifest_verdict \<Rightarrow> hub_state \<Rightarrow> hub_state result" where
  "publish_tx E k v verdict s =
     (case CreateVersion E v s of
        Inl e \<Rightarrow> Inl e
      | Inr s1 \<Rightarrow>
          let k1 = k\<lparr>hk_latest_version_id := Some (hv_id v)\<rparr>;
              k2 = (if mv_valid verdict then apply_manifest verdict (hv_id v) k1 else k1)
          in case UpdateSkill_repo E k2 s1 of Inl e \<Rightarrow> Inl e | Inr (_, s2) \<Rightarrow> Inr s2)"

definition SubmitVersion :: "env \<Rightarrow> uuid \<Rightarrow> uuid \<Rightarrow> submit_version_input \<Rightarrow> hub_state
    \<Rightarrow> (skill_version \<times> manifest_verdict) result \<times> hub_state" where
  "SubmitVersion E publisher skillID input s =
     (case ensurePublisherAllowed E publisher s of
        Inl e \<Rightarrow> (Inl e, s)
      | Inr _ \<Rightarrow>
     (case GetSkill E skillID s of
        Inl _ \<Rightarrow> (Inl ErrSkillNotFound, s)
      | Inr k \<Rightarrow>
          if hk_publisher_id k \<noteq> publisher then (Inl ErrSkillForbidden, s)
          else case ValidateManifest E (hk_skill_key k) (xv_manifest input) of
            Inl e \<Rightarrow> (Inl e, s)
          | Inr verdict \<Rightarrow>
              let version = or_else (trim (xv_version input)) (mv_version verdict) in
              if version = '''' then (Inl (Wrapf ''version is required'' ErrSkillInvalid), s)
              else case optional_asset E 0 publisher (xv_package_object_id input) ''package''
                     [''application/zip'', ''application/gzip'', ''application/x-tar'', ''application/octet-stream''] s of
                Inl e \<Rightarrow> (Inl e, s)
              | Inr package \<Rightarrow>
                  (case optional_asset E 1 publisher (xv_instructions_object_id input) ''instructions''
                     [''text/'', ''application/json'', ''application/octet-stream''] s of
                     Inl e \<Rightarrow> (Inl e, s)
                   | Inr instructions \<Rightarrow>
                       let v = new_version E (hk_id k) version verdict package instructions (xv_examples_object_ids input)
                       in case publish_tx E k v verdict s of
                            Inl e \<Rightarrow> (Inl e, s)
                          | Inr s1 \<Rightarrow>
                              (Inr (v, verdict),
                               if mv_valid verdict
                               then record_hub_audit E publisher '''' ''skill.version.published'' ''skill_version'' (e_uuid_str E (hv_id v))
                                      (Some [(''skill_id'', AStr (e_uuid_str E (hk_id k))), (''skill_key'', AStr (hk_skill_key k)),
                                             (''version'', AStr version)]) s1
                               else s1))))"

definition GetValidation :: "env \<Rightarrow> uuid \<Rightarrow> uuid \<Rightarrow> uuid \<Rightarrow> hub_state \<Rightarrow> skill_version result" where
  "GetValidation E publisher skillID versionID s =
     (case GetSkill E skillID s of
        Inl _ \<Rightarrow> Inl ErrSkillNotFound
      | Inr k \<Rightarrow>
          if hk_publisher_id k \<noteq> publisher then Inl ErrSkillForbidden
          else (case GetVersion E 0 versionID s of
                  Inl _ \<Rightarrow> Inl ErrSkillVersionNotFound
                | Inr v \<Rightarrow> if hv_skill_id v \<noteq> skillID then Inl ErrSkillVersionNotFound else Inr v))"

section \<open>Service: catalog\<close>

record catalog_asset =
  xa_object_id :: uuid
  xa_filename :: string
  xa_content_type :: string
  xa_content_hash :: string
  xa_content_size :: int

record catalog_item =
  xc_skill :: skill
  xc_published_version :: "skill_version option"
  xc_icon_asset :: "catalog_asset option"
  xc_package_asset :: "catalog_asset option"

record catalog_page =
  xp_items :: "catalog_item list"
  xp_limit :: int
  xp_offset :: int
  xp_total :: nat
  xp_sort :: string

definition skillCatalogAssetFromObject :: "object_record \<Rightarrow> catalog_asset" where
  "skillCatalogAssetFromObject r =
     \<lparr>xa_object_id = ob_id r, xa_filename = ob_filename r, xa_content_type = ob_content_type r,
      xa_content_hash = ob_content_hash r, xa_content_size = ob_content_size r\<rparr>"

definition catalog_asset_of :: "env \<Rightarrow> nat \<Rightarrow> uuid \<Rightarrow> uuid option \<Rightarrow> hub_state \<Rightarrow> catalog_asset option" where
  "catalog_asset_of E n owner i s =
     (case i of
        None \<Rightarrow> None
      | Some i \<Rightarrow> (case RequireActiveOwnedObject E n owner i (hs_objects s) of
                     Inl _ \<Rightarrow> None | Inr r \<Rightarrow> Some (skillCatalogAssetFromObject r)))"

definition enrichCatalogSkill :: "env \<Rightarrow> nat \<Rightarrow> skill \<Rightarrow> hub_state \<Rightarrow> catalog_item" where
  "enrichCatalogSkill E n k s =
     (let version = (case hk_published_version_id k of
                       None \<Rightarrow> None
                     | Some i \<Rightarrow> (case GetVersion E n i s of Inl _ \<Rightarrow> None | Inr v \<Rightarrow> Some v));
          package = (case version of None \<Rightarrow> None | Some v \<Rightarrow> catalog_asset_of E (2 * n) (hk_publisher_id k) (hv_package_object_id v) s)
      in \<lparr>xc_skill = k, xc_published_version = version,
          xc_icon_asset = catalog_asset_of E (2 * n + 1) (hk_publisher_id k) (hk_icon_object_id k) s, xc_package_asset = package\<rparr>)"

definition SearchCatalogSorted :: "env \<Rightarrow> string \<Rightarrow> string \<Rightarrow> string \<Rightarrow> int \<Rightarrow> int \<Rightarrow> hub_state \<Rightarrow> catalog_page result" where
  "SearchCatalogSorted E q category srt0 limit offset s =
     (let srt = normalizeSkillCatalogSort srt0 in
      case SearchPublishedSkillsSorted E q category srt limit offset s of
        Inl e \<Rightarrow> Inl e
      | Inr items \<Rightarrow>
          (case CountPublishedSkills E q category s of
             Inl e \<Rightarrow> Inl e
           | Inr cnt \<Rightarrow>
               Inr \<lparr>xp_items = map (\<lambda>(n, k). enrichCatalogSkill E n k s) (enumerate 0 items),
                    xp_limit = (if limit \<le> 0 \<or> 100 < limit then 20 else limit),
                    xp_offset = (if offset < 0 then 0 else offset), xp_total = cnt, xp_sort = srt\<rparr>))"

definition GetCatalogSkill :: "env \<Rightarrow> string \<Rightarrow> hub_state \<Rightarrow> catalog_item result" where
  "GetCatalogSkill E key s =
     (case GetPublishedSkillByKey E key s of
        Inl _ \<Rightarrow> Inl ErrSkillNotFound
      | Inr k \<Rightarrow>
          if hk_visibility k \<noteq> ''public'' \<and> hk_visibility k \<noteq> ''unlisted'' then Inl ErrSkillNotFound
          else Inr (enrichCatalogSkill E 0 k s))"

section \<open>Service: ratings\<close>

record rating_aggregate =
  xg_skill_id :: uuid
  xg_skill_key :: string
  xg_rating_count :: int
  xg_rating_average :: rat
  xg_download_count :: int
  xg_user_rating :: "int option"

definition ratingAggregate :: "env \<Rightarrow> uuid \<Rightarrow> uuid \<Rightarrow> hub_state \<Rightarrow> rating_aggregate result" where
  "ratingAggregate E u skillID s =
     (case GetSkill E skillID s of
        Inl _ \<Rightarrow> Inl ErrSkillNotFound
      | Inr k \<Rightarrow>
          Inr \<lparr>xg_skill_id = hk_id k, xg_skill_key = hk_skill_key k, xg_rating_count = hk_rating_count k,
               xg_rating_average = hk_rating_average k, xg_download_count = hk_download_count k,
               xg_user_rating = (case GetRating E 1 (hk_id k) u s of Inl _ \<Rightarrow> None | Inr r \<Rightarrow> Some (hr_rating r))\<rparr>)"

definition RateSkill :: "env \<Rightarrow> uuid \<Rightarrow> string \<Rightarrow> int \<Rightarrow> hub_state \<Rightarrow> rating_aggregate result \<times> hub_state" where
  "RateSkill E u key rating s =
     (if rating < 1 \<or> 5 < rating then (Inl (Wrapf ''rating must be between 1 and 5'' ErrSkillInvalid), s)
      else case GetPublishedSkillByKey E key s of
        Inl _ \<Rightarrow> (Inl ErrSkillNotFound, s)
      | Inr k \<Rightarrow>
          (case UpsertRating E (hk_id k) u rating s of
             Inl e \<Rightarrow> (Inl e, s)
           | Inr s1 \<Rightarrow>
               (case RecalculateSkillRatingAggregate E (hk_id k) s1 of
                  Inl e \<Rightarrow> (Inl e, s)
                | Inr s2 \<Rightarrow> (ratingAggregate E u (hk_id k) s2, s2))))"

definition DeleteRating :: "env \<Rightarrow> uuid \<Rightarrow> string \<Rightarrow> hub_state \<Rightarrow> rating_aggregate result \<times> hub_state" where
  "DeleteRating E u key s =
     (case GetPublishedSkillByKey E key s of
        Inl _ \<Rightarrow> (Inl ErrSkillNotFound, s)
      | Inr k \<Rightarrow>
          (case DeleteRating_repo E (hk_id k) u s of
             Inl e \<Rightarrow> (Inl e, s)
           | Inr s1 \<Rightarrow>
               (case RecalculateSkillRatingAggregate E (hk_id k) s1 of
                  Inl e \<Rightarrow> (Inl e, s)
                | Inr s2 \<Rightarrow> (ratingAggregate E u (hk_id k) s2, s2))))"

section \<open>Service: installations\<close>

record install_input =
  xn_track_mode :: string
  xn_config :: "json_map option"

record update_installation_input =
  xu_track_mode :: string
  xu_version_id :: "uuid option"
  xu_config :: "json_map option"

definition installation_payload :: "env \<Rightarrow> string \<Rightarrow> skill_installation \<Rightarrow> string \<Rightarrow> json_map" where
  "installation_payload E deviceID i key =
     [(''object_id'', AStr (e_uuid_str E (hi_id i))), (''installation_id'', AStr (e_uuid_str E (hi_id i))),
      (''skill_id'', AStr (e_uuid_str E (hi_skill_id i))), (''version_id'', AStr (e_uuid_str E (hi_version_id i))),
      (''track_mode'', AStr (hi_track_mode i)), (''status'', AStr (hi_status i)), (''config'', AMap (hi_config i)),
      (''updated_by_device_id'', AStr deviceID), (''skill_key'', AStr key)]"

text \<open>The result of recording is ignored.\<close>

definition recordInstallationSync :: "env \<Rightarrow> uuid \<Rightarrow> string \<Rightarrow> skill_installation \<Rightarrow> string \<Rightarrow> string \<Rightarrow> hub_state \<Rightarrow> hub_state" where
  "recordInstallationSync E u deviceID i key operation s =
     s\<lparr>hs_sync := snd (RecordEnvelope E 0
        \<lparr>en_user_id = u, en_source_device_id = deviceID, en_object_type = ''skill'', en_object_id = e_uuid_str E (hi_id i),
         en_operation = operation, en_client_event_id = '''', en_payload = Some (installation_payload E deviceID i key)\<rparr> (hs_sync s))\<rparr>"

definition reinstall :: "env \<Rightarrow> uuid \<Rightarrow> string \<Rightarrow> skill \<Rightarrow> uuid \<Rightarrow> install_input \<Rightarrow> skill_installation \<Rightarrow> hub_state
    \<Rightarrow> skill_installation result \<times> hub_state" where
  "reinstall E u deviceID k versionID input existing s =
     (let x = existing\<lparr>hi_version_id := versionID,
            hi_track_mode := (if trim (xn_track_mode input) \<noteq> '''' then normalizeSkillTrackMode (xn_track_mode input)
                              else hi_track_mode existing),
            hi_config := (case xn_config input of None \<Rightarrow> hi_config existing | Some c \<Rightarrow> c),
            hi_status := ''active'', hi_disabled_at := None\<rparr>
      in case UpdateInstallation_repo E x s of
           Inl e \<Rightarrow> (Inl e, s)
         | Inr (x', s1) \<Rightarrow>
             let s2 = (if hi_status existing = ''uninstalled'' then IncrementDownloadCount E (hk_id k) s1 else s1)
             in (Inr x', recordInstallationSync E u deviceID x' (hk_skill_key k) ''installed'' s2))"

definition install_new :: "env \<Rightarrow> uuid \<Rightarrow> string \<Rightarrow> skill \<Rightarrow> uuid \<Rightarrow> install_input \<Rightarrow> hub_state
    \<Rightarrow> skill_installation result \<times> hub_state" where
  "install_new E u deviceID k versionID input s =
     (let x = \<lparr>hi_id = e_uuid E ''skill_installations'' 0, hi_created_at = e_now E, hi_updated_at = e_now E, hi_user_id = u,
            hi_skill_id = hk_id k, hi_version_id = versionID, hi_status = ''active'', hi_install_source = ''catalog'',
            hi_track_mode = normalizeSkillTrackMode (xn_track_mode input),
            hi_config = (case xn_config input of None \<Rightarrow> [] | Some c \<Rightarrow> c), hi_installed_at = e_now E, hi_disabled_at = None\<rparr>
      in case CreateInstallation E x s of
           Inl e \<Rightarrow> (Inl e, s)
         | Inr s1 \<Rightarrow>
             let s2 = IncrementDownloadCount E (hk_id k) s1;
                 s3 = recordInstallationSync E u deviceID x (hk_skill_key k) ''installed'' s2
             in (Inr x, record_hub_audit E u deviceID ''skill.installed'' ''skill_installation'' (e_uuid_str E (hi_id x))
                          (Some [(''skill_key'', AStr (hk_skill_key k))]) s3))"

definition InstallSkill :: "env \<Rightarrow> uuid \<Rightarrow> string \<Rightarrow> string \<Rightarrow> install_input \<Rightarrow> hub_state \<Rightarrow> skill_installation result \<times> hub_state" where
  "InstallSkill E u deviceID key input s =
     (case GetPublishedSkillByKey E key s of
        Inl _ \<Rightarrow> (Inl ErrSkillNotFound, s)
      | Inr k \<Rightarrow>
          (case hk_published_version_id k of
             None \<Rightarrow> (Inl (Wrapf ''published version required'' ErrSkillInvalid), s)
           | Some versionID \<Rightarrow>
               (case GetInstallationByUserSkill E u (hk_id k) s of
                  Inr existing \<Rightarrow> reinstall E u deviceID k versionID input existing s
                | Inl _ \<Rightarrow> install_new E u deviceID k versionID input s)))"

text \<open>The skill an installation is of: when it cannot be read, gorm leaves an empty value, whose key is empty.\<close>

definition skill_key_of :: "env \<Rightarrow> uuid \<Rightarrow> hub_state \<Rightarrow> string" where
  "skill_key_of E i s = (case GetSkill E i s of Inl _ \<Rightarrow> '''' | Inr k \<Rightarrow> hk_skill_key k)"

definition SetInstallationStatus :: "env \<Rightarrow> uuid \<Rightarrow> string \<Rightarrow> uuid \<Rightarrow> string \<Rightarrow> hub_state \<Rightarrow> skill_installation result \<times> hub_state" where
  "SetInstallationStatus E u deviceID i status s =
     (case GetInstallation E i s of
        Inl _ \<Rightarrow> (Inl ErrSkillInstallationNotFound, s)
      | Inr x \<Rightarrow>
          if hi_user_id x \<noteq> u then (Inl ErrSkillInstallationNotFound, s)
          else
            let x' = x\<lparr>hi_status := status,
                  hi_disabled_at := (if status \<in> {''disabled'', ''uninstalled''} then Some (e_now E) else None)\<rparr>
            in case UpdateInstallation_repo E x' s of
                 Inl e \<Rightarrow> (Inl e, s)
               | Inr (y, s1) \<Rightarrow>
                   (Inr y, recordInstallationSync E u deviceID y (skill_key_of E (hi_skill_id y) s1)
                             (if status = ''disabled'' then ''disabled'' else if status = ''uninstalled'' then ''uninstalled''
                              else ''enabled'') s1))"

definition UpdateInstallation :: "env \<Rightarrow> uuid \<Rightarrow> string \<Rightarrow> uuid \<Rightarrow> update_installation_input \<Rightarrow> hub_state
    \<Rightarrow> skill_installation result \<times> hub_state" where
  "UpdateInstallation E u deviceID i input s =
     (case GetInstallation E i s of
        Inl _ \<Rightarrow> (Inl ErrSkillInstallationNotFound, s)
      | Inr x \<Rightarrow>
          if hi_user_id x \<noteq> u then (Inl ErrSkillInstallationNotFound, s)
          else case (case xu_version_id input of
                 None \<Rightarrow> Inr (hi_version_id x)
               | Some vid \<Rightarrow>
                   (case GetVersion E 0 vid s of
                      Inl _ \<Rightarrow> Inl ErrSkillVersionNotFound
                    | Inr v \<Rightarrow>
                        if hv_skill_id v \<noteq> hi_skill_id x \<or> hv_status v \<noteq> ''published'' then Inl ErrSkillVersionNotFound
                        else Inr (hv_id v))) of
            Inl e \<Rightarrow> (Inl e, s)
          | Inr vid \<Rightarrow>
              let x' = x\<lparr>hi_version_id := vid,
                    hi_track_mode := (if trim (xu_track_mode input) \<noteq> '''' then normalizeSkillTrackMode (xu_track_mode input)
                                      else hi_track_mode x),
                    hi_config := (case xu_config input of None \<Rightarrow> hi_config x | Some c \<Rightarrow> c)\<rparr>
              in case UpdateInstallation_repo E x' s of
                   Inl e \<Rightarrow> (Inl e, s)
                 | Inr (y, s1) \<Rightarrow>
                     (Inr y, recordInstallationSync E u deviceID y (skill_key_of E (hi_skill_id y) s1) ''updated'' s1))"

section \<open>Service: moderation\<close>

definition TakedownSkill :: "env \<Rightarrow> uuid \<Rightarrow> uuid \<Rightarrow> string \<Rightarrow> hub_state \<Rightarrow> skill result \<times> hub_state" where
  "TakedownSkill E actor skillID reason s =
     (case GetSkill E skillID s of
        Inl _ \<Rightarrow> (Inl ErrSkillNotFound, s)
      | Inr k \<Rightarrow>
          (case UpdateSkill_repo E (k\<lparr>hk_status := ''suspended'', hk_visibility := ''private''\<rparr>) s of
             Inl e \<Rightarrow> (Inl e, s)
           | Inr (k', s1) \<Rightarrow>
               (Inr k', record_hub_audit E actor '''' ''skill.takedown'' ''skill'' (e_uuid_str E (hk_id k'))
                          (Some [(''reason'', AStr reason), (''skill_key'', AStr (hk_skill_key k'))]) s1)))"

definition RestrictPublisher :: "env \<Rightarrow> uuid \<Rightarrow> uuid \<Rightarrow> string \<Rightarrow> hub_state \<Rightarrow> publisher_restriction result \<times> hub_state" where
  "RestrictPublisher E actor publisher reason s =
     (case GetActiveRestriction E publisher s of
        Inr existing \<Rightarrow> (Inr existing, s)
      | Inl _ \<Rightarrow>
          let r = \<lparr>hp_id = e_uuid E ''skill_publisher_restrictions'' 0, hp_created_at = e_now E, hp_updated_at = e_now E,
                hp_publisher_id = publisher, hp_status = ''active'', hp_reason = trim reason, hp_created_by = actor,
                hp_lifted_by = None, hp_lifted_at = None\<rparr>
          in case CreateRestriction E r s of
               Inl e \<Rightarrow> (Inl e, s)
             | Inr s1 \<Rightarrow>
                 (Inr r, record_hub_audit E actor '''' ''skill.publisher.restricted'' ''skill_publisher'' (e_uuid_str E publisher)
                           (Some [(''reason'', AStr reason)]) s1))"

definition LiftPublisherRestriction :: "env \<Rightarrow> uuid \<Rightarrow> uuid \<Rightarrow> hub_state \<Rightarrow> publisher_restriction result \<times> hub_state" where
  "LiftPublisherRestriction E actor publisher s =
     (case GetActiveRestriction E publisher s of
        Inl _ \<Rightarrow> (Inl ErrSkillNotFound, s)
      | Inr r \<Rightarrow>
          (case UpdateRestriction E (r\<lparr>hp_status := ''lifted'', hp_lifted_by := Some actor, hp_lifted_at := Some (e_now E)\<rparr>) s of
             Inl e \<Rightarrow> (Inl e, s)
           | Inr (r', s1) \<Rightarrow>
               (Inr r', record_hub_audit E actor '''' ''skill.publisher.restriction_lifted'' ''skill_publisher''
                          (e_uuid_str E publisher) None s1)))"

end
