(* ===== verification/SkillHubProps.thy ===== *)
theory SkillHubProps
  imports SkillHub SyncProps
begin

text \<open>
  The skill catalog: from the empty database every sequence of requests keeps the aggregates of the ratings
  exact and the catalog free of skills without a valid published version.
\<close>

datatype hub_req =
    HCreate env uuid create_skill_input
  | HSubmit env uuid uuid submit_version_input
  | HRate env uuid string int
  | HUnrate env uuid string
  | HInstall env uuid string string install_input
  | HStatus env uuid string uuid string
  | HUpdate env uuid string uuid update_installation_input
  | HTakedown env uuid uuid string
  | HRestrict env uuid uuid string
  | HLift env uuid uuid

fun hub_serve :: "hub_req \<Rightarrow> hub_state \<Rightarrow> hub_state" where
  "hub_serve (HCreate E p input) s = snd (CreateSkill E p input s)"
| "hub_serve (HSubmit E p i input) s = snd (SubmitVersion E p i input s)"
| "hub_serve (HRate E u key rating) s = snd (RateSkill E u key rating s)"
| "hub_serve (HUnrate E u key) s = snd (DeleteRating E u key s)"
| "hub_serve (HInstall E u d key input) s = snd (InstallSkill E u d key input s)"
| "hub_serve (HStatus E u d i status) s = snd (SetInstallationStatus E u d i status s)"
| "hub_serve (HUpdate E u d i input) s = snd (UpdateInstallation E u d i input s)"
| "hub_serve (HTakedown E a i reason) s = snd (TakedownSkill E a i reason s)"
| "hub_serve (HRestrict E a p reason) s = snd (RestrictPublisher E a p reason s)"
| "hub_serve (HLift E a p) s = snd (LiftPublisherRestriction E a p s)"

section \<open>What holds of the tables\<close>

definition rows_of :: "uuid \<Rightarrow> skill_rating list \<Rightarrow> skill_rating list" where
  "rows_of i rs = filter (\<lambda>r. hr_skill_id r = i) rs"

definition agg_ok :: "skill_rating list \<Rightarrow> skill \<Rightarrow> bool" where
  "agg_ok rs k \<longleftrightarrow> hk_rating_count k = int (length (rows_of (hk_id k) rs))
     \<and> hk_rating_sum k = sum_list (map hr_rating (rows_of (hk_id k) rs))
     \<and> hk_rating_average k = (if hk_rating_count k = 0 then 0
         else float64 (float64 (of_int (hk_rating_sum k)) / float64 (of_int (hk_rating_count k))))"

definition pub_ok :: "skill_version list \<Rightarrow> skill \<Rightarrow> bool" where
  "pub_ok vs k \<longleftrightarrow> hk_status k \<in> {''draft'', ''published'', ''suspended''} \<and> well_formed_key (hk_skill_key k)
     \<and> (hk_status k = ''published'' \<longrightarrow>
          (\<exists>v\<in>set vs. hk_published_version_id k = Some (hv_id v) \<and> hv_skill_id v = hk_id k
             \<and> hv_status v = ''published'' \<and> hv_validation_status v = ''valid''))"

definition rating_rows_ok :: "skill list \<Rightarrow> skill_rating list \<Rightarrow> bool" where
  "rating_rows_ok ks rs \<longleftrightarrow> distinct (map (\<lambda>r. (hr_skill_id r, hr_user_id r)) rs) \<and> distinct (map hr_id rs)
     \<and> list_all (\<lambda>r. 1 \<le> hr_rating r \<and> hr_rating r \<le> 5 \<and> hr_skill_id r \<in> hk_id ` set ks) rs"

definition hub_ok :: "skill list \<Rightarrow> skill_version list \<Rightarrow> skill_rating list \<Rightarrow> bool" where
  "hub_ok ks vs rs \<longleftrightarrow> distinct (map hk_id ks) \<and> distinct (map hv_id vs) \<and> list_all (agg_ok rs) ks \<and> list_all (pub_ok vs) ks
     \<and> rating_rows_ok ks rs"

definition hub_inv :: "hub_state \<Rightarrow> bool" where
  "hub_inv s \<longleftrightarrow> hub_ok (hs_skills s) (hs_versions s) (hs_ratings s)"

lemma pub_ok_mono: "pub_ok vs k \<Longrightarrow> set vs \<subseteq> set vs' \<Longrightarrow> pub_ok vs' k"
  by (auto simp: pub_ok_def)

lemma agg_ok_cong:
  assumes "hk_id k' = hk_id k" "hk_rating_count k' = hk_rating_count k" "hk_rating_sum k' = hk_rating_sum k"
    "hk_rating_average k' = hk_rating_average k" "rows_of (hk_id k) rs' = rows_of (hk_id k) rs"
  shows "agg_ok rs' k' = agg_ok rs k"
  unfolding agg_ok_def assms by (rule refl)

text \<open>Replacing the row of one skill.\<close>

lemma hub_ok_save:
  assumes "hub_ok ks vs rs" "k \<in> set ks" "hk_id k' = hk_id k" "agg_ok rs k'" "pub_ok vs' k'" "set vs \<subseteq> set vs'"
    "distinct (map hv_id vs')"
  shows "hub_ok (save_row hk_id k' ks) vs' rs"
proof -
  have "map hk_id (save_row hk_id k' ks) = map hk_id ks" using assms(2,3) by (intro map_key_save_row [of k]) simp_all
  moreover from this have "hk_id ` set (save_row hk_id k' ks) = hk_id ` set ks" by (metis set_map)
  moreover have "agg_ok rs x" "pub_ok vs' x" if "x \<in> set (save_row hk_id k' ks)" for x
    using that assms pub_ok_mono [of vs x vs'] by (auto simp: table_simps hub_ok_def list_all_iff)
  ultimately show ?thesis using assms(1,7) by (auto simp: hub_ok_def list_all_iff rating_rows_ok_def)
qed

text \<open>Updating rows in place.\<close>

lemma hub_ok_upd:
  assumes "hub_ok ks vs rs" "\<And>k. hk_id (f k) = hk_id k" "\<And>k. k \<in> set ks \<Longrightarrow> pub_ok vs k \<Longrightarrow> pub_ok vs (f k)"
    "\<And>k. k \<in> set ks \<Longrightarrow> agg_ok rs' (if P k then f k else k)" "rating_rows_ok ks rs'"
  shows "hub_ok (upd_where P f ks) vs rs'"
proof -
  have ids: "map hk_id (upd_where P f ks) = map hk_id ks" by (rule map_upd_where) (rule assms(2))
  then have "hk_id ` set (upd_where P f ks) = hk_id ` set ks" by (metis set_map)
  moreover have "pub_ok vs x" if "x \<in> set (upd_where P f ks)" for x
    using that assms(1,3) by (auto simp: set_upd_where hub_ok_def list_all_iff)
  moreover have "agg_ok rs' x" if "x \<in> set (upd_where P f ks)" for x
  proof -
    from that obtain k where "k \<in> set ks" "x = (if P k then f k else k)" by (auto simp: set_upd_where)
    with assms(4) show ?thesis by blast
  qed
  ultimately show ?thesis using assms(1,5) ids by (simp add: hub_ok_def list_all_iff rating_rows_ok_def)
qed

section \<open>One request\<close>

lemma audit_tables [simp]: "hs_skills (record_hub_audit E a d ac rt ri m s) = hs_skills s"
  "hs_versions (record_hub_audit E a d ac rt ri m s) = hs_versions s" "hs_ratings (record_hub_audit E a d ac rt ri m s) = hs_ratings s"
  by (simp_all add: record_hub_audit_def)

lemma sync_tables [simp]: "hs_skills (recordInstallationSync E u d i key op s) = hs_skills s"
  "hs_versions (recordInstallationSync E u d i key op s) = hs_versions s"
  "hs_ratings (recordInstallationSync E u d i key op s) = hs_ratings s"
  by (simp_all add: recordInstallationSync_def)

lemma GetSkill_Inr: "GetSkill E i s = Inr k \<Longrightarrow> k \<in> set (hs_skills s) \<and> hk_id k = i"
  by (auto simp: GetSkill_def db_simps dest: first_by_Some)

lemma GetPublishedSkillByKey_Inr: "GetPublishedSkillByKey E key s = Inr k \<Longrightarrow> k \<in> set (hs_skills s)"
  by (auto simp: GetPublishedSkillByKey_def db_simps dest: first_by_Some)

lemma hub_inv_IncrementDownloadCount: "hub_inv s \<Longrightarrow> hub_inv (IncrementDownloadCount E i s)"
proof -
  assume inv: "hub_inv s"
  have "hub_ok (upd_where (\<lambda>k. hk_id k = i) (\<lambda>k. k\<lparr>hk_download_count := hk_download_count k + 1\<rparr>) (hs_skills s)) (hs_versions s) (hs_ratings s)"
    using inv unfolding hub_inv_def
    by (rule hub_ok_upd) (use inv in \<open>auto simp: hub_inv_def hub_ok_def pub_ok_def agg_ok_def list_all_iff\<close>)
  with inv show ?thesis by (auto simp: IncrementDownloadCount_def db_update_def hub_inv_def)
qed

lemma hub_inv_CreateSkill: "hub_inv s \<Longrightarrow> hub_inv (snd (CreateSkill E p input s))"
proof (cases "fst (CreateSkill E p input s)")
  case (Inl e)
  assume "hub_inv s"
  moreover have "snd (CreateSkill E p input s) = s"
    using Inl by (auto simp: CreateSkill_def Let_def split: sum.splits)
  ultimately show ?thesis by simp
next
  case (Inr k)
  assume inv: "hub_inv s"
  let ?k = k
  from Inr obtain s1 where c: "CreateSkill_repo E k s = Inr s1" and key: "succeeds (validateSkillKey (hk_skill_key k))"
      "hk_skill_key k = trim (xi_skill_key input)"
    and k: "hk_status k = ''draft''" "hk_rating_count k = 0" "hk_rating_sum k = 0" "hk_rating_average k = 0"
    and s': "hs_skills (snd (CreateSkill E p input s)) = hs_skills s1" "hs_versions (snd (CreateSkill E p input s)) = hs_versions s1"
      "hs_ratings (snd (CreateSkill E p input s)) = hs_ratings s1"
    by (auto simp: CreateSkill_def Let_def split: sum.splits if_splits)
  from c have s1: "hs_skills s1 = hs_skills s @ [k]" "hs_versions s1 = hs_versions s" "hs_ratings s1 = hs_ratings s"
    and new: "\<forall>x\<in>set (hs_skills s). hk_id x \<noteq> hk_id k"
    by (auto simp: CreateSkill_repo_def db_simps split: sum.splits)
  have none: "rows_of (hk_id k) (hs_ratings s) = []"
    using inv new by (auto simp: rows_of_def filter_empty_conv hub_inv_def hub_ok_def rating_rows_ok_def list_all_iff)
  have "pub_ok (hs_versions s) k" using key k(1) by (simp add: pub_ok_def validateSkillKey_iff)
  moreover have "agg_ok (hs_ratings s) k" using none k by (simp add: agg_ok_def)
  ultimately have "hub_ok (hs_skills s @ [k]) (hs_versions s) (hs_ratings s)"
    using inv new by (auto simp: hub_inv_def hub_ok_def rating_rows_ok_def list_all_iff)
  then show ?thesis by (simp add: hub_inv_def s' s1)
qed

lemma UpdateSkill_repo_Inr:
  "UpdateSkill_repo E k s = Inr (k', s') \<Longrightarrow> k' = k\<lparr>hk_updated_at := e_now E\<rparr> \<and> s' = s\<lparr>hs_skills := save_row hk_id k' (hs_skills s)\<rparr>"
  by (auto simp: UpdateSkill_repo_def Let_def db_simps split: sum.splits)

lemma publish_tx_inv:
  assumes "hub_inv s" "k \<in> set (hs_skills s)" "publish_tx E k (new_version E (hk_id k) ver verdict pkg ins exs) verdict s = Inr s'"
  shows "hub_inv s'"
proof -
  let ?v = "new_version E (hk_id k) ver verdict pkg ins exs"
  let ?k2 = "if mv_valid verdict then apply_manifest verdict (hv_id ?v) (k\<lparr>hk_latest_version_id := Some (hv_id ?v)\<rparr>)
     else k\<lparr>hk_latest_version_id := Some (hv_id ?v)\<rparr>"
  from assms(3) obtain s1 k' where c: "CreateVersion E ?v s = Inr s1" and u: "UpdateSkill_repo E ?k2 s1 = Inr (k', s')"
    by (auto simp: publish_tx_def Let_def split: sum.splits)
  from c have s1: "hs_skills s1 = hs_skills s" "hs_versions s1 = hs_versions s @ [?v]" "hs_ratings s1 = hs_ratings s"
    and new: "\<forall>x\<in>set (hs_versions s). hv_id x \<noteq> hv_id ?v"
    by (auto simp: CreateVersion_def db_simps split: sum.splits)
  have d: "distinct (map hv_id (hs_versions s @ [?v]))" using new assms(1) by (auto simp: hub_inv_def hub_ok_def)
  have ok: "agg_ok (hs_ratings s) k" "pub_ok (hs_versions s) k"
    using assms(1,2) by (auto simp: hub_inv_def hub_ok_def list_all_iff)
  have k': "k' = ?k2\<lparr>hk_updated_at := e_now E\<rparr>" and s': "s' = s1\<lparr>hs_skills := save_row hk_id k' (hs_skills s1)\<rparr>"
    using UpdateSkill_repo_Inr [OF u] by blast+
  have "hk_id k' = hk_id k" by (simp add: k' apply_manifest_def)
  moreover have "agg_ok (hs_ratings s) k'" using ok(1) agg_ok_cong [of k' k] by (simp add: k' apply_manifest_def)
  moreover have "pub_ok (hs_versions s @ [?v]) k'" using ok(2) by (auto simp: k' pub_ok_def apply_manifest_def new_version_def)
  ultimately have "hub_ok (save_row hk_id k' (hs_skills s)) (hs_versions s @ [?v]) (hs_ratings s)"
    using assms(1,2) d unfolding hub_inv_def by (intro hub_ok_save [of _ "hs_versions s" _ k]) auto
  then show ?thesis by (simp add: hub_inv_def s' s1)
qed

lemma hub_inv_SubmitVersion:
  assumes "hub_inv s"
  shows "hub_inv (snd (SubmitVersion E p i input s))"
proof (cases "fst (SubmitVersion E p i input s)")
  case (Inl e)
  then have "snd (SubmitVersion E p i input s) = s"
    by (auto simp: SubmitVersion_def Let_def split: sum.splits if_splits)
  with assms show ?thesis by simp
next
  case (Inr r)
  then obtain k ver verdict pkg ins exs s1 where k: "GetSkill E i s = Inr k"
    and p: "publish_tx E k (new_version E (hk_id k) ver verdict pkg ins exs) verdict s = Inr s1"
    and s': "hs_skills (snd (SubmitVersion E p i input s)) = hs_skills s1" "hs_versions (snd (SubmitVersion E p i input s)) = hs_versions s1"
      "hs_ratings (snd (SubmitVersion E p i input s)) = hs_ratings s1"
    by (auto simp: SubmitVersion_def Let_def split: sum.splits if_splits)
  have "k \<in> set (hs_skills s)" using GetSkill_Inr [OF k] by simp
  from publish_tx_inv [OF assms this p] show ?thesis by (simp add: hub_inv_def s')
qed

lemma hub_inv_TakedownSkill:
  assumes "hub_inv s"
  shows "hub_inv (snd (TakedownSkill E a i reason s))"
proof (cases "fst (TakedownSkill E a i reason s)")
  case (Inl e)
  then have "snd (TakedownSkill E a i reason s) = s" by (auto simp: TakedownSkill_def split: sum.splits)
  with assms show ?thesis by simp
next
  case (Inr k')
  then obtain k s1 where k: "GetSkill E i s = Inr k"
    and u: "UpdateSkill_repo E (k\<lparr>hk_status := ''suspended'', hk_visibility := ''private''\<rparr>) s = Inr (k', s1)"
    and s': "hs_skills (snd (TakedownSkill E a i reason s)) = hs_skills s1" "hs_versions (snd (TakedownSkill E a i reason s)) = hs_versions s1"
      "hs_ratings (snd (TakedownSkill E a i reason s)) = hs_ratings s1"
    by (auto simp: TakedownSkill_def split: sum.splits prod.splits)
  have mem: "k \<in> set (hs_skills s)" using GetSkill_Inr [OF k] by simp
  then have ok: "agg_ok (hs_ratings s) k" "pub_ok (hs_versions s) k" using assms by (auto simp: hub_inv_def hub_ok_def list_all_iff)
  have s1: "s1 = s\<lparr>hs_skills := save_row hk_id k' (hs_skills s)\<rparr>" and k': "hk_id k' = hk_id k" "agg_ok (hs_ratings s) k'" "pub_ok (hs_versions s) k'"
    using UpdateSkill_repo_Inr [OF u] ok by (auto simp: agg_ok_def pub_ok_def)
  have "hub_ok (save_row hk_id k' (hs_skills s)) (hs_versions s) (hs_ratings s)"
    using assms mem k' unfolding hub_inv_def by (intro hub_ok_save [of _ "hs_versions s" _ k]) (auto simp: hub_ok_def)
  then show ?thesis by (simp add: hub_inv_def s' s1)
qed

text \<open>Recomputing the aggregate of the skill whose ratings changed.\<close>

lemma Recalculate_inv:
  assumes "hub_ok ks vs rs" "hs_skills s1 = ks" "hs_versions s1 = vs" "rating_rows_ok ks (hs_ratings s1)"
    "\<And>j. j \<noteq> i \<Longrightarrow> rows_of j (hs_ratings s1) = rows_of j rs" "RecalculateSkillRatingAggregate E i s1 = Inr s2"
  shows "hub_inv s2"
proof -
  let ?rows = "rows_of i (hs_ratings s1)"
  let ?cnt = "int (length ?rows)"
  let ?sm = "sum_list (map hr_rating ?rows)"
  let ?f = "\<lambda>k. k\<lparr>hk_rating_count := ?cnt, hk_rating_sum := ?sm,
     hk_rating_average := (if 0 < ?cnt then float64 (float64 (of_int ?sm) / float64 (of_int ?cnt)) else 0), hk_updated_at := e_now E\<rparr>"
  have s2: "s2 = s1\<lparr>hs_skills := upd_where (\<lambda>k. hk_id k = i) ?f ks\<rparr>"
    using assms(2,6) by (auto simp: RecalculateSkillRatingAggregate_def db_simps Let_def rows_of_def split: sum.splits)
  have zero: "?sm = 0" if "?rows = []" using that by simp
  have "hub_ok (upd_where (\<lambda>k. hk_id k = i) ?f ks) vs (hs_ratings s1)"
  proof (rule hub_ok_upd [OF assms(1)])
    show "agg_ok (hs_ratings s1) (if hk_id k = i then ?f k else k)" if "k \<in> set ks" for k
    proof (cases "hk_id k = i")
      case True
      then show ?thesis using zero by (auto simp: agg_ok_def)
    next
      case False
      with assms(5) have "agg_ok (hs_ratings s1) k = agg_ok rs k" by (intro agg_ok_cong) simp_all
      with that assms(1) False show ?thesis by (simp add: hub_ok_def list_all_iff)
    qed
  qed (use assms(4) in \<open>simp_all add: pub_ok_def\<close>)
  then show ?thesis by (simp add: hub_inv_def s2 assms(3))
qed

lemma UpsertRating_Inr:
  assumes "UpsertRating E i u rating s = Inr s1" "hub_inv s" "k \<in> set (hs_skills s)" "hk_id k = i" "1 \<le> rating" "rating \<le> 5"
  shows "hs_skills s1 = hs_skills s \<and> hs_versions s1 = hs_versions s \<and> rating_rows_ok (hs_skills s) (hs_ratings s1)
     \<and> (\<forall>j. j \<noteq> i \<longrightarrow> rows_of j (hs_ratings s1) = rows_of j (hs_ratings s))"
proof -
  have rr: "rating_rows_ok (hs_skills s) (hs_ratings s)" using assms(2) by (simp add: hub_inv_def hub_ok_def)
  have mem: "i \<in> hk_id ` set (hs_skills s)" using assms(3,4) by blast
  show ?thesis
  proof (cases "GetRating E 0 i u s")
    case (Inr x)
    have x: "x \<in> set (hs_ratings s)" "hr_skill_id x = i" "hr_user_id x = u"
      using Inr by (auto simp: GetRating_def db_simps dest: first_by_Some)
    let ?y = "x\<lparr>hr_rating := rating, hr_updated_at := e_now E\<rparr>"
    let ?t = "save_row hr_id ?y (hs_ratings s)"
    have s1: "s1 = s\<lparr>hs_ratings := ?t\<rparr>" using assms(1) Inr by (auto simp: UpsertRating_def db_simps split: sum.splits)
    have d: "distinct (map hr_id (hs_ratings s))" using rr by (simp add: rating_rows_ok_def)
    have "map (\<lambda>r. (hr_skill_id r, hr_user_id r)) ?t = map (\<lambda>r. (hr_skill_id r, hr_user_id r)) (hs_ratings s)"
      using d x(1) by (rule map_save_row) simp_all
    moreover have "map hr_id ?t = map hr_id (hs_ratings s)" using d x(1) by (rule map_save_row) simp_all
    moreover have "\<forall>r\<in>set ?t. 1 \<le> hr_rating r \<and> hr_rating r \<le> 5 \<and> hr_skill_id r \<in> hk_id ` set (hs_skills s)"
      using rr x mem assms(5,6) by (auto simp: table_simps rating_rows_ok_def list_all_iff)
    ultimately have "rating_rows_ok (hs_skills s) ?t" using rr by (simp add: rating_rows_ok_def list_all_iff)
    moreover have "rows_of j ?t = rows_of j (hs_ratings s)" if "j \<noteq> i" for j
      unfolding rows_of_def
    proof (rule filter_save_row_other)
      show "hr_skill_id ?y \<noteq> j" using that x(2) by simp
      show "hr_skill_id r \<noteq> j" if "r \<in> set (hs_ratings s)" "hr_id r = hr_id ?y" for r
        using that distinct_map_same [OF d that(1) x(1)] x(2) \<open>j \<noteq> i\<close> by simp
    qed
    ultimately show ?thesis by (simp add: s1)
  next
    case (Inl e)
    let ?y = "\<lparr>hr_id = e_uuid E ''skill_ratings'' 0, hr_created_at = e_now E, hr_updated_at = e_now E,
                        hr_skill_id = i, hr_user_id = u, hr_rating = rating\<rparr>"
    from assms(1) Inl have s1: "s1 = s\<lparr>hs_ratings := hs_ratings s @ [?y]\<rparr>"
      and new: "\<forall>x\<in>set (hs_ratings s). \<not> (hr_id x = hr_id ?y \<or> hr_skill_id x = hr_skill_id ?y \<and> hr_user_id x = hr_user_id ?y)"
      by (auto simp: UpsertRating_def db_simps split: sum.splits if_splits)
    have "rating_rows_ok (hs_skills s) (hs_ratings s @ [?y])"
      using rr new mem assms(5,6) by (auto simp: rating_rows_ok_def list_all_iff)
    then show ?thesis by (simp add: s1 rows_of_def)
  qed
qed

lemma rating_rows_ok_filter: "rating_rows_ok ks rs \<Longrightarrow> rating_rows_ok ks (filter P rs)"
  by (auto simp: rating_rows_ok_def list_all_iff distinct_map_filter)

lemma hub_inv_RateSkill:
  assumes "hub_inv s"
  shows "hub_inv (snd (RateSkill E u key rating s))"
proof -
  have "hub_inv s2" if "GetPublishedSkillByKey E key s = Inr k" "UpsertRating E (hk_id k) u rating s = Inr s1"
     "RecalculateSkillRatingAggregate E (hk_id k) s1 = Inr s2" "1 \<le> rating" "rating \<le> 5" for k s1 s2
  proof -
    note r = UpsertRating_Inr [OF that(2) assms GetPublishedSkillByKey_Inr [OF that(1)] refl that(4,5)]
    show ?thesis
      by (rule Recalculate_inv [OF assms [unfolded hub_inv_def] _ _ _ _ that(3)]) (use r in auto)
  qed
  with assms show ?thesis by (auto simp: RateSkill_def not_less split: sum.splits)
qed

lemma hub_inv_DeleteRating:
  assumes "hub_inv s"
  shows "hub_inv (snd (DeleteRating E u key s))"
proof -
  have "hub_inv s2" if "DeleteRating_repo E i u s = Inr s1" "RecalculateSkillRatingAggregate E i s1 = Inr s2" for i s1 s2
  proof -
    have s1: "s1 = s\<lparr>hs_ratings := filter (\<lambda>r. \<not> (hr_skill_id r = i \<and> hr_user_id r = u)) (hs_ratings s)\<rparr>"
      using that(1) by (auto simp: DeleteRating_repo_def db_simps del_where_def split: sum.splits)
    have "rows_of j (hs_ratings s1) = rows_of j (hs_ratings s)" if "j \<noteq> i" for j
      using that by (auto simp: s1 rows_of_def intro!: filter_cong)
    moreover have "rating_rows_ok (hs_skills s) (hs_ratings s1)"
      using assms unfolding s1 by (simp add: rating_rows_ok_filter hub_inv_def hub_ok_def)
    ultimately show ?thesis
      by (intro Recalculate_inv [OF assms [unfolded hub_inv_def] _ _ _ _ that(2)]) (simp_all add: s1)
  qed
  with assms show ?thesis by (auto simp: DeleteRating_def split: sum.splits)
qed

lemma hub_inv_same: "hs_skills s' = hs_skills s \<Longrightarrow> hs_versions s' = hs_versions s \<Longrightarrow> hs_ratings s' = hs_ratings s \<Longrightarrow> hub_inv s' = hub_inv s"
  by (simp add: hub_inv_def)

lemma hub_inv_sync [simp]: "hub_inv (recordInstallationSync E u d i key op s) = hub_inv s"
  by (rule hub_inv_same) simp_all

lemma hub_inv_audit [simp]: "hub_inv (record_hub_audit E a d ac rt ri m s) = hub_inv s"
  by (rule hub_inv_same) simp_all

lemma hub_inv_installs: "UpdateInstallation_repo E x s = Inr (y, s') \<Longrightarrow> hub_inv s' = hub_inv s"
  "CreateInstallation E x s = Inr s' \<Longrightarrow> hub_inv s' = hub_inv s"
  by (auto simp: UpdateInstallation_repo_def CreateInstallation_def Let_def hub_inv_def split: sum.splits)

lemma hub_inv_restrictions: "UpdateRestriction E r s = Inr (r', s') \<Longrightarrow> hub_inv s' = hub_inv s"
  "CreateRestriction E r s = Inr s' \<Longrightarrow> hub_inv s' = hub_inv s"
  by (auto simp: UpdateRestriction_def CreateRestriction_def Let_def hub_inv_def split: sum.splits)

lemma hub_inv_reinstall: "hub_inv s \<Longrightarrow> hub_inv (snd (reinstall E u d k v input x s))"
  by (auto simp: reinstall_def Let_def hub_inv_installs hub_inv_IncrementDownloadCount split: sum.splits prod.splits)

lemma hub_inv_install_new: "hub_inv s \<Longrightarrow> hub_inv (snd (install_new E u d k v input s))"
  by (simp add: install_new_def Let_def hub_inv_installs hub_inv_IncrementDownloadCount split: sum.split prod.split)

lemma hub_inv_InstallSkill: "hub_inv s \<Longrightarrow> hub_inv (snd (InstallSkill E u d key input s))"
  by (simp add: InstallSkill_def hub_inv_reinstall hub_inv_install_new split: sum.split option.split)

lemma hub_inv_serve: "hub_inv s \<Longrightarrow> hub_inv (hub_serve q s)"
proof (cases q)
  case (HStatus E u d i status)
  assume "hub_inv s"
  then show ?thesis unfolding HStatus by (auto simp: SetInstallationStatus_def Let_def hub_inv_installs split: sum.splits prod.splits)
next
  case (HUpdate E u d i input)
  assume "hub_inv s"
  then show ?thesis unfolding HUpdate by (auto simp: UpdateInstallation_def Let_def hub_inv_installs split: sum.splits prod.splits)
next
  case (HRestrict E a p reason)
  assume "hub_inv s"
  then show ?thesis unfolding HRestrict by (auto simp: RestrictPublisher_def Let_def hub_inv_restrictions split: sum.splits)
next
  case (HLift E a p)
  assume "hub_inv s"
  then show ?thesis unfolding HLift by (auto simp: LiftPublisherRestriction_def Let_def hub_inv_restrictions split: sum.splits prod.splits)
qed (simp_all add: hub_inv_CreateSkill hub_inv_SubmitVersion hub_inv_RateSkill hub_inv_DeleteRating hub_inv_InstallSkill hub_inv_TakedownSkill)

lemma hub_inv_init: "hub_inv hub_init"
  by (simp add: hub_inv_def hub_init_def hub_ok_def rating_rows_ok_def)

lemma hub_inv_run: "hub_inv s \<Longrightarrow> hub_inv (fold hub_serve qs s)"
  by (induction qs arbitrary: s) (auto simp: hub_inv_serve)

section \<open>Ratings\<close>

lemma sum_list_bounds:
  "(\<And>x. x \<in> set xs \<Longrightarrow> a \<le> x \<and> x \<le> (b :: int)) \<Longrightarrow> a * int (length xs) \<le> sum_list xs \<and> sum_list xs \<le> b * int (length xs)"
  by (induction xs) (force simp: algebra_simps)+

text \<open>The stored average is within two to the minus 51 of the quotient.\<close>

definition average_ok :: "skill \<Rightarrow> bool" where
  "average_ok k \<longleftrightarrow>
     (if hk_rating_count k = 0 then hk_rating_average k = 0
      else 1 \<le> hk_rating_average k \<and> hk_rating_average k \<le> 5
        \<and> \<bar>hk_rating_average k - of_int (hk_rating_sum k) / of_int (hk_rating_count k)\<bar> \<le> 1 / 2 ^ 51)"

lemma average_bounds:
  assumes "hub_ok ks vs rs" "k \<in> set ks" "length rs < 2 ^ 50"
  shows "average_ok k"
proof (cases "hk_rating_count k = 0")
  case True
  with assms(1,2) show ?thesis by (auto simp: average_ok_def hub_ok_def list_all_iff agg_ok_def)
next
  case False
  let ?rows = "map hr_rating (rows_of (hk_id k) rs)"
  let ?c = "hk_rating_count k" and ?s = "hk_rating_sum k"
  have agg: "agg_ok rs k" using assms(1,2) by (simp add: hub_ok_def list_all_iff)
  then have len: "?c = int (length ?rows)" and sum: "?s = sum_list ?rows"
    and avg: "hk_rating_average k = float64 (float64 (of_int ?s) / float64 (of_int ?c))"
    using False unfolding agg_ok_def by auto
  have "\<And>x. x \<in> set ?rows \<Longrightarrow> 1 \<le> x \<and> x \<le> 5"
    using assms(1) by (auto simp: hub_ok_def rating_rows_ok_def list_all_iff rows_of_def)
  then have "1 * int (length ?rows) \<le> sum_list ?rows \<and> sum_list ?rows \<le> 5 * int (length ?rows)" by (rule sum_list_bounds)
  then have b: "?c \<le> ?s" "?s \<le> 5 * ?c" using len sum by simp_all
  have pos: "0 < ?c" using False len by simp
  have "length ?rows \<le> length rs" by (simp add: rows_of_def)
  moreover have "int (length rs) < 2 ^ 50" using assms(3) by (metis of_nat_less_iff of_nat_numeral of_nat_power)
  ultimately have "?c < 2 ^ 50" using len by linarith
  then have "float64 (of_int ?s) = of_int ?s" "float64 (of_int ?c) = of_int ?c"
    using b pos by (simp_all add: float64_of_int)
  moreover have "1 \<le> (of_int ?s :: rat) / of_int ?c" using b(1) pos by (simp add: pos_le_divide_eq)
  moreover have "(of_int ?s :: rat) \<le> of_int (5 * ?c)" using b(2) by (simp only: of_int_le_iff)
  then have "(of_int ?s :: rat) / of_int ?c \<le> 5" using pos by (simp add: pos_divide_le_eq)
  ultimately show ?thesis using False float64_small [of "of_int ?s / of_int ?c"] by (simp add: average_ok_def avg)
qed

text \<open>
  C29: The rating shown for a skill is the rating it got: after every sequence of requests the stored count and
  sum of every skill are those of the stored ratings, each user counted once. As long as fewer than two to the 50 ratings
  are stored, the stored average, a 64-bit floating-point number, lies between 1 and 5 and within two to the minus 51 of
  their quotient; it is 0 when there is none.
\<close>

theorem ratings_add_up:
  assumes "length (hs_ratings (fold hub_serve qs hub_init)) < 2 ^ 50"
  shows "list_all (\<lambda>k. hk_rating_count k = int (length (rows_of (hk_id k) (hs_ratings (fold hub_serve qs hub_init))))
       \<and> hk_rating_sum k = sum_list (map hr_rating (rows_of (hk_id k) (hs_ratings (fold hub_serve qs hub_init))))
       \<and> average_ok k)
     (hs_skills (fold hub_serve qs hub_init))
   \<and> distinct (map (\<lambda>r. (hr_skill_id r, hr_user_id r)) (hs_ratings (fold hub_serve qs hub_init)))"
proof -
  have inv: "hub_ok (hs_skills (fold hub_serve qs hub_init)) (hs_versions (fold hub_serve qs hub_init)) (hs_ratings (fold hub_serve qs hub_init))"
    using hub_inv_run [OF hub_inv_init] by (simp add: hub_inv_def)
  then show ?thesis using average_bounds [OF inv _ assms]
    by (simp add: list_all_iff hub_ok_def rating_rows_ok_def agg_ok_def)
qed

section \<open>The catalog\<close>

text \<open>
  The catalog only serves validated skills: whatever was requested before, a skill found in it by its key
  has a well-formed key and comes with a version of its own that passed validation and was published.
\<close>

theorem catalog_serves_valid_versions:
  assumes "GetCatalogSkill E key (fold hub_serve qs hub_init) = Inr item" "no_faults E"
  shows "\<exists>v. xc_published_version item = Some v \<and> hv_skill_id v = hk_id (xc_skill item) \<and> hv_status v = ''published''
     \<and> hv_validation_status v = ''valid'' \<and> well_formed_key (hk_skill_key (xc_skill item))"
proof -
  let ?s = "fold hub_serve qs hub_init"
  obtain k where k: "GetPublishedSkillByKey E key ?s = Inr k" and item: "item = enrichCatalogSkill E 0 k ?s"
    using assms(1) by (auto simp: GetCatalogSkill_def split: sum.splits if_splits)
  have mem: "k \<in> set (hs_skills ?s)" and pub: "hk_status k = ''published''"
    using k by (auto simp: GetPublishedSkillByKey_def db_simps in_catalog_def dest: first_by_Some)
  have "pub_ok (hs_versions ?s) k"
    using hub_inv_run [OF hub_inv_init, of qs] mem by (simp add: hub_inv_def hub_ok_def list_all_iff)
  with pub obtain w where w: "w \<in> set (hs_versions ?s)" "hk_published_version_id k = Some (hv_id w)" "hv_skill_id w = hk_id k"
      "hv_status w = ''published''" "hv_validation_status w = ''valid''" and key: "well_formed_key (hk_skill_key k)"
    by (auto simp: pub_ok_def)
  have u: "distinct (map hv_id (hs_versions ?s))" using hub_inv_run [OF hub_inv_init, of qs] by (simp add: hub_inv_def hub_ok_def)
  have "first_by hv_id (\<lambda>v. hv_id v = hv_id w) (hs_versions ?s) = Some w"
    using distinct_map_same [OF u _ w(1)] w(1) by (intro first_by_unique) auto
  then have "GetVersion E 0 (hv_id w) ?s = Inr w" using assms(2) by (simp add: GetVersion_def db_simps)
  with w key show ?thesis by (simp add: item enrichCatalogSkill_def Let_def)
qed

definition demo_manifest :: json_map where
  "demo_manifest = [(''name'', AStr ''Mail''), (''version'', AStr ''1''), (''entrypoint'', AStr ''run'')]"

text \<open>Requests in which JSON decodes what it encoded for this manifest.\<close>

definition hub_env :: "nat \<Rightarrow> env" where
  "hub_env n = (env_at n)\<lparr>e_json := \<lambda>m. Inr (toy_json m), e_unjson := \<lambda>t. if t = toy_json demo_manifest then Inr demo_manifest else Inl (Errorf ''json'')\<rparr>"

definition demo_skill_input :: create_skill_input where
  "demo_skill_input = \<lparr>xi_skill_key = ''mail'', xi_name = ''Mail'', xi_summary = '''', xi_description = '''', xi_category = '''',
     xi_tags = [], xi_icon_object_id = None, xi_homepage_url = ''''\<rparr>"

definition demo_submission :: "string \<Rightarrow> submit_version_input" where
  "demo_submission v = \<lparr>xv_version = v, xv_manifest = Some demo_manifest, xv_package_object_id = None,
     xv_instructions_object_id = None, xv_examples_object_ids = []\<rparr>"

definition demo_skill :: uuid where
  "demo_skill = e_uuid (hub_env 1) ''skills'' 0"

definition demo_hub :: "hub_req list" where
  "demo_hub = [HCreate (hub_env 1) 7 demo_skill_input, HSubmit (hub_env 2) 7 demo_skill (demo_submission '''')]"

text \<open>The published skill, taken down and published again; and pinned by a user who installs it once more.\<close>

definition demo_listed :: hub_state where
  "demo_listed = fold hub_serve demo_hub hub_init"

definition demo_withdrawn :: hub_state where
  "demo_withdrawn = hub_serve (HTakedown (hub_env 3) 1 demo_skill ''malware'') demo_listed"

definition demo_returned :: hub_state where
  "demo_returned = hub_serve (HSubmit (hub_env 4) 7 demo_skill (demo_submission ''2'')) demo_withdrawn"

definition demo_pinned :: hub_state where
  "demo_pinned = fold hub_serve [HInstall (hub_env 3) 9 ''phone'' ''mail'' \<lparr>xn_track_mode = ''pinned'', xn_config = None\<rparr>,
     HSubmit (hub_env 4) 7 demo_skill (demo_submission ''2'')] demo_listed"

definition demo_moved :: hub_state where
  "demo_moved = hub_serve (HInstall (hub_env 5) 9 ''phone'' ''mail'' \<lparr>xn_track_mode = '''', xn_config = None\<rparr>) demo_pinned"

text \<open>Three users rate it.\<close>

definition demo_rates :: "hub_req list" where
  "demo_rates = [HRate (hub_env 3) 11 ''mail'' 5, HRate (hub_env 4) 12 ''mail'' 3, HRate (hub_env 5) 13 ''mail'' 2]"

lemma demo_skill_run:
  "let s = fold hub_serve demo_hub hub_init; t = hub_serve (HTakedown (hub_env 3) 1 demo_skill ''malware'') s;
       t' = hub_serve (HSubmit (hub_env 4) 7 demo_skill (demo_submission ''2'')) t;
       p = fold hub_serve [HInstall (hub_env 3) 9 ''phone'' ''mail'' \<lparr>xn_track_mode = ''pinned'', xn_config = None\<rparr>,
             HSubmit (hub_env 4) 7 demo_skill (demo_submission ''2'')] s;
       p' = hub_serve (HInstall (hub_env 5) 9 ''phone'' ''mail'' \<lparr>xn_track_mode = '''', xn_config = None\<rparr>) p;
       a = fold hub_serve demo_rates s
   in (map (\<lambda>k. (hk_rating_count k, hk_rating_sum k)) (hs_skills a) = [(3, 10)]
         \<and> \<not> list_ex (\<lambda>k. hk_rating_average k = 10 / 3) (hs_skills a) \<and> length (hs_ratings a) = 3)
      \<and> succeeds (GetCatalogSkill (hub_env 3) ''mail'' s)
      \<and> (\<not> succeeds (GetCatalogSkill (hub_env 5) ''mail'' t) \<and> succeeds (GetCatalogSkill (hub_env 5) ''mail'' t'))
      \<and> (map hi_track_mode (hs_installs p') = [''pinned''] \<and> map hi_version_id (hs_installs p) \<noteq> map hi_version_id (hs_installs p'))"
  by code_simp

lemmas demo_skill_facts = demo_skill_run [unfolded Let_def, folded demo_listed_def, folded demo_withdrawn_def demo_pinned_def,
    folded demo_returned_def demo_moved_def]

theorem ratings_add_up_witness:
  "\<exists>k. hs_skills (fold hub_serve (demo_hub @ demo_rates) hub_init) = [k] \<and> hk_rating_count k = 3 \<and> hk_rating_sum k = 10
     \<and> \<bar>hk_rating_average k - 10 / 3\<bar> \<le> 1 / 2 ^ 51 \<and> hk_rating_average k \<noteq> 10 / 3"
proof -
  let ?s = "fold hub_serve (demo_hub @ demo_rates) hub_init"
  have s: "?s = fold hub_serve demo_rates demo_listed" by (simp add: demo_listed_def)
  have m: "map (\<lambda>k. (hk_rating_count k, hk_rating_sum k)) (hs_skills ?s) = [(3, 10)]" and n: "length (hs_ratings ?s) = 3"
    and q: "\<not> list_ex (\<lambda>k. hk_rating_average k = 10 / 3) (hs_skills ?s)"
    unfolding s using demo_skill_facts by blast+
  from m obtain k where k: "hs_skills ?s = [k]" "hk_rating_count k = 3" "hk_rating_sum k = 10" by auto
  have "length (hs_ratings ?s) < 2 ^ 50" unfolding n by simp
  from ratings_add_up [OF this] have "average_ok k" unfolding k by simp
  with k q show ?thesis by (intro exI [of _ k]) (simp add: average_ok_def)
qed

theorem catalog_serves_valid_versions_witness:
  "\<exists>item v. GetCatalogSkill (hub_env 3) ''mail'' (fold hub_serve demo_hub hub_init) = Inr item
     \<and> xc_published_version item = Some v \<and> hv_skill_id v = hk_id (xc_skill item) \<and> hv_status v = ''published''
     \<and> hv_validation_status v = ''valid'' \<and> well_formed_key (hk_skill_key (xc_skill item))"
proof -
  have "succeeds (GetCatalogSkill (hub_env 3) ''mail'' (fold hub_serve demo_hub hub_init))"
    unfolding demo_listed_def [symmetric] using demo_skill_facts by blast
  then obtain item where i: "GetCatalogSkill (hub_env 3) ''mail'' (fold hub_serve demo_hub hub_init) = Inr item" by (rule succeedsE)
  have "no_faults (hub_env 3)" by (simp add: no_faults_def hub_env_def env_at_def env0_def)
  from catalog_serves_valid_versions [OF i this] i show ?thesis by blast
qed

section \<open>Takedowns and pinned versions\<close>

text \<open>A skill that moderation took down returns to the catalog with the next version its publisher submits.\<close>

theorem takedown_undone_by_next_version:
  "\<not> succeeds (GetCatalogSkill (hub_env 5) ''mail'' demo_withdrawn) \<and> succeeds (GetCatalogSkill (hub_env 5) ''mail'' demo_returned)"
  using demo_skill_facts by blast

text \<open>Installing again what is installed moves an installation its user pinned to an older version to the newest one.\<close>

theorem reinstall_moves_a_pinned_installation:
  "map hi_track_mode (hs_installs demo_moved) = [''pinned''] \<and> map hi_version_id (hs_installs demo_pinned) \<noteq> map hi_version_id (hs_installs demo_moved)"
  using demo_skill_facts by blast

end
