(* ===== verification/WsHub.thy ===== *)
theory WsHub
  imports Prelude "HOL-Library.AList"
begin

text \<open>
  The WebSocket hub (\<open>internal/ws/hub.go\<close>, \<open>internal/ws/client.go\<close>,
  \<open>internal/ws/message.go\<close>): the connected clients, the route from a user and device to a client, and
  the bounded channel of each client, which its writer drains. Clients are shared by reference between the
  two maps of the hub, so they live in an explicit store under their addresses. Sending on a closed channel
  and closing one twice panic, which ends the process: an operation that panics is \<open>None\<close>.
\<close>

section \<open>State\<close>

type_synonym conn = nat

text \<open>A message on the wire: the type and the payload of its envelope.\<close>

type_synonym ws_msg = "string \<times> json_map"

record ws_client =
  wc_user :: uuid
  wc_device :: string
  wc_queue :: "ws_msg list"
  wc_closed :: bool
  wc_written :: "ws_msg list"

text \<open>The nested map \<open>userDevices\<close> is flattened: the source keeps no user without a device.\<close>

record ws_hub =
  wh_store :: "conn \<rightharpoonup> ws_client"
  wh_clients :: "conn list"
  wh_devices :: "((uuid \<times> string) \<times> conn) list"

definition NewHub :: ws_hub where
  "NewHub = \<lparr>wh_store = Map.empty, wh_clients = [], wh_devices = []\<rparr>"

definition NewClient :: "conn \<Rightarrow> uuid \<Rightarrow> string \<Rightarrow> ws_hub \<Rightarrow> ws_hub" where
  "NewClient c u d h = h\<lparr>wh_store := (wh_store h)(c \<mapsto>
     \<lparr>wc_user = u, wc_device = d, wc_queue = [], wc_closed = False, wc_written = []\<rparr>)\<rparr>"

definition marshalEnvelope :: "string \<Rightarrow> json_map \<Rightarrow> ws_msg" where
  "marshalEnvelope msgType payload = (msgType, payload)"

section \<open>Channels\<close>

definition send_buffer :: nat where
  "send_buffer = 256"

text \<open>\<open>select\<close> with a send and a default: whether the message went in.\<close>

definition try_send :: "conn \<Rightarrow> ws_msg \<Rightarrow> ws_hub \<Rightarrow> (bool \<times> ws_hub) option" where
  "try_send c m h =
     (case wh_store h c of
        None \<Rightarrow> None
      | Some k \<Rightarrow>
          if wc_closed k then None
          else if length (wc_queue k) < send_buffer
          then Some (True, h\<lparr>wh_store := (wh_store h)(c \<mapsto> k\<lparr>wc_queue := wc_queue k @ [m]\<rparr>)\<rparr>)
          else Some (False, h))"

definition close_send :: "conn \<Rightarrow> ws_hub \<Rightarrow> ws_hub option" where
  "close_send c h =
     (case wh_store h c of
        None \<Rightarrow> None
      | Some k \<Rightarrow> if wc_closed k then None else Some (h\<lparr>wh_store := (wh_store h)(c \<mapsto> k\<lparr>wc_closed := True\<rparr>)\<rparr>))"

text \<open>A client's own \<open>SendMessage\<close> drops the message when the buffer is full.\<close>

definition SendMessage_client :: "conn \<Rightarrow> ws_msg \<Rightarrow> ws_hub \<Rightarrow> ws_hub option" where
  "SendMessage_client c m h = map_option snd (try_send c m h)"

text \<open>One round of the writer: everything queued goes to the connection.\<close>

definition WritePump :: "conn \<Rightarrow> ws_hub \<Rightarrow> ws_hub option" where
  "WritePump c h =
     (case wh_store h c of
        None \<Rightarrow> None
      | Some k \<Rightarrow> Some (h\<lparr>wh_store := (wh_store h)(c \<mapsto> k\<lparr>wc_queue := [], wc_written := wc_written k @ wc_queue k\<rparr>)\<rparr>))"

section \<open>Broadcasting\<close>

fun broadcast_loop :: "conn list \<Rightarrow> ws_msg \<Rightarrow> ws_hub \<Rightarrow> ws_hub option" where
  "broadcast_loop [] m h = Some h"
| "broadcast_loop (c # cs) m h =
     (case try_send c m h of
        None \<Rightarrow> None
      | Some (True, h1) \<Rightarrow> broadcast_loop cs m h1
      | Some (False, h1) \<Rightarrow>
          (case close_send c h1 of
             None \<Rightarrow> None
           | Some h2 \<Rightarrow> broadcast_loop cs m (h2\<lparr>wh_clients := removeAll c (wh_clients h2)\<rparr>)))"

definition broadcastToAll :: "ws_msg \<Rightarrow> ws_hub \<Rightarrow> ws_hub option" where
  "broadcastToAll m h = broadcast_loop (wh_clients h) m h"

definition broadcastPresence :: "env \<Rightarrow> uuid \<Rightarrow> string \<Rightarrow> string \<Rightarrow> ws_hub \<Rightarrow> ws_hub option" where
  "broadcastPresence E u d status h =
     broadcastToAll (marshalEnvelope ''presence.update''
       [(''user_id'', AStr (e_uuid_str E u)), (''device_id'', AStr d), (''status'', AStr status)]) h"

section \<open>Connecting and disconnecting\<close>

definition register :: "env \<Rightarrow> conn \<Rightarrow> ws_hub \<Rightarrow> ws_hub option" where
  "register E c h =
     (case wh_store h c of
        None \<Rightarrow> None
      | Some k \<Rightarrow>
          let h1 = h\<lparr>wh_clients := (if c \<in> set (wh_clients h) then wh_clients h else wh_clients h @ [c]),
                     wh_devices := AList.update (wc_user k, wc_device k) c (wh_devices h)\<rparr>
          in broadcastPresence E (wc_user k) (wc_device k) ''online'' h1)"

definition unregister :: "env \<Rightarrow> conn \<Rightarrow> ws_hub \<Rightarrow> ws_hub option" where
  "unregister E c h =
     (case wh_store h c of
        None \<Rightarrow> None
      | Some k \<Rightarrow>
          (case (if c \<in> set (wh_clients h) then close_send c (h\<lparr>wh_clients := removeAll c (wh_clients h)\<rparr>) else Some h) of
             None \<Rightarrow> None
           | Some h1 \<Rightarrow>
               broadcastPresence E (wc_user k) (wc_device k) ''offline''
                 (h1\<lparr>wh_devices := AList.delete (wc_user k, wc_device k) (wh_devices h1)\<rparr>)))"

section \<open>Sending to users\<close>

fun send_all :: "conn list \<Rightarrow> ws_msg \<Rightarrow> ws_hub \<Rightarrow> ws_hub option" where
  "send_all [] m h = Some h"
| "send_all (c # cs) m h = (case SendMessage_client c m h of None \<Rightarrow> None | Some h1 \<Rightarrow> send_all cs m h1)"

definition SendToUser :: "uuid \<Rightarrow> ws_msg \<Rightarrow> ws_hub \<Rightarrow> ws_hub option" where
  "SendToUser u m h = send_all (map snd (filter (\<lambda>e. fst (fst e) = u) (wh_devices h))) m h"

definition SendToUserDevice :: "uuid \<Rightarrow> string \<Rightarrow> ws_msg \<Rightarrow> ws_hub \<Rightarrow> ws_hub option" where
  "SendToUserDevice u d m h = (case map_of (wh_devices h) (u, d) of None \<Rightarrow> Some h | Some c \<Rightarrow> SendMessage_client c m h)"

fun SendToUsers :: "uuid list \<Rightarrow> ws_msg \<Rightarrow> ws_hub \<Rightarrow> ws_hub option" where
  "SendToUsers [] m h = Some h"
| "SendToUsers (u # us) m h = (case SendToUser u m h of None \<Rightarrow> None | Some h1 \<Rightarrow> SendToUsers us m h1)"

definition SendToUserExceptDevice :: "uuid \<Rightarrow> string \<Rightarrow> ws_msg \<Rightarrow> ws_hub \<Rightarrow> ws_hub option" where
  "SendToUserExceptDevice u d m h =
     send_all (map snd (filter (\<lambda>e. fst (fst e) = u \<and> snd (fst e) \<noteq> d) (wh_devices h))) m h"

section \<open>Questions\<close>

definition IsUserOnline :: "uuid \<Rightarrow> ws_hub \<Rightarrow> bool" where
  "IsUserOnline u h \<longleftrightarrow> list_ex (\<lambda>e. fst (fst e) = u) (wh_devices h)"

definition IsDeviceOnline :: "uuid \<Rightarrow> string \<Rightarrow> ws_hub \<Rightarrow> bool" where
  "IsDeviceOnline u d h \<longleftrightarrow> map_of (wh_devices h) (u, d) \<noteq> None"

definition GetOnlineDeviceIDs :: "uuid \<Rightarrow> ws_hub \<Rightarrow> string list" where
  "GetOnlineDeviceIDs u h = map (snd \<circ> fst) (filter (\<lambda>e. fst (fst e) = u) (wh_devices h))"

definition AllOnlineDeviceIDs :: "ws_hub \<Rightarrow> string list" where
  "AllOnlineDeviceIDs h = map (snd \<circ> fst) (wh_devices h)"

definition OnlineCount :: "ws_hub \<Rightarrow> nat" where
  "OnlineCount h = length (wh_clients h)"

section \<open>What can happen to the hub\<close>

datatype ws_event =
    WConnect conn uuid string
  | WDisconnect conn
  | WUser uuid ws_msg
  | WDevice uuid string ws_msg
  | WOthers uuid string ws_msg
  | WAll ws_msg
  | WWrite conn

fun ws_step :: "env \<Rightarrow> ws_event \<Rightarrow> ws_hub \<Rightarrow> ws_hub option" where
  "ws_step E (WConnect c u d) h = register E c (NewClient c u d h)"
| "ws_step E (WDisconnect c) h = unregister E c h"
| "ws_step E (WUser u m) h = SendToUser u m h"
| "ws_step E (WDevice u d m) h = SendToUserDevice u d m h"
| "ws_step E (WOthers u d m) h = SendToUserExceptDevice u d m h"
| "ws_step E (WAll m) h = broadcastToAll m h"
| "ws_step E (WWrite c) h = WritePump c h"

end
