(* ===== verification/WsDispatch.thy ===== *)
theory WsDispatch
  imports Conversation WsHub
begin

text \<open>
  The dispatcher of WebSocket messages (\<open>internal/ws/handler.go\<close>): what each message of a client
  does to the message service and to the connected clients. The JSON library is not part of the program: a
  payload is given by what decoding it into each of the request types yields, \<open>None\<close> when that fails.
  An operation that panics is \<open>None\<close>, as in the hub.
\<close>

section \<open>Payloads\<close>

text \<open>A \<open>json.RawMessage\<close> field, as far as decoding it into a map can tell.\<close>

datatype raw_json = RAbsent | RNull | RObject json_map | ROther

fun decode_map :: "raw_json \<Rightarrow> json_map option option" where
  "decode_map RAbsent = Some None"
| "decode_map RNull = Some None"
| "decode_map (RObject m) = Some (Some m)"
| "decode_map ROther = None"

record ws_send_message =
  wq_conversation_id :: uuid
  wq_type :: string
  wq_content :: string
  wq_metadata :: raw_json
  wq_reply_to :: "uuid option"
  wq_thread_id :: string
  wq_visibility :: raw_json
  wq_client_event_id :: string

record ws_payload =
  wp_send :: "ws_send_message option"
  wp_ack :: "uuid list option"
  wp_typing :: "uuid option"

definition new_message_payload :: "env \<Rightarrow> message \<Rightarrow> json_map" where
  "new_message_payload E m =
     [(''conversation_id'', AStr (e_uuid_str E (ms_conversation_id m))), (''message_id'', AStr (e_uuid_str E (ms_id m))),
      (''sender_id'', AStr (e_uuid_str E (ms_sender_id m))), (''type'', AStr (ms_type m)), (''content'', AStr (ms_content m)),
      (''metadata'', any_opt AMap (ms_metadata m)), (''created_at'', ATime (ms_created_at m))]"

definition delivery_ack :: "env \<Rightarrow> uuid \<Rightarrow> string \<Rightarrow> string \<Rightarrow> json_map" where
  "delivery_ack E i status clientEventID =
     [(''message_id'', AStr (e_uuid_str E i)), (''status'', AStr status)]
     @ (if clientEventID = '''' then [] else [(''client_event_id'', AStr clientEventID)])"

definition typing_signal :: "env \<Rightarrow> uuid \<Rightarrow> uuid \<Rightarrow> string \<Rightarrow> json_map" where
  "typing_signal E c u d =
     [(''conversation_id'', AStr (e_uuid_str E c)), (''user_id'', AStr (e_uuid_str E u))]
     @ (if d = '''' then [] else [(''device_id'', AStr d)])
     @ (if unix_milli (e_now E) = 0 then [] else [(''ts'', AInt (unix_milli (e_now E)))])"

section \<open>State\<close>

text \<open>The hub, the tables of the message service and, only read, those of the identity service.\<close>

record ws_state =
  dp_hub :: ws_hub
  dp_conv :: conv_state
  dp_ids :: id_state

definition reply :: "conn \<Rightarrow> ws_msg \<Rightarrow> ws_state \<Rightarrow> ws_state option" where
  "reply c m s = map_option (\<lambda>h. s\<lparr>dp_hub := h\<rparr>) (SendMessage_client c m (dp_hub s))"

definition sendError :: "conn \<Rightarrow> int \<Rightarrow> string \<Rightarrow> ws_state \<Rightarrow> ws_state option" where
  "sendError c code msg s = reply c (marshalEnvelope ''error'' [(''code'', AInt code), (''message'', AStr msg)]) s"

section \<open>Pushed sync events\<close>

text \<open>
  The sync service calls the hub while it records events (\<open>notifyDevices\<close> in
  \<open>internal/service/sync.go\<close>). The model of that service lists its calls in its outbox; here the calls
  a request has added are carried out on the hub, in order.
\<close>

definition sync_push_payload :: "sync_event_msg \<Rightarrow> json_map" where
  "sync_push_payload m =
     [(''event_type'', AStr (sm_event_type m)), (''schema_version'', AInt (sm_schema_version m)),
      (''object_type'', AStr (sm_object_type m)), (''object_id'', AStr (sm_object_id m)), (''operation'', AStr (sm_operation m)),
      (''source_device_id'', AStr (sm_source_device_id m)), (''client_event_id'', AStr (sync_event_msg.sm_client_event_id m)),
      (''sequence'', AInt (uint (sm_sequence m))), (''timestamp'', AInt (sm_timestamp m)),
      (''payload'', any_opt AMap (sm_payload m))]"

fun push_events :: "(uuid \<times> string \<times> sync_event_msg) list \<Rightarrow> ws_hub \<Rightarrow> ws_hub option" where
  "push_events [] h = Some h"
| "push_events ((u, d, m) # es) h =
     (case SendToUserExceptDevice u d (marshalEnvelope ''sync.event'' (sync_push_payload m)) h of
        None \<Rightarrow> None | Some h1 \<Rightarrow> push_events es h1)"

definition new_pushes :: "conv_state \<Rightarrow> conv_state \<Rightarrow> (uuid \<times> string \<times> sync_event_msg) list" where
  "new_pushes v v' = drop (length (ss_outbox (vs_sync v))) (ss_outbox (vs_sync v'))"

section \<open>Sending\<close>

fun send_to_others :: "uuid \<Rightarrow> uuid list \<Rightarrow> ws_msg \<Rightarrow> ws_hub \<Rightarrow> ws_hub option" where
  "send_to_others me [] m h = Some h"
| "send_to_others me (u # us) m h =
     (if u = me then send_to_others me us m h
      else case SendToUser u m h of None \<Rightarrow> None | Some h1 \<Rightarrow> send_to_others me us m h1)"

definition deliver :: "env \<Rightarrow> conn \<Rightarrow> uuid \<Rightarrow> string \<Rightarrow> message \<Rightarrow> participant list \<Rightarrow> ws_state \<Rightarrow> ws_state option" where
  "deliver E c me clientEventID msg ps s =
     (let online = AllOnlineDeviceIDs (dp_hub s)
      in case send_to_others me (map pt_user_id ps) (marshalEnvelope ''message.new'' (new_message_payload E msg)) (dp_hub s) of
           None \<Rightarrow> None
         | Some h1 \<Rightarrow>
             reply c (marshalEnvelope ''message.ack'' (delivery_ack E (ms_id msg) ''sent'' clientEventID))
               (s\<lparr>dp_hub := h1, dp_conv := SaveOfflineMessages E msg ps online (dp_ids s) (dp_conv s)\<rparr>))"

definition send_request :: "ws_send_message \<Rightarrow> json_map option \<Rightarrow> json_map option \<Rightarrow> send_message_request" where
  "send_request q metadata visibility =
     \<lparr>sm_conversation_id = wq_conversation_id q, sm_type = wq_type q, sm_content = wq_content q, sm_metadata = metadata,
      sm_reply_to = wq_reply_to q, sm_thread_id = wq_thread_id q, sm_visibility = visibility,
      sm_client_event_id = wq_client_event_id q\<rparr>"

definition handleSendMessage :: "env \<Rightarrow> conn \<Rightarrow> uuid \<Rightarrow> ws_payload \<Rightarrow> ws_state \<Rightarrow> ws_state option" where
  "handleSendMessage E c me p s =
     (case wp_send p of
        None \<Rightarrow> sendError c 400 ''invalid message payload'' s
      | Some q \<Rightarrow>
          (case decode_map (wq_metadata q) of
             None \<Rightarrow> sendError c 400 ''invalid metadata payload'' s
           | Some metadata \<Rightarrow>
               (case decode_map (wq_visibility q) of
                  None \<Rightarrow> sendError c 400 ''invalid visibility payload'' s
                | Some visibility \<Rightarrow>
                    (case SendMessage E me (send_request q metadata visibility) (dp_conv s) of
                       (answer, v) \<Rightarrow>
                         (case push_events (new_pushes (dp_conv s) v) (dp_hub s) of
                            None \<Rightarrow> None
                          | Some h \<Rightarrow>
                              (case answer of
                                 Inl e \<Rightarrow> sendError c 403 (err_text e) (s\<lparr>dp_hub := h, dp_conv := v\<rparr>)
                               | Inr (msg, ps) \<Rightarrow>
                                   deliver E c me (wq_client_event_id q) msg ps (s\<lparr>dp_hub := h, dp_conv := v\<rparr>)))))))"

section \<open>Offline messages\<close>

definition GetMessagesByIDs :: "env \<Rightarrow> uuid list \<Rightarrow> conv_state \<Rightarrow> message list result" where
  "GetMessagesByIDs E ids s =
     (if ids = [] then Inr [] else db_find E ''GetMessagesByIDs'' 0 (\<lambda>m. ms_id m \<in> set ids) (vs_messages s))"

text \<open>The last of several rows with one identifier would win in the map, so the rows are read backwards.\<close>

definition offline_batch :: "env \<Rightarrow> offline_message list \<Rightarrow> message list \<Rightarrow> any list" where
  "offline_batch E oms msgs =
     List.map_filter (\<lambda>om. map_option (\<lambda>m. AMap (new_message_payload E m)) (List.find (\<lambda>m. ms_id m = om_message_id om) (rev msgs))) oms"

definition handleFetchOffline :: "env \<Rightarrow> conn \<Rightarrow> uuid \<Rightarrow> string \<Rightarrow> ws_state \<Rightarrow> ws_state option" where
  "handleFetchOffline E c me d s =
     (case FetchOfflineMessages E me d (dp_conv s) of
        Inl e \<Rightarrow> sendError c 500 ''failed to fetch offline messages'' s
      | Inr [] \<Rightarrow> Some s
      | Inr rows \<Rightarrow>
          (case GetMessagesByIDs E (map (om_message_id \<circ> fst) rows) (dp_conv s) of
             Inl e \<Rightarrow> sendError c 500 ''failed to fetch message content'' s
           | Inr msgs \<Rightarrow>
               reply c (marshalEnvelope ''offline.batch'' [(''messages'', ASeq (offline_batch E (map fst rows) msgs))]) s))"

definition handleAckOffline :: "env \<Rightarrow> conn \<Rightarrow> ws_payload \<Rightarrow> ws_state \<Rightarrow> ws_state option" where
  "handleAckOffline E c p s =
     (case wp_ack p of
        None \<Rightarrow> sendError c 400 ''invalid ack payload'' s
      | Some ids \<Rightarrow>
          if ids = [] then Some s
          else (case AckOfflineMessages E ids (dp_conv s) of Inl e \<Rightarrow> Some s | Inr v \<Rightarrow> Some (s\<lparr>dp_conv := v\<rparr>)))"

section \<open>Typing and ping\<close>

fun send_typing :: "uuid \<Rightarrow> string \<Rightarrow> uuid list \<Rightarrow> ws_msg \<Rightarrow> ws_hub \<Rightarrow> ws_hub option" where
  "send_typing me d [] m h = Some h"
| "send_typing me d (u # us) m h =
     (case (if u = me then SendToUserExceptDevice u d m h else SendToUser u m h) of
        None \<Rightarrow> None | Some h1 \<Rightarrow> send_typing me d us m h1)"

definition handleTyping :: "env \<Rightarrow> conn \<Rightarrow> uuid \<Rightarrow> string \<Rightarrow> string \<Rightarrow> ws_payload \<Rightarrow> ws_state \<Rightarrow> ws_state option" where
  "handleTyping E c me d msgType p s =
     (case wp_typing p of
        None \<Rightarrow> sendError c 400 ''invalid typing payload'' s
      | Some i \<Rightarrow>
          if i = uuid_nil then sendError c 400 ''invalid typing payload'' s
          else (case GetParticipants E i (dp_conv s) of
                  Inl e \<Rightarrow> sendError c 404 ''conversation not found'' s
                | Inr ps \<Rightarrow>
                    if \<not> list_ex (\<lambda>x. pt_user_id x = me) ps then sendError c 403 ''access denied: not a participant'' s
                    else map_option (\<lambda>h. s\<lparr>dp_hub := h\<rparr>)
                           (send_typing me d (map pt_user_id ps) (marshalEnvelope msgType (typing_signal E i me d)) (dp_hub s))))"

definition handlePing :: "env \<Rightarrow> conn \<Rightarrow> ws_state \<Rightarrow> ws_state option" where
  "handlePing E c s = reply c (marshalEnvelope ''pong'' [(''ts'', AInt (unix_milli (e_now E)))]) s"

section \<open>Dispatch\<close>

definition HandleMessage :: "env \<Rightarrow> conn \<Rightarrow> string \<Rightarrow> ws_payload \<Rightarrow> ws_state \<Rightarrow> ws_state option" where
  "HandleMessage E c msgType p s =
     (case wh_store (dp_hub s) c of
        None \<Rightarrow> None
      | Some k \<Rightarrow>
          if msgType = ''message.send'' then handleSendMessage E c (wc_user k) p s
          else if msgType = ''message.ack'' then handleAckOffline E c p s
          else if msgType = ''offline.fetch'' then handleFetchOffline E c (wc_user k) (wc_device k) s
          else if msgType = ''typing.start'' \<or> msgType = ''typing.stop'' then handleTyping E c (wc_user k) (wc_device k) msgType p s
          else if msgType = ''ping'' then handlePing E c s
          else Some s)"

end
