(* ===== verification/WsHubProps.thy ===== *)
theory WsHubProps
  imports WsHub
begin

text \<open>
  The hub as a state machine: as long as no broadcast meets a full buffer, its two maps agree, no operation
  panics, and a message to a user reaches exactly the registered devices of that user. A full buffer breaks
  the agreement, and the next message to that user ends the process.
\<close>

section \<open>The invariant\<close>

definition client_open :: "ws_hub \<Rightarrow> conn \<Rightarrow> bool" where
  "client_open h c \<longleftrightarrow> (case wh_store h c of None \<Rightarrow> False | Some k \<Rightarrow> \<not> wc_closed k)"

definition routed :: "ws_hub \<Rightarrow> (uuid \<times> string) \<times> conn \<Rightarrow> bool" where
  "routed h e \<longleftrightarrow> snd e \<in> set (wh_clients h) \<and>
     (case wh_store h (snd e) of None \<Rightarrow> False | Some k \<Rightarrow> fst e = (wc_user k, wc_device k))"

definition ws_inv :: "ws_hub \<Rightarrow> bool" where
  "ws_inv h \<longleftrightarrow> distinct (wh_clients h) \<and> list_all (client_open h) (wh_clients h)
     \<and> distinct (map fst (wh_devices h)) \<and> list_all (routed h) (wh_devices h)"

text \<open>Every registered client has room for one more message.\<close>

definition roomy :: "ws_hub \<Rightarrow> bool" where
  "roomy h \<longleftrightarrow> list_all (\<lambda>c. case wh_store h c of None \<Rightarrow> True | Some k \<Rightarrow> length (wc_queue k) < send_buffer) (wh_clients h)"

text \<open>A connection is made once, with a new address, and only existing ones are closed or written.\<close>

fun possible :: "ws_event \<Rightarrow> ws_hub \<Rightarrow> bool" where
  "possible (WConnect c u d) h \<longleftrightarrow> wh_store h c = None"
| "possible (WDisconnect c) h \<longleftrightarrow> wh_store h c \<noteq> None"
| "possible (WWrite c) h \<longleftrightarrow> wh_store h c \<noteq> None"
| "possible _ h \<longleftrightarrow> True"

text \<open>What is sent to everybody, which includes the news of a connection, needs that room: a client whose buffer is
  full has its channel closed. What is sent to one user is just dropped for such a client.\<close>

fun room_to :: "ws_event \<Rightarrow> ws_hub \<Rightarrow> bool" where
  "room_to (WConnect c u d) h \<longleftrightarrow> roomy h"
| "room_to (WDisconnect c) h \<longleftrightarrow> roomy h"
| "room_to (WAll m) h \<longleftrightarrow> roomy h"
| "room_to _ h \<longleftrightarrow> True"

inductive ws_reach :: "env \<Rightarrow> ws_hub \<Rightarrow> bool" for E where
  start: "ws_reach E NewHub"
| step: "ws_reach E h \<Longrightarrow> room_to e h \<Longrightarrow> possible e h \<Longrightarrow> ws_step E e h = Some h' \<Longrightarrow> ws_reach E h'"

section \<open>One operation\<close>

text \<open>What sending changes: queues only.\<close>

definition only_queues :: "ws_hub \<Rightarrow> ws_hub \<Rightarrow> bool" where
  "only_queues h h' \<longleftrightarrow> wh_clients h' = wh_clients h \<and> wh_devices h' = wh_devices h
     \<and> (\<forall>c. map_option (\<lambda>k. (wc_user k, wc_device k, wc_closed k)) (wh_store h' c)
           = map_option (\<lambda>k. (wc_user k, wc_device k, wc_closed k)) (wh_store h c))"

lemma only_queues_refl [simp]: "only_queues h h"
  by (simp add: only_queues_def)

lemma only_queues_trans: "only_queues h h1 \<Longrightarrow> only_queues h1 h2 \<Longrightarrow> only_queues h h2"
  by (simp add: only_queues_def)

lemma only_queuesD:
  assumes "only_queues h h'"
  shows "client_open h' = client_open h" and "routed h' = routed h"
proof -
  have s: "map_option (\<lambda>k. (wc_user k, wc_device k, wc_closed k)) (wh_store h' c)
     = map_option (\<lambda>k. (wc_user k, wc_device k, wc_closed k)) (wh_store h c)" for c
    using assms by (simp add: only_queues_def)
  have "client_open h' c = client_open h c" for c
    using s [of c] by (cases "wh_store h c"; cases "wh_store h' c") (auto simp: client_open_def)
  moreover have "routed h' e = routed h e" for e
    using s [of "snd e"] assms
    by (cases "wh_store h (snd e)"; cases "wh_store h' (snd e)") (auto simp: routed_def only_queues_def)
  ultimately show "client_open h' = client_open h" "routed h' = routed h" by blast+
qed

lemma ws_inv_only_queues:
  assumes "only_queues h h'" "ws_inv h"
  shows "ws_inv h'"
proof -
  have "wh_clients h' = wh_clients h" "wh_devices h' = wh_devices h" using assms(1) by (simp_all add: only_queues_def)
  with assms(2) show ?thesis by (simp add: ws_inv_def only_queuesD [OF assms(1)])
qed

lemma try_send_open: "client_open h c \<Longrightarrow> \<exists>ok h'. try_send c m h = Some (ok, h') \<and> only_queues h h'"
  by (cases "wh_store h c") (auto simp: client_open_def try_send_def only_queues_def)

lemma send_all_open:
  assumes "list_all (client_open h) cs"
  shows "\<exists>h'. send_all cs m h = Some h' \<and> only_queues h h'"
  using assms
proof (induction cs arbitrary: h)
  case (Cons c cs)
  then obtain ok h1 where h1: "try_send c m h = Some (ok, h1)" "only_queues h h1"
    using try_send_open [of h c m] by auto
  with Cons.prems only_queuesD(1) [OF h1(2)] have "list_all (client_open h1) cs" by simp
  from Cons.IH [OF this] h1 show ?case by (auto simp: SendMessage_client_def intro: only_queues_trans)
qed simp

lemma broadcast_open:
  assumes "list_all (client_open h) cs" "distinct cs"
    "list_all (\<lambda>c. case wh_store h c of None \<Rightarrow> True | Some k \<Rightarrow> length (wc_queue k) < send_buffer) cs"
  shows "\<exists>h'. broadcast_loop cs m h = Some h' \<and> only_queues h h'"
  using assms
proof (induction cs arbitrary: h)
  case (Cons c cs)
  obtain k where k: "wh_store h c = Some k" "\<not> wc_closed k" "length (wc_queue k) < send_buffer"
    using Cons.prems by (auto simp: client_open_def split: option.splits)
  let ?h = "h\<lparr>wh_store := (wh_store h)(c \<mapsto> k\<lparr>wc_queue := wc_queue k @ [m]\<rparr>)\<rparr>"
  have t: "try_send c m h = Some (True, ?h)" using k by (simp add: try_send_def)
  have q: "only_queues h ?h" using k by (simp add: only_queues_def)
  have "list_all (client_open ?h) cs" using Cons.prems(1) only_queuesD(1) [OF q] by simp
  moreover have "list_all (\<lambda>c. case wh_store ?h c of None \<Rightarrow> True | Some k \<Rightarrow> length (wc_queue k) < send_buffer) cs"
    using Cons.prems(2,3) by (auto simp: list_all_iff)
  ultimately obtain h' where "broadcast_loop cs m ?h = Some h'" "only_queues ?h h'"
    using Cons.IH [of ?h] Cons.prems(2) by auto
  with t q show ?case by (auto intro: only_queues_trans)
qed simp

lemma broadcastToAll_ok: "ws_inv h \<Longrightarrow> roomy h \<Longrightarrow> \<exists>h'. broadcastToAll m h = Some h' \<and> ws_inv h'"
  using broadcast_open [of h "wh_clients h" m] ws_inv_only_queues [of h]
  by (auto simp: broadcastToAll_def ws_inv_def roomy_def)

lemma routed_open: "ws_inv h \<Longrightarrow> e \<in> set (wh_devices h) \<Longrightarrow> client_open h (snd e)"
  by (auto simp: ws_inv_def list_all_iff routed_def)

lemma set_AList_delete: "set (AList.delete k al) = {e \<in> set al. fst e \<noteq> k}"
  by (auto simp: AList.delete_eq)

lemma set_AList_update: "distinct (map fst al) \<Longrightarrow> set (AList.update k v al) = insert (k, v) {e \<in> set al. fst e \<noteq> k}"
  by (induction al) (auto simp: image_iff)

lemma WConnect_ok:
  assumes "ws_inv h" "roomy h" "wh_store h c = None"
  shows "\<exists>h'. ws_step E (WConnect c u d) h = Some h' \<and> ws_inv h'"
proof -
  let ?k = "\<lparr>wc_user = u, wc_device = d, wc_queue = [], wc_closed = False, wc_written = []\<rparr>"
  let ?h = "h\<lparr>wh_store := (wh_store h)(c \<mapsto> ?k), wh_clients := wh_clients h @ [c],
     wh_devices := AList.update (u, d) c (wh_devices h)\<rparr>"
  have new: "c \<notin> set (wh_clients h)" using assms(1,3) by (auto simp: ws_inv_def list_all_iff client_open_def)
  have dev: "distinct (map fst (wh_devices h))" using assms(1) by (simp add: ws_inv_def)
  have "client_open ?h x" if "x \<in> set (wh_clients ?h)" for x
    using that assms(1) by (auto simp: ws_inv_def client_open_def list_all_iff)
  moreover have "routed ?h e" if "e \<in> set (wh_devices ?h)" for e
  proof (cases "e = ((u, d), c)")
    case False
    with that dev have "e \<in> set (wh_devices h)" by (auto simp: set_AList_update)
    with assms(1) have r: "routed h e" by (simp add: ws_inv_def list_all_iff)
    with new have "snd e \<noteq> c" by (auto simp: routed_def)
    with r show ?thesis by (auto simp: routed_def)
  qed (simp add: routed_def)
  moreover have "distinct (map fst (wh_devices ?h))" using dev by (simp add: AList.distinct_update)
  ultimately have inv: "ws_inv ?h" using assms(1) new by (simp add: ws_inv_def list_all_iff)
  have "roomy ?h" using assms(2) new by (auto simp: roomy_def list_all_iff send_buffer_def)
  from broadcastToAll_ok [OF inv this] new show ?thesis
    by (simp add: register_def NewClient_def broadcastPresence_def Let_def)
qed

lemma WDisconnect_ok:
  assumes "ws_inv h" "roomy h" "wh_store h c \<noteq> None"
  shows "\<exists>h'. ws_step E (WDisconnect c) h = Some h' \<and> ws_inv h'"
proof -
  obtain k where k: "wh_store h c = Some k" using assms(3) by blast
  let ?st = "if c \<in> set (wh_clients h) then (wh_store h)(c \<mapsto> k\<lparr>wc_closed := True\<rparr>) else wh_store h"
  let ?h = "h\<lparr>wh_store := ?st, wh_clients := removeAll c (wh_clients h),
     wh_devices := AList.delete (wc_user k, wc_device k) (wh_devices h)\<rparr>"
  have op: "c \<in> set (wh_clients h) \<Longrightarrow> \<not> wc_closed k" using assms(1) k by (auto simp: ws_inv_def list_all_iff client_open_def)
  have "client_open ?h x" if "x \<in> set (wh_clients ?h)" for x
    using that assms(1) by (auto simp: ws_inv_def client_open_def list_all_iff)
  moreover have "routed ?h e" if "e \<in> set (wh_devices ?h)" for e
  proof -
    have e: "e \<in> set (wh_devices h)" "fst e \<noteq> (wc_user k, wc_device k)" using that by (auto simp: set_AList_delete)
    with assms(1) have r: "routed h e" by (simp add: ws_inv_def list_all_iff)
    with e(2) k have "snd e \<noteq> c" by (auto simp: routed_def)
    with r show ?thesis by (auto simp: routed_def)
  qed
  moreover have "distinct (map fst (wh_devices ?h))" using assms(1) by (simp add: ws_inv_def AList.distinct_delete)
  ultimately have inv: "ws_inv ?h" using assms(1) by (simp add: ws_inv_def list_all_iff distinct_removeAll)
  have room: "roomy ?h" using assms(2) by (auto simp: roomy_def list_all_iff)
  have "unregister E c h = broadcastPresence E (wc_user k) (wc_device k) ''offline'' ?h"
  proof (cases "c \<in> set (wh_clients h)")
    case True
    with k op show ?thesis by (cases h) (simp add: unregister_def close_send_def)
  next
    case False
    with k show ?thesis by (simp add: unregister_def)
  qed
  with broadcastToAll_ok [OF inv room] show ?thesis by (simp add: broadcastPresence_def)
qed

lemma WritePump_ok:
  assumes "ws_inv h" "wh_store h c \<noteq> None"
  shows "\<exists>h'. WritePump c h = Some h' \<and> ws_inv h'"
proof -
  obtain k where k: "wh_store h c = Some k" using assms(2) by blast
  let ?h = "h\<lparr>wh_store := (wh_store h)(c \<mapsto> k\<lparr>wc_queue := [], wc_written := wc_written k @ wc_queue k\<rparr>)\<rparr>"
  have "only_queues h ?h" using k by (simp add: only_queues_def)
  with ws_inv_only_queues [OF this assms(1)] k show ?thesis by (simp add: WritePump_def)
qed

lemma ws_step_ok:
  assumes "ws_inv h" "room_to e h" "possible e h"
  shows "\<exists>h'. ws_step E e h = Some h' \<and> ws_inv h'"
proof (cases e)
  case (WConnect c u d)
  with WConnect_ok assms show ?thesis by simp
next
  case (WDisconnect c)
  with WDisconnect_ok assms show ?thesis by simp
next
  case (WUser u m)
  have "list_all (client_open h) (map snd (filter (\<lambda>e. fst (fst e) = u) (wh_devices h)))"
    using routed_open [OF assms(1)] by (auto simp: list_all_iff)
  from send_all_open [OF this, of m] WUser ws_inv_only_queues [OF _ assms(1)] show ?thesis by (auto simp: SendToUser_def)
next
  case (WDevice u d m)
  have "client_open h c" if "map_of (wh_devices h) (u, d) = Some c" for c
    using routed_open [OF assms(1) map_of_SomeD [OF that]] by simp
  with send_all_open [of h "[the (map_of (wh_devices h) (u, d))]" m] WDevice ws_inv_only_queues [OF _ assms(1)] assms(1)
  show ?thesis by (cases "map_of (wh_devices h) (u, d)") (auto simp: SendToUserDevice_def split: option.splits)
next
  case (WOthers u d m)
  have "list_all (client_open h) (map snd (filter (\<lambda>e. fst (fst e) = u \<and> snd (fst e) \<noteq> d) (wh_devices h)))"
    using routed_open [OF assms(1)] by (auto simp: list_all_iff)
  from send_all_open [OF this, of m] WOthers ws_inv_only_queues [OF _ assms(1)]
  show ?thesis by (auto simp: SendToUserExceptDevice_def)
next
  case (WAll m)
  with broadcastToAll_ok assms show ?thesis by simp
next
  case (WWrite c)
  with WritePump_ok assms show ?thesis by simp
qed

lemma ws_reach_inv: "ws_reach E h \<Longrightarrow> ws_inv h"
proof (induction rule: ws_reach.induct)
  case (step h e h')
  with ws_step_ok [OF step.IH step.hyps(2,3), of E] show ?case by auto
qed (simp add: ws_inv_def NewHub_def)

text \<open>
  The hub does not panic while its buffers have room: in every state reached by connections, disconnections, messages
  and writes in which nothing was sent to everybody while a registered client had a full buffer, every further event
  of that kind is handled, and both maps of the hub agree again.
\<close>

theorem hub_never_panics_with_room:
  assumes "ws_reach E h" "room_to e h" "possible e h"
  shows "\<exists>h'. ws_step E e h = Some h' \<and> ws_inv h'"
  using ws_step_ok [OF ws_reach_inv [OF assms(1)] assms(2,3)] .

definition env_ws :: env where
  "env_ws = env_at 1"

definition demo_ws :: ws_hub where
  "demo_ws = the (ws_step env_ws (WConnect 2 7 ''tablet'') (the (ws_step env_ws (WConnect 1 7 ''phone'') NewHub)))"

lemma demo_ws_reach: "ws_reach env_ws demo_ws"
proof -
  have a: "ws_step env_ws (WConnect 1 7 ''phone'') NewHub \<noteq> None" by code_simp
  have b: "ws_step env_ws (WConnect 2 7 ''tablet'') (the (ws_step env_ws (WConnect 1 7 ''phone'') NewHub)) \<noteq> None" by code_simp
  have "ws_reach env_ws (the (ws_step env_ws (WConnect 1 7 ''phone'') NewHub))"
    using ws_reach.start
  proof (rule ws_reach.step)
    show "room_to (WConnect 1 7 ''phone'') NewHub" by code_simp
    show "possible (WConnect 1 7 ''phone'') NewHub" by code_simp
  qed (use a in simp)
  then show ?thesis unfolding demo_ws_def
  proof (rule ws_reach.step)
    show "room_to (WConnect 2 7 ''tablet'') (the (ws_step env_ws (WConnect 1 7 ''phone'') NewHub))" by code_simp
    show "possible (WConnect 2 7 ''tablet'') (the (ws_step env_ws (WConnect 1 7 ''phone'') NewHub))" by code_simp
  qed (use b in simp)
qed

theorem hub_never_panics_with_room_witness:
  "\<exists>h'. ws_step env_ws (WDisconnect 1) demo_ws = Some h' \<and> ws_inv h'"
proof (rule hub_never_panics_with_room [OF demo_ws_reach])
  show "room_to (WDisconnect 1) demo_ws" by code_simp
  show "possible (WDisconnect 1) demo_ws" by code_simp
qed

section \<open>Delivery\<close>

definition queue_of :: "ws_hub \<Rightarrow> conn \<Rightarrow> ws_msg list" where
  "queue_of h c = (case wh_store h c of None \<Rightarrow> [] | Some k \<Rightarrow> wc_queue k)"

lemma try_send_queue:
  assumes "client_open h c"
  shows "\<exists>ok h'. try_send c m h = Some (ok, h') \<and> only_queues h h'
     \<and> (\<forall>x. queue_of h' x = queue_of h x @ (if x = c \<and> length (queue_of h x) < send_buffer then [m] else []))"
  using assms by (cases "wh_store h c") (auto simp: client_open_def try_send_def only_queues_def queue_of_def)

lemma send_all_queue:
  assumes "list_all (client_open h) cs" "distinct cs"
  shows "\<exists>h'. send_all cs m h = Some h' \<and> only_queues h h'
     \<and> (\<forall>x. queue_of h' x = queue_of h x @ (if x \<in> set cs \<and> length (queue_of h x) < send_buffer then [m] else []))"
  using assms
proof (induction cs arbitrary: h)
  case (Cons c cs)
  obtain ok h1 where h1: "try_send c m h = Some (ok, h1)" "only_queues h h1"
      "\<And>x. queue_of h1 x = queue_of h x @ (if x = c \<and> length (queue_of h x) < send_buffer then [m] else [])"
    using try_send_queue [of h c m] Cons.prems by auto
  have "list_all (client_open h1) cs" using Cons.prems only_queuesD(1) [OF h1(2)] by simp
  from Cons.IH [OF this] Cons.prems(2) obtain h' where h': "send_all cs m h1 = Some h'" "only_queues h1 h'"
      "\<And>x. queue_of h' x = queue_of h1 x @ (if x \<in> set cs \<and> length (queue_of h1 x) < send_buffer then [m] else [])" by auto
  have "queue_of h' x = queue_of h x @ (if x \<in> set (c # cs) \<and> length (queue_of h x) < send_buffer then [m] else [])" for x
    using Cons.prems(2) by (cases "x = c") (simp_all add: h'(3) h1(3))
  with h1 h' show ?case by (auto simp: SendMessage_client_def intro: only_queues_trans)
qed simp

lemma routes_distinct:
  assumes "ws_inv h"
  shows "distinct (map snd (wh_devices h))"
proof -
  have "inj_on snd (set (wh_devices h))"
  proof (rule inj_onI)
    fix e e' assume e: "e \<in> set (wh_devices h)" "e' \<in> set (wh_devices h)" "snd e = snd e'"
    with assms have "routed h e" "routed h e'" by (simp_all add: ws_inv_def list_all_iff)
    with e(3) show "e = e'" by (auto simp: routed_def prod_eq_iff split: option.splits)
  qed
  moreover have "distinct (wh_devices h)" using assms by (simp add: ws_inv_def distinct_map)
  ultimately show ?thesis by (simp add: distinct_map)
qed

lemma SendToUser_queue:
  assumes "ws_inv h"
  shows "\<exists>h'. SendToUser u m h = Some h' \<and> only_queues h h' \<and> (\<forall>c. queue_of h' c = queue_of h c
     @ (if (\<exists>d. map_of (wh_devices h) (u, d) = Some c) \<and> length (queue_of h c) < send_buffer then [m] else []))"
proof -
  let ?cs = "map snd (filter (\<lambda>e. fst (fst e) = u) (wh_devices h))"
  have "list_all (client_open h) ?cs" using routed_open [OF assms] by (auto simp: list_all_iff)
  moreover have "distinct ?cs" using routes_distinct [OF assms] by (rule distinct_map_filter)
  moreover have "c \<in> set ?cs \<longleftrightarrow> (\<exists>d. map_of (wh_devices h) (u, d) = Some c)" for c
  proof -
    have "c \<in> set ?cs \<longleftrightarrow> (\<exists>d. ((u, d), c) \<in> set (wh_devices h))" by force
    then show ?thesis using assms by (simp add: ws_inv_def)
  qed
  ultimately show ?thesis using send_all_queue [of h ?cs m] by (simp add: SendToUser_def)
qed

text \<open>
  A message to a user goes to exactly the connected devices of that user: it is appended to the queue of
  every client a device of the user is routed to, unless that queue is full, and to no other queue.
\<close>

theorem message_reaches_exactly_the_devices_of_the_user:
  assumes "ws_reach E h"
  shows "\<exists>h'. SendToUser u m h = Some h' \<and> (\<forall>c. queue_of h' c = queue_of h c
     @ (if (\<exists>d. map_of (wh_devices h) (u, d) = Some c) \<and> length (queue_of h c) < send_buffer then [m] else []))"
  using SendToUser_queue [OF ws_reach_inv [OF assms]] by blast

theorem message_reaches_exactly_the_devices_of_the_user_witness:
  "\<exists>h'. SendToUser 7 (''x'', []) demo_ws = Some h' \<and> queue_of h' 2 = queue_of demo_ws 2 @ [(''x'', [])]
     \<and> queue_of h' 3 = queue_of demo_ws 3"
proof -
  obtain h' where h': "SendToUser 7 (''x'', []) demo_ws = Some h'" "\<forall>c. queue_of h' c = queue_of demo_ws c
     @ (if (\<exists>d. map_of (wh_devices demo_ws) (7, d) = Some c) \<and> length (queue_of demo_ws c) < send_buffer then [(''x'', [])] else [])"
    using message_reaches_exactly_the_devices_of_the_user [OF demo_ws_reach, of 7 "(''x'', [])"] by blast
  have "wh_devices demo_ws = [((7, ''phone''), 1), ((7, ''tablet''), 2)]" "length (queue_of demo_ws 2) < send_buffer" by code_simp+
  with h' show ?thesis by (intro exI [of _ h']) auto
qed

section \<open>Two failures\<close>

text \<open>A device that reconnects before its old connection is torn down: the old one's end removes the route of the
  new one, which stays connected and gets no messages any more.\<close>

theorem stale_disconnect_unroutes_new_connection:
  "let h1 = the (ws_step env_ws (WConnect 3 7 ''phone'') demo_ws); h2 = the (ws_step env_ws (WDisconnect 1) h1)
   in 3 \<in> set (wh_clients h2) \<and> \<not> IsDeviceOnline 7 ''phone'' h2
      \<and> queue_of (the (ws_step env_ws (WUser 7 (''x'', [])) h2)) 3 = queue_of h2 3"
  by code_simp

text \<open>A broadcast that meets a full buffer closes the channel of the client and forgets the client, but not its
  route: the next message to that user is sent on the closed channel.\<close>

definition demo_full :: ws_hub where
  "demo_full = demo_ws\<lparr>wh_store := (wh_store demo_ws)(1 \<mapsto> (the (wh_store demo_ws 1))\<lparr>wc_queue := replicate 256 (''x'', [])\<rparr>)\<rparr>"

theorem send_after_overflow_panics:
  "let h1 = the (ws_step env_ws (WAll (''y'', [])) demo_full)
   in ws_step env_ws (WAll (''y'', [])) demo_full \<noteq> None \<and> IsDeviceOnline 7 ''phone'' h1
      \<and> ws_step env_ws (WUser 7 (''z'', [])) h1 = None"
  by code_simp

end
