(* ===== verification/WsDispatchProps.thy ===== *)
theory WsDispatchProps
  imports WsDispatch WsHubProps MessageProps
begin

text \<open>
  The dispatcher, the hub and the message service together: a message that is accepted reaches each device
  of each other participant, at once or as an offline copy, and a typing signal stays in its conversation.
\<close>

section \<open>Queues only grow\<close>

text \<open>What one send may do: nothing but queues change, they grow, by at most one message each.\<close>

definition grows :: "ws_hub \<Rightarrow> ws_hub \<Rightarrow> nat \<Rightarrow> bool" where
  "grows h h' n \<longleftrightarrow> only_queues h h' \<and> (\<forall>c. \<exists>ms. queue_of h' c = queue_of h c @ ms \<and> length ms \<le> n)"

lemma grows_refl: "grows h h n"
  by (simp add: grows_def)

lemma grows_trans:
  assumes "grows h h1 k" "grows h1 h2 n"
  shows "grows h h2 (k + n)"
  unfolding grows_def
proof (intro conjI allI)
  fix c
  obtain a where a: "queue_of h1 c = queue_of h c @ a" "length a \<le> k" using assms(1) unfolding grows_def by blast
  obtain b where b: "queue_of h2 c = queue_of h1 c @ b" "length b \<le> n" using assms(2) unfolding grows_def by blast
  from a b show "\<exists>ms. queue_of h2 c = queue_of h c @ ms \<and> length ms \<le> k + n" by (intro exI [of _ "a @ b"]) simp
qed (use assms in \<open>auto simp: grows_def intro: only_queues_trans\<close>)

lemma growsD:
  assumes "grows h h' n"
  shows "ws_inv h \<Longrightarrow> ws_inv h'" and "wh_devices h' = wh_devices h" and "wh_clients h' = wh_clients h"
    and "set (queue_of h c) \<subseteq> set (queue_of h' c)" and "length (queue_of h' c) \<le> length (queue_of h c) + n"
proof -
  show "ws_inv h \<Longrightarrow> ws_inv h'" "wh_devices h' = wh_devices h" "wh_clients h' = wh_clients h"
    using assms ws_inv_only_queues by (auto simp: grows_def only_queues_def)
  obtain ms where "queue_of h' c = queue_of h c @ ms" "length ms \<le> n" using assms unfolding grows_def by blast
  then show "set (queue_of h c) \<subseteq> set (queue_of h' c)" "length (queue_of h' c) \<le> length (queue_of h c) + n" by auto
qed

lemma SendToUser_grows:
  assumes "ws_inv h"
  shows "\<exists>h'. SendToUser u m h = Some h' \<and> grows h h' 1
    \<and> (\<forall>d c. map_of (wh_devices h) (u, d) = Some c \<longrightarrow> length (queue_of h c) < send_buffer \<longrightarrow> m \<in> set (queue_of h' c))
    \<and> (\<forall>c. (\<nexists>d. map_of (wh_devices h) (u, d) = Some c) \<longrightarrow> queue_of h' c = queue_of h c)"
proof -
  obtain h' where h': "SendToUser u m h = Some h'" "only_queues h h'"
    "\<And>c. queue_of h' c = queue_of h c
     @ (if (\<exists>d. map_of (wh_devices h) (u, d) = Some c) \<and> length (queue_of h c) < send_buffer then [m] else [])"
    using SendToUser_queue [OF assms, of u m] by blast
  then have "grows h h' 1" by (simp add: grows_def)
  with h' show ?thesis by auto
qed

lemma SendToUserExceptDevice_grows:
  assumes "ws_inv h"
  shows "\<exists>h'. SendToUserExceptDevice u x m h = Some h' \<and> grows h h' 1
    \<and> (\<forall>c. (\<nexists>d. map_of (wh_devices h) (u, d) = Some c) \<longrightarrow> queue_of h' c = queue_of h c)"
proof -
  let ?cs = "map snd (filter (\<lambda>e. fst (fst e) = u \<and> snd (fst e) \<noteq> x) (wh_devices h))"
  have "list_all (client_open h) ?cs" using routed_open [OF assms] by (auto simp: list_all_iff)
  moreover have "distinct ?cs" using routes_distinct [OF assms] by (rule distinct_map_filter)
  ultimately obtain h' where h': "SendToUserExceptDevice u x m h = Some h'" "only_queues h h'"
      "\<And>c. queue_of h' c = queue_of h c @ (if c \<in> set ?cs \<and> length (queue_of h c) < send_buffer then [m] else [])"
    using send_all_queue [of h ?cs m] unfolding SendToUserExceptDevice_def by blast
  have "queue_of h' c = queue_of h c" if "\<nexists>d. map_of (wh_devices h) (u, d) = Some c" for c
  proof -
    have "c \<notin> set ?cs" using that assms by (auto simp: ws_inv_def)
    with h'(3) show ?thesis by simp
  qed
  moreover have "grows h h' 1" using h'(2,3) by (simp add: grows_def)
  ultimately show ?thesis using h'(1) by blast
qed

lemma SendMessage_client_grows:
  assumes "client_open h c"
  shows "\<exists>h'. SendMessage_client c m h = Some h' \<and> grows h h' 1"
  using try_send_queue [OF assms, of m] by (auto simp: SendMessage_client_def grows_def)

lemma push_events_grows:
  assumes "ws_inv h"
  shows "\<exists>h'. push_events es h = Some h' \<and> grows h h' (length es)"
  using assms
proof (induction es arbitrary: h)
  case (Cons e es)
  obtain u d m where e: "e = (u, d, m)" by (cases e)
  obtain h1 where h1: "SendToUserExceptDevice u d (marshalEnvelope ''sync.event'' (sync_push_payload m)) h = Some h1" "grows h h1 1"
    using SendToUserExceptDevice_grows [OF Cons.prems] by blast
  obtain h' where "push_events es h1 = Some h'" "grows h1 h' (length es)"
    using Cons.IH [OF growsD(1) [OF h1(2) Cons.prems]] by blast
  with grows_trans [OF h1(2)] h1(1) e show ?case by auto
qed (simp add: grows_refl)

lemma send_to_others_grows:
  assumes "ws_inv h"
  shows "\<exists>h'. send_to_others me us m h = Some h' \<and> grows h h' (length us)
    \<and> (\<forall>u d c. u \<in> set us \<longrightarrow> u \<noteq> me \<longrightarrow> map_of (wh_devices h) (u, d) = Some c
         \<longrightarrow> length (queue_of h c) + length us \<le> send_buffer \<longrightarrow> m \<in> set (queue_of h' c))"
  using assms
proof (induction us arbitrary: h)
  case (Cons u us)
  show ?case
  proof (cases "u = me")
    case True
    obtain h' where h': "send_to_others me us m h = Some h'" "grows h h' (length us)"
      "\<forall>u d c. u \<in> set us \<longrightarrow> u \<noteq> me \<longrightarrow> map_of (wh_devices h) (u, d) = Some c
         \<longrightarrow> length (queue_of h c) + length us \<le> send_buffer \<longrightarrow> m \<in> set (queue_of h' c)"
      using Cons.IH [OF Cons.prems] by blast
    have "grows h h' (length (u # us))" using grows_trans [OF grows_refl [of h 1] h'(2)] by simp
    with h' True show ?thesis by (intro exI [of _ h']) auto
  next
    case False
    obtain h1 where h1: "SendToUser u m h = Some h1" "grows h h1 1"
      "\<And>d c. map_of (wh_devices h) (u, d) = Some c \<Longrightarrow> length (queue_of h c) < send_buffer \<Longrightarrow> m \<in> set (queue_of h1 c)"
      using SendToUser_grows [OF Cons.prems, of u m] by blast
    obtain h' where h': "send_to_others me us m h1 = Some h'" "grows h1 h' (length us)"
      "\<And>v d c. v \<in> set us \<Longrightarrow> v \<noteq> me \<Longrightarrow> map_of (wh_devices h1) (v, d) = Some c
         \<Longrightarrow> length (queue_of h1 c) + length us \<le> send_buffer \<Longrightarrow> m \<in> set (queue_of h' c)"
      using Cons.IH [OF growsD(1) [OF h1(2) Cons.prems]] by blast
    have g: "grows h h' (length (u # us))" using grows_trans [OF h1(2) h'(2)] by simp
    have "m \<in> set (queue_of h' c)" if "v \<in> set (u # us)" "v \<noteq> me" "map_of (wh_devices h) (v, d) = Some c"
      "length (queue_of h c) + length (u # us) \<le> send_buffer" for v d c
    proof (cases "v = u")
      case True
      then have "m \<in> set (queue_of h1 c)" using h1(3) [of d c] that(3,4) by simp
      then show ?thesis using growsD(4) [OF h'(2), of c] by blast
    next
      case False
      then show ?thesis using h'(3) [of v d c] that growsD(2) [OF h1(2)] growsD(5) [OF h1(2), of c] by simp
    qed
    with g h1(1) h'(1) False show ?thesis by (intro exI [of _ h']) auto
  qed
qed (simp add: grows_refl)

section \<open>Delivered or stored\<close>

lemma SendMessage_sender:
  assumes "SendMessage E u req v = (Inr (m, ps), v')"
  shows "ms_sender_id m = u"
proof (cases "send_new E u req v = (Inr (m, ps), v')")
  case True
  then show ?thesis by (auto simp: send_new_def new_message_def Let_def split: sum.splits)
next
  case False
  with assms have "FindMessageByClientEventID E u (sm_client_event_id req) v = Inr m"
    by (auto simp: SendMessage_def split: sum.splits if_splits)
  then show ?thesis by (auto simp: FindMessageByClientEventID_def db_first_def dest: first_by_Some split: if_splits option.splits)
qed

text \<open>The routes of the hub agree with the device table, whose device identifiers are unique.\<close>

definition device_owners :: "ws_state \<Rightarrow> bool" where
  "device_owners s \<longleftrightarrow> list_all (\<lambda>e. list_all (\<lambda>x. dv_device_id x = snd (fst e) \<longrightarrow> dv_user_id x = fst (fst e))
     (is_devices (dp_ids s))) (wh_devices (dp_hub s))"

text \<open>The connection of a device, if it has one, can take that many messages more.\<close>

definition can_take :: "nat \<Rightarrow> device \<Rightarrow> ws_hub \<Rightarrow> bool" where
  "can_take n x h \<longleftrightarrow> (case map_of (wh_devices h) (dv_user_id x, dv_device_id x) of
     None \<Rightarrow> True | Some r \<Rightarrow> length (queue_of h r) + n \<le> send_buffer)"

definition got_message :: "env \<Rightarrow> message \<Rightarrow> device \<Rightarrow> ws_state \<Rightarrow> bool" where
  "got_message E m x s \<longleftrightarrow> (case map_of (wh_devices (dp_hub s)) (dv_user_id x, dv_device_id x) of
     None \<Rightarrow> False
   | Some r \<Rightarrow> marshalEnvelope ''message.new'' (new_message_payload E m) \<in> set (queue_of (dp_hub s) r))"

definition has_offline_copy :: "message \<Rightarrow> device \<Rightarrow> ws_state \<Rightarrow> bool" where
  "has_offline_copy m x s \<longleftrightarrow> list_ex (\<lambda>w. offline_key w = (dv_user_id x, dv_device_id x) \<and> om_message_id w = ms_id m
     \<and> \<not> om_delivered w) (vs_offline (dp_conv s))"

lemma offline_targets_in:
  assumes "x \<in> set (is_devices ids)" "dv_user_id x \<in> set us" "dv_user_id x \<noteq> ms_sender_id m" "dv_device_id x \<notin> set online"
  shows "(dv_user_id x, dv_device_id x) \<in> set (offline_targets m us online ids)"
  using assms by (force simp: offline_targets_def)

lemma deliver_reaches:
  assumes "no_faults E" "ws_inv (dp_hub s)" "client_open (dp_hub s) c" "device_owners s"
    "can_take (length ps) x (dp_hub s)" "ms_sender_id m = me"
    "fresh_offline E 0 (length (offline_targets m (map pt_user_id ps) (AllOnlineDeviceIDs (dp_hub s)) (dp_ids s))) (dp_conv s)"
    "x \<in> set (is_devices (dp_ids s))" "dv_user_id x \<in> set (map pt_user_id ps)" "dv_user_id x \<noteq> me"
  shows "\<exists>s'. deliver E c me k m ps s = Some s' \<and> (got_message E m x s' \<or> has_offline_copy m x s')"
proof -
  let ?h = "dp_hub s" and ?us = "map pt_user_id ps" and ?m = "marshalEnvelope ''message.new'' (new_message_payload E m)"
  let ?on = "AllOnlineDeviceIDs ?h"
  let ?v = "SaveOfflineMessages E m ps ?on (dp_ids s) (dp_conv s)"
  obtain h1 where h1: "send_to_others me ?us ?m ?h = Some h1" "grows ?h h1 (length ?us)"
    "\<And>u d r. u \<in> set ?us \<Longrightarrow> u \<noteq> me \<Longrightarrow> map_of (wh_devices ?h) (u, d) = Some r
       \<Longrightarrow> length (queue_of ?h r) + length ?us \<le> send_buffer \<Longrightarrow> ?m \<in> set (queue_of h1 r)"
    using send_to_others_grows [OF assms(2), of me ?us ?m] by blast
  have "only_queues ?h h1" using h1(2) by (simp add: grows_def)
  with assms(3) have "client_open h1 c" by (simp add: only_queuesD(1))
  then obtain h2 where h2: "SendMessage_client c (marshalEnvelope ''message.ack'' (delivery_ack E (ms_id m) ''sent'' k)) h1 = Some h2"
    "grows h1 h2 1" using SendMessage_client_grows by blast
  let ?s = "s\<lparr>dp_hub := h2, dp_conv := ?v\<rparr>"
  have "deliver E c me k m ps s = Some ?s" using h1(1) h2(1) by (simp add: deliver_def reply_def)
  moreover have "got_message E m x ?s \<or> has_offline_copy m x ?s"
  proof (cases "dv_device_id x \<in> set ?on")
    case True
    then obtain e where e: "e \<in> set (wh_devices ?h)" "snd (fst e) = dv_device_id x" by (auto simp: AllOnlineDeviceIDs_def)
    with assms(4,8) have "fst e = (dv_user_id x, dv_device_id x)" by (auto simp: device_owners_def list_all_iff prod_eq_iff)
    then have "((dv_user_id x, dv_device_id x), snd e) \<in> set (wh_devices ?h)" using e(1) by (metis prod.collapse)
    with assms(2) have r: "map_of (wh_devices ?h) (dv_user_id x, dv_device_id x) = Some (snd e)"
      by (simp add: ws_inv_def)
    moreover have "length (queue_of ?h (snd e)) + length ?us \<le> send_buffer"
      using assms(5) r by (simp add: can_take_def)
    ultimately have "?m \<in> set (queue_of h1 (snd e))" using h1(3) assms(9,10) by blast
    then have "?m \<in> set (queue_of h2 (snd e))" using growsD(4) [OF h2(2), of "snd e"] by blast
    with r growsD(2) [OF h1(2)] growsD(2) [OF h2(2)] show ?thesis by (simp add: got_message_def)
  next
    case False
    obtain ws where ws: "vs_offline ?v = vs_offline (dp_conv s) @ ws" "copies_of m (offline_targets m ?us ?on (dp_ids s)) ws"
      using save_offline_users_ok [OF assms(1,7), of 0] by (auto simp: SaveOfflineMessages_def)
    have "(dv_user_id x, dv_device_id x) \<in> set (map offline_key ws)"
      using offline_targets_in [OF assms(8,9), of m] False assms(6,10) ws(2) by (simp add: copies_of_def)
    then obtain w where "w \<in> set ws" "offline_key w = (dv_user_id x, dv_device_id x)" by auto
    with ws show ?thesis by (auto simp: has_offline_copy_def copies_of_def list_all_iff list_ex_iff)
  qed
  ultimately show ?thesis by blast
qed

text \<open>
  C30: An accepted message is delivered or stored. Suppose the database answers and gives new offline copies new
  identifiers, nothing was sent to everybody while the buffer of some client was full (which closes its channel), and
  the routes of the hub agree with the device table. Then the dispatcher handles a \<open>message.send\<close> that the message
  service accepts without a panic, and afterwards a device of another participant either has the message in the queue
  of its connection or has an undelivered offline copy of it, provided that its own connection, if there is one, has
  room in its buffer for the message and the sync events. For a connected device with a full buffer this fails: the
  hub drops the message, and no offline copy is made because the device counts as online.
\<close>

theorem message_is_delivered_or_stored:
  assumes "no_faults E" "ws_reach F (dp_hub s)" "wh_store (dp_hub s) c = Some k" "c \<in> set (wh_clients (dp_hub s))"
    "device_owners s" "wp_send p = Some q" "decode_map (wq_metadata q) = Some md" "decode_map (wq_visibility q) = Some vi"
    "SendMessage E (wc_user k) (send_request q md vi) (dp_conv s) = (Inr (m, ps), v)"
    "can_take (length (new_pushes (dp_conv s) v) + length ps) x (dp_hub s)"
    "fresh_offline E 0 (length (offline_targets m (map pt_user_id ps) (AllOnlineDeviceIDs (dp_hub s)) (dp_ids s))) v"
    "x \<in> set (is_devices (dp_ids s))" "dv_user_id x \<in> set (map pt_user_id ps)" "dv_user_id x \<noteq> wc_user k"
  shows "\<exists>s'. HandleMessage E c ''message.send'' p s = Some s' \<and> (got_message E m x s' \<or> has_offline_copy m x s')"
proof -
  have inv: "ws_inv (dp_hub s)" using assms(2) by (rule ws_reach_inv)
  obtain h where h: "push_events (new_pushes (dp_conv s) v) (dp_hub s) = Some h"
      "grows (dp_hub s) h (length (new_pushes (dp_conv s) v))"
    using push_events_grows [OF inv] by blast
  let ?s = "s\<lparr>dp_hub := h, dp_conv := v\<rparr>"
  note g = growsD(2,3) [OF h(2)]
  have "client_open (dp_hub s) c" using inv assms(4) by (simp add: ws_inv_def list_all_iff)
  moreover have "only_queues (dp_hub s) h" using h(2) by (simp add: grows_def)
  ultimately have o: "client_open (dp_hub ?s) c" by (simp add: only_queuesD(1))
  have b: "can_take (length ps) x (dp_hub ?s)"
  proof (cases "map_of (wh_devices (dp_hub s)) (dv_user_id x, dv_device_id x)")
    case (Some r)
    with assms(10) have "length (queue_of (dp_hub s) r) + (length (new_pushes (dp_conv s) v) + length ps) \<le> send_buffer"
      by (simp add: can_take_def)
    with growsD(5) [OF h(2), of r] g Some show ?thesis by (simp add: can_take_def)
  qed (use g in \<open>simp add: can_take_def\<close>)
  have f: "fresh_offline E 0 (length (offline_targets m (map pt_user_id ps) (AllOnlineDeviceIDs (dp_hub ?s)) (dp_ids ?s))) (dp_conv ?s)"
    using assms(11) g by (simp add: AllOnlineDeviceIDs_def)
  have "\<exists>s'. deliver E c (wc_user k) (wq_client_event_id q) m ps ?s = Some s' \<and> (got_message E m x s' \<or> has_offline_copy m x s')"
    using assms(1,5,12-14) g inv growsD(1) [OF h(2)] SendMessage_sender [OF assms(9)]
    by (intro deliver_reaches [OF _ _ o _ b _ f]) (simp_all add: device_owners_def)
  then show ?thesis using assms(3,6-9) h(1) by (simp add: HandleMessage_def handleSendMessage_def)
qed

definition demo_hub :: ws_hub where
  "demo_hub = the (ws_step env_ws (WConnect 2 2 ''b'') (the (ws_step env_ws (WConnect 1 1 ''a'') NewHub)))"

definition demo_live :: ws_state where
  "demo_live = \<lparr>dp_hub = demo_hub, dp_conv = demo_chat, dp_ids = demo_devices\<rparr>"

lemma demo_hub_reach: "ws_reach env_ws demo_hub"
proof -
  have a: "ws_step env_ws (WConnect 1 1 ''a'') NewHub \<noteq> None" by code_simp
  have b: "ws_step env_ws (WConnect 2 2 ''b'') (the (ws_step env_ws (WConnect 1 1 ''a'') NewHub)) \<noteq> None" by code_simp
  have "ws_reach env_ws (the (ws_step env_ws (WConnect 1 1 ''a'') NewHub))"
    using ws_reach.start
  proof (rule ws_reach.step)
    show "room_to (WConnect 1 1 ''a'') NewHub" "possible (WConnect 1 1 ''a'') NewHub" by code_simp+
  qed (use a in simp)
  then show ?thesis unfolding demo_hub_def
  proof (rule ws_reach.step)
    show "room_to (WConnect 2 2 ''b'') (the (ws_step env_ws (WConnect 1 1 ''a'') NewHub))"
      "possible (WConnect 2 2 ''b'') (the (ws_step env_ws (WConnect 1 1 ''a'') NewHub))" by code_simp+
  qed (use b in simp)
qed

definition demo_wire :: ws_send_message where
  "demo_wire = \<lparr>wq_conversation_id = 2000, wq_type = '''', wq_content = ''hello'', wq_metadata = RAbsent, wq_reply_to = None,
     wq_thread_id = '''', wq_visibility = RNull, wq_client_event_id = ''k''\<rparr>"

definition demo_payload :: ws_payload where
  "demo_payload = \<lparr>wp_send = Some demo_wire, wp_ack = None, wp_typing = None\<rparr>"

theorem message_is_delivered_or_stored_witness:
  "\<exists>m s'. HandleMessage (env_at 2) 1 ''message.send'' demo_payload demo_live = Some s'
     \<and> (got_message (env_at 2) m (is_devices demo_devices ! 2) s' \<or> has_offline_copy m (is_devices demo_devices ! 2) s')"
proof -
  let ?x = "is_devices demo_devices ! 2" and ?h = "dp_hub demo_live"
  have r: "send_request demo_wire None None = demo_send ''k''" by (simp add: send_request_def demo_wire_def demo_send_def)
  have ok: "succeeds (fst (SendMessage (env_at 2) 1 (demo_send ''k'') demo_chat))" by code_simp
  obtain m ps where sent: "SendMessage (env_at 2) 1 (demo_send ''k'') demo_chat = (Inr (m, ps), demo_said)"
    using succeeds_pair [OF ok] unfolding demo_said_def conv_serve.simps by (metis surj_pair)
  have e: "case SendMessage (env_at 2) 1 (demo_send ''k'') demo_chat of (Inr (m, ps), v) \<Rightarrow>
      can_take (length (new_pushes demo_chat v) + length ps) ?x ?h
      \<and> fresh_offline (env_at 2) 0 (length (offline_targets m (map pt_user_id ps) (AllOnlineDeviceIDs ?h) demo_devices)) v
      \<and> list_ex (\<lambda>u. u = 2) (map pt_user_id ps) | _ \<Rightarrow> False" by code_simp
  have "case wh_store ?h 1 of Some k \<Rightarrow> wc_user k = 1 | None \<Rightarrow> False" by code_simp
  then obtain k where c: "wh_store ?h 1 = Some k" "wc_user k = 1" by (auto split: option.splits)
  have k: "list_ex (\<lambda>i. i = 1) (wh_clients ?h)" "device_owners demo_live"
    "2 < length (is_devices demo_devices)" "dv_user_id ?x = 2" by code_simp+
  have "\<exists>s'. HandleMessage (env_at 2) 1 ''message.send'' demo_payload demo_live = Some s'
     \<and> (got_message (env_at 2) m ?x s' \<or> has_offline_copy m ?x s')"
  proof (rule message_is_delivered_or_stored [where F = env_ws and k = k and q = demo_wire and md = None and vi = None
        and ps = ps and v = demo_said])
    show "no_faults (env_at 2)" by (simp add: no_faults_def env_at_def env0_def)
    show "ws_reach env_ws ?h" using demo_hub_reach by (simp add: demo_live_def)
    show "SendMessage (env_at 2) (wc_user k) (send_request demo_wire None None) (dp_conv demo_live) = (Inr (m, ps), demo_said)"
      using sent by (simp add: c(2) r) (simp add: demo_live_def)
    show "can_take (length (new_pushes (dp_conv demo_live) demo_said) + length ps) ?x ?h"
      "fresh_offline (env_at 2) 0 (length (offline_targets m (map pt_user_id ps) (AllOnlineDeviceIDs ?h) (dp_ids demo_live))) demo_said"
      "dv_user_id ?x \<in> set (map pt_user_id ps)"
      using e sent k(4) by (simp_all add: list_ex_iff) (simp_all add: demo_live_def)
    show "?x \<in> set (is_devices (dp_ids demo_live))" using nth_mem [OF k(3)] by (simp add: demo_live_def)
  qed (use k c in \<open>auto simp: demo_payload_def demo_wire_def list_ex_iff\<close>)
  then show ?thesis by blast
qed

section \<open>Typing signals\<close>

lemma route_owner:
  assumes "ws_inv h" "map_of (wh_devices h) (u, d) = Some r" "map_of (wh_devices h) (u', d') = Some r"
  shows "u' = u"
proof -
  have "((u, d), r) \<in> set (wh_devices h)" "((u', d'), r) \<in> set (wh_devices h)" using assms(2,3) by (auto dest: map_of_SomeD)
  with assms(1) have "routed h ((u, d), r)" "routed h ((u', d'), r)" by (simp_all add: ws_inv_def list_all_iff)
  then show ?thesis by (auto simp: routed_def split: option.splits)
qed

lemma send_typing_quiet:
  assumes "ws_inv h" "u \<notin> set us" "map_of (wh_devices h) (u, d) = Some r" "send_typing me x us m h = Some h'"
  shows "queue_of h' r = queue_of h r"
  using assms
proof (induction us arbitrary: h)
  case (Cons v us)
  let ?go = "if v = me then SendToUserExceptDevice v x m h else SendToUser v m h"
  have no: "\<nexists>d. map_of (wh_devices h) (v, d) = Some r"
    using route_owner [OF Cons.prems(1,3)] Cons.prems(2) by auto
  obtain h1 where h1: "?go = Some h1" "grows h h1 1" "queue_of h1 r = queue_of h r"
    using SendToUserExceptDevice_grows [OF Cons.prems(1), of v x m] SendToUser_grows [OF Cons.prems(1), of v m] no
    by (cases "v = me") auto
  have "send_typing me x us m h1 = Some h'" using Cons.prems(4) h1(1) by simp
  with Cons.IH [OF growsD(1) [OF h1(2) Cons.prems(1)]] Cons.prems(2,3) growsD(2) [OF h1(2)] h1(3) show ?case by simp
qed simp

lemma SendMessage_client_other: "SendMessage_client c m h = Some h' \<Longrightarrow> r \<noteq> c \<Longrightarrow> queue_of h' r = queue_of h r"
  by (auto simp: SendMessage_client_def try_send_def queue_of_def split: option.splits if_splits)

lemma sendError_other: "sendError c n t s = Some s' \<Longrightarrow> r \<noteq> c \<Longrightarrow> queue_of (dp_hub s') r = queue_of (dp_hub s) r"
  by (auto simp: sendError_def reply_def dest: SendMessage_client_other)

text \<open>
  Typing signals stay in the conversation: when a client sends a typing signal, the queue of every other
  connection stays as it is unless both the sender and the user of that connection are participants of
  the conversation the signal names.
\<close>

theorem typing_stays_in_the_conversation:
  assumes "ws_reach F (dp_hub s)" "HandleMessage E c t p s = Some s'" "t = ''typing.start'' \<or> t = ''typing.stop''"
    "wp_typing p = Some i" "wh_store (dp_hub s) c = Some k" "map_of (wh_devices (dp_hub s)) (u, d) = Some r" "r \<noteq> c"
    "\<not> (list_ex (is_part i (wc_user k)) (vs_parts (dp_conv s)) \<and> list_ex (is_part i u) (vs_parts (dp_conv s)))"
  shows "queue_of (dp_hub s') r = queue_of (dp_hub s) r"
proof -
  have t: "handleTyping E c (wc_user k) (wc_device k) t p s = Some s'" using assms(2,3,5) by (auto simp: HandleMessage_def)
  show ?thesis
  proof (cases "\<exists>n e. sendError c n e s = Some s'")
    case True
    with sendError_other assms(7) show ?thesis by blast
  next
    case False
    with t assms(4) obtain ps h' where ps: "GetParticipants E i (dp_conv s) = Inr ps" "list_ex (\<lambda>x. pt_user_id x = wc_user k) ps"
      "send_typing (wc_user k) (wc_device k) (map pt_user_id ps) (marshalEnvelope t (typing_signal E i (wc_user k) (wc_device k)))
         (dp_hub s) = Some h'" "s' = s\<lparr>dp_hub := h'\<rparr>"
      by (auto simp: handleTyping_def split: if_splits sum.splits)
    from ps(1) have f: "set ps = {x \<in> set (vs_parts (dp_conv s)). pt_conversation_id x = i}"
      by (auto simp: GetParticipants_def db_find_def split: if_splits)
    with ps(2) have "list_ex (is_part i (wc_user k)) (vs_parts (dp_conv s))" by (auto simp: list_ex_iff is_part_def)
    with assms(8) have "\<not> list_ex (is_part i u) (vs_parts (dp_conv s))" by blast
    with f have "u \<notin> set (map pt_user_id ps)" by (auto simp: list_ex_iff is_part_def)
    from send_typing_quiet [OF ws_reach_inv [OF assms(1)] this assms(6) ps(3)] ps(4) show ?thesis by simp
  qed
qed

definition demo_typing :: ws_payload where
  "demo_typing = \<lparr>wp_send = None, wp_ack = None, wp_typing = Some 2001\<rparr>"

theorem typing_stays_in_the_conversation_witness:
  "queue_of (dp_hub (the (HandleMessage (env_at 2) 1 ''typing.start'' demo_typing demo_live))) 2 = queue_of (dp_hub demo_live) 2"
proof (rule typing_stays_in_the_conversation [where F = env_ws and i = 2001 and u = 2 and d = "''b''"
      and k = "the (wh_store (dp_hub demo_live) 1)" and E = "env_at 2" and c = 1 and t = "''typing.start''" and p = demo_typing])
  have "HandleMessage (env_at 2) 1 ''typing.start'' demo_typing demo_live \<noteq> None" by code_simp
  then show "HandleMessage (env_at 2) 1 ''typing.start'' demo_typing demo_live
      = Some (the (HandleMessage (env_at 2) 1 ''typing.start'' demo_typing demo_live))" by simp
  show "ws_reach env_ws (dp_hub demo_live)" using demo_hub_reach by (simp add: demo_live_def)
  have "wh_store (dp_hub demo_live) 1 \<noteq> None" by code_simp
  then show "wh_store (dp_hub demo_live) 1 = Some (the (wh_store (dp_hub demo_live) 1))" by simp
  show "map_of (wh_devices (dp_hub demo_live)) (2, ''b'') = Some 2" by code_simp
  show "\<not> (list_ex (is_part 2001 (wc_user (the (wh_store (dp_hub demo_live) 1)))) (vs_parts (dp_conv demo_live))
      \<and> list_ex (is_part 2001 2) (vs_parts (dp_conv demo_live)))" by code_simp
qed (simp_all add: demo_typing_def)

section \<open>Acknowledgements that miss\<close>

text \<open>
  The offline batch names each message by the identifier of the message, and an acknowledgement is looked up
  among the identifiers of the offline copies: a client that acknowledges all it was sent is sent it again.
\<close>

definition env_tables :: env where
  "env_tables = (env_at 2)\<lparr>e_uuid := \<lambda>t n. of_int (1000 * int (length t) + int n)\<rparr>"

definition demo_fetched :: ws_state where
  "demo_fetched = the (HandleMessage env_tables 1 ''message.send'' demo_payload demo_live)"

theorem acknowledged_copies_come_again:
  "let ids = map ms_id (vs_messages (dp_conv demo_fetched));
       s' = the (HandleMessage (env_at 3) 2 ''message.ack'' \<lparr>wp_send = None, wp_ack = Some ids, wp_typing = None\<rparr> demo_fetched)
   in ids = [8000] \<and> map offline_key (vs_offline (dp_conv s')) = [(2, ''c''), (3, ''d'')]
      \<and> list_all (\<lambda>w. om_message_id w = 8000 \<and> \<not> om_delivered w) (vs_offline (dp_conv s'))"
  by code_simp

end
