(* ===== verification/PairingProps.thy ===== *)
theory PairingProps
  imports TokenProps
begin

text \<open>
  Device pairing from end to end: the QR code that starting a pairing hands out reads back as what was put
  into it, and until it expires a new device can claim it.
\<close>

section \<open>The QR code\<close>

definition qr_fields :: "env \<Rightarrow> qr_payload \<Rightarrow> json_map" where
  "qr_fields E p = [(''version'', AInt (qr_version p)), (''server_id'', AStr (qr_server_id p)),
     (''pairing_session_id'', AStr (e_uuid_str E (qr_session_id p))), (''pairing_token'', AStr (qr_token p)),
     (''expires_at'', AInt (qr_expires_at p))]"

text \<open>What the documentation of base64, JSON and identifier parsing says of this payload: decoding gives back
  the text, the fields and the identifier that were encoded.\<close>

definition reads_back :: "env \<Rightarrow> env \<Rightarrow> qr_payload \<Rightarrow> bool" where
  "reads_back E F p \<longleftrightarrow>
     (case e_json E (qr_fields E p) of
        Inl _ \<Rightarrow> True
      | Inr text \<Rightarrow>
          (case e_unb64 F (e_b64 E text) of
             Inl _ \<Rightarrow> False
           | Inr text' \<Rightarrow>
               (case e_unjson F text' of Inl _ \<Rightarrow> False | Inr m \<Rightarrow> list_all (\<lambda>(k, v). map_of m k = Some v) (qr_fields E p))))
     \<and> e_uuid_parse F (e_uuid_str E (qr_session_id p)) = Some (qr_session_id p)"

lemma qr_roundtrip:
  assumes "encodeQRPayload E p = Inr x" "reads_back E F p"
  shows "decodeQRPayload F x = Inr p"
proof -
  from assms(1) obtain tx where t: "e_json E (qr_fields E p) = Inr tx" "x = e_b64 E tx"
    by (auto simp: encodeQRPayload_def qr_fields_def split: sum.splits)
  with assms(2) obtain tx' m where m: "e_unb64 F x = Inr tx'" "e_unjson F tx' = Inr m"
      "list_all (\<lambda>(k, v). map_of m k = Some v) (qr_fields E p)" and u: "e_uuid_parse F (e_uuid_str E (qr_session_id p)) = Some (qr_session_id p)"
    by (auto simp: reads_back_def split: sum.splits)
  from m(3) have j: "jget m ''version'' = AInt (qr_version p)" "jget m ''server_id'' = AStr (qr_server_id p)"
      "jget m ''pairing_session_id'' = AStr (e_uuid_str E (qr_session_id p))" "jget m ''pairing_token'' = AStr (qr_token p)"
      "jget m ''expires_at'' = AInt (qr_expires_at p)"
    by (simp_all add: qr_fields_def jget_def)
  show ?thesis
    by (simp add: decodeQRPayload_def m(1,2) int_field_def str_field_def uuid_field_def j u)
qed

section \<open>Claiming a fresh code\<close>

definition issued_payload :: "start_pairing_response \<Rightarrow> string \<Rightarrow> qr_payload" where
  "issued_payload r token = \<lparr>qr_version = 1, qr_server_id = pairing_server_id, qr_session_id = sp_session_id r,
     qr_token = token, qr_expires_at = sp_expires_at r\<rparr>"

lemma StartPairing_Inr:
  assumes "StartPairing E u d s = Inr (r, s1)" "e_rand E ''pairing token'' 0 = Inr token"
  shows "\<exists>h p. encodeQRPayload E (issued_payload r token) = Inr (sp_qr_payload r) \<and> e_bcrypt E token = Inr h
    \<and> is_pairings s1 = is_pairings s @ [p] \<and> (\<forall>x\<in>set (is_pairings s). ps_id x \<noteq> ps_id p)
    \<and> ps_id p = sp_session_id r \<and> ps_user_id p = u \<and> ps_token_hash p = h \<and> ps_used_at p = None
    \<and> ps_qr_hash p = e_sha256_hex E (sp_qr_payload r) \<and> sp_expires_at r = unix (ps_expires_at p)"
  using assms
  by (auto simp: StartPairing_def CreatePairingSession_def db_insert_def list_ex_iff issued_payload_def Let_def
      split: sum.splits if_splits)

lemma unix_less: "unix t < unix t' \<Longrightarrow> t < t'"
  unfolding unix_def by (meson linorder_not_less zdiv_mono1 zero_less_numeral)

text \<open>A row is kept while it is the only one of its session and has not changed.\<close>

definition only_session :: "pairing_session \<Rightarrow> id_state \<Rightarrow> bool" where
  "only_session p s \<longleftrightarrow> filter (\<lambda>x. ps_id x = ps_id p) (is_pairings s) = [p]"

lemma filter_upd_where:
  assumes "\<And>x. P x \<Longrightarrow> \<not> Q x" "\<And>x. P (f x) \<Longrightarrow> P x"
  shows "filter P (upd_where Q f t) = filter P t"
  using assms by (induction t) (auto simp: upd_where_def)

text \<open>The requests between the start and the claim, as they are counted by \<open>wins\<close>.\<close>

fun pairing_run :: "(claim_req + (env \<times> uuid \<times> string) + account_req) list \<Rightarrow> id_state \<Rightarrow> id_state" where
  "pairing_run [] s = s"
| "pairing_run (Inl q # xs) s = pairing_run xs (snd (claim_pairing q s))"
| "pairing_run (Inr x # xs) s = pairing_run xs (pairing_serve x s)"

lemma claim_keeps_session:
  assumes "only_session p s" "claimed_session q = Some (ps_id p) \<Longrightarrow> \<not> succeeds (fst (claim_pairing q s))"
  shows "only_session p (snd (claim_pairing q s))"
proof -
  obtain E req where q: "q = (E, req)" by (cases q)
  show ?thesis
  proof (cases "ClaimPairing E req s")
    case (Inr ds)
    then obtain d s' where c: "ClaimPairing E req s = Inr (d, s')" by (cases ds) simp
    then obtain payload p' where ch: "check_pairing_claim E req s = Inr (payload, p')"
      and upd: "is_pairings s' = upd_where (\<lambda>x. ps_id x = ps_id p' \<and> ps_used_at x = None)
         (\<lambda>x. x\<lparr>ps_used_at := Some (e_now E), ps_claimed_by_device := dv_device_id d\<rparr>) (is_pairings s)"
      by (rule ClaimPairing_Inr)
    have "claimed_session q = Some (ps_id p')" using check_pairing_claim_Inr(1,3) [OF ch] q by simp
    with assms(2) c q have "ps_id p' \<noteq> ps_id p" by auto
    then have "filter (\<lambda>x. ps_id x = ps_id p) (is_pairings s') = filter (\<lambda>x. ps_id x = ps_id p) (is_pairings s)"
      unfolding upd by (intro filter_upd_where) auto
    with assms(1) c q show ?thesis by (simp add: only_session_def)
  qed (use q assms(1) in simp)
qed

lemma serve_keeps_session: "only_session p s \<Longrightarrow> only_session p (pairing_serve x s)"
proof (cases x)
  case (Inl y)
  assume p: "only_session p s"
  then have "p \<in> set (is_pairings s)" unfolding only_session_def by (metis filter_eq_ConsD in_set_conv_decomp)
  with p Inl show ?thesis
    by (cases y) (auto simp: only_session_def filter_empty_conv split: sum.split dest!: StartPairing_pairings)
qed (simp add: only_session_def)

lemma run_keeps_session:
  "only_session p s \<Longrightarrow> wins claim_pairing pairing_serve claimed_session (Some (ps_id p)) xs s = 0
   \<Longrightarrow> only_session p (pairing_run xs s)"
proof (induction xs s rule: pairing_run.induct)
  case (2 q xs s)
  have "claimed_session q = Some (ps_id p) \<Longrightarrow> \<not> succeeds (fst (claim_pairing q s))"
    using 2(3) by (auto split: prod.splits sum.splits)
  from 2(1) [OF claim_keeps_session [OF 2(2) this]] 2(3) show ?case by (auto split: prod.splits sum.splits if_splits)
qed (simp_all add: serve_keeps_session)

lemma GetPairingSession_only:
  assumes "no_faults F" "only_session p s"
  shows "GetPairingSession F (ps_id p) s = Inr p"
  using assms by (simp add: GetPairingSession_def db_first_def first_by_def only_session_def)

text \<open>
  C31: A pairing code works. What starting a pairing hands out reads back as exactly the session, token and expiry that
  were put into it, and until it expires it can be claimed, whatever pairings, claims and account requests are served
  in between, unless one of them has claimed the session: when the libraries decode what they encoded and the database
  answers, a claim by a device with an unused identifier that signed the challenge succeeds and adds that device for
  the user who started the pairing.
\<close>

theorem issued_code_can_be_claimed:
  assumes "StartPairing E u d s = Inr (r, s1)" "e_rand E ''pairing token'' 0 = Inr token"
    and "wins claim_pairing pairing_serve claimed_session (Some (sp_session_id r)) xs s1 = 0"
    and "reads_back E F (issued_payload r token)" "\<And>h. e_bcrypt E token = Inr h \<Longrightarrow> e_bcrypt_ok F h token"
    and "e_sha256_hex F = e_sha256_hex E" "no_faults F" "unix (e_now F) < sp_expires_at r"
    and "cp_qr_payload req = sp_qr_payload r"
    and "e_verify F (canonicalClaimChallenge F (issued_payload r token) req) (cp_signature req) (cp_new_device_pubkey req) = Inr True"
    and "\<not> list_ex (\<lambda>x. dv_device_id x = cp_new_device_id req \<or> dv_id x = e_uuid F ''devices'' 0) (is_devices (pairing_run xs s1))"
  shows "decodeQRPayload F (sp_qr_payload r) = Inr (issued_payload r token)
     \<and> (\<exists>dv s2. ClaimPairing F req (pairing_run xs s1) = Inr (dv, s2) \<and> is_devices s2 = is_devices (pairing_run xs s1) @ [dv]
          \<and> dv_user_id dv = u \<and> dv_device_id dv = cp_new_device_id req)"
proof -
  define t where "t = pairing_run xs s1"
  obtain h p where p: "encodeQRPayload E (issued_payload r token) = Inr (sp_qr_payload r)" "e_bcrypt E token = Inr h"
    "is_pairings s1 = is_pairings s @ [p]" "\<forall>x\<in>set (is_pairings s). ps_id x \<noteq> ps_id p"
    "ps_id p = sp_session_id r" "ps_user_id p = u" "ps_token_hash p = h" "ps_used_at p = None"
    "ps_qr_hash p = e_sha256_hex E (sp_qr_payload r)" "sp_expires_at r = unix (ps_expires_at p)"
    using StartPairing_Inr [OF assms(1,2)] by blast
  let ?pl = "issued_payload r token"
  have dec: "decodeQRPayload F (sp_qr_payload r) = Inr ?pl" by (rule qr_roundtrip [OF p(1) assms(4)])
  have "only_session p s1" using p(3,4) by (simp add: only_session_def filter_empty_conv)
  then have only: "only_session p t" using assms(3) p(5) by (simp add: t_def run_keeps_session)
  have early: "e_now F < ps_expires_at p" using unix_less assms(8) p(10) by simp
  have get: "GetPairingSession F (sp_session_id r) t = Inr p" using GetPairingSession_only [OF assms(7) only] p(5) by simp
  have nodev: "GetDevice F 0 (cp_new_device_id req) t = Inl ErrRecordNotFound"
  proof -
    have "filter (\<lambda>x. dv_device_id x = cp_new_device_id req) (is_devices t) = []"
      using assms(11) by (auto simp: filter_empty_conv list_ex_iff t_def)
    then show ?thesis using assms(7) by (simp add: GetDevice_def db_first_def first_by_def)
  qed
  have c: "check_pairing_claim F req t = Inr (?pl, p)"
    using dec early get nodev p(7-9) assms(5,6,8-10) p(2)
    by (simp add: check_pairing_claim_def) (simp add: issued_payload_def)
  let ?d = "\<lparr>dv_id = e_uuid F ''devices'' 0, dv_user_id = ps_user_id p, dv_device_id = cp_new_device_id req,
     dv_device_name = (if cp_new_device_name req = '''' then ''New Device'' else cp_new_device_name req),
     dv_pubkey = cp_new_device_pubkey req, dv_status = ''active'', dv_paired_at = e_now F,
     dv_last_seen_at = None, dv_revoked_at = None, dv_revoked_by = None\<rparr>"
  have "filter (\<lambda>x. ps_id x = ps_id p \<and> ps_used_at x = None) (is_pairings t) = filter (\<lambda>x. ps_used_at x = None) [p]"
    using only by (simp only: only_session_def [symmetric] filter_filter [symmetric]) (simp add: only_session_def conj_commute)
  then have "count_where (\<lambda>x. ps_id x = ps_id p \<and> ps_used_at x = None) (is_pairings t) = 1"
    using p(8) by (simp add: count_where_def)
  moreover have "\<not> list_ex (dv_clash ?d) (is_devices t)" using assms(11) by (auto simp: list_ex_iff dv_clash_def t_def)
  moreover have "db_first F ''ClaimPairingSession.lock'' 0 ps_id (\<lambda>x. ps_id x = ps_id p) (is_pairings t) = Inr p"
    using get p(5) assms(7) by (simp add: GetPairingSession_def db_first_def)
  ultimately obtain s2 where s2: "ClaimPairingSession F (ps_id p) ?d t = Inr s2" "is_devices s2 = is_devices t @ [?d]"
    using early p(8) assms(7) by (auto simp: ClaimPairingSession_def CreateDevice_def db_insert_def db_update_def)
  with c p(6) have "\<exists>dv s2. ClaimPairing F req t = Inr (dv, s2) \<and> is_devices s2 = is_devices t @ [dv]
      \<and> dv_user_id dv = u \<and> dv_device_id dv = cp_new_device_id req" by (simp add: ClaimPairing_def Let_def)
  with dec show ?thesis unfolding t_def by (rule conjI)
qed

text \<open>Libraries that read back the code of the demo, two seconds later.\<close>

definition env_fresh :: env where
  "env_fresh = (env_claim 2)\<lparr>e_unjson := \<lambda>_. Inr [(''version'', AInt 1), (''server_id'', AStr ''default''),
       (''pairing_session_id'', AStr ''2000''), (''pairing_token'', AStr ''r''), (''expires_at'', AInt 1700000121)]\<rparr>"

text \<open>Between the start and the claim the user starts a second pairing, which draws another identifier.\<close>

definition env_second :: env where
  "env_second = (env_at 2)\<lparr>e_uuid := \<lambda>t n. 3000, e_uuid_str := \<lambda>_. ''q''\<rparr>"

definition demo_between :: "(claim_req + (env \<times> uuid \<times> string) + account_req) list" where
  "demo_between = [Inr (Inl (env_second, 7, ''laptop''))]"

lemma demo_between_pairs: "length (is_pairings (pairing_run demo_between pairing_started)) = 2"
  by code_simp

theorem issued_code_can_be_claimed_witness:
  "\<exists>dv s2. ClaimPairing env_fresh (demo_claim ''tablet'') (pairing_run demo_between pairing_started) = Inr (dv, s2)
     \<and> is_devices s2 = is_devices (pairing_run demo_between pairing_started) @ [dv] \<and> dv_user_id dv = 7 \<and> dv_device_id dv = ''tablet''"
proof -
  define x where "x = projr (StartPairing (env_at 1) 7 ''laptop'' demo_account)"
  have s: "StartPairing (env_at 1) 7 ''laptop'' demo_account = Inr (fst x, pairing_started)"
    unfolding x_def pairing_started_def prod.collapse by (rule succeeds_projr) code_simp
  have e: "reads_back (env_at 1) env_fresh (issued_payload (fst x) ''r'')" unfolding x_def by code_simp
  have t: "unix (e_now env_fresh) < sp_expires_at (fst x)" unfolding x_def by code_simp
  have d: "\<not> list_ex (\<lambda>x. dv_device_id x = ''tablet'' \<or> dv_id x = e_uuid env_fresh ''devices'' 0)
      (is_devices (pairing_run demo_between pairing_started))" by code_simp
  have n: "cp_new_device_id (demo_claim ''tablet'') = ''tablet''" by (simp add: demo_claim_def)
  have "\<exists>dv s2. ClaimPairing env_fresh (demo_claim ''tablet'') (pairing_run demo_between pairing_started) = Inr (dv, s2)
     \<and> is_devices s2 = is_devices (pairing_run demo_between pairing_started) @ [dv] \<and> dv_user_id dv = 7
     \<and> dv_device_id dv = cp_new_device_id (demo_claim ''tablet'')"
  proof (rule conjunct2 [OF issued_code_can_be_claimed [OF s _ _ e _ _ _ t]])
    show "wins claim_pairing pairing_serve claimed_session (Some (sp_session_id (fst x))) demo_between pairing_started = 0"
      by (simp add: demo_between_def)
    show "cp_qr_payload (demo_claim ''tablet'') = sp_qr_payload (fst x)" by (simp add: demo_claim_def x_def)
    show "\<not> list_ex (\<lambda>x. dv_device_id x = cp_new_device_id (demo_claim ''tablet'') \<or> dv_id x = e_uuid env_fresh ''devices'' 0)
       (is_devices (pairing_run demo_between pairing_started))" unfolding n by (rule d)
  qed (simp_all add: env_fresh_def env_claim_def env_at_def env0_def no_faults_def)
  then show ?thesis unfolding n .
qed

end
