(* ===== verification/SageManifest.thy ===== *)
theory SageManifest
  imports SkillHub "HOL-Library.List_Lexorder" "HOL-Library.Char_ord"
begin

text \<open>
  The validator of plugin manifests (\<open>internal/service/sage_manifest_validator.go\<close>) and the scanner
  that looks for suspicious text in them (\<open>internal/service/governance_scanner.go\<close>).

  \<open>net/url\<close> and the text of floating-point numbers are parameters. Decoding a JSON object into the
  manifest struct follows the field tags; keys that differ from a tag in case only, which
  \<open>encoding/json\<close> also accepts, are taken as unknown.
\<close>

section \<open>Plugin keys\<close>

text \<open>Regular expressions as far as the pattern needs them, matched by derivatives.\<close>

datatype regex = Nothing | Empty | Chars string | Cat regex regex | Or regex regex | Star regex

primrec nullable :: "regex \<Rightarrow> bool" where
  "nullable Nothing \<longleftrightarrow> False"
| "nullable Empty \<longleftrightarrow> True"
| "nullable (Chars cs) \<longleftrightarrow> False"
| "nullable (Cat a b) \<longleftrightarrow> nullable a \<and> nullable b"
| "nullable (Or a b) \<longleftrightarrow> nullable a \<or> nullable b"
| "nullable (Star a) \<longleftrightarrow> True"

primrec deriv :: "char \<Rightarrow> regex \<Rightarrow> regex" where
  "deriv c Nothing = Nothing"
| "deriv c Empty = Nothing"
| "deriv c (Chars cs) = (if c \<in> set cs then Empty else Nothing)"
| "deriv c (Cat a b) = (if nullable a then Or (Cat (deriv c a) b) (deriv c b) else Cat (deriv c a) b)"
| "deriv c (Or a b) = Or (deriv c a) (deriv c b)"
| "deriv c (Star a) = Cat (deriv c a) (Star a)"

definition regex_match :: "regex \<Rightarrow> string \<Rightarrow> bool" where
  "regex_match r s \<longleftrightarrow> nullable (fold deriv s r)"

definition lower_letters :: string where
  "lower_letters = ''abcdefghijklmnopqrstuvwxyz''"

definition key_segment :: regex where
  "key_segment = Cat (Chars ''.'') (Cat (Chars alnum) (Star (Chars (alnum @ ''-''))))"

definition sagePluginKeyPattern :: regex where
  "sagePluginKeyPattern =
     Cat (Chars lower_letters) (Cat (Star (Chars alnum)) (Cat key_segment (Star key_segment)))"

section \<open>Risks\<close>

definition riskRank :: "string \<Rightarrow> int" where
  "riskRank risk =
     (let r = trim (to_lower risk) in
      if r = ''low'' then 0 else if r = ''medium'' then 1 else if r = ''high'' then 2 else if r = ''critical'' then 3 else - 1)"

definition validSAGERisk :: "string \<Rightarrow> bool" where
  "validSAGERisk risk \<longleftrightarrow> 0 \<le> riskRank risk"

definition knownSAGEPermissions :: "(string \<times> string) list" where
  "knownSAGEPermissions =
     [(''context.profile.read'', ''medium''), (''context.memory.read'', ''high''), (''context.calendar.read'', ''medium''),
      (''context.location.read'', ''high''), (''context.files.read'', ''high''), (''context.contacts.read'', ''high''),
      (''communication.message.draft'', ''medium''), (''communication.message.send'', ''high''),
      (''communication.email.draft'', ''medium''), (''communication.email.send'', ''high''),
      (''communication.social.publish'', ''high''), (''transaction.booking.create'', ''high''),
      (''transaction.order.create'', ''high''), (''transaction.payment.initiate'', ''critical''),
      (''transaction.subscription.create'', ''critical''), (''local.file.write'', ''high''),
      (''local.browser.open'', ''medium''), (''local.browser.operate'', ''high''),
      (''local.notification.schedule'', ''medium''), (''local.task.schedule'', ''medium''),
      (''plugin.api.call'', ''low''), (''plugin.callback.send'', ''low''), (''third_party.api.call'', ''medium'')]"

text \<open>Reading the table with a missing key gives the empty string.\<close>

definition known_risk :: "string \<Rightarrow> string" where
  "known_risk key = (case map_of knownSAGEPermissions key of None \<Rightarrow> '''' | Some r \<Rightarrow> r)"

section \<open>The manifest\<close>

record sage_endpoints =
  ep_manifest :: string
  ep_flow :: string
  ep_callback :: string
  ep_health :: string

record sage_permission =
  sp_key :: string
  sp_required :: bool
  sp_risk :: string
  sp_requires_user_confirmation :: bool
  sp_reason :: string

record sage_manifest =
  sn_sage_version :: string
  sn_plugin_key :: string
  sn_name :: string
  sn_version :: string
  sn_description :: string
  sn_developer_name :: string
  sn_developer_website :: string
  sn_developer_email :: string
  sn_endpoints :: sage_endpoints
  sn_trigger_intents :: "string list"
  sn_permissions :: "sage_permission list"
  sn_privacy :: json_map
  sn_billing :: json_map

text \<open>Decoding one field: a missing one and \<open>null\<close> leave the zero value, another type is an error.\<close>

definition decode_error :: error where
  "decode_error = Errorf ''json: cannot unmarshal value into Go struct field''"

definition decode_string :: "any \<Rightarrow> string result" where
  "decode_string v = (case v of AStr s \<Rightarrow> Inr s | ANil \<Rightarrow> Inr '''' | _ \<Rightarrow> Inl decode_error)"

definition decode_bool :: "any \<Rightarrow> bool result" where
  "decode_bool v = (case v of ABool b \<Rightarrow> Inr b | ANil \<Rightarrow> Inr False | _ \<Rightarrow> Inl decode_error)"

definition decode_object :: "any \<Rightarrow> json_map result" where
  "decode_object v = (case v of AMap m \<Rightarrow> Inr m | ANil \<Rightarrow> Inr [] | _ \<Rightarrow> Inl decode_error)"

fun decode_list :: "(any \<Rightarrow> 'a result) \<Rightarrow> any list \<Rightarrow> 'a list result" where
  "decode_list f [] = Inr []"
| "decode_list f (x # xs) =
     (case f x of Inl e \<Rightarrow> Inl e | Inr y \<Rightarrow> (case decode_list f xs of Inl e \<Rightarrow> Inl e | Inr ys \<Rightarrow> Inr (y # ys)))"

definition decode_array :: "(any \<Rightarrow> 'a result) \<Rightarrow> any \<Rightarrow> 'a list result" where
  "decode_array f v = (case v of ASeq xs \<Rightarrow> decode_list f xs | ANil \<Rightarrow> Inr [] | _ \<Rightarrow> Inl decode_error)"

definition decode_endpoints :: "any \<Rightarrow> sage_endpoints result" where
  "decode_endpoints v =
     (case decode_object v of
        Inl e \<Rightarrow> Inl e
      | Inr m \<Rightarrow>
          (case (decode_string (jget m ''manifest''), decode_string (jget m ''flow''), decode_string (jget m ''callback''),
                 decode_string (jget m ''health'')) of
             (Inr a, Inr b, Inr c, Inr d) \<Rightarrow> Inr \<lparr>ep_manifest = a, ep_flow = b, ep_callback = c, ep_health = d\<rparr>
           | _ \<Rightarrow> Inl decode_error))"

definition decode_permission :: "any \<Rightarrow> sage_permission result" where
  "decode_permission v =
     (case decode_object v of
        Inl e \<Rightarrow> Inl e
      | Inr m \<Rightarrow>
          (case (decode_string (jget m ''key''), decode_bool (jget m ''required''), decode_string (jget m ''risk''),
                 decode_bool (jget m ''requires_user_confirmation''), decode_string (jget m ''reason'')) of
             (Inr a, Inr b, Inr c, Inr d, Inr e) \<Rightarrow>
               Inr \<lparr>sp_key = a, sp_required = b, sp_risk = c, sp_requires_user_confirmation = d, sp_reason = e\<rparr>
           | _ \<Rightarrow> Inl decode_error))"

definition decode_developer :: "any \<Rightarrow> (string \<times> string \<times> string) result" where
  "decode_developer v =
     (case decode_object v of
        Inl e \<Rightarrow> Inl e
      | Inr m \<Rightarrow>
          (case (decode_string (jget m ''name''), decode_string (jget m ''website''), decode_string (jget m ''support_email'')) of
             (Inr a, Inr b, Inr c) \<Rightarrow> Inr (a, b, c)
           | _ \<Rightarrow> Inl decode_error))"

definition decode_manifest :: "json_map \<Rightarrow> sage_manifest result" where
  "decode_manifest m =
     (case (decode_string (jget m ''sage_version''), decode_string (jget m ''plugin_key''), decode_string (jget m ''name''),
            decode_string (jget m ''version''), decode_string (jget m ''description''), decode_developer (jget m ''developer''),
            decode_endpoints (jget m ''endpoints''), decode_array decode_string (jget m ''trigger_intents''),
            decode_array decode_permission (jget m ''permissions''), decode_object (jget m ''privacy''),
            decode_object (jget m ''billing'')) of
        (Inr sv, Inr key, Inr name, Inr version, Inr description, Inr (dn, dw, de), Inr eps, Inr intents, Inr perms, Inr pr, Inr bi) \<Rightarrow>
          Inr \<lparr>sn_sage_version = sv, sn_plugin_key = key, sn_name = name, sn_version = version, sn_description = description,
               sn_developer_name = dn, sn_developer_website = dw, sn_developer_email = de, sn_endpoints = eps,
               sn_trigger_intents = intents, sn_permissions = perms, sn_privacy = pr, sn_billing = bi\<rparr>
      | _ \<Rightarrow> Inl decode_error)"

section \<open>Checks\<close>

definition validateRequired :: "sage_manifest \<Rightarrow> string list" where
  "validateRequired m =
     (if trim (sn_sage_version m) = '''' then [''sage_version is required''] else [])
     @ (if trim (sn_plugin_key m) = '''' then [''plugin_key is required'']
        else if \<not> regex_match sagePluginKeyPattern (trim (sn_plugin_key m))
        then [''plugin_key must be reverse-DNS lowercase text''] else [])
     @ (if trim (sn_name m) = '''' then [''name is required''] else [])
     @ (if trim (sn_version m) = '''' then [''version is required''] else [])
     @ (if trim (sn_description m) = '''' then [''description is required''] else [])
     @ (if trim (sn_developer_name m) = '''' then [''developer.name is required''] else [])
     @ (if sn_trigger_intents m = [] then [''trigger_intents requires at least one item''] else [])"

text \<open>\<open>P\<close> is \<open>url.Parse\<close>, as far as it is used: the scheme and the host.\<close>

definition isValidSAGEURL :: "(string \<Rightarrow> (string \<times> string) option) \<Rightarrow> string \<Rightarrow> bool" where
  "isValidSAGEURL P value \<longleftrightarrow>
     (case P value of
        None \<Rightarrow> False
      | Some (scheme, host) \<Rightarrow>
          host \<noteq> '''' \<and> (scheme = ''https''
            \<or> scheme = ''http'' \<and> (has_prefix host ''localhost'' \<or> has_prefix host ''127.0.0.1'')))"

text \<open>The source ranges over a map here, so the order of these errors is not determined; the model keeps the
  order of the literal.\<close>

definition validateEndpoints :: "(string \<Rightarrow> (string \<times> string) option) \<Rightarrow> sage_manifest \<Rightarrow> string list" where
  "validateEndpoints P m =
     (if trim (ep_flow (sn_endpoints m)) = '''' then [''endpoints.flow is required''] else [])
     @ map (\<lambda>e. fst e @ '' must be an absolute https URL'')
         (filter (\<lambda>e. trim (snd e) \<noteq> '''' \<and> \<not> isValidSAGEURL P (trim (snd e)))
            [(''manifest'', ep_manifest (sn_endpoints m)), (''flow'', ep_flow (sn_endpoints m)),
             (''callback'', ep_callback (sn_endpoints m)), (''health'', ep_health (sn_endpoints m)),
             (''developer.website'', sn_developer_website m)])"

text \<open>The errors and the warnings for the permissions, given the keys already seen.\<close>

fun check_permissions :: "string list \<Rightarrow> sage_permission list \<Rightarrow> string list \<times> string list" where
  "check_permissions seen [] = ([], [])"
| "check_permissions seen (p # ps) =
     (let key = trim (sp_key p) in
      if key = '''' then (case check_permissions seen ps of (es, ws) \<Rightarrow> (''permission key is required'' # es, ws))
      else
        let dup = (if key \<in> set seen then [''duplicate permission: '' @ key] else []);
            known = map_of knownSAGEPermissions key \<noteq> None;
            inferred = (if known then known_risk key else ''medium'');
            unknown = (if known then [] else [''unknown permission: '' @ key]);
            missing = (if trim (sp_risk p) = '''' then [''permission '' @ key @ '' missing risk; inferred '' @ inferred] else []);
            risk = (if trim (sp_risk p) = '''' then inferred else trim (sp_risk p));
            bad = (if \<not> validSAGERisk risk then [''invalid risk for permission '' @ key]
                   else if riskRank ''high'' \<le> riskRank risk \<and> \<not> sp_requires_user_confirmation p
                   then [''high-risk permission '' @ key @ '' requires user confirmation''] else [])
        in case check_permissions (key # seen) ps of (es, ws) \<Rightarrow> (dup @ bad @ es, unknown @ missing @ ws))"

definition validatePermissions :: "sage_manifest \<Rightarrow> string list \<times> string list" where
  "validatePermissions m = check_permissions [] (sn_permissions m)"

section \<open>Summary of the permissions\<close>

definition summary_risk :: "sage_permission \<Rightarrow> string" where
  "summary_risk p =
     (let r = trim (to_lower (sp_risk p)); r1 = (if r = '''' then known_risk (trim (sp_key p)) else r)
      in if validSAGERisk r1 then r1 else ''medium'')"

fun highest_risk :: "string \<Rightarrow> string list \<Rightarrow> string" where
  "highest_risk h [] = h"
| "highest_risk h (r # rs) = highest_risk (if riskRank h < riskRank r then r else h) rs"

definition summarizeSAGEPermissions :: "sage_permission list \<Rightarrow> json_map \<times> json_map" where
  "summarizeSAGEPermissions perms =
     (let ps = filter (\<lambda>p. trim (sp_key p) \<noteq> '''') perms;
          risks = map summary_risk ps;
          keys = sort (map (trim \<circ> sp_key) ps);
          highRisk = sort (map (trim \<circ> sp_key) (filter (\<lambda>p. riskRank ''high'' \<le> riskRank (summary_risk p)) ps));
          counts = map (\<lambda>r. (r, AInt (int (count_where (\<lambda>x. x = r) risks)))) [''low'', ''medium'', ''high'', ''critical'']
      in ([(''highest_risk'', AStr (highest_risk ''low'' risks)), (''counts'', AMap counts),
           (''high_risk_permissions'', ASeq (map AStr highRisk))],
          [(''permissions'', ASeq (map AStr keys)), (''total'', AInt (int (length keys)))]))"

section \<open>The verdict\<close>

record sage_verdict =
  sv_manifest :: sage_manifest
  sv_snapshot :: json_map
  sv_manifest_hash :: string
  sv_valid :: bool
  sv_errors :: "string list"
  sv_warnings :: "string list"
  sv_risk_summary :: json_map
  sv_permission_summary :: json_map

definition hashNormalizedJSON :: "env \<Rightarrow> json_map \<Rightarrow> string" where
  "hashNormalizedJSON E m = ''sha256:'' @ e_sha256_hex E (case e_json E m of Inl _ \<Rightarrow> '''' | Inr b \<Rightarrow> b)"

definition ValidateSage :: "env \<Rightarrow> (string \<Rightarrow> (string \<times> string) option) \<Rightarrow> json_map option \<Rightarrow> sage_verdict result" where
  "ValidateSage E P raw0 =
     (let raw = (case raw0 of None \<Rightarrow> [] | Some m \<Rightarrow> m) in
      case e_json E raw of
        Inl e \<Rightarrow> Inl e
      | Inr b \<Rightarrow>
          (case e_unjson E b of
             Inl e \<Rightarrow> Inl e
           | Inr decoded \<Rightarrow>
               (case decode_manifest decoded of
                  Inl e \<Rightarrow> Inl e
                | Inr m \<Rightarrow>
                    let snapshot = cloneMap E raw;
                        pe = validatePermissions m;
                        errors = validateRequired m @ validateEndpoints P m @ fst pe;
                        summary = summarizeSAGEPermissions (sn_permissions m)
                    in Inr \<lparr>sv_manifest = m, sv_snapshot = snapshot, sv_manifest_hash = hashNormalizedJSON E snapshot,
                            sv_valid = (errors = []), sv_errors = errors, sv_warnings = snd pe,
                            sv_risk_summary = fst summary, sv_permission_summary = snd summary\<rparr>)))"

section \<open>The scanner\<close>

text \<open>\<open>fmt.Sprint\<close> of a JSON value: maps in the order of their keys. \<open>F\<close> gives the text of numbers that are
  not integers and of times.\<close>

definition unwords :: "string list \<Rightarrow> string" where
  "unwords ws = (case ws of [] \<Rightarrow> '''' | w # vs \<Rightarrow> w @ concat (map (\<lambda>v. '' '' @ v) vs))"

fun sprint :: "(any \<Rightarrow> string) \<Rightarrow> any \<Rightarrow> string" where
  "sprint F ANil = ''<nil>''"
| "sprint F (ABool b) = (if b then ''true'' else ''false'')"
| "sprint F (AInt n) = int_dec n"
| "sprint F (AStr s) = s"
| "sprint F (ASeq xs) = ''['' @ unwords (map (sprint F) xs) @ '']''"
| "sprint F (AMap m) =
     ''map['' @ unwords (map (\<lambda>(k, t). k @ '':'' @ t) (sort_key fst (map (\<lambda>(k, v). (k, sprint F v)) m))) @ '']''"
| "sprint F v = F v"

record scanner_finding =
  sx_code :: string
  sx_severity :: string
  sx_message :: string
  sx_metadata :: json_map

definition injection_phrases :: "string list" where
  "injection_phrases = [''ignore previous instructions'', ''ignore all previous instructions'', ''reveal hidden system prompts'',
     ''bypass safety'', ''disable guardrails'']"

definition ScanSAGEManifest :: "(any \<Rightarrow> string) \<Rightarrow> string \<Rightarrow> string \<Rightarrow> json_map \<Rightarrow> scanner_finding list" where
  "ScanSAGEManifest F pluginID versionID manifest =
     (let content = to_lower (sprint F (AMap manifest));
          riskLevel = to_lower (trim (sprint F (jget manifest ''risk_level'')));
          permissions = to_lower (sprint F (jget manifest ''permissions''))
      in map (\<lambda>phrase. \<lparr>sx_code = ''prompt_injection_phrase'', sx_severity = ''high'',
                 sx_message = ''Manifest text contains prompt-injection phrase: '' @ phrase,
                 sx_metadata = [(''phrase'', AStr phrase), (''plugin_id'', AStr pluginID), (''version_id'', AStr versionID)]\<rparr>)
           (filter (contains_str content) injection_phrases)
         @ (if contains_str permissions ''payments.write'' \<and> riskRank riskLevel < riskRank ''high''
            then [\<lparr>sx_code = ''risk_level_mismatch'', sx_severity = ''high'',
                   sx_message = ''payments.write permission requires high or critical risk level'',
                   sx_metadata = [(''permission'', AStr ''sage.permission.payments.write''),
                                  (''declared_risk_level'', AStr riskLevel)]\<rparr>] else []))"

definition CreateScanResult :: "env \<Rightarrow> nat \<Rightarrow> scan_result \<Rightarrow> gov_state \<Rightarrow> gov_state result" where
  "CreateScanResult E n r s =
     (case db_insert E ''CreateScanResult'' n (\<lambda>r x. sr_id x = sr_id r) r (gs_scans s) of
        Inl e \<Rightarrow> Inl e | Inr t \<Rightarrow> Inr (s\<lparr>gs_scans := t\<rparr>))"

text \<open>The findings are inserted one by one; an error stops the loop and keeps those before it.\<close>

fun PersistFindings :: "env \<Rightarrow> nat \<Rightarrow> string \<Rightarrow> string \<Rightarrow> scanner_finding list \<Rightarrow> gov_state \<Rightarrow> error option \<times> gov_state" where
  "PersistFindings E n subjectType subjectID [] s = (None, s)"
| "PersistFindings E n subjectType subjectID (f # fs) s =
     (case CreateScanResult E n \<lparr>sr_id = e_uuid E ''governance_scan_results'' n, sr_created_at = e_now E,
             sr_subject_type = subjectType, sr_subject_id = subjectID, sr_scanner = ''deterministic-sage-manifest-v1'',
             sr_severity = sx_severity f, sr_status = ''open'', sr_message = sx_message f,
             sr_details = [(''code'', AStr (sx_code f)), (''metadata'', AMap (sx_metadata f))],
             sr_resolved_at = None, sr_resolved_by = None\<rparr> s of
        Inl e \<Rightarrow> (Some e, s)
      | Inr s1 \<Rightarrow> PersistFindings E (n + 1) subjectType subjectID fs s1)"

end
