(* ===== verification/Sage.thy ===== *)
theory Sage
  imports SageManifest Tokens Float64
begin

text \<open>
  The plugin service (\<open>internal/service/sage_plugin_service.go\<close>,
  \<open>internal/repository/sage_plugin_repo.go\<close>, \<open>internal/model/sage_plugin_models.go\<close>): plugins,
  their versions and reviews, installations, permission grants, invocations, execution reports and the
  usage ledger. It calls the object store, the governance enforcer and scanner, the sensitive operations, the
  audit log and the sync log, all of which the server configures; the states of those are part of its state.
\<close>

section \<open>Tables\<close>

record sage_plugin =
  gp_id :: uuid
  gp_created_at :: time
  gp_updated_at :: time
  gp_plugin_key :: string
  gp_developer_id :: uuid
  gp_name :: string
  gp_description :: string
  gp_category :: string
  gp_icon_object_id :: "uuid option"
  gp_homepage_url :: string
  gp_manifest_url :: string
  gp_flow_url :: string
  gp_callback_url :: string
  gp_health_url :: string
  gp_status :: string
  gp_review_status :: string
  gp_visibility :: string
  gp_risk_level :: string
  gp_trust_level :: string
  gp_latest_version_id :: "uuid option"
  gp_approved_version_id :: "uuid option"

record sage_version =
  gv_id :: uuid
  gv_created_at :: time
  gv_updated_at :: time
  gv_plugin_id :: uuid
  gv_version :: string
  gv_sage_version :: string
  gv_manifest_hash :: string
  gv_manifest_snapshot :: json_map
  gv_package_object_id :: "uuid option"
  gv_validation_status :: string
  gv_validation_errors :: "string list"
  gv_validation_warnings :: "string list"
  gv_risk_summary :: json_map
  gv_permission_summary :: json_map
  gv_status :: string
  gv_submitted_at :: "time option"
  gv_approved_at :: "time option"
  gv_rejected_at :: "time option"

record sage_review =
  gw_id :: uuid
  gw_created_at :: time
  gw_plugin_id :: uuid
  gw_version_id :: uuid
  gw_reviewer_id :: uuid
  gw_decision :: string
  gw_reason :: string
  gw_security_findings :: "string list"
  gw_privacy_findings :: "string list"
  gw_policy_findings :: "string list"

record sage_installation =
  gi_id :: uuid
  gi_created_at :: time
  gi_updated_at :: time
  gi_user_id :: uuid
  gi_plugin_id :: uuid
  gi_version_id :: uuid
  gi_status :: string
  gi_install_source :: string
  gi_track_mode :: string
  gi_installed_at :: time
  gi_disabled_at :: "time option"

record sage_grant =
  gg_id :: uuid
  gg_created_at :: time
  gg_updated_at :: time
  gg_installation_id :: uuid
  gg_user_id :: uuid
  gg_plugin_id :: uuid
  gg_permission_key :: string
  gg_risk_level :: string
  gg_status :: string
  gg_grant_scope :: json_map
  gg_requires_confirmation :: bool
  gg_expires_at :: "time option"
  gg_revoked_at :: "time option"

record sage_invocation =
  gn_id :: uuid
  gn_created_at :: time
  gn_updated_at :: time
  gn_user_id :: uuid
  gn_device_id :: string
  gn_plugin_id :: uuid
  gn_installation_id :: "uuid option"
  gn_client_request_id :: string
  gn_user_intent :: string
  gn_flow_id :: string
  gn_flow_hash :: string
  gn_status :: string
  gn_risk_level :: string
  gn_policy_decision :: json_map
  gn_permissions_used :: "string list"
  gn_started_at :: "time option"
  gn_completed_at :: "time option"
  gn_failed_at :: "time option"

record sage_report =
  gr_id :: uuid
  gr_created_at :: time
  gr_invocation_id :: uuid
  gr_client_report_id :: string
  gr_status :: string
  gr_flow_id :: string
  gr_steps_completed :: "string list"
  gr_step_summaries :: json_map
  gr_errors :: "string list"
  gr_user_confirmations :: "string list"
  gr_plugin_callbacks :: "string list"
  gr_tokens_used :: int
  gr_metering :: json_map

record sage_ledger =
  gl_id :: uuid
  gl_created_at :: time
  gl_developer_id :: uuid
  gl_plugin_id :: uuid
  gl_user_id :: uuid
  gl_invocation_id :: uuid
  gl_report_id :: uuid
  gl_event_type :: string
  gl_quantity :: int
  gl_amount :: int
  gl_currency :: string
  gl_metadata :: json_map

text \<open>\<open>sg_objects\<close> holds the objects and the governance tables, \<open>sg_ids\<close> the confirmations, the audit log
  and the sync log.\<close>

record sage_state =
  sg_plugins :: "sage_plugin list"
  sg_versions :: "sage_version list"
  sg_reviews :: "sage_review list"
  sg_installs :: "sage_installation list"
  sg_grants :: "sage_grant list"
  sg_invocations :: "sage_invocation list"
  sg_reports :: "sage_report list"
  sg_ledger :: "sage_ledger list"
  sg_objects :: object_state
  sg_ids :: id_state

definition sage_init :: sage_state where
  "sage_init = \<lparr>sg_plugins = [], sg_versions = [], sg_reviews = [], sg_installs = [], sg_grants = [], sg_invocations = [],
     sg_reports = [], sg_ledger = [], sg_objects = objects_init, sg_ids = id_init\<rparr>"

text \<open>What the service is given: its enforcer, if one is set, and the library functions of the validator,
  the scanner and the date in a bundle's version.\<close>

record sage_config =
  xg_enforcer :: "enforcement_config option"
  xg_parse_url :: "string \<Rightarrow> (string \<times> string) option"
  xg_format :: "any \<Rightarrow> string"
  xg_date :: "time \<Rightarrow> string"

section \<open>Repository\<close>

definition CreatePlugin_repo :: "env \<Rightarrow> sage_plugin \<Rightarrow> sage_state \<Rightarrow> sage_state result" where
  "CreatePlugin_repo E p s =
     (case db_insert E ''CreatePlugin'' 0 (\<lambda>p x. gp_id x = gp_id p \<or> gp_plugin_key x = gp_plugin_key p) p (sg_plugins s) of
        Inl e \<Rightarrow> Inl e | Inr t \<Rightarrow> Inr (s\<lparr>sg_plugins := t\<rparr>))"

text \<open>gorm's \<open>Save\<close>, which also sets \<open>UpdatedAt\<close> in the value it was given.\<close>

definition UpdatePlugin :: "env \<Rightarrow> sage_plugin \<Rightarrow> sage_state \<Rightarrow> (sage_plugin \<times> sage_state) result" where
  "UpdatePlugin E p s =
     (let p' = p\<lparr>gp_updated_at := e_now E\<rparr> in
      case db_save E ''UpdatePlugin'' 0 gp_id p' (sg_plugins s) of Inl e \<Rightarrow> Inl e | Inr t \<Rightarrow> Inr (p', s\<lparr>sg_plugins := t\<rparr>))"

definition CreateVersion_sage :: "env \<Rightarrow> sage_version \<Rightarrow> sage_state \<Rightarrow> sage_state result" where
  "CreateVersion_sage E v s =
     (case db_insert E ''CreateVersion'' 0
             (\<lambda>v x. gv_id x = gv_id v \<or> gv_plugin_id x = gv_plugin_id v \<and> gv_version x = gv_version v) v (sg_versions s) of
        Inl e \<Rightarrow> Inl e | Inr t \<Rightarrow> Inr (s\<lparr>sg_versions := t\<rparr>))"

definition UpdateVersion_sage :: "env \<Rightarrow> sage_version \<Rightarrow> sage_state \<Rightarrow> (sage_version \<times> sage_state) result" where
  "UpdateVersion_sage E v s =
     (let v' = v\<lparr>gv_updated_at := e_now E\<rparr> in
      case db_save E ''UpdateVersion'' 0 gv_id v' (sg_versions s) of Inl e \<Rightarrow> Inl e | Inr t \<Rightarrow> Inr (v', s\<lparr>sg_versions := t\<rparr>))"

definition CreateReview :: "env \<Rightarrow> sage_review \<Rightarrow> sage_state \<Rightarrow> sage_state result" where
  "CreateReview E r s =
     (case db_insert E ''CreateReview'' 0 (\<lambda>r x. gw_id x = gw_id r) r (sg_reviews s) of
        Inl e \<Rightarrow> Inl e | Inr t \<Rightarrow> Inr (s\<lparr>sg_reviews := t\<rparr>))"

definition CreateGrant :: "env \<Rightarrow> sage_grant \<Rightarrow> sage_state \<Rightarrow> sage_state result" where
  "CreateGrant E g s =
     (case db_insert E ''CreateGrant'' 0
             (\<lambda>g x. gg_id x = gg_id g \<or> gg_installation_id x = gg_installation_id g \<and> gg_permission_key x = gg_permission_key g)
             g (sg_grants s) of
        Inl e \<Rightarrow> Inl e | Inr t \<Rightarrow> Inr (s\<lparr>sg_grants := t\<rparr>))"

definition UpdateGrant :: "env \<Rightarrow> sage_grant \<Rightarrow> sage_state \<Rightarrow> (sage_grant \<times> sage_state) result" where
  "UpdateGrant E g s =
     (let g' = g\<lparr>gg_updated_at := e_now E\<rparr> in
      case db_save E ''UpdateGrant'' 0 gg_id g' (sg_grants s) of Inl e \<Rightarrow> Inl e | Inr t \<Rightarrow> Inr (g', s\<lparr>sg_grants := t\<rparr>))"

definition CreateReport :: "env \<Rightarrow> sage_report \<Rightarrow> sage_state \<Rightarrow> sage_state result" where
  "CreateReport E r s =
     (case db_insert E ''CreateReport'' 0
             (\<lambda>r x. gr_id x = gr_id r \<or> gr_invocation_id x = gr_invocation_id r \<and> gr_client_report_id x = gr_client_report_id r)
             r (sg_reports s) of
        Inl e \<Rightarrow> Inl e | Inr t \<Rightarrow> Inr (s\<lparr>sg_reports := t\<rparr>))"

definition CreateUsageLedger :: "env \<Rightarrow> sage_ledger \<Rightarrow> sage_state \<Rightarrow> sage_state result" where
  "CreateUsageLedger E l s =
     (case db_insert E ''CreateUsageLedger'' 0 (\<lambda>l x. gl_id x = gl_id l) l (sg_ledger s) of
        Inl e \<Rightarrow> Inl e | Inr t \<Rightarrow> Inr (s\<lparr>sg_ledger := t\<rparr>))"

definition GetPlugin :: "env \<Rightarrow> uuid \<Rightarrow> sage_state \<Rightarrow> sage_plugin result" where
  "GetPlugin E i s = db_first E ''GetPlugin'' 0 gp_id (\<lambda>p. gp_id p = i) (sg_plugins s)"

definition GetVersion_sage :: "env \<Rightarrow> nat \<Rightarrow> uuid \<Rightarrow> sage_state \<Rightarrow> sage_version result" where
  "GetVersion_sage E n i s = db_first E ''GetVersion'' n gv_id (\<lambda>v. gv_id v = i) (sg_versions s)"

definition ListPluginsForReview :: "env \<Rightarrow> string \<Rightarrow> int \<Rightarrow> int \<Rightarrow> sage_state \<Rightarrow> sage_version list result" where
  "ListPluginsForReview E status limit offset s =
     (let wanted = (if trim status \<noteq> '''' then trim status else ''submitted'') in
      case db_find E ''ListPluginsForReview'' 0 (\<lambda>v. gv_status v = wanted) (sg_versions s) of
        Inl e \<Rightarrow> Inl e
      | Inr vs \<Rightarrow> Inr (take (nat (normalizeLimit limit)) (drop (nat (max 0 offset)) (sort_key (\<lambda>v. - gv_updated_at v) vs))))"

definition published_plugin :: "sage_plugin \<Rightarrow> bool" where
  "published_plugin p \<longleftrightarrow> gp_status p = ''published'' \<and> gp_review_status p = ''approved''"

definition plugin_matches :: "string \<Rightarrow> string \<Rightarrow> sage_plugin \<Rightarrow> bool" where
  "plugin_matches q category p \<longleftrightarrow>
     published_plugin p \<and> gp_visibility p = ''public'' \<and> (trim category \<noteq> '''' \<longrightarrow> gp_category p = trim category)
     \<and> (trim q \<noteq> '''' \<longrightarrow>
          (let pat = ''%'' @ to_lower (trim q) @ ''%'' in
           like_match pat (to_lower (gp_name p)) \<or> like_match pat (to_lower (gp_description p))
           \<or> like_match pat (to_lower (gp_plugin_key p))))"

definition SearchPublishedPlugins :: "env \<Rightarrow> string \<Rightarrow> string \<Rightarrow> int \<Rightarrow> int \<Rightarrow> sage_state \<Rightarrow> sage_plugin list result" where
  "SearchPublishedPlugins E q category limit offset s =
     (case db_find E ''SearchPublishedPlugins'' 0 (plugin_matches q category) (sg_plugins s) of
        Inl e \<Rightarrow> Inl e
      | Inr ps \<Rightarrow> Inr (take (nat (normalizeLimit limit)) (drop (nat (max 0 offset)) (sort_key (\<lambda>p. - gp_updated_at p) ps))))"

definition CountPublishedPlugins :: "env \<Rightarrow> string \<Rightarrow> string \<Rightarrow> sage_state \<Rightarrow> nat result" where
  "CountPublishedPlugins E q category s = db_count E ''CountPublishedPlugins'' 0 (plugin_matches q category) (sg_plugins s)"

definition GetPublishedPluginByKey :: "env \<Rightarrow> string \<Rightarrow> sage_state \<Rightarrow> sage_plugin result" where
  "GetPublishedPluginByKey E key s =
     db_first E ''GetPublishedPluginByKey'' 0 gp_id (\<lambda>p. gp_plugin_key p = trim key \<and> published_plugin p) (sg_plugins s)"

definition CreateInstallation_sage :: "env \<Rightarrow> sage_installation \<Rightarrow> sage_state \<Rightarrow> sage_state result" where
  "CreateInstallation_sage E i s =
     (case db_insert E ''CreateInstallation'' 0
             (\<lambda>i x. gi_id x = gi_id i \<or> gi_user_id x = gi_user_id i \<and> gi_plugin_id x = gi_plugin_id i) i (sg_installs s) of
        Inl e \<Rightarrow> Inl e | Inr t \<Rightarrow> Inr (s\<lparr>sg_installs := t\<rparr>))"

definition UpdateInstallation_sage :: "env \<Rightarrow> sage_installation \<Rightarrow> sage_state \<Rightarrow> (sage_installation \<times> sage_state) result" where
  "UpdateInstallation_sage E i s =
     (let i' = i\<lparr>gi_updated_at := e_now E\<rparr> in
      case db_save E ''UpdateInstallation'' 0 gi_id i' (sg_installs s) of Inl e \<Rightarrow> Inl e | Inr t \<Rightarrow> Inr (i', s\<lparr>sg_installs := t\<rparr>))"

definition GetInstallation_sage :: "env \<Rightarrow> uuid \<Rightarrow> sage_state \<Rightarrow> sage_installation result" where
  "GetInstallation_sage E i s = db_first E ''GetInstallation'' 0 gi_id (\<lambda>x. gi_id x = i) (sg_installs s)"

definition GetInstallationByUserPlugin :: "env \<Rightarrow> uuid \<Rightarrow> uuid \<Rightarrow> sage_state \<Rightarrow> sage_installation result" where
  "GetInstallationByUserPlugin E u p s =
     db_first E ''GetInstallationByUserPlugin'' 0 gi_id (\<lambda>x. gi_user_id x = u \<and> gi_plugin_id x = p) (sg_installs s)"

definition ListInstallations_sage :: "env \<Rightarrow> uuid \<Rightarrow> sage_state \<Rightarrow> sage_installation list result" where
  "ListInstallations_sage E u s =
     (case db_find E ''ListInstallations'' 0 (\<lambda>x. gi_user_id x = u) (sg_installs s) of
        Inl e \<Rightarrow> Inl e | Inr xs \<Rightarrow> Inr (sort_key (\<lambda>x. - gi_created_at x) xs))"

definition live_grant :: "env \<Rightarrow> uuid \<Rightarrow> sage_grant \<Rightarrow> bool" where
  "live_grant E i g \<longleftrightarrow> gg_installation_id g = i \<and> gg_status g = ''active''
     \<and> (case gg_expires_at g of None \<Rightarrow> True | Some t \<Rightarrow> e_now E < t)"

definition ListActiveGrants :: "env \<Rightarrow> uuid \<Rightarrow> sage_state \<Rightarrow> sage_grant list result" where
  "ListActiveGrants E i s =
     (case db_find E ''ListActiveGrants'' 0 (live_grant E i) (sg_grants s) of
        Inl e \<Rightarrow> Inl e | Inr gs \<Rightarrow> Inr (sort_key gg_created_at gs))"

definition GetGrant :: "env \<Rightarrow> uuid \<Rightarrow> sage_state \<Rightarrow> sage_grant result" where
  "GetGrant E i s = db_first E ''GetGrant'' 0 gg_id (\<lambda>g. gg_id g = i) (sg_grants s)"

definition GetGrantByInstallationPermission :: "env \<Rightarrow> uuid \<Rightarrow> string \<Rightarrow> sage_state \<Rightarrow> sage_grant result" where
  "GetGrantByInstallationPermission E i key s =
     db_first E ''GetGrantByInstallationPermission'' 0 gg_id
       (\<lambda>g. gg_installation_id g = i \<and> gg_permission_key g = trim key) (sg_grants s)"

definition CreateInvocation_repo :: "env \<Rightarrow> sage_invocation \<Rightarrow> sage_state \<Rightarrow> sage_state result" where
  "CreateInvocation_repo E i s =
     (case db_insert E ''CreateInvocation'' 0
             (\<lambda>i x. gn_id x = gn_id i \<or> gn_user_id x = gn_user_id i \<and> gn_plugin_id x = gn_plugin_id i
                 \<and> gn_client_request_id x = gn_client_request_id i) i (sg_invocations s) of
        Inl e \<Rightarrow> Inl e | Inr t \<Rightarrow> Inr (s\<lparr>sg_invocations := t\<rparr>))"

definition UpdateInvocation :: "env \<Rightarrow> sage_invocation \<Rightarrow> sage_state \<Rightarrow> sage_state result" where
  "UpdateInvocation E i s =
     (case db_save E ''UpdateInvocation'' 0 gn_id (i\<lparr>gn_updated_at := e_now E\<rparr>) (sg_invocations s) of
        Inl e \<Rightarrow> Inl e | Inr t \<Rightarrow> Inr (s\<lparr>sg_invocations := t\<rparr>))"

definition GetInvocation :: "env \<Rightarrow> uuid \<Rightarrow> sage_state \<Rightarrow> sage_invocation result" where
  "GetInvocation E i s = db_first E ''GetInvocation'' 0 gn_id (\<lambda>x. gn_id x = i) (sg_invocations s)"

definition GetInvocationByClientRequest :: "env \<Rightarrow> uuid \<Rightarrow> uuid \<Rightarrow> string \<Rightarrow> sage_state \<Rightarrow> sage_invocation result" where
  "GetInvocationByClientRequest E u p clientID s =
     db_first E ''GetInvocationByClientRequest'' 0 gn_id
       (\<lambda>x. gn_user_id x = u \<and> gn_plugin_id x = p \<and> gn_client_request_id x = clientID) (sg_invocations s)"

definition GetReportByClientID :: "env \<Rightarrow> uuid \<Rightarrow> string \<Rightarrow> sage_state \<Rightarrow> sage_report result" where
  "GetReportByClientID E i clientID s =
     db_first E ''GetReportByClientID'' 0 gr_id (\<lambda>x. gr_invocation_id x = i \<and> gr_client_report_id x = clientID) (sg_reports s)"

text \<open>The number of invocations of a plugin, of completed ones, and the tokens of all reports joined to its
  invocations.\<close>

definition DeveloperMetrics_repo :: "env \<Rightarrow> uuid \<Rightarrow> sage_state \<Rightarrow> (nat \<times> nat \<times> int) result" where
  "DeveloperMetrics_repo E p s =
     (case db_count E ''DeveloperMetrics.invocations'' 0 (\<lambda>x. gn_plugin_id x = p) (sg_invocations s) of
        Inl e \<Rightarrow> Inl e
      | Inr n \<Rightarrow>
          (case db_count E ''DeveloperMetrics.completed'' 0 (\<lambda>x. gn_plugin_id x = p \<and> gn_status x = ''completed'') (sg_invocations s) of
             Inl e \<Rightarrow> Inl e
           | Inr c \<Rightarrow>
               if e_db E ''DeveloperMetrics.tokens'' 0 then Inl (ErrDB ''DeveloperMetrics.tokens'')
               else Inr (n, c, sum_list (map (\<lambda>x. sum_list (map gr_tokens_used
                      (filter (\<lambda>r. gr_invocation_id r = gn_id x) (sg_reports s))))
                    (filter (\<lambda>x. gn_plugin_id x = p) (sg_invocations s))))))"

section \<open>Service: helpers\<close>

definition record_sage_audit :: "env \<Rightarrow> uuid \<Rightarrow> string \<Rightarrow> string \<Rightarrow> string \<Rightarrow> string \<Rightarrow> json_map option \<Rightarrow> sage_state \<Rightarrow> sage_state" where
  "record_sage_audit E actor deviceID action resourceType resourceID meta s =
     s\<lparr>sg_ids := (sg_ids s)\<lparr>is_audit := snd (Record_audit E 0
        \<lparr>ai_actor_user_id = Some actor, ai_actor_device_id = deviceID, ai_action = action,
         ai_resource_type = resourceType, ai_resource_id = resourceID, ai_outcome = ''success'',
         ai_ip_address = '''', ai_user_agent = '''', ai_metadata = meta\<rparr> (is_audit (sg_ids s)))\<rparr>\<rparr>"

text \<open>The result of recording is ignored.\<close>

definition recordPluginSync :: "env \<Rightarrow> uuid \<Rightarrow> string \<Rightarrow> string \<Rightarrow> string \<Rightarrow> json_map \<Rightarrow> sage_state \<Rightarrow> sage_state" where
  "recordPluginSync E u deviceID objectID operation payload s =
     s\<lparr>sg_ids := (sg_ids s)\<lparr>is_sync := snd (RecordEnvelope E 0
        \<lparr>en_user_id = u, en_source_device_id = deviceID, en_object_type = ''plugin'', en_object_id = objectID,
         en_operation = operation, en_client_event_id = '''',
         en_payload = Some (jset (jset payload ''object_id'' (AStr objectID)) ''object_type'' (AStr ''plugin''))\<rparr>
        (is_sync (sg_ids s)))\<rparr>\<rparr>"

definition requirePluginAsset :: "env \<Rightarrow> uuid \<Rightarrow> uuid \<Rightarrow> string \<Rightarrow> string list \<Rightarrow> sage_state \<Rightarrow> object_record result" where
  "requirePluginAsset E owner i assetKind allowedTypes s =
     (case RequireActiveOwnedObject E 0 owner i (sg_objects s) of
        Inl e \<Rightarrow> Inl e
      | Inr r \<Rightarrow>
          if \<not> has_prefix (trim (ob_scope r)) ''sage-plugin-''
          then Inl (Wrapf (assetKind @ '' object scope must start with sage-plugin-'') ErrSAGEInvalid)
          else if list_ex (allowed_type (ob_content_type r)) allowedTypes then Inr r
          else Inl (Wrapf (''unsupported '' @ assetKind @ '' content type '' @ ob_content_type r) ErrSAGEInvalid))"

definition plugin_asset_id :: "env \<Rightarrow> uuid \<Rightarrow> uuid option \<Rightarrow> string \<Rightarrow> string list \<Rightarrow> sage_state \<Rightarrow> uuid option result" where
  "plugin_asset_id E owner given assetKind allowedTypes s =
     (case given of
        None \<Rightarrow> Inr None
      | Some i \<Rightarrow> (case requirePluginAsset E owner i assetKind allowedTypes s of Inl e \<Rightarrow> Inl e | Inr r \<Rightarrow> Inr (Some (ob_id r))))"

definition enforceSageGovernance :: "env \<Rightarrow> sage_config \<Rightarrow> enforcement_input \<Rightarrow> sage_state
    \<Rightarrow> (enforcement_result option) result \<times> sage_state" where
  "enforceSageGovernance E C input s =
     (case xg_enforcer C of
        None \<Rightarrow> (Inr None, s)
      | Some cfg \<Rightarrow>
          (case Enforce E cfg input (obs_gov (sg_objects s)) of
             (res, None, g) \<Rightarrow> (Inr res, s\<lparr>sg_objects := (sg_objects s)\<lparr>obs_gov := g\<rparr>\<rparr>)
           | (_, Some e, g) \<Rightarrow> (Inl e, s\<lparr>sg_objects := (sg_objects s)\<lparr>obs_gov := g\<rparr>\<rparr>)))"

section \<open>Service: publishing\<close>

record create_plugin_input =
  xl_plugin_key :: string
  xl_name :: string
  xl_description :: string
  xl_category :: string
  xl_icon_object_id :: "uuid option"
  xl_homepage_url :: string
  xl_manifest_url :: string

definition CreatePlugin :: "env \<Rightarrow> uuid \<Rightarrow> create_plugin_input \<Rightarrow> sage_state \<Rightarrow> sage_plugin result \<times> sage_state" where
  "CreatePlugin E developer input s =
     (let key = trim (xl_plugin_key input); name = trim (xl_name input) in
      if key = '''' \<or> name = '''' then (Inl (Wrapf ''plugin_key and name are required'' ErrSAGEInvalid), s)
      else case plugin_asset_id E developer (xl_icon_object_id input) ''icon'' [''image/''] s of
        Inl e \<Rightarrow> (Inl e, s)
      | Inr icon \<Rightarrow>
          let p = \<lparr>gp_id = e_uuid E ''sage_plugins'' 0, gp_created_at = e_now E, gp_updated_at = e_now E, gp_plugin_key = key,
                gp_developer_id = developer, gp_name = name, gp_description = trim (xl_description input),
                gp_category = trim (xl_category input), gp_icon_object_id = icon, gp_homepage_url = trim (xl_homepage_url input),
                gp_manifest_url = trim (xl_manifest_url input), gp_flow_url = '''', gp_callback_url = '''', gp_health_url = '''',
                gp_status = ''draft'', gp_review_status = ''pending'', gp_visibility = ''private'', gp_risk_level = ''unknown'',
                gp_trust_level = ''unverified'', gp_latest_version_id = None, gp_approved_version_id = None\<rparr>
          in case CreatePlugin_repo E p s of
               Inl e \<Rightarrow> (Inl e, s)
             | Inr s1 \<Rightarrow>
                 (Inr p, record_sage_audit E developer '''' ''sage.plugin.created'' ''sage_plugin'' (e_uuid_str E (gp_id p))
                    (Some [(''plugin_key'', AStr key)]) s1))"

record submit_plugin_version_input =
  xm_version :: string
  xm_manifest :: "json_map option"
  xm_package_object_id :: "uuid option"

definition package_types :: "string list" where
  "package_types = [''application/zip'', ''application/gzip'', ''application/x-tar'', ''application/octet-stream'']"

text \<open>The column \<open>sage_version\<close> has a default, which replaces an empty value.\<close>

definition new_sage_version :: "env \<Rightarrow> uuid \<Rightarrow> string \<Rightarrow> sage_verdict \<Rightarrow> uuid option \<Rightarrow> sage_version" where
  "new_sage_version E pluginID version v package =
     \<lparr>gv_id = e_uuid E ''sage_plugin_versions'' 0, gv_created_at = e_now E, gv_updated_at = e_now E, gv_plugin_id = pluginID,
      gv_version = version, gv_sage_version = or_else (sn_sage_version (sv_manifest v)) ''1.0'',
      gv_manifest_hash = sv_manifest_hash v, gv_manifest_snapshot = sv_snapshot v, gv_package_object_id = package,
      gv_validation_status = (if sv_valid v then ''valid'' else ''invalid''), gv_validation_errors = sv_errors v,
      gv_validation_warnings = sv_warnings v, gv_risk_summary = sv_risk_summary v,
      gv_permission_summary = sv_permission_summary v, gv_status = (if sv_valid v then ''submitted'' else ''draft''),
      gv_submitted_at = (if sv_valid v then Some (e_now E) else None), gv_approved_at = None, gv_rejected_at = None\<rparr>"

definition submit_tx :: "env \<Rightarrow> sage_config \<Rightarrow> sage_plugin \<Rightarrow> sage_version \<Rightarrow> sage_verdict \<Rightarrow> sage_state
    \<Rightarrow> (sage_plugin \<times> sage_state) result" where
  "submit_tx E C p v verdict s =
     (case CreateVersion_sage E v s of
        Inl e \<Rightarrow> Inl e
      | Inr s1 \<Rightarrow>
          let ep = sn_endpoints (sv_manifest verdict);
              p1 = p\<lparr>gp_latest_version_id := Some (gv_id v), gp_manifest_url := ep_manifest ep, gp_flow_url := ep_flow ep,
                     gp_callback_url := ep_callback ep, gp_health_url := ep_health ep,
                     gp_risk_level := sprint (xg_format C) (jget (sv_risk_summary verdict) ''highest_risk'')\<rparr>;
              p2 = (if sv_valid verdict then p1\<lparr>gp_status := ''submitted'', gp_review_status := ''pending''\<rparr> else p1)
          in UpdatePlugin E p2 s1)"

definition SubmitVersion_sage :: "env \<Rightarrow> sage_config \<Rightarrow> uuid \<Rightarrow> uuid \<Rightarrow> submit_plugin_version_input \<Rightarrow> sage_state
    \<Rightarrow> (sage_version \<times> sage_verdict) result \<times> sage_state" where
  "SubmitVersion_sage E C developer pluginID input s =
     (case GetPlugin E pluginID s of
        Inl _ \<Rightarrow> (Inl ErrSAGEPluginNotFound, s)
      | Inr p \<Rightarrow>
          if gp_developer_id p \<noteq> developer then (Inl ErrSAGEForbidden, s)
          else case ValidateSage E (xg_parse_url C) (xm_manifest input) of
            Inl e \<Rightarrow> (Inl e, s)
          | Inr verdict \<Rightarrow>
              let version = (if trim (xm_version input) = '''' then sn_version (sv_manifest verdict) else trim (xm_version input)) in
              if version = '''' then (Inl (Wrapf ''version is required'' ErrSAGEInvalid), s)
              else case plugin_asset_id E developer (xm_package_object_id input) ''package'' package_types s of
                Inl e \<Rightarrow> (Inl e, s)
              | Inr package \<Rightarrow>
                  let v = new_sage_version E (gp_id p) version verdict package in
                  case submit_tx E C p v verdict s of
                    Inl e \<Rightarrow> (Inl e, s)
                  | Inr (p1, s1) \<Rightarrow>
                      (case PersistFindings E 0 ''sage_plugin'' (e_uuid_str E (gp_id p))
                              (ScanSAGEManifest (xg_format C) (e_uuid_str E (gp_id p)) (e_uuid_str E (gv_id v)) (sv_snapshot verdict))
                              (obs_gov (sg_objects s1)) of
                         (found, g) \<Rightarrow>
                           let s2 = s1\<lparr>sg_objects := (sg_objects s1)\<lparr>obs_gov := g\<rparr>\<rparr> in
                           case found of
                             Some e \<Rightarrow> (Inl e, s2)
                           | None \<Rightarrow>
                               (Inr (v, verdict), record_sage_audit E developer '''' ''sage.plugin.version.submitted''
                                  ''sage_plugin_version'' (e_uuid_str E (gv_id v))
                                  (Some [(''plugin_id'', AStr (e_uuid_str E (gp_id p))), (''valid'', ABool (sv_valid verdict))]) s2)))"

definition GetValidation_sage :: "env \<Rightarrow> uuid \<Rightarrow> uuid \<Rightarrow> uuid \<Rightarrow> sage_state \<Rightarrow> sage_version result" where
  "GetValidation_sage E developer pluginID versionID s =
     (case GetPlugin E pluginID s of
        Inl _ \<Rightarrow> Inl ErrSAGEPluginNotFound
      | Inr p \<Rightarrow>
          if gp_developer_id p \<noteq> developer then Inl ErrSAGEForbidden
          else (case GetVersion_sage E 0 versionID s of
                  Inl _ \<Rightarrow> Inl ErrSAGEVersionNotFound
                | Inr v \<Rightarrow> if gv_plugin_id v \<noteq> pluginID then Inl ErrSAGEVersionNotFound else Inr v))"

definition ListReviewQueue :: "env \<Rightarrow> string \<Rightarrow> int \<Rightarrow> int \<Rightarrow> sage_state \<Rightarrow> sage_version list result" where
  "ListReviewQueue E status limit offset s = ListPluginsForReview E status limit offset s"

section \<open>Service: review\<close>

record review_input =
  xr_decision :: string
  xr_reason :: string
  xr_security_findings :: "string list"
  xr_privacy_findings :: "string list"
  xr_policy_findings :: "string list"

definition apply_review :: "env \<Rightarrow> string \<Rightarrow> sage_plugin \<times> sage_version \<Rightarrow> sage_plugin \<times> sage_version" where
  "apply_review E decision pv =
     (case pv of (p, v) \<Rightarrow>
        if decision = ''approved''
        then (p\<lparr>gp_status := ''published'', gp_review_status := ''approved'', gp_visibility := ''public'',
                gp_approved_version_id := Some (gv_id v)\<rparr>,
              v\<lparr>gv_status := ''approved'', gv_approved_at := Some (e_now E)\<rparr>)
        else if decision = ''rejected'' \<or> decision = ''request_changes''
        then (p\<lparr>gp_review_status := decision\<rparr>, v\<lparr>gv_status := ''rejected'', gv_rejected_at := Some (e_now E)\<rparr>)
        else if decision = ''takedown'' \<or> decision = ''suspended''
        then (p\<lparr>gp_status := ''suspended'', gp_review_status := ''takedown''\<rparr>, v)
        else (p, v))"

definition review_tx :: "env \<Rightarrow> sage_review \<Rightarrow> sage_plugin \<times> sage_version \<Rightarrow> sage_state \<Rightarrow> sage_state result" where
  "review_tx E r pv s =
     (case CreateReview E r s of
        Inl e \<Rightarrow> Inl e
      | Inr s1 \<Rightarrow>
          (case apply_review E (gw_decision r) pv of (p, v) \<Rightarrow>
             (case UpdatePlugin E p s1 of
                Inl e \<Rightarrow> Inl e
              | Inr (_, s2) \<Rightarrow> (case UpdateVersion_sage E v s2 of Inl e \<Rightarrow> Inl e | Inr (_, s3) \<Rightarrow> Inr s3))))"

definition ReviewPlugin :: "env \<Rightarrow> uuid \<Rightarrow> uuid \<Rightarrow> uuid \<Rightarrow> review_input \<Rightarrow> sage_state \<Rightarrow> sage_review result \<times> sage_state" where
  "ReviewPlugin E reviewer pluginID versionID input s =
     (case GetPlugin E pluginID s of
        Inl _ \<Rightarrow> (Inl ErrSAGEPluginNotFound, s)
      | Inr p \<Rightarrow>
          (case GetVersion_sage E 0 versionID s of
             Inl _ \<Rightarrow> (Inl ErrSAGEVersionNotFound, s)
           | Inr v \<Rightarrow>
               if gv_plugin_id v \<noteq> pluginID then (Inl ErrSAGEVersionNotFound, s)
               else
                 let decision = trim (xr_decision input) in
                 if decision = '''' then (Inl (Wrapf ''decision is required'' ErrSAGEInvalid), s)
                 else
                   let r = \<lparr>gw_id = e_uuid E ''sage_plugin_reviews'' 0, gw_created_at = e_now E, gw_plugin_id = pluginID,
                         gw_version_id = versionID, gw_reviewer_id = reviewer, gw_decision = decision,
                         gw_reason = trim (xr_reason input), gw_security_findings = xr_security_findings input,
                         gw_privacy_findings = xr_privacy_findings input, gw_policy_findings = xr_policy_findings input\<rparr>
                   in case review_tx E r (p, v) s of
                        Inl e \<Rightarrow> (Inl e, s)
                      | Inr s1 \<Rightarrow>
                          (Inr r, record_sage_audit E reviewer '''' ''sage.plugin.reviewed'' ''sage_plugin'' (e_uuid_str E pluginID)
                             (Some [(''version_id'', AStr (e_uuid_str E versionID)), (''decision'', AStr decision)]) s1)))"

definition SuspendPlugin :: "env \<Rightarrow> uuid \<Rightarrow> uuid \<Rightarrow> string \<Rightarrow> sage_state \<Rightarrow> sage_plugin result \<times> sage_state" where
  "SuspendPlugin E actor pluginID reason s =
     (case GetPlugin E pluginID s of
        Inl _ \<Rightarrow> (Inl ErrSAGEPluginNotFound, s)
      | Inr p \<Rightarrow>
          (case UpdatePlugin E (p\<lparr>gp_status := ''suspended'', gp_review_status := ''takedown''\<rparr>) s of
             Inl e \<Rightarrow> (Inl e, s)
           | Inr (p', s1) \<Rightarrow>
               (Inr p', record_sage_audit E actor '''' ''sage.plugin.suspended'' ''sage_plugin'' (e_uuid_str E pluginID)
                  (Some [(''reason'', AStr reason)]) s1)))"

section \<open>Service: catalog\<close>

record catalog_plugin =
  cl_plugin :: sage_plugin
  cl_icon_asset :: "catalog_asset option"
  cl_package_asset :: "catalog_asset option"

definition plugin_asset_of :: "env \<Rightarrow> nat \<Rightarrow> uuid \<Rightarrow> uuid option \<Rightarrow> sage_state \<Rightarrow> catalog_asset option" where
  "plugin_asset_of E n owner i s =
     (case i of
        None \<Rightarrow> None
      | Some i \<Rightarrow> (case RequireActiveOwnedObject E n owner i (sg_objects s) of
                     Inl _ \<Rightarrow> None | Inr r \<Rightarrow> Some (skillCatalogAssetFromObject r)))"

text \<open>The \<open>n\<close>-th item of a page. The asset record is the one of the skill hub, field by field.\<close>

definition enrichCatalogPlugin :: "env \<Rightarrow> nat \<Rightarrow> sage_plugin \<Rightarrow> sage_state \<Rightarrow> catalog_plugin" where
  "enrichCatalogPlugin E n p s =
     \<lparr>cl_plugin = p, cl_icon_asset = plugin_asset_of E (2 * n) (gp_developer_id p) (gp_icon_object_id p) s,
      cl_package_asset =
        (case gp_approved_version_id p of
           None \<Rightarrow> None
         | Some i \<Rightarrow> (case GetVersion_sage E n i s of
                        Inl _ \<Rightarrow> None
                      | Inr v \<Rightarrow> plugin_asset_of E (2 * n + 1) (gp_developer_id p) (gv_package_object_id v) s))\<rparr>"

definition SearchCatalog_sage :: "env \<Rightarrow> string \<Rightarrow> string \<Rightarrow> int \<Rightarrow> int \<Rightarrow> sage_state
    \<Rightarrow> (catalog_plugin list \<times> int \<times> int \<times> nat) result" where
  "SearchCatalog_sage E q category limit offset s =
     (case SearchPublishedPlugins E q category limit offset s of
        Inl e \<Rightarrow> Inl e
      | Inr ps \<Rightarrow>
          (case CountPublishedPlugins E q category s of
             Inl e \<Rightarrow> Inl e
           | Inr cnt \<Rightarrow>
               Inr (map (\<lambda>(n, p). enrichCatalogPlugin E n p s) (enumerate 0 ps),
                    if limit \<le> 0 \<or> 100 < limit then 20 else limit, max 0 offset, cnt)))"

definition GetCatalogPlugin :: "env \<Rightarrow> string \<Rightarrow> sage_state \<Rightarrow> catalog_plugin result" where
  "GetCatalogPlugin E key s =
     (case GetPublishedPluginByKey E key s of Inl _ \<Rightarrow> Inl ErrSAGEPluginNotFound | Inr p \<Rightarrow> Inr (enrichCatalogPlugin E 0 p s))"

section \<open>Service: installations\<close>

text \<open>Setting a plugin up again switches the old installation back on, at the version it was.\<close>

definition InstallPlugin :: "env \<Rightarrow> uuid \<Rightarrow> string \<Rightarrow> string \<Rightarrow> string \<Rightarrow> sage_state
    \<Rightarrow> sage_installation result \<times> sage_state" where
  "InstallPlugin E u deviceID key trackMode s =
     (case GetPublishedPluginByKey E key s of
        Inl _ \<Rightarrow> (Inl ErrSAGEPluginNotFound, s)
      | Inr p \<Rightarrow>
          (case gp_approved_version_id p of
             None \<Rightarrow> (Inl (Wrapf ''approved version required'' ErrSAGEInvalid), s)
           | Some approved \<Rightarrow>
               (case GetInstallationByUserPlugin E u (gp_id p) s of
                  Inr existing \<Rightarrow>
                    if gi_status existing = ''active'' then (Inr existing, s)
                    else (case UpdateInstallation_sage E (existing\<lparr>gi_status := ''active'', gi_disabled_at := None\<rparr>) s of
                            Inl e \<Rightarrow> (Inl e, s)
                          | Inr (x, s1) \<Rightarrow>
                              (Inr x, recordPluginSync E u deviceID (e_uuid_str E (gi_id x)) ''enabled''
                                 [(''plugin_id'', AStr (e_uuid_str E (gp_id p))), (''plugin_key'', AStr (gp_plugin_key p)),
                                  (''version_id'', AStr (e_uuid_str E (gi_version_id x))),
                                  (''installation_id'', AStr (e_uuid_str E (gi_id x))), (''status'', AStr (gi_status x))] s1))
                | Inl _ \<Rightarrow>
                    let x = \<lparr>gi_id = e_uuid E ''sage_plugin_installations'' 0, gi_created_at = e_now E, gi_updated_at = e_now E,
                          gi_user_id = u, gi_plugin_id = gp_id p, gi_version_id = approved, gi_status = ''active'',
                          gi_install_source = ''catalog'', gi_track_mode = or_else (trim trackMode) ''latest_approved'',
                          gi_installed_at = e_now E, gi_disabled_at = None\<rparr>
                    in case CreateInstallation_sage E x s of
                         Inl e \<Rightarrow> (Inl e, s)
                       | Inr s1 \<Rightarrow>
                           (Inr x, record_sage_audit E u deviceID ''sage.plugin.installed'' ''sage_plugin_installation''
                              (e_uuid_str E (gi_id x)) None
                              (recordPluginSync E u deviceID (e_uuid_str E (gi_id x)) ''installed''
                                 [(''plugin_id'', AStr (e_uuid_str E (gp_id p))), (''plugin_key'', AStr (gp_plugin_key p)),
                                  (''version_id'', AStr (e_uuid_str E (gi_version_id x))),
                                  (''installation_id'', AStr (e_uuid_str E (gi_id x))), (''status'', AStr (gi_status x)),
                                  (''track_mode'', AStr (gi_track_mode x))] s1)))))"

text \<open>Looking up what a user may touch: an installation of his own.\<close>

definition own_installation :: "env \<Rightarrow> uuid \<Rightarrow> uuid \<Rightarrow> sage_state \<Rightarrow> sage_installation result" where
  "own_installation E u i s =
     (case GetInstallation_sage E i s of
        Inl _ \<Rightarrow> Inl ErrSAGEInstallationNotFound
      | Inr x \<Rightarrow> if gi_user_id x \<noteq> u then Inl ErrSAGEInstallationNotFound else Inr x)"

definition SetInstallationStatus_sage :: "env \<Rightarrow> uuid \<Rightarrow> string \<Rightarrow> uuid \<Rightarrow> string \<Rightarrow> sage_state
    \<Rightarrow> sage_installation result \<times> sage_state" where
  "SetInstallationStatus_sage E u deviceID i status s =
     (case own_installation E u i s of
        Inl e \<Rightarrow> (Inl e, s)
      | Inr x \<Rightarrow>
          (case UpdateInstallation_sage E (x\<lparr>gi_status := status,
                  gi_disabled_at := (if status = ''disabled'' \<or> status = ''uninstalled'' then Some (e_now E) else None)\<rparr>) s of
             Inl e \<Rightarrow> (Inl e, s)
           | Inr (x', s1) \<Rightarrow>
               (Inr x', recordPluginSync E u deviceID (e_uuid_str E (gi_id x'))
                  (if status = ''disabled'' then ''disabled'' else if status = ''uninstalled'' then ''uninstalled'' else ''enabled'')
                  [(''installation_id'', AStr (e_uuid_str E (gi_id x'))), (''plugin_id'', AStr (e_uuid_str E (gi_plugin_id x'))),
                   (''version_id'', AStr (e_uuid_str E (gi_version_id x'))), (''status'', AStr status)] s1)))"

section \<open>Service: permissions\<close>

record grant_input =
  xt_permission_key :: string
  xt_grant_scope :: "json_map option"
  xt_confirmation_token :: string
  xt_approval_token :: string
  xt_expires_at :: "time option"

definition grant_risk :: "string \<Rightarrow> string" where
  "grant_risk key = or_else (known_risk key) ''medium''"

definition needs_confirmation :: "string \<Rightarrow> bool" where
  "needs_confirmation key \<longleftrightarrow> riskRank ''high'' \<le> riskRank (grant_risk key)"

definition grant_request :: "env \<Rightarrow> uuid \<Rightarrow> string \<Rightarrow> sage_installation \<Rightarrow> string \<Rightarrow> grant_input \<Rightarrow> enforcement_input" where
  "grant_request E u deviceID x key input =
     \<lparr>fi_actor_user_id = Some u, fi_actor_device_id = deviceID, fi_subject_type = ''sage_permission_grant'',
      fi_subject_id = e_uuid_str E (gi_id x), fi_capability_key = key, fi_risk_level = grant_risk key,
      fi_context = Some [(''installation_id'', AStr (e_uuid_str E (gi_id x))), (''plugin_id'', AStr (e_uuid_str E (gi_plugin_id x))),
                         (''permission_key'', AStr key), (''grant_scope'', any_opt AMap (xt_grant_scope input))],
      fi_approval_token = xt_approval_token input, fi_approval_consumed_by = deviceID\<rparr>"

definition confirm_grant :: "env \<Rightarrow> uuid \<Rightarrow> string \<Rightarrow> grant_input \<Rightarrow> sage_state \<Rightarrow> unit result \<times> sage_state" where
  "confirm_grant E u key input s =
     (if \<not> needs_confirmation key then (Inr (), s)
      else case ConsumeConfirmation E u (xt_confirmation_token input) ''sage.permission.high_risk_grant'' ''sage_permission_grant'' (sg_ids s) of
             (r, ids) \<Rightarrow> (r, s\<lparr>sg_ids := ids\<rparr>))"

text \<open>An earlier grant of the permission is renewed, otherwise one is created.\<close>

definition store_grant :: "env \<Rightarrow> uuid \<Rightarrow> sage_installation \<Rightarrow> string \<Rightarrow> grant_input \<Rightarrow> sage_state
    \<Rightarrow> (sage_grant \<times> sage_state) result" where
  "store_grant E u x key input s =
     (let scope = (case xt_grant_scope input of None \<Rightarrow> [] | Some m \<Rightarrow> m) in
      case GetGrantByInstallationPermission E (gi_id x) key s of
        Inr g \<Rightarrow>
          UpdateGrant E (g\<lparr>gg_status := ''active'', gg_risk_level := grant_risk key, gg_grant_scope := scope,
            gg_requires_confirmation := needs_confirmation key, gg_expires_at := xt_expires_at input, gg_revoked_at := None\<rparr>) s
      | Inl _ \<Rightarrow>
          let g = \<lparr>gg_id = e_uuid E ''sage_plugin_permission_grants'' 0, gg_created_at = e_now E, gg_updated_at = e_now E,
                gg_installation_id = gi_id x, gg_user_id = u, gg_plugin_id = gi_plugin_id x, gg_permission_key = key,
                gg_risk_level = grant_risk key, gg_status = ''active'', gg_grant_scope = scope,
                gg_requires_confirmation = needs_confirmation key, gg_expires_at = xt_expires_at input, gg_revoked_at = None\<rparr>
          in case CreateGrant E g s of Inl e \<Rightarrow> Inl e | Inr s1 \<Rightarrow> Inr (g, s1))"

definition GrantPermission :: "env \<Rightarrow> sage_config \<Rightarrow> uuid \<Rightarrow> string \<Rightarrow> uuid \<Rightarrow> grant_input \<Rightarrow> sage_state
    \<Rightarrow> sage_grant result \<times> sage_state" where
  "GrantPermission E C u deviceID i input s =
     (case own_installation E u i s of
        Inl e \<Rightarrow> (Inl e, s)
      | Inr x \<Rightarrow>
          let key = trim (xt_permission_key input) in
          if key = '''' then (Inl (Wrapf ''permission_key is required'' ErrSAGEInvalid), s)
          else case enforceSageGovernance E C (grant_request E u deviceID x key input) s of
            (Inl e, s1) \<Rightarrow> (Inl e, s1)
          | (Inr _, s1) \<Rightarrow>
              (case confirm_grant E u key input s1 of
                 (Inl e, s2) \<Rightarrow> (Inl e, s2)
               | (Inr _, s2) \<Rightarrow>
                   (case store_grant E u x key input s2 of
                      Inl e \<Rightarrow> (Inl e, s2)
                    | Inr (g, s3) \<Rightarrow>
                        (Inr g, recordPluginSync E u deviceID (e_uuid_str E i) ''permission_granted''
                           [(''installation_id'', AStr (e_uuid_str E i)), (''grant_id'', AStr (e_uuid_str E (gg_id g))),
                            (''permission_key'', AStr key), (''plugin_id'', AStr (e_uuid_str E (gi_plugin_id x))),
                            (''risk_level'', AStr (grant_risk key)), (''requires_confirmation'', ABool (needs_confirmation key)),
                            (''status'', AStr (gg_status g))] s3))))"

definition RevokeGrant :: "env \<Rightarrow> uuid \<Rightarrow> string \<Rightarrow> uuid \<Rightarrow> sage_state \<Rightarrow> sage_grant result \<times> sage_state" where
  "RevokeGrant E u deviceID grantID s =
     (case GetGrant E grantID s of
        Inl _ \<Rightarrow> (Inl ErrSAGEForbidden, s)
      | Inr g \<Rightarrow>
          if gg_user_id g \<noteq> u then (Inl ErrSAGEForbidden, s)
          else (case UpdateGrant E (g\<lparr>gg_status := ''revoked'', gg_revoked_at := Some (e_now E)\<rparr>) s of
                  Inl e \<Rightarrow> (Inl e, s)
                | Inr (g', s1) \<Rightarrow>
                    (Inr g', recordPluginSync E u deviceID (e_uuid_str E (gg_installation_id g')) ''permission_revoked''
                       [(''installation_id'', AStr (e_uuid_str E (gg_installation_id g'))), (''grant_id'', AStr (e_uuid_str E (gg_id g'))),
                        (''permission_key'', AStr (gg_permission_key g')), (''plugin_id'', AStr (e_uuid_str E (gg_plugin_id g'))),
                        (''status'', AStr (gg_status g'))] s1)))"

section \<open>Service: the policy bundle\<close>

text \<open>The plugin and the version are used whether or not they were found; a missing row reads as the zero value.\<close>

definition plugin_zero :: sage_plugin where
  "plugin_zero = \<lparr>gp_id = uuid_nil, gp_created_at = 0, gp_updated_at = 0, gp_plugin_key = '''', gp_developer_id = uuid_nil,
     gp_name = '''', gp_description = '''', gp_category = '''', gp_icon_object_id = None, gp_homepage_url = '''',
     gp_manifest_url = '''', gp_flow_url = '''', gp_callback_url = '''', gp_health_url = '''', gp_status = '''',
     gp_review_status = '''', gp_visibility = '''', gp_risk_level = '''', gp_trust_level = '''', gp_latest_version_id = None,
     gp_approved_version_id = None\<rparr>"

definition version_zero :: sage_version where
  "version_zero = \<lparr>gv_id = uuid_nil, gv_created_at = 0, gv_updated_at = 0, gv_plugin_id = uuid_nil, gv_version = '''',
     gv_sage_version = '''', gv_manifest_hash = '''', gv_manifest_snapshot = [], gv_package_object_id = None,
     gv_validation_status = '''', gv_validation_errors = [], gv_validation_warnings = [], gv_risk_summary = [],
     gv_permission_summary = [], gv_status = '''', gv_submitted_at = None, gv_approved_at = None, gv_rejected_at = None\<rparr>"

record policy_bundle =
  pb_plugin_key :: string
  pb_version :: string
  pb_bundle_version :: string
  pb_manifest_snapshot :: json_map
  pb_granted :: "json_map list"
  pb_denied :: "string list"
  pb_guards :: "json_map list"
  pb_reporting :: json_map

definition guard_id :: "string \<Rightarrow> string" where
  "guard_id key = ''guard-'' @ map (\<lambda>c. if c = CHR ''.'' then CHR ''-'' else c) key"

definition runtime_guard :: "string \<Rightarrow> json_map" where
  "runtime_guard key = [(''id'', AStr (guard_id key)), (''match'', AMap [(''permission'', AStr key)]),
     (''decision'', AStr ''require_user_confirmation'')]"

definition requested_permissions :: "sage_config \<Rightarrow> sage_version \<Rightarrow> string list" where
  "requested_permissions C v = (case jget (gv_permission_summary v) ''permissions'' of ASeq ps \<Rightarrow> map (sprint (xg_format C)) ps | _ \<Rightarrow> [])"

definition PolicyBundle :: "env \<Rightarrow> sage_config \<Rightarrow> uuid \<Rightarrow> uuid \<Rightarrow> sage_state \<Rightarrow> policy_bundle result" where
  "PolicyBundle E C u i s =
     (case own_installation E u i s of
        Inl e \<Rightarrow> Inl e
      | Inr x \<Rightarrow>
          if gi_status x \<noteq> ''active'' then Inl ErrSAGEForbidden
          else
            let p = (case GetPlugin E (gi_plugin_id x) s of Inl _ \<Rightarrow> plugin_zero | Inr p \<Rightarrow> p);
                v = (case GetVersion_sage E 0 (gi_version_id x) s of Inl _ \<Rightarrow> version_zero | Inr v \<Rightarrow> v);
                gs = (case ListActiveGrants E (gi_id x) s of Inl _ \<Rightarrow> [] | Inr gs \<Rightarrow> gs);
                perms = requested_permissions C v
            in Inr \<lparr>pb_plugin_key = gp_plugin_key p, pb_version = gv_version v, pb_bundle_version = xg_date C (e_now E) @ ''.1'',
                    pb_manifest_snapshot = gv_manifest_snapshot v,
                    pb_granted = map (\<lambda>g. [(''key'', AStr (gg_permission_key g)), (''risk'', AStr (gg_risk_level g)),
                                             (''scope'', AMap (gg_grant_scope g))]) gs,
                    pb_denied = filter (\<lambda>k. k \<notin> set (map gg_permission_key gs)) perms,
                    pb_guards = map runtime_guard (filter (\<lambda>k. riskRank ''high'' \<le> riskRank (known_risk k)) perms),
                    pb_reporting = [(''required'', ABool True), (''endpoint'', AStr ''/api/v1/sage/invocations/{id}/reports'')]\<rparr>)"

section \<open>Service: invocations and reports\<close>

record invocation_input =
  xo_plugin_key :: string
  xo_client_request_id :: string
  xo_user_intent :: string
  xo_flow_id :: string
  xo_flow_hash :: string
  xo_risk_level :: string
  xo_permissions_used :: "string list"
  xo_policy_decision :: "json_map option"

definition invocation_capability :: "string list \<Rightarrow> string" where
  "invocation_capability used =
     (case used of [] \<Rightarrow> ''sage.invocation.create'' | k # _ \<Rightarrow> or_else (trim k) ''sage.invocation.create'')"

definition invocation_request :: "env \<Rightarrow> uuid \<Rightarrow> string \<Rightarrow> sage_plugin \<Rightarrow> sage_installation \<Rightarrow> string \<Rightarrow> string \<Rightarrow> invocation_input \<Rightarrow> enforcement_input" where
  "invocation_request E u deviceID p x clientID risk input =
     \<lparr>fi_actor_user_id = Some u, fi_actor_device_id = deviceID, fi_subject_type = ''sage_invocation'',
      fi_subject_id = e_uuid_str E (gp_id p), fi_capability_key = invocation_capability (xo_permissions_used input),
      fi_risk_level = risk,
      fi_context = Some [(''plugin_key'', AStr (gp_plugin_key p)), (''installation_id'', AStr (e_uuid_str E (gi_id x))),
                         (''client_request_id'', AStr clientID), (''flow_id'', AStr (xo_flow_id input)),
                         (''permissions_used'', ASeq (map AStr (xo_permissions_used input)))],
      fi_approval_token = '''', fi_approval_consumed_by = ''''\<rparr>"

definition decision_record :: "env \<Rightarrow> json_map option \<Rightarrow> enforcement_result option \<Rightarrow> json_map" where
  "decision_record E given res =
     (let d0 = (case given of None \<Rightarrow> [] | Some m \<Rightarrow> m) in
      case res of
        None \<Rightarrow> d0
      | Some r \<Rightarrow>
          let d1 = jset (jset d0 ''mode'' (AStr (er_mode r))) ''would_have_blocked'' (ABool (er_would_have_blocked r))
          in (case er_decision r of
                None \<Rightarrow> d1
              | Some d \<Rightarrow> jset (jset d1 ''governance_decision_id'' (AStr (e_uuid_str E (pd_id d)))) ''decision'' (AStr (pd_decision d))))"

definition CreateInvocation :: "env \<Rightarrow> sage_config \<Rightarrow> uuid \<Rightarrow> string \<Rightarrow> invocation_input \<Rightarrow> sage_state
    \<Rightarrow> sage_invocation result \<times> sage_state" where
  "CreateInvocation E C u deviceID input s =
     (case GetPublishedPluginByKey E (xo_plugin_key input) s of
        Inl _ \<Rightarrow> (Inl ErrSAGEPluginNotFound, s)
      | Inr p \<Rightarrow>
          (case GetInstallationByUserPlugin E u (gp_id p) s of
             Inl _ \<Rightarrow> (Inl ErrSAGEForbidden, s)
           | Inr x \<Rightarrow>
               if gi_status x \<noteq> ''active'' then (Inl ErrSAGEForbidden, s)
               else
                 let clientID = trim (xo_client_request_id input) in
                 if clientID = '''' then (Inl (Wrapf ''client_request_id is required'' ErrSAGEInvalid), s)
                 else (case GetInvocationByClientRequest E u (gp_id p) clientID s of
                   Inr existing \<Rightarrow> (Inr existing, s)
                 | Inl _ \<Rightarrow>
                     let risk = or_else (trim (xo_risk_level input)) (gp_risk_level p) in
                     (case enforceSageGovernance E C (invocation_request E u deviceID p x clientID risk input) s of
                        (Inl e, s1) \<Rightarrow> (Inl e, s1)
                      | (Inr res, s1) \<Rightarrow>
                          let iv = \<lparr>gn_id = e_uuid E ''sage_plugin_invocations'' 0, gn_created_at = e_now E, gn_updated_at = e_now E,
                                gn_user_id = u, gn_device_id = deviceID, gn_plugin_id = gp_id p, gn_installation_id = Some (gi_id x),
                                gn_client_request_id = clientID, gn_user_intent = trim (xo_user_intent input),
                                gn_flow_id = trim (xo_flow_id input), gn_flow_hash = trim (xo_flow_hash input),
                                gn_status = ''created'', gn_risk_level = or_else risk ''unknown'',
                                gn_policy_decision = decision_record E (xo_policy_decision input) res,
                                gn_permissions_used = xo_permissions_used input, gn_started_at = Some (e_now E),
                                gn_completed_at = None, gn_failed_at = None\<rparr>
                          in case CreateInvocation_repo E iv s1 of
                               Inl e \<Rightarrow> (Inl e, s1)
                             | Inr s2 \<Rightarrow> (Inr iv, s2)))))"

record report_input =
  xh_client_report_id :: string
  xh_status :: string
  xh_flow_id :: string
  xh_steps_completed :: "string list"
  xh_step_summaries :: "json_map option"
  xh_errors :: "string list"
  xh_user_confirmations :: "string list"
  xh_plugin_callbacks :: "string list"
  xh_tokens_used :: int
  xh_metering :: "json_map option"

definition apply_report :: "env \<Rightarrow> string \<Rightarrow> sage_invocation \<Rightarrow> sage_invocation" where
  "apply_report E status iv =
     (if status = ''completed'' then iv\<lparr>gn_status := ''completed'', gn_completed_at := Some (e_now E)\<rparr>
      else if status = ''failed'' then iv\<lparr>gn_status := ''failed'', gn_failed_at := Some (e_now E)\<rparr>
      else iv)"

text \<open>The report, the invocation and the ledger row are written in one transaction.\<close>

definition report_tx :: "env \<Rightarrow> sage_report \<Rightarrow> sage_invocation \<Rightarrow> sage_state \<Rightarrow> sage_state result" where
  "report_tx E r iv s =
     (case CreateReport E r s of
        Inl e \<Rightarrow> Inl e
      | Inr s1 \<Rightarrow>
          (case UpdateInvocation E (apply_report E (gr_status r) iv) s1 of
             Inl e \<Rightarrow> Inl e
           | Inr s2 \<Rightarrow>
               let p = (case GetPlugin E (gn_plugin_id iv) s2 of Inl _ \<Rightarrow> plugin_zero | Inr p \<Rightarrow> p)
               in CreateUsageLedger E \<lparr>gl_id = e_uuid E ''sage_plugin_usage_ledgers'' 0, gl_created_at = e_now E,
                    gl_developer_id = gp_developer_id p, gl_plugin_id = gn_plugin_id iv, gl_user_id = gn_user_id iv,
                    gl_invocation_id = gn_id iv, gl_report_id = gr_id r, gl_event_type = ''plugin_invocation.'' @ gr_status r,
                    gl_quantity = 1, gl_amount = 0, gl_currency = ''CNY'',
                    gl_metadata = [(''tokens_used'', AInt (gr_tokens_used r))]\<rparr> s2))"

definition SubmitReport :: "env \<Rightarrow> uuid \<Rightarrow> uuid \<Rightarrow> report_input \<Rightarrow> sage_state \<Rightarrow> sage_report result \<times> sage_state" where
  "SubmitReport E u i input s =
     (case GetInvocation E i s of
        Inl _ \<Rightarrow> (Inl ErrSAGEForbidden, s)
      | Inr iv \<Rightarrow>
          if gn_user_id iv \<noteq> u then (Inl ErrSAGEForbidden, s)
          else
            let clientID = trim (xh_client_report_id input) in
            if clientID = '''' then (Inl (Wrapf ''client_report_id is required'' ErrSAGEInvalid), s)
            else (case GetReportByClientID E i clientID s of
              Inr existing \<Rightarrow> (Inr existing, s)
            | Inl _ \<Rightarrow>
                let r = \<lparr>gr_id = e_uuid E ''sage_plugin_execution_reports'' 0, gr_created_at = e_now E, gr_invocation_id = i,
                      gr_client_report_id = clientID, gr_status = or_else (trim (xh_status input)) ''completed'',
                      gr_flow_id = trim (xh_flow_id input), gr_steps_completed = xh_steps_completed input,
                      gr_step_summaries = (case xh_step_summaries input of None \<Rightarrow> [] | Some m \<Rightarrow> m),
                      gr_errors = xh_errors input, gr_user_confirmations = xh_user_confirmations input,
                      gr_plugin_callbacks = xh_plugin_callbacks input, gr_tokens_used = xh_tokens_used input,
                      gr_metering = (case xh_metering input of None \<Rightarrow> [] | Some m \<Rightarrow> m)\<rparr>
                in case report_tx E r iv s of
                     Inl e \<Rightarrow> (Inl e, s)
                   | Inr s1 \<Rightarrow> (Inr r, s1)))"

text \<open>The success rate is a \<open>float64\<close>, kept as the fraction it stands for; it is 0 without invocations.\<close>

record developer_metrics =
  dm_plugin_key :: string
  dm_period :: string
  dm_invocations :: int
  dm_completed :: int
  dm_failed :: int
  dm_success_rate :: rat
  dm_tokens_used :: int
  dm_estimated_revenue :: int

definition DeveloperMetrics :: "env \<Rightarrow> uuid \<Rightarrow> uuid \<Rightarrow> sage_state \<Rightarrow> developer_metrics result" where
  "DeveloperMetrics E developer pluginID s =
     (case GetPlugin E pluginID s of
        Inl _ \<Rightarrow> Inl ErrSAGEPluginNotFound
      | Inr p \<Rightarrow>
          if gp_developer_id p \<noteq> developer then Inl ErrSAGEForbidden
          else (case DeveloperMetrics_repo E pluginID s of
                  Inl e \<Rightarrow> Inl e
                | Inr (iv, completed, tokens) \<Rightarrow>
                    Inr \<lparr>dm_plugin_key = gp_plugin_key p, dm_period = ''all_time'', dm_invocations = int iv,
                         dm_completed = int completed, dm_failed = int iv - int completed,
                         dm_success_rate = (if 0 < iv then float64 (float64 (of_nat completed) / float64 (of_nat iv)) else 0), dm_tokens_used = tokens,
                         dm_estimated_revenue = 0\<rparr>))"

end
