(* ===== verification/SageProps.thy ===== *)
theory SageProps
  imports Sage TokenProps SkillHubProps
begin

text \<open>
  The plugin service from the empty database on: the states its rows can be in, who approved what the catalog
  serves, when a high-risk permission is in force, and one ledger row for each execution report.
\<close>

section \<open>Requests\<close>

datatype sage_req =
    GCreate env uuid create_plugin_input
  | GSubmit env sage_config uuid uuid submit_plugin_version_input
  | GReview env uuid uuid uuid review_input
  | GSuspend env uuid uuid string
  | GInstall env uuid string string string
  | GEnable env uuid string uuid
  | GDisable env uuid string uuid
  | GUninstall env uuid string uuid
  | GGrant env sage_config uuid string uuid grant_input
  | GRevoke env uuid string uuid
  | GInvoke env sage_config uuid string invocation_input
  | GReport env uuid uuid report_input
  | GConfirm env uuid string string string

fun sage_serve :: "sage_req \<Rightarrow> sage_state \<Rightarrow> sage_state" where
  "sage_serve (GCreate E d input) s = snd (CreatePlugin E d input s)"
| "sage_serve (GSubmit E C d p input) s = snd (SubmitVersion_sage E C d p input s)"
| "sage_serve (GReview E r p v input) s = snd (ReviewPlugin E r p v input s)"
| "sage_serve (GSuspend E a p reason) s = snd (SuspendPlugin E a p reason s)"
| "sage_serve (GInstall E u d key mode) s = snd (InstallPlugin E u d key mode s)"
| "sage_serve (GEnable E u d i) s = snd (SetInstallationStatus_sage E u d i ''active'' s)"
| "sage_serve (GDisable E u d i) s = snd (SetInstallationStatus_sage E u d i ''disabled'' s)"
| "sage_serve (GUninstall E u d i) s = snd (SetInstallationStatus_sage E u d i ''uninstalled'' s)"
| "sage_serve (GGrant E C u d i input) s = snd (GrantPermission E C u d i input s)"
| "sage_serve (GRevoke E u d g) s = snd (RevokeGrant E u d g s)"
| "sage_serve (GInvoke E C u d input) s = snd (CreateInvocation E C u d input s)"
| "sage_serve (GReport E u i input) s = snd (SubmitReport E u i input s)"
| "sage_serve (GConfirm E u d password operation) s =
     s\<lparr>sg_ids := snd (IssueConfirmation E u d password operation (sg_ids s))\<rparr>"

text \<open>The rows a request can change, by the part of the service that owns them.\<close>

definition catalog_rows :: "sage_state \<Rightarrow> sage_plugin list \<times> sage_version list \<times> sage_review list" where
  "catalog_rows s = (sg_plugins s, sg_versions s, sg_reviews s)"

definition usage_rows :: "sage_state \<Rightarrow> sage_invocation list \<times> sage_report list \<times> sage_ledger list" where
  "usage_rows s = (sg_invocations s, sg_reports s, sg_ledger s)"

definition same_rows :: "sage_state \<Rightarrow> sage_state \<Rightarrow> bool" where
  "same_rows s s' \<longleftrightarrow> catalog_rows s' = catalog_rows s \<and> usage_rows s' = usage_rows s \<and> sg_installs s' = sg_installs s
     \<and> sg_grants s' = sg_grants s"

lemma same_rows_refl [simp]: "same_rows s s"
  by (simp add: same_rows_def)

lemma audit_rows [simp]: "catalog_rows (record_sage_audit E a d ac rt ri m s) = catalog_rows s"
  "usage_rows (record_sage_audit E a d ac rt ri m s) = usage_rows s"
  "sg_installs (record_sage_audit E a d ac rt ri m s) = sg_installs s"
  "sg_grants (record_sage_audit E a d ac rt ri m s) = sg_grants s"
  "sg_plugins (record_sage_audit E a d ac rt ri m s) = sg_plugins s"
  "sg_versions (record_sage_audit E a d ac rt ri m s) = sg_versions s"
  "sg_reviews (record_sage_audit E a d ac rt ri m s) = sg_reviews s"
  "sg_invocations (record_sage_audit E a d ac rt ri m s) = sg_invocations s"
  "sg_reports (record_sage_audit E a d ac rt ri m s) = sg_reports s"
  "sg_ledger (record_sage_audit E a d ac rt ri m s) = sg_ledger s"
  by (simp_all add: record_sage_audit_def catalog_rows_def usage_rows_def)

lemma sync_rows [simp]: "catalog_rows (recordPluginSync E u d i ac p s) = catalog_rows s"
  "usage_rows (recordPluginSync E u d i ac p s) = usage_rows s"
  "sg_installs (recordPluginSync E u d i ac p s) = sg_installs s"
  "sg_grants (recordPluginSync E u d i ac p s) = sg_grants s"
  "sg_plugins (recordPluginSync E u d i ac p s) = sg_plugins s"
  "sg_versions (recordPluginSync E u d i ac p s) = sg_versions s"
  "sg_reviews (recordPluginSync E u d i ac p s) = sg_reviews s"
  "sg_invocations (recordPluginSync E u d i ac p s) = sg_invocations s"
  "sg_reports (recordPluginSync E u d i ac p s) = sg_reports s"
  "sg_ledger (recordPluginSync E u d i ac p s) = sg_ledger s"
  by (simp_all add: recordPluginSync_def catalog_rows_def usage_rows_def)

lemma update_rows [simp]: "catalog_rows (s\<lparr>sg_objects := a\<rparr>) = catalog_rows s" "catalog_rows (s\<lparr>sg_ids := b\<rparr>) = catalog_rows s"
  "catalog_rows (s\<lparr>sg_installs := c\<rparr>) = catalog_rows s" "catalog_rows (s\<lparr>sg_grants := d\<rparr>) = catalog_rows s"
  "catalog_rows (s\<lparr>sg_invocations := e\<rparr>) = catalog_rows s" "catalog_rows (s\<lparr>sg_reports := f\<rparr>) = catalog_rows s"
  "catalog_rows (s\<lparr>sg_ledger := g\<rparr>) = catalog_rows s"
  "usage_rows (s\<lparr>sg_objects := a\<rparr>) = usage_rows s" "usage_rows (s\<lparr>sg_ids := b\<rparr>) = usage_rows s"
  "usage_rows (s\<lparr>sg_installs := c\<rparr>) = usage_rows s" "usage_rows (s\<lparr>sg_grants := d\<rparr>) = usage_rows s"
  "usage_rows (s\<lparr>sg_plugins := h\<rparr>) = usage_rows s" "usage_rows (s\<lparr>sg_versions := i\<rparr>) = usage_rows s"
  "usage_rows (s\<lparr>sg_reviews := j\<rparr>) = usage_rows s"
  by (simp_all add: catalog_rows_def usage_rows_def)

lemma governance_rows:
  "enforceSageGovernance E C input s = (r, s') \<Longrightarrow> same_rows s s' \<and> sg_ids s' = sg_ids s"
  by (auto simp: enforceSageGovernance_def same_rows_def split: option.splits prod.splits)

lemma confirm_rows: "confirm_grant E u key input s = (r, s') \<Longrightarrow> same_rows s s'"
  by (auto simp: confirm_grant_def same_rows_def split: if_splits prod.splits)

section \<open>What each request does to the rows\<close>

text \<open>The catalog: a draft is added, a version is submitted, a version is reviewed, a plugin is suspended.\<close>

inductive catalog_step :: "sage_plugin list \<times> sage_version list \<times> sage_review list
    \<Rightarrow> sage_plugin list \<times> sage_version list \<times> sage_review list \<Rightarrow> bool" where
  catalog_same: "catalog_step c c"
| catalog_draft: "gp_id p \<notin> gp_id ` set ps \<Longrightarrow> gp_status p = ''draft'' \<Longrightarrow> gp_review_status p = ''pending''
     \<Longrightarrow> gp_approved_version_id p = None \<Longrightarrow> catalog_step (ps, vs, rs) (ps @ [p], vs, rs)"
| catalog_submit: "p \<in> set ps \<Longrightarrow> gv_id v \<notin> gv_id ` set vs \<Longrightarrow> gp_id p' = gp_id p
     \<Longrightarrow> gp_approved_version_id p' = gp_approved_version_id p
     \<Longrightarrow> (gp_status p', gp_review_status p') \<in> {(gp_status p, gp_review_status p), (''submitted'', ''pending'')}
     \<Longrightarrow> (gv_status v, gv_validation_status v) \<in> {(''submitted'', ''valid''), (''draft'', ''invalid'')}
     \<Longrightarrow> catalog_step (ps, vs, rs) (save_row gp_id p' ps, vs @ [v], rs)"
| catalog_review: "p \<in> set ps \<Longrightarrow> v \<in> set vs \<Longrightarrow> gv_plugin_id v = gp_id p \<Longrightarrow> gw_plugin_id r = gp_id p \<Longrightarrow> gw_version_id r = gv_id v
     \<Longrightarrow> apply_review E (gw_decision r) (p, v) = (p', v')
     \<Longrightarrow> catalog_step (ps, vs, rs) (save_row gp_id (p'\<lparr>gp_updated_at := t\<rparr>) ps, save_row gv_id (v'\<lparr>gv_updated_at := t\<rparr>) vs, rs @ [r])"
| catalog_suspend: "p \<in> set ps \<Longrightarrow> catalog_step (ps, vs, rs)
     (save_row gp_id (p\<lparr>gp_status := ''suspended'', gp_review_status := ''takedown'', gp_updated_at := t\<rparr>) ps, vs, rs)"

lemma GetPlugin_Inr: "GetPlugin E i s = Inr p \<Longrightarrow> p \<in> set (sg_plugins s) \<and> gp_id p = i"
  by (auto simp: GetPlugin_def db_simps dest: first_by_Some)

lemma GetVersion_sage_Inr: "GetVersion_sage E n i s = Inr v \<Longrightarrow> v \<in> set (sg_versions s) \<and> gv_id v = i"
  by (auto simp: GetVersion_sage_def db_simps dest: first_by_Some)

lemma CreatePlugin_catalog: "catalog_step (catalog_rows s) (catalog_rows (snd (CreatePlugin E d input s)))"
  by (auto simp: CreatePlugin_def CreatePlugin_repo_def Let_def db_simps catalog_rows_def
      intro!: catalog_same catalog_draft split: sum.splits if_splits)

lemma submit_tx_catalog:
  assumes "submit_tx E C p (new_sage_version E (gp_id p) version verdict package) verdict s = Inr (p', s')" "p \<in> set (sg_plugins s)"
  shows "catalog_step (catalog_rows s) (catalog_rows s')"
proof -
  let ?v = "new_sage_version E (gp_id p) version verdict package"
  have "gv_id ?v \<notin> gv_id ` set (sg_versions s)" "catalog_rows s' = (save_row gp_id p' (sg_plugins s), sg_versions s @ [?v], sg_reviews s)"
    "gp_id p' = gp_id p" "gp_approved_version_id p' = gp_approved_version_id p"
    "(gp_status p', gp_review_status p') \<in> {(gp_status p, gp_review_status p), (''submitted'', ''pending'')}"
    using assms(1) by (auto simp: submit_tx_def CreateVersion_sage_def UpdatePlugin_def Let_def db_simps catalog_rows_def
        split: sum.splits if_splits)
  moreover have "(gv_status ?v, gv_validation_status ?v) \<in> {(''submitted'', ''valid''), (''draft'', ''invalid'')}"
    by (simp add: new_sage_version_def)
  ultimately show ?thesis using catalog_submit [OF assms(2), of ?v "sg_versions s" p' "sg_reviews s"] by (simp add: catalog_rows_def)
qed

lemma SubmitVersion_catalog: "catalog_step (catalog_rows s) (catalog_rows (snd (SubmitVersion_sage E C d i input s)))"
  by (auto simp: SubmitVersion_sage_def Let_def intro: catalog_same submit_tx_catalog dest!: GetPlugin_Inr
      split: sum.splits prod.splits option.splits if_splits)

lemma review_tx_catalog:
  assumes "review_tx E r (p, v) s = Inr s'" "p \<in> set (sg_plugins s)" "v \<in> set (sg_versions s)" "gv_plugin_id v = gp_id p"
    "gw_plugin_id r = gp_id p" "gw_version_id r = gv_id v"
  shows "catalog_step (catalog_rows s) (catalog_rows s')"
proof -
  obtain p' v' where a: "apply_review E (gw_decision r) (p, v) = (p', v')" by fastforce
  with assms(1) have "catalog_rows s' = (save_row gp_id (p'\<lparr>gp_updated_at := e_now E\<rparr>) (sg_plugins s),
      save_row gv_id (v'\<lparr>gv_updated_at := e_now E\<rparr>) (sg_versions s), sg_reviews s @ [r])"
    by (auto simp: review_tx_def CreateReview_def UpdatePlugin_def UpdateVersion_sage_def Let_def db_simps catalog_rows_def split: sum.splits)
  with catalog_review [OF assms(2-6) a, where t = "e_now E" and rs = "sg_reviews s"] show ?thesis by (simp add: catalog_rows_def)
qed

lemma ReviewPlugin_catalog: "catalog_step (catalog_rows s) (catalog_rows (snd (ReviewPlugin E r i j input s)))"
  by (auto simp: ReviewPlugin_def Let_def intro: catalog_same elim!: review_tx_catalog dest!: GetPlugin_Inr GetVersion_sage_Inr
      split: sum.splits if_splits)

lemma SuspendPlugin_catalog: "catalog_step (catalog_rows s) (catalog_rows (snd (SuspendPlugin E a i reason s)))"
  by (auto simp: SuspendPlugin_def UpdatePlugin_def Let_def db_simps catalog_rows_def intro: catalog_same catalog_suspend
      dest!: GetPlugin_Inr split: sum.splits)

text \<open>Installations, grants and invocations.\<close>

lemma store_grant_rows: "store_grant E u x key input s = Inr (g, s') \<Longrightarrow> catalog_rows s' = catalog_rows s \<and> usage_rows s' = usage_rows s
    \<and> sg_installs s' = sg_installs s"
  by (auto simp: store_grant_def UpdateGrant_def CreateGrant_def Let_def split: sum.splits)

lemma catalog_untouched:
  "catalog_rows (snd (InstallPlugin E u d key mode s)) = catalog_rows s"
  "catalog_rows (snd (SetInstallationStatus_sage E u d i st s)) = catalog_rows s"
  "catalog_rows (snd (RevokeGrant E u d g s)) = catalog_rows s"
  "catalog_rows (snd (SubmitReport E u i rep s)) = catalog_rows s"
  by (auto simp: InstallPlugin_def UpdateInstallation_sage_def CreateInstallation_sage_def SetInstallationStatus_sage_def
      RevokeGrant_def UpdateGrant_def SubmitReport_def report_tx_def CreateReport_def UpdateInvocation_def CreateUsageLedger_def Let_def
      split: sum.splits option.splits if_splits)

lemma GrantPermission_catalog: "catalog_rows (snd (GrantPermission E C u d i input s)) = catalog_rows s"
  by (auto simp: GrantPermission_def Let_def same_rows_def dest!: governance_rows confirm_rows store_grant_rows
      split: sum.splits prod.splits if_splits)

lemma CreateInvocation_catalog: "catalog_rows (snd (CreateInvocation E C u d input s)) = catalog_rows s"
  by (auto simp: CreateInvocation_def CreateInvocation_repo_def Let_def same_rows_def dest!: governance_rows
      split: sum.splits prod.splits if_splits)

lemma sage_serve_catalog: "catalog_step (catalog_rows s) (catalog_rows (sage_serve q s))"
  by (cases q) (simp_all add: CreatePlugin_catalog SubmitVersion_catalog ReviewPlugin_catalog SuspendPlugin_catalog catalog_untouched
      GrantPermission_catalog CreateInvocation_catalog catalog_same)

section \<open>The catalog\<close>

definition approval_ok :: "sage_version list \<Rightarrow> sage_review list \<Rightarrow> sage_plugin \<Rightarrow> bool" where
  "approval_ok vs rs p \<longleftrightarrow> (published_plugin p \<longrightarrow> gp_approved_version_id p \<noteq> None)
     \<and> (case gp_approved_version_id p of
          None \<Rightarrow> True
        | Some i \<Rightarrow> (\<exists>v\<in>set vs. gv_id v = i \<and> gv_plugin_id v = gp_id p)
            \<and> (\<exists>r\<in>set rs. gw_plugin_id r = gp_id p \<and> gw_version_id r = i \<and> gw_decision r = ''approved''))"

definition plugin_typed :: "sage_plugin \<Rightarrow> bool" where
  "plugin_typed p \<longleftrightarrow> gp_status p \<in> {''draft'', ''submitted'', ''published'', ''suspended''}
     \<and> gp_review_status p \<in> {''pending'', ''approved'', ''rejected'', ''request_changes'', ''takedown''}
     \<and> (gp_status p = ''suspended'' \<longrightarrow> gp_review_status p \<in> {''rejected'', ''request_changes'', ''takedown''})"

definition version_typed :: "sage_version \<Rightarrow> bool" where
  "version_typed v \<longleftrightarrow> gv_status v \<in> {''draft'', ''submitted'', ''approved'', ''rejected''}
     \<and> gv_validation_status v \<in> {''valid'', ''invalid''} \<and> (gv_status v = ''submitted'' \<longrightarrow> gv_validation_status v = ''valid'')"

definition catalog_ok :: "sage_plugin list \<times> sage_version list \<times> sage_review list \<Rightarrow> bool" where
  "catalog_ok c = (case c of (ps, vs, rs) \<Rightarrow> distinct (map gp_id ps) \<and> distinct (map gv_id vs)
     \<and> list_all (approval_ok vs rs) ps \<and> list_all plugin_typed ps \<and> list_all version_typed vs)"

lemma approval_ok_mono: "approval_ok vs rs p \<Longrightarrow> set vs \<subseteq> set vs' \<Longrightarrow> set rs \<subseteq> set rs' \<Longrightarrow> approval_ok vs' rs' p"
  by (auto simp: approval_ok_def split: option.splits)

lemma approval_ok_same: "gp_id p' = gp_id p \<Longrightarrow> gp_approved_version_id p' = gp_approved_version_id p
    \<Longrightarrow> (published_plugin p' \<Longrightarrow> published_plugin p) \<Longrightarrow> approval_ok vs rs p \<Longrightarrow> approval_ok vs rs p'"
  by (cases "gp_approved_version_id p") (auto simp: approval_ok_def)

text \<open>Rewriting one row of a table.\<close>

lemma list_all_save_row: "list_all P t \<Longrightarrow> P r \<Longrightarrow> list_all P (save_row k r t)"
  by (auto simp: list_all_iff table_simps)

lemma distinct_resave: "distinct (map k t) \<Longrightarrow> x \<in> set t \<Longrightarrow> k r = k x \<Longrightarrow> distinct (map k (save_row k r t))"
  by (subst map_key_save_row [of x]) simp_all

lemma ex_save_row:
  assumes "distinct (map k t)" "x \<in> set t" "k r = k x" "\<exists>y\<in>set t. Q y" "Q x \<Longrightarrow> Q r"
  shows "\<exists>y\<in>set (save_row k r t). Q y"
proof -
  obtain y where y: "y \<in> set t" "Q y" using assms(4) by blast
  show ?thesis
  proof (cases "k y = k x")
    case True
    with distinct_map_same [OF assms(1) y(1) assms(2)] y assms(5) show ?thesis by (auto simp: table_simps)
  next
    case False
    with y assms(3) show ?thesis by (auto simp: table_simps)
  qed
qed

text \<open>A version that is rewritten with its identifier and plugin still stands for the old one.\<close>

lemma approval_ok_version:
  assumes "approval_ok vs rs p" "v \<in> set vs" "distinct (map gv_id vs)" "gv_id v' = gv_id v" "gv_plugin_id v' = gv_plugin_id v"
  shows "approval_ok (save_row gv_id v' vs) rs p"
  using assms(1) ex_save_row [OF assms(3,2,4), of "\<lambda>w. Some (gv_id w) = gp_approved_version_id p \<and> gv_plugin_id w = gp_id p"] assms(4,5)
  by (auto simp: approval_ok_def split: option.splits)

lemma apply_review_keys:
  "gp_id (fst (apply_review E d (p, v))) = gp_id p" "gv_id (snd (apply_review E d (p, v))) = gv_id v"
  "gv_plugin_id (snd (apply_review E d (p, v))) = gv_plugin_id v"
  "gp_approved_version_id (fst (apply_review E d (p, v))) = (if d = ''approved'' then Some (gv_id v) else gp_approved_version_id p)"
  by (simp_all add: apply_review_def)

lemma apply_review_typed:
  "plugin_typed p \<Longrightarrow> plugin_typed (fst (apply_review E d (p, v)))"
  "version_typed v \<Longrightarrow> version_typed (snd (apply_review E d (p, v)))"
  by (simp_all add: apply_review_def plugin_typed_def version_typed_def)

lemma apply_review_unpublished:
  "d \<noteq> ''approved'' \<Longrightarrow> published_plugin (fst (apply_review E d (p, v))) \<Longrightarrow> published_plugin p"
  by (simp add: apply_review_def published_plugin_def split: if_split_asm)

lemmas apply_review_row = apply_review_keys apply_review_typed apply_review_unpublished

lemma catalog_step_ok: "catalog_step c c' \<Longrightarrow> catalog_ok c \<Longrightarrow> catalog_ok c'"
proof (induction rule: catalog_step.induct)
  case (catalog_draft p ps vs rs)
  then show ?case by (auto simp: catalog_ok_def approval_ok_def plugin_typed_def published_plugin_def)
next
  case (catalog_submit p ps v vs p' rs)
  have "list_all (approval_ok (vs @ [v]) rs) ps"
    using catalog_submit.prems by (auto simp: catalog_ok_def list_all_iff intro: approval_ok_mono)
  moreover from this catalog_submit.hyps have "approval_ok (vs @ [v]) rs p'"
    by (intro approval_ok_same [of p' p]) (auto simp: list_all_iff published_plugin_def)
  moreover have "plugin_typed p'"
  proof -
    have "plugin_typed p" using catalog_submit.prems catalog_submit.hyps(1) by (simp add: catalog_ok_def list_all_iff)
    with catalog_submit.hyps(5) show ?thesis by (auto simp: plugin_typed_def)
  qed
  moreover have "version_typed v" using catalog_submit.hyps(6) by (auto simp: version_typed_def)
  ultimately show ?case using catalog_submit.prems catalog_submit.hyps(1-3)
    by (simp add: catalog_ok_def list_all_save_row distinct_resave)
next
  case (catalog_review p ps v vs r E p' v' rs t)
  note row = apply_review_row [where E = E and d = "gw_decision r" and p = p and v = v, unfolded catalog_review.hyps(6) fst_conv snd_conv]

  have "list_all (approval_ok (save_row gv_id (v'\<lparr>gv_updated_at := t\<rparr>) vs) (rs @ [r])) ps"
    using catalog_review.prems catalog_review.hyps(2) row(2,3)
    by (auto simp: catalog_ok_def list_all_iff intro!: approval_ok_version intro: approval_ok_mono [of vs rs])
  moreover have "approval_ok (save_row gv_id (v'\<lparr>gv_updated_at := t\<rparr>) vs) (rs @ [r]) (p'\<lparr>gp_updated_at := t\<rparr>)"
  proof (cases "gw_decision r = ''approved''")
    case True
    with catalog_review.hyps row show ?thesis by (auto simp: approval_ok_def table_simps)
  next
    case False
    with row(1,4) have k: "gp_id (p'\<lparr>gp_updated_at := t\<rparr>) = gp_id p"
      "gp_approved_version_id (p'\<lparr>gp_updated_at := t\<rparr>) = gp_approved_version_id p" by simp_all
    have "published_plugin p" if "published_plugin (p'\<lparr>gp_updated_at := t\<rparr>)"
      using row(7) [OF False] that by (simp add: published_plugin_def)
    from approval_ok_same [OF k this] show ?thesis using calculation catalog_review.hyps(1) by (simp add: list_all_iff)
  qed
  moreover have "plugin_typed (p'\<lparr>gp_updated_at := t\<rparr>)" "version_typed (v'\<lparr>gv_updated_at := t\<rparr>)"
    using catalog_review.prems catalog_review.hyps(1,2) row(5,6)
    by (auto simp: catalog_ok_def list_all_iff plugin_typed_def version_typed_def)
  moreover have "distinct (map gp_id (save_row gp_id (p'\<lparr>gp_updated_at := t\<rparr>) ps))"
    by (rule distinct_resave [of _ _ p]) (use catalog_review.prems catalog_review.hyps(1) row(1) in \<open>simp_all add: catalog_ok_def\<close>)
  moreover have "distinct (map gv_id (save_row gv_id (v'\<lparr>gv_updated_at := t\<rparr>) vs))"
    by (rule distinct_resave [of _ _ v]) (use catalog_review.prems catalog_review.hyps(2) row(2) in \<open>simp_all add: catalog_ok_def\<close>)
  moreover have "list_all plugin_typed ps" "list_all version_typed vs" using catalog_review.prems by (simp_all add: catalog_ok_def)
  ultimately show ?case unfolding catalog_ok_def prod.case by (intro conjI list_all_save_row)
next
  case (catalog_suspend p ps vs rs t)
  let ?p = "p\<lparr>gp_status := ''suspended'', gp_review_status := ''takedown'', gp_updated_at := t\<rparr>"
  have "approval_ok vs rs p" using catalog_suspend by (simp add: catalog_ok_def list_all_iff)
  then have "approval_ok vs rs ?p" by (rule approval_ok_same [of _ p, rotated 3]) (simp_all add: published_plugin_def)
  moreover have "plugin_typed ?p" by (simp add: plugin_typed_def)
  moreover have "distinct (map gp_id (save_row gp_id ?p ps))"
    by (rule distinct_resave [of _ _ p]) (use catalog_suspend in \<open>simp_all add: catalog_ok_def\<close>)
  moreover have "distinct (map gv_id vs)" "list_all (approval_ok vs rs) ps" "list_all plugin_typed ps" "list_all version_typed vs"
    using catalog_suspend.prems by (simp_all add: catalog_ok_def)
  ultimately show ?case unfolding catalog_ok_def prod.case by (intro conjI list_all_save_row)
qed

lemma sage_catalog_ok: "catalog_ok (catalog_rows (fold sage_serve qs sage_init))"
proof -
  have "catalog_ok (catalog_rows (fold sage_serve qs s))" if "catalog_ok (catalog_rows s)" for s
    using that by (induction qs arbitrary: s) (simp_all add: catalog_step_ok [OF sage_serve_catalog])
  then show ?thesis by (simp add: catalog_rows_def catalog_ok_def sage_init_def)
qed

text \<open>
  C23: The catalog only serves approved plugins: whatever was requested before, a plugin found in it by its key has
  an approved version of its own, and some reviewer approved exactly that version of that plugin.
\<close>

theorem catalog_plugin_was_approved:
  assumes "GetCatalogPlugin E key (fold sage_serve qs sage_init) = Inr item"
  shows "\<exists>v\<in>set (sg_versions (fold sage_serve qs sage_init)).
     gp_approved_version_id (cl_plugin item) = Some (gv_id v) \<and> gv_plugin_id v = gp_id (cl_plugin item)
     \<and> (\<exists>r\<in>set (sg_reviews (fold sage_serve qs sage_init)). gw_plugin_id r = gp_id (cl_plugin item)
          \<and> gw_version_id r = gv_id v \<and> gw_decision r = ''approved'')"
proof -
  let ?s = "fold sage_serve qs sage_init"
  obtain p where p: "GetPublishedPluginByKey E key ?s = Inr p" "cl_plugin item = p"
    using assms by (auto simp: GetCatalogPlugin_def enrichCatalogPlugin_def split: sum.splits)
  then have "p \<in> set (sg_plugins ?s)" "published_plugin p"
    by (auto simp: GetPublishedPluginByKey_def db_simps dest: first_by_Some)
  moreover from this have "approval_ok (sg_versions ?s) (sg_reviews ?s) p"
    using sage_catalog_ok [of qs] by (simp add: catalog_ok_def catalog_rows_def list_all_iff)
  ultimately show ?thesis using p(2) by (auto simp: approval_ok_def split: option.splits)
qed

section \<open>The states of the rows\<close>

definition use_typed :: "sage_state \<Rightarrow> bool" where
  "use_typed s \<longleftrightarrow> list_all (\<lambda>x. gi_status x \<in> {''active'', ''disabled'', ''uninstalled''}) (sg_installs s)
     \<and> list_all (\<lambda>g. gg_status g \<in> {''active'', ''revoked''} \<and> gg_risk_level g = grant_risk (gg_permission_key g)
          \<and> gg_requires_confirmation g = needs_confirmation (gg_permission_key g)) (sg_grants s)
     \<and> list_all (\<lambda>n. gn_status n \<in> {''created'', ''completed'', ''failed''}) (sg_invocations s)"

definition same_use :: "sage_state \<Rightarrow> sage_state \<Rightarrow> bool" where
  "same_use s s' \<longleftrightarrow> usage_rows s' = usage_rows s \<and> sg_installs s' = sg_installs s \<and> sg_grants s' = sg_grants s"

lemma same_use_typed: "same_use s s' \<Longrightarrow> use_typed s' = use_typed s"
  by (simp add: use_typed_def usage_rows_def same_use_def)

lemma same_rows_use: "same_rows s s' \<Longrightarrow> same_use s s'"
  by (simp add: same_rows_def same_use_def)

lemma use_typed_log [simp]: "use_typed (record_sage_audit E a d ac rt ri m s) = use_typed s"
  "use_typed (recordPluginSync E u d i op p s) = use_typed s" "use_typed (s\<lparr>sg_ids := ids\<rparr>) = use_typed s"
  by (rule same_use_typed, simp add: same_use_def)+

lemma same_use_log [simp]: "same_use s (record_sage_audit E a d ac rt ri m s') = same_use s s'"
  "same_use s (recordPluginSync E u d i op p s') = same_use s s'" "same_use s (s'\<lparr>sg_objects := b\<rparr>) = same_use s s'"
  "same_use s (s'\<lparr>sg_ids := ids\<rparr>) = same_use s s'" "same_use s s"
  by (simp_all add: same_use_def)

lemma CreatePlugin_use: "same_use s (snd (CreatePlugin E d input s))"
  by (simp add: CreatePlugin_def CreatePlugin_repo_def Let_def split: sum.split) (simp add: same_use_def)

lemma SuspendPlugin_use: "same_use s (snd (SuspendPlugin E a i reason s))"
  by (simp add: SuspendPlugin_def UpdatePlugin_def Let_def split: sum.split) (simp add: same_use_def)

lemma submit_tx_use: "submit_tx E C p v verdict s = Inr (p', s') \<Longrightarrow> same_use s s'"
  by (auto simp: submit_tx_def CreateVersion_sage_def UpdatePlugin_def Let_def same_use_def split: sum.splits)

lemma SubmitVersion_use: "same_use s (snd (SubmitVersion_sage E C d i sub s))"
  by (simp add: SubmitVersion_sage_def Let_def submit_tx_use split: sum.split prod.split option.split)

lemma review_tx_use: "review_tx E r pv s = Inr s' \<Longrightarrow> same_use s s'"
  by (auto simp: review_tx_def CreateReview_def UpdatePlugin_def UpdateVersion_sage_def Let_def same_use_def split: sum.splits prod.splits)

lemma ReviewPlugin_use: "same_use s (snd (ReviewPlugin E r i j rv s))"
  by (simp add: ReviewPlugin_def Let_def review_tx_use split: sum.split)

lemmas catalog_requests_use = CreatePlugin_use SuspendPlugin_use SubmitVersion_use ReviewPlugin_use

lemma GetInstallation_sage_Inr: "GetInstallation_sage E i s = Inr x \<Longrightarrow> x \<in> set (sg_installs s) \<and> gi_id x = i"
  by (auto simp: GetInstallation_sage_def db_simps dest: first_by_Some)

lemma own_installation_Inr: "own_installation E u i s = Inr x \<Longrightarrow> x \<in> set (sg_installs s) \<and> gi_id x = i \<and> gi_user_id x = u"
  by (auto simp: own_installation_def dest!: GetInstallation_sage_Inr split: sum.splits if_splits)

lemma UpdateInstallation_typed:
  "UpdateInstallation_sage E x s = Inr (x', s') \<Longrightarrow> gi_status x \<in> {''active'', ''disabled'', ''uninstalled''} \<Longrightarrow> use_typed s
    \<Longrightarrow> use_typed s'"
  by (auto simp: UpdateInstallation_sage_def Let_def db_simps use_typed_def list_all_save_row split: sum.splits)

lemma CreateInstallation_typed: "CreateInstallation_sage E x s = Inr s' \<Longrightarrow> gi_status x = ''active'' \<Longrightarrow> use_typed s \<Longrightarrow> use_typed s'"
  by (auto simp: CreateInstallation_sage_def db_simps use_typed_def split: sum.splits)

lemma InstallPlugin_typed:
  assumes "use_typed s"
  shows "use_typed (snd (InstallPlugin E u d key mode s))"
proof -
  have old: "use_typed s'" if "UpdateInstallation_sage E (x\<lparr>gi_status := ''active'', gi_disabled_at := None\<rparr>) s = Inr (x', s')" for x x' s'
    by (rule UpdateInstallation_typed [OF that _ assms]) simp
  have new: "use_typed s'" if "CreateInstallation_sage E x s = Inr s'" "gi_status x = ''active''" for x s'
    by (rule CreateInstallation_typed [OF that assms])
  show ?thesis
    by (simp add: InstallPlugin_def Let_def assms old new split: sum.split option.split prod.split)
qed

lemma SetInstallationStatus_typed:
  assumes "st \<in> {''active'', ''disabled'', ''uninstalled''}" "use_typed s"
  shows "use_typed (snd (SetInstallationStatus_sage E u d i st s))"
proof -
  have "use_typed s'" if "UpdateInstallation_sage E (x\<lparr>gi_status := st, gi_disabled_at := t\<rparr>) s = Inr (x', s')" for x t x' s'
    by (rule UpdateInstallation_typed [OF that _ assms(2)]) (use assms(1) in simp)
  with assms(2) show ?thesis unfolding SetInstallationStatus_sage_def by (auto split: sum.split prod.split)
qed

lemma GetGrantByInstallationPermission_Inr:
  "GetGrantByInstallationPermission E i key s = Inr g
    \<Longrightarrow> g \<in> set (sg_grants s) \<and> gg_installation_id g = i \<and> gg_permission_key g = trim key"
  by (auto simp: GetGrantByInstallationPermission_def db_simps dest: first_by_Some)

lemma GetGrant_Inr: "GetGrant E i s = Inr g \<Longrightarrow> g \<in> set (sg_grants s) \<and> gg_id g = i"
  by (auto simp: GetGrant_def db_simps dest: first_by_Some)

text \<open>What storing a grant leaves in the table: one active row for the permission.\<close>

lemma store_grant_Inr:
  assumes "store_grant E u x key input s = Inr (g, s')"
  shows "sg_grants s' = save_row gg_id g (sg_grants s) \<or> sg_grants s' = sg_grants s @ [g]"
    "gg_status g = ''active''" "gg_risk_level g = grant_risk key" "gg_requires_confirmation g = needs_confirmation key"
    "gg_permission_key g = key \<or> gg_permission_key g = trim key" "gg_installation_id g = gi_id x"
    "usage_rows s' = usage_rows s" "sg_installs s' = sg_installs s"
  using assms
  by (auto simp: store_grant_def UpdateGrant_def CreateGrant_def Let_def db_simps split: sum.splits
      dest!: GetGrantByInstallationPermission_Inr)

lemma store_grant_typed:
  assumes "store_grant E u x (trim key) input s = Inr (g, s')" "use_typed s"
  shows "use_typed s'"
proof -
  note g = store_grant_Inr [OF assms(1)]
  have "gg_permission_key g = trim key" using g(5) by simp
  with g assms(2) show ?thesis by (auto simp: use_typed_def usage_rows_def list_all_save_row)
qed

lemma GrantPermission_typed:
  assumes "use_typed s"
  shows "use_typed (snd (GrantPermission E C u d i input s))"
proof -
  have gov: "use_typed s'" if "enforceSageGovernance E C inp s = (r, s')" for inp r s'
    using same_use_typed [OF same_rows_use] governance_rows [OF that] assms by blast
  have conf: "use_typed s''" if "confirm_grant E u k inp s' = (r, s'')" "use_typed s'" for k inp s' r s''
    using same_use_typed [OF same_rows_use] confirm_rows [OF that(1)] that(2) by blast
  have store: "use_typed t" if "enforceSageGovernance E C inp s = (r, s')" "confirm_grant E u k gin s' = (r', s'')"
      "store_grant E u x (trim key) gin s'' = Inr (g, t)" for inp r s' k gin r' s'' x key g t
    by (rule store_grant_typed [OF that(3) conf [OF that(2) gov [OF that(1)]]])
  show ?thesis unfolding GrantPermission_def Let_def
    by (auto split: sum.split prod.split intro: assms gov conf store)
qed

lemma RevokeGrant_typed: "use_typed s \<Longrightarrow> use_typed (snd (RevokeGrant E u d g s))"
  by (auto simp: RevokeGrant_def UpdateGrant_def Let_def db_simps use_typed_def list_all_save_row list_all_iff table_simps
      dest!: GetGrant_Inr
      split: sum.splits)

lemma GetInvocation_Inr: "GetInvocation E i s = Inr n \<Longrightarrow> n \<in> set (sg_invocations s) \<and> gn_id n = i"
  by (auto simp: GetInvocation_def db_simps dest: first_by_Some)

lemma CreateInvocation_typed:
  assumes "use_typed s"
  shows "use_typed (snd (CreateInvocation E C u d input s))"
proof -
  have gov: "use_typed s'" if "enforceSageGovernance E C inp s = (r, s')" for inp r s'
    using same_use_typed [OF same_rows_use] governance_rows [OF that] assms by blast
  have new: "use_typed s'" if "CreateInvocation_repo E n t = Inr s'" "gn_status n = ''created''" "use_typed t" for n t s'
    using that by (auto simp: CreateInvocation_repo_def db_simps use_typed_def split: sum.splits)
  show ?thesis unfolding CreateInvocation_def Let_def
    by (auto split: sum.split prod.split intro: assms gov new [OF _ _ gov])
qed

text \<open>What a stored report writes.\<close>

lemma report_tx_Inr:
  assumes "report_tx E r n s = Inr s'"
  shows "sg_reports s' = sg_reports s @ [r]" "sg_installs s' = sg_installs s" "sg_grants s' = sg_grants s"
    "sg_invocations s' = save_row gn_id ((apply_report E (gr_status r) n)\<lparr>gn_updated_at := e_now E\<rparr>) (sg_invocations s)"
    "\<exists>l. sg_ledger s' = sg_ledger s @ [l] \<and> gl_report_id l = gr_id r \<and> gl_invocation_id l = gn_id n \<and> gl_user_id l = gn_user_id n
       \<and> gl_plugin_id l = gn_plugin_id n \<and> gl_quantity l = 1"
    "\<forall>x\<in>set (sg_reports s). \<not> (gr_invocation_id x = gr_invocation_id r \<and> gr_client_report_id x = gr_client_report_id r)"
  using assms
  by (auto simp: report_tx_def CreateReport_def UpdateInvocation_def CreateUsageLedger_def Let_def db_simps split: sum.splits)

lemma apply_report_row [simp]: "gn_id (apply_report E st n) = gn_id n" "gn_user_id (apply_report E st n) = gn_user_id n"
  "gn_plugin_id (apply_report E st n) = gn_plugin_id n"
  "gn_status (apply_report E st n) = (if st = ''completed'' \<or> st = ''failed'' then st else gn_status n)"
  by (simp_all add: apply_report_def)

lemma SubmitReport_typed:
  assumes "use_typed s"
  shows "use_typed (snd (SubmitReport E u i input s))"
proof -
  have "use_typed s'" if "report_tx E r n s = Inr s'" "GetInvocation E i s = Inr n" for r n s'
  proof -
    have "gn_status n \<in> {''created'', ''completed'', ''failed''}"
      using GetInvocation_Inr [OF that(2)] assms by (simp add: use_typed_def list_all_iff)
    with report_tx_Inr(2-4) [OF that(1)] assms show ?thesis by (simp add: use_typed_def list_all_save_row)
  qed
  with assms show ?thesis unfolding SubmitReport_def Let_def by (auto split: sum.split)
qed

lemma sage_use_typed: "use_typed (fold sage_serve qs sage_init)"
proof -
  have "use_typed (sage_serve q s)" if "use_typed s" for q s
    using that by (cases q) (simp_all add: same_use_typed [OF CreatePlugin_use] same_use_typed [OF SubmitVersion_use]
        same_use_typed [OF ReviewPlugin_use] same_use_typed [OF SuspendPlugin_use] InstallPlugin_typed SetInstallationStatus_typed
        GrantPermission_typed RevokeGrant_typed CreateInvocation_typed SubmitReport_typed)
  then have "use_typed (fold sage_serve qs s)" if "use_typed s" for s
    using that by (induction qs arbitrary: s) simp_all
  then show ?thesis by (simp add: use_typed_def sage_init_def)
qed

section \<open>The usage ledger\<close>

definition usage_ok :: "sage_invocation list \<times> sage_report list \<times> sage_ledger list \<Rightarrow> bool" where
  "usage_ok c = (case c of (ns, rs, ls) \<Rightarrow> distinct (map gn_id ns)
     \<and> map (\<lambda>l. (gl_report_id l, gl_invocation_id l)) ls = map (\<lambda>r. (gr_id r, gr_invocation_id r)) rs
     \<and> distinct (map (\<lambda>r. (gr_invocation_id r, gr_client_report_id r)) rs)
     \<and> list_all (\<lambda>l. gl_quantity l = 1
          \<and> (\<exists>n\<in>set ns. gn_id n = gl_invocation_id l \<and> gn_user_id n = gl_user_id l \<and> gn_plugin_id n = gl_plugin_id l)) ls)"

lemma CreateInvocation_repo_usage: "CreateInvocation_repo E n s = Inr s' \<Longrightarrow> usage_ok (usage_rows s) \<Longrightarrow> usage_ok (usage_rows s')"
  by (auto simp: CreateInvocation_repo_def db_simps usage_rows_def usage_ok_def list_all_iff split: sum.splits) blast

lemma CreateInvocation_usage:
  assumes "usage_ok (usage_rows s)"
  shows "usage_ok (usage_rows (snd (CreateInvocation E C u d input s)))"
proof -
  have gov: "usage_ok (usage_rows s')" if "enforceSageGovernance E C inp s = (r, s')" for inp r s'
    using governance_rows [OF that] assms by (simp add: same_rows_def)
  show ?thesis unfolding CreateInvocation_def Let_def
    by (auto split: sum.split prod.split intro: assms gov CreateInvocation_repo_usage [OF _ gov])
qed

lemma report_tx_usage:
  assumes "report_tx E r n s = Inr s'" "n \<in> set (sg_invocations s)" "gr_invocation_id r = gn_id n" "usage_ok (usage_rows s)"
  shows "usage_ok (usage_rows s')"
proof -
  let ?n = "(apply_report E (gr_status r) n)\<lparr>gn_updated_at := e_now E\<rparr>"
  note t = report_tx_Inr [OF assms(1)]
  obtain l where l: "sg_ledger s' = sg_ledger s @ [l]" "gl_report_id l = gr_id r" "gl_invocation_id l = gn_id n"
    "gl_user_id l = gn_user_id n" "gl_plugin_id l = gn_plugin_id n" "gl_quantity l = 1" using t(5) by blast
  note ok = assms(4) [unfolded usage_rows_def usage_ok_def prod.case]
  have d: "distinct (map gn_id (sg_invocations s))" using ok by simp
  have keep: "\<exists>y\<in>set (save_row gn_id ?n (sg_invocations s)). gn_id y = i \<and> gn_user_id y = u \<and> gn_plugin_id y = p"
    if "\<exists>y\<in>set (sg_invocations s). gn_id y = i \<and> gn_user_id y = u \<and> gn_plugin_id y = p" for i u p
    by (rule ex_save_row [OF d assms(2) _ that]) simp_all
  have "distinct (map gn_id (save_row gn_id ?n (sg_invocations s)))" by (rule distinct_resave [OF d assms(2)]) simp
  moreover have "(gr_invocation_id r, gr_client_report_id r)
      \<notin> set (map (\<lambda>x. (gr_invocation_id x, gr_client_report_id x)) (sg_reports s))" using t(6) by auto
  moreover have "\<exists>y\<in>set (save_row gn_id ?n (sg_invocations s)).
      gn_id y = gl_invocation_id l \<and> gn_user_id y = gl_user_id l \<and> gn_plugin_id y = gl_plugin_id l"
    by (rule keep) (use assms(2) l in auto)
  ultimately show ?thesis using ok keep t(1,4) l assms(3) by (simp add: usage_rows_def usage_ok_def list_all_iff)
qed

lemma SubmitReport_usage:
  assumes "usage_ok (usage_rows s)"
  shows "usage_ok (usage_rows (snd (SubmitReport E u i input s)))"
proof -
  have "usage_ok (usage_rows s')" if "report_tx E r n s = Inr s'" "GetInvocation E i s = Inr n" "gr_invocation_id r = i" for r n s'
    using report_tx_usage [OF that(1)] GetInvocation_Inr [OF that(2)] that(3) assms by simp
  with assms show ?thesis unfolding SubmitReport_def Let_def by (auto split: sum.split)
qed

lemma usage_untouched:
  "usage_rows (snd (InstallPlugin E u d key mode s)) = usage_rows s"
  "usage_rows (snd (SetInstallationStatus_sage E u d i st s)) = usage_rows s"
  "usage_rows (snd (RevokeGrant E u d g s)) = usage_rows s"
  by (auto simp: InstallPlugin_def UpdateInstallation_sage_def CreateInstallation_sage_def SetInstallationStatus_sage_def
      RevokeGrant_def UpdateGrant_def Let_def split: sum.splits option.splits)

lemma GrantPermission_usage: "usage_rows (snd (GrantPermission E C u d i input s)) = usage_rows s"
  by (auto simp: GrantPermission_def Let_def same_rows_def dest!: governance_rows confirm_rows store_grant_rows
      split: sum.splits prod.splits if_splits)

lemma same_use_usage: "same_use s s' \<Longrightarrow> usage_rows s' = usage_rows s"
  by (simp add: same_use_def)

lemma sage_usage_ok: "usage_ok (usage_rows (fold sage_serve qs sage_init))"
proof -
  have "usage_ok (usage_rows (sage_serve q s))" if "usage_ok (usage_rows s)" for q s
    using that by (cases q) (simp_all add: same_use_usage [OF CreatePlugin_use] same_use_usage [OF SubmitVersion_use]
        same_use_usage [OF ReviewPlugin_use] same_use_usage [OF SuspendPlugin_use] usage_untouched
        GrantPermission_usage CreateInvocation_usage SubmitReport_usage)
  then have "usage_ok (usage_rows (fold sage_serve qs s))" if "usage_ok (usage_rows s)" for s
    using that by (induction qs arbitrary: s) simp_all
  then show ?thesis by (simp add: usage_rows_def usage_ok_def sage_init_def)
qed

text \<open>
  C24: Every execution report is entered in the usage ledger exactly once: after any sequence of requests, retries
  and failed calls included, the ledger has one row of quantity 1 for each report, in the same order, no two
  reports of an invocation have the same client identifier, and each row names the user and the plugin of the
  invocation it is for.
\<close>

theorem reports_are_booked_once:
  "map (\<lambda>l. (gl_report_id l, gl_invocation_id l)) (sg_ledger (fold sage_serve qs sage_init))
     = map (\<lambda>r. (gr_id r, gr_invocation_id r)) (sg_reports (fold sage_serve qs sage_init))
   \<and> distinct (map (\<lambda>r. (gr_invocation_id r, gr_client_report_id r)) (sg_reports (fold sage_serve qs sage_init)))
   \<and> list_all (\<lambda>l. gl_quantity l = 1
        \<and> list_ex (\<lambda>n. gn_id n = gl_invocation_id l \<and> gn_user_id n = gl_user_id l \<and> gn_plugin_id n = gl_plugin_id l)
            (sg_invocations (fold sage_serve qs sage_init))) (sg_ledger (fold sage_serve qs sage_init))"
  using sage_usage_ok [of qs] by (simp add: usage_ok_def usage_rows_def list_ex_iff)

section \<open>Typed rows\<close>

text \<open>A report has an identifier of its client and a status, which is any text but the empty one; and an
  invocation that is over has a report that says so.\<close>

definition report_typed :: "sage_report \<Rightarrow> bool" where
  "report_typed r \<longleftrightarrow> gr_client_report_id r \<noteq> '''' \<and> gr_status r \<noteq> ''''"

definition reported :: "sage_report list \<Rightarrow> sage_invocation \<Rightarrow> bool" where
  "reported rs n \<longleftrightarrow> gn_status n = ''created'' \<or> (\<exists>r\<in>set rs. gr_invocation_id r = gn_id n \<and> gr_status r = gn_status n)"

definition reports_ok :: "sage_invocation list \<times> sage_report list \<times> sage_ledger list \<Rightarrow> bool" where
  "reports_ok c = (case c of (ns, rs, ls) \<Rightarrow> list_all report_typed rs \<and> list_all (reported rs) ns)"

lemma CreateInvocation_reports:
  assumes "reports_ok (usage_rows s)"
  shows "reports_ok (usage_rows (snd (CreateInvocation E C u d input s)))"
proof -
  have gov: "reports_ok (usage_rows s')" if "enforceSageGovernance E C inp s = (r, s')" for inp r s'
    using governance_rows [OF that] assms by (simp add: same_rows_def)
  have new: "reports_ok (usage_rows s')" if "CreateInvocation_repo E n t = Inr s'" "gn_status n = ''created''" "reports_ok (usage_rows t)" for n t s'
    using that by (auto simp: CreateInvocation_repo_def db_simps usage_rows_def reports_ok_def reported_def split: sum.splits)
  show ?thesis unfolding CreateInvocation_def Let_def
    by (auto split: sum.split prod.split intro: assms gov new [OF _ _ gov])
qed

lemma reported_more: "reported rs n \<Longrightarrow> reported (rs @ [r]) n"
  by (auto simp: reported_def)

lemma report_tx_reports:
  assumes "report_tx E r n s = Inr s'" "n \<in> set (sg_invocations s)" "gr_invocation_id r = gn_id n" "report_typed r"
    "reports_ok (usage_rows s)"
  shows "reports_ok (usage_rows s')"
proof -
  let ?n = "(apply_report E (gr_status r) n)\<lparr>gn_updated_at := e_now E\<rparr>"
  note t = report_tx_Inr [OF assms(1)]
  have old: "list_all report_typed (sg_reports s)" "\<forall>x\<in>set (sg_invocations s). reported (sg_reports s) x"
    using assms(5) by (simp_all add: reports_ok_def usage_rows_def list_all_iff)
  have "reported (sg_reports s @ [r]) n" using old(2) assms(2) by (simp add: reported_more)
  then have "reported (sg_reports s @ [r]) ?n" using assms(3) by (auto simp: reported_def)
  then have "list_all (reported (sg_reports s @ [r])) (save_row gn_id ?n (sg_invocations s))"
    using old(2) by (auto simp: list_all_iff set_save_row reported_more)
  then show ?thesis using old(1) assms(4) t(1,4) by (simp add: reports_ok_def usage_rows_def)
qed

lemma SubmitReport_reports:
  assumes "reports_ok (usage_rows s)"
  shows "reports_ok (usage_rows (snd (SubmitReport E u i input s)))"
proof -
  have "reports_ok (usage_rows s')" if "report_tx E r n s = Inr s'" "GetInvocation E i s = Inr n" "gr_invocation_id r = i" "report_typed r" for r n s'
    using report_tx_reports [OF that(1)] GetInvocation_Inr [OF that(2)] that(3,4) assms by simp
  with assms show ?thesis unfolding SubmitReport_def Let_def by (auto simp: report_typed_def or_else_def split: sum.split)
qed

lemma sage_reports_ok: "reports_ok (usage_rows (fold sage_serve qs sage_init))"
proof -
  have "reports_ok (usage_rows (sage_serve q s))" if "reports_ok (usage_rows s)" for q s
    using that by (cases q) (simp_all add: same_use_usage [OF CreatePlugin_use] same_use_usage [OF SubmitVersion_use]
        same_use_usage [OF ReviewPlugin_use] same_use_usage [OF SuspendPlugin_use] usage_untouched
        GrantPermission_usage CreateInvocation_reports SubmitReport_reports)
  then have "reports_ok (usage_rows (fold sage_serve qs s))" if "reports_ok (usage_rows s)" for s
    using that by (induction qs arbitrary: s) simp_all
  then show ?thesis by (simp add: usage_rows_def reports_ok_def sage_init_def)
qed

text \<open>
  C22: After any sequence of requests the rows of five tables of the plugin service are well typed. Plugins, versions,
  installations, grants and invocations have statuses the code knows; a plugin that is suspended does not count as
  approved; a version waiting for review passed validation; every grant carries the risk and the need for a
  confirmation that the server's own table gives its permission, whatever the manifest or the request said; and an
  invocation that is not in the status it was created with has a report with its status. A report itself has an
  identifier of its client and a status, but that status is free text: any that is not empty is stored.
\<close>

theorem sage_rows_are_typed:
  "let s = fold sage_serve qs sage_init in
     list_all plugin_typed (sg_plugins s) \<and> list_all version_typed (sg_versions s)
     \<and> use_typed s
     \<and> list_all report_typed (sg_reports s) \<and> list_all (reported (sg_reports s)) (sg_invocations s)"
  using sage_catalog_ok [of qs] sage_use_typed [of qs] sage_reports_ok [of qs]
  by (simp add: catalog_ok_def catalog_rows_def reports_ok_def usage_rows_def Let_def)

section \<open>High-risk permissions\<close>

text \<open>The other requests at most take a grant away.\<close>

lemma UpdatePlugin_grants: "UpdatePlugin E p s = Inr (p', s') \<Longrightarrow> sg_grants s' = sg_grants s"
  by (auto simp: UpdatePlugin_def Let_def split: sum.splits)

lemma grants_untouched:
  "sg_grants (snd (InstallPlugin E u d key mode s)) = sg_grants s"
  "sg_grants (snd (SetInstallationStatus_sage E u d i st s)) = sg_grants s"
  by (auto simp: InstallPlugin_def UpdateInstallation_sage_def CreateInstallation_sage_def SetInstallationStatus_sage_def
      Let_def split: sum.splits option.splits)

lemma CreateInvocation_grants: "sg_grants (snd (CreateInvocation E C u d input s)) = sg_grants s"
  by (auto simp: CreateInvocation_def CreateInvocation_repo_def Let_def same_rows_def dest!: governance_rows
      split: sum.splits prod.splits if_splits)

lemma SubmitReport_grants: "sg_grants (snd (SubmitReport E u i input s)) = sg_grants s"
  by (auto simp: SubmitReport_def Let_def dest!: report_tx_Inr(3) split: sum.splits if_splits)

lemma RevokeGrant_grants: "g \<in> set (sg_grants (snd (RevokeGrant E u d i s))) \<Longrightarrow> g \<in> set (sg_grants s) \<or> gg_status g = ''revoked''"
  by (auto simp: RevokeGrant_def UpdateGrant_def Let_def db_simps table_simps split: sum.splits if_splits)

lemma same_use_grants: "same_use s s' \<Longrightarrow> sg_grants s' = sg_grants s"
  by (simp add: same_use_def)

lemma confirm_grant_Inr:
  assumes "confirm_grant E u key input s = (Inr r, s')" "needs_confirmation key"
  shows "\<exists>c\<in>set (is_confirmations (sg_ids s)). cf_user_id c = u \<and> cf_operation c = ''sage.permission.high_risk_grant''
    \<and> cf_token_hash c = e_sha256_hex E (xt_confirmation_token input) \<and> cf_used_at c = None \<and> e_now E < cf_expires_at c"
proof -
  obtain ids where "ConsumeConfirmation E u (xt_confirmation_token input) ''sage.permission.high_risk_grant'' ''sage_permission_grant'' (sg_ids s)
      = (Inr r, ids)" using assms by (auto simp: confirm_grant_def split: prod.splits)
  then show ?thesis by (rule ConsumeConfirmation_Inr) blast
qed

text \<open>What a request that leaves a grant new or changed must have been, when the grant is in force.\<close>

definition granted_by :: "sage_req \<Rightarrow> sage_grant \<Rightarrow> sage_state \<Rightarrow> bool" where
  "granted_by q g s \<longleftrightarrow>
     (case q of
        GGrant E C u d i input \<Rightarrow>
          trim (xt_permission_key input) = gg_permission_key g \<and> gg_installation_id g = i
          \<and> list_ex (\<lambda>x. gi_id x = i \<and> gi_user_id x = u) (sg_installs s)
          \<and> (needs_confirmation (gg_permission_key g) \<longrightarrow>
               list_ex (\<lambda>c. cf_user_id c = u \<and> cf_operation c = ''sage.permission.high_risk_grant''
                 \<and> cf_token_hash c = e_sha256_hex E (xt_confirmation_token input) \<and> cf_used_at c = None \<and> e_now E < cf_expires_at c)
               (is_confirmations (sg_ids s)))
      | _ \<Rightarrow> False)"

lemma GrantPermission_granted:
  assumes "g \<in> set (sg_grants (snd (GrantPermission E C u d i input s)))" "g \<notin> set (sg_grants s)"
  shows "granted_by (GGrant E C u d i input) g s"
proof (cases "own_installation E u i s")
  case (Inl e)
  with assms show ?thesis by (simp add: GrantPermission_def)
next
  case (Inr x)
  let ?key = "trim (xt_permission_key input)"
  obtain r s1 where gov: "enforceSageGovernance E C (grant_request E u d x ?key input) s = (r, s1)" by fastforce
  obtain r' s2 where conf: "confirm_grant E u ?key input s1 = (r', s2)" by fastforce
  have same: "sg_grants s1 = sg_grants s" "sg_grants s2 = sg_grants s" "sg_ids s1 = sg_ids s"
    using governance_rows [OF gov] confirm_rows [OF conf] by (simp_all add: same_rows_def)
  from assms Inr gov conf same obtain g' s3 where st: "store_grant E u x ?key input s2 = Inr (g', s3)"
      and ok: "r' = Inr ()" and g: "g \<in> set (sg_grants s3)"
    by (auto simp: GrantPermission_def Let_def split: sum.splits if_splits)
  note row = store_grant_Inr [OF st]
  have "g = g'" using row(1) g assms(2) same(2) by (auto simp: table_simps)
  with row own_installation_Inr [OF Inr] confirm_grant_Inr [OF conf [unfolded ok]] show ?thesis
    by (auto simp: granted_by_def list_ex_iff same(3))
qed

text \<open>
  C19: A permission of high risk is only ever put in force by its user: when a request leaves an active grant that
  was not there before, it is a grant request for that permission on an installation of the user who made it, and
  if the server's table says that the permission needs a confirmation, that user held a live, unused confirmation
  token for exactly this operation.
\<close>

theorem grants_need_their_user:
  assumes "g \<in> set (sg_grants (sage_serve q s))" "g \<notin> set (sg_grants s)" "gg_status g = ''active''"
  shows "granted_by q g s"
  using assms
proof (cases q)
  case (GGrant E C u d i input)
  with assms(1,2) show ?thesis by (simp add: GrantPermission_granted)
next
  case (GRevoke E u d i)
  with assms RevokeGrant_grants [of g E u d i s] show ?thesis by auto
qed (simp_all add: same_use_grants [OF CreatePlugin_use] same_use_grants [OF SubmitVersion_use] same_use_grants [OF ReviewPlugin_use]
    same_use_grants [OF SuspendPlugin_use] grants_untouched CreateInvocation_grants SubmitReport_grants)

definition demo_sage_config :: sage_config where
  "demo_sage_config = \<lparr>xg_enforcer = None, xg_parse_url = (\<lambda>_. None), xg_format = (\<lambda>_. ''?''), xg_date = (\<lambda>_. ''2026.01.01'')\<rparr>"

text \<open>A user with an installation and a live confirmation for the token \<open>t\<close>.\<close>

definition demo_owned :: sage_state where
  "demo_owned = sage_init\<lparr>
     sg_installs := [\<lparr>gi_id = 5, gi_created_at = 0, gi_updated_at = 0, gi_user_id = 7, gi_plugin_id = 3, gi_version_id = 4,
       gi_status = ''active'', gi_install_source = ''catalog'', gi_track_mode = '''', gi_installed_at = 0, gi_disabled_at = None\<rparr>],
     sg_ids := id_init\<lparr>is_confirmations := [\<lparr>cf_id = 9, cf_user_id = 7, cf_device_id = ''phone'',
       cf_operation = ''sage.permission.high_risk_grant'', cf_token_hash = ''ht'', cf_expires_at = 2000000000000000000,
       cf_used_at = None, cf_consumed_by = ''''\<rparr>]\<rparr>\<rparr>"

definition demo_grant :: sage_req where
  "demo_grant = GGrant (env_at 1) demo_sage_config 7 ''phone'' 5
     \<lparr>xt_permission_key = ''local.file.write'', xt_grant_scope = None, xt_confirmation_token = ''t'', xt_approval_token = '''', xt_expires_at = None\<rparr>"

definition demo_granted :: sage_state where
  "demo_granted = sage_serve demo_grant demo_owned
     \<lparr>sg_versions := [version_zero\<lparr>gv_id := 4, gv_permission_summary :=
        [(''permissions'', ASeq [AStr ''local.file.write'', AStr ''context.memory.read''])]\<rparr>]\<rparr>"

definition demo_uninstalled :: sage_state where
  "demo_uninstalled = sage_serve (GUninstall (env_at 2) 7 ''phone'' 5) demo_granted"

definition demo_enabled :: sage_state where
  "demo_enabled = sage_serve (GEnable (env_at 3) 7 ''phone'' 5) demo_uninstalled"

lemma demo_grant_run:
  "let s0 = sage_serve demo_grant demo_owned; gs = sg_grants s0;
       s = s0\<lparr>sg_versions := [version_zero\<lparr>gv_id := 4, gv_permission_summary :=
         [(''permissions'', ASeq [AStr ''local.file.write'', AStr ''context.memory.read''])]\<rparr>]\<rparr>;
       r = PolicyBundle (env_at 2) demo_sage_config 7 5 s;
       s1 = sage_serve (GUninstall (env_at 2) 7 ''phone'' 5) s; s2 = sage_serve (GEnable (env_at 3) 7 ''phone'' 5) s1
   in (length gs = 1 \<and> gg_status (hd gs) = ''active'' \<and> needs_confirmation (gg_permission_key (hd gs)))
      \<and> (succeeds r \<and> pb_denied (projr r) = [''context.memory.read''])
      \<and> (map gi_status (sg_installs s1) = [''uninstalled''] \<and> map gi_status (sg_installs s2) = [''active'']
          \<and> list_ex (live_grant (env_at 3) 5) (sg_grants s2))"
  by code_simp

lemmas demo_grant_facts = demo_grant_run [unfolded Let_def, folded demo_granted_def, folded demo_uninstalled_def, folded demo_enabled_def]

theorem grants_need_their_user_witness:
  "granted_by demo_grant (hd (sg_grants (sage_serve demo_grant demo_owned))) demo_owned
   \<and> needs_confirmation (gg_permission_key (hd (sg_grants (sage_serve demo_grant demo_owned))))"
proof -
  have f: "let gs = sg_grants (sage_serve demo_grant demo_owned)
     in length gs = 1 \<and> gg_status (hd gs) = ''active'' \<and> needs_confirmation (gg_permission_key (hd gs))"
    unfolding Let_def using demo_grant_facts by blast
  then have "hd (sg_grants (sage_serve demo_grant demo_owned)) \<in> set (sg_grants (sage_serve demo_grant demo_owned))"
    by (auto simp: Let_def length_Suc_conv simp del: sage_serve.simps)
  moreover have "sg_grants demo_owned = []" by (simp add: demo_owned_def sage_init_def)
  ultimately show ?thesis using f grants_need_their_user by (simp add: Let_def)
qed

section \<open>What a device is told\<close>

text \<open>
  The policy bundle a device gets denies exactly the permissions that the installed version asks for and that
  are not granted: it is built for an active installation of that user only, every entry of the granted list is a
  grant of this installation that is active and has not expired, and a requested permission is denied if and only
  if no such grant exists for it.
\<close>

theorem bundle_denies_what_is_not_granted:
  assumes "PolicyBundle E C u i s = Inr b" "no_faults E"
  shows "\<exists>x\<in>set (sg_installs s). gi_id x = i \<and> gi_user_id x = u \<and> gi_status x = ''active''
     \<and> (\<forall>e\<in>set (pb_granted b). \<exists>g\<in>set (sg_grants s). live_grant E i g \<and> jget e ''key'' = AStr (gg_permission_key g)
          \<and> jget e ''risk'' = AStr (gg_risk_level g))
     \<and> pb_denied b = filter (\<lambda>k. \<not> list_ex (\<lambda>g. live_grant E i g \<and> gg_permission_key g = k) (sg_grants s))
          (requested_permissions C (case GetVersion_sage E 0 (gi_version_id x) s of Inl _ \<Rightarrow> version_zero | Inr v \<Rightarrow> v))"
proof -
  obtain x where x: "own_installation E u i s = Inr x" and active: "gi_status x = ''active''"
    using assms(1) by (auto simp: PolicyBundle_def split: sum.splits if_splits)
  have id: "gi_id x = i" "gi_user_id x = u" "x \<in> set (sg_installs s)" using own_installation_Inr [OF x] by simp_all
  let ?gs = "sort_key gg_created_at (filter (live_grant E i) (sg_grants s))"
  have gs: "ListActiveGrants E i s = Inr ?gs" using assms(2) by (simp add: ListActiveGrants_def db_find_def no_faults_def)
  have b: "pb_granted b = map (\<lambda>g. [(''key'', AStr (gg_permission_key g)), (''risk'', AStr (gg_risk_level g)),
        (''scope'', AMap (gg_grant_scope g))]) ?gs"
    "pb_denied b = filter (\<lambda>k. k \<notin> set (map gg_permission_key ?gs))
       (requested_permissions C (case GetVersion_sage E 0 (gi_version_id x) s of Inl _ \<Rightarrow> version_zero | Inr v \<Rightarrow> v))"
    using assms(1) x active id(1) gs by (auto simp: PolicyBundle_def Let_def)
  have "k \<in> set (map gg_permission_key ?gs) \<longleftrightarrow> list_ex (\<lambda>g. live_grant E i g \<and> gg_permission_key g = k) (sg_grants s)" for k
    by (auto simp: list_ex_iff)
  with b(2) have "pb_denied b = filter (\<lambda>k. \<not> list_ex (\<lambda>g. live_grant E i g \<and> gg_permission_key g = k) (sg_grants s))
       (requested_permissions C (case GetVersion_sage E 0 (gi_version_id x) s of Inl _ \<Rightarrow> version_zero | Inr v \<Rightarrow> v))" by simp
  moreover have "\<exists>g\<in>set (sg_grants s). live_grant E i g \<and> jget e ''key'' = AStr (gg_permission_key g)
      \<and> jget e ''risk'' = AStr (gg_risk_level g)" if "e \<in> set (pb_granted b)" for e
    using that by (auto simp: b(1) jget_def)
  ultimately show ?thesis using id active by (intro bexI [of _ x]) auto
qed

theorem bundle_denies_what_is_not_granted_witness:
  "\<exists>b. PolicyBundle (env_at 2) demo_sage_config 7 5 demo_granted = Inr b \<and> pb_denied b = [''context.memory.read''] \<and>
     (\<exists>x\<in>set (sg_installs demo_granted). gi_id x = 5 \<and> gi_user_id x = 7 \<and> gi_status x = ''active'')"
proof -
  have f: "let r = PolicyBundle (env_at 2) demo_sage_config 7 5 demo_granted
     in succeeds r \<and> pb_denied (projr r) = [''context.memory.read'']" unfolding Let_def using demo_grant_facts by blast
  then have "succeeds (PolicyBundle (env_at 2) demo_sage_config 7 5 demo_granted)" by (simp add: Let_def)
  then obtain b where b: "PolicyBundle (env_at 2) demo_sage_config 7 5 demo_granted = Inr b" by (rule succeedsE)
  have "no_faults (env_at 2)" by (simp add: no_faults_def env_at_def env0_def)
  from bundle_denies_what_is_not_granted [OF b this] f b show ?thesis by (auto simp: Let_def)
qed

section \<open>Three gaps\<close>

definition demo_plugin_input :: create_plugin_input where
  "demo_plugin_input = \<lparr>xl_plugin_key = ''a.b'', xl_name = ''n'', xl_description = '''', xl_category = '''', xl_icon_object_id = None,
     xl_homepage_url = '''', xl_manifest_url = ''''\<rparr>"

definition demo_flow :: json_map where
  "demo_flow = [(''endpoints'', AMap [(''flow'', AStr ''x'')])]"

definition sage_env :: "nat \<Rightarrow> env" where
  "sage_env n = (env_at n)\<lparr>e_json := \<lambda>m. Inr (toy_json m),
     e_unjson := \<lambda>t. if t = toy_json [] then Inr [] else if t = toy_json demo_flow then Inr demo_flow else Inl (Errorf ''json'')\<rparr>"

definition demo_bad_version :: "string \<Rightarrow> json_map option \<Rightarrow> submit_plugin_version_input" where
  "demo_bad_version v m = \<lparr>xm_version = v, xm_manifest = m, xm_package_object_id = None\<rparr>"

definition demo_approved :: "sage_req list" where
  "demo_approved =
     (let p = e_uuid (sage_env 1) ''sage_plugins'' 0; v = e_uuid (sage_env 2) ''sage_plugin_versions'' 0 in
      [GCreate (sage_env 1) 7 demo_plugin_input, GSubmit (sage_env 2) demo_sage_config 7 p (demo_bad_version ''1'' None),
       GReview (sage_env 3) 1 p v \<lparr>xr_decision = ''approved'', xr_reason = '''', xr_security_findings = [],
         xr_privacy_findings = [], xr_policy_findings = []\<rparr>])"

definition demo_published_plugin :: sage_state where
  "demo_published_plugin = fold sage_serve demo_approved sage_init"

definition demo_rewired :: sage_state where
  "demo_rewired = sage_serve (GSubmit (sage_env 5) demo_sage_config 7 (gp_id (hd (sg_plugins demo_published_plugin)))
     (demo_bad_version ''2'' (Some demo_flow))) demo_published_plugin"

lemma demo_review_run:
  "let s1 = fold sage_serve demo_approved sage_init;
       s2 = sage_serve (GSubmit (sage_env 5) demo_sage_config 7 (gp_id (hd (sg_plugins s1))) (demo_bad_version ''2'' (Some demo_flow))) s1
   in (map gv_validation_status (sg_versions s1) = [''invalid''] \<and> map gv_status (sg_versions s1) = [''approved'']
      \<and> map published_plugin (sg_plugins s1) = [True] \<and> map gp_flow_url (sg_plugins s1) = ['''']
      \<and> map published_plugin (sg_plugins s2) = [True] \<and> map gp_flow_url (sg_plugins s2) = [''x'']
      \<and> map gv_validation_status (sg_versions s2) = [''invalid'', ''invalid''])
      \<and> succeeds (GetCatalogPlugin (sage_env 4) ''a.b'' s1)"
  by code_simp

lemmas demo_review_facts = demo_review_run [unfolded Let_def, folded demo_published_plugin_def, folded demo_rewired_def]

theorem catalog_plugin_was_approved_witness:
  "\<exists>item. GetCatalogPlugin (sage_env 4) ''a.b'' (fold sage_serve demo_approved sage_init) = Inr item
     \<and> (\<exists>v\<in>set (sg_versions (fold sage_serve demo_approved sage_init)). gp_approved_version_id (cl_plugin item) = Some (gv_id v))"
proof -
  have "succeeds (GetCatalogPlugin (sage_env 4) ''a.b'' (fold sage_serve demo_approved sage_init))"
    using demo_review_facts by (simp add: demo_published_plugin_def)
  then obtain item where i: "GetCatalogPlugin (sage_env 4) ''a.b'' (fold sage_serve demo_approved sage_init) = Inr item"
    by (rule succeedsE)
  from catalog_plugin_was_approved [OF i] i show ?thesis by blast
qed

text \<open>
  A review does not look at the verdict of the validator: a version that failed validation, and so was never
  submitted, is approved and offered. And a version that fails validation still rewrites the endpoints of the
  plugin, while it stays published.
\<close>

theorem invalid_version_is_published_and_rewires:
  "map gv_validation_status (sg_versions demo_published_plugin) = [''invalid''] \<and> map gv_status (sg_versions demo_published_plugin) = [''approved'']
   \<and> map published_plugin (sg_plugins demo_published_plugin) = [True] \<and> map gp_flow_url (sg_plugins demo_published_plugin) = ['''']
   \<and> map published_plugin (sg_plugins demo_rewired) = [True] \<and> map gp_flow_url (sg_plugins demo_rewired) = [''x'']
   \<and> map gv_validation_status (sg_versions demo_rewired) = [''invalid'', ''invalid'']"
  using demo_review_facts by blast

text \<open>The grants of an installation survive its removal: when the plugin is set up again they are in force
  without being asked for.\<close>

theorem reinstalling_revives_the_grants:
  "map gi_status (sg_installs demo_uninstalled) = [''uninstalled''] \<and> map gi_status (sg_installs demo_enabled) = [''active'']
   \<and> list_ex (live_grant (env_at 3) 5) (sg_grants demo_enabled)"
  using demo_grant_facts by blast

end
