(* ===== verification/Calendar.thy ===== *)
theory Calendar
  imports Prelude
begin

text \<open>
  The calendar of Go's \<open>time\<close> package, as far as billing uses it: the civil date of a time in UTC, the
  day number of a date whose month and day may be out of range, \<open>Time.AddDate\<close>, and the layout
  \<open>2006-01\<close>. Days are counted from the first of January of the year 1.
\<close>

section \<open>Dates\<close>

definition is_leap :: "int \<Rightarrow> bool" where
  "is_leap y \<longleftrightarrow> y mod 4 = 0 \<and> (y mod 100 \<noteq> 0 \<or> y mod 400 = 0)"

text \<open>The days of the years before \<open>y\<close>, and those of the months before the m-th of a year (from 0).\<close>

definition days_before_year :: "int \<Rightarrow> int" where
  "days_before_year y = 365 * (y - 1) + (y - 1) div 4 - (y - 1) div 100 + (y - 1) div 400"

definition days_before_month :: "bool \<Rightarrow> int \<Rightarrow> int" where
  "days_before_month leap m =
     [0, 31, 59, 90, 120, 151, 181, 212, 243, 273, 304, 334] ! nat m + (if leap \<and> 2 \<le> m then 1 else 0)"

definition month_days :: "int \<Rightarrow> int \<Rightarrow> int" where
  "month_days y m = [31, if is_leap y then 29 else 28, 31, 30, 31, 30, 31, 31, 30, 31, 30, 31] ! nat m"

text \<open>The day number of the d-th day (from 1) of the m-th month (from 0), which is first brought into the year.\<close>

definition day_number :: "int \<Rightarrow> int \<Rightarrow> int \<Rightarrow> int" where
  "day_number y m d = (let y' = y + m div 12 in days_before_year y' + days_before_month (is_leap y') (m mod 12) + d - 1)"

text \<open>The year a day falls in, by the 400, 100, 4 and 1 year cycles, and the day in it (from 0).\<close>

definition year_of_day :: "int \<Rightarrow> int" where
  "year_of_day n =
     (let r = n mod 146097; b = min 3 (r div 36524); r2 = r - 36524 * b; c = r2 div 1461; r3 = r2 mod 1461;
          e = min 3 (r3 div 365)
      in 400 * (n div 146097) + 100 * b + 4 * c + e + 1)"

fun month_from :: "bool \<Rightarrow> int \<Rightarrow> nat \<Rightarrow> int" where
  "month_from leap d 0 = 0"
| "month_from leap d (Suc k) = (if days_before_month leap (int (Suc k)) \<le> d then int (Suc k) else month_from leap d k)"

definition civil :: "int \<Rightarrow> int \<times> int \<times> int" where
  "civil n =
     (let y = year_of_day n; d = n - days_before_year y; m = month_from (is_leap y) d 11
      in (y, m, d - days_before_month (is_leap y) m + 1))"

section \<open>Times\<close>

definition epoch_day :: int where
  "epoch_day = 719162"

definition day_of :: "time \<Rightarrow> int" where
  "day_of t = t div days 1 + epoch_day"

definition AddDate :: "time \<Rightarrow> int \<Rightarrow> int \<Rightarrow> int \<Rightarrow> time" where
  "AddDate t years months ds =
     (case civil (day_of t) of (y, m, d) \<Rightarrow> days (day_number (y + years) (m + months) (d + ds) - epoch_day) + t mod days 1)"

definition pad :: "nat \<Rightarrow> string \<Rightarrow> string" where
  "pad n s = replicate (n - length s) CHR ''0'' @ s"

text \<open>The layout \<open>2006-01\<close>, for years from 0 on.\<close>

definition year_month :: "time \<Rightarrow> string" where
  "year_month t = (case civil (day_of t) of (y, m, d) \<Rightarrow> pad 4 (int_dec y) @ ''-'' @ pad 2 (int_dec (m + 1)))"

section \<open>Facts\<close>

lemma days_before_month_simps [simp]:
  "days_before_month l 0 = 0" "days_before_month l 1 = 31" "days_before_month l 2 = (if l then 60 else 59)"
  "days_before_month l 3 = (if l then 91 else 90)" "days_before_month l 4 = (if l then 121 else 120)"
  "days_before_month l 5 = (if l then 152 else 151)" "days_before_month l 6 = (if l then 182 else 181)"
  "days_before_month l 7 = (if l then 213 else 212)" "days_before_month l 8 = (if l then 244 else 243)"
  "days_before_month l 9 = (if l then 274 else 273)" "days_before_month l 10 = (if l then 305 else 304)"
  "days_before_month l 11 = (if l then 335 else 334)"
  by (simp_all add: days_before_month_def nat_numeral)

lemma div_pred:
  fixes y k :: int
  assumes "1 < k"
  shows "y div k = (y - 1) div k + (if y mod k = 0 then 1 else 0)"
proof -
  obtain q r where q: "q = (y - 1) div k" and "r = (y - 1) mod k" by blast
  then have y: "y = k * q + r + 1" and r: "0 \<le> r" "r < k" using assms mult_div_mod_eq [of k "y - 1"] by simp_all
  show ?thesis
  proof (cases "r + 1 = k")
    case True
    then have "y = k * (q + 1)" by (simp add: y distrib_left)
    then have "y div k = q + 1" "y mod k = 0" using assms by simp_all
    then show ?thesis by (simp add: q)
  next
    case False
    have "y div k = q" by (rule int_div_pos_eq [where r = "r + 1"]) (use y r False in auto)
    moreover have "y mod k = r + 1" by (rule int_mod_pos_eq [where q = q]) (use y r False in auto)
    ultimately show ?thesis using r by (simp add: q)
  qed
qed

lemma year_step: "days_before_year (y + 1) = days_before_year y + (if is_leap y then 366 else 365)"
proof -
  obtain a b c where abc: "a = (y - 1) div 4" "b = (y - 1) div 100" "c = (y - 1) div 400" by blast
  obtain p q r where pqr: "p \<longleftrightarrow> y mod 4 = 0" "q \<longleftrightarrow> y mod 100 = 0" "r \<longleftrightarrow> y mod 400 = 0" by blast
  have "r \<Longrightarrow> q" using dvd_trans [of 100 400 y] by (simp add: pqr mod_eq_0_iff_dvd)
  moreover have "q \<Longrightarrow> p" using dvd_trans [of 4 100 y] by (simp add: pqr mod_eq_0_iff_dvd)
  moreover have "days_before_year (y + 1) = 365 * y + (a + (if p then 1 else 0)) - (b + (if q then 1 else 0)) + (c + (if r then 1 else 0))"
    unfolding days_before_year_def add_diff_cancel_right' abc pqr by (subst (1 2 3) div_pred) simp_all
  moreover have "days_before_year y = 365 * (y - 1) + a - b + c" unfolding days_before_year_def abc ..
  moreover have "is_leap y \<longleftrightarrow> p \<and> (\<not> q \<or> r)" unfolding is_leap_def pqr by simp
  ultimately show ?thesis by (cases p; cases q; cases r) simp_all
qed

lemma cycles:
  fixes n :: int
  defines "a \<equiv> n div 146097" and "b \<equiv> min 3 (n mod 146097 div 36524)"
  defines "c \<equiv> (n mod 146097 - 36524 * b) div 1461" and "r \<equiv> (n mod 146097 - 36524 * b) mod 1461"
  defines "e \<equiv> min 3 (r div 365)"
  shows "n = 146097 * a + 36524 * b + 1461 * c + 365 * e + (r - 365 * e)" "0 \<le> b" "b \<le> 3" "0 \<le> c" "c \<le> 24" "0 \<le> e" "e \<le> 3"
    "0 \<le> r - 365 * e" "r - 365 * e < (if e = 3 \<and> (c < 24 \<or> b = 3) then 366 else 365)"
proof -
  have n: "n = 146097 * a + n mod 146097" "0 \<le> n mod 146097" "n mod 146097 < 146097" by (simp_all add: a_def)
  have b: "0 \<le> b" "b \<le> 3" "36524 * b \<le> n mod 146097" "n mod 146097 < 36524 * b + (if b = 3 then 36525 else 36524)"
    using n(2,3) unfolding b_def by (auto simp: min_def)
  have r: "n mod 146097 - 36524 * b = 1461 * c + r" "0 \<le> r" "r < 1461" by (simp_all add: c_def r_def)
  have c: "0 \<le> c" "c \<le> 24" using b r by (auto split: if_splits)
  have e: "0 \<le> e" "e \<le> 3" "365 * e \<le> r" "r < 365 * e + (if e = 3 then 366 else 365)"
    using r(2,3) unfolding e_def by (auto simp: min_def)
  show "n = 146097 * a + 36524 * b + 1461 * c + 365 * e + (r - 365 * e)" using n r by simp
  show "0 \<le> b" "b \<le> 3" "0 \<le> c" "c \<le> 24" "0 \<le> e" "e \<le> 3" "0 \<le> r - 365 * e" using b c e by simp_all
  show "r - 365 * e < (if e = 3 \<and> (c < 24 \<or> b = 3) then 366 else 365)" using b c e r by (auto split: if_splits)
qed

text \<open>The day a date was computed from lies in its year.\<close>

lemma year_of_day_bounds:
  "days_before_year (year_of_day n) \<le> n" "n < days_before_year (year_of_day n) + (if is_leap (year_of_day n) then 366 else 365)"
proof -
  obtain a b c e f where
    n: "n = 146097 * a + 36524 * b + 1461 * c + 365 * e + f" and b: "0 \<le> b" "b \<le> 3" and c: "0 \<le> c" "c \<le> 24" and e: "0 \<le> e" "e \<le> 3"
    and f: "0 \<le> f" "f < (if e = 3 \<and> (c < 24 \<or> b = 3) then 366 else 365)" and y: "year_of_day n = 400 * a + 100 * b + 4 * c + e + 1"
    using cycles [of n] unfolding year_of_day_def Let_def by blast
  let ?p = "400 * a + 100 * b + 4 * c + e"
  have q: "?p div 4 = 100 * a + 25 * b + c" "?p div 100 = 4 * a + b" "?p div 400 = a"
    by (rule int_div_pos_eq [where r = e], use e in simp_all, rule int_div_pos_eq [where r = "4 * c + e"], use c e in simp_all)
       (rule int_div_pos_eq [where r = "100 * b + 4 * c + e"], use b c e in simp_all)
  have d: "n - days_before_year (year_of_day n) = f"
    unfolding y days_before_year_def add_diff_cancel_right' q using n by simp
  with f show "days_before_year (year_of_day n) \<le> n" by simp
  have "is_leap (year_of_day n)" if "e = 3" "c < 24 \<or> b = 3"
  proof (cases "c < 24")
    case True
    have "?p + 1 = 4 * (100 * a + 25 * b + c + 1)" using that by simp
    then have "(?p + 1) mod 4 = 0" by (simp only: mod_mult_self1_is_0)
    moreover have "(?p + 1) mod 100 = 4 * c + 4"
      by (rule int_mod_pos_eq [where q = "4 * a + b"]) (use that c True in simp_all)
    ultimately show ?thesis using c by (simp add: is_leap_def y)
  next
    case False
    have "?p + 1 = 4 * (100 * a + 25 * b + c + 1)" using that by simp
    then have "(?p + 1) mod 4 = 0" by (simp only: mod_mult_self1_is_0)
    moreover have "?p + 1 = 400 * (a + 1)" using that c False by simp
    then have "(?p + 1) mod 400 = 0" by (simp only: mod_mult_self1_is_0)
    ultimately show ?thesis by (simp add: is_leap_def y)
  qed
  with d f show "n < days_before_year (year_of_day n) + (if is_leap (year_of_day n) then 366 else 365)" by (auto split: if_splits)
qed

lemma month_from_bounds:
  assumes "0 \<le> d"
  shows "0 \<le> month_from leap d k" "month_from leap d k \<le> int k" "days_before_month leap (month_from leap d k) \<le> d"
  using assms by (induction k) auto

lemma day_number_civil:
  assumes "civil n = (y, m, d)"
  shows "day_number y m d = n" "0 \<le> m" "m \<le> 11"
proof -
  have y: "y = year_of_day n" and m: "m = month_from (is_leap y) (n - days_before_year y) 11"
    and d: "d = n - days_before_year y - days_before_month (is_leap y) m + 1"
    using assms by (auto simp: civil_def Let_def)
  have "0 \<le> n - days_before_year y" using year_of_day_bounds [of n] y by simp
  from month_from_bounds [OF this, of "is_leap y" 11] m show "0 \<le> m" "m \<le> 11" by simp_all
  then show "day_number y m d = n" by (simp add: day_number_def Let_def d div_pos_pos_trivial mod_pos_pos_trivial)
qed

lemma month_cases:
  fixes m :: int
  assumes "0 \<le> m" "m \<le> 11"
  shows "m \<in> {0, 1, 2, 3, 4, 5, 6, 7, 8, 9, 10, 11}"
proof -
  have "m = 0 \<or> m = 1 \<or> m = 2 \<or> m = 3 \<or> m = 4 \<or> m = 5 \<or> m = 6 \<or> m = 7 \<or> m = 8 \<or> m = 9 \<or> m = 10 \<or> m = 11" using assms by presburger
  then show ?thesis by blast
qed

lemma month_days_simps [simp]:
  "month_days y 0 = 31" "month_days y 1 = (if is_leap y then 29 else 28)" "month_days y 2 = 31" "month_days y 3 = 30"
  "month_days y 4 = 31" "month_days y 5 = 30" "month_days y 6 = 31" "month_days y 7 = 31" "month_days y 8 = 30"
  "month_days y 9 = 31" "month_days y 10 = 30" "month_days y 11 = 31"
  by (simp_all add: month_days_def nat_numeral)

lemma next_month:
  assumes "0 \<le> m" "m \<le> 11"
  shows "day_number y (m + 1) d = day_number y m d + month_days y m"
proof (cases "m = 11")
  case True
  then show ?thesis using year_step [of y] by (simp add: day_number_def Let_def)
next
  case False
  have "day_number y (m + 1) d = days_before_year y + days_before_month (is_leap y) (m + 1) + d - 1"
    "day_number y m d = days_before_year y + days_before_month (is_leap y) m + d - 1"
    using assms False by (simp_all add: day_number_def Let_def div_pos_pos_trivial mod_pos_pos_trivial)
  moreover have "days_before_month (is_leap y) (m + 1) = days_before_month (is_leap y) m + month_days y m"
    using month_cases [OF assms] False by (elim insertE emptyE) simp_all
  ultimately show ?thesis by simp
qed

lemma next_year:
  assumes "0 \<le> m" "m \<le> 11"
  shows "day_number (y + 1) m d = day_number y m d + (if is_leap (if 2 \<le> m then y + 1 else y) then 366 else 365)"
proof -
  have "day_number z m d = days_before_year z + days_before_month (is_leap z) m + d - 1" for z
    using assms by (simp add: day_number_def Let_def div_pos_pos_trivial mod_pos_pos_trivial)
  moreover have "days_before_month True m = days_before_month False m + (if 2 \<le> m then 1 else 0)"
    by (simp add: days_before_month_def)
  ultimately show ?thesis using year_step [of y]
    by (cases "2 \<le> m"; cases "is_leap y"; cases "is_leap (y + 1)") simp_all
qed

lemma days_linear: "days (a + b) = days a + days b" "days (a - b) = days a - days b"
  by (simp_all add: days_def minutes_def seconds_def algebra_simps)

lemma day_split: "t = days (day_of t - epoch_day) + t mod days 1"
proof -
  have "days n = days 1 * n" for n by (simp add: days_def minutes_def seconds_def)
  from this [of "t div days 1"] show ?thesis by (simp add: day_of_def)
qed

text \<open>A month later is 28 to 31 days later, a year later 365 or 366 days later, at the same time of the day.\<close>

lemma AddDate_month: "\<exists>n\<in>{28, 29, 30, 31}. AddDate t 0 1 0 = t + days n"
proof -
  obtain y m d where c: "civil (day_of t) = (y, m, d)" by (cases "civil (day_of t)") auto
  note dn = day_number_civil [OF c]
  have "AddDate t 0 1 0 = days (day_of t + month_days y m - epoch_day) + t mod days 1"
    using next_month [OF dn(2,3), of y d] dn(1) by (simp add: AddDate_def c)
  also have "\<dots> = t + days (month_days y m)" using day_split [of t] by (simp add: days_linear)
  finally show ?thesis using month_cases [OF dn(2,3)] by (elim insertE emptyE) simp_all
qed

lemma AddDate_year: "\<exists>n\<in>{365, 366}. AddDate t 1 0 0 = t + days n"
proof -
  obtain y m d where c: "civil (day_of t) = (y, m, d)" by (cases "civil (day_of t)") auto
  note dn = day_number_civil [OF c]
  let ?n = "if is_leap (if 2 \<le> m then y + 1 else y) then 366 else 365 :: int"
  have "AddDate t 1 0 0 = days (day_of t + ?n - epoch_day) + t mod days 1"
    using next_year [OF dn(2,3), of y d] dn(1) by (simp add: AddDate_def c)
  also have "\<dots> = t + days ?n" using day_split [of t] by (simp add: days_linear)
  finally show ?thesis by auto
qed

lemma AddDate_days: "AddDate t 0 0 n = t + days n"
proof -
  obtain y m d where c: "civil (day_of t) = (y, m, d)" by (cases "civil (day_of t)") auto
  have "day_number y m (d + n) = day_of t + n" using day_number_civil [OF c] by (simp add: day_number_def Let_def)
  then have "AddDate t 0 0 n = days (day_of t + n - epoch_day) + t mod days 1" by (simp add: AddDate_def c)
  then show ?thesis using day_split [of t] by (simp add: days_linear)
qed

lemma civil_demo: "civil (day_of (seconds 1700000000)) = (2023, 10, 14)" "year_month (seconds 1709164800) = ''2024-02''"
  by code_simp+

end
