(* ===== verification/Billing.thy ===== *)
theory Billing
  imports Calendar "HOL-Library.List_Lexorder" "HOL-Library.Char_ord"
begin

text \<open>
  Knowledge-base billing (\<open>internal/service/kb_billing.go\<close> over
  \<open>internal/repository/billing_repo.go\<close>, tables of \<open>internal/model/models.go\<close>): usage records
  with their transactions, contributor earnings and payout periods, versioned plans, invoices, refunds and
  disputes. Amounts are Go's \<open>int64\<close>; additions and products wrap around.
\<close>

section \<open>Sums of money\<close>

definition i64 :: "int \<Rightarrow> int" where
  "i64 x = (x + 2 ^ 63) mod 2 ^ 64 - 2 ^ 63"

text \<open>Go's \<open>x / 10\<close>, which truncates towards zero.\<close>

definition tenth :: "int \<Rightarrow> int" where
  "tenth x = (if x < 0 then - (- x div 10) else x div 10)"

section \<open>Tables\<close>

record kb_usage =
  ku_id :: uuid
  ku_created_at :: time
  ku_user_id :: uuid
  ku_collection_id :: uuid
  ku_snapshot_id :: uuid
  ku_snapshot_entry_id :: "uuid option"
  ku_operation_type :: string
  ku_tokens_used :: int
  ku_unit_price :: int
  ku_amount :: int
  ku_currency :: string
  ku_billed_at :: time

record billing_account =
  ba_id :: uuid
  ba_user_id :: uuid
  ba_balance :: int
  ba_currency :: string

record billing_txn =
  bt_id :: uuid
  bt_created_at :: time
  bt_user_id :: uuid
  bt_type :: string
  bt_amount :: int
  bt_description :: string
  bt_related_id :: string

record contributor_earning =
  ce_id :: uuid
  ce_contributor_id :: uuid
  ce_collection_id :: uuid
  ce_period :: string
  ce_gross :: int
  ce_fee :: int
  ce_net :: int

record payout_period =
  po_id :: uuid
  po_contributor_id :: uuid
  po_period :: string
  po_status :: string
  po_gross :: int
  po_fee :: int
  po_net :: int
  po_paid_at :: "time option"

record billing_plan =
  bp_id :: uuid
  bp_collection_id :: uuid
  bp_version :: int
  bp_entitlement_type :: string
  bp_billing_interval :: string
  bp_price :: int
  bp_currency :: string
  bp_trial_days :: int
  bp_status :: string
  bp_effective_at :: time
  bp_metadata :: "json_map option"

record kb_invoice =
  bi_id :: uuid
  bi_created_at :: time
  bi_user_id :: uuid
  bi_collection_id :: "uuid option"
  bi_subscription_id :: "uuid option"
  bi_status :: string
  bi_currency :: string
  bi_subtotal :: int
  bi_platform_fee :: int
  bi_total :: int
  bi_period_start :: "time option"
  bi_period_end :: "time option"
  bi_issued_at :: "time option"
  bi_paid_at :: "time option"
  bi_metadata :: "json_map option"

record invoice_item =
  bl_id :: uuid
  bl_created_at :: time
  bl_invoice_id :: uuid
  bl_usage_record_id :: "uuid option"
  bl_description :: string
  bl_quantity :: int
  bl_unit_price :: int
  bl_amount :: int
  bl_metadata :: "json_map option"

record kb_refund =
  br_id :: uuid
  br_created_at :: time
  br_invoice_id :: uuid
  br_user_id :: uuid
  br_amount :: int
  br_reason :: string
  br_status :: string
  br_processed_by :: "uuid option"
  br_processed_at :: "time option"

record kb_dispute =
  bd_id :: uuid
  bd_created_at :: time
  bd_invoice_id :: uuid
  bd_user_id :: uuid
  bd_reason :: string
  bd_detail :: string
  bd_status :: string
  bd_resolved_by :: "uuid option"
  bd_resolved_at :: "time option"
  bd_resolution :: string

record billing_state =
  bs_usage :: "kb_usage list"
  bs_accounts :: "billing_account list"
  bs_txns :: "billing_txn list"
  bs_earnings :: "contributor_earning list"
  bs_payouts :: "payout_period list"
  bs_plans :: "billing_plan list"
  bs_invoices :: "kb_invoice list"
  bs_items :: "invoice_item list"
  bs_refunds :: "kb_refund list"
  bs_disputes :: "kb_dispute list"

definition billing_init :: billing_state where
  "billing_init = \<lparr>bs_usage = [], bs_accounts = [], bs_txns = [], bs_earnings = [], bs_payouts = [], bs_plans = [],
     bs_invoices = [], bs_items = [], bs_refunds = [], bs_disputes = []\<rparr>"

section \<open>Repository\<close>

text \<open>The \<open>n\<close> of an operation is the number of the call in the request.\<close>

definition GetOrCreateAccount :: "env \<Rightarrow> nat \<Rightarrow> uuid \<Rightarrow> string \<Rightarrow> billing_state \<Rightarrow> billing_account result \<times> billing_state" where
  "GetOrCreateAccount E n u currency s =
     (case db_first E ''GetOrCreateAccount'' n ba_id (\<lambda>a. ba_user_id a = u) (bs_accounts s) of
        Inr a \<Rightarrow> (Inr a, s)
      | Inl e \<Rightarrow>
          if e \<noteq> ErrRecordNotFound then (Inl e, s)
          else
            let a = \<lparr>ba_id = e_uuid E ''billing_accounts'' n, ba_user_id = u, ba_balance = 0,
                  ba_currency = (if currency = '''' then ''CNY'' else currency)\<rparr>
            in case db_insert E ''CreateAccount'' n (\<lambda>a x. ba_id x = ba_id a \<or> ba_user_id x = ba_user_id a) a (bs_accounts s) of
                 Inl e \<Rightarrow> (Inl e, s)
               | Inr t \<Rightarrow> (Inr a, s\<lparr>bs_accounts := t\<rparr>))"

definition CreateUsageRecord :: "env \<Rightarrow> nat \<Rightarrow> kb_usage \<Rightarrow> billing_state \<Rightarrow> billing_state result" where
  "CreateUsageRecord E n r s =
     (case db_insert E ''CreateUsageRecord'' n (\<lambda>r x. ku_id x = ku_id r) r (bs_usage s) of
        Inl e \<Rightarrow> Inl e | Inr t \<Rightarrow> Inr (s\<lparr>bs_usage := t\<rparr>))"

definition CreateTransaction :: "env \<Rightarrow> nat \<Rightarrow> billing_txn \<Rightarrow> billing_state \<Rightarrow> billing_state result" where
  "CreateTransaction E n r s =
     (case db_insert E ''CreateTransaction'' n (\<lambda>r x. bt_id x = bt_id r) r (bs_txns s) of
        Inl e \<Rightarrow> Inl e | Inr t \<Rightarrow> Inr (s\<lparr>bs_txns := t\<rparr>))"

text \<open>The row of a contributor and month: found and increased, or created. A row whose identifier is not set is new.\<close>

definition UpsertPayoutPeriod :: "env \<Rightarrow> nat \<Rightarrow> uuid \<Rightarrow> string \<Rightarrow> int \<Rightarrow> int \<Rightarrow> int \<Rightarrow> billing_state
    \<Rightarrow> (payout_period \<times> billing_state) result" where
  "UpsertPayoutPeriod E n contributor period gross fee net s =
     (case db_first E ''UpsertPayoutPeriod'' n po_id (\<lambda>p. po_contributor_id p = contributor \<and> po_period p = period) (bs_payouts s) of
        Inl e \<Rightarrow>
          if e \<noteq> ErrRecordNotFound then Inl e
          else
            let p = \<lparr>po_id = e_uuid E ''contributor_payout_periods'' n, po_contributor_id = contributor, po_period = period,
                  po_status = ''open'', po_gross = i64 gross, po_fee = i64 fee, po_net = i64 net, po_paid_at = None\<rparr>
            in (case db_insert E ''CreatePayoutPeriod'' n
                       (\<lambda>p x. po_id x = po_id p \<or> po_contributor_id x = po_contributor_id p \<and> po_period x = po_period p) p (bs_payouts s) of
                  Inl e \<Rightarrow> Inl e | Inr t \<Rightarrow> Inr (p, s\<lparr>bs_payouts := t\<rparr>))
      | Inr p0 \<Rightarrow>
          let p = p0\<lparr>po_gross := i64 (po_gross p0 + gross), po_fee := i64 (po_fee p0 + fee), po_net := i64 (po_net p0 + net)\<rparr>
          in (case db_save E ''SavePayoutPeriod'' n po_id p (bs_payouts s) of
                Inl e \<Rightarrow> Inl e | Inr t \<Rightarrow> Inr (p, s\<lparr>bs_payouts := t\<rparr>)))"

text \<open>The payout period is written before the earning, each in a statement of its own.\<close>

definition AddContributorEarning :: "env \<Rightarrow> nat \<Rightarrow> uuid \<Rightarrow> uuid \<Rightarrow> string \<Rightarrow> int \<Rightarrow> int \<Rightarrow> int \<Rightarrow> billing_state
    \<Rightarrow> contributor_earning result \<times> billing_state" where
  "AddContributorEarning E n contributor collection period gross fee net s =
     (case db_first E ''AddContributorEarning'' n ce_id
             (\<lambda>c. ce_contributor_id c = contributor \<and> ce_collection_id c = collection \<and> ce_period c = period) (bs_earnings s) of
        Inl e \<Rightarrow>
          if e \<noteq> ErrRecordNotFound then (Inl e, s)
          else (case UpsertPayoutPeriod E n contributor period gross fee net s of
                  Inl e \<Rightarrow> (Inl e, s)
                | Inr (_, s1) \<Rightarrow>
                    let c = \<lparr>ce_id = e_uuid E ''contributor_earnings'' n, ce_contributor_id = contributor,
                          ce_collection_id = collection, ce_period = period, ce_gross = i64 gross, ce_fee = i64 fee, ce_net = i64 net\<rparr>
                    in (case db_insert E ''CreateEarning'' n (\<lambda>c x. ce_id x = ce_id c) c (bs_earnings s1) of
                          Inl e \<Rightarrow> (Inl e, s1) | Inr t \<Rightarrow> (Inr c, s1\<lparr>bs_earnings := t\<rparr>)))
      | Inr c0 \<Rightarrow>
          (case UpsertPayoutPeriod E n contributor period gross fee net s of
             Inl e \<Rightarrow> (Inl e, s)
           | Inr (_, s1) \<Rightarrow>
               let c = c0\<lparr>ce_gross := i64 (ce_gross c0 + gross), ce_fee := i64 (ce_fee c0 + fee), ce_net := i64 (ce_net c0 + net)\<rparr>
               in (case db_save E ''SaveEarning'' n ce_id c (bs_earnings s1) of
                     Inl e \<Rightarrow> (Inl e, s1) | Inr t \<Rightarrow> (Inr c, s1\<lparr>bs_earnings := t\<rparr>))))"

text \<open>\<open>COALESCE(MAX(version), 0) + 1\<close>.\<close>

definition next_version :: "int list \<Rightarrow> int" where
  "next_version vs = fold max vs 0 + 1"

lemma db_first_found: "db_first E op n k P t = Inr r \<Longrightarrow> r \<in> set t \<and> P r"
  by (auto simp: db_first_Inr intro: first_by_Some)

lemma fold_max_upto: "fold max [1..n] (0 :: int) = max 0 n"
proof (cases "0 \<le> n")
  case True
  then show ?thesis
  proof (induction n rule: int_ge_induct)
    case (step i)
    then have "[1..i + 1] = [1..i] @ [i + 1]" by (simp add: upto_rec2)
    with step show ?case by simp
  qed simp
qed simp

definition NextPlanVersion :: "env \<Rightarrow> uuid \<Rightarrow> billing_state \<Rightarrow> int result" where
  "NextPlanVersion E c s =
     (case db_find E ''NextPlanVersion'' 0 (\<lambda>p. bp_collection_id p = c) (bs_plans s) of
        Inl e \<Rightarrow> Inl e | Inr ps \<Rightarrow> Inr (next_version (map bp_version ps)))"

definition ArchiveActivePlans :: "env \<Rightarrow> uuid \<Rightarrow> billing_state \<Rightarrow> billing_state result" where
  "ArchiveActivePlans E c s =
     (case db_update E ''ArchiveActivePlans'' 0 (\<lambda>p. bp_collection_id p = c \<and> bp_status p = ''active'')
             (\<lambda>p. p\<lparr>bp_status := ''archived''\<rparr>) (bs_plans s) of
        Inl e \<Rightarrow> Inl e | Inr t \<Rightarrow> Inr (s\<lparr>bs_plans := t\<rparr>))"

definition CreateBillingPlan :: "env \<Rightarrow> billing_plan \<Rightarrow> billing_state \<Rightarrow> billing_state result" where
  "CreateBillingPlan E p s =
     (case db_insert E ''CreateBillingPlan'' 0
             (\<lambda>p x. bp_id x = bp_id p \<or> bp_collection_id x = bp_collection_id p \<and> bp_version x = bp_version p) p (bs_plans s) of
        Inl e \<Rightarrow> Inl e | Inr t \<Rightarrow> Inr (s\<lparr>bs_plans := t\<rparr>))"

definition GetActiveBillingPlan :: "env \<Rightarrow> uuid \<Rightarrow> billing_state \<Rightarrow> billing_plan result" where
  "GetActiveBillingPlan E c s =
     db_first E ''GetActiveBillingPlan'' 0 (\<lambda>p. - bp_version p) (\<lambda>p. bp_collection_id p = c \<and> bp_status p = ''active'') (bs_plans s)"

definition ListBillingPlans :: "env \<Rightarrow> uuid \<Rightarrow> billing_state \<Rightarrow> billing_plan list result" where
  "ListBillingPlans E c s =
     (case db_find E ''ListBillingPlans'' 0 (\<lambda>p. bp_collection_id p = c) (bs_plans s) of
        Inl e \<Rightarrow> Inl e | Inr ps \<Rightarrow> Inr (sort_key (\<lambda>p. - bp_version p) ps))"

text \<open>The invoice and its items in one transaction.\<close>

fun insert_items :: "env \<Rightarrow> invoice_item list \<Rightarrow> invoice_item list \<Rightarrow> invoice_item list result" where
  "insert_items E [] t = Inr t"
| "insert_items E (i # is) t =
     (case db_insert E ''CreateInvoiceItems'' 0 (\<lambda>i x. bl_id x = bl_id i) i t of Inl e \<Rightarrow> Inl e | Inr t' \<Rightarrow> insert_items E is t')"

definition CreateInvoiceWithItems :: "env \<Rightarrow> kb_invoice \<Rightarrow> invoice_item list \<Rightarrow> billing_state
    \<Rightarrow> (invoice_item list \<times> billing_state) result" where
  "CreateInvoiceWithItems E v items s =
     (case db_insert E ''CreateInvoice'' 0 (\<lambda>v x. bi_id x = bi_id v) v (bs_invoices s) of
        Inl e \<Rightarrow> Inl e
      | Inr t \<Rightarrow>
          let items' = map (\<lambda>i. i\<lparr>bl_invoice_id := bi_id v\<rparr>) items in
          (case insert_items E items' (bs_items s) of
             Inl e \<Rightarrow> Inl e | Inr t' \<Rightarrow> Inr (items', s\<lparr>bs_invoices := t, bs_items := t'\<rparr>)))"

definition GetInvoice :: "env \<Rightarrow> uuid \<Rightarrow> billing_state \<Rightarrow> kb_invoice result" where
  "GetInvoice E i s = db_first E ''GetInvoice'' 0 bi_id (\<lambda>v. bi_id v = i) (bs_invoices s)"

definition ListInvoiceItems :: "env \<Rightarrow> uuid \<Rightarrow> billing_state \<Rightarrow> invoice_item list result" where
  "ListInvoiceItems E i s =
     (case db_find E ''ListInvoiceItems'' 0 (\<lambda>x. bl_invoice_id x = i) (bs_items s) of
        Inl e \<Rightarrow> Inl e | Inr xs \<Rightarrow> Inr (sort_key bl_created_at xs))"

definition UpdateInvoiceStatus :: "env \<Rightarrow> uuid \<Rightarrow> string \<Rightarrow> (kb_invoice \<Rightarrow> kb_invoice) \<Rightarrow> billing_state
    \<Rightarrow> kb_invoice result \<times> billing_state" where
  "UpdateInvoiceStatus E i status updates s =
     (case db_update E ''UpdateInvoiceStatus'' 0 (\<lambda>v. bi_id v = i) (\<lambda>v. (updates v)\<lparr>bi_status := status\<rparr>) (bs_invoices s) of
        Inl e \<Rightarrow> (Inl e, s)
      | Inr t \<Rightarrow> (let s1 = s\<lparr>bs_invoices := t\<rparr> in (GetInvoice E i s1, s1)))"

definition billing_page :: "int \<Rightarrow> int \<Rightarrow> 'a list \<Rightarrow> 'a list" where
  "billing_page limit offset xs = take (nat (if limit \<le> 0 \<or> 100 < limit then 50 else limit)) (drop (nat (max 0 offset)) xs)"

definition ListInvoices :: "env \<Rightarrow> uuid \<Rightarrow> int \<Rightarrow> int \<Rightarrow> billing_state \<Rightarrow> kb_invoice list result" where
  "ListInvoices E u limit offset s =
     (case db_find E ''ListInvoices'' 0 (\<lambda>v. bi_user_id v = u) (bs_invoices s) of
        Inl e \<Rightarrow> Inl e | Inr vs \<Rightarrow> Inr (billing_page limit offset (sort_key (\<lambda>v. - bi_created_at v) vs)))"

definition ListTransactions :: "env \<Rightarrow> uuid \<Rightarrow> int \<Rightarrow> int \<Rightarrow> billing_state \<Rightarrow> billing_txn list result" where
  "ListTransactions E u limit offset s =
     (case db_find E ''ListTransactions'' 0 (\<lambda>v. bt_user_id v = u) (bs_txns s) of
        Inl e \<Rightarrow> Inl e | Inr vs \<Rightarrow> Inr (billing_page limit offset (sort_key (\<lambda>v. - bt_created_at v) vs)))"

definition CreateRefund :: "env \<Rightarrow> kb_refund \<Rightarrow> billing_state \<Rightarrow> billing_state result" where
  "CreateRefund E r s =
     (case db_insert E ''CreateRefund'' 0 (\<lambda>r x. br_id x = br_id r) r (bs_refunds s) of
        Inl e \<Rightarrow> Inl e | Inr t \<Rightarrow> Inr (s\<lparr>bs_refunds := t\<rparr>))"

definition ListRefunds :: "env \<Rightarrow> uuid \<Rightarrow> int \<Rightarrow> int \<Rightarrow> billing_state \<Rightarrow> kb_refund list result" where
  "ListRefunds E u limit offset s =
     (case db_find E ''ListRefunds'' 0 (\<lambda>v. br_user_id v = u) (bs_refunds s) of
        Inl e \<Rightarrow> Inl e | Inr vs \<Rightarrow> Inr (billing_page limit offset (sort_key (\<lambda>v. - br_created_at v) vs)))"

definition ResolveRefund_repo :: "env \<Rightarrow> uuid \<Rightarrow> uuid \<Rightarrow> string \<Rightarrow> billing_state \<Rightarrow> kb_refund result \<times> billing_state" where
  "ResolveRefund_repo E i admin status s =
     (case db_update E ''ResolveRefund'' 0 (\<lambda>r. br_id r = i)
             (\<lambda>r. r\<lparr>br_status := status, br_processed_by := Some admin, br_processed_at := Some (e_now E)\<rparr>) (bs_refunds s) of
        Inl e \<Rightarrow> (Inl e, s)
      | Inr t \<Rightarrow> (db_first E ''GetRefund'' 0 br_id (\<lambda>r. br_id r = i) t, s\<lparr>bs_refunds := t\<rparr>))"

definition CreateDispute :: "env \<Rightarrow> kb_dispute \<Rightarrow> billing_state \<Rightarrow> billing_state result" where
  "CreateDispute E d s =
     (case db_insert E ''CreateDispute'' 0 (\<lambda>d x. bd_id x = bd_id d) d (bs_disputes s) of
        Inl e \<Rightarrow> Inl e | Inr t \<Rightarrow> Inr (s\<lparr>bs_disputes := t\<rparr>))"

definition ListDisputes :: "env \<Rightarrow> uuid \<Rightarrow> int \<Rightarrow> int \<Rightarrow> billing_state \<Rightarrow> kb_dispute list result" where
  "ListDisputes E u limit offset s =
     (case db_find E ''ListDisputes'' 0 (\<lambda>v. bd_user_id v = u) (bs_disputes s) of
        Inl e \<Rightarrow> Inl e | Inr vs \<Rightarrow> Inr (billing_page limit offset (sort_key (\<lambda>v. - bd_created_at v) vs)))"

definition ResolveDispute_repo :: "env \<Rightarrow> uuid \<Rightarrow> uuid \<Rightarrow> string \<Rightarrow> string \<Rightarrow> billing_state \<Rightarrow> kb_dispute result \<times> billing_state" where
  "ResolveDispute_repo E i admin status resolution s =
     (case db_update E ''ResolveDispute'' 0 (\<lambda>d. bd_id d = i)
             (\<lambda>d. d\<lparr>bd_status := status, bd_resolution := resolution, bd_resolved_by := Some admin, bd_resolved_at := Some (e_now E)\<rparr>)
             (bs_disputes s) of
        Inl e \<Rightarrow> (Inl e, s)
      | Inr t \<Rightarrow> (db_first E ''GetDispute'' 0 bd_id (\<lambda>d. bd_id d = i) t, s\<lparr>bs_disputes := t\<rparr>))"

definition ListPayoutPeriods :: "env \<Rightarrow> uuid \<Rightarrow> int \<Rightarrow> int \<Rightarrow> billing_state \<Rightarrow> payout_period list result" where
  "ListPayoutPeriods E c limit offset s =
     (case db_find E ''ListPayoutPeriods'' 0 (\<lambda>p. po_contributor_id p = c) (bs_payouts s) of
        Inl e \<Rightarrow> Inl e | Inr ps \<Rightarrow> Inr (billing_page limit offset (rev (sort_key po_period (rev ps)))))"

definition MarkPayoutPeriodPaid :: "env \<Rightarrow> uuid \<Rightarrow> time \<Rightarrow> billing_state \<Rightarrow> payout_period result \<times> billing_state" where
  "MarkPayoutPeriodPaid E i paidAt s =
     (case db_update E ''MarkPayoutPeriodPaid'' 0 (\<lambda>p. po_id p = i) (\<lambda>p. p\<lparr>po_status := ''paid'', po_paid_at := Some paidAt\<rparr>) (bs_payouts s) of
        Inl e \<Rightarrow> (Inl e, s)
      | Inr t \<Rightarrow> (db_first E ''GetPayoutPeriod'' 0 po_id (\<lambda>p. po_id p = i) t, s\<lparr>bs_payouts := t\<rparr>))"

definition ListContributorEarnings :: "env \<Rightarrow> uuid \<Rightarrow> uuid option \<Rightarrow> int \<Rightarrow> int \<Rightarrow> billing_state \<Rightarrow> contributor_earning list result" where
  "ListContributorEarnings E c collection limit offset s =
     (case db_find E ''ListContributorEarnings'' 0
             (\<lambda>x. ce_contributor_id x = c
                \<and> (case collection of None \<Rightarrow> True | Some i \<Rightarrow> i = uuid_nil \<or> ce_collection_id x = i)) (bs_earnings s) of
        Inl e \<Rightarrow> Inl e | Inr xs \<Rightarrow> Inr (billing_page limit offset (rev (sort_key ce_period (rev xs)))))"

section \<open>Usage\<close>

record record_usage_input =
  ru_user_id :: uuid
  ru_owner_id :: uuid
  ru_collection_id :: uuid
  ru_snapshot_id :: uuid
  ru_snapshot_entry_id :: "uuid option"
  ru_operation_type :: string
  ru_tokens_used :: int
  ru_is_free :: bool
  ru_unit_price :: int
  ru_currency :: string

text \<open>What \<open>RecordUsage\<close> returns beside its error: as much as was written before it.\<close>

record usage_outcome =
  uo_usage :: "kb_usage option"
  uo_txn :: "billing_txn option"
  uo_earning :: "contributor_earning option"

definition usage_row :: "env \<Rightarrow> nat \<Rightarrow> record_usage_input \<Rightarrow> kb_usage" where
  "usage_row E n input =
     (let price = (if ru_is_free input then 0 else ru_unit_price input) in
      \<lparr>ku_id = e_uuid E ''kb_usage_records'' n, ku_created_at = e_now E, ku_user_id = ru_user_id input,
       ku_collection_id = ru_collection_id input, ku_snapshot_id = ru_snapshot_id input,
       ku_snapshot_entry_id = ru_snapshot_entry_id input, ku_operation_type = trim (ru_operation_type input),
       ku_tokens_used = ru_tokens_used input, ku_unit_price = price, ku_amount = i64 (ru_tokens_used input * price),
       ku_currency = (if trim (ru_currency input) = '''' then ''CNY'' else trim (ru_currency input)), ku_billed_at = e_now E\<rparr>)"

definition usage_txn :: "env \<Rightarrow> nat \<Rightarrow> kb_usage \<Rightarrow> billing_txn" where
  "usage_txn E n r =
     \<lparr>bt_id = e_uuid E ''billing_transactions'' n, bt_created_at = e_now E, bt_user_id = ku_user_id r, bt_type = ''kb_usage'',
      bt_amount = - ku_amount r,
      bt_description = ''KB usage '' @ ku_operation_type r @ '' for collection '' @ e_uuid_str E (ku_collection_id r),
      bt_related_id = e_uuid_str E (ku_id r)\<rparr>"

definition charge_usage :: "env \<Rightarrow> nat \<Rightarrow> uuid \<Rightarrow> kb_usage \<Rightarrow> billing_state \<Rightarrow> (usage_outcome \<times> error option) \<times> billing_state" where
  "charge_usage E n owner r s =
     (case GetOrCreateAccount E n (ku_user_id r) (ku_currency r) s of
        (Inl e, s1) \<Rightarrow> ((\<lparr>uo_usage = Some r, uo_txn = None, uo_earning = None\<rparr>, Some e), s1)
      | (Inr _, s1) \<Rightarrow>
          let x = usage_txn E n r in
          (case CreateTransaction E n x s1 of
             Inl e \<Rightarrow> ((\<lparr>uo_usage = Some r, uo_txn = None, uo_earning = None\<rparr>, Some e), s1)
           | Inr s2 \<Rightarrow>
               if owner = uuid_nil then ((\<lparr>uo_usage = Some r, uo_txn = Some x, uo_earning = None\<rparr>, None), s2)
               else
                 let fee = tenth (ku_amount r) in
                 (case AddContributorEarning E n owner (ku_collection_id r) (year_month (e_now E)) (ku_amount r) fee
                         (ku_amount r - fee) s2 of
                    (Inl e, s3) \<Rightarrow> ((\<lparr>uo_usage = Some r, uo_txn = Some x, uo_earning = None\<rparr>, Some e), s3)
                  | (Inr c, s3) \<Rightarrow> ((\<lparr>uo_usage = Some r, uo_txn = Some x, uo_earning = Some c\<rparr>, None), s3))))"

definition RecordUsage :: "env \<Rightarrow> nat \<Rightarrow> record_usage_input \<Rightarrow> billing_state \<Rightarrow> (usage_outcome \<times> error option) \<times> billing_state" where
  "RecordUsage E n input s =
     (let none = \<lparr>uo_usage = None, uo_txn = None, uo_earning = None\<rparr>; r = usage_row E n input in
      if ru_collection_id input = uuid_nil \<or> ru_snapshot_id input = uuid_nil
      then ((none, Some (Wrapf ''collection_id and snapshot_id are required'' ErrKBInvalid)), s)
      else if trim (ru_operation_type input) = '''' then ((none, Some (Wrapf ''operation_type is required'' ErrKBInvalid)), s)
      else if ru_tokens_used input < 0 then ((none, Some (Wrapf ''tokens_used must be non-negative'' ErrKBInvalid)), s)
      else case CreateUsageRecord E n r s of
        Inl e \<Rightarrow> ((none, Some e), s)
      | Inr s1 \<Rightarrow>
          if 0 < ku_amount r \<and> ru_user_id input \<noteq> uuid_nil then charge_usage E n (ru_owner_id input) r s1
          else ((\<lparr>uo_usage = Some r, uo_txn = None, uo_earning = None\<rparr>, None), s1))"

section \<open>Plans\<close>

text \<open>An empty entitlement reads as free; an unknown one gives the empty string.\<close>

definition normalizeEntitlement :: "string \<Rightarrow> string" where
  "normalizeEntitlement v =
     (let t = trim v in if t = '''' \<or> t = ''free'' then ''free'' else if t \<in> {''paid'', ''trial'', ''granted''} then t else '''')"

definition normalizeBillingInterval :: "string \<Rightarrow> string \<Rightarrow> string" where
  "normalizeBillingInterval v entitlement =
     (let t = trim v in
      if entitlement = ''free'' \<or> entitlement = ''granted'' then (if t = '''' \<or> t = ''none'' then ''none'' else '''')
      else if t = '''' then ''month''
      else if t = ''none'' then (if entitlement = ''trial'' then ''none'' else '''')
      else if t = ''month'' \<or> t = ''year'' then t
      else '''')"

record plan_input =
  ul_collection_id :: uuid
  ul_entitlement_type :: string
  ul_billing_interval :: string
  ul_price :: int
  ul_currency :: string
  ul_trial_days :: int
  ul_metadata :: "json_map option"

definition unpaid :: "string \<Rightarrow> bool" where
  "unpaid entitlement \<longleftrightarrow> entitlement = ''free'' \<or> entitlement = ''granted''"

definition new_plan :: "env \<Rightarrow> plan_input \<Rightarrow> int \<Rightarrow> billing_plan" where
  "new_plan E input version =
     (let entitlement = normalizeEntitlement (ul_entitlement_type input) in
      \<lparr>bp_id = e_uuid E ''kb_billing_plans'' 0, bp_collection_id = ul_collection_id input, bp_version = version,
       bp_entitlement_type = entitlement,
       bp_billing_interval = (if unpaid entitlement then ''none'' else normalizeBillingInterval (ul_billing_interval input) entitlement),
       bp_price = (if unpaid entitlement then 0 else ul_price input),
       bp_currency = (if trim (ul_currency input) = '''' then ''CNY'' else trim (ul_currency input)),
       bp_trial_days = ul_trial_days input, bp_status = ''active'', bp_effective_at = e_now E, bp_metadata = ul_metadata input\<rparr>)"

text \<open>The active plans are archived and the new one created, in two statements.\<close>

definition replace_plan :: "env \<Rightarrow> billing_plan \<Rightarrow> billing_state \<Rightarrow> billing_plan result \<times> billing_state" where
  "replace_plan E p s =
     (case ArchiveActivePlans E (bp_collection_id p) s of
        Inl e \<Rightarrow> (Inl e, s)
      | Inr s1 \<Rightarrow> (case CreateBillingPlan E p s1 of Inl e \<Rightarrow> (Inl e, s1) | Inr s2 \<Rightarrow> (Inr p, s2)))"

definition check_plan :: "plan_input \<Rightarrow> unit result" where
  "check_plan input =
     (let entitlement = normalizeEntitlement (ul_entitlement_type input) in
      if ul_collection_id input = uuid_nil then Inl (Wrapf ''collection_id is required'' ErrKBInvalid)
      else if entitlement = '''' then Inl (Wrapf ''invalid entitlement_type'' ErrKBInvalid)
      else if normalizeBillingInterval (ul_billing_interval input) entitlement = ''''
      then Inl (Wrapf ''invalid billing_interval'' ErrKBInvalid)
      else if ul_price input < 0 then Inl (Wrapf ''price must be non-negative'' ErrKBInvalid)
      else if ul_trial_days input < 0 then Inl (Wrapf ''trial_days must be non-negative'' ErrKBInvalid)
      else Inr ())"

definition UpsertBillingPlan :: "env \<Rightarrow> plan_input \<Rightarrow> billing_state \<Rightarrow> billing_plan result \<times> billing_state" where
  "UpsertBillingPlan E input s =
     (case check_plan input of
        Inl e \<Rightarrow> (Inl e, s)
      | Inr _ \<Rightarrow>
          (case NextPlanVersion E (ul_collection_id input) s of
             Inl e \<Rightarrow> (Inl e, s)
           | Inr version \<Rightarrow> replace_plan E (new_plan E input version) s))"

section \<open>Invoices\<close>

record invoice_item_input =
  jn_usage_record_id :: "uuid option"
  jn_description :: string
  jn_quantity :: int
  jn_unit_price :: int
  jn_amount :: int
  jn_metadata :: "json_map option"

record invoice_input =
  vi_user_id :: uuid
  vi_collection_id :: "uuid option"
  vi_subscription_id :: "uuid option"
  vi_currency :: string
  vi_period_start :: "time option"
  vi_period_end :: "time option"
  vi_items :: "invoice_item_input list"
  vi_metadata :: "json_map option"

definition item_amount :: "invoice_item_input \<Rightarrow> int" where
  "item_amount i =
     (let quantity = (if jn_quantity i \<le> 0 then 1 else jn_quantity i) in
      if jn_amount i = 0 \<and> 0 < jn_unit_price i then i64 (quantity * jn_unit_price i) else jn_amount i)"

text \<open>The loop over the items, with the number of the item, the subtotal so far and the rows so far.\<close>

fun invoice_items :: "env \<Rightarrow> nat \<Rightarrow> int \<Rightarrow> invoice_item list \<Rightarrow> invoice_item_input list \<Rightarrow> (int \<times> invoice_item list) result" where
  "invoice_items E n subtotal acc [] = Inr (subtotal, acc)"
| "invoice_items E n subtotal acc (i # is) =
     (if trim (jn_description i) = '''' then Inl (Wrapf ''invoice item description is required'' ErrKBInvalid)
      else if item_amount i < 0 then Inl (Wrapf ''invoice item amount must be non-negative'' ErrKBInvalid)
      else invoice_items E (n + 1) (i64 (subtotal + item_amount i))
             (acc @ [\<lparr>bl_id = e_uuid E ''kb_invoice_items'' n, bl_created_at = e_now E, bl_invoice_id = uuid_nil,
                bl_usage_record_id = jn_usage_record_id i, bl_description = trim (jn_description i),
                bl_quantity = (if jn_quantity i \<le> 0 then 1 else jn_quantity i), bl_unit_price = jn_unit_price i,
                bl_amount = item_amount i, bl_metadata = jn_metadata i\<rparr>]) is)"

definition CreateInvoice :: "env \<Rightarrow> invoice_input \<Rightarrow> billing_state \<Rightarrow> (kb_invoice \<times> invoice_item list) result \<times> billing_state" where
  "CreateInvoice E input s =
     (if vi_user_id input = uuid_nil then (Inl (Wrapf ''user_id is required'' ErrKBInvalid), s)
      else case invoice_items E 0 0 [] (vi_items input) of
        Inl e \<Rightarrow> (Inl e, s)
      | Inr (subtotal, items) \<Rightarrow>
          let v = \<lparr>bi_id = e_uuid E ''kb_invoices'' 0, bi_created_at = e_now E, bi_user_id = vi_user_id input,
                bi_collection_id = vi_collection_id input, bi_subscription_id = vi_subscription_id input, bi_status = ''issued'',
                bi_currency = (if trim (vi_currency input) = '''' then ''CNY'' else trim (vi_currency input)),
                bi_subtotal = subtotal, bi_platform_fee = tenth subtotal, bi_total = subtotal,
                bi_period_start = vi_period_start input, bi_period_end = vi_period_end input, bi_issued_at = Some (e_now E),
                bi_paid_at = None, bi_metadata = vi_metadata input\<rparr>
          in (case CreateInvoiceWithItems E v items s of
                Inl e \<Rightarrow> (Inl e, s) | Inr (items', s1) \<Rightarrow> (Inr (v, items'), s1)))"

definition GetInvoiceDetail :: "env \<Rightarrow> uuid \<Rightarrow> uuid \<Rightarrow> billing_state \<Rightarrow> (kb_invoice \<times> invoice_item list) result" where
  "GetInvoiceDetail E u i s =
     (case GetInvoice E i s of
        Inl e \<Rightarrow> Inl e
      | Inr v \<Rightarrow>
          if bi_user_id v \<noteq> u then Inl ErrKBInvalid
          else (case ListInvoiceItems E i s of Inl e \<Rightarrow> Inl e | Inr items \<Rightarrow> Inr (v, items)))"

definition MarkInvoicePaid :: "env \<Rightarrow> uuid \<Rightarrow> billing_state \<Rightarrow> kb_invoice result \<times> billing_state" where
  "MarkInvoicePaid E i s = UpdateInvoiceStatus E i ''paid'' (\<lambda>v. v\<lparr>bi_paid_at := Some (e_now E)\<rparr>) s"

section \<open>Refunds, disputes, payouts\<close>

definition RequestRefund :: "env \<Rightarrow> uuid \<Rightarrow> uuid \<Rightarrow> int \<Rightarrow> string \<Rightarrow> billing_state \<Rightarrow> kb_refund result \<times> billing_state" where
  "RequestRefund E u invoiceID amount reason s =
     (case GetInvoice E invoiceID s of
        Inl e \<Rightarrow> (Inl e, s)
      | Inr v \<Rightarrow>
          if bi_user_id v \<noteq> u then (Inl ErrKBInvalid, s)
          else if amount \<le> 0 \<or> bi_total v < amount then (Inl (Wrapf ''invalid refund amount'' ErrKBInvalid), s)
          else if trim reason = '''' then (Inl (Wrapf ''refund reason is required'' ErrKBInvalid), s)
          else
            let r = \<lparr>br_id = e_uuid E ''kb_refunds'' 0, br_created_at = e_now E, br_invoice_id = invoiceID, br_user_id = u,
                  br_amount = amount, br_reason = trim reason, br_status = ''pending'', br_processed_by = None, br_processed_at = None\<rparr>
            in (case CreateRefund E r s of Inl e \<Rightarrow> (Inl e, s) | Inr s1 \<Rightarrow> (Inr r, s1)))"

definition ResolveRefund :: "env \<Rightarrow> uuid \<Rightarrow> uuid \<Rightarrow> string \<Rightarrow> billing_state \<Rightarrow> kb_refund result \<times> billing_state" where
  "ResolveRefund E admin i status s =
     (let st = trim status in
      if st \<notin> {''approved'', ''rejected'', ''processed''} then (Inl (Wrapf ''invalid refund status'' ErrKBInvalid), s)
      else ResolveRefund_repo E i admin st s)"

definition OpenDispute :: "env \<Rightarrow> uuid \<Rightarrow> uuid \<Rightarrow> string \<Rightarrow> string \<Rightarrow> billing_state \<Rightarrow> kb_dispute result \<times> billing_state" where
  "OpenDispute E u invoiceID reason detail s =
     (case GetInvoice E invoiceID s of
        Inl e \<Rightarrow> (Inl e, s)
      | Inr v \<Rightarrow>
          if bi_user_id v \<noteq> u then (Inl ErrKBInvalid, s)
          else if trim reason = '''' then (Inl (Wrapf ''dispute reason is required'' ErrKBInvalid), s)
          else
            let d = \<lparr>bd_id = e_uuid E ''kb_billing_disputes'' 0, bd_created_at = e_now E, bd_invoice_id = invoiceID, bd_user_id = u,
                  bd_reason = trim reason, bd_detail = trim detail, bd_status = ''open'', bd_resolved_by = None,
                  bd_resolved_at = None, bd_resolution = ''''\<rparr>
            in (case CreateDispute E d s of Inl e \<Rightarrow> (Inl e, s) | Inr s1 \<Rightarrow> (Inr d, s1)))"

definition ResolveDispute :: "env \<Rightarrow> uuid \<Rightarrow> uuid \<Rightarrow> string \<Rightarrow> string \<Rightarrow> billing_state \<Rightarrow> kb_dispute result \<times> billing_state" where
  "ResolveDispute E admin i status resolution s =
     (let st = trim status in
      if st \<notin> {''accepted'', ''rejected'', ''cancelled''} then (Inl (Wrapf ''invalid dispute status'' ErrKBInvalid), s)
      else ResolveDispute_repo E i admin st (trim resolution) s)"

definition MarkPayoutPaid :: "env \<Rightarrow> uuid \<Rightarrow> billing_state \<Rightarrow> payout_period result \<times> billing_state" where
  "MarkPayoutPaid E i s = MarkPayoutPeriodPaid E i (e_now E) s"

definition GetAccount :: "env \<Rightarrow> uuid \<Rightarrow> billing_state \<Rightarrow> billing_account result \<times> billing_state" where
  "GetAccount E u s = GetOrCreateAccount E 0 u ''CNY'' s"

end
