(* ===== verification/BillingProps.thy ===== *)
theory BillingProps
  imports Billing
begin

text \<open>
  The books of the billing service: transactions against usage, payouts against earnings, the versions of plans,
  the totals of invoices; and where they stop adding up.
\<close>

section \<open>Requests\<close>

datatype bill_req =
    BUsage env record_usage_input
  | BPlan env plan_input
  | BInvoice env invoice_input
  | BPaid env uuid
  | BRefund env uuid uuid int string
  | BResolveRefund env uuid uuid string
  | BDispute env uuid uuid string string
  | BResolveDispute env uuid uuid string string
  | BPayout env uuid
  | BAccount env uuid

fun bill_serve :: "bill_req \<Rightarrow> billing_state \<Rightarrow> billing_state" where
  "bill_serve (BUsage E input) s = snd (RecordUsage E 0 input s)"
| "bill_serve (BPlan E input) s = snd (UpsertBillingPlan E input s)"
| "bill_serve (BInvoice E input) s = snd (CreateInvoice E input s)"
| "bill_serve (BPaid E i) s = snd (MarkInvoicePaid E i s)"
| "bill_serve (BRefund E u i a reason) s = snd (RequestRefund E u i a reason s)"
| "bill_serve (BResolveRefund E a i st) s = snd (ResolveRefund E a i st s)"
| "bill_serve (BDispute E u i r d) s = snd (OpenDispute E u i r d s)"
| "bill_serve (BResolveDispute E a i st r) s = snd (ResolveDispute E a i st r s)"
| "bill_serve (BPayout E i) s = snd (MarkPayoutPaid E i s)"
| "bill_serve (BAccount E u) s = snd (GetAccount E u s)"

text \<open>The recordings that failed half way: an error beside a usage record that is already written.\<close>

fun half_recorded :: "bill_req list \<Rightarrow> billing_state \<Rightarrow> error list" where
  "half_recorded [] s = []"
| "half_recorded (q # qs) s =
     (case q of
        BUsage E input \<Rightarrow> (case fst (RecordUsage E 0 input s) of (u, Some e) \<Rightarrow> if uo_usage u = None then [] else [e] | _ \<Rightarrow> [])
      | _ \<Rightarrow> [])
     @ half_recorded qs (bill_serve q s)"

section \<open>The plans\<close>

definition plans_of :: "uuid \<Rightarrow> billing_state \<Rightarrow> billing_plan list" where
  "plans_of c s = filter (\<lambda>p. bp_collection_id p = c) (bs_plans s)"

text \<open>The plans of a collection are numbered from 1, and only the last one can be active.\<close>

definition plans_ok :: "billing_plan list \<Rightarrow> bool" where
  "plans_ok ps \<longleftrightarrow> map bp_version ps = [1..int (length ps)] \<and> list_all (\<lambda>p. bp_status p \<noteq> ''active'') (butlast ps)
     \<and> list_all (\<lambda>p. 0 \<le> bp_price p \<and> (bp_entitlement_type p \<in> {''free'', ''granted''} \<longrightarrow> bp_price p = 0)) ps"

lemma plans_ok_snoc:
  assumes "plans_ok ps" "bp_version p = int (length ps) + 1" "list_all (\<lambda>p. bp_status p \<noteq> ''active'') ps" "0 \<le> bp_price p"
    "bp_entitlement_type p \<in> {''free'', ''granted''} \<Longrightarrow> bp_price p = 0"
  shows "plans_ok (ps @ [p])"
proof -
  have "[1..int (length ps) + 1] = [1..int (length ps)] @ [int (length ps) + 1]" by (simp add: upto_rec2)
  with assms show ?thesis by (auto simp: plans_ok_def add.commute)
qed

lemma plans_ok_map:
  assumes "plans_ok ps" "\<And>p. bp_version (f p) = bp_version p" "\<And>p. bp_price (f p) = bp_price p"
    "\<And>p. bp_entitlement_type (f p) = bp_entitlement_type p" "\<And>p. bp_status (f p) = ''active'' \<Longrightarrow> bp_status p = ''active''"
  shows "plans_ok (map f ps)"
  using assms unfolding plans_ok_def by (auto simp: list_all_iff comp_def map_butlast [symmetric])

definition retire :: "uuid \<Rightarrow> billing_plan \<Rightarrow> billing_plan" where
  "retire c p = (if bp_collection_id p = c \<and> bp_status p = ''active'' then p\<lparr>bp_status := ''archived''\<rparr> else p)"

lemma retire_simps [simp]: "bp_collection_id (retire c p) = bp_collection_id p" "bp_version (retire c p) = bp_version p"
  "bp_price (retire c p) = bp_price p" "bp_entitlement_type (retire c p) = bp_entitlement_type p"
  by (simp_all add: retire_def)

lemma plans_of_retire: "filter (\<lambda>p. bp_collection_id p = c) (map (retire d) ps) = map (retire d) (filter (\<lambda>p. bp_collection_id p = c) ps)"
  by (simp add: filter_map comp_def)

lemma plans_ok_retire: "plans_ok ps \<Longrightarrow> plans_ok (map (retire c) ps)"
  by (rule plans_ok_map) (auto simp: retire_def split: if_splits)

lemma replace_plan_plans:
  "bs_plans (snd (replace_plan E p s)) \<in> {bs_plans s, map (retire (bp_collection_id p)) (bs_plans s),
     map (retire (bp_collection_id p)) (bs_plans s) @ [p]}"
proof -
  have "(\<lambda>q. if bp_collection_id q = bp_collection_id p \<and> bp_status q = ''active'' then q\<lparr>bp_status := ''archived''\<rparr> else q)
      = retire (bp_collection_id p)" by (auto simp: retire_def)
  then show ?thesis
    by (auto simp: replace_plan_def ArchiveActivePlans_def CreateBillingPlan_def db_update_def db_insert_def upd_where_def
        split: sum.splits if_splits)
qed

lemma replace_plan_ok:
  assumes "\<And>c. plans_ok (plans_of c s)" "bp_version p = next_version (map bp_version (plans_of (bp_collection_id p) s))"
    "0 \<le> bp_price p" "bp_entitlement_type p \<in> {''free'', ''granted''} \<Longrightarrow> bp_price p = 0"
  shows "plans_ok (plans_of c (snd (replace_plan E p s)))"
proof -
  let ?c = "bp_collection_id p"
  have old: "plans_ok (map (retire ?c) (plans_of c s))" for c by (rule plans_ok_retire) (rule assms(1))
  have "map bp_version (plans_of ?c s) = [1..int (length (plans_of ?c s))]" using assms(1) [of ?c] by (simp add: plans_ok_def)
  then have v: "bp_version p = int (length (map (retire ?c) (plans_of ?c s))) + 1" by (simp add: assms(2) next_version_def fold_max_upto)
  have "list_all (\<lambda>p. bp_status p \<noteq> ''active'') (map (retire ?c) (plans_of ?c s))"
    by (auto simp: list_all_iff plans_of_def retire_def)
  from plans_ok_snoc [OF old v this assms(3,4)] have new: "plans_ok (map (retire ?c) (plans_of ?c s) @ [p])" by simp
  have "plans_of c (snd (replace_plan E p s)) \<in> {plans_of c s, map (retire ?c) (plans_of c s),
      map (retire ?c) (plans_of c s) @ (if c = ?c then [p] else [])}"
    using replace_plan_plans [of E p s] by (auto simp: plans_of_def plans_of_retire)
  then show ?thesis using assms(1) old new by (auto split: if_splits)
qed

lemma UpsertBillingPlan_plans:
  assumes "\<And>c. plans_ok (plans_of c s)"
  shows "plans_ok (plans_of c (snd (UpsertBillingPlan E input s)))"
proof (cases "check_plan input")
  case checked: (Inr u)
  show ?thesis
  proof (cases "NextPlanVersion E (ul_collection_id input) s")
    case (Inr v)
    let ?p = "new_plan E input v"
    have p: "bp_collection_id ?p = ul_collection_id input" "bp_version ?p = v" by (simp_all add: new_plan_def Let_def)
    have v: "v = next_version (map bp_version (plans_of (ul_collection_id input) s))"
      using Inr by (auto simp: NextPlanVersion_def db_simps plans_of_def split: sum.splits)
    have "0 \<le> ul_price input" using checked by (simp add: check_plan_def Let_def split: if_split_asm)
    then have "0 \<le> bp_price ?p" "bp_entitlement_type ?p \<in> {''free'', ''granted''} \<Longrightarrow> bp_price ?p = 0"
      by (simp_all add: new_plan_def Let_def unpaid_def)
    then have "plans_ok (plans_of c (snd (replace_plan E ?p s)))" using assms p v by (intro replace_plan_ok) simp_all
    with Inr checked show ?thesis by (simp add: UpsertBillingPlan_def)
  qed (use assms checked in \<open>simp add: UpsertBillingPlan_def\<close>)
qed (use assms in \<open>simp add: UpsertBillingPlan_def\<close>)

text \<open>Usage writes the usage records, the accounts, the transactions, the earnings and the payouts.\<close>

definition books :: "billing_state \<Rightarrow> kb_usage list \<times> billing_txn list \<times> contributor_earning list \<times> payout_period list" where
  "books s = (bs_usage s, bs_txns s, bs_earnings s, bs_payouts s)"

lemma GetOrCreateAccount_tables: "bs_plans (snd (GetOrCreateAccount E n u c s)) = bs_plans s"
  "books (snd (GetOrCreateAccount E n u c s)) = books s"
  by (simp_all add: GetOrCreateAccount_def Let_def books_def split: sum.split)

lemma UpsertPayoutPeriod_tables:
  "UpsertPayoutPeriod E n c p g f m s = Inr (x, s') \<Longrightarrow> bs_plans s' = bs_plans s \<and> bs_usage s' = bs_usage s
     \<and> bs_txns s' = bs_txns s \<and> bs_earnings s' = bs_earnings s"
  by (auto simp: UpsertPayoutPeriod_def Let_def split: sum.splits if_splits)

lemma AddContributorEarning_tables: "AddContributorEarning E n c k p g f m s = (r, s') \<Longrightarrow> bs_plans s' = bs_plans s"
  by (auto simp: AddContributorEarning_def Let_def dest!: UpsertPayoutPeriod_tables split: sum.splits prod.splits if_splits)

lemma CreateTransaction_plans: "CreateTransaction E n x s = Inr s' \<Longrightarrow> bs_plans s' = bs_plans s"
  by (auto simp: CreateTransaction_def split: sum.splits)

lemma charge_usage_plans: "bs_plans (snd (charge_usage E n w r s)) = bs_plans s"
proof -
  obtain a s1 where a: "GetOrCreateAccount E n (ku_user_id r) (ku_currency r) s = (a, s1)" by fastforce
  then have "bs_plans s1 = bs_plans s" using GetOrCreateAccount_tables [of E n "ku_user_id r" "ku_currency r" s] by simp
  then show ?thesis unfolding charge_usage_def a Let_def prod.case
    by (auto split: sum.split prod.split dest!: CreateTransaction_plans AddContributorEarning_tables)
qed

lemma RecordUsage_plans: "bs_plans (snd (RecordUsage E n u s)) = bs_plans s"
  by (auto simp: RecordUsage_def Let_def CreateUsageRecord_def charge_usage_plans split: sum.splits)

lemma other_requests_tables:
  "bs_plans (snd (CreateInvoice E v s)) = bs_plans s \<and> books (snd (CreateInvoice E v s)) = books s"
  "bs_plans (snd (MarkInvoicePaid E i s)) = bs_plans s \<and> books (snd (MarkInvoicePaid E i s)) = books s"
  "bs_plans (snd (RequestRefund E w i a r s)) = bs_plans s \<and> books (snd (RequestRefund E w i a r s)) = books s"
  "bs_plans (snd (ResolveRefund E w i st s)) = bs_plans s \<and> books (snd (ResolveRefund E w i st s)) = books s"
  "bs_plans (snd (OpenDispute E w i r d s)) = bs_plans s \<and> books (snd (OpenDispute E w i r d s)) = books s"
  "bs_plans (snd (ResolveDispute E w i st r s)) = bs_plans s \<and> books (snd (ResolveDispute E w i st r s)) = books s"
  by (simp_all add: CreateInvoice_def CreateInvoiceWithItems_def MarkInvoicePaid_def UpdateInvoiceStatus_def RequestRefund_def
      CreateRefund_def ResolveRefund_def ResolveRefund_repo_def OpenDispute_def CreateDispute_def ResolveDispute_def
      ResolveDispute_repo_def Let_def books_def split: sum.split prod.split)

lemma GetAccount_tables: "bs_plans (snd (GetAccount E w s)) = bs_plans s \<and> books (snd (GetAccount E w s)) = books s"
  by (simp add: GetAccount_def GetOrCreateAccount_tables)

lemma MarkPayoutPaid_plans: "bs_plans (snd (MarkPayoutPaid E i s)) = bs_plans s"
  by (simp add: MarkPayoutPaid_def MarkPayoutPeriodPaid_def split: sum.split)

lemmas bs_plans_other = RecordUsage_plans MarkPayoutPaid_plans GetAccount_tables [THEN conjunct1] other_requests_tables [THEN conjunct1]

lemma plans_run: "plans_ok (plans_of c (fold bill_serve qs billing_init))"
proof -
  have "plans_ok (plans_of c (bill_serve q s))" if "\<And>c. plans_ok (plans_of c s)" for q s c
    using that by (cases q) (simp_all add: plans_of_def bs_plans_other UpsertBillingPlan_plans [unfolded plans_of_def])
  then have "plans_ok (plans_of c (fold bill_serve qs s))" if "\<And>c. plans_ok (plans_of c s)" for s
    using that by (induction qs arbitrary: s) simp_all
  then show ?thesis by (simp add: plans_ok_def plans_of_def billing_init_def)
qed

text \<open>
  The price history of a collection is a numbered list: after any sequence of billing requests its plans have
  the versions 1, 2, 3 and so on in the order they were made, at most the last of them is active, no price is
  negative, and a free or granted plan costs nothing.
\<close>

theorem plan_history_is_numbered:
  "let ps = filter (\<lambda>p. bp_collection_id p = c) (bs_plans (fold bill_serve qs billing_init))
   in map bp_version ps = [1..int (length ps)] \<and> list_all (\<lambda>p. bp_status p \<noteq> ''active'') (butlast ps)
      \<and> list_all (\<lambda>p. 0 \<le> bp_price p) ps \<and> list_all (\<lambda>p. unpaid (bp_entitlement_type p) \<longrightarrow> bp_price p = 0) ps"
  using plans_run [of c qs] by (auto simp: plans_ok_def plans_of_def Let_def list_all_iff unpaid_def)

section \<open>Invoices\<close>

lemma i64_small: "- (2 ^ 63) \<le> x \<Longrightarrow> x < 2 ^ 63 \<Longrightarrow> i64 x = x"
  by (simp add: i64_def)

lemma invoice_items_sum:
  assumes "invoice_items E n subtotal acc is = Inr (t, rows)" "0 \<le> subtotal"
    "subtotal + sum_list (map item_amount is) < 2 ^ 63"
  shows "t = subtotal + sum_list (map item_amount is) \<and> map bl_amount rows = map bl_amount acc @ map item_amount is
    \<and> list_all (\<lambda>i. 0 \<le> item_amount i) is"
  using assms
proof (induction E n subtotal acc "is" rule: invoice_items.induct)
  case (2 E n subtotal acc i "is")
  have i: "0 \<le> item_amount i" using 2(2) by (simp split: if_splits)
  have rest: "invoice_items E (n + 1) (i64 (subtotal + item_amount i))
      (acc @ [\<lparr>bl_id = e_uuid E ''kb_invoice_items'' n, bl_created_at = e_now E, bl_invoice_id = uuid_nil,
         bl_usage_record_id = jn_usage_record_id i, bl_description = trim (jn_description i),
         bl_quantity = (if jn_quantity i \<le> 0 then 1 else jn_quantity i), bl_unit_price = jn_unit_price i,
         bl_amount = item_amount i, bl_metadata = jn_metadata i\<rparr>]) is = Inr (t, rows)"
    using 2(2) by (simp split: if_splits)
  have nonneg: "list_all (\<lambda>i. 0 \<le> item_amount i) js" if "invoice_items E k x a js = Inr y" for k x a js y
    using that by (induction E k x a js rule: invoice_items.induct) (auto split: if_splits)
  have "0 \<le> sum_list (map item_amount is)" using nonneg [OF rest] by (intro sum_list_nonneg) (auto simp: list_all_iff)
  then have fits: "i64 (subtotal + item_amount i) = subtotal + item_amount i" using 2(3,4) i by (intro i64_small) simp_all
  with 2 i rest show ?case by (simp split: if_splits)
qed simp

lemma CreateInvoice_Inr:
  assumes "CreateInvoice E input s = (Inr (v, rows), s')"
  obtains subtotal items where "invoice_items E 0 0 [] (vi_items input) = Inr (subtotal, items)" "bi_total v = subtotal"
    "bi_subtotal v = subtotal" "bi_platform_fee v = tenth subtotal" "rows = map (\<lambda>i. i\<lparr>bl_invoice_id := bi_id v\<rparr>) items"
  using assms by (auto simp: CreateInvoice_def CreateInvoiceWithItems_def Let_def split: sum.splits prod.splits if_splits)

text \<open>
  Invoices add up: when an invoice is made and its amounts do not exceed what 64 bits hold, its total is the
  sum of the amounts of its items, none of which is negative, and the platform's fee is a tenth of it, rounded
  down, so it never exceeds the total.
\<close>

theorem invoice_adds_up:
  assumes "CreateInvoice E input s = (Inr (v, rows), s')" "sum_list (map item_amount (vi_items input)) < 2 ^ 63"
  shows "bi_total v = sum_list (map bl_amount rows) \<and> list_all (\<lambda>i. 0 \<le> bl_amount i \<and> bl_invoice_id i = bi_id v) rows
     \<and> 0 \<le> bi_platform_fee v \<and> 10 * bi_platform_fee v \<le> bi_total v \<and> bi_total v < 10 * bi_platform_fee v + 10"
proof -
  obtain subtotal items where it: "invoice_items E 0 0 [] (vi_items input) = Inr (subtotal, items)"
    and v: "bi_total v = subtotal" "bi_platform_fee v = tenth subtotal" "rows = map (\<lambda>i. i\<lparr>bl_invoice_id := bi_id v\<rparr>) items"
    using CreateInvoice_Inr [OF assms(1)] by metis
  have sums: "subtotal = sum_list (map item_amount (vi_items input))" "map bl_amount items = map item_amount (vi_items input)"
    "list_all (\<lambda>i. 0 \<le> item_amount i) (vi_items input)"
    using invoice_items_sum [OF it] assms(2) by simp_all
  have rows: "map bl_amount rows = map bl_amount items" "set (map bl_amount rows) = set (map item_amount (vi_items input))"
    by (simp_all add: v(3) comp_def sums(2) flip: set_map)
  have "0 \<le> subtotal" using sums(1,3) by (auto simp: list_all_iff intro!: sum_list_nonneg)
  moreover have "0 \<le> bl_amount r" if "r \<in> set rows" for r
  proof -
    have "bl_amount r \<in> set (map bl_amount rows)" using that by simp
    then show ?thesis using rows(2) sums(3) by (auto simp: list_all_iff)
  qed
  ultimately show ?thesis using v sums(1) rows(1) sums(2) by (auto simp: tenth_def list_all_iff)
qed

section \<open>The books\<close>

lemma i64_add_multiple [simp]: "i64 (x + 2 ^ 64 * k) = i64 x"
proof -
  have "x + 2 ^ 64 * k + 2 ^ 63 = (x + 2 ^ 63) + k * 2 ^ 64" by simp
  then show ?thesis by (simp only: i64_def mod_mult_self1)
qed

lemma i64_obtain: obtains k where "i64 x = x + 2 ^ 64 * k"
proof
  show "i64 x = x + 2 ^ 64 * - ((x + 2 ^ 63) div 2 ^ 64)"
    unfolding i64_def by (simp add: minus_div_mult_eq_mod [symmetric] algebra_simps)
qed

lemma i64_cong_add: "i64 a = i64 b \<Longrightarrow> i64 (a + c) = i64 (b + c)"
  by (metis i64_add_multiple i64_obtain add.assoc add.commute)

lemma i64_moved: "i64 (t + (i64 (x + y) - x)) = i64 (t + y)"
proof -
  obtain k where "i64 (x + y) = x + y + 2 ^ 64 * k" by (rule i64_obtain)
  then have "t + (i64 (x + y) - x) = (t + y) + 2 ^ 64 * k" by simp
  then show ?thesis by (simp only: i64_add_multiple)
qed

lemma i64_added: "i64 (t + i64 y) = i64 (t + y)"
  using i64_moved [of t 0 y] by simp

lemma i64_idem [simp]: "i64 (i64 x) = i64 x"
  using i64_added [of 0 x] by simp

text \<open>A sum over a table in which one row is saved.\<close>

lemma sum_upd_where_id:
  assumes "distinct (map k t)" "x \<in> set t" "k r = k x" "P r = P x"
  shows "sum_list (map g (filter P (upd_where (\<lambda>y. k y = k x) (\<lambda>_. r) t)))
    = sum_list (map g (filter P t)) + (if P x then g r - g x else (0 :: int))"
  using assms
proof (induction t)
  case (Cons y t)
  show ?case
  proof (cases "y = x")
    case True
    with Cons.prems have "upd_where (\<lambda>y. k y = k x) (\<lambda>_. r) t = t" by (intro upd_where_miss) (auto simp: image_iff)
    with True Cons.prems show ?thesis by (simp add: upd_where_def)
  next
    case False
    with Cons.prems have "k y \<noteq> k x" by (auto simp: image_iff)
    with False Cons show ?thesis by (simp add: upd_where_def)
  qed
qed simp

lemma sum_save_row:
  assumes "distinct (map k t)" "x \<in> set t" "k r = k x" "P r = P x"
  shows "sum_list (map g (filter P (save_row k r t))) = sum_list (map g (filter P t)) + (if P x then g r - g x else (0 :: int))"
  using sum_upd_where_id [OF assms] assms(2,3) by (simp add: save_row_present)

text \<open>What a contributor earned and is owed for a month.\<close>

definition earned :: "(contributor_earning \<Rightarrow> int) \<Rightarrow> uuid \<Rightarrow> string \<Rightarrow> contributor_earning list \<Rightarrow> int" where
  "earned g c m t = sum_list (map g (filter (\<lambda>e. ce_contributor_id e = c \<and> ce_period e = m) t))"

definition owed :: "(payout_period \<Rightarrow> int) \<Rightarrow> uuid \<Rightarrow> string \<Rightarrow> payout_period list \<Rightarrow> int" where
  "owed g c m t = sum_list (map g (filter (\<lambda>p. po_contributor_id p = c \<and> po_period p = m) t))"

definition payout_key :: "payout_period \<Rightarrow> uuid \<times> string" where
  "payout_key p = (po_contributor_id p, po_period p)"

definition payouts_ok :: "payout_period list \<Rightarrow> bool" where
  "payouts_ok t \<longleftrightarrow> distinct (map po_id t) \<and> distinct (map payout_key t)
     \<and> (\<forall>p\<in>set t. i64 (po_gross p) = po_gross p \<and> i64 (po_fee p) = po_fee p \<and> i64 (po_net p) = po_net p)"

lemma payouts_okI:
  assumes "payouts_ok t" "map po_id t' = map po_id t" "map payout_key t' = map payout_key t"
    "\<And>p. p \<in> set t' \<Longrightarrow> p \<notin> set t \<Longrightarrow> i64 (po_gross p) = po_gross p \<and> i64 (po_fee p) = po_fee p \<and> i64 (po_net p) = po_net p"
  shows "payouts_ok t'"
  using assms unfolding payouts_ok_def by metis

definition same_sums :: "contributor_earning list \<Rightarrow> payout_period list \<Rightarrow> bool" where
  "same_sums es ps \<longleftrightarrow> (\<forall>c m. i64 (earned ce_gross c m es) = i64 (owed po_gross c m ps)
     \<and> i64 (earned ce_fee c m es) = i64 (owed po_fee c m ps) \<and> i64 (earned ce_net c m es) = i64 (owed po_net c m ps))"

definition money_ok :: "billing_state \<Rightarrow> bool" where
  "money_ok s \<longleftrightarrow> distinct (map ce_id (bs_earnings s)) \<and> payouts_ok (bs_payouts s) \<and> same_sums (bs_earnings s) (bs_payouts s)
     \<and> (\<forall>e\<in>set (bs_earnings s). (ce_contributor_id e, ce_period e) \<in> payout_key ` set (bs_payouts s))"

text \<open>What an upsert of a month adds to the sums.\<close>

definition adds_up :: "(payout_period \<Rightarrow> int) \<Rightarrow> int \<Rightarrow> uuid \<Rightarrow> string \<Rightarrow> payout_period list \<Rightarrow> payout_period list \<Rightarrow> bool" where
  "adds_up g x c m t t' \<longleftrightarrow> (\<forall>d n. i64 (owed g d n t') = i64 (owed g d n t + (if d = c \<and> n = m then x else 0)))"

lemma adds_up_new:
  assumes "po_contributor_id p = c" "po_period p = m" "g p = i64 x"
  shows "adds_up g x c m t (t @ [p])"
  using assms by (auto simp: adds_up_def owed_def i64_added)

lemma adds_up_save:
  assumes "distinct (map po_id t)" "p0 \<in> set t" "po_contributor_id p0 = c" "po_period p0 = m"
    "po_id p = po_id p0" "po_contributor_id p = c" "po_period p = m" "g p = i64 (g p0 + x)"
  shows "adds_up g x c m t (save_row po_id p t)"
  unfolding adds_up_def owed_def using assms
  by (auto simp: sum_save_row [OF assms(1,2,5)] i64_moved)

lemma UpsertPayoutPeriod_money:
  assumes ok: "payouts_ok (bs_payouts s)" and up: "UpsertPayoutPeriod E n c m gross fee net s = Inr (x, s')"
  shows "payouts_ok (bs_payouts s') \<and> (c, m) \<in> payout_key ` set (bs_payouts s') \<and> payout_key ` set (bs_payouts s) \<subseteq> payout_key ` set (bs_payouts s')
    \<and> adds_up po_gross gross c m (bs_payouts s) (bs_payouts s') \<and> adds_up po_fee fee c m (bs_payouts s) (bs_payouts s')
    \<and> adds_up po_net net c m (bs_payouts s) (bs_payouts s')"
proof (cases "db_first E ''UpsertPayoutPeriod'' n po_id (\<lambda>p. po_contributor_id p = c \<and> po_period p = m) (bs_payouts s)")
  case (Inl e)
  obtain p where s': "bs_payouts s' = bs_payouts s @ [p]" and p: "po_contributor_id p = c" "po_period p = m"
      "po_gross p = i64 gross" "po_fee p = i64 fee" "po_net p = i64 net"
      "\<forall>q\<in>set (bs_payouts s). \<not> (po_id q = po_id p \<or> po_contributor_id q = c \<and> po_period q = m)"
    using up Inl by (auto simp: UpsertPayoutPeriod_def Let_def db_insert_Inr split: if_splits sum.splits)
  have "payouts_ok (bs_payouts s @ [p])" using ok p by (auto simp: payouts_ok_def payout_key_def)
  with s' p show ?thesis by (auto simp: payout_key_def adds_up_new)
next
  case (Inr p0)
  then have p0: "p0 \<in> set (bs_payouts s)" "po_contributor_id p0 = c" "po_period p0 = m"
    by (auto dest: db_first_found)
  let ?p = "p0\<lparr>po_gross := i64 (po_gross p0 + gross), po_fee := i64 (po_fee p0 + fee), po_net := i64 (po_net p0 + net)\<rparr>"
  have s': "bs_payouts s' = save_row po_id ?p (bs_payouts s)"
    using up Inr by (auto simp: UpsertPayoutPeriod_def Let_def db_save_Inr split: sum.splits)
  have id: "distinct (map po_id (bs_payouts s))" using ok by (simp add: payouts_ok_def)
  have keys: "map payout_key (save_row po_id ?p (bs_payouts s)) = map payout_key (bs_payouts s)"
    using id p0(1) by (intro map_save_row) (simp_all add: payout_key_def)
  then have key_set: "payout_key ` set (save_row po_id ?p (bs_payouts s)) = payout_key ` set (bs_payouts s)"
    by (metis set_map)
  have ids: "map po_id (save_row po_id ?p (bs_payouts s)) = map po_id (bs_payouts s)" by (rule map_key_save_row [OF p0(1)]) simp
  have "payouts_ok (save_row po_id ?p (bs_payouts s))"
    using p0(1) by (intro payouts_okI [OF ok ids keys]) (auto simp: save_row_present upd_where_def split: if_splits)
  moreover have "(c, m) \<in> payout_key ` set (bs_payouts s)" using p0 by (force simp: payout_key_def)
  moreover have "adds_up po_gross gross c m (bs_payouts s) (save_row po_id ?p (bs_payouts s))"
    "adds_up po_fee fee c m (bs_payouts s) (save_row po_id ?p (bs_payouts s))"
    "adds_up po_net net c m (bs_payouts s) (save_row po_id ?p (bs_payouts s))"
    using p0 by (intro adds_up_save [OF id p0]; simp)+
  ultimately show ?thesis by (simp add: s' key_set)
qed

lemma same_sums_step:
  assumes "same_sums es ps" "adds_up po_gross gross c m ps ps'" "adds_up po_fee fee c m ps ps'" "adds_up po_net net c m ps ps'"
    "\<And>d n. i64 (earned ce_gross d n es') = i64 (earned ce_gross d n es + (if d = c \<and> n = m then gross else 0))"
    "\<And>d n. i64 (earned ce_fee d n es') = i64 (earned ce_fee d n es + (if d = c \<and> n = m then fee else 0))"
    "\<And>d n. i64 (earned ce_net d n es') = i64 (earned ce_net d n es + (if d = c \<and> n = m then net else 0))"
  shows "same_sums es' ps'"
  using assms unfolding same_sums_def adds_up_def by (metis i64_cong_add)

lemma AddContributorEarning_money:
  assumes ok: "money_ok s" and add: "AddContributorEarning E n c k m gross fee net s = (Inr x, s')"
  shows "money_ok s'"
proof -
  obtain p s1 where up: "UpsertPayoutPeriod E n c m gross fee net s = Inr (p, s1)"
    using add by (auto simp: AddContributorEarning_def split: sum.splits if_splits)
  have "payouts_ok (bs_payouts s)" using ok by (simp add: money_ok_def)
  note step = UpsertPayoutPeriod_money [OF this up]
  note keep = UpsertPayoutPeriod_tables [OF up]
  have pay: "bs_payouts s' = bs_payouts s1"
    using add up by (auto simp: AddContributorEarning_def Let_def split: sum.splits if_splits)
  note sums = same_sums_step [of "bs_earnings s" "bs_payouts s" gross c m "bs_payouts s1" fee net]
  show ?thesis
  proof (cases "db_first E ''AddContributorEarning'' n ce_id
      (\<lambda>e. ce_contributor_id e = c \<and> ce_collection_id e = k \<and> ce_period e = m) (bs_earnings s)")
    case (Inl e)
    obtain r where s': "bs_earnings s' = bs_earnings s @ [r]" and r: "ce_contributor_id r = c" "ce_period r = m"
        "ce_gross r = i64 gross" "ce_fee r = i64 fee" "ce_net r = i64 net" "\<forall>q\<in>set (bs_earnings s). ce_id q \<noteq> ce_id r"
      using add Inl up keep by (auto simp: AddContributorEarning_def Let_def db_insert_Inr split: if_splits sum.splits)
    have "same_sums (bs_earnings s @ [r]) (bs_payouts s1)"
      using ok step r by (intro sums) (auto simp: money_ok_def earned_def i64_added)
    then show ?thesis using ok step r by (auto simp: money_ok_def s' pay)
  next
    case (Inr c0)
    then have c0: "c0 \<in> set (bs_earnings s)" "ce_contributor_id c0 = c" "ce_period c0 = m"
      by (auto dest: db_first_found)
    let ?r = "c0\<lparr>ce_gross := i64 (ce_gross c0 + gross), ce_fee := i64 (ce_fee c0 + fee), ce_net := i64 (ce_net c0 + net)\<rparr>"
    have s': "bs_earnings s' = save_row ce_id ?r (bs_earnings s)"
      using add Inr up keep by (auto simp: AddContributorEarning_def Let_def db_save_Inr split: sum.splits)
    have id: "distinct (map ce_id (bs_earnings s))" using ok by (simp add: money_ok_def)
    have sum: "earned g d n (save_row ce_id ?r (bs_earnings s))
        = earned g d n (bs_earnings s) + (if d = c \<and> n = m then g ?r - g c0 else 0)" for g d n
      unfolding earned_def using c0 by (subst sum_save_row [OF id c0(1)]) auto
    have "same_sums (save_row ce_id ?r (bs_earnings s)) (bs_payouts s1)"
      using ok step by (intro sums) (simp_all add: money_ok_def sum i64_moved)
    moreover have "map ce_id (save_row ce_id ?r (bs_earnings s)) = map ce_id (bs_earnings s)"
      by (rule map_key_save_row [OF c0(1)]) simp
    moreover have "(ce_contributor_id e, ce_period e) \<in> payout_key ` set (bs_payouts s1)"
      if "e \<in> set (save_row ce_id ?r (bs_earnings s))" for e
      using that ok step c0 by (auto simp: money_ok_def save_row_present upd_where_def split: if_splits)
    ultimately show ?thesis using step id by (simp add: money_ok_def s' pay)
  qed
qed

text \<open>The transactions are the negated amounts of the charged usage.\<close>

definition charged :: "kb_usage \<Rightarrow> bool" where
  "charged r \<longleftrightarrow> 0 < ku_amount r \<and> ku_user_id r \<noteq> uuid_nil"

definition ledger_ok :: "billing_state \<Rightarrow> bool" where
  "ledger_ok s \<longleftrightarrow> map (\<lambda>x. (bt_user_id x, bt_amount x)) (bs_txns s)
     = map (\<lambda>r. (ku_user_id r, - ku_amount r)) (filter charged (bs_usage s))"

definition books_ok :: "billing_state \<Rightarrow> bool" where
  "books_ok s \<longleftrightarrow> ledger_ok s \<and> money_ok s"

lemma books_ok_books: "books s' = books s \<Longrightarrow> books_ok s' = books_ok s"
  by (simp add: books_def books_ok_def ledger_ok_def money_ok_def)

lemma AddContributorEarning_ledger:
  "AddContributorEarning E n c k p g f m s = (Inr x, s') \<Longrightarrow> bs_usage s' = bs_usage s \<and> bs_txns s' = bs_txns s"
  by (auto simp: AddContributorEarning_def Let_def dest!: UpsertPayoutPeriod_tables split: sum.splits if_splits)

lemma charge_usage_books:
  assumes "charge_usage E n w r s = ((u, None), s')" "money_ok s" "charged r" "bs_usage s = us @ [r]"
    "map (\<lambda>x. (bt_user_id x, bt_amount x)) (bs_txns s) = map (\<lambda>r. (ku_user_id r, - ku_amount r)) (filter charged us)"
  shows "books_ok s'"
proof -
  obtain a s1 where a: "GetOrCreateAccount E n (ku_user_id r) (ku_currency r) s = (Inr a, s1)"
    using assms(1) by (auto simp: charge_usage_def split: prod.splits sum.splits)
  then have b1: "books s1 = books s" using GetOrCreateAccount_tables(2) [of E n "ku_user_id r" "ku_currency r" s] by simp
  obtain s2 where x: "CreateTransaction E n (usage_txn E n r) s1 = Inr s2"
    using assms(1) a by (auto simp: charge_usage_def Let_def split: sum.splits)
  then have s2: "bs_usage s2 = us @ [r]" "bs_txns s2 = bs_txns s @ [usage_txn E n r]"
      "bs_earnings s2 = bs_earnings s" "bs_payouts s2 = bs_payouts s"
    using b1 assms(4) by (auto simp: CreateTransaction_def books_def db_simps split: sum.splits)
  have l2: "ledger_ok s2" using assms(3,5) s2 by (simp add: ledger_ok_def usage_txn_def)
  have m2: "money_ok s2" using assms(2) s2 by (simp add: money_ok_def)
  show ?thesis
  proof (cases "w = uuid_nil")
    case True
    then have "s' = s2" using assms(1) a x by (simp add: charge_usage_def Let_def)
    with l2 m2 show ?thesis by (simp add: books_ok_def)
  next
    case False
    then obtain c where c: "AddContributorEarning E n w (ku_collection_id r) (year_month (e_now E)) (ku_amount r)
        (tenth (ku_amount r)) (ku_amount r - tenth (ku_amount r)) s2 = (Inr c, s')"
      using assms(1) a x by (auto simp: charge_usage_def Let_def split: sum.splits prod.splits)
    show ?thesis
      using AddContributorEarning_money [OF m2 c] AddContributorEarning_ledger [OF c] l2 by (simp add: books_ok_def ledger_ok_def)
  qed
qed

lemma RecordUsage_books:
  assumes ok: "books_ok s" and run: "RecordUsage E n input s = ((u, e), s')" and whole: "uo_usage u = None \<or> e = None"
  shows "books_ok s'"
proof (cases "s' = s")
  case False
  let ?r = "usage_row E n input"
  obtain s1 where s1: "CreateUsageRecord E n ?r s = Inr s1"
    using run False by (auto simp: RecordUsage_def Let_def split: if_splits sum.splits)
  then have t1: "bs_usage s1 = bs_usage s @ [?r]" "bs_txns s1 = bs_txns s" "bs_earnings s1 = bs_earnings s"
      "bs_payouts s1 = bs_payouts s"
    by (auto simp: CreateUsageRecord_def db_simps split: sum.splits)
  have user: "ku_user_id ?r = ru_user_id input" by (simp add: usage_row_def Let_def)
  have m1: "money_ok s1" using ok t1 by (simp add: books_ok_def money_ok_def)
  show ?thesis
  proof (cases "charged ?r")
    case True
    then have run': "charge_usage E n (ru_owner_id input) ?r s1 = ((u, e), s')"
      using run False s1 user by (auto simp: RecordUsage_def Let_def charged_def split: if_splits)
    then have "uo_usage u \<noteq> None" by (auto simp: charge_usage_def Let_def split: sum.splits prod.splits if_splits)
    with whole have "e = None" by simp
    with charge_usage_books [OF _ m1 True t1(1)] run' ok t1 show ?thesis by (simp add: books_ok_def ledger_ok_def)
  next
    case uncharged: False
    then have "s' = s1" using run False s1 user by (auto simp: RecordUsage_def Let_def charged_def split: if_splits)
    with ok m1 t1 uncharged show ?thesis by (simp add: books_ok_def ledger_ok_def)
  qed
qed (use ok in simp)

lemma owed_upd_where:
  assumes "\<And>p. g (f p) = g p" "\<And>p. po_contributor_id (f p) = po_contributor_id p" "\<And>p. po_period (f p) = po_period p"
  shows "owed g c m (upd_where P f t) = owed g c m t"
  using assms by (induction t) (auto simp: owed_def upd_where_def)

lemma MarkPayoutPaid_books:
  assumes "books_ok s"
  shows "books_ok (snd (MarkPayoutPaid E i s))"
proof (cases "e_db E ''MarkPayoutPeriodPaid'' 0")
  case False
  let ?t = "upd_where (\<lambda>p. po_id p = i) (\<lambda>p. p\<lparr>po_status := ''paid'', po_paid_at := Some (e_now E)\<rparr>) (bs_payouts s)"
  have s': "snd (MarkPayoutPaid E i s) = s\<lparr>bs_payouts := ?t\<rparr>"
    using False by (simp add: MarkPayoutPaid_def MarkPayoutPeriodPaid_def db_update_def)
  have same: "map po_id ?t = map po_id (bs_payouts s)" "map payout_key ?t = map payout_key (bs_payouts s)"
    by (rule map_upd_where; simp add: payout_key_def)+
  have keys: "payout_key ` set ?t = payout_key ` set (bs_payouts s)" using arg_cong [OF same(2), of set] by simp
  have sums: "owed po_gross c m ?t = owed po_gross c m (bs_payouts s)" "owed po_fee c m ?t = owed po_fee c m (bs_payouts s)"
    "owed po_net c m ?t = owed po_net c m (bs_payouts s)" for c m
    by (rule owed_upd_where; simp)+
  have "payouts_ok (bs_payouts s)" using assms by (simp add: books_ok_def money_ok_def)
  moreover from this have "payouts_ok ?t"
    by (rule payouts_okI [OF _ same]) (use calculation in \<open>auto simp: payouts_ok_def upd_where_def split: if_splits\<close>)
  ultimately show ?thesis using assms by (simp add: s' books_ok_def ledger_ok_def money_ok_def keys same_sums_def sums)
qed (use assms in \<open>simp add: MarkPayoutPaid_def MarkPayoutPeriodPaid_def db_update_def\<close>)

lemma RecordUsage_whole: "half_recorded [BUsage E input] s = [] \<Longrightarrow> uo_usage (fst (fst (RecordUsage E 0 input s))) = None
    \<or> snd (fst (RecordUsage E 0 input s)) = None"
  by (auto split: prod.splits option.splits if_splits)

lemma UpsertBillingPlan_books: "books (snd (UpsertBillingPlan E input s)) = books s"
  by (auto simp: UpsertBillingPlan_def NextPlanVersion_def replace_plan_def ArchiveActivePlans_def CreateBillingPlan_def books_def
      split: sum.splits)

lemma bill_serve_books:
  assumes "books_ok s" "half_recorded [q] s = []"
  shows "books_ok (bill_serve q s)"
proof (cases q)
  case (BUsage E input)
  obtain u e s' where run: "RecordUsage E 0 input s = ((u, e), s')" by (metis prod.exhaust)
  have "uo_usage u = None \<or> e = None" using RecordUsage_whole [of E input s] assms(2) BUsage run by simp
  from RecordUsage_books [OF assms(1) run this] BUsage run show ?thesis by simp
qed (use assms in \<open>simp_all add: MarkPayoutPaid_books books_ok_books [OF UpsertBillingPlan_books]
    books_ok_books [OF conjunct2, OF GetAccount_tables] books_ok_books [OF conjunct2, OF other_requests_tables(1)]
    books_ok_books [OF conjunct2, OF other_requests_tables(2)] books_ok_books [OF conjunct2, OF other_requests_tables(3)]
    books_ok_books [OF conjunct2, OF other_requests_tables(4)] books_ok_books [OF conjunct2, OF other_requests_tables(5)]
    books_ok_books [OF conjunct2, OF other_requests_tables(6)]\<close>)

lemma books_run: "books_ok s \<Longrightarrow> half_recorded qs s = [] \<Longrightarrow> books_ok (fold bill_serve qs s)"
proof (induction qs arbitrary: s)
  case (Cons q qs)
  then have "half_recorded [q] s = []" "half_recorded qs (bill_serve q s) = []" by simp_all
  with Cons show ?case by (simp add: bill_serve_books)
qed simp

lemma books_init: "books_ok billing_init"
  by (simp add: books_ok_def ledger_ok_def money_ok_def payouts_ok_def same_sums_def earned_def owed_def billing_init_def)

lemma owed_one:
  assumes "distinct (map payout_key t)" "p \<in> set t"
  shows "owed g (po_contributor_id p) (po_period p) t = g p"
  using assms
proof (induction t)
  case (Cons q t)
  show ?case
  proof (cases "p = q")
    case True
    with Cons.prems have "filter (\<lambda>x. po_contributor_id x = po_contributor_id p \<and> po_period x = po_period p) t = []"
      by (auto simp: filter_empty_conv payout_key_def image_iff)
    with True show ?thesis by (simp add: owed_def)
  next
    case False
    with Cons.prems have "\<not> (po_contributor_id q = po_contributor_id p \<and> po_period q = po_period p)"
      by (auto simp: payout_key_def image_iff)
    with False Cons show ?thesis by (auto simp: owed_def)
  qed
qed simp

subsection \<open>Earnings and usage\<close>

text \<open>The charged usage a request recorded, with the owner it was recorded for.\<close>

definition new_charge :: "bill_req \<Rightarrow> billing_state \<Rightarrow> (uuid \<times> kb_usage) list" where
  "new_charge q s =
     (case q of
        BUsage E input \<Rightarrow>
          (case uo_usage (fst (fst (RecordUsage E 0 input s))) of
             Some r \<Rightarrow> if charged r then [(ru_owner_id input, r)] else [] | None \<Rightarrow> [])
      | _ \<Rightarrow> [])"

fun charges :: "bill_req list \<Rightarrow> billing_state \<Rightarrow> (uuid \<times> kb_usage) list" where
  "charges [] s = []"
| "charges (q # qs) s = new_charge q s @ charges qs (bill_serve q s)"

definition ce_key :: "contributor_earning \<Rightarrow> uuid \<times> uuid \<times> string" where
  "ce_key e = (ce_contributor_id e, ce_collection_id e, ce_period e)"

definition charge_key :: "uuid \<times> kb_usage \<Rightarrow> uuid \<times> uuid \<times> string" where
  "charge_key x = (fst x, ku_collection_id (snd x), year_month (ku_billed_at (snd x)))"

text \<open>The usage that counts for a contributor, a collection and a month.\<close>

definition usage_for :: "uuid \<times> uuid \<times> string \<Rightarrow> (uuid \<times> kb_usage) list \<Rightarrow> kb_usage list" where
  "usage_for k cs = map snd (filter (\<lambda>x. charge_key x = k \<and> fst x \<noteq> uuid_nil) cs)"

definition earns :: "kb_usage list \<Rightarrow> contributor_earning \<Rightarrow> bool" where
  "earns us e \<longleftrightarrow> ce_gross e = i64 (sum_list (map ku_amount us)) \<and> ce_fee e = i64 (sum_list (map (\<lambda>r. ku_amount r div 10) us))
     \<and> ce_net e = i64 (sum_list (map (\<lambda>r. ku_amount r - ku_amount r div 10) us))"

definition earnings_ok :: "(uuid \<times> kb_usage) list \<Rightarrow> contributor_earning list \<Rightarrow> bool" where
  "earnings_ok cs es \<longleftrightarrow> distinct (map ce_key es) \<and> ce_key ` set es = charge_key ` {x \<in> set cs. fst x \<noteq> uuid_nil}
     \<and> (\<forall>e\<in>set es. earns (usage_for (ce_key e) cs) e)"

lemma usage_for_snoc: "usage_for k (cs @ [x]) = usage_for k cs @ (if charge_key x = k \<and> fst x \<noteq> uuid_nil then [snd x] else [])"
  by (simp add: usage_for_def)

lemma usage_for_none: "k \<notin> charge_key ` {x \<in> set cs. fst x \<noteq> uuid_nil} \<Longrightarrow> usage_for k cs = []"
  by (auto simp: usage_for_def filter_empty_conv)

lemma i64_after: "i64 (i64 x + y) = i64 (x + y)"
  using i64_added [of y x] by (simp only: add.commute)

lemma earns_snoc:
  assumes "earns us e" "e' = e\<lparr>ce_gross := i64 (ce_gross e + ku_amount r), ce_fee := i64 (ce_fee e + ku_amount r div 10),
    ce_net := i64 (ce_net e + (ku_amount r - ku_amount r div 10))\<rparr>"
  shows "earns (us @ [r]) e'"
  using assms(1) by (simp add: assms(2) earns_def i64_after)

lemma AddContributorEarning_earnings:
  assumes ok: "earnings_ok cs (bs_earnings s)" and id: "distinct (map ce_id (bs_earnings s))"
    and k: "charge_key (w, r) = (w, k, m)" "w \<noteq> uuid_nil"
    and add: "AddContributorEarning E n w k m (ku_amount r) (ku_amount r div 10) (ku_amount r - ku_amount r div 10) s = (Inr x, s')"
  shows "earnings_ok (cs @ [(w, r)]) (bs_earnings s')"
proof (cases "db_first E ''AddContributorEarning'' n ce_id
      (\<lambda>e. ce_contributor_id e = w \<and> ce_collection_id e = k \<and> ce_period e = m) (bs_earnings s)")
  case (Inl e)
  obtain c where s': "bs_earnings s' = bs_earnings s @ [c]" and c: "ce_key c = (w, k, m)"
      "ce_gross c = i64 (ku_amount r)" "ce_fee c = i64 (ku_amount r div 10)" "ce_net c = i64 (ku_amount r - ku_amount r div 10)"
    using add Inl by (auto simp: AddContributorEarning_def Let_def db_insert_Inr ce_key_def dest!: UpsertPayoutPeriod_tables
        split: if_splits sum.splits)
  have "e = ErrRecordNotFound" using add Inl by (auto simp: AddContributorEarning_def split: if_splits)
  with Inl have new: "(w, k, m) \<notin> ce_key ` set (bs_earnings s)" by (auto simp: db_first_Inl ce_key_def split: if_splits)
  then have none: "usage_for (w, k, m) cs = []" using ok by (intro usage_for_none) (simp add: earnings_ok_def)
  have "earns (usage_for (ce_key c) (cs @ [(w, r)])) c" using c k none by (simp add: usage_for_snoc earns_def)
  moreover have "earns (usage_for (ce_key e) (cs @ [(w, r)])) e" if "e \<in> set (bs_earnings s)" for e
    using that ok new k by (auto simp: usage_for_snoc earnings_ok_def)
  moreover have "ce_key ` set (bs_earnings s @ [c]) = charge_key ` {x \<in> set (cs @ [(w, r)]). fst x \<noteq> uuid_nil}"
  proof -
    have "{x \<in> set (cs @ [(w, r)]). fst x \<noteq> uuid_nil} = insert (w, r) {x \<in> set cs. fst x \<noteq> uuid_nil}" using k by auto
    then show ?thesis using ok c k by (simp add: earnings_ok_def)
  qed
  ultimately show ?thesis using ok new c by (auto simp: earnings_ok_def s')
next
  case (Inr c0)
  then have c0: "c0 \<in> set (bs_earnings s)" "ce_key c0 = (w, k, m)" by (auto simp: ce_key_def dest: db_first_found)
  let ?c = "c0\<lparr>ce_gross := i64 (ce_gross c0 + ku_amount r), ce_fee := i64 (ce_fee c0 + ku_amount r div 10),
    ce_net := i64 (ce_net c0 + (ku_amount r - ku_amount r div 10))\<rparr>"
  have s': "bs_earnings s' = save_row ce_id ?c (bs_earnings s)"
    using add Inr by (auto simp: AddContributorEarning_def Let_def db_save_Inr dest!: UpsertPayoutPeriod_tables split: sum.splits)
  have keys: "map ce_key (bs_earnings s') = map ce_key (bs_earnings s)"
    unfolding s' using id c0(1) by (rule map_save_row) (simp_all add: ce_key_def)
  have "earns (usage_for (ce_key c0) cs) c0" using ok c0(1) unfolding earnings_ok_def by blast
  then have e: "earns (usage_for (ce_key c0) (cs @ [(w, r)])) ?c"
    using k c0(2) earns_snoc [OF _ refl] by (simp add: usage_for_snoc)
  have old: "earns (usage_for (ce_key y) (cs @ [(w, r)])) y" if y: "y \<in> set (bs_earnings s)" "ce_id y \<noteq> ce_id c0" for y
  proof -
    have "ce_key y \<noteq> (w, k, m)"
    proof
      assume "ce_key y = (w, k, m)"
      then have "y = c0" using ok y(1) c0 by (intro distinct_map_same [of ce_key "bs_earnings s"]) (simp_all add: earnings_ok_def)
      with y(2) show False by simp
    qed
    with y ok k show ?thesis by (simp add: usage_for_snoc earnings_ok_def)
  qed
  have "earns (usage_for (ce_key y) (cs @ [(w, r)])) y" if "y \<in> set (bs_earnings s')" for y
  proof -
    have "y = ?c \<or> y \<in> set (bs_earnings s) \<and> ce_id y \<noteq> ce_id c0"
      using that c0(1) unfolding s' by (auto simp: save_row_def upd_where_def split: if_splits)
    then show ?thesis
    proof
      assume y: "y = ?c"
      have "ce_key ?c = ce_key c0" by (simp add: ce_key_def)
      with e show ?thesis unfolding y by simp
    qed (use old in blast)
  qed
  then have sums: "\<forall>y\<in>set (bs_earnings s'). earns (usage_for (ce_key y) (cs @ [(w, r)])) y" by blast
  have "{x \<in> set (cs @ [(w, r)]). fst x \<noteq> uuid_nil} = insert (w, r) {x \<in> set cs. fst x \<noteq> uuid_nil}" using k(2) by auto
  then have "charge_key ` {x \<in> set (cs @ [(w, r)]). fst x \<noteq> uuid_nil} =
      insert (w, k, m) (charge_key ` {x \<in> set cs. fst x \<noteq> uuid_nil})" by (simp only: image_insert k(1))
  also have "\<dots> = insert (w, k, m) (ce_key ` set (bs_earnings s))" using ok by (simp only: earnings_ok_def)
  also have "\<dots> = ce_key ` set (bs_earnings s)" using c0 by (intro insert_absorb) (metis image_eqI)
  also have "\<dots> = ce_key ` set (bs_earnings s')" using keys by (metis list.set_map)
  finally have all: "ce_key ` set (bs_earnings s') = charge_key ` {x \<in> set (cs @ [(w, r)]). fst x \<noteq> uuid_nil}" by (rule sym)
  have "distinct (map ce_key (bs_earnings s'))" using ok by (simp only: keys earnings_ok_def)
  with sums all show ?thesis unfolding earnings_ok_def by (intro conjI)
qed

definition accounts_ok :: "(uuid \<times> kb_usage) list \<Rightarrow> billing_state \<Rightarrow> bool" where
  "accounts_ok cs s \<longleftrightarrow> map snd cs = filter charged (bs_usage s) \<and> earnings_ok cs (bs_earnings s)"

lemma charge_usage_usage: "uo_usage (fst (fst (charge_usage E n w r s))) = Some r"
  by (auto simp: charge_usage_def Let_def split: sum.splits prod.splits)

lemma charge_usage_accounts:
  assumes "charge_usage E n w r s = ((u, None), s')" "distinct (map ce_id (bs_earnings s))" "charged r" "ku_billed_at r = e_now E"
    "bs_usage s = us @ [r]" "map snd cs = filter charged us" "earnings_ok cs (bs_earnings s)"
  shows "accounts_ok (cs @ [(w, r)]) s'"
proof -
  obtain a s1 where a: "GetOrCreateAccount E n (ku_user_id r) (ku_currency r) s = (Inr a, s1)"
    using assms(1) by (auto simp: charge_usage_def split: prod.splits sum.splits)
  then have b1: "books s1 = books s" using GetOrCreateAccount_tables(2) [of E n "ku_user_id r" "ku_currency r" s] by simp
  obtain s2 where x: "CreateTransaction E n (usage_txn E n r) s1 = Inr s2"
    using assms(1) a by (auto simp: charge_usage_def Let_def split: sum.splits)
  then have s2: "bs_usage s2 = us @ [r]" "bs_earnings s2 = bs_earnings s"
    using b1 assms(5) by (auto simp: CreateTransaction_def books_def db_simps split: sum.splits)
  show ?thesis
  proof (cases "w = uuid_nil")
    case True
    then have "s' = s2" using assms(1) a x by (simp add: charge_usage_def Let_def)
    moreover have "earnings_ok (cs @ [(w, r)]) (bs_earnings s)"
      using assms(7) True by (simp add: earnings_ok_def usage_for_def conj_disj_distribR cong: conj_cong)
    ultimately show ?thesis using s2 assms(3,6) by (simp add: accounts_ok_def)
  next
    case False
    have t: "tenth (ku_amount r) = ku_amount r div 10" using assms(3) by (simp add: tenth_def charged_def)
    obtain c where c: "AddContributorEarning E n w (ku_collection_id r) (year_month (e_now E)) (ku_amount r)
        (ku_amount r div 10) (ku_amount r - ku_amount r div 10) s2 = (Inr c, s')"
      using assms(1) a x False by (auto simp: charge_usage_def Let_def t split: sum.splits prod.splits)
    have "earnings_ok (cs @ [(w, r)]) (bs_earnings s')"
      using assms(2,4,7) s2 False by (intro AddContributorEarning_earnings [OF _ _ _ _ c]) (simp_all add: charge_key_def)
    then show ?thesis using AddContributorEarning_ledger [OF c] s2 assms(3,6) by (simp add: accounts_ok_def)
  qed
qed

lemma RecordUsage_accounts:
  assumes ok: "accounts_ok cs s" "distinct (map ce_id (bs_earnings s))" and whole: "half_recorded [BUsage E input] s = []"
  shows "accounts_ok (cs @ new_charge (BUsage E input) s) (bill_serve (BUsage E input) s)"
proof -
  let ?r = "usage_row E 0 input"
  obtain u e s' where run: "RecordUsage E 0 input s = ((u, e), s')" by (metis prod.exhaust)
  show ?thesis
  proof (cases "\<exists>s1. CreateUsageRecord E 0 ?r s = Inr s1 \<and> \<not> (ru_collection_id input = uuid_nil \<or> ru_snapshot_id input = uuid_nil)
      \<and> trim (ru_operation_type input) \<noteq> '''' \<and> \<not> ru_tokens_used input < 0")
    case False
    then have "uo_usage u = None \<and> s' = s" using run by (auto simp: RecordUsage_def Let_def split: if_splits sum.splits)
    with ok run show ?thesis by (simp add: new_charge_def)
  next
    case True
    then obtain s1 where s1: "CreateUsageRecord E 0 ?r s = Inr s1" and run': "RecordUsage E 0 input s =
        (if 0 < ku_amount ?r \<and> ru_user_id input \<noteq> uuid_nil then charge_usage E 0 (ru_owner_id input) ?r s1
         else ((\<lparr>uo_usage = Some ?r, uo_txn = None, uo_earning = None\<rparr>, None), s1))"
      by (auto simp: RecordUsage_def Let_def)
    from s1 have t1: "bs_usage s1 = bs_usage s @ [?r]" "bs_earnings s1 = bs_earnings s"
      by (auto simp: CreateUsageRecord_def db_simps split: sum.splits)
    have user: "ku_user_id ?r = ru_user_id input" "ku_billed_at ?r = e_now E" by (simp_all add: usage_row_def Let_def)
    show ?thesis
    proof (cases "charged ?r")
      case charged: True
      then have c: "charge_usage E 0 (ru_owner_id input) ?r s1 = ((u, e), s')"
        using run run' user by (simp add: charged_def)
      then have u: "uo_usage u = Some ?r" using charge_usage_usage [of E 0 "ru_owner_id input" ?r s1] by simp
      with RecordUsage_whole [OF whole] run have "e = None" by simp
      with c have c': "charge_usage E 0 (ru_owner_id input) ?r s1 = ((u, None), s')" by simp
      have "accounts_ok (cs @ [(ru_owner_id input, ?r)]) s'"
        by (rule charge_usage_accounts [OF c' _ charged user(2) t1(1)]) (use ok t1(2) in \<open>simp_all add: accounts_ok_def\<close>)
      with u charged run show ?thesis by (simp add: new_charge_def)
    next
      case uncharged: False
      then have "s' = s1" "uo_usage u = Some ?r" using run run' user by (auto simp: charged_def split: if_splits)
      with ok t1 uncharged run show ?thesis by (simp add: new_charge_def accounts_ok_def)
    qed
  qed
qed

lemma books_usage: "books s' = books s \<Longrightarrow> bs_usage s' = bs_usage s \<and> bs_earnings s' = bs_earnings s"
  by (simp add: books_def)

lemma MarkPayoutPaid_usage:
  "bs_usage (snd (MarkPayoutPaid E i s)) = bs_usage s \<and> bs_earnings (snd (MarkPayoutPaid E i s)) = bs_earnings s"
  by (simp add: MarkPayoutPaid_def MarkPayoutPeriodPaid_def split: sum.split)

lemma bill_serve_accounts:
  assumes "accounts_ok cs s" "distinct (map ce_id (bs_earnings s))" "half_recorded [q] s = []"
  shows "accounts_ok (cs @ new_charge q s) (bill_serve q s)"
proof (cases q)
  case (BUsage E input)
  with RecordUsage_accounts [OF assms(1,2)] assms(3) show ?thesis by simp
qed (use assms(1) in \<open>simp_all add: new_charge_def accounts_ok_def MarkPayoutPaid_usage books_usage [OF UpsertBillingPlan_books]
    books_usage [OF conjunct2, OF GetAccount_tables] books_usage [OF conjunct2, OF other_requests_tables(1)]
    books_usage [OF conjunct2, OF other_requests_tables(2)] books_usage [OF conjunct2, OF other_requests_tables(3)]
    books_usage [OF conjunct2, OF other_requests_tables(4)] books_usage [OF conjunct2, OF other_requests_tables(5)]
    books_usage [OF conjunct2, OF other_requests_tables(6)]\<close>)

lemma accounts_run:
  "books_ok s \<Longrightarrow> accounts_ok cs s \<Longrightarrow> half_recorded qs s = [] \<Longrightarrow> accounts_ok (cs @ charges qs s) (fold bill_serve qs s)"
proof (induction qs arbitrary: cs s)
  case (Cons q qs)
  then have h: "half_recorded [q] s = []" "half_recorded qs (bill_serve q s) = []" by simp_all
  have "distinct (map ce_id (bs_earnings s))" using Cons.prems(1) by (simp add: books_ok_def money_ok_def)
  from Cons.IH [OF bill_serve_books [OF Cons.prems(1) h(1)] bill_serve_accounts [OF Cons.prems(2) this h(1)] h(2)]
  show ?case by simp
qed simp

text \<open>
  C13: The books balance: after any sequence of billing requests in which no recording of usage failed half way, the
  transactions are, in order, the negated amounts of the charged usage records, user by user. A contributor has exactly
  one earning for a collection and a month in which usage of it was charged, and it is the sum of those charges, with a
  tenth of each of them, rounded down, as the fee and the rest as the net amount (all in 64 bits). And a contributor has
  one payout row for a month in which they earned something, whose amounts are the sums of their earnings of the month.
\<close>

theorem books_balance:
  assumes "half_recorded qs billing_init = []"
  shows "let s = fold bill_serve qs billing_init; cs = charges qs billing_init in
     map snd cs = filter charged (bs_usage s)
     \<and> map (\<lambda>x. (bt_user_id x, bt_amount x)) (bs_txns s) = map (\<lambda>(_, r). (ku_user_id r, - ku_amount r)) cs
     \<and> distinct (map ce_key (bs_earnings s)) \<and> ce_key ` set (bs_earnings s) = charge_key ` {x \<in> set cs. fst x \<noteq> uuid_nil}
     \<and> list_all (\<lambda>e. earns (usage_for (ce_key e) cs) e) (bs_earnings s)
     \<and> distinct (map payout_key (bs_payouts s))
     \<and> list_all (\<lambda>e. (ce_contributor_id e, ce_period e) \<in> payout_key ` set (bs_payouts s)) (bs_earnings s)
     \<and> list_all (\<lambda>p. po_gross p = i64 (earned ce_gross (po_contributor_id p) (po_period p) (bs_earnings s))
         \<and> po_fee p = i64 (earned ce_fee (po_contributor_id p) (po_period p) (bs_earnings s))
         \<and> po_net p = i64 (earned ce_net (po_contributor_id p) (po_period p) (bs_earnings s))) (bs_payouts s)"
proof -
  define s where "s = fold bill_serve qs billing_init"
  define cs where "cs = charges qs billing_init"
  have ok: "books_ok s" using books_run [OF books_init assms] by (simp add: s_def)
  have "accounts_ok [] billing_init" by (simp add: accounts_ok_def earnings_ok_def billing_init_def)
  from accounts_run [OF books_init this assms] have acc: "accounts_ok cs s" by (simp add: s_def cs_def)
  from ok have p: "payouts_ok (bs_payouts s)" and eq: "same_sums (bs_earnings s) (bs_payouts s)" by (simp_all add: books_ok_def money_ok_def)
  have "po_gross q = i64 (earned ce_gross (po_contributor_id q) (po_period q) (bs_earnings s))
      \<and> po_fee q = i64 (earned ce_fee (po_contributor_id q) (po_period q) (bs_earnings s))
      \<and> po_net q = i64 (earned ce_net (po_contributor_id q) (po_period q) (bs_earnings s))" if "q \<in> set (bs_payouts s)" for q
    using p eq that by (simp add: same_sums_def payouts_ok_def owed_one)
  moreover have "map (\<lambda>x. (bt_user_id x, bt_amount x)) (bs_txns s) = map (\<lambda>(_, r). (ku_user_id r, - ku_amount r)) cs"
  proof -
    have "map (\<lambda>x. (bt_user_id x, bt_amount x)) (bs_txns s) = map (\<lambda>r. (ku_user_id r, - ku_amount r)) (map snd cs)"
      using ok acc by (simp only: books_ok_def ledger_ok_def accounts_ok_def)
    then show ?thesis by (simp add: comp_def case_prod_unfold)
  qed
  ultimately show ?thesis
    using ok p acc by (simp add: s_def [symmetric] cs_def [symmetric] Let_def list_all_iff books_ok_def money_ok_def payouts_ok_def
        accounts_ok_def earnings_ok_def)
qed

section \<open>Runs\<close>

definition demo_usage :: "uuid \<Rightarrow> int \<Rightarrow> record_usage_input" where
  "demo_usage collection tokens = \<lparr>ru_user_id = 5, ru_owner_id = 9, ru_collection_id = collection, ru_snapshot_id = 31,
     ru_snapshot_entry_id = None, ru_operation_type = ''get_content'', ru_tokens_used = tokens, ru_is_free = False,
     ru_unit_price = 2, ru_currency = ''''\<rparr>"

definition demo_books :: "bill_req list" where
  "demo_books = [BUsage (env_at 1) (demo_usage 21 30), BUsage (env_at 2) (demo_usage 22 15), BUsage (env_at 3) (demo_usage 21 5)]"

theorem books_balance_witness:
  "map (\<lambda>e. (ce_gross e, ce_fee e)) (bs_earnings (fold bill_serve demo_books billing_init)) = [(70, 7), (30, 3)]
   \<and> (\<exists>p. bs_payouts (fold bill_serve demo_books billing_init) = [p] \<and> po_gross p = 100 \<and> po_fee p = 10
     \<and> po_gross p = i64 (earned ce_gross (po_contributor_id p) (po_period p) (bs_earnings (fold bill_serve demo_books billing_init))))"
proof -
  have e: "half_recorded demo_books billing_init = []" by code_simp
  have f: "map (\<lambda>p. (po_gross p, po_fee p)) (bs_payouts (fold bill_serve demo_books billing_init)) = [(100, 10)]"
    and g: "map (\<lambda>e. (ce_gross e, ce_fee e)) (bs_earnings (fold bill_serve demo_books billing_init)) = [(70, 7), (30, 3)]" by code_simp+
  from f obtain p where p: "bs_payouts (fold bill_serve demo_books billing_init) = [p]" "po_gross p = 100" "po_fee p = 10" by auto
  with books_balance [OF e] g show ?thesis by (simp add: Let_def)
qed

definition demo_item :: "int \<Rightarrow> int \<Rightarrow> invoice_item_input" where
  "demo_item quantity amount = \<lparr>jn_usage_record_id = None, jn_description = ''month'', jn_quantity = quantity, jn_unit_price = 12,
     jn_amount = amount, jn_metadata = None\<rparr>"

definition demo_invoice :: "invoice_item_input list \<Rightarrow> invoice_input" where
  "demo_invoice is = \<lparr>vi_user_id = 5, vi_collection_id = None, vi_subscription_id = None, vi_currency = '''',
     vi_period_start = None, vi_period_end = None, vi_items = is, vi_metadata = None\<rparr>"

theorem invoice_adds_up_witness:
  "\<exists>v rows. fst (CreateInvoice (env_at 1) (demo_invoice [demo_item 3 0, demo_item 0 59]) billing_init) = Inr (v, rows)
     \<and> bi_total v = 95 \<and> bi_platform_fee v = 9 \<and> bi_total v = sum_list (map bl_amount rows)"
proof -
  let ?r = "CreateInvoice (env_at 1) (demo_invoice [demo_item 3 0, demo_item 0 59]) billing_init"
  have "(case fst ?r of Inr (v, rows) \<Rightarrow> bi_total v = 95 \<and> bi_platform_fee v = 9 | Inl e \<Rightarrow> False)" by code_simp
  then obtain v rows where r: "fst ?r = Inr (v, rows)" "bi_total v = 95" "bi_platform_fee v = 9"
    by (auto split: sum.splits prod.splits)
  have amounts: "sum_list (map item_amount (vi_items (demo_invoice [demo_item 3 0, demo_item 0 59]))) < 2 ^ 63" by code_simp
  have "?r = (Inr (v, rows), snd ?r)" using r(1) by (simp add: prod_eq_iff)
  from invoice_adds_up [OF this amounts] r show ?thesis by simp
qed

text \<open>
  A recording that fails half way: the payout row is written and the earning is not, so the contributor is owed
  what no earning accounts for.
\<close>

definition earnings_down :: "nat \<Rightarrow> env" where
  "earnings_down k = (env_at k)\<lparr>e_db := \<lambda>op n. op = ''CreateEarning''\<rparr>"

theorem half_recorded_usage_is_owed:
  "let s = bill_serve (BUsage (earnings_down 1) (demo_usage 21 30)) billing_init
   in half_recorded [BUsage (earnings_down 1) (demo_usage 21 30)] billing_init = [ErrDB ''CreateEarning'']
      \<and> map po_gross (bs_payouts s) = [60] \<and> bs_earnings s = []"
  by code_simp

text \<open>
  Each refund is checked against the total of the invoice alone, and not against the refunds already asked for, nor
  is the invoice's status: two refunds of the whole amount of an unpaid invoice are accepted and processed.
\<close>

definition demo_refunds :: "bill_req list" where
  "demo_refunds =
     (let v = e_uuid (env_at 1) ''kb_invoices'' 0 in
      [BInvoice (env_at 1) (demo_invoice [demo_item 1 100]), BRefund (env_at 2) 5 v 100 ''late'', BRefund (env_at 3) 5 v 100 ''late'',
       BResolveRefund (env_at 4) 1 (e_uuid (env_at 2) ''kb_refunds'' 0) ''processed'',
       BResolveRefund (env_at 5) 1 (e_uuid (env_at 3) ''kb_refunds'' 0) ''processed''])"

theorem refunds_exceed_the_invoice:
  "let s = fold bill_serve demo_refunds billing_init
   in map (\<lambda>v. (bi_total v, bi_status v)) (bs_invoices s) = [(100, ''issued'')]
      \<and> map (\<lambda>r. (br_amount r, br_status r)) (bs_refunds s) = [(100, ''processed''), (100, ''processed'')]"
  by code_simp

text \<open>Usage of the month after the payout was marked paid is added to the row that is already paid.\<close>

theorem paid_payouts_still_grow:
  "let s = bill_serve (BUsage (env_at 1) (demo_usage 21 30)) billing_init;
       s' = bill_serve (BPayout (env_at 2) (e_uuid (env_at 1) ''contributor_payout_periods'' 0)) s;
       s'' = bill_serve (BUsage (env_at 3) (demo_usage 21 30)) s'
   in map (\<lambda>p. (po_gross p, po_status p)) (bs_payouts s') = [(60, ''paid'')]
      \<and> map (\<lambda>p. (po_gross p, po_status p)) (bs_payouts s'') = [(120, ''paid'')]"
  by code_simp

text \<open>Item amounts are checked to be non-negative one by one, their sum is not: the total of an invoice can be negative.\<close>

theorem invoice_total_wraps:
  "map bi_total (bs_invoices (bill_serve (BInvoice (env_at 1) (demo_invoice [demo_item 1 (2 ^ 62), demo_item 1 (2 ^ 62)])) billing_init))
     = [- (2 ^ 63)]"
  by code_simp

end
