(* ===== verification/EmbeddingJobs.thy ===== *)
theory EmbeddingJobs
  imports Objects
begin

text \<open>
  Search documents, their embeddings and the queue of embedding jobs (\<open>internal/repository/kb_embedding_repo.go\<close>,
  the writing half of \<open>internal/repository/kb_search_repo.go\<close> and the worker of
  \<open>internal/service/kb_embedding_worker.go\<close>). The embedding provider is an interface of the source; a vector
  is the list of the shortest decimal texts of its components.
\<close>

section \<open>Tables\<close>

record search_doc =
  sd_id :: uuid
  sd_collection_id :: uuid
  sd_snapshot_id :: uuid
  sd_snapshot_entry_id :: uuid
  sd_entry_id :: string
  sd_title :: string
  sd_summary :: string
  sd_tags :: "string list"
  sd_metadata :: json_map
  sd_content_text :: string
  sd_content_hash :: string
  sd_tokens :: int
  sd_status :: string
  sd_indexed_at :: time

record embedding_job =
  ej_id :: uuid
  ej_created_at :: time
  ej_updated_at :: time
  ej_document_id :: uuid
  ej_collection_id :: uuid
  ej_snapshot_id :: uuid
  ej_snapshot_entry_id :: uuid
  ej_provider :: string
  ej_model :: string
  ej_dimensions :: int
  ej_content_hash :: string
  ej_status :: string
  ej_priority :: int
  ej_attempts :: int
  ej_max_attempts :: int
  ej_available_at :: time
  ej_locked_at :: "time option"
  ej_locked_by :: string
  ej_last_error :: string
  ej_completed_at :: "time option"
  ej_failed_at :: "time option"

record search_embedding =
  se_id :: uuid
  se_updated_at :: time
  se_document_id :: uuid
  se_collection_id :: uuid
  se_snapshot_id :: uuid
  se_snapshot_entry_id :: uuid
  se_provider :: string
  se_model :: string
  se_dimensions :: int
  se_content_hash :: string
  se_embedding :: string

record index_state =
  ix_docs :: "search_doc list"
  ix_jobs :: "embedding_job list"
  ix_embeddings :: "search_embedding list"

definition index_init :: index_state where
  "index_init = \<lparr>ix_docs = [], ix_jobs = [], ix_embeddings = []\<rparr>"

text \<open>The unique index of both tables: document, provider, model and content hash.\<close>

definition job_key :: "embedding_job \<Rightarrow> uuid \<times> string \<times> string \<times> string" where
  "job_key j = (ej_document_id j, ej_provider j, ej_model j, ej_content_hash j)"

definition embedding_key :: "search_embedding \<Rightarrow> uuid \<times> string \<times> string \<times> string" where
  "embedding_key x = (se_document_id x, se_provider x, se_model x, se_content_hash x)"

section \<open>The queue\<close>

text \<open>A batch inserted row by row; \<open>ON CONFLICT DO NOTHING\<close> leaves out the rows that clash.\<close>

fun insert_all :: "env \<Rightarrow> string \<Rightarrow> ('r \<Rightarrow> 'r \<Rightarrow> bool) \<Rightarrow> 'r list \<Rightarrow> 'r list \<Rightarrow> 'r list result" where
  "insert_all E op clash [] t = Inr t"
| "insert_all E op clash (r # rs) t =
     (case db_insert E op 0 clash r t of Inl e \<Rightarrow> Inl e | Inr t' \<Rightarrow> insert_all E op clash rs t')"

fun insert_new :: "('r \<Rightarrow> 'r \<Rightarrow> bool) \<Rightarrow> 'r list \<Rightarrow> 'r list \<Rightarrow> 'r list" where
  "insert_new clash [] t = t"
| "insert_new clash (r # rs) t = insert_new clash rs (if list_ex (clash r) t then t else t @ [r])"

record enqueue_input =
  nq_provider :: string
  nq_model :: string
  nq_dimensions :: int
  nq_priority :: int
  nq_max_attempts :: int
  nq_documents :: "search_doc list"

definition new_job :: "env \<Rightarrow> enqueue_input \<Rightarrow> nat \<Rightarrow> search_doc \<Rightarrow> embedding_job" where
  "new_job E input k d =
     \<lparr>ej_id = e_uuid E ''kb_embedding_jobs'' k, ej_created_at = e_now E, ej_updated_at = e_now E, ej_document_id = sd_id d,
      ej_collection_id = sd_collection_id d, ej_snapshot_id = sd_snapshot_id d, ej_snapshot_entry_id = sd_snapshot_entry_id d,
      ej_provider = nq_provider input, ej_model = nq_model input,
      ej_dimensions = (if nq_dimensions input \<le> 0 then 1024 else nq_dimensions input), ej_content_hash = sd_content_hash d,
      ej_status = ''pending'', ej_priority = (if nq_priority input \<le> 0 then 100 else nq_priority input), ej_attempts = 0,
      ej_max_attempts = (if nq_max_attempts input \<le> 0 then 5 else nq_max_attempts input), ej_available_at = e_now E,
      ej_locked_at = None, ej_locked_by = '''', ej_last_error = '''', ej_completed_at = None, ej_failed_at = None\<rparr>"

definition new_jobs :: "env \<Rightarrow> enqueue_input \<Rightarrow> embedding_job list" where
  "new_jobs E input =
     map (\<lambda>(k, d). new_job E input k d)
       (enumerate 0 (filter (\<lambda>d. sd_id d \<noteq> uuid_nil \<and> sd_content_hash d \<noteq> '''') (nq_documents input)))"

definition EnqueueJobsTx :: "env \<Rightarrow> enqueue_input \<Rightarrow> index_state \<Rightarrow> index_state result" where
  "EnqueueJobsTx E input s =
     (if nq_documents input = [] \<or> nq_provider input = '''' \<or> nq_model input = '''' then Inr s
      else let jobs = new_jobs E input in
        if jobs = [] then Inr s
        else if e_db E ''EnqueueJobs'' 0 then Inl (ErrDB ''EnqueueJobs'')
        else Inr (s\<lparr>ix_jobs := insert_new (\<lambda>j x. ej_id x = ej_id j \<or> job_key x = job_key j) jobs (ix_jobs s)\<rparr>))"

definition claimable :: "time \<Rightarrow> embedding_job \<Rightarrow> bool" where
  "claimable now j \<longleftrightarrow> (ej_status j = ''pending'' \<or> ej_status j = ''retrying'') \<and> ej_available_at j \<le> now"

definition queue_order :: "embedding_job list \<Rightarrow> embedding_job list" where
  "queue_order js = sort_key ej_priority (sort_key ej_created_at js)"

text \<open>The candidates are locked, marked and read back in one transaction.\<close>

definition ClaimJobs :: "env \<Rightarrow> string \<Rightarrow> int \<Rightarrow> index_state \<Rightarrow> embedding_job list result \<times> index_state" where
  "ClaimJobs E worker limit s =
     (let n = nat (if limit \<le> 0 \<or> 100 < limit then 8 else limit);
          worker' = (if worker = '''' then ''embedding-worker'' else worker) in
      case db_find E ''FindCandidates'' 0 (claimable (e_now E)) (ix_jobs s) of
        Inl e \<Rightarrow> (Inl e, s)
      | Inr found \<Rightarrow>
          let ids = map ej_id (take n (queue_order found)) in
          if ids = [] then (Inr [], s)
          else case db_update E ''ClaimJobs'' 0 (\<lambda>j. ej_id j \<in> set ids)
                      (\<lambda>j. j\<lparr>ej_status := ''processing'', ej_locked_at := Some (e_now E), ej_locked_by := worker',
                             ej_attempts := ej_attempts j + 1, ej_updated_at := e_now E\<rparr>) (ix_jobs s) of
                 Inl e \<Rightarrow> (Inl e, s)
               | Inr t \<Rightarrow>
                   (case db_find E ''FindClaimed'' 0 (\<lambda>j. ej_id j \<in> set ids) t of
                      Inl e \<Rightarrow> (Inl e, s)
                    | Inr jobs \<Rightarrow> (Inr (queue_order jobs), s\<lparr>ix_jobs := t\<rparr>)))"

definition FormatVector :: "string list \<Rightarrow> string" where
  "FormatVector v = ''['' @ join '','' v @ '']''"

definition embedding_of :: "env \<Rightarrow> nat \<Rightarrow> embedding_job \<Rightarrow> string list \<Rightarrow> search_embedding" where
  "embedding_of E n job v =
     \<lparr>se_id = e_uuid E ''kb_search_embeddings'' n, se_updated_at = e_now E, se_document_id = ej_document_id job,
      se_collection_id = ej_collection_id job, se_snapshot_id = ej_snapshot_id job, se_snapshot_entry_id = ej_snapshot_entry_id job,
      se_provider = ej_provider job, se_model = ej_model job, se_dimensions = ej_dimensions job,
      se_content_hash = ej_content_hash job, se_embedding = FormatVector v\<rparr>"

text \<open>An embedding is inserted, or its vector takes the place of the one with the same key.\<close>

definition save_embedding :: "env \<Rightarrow> nat \<Rightarrow> search_embedding \<Rightarrow> search_embedding list \<Rightarrow> search_embedding list result" where
  "save_embedding E n x t =
     (if list_ex (\<lambda>y. embedding_key y = embedding_key x) t
      then db_update E ''SaveEmbedding'' n (\<lambda>y. embedding_key y = embedding_key x)
             (\<lambda>y. y\<lparr>se_embedding := se_embedding x, se_updated_at := e_now E\<rparr>) t
      else db_insert E ''SaveEmbedding'' n (\<lambda>x y. se_id y = se_id x) x t)"

text \<open>The embedding is saved and the job is ready, in one transaction.\<close>

definition CompleteJob :: "env \<Rightarrow> nat \<Rightarrow> embedding_job \<Rightarrow> string list \<Rightarrow> index_state \<Rightarrow> index_state result" where
  "CompleteJob E n job v s =
     (case save_embedding E n (embedding_of E n job v) (ix_embeddings s) of
        Inl e \<Rightarrow> Inl e
      | Inr t \<Rightarrow>
          (case db_update E ''CompleteJob'' n (\<lambda>j. ej_id j = ej_id job)
                  (\<lambda>j. j\<lparr>ej_status := ''ready'', ej_locked_at := None, ej_locked_by := '''', ej_last_error := '''',
                         ej_completed_at := Some (e_now E), ej_updated_at := e_now E\<rparr>) (ix_jobs s) of
             Inl e \<Rightarrow> Inl e | Inr t' \<Rightarrow> Inr (s\<lparr>ix_embeddings := t, ix_jobs := t'\<rparr>)))"

text \<open>The row is found by the job's identifier alone; the attempts are those of the job the worker holds.\<close>

definition FailJob :: "env \<Rightarrow> nat \<Rightarrow> embedding_job \<Rightarrow> error \<Rightarrow> int \<Rightarrow> index_state \<Rightarrow> index_state result" where
  "FailJob E n job cause backoff s =
     (let spent = ej_max_attempts job \<le> ej_attempts job in
      case db_update E ''FailJob'' n (\<lambda>j. ej_id j = ej_id job)
             (\<lambda>j. j\<lparr>ej_status := (if spent then ''failed'' else ''retrying''), ej_available_at := e_now E + backoff,
                    ej_locked_at := None, ej_locked_by := '''', ej_last_error := err_text cause, ej_updated_at := e_now E,
                    ej_failed_at := (if spent then Some (e_now E) else ej_failed_at j)\<rparr>) (ix_jobs s) of
        Inl e \<Rightarrow> Inl e | Inr t \<Rightarrow> Inr (s\<lparr>ix_jobs := t\<rparr>))"

definition job_of :: "uuid \<Rightarrow> string \<Rightarrow> string \<Rightarrow> embedding_job \<Rightarrow> bool" where
  "job_of snapshotID provider model j \<longleftrightarrow> ej_snapshot_id j = snapshotID \<and> (provider \<noteq> '''' \<longrightarrow> ej_provider j = provider)
     \<and> (model \<noteq> '''' \<longrightarrow> ej_model j = model)"

definition RetryFailedJobs :: "env \<Rightarrow> uuid \<Rightarrow> string \<Rightarrow> string \<Rightarrow> index_state \<Rightarrow> nat result \<times> index_state" where
  "RetryFailedJobs E snapshotID provider model s =
     (if snapshotID = uuid_nil then (Inr 0, s)
      else let P = (\<lambda>j. job_of snapshotID provider model j \<and> ej_status j = ''failed'') in
        case db_update E ''RetryFailedJobs'' 0 P
               (\<lambda>j. j\<lparr>ej_status := ''pending'', ej_attempts := 0, ej_available_at := e_now E, ej_locked_at := None,
                      ej_locked_by := '''', ej_last_error := '''', ej_failed_at := None, ej_updated_at := e_now E\<rparr>) (ix_jobs s) of
          Inl e \<Rightarrow> (Inl e, s)
        | Inr t \<Rightarrow> (Inr (count_where P (ix_jobs s)), s\<lparr>ix_jobs := t\<rparr>))"

definition CountJobs :: "env \<Rightarrow> uuid \<Rightarrow> index_state \<Rightarrow> nat result" where
  "CountJobs E snapshotID s = db_count E ''CountJobs'' 0 (\<lambda>j. ej_snapshot_id j = snapshotID) (ix_jobs s)"

text \<open>The counts of a snapshot. The quotient the code also returns is a floating-point division of two of them.\<close>

record embedding_coverage =
  gc_total :: nat
  gc_ready :: nat
  gc_pending :: nat
  gc_processing :: nat
  gc_retrying :: nat
  gc_failed :: nat

definition Coverage :: "env \<Rightarrow> uuid \<Rightarrow> string \<Rightarrow> string \<Rightarrow> index_state \<Rightarrow> embedding_coverage result" where
  "Coverage E snapshotID provider model s =
     (case db_count E ''CountDocuments'' 0 (\<lambda>d. sd_snapshot_id d = snapshotID \<and> sd_status d = ''active'') (ix_docs s) of
        Inl e \<Rightarrow> Inl e
      | Inr docs \<Rightarrow>
          let jobs = (\<lambda>status. count_where (\<lambda>j. job_of snapshotID provider model j \<and> ej_status j = status) (ix_jobs s)) in
          if e_db E ''CountJobsByStatus'' 0 then Inl (ErrDB ''CountJobsByStatus'')
          else (case db_count E ''CountEmbeddings'' 0
                       (\<lambda>x. se_snapshot_id x = snapshotID \<and> (provider \<noteq> '''' \<longrightarrow> se_provider x = provider)
                          \<and> (model \<noteq> '''' \<longrightarrow> se_model x = model)) (ix_embeddings s) of
                  Inl e \<Rightarrow> Inl e
                | Inr ready \<Rightarrow>
                    Inr \<lparr>gc_total = docs, gc_ready = ready, gc_pending = jobs ''pending'', gc_processing = jobs ''processing'',
                         gc_retrying = jobs ''retrying'', gc_failed = jobs ''failed''\<rparr>))"

definition GetDocument :: "env \<Rightarrow> nat \<Rightarrow> uuid \<Rightarrow> index_state \<Rightarrow> search_doc result" where
  "GetDocument E n i s = db_first E ''GetDocument'' n sd_id (\<lambda>d. sd_id d = i) (ix_docs s)"

section \<open>Documents\<close>

text \<open>The documents of a snapshot are replaced, and their jobs queued when a provider is given: one transaction.\<close>

definition ReplaceSnapshotDocumentsWithEmbeddingJobs :: "env \<Rightarrow> uuid \<Rightarrow> search_doc list \<Rightarrow> (string \<times> string \<times> int) option
    \<Rightarrow> index_state \<Rightarrow> index_state result" where
  "ReplaceSnapshotDocumentsWithEmbeddingJobs E snapshotID docs provider s =
     (case db_delete E ''DeleteDocuments'' 0 (\<lambda>d. sd_snapshot_id d = snapshotID) (ix_docs s) of
        Inl e \<Rightarrow> Inl e
      | Inr kept \<Rightarrow>
          if docs = [] then Inr (s\<lparr>ix_docs := kept\<rparr>)
          else case insert_all E ''CreateDocuments'' (\<lambda>d x. sd_id x = sd_id d) docs kept of
            Inl e \<Rightarrow> Inl e
          | Inr t \<Rightarrow>
              (case provider of
                 None \<Rightarrow> Inr (s\<lparr>ix_docs := t\<rparr>)
               | Some (name, model, dimensions) \<Rightarrow>
                   if name = '''' \<or> model = '''' then Inr (s\<lparr>ix_docs := t\<rparr>)
                   else EnqueueJobsTx E \<lparr>nq_provider = name, nq_model = model, nq_dimensions = dimensions, nq_priority = 0,
                          nq_max_attempts = 0, nq_documents = docs\<rparr> (s\<lparr>ix_docs := t\<rparr>)))"

section \<open>The worker\<close>

text \<open>\<open>mp_embed n texts\<close> is what the provider answers to the n-th call of a poll.\<close>

record embedding_provider =
  mp_name :: string
  mp_model :: string
  mp_dimensions :: int
  mp_embed :: "nat \<Rightarrow> string list \<Rightarrow> string list list result"

definition BuildKBEmbeddingText :: "search_doc \<Rightarrow> string" where
  "BuildKBEmbeddingText d =
     (let nl = CHR 0x0A in
      join [nl, nl]
        ([''Title:'' @ nl # sd_title d, ''Summary:'' @ nl # sd_summary d]
         @ (if sd_tags d = [] then [] else [''Tags:'' @ nl # join '', '' (sd_tags d)])
         @ (case jget (sd_metadata d) ''source'' of AStr source \<Rightarrow> if trim source = '''' then [] else [''Source:'' @ nl # source] | _ \<Rightarrow> [])
         @ [''Content:'' @ nl # take 8000 (sd_content_text d)]))"

definition backoffForAttempt :: "int \<Rightarrow> int" where
  "backoffForAttempt attempt =
     (let a = (if attempt \<le> 0 then 1 else attempt) in min (seconds (30 * 2 ^ nat (min a 8))) (seconds 7200))"

text \<open>A failure of \<open>FailJob\<close> is ignored where the cause is returned, and returned where it is not.\<close>

definition fail_with :: "env \<Rightarrow> nat \<Rightarrow> embedding_job \<Rightarrow> error \<Rightarrow> index_state \<Rightarrow> error option \<times> index_state" where
  "fail_with E n job cause s =
     (Some cause, case FailJob E n job cause (backoffForAttempt (ej_attempts job)) s of Inl _ \<Rightarrow> s | Inr s' \<Rightarrow> s')"

definition processJob :: "env \<Rightarrow> embedding_provider \<Rightarrow> nat \<Rightarrow> embedding_job \<Rightarrow> index_state \<Rightarrow> error option \<times> index_state" where
  "processJob E P n job s =
     (case GetDocument E n (ej_document_id job) s of
        Inl e \<Rightarrow> fail_with E n job e s
      | Inr d \<Rightarrow>
          if sd_content_hash d \<noteq> ej_content_hash job
          then (case FailJob E n job
                       (Errorf (''content hash mismatch: job='' @ ej_content_hash job @ '' document='' @ sd_content_hash d))
                       (backoffForAttempt (ej_attempts job)) s of
                  Inl e \<Rightarrow> (Some e, s) | Inr s' \<Rightarrow> (None, s'))
          else case mp_embed P n [BuildKBEmbeddingText d] of
            Inl e \<Rightarrow> fail_with E n job e s
          | Inr vs \<Rightarrow>
              if length vs \<noteq> 1 \<or> int (length (hd vs)) \<noteq> ej_dimensions job
              then fail_with E n job (Errorf ''invalid embedding response dimensions'') s
              else case CompleteJob E n job (hd vs) s of
                Inl e \<Rightarrow> fail_with E n job e s
              | Inr s' \<Rightarrow> (None, s'))"

text \<open>The jobs of a poll one after another; \<open>cancelled n\<close> says whether the context is cancelled after the n-th.\<close>

fun process_jobs :: "env \<Rightarrow> embedding_provider \<Rightarrow> (nat \<Rightarrow> bool) \<Rightarrow> nat \<Rightarrow> embedding_job list \<Rightarrow> index_state
    \<Rightarrow> error option \<times> index_state" where
  "process_jobs E P cancelled n [] s = (None, s)"
| "process_jobs E P cancelled n (j # js) s =
     (case processJob E P n j s of
        (Some e, s') \<Rightarrow> if cancelled n then (Some e, s') else process_jobs E P cancelled (n + 1) js s'
      | (None, s') \<Rightarrow> process_jobs E P cancelled (n + 1) js s')"

definition ProcessOnce :: "env \<Rightarrow> embedding_provider \<Rightarrow> (nat \<Rightarrow> bool) \<Rightarrow> string \<Rightarrow> int \<Rightarrow> index_state \<Rightarrow> error option \<times> index_state" where
  "ProcessOnce E P cancelled worker batch s =
     (case ClaimJobs E worker (if batch \<le> 0 then 8 else batch) s of
        (Inl e, s1) \<Rightarrow> (Some e, s1)
      | (Inr jobs, s1) \<Rightarrow> process_jobs E P cancelled 0 jobs s1)"

end
