(* ===== verification/EmbeddingProps.thy ===== *)
theory EmbeddingProps
  imports EmbeddingJobs
begin

text \<open>
  The queue of embedding jobs as a state machine: several workers claim jobs, work on them one by one and may die
  in between, while snapshots are indexed and failed jobs are queued again.
\<close>

section \<open>The machine\<close>

text \<open>The tables, and the jobs each worker has claimed and not yet finished.\<close>

record queue_state =
  qu_index :: index_state
  qu_held :: "(string \<times> embedding_job) list"

definition queue_init :: queue_state where
  "queue_init = \<lparr>qu_index = index_init, qu_held = []\<rparr>"

inductive queue_step :: "queue_state \<Rightarrow> queue_state \<Rightarrow> bool" where
  step_claim: "ClaimJobs E w limit (qu_index q) = (Inr js, s) \<Longrightarrow> queue_step q \<lparr>qu_index = s, qu_held = qu_held q @ map (Pair w) js\<rparr>"
| step_work: "(w, j) \<in> set (qu_held q) \<Longrightarrow> processJob E P n j (qu_index q) = (r, s)
    \<Longrightarrow> queue_step q \<lparr>qu_index = s, qu_held = remove1 (w, j) (qu_held q)\<rparr>"
| step_die: "queue_step q (q\<lparr>qu_held := filter (\<lambda>(v, _). v \<noteq> w) (qu_held q)\<rparr>)"
| step_index: "ReplaceSnapshotDocumentsWithEmbeddingJobs E snapshotID docs provider (qu_index q) = Inr s
    \<Longrightarrow> queue_step q (q\<lparr>qu_index := s\<rparr>)"
| step_retry: "RetryFailedJobs E snapshotID provider model (qu_index q) = (r, s) \<Longrightarrow> queue_step q (q\<lparr>qu_index := s\<rparr>)"

definition queue_reachable :: "queue_state \<Rightarrow> bool" where
  "queue_reachable q \<longleftrightarrow> queue_step\<^sup>*\<^sup>* queue_init q"

section \<open>The invariant\<close>

definition row_ok :: "embedding_job \<Rightarrow> bool" where
  "row_ok j \<longleftrightarrow> ej_status j \<in> {''pending'', ''retrying'', ''processing'', ''ready'', ''failed''}
     \<and> 0 \<le> ej_attempts j \<and> ej_attempts j \<le> ej_max_attempts j \<and> 1 \<le> ej_max_attempts j
     \<and> (ej_status j \<in> {''pending'', ''retrying''} \<longrightarrow> ej_attempts j < ej_max_attempts j)
     \<and> (ej_status j = ''failed'' \<longrightarrow> ej_attempts j = ej_max_attempts j)"

definition jobs_ok :: "index_state \<Rightarrow> bool" where
  "jobs_ok s \<longleftrightarrow> distinct (map ej_id (ix_jobs s)) \<and> distinct (map job_key (ix_jobs s)) \<and> (\<forall>j\<in>set (ix_jobs s). row_ok j)
     \<and> (\<forall>j\<in>set (ix_jobs s). ej_status j = ''ready'' \<longrightarrow> job_key j \<in> embedding_key ` set (ix_embeddings s))"

text \<open>What a worker holds is the row of the table, in processing, and no other worker holds it.\<close>

definition held_ok :: "queue_state \<Rightarrow> bool" where
  "held_ok q \<longleftrightarrow> distinct (map (ej_id \<circ> snd) (qu_held q))
     \<and> (\<forall>(w, j)\<in>set (qu_held q). j \<in> set (ix_jobs (qu_index q)) \<and> ej_status j = ''processing'')"

definition queue_ok :: "queue_state \<Rightarrow> bool" where
  "queue_ok q \<longleftrightarrow> jobs_ok (qu_index q) \<and> held_ok q"

text \<open>An update of some rows that keeps their keys.\<close>

definition keeps_keys :: "(embedding_job \<Rightarrow> embedding_job) \<Rightarrow> bool" where
  "keeps_keys f \<longleftrightarrow> (\<forall>j. ej_id (f j) = ej_id j \<and> job_key (f j) = job_key j)"

lemma jobs_ok_upd:
  assumes ok: "jobs_ok s" and f: "keeps_keys f" and t: "ix_jobs s' = upd_where P f (ix_jobs s)"
    and emb: "embedding_key ` set (ix_embeddings s) \<subseteq> embedding_key ` set (ix_embeddings s')"
    and rows: "\<And>j. j \<in> set (ix_jobs s) \<Longrightarrow> P j \<Longrightarrow> row_ok (f j)"
    and ready: "\<And>j. j \<in> set (ix_jobs s) \<Longrightarrow> P j \<Longrightarrow> ej_status (f j) = ''ready'' \<Longrightarrow> job_key j \<in> embedding_key ` set (ix_embeddings s')"
  shows "jobs_ok s'"
proof -
  have same: "map ej_id (ix_jobs s') = map ej_id (ix_jobs s)" "map job_key (ix_jobs s') = map job_key (ix_jobs s)"
    unfolding t using f by (intro map_upd_where; simp add: keeps_keys_def)+
  have "row_ok j \<and> (ej_status j = ''ready'' \<longrightarrow> job_key j \<in> embedding_key ` set (ix_embeddings s'))" if j: "j \<in> set (ix_jobs s')" for j
    using j unfolding t
  proof (cases rule: in_upd_whereE)
    case same
    with ok emb show ?thesis by (auto simp: jobs_ok_def)
  next
    case (upd j0)
    with f rows [of j0] ready [of j0] show ?thesis by (simp add: keeps_keys_def)
  qed
  with ok show ?thesis unfolding jobs_ok_def same by blast
qed

lemma held_row_unique:
  assumes "jobs_ok s" "j \<in> set (ix_jobs s)" "k \<in> set (ix_jobs s)" "ej_id j = ej_id k"
  shows "j = k"
  using assms distinct_map_same [of ej_id "ix_jobs s" j k] by (simp add: jobs_ok_def)

section \<open>The steps keep it\<close>

subsection \<open>Claiming\<close>

definition claim :: "env \<Rightarrow> string \<Rightarrow> embedding_job \<Rightarrow> embedding_job" where
  "claim E w j = j\<lparr>ej_status := ''processing'', ej_locked_at := Some (e_now E), ej_locked_by := w,
     ej_attempts := ej_attempts j + 1, ej_updated_at := e_now E\<rparr>"

lemma set_queue_order [simp]: "set (queue_order js) = set js"
  by (simp add: queue_order_def)

lemma ClaimJobs_Inr:
  assumes "ClaimJobs E w limit s = (Inr js, s')"
  obtains (none) "js = []" "s' = s"
  | (some) ids v where "\<And>j. j \<in> set (ix_jobs s) \<Longrightarrow> jobs_ok s \<Longrightarrow> ej_id j \<in> ids \<Longrightarrow> claimable (e_now E) j"
      "s' = s\<lparr>ix_jobs := upd_where (\<lambda>j. ej_id j \<in> ids) (claim E v) (ix_jobs s)\<rparr>"
      "js = queue_order (filter (\<lambda>j. ej_id j \<in> ids) (ix_jobs s'))"
proof -
  define ids where "ids = set (map ej_id (take (nat (if limit \<le> 0 \<or> 100 < limit then 8 else limit))
    (queue_order (filter (claimable (e_now E)) (ix_jobs s)))))"
  define v where "v = (if w = '''' then ''embedding-worker'' else w)"
  have cand: "claimable (e_now E) j" if j: "j \<in> set (ix_jobs s)" "jobs_ok s" "ej_id j \<in> ids" for j
  proof -
    from j(3) obtain k where "k \<in> set (queue_order (filter (claimable (e_now E)) (ix_jobs s)))" "ej_id k = ej_id j"
      unfolding ids_def by (auto dest: in_set_takeD)
    with held_row_unique [OF j(2,1), of k] show ?thesis by simp
  qed
  show ?thesis
  proof (cases "js = [] \<and> s' = s")
    case False
    let ?n = "nat (if limit \<le> 0 \<or> 100 < limit then 8 else limit)"
    have 1: "\<not> e_db E ''FindCandidates'' 0"
    proof
      assume "e_db E ''FindCandidates'' 0"
      with assms show False by (simp add: ClaimJobs_def Let_def db_find_def)
    qed
    have 2: "map ej_id (take ?n (queue_order (filter (claimable (e_now E)) (ix_jobs s)))) \<noteq> []"
    proof
      assume "map ej_id (take ?n (queue_order (filter (claimable (e_now E)) (ix_jobs s)))) = []"
      with assms 1 False show False by (simp only: ClaimJobs_def Let_def db_find_def if_False sum.case) simp
    qed
    have 3: "\<not> e_db E ''ClaimJobs'' 0"
    proof
      assume "e_db E ''ClaimJobs'' 0"
      with assms 1 2 show False by (simp only: ClaimJobs_def Let_def db_find_def db_update_def if_False if_True sum.case prod.inject sum.distinct simp_thms)
    qed
    have 4: "\<not> e_db E ''FindClaimed'' 0"
    proof
      assume "e_db E ''FindClaimed'' 0"
      with assms 1 2 3 show False by (simp only: ClaimJobs_def Let_def db_find_def db_update_def if_False if_True sum.case prod.inject sum.distinct simp_thms)
    qed
    from 1 2 3 4 have "s' = s\<lparr>ix_jobs := upd_where (\<lambda>j. ej_id j \<in> ids) (claim E v) (ix_jobs s)\<rparr>
        \<and> js = queue_order (filter (\<lambda>j. ej_id j \<in> ids) (ix_jobs s'))"
      using assms by (simp only: ClaimJobs_def Let_def db_find_def db_update_def if_False sum.case prod.inject sum.inject ids_def v_def
          claim_def [abs_def]) (elim conjE, hypsubst, simp)
    with some [of ids v] cand show ?thesis by blast
  qed (use none in blast)
qed

lemma claim_keeps: "keeps_keys (claim E v)"
  by (simp add: keeps_keys_def claim_def job_key_def)

lemma claim_row: "row_ok j \<Longrightarrow> claimable t j \<Longrightarrow> row_ok (claim E v j)"
  by (auto simp: row_ok_def claimable_def claim_def)

lemma queue_order_distinct: "distinct (map ej_id js) \<Longrightarrow> distinct (map ej_id (queue_order js))"
  unfolding queue_order_def by (simp add: distinct_map)

lemma step_claim_ok:
  assumes ok: "queue_ok q" and run: "ClaimJobs E w limit (qu_index q) = (Inr js, s)"
  shows "queue_ok \<lparr>qu_index = s, qu_held = qu_held q @ map (Pair w) js\<rparr>"
  using run
proof (cases rule: ClaimJobs_Inr)
  case none
  with ok show ?thesis by (simp add: queue_ok_def held_ok_def)
next
  case (some ids v)
  let ?s = "qu_index q"
  have jobs: "jobs_ok ?s" using ok by (simp add: queue_ok_def)
  have t: "ix_jobs s = upd_where (\<lambda>j. ej_id j \<in> ids) (claim E v) (ix_jobs ?s)" "ix_embeddings s = ix_embeddings ?s"
    by (simp_all add: some(2))
  have cand: "claimable (e_now E) j" if "j \<in> set (ix_jobs ?s)" "ej_id j \<in> ids" for j
    using some(1) that jobs by blast
  have jobs': "jobs_ok s"
  proof (rule jobs_ok_upd [OF jobs claim_keeps t(1)])
    fix j
    assume j: "j \<in> set (ix_jobs ?s)" "ej_id j \<in> ids"
    show "row_ok (claim E v j)" using jobs j(1) by (intro claim_row [OF _ cand [OF j]]) (simp add: jobs_ok_def)
    show "ej_status (claim E v j) = ''ready'' \<Longrightarrow> job_key j \<in> embedding_key ` set (ix_embeddings s)" by (simp add: claim_def)
  qed (simp add: t(2))
  have old: "ej_id j \<notin> ids" if "(u, j) \<in> set (qu_held q)" for u j
    using that ok cand [of j] by (auto simp: queue_ok_def held_ok_def claimable_def)
  have new: "j \<in> set (ix_jobs s) \<and> ej_id j \<in> ids \<and> ej_status j = ''processing''" if "j \<in> set js" for j
    using that some(3) by (auto simp: t(1) set_upd_where claim_def split: if_splits)
  have keep: "j \<in> set (ix_jobs s)" if "(u, j) \<in> set (qu_held q)" for u j
  proof -
    have "j \<in> set (ix_jobs ?s)" using that ok by (auto simp: queue_ok_def held_ok_def)
    with old [OF that] show ?thesis by (auto simp: t(1) set_upd_where image_iff)
  qed
  have "distinct (map ej_id js)"
    using jobs' by (simp add: some(3) queue_order_distinct jobs_ok_def distinct_map_filter)
  moreover have "set (map (ej_id \<circ> snd) (qu_held q)) \<inter> set (map ej_id js) = {}" using old new by fastforce
  ultimately have "held_ok \<lparr>qu_index = s, qu_held = qu_held q @ map (Pair w) js\<rparr>"
    using ok new keep by (auto simp: queue_ok_def held_ok_def comp_def)
  with jobs' show ?thesis by (simp add: queue_ok_def)
qed

subsection \<open>Working\<close>

definition fail_row :: "env \<Rightarrow> bool \<Rightarrow> error \<Rightarrow> int \<Rightarrow> embedding_job \<Rightarrow> embedding_job" where
  "fail_row E spent cause backoff j =
     j\<lparr>ej_status := (if spent then ''failed'' else ''retrying''), ej_available_at := e_now E + backoff, ej_locked_at := None,
       ej_locked_by := '''', ej_last_error := err_text cause, ej_updated_at := e_now E,
       ej_failed_at := (if spent then Some (e_now E) else ej_failed_at j)\<rparr>"

definition ready_row :: "env \<Rightarrow> embedding_job \<Rightarrow> embedding_job" where
  "ready_row E j = j\<lparr>ej_status := ''ready'', ej_locked_at := None, ej_locked_by := '''', ej_last_error := '''',
     ej_completed_at := Some (e_now E), ej_updated_at := e_now E\<rparr>"

lemma FailJob_Inr: "FailJob E n job cause backoff s = Inr s' \<Longrightarrow>
    s' = s\<lparr>ix_jobs := upd_where (\<lambda>j. ej_id j = ej_id job) (fail_row E (ej_max_attempts job \<le> ej_attempts job) cause backoff) (ix_jobs s)\<rparr>"
  by (auto simp: FailJob_def Let_def db_simps fail_row_def [abs_def] split: sum.splits)

lemma save_embedding_keys:
  assumes "save_embedding E n x t = Inr t'"
  shows "embedding_key ` set t' = insert (embedding_key x) (embedding_key ` set t)"
proof (cases "list_ex (\<lambda>y. embedding_key y = embedding_key x) t")
  case True
  then have "t' = upd_where (\<lambda>y. embedding_key y = embedding_key x)
      (\<lambda>y. y\<lparr>se_embedding := se_embedding x, se_updated_at := e_now E\<rparr>) t"
    using assms by (simp add: save_embedding_def db_simps)
  moreover have "map embedding_key \<dots> = map embedding_key t" by (rule map_upd_where) (simp add: embedding_key_def)
  ultimately have "set (map embedding_key t') = set (map embedding_key t)" by simp
  moreover have "embedding_key x \<in> embedding_key ` set t" using True unfolding list_ex_iff by (metis imageI)
  ultimately show ?thesis by (simp add: insert_absorb)
next
  case False
  then show ?thesis using assms by (simp add: save_embedding_def db_simps)
qed

lemma CompleteJob_Inr:
  assumes "CompleteJob E n job v s = Inr s'"
  shows "ix_jobs s' = upd_where (\<lambda>j. ej_id j = ej_id job) (ready_row E) (ix_jobs s) \<and> ix_docs s' = ix_docs s
     \<and> embedding_key ` set (ix_embeddings s') = insert (job_key job) (embedding_key ` set (ix_embeddings s))"
proof -
  have "embedding_key (embedding_of E n job v) = job_key job" by (simp add: embedding_key_def embedding_of_def job_key_def)
  then show ?thesis
    using assms save_embedding_keys [of E n "embedding_of E n job v" "ix_embeddings s"]
    by (auto simp: CompleteJob_def db_simps ready_row_def [abs_def] split: sum.splits)
qed

text \<open>Working on a job fails it, completes it, or leaves everything as it was.\<close>

lemma processJob_cases:
  assumes "processJob E P n job s = (r, s')"
  obtains (unchanged) "s' = s" "r \<noteq> None"
  | (failed) cause backoff where "FailJob E n job cause backoff s = Inr s'"
  | (completed) v where "CompleteJob E n job v s = Inr s'" "r = None"
  using assms by (auto simp: processJob_def fail_with_def split: sum.splits if_splits)

lemma row_keeps: "keeps_keys (fail_row E b c t)" "keeps_keys (ready_row E)"
  by (simp_all add: keeps_keys_def job_key_def fail_row_def ready_row_def)

lemma fail_row_ok: "row_ok j \<Longrightarrow> row_ok (fail_row E (ej_max_attempts j \<le> ej_attempts j) c t j)"
  by (auto simp: row_ok_def fail_row_def)

lemma ready_row_ok: "row_ok j \<Longrightarrow> row_ok (ready_row E j)"
  by (auto simp: row_ok_def ready_row_def)

lemma processJob_ok:
  assumes ok: "jobs_ok s" and row: "job \<in> set (ix_jobs s)" and run: "processJob E P n job s = (r, s')"
  shows "jobs_ok s' \<and> (\<forall>j\<in>set (ix_jobs s). ej_id j \<noteq> ej_id job \<longrightarrow> j \<in> set (ix_jobs s'))"
  using run
proof (cases rule: processJob_cases)
  case unchanged
  with ok show ?thesis by simp
next
  case (failed cause backoff)
  note s' = FailJob_Inr [OF failed]
  have "jobs_ok s'"
  proof (rule jobs_ok_upd [OF ok row_keeps(1)])
    show "ix_jobs s' = upd_where (\<lambda>j. ej_id j = ej_id job) (fail_row E (ej_max_attempts job \<le> ej_attempts job) cause backoff) (ix_jobs s)"
      by (simp add: s')
    fix j
    assume "j \<in> set (ix_jobs s)" "ej_id j = ej_id job"
    then have "j = job" using held_row_unique [OF ok _ row] by blast
    with ok row show "row_ok (fail_row E (ej_max_attempts job \<le> ej_attempts job) cause backoff j)"
      by (simp add: fail_row_ok jobs_ok_def)
    show "ej_status (fail_row E (ej_max_attempts job \<le> ej_attempts job) cause backoff j) = ''ready''
        \<Longrightarrow> job_key j \<in> embedding_key ` set (ix_embeddings s')" by (simp add: fail_row_def split: if_splits)
  qed (simp add: s')
  then show ?thesis by (auto simp: s' set_upd_where image_iff)
next
  case (completed v)
  note s' = CompleteJob_Inr [OF completed(1)]
  have "jobs_ok s'"
  proof (rule jobs_ok_upd [OF ok row_keeps(2) conjunct1 [OF s']])
    fix j
    assume "j \<in> set (ix_jobs s)" "ej_id j = ej_id job"
    then have j: "j = job" using held_row_unique [OF ok _ row] by blast
    with ok row show "row_ok (ready_row E j)" by (simp add: ready_row_ok jobs_ok_def)
    show "job_key j \<in> embedding_key ` set (ix_embeddings s')" using s' j by simp
  qed (use s' in auto)
  then show ?thesis using s' by (auto simp: set_upd_where image_iff)
qed

lemma step_work_ok:
  assumes ok: "queue_ok q" and held: "(w, j) \<in> set (qu_held q)" and run: "processJob E P n j (qu_index q) = (r, s)"
  shows "queue_ok \<lparr>qu_index = s, qu_held = remove1 (w, j) (qu_held q)\<rparr>"
proof -
  have row: "j \<in> set (ix_jobs (qu_index q))" and d: "distinct (map (ej_id \<circ> snd) (qu_held q))"
    using ok held by (auto simp: queue_ok_def held_ok_def)
  have "jobs_ok (qu_index q)" using ok by (simp add: queue_ok_def)
  note step = processJob_ok [OF this row run]
  have rest: "distinct (map (ej_id \<circ> snd) (remove1 (w, j) (qu_held q)))"
    using d by (metis distinct_map distinct_remove1 inj_on_subset set_remove1_subset)
  have "k \<in> set (ix_jobs s) \<and> ej_status k = ''processing''" if k: "(u, k) \<in> set (remove1 (w, j) (qu_held q))" for u k
  proof -
    have in_q: "(u, k) \<in> set (qu_held q)" by (rule subsetD [OF set_remove1_subset k])
    then have row_k: "k \<in> set (ix_jobs (qu_index q))" "ej_status k = ''processing''"
      using ok by (auto simp: queue_ok_def held_ok_def)
    have "ej_id k \<noteq> ej_id j"
    proof
      assume "ej_id k = ej_id j"
      then have "(u, k) = (w, j)" using distinct_map_same [OF d, of "(u, k)" "(w, j)"] held in_q by simp
      moreover have "distinct (qu_held q)" using d by (simp add: distinct_map)
      ultimately show False using k by simp
    qed
    with step row_k show ?thesis by blast
  qed
  then have "held_ok \<lparr>qu_index = s, qu_held = remove1 (w, j) (qu_held q)\<rparr>"
    using rest by (auto simp: held_ok_def)
  with step show ?thesis by (simp add: queue_ok_def)
qed

subsection \<open>Dying, indexing, queueing again\<close>

lemma step_die_ok: "queue_ok q \<Longrightarrow> queue_ok (q\<lparr>qu_held := filter (\<lambda>(v, _). v \<noteq> w) (qu_held q)\<rparr>)"
  by (auto simp: queue_ok_def held_ok_def distinct_map_filter)

lemma insert_new_jobs:
  assumes "distinct (map ej_id t)" "distinct (map job_key t)"
  shows "\<exists>us. insert_new (\<lambda>j x. ej_id x = ej_id j \<or> job_key x = job_key j) js t = t @ us \<and> set us \<subseteq> set js
     \<and> distinct (map ej_id (t @ us)) \<and> distinct (map job_key (t @ us))"
  using assms
proof (induction js arbitrary: t)
  case (Cons j js)
  show ?case
  proof (cases "list_ex (\<lambda>x. ej_id x = ej_id j \<or> job_key x = job_key j) t")
    case True
    with Cons.IH [OF Cons.prems] show ?thesis by fastforce
  next
    case False
    then have "distinct (map ej_id (t @ [j]))" "distinct (map job_key (t @ [j]))"
      using Cons.prems by (auto simp: list_ex_iff)
    from Cons.IH [OF this] False show ?thesis by fastforce
  qed
qed simp

lemma new_jobs_fresh: "j \<in> set (new_jobs E input) \<Longrightarrow> row_ok j \<and> ej_status j = ''pending''"
  by (auto simp: new_jobs_def new_job_def row_ok_def)

lemma EnqueueJobsTx_ok:
  assumes "jobs_ok s" "EnqueueJobsTx E input s = Inr s'"
  shows "jobs_ok s' \<and> (\<exists>us. ix_jobs s' = ix_jobs s @ us)"
proof (cases "s' = s")
  case False
  then have s': "s' = s\<lparr>ix_jobs := insert_new (\<lambda>j x. ej_id x = ej_id j \<or> job_key x = job_key j) (new_jobs E input) (ix_jobs s)\<rparr>"
    using assms(2) by (auto simp: EnqueueJobsTx_def Let_def split: if_splits)
  have "distinct (map ej_id (ix_jobs s))" "distinct (map job_key (ix_jobs s))" using assms(1) by (simp_all add: jobs_ok_def)
  from insert_new_jobs [OF this, of "new_jobs E input"] obtain us where us: "ix_jobs s' = ix_jobs s @ us"
      "set us \<subseteq> set (new_jobs E input)" "distinct (map ej_id (ix_jobs s @ us))" "distinct (map job_key (ix_jobs s @ us))"
    by (auto simp: s')
  have new: "row_ok j \<and> ej_status j = ''pending''" if "j \<in> set us" for j using us(2) that new_jobs_fresh by blast
  have emb: "ix_embeddings s' = ix_embeddings s" by (simp add: s')
  have "jobs_ok s'" using assms(1) us(3,4) new unfolding jobs_ok_def us(1) emb by fastforce
  with us(1) show ?thesis by blast
qed (use assms in simp)

lemma step_index_jobs:
  assumes ok: "queue_ok q" and run: "ReplaceSnapshotDocumentsWithEmbeddingJobs E i docs provider (qu_index q) = Inr s"
  shows "jobs_ok s \<and> (\<exists>us. ix_jobs s = ix_jobs (qu_index q) @ us)"
proof -
  let ?s = "qu_index q"
  have docs: "jobs_ok (?s\<lparr>ix_docs := t\<rparr>)" for t using ok by (simp add: queue_ok_def jobs_ok_def)
  have "\<exists>t. s = ?s\<lparr>ix_docs := t\<rparr> \<or> (\<exists>input. EnqueueJobsTx E input (?s\<lparr>ix_docs := t\<rparr>) = Inr s)"
    using run by (auto simp: ReplaceSnapshotDocumentsWithEmbeddingJobs_def split: sum.splits if_splits option.splits) blast+
  then obtain t where "s = ?s\<lparr>ix_docs := t\<rparr> \<or> (\<exists>input. EnqueueJobsTx E input (?s\<lparr>ix_docs := t\<rparr>) = Inr s)" ..
  then show ?thesis using docs [of t] EnqueueJobsTx_ok [OF docs [of t]] by auto
qed

lemma step_index_ok:
  assumes ok: "queue_ok q" and run: "ReplaceSnapshotDocumentsWithEmbeddingJobs E i docs provider (qu_index q) = Inr s"
  shows "queue_ok (q\<lparr>qu_index := s\<rparr>)"
  using step_index_jobs [OF ok run] ok by (auto simp: queue_ok_def held_ok_def)

definition retry_row :: "env \<Rightarrow> embedding_job \<Rightarrow> embedding_job" where
  "retry_row E j = j\<lparr>ej_status := ''pending'', ej_attempts := 0, ej_available_at := e_now E, ej_locked_at := None,
     ej_locked_by := '''', ej_last_error := '''', ej_failed_at := None, ej_updated_at := e_now E\<rparr>"

lemma RetryFailedJobs_run:
  assumes "RetryFailedJobs E i p m s = (r, s')"
  shows "s' = s \<or> s' = s\<lparr>ix_jobs := upd_where (\<lambda>j. job_of i p m j \<and> ej_status j = ''failed'') (retry_row E) (ix_jobs s)\<rparr>"
  using assms by (auto simp: RetryFailedJobs_def Let_def db_simps retry_row_def [abs_def] split: sum.splits if_splits)

lemma step_retry_ok:
  assumes ok: "queue_ok q" and run: "RetryFailedJobs E i p m (qu_index q) = (r, s)"
  shows "queue_ok (q\<lparr>qu_index := s\<rparr>)"
  using RetryFailedJobs_run [OF run]
proof
  assume s: "s = (qu_index q)\<lparr>ix_jobs := upd_where (\<lambda>j. job_of i p m j \<and> ej_status j = ''failed'') (retry_row E) (ix_jobs (qu_index q))\<rparr>"
  have jobs: "jobs_ok (qu_index q)" using ok by (simp add: queue_ok_def)
  have "jobs_ok s"
  proof (rule jobs_ok_upd [OF jobs])
    show "keeps_keys (retry_row E)" by (simp add: keeps_keys_def retry_row_def job_key_def)
    show "ix_jobs s = upd_where (\<lambda>j. job_of i p m j \<and> ej_status j = ''failed'') (retry_row E) (ix_jobs (qu_index q))" by (simp add: s)
    show "row_ok (retry_row E j)" if "j \<in> set (ix_jobs (qu_index q))" for j
      using jobs that by (auto simp: jobs_ok_def row_ok_def retry_row_def)
  qed (simp_all add: s retry_row_def)
  moreover have "j \<in> set (ix_jobs s)" if "(w, j) \<in> set (qu_held q)" for w j
    using ok that by (auto simp: s set_upd_where image_iff queue_ok_def held_ok_def)
  ultimately show ?thesis using ok by (auto simp: queue_ok_def held_ok_def)
qed (use ok in simp)

lemma queue_step_ok: "queue_step q q' \<Longrightarrow> queue_ok q \<Longrightarrow> queue_ok q'"
  by (induction rule: queue_step.induct)
    (blast intro: step_claim_ok step_work_ok step_die_ok step_index_ok step_retry_ok)+

lemma queue_reachable_ok: "queue_reachable q \<Longrightarrow> queue_ok q"
  unfolding queue_reachable_def
proof (induction rule: rtranclp_induct)
  case base
  show ?case by (simp add: queue_ok_def held_ok_def jobs_ok_def queue_init_def index_init_def)
qed (rule queue_step_ok)

section \<open>What holds of every reachable queue\<close>

text \<open>
  C14: A job has one worker: however the workers claim, work, die and are interleaved with indexing and retries, no
  job is held by two of them or twice by one, what a worker holds is the current row of the job, and that row is in
  processing, so a worker never overwrites what another one did to the job.
\<close>

theorem a_job_has_one_worker:
  assumes "queue_reachable q"
  shows "distinct (map (ej_id \<circ> snd) (qu_held q))
     \<and> list_all (\<lambda>(w, j). j \<in> set (ix_jobs (qu_index q)) \<and> ej_status j = ''processing'') (qu_held q)"
  using queue_reachable_ok [OF assms] by (auto simp: queue_ok_def held_ok_def list_all_iff)

text \<open>
  The table of jobs stays sound: there is at most one job for a document, provider, model and content; a job is
  never attempted more often than its maximum, it waits for another attempt only if it has one left, it is given up
  only after the last one, and it is ready only if an embedding for it is stored.
\<close>

theorem embedding_jobs_stay_sound:
  assumes "queue_reachable q"
  shows "distinct (map job_key (ix_jobs (qu_index q)))
     \<and> list_all (\<lambda>j. 0 \<le> ej_attempts j \<and> ej_attempts j \<le> ej_max_attempts j
         \<and> (ej_status j \<in> {''pending'', ''retrying''} \<longrightarrow> ej_attempts j < ej_max_attempts j)
         \<and> (ej_status j = ''failed'' \<longrightarrow> ej_attempts j = ej_max_attempts j)
         \<and> (ej_status j = ''ready'' \<longrightarrow> job_key j \<in> embedding_key ` set (ix_embeddings (qu_index q)))) (ix_jobs (qu_index q))"
  using queue_reachable_ok [OF assms] by (auto simp: queue_ok_def jobs_ok_def row_ok_def list_all_iff)

text \<open>
  Retries back off: the waiting time after an attempt doubles from one minute, and never exceeds two hours,
  whatever the number of attempts.
\<close>

theorem backoff_is_bounded:
  "seconds 60 \<le> backoffForAttempt n \<and> backoffForAttempt n \<le> seconds 7200
   \<and> (1 \<le> n \<and> n < 7 \<longrightarrow> backoffForAttempt (n + 1) = 2 * backoffForAttempt n)"
proof -
  have p: "2 \<le> (2 :: int) ^ nat (min a 8)" if "1 \<le> a" for a :: int
    using that power_increasing [of 1 "nat (min a 8)" "2 :: int"] by simp
  have "seconds 60 \<le> seconds (30 * 2 ^ nat (min a 8))" if "1 \<le> a" for a :: int
    using p [OF that] by (simp add: seconds_def)
  then have "seconds 60 \<le> backoffForAttempt n"
    by (auto simp: backoffForAttempt_def Let_def seconds_def)
  moreover have "backoffForAttempt n \<le> seconds 7200" by (simp add: backoffForAttempt_def Let_def)
  moreover have "backoffForAttempt (n + 1) = 2 * backoffForAttempt n" if n: "1 \<le> n" "n < 7"
  proof -
    have "n \<in> {1, 2, 3, 4, 5, 6}" using n by auto
    then show ?thesis by (elim insertE emptyE) (simp_all add: backoffForAttempt_def seconds_def)
  qed
  ultimately show ?thesis by blast
qed

section \<open>A worker that dies\<close>

text \<open>A job in processing that nobody holds: no step of the machine ever touches it again.\<close>

definition abandoned :: "embedding_job \<Rightarrow> queue_state \<Rightarrow> bool" where
  "abandoned j q \<longleftrightarrow> j \<in> set (ix_jobs (qu_index q)) \<and> ej_status j = ''processing'' \<and> (\<forall>(w, k)\<in>set (qu_held q). ej_id k \<noteq> ej_id j)"

lemma upd_where_kept: "j \<in> set t \<Longrightarrow> \<not> P j \<Longrightarrow> j \<in> set (upd_where P f t)"
  by (auto simp: set_upd_where image_iff)

lemma abandoned_step:
  assumes "queue_step q q'" "queue_ok q" "abandoned j q"
  shows "abandoned j q'"
  using assms
proof (induction rule: queue_step.induct)
  case (step_claim E w limit q js s)
  show ?case using step_claim(1)
  proof (cases rule: ClaimJobs_Inr)
    case none
    with step_claim(3) show ?thesis by (simp add: abandoned_def)
  next
    case (some ids v)
    have jobs: "jobs_ok (qu_index q)" using step_claim(2) by (simp add: queue_ok_def)
    have j: "j \<in> set (ix_jobs (qu_index q))" "ej_status j = ''processing''" using step_claim(3) by (auto simp: abandoned_def)
    then have out: "ej_id j \<notin> ids" using some(1) [OF j(1) jobs] by (auto simp: claimable_def)
    have "ej_id k \<in> ids" if "k \<in> set js" for k using that some(3) by auto
    with out have "\<forall>k\<in>set js. ej_id k \<noteq> ej_id j" by metis
    with out j step_claim(3) show ?thesis by (auto simp: abandoned_def some(2) upd_where_kept)
  qed
next
  case (step_work w j' q E P n r s)
  have jobs: "jobs_ok (qu_index q)" and row: "j' \<in> set (ix_jobs (qu_index q))"
    using step_work(1,3) by (auto simp: queue_ok_def held_ok_def)
  have "ej_id j \<noteq> ej_id j'" "j \<in> set (ix_jobs (qu_index q))" using step_work(1,4) by (auto simp: abandoned_def)
  then have "j \<in> set (ix_jobs s)" using processJob_ok [OF jobs row step_work(2)] by blast
  with step_work(4) show ?case using set_remove1_subset [of "(w, j')" "qu_held q"] by (auto simp: abandoned_def)
next
  case (step_index E i docs provider q s)
  have "\<exists>us. ix_jobs s = ix_jobs (qu_index q) @ us" using step_index_jobs [OF step_index(2,1)] by blast
  with step_index(3) show ?case by (auto simp: abandoned_def)
next
  case (step_retry E i p m q r s)
  from RetryFailedJobs_run [OF step_retry(1)] step_retry(3) show ?case by (auto simp: abandoned_def upd_where_kept)
qed (auto simp: abandoned_def)

text \<open>
  Nothing recovers the job of a worker that died: once a job is in processing and no worker holds it, no further
  steps, of any workers, retries or indexing, ever change it; it is never embedded and never reported as failed.
\<close>

theorem abandoned_jobs_stay:
  assumes "queue_reachable q" "abandoned j q" "queue_step\<^sup>*\<^sup>* q q'"
  shows "abandoned j q'"
  using assms(3,1,2)
proof (induction rule: converse_rtranclp_induct)
  case (step q r)
  have "queue_reachable r" using step(1,4) by (auto simp: queue_reachable_def intro: rtranclp.rtrancl_into_rtrancl)
  with step abandoned_step [OF step(1) queue_reachable_ok [OF step(4)] step(5)] show ?case by blast
qed simp

section \<open>A run\<close>

definition demo_search_doc :: search_doc where
  "demo_search_doc = \<lparr>sd_id = 61, sd_collection_id = 21, sd_snapshot_id = 31, sd_snapshot_entry_id = 41, sd_entry_id = ''a'', sd_title = ''T'',
     sd_summary = ''S'', sd_tags = [''x'', ''y''], sd_metadata = [], sd_content_text = ''text'', sd_content_hash = ''h'', sd_tokens = 1,
     sd_status = ''active'', sd_indexed_at = 0\<rparr>"

definition demo_provider :: embedding_provider where
  "demo_provider = \<lparr>mp_name = ''local'', mp_model = ''m'', mp_dimensions = 2, mp_embed = (\<lambda>n texts. Inr [[''0.5'', ''1'']])\<rparr>"

definition demo_indexed :: "index_state result" where
  "demo_indexed = ReplaceSnapshotDocumentsWithEmbeddingJobs (env_at 1) 31 [demo_search_doc] (Some (''local'', ''m'', 2)) index_init"

definition demo_claimed :: "embedding_job list result \<times> index_state" where
  "demo_claimed = ClaimJobs (env_at 2) ''w1'' 8 (projr demo_indexed)"

definition demo_working :: queue_state where
  "demo_working = \<lparr>qu_index = snd demo_claimed, qu_held = map (Pair ''w1'') (projr (fst demo_claimed))\<rparr>"

lemma demo_facts: "succeeds demo_indexed \<and> succeeds (fst demo_claimed) \<and> map fst (qu_held demo_working) = [''w1'']
    \<and> map ej_attempts (ix_jobs (qu_index demo_working)) = [1] \<and> map ej_status (ix_jobs (qu_index demo_working)) = [''processing'']"
  by code_simp

lemma demo_working_reachable: "queue_reachable demo_working"
proof -
  have "demo_indexed = Inr (projr demo_indexed)" using demo_facts by (simp add: succeeds_projr)
  then have "queue_step queue_init \<lparr>qu_index = projr demo_indexed, qu_held = []\<rparr>"
    using step_index [of "env_at 1" 31 "[demo_search_doc]" "Some (''local'', ''m'', 2)" queue_init "projr demo_indexed"]
    by (simp add: demo_indexed_def queue_init_def)
  moreover have "demo_claimed = (Inr (projr (fst demo_claimed)), snd demo_claimed)" using demo_facts by (simp add: succeeds_pair)
  then have "queue_step \<lparr>qu_index = projr demo_indexed, qu_held = []\<rparr> demo_working"
    using step_claim [of "env_at 2" "''w1''" 8 "\<lparr>qu_index = projr demo_indexed, qu_held = []\<rparr>" "projr (fst demo_claimed)" "snd demo_claimed"]
    by (simp add: demo_claimed_def demo_working_def)
  ultimately show ?thesis unfolding queue_reachable_def by (rule converse_rtranclp_into_rtranclp [OF _ r_into_rtranclp])
qed

theorem a_job_has_one_worker_witness:
  "\<exists>w j. (w, j) \<in> set (qu_held demo_working) \<and> j \<in> set (ix_jobs (qu_index demo_working)) \<and> ej_status j = ''processing''"
proof -
  obtain w j where "(w, j) \<in> set (qu_held demo_working)" using demo_facts by (cases "qu_held demo_working") auto
  with a_job_has_one_worker [OF demo_working_reachable] show ?thesis by (fastforce simp: list_all_iff)
qed

theorem embedding_jobs_stay_sound_witness:
  "\<exists>j\<in>set (ix_jobs (qu_index demo_working)). ej_attempts j = 1 \<and> ej_attempts j \<le> ej_max_attempts j"
proof -
  obtain j where "ix_jobs (qu_index demo_working) = [j]" "ej_attempts j = 1"
    using demo_facts by (cases "ix_jobs (qu_index demo_working)") auto
  with embedding_jobs_stay_sound [OF demo_working_reachable] show ?thesis by simp
qed

definition demo_dead :: queue_state where
  "demo_dead = demo_working\<lparr>qu_held := filter (\<lambda>(v, _). v \<noteq> ''w1'') (qu_held demo_working)\<rparr>"

text \<open>The worker dies; a second worker polls an hour later and finds nothing to do.\<close>

theorem abandoned_jobs_stay_witness:
  "\<exists>j. abandoned j demo_dead \<and> abandoned j (demo_dead\<lparr>qu_held := []\<rparr>)"
proof -
  obtain j where j: "ix_jobs (qu_index demo_working) = [j]" "ej_status j = ''processing''"
    using demo_facts by (cases "ix_jobs (qu_index demo_working)") auto
  have none: "qu_held demo_dead = []"
    using demo_facts by (cases "qu_held demo_working") (auto simp: demo_dead_def)
  have a: "abandoned j demo_dead" using j none by (simp add: abandoned_def demo_dead_def)
  have "queue_reachable demo_dead" using demo_working_reachable step_die [of demo_working "''w1''"]
    unfolding queue_reachable_def demo_dead_def by (rule rtranclp.rtrancl_into_rtrancl)
  from abandoned_jobs_stay [OF this a, of "demo_dead\<lparr>qu_held := []\<rparr>"] step_die [of demo_dead "''w2''"] a none
  show ?thesis by auto
qed

text \<open>The same job, worked on: it is ready and its embedding is stored.\<close>

theorem worked_job_is_ready:
  "let s = snd (ProcessOnce (env_at 2) demo_provider (\<lambda>_. False) ''w1'' 8 (projr demo_indexed))
   in map ej_status (ix_jobs s) = [''ready''] \<and> map se_embedding (ix_embeddings s) = [''[0.5,1]'']"
  by code_simp

text \<open>A provider that always fails: the job is given up after its five attempts, and a retry queues it again.\<close>

definition broken_provider :: embedding_provider where
  "broken_provider = demo_provider\<lparr>mp_embed := \<lambda>n texts. Inl (Errorf ''down'')\<rparr>"

definition hours_later :: "nat \<Rightarrow> env" where
  "hours_later k = (env_at k)\<lparr>e_now := seconds (1700000000 + 3600 * int k)\<rparr>"

theorem failing_job_is_given_up:
  "let poll = (\<lambda>k s. snd (ProcessOnce (hours_later k) broken_provider (\<lambda>_. False) ''w'' 8 s));
       s4 = fold poll [1, 2, 3, 4] (projr demo_indexed); s5 = poll 5 s4;
       s6 = snd (RetryFailedJobs (hours_later 6) 31 ''local'' ''m'' s5)
   in map (\<lambda>j. (ej_status j, ej_attempts j)) (ix_jobs s4) = [(''retrying'', 4)]
      \<and> map (\<lambda>j. (ej_status j, ej_attempts j)) (ix_jobs s5) = [(''failed'', 5)]
      \<and> map (\<lambda>j. (ej_status j, ej_attempts j)) (ix_jobs s6) = [(''pending'', 0)]"
  by code_simp

end
