(* ===== verification/KBCatalog.thy ===== *)
theory KBCatalog
  imports SageManifest Billing
begin

text \<open>
  The tables of the knowledge hub and their repository (\<open>internal/repository/kb_hub_repo.go\<close>, tables of
  \<open>internal/model/models.go\<close>): collections with their review state and price, numbered snapshots with their
  entries, subscriptions, moderation reports. The usage records it counts are those of the billing tables.
\<close>

section \<open>Tables\<close>

record kb_collection =
  kc_id :: uuid
  kc_created_at :: time
  kc_updated_at :: time
  kc_owner_id :: uuid
  kc_name :: string
  kc_description :: string
  kc_status :: string
  kc_review_status :: string
  kc_review_reason :: string
  kc_reviewed_by :: "uuid option"
  kc_reviewed_at :: "time option"
  kc_takedown_reason :: string
  kc_takedown_at :: "time option"
  kc_source_declaration :: string
  kc_copyright_declaration :: string
  kc_moderation_metadata :: "json_map option"
  kc_pricing_model :: string
  kc_monthly_price :: int
  kc_is_free :: bool
  kc_platform_min_price :: int
  kc_platform_max_price :: int
  kc_entitlement_mode :: string
  kc_trial_days :: int
  kc_billing_interval :: string
  kc_currency :: string

record kb_snapshot =
  kz_id :: uuid
  kz_collection_id :: uuid
  kz_version :: int
  kz_status :: string
  kz_entry_count :: int
  kz_total_tokens :: int
  kz_published_at :: time
  kz_archived_at :: "time option"
  kz_checksum :: string
  kz_manifest_object_uri :: string
  kz_content_hash :: string
  kz_content_size :: int

record kb_snapshot_entry =
  ke_id :: uuid
  ke_snapshot_id :: uuid
  ke_entry_id :: string
  ke_title :: string
  ke_summary :: string
  ke_tags :: "string list"
  ke_metadata :: json_map
  ke_content_object_uri :: string
  ke_tokens :: int

record kb_subscription =
  kb_id :: uuid
  kb_updated_at :: time
  kb_user_id :: uuid
  kb_collection_id :: uuid
  kb_snapshot_id :: uuid
  kb_track_mode :: string
  kb_pinned_version :: "int option"
  kb_status :: string
  kb_started_at :: time
  kb_expires_at :: "time option"
  kb_entitlement_type :: string
  kb_renewal_status :: string
  kb_period_start :: "time option"
  kb_period_end :: "time option"
  kb_granted_by :: "uuid option"
  kb_grant_reason :: string

record kb_report =
  km_id :: uuid
  km_created_at :: time
  km_collection_id :: uuid
  km_reporter_id :: uuid
  km_reason :: string
  km_detail :: string
  km_status :: string
  km_resolved_by :: "uuid option"
  km_resolved_at :: "time option"
  km_resolution :: string

record kb_tables =
  kt_collections :: "kb_collection list"
  kt_snapshots :: "kb_snapshot list"
  kt_entries :: "kb_snapshot_entry list"
  kt_subscriptions :: "kb_subscription list"
  kt_reports :: "kb_report list"

definition kb_init :: kb_tables where
  "kb_init = \<lparr>kt_collections = [], kt_snapshots = [], kt_entries = [], kt_subscriptions = [], kt_reports = []\<rparr>"

section \<open>Collections\<close>

definition CreateCollection_repo :: "env \<Rightarrow> kb_collection \<Rightarrow> kb_tables \<Rightarrow> kb_tables result" where
  "CreateCollection_repo E c s =
     (case db_insert E ''CreateCollection'' 0 (\<lambda>c x. kc_id x = kc_id c) c (kt_collections s) of
        Inl e \<Rightarrow> Inl e | Inr t \<Rightarrow> Inr (s\<lparr>kt_collections := t\<rparr>))"

definition GetCollection_repo :: "env \<Rightarrow> uuid \<Rightarrow> kb_tables \<Rightarrow> kb_collection result" where
  "GetCollection_repo E i s = db_first E ''GetCollection'' 0 kc_id (\<lambda>c. kc_id c = i) (kt_collections s)"

definition GetCollectionForOwner :: "env \<Rightarrow> uuid \<Rightarrow> uuid \<Rightarrow> kb_tables \<Rightarrow> kb_collection result" where
  "GetCollectionForOwner E owner i s =
     db_first E ''GetCollectionForOwner'' 0 kc_id (\<lambda>c. kc_id c = i \<and> kc_owner_id c = owner) (kt_collections s)"

definition UpdateCollection :: "env \<Rightarrow> kb_collection \<Rightarrow> kb_tables \<Rightarrow> (kb_collection \<times> kb_tables) result" where
  "UpdateCollection E c s =
     (let c' = c\<lparr>kc_updated_at := e_now E\<rparr> in
      case db_save E ''UpdateCollection'' 0 kc_id c' (kt_collections s) of
        Inl e \<Rightarrow> Inl e | Inr t \<Rightarrow> Inr (c', s\<lparr>kt_collections := t\<rparr>))"

definition kb_page :: "int \<Rightarrow> int \<Rightarrow> 'a list \<Rightarrow> 'a list" where
  "kb_page limit offset xs = take (nat (normalizeLimit limit)) (drop (nat (max 0 offset)) xs)"

definition ListCollectionsForReview :: "env \<Rightarrow> string \<Rightarrow> int \<Rightarrow> int \<Rightarrow> kb_tables \<Rightarrow> kb_collection list result" where
  "ListCollectionsForReview E status limit offset s =
     (case db_find E ''ListCollectionsForReview'' 0 (\<lambda>c. trim status \<noteq> '''' \<longrightarrow> kc_review_status c = trim status) (kt_collections s) of
        Inl e \<Rightarrow> Inl e | Inr cs \<Rightarrow> Inr (kb_page limit offset (sort_key (\<lambda>c. - kc_updated_at c) cs)))"

definition ListCollectionsByOwner :: "env \<Rightarrow> uuid \<Rightarrow> kb_tables \<Rightarrow> kb_collection list result" where
  "ListCollectionsByOwner E owner s =
     (case db_find E ''ListCollectionsByOwner'' 0 (\<lambda>c. kc_owner_id c = owner) (kt_collections s) of
        Inl e \<Rightarrow> Inl e | Inr cs \<Rightarrow> Inr (sort_key (\<lambda>c. - kc_created_at c) cs))"

record collections_query =
  qc_q :: string
  qc_owner_id :: "uuid option"
  qc_is_free :: "bool option"
  qc_limit :: int
  qc_offset :: int

text \<open>The filter of the marketplace looks at the status of the collection and not at its review.\<close>

definition published_filter :: "collections_query \<Rightarrow> kb_collection \<Rightarrow> bool" where
  "published_filter q c \<longleftrightarrow>
     kc_status c = ''published''
     \<and> (case qc_owner_id q of None \<Rightarrow> True | Some u \<Rightarrow> u = uuid_nil \<or> kc_owner_id c = u)
     \<and> (case qc_is_free q of None \<Rightarrow> True | Some b \<Rightarrow> kc_is_free c = b)
     \<and> (trim (qc_q q) \<noteq> '''' \<longrightarrow>
          (let pat = ''%'' @ to_lower (trim (qc_q q)) @ ''%'' in
           like_match pat (to_lower (kc_name c)) \<or> like_match pat (to_lower (kc_description c))))"

definition SearchPublishedCollections :: "env \<Rightarrow> collections_query \<Rightarrow> kb_tables \<Rightarrow> kb_collection list result" where
  "SearchPublishedCollections E q s =
     (case db_find E ''SearchPublishedCollections'' 0 (published_filter q) (kt_collections s) of
        Inl e \<Rightarrow> Inl e | Inr cs \<Rightarrow> Inr (kb_page (qc_limit q) (qc_offset q) (sort_key (\<lambda>c. - kc_updated_at c) cs)))"

definition CountPublishedCollections :: "env \<Rightarrow> collections_query \<Rightarrow> kb_tables \<Rightarrow> nat result" where
  "CountPublishedCollections E q s = db_count E ''CountPublishedCollections'' 0 (published_filter q) (kt_collections s)"

definition is_public :: "kb_collection \<Rightarrow> bool" where
  "is_public c \<longleftrightarrow> kc_status c = ''published'' \<and> kc_review_status c = ''approved''"

definition GetPublishedCollection :: "env \<Rightarrow> uuid \<Rightarrow> kb_tables \<Rightarrow> kb_collection result" where
  "GetPublishedCollection E i s =
     db_first E ''GetPublishedCollection'' 0 kc_id (\<lambda>c. kc_id c = i \<and> is_public c) (kt_collections s)"

definition MarkCollectionPublished :: "env \<Rightarrow> uuid \<Rightarrow> kb_tables \<Rightarrow> kb_tables result" where
  "MarkCollectionPublished E i s =
     (case db_update E ''MarkCollectionPublished'' 0 (\<lambda>c. kc_id c = i)
             (\<lambda>c. c\<lparr>kc_status := ''published'', kc_review_status := ''approved'', kc_updated_at := e_now E\<rparr>) (kt_collections s) of
        Inl e \<Rightarrow> Inl e | Inr t \<Rightarrow> Inr (s\<lparr>kt_collections := t\<rparr>))"

definition reviewed :: "env \<Rightarrow> uuid \<Rightarrow> string \<Rightarrow> string \<Rightarrow> kb_collection \<Rightarrow> kb_collection" where
  "reviewed E reviewer status reason c =
     (let c1 = c\<lparr>kc_review_status := status, kc_review_reason := reason, kc_reviewed_by := Some reviewer,
                 kc_reviewed_at := Some (e_now E), kc_updated_at := e_now E\<rparr> in
      if status = ''approved'' then c1\<lparr>kc_status := ''published'', kc_takedown_reason := '''', kc_takedown_at := None\<rparr>
      else if status = ''rejected'' then c1\<lparr>kc_status := ''draft''\<rparr>
      else if status = ''takedown''
      then c1\<lparr>kc_status := ''archived'', kc_takedown_reason := reason, kc_takedown_at := Some (e_now E)\<rparr>
      else c1)"

definition UpdateCollectionReview :: "env \<Rightarrow> uuid \<Rightarrow> uuid \<Rightarrow> string \<Rightarrow> string \<Rightarrow> kb_tables \<Rightarrow> kb_collection result \<times> kb_tables" where
  "UpdateCollectionReview E i reviewer status reason s =
     (case db_update E ''UpdateCollectionReview'' 0 (\<lambda>c. kc_id c = i) (reviewed E reviewer status reason) (kt_collections s) of
        Inl e \<Rightarrow> (Inl e, s)
      | Inr t \<Rightarrow> (let s1 = s\<lparr>kt_collections := t\<rparr> in (GetCollection_repo E i s1, s1)))"

section \<open>Snapshots\<close>

definition NextSnapshotVersion :: "env \<Rightarrow> uuid \<Rightarrow> kb_tables \<Rightarrow> int result" where
  "NextSnapshotVersion E c s =
     (case db_find E ''NextSnapshotVersion'' 0 (\<lambda>z. kz_collection_id z = c) (kt_snapshots s) of
        Inl e \<Rightarrow> Inl e | Inr zs \<Rightarrow> Inr (next_version (map kz_version zs)))"

text \<open>The snapshot and its entries in one transaction.\<close>

fun insert_entries :: "env \<Rightarrow> kb_snapshot_entry list \<Rightarrow> kb_snapshot_entry list \<Rightarrow> kb_snapshot_entry list result" where
  "insert_entries E [] t = Inr t"
| "insert_entries E (x # xs) t =
     (case db_insert E ''CreateSnapshotEntries'' 0 (\<lambda>x y. ke_id y = ke_id x) x t of Inl e \<Rightarrow> Inl e | Inr t' \<Rightarrow> insert_entries E xs t')"

definition CreateSnapshot :: "env \<Rightarrow> kb_snapshot \<Rightarrow> kb_snapshot_entry list \<Rightarrow> kb_tables \<Rightarrow> kb_tables result" where
  "CreateSnapshot E z entries s =
     (case db_insert E ''CreateSnapshot'' 0
             (\<lambda>z x. kz_id x = kz_id z \<or> kz_collection_id x = kz_collection_id z \<and> kz_version x = kz_version z) z (kt_snapshots s) of
        Inl e \<Rightarrow> Inl e
      | Inr t \<Rightarrow>
          (case insert_entries E (map (\<lambda>x. x\<lparr>ke_snapshot_id := kz_id z\<rparr>) entries) (kt_entries s) of
             Inl e \<Rightarrow> Inl e | Inr t' \<Rightarrow> Inr (s\<lparr>kt_snapshots := t, kt_entries := t'\<rparr>)))"

definition ListSnapshots_repo :: "env \<Rightarrow> uuid \<Rightarrow> kb_tables \<Rightarrow> kb_snapshot list result" where
  "ListSnapshots_repo E c s =
     (case db_find E ''ListSnapshots'' 0 (\<lambda>z. kz_collection_id z = c) (kt_snapshots s) of
        Inl e \<Rightarrow> Inl e | Inr zs \<Rightarrow> Inr (sort_key (\<lambda>z. - kz_version z) zs))"

definition GetSnapshot_repo :: "env \<Rightarrow> nat \<Rightarrow> uuid \<Rightarrow> uuid \<Rightarrow> kb_tables \<Rightarrow> kb_snapshot result" where
  "GetSnapshot_repo E n c i s =
     db_first E ''GetSnapshot'' n kz_id (\<lambda>z. kz_id z = i \<and> kz_collection_id z = c) (kt_snapshots s)"

definition ArchiveSnapshot_repo :: "env \<Rightarrow> uuid \<Rightarrow> uuid \<Rightarrow> kb_tables \<Rightarrow> kb_snapshot result \<times> kb_tables" where
  "ArchiveSnapshot_repo E c i s =
     (case db_update E ''ArchiveSnapshot'' 0 (\<lambda>z. kz_id z = i \<and> kz_collection_id z = c)
             (\<lambda>z. z\<lparr>kz_status := ''archived'', kz_archived_at := Some (e_now E)\<rparr>) (kt_snapshots s) of
        Inl e \<Rightarrow> (Inl e, s)
      | Inr t \<Rightarrow> (let s1 = s\<lparr>kt_snapshots := t\<rparr> in (GetSnapshot_repo E 0 c i s1, s1)))"

definition RestoreSnapshot_repo :: "env \<Rightarrow> uuid \<Rightarrow> uuid \<Rightarrow> kb_tables \<Rightarrow> kb_snapshot result \<times> kb_tables" where
  "RestoreSnapshot_repo E c i s =
     (case db_update E ''RestoreSnapshot'' 0 (\<lambda>z. kz_id z = i \<and> kz_collection_id z = c)
             (\<lambda>z. z\<lparr>kz_status := ''active'', kz_archived_at := None\<rparr>) (kt_snapshots s) of
        Inl e \<Rightarrow> (Inl e, s)
      | Inr t \<Rightarrow> (let s1 = s\<lparr>kt_snapshots := t\<rparr> in (GetSnapshot_repo E 0 c i s1, s1)))"

definition GetLatestSnapshot :: "env \<Rightarrow> nat \<Rightarrow> uuid \<Rightarrow> kb_tables \<Rightarrow> kb_snapshot result" where
  "GetLatestSnapshot E n c s =
     db_first E ''GetLatestSnapshot'' n (\<lambda>z. - kz_version z) (\<lambda>z. kz_collection_id z = c \<and> kz_status z = ''active'') (kt_snapshots s)"

definition GetSnapshotByVersion :: "env \<Rightarrow> uuid \<Rightarrow> int \<Rightarrow> kb_tables \<Rightarrow> kb_snapshot result" where
  "GetSnapshotByVersion E c v s =
     db_first E ''GetSnapshotByVersion'' 0 kz_id (\<lambda>z. kz_collection_id z = c \<and> kz_version z = v) (kt_snapshots s)"

definition ListSnapshotEntries :: "env \<Rightarrow> nat \<Rightarrow> uuid \<Rightarrow> kb_tables \<Rightarrow> kb_snapshot_entry list result" where
  "ListSnapshotEntries E n i s =
     (case db_find E ''ListSnapshotEntries'' n (\<lambda>x. ke_snapshot_id x = i) (kt_entries s) of
        Inl e \<Rightarrow> Inl e | Inr xs \<Rightarrow> Inr (sort_key ke_entry_id xs))"

definition GetSnapshotEntry :: "env \<Rightarrow> uuid \<Rightarrow> uuid \<Rightarrow> kb_tables \<Rightarrow> kb_snapshot_entry result" where
  "GetSnapshotEntry E z i s =
     db_first E ''GetSnapshotEntry'' 0 ke_id (\<lambda>x. ke_id x = i \<and> ke_snapshot_id x = z) (kt_entries s)"

section \<open>Moderation reports\<close>

definition CreateModerationReport :: "env \<Rightarrow> kb_report \<Rightarrow> kb_tables \<Rightarrow> kb_tables result" where
  "CreateModerationReport E r s =
     (case db_insert E ''CreateModerationReport'' 0 (\<lambda>r x. km_id x = km_id r) r (kt_reports s) of
        Inl e \<Rightarrow> Inl e | Inr t \<Rightarrow> Inr (s\<lparr>kt_reports := t\<rparr>))"

definition ListModerationReports :: "env \<Rightarrow> string \<Rightarrow> int \<Rightarrow> int \<Rightarrow> kb_tables \<Rightarrow> kb_report list result" where
  "ListModerationReports E status limit offset s =
     (case db_find E ''ListModerationReports'' 0 (\<lambda>r. trim status \<noteq> '''' \<longrightarrow> km_status r = trim status) (kt_reports s) of
        Inl e \<Rightarrow> Inl e | Inr rs \<Rightarrow> Inr (kb_page limit offset (sort_key (\<lambda>r. - km_created_at r) rs)))"

definition ResolveModerationReport_repo :: "env \<Rightarrow> uuid \<Rightarrow> uuid \<Rightarrow> string \<Rightarrow> string \<Rightarrow> kb_tables \<Rightarrow> kb_report result \<times> kb_tables" where
  "ResolveModerationReport_repo E i admin status resolution s =
     (case db_update E ''ResolveModerationReport'' 0 (\<lambda>r. km_id r = i)
             (\<lambda>r. r\<lparr>km_status := status, km_resolution := resolution, km_resolved_by := Some admin, km_resolved_at := Some (e_now E)\<rparr>)
             (kt_reports s) of
        Inl e \<Rightarrow> (Inl e, s)
      | Inr t \<Rightarrow> (db_first E ''GetModerationReport'' 0 km_id (\<lambda>r. km_id r = i) t, s\<lparr>kt_reports := t\<rparr>))"

section \<open>Subscriptions\<close>

definition kb_is :: "uuid \<Rightarrow> uuid \<Rightarrow> kb_subscription \<Rightarrow> bool" where
  "kb_is u c b \<longleftrightarrow> kb_user_id b = u \<and> kb_collection_id b = c"

text \<open>Creating gives the row its identifier; updating leaves the caller's row without one.\<close>

definition UpsertSubscription :: "env \<Rightarrow> kb_subscription \<Rightarrow> kb_tables \<Rightarrow> (kb_subscription \<times> kb_tables) result" where
  "UpsertSubscription E n s =
     (case db_first E ''FindSubscription'' 0 kb_id (kb_is (kb_user_id n) (kb_collection_id n)) (kt_subscriptions s) of
        Inl e \<Rightarrow>
          if e \<noteq> ErrRecordNotFound then Inl e
          else
            let new = n\<lparr>kb_id := e_uuid E ''kb_subscriptions'' 0\<rparr> in
            (case db_insert E ''CreateSubscription'' 0 (\<lambda>b x. kb_id x = kb_id b \<or> kb_is (kb_user_id b) (kb_collection_id b) x)
                    new (kt_subscriptions s) of
               Inl e \<Rightarrow> Inl e | Inr t \<Rightarrow> Inr (new, s\<lparr>kt_subscriptions := t\<rparr>))
      | Inr old \<Rightarrow>
          (case db_update E ''UpdateSubscription'' 0 (\<lambda>b. kb_id b = kb_id old)
                  (\<lambda>b. b\<lparr>kb_snapshot_id := kb_snapshot_id n, kb_track_mode := kb_track_mode n, kb_pinned_version := kb_pinned_version n,
                         kb_status := kb_status n, kb_started_at := kb_started_at n, kb_expires_at := kb_expires_at n,
                         kb_entitlement_type := kb_entitlement_type n, kb_renewal_status := kb_renewal_status n,
                         kb_period_start := kb_period_start n, kb_period_end := kb_period_end n, kb_granted_by := kb_granted_by n,
                         kb_grant_reason := kb_grant_reason n, kb_updated_at := e_now E\<rparr>) (kt_subscriptions s) of
             Inl e \<Rightarrow> Inl e | Inr t \<Rightarrow> Inr (n, s\<lparr>kt_subscriptions := t\<rparr>)))"

definition GetActiveSubscription :: "env \<Rightarrow> uuid \<Rightarrow> uuid \<Rightarrow> kb_tables \<Rightarrow> kb_subscription result" where
  "GetActiveSubscription E u c s =
     db_first E ''GetActiveSubscription'' 0 kb_id (\<lambda>b. kb_is u c b \<and> kb_status b = ''active'') (kt_subscriptions s)"

definition ListSubscriptionsByUser :: "env \<Rightarrow> uuid \<Rightarrow> kb_tables \<Rightarrow> kb_subscription list result" where
  "ListSubscriptionsByUser E u s =
     (case db_find E ''ListSubscriptionsByUser'' 0 (\<lambda>b. kb_user_id b = u) (kt_subscriptions s) of
        Inl e \<Rightarrow> Inl e | Inr bs \<Rightarrow> Inr (sort_key (\<lambda>b. - kb_updated_at b) bs))"

definition CountSubscriptionsByStatus :: "env \<Rightarrow> nat \<Rightarrow> uuid \<Rightarrow> string \<Rightarrow> kb_tables \<Rightarrow> nat result" where
  "CountSubscriptionsByStatus E n c status s =
     db_count E ''CountSubscriptionsByStatus'' n (\<lambda>b. kb_collection_id b = c \<and> kb_status b = status) (kt_subscriptions s)"

definition ExpireSubscriptions_repo :: "env \<Rightarrow> time \<Rightarrow> kb_tables \<Rightarrow> nat result \<times> kb_tables" where
  "ExpireSubscriptions_repo E now s =
     (let P = (\<lambda>b. kb_status b = ''active'' \<and> (case kb_expires_at b of None \<Rightarrow> False | Some t \<Rightarrow> t \<le> now)) in
      case db_update E ''ExpireSubscriptions'' 0 P
             (\<lambda>b. b\<lparr>kb_status := ''expired'', kb_renewal_status := ''expired'', kb_updated_at := e_now E\<rparr>) (kt_subscriptions s) of
        Inl e \<Rightarrow> (Inl e, s)
      | Inr t \<Rightarrow> (Inr (count_where P (kt_subscriptions s)), s\<lparr>kt_subscriptions := t\<rparr>))"

definition CancelSubscription_repo :: "env \<Rightarrow> uuid \<Rightarrow> uuid \<Rightarrow> kb_tables \<Rightarrow> kb_tables result" where
  "CancelSubscription_repo E u c s =
     (let P = (\<lambda>b. kb_is u c b \<and> kb_status b = ''active'') in
      case db_update E ''CancelSubscription'' 0 P (\<lambda>b. b\<lparr>kb_status := ''cancelled'', kb_updated_at := e_now E\<rparr>) (kt_subscriptions s) of
        Inl e \<Rightarrow> Inl e
      | Inr t \<Rightarrow> if count_where P (kt_subscriptions s) = 0 then Inl ErrRecordNotFound else Inr (s\<lparr>kt_subscriptions := t\<rparr>))"

section \<open>Usage counts\<close>

definition CountUsageByOperations :: "env \<Rightarrow> nat \<Rightarrow> uuid \<Rightarrow> string list \<Rightarrow> kb_usage list \<Rightarrow> nat result" where
  "CountUsageByOperations E n c operations usage =
     (if operations = [] then Inr 0
      else db_count E ''CountUsageByOperations'' n (\<lambda>r. ku_collection_id r = c \<and> ku_operation_type r \<in> set operations) usage)"

definition KBManifestDownloadOperations :: "string list" where
  "KBManifestDownloadOperations = [''manifest_download_url.created.public'', ''manifest_download_url.created.installed'']"

definition KBContentDownloadOperations :: "string list" where
  "KBContentDownloadOperations = [''entry_content_download_url.created.installed'']"

text \<open>The numbers of manifest and of content downloads.\<close>

definition UsageCounts :: "env \<Rightarrow> nat \<Rightarrow> uuid \<Rightarrow> kb_usage list \<Rightarrow> (nat \<times> nat) result" where
  "UsageCounts E n c usage =
     (case CountUsageByOperations E (2 * n) c KBManifestDownloadOperations usage of
        Inl e \<Rightarrow> Inl e
      | Inr manifest \<Rightarrow>
          (case CountUsageByOperations E (2 * n + 1) c KBContentDownloadOperations usage of
             Inl e \<Rightarrow> Inl e | Inr content \<Rightarrow> Inr (manifest, content)))"

end
