(* ===== verification/KBSearch.thy ===== *)
theory KBSearch
  imports KBCatalog EmbeddingJobs
begin

text \<open>
  Search over the knowledge hub (\<open>internal/service/kb_search.go\<close> over
  \<open>internal/repository/kb_search_repo.go\<close>): indexing a snapshot, and the metadata, lexical and hybrid modes
  of a server whose embedding provider is disabled, which is the default. The scores of these modes are sums of
  whole numbers.
\<close>

section \<open>Indexing\<close>

definition buildKBSearchContentText :: "kb_snapshot_entry \<Rightarrow> string \<Rightarrow> string" where
  "buildKBSearchContentText x body =
     join [CHR 0x0A] ([ke_title x, ke_summary x, ke_entry_id x] @ (if trim body = '''' then [] else [body]))"

definition snapshotEntryContentHash :: "env \<Rightarrow> kb_snapshot \<Rightarrow> kb_snapshot_entry \<Rightarrow> string" where
  "snapshotEntryContentHash E z x =
     (let own = (if trim (kz_content_hash z) = '''' then e_uuid_str E (ke_id x)
                 else kz_content_hash z @ '':'' @ e_uuid_str E (ke_id x)) in
      case jget (ke_metadata x) ''content_hash'' of AStr h \<Rightarrow> if trim h = '''' then own else h | _ \<Rightarrow> own)"

definition search_document :: "env \<Rightarrow> uuid \<Rightarrow> kb_snapshot \<Rightarrow> (string \<Rightarrow> string) \<Rightarrow> nat \<Rightarrow> kb_snapshot_entry \<Rightarrow> search_doc" where
  "search_document E collectionID z content k x =
     \<lparr>sd_id = e_uuid E ''kb_search_documents'' k, sd_collection_id = collectionID, sd_snapshot_id = kz_id z,
      sd_snapshot_entry_id = ke_id x, sd_entry_id = ke_entry_id x, sd_title = ke_title x, sd_summary = ke_summary x,
      sd_tags = ke_tags x, sd_metadata = ke_metadata x, sd_content_text = buildKBSearchContentText x (content (ke_entry_id x)),
      sd_content_hash = snapshotEntryContentHash E z x, sd_tokens = ke_tokens x, sd_status = ''active'', sd_indexed_at = e_now E\<rparr>"

text \<open>\<open>provider\<close> is the name, the model and the dimensions of the embedding provider, unless it is disabled.\<close>

definition IndexSnapshot :: "env \<Rightarrow> (string \<times> string \<times> int) option \<Rightarrow> uuid \<Rightarrow> kb_snapshot \<Rightarrow> kb_snapshot_entry list
    \<Rightarrow> (string \<Rightarrow> string) \<Rightarrow> index_state \<Rightarrow> index_state result" where
  "IndexSnapshot E provider collectionID z entries content s =
     ReplaceSnapshotDocumentsWithEmbeddingJobs E (kz_id z)
       (map (\<lambda>(k, x). search_document E collectionID z content k x) (enumerate 0 entries)) provider s"

section \<open>Searching\<close>

record search_input =
  si_user_id :: uuid
  si_q :: string
  si_mode :: string
  si_collection_id :: "uuid option"
  si_snapshot_id :: "uuid option"
  si_limit :: int
  si_offset :: int

record search_item =
  sj_collection_id :: uuid
  sj_snapshot_id :: uuid
  sj_snapshot_entry_id :: uuid
  sj_entry_id :: string
  sj_title :: string
  sj_summary :: string
  sj_tags :: "string list"
  sj_tokens :: int
  sj_score :: int
  sj_lexical_score :: "int option"

record search_result =
  sl_mode :: string
  sl_semantic_available :: bool
  sl_semantic_unavailable_reason :: string
  sl_items :: "search_item list"
  sl_limit :: int
  sl_offset :: int
  sl_total :: nat

definition search_filter :: "search_input \<Rightarrow> search_doc \<Rightarrow> bool" where
  "search_filter q d \<longleftrightarrow>
     sd_status d = ''active''
     \<and> (case si_collection_id q of None \<Rightarrow> True | Some c \<Rightarrow> c = uuid_nil \<or> sd_collection_id d = c)
     \<and> (case si_snapshot_id q of None \<Rightarrow> True | Some z \<Rightarrow> z = uuid_nil \<or> sd_snapshot_id d = z)
     \<and> (trim (si_q q) \<noteq> '''' \<longrightarrow>
          (let pat = ''%'' @ to_lower (trim (si_q q)) @ ''%'' in
           like_match pat (to_lower (sd_title d)) \<or> like_match pat (to_lower (sd_summary d))
           \<or> like_match pat (to_lower (sd_content_text d)) \<or> like_match pat (to_lower (sd_entry_id d))))"

definition SearchDocuments :: "env \<Rightarrow> search_input \<Rightarrow> index_state \<Rightarrow> search_doc list result" where
  "SearchDocuments E q s =
     (case db_find E ''SearchDocuments'' 0 (search_filter q) (ix_docs s) of
        Inl e \<Rightarrow> Inl e | Inr ds \<Rightarrow> Inr (kb_page (si_limit q) (si_offset q) (sort_key (\<lambda>d. - sd_indexed_at d) ds)))"

definition CountDocuments :: "env \<Rightarrow> search_input \<Rightarrow> index_state \<Rightarrow> nat result" where
  "CountDocuments E q s = db_count E ''CountDocuments'' 0 (search_filter q) (ix_docs s)"

definition lexicalScore :: "string \<Rightarrow> search_doc \<Rightarrow> int" where
  "lexicalScore text_q d =
     (let q = to_lower (trim text_q) in
      if q = '''' then 1
      else (if contains_str (to_lower (sd_title d)) q then 3 else 0) + (if contains_str (to_lower (sd_summary d)) q then 2 else 0)
         + (if contains_str (to_lower (sd_content_text d)) q then 1 else 0))"

definition normalizeAPILimit :: "int \<Rightarrow> int" where
  "normalizeAPILimit limit = (if limit \<le> 0 \<or> 100 < limit then 20 else limit)"

definition normalizeOffset :: "int \<Rightarrow> int" where
  "normalizeOffset offset = (if offset < 0 then 0 else offset)"

definition semantic_unavailable :: string where
  "semantic_unavailable = ''kb semantic search unavailable''"

definition lexical_item :: "string \<Rightarrow> search_doc \<Rightarrow> search_item" where
  "lexical_item q d =
     \<lparr>sj_collection_id = sd_collection_id d, sj_snapshot_id = sd_snapshot_id d, sj_snapshot_entry_id = sd_snapshot_entry_id d,
      sj_entry_id = sd_entry_id d, sj_title = sd_title d, sj_summary = sd_summary d, sj_tags = sd_tags d, sj_tokens = sd_tokens d,
      sj_score = lexicalScore q d, sj_lexical_score = Some (lexicalScore q d)\<rparr>"

definition searchLexical :: "env \<Rightarrow> search_input \<Rightarrow> bool \<Rightarrow> index_state \<Rightarrow> search_result result" where
  "searchLexical E input hybrid s =
     (case SearchDocuments E input s of
        Inl e \<Rightarrow> Inl e
      | Inr docs \<Rightarrow>
          (case CountDocuments E input s of
             Inl e \<Rightarrow> Inl e
           | Inr n \<Rightarrow>
               Inr \<lparr>sl_mode = (if hybrid then ''hybrid'' else ''lexical''), sl_semantic_available = False,
                 sl_semantic_unavailable_reason = (if hybrid then semantic_unavailable else ''''),
                 sl_items = map (lexical_item (si_q input)) docs, sl_limit = normalizeAPILimit (si_limit input),
                 sl_offset = normalizeOffset (si_offset input), sl_total = n\<rparr>))"

text \<open>The collections without an active snapshot are left out, and still counted.\<close>

fun metadata_items :: "env \<Rightarrow> nat \<Rightarrow> kb_collection list \<Rightarrow> kb_tables \<Rightarrow> search_item list result" where
  "metadata_items E n [] t = Inr []"
| "metadata_items E n (c # cs) t =
     (case GetLatestSnapshot E n (kc_id c) t of
        Inl e \<Rightarrow> if e = ErrRecordNotFound then metadata_items E (n + 1) cs t else Inl e
      | Inr z \<Rightarrow>
          (case metadata_items E (n + 1) cs t of
             Inl e \<Rightarrow> Inl e
           | Inr items \<Rightarrow>
               Inr (\<lparr>sj_collection_id = kc_id c, sj_snapshot_id = kz_id z, sj_snapshot_entry_id = uuid_nil, sj_entry_id = '''',
                  sj_title = kc_name c, sj_summary = kc_description c, sj_tags = [], sj_tokens = kz_total_tokens z, sj_score = 1,
                  sj_lexical_score = None\<rparr> # items)))"

definition searchMetadata :: "env \<Rightarrow> search_input \<Rightarrow> kb_tables \<Rightarrow> search_result result" where
  "searchMetadata E input t =
     (let q = \<lparr>qc_q = si_q input, qc_owner_id = None, qc_is_free = None, qc_limit = si_limit input, qc_offset = si_offset input\<rparr> in
      case SearchPublishedCollections E q t of
        Inl e \<Rightarrow> Inl e
      | Inr cs \<Rightarrow>
          (case CountPublishedCollections E q t of
             Inl e \<Rightarrow> Inl e
           | Inr n \<Rightarrow>
               (case metadata_items E 0 cs t of
                  Inl e \<Rightarrow> Inl e
                | Inr items \<Rightarrow>
                    Inr \<lparr>sl_mode = ''metadata'', sl_semantic_available = False, sl_semantic_unavailable_reason = '''',
                      sl_items = items, sl_limit = normalizeAPILimit (si_limit input),
                      sl_offset = normalizeOffset (si_offset input), sl_total = n\<rparr>)))"

definition normalizeSearchMode :: "string \<Rightarrow> string" where
  "normalizeSearchMode mode =
     (let m = to_lower (trim mode) in if m \<in> {''metadata'', ''semantic'', ''hybrid'', ''lexical''} then m else ''lexical'')"

text \<open>With the provider disabled a semantic search is refused and a hybrid one is the lexical one. Only a lexical
  search with hits is recorded as usage, and whatever the recording reports is ignored.\<close>

definition Search :: "env \<Rightarrow> search_input \<Rightarrow> kb_tables \<Rightarrow> index_state \<Rightarrow> billing_state \<Rightarrow> search_result result \<times> billing_state" where
  "Search E input t s b =
     (let mode = normalizeSearchMode (si_mode input) in
      if mode = ''semantic'' then (Inl (Errorf semantic_unavailable), b)
      else if mode = ''metadata'' then (searchMetadata E input t, b)
      else if mode = ''hybrid'' then (searchLexical E input True s, b)
      else case searchLexical E input False s of
        Inl e \<Rightarrow> (Inl e, b)
      | Inr r \<Rightarrow>
          (Inr r,
           case sl_items r of
             [] \<Rightarrow> b
           | i # _ \<Rightarrow>
               if si_user_id input = uuid_nil then b
               else snd (RecordUsage E 0
                      \<lparr>ru_user_id = si_user_id input, ru_owner_id = uuid_nil, ru_collection_id = sj_collection_id i,
                       ru_snapshot_id = sj_snapshot_id i, ru_snapshot_entry_id = None, ru_operation_type = ''search.lexical'',
                       ru_tokens_used = 0, ru_is_free = True, ru_unit_price = 0, ru_currency = ''''\<rparr> b)))"

end
