(* ===== verification/KBHub.thy ===== *)
theory KBHub
  imports KBSearch Knowledge
begin

text \<open>
  The knowledge hub (\<open>internal/service/kb_hub.go\<close>): owners publish snapshots of their knowledge entries as
  numbered versions of a collection, users install a collection and read the snapshot their subscription gives
  them. The server always builds the service with its billing and search services. The operations of the service
  are not transactions: an error leaves what was written before it.
\<close>

section \<open>State and configuration\<close>

record kb_hub_state =
  kh_kb :: kb_tables
  kh_know :: know_state
  kh_objects :: object_state
  kh_billing :: billing_state
  kh_index :: index_state

definition kb_hub_init :: kb_hub_state where
  "kb_hub_init = \<lparr>kh_kb = kb_init, kh_know = know_init, kh_objects = objects_init, kh_billing = billing_init, kh_index = index_init\<rparr>"

record kb_manifest_entry =
  kf_entry_id :: string
  kf_title :: string
  kf_summary :: string
  kf_tags :: "string list option"
  kf_metadata :: json_map
  kf_version :: int
  kf_content_hash :: string
  kf_content_object_uri :: string
  kf_tokens :: int
  kf_source_uri :: string
  kf_updated_at :: time

record kb_manifest =
  kw_schema_version :: int
  kw_collection_id :: string
  kw_snapshot_id :: string
  kw_version :: int
  kw_published_at :: time
  kw_entry_count :: int
  kw_total_tokens :: int
  kw_entries :: "kb_manifest_entry list"

text \<open>\<open>json.MarshalIndent\<close> of a manifest, Go's text of numbers, the order in which a loop ranges over the
  keys of a map, and the embedding provider jobs are queued for.\<close>

record hub_config =
  kg_objects :: object_config
  kg_backend :: storage_backend
  kg_enforcer :: "enforcement_config option"
  kg_marshal :: "kb_manifest \<Rightarrow> string result"
  kg_format :: "any \<Rightarrow> string"
  kg_range :: "string list \<Rightarrow> string list"
  kg_provider :: "(string \<times> string \<times> int) option"

text \<open>The environment of the \<open>k\<close>-th nested call of another service in one request.\<close>

definition nth_call :: "env \<Rightarrow> nat \<Rightarrow> env" where
  "nth_call E k = E\<lparr>e_uuid := \<lambda>t n. e_uuid E t (k + n), e_db := \<lambda>op n. e_db E op (k + n)\<rparr>"

definition enforceKBGovernance :: "env \<Rightarrow> hub_config \<Rightarrow> uuid \<Rightarrow> string \<Rightarrow> string \<Rightarrow> string \<Rightarrow> json_map \<Rightarrow> kb_hub_state
    \<Rightarrow> unit result \<times> kb_hub_state" where
  "enforceKBGovernance E C actor subjectID capability risk context s =
     (case kg_enforcer C of
        None \<Rightarrow> (Inr (), s)
      | Some cfg \<Rightarrow>
          (case Enforce E cfg
                  \<lparr>fi_actor_user_id = Some actor, fi_actor_device_id = '''', fi_subject_type = ''kb_operation'', fi_subject_id = subjectID,
                   fi_capability_key = capability, fi_risk_level = risk, fi_context = Some context, fi_approval_token = '''',
                   fi_approval_consumed_by = ''''\<rparr> (obs_gov (kh_objects s)) of
             (_, err, g) \<Rightarrow>
               (case err of None \<Rightarrow> Inr () | Some e \<Rightarrow> Inl e, s\<lparr>kh_objects := (kh_objects s)\<lparr>obs_gov := g\<rparr>\<rparr>)))"

definition map_kb :: "(kb_tables \<Rightarrow> 'a result \<times> kb_tables) \<Rightarrow> kb_hub_state \<Rightarrow> 'a result \<times> kb_hub_state" where
  "map_kb f s = (case f (kh_kb s) of (r, t) \<Rightarrow> (r, s\<lparr>kh_kb := t\<rparr>))"

text \<open>A missing row reads as the service's own error.\<close>

definition not_found_as :: "error \<Rightarrow> 'a result \<Rightarrow> 'a result" where
  "not_found_as e r = (case r of Inl e' \<Rightarrow> Inl (if e' = ErrRecordNotFound then e else e') | Inr x \<Rightarrow> Inr x)"

section \<open>Collections\<close>

record create_collection_input =
  lc_name :: string
  lc_description :: string
  lc_is_free :: "bool option"

definition kb_CreateCollection :: "env \<Rightarrow> uuid \<Rightarrow> create_collection_input \<Rightarrow> kb_hub_state \<Rightarrow> kb_collection result \<times> kb_hub_state" where
  "kb_CreateCollection E owner input s =
     (if trim (lc_name input) = '''' then (Inl (Wrapf ''name is required'' ErrKBInvalid), s)
      else
        let c = \<lparr>kc_id = e_uuid E ''kb_collections'' 0, kc_created_at = e_now E, kc_updated_at = e_now E, kc_owner_id = owner,
              kc_name = trim (lc_name input), kc_description = trim (lc_description input), kc_status = ''draft'',
              kc_review_status = ''pending'', kc_review_reason = '''', kc_reviewed_by = None, kc_reviewed_at = None,
              kc_takedown_reason = '''', kc_takedown_at = None, kc_source_declaration = '''', kc_copyright_declaration = '''',
              kc_moderation_metadata = None, kc_pricing_model = '''', kc_monthly_price = 0,
              kc_is_free = (case lc_is_free input of None \<Rightarrow> True | Some b \<Rightarrow> b), kc_platform_min_price = 0,
              kc_platform_max_price = 0, kc_entitlement_mode = ''free'', kc_trial_days = 0, kc_billing_interval = ''month'',
              kc_currency = ''CNY''\<rparr>
        in (case CreateCollection_repo E c (kh_kb s) of Inl e \<Rightarrow> (Inl e, s) | Inr t \<Rightarrow> (Inr c, s\<lparr>kh_kb := t\<rparr>)))"

definition kb_GetCollection :: "env \<Rightarrow> uuid \<Rightarrow> uuid \<Rightarrow> kb_hub_state \<Rightarrow> kb_collection result" where
  "kb_GetCollection E owner i s = not_found_as ErrKBCollectionNotFound (GetCollectionForOwner E owner i (kh_kb s))"

text \<open>The latest snapshot comes with it, if there is one.\<close>

definition GetPublicCollection :: "env \<Rightarrow> uuid \<Rightarrow> kb_hub_state \<Rightarrow> (kb_collection \<times> kb_snapshot option) result" where
  "GetPublicCollection E i s =
     (case GetPublishedCollection E i (kh_kb s) of
        Inl e \<Rightarrow> Inl (if e = ErrRecordNotFound then ErrKBCollectionNotFound else e)
      | Inr c \<Rightarrow>
          (case GetLatestSnapshot E 0 i (kh_kb s) of
             Inl e \<Rightarrow> if e = ErrRecordNotFound then Inr (c, None) else Inl e
           | Inr z \<Rightarrow> Inr (c, Some z)))"

record declarations_input =
  ld_source :: string
  ld_copyright :: string
  ld_metadata :: "json_map option"

definition UpdateCollectionDeclarations :: "env \<Rightarrow> uuid \<Rightarrow> uuid \<Rightarrow> declarations_input \<Rightarrow> kb_hub_state \<Rightarrow> kb_collection result \<times> kb_hub_state" where
  "UpdateCollectionDeclarations E owner i input s =
     (case kb_GetCollection E owner i s of
        Inl e \<Rightarrow> (Inl e, s)
      | Inr c \<Rightarrow>
          let c' = c\<lparr>kc_source_declaration := trim (ld_source input), kc_copyright_declaration := trim (ld_copyright input),
                kc_moderation_metadata := (case ld_metadata input of None \<Rightarrow> kc_moderation_metadata c | Some m \<Rightarrow> Some m),
                kc_review_status := ''pending'', kc_review_reason := '''', kc_reviewed_by := None, kc_reviewed_at := None\<rparr>
          in (case UpdateCollection E c' (kh_kb s) of Inl e \<Rightarrow> (Inl e, s) | Inr (c'', t) \<Rightarrow> (Inr c'', s\<lparr>kh_kb := t\<rparr>)))"

definition ReviewCollection :: "env \<Rightarrow> hub_config \<Rightarrow> uuid \<Rightarrow> uuid \<Rightarrow> string \<Rightarrow> string \<Rightarrow> kb_hub_state \<Rightarrow> kb_collection result \<times> kb_hub_state" where
  "ReviewCollection E C admin i review_status reason s =
     (let status = trim review_status in
      if status \<notin> {''approved'', ''rejected'', ''takedown''}
      then (Inl (Wrapf ''review_status must be approved, rejected, or takedown'' ErrKBInvalid), s)
      else case enforceKBGovernance E C admin (e_uuid_str E i) (''kb.collection.review.'' @ status) ''high''
                  [(''collection_id'', AStr (e_uuid_str E i)), (''review_status'', AStr status), (''reason'', AStr (trim reason))] s of
        (Inl e, s1) \<Rightarrow> (Inl e, s1)
      | (Inr _, s1) \<Rightarrow>
          (case map_kb (UpdateCollectionReview E i admin status (trim reason)) s1 of
             (r, s2) \<Rightarrow> (not_found_as ErrKBCollectionNotFound r, s2)))"

definition ReportCollection :: "env \<Rightarrow> uuid \<Rightarrow> uuid \<Rightarrow> string \<Rightarrow> string \<Rightarrow> kb_hub_state \<Rightarrow> kb_report result \<times> kb_hub_state" where
  "ReportCollection E reporter i reason detail s =
     (if reporter = uuid_nil then (Inl (Wrapf ''reporter is required'' ErrKBInvalid), s)
      else case GetCollection_repo E i (kh_kb s) of
        Inl e \<Rightarrow> (Inl (if e = ErrRecordNotFound then ErrKBCollectionNotFound else e), s)
      | Inr _ \<Rightarrow>
          if trim reason = '''' then (Inl (Wrapf ''reason is required'' ErrKBInvalid), s)
          else
            let r = \<lparr>km_id = e_uuid E ''kb_moderation_reports'' 0, km_created_at = e_now E, km_collection_id = i,
                  km_reporter_id = reporter, km_reason = trim reason, km_detail = trim detail, km_status = ''open'',
                  km_resolved_by = None, km_resolved_at = None, km_resolution = ''''\<rparr>
            in (case CreateModerationReport E r (kh_kb s) of Inl e \<Rightarrow> (Inl e, s) | Inr t \<Rightarrow> (Inr r, s\<lparr>kh_kb := t\<rparr>)))"

definition ResolveModerationReport :: "env \<Rightarrow> uuid \<Rightarrow> uuid \<Rightarrow> string \<Rightarrow> string \<Rightarrow> kb_hub_state \<Rightarrow> kb_report result \<times> kb_hub_state" where
  "ResolveModerationReport E admin i status resolution s =
     (let st = trim status in
      if st \<noteq> ''resolved'' \<and> st \<noteq> ''dismissed'' then (Inl (Wrapf ''status must be resolved or dismissed'' ErrKBInvalid), s)
      else map_kb (ResolveModerationReport_repo E i admin st (trim resolution)) s)"

section \<open>Prices\<close>

record pricing_input =
  lp_pricing_model :: string
  lp_monthly_price :: int
  lp_is_free :: "bool option"
  lp_platform_min_price :: int
  lp_platform_max_price :: int
  lp_entitlement_mode :: string
  lp_billing_interval :: string
  lp_trial_days :: int
  lp_currency :: string
  lp_metadata :: "json_map option"

record pricing =
  pz_is_free :: bool
  pz_model :: string
  pz_price :: int
  pz_entitlement :: string
  pz_interval :: string
  pz_currency :: string

text \<open>What the input asks for, with the checks of the operation in their order.\<close>

definition priced :: "bool \<Rightarrow> pricing_input \<Rightarrow> pricing result" where
  "priced was_free input =
     (let free = (case lp_is_free input of None \<Rightarrow> was_free | Some b \<Rightarrow> b);
          model = (if free then ''free'' else if trim (lp_pricing_model input) = '''' then ''monthly'' else trim (lp_pricing_model input));
          price = (if free then 0 else lp_monthly_price input);
          mode = normalizeEntitlement (lp_entitlement_mode input);
          entitlement = (if trim (lp_entitlement_mode input) = '''' then (if free then ''free'' else ''paid'') else mode);
          interval = normalizeBillingInterval (lp_billing_interval input) entitlement
      in if \<not> free \<and> model \<noteq> ''monthly'' \<and> model \<noteq> ''token''
         then Inl (Wrapf ''pricing_model must be monthly or token'' ErrKBInvalid)
         else if \<not> free \<and> price \<le> 0 then Inl (Wrapf ''monthly_price must be positive for paid collections'' ErrKBInvalid)
         else if \<not> free \<and> 0 < lp_platform_min_price input \<and> price < lp_platform_min_price input
         then Inl (Wrapf ''monthly_price below platform minimum'' ErrKBInvalid)
         else if \<not> free \<and> 0 < lp_platform_max_price input \<and> lp_platform_max_price input < price
         then Inl (Wrapf ''monthly_price above platform maximum'' ErrKBInvalid)
         else if trim (lp_entitlement_mode input) \<noteq> '''' \<and> mode = '''' then Inl (Wrapf ''invalid entitlement_mode'' ErrKBInvalid)
         else if interval = '''' then Inl (Wrapf ''invalid billing_interval'' ErrKBInvalid)
         else Inr \<lparr>pz_is_free = free \<or> unpaid entitlement, pz_model = (if unpaid entitlement then ''free'' else model),
                pz_price = (if unpaid entitlement then 0 else price), pz_entitlement = entitlement, pz_interval = interval,
                pz_currency = (if trim (lp_currency input) = '''' then ''CNY'' else trim (lp_currency input))\<rparr>)"

definition set_price :: "pricing_input \<Rightarrow> pricing \<Rightarrow> kb_collection \<Rightarrow> kb_collection" where
  "set_price input p c =
     c\<lparr>kc_is_free := pz_is_free p, kc_pricing_model := pz_model p, kc_monthly_price := pz_price p,
       kc_platform_min_price := lp_platform_min_price input, kc_platform_max_price := lp_platform_max_price input,
       kc_entitlement_mode := pz_entitlement p, kc_billing_interval := pz_interval p, kc_trial_days := lp_trial_days input,
       kc_currency := pz_currency p\<rparr>"

definition UpdateCollectionPricing :: "env \<Rightarrow> hub_config \<Rightarrow> uuid \<Rightarrow> uuid \<Rightarrow> pricing_input \<Rightarrow> kb_hub_state \<Rightarrow> kb_collection result \<times> kb_hub_state" where
  "UpdateCollectionPricing E C owner i input s =
     (case kb_GetCollection E owner i s of
        Inl e \<Rightarrow> (Inl e, s)
      | Inr c \<Rightarrow>
          (case priced (kc_is_free c) input of
             Inl e \<Rightarrow> (Inl e, s)
           | Inr p \<Rightarrow>
               (case enforceKBGovernance E C owner (e_uuid_str E i) ''kb.collection.pricing.update'' ''high''
                       [(''collection_id'', AStr (e_uuid_str E i)), (''pricing_model'', AStr (pz_model p)),
                        (''monthly_price'', AInt (pz_price p)), (''entitlement_mode'', AStr (pz_entitlement p)),
                        (''billing_interval'', AStr (pz_interval p)), (''currency'', AStr (pz_currency p))] s of
                  (Inl e, s1) \<Rightarrow> (Inl e, s1)
                | (Inr _, s1) \<Rightarrow>
                    (case UpdateCollection E (set_price input p c) (kh_kb s1) of
                       Inl e \<Rightarrow> (Inl e, s1)
                     | Inr (c', t) \<Rightarrow>
                         let s2 = s1\<lparr>kh_kb := t\<rparr> in
                         (case UpsertBillingPlan E
                                 \<lparr>ul_collection_id = i, ul_entitlement_type = pz_entitlement p, ul_billing_interval = pz_interval p,
                                  ul_price = pz_price p, ul_currency = pz_currency p, ul_trial_days = lp_trial_days input,
                                  ul_metadata = lp_metadata input\<rparr> (kh_billing s2) of
                            (Inl e, b) \<Rightarrow> (Inl e, s2\<lparr>kh_billing := b\<rparr>)
                          | (Inr _, b) \<Rightarrow> (Inr c', s2\<lparr>kh_billing := b\<rparr>))))))"

section \<open>Snapshots\<close>

text \<open>\<open>utf8.RuneCountInString\<close>: the length of the first rune; an invalid byte counts as one.\<close>

definition is_cont :: "char \<Rightarrow> bool" where
  "is_cont c \<longleftrightarrow> (let n = (of_char c :: nat) in 128 \<le> n \<and> n < 192)"

definition cont_in :: "nat \<Rightarrow> nat \<Rightarrow> string \<Rightarrow> bool" where
  "cont_in lo hi s = (case s of [] \<Rightarrow> False | c # _ \<Rightarrow> (let n = (of_char c :: nat) in lo \<le> n \<and> n \<le> hi))"

fun rune_size :: "string \<Rightarrow> nat" where
  "rune_size [] = 0"
| "rune_size (c # s) =
     (let n = (of_char c :: nat); conts = (\<lambda>k. k \<le> length s \<and> list_all is_cont (take k s)) in
      if 194 \<le> n \<and> n \<le> 223 \<and> conts 1 then 2
      else if 224 \<le> n \<and> n \<le> 239 \<and> conts 2 \<and> cont_in (if n = 224 then 160 else 128) (if n = 237 then 159 else 191) s then 3
      else if 240 \<le> n \<and> n \<le> 244 \<and> conts 3 \<and> cont_in (if n = 240 then 144 else 128) (if n = 244 then 143 else 191) s then 4
      else 1)"

function rune_count :: "string \<Rightarrow> nat" where
  "rune_count s = (if s = [] then 0 else 1 + rune_count (drop (rune_size s) s))"
  by pat_completeness auto

termination
proof (relation "measure length")
  fix s :: string
  assume "s \<noteq> []"
  then have "0 < rune_size s" by (cases s) (simp_all add: Let_def)
  with \<open>s \<noteq> []\<close> show "(drop (rune_size s) s, s) \<in> measure length" by simp
qed simp

declare rune_count.simps [simp del]

definition estimateTokens :: "string \<Rightarrow> int" where
  "estimateTokens content = (if trim content = '''' then 0 else int ((rune_count content + 3) div 4))"

definition trim_slashes :: "string \<Rightarrow> string" where
  "trim_slashes s = rev (dropWhile (\<lambda>c. c = CHR ''/'') (rev (dropWhile (\<lambda>c. c = CHR ''/'') s)))"

definition safeEntryFilename :: "string \<Rightarrow> string" where
  "safeEntryFilename entryID =
     (let a = trim_slashes (trim entryID);
          b = concat (map (\<lambda>c. if c = CHR 0x5C \<or> c = CHR ''/'' then ''__'' else [c]) a);
          c = (if b \<in> {'''', ''.'', ''..''} then ''entry'' else b)
      in if has_suffix c ''.md'' then c else c @ ''.md'')"

definition filterKnowledgeEntries :: "knowledge_entry list \<Rightarrow> string list \<Rightarrow> knowledge_entry list" where
  "filterKnowledgeEntries entries entryIDs =
     (if entryIDs = [] then entries
      else filter (\<lambda>x. kn_entry_id x \<in> set (filter (\<lambda>i. i \<noteq> '''') (map trim entryIDs))) entries)"

text \<open>The loop that stores the contents, with the number of the object: what is stored stays stored when a later one fails.\<close>

fun store_entries :: "env \<Rightarrow> hub_config \<Rightarrow> uuid \<Rightarrow> string \<Rightarrow> nat \<Rightarrow> knowledge_entry list \<Rightarrow> object_state
    \<Rightarrow> string list result \<times> object_state" where
  "store_entries E C owner scope k [] s = (Inr [], s)"
| "store_entries E C owner scope k (x # xs) s =
     (case StoreObject (nth_call E k) (kg_objects C) (kg_backend C) owner
             \<lparr>so_scope = scope @ ''/entries'', so_filename = safeEntryFilename (kn_entry_id x),
              so_content_type = ''text/markdown; charset=utf-8'', so_content = kn_content x\<rparr> s of
        (Inl e, s1) \<Rightarrow> (Inl e, s1)
      | (Inr r, s1) \<Rightarrow>
          (case store_entries E C owner scope (k + 1) xs s1 of
             (Inl e, s2) \<Rightarrow> (Inl e, s2)
           | (Inr uris, s2) \<Rightarrow> (Inr (ob_object_uri r # uris), s2)))"

definition manifest_entry :: "knowledge_entry \<times> string \<Rightarrow> kb_manifest_entry" where
  "manifest_entry xu =
     (case xu of (x, uri) \<Rightarrow>
        \<lparr>kf_entry_id = kn_entry_id x, kf_title = kn_title x, kf_summary = kn_summary x, kf_tags = kn_tags x,
         kf_metadata = kn_metadata x, kf_version = kn_version x, kf_content_hash = kn_content_hash x, kf_content_object_uri = uri,
         kf_tokens = estimateTokens (kn_content x), kf_source_uri = kn_source_uri x, kf_updated_at = kn_updated_at x\<rparr>)"

definition snapshot_entry :: "env \<Rightarrow> nat \<times> knowledge_entry \<times> string \<Rightarrow> kb_snapshot_entry" where
  "snapshot_entry E kxu =
     (case kxu of (k, x, uri) \<Rightarrow>
        \<lparr>ke_id = e_uuid E ''kb_snapshot_entries'' k, ke_snapshot_id = uuid_nil, ke_entry_id = kn_entry_id x, ke_title = kn_title x,
         ke_summary = kn_summary x, ke_tags = (case kn_tags x of None \<Rightarrow> [] | Some ts \<Rightarrow> ts), ke_metadata = kn_metadata x,
         ke_content_object_uri = uri, ke_tokens = estimateTokens (kn_content x)\<rparr>)"

definition manifest_of :: "env \<Rightarrow> uuid \<Rightarrow> int \<Rightarrow> (knowledge_entry \<times> string) list \<Rightarrow> kb_manifest" where
  "manifest_of E i version stored =
     \<lparr>kw_schema_version = 1, kw_collection_id = e_uuid_str E i, kw_snapshot_id = e_uuid_str E (e_uuid E ''kb_snapshots'' 0),
      kw_version = version, kw_published_at = e_now E, kw_entry_count = int (length stored),
      kw_total_tokens = sum_list (map (\<lambda>(x, u). estimateTokens (kn_content x)) stored), kw_entries = map manifest_entry stored\<rparr>"

definition snapshot_of :: "env \<Rightarrow> uuid \<Rightarrow> int \<Rightarrow> (knowledge_entry \<times> string) list \<Rightarrow> string \<Rightarrow> string \<Rightarrow> kb_snapshot" where
  "snapshot_of E i version stored manifest uri =
     \<lparr>kz_id = e_uuid E ''kb_snapshots'' 0, kz_collection_id = i, kz_version = version, kz_status = ''active'',
      kz_entry_count = int (length stored), kz_total_tokens = sum_list (map (\<lambda>(x, u). estimateTokens (kn_content x)) stored),
      kz_published_at = e_now E, kz_archived_at = None, kz_checksum = e_sha256_hex E manifest, kz_manifest_object_uri = uri,
      kz_content_hash = e_sha256_hex E manifest,
      kz_content_size = sum_list (map (\<lambda>(x, u). int (length (kn_content x))) stored) + int (length manifest)\<rparr>"

definition contents_of :: "knowledge_entry list \<Rightarrow> string \<Rightarrow> string" where
  "contents_of entries i = (case map_of (rev (map (\<lambda>x. (kn_entry_id x, kn_content x)) entries)) i of None \<Rightarrow> '''' | Some t \<Rightarrow> t)"

text \<open>The end of a publication: the snapshot is created, the collection is marked published, the entries are read back and indexed.\<close>

definition record_snapshot :: "env \<Rightarrow> hub_config \<Rightarrow> kb_snapshot \<Rightarrow> kb_snapshot_entry list \<Rightarrow> (string \<Rightarrow> string) \<Rightarrow> kb_hub_state
    \<Rightarrow> (kb_snapshot \<times> kb_snapshot_entry list) result \<times> kb_hub_state" where
  "record_snapshot E C z entries content s =
     (case CreateSnapshot E z entries (kh_kb s) of
        Inl e \<Rightarrow> (Inl e, s)
      | Inr t1 \<Rightarrow>
          (case MarkCollectionPublished E (kz_collection_id z) t1 of
             Inl e \<Rightarrow> (Inl e, s\<lparr>kh_kb := t1\<rparr>)
           | Inr t2 \<Rightarrow>
               let s2 = s\<lparr>kh_kb := t2\<rparr> in
               (case ListSnapshotEntries E 0 (kz_id z) t2 of
                  Inl e \<Rightarrow> (Inl e, s2)
                | Inr created \<Rightarrow>
                    (case IndexSnapshot E (kg_provider C) (kz_collection_id z) z created content (kh_index s2) of
                       Inl e \<Rightarrow> (Inl e, s2)
                     | Inr ix \<Rightarrow> (Inr (z, created), s2\<lparr>kh_index := ix\<rparr>)))))"

definition snapshot_scope :: "env \<Rightarrow> uuid \<Rightarrow> int \<Rightarrow> string" where
  "snapshot_scope E i version = ''kb/snapshots/'' @ e_uuid_str E i @ ''/v'' @ int_dec version"

text \<open>The objects of a publication, its entries and then its manifest.\<close>

definition store_snapshot :: "env \<Rightarrow> hub_config \<Rightarrow> uuid \<Rightarrow> uuid \<Rightarrow> int \<Rightarrow> knowledge_entry list \<Rightarrow> object_state
    \<Rightarrow> (kb_snapshot \<times> kb_snapshot_entry list) result \<times> object_state" where
  "store_snapshot E C owner i version entries s =
     (case store_entries E C owner (snapshot_scope E i version) 0 entries s of
        (Inl e, s1) \<Rightarrow> (Inl e, s1)
      | (Inr uris, s1) \<Rightarrow>
          let stored = zip entries uris in
          (case kg_marshal C (manifest_of E i version stored) of
             Inl e \<Rightarrow> (Inl e, s1)
           | Inr manifest \<Rightarrow>
               (case StoreObject (nth_call E (length entries)) (kg_objects C) (kg_backend C) owner
                       \<lparr>so_scope = snapshot_scope E i version, so_filename = ''manifest.json'',
                        so_content_type = ''application/json'', so_content = manifest\<rparr> s1 of
                  (Inl e, s2) \<Rightarrow> (Inl e, s2)
                | (Inr r, s2) \<Rightarrow>
                    (Inr (snapshot_of E i version stored manifest (ob_object_uri r),
                          map (snapshot_entry E) (enumerate 0 stored)), s2))))"

definition PublishSnapshot :: "env \<Rightarrow> hub_config \<Rightarrow> uuid \<Rightarrow> uuid \<Rightarrow> string list \<Rightarrow> kb_hub_state
    \<Rightarrow> (kb_snapshot \<times> kb_snapshot_entry list) result \<times> kb_hub_state" where
  "PublishSnapshot E C owner i entryIDs s =
     (case kb_GetCollection E owner i s of
        Inl e \<Rightarrow> (Inl e, s)
      | Inr _ \<Rightarrow>
          (case ListEntries E owner False (kh_know s) of
             Inl e \<Rightarrow> (Inl e, s)
           | Inr found \<Rightarrow>
               let entries = sort_key kn_entry_id (filterKnowledgeEntries found entryIDs) in
               if entries = [] then (Inl ErrKBNoEntries, s)
               else case NextSnapshotVersion E i (kh_kb s) of
                 Inl e \<Rightarrow> (Inl e, s)
               | Inr version \<Rightarrow>
                   (case store_snapshot E C owner i version entries (kh_objects s) of
                      (Inl e, o1) \<Rightarrow> (Inl e, s\<lparr>kh_objects := o1\<rparr>)
                    | (Inr (z, rows), o1) \<Rightarrow> record_snapshot E C z rows (contents_of entries) (s\<lparr>kh_objects := o1\<rparr>))))"

end
