(* ===== verification/KBAccess.thy ===== *)
theory KBAccess
  imports KBHub
begin

text \<open>
  The second half of \<open>internal/service/kb_hub.go\<close>: archiving, restoring and comparing snapshots, installing
  collections, and what a subscription gives access to.
\<close>

section \<open>Snapshots of an owner\<close>

definition kb_ListSnapshots :: "env \<Rightarrow> uuid \<Rightarrow> uuid \<Rightarrow> kb_hub_state \<Rightarrow> kb_snapshot list result" where
  "kb_ListSnapshots E owner i s =
     (case kb_GetCollection E owner i s of Inl e \<Rightarrow> Inl e | Inr _ \<Rightarrow> ListSnapshots_repo E i (kh_kb s))"

definition getSnapshotDetail :: "env \<Rightarrow> uuid \<Rightarrow> uuid \<Rightarrow> kb_hub_state \<Rightarrow> (kb_snapshot \<times> kb_snapshot_entry list) result" where
  "getSnapshotDetail E i z s =
     (case not_found_as ErrKBSnapshotNotFound (GetSnapshot_repo E 0 i z (kh_kb s)) of
        Inl e \<Rightarrow> Inl e
      | Inr snapshot \<Rightarrow>
          (case ListSnapshotEntries E 0 (kz_id snapshot) (kh_kb s) of Inl e \<Rightarrow> Inl e | Inr xs \<Rightarrow> Inr (snapshot, xs)))"

definition kb_GetSnapshot :: "env \<Rightarrow> uuid \<Rightarrow> uuid \<Rightarrow> uuid \<Rightarrow> kb_hub_state \<Rightarrow> (kb_snapshot \<times> kb_snapshot_entry list) result" where
  "kb_GetSnapshot E owner i z s =
     (case kb_GetCollection E owner i s of Inl e \<Rightarrow> Inl e | Inr _ \<Rightarrow> getSnapshotDetail E i z s)"

definition GetPublicSnapshot :: "env \<Rightarrow> uuid \<Rightarrow> uuid \<Rightarrow> kb_hub_state \<Rightarrow> (kb_snapshot \<times> kb_snapshot_entry list) result" where
  "GetPublicSnapshot E i z s =
     (case GetPublicCollection E i s of Inl e \<Rightarrow> Inl e | Inr _ \<Rightarrow> getSnapshotDetail E i z s)"

definition snapshot_governed :: "env \<Rightarrow> hub_config \<Rightarrow> uuid \<Rightarrow> uuid \<Rightarrow> uuid \<Rightarrow> string \<Rightarrow> (kb_tables \<Rightarrow> kb_snapshot result \<times> kb_tables)
    \<Rightarrow> kb_hub_state \<Rightarrow> kb_snapshot result \<times> kb_hub_state" where
  "snapshot_governed E C owner i z capability f s =
     (case kb_GetCollection E owner i s of
        Inl e \<Rightarrow> (Inl e, s)
      | Inr _ \<Rightarrow>
          (case enforceKBGovernance E C owner (e_uuid_str E z) capability ''medium''
                  [(''collection_id'', AStr (e_uuid_str E i)), (''snapshot_id'', AStr (e_uuid_str E z))] s of
             (Inl e, s1) \<Rightarrow> (Inl e, s1)
           | (Inr _, s1) \<Rightarrow> (case map_kb f s1 of (r, s2) \<Rightarrow> (not_found_as ErrKBSnapshotNotFound r, s2))))"

definition kb_ArchiveSnapshot :: "env \<Rightarrow> hub_config \<Rightarrow> uuid \<Rightarrow> uuid \<Rightarrow> uuid \<Rightarrow> kb_hub_state \<Rightarrow> kb_snapshot result \<times> kb_hub_state" where
  "kb_ArchiveSnapshot E C owner i z s =
     snapshot_governed E C owner i z ''kb.snapshot.archive'' (ArchiveSnapshot_repo E i z) s"

definition kb_RestoreSnapshot :: "env \<Rightarrow> hub_config \<Rightarrow> uuid \<Rightarrow> uuid \<Rightarrow> uuid \<Rightarrow> kb_hub_state \<Rightarrow> kb_snapshot result \<times> kb_hub_state" where
  "kb_RestoreSnapshot E C owner i z s =
     snapshot_governed E C owner i z ''kb.snapshot.restore'' (RestoreSnapshot_repo E i z) s"

section \<open>Comparing snapshots\<close>

definition snapshotEntryChanged :: "hub_config \<Rightarrow> kb_snapshot_entry \<Rightarrow> kb_snapshot_entry \<Rightarrow> bool" where
  "snapshotEntryChanged C x y \<longleftrightarrow>
     ke_title x \<noteq> ke_title y \<or> ke_summary x \<noteq> ke_summary y \<or> ke_content_object_uri x \<noteq> ke_content_object_uri y
     \<or> ke_tokens x \<noteq> ke_tokens y
     \<or> sprint (kg_format C) (ASeq (map AStr (ke_tags x))) \<noteq> sprint (kg_format C) (ASeq (map AStr (ke_tags y)))
     \<or> sprint (kg_format C) (AMap (ke_metadata x)) \<noteq> sprint (kg_format C) (AMap (ke_metadata y))"

record snapshot_diff =
  kd_added :: "kb_snapshot_entry list"
  kd_removed :: "kb_snapshot_entry list"
  kd_changed :: "(string \<times> kb_snapshot_entry \<times> kb_snapshot_entry) list"
  kd_unchanged :: nat

text \<open>The map from the identifiers of the entries: a later entry replaces an earlier one.\<close>

definition by_entry_id :: "kb_snapshot_entry list \<Rightarrow> string \<Rightarrow> kb_snapshot_entry option" where
  "by_entry_id xs = map_of (rev (map (\<lambda>x. (ke_entry_id x, x)) xs))"

definition diff_entries :: "hub_config \<Rightarrow> kb_snapshot_entry list \<Rightarrow> kb_snapshot_entry list \<Rightarrow> snapshot_diff" where
  "diff_entries C xs ys =
     (let from_id = by_entry_id xs; to_id = by_entry_id ys;
          from_keys = kg_range C (remdups (map ke_entry_id xs)); to_keys = kg_range C (remdups (map ke_entry_id ys));
          both = filter (\<lambda>k. from_id k \<noteq> None) to_keys;
          changed = (\<lambda>k. snapshotEntryChanged C (the (from_id k)) (the (to_id k)))
      in \<lparr>kd_added = map (\<lambda>k. the (to_id k)) (filter (\<lambda>k. from_id k = None) to_keys),
          kd_removed = map (\<lambda>k. the (from_id k)) (filter (\<lambda>k. to_id k = None) from_keys),
          kd_changed = map (\<lambda>k. (k, the (from_id k), the (to_id k))) (filter changed both),
          kd_unchanged = length (filter (\<lambda>k. \<not> changed k) both)\<rparr>)"

text \<open>Only the collection is checked to be the owner's; the snapshots are looked up by their identifiers alone.\<close>

definition DiffSnapshots :: "env \<Rightarrow> hub_config \<Rightarrow> uuid \<Rightarrow> uuid \<Rightarrow> uuid \<Rightarrow> uuid \<Rightarrow> kb_hub_state \<Rightarrow> snapshot_diff result" where
  "DiffSnapshots E C owner i z1 z2 s =
     (case kb_GetCollection E owner i s of
        Inl e \<Rightarrow> Inl e
      | Inr _ \<Rightarrow>
          (case ListSnapshotEntries E 0 z1 (kh_kb s) of
             Inl e \<Rightarrow> Inl e
           | Inr xs \<Rightarrow>
               (case ListSnapshotEntries E 1 z2 (kh_kb s) of
                  Inl e \<Rightarrow> Inl e | Inr ys \<Rightarrow> Inr (diff_entries C xs ys))))"

section \<open>Installing\<close>

record kb_install_input =
  lj_track_mode :: string
  lj_pinned_version :: "int option"
  lj_expires_at :: "time option"
  lj_entitlement_type :: string
  lj_grant_reason :: string

definition addBillingPeriod :: "time \<Rightarrow> string \<Rightarrow> time" where
  "addBillingPeriod start interval =
     (let i = trim interval in
      if i = ''year'' then AddDate start 1 0 0 else if i = ''month'' \<or> i = '''' then AddDate start 0 1 0 else start)"

definition install_entitlement :: "kb_collection \<Rightarrow> kb_install_input \<Rightarrow> string" where
  "install_entitlement c input =
     (let asked = normalizeEntitlement (lj_entitlement_type input) in
      if asked \<noteq> '''' then asked
      else if kc_entitlement_mode c \<noteq> '''' then kc_entitlement_mode c
      else if kc_is_free c then ''free'' else ''paid'')"

text \<open>The end of the period: the one asked for, else the one of a trial or of a billing interval.\<close>

definition install_period_end :: "time \<Rightarrow> kb_collection \<Rightarrow> kb_install_input \<Rightarrow> time option" where
  "install_period_end now c input =
     (case lj_expires_at input of
        Some t \<Rightarrow> Some t
      | None \<Rightarrow>
          let entitlement = install_entitlement c input in
          if entitlement = ''trial'' then Some (AddDate now 0 0 (if kc_trial_days c \<le> 0 then 14 else kc_trial_days c))
          else if entitlement = ''paid'' then Some (addBillingPeriod now (kc_billing_interval c))
          else None)"

definition install_snapshot :: "env \<Rightarrow> uuid \<Rightarrow> kb_install_input \<Rightarrow> kb_tables \<Rightarrow> (string \<times> int option \<times> kb_snapshot) result" where
  "install_snapshot E i input t =
     (let mode = (if trim (lj_track_mode input) = '''' then ''latest'' else trim (lj_track_mode input)) in
      if mode \<noteq> ''latest'' \<and> mode \<noteq> ''pinned'' then Inl (Wrapf ''track_mode must be latest or pinned'' ErrKBInvalid)
      else if mode = ''pinned'' then
        (case lj_pinned_version input of
           None \<Rightarrow> Inl (Wrapf ''pinned_version is required for pinned track mode'' ErrKBInvalid)
         | Some v \<Rightarrow>
             if v \<le> 0 then Inl (Wrapf ''pinned_version is required for pinned track mode'' ErrKBInvalid)
             else (case not_found_as ErrKBSnapshotNotFound (GetSnapshotByVersion E i v t) of
                     Inl e \<Rightarrow> Inl e | Inr z \<Rightarrow> Inr (mode, Some v, z)))
      else (case not_found_as ErrKBSnapshotNotFound (GetLatestSnapshot E 1 i t) of
              Inl e \<Rightarrow> Inl e | Inr z \<Rightarrow> Inr (mode, None, z)))"

definition InstallCollection :: "env \<Rightarrow> uuid \<Rightarrow> uuid \<Rightarrow> kb_install_input \<Rightarrow> kb_hub_state \<Rightarrow> kb_subscription result \<times> kb_hub_state" where
  "InstallCollection E u i input s =
     (if u = uuid_nil then (Inl (Wrapf ''user is required'' ErrKBInvalid), s)
      else case GetPublicCollection E i s of
        Inl e \<Rightarrow> (Inl e, s)
      | Inr (c, _) \<Rightarrow>
          (case install_snapshot E i input (kh_kb s) of
             Inl e \<Rightarrow> (Inl e, s)
           | Inr (mode, pinned, z) \<Rightarrow>
               let entitlement = install_entitlement c input in
               if entitlement = ''granted'' \<and> trim (lj_grant_reason input) = ''''
               then (Inl (Wrapf ''grant_reason is required for granted entitlement'' ErrKBInvalid), s)
               else
                 let b = \<lparr>kb_id = uuid_nil, kb_updated_at = e_now E, kb_user_id = u, kb_collection_id = i, kb_snapshot_id = kz_id z,
                       kb_track_mode = mode, kb_pinned_version = pinned, kb_status = ''active'', kb_started_at = e_now E,
                       kb_expires_at = install_period_end (e_now E) c input, kb_entitlement_type = entitlement,
                       kb_renewal_status = (if entitlement = ''trial'' \<or> entitlement = ''paid'' then ''active'' else ''none''),
                       kb_period_start = Some (e_now E), kb_period_end = install_period_end (e_now E) c input,
                       kb_granted_by = None, kb_grant_reason = trim (lj_grant_reason input)\<rparr>
                 in (case UpsertSubscription E b (kh_kb s) of
                       Inl e \<Rightarrow> (Inl e, s) | Inr (b', t) \<Rightarrow> (Inr b', s\<lparr>kh_kb := t\<rparr>))))"

definition time_zero :: time where
  "time_zero = seconds (- 62135596800)"

definition kb_ExpireSubscriptions :: "env \<Rightarrow> time \<Rightarrow> kb_hub_state \<Rightarrow> nat result \<times> kb_hub_state" where
  "kb_ExpireSubscriptions E now s = map_kb (ExpireSubscriptions_repo E (if now = time_zero then e_now E else now)) s"

text \<open>The first of the user's subscriptions to the collection is returned.\<close>

definition kb_CancelSubscription :: "env \<Rightarrow> uuid \<Rightarrow> uuid \<Rightarrow> kb_hub_state \<Rightarrow> kb_subscription result \<times> kb_hub_state" where
  "kb_CancelSubscription E u i s =
     (case CancelSubscription_repo E u i (kh_kb s) of
        Inl e \<Rightarrow> (Inl (if e = ErrRecordNotFound then ErrKBSubscriptionNeeded else e), s)
      | Inr t \<Rightarrow>
          let s1 = s\<lparr>kh_kb := t\<rparr> in
          (case ListSubscriptionsByUser E u t of
             Inl e \<Rightarrow> (Inl e, s1)
           | Inr bs \<Rightarrow>
               (case filter (\<lambda>b. kb_collection_id b = i) bs of
                  [] \<Rightarrow> (Inl ErrKBSubscriptionNeeded, s1) | b # _ \<Rightarrow> (Inr b, s1))))"

section \<open>Access\<close>

definition authorizeSnapshotAccess :: "env \<Rightarrow> uuid \<Rightarrow> uuid \<Rightarrow> uuid \<Rightarrow> kb_tables \<Rightarrow> kb_subscription result" where
  "authorizeSnapshotAccess E u i z t =
     (if u = uuid_nil then Inl ErrKBSubscriptionNeeded
      else case not_found_as ErrKBSnapshotNotFound (GetSnapshot_repo E 0 i z t) of
        Inl e \<Rightarrow> Inl e
      | Inr snapshot \<Rightarrow>
          (case not_found_as ErrKBSubscriptionNeeded (GetActiveSubscription E u i t) of
             Inl e \<Rightarrow> Inl e
           | Inr b \<Rightarrow>
               if kb_track_mode b = ''pinned'' then
                 (case kb_pinned_version b of
                    None \<Rightarrow> Inl ErrKBSubscriptionNeeded
                  | Some v \<Rightarrow> if v \<noteq> kz_version snapshot then Inl ErrKBSubscriptionNeeded else Inr b)
               else if kb_track_mode b = ''latest'' then
                 (case not_found_as ErrKBSnapshotNotFound (GetLatestSnapshot E 0 i t) of
                    Inl e \<Rightarrow> Inl e
                  | Inr latest \<Rightarrow> if kz_id latest \<noteq> z then Inl ErrKBSubscriptionNeeded else Inr b)
               else Inl ErrKBSubscriptionNeeded))"

text \<open>The repository returns a pointer to an empty collection beside its error, so the collection is never
  missing here: it reads as one without an owner that is not free.\<close>

definition owner_and_free :: "env \<Rightarrow> uuid \<Rightarrow> kb_tables \<Rightarrow> uuid \<times> bool" where
  "owner_and_free E i t =
     (case GetPublishedCollection E i t of Inl _ \<Rightarrow> (uuid_nil, False) | Inr c \<Rightarrow> (kc_owner_id c, kc_is_free c))"

definition kb_usage_input :: "uuid \<Rightarrow> uuid \<times> bool \<Rightarrow> uuid \<Rightarrow> uuid \<Rightarrow> kb_snapshot_entry option \<Rightarrow> string \<Rightarrow> record_usage_input" where
  "kb_usage_input u of_free i z entry operation =
     \<lparr>ru_user_id = u, ru_owner_id = fst of_free, ru_collection_id = i, ru_snapshot_id = z,
      ru_snapshot_entry_id = map_option ke_id entry, ru_operation_type = operation,
      ru_tokens_used = (case entry of None \<Rightarrow> 0 | Some x \<Rightarrow> ke_tokens x), ru_is_free = snd of_free, ru_unit_price = 0,
      ru_currency = ''''\<rparr>"

text \<open>The usage record, if one was written; the error of the recording is dropped by every caller.\<close>

definition recordUsage :: "env \<Rightarrow> record_usage_input \<Rightarrow> kb_hub_state \<Rightarrow> kb_usage option \<times> kb_hub_state" where
  "recordUsage E input s =
     (case RecordUsage E 0 input (kh_billing s) of ((u, _), b) \<Rightarrow> (uo_usage u, s\<lparr>kh_billing := b\<rparr>))"

definition CreateSnapshotManifestDownloadURL :: "env \<Rightarrow> hub_config \<Rightarrow> uuid \<Rightarrow> uuid \<Rightarrow> kb_hub_state
    \<Rightarrow> download_url_response result \<times> kb_hub_state" where
  "CreateSnapshotManifestDownloadURL E C i z s =
     (case GetPublicCollection E i s of
        Inl e \<Rightarrow> (Inl e, s)
      | Inr (c, _) \<Rightarrow>
          (case not_found_as ErrKBSnapshotNotFound (GetSnapshot_repo E 0 i z (kh_kb s)) of
             Inl e \<Rightarrow> (Inl e, s)
           | Inr snapshot \<Rightarrow>
               (case CreateDownloadURLByObjectURI E (kg_objects C) (kg_backend C) (kz_manifest_object_uri snapshot) ''attachment''
                       (kh_objects s) of
                  Inl e \<Rightarrow> (Inl e, s)
                | Inr r \<Rightarrow>
                    (Inr r, snd (recordUsage E
                       (kb_usage_input uuid_nil (kc_owner_id c, True) i z None ''manifest_download_url.created.public'') s)))))"

definition CreateInstalledManifestDownloadURL :: "env \<Rightarrow> hub_config \<Rightarrow> uuid \<Rightarrow> uuid \<Rightarrow> uuid \<Rightarrow> kb_hub_state
    \<Rightarrow> download_url_response result \<times> kb_hub_state" where
  "CreateInstalledManifestDownloadURL E C u i z s =
     (case authorizeSnapshotAccess E u i z (kh_kb s) of
        Inl e \<Rightarrow> (Inl e, s)
      | Inr _ \<Rightarrow>
          (case not_found_as ErrKBSnapshotNotFound (GetSnapshot_repo E 1 i z (kh_kb s)) of
             Inl e \<Rightarrow> (Inl e, s)
           | Inr snapshot \<Rightarrow>
               (case CreateDownloadURLByObjectURI E (kg_objects C) (kg_backend C) (kz_manifest_object_uri snapshot) ''attachment''
                       (kh_objects s) of
                  Inl e \<Rightarrow> (Inl e, s)
                | Inr r \<Rightarrow>
                    (Inr r, snd (recordUsage E
                       (kb_usage_input u (owner_and_free E i (kh_kb s)) i z None ''manifest_download_url.created.installed'') s)))))"

definition CreateInstalledEntryContentDownloadURL :: "env \<Rightarrow> hub_config \<Rightarrow> uuid \<Rightarrow> uuid \<Rightarrow> uuid \<Rightarrow> uuid \<Rightarrow> kb_hub_state
    \<Rightarrow> download_url_response result \<times> kb_hub_state" where
  "CreateInstalledEntryContentDownloadURL E C u i z x s =
     (case authorizeSnapshotAccess E u i z (kh_kb s) of
        Inl e \<Rightarrow> (Inl e, s)
      | Inr _ \<Rightarrow>
          (case not_found_as ErrKBSnapshotNotFound (GetSnapshotEntry E z x (kh_kb s)) of
             Inl e \<Rightarrow> (Inl e, s)
           | Inr entry \<Rightarrow>
               (case CreateDownloadURLByObjectURI E (kg_objects C) (kg_backend C) (ke_content_object_uri entry) ''attachment''
                       (kh_objects s) of
                  Inl e \<Rightarrow> (Inl e, s)
                | Inr r \<Rightarrow>
                    (Inr r, snd (recordUsage E
                       (kb_usage_input u (owner_and_free E i (kh_kb s)) i z (Some entry) ''entry_content_download_url.created.installed'')
                       s)))))"

record full_text =
  ft_entry :: kb_snapshot_entry
  ft_content :: string
  ft_usage :: "kb_usage option"

definition FetchInstalledEntryFullText :: "env \<Rightarrow> hub_config \<Rightarrow> uuid \<Rightarrow> uuid \<Rightarrow> uuid \<Rightarrow> uuid \<Rightarrow> kb_hub_state \<Rightarrow> full_text result \<times> kb_hub_state" where
  "FetchInstalledEntryFullText E C u i z x s =
     (case authorizeSnapshotAccess E u i z (kh_kb s) of
        Inl e \<Rightarrow> (Inl e, s)
      | Inr _ \<Rightarrow>
          (case not_found_as ErrKBSnapshotNotFound (GetSnapshotEntry E z x (kh_kb s)) of
             Inl e \<Rightarrow> (Inl e, s)
           | Inr entry \<Rightarrow>
               (case ReadObjectByObjectURI E (kg_backend C) (ke_content_object_uri entry) 2097152 (kh_objects s) of
                  Inl e \<Rightarrow> (Inl e, s)
                | Inr (_, content) \<Rightarrow>
                    (case recordUsage E
                            (kb_usage_input u (owner_and_free E i (kh_kb s)) i z (Some entry) ''entry.fulltext.fetch'') s of
                       (usage, s1) \<Rightarrow> (Inr \<lparr>ft_entry = entry, ft_content = content, ft_usage = usage\<rparr>, s1)))))"

section \<open>Statistics and the marketplace\<close>

record owner_stats =
  vo_active :: nat
  vo_cancelled :: nat
  vo_manifest_downloads :: nat
  vo_content_downloads :: nat
  vo_latest :: "(int \<times> int \<times> int) option"

definition latest_or_none :: "kb_snapshot result \<Rightarrow> kb_snapshot option result" where
  "latest_or_none r = (case r of Inr z \<Rightarrow> Inr (Some z) | Inl e \<Rightarrow> if e = ErrRecordNotFound then Inr None else Inl e)"

text \<open>The version, entries and tokens of the latest snapshot are zero when there is none.\<close>

definition GetCollectionStats :: "env \<Rightarrow> uuid \<Rightarrow> uuid \<Rightarrow> kb_hub_state \<Rightarrow> owner_stats result" where
  "GetCollectionStats E owner i s =
     (case kb_GetCollection E owner i s of
        Inl e \<Rightarrow> Inl e
      | Inr _ \<Rightarrow>
          (case CountSubscriptionsByStatus E 0 i ''active'' (kh_kb s) of
             Inl e \<Rightarrow> Inl e
           | Inr active \<Rightarrow>
               (case CountSubscriptionsByStatus E 1 i ''cancelled'' (kh_kb s) of
                  Inl e \<Rightarrow> Inl e
                | Inr cancelled \<Rightarrow>
                    (case UsageCounts E 0 i (bs_usage (kh_billing s)) of
                       Inl e \<Rightarrow> Inl e
                     | Inr (manifest, content) \<Rightarrow>
                         (case latest_or_none (GetLatestSnapshot E 0 i (kh_kb s)) of
                            Inl e \<Rightarrow> Inl e
                          | Inr z \<Rightarrow>
                              Inr \<lparr>vo_active = active, vo_cancelled = cancelled, vo_manifest_downloads = manifest,
                                vo_content_downloads = content,
                                vo_latest = map_option (\<lambda>z. (kz_version z, kz_entry_count z, kz_total_tokens z)) z\<rparr>)))))"

record market_card =
  vc_collection :: kb_collection
  vc_latest :: "kb_snapshot option"
  vc_active :: nat
  vc_manifest_downloads :: nat
  vc_content_downloads :: nat

definition buildMarketplaceCard :: "env \<Rightarrow> nat \<Rightarrow> kb_collection \<Rightarrow> kb_hub_state \<Rightarrow> market_card result" where
  "buildMarketplaceCard E n c s =
     (case latest_or_none (GetLatestSnapshot E n (kc_id c) (kh_kb s)) of
        Inl e \<Rightarrow> Inl e
      | Inr z \<Rightarrow>
          (case CountSubscriptionsByStatus E n (kc_id c) ''active'' (kh_kb s) of
             Inl e \<Rightarrow> Inl e
           | Inr active \<Rightarrow>
               (case UsageCounts E n (kc_id c) (bs_usage (kh_billing s)) of
                  Inl e \<Rightarrow> Inl e
                | Inr (manifest, content) \<Rightarrow>
                    Inr \<lparr>vc_collection = c, vc_latest = z, vc_active = active, vc_manifest_downloads = manifest,
                      vc_content_downloads = content\<rparr>)))"

fun build_cards :: "env \<Rightarrow> nat \<Rightarrow> kb_collection list \<Rightarrow> kb_hub_state \<Rightarrow> market_card list result" where
  "build_cards E n [] s = Inr []"
| "build_cards E n (c # cs) s =
     (case buildMarketplaceCard E n c s of
        Inl e \<Rightarrow> Inl e
      | Inr v \<Rightarrow> (case build_cards E (n + 1) cs s of Inl e \<Rightarrow> Inl e | Inr cards \<Rightarrow> Inr (v # cards)))"

record market_result =
  vm_items :: "market_card list"
  vm_limit :: int
  vm_offset :: int
  vm_total :: nat

definition SearchPublicCollections :: "env \<Rightarrow> collections_query \<Rightarrow> kb_hub_state \<Rightarrow> market_result result" where
  "SearchPublicCollections E q s =
     (case SearchPublishedCollections E q (kh_kb s) of
        Inl e \<Rightarrow> Inl e
      | Inr cs \<Rightarrow>
          (case CountPublishedCollections E q (kh_kb s) of
             Inl e \<Rightarrow> Inl e
           | Inr n \<Rightarrow>
               (case build_cards E 0 cs s of
                  Inl e \<Rightarrow> Inl e
                | Inr cards \<Rightarrow>
                    Inr \<lparr>vm_items = cards, vm_limit = normalizeAPILimit (qc_limit q), vm_offset = normalizeOffset (qc_offset q),
                      vm_total = n\<rparr>)))"

end
