(* ===== verification/CalendarProps.thy ===== *)
theory CalendarProps
  imports Calendar
begin

text \<open>
  Dates and day numbers: every day has exactly one valid date, and \<open>Time.AddDate\<close> by a month or a year keeps the day
  of the month and the time of day, and counts on into the following month when that day does not exist there.
\<close>

section \<open>Valid dates\<close>

fun valid_date :: "int \<times> int \<times> int \<Rightarrow> bool" where
  "valid_date (y, m, d) \<longleftrightarrow> 0 \<le> m \<and> m \<le> 11 \<and> 1 \<le> d \<and> d \<le> month_days y m"

lemma month_from_largest: "month_from leap d k < j \<Longrightarrow> j \<le> int k \<Longrightarrow> d < days_before_month leap j"
proof (induction k)
  case (Suc k)
  show ?case
  proof (cases "days_before_month leap (int (Suc k)) \<le> d")
    case False
    then show ?thesis using Suc by (cases "j = int (Suc k)") auto
  qed (use Suc in auto)
qed simp

lemma month_step:
  assumes "0 \<le> m" "m < 11"
  shows "days_before_month (is_leap y) (m + 1) = days_before_month (is_leap y) m + month_days y m"
proof -
  have "m \<in> {0, 1, 2, 3, 4, 5, 6, 7, 8, 9, 10, 11}" using assms by (intro month_cases) simp_all
  with assms show ?thesis by (elim insertE emptyE) simp_all
qed

lemma last_month: "days_before_month (is_leap y) 11 + month_days y 11 = (if is_leap y then 366 else 365)"
  by simp

lemma civil_valid: "valid_date (civil n)"
proof -
  obtain y m d where c: "civil n = (y, m, d)" by (metis prod_cases3)
  have y: "y = year_of_day n" and m: "m = month_from (is_leap y) (n - days_before_year y) 11"
    and d: "d = n - days_before_year y - days_before_month (is_leap y) m + 1"
    using c by (auto simp: civil_def Let_def)
  let ?d = "n - days_before_year y"
  have r: "0 \<le> ?d" "?d < (if is_leap y then 366 else 365)" using year_of_day_bounds [of n] by (simp_all add: y)
  note b = month_from_bounds [OF r(1), of "is_leap y" 11, folded m]
  have "d \<le> month_days y m"
  proof (cases "m = 11")
    case True
    then show ?thesis using r(2) last_month [of y] by (simp add: d)
  next
    case False
    with b have m': "m < 11" by simp
    have "?d < days_before_month (is_leap y) (m + 1)"
      by (rule month_from_largest [where k = 11]) (use m m' in simp_all)
    then show ?thesis using month_step [of m y] b(1) m' by (simp add: d)
  qed
  with b show ?thesis by (simp add: c d)
qed

lemma days_before_month_mono:
  assumes "0 \<le> m" "m < k" "k \<le> 11"
  shows "days_before_month (is_leap y) m + month_days y m \<le> days_before_month (is_leap y) k"
  using assms(2,3)
proof (induction k rule: int_gr_induct)
  case base
  then show ?case using assms(1) by (simp add: month_step)
next
  case (step k)
  have "0 \<le> k" "k < 11" using step assms(1) by simp_all
  then have "k \<in> {0, 1, 2, 3, 4, 5, 6, 7, 8, 9, 10, 11}" by (intro month_cases) simp_all
  then have "0 \<le> month_days y k" by (elim insertE emptyE) simp_all
  with step \<open>0 \<le> k\<close> \<open>k < 11\<close> show ?case by (simp add: month_step)
qed

lemma days_before_year_mono: "y \<le> z \<Longrightarrow> days_before_year y \<le> days_before_year z"
  by (induction z rule: int_ge_induct) (simp_all add: year_step split: if_splits)

lemma day_number_in_year:
  "0 \<le> m \<Longrightarrow> m \<le> 11 \<Longrightarrow> day_number y m d = days_before_year y + days_before_month (is_leap y) m + d - 1"
  by (simp add: day_number_def Let_def div_pos_pos_trivial mod_pos_pos_trivial)

lemma valid_in_year:
  assumes "valid_date (y, m, d)"
  shows "days_before_year y \<le> day_number y m d" "day_number y m d < days_before_year (y + 1)"
proof -
  have m: "0 \<le> m" "m \<le> 11" and d: "1 \<le> d" "d \<le> month_days y m" using assms by simp_all
  have "m \<in> {0, 1, 2, 3, 4, 5, 6, 7, 8, 9, 10, 11}" using m by (rule month_cases)
  then have z: "0 \<le> days_before_month (is_leap y) m" by (elim insertE emptyE) simp_all
  have "days_before_month (is_leap y) m + month_days y m \<le> (if is_leap y then 366 else 365)"
    using days_before_month_mono [OF m(1), of 11 y] m last_month [of y] by (cases "m = 11") simp_all
  then show "day_number y m d < days_before_year (y + 1)" using d m by (simp add: day_number_in_year year_step)
  show "days_before_year y \<le> day_number y m d" using z d m by (simp add: day_number_in_year)
qed

text \<open>A valid date is the date of its day number, and of no other.\<close>

lemma civil_day_number:
  assumes "valid_date (y, m, d)"
  shows "civil (day_number y m d) = (y, m, d)"
proof -
  let ?n = "day_number y m d"
  obtain z k e where c: "civil ?n = (z, k, e)" by (metis prod_cases3)
  have v: "valid_date (z, k, e)" using civil_valid [of ?n] c by simp
  have n: "day_number z k e = ?n" by (rule day_number_civil [OF c])
  note a = valid_in_year [OF assms] and b = valid_in_year [OF v, unfolded n]
  have "z = y"
  proof (rule ccontr)
    assume "z \<noteq> y"
    then consider "z + 1 \<le> y" | "y + 1 \<le> z" by linarith
    then show False using a b days_before_year_mono [of "z + 1" y] days_before_year_mono [of "y + 1" z] by cases simp_all
  qed
  with n v assms have s: "days_before_month (is_leap y) k + e = days_before_month (is_leap y) m + d" by (simp add: day_number_in_year)
  have "k = m"
  proof (rule ccontr)
    assume "k \<noteq> m"
    then consider "k < m" | "m < k" by linarith
    then show False
      using s v assms \<open>z = y\<close> days_before_month_mono [of k m y] days_before_month_mono [of m k y] by cases simp_all
  qed
  with s c \<open>z = y\<close> show ?thesis by simp
qed

lemma month_days_range:
  assumes "0 \<le> m" "m \<le> 11"
  shows "28 \<le> month_days y m \<and> month_days y m \<le> 31"
  using month_cases [OF assms] by (elim insertE emptyE) simp_all

section \<open>A month and a year later\<close>

text \<open>The same day of the next month. A day it does not have is counted on into the month after it.\<close>

fun month_later :: "int \<times> int \<times> int \<Rightarrow> int \<times> int \<times> int" where
  "month_later (y, m, d) =
     (case if m = 11 then (y + 1, 0) else (y, m + 1) of (y', m') \<Rightarrow>
        if d \<le> month_days y' m' then (y', m', d) else (y', m' + 1, d - month_days y' m'))"

text \<open>The same day of the next year, and the first of March for a 29th of February.\<close>

fun year_later :: "int \<times> int \<times> int \<Rightarrow> int \<times> int \<times> int" where
  "year_later (y, m, d) = (if m = 1 \<and> d = 29 \<and> \<not> is_leap (y + 1) then (y + 1, 2, 1) else (y + 1, m, d))"

lemma day_number_carry: "0 \<le> m \<Longrightarrow> m \<le> 11 \<Longrightarrow> day_number y m (month_days y m + d) = day_number y (m + 1) d"
  by (simp add: next_month day_number_in_year)

lemma month_later_number:
  assumes "valid_date (y, m, d)"
  shows "civil (day_number y (m + 1) d) = month_later (y, m, d)"
proof -
  obtain y' m' where n: "(if m = 11 then (y + 1, 0) else (y, m + 1)) = (y', m')" by fastforce
  have m': "0 \<le> m'" "m' \<le> 11" using n assms by (auto split: if_splits)
  have same: "day_number y (m + 1) d = day_number y' m' d"
    using n by (auto simp: day_number_def Let_def split: if_splits)
  show ?thesis
  proof (cases "d \<le> month_days y' m'")
    case True
    then have "valid_date (y', m', d)" using m' assms by simp
    from civil_day_number [OF this] show ?thesis using n True by (simp add: same)
  next
    case False
    have "d \<le> 31" using assms month_days_range [of m y] by simp
    moreover have "m' \<noteq> 11" using False \<open>d \<le> 31\<close> by auto
    ultimately have "valid_date (y', m' + 1, d - month_days y' m')"
      using m' False month_days_range [OF m', of y'] month_days_range [of "m' + 1" y'] by simp
    from civil_day_number [OF this] day_number_carry [OF m', of y' "d - month_days y' m'"] show ?thesis
      using n False by (simp add: same)
  qed
qed

lemma year_later_number:
  assumes "valid_date (y, m, d)"
  shows "civil (day_number (y + 1) m d) = year_later (y, m, d)"
proof (cases "m = 1 \<and> d = 29 \<and> \<not> is_leap (y + 1)")
  case True
  then have "day_number (y + 1) m d = day_number (y + 1) 2 1" by (simp add: day_number_in_year)
  moreover have "valid_date (y + 1, 2, 1)" by simp
  ultimately show ?thesis using civil_day_number [of "y + 1" 2 1] True by simp
next
  case False
  have "m \<in> {0, 1, 2, 3, 4, 5, 6, 7, 8, 9, 10, 11}" using assms by (intro month_cases) simp_all
  then have "valid_date (y + 1, m, d)" using assms False by (elim insertE emptyE) (auto split: if_splits)
  from civil_day_number [OF this] False show ?thesis by auto
qed

lemma day_of_shift: "day_of (days (n - epoch_day) + t mod days 1) = n" "(days k + t mod days 1) mod days 1 = t mod days 1"
proof -
  have r: "0 \<le> t mod days 1" "t mod days 1 < days 1" by (simp_all add: days_def minutes_def seconds_def)
  have "(days k + t mod days 1) div days 1 = k" for k
    by (rule int_div_pos_eq [where r = "t mod days 1"]) (use r in \<open>simp_all add: days_def minutes_def seconds_def\<close>)
  then show "day_of (days (n - epoch_day) + t mod days 1) = n" by (simp add: day_of_def)
  show "(days k + t mod days 1) mod days 1 = t mod days 1"
    by (rule int_mod_pos_eq [where q = k]) (use r in \<open>simp_all add: days_def minutes_def seconds_def\<close>)
qed

lemma AddDate_month_date:
  "civil (day_of (AddDate t 0 1 0)) = month_later (civil (day_of t))" "AddDate t 0 1 0 mod days 1 = t mod days 1"
proof -
  obtain y m d where c: "civil (day_of t) = (y, m, d)" by (metis prod_cases3)
  then have "valid_date (y, m, d)" using civil_valid [of "day_of t"] by simp
  from month_later_number [OF this] c show "civil (day_of (AddDate t 0 1 0)) = month_later (civil (day_of t))"
    by (simp only: AddDate_def prod.case day_of_shift add_0_right)
  show "AddDate t 0 1 0 mod days 1 = t mod days 1" by (simp only: AddDate_def c prod.case day_of_shift)
qed

lemma AddDate_year_date:
  "civil (day_of (AddDate t 1 0 0)) = year_later (civil (day_of t))" "AddDate t 1 0 0 mod days 1 = t mod days 1"
proof -
  obtain y m d where c: "civil (day_of t) = (y, m, d)" by (metis prod_cases3)
  then have "valid_date (y, m, d)" using civil_valid [of "day_of t"] by simp
  from year_later_number [OF this] c show "civil (day_of (AddDate t 1 0 0)) = year_later (civil (day_of t))"
    by (simp only: AddDate_def prod.case day_of_shift add_0_right)
  show "AddDate t 1 0 0 mod days 1 = t mod days 1" by (simp only: AddDate_def c prod.case day_of_shift)
qed

end
