(* ===== verification/KBProps.thy ===== *)
theory KBProps
  imports KBAccess CalendarProps "HOL-Library.Multiset"
begin

text \<open>
  What the knowledge hub keeps: numbered snapshots that never change, access by subscription to exactly one
  snapshot, the periods of a subscription; and where it gives away more than it means to.
\<close>

section \<open>Requests\<close>

text \<open>The requests of the hub. The knowledge entries and the stored objects are changed by their own services in
  between, to anything.\<close>

datatype kb_req =
    HCreate env uuid create_collection_input
  | HDeclare env uuid uuid declarations_input
  | HReview env hub_config uuid uuid string string
  | HReport env uuid uuid string string
  | HResolve env uuid uuid string string
  | HPrice env hub_config uuid uuid pricing_input
  | HPublish env hub_config uuid uuid "string list"
  | HArchive env hub_config uuid uuid uuid
  | HRestore env hub_config uuid uuid uuid
  | HInstall env uuid uuid kb_install_input
  | HExpire env time
  | HCancel env uuid uuid
  | HPublicURL env hub_config uuid uuid
  | HManifestURL env hub_config uuid uuid uuid
  | HEntryURL env hub_config uuid uuid uuid uuid
  | HFullText env hub_config uuid uuid uuid uuid
  | HKnowledge know_state
  | HObjects object_state

fun kb_serve :: "kb_req \<Rightarrow> kb_hub_state \<Rightarrow> kb_hub_state" where
  "kb_serve (HCreate E w input) s = snd (kb_CreateCollection E w input s)"
| "kb_serve (HDeclare E w i input) s = snd (UpdateCollectionDeclarations E w i input s)"
| "kb_serve (HReview E C a i st r) s = snd (ReviewCollection E C a i st r s)"
| "kb_serve (HReport E u i r d) s = snd (ReportCollection E u i r d s)"
| "kb_serve (HResolve E a i st r) s = snd (ResolveModerationReport E a i st r s)"
| "kb_serve (HPrice E C w i input) s = snd (UpdateCollectionPricing E C w i input s)"
| "kb_serve (HPublish E C w i ids) s = snd (PublishSnapshot E C w i ids s)"
| "kb_serve (HArchive E C w i z) s = snd (kb_ArchiveSnapshot E C w i z s)"
| "kb_serve (HRestore E C w i z) s = snd (kb_RestoreSnapshot E C w i z s)"
| "kb_serve (HInstall E u i input) s = snd (InstallCollection E u i input s)"
| "kb_serve (HExpire E t) s = snd (kb_ExpireSubscriptions E t s)"
| "kb_serve (HCancel E u i) s = snd (kb_CancelSubscription E u i s)"
| "kb_serve (HPublicURL E C i z) s = snd (CreateSnapshotManifestDownloadURL E C i z s)"
| "kb_serve (HManifestURL E C u i z) s = snd (CreateInstalledManifestDownloadURL E C u i z s)"
| "kb_serve (HEntryURL E C u i z x) s = snd (CreateInstalledEntryContentDownloadURL E C u i z x s)"
| "kb_serve (HFullText E C u i z x) s = snd (FetchInstalledEntryFullText E C u i z x s)"
| "kb_serve (HKnowledge k) s = s\<lparr>kh_know := k\<rparr>"
| "kb_serve (HObjects obs) s = s\<lparr>kh_objects := obs\<rparr>"

section \<open>What the requests do to the tables of the hub\<close>

text \<open>The tables of the published content, of the subscriptions, and the billing tables.\<close>

definition published :: "kb_tables \<Rightarrow> kb_snapshot list \<times> kb_snapshot_entry list" where
  "published t = (kt_snapshots t, kt_entries t)"

lemma enforceKBGovernance_kb [simp]:
  "kh_kb (snd (enforceKBGovernance E C a i c r x s)) = kh_kb s" "kh_billing (snd (enforceKBGovernance E C a i c r x s)) = kh_billing s"
  by (simp_all add: enforceKBGovernance_def split: option.split prod.split)

lemma enforceKBGovernance_kb' :
  "enforceKBGovernance E C a i c r x s = (v, s') \<Longrightarrow> kh_kb s' = kh_kb s \<and> kh_billing s' = kh_billing s"
  using enforceKBGovernance_kb [of E C a i c r x s] by simp

lemma recordUsage_kb [simp]: "kh_kb (snd (recordUsage E input s)) = kh_kb s"
  by (simp add: recordUsage_def split: prod.split)

lemma recordUsage_kb': "recordUsage E input s = (u, s') \<Longrightarrow> kh_kb s' = kh_kb s"
  using recordUsage_kb [of E input s] by simp

lemma reading_requests_kb:
  "kh_kb (snd (CreateSnapshotManifestDownloadURL E C i z s)) = kh_kb s"
  "kh_kb (snd (CreateInstalledManifestDownloadURL E C u i z s)) = kh_kb s"
  "kh_kb (snd (CreateInstalledEntryContentDownloadURL E C u i z x s)) = kh_kb s"
  "kh_kb (snd (FetchInstalledEntryFullText E C u i z x s)) = kh_kb s"
  by (auto simp: CreateSnapshotManifestDownloadURL_def CreateInstalledManifestDownloadURL_def
      CreateInstalledEntryContentDownloadURL_def FetchInstalledEntryFullText_def split: sum.split prod.split dest: recordUsage_kb')

lemma kb_CreateCollection_kb: "published (kh_kb (snd (kb_CreateCollection E w input s))) = published (kh_kb s)
    \<and> kt_subscriptions (kh_kb (snd (kb_CreateCollection E w input s))) = kt_subscriptions (kh_kb s)"
  by (auto simp: kb_CreateCollection_def CreateCollection_repo_def Let_def published_def split: sum.split)

lemma UpdateCollection_kb: "UpdateCollection E c t = Inr (c', t') \<Longrightarrow> published t' = published t \<and> kt_subscriptions t' = kt_subscriptions t"
  by (auto simp: UpdateCollection_def Let_def published_def split: sum.splits)

lemma UpdateCollectionDeclarations_kb: "published (kh_kb (snd (UpdateCollectionDeclarations E w i input s))) = published (kh_kb s)
    \<and> kt_subscriptions (kh_kb (snd (UpdateCollectionDeclarations E w i input s))) = kt_subscriptions (kh_kb s)"
  by (auto simp: UpdateCollectionDeclarations_def Let_def split: sum.split prod.split dest: UpdateCollection_kb)

lemma UpdateCollectionReview_kb: "published (snd (UpdateCollectionReview E i a st r t)) = published t
    \<and> kt_subscriptions (snd (UpdateCollectionReview E i a st r t)) = kt_subscriptions t"
  by (simp add: UpdateCollectionReview_def Let_def published_def split: sum.split)

lemma ReviewCollection_kb: "published (kh_kb (snd (ReviewCollection E C a i st r s))) = published (kh_kb s)
    \<and> kt_subscriptions (kh_kb (snd (ReviewCollection E C a i st r s))) = kt_subscriptions (kh_kb s)"
proof -
  obtain v s1 where g: "enforceKBGovernance E C a (e_uuid_str E i) (''kb.collection.review.'' @ trim st) ''high''
      [(''collection_id'', AStr (e_uuid_str E i)), (''review_status'', AStr (trim st)), (''reason'', AStr (trim r))] s = (v, s1)"
    by fastforce
  then have "kh_kb s1 = kh_kb s" using enforceKBGovernance_kb' by blast
  then show ?thesis
    using UpdateCollectionReview_kb [of E i a "trim st" "trim r" "kh_kb s"] unfolding ReviewCollection_def Let_def g map_kb_def
    by (auto split: sum.split prod.split)
qed

lemma report_requests_kb:
  "published (kh_kb (snd (ReportCollection E u i r d s))) = published (kh_kb s)
    \<and> kt_subscriptions (kh_kb (snd (ReportCollection E u i r d s))) = kt_subscriptions (kh_kb s)"
  "published (kh_kb (snd (ResolveModerationReport E a j st r s))) = published (kh_kb s)
    \<and> kt_subscriptions (kh_kb (snd (ResolveModerationReport E a j st r s))) = kt_subscriptions (kh_kb s)"
  by (auto simp: ReportCollection_def CreateModerationReport_def ResolveModerationReport_def ResolveModerationReport_repo_def map_kb_def
      Let_def published_def split: sum.split)

lemma UpdateCollectionPricing_kb: "published (kh_kb (snd (UpdateCollectionPricing E C w i input s))) = published (kh_kb s)
    \<and> kt_subscriptions (kh_kb (snd (UpdateCollectionPricing E C w i input s))) = kt_subscriptions (kh_kb s)"
  unfolding UpdateCollectionPricing_def Let_def
  by (auto split: sum.split prod.split dest!: UpdateCollection_kb enforceKBGovernance_kb')

lemma InstallCollection_kb: "published (kh_kb (snd (InstallCollection E u i input s))) = published (kh_kb s)"
proof -
  have "published t' = published t" if "UpsertSubscription E b t = Inr (b', t')" for b b' t t'
    using that by (auto simp: UpsertSubscription_def Let_def published_def split: sum.splits if_splits)
  then show ?thesis by (auto simp: InstallCollection_def Let_def split: sum.split prod.split)
qed

lemma kb_ExpireSubscriptions_kb: "published (kh_kb (snd (kb_ExpireSubscriptions E t s))) = published (kh_kb s)"
  by (simp add: kb_ExpireSubscriptions_def ExpireSubscriptions_repo_def map_kb_def Let_def published_def split: sum.split)

lemma kb_CancelSubscription_kb: "published (kh_kb (snd (kb_CancelSubscription E u i s))) = published (kh_kb s)"
  by (auto simp: kb_CancelSubscription_def CancelSubscription_repo_def Let_def published_def split: sum.split list.split)

section \<open>Snapshots are numbered and never change\<close>

text \<open>A snapshot without the two columns that archiving and restoring set.\<close>

definition core :: "kb_snapshot \<Rightarrow> kb_snapshot" where
  "core z = z\<lparr>kz_status := '''', kz_archived_at := None\<rparr>"

lemma core_simps [simp]: "kz_id (core z) = kz_id z" "kz_collection_id (core z) = kz_collection_id z" "kz_version (core z) = kz_version z"
  by (simp_all add: core_def)

definition versions_of :: "uuid \<Rightarrow> kb_tables \<Rightarrow> int list" where
  "versions_of c t = map kz_version (filter (\<lambda>z. kz_collection_id z = c) (kt_snapshots t))"

text \<open>What one request does to the published content: nothing, a change of status, or one more snapshot.\<close>

definition publication_step :: "kb_tables \<Rightarrow> kb_tables \<Rightarrow> bool" where
  "publication_step t t' \<longleftrightarrow>
     (map core (kt_snapshots t') = map core (kt_snapshots t) \<and> kt_entries t' = kt_entries t)
     \<or> (\<exists>z xs. kt_snapshots t' = kt_snapshots t @ [z] \<and> kt_entries t' = kt_entries t @ xs
          \<and> kz_id z \<notin> kz_id ` set (kt_snapshots t) \<and> kz_version z = next_version (versions_of (kz_collection_id z) t)
          \<and> (\<forall>x\<in>set xs. ke_snapshot_id x = kz_id z))"

lemma publication_step_refl [simp]: "publication_step t t"
  by (simp add: publication_step_def)

lemma publication_step_same: "published t' = published t \<Longrightarrow> publication_step t t'"
  by (simp add: publication_step_def published_def)

lemma publication_step_after: "publication_step t t' \<Longrightarrow> published t'' = published t' \<Longrightarrow> publication_step t t''"
  by (auto simp: publication_step_def published_def)

lemma insert_entries_Inr: "insert_entries E xs t = Inr t' \<Longrightarrow> t' = t @ xs"
  by (induction E xs t rule: insert_entries.induct) (auto simp: db_simps split: sum.splits)

lemma CreateSnapshot_step:
  assumes "CreateSnapshot E z xs t = Inr t'" "kz_version z = next_version (versions_of (kz_collection_id z) t)"
  shows "publication_step t t' \<and> kt_subscriptions t' = kt_subscriptions t"
proof -
  have "kt_snapshots t' = kt_snapshots t @ [z]" "kt_entries t' = kt_entries t @ map (\<lambda>x. x\<lparr>ke_snapshot_id := kz_id z\<rparr>) xs"
    "kz_id z \<notin> kz_id ` set (kt_snapshots t)" "kt_subscriptions t' = kt_subscriptions t"
    using assms(1) by (auto simp: CreateSnapshot_def db_simps dest!: insert_entries_Inr split: sum.splits)
  with assms(2) show ?thesis by (force simp: publication_step_def)
qed

lemma MarkCollectionPublished_kb: "MarkCollectionPublished E i t = Inr t' \<Longrightarrow> published t' = published t \<and> kt_subscriptions t' = kt_subscriptions t"
  by (auto simp: MarkCollectionPublished_def published_def split: sum.splits)

lemma record_snapshot_step:
  assumes "kz_version z = next_version (versions_of (kz_collection_id z) (kh_kb s))"
  shows "publication_step (kh_kb s) (kh_kb (snd (record_snapshot E C z xs content s)))
    \<and> kt_subscriptions (kh_kb (snd (record_snapshot E C z xs content s))) = kt_subscriptions (kh_kb s)"
proof (cases "CreateSnapshot E z xs (kh_kb s)")
  case (Inr t1)
  note step = CreateSnapshot_step [OF Inr assms]
  show ?thesis
  proof (cases "MarkCollectionPublished E (kz_collection_id z) t1")
    case marked: (Inr t2)
    have "kh_kb (snd (record_snapshot E C z xs content s)) = t2"
      using Inr marked by (simp add: record_snapshot_def Let_def split: sum.split)
    then show ?thesis using step MarkCollectionPublished_kb [OF marked] publication_step_after by auto
  qed (use Inr step in \<open>simp add: record_snapshot_def\<close>)
qed (simp add: record_snapshot_def)

lemma store_snapshot_version:
  "store_snapshot E C w i v es obs = (Inr (z, rows), obs') \<Longrightarrow> kz_version z = v \<and> kz_collection_id z = i"
  by (auto simp: store_snapshot_def Let_def snapshot_of_def split: sum.splits prod.splits)

lemma PublishSnapshot_step:
  "publication_step (kh_kb s) (kh_kb (snd (PublishSnapshot E C w i ids s)))
   \<and> kt_subscriptions (kh_kb (snd (PublishSnapshot E C w i ids s))) = kt_subscriptions (kh_kb s)"
proof (cases "\<exists>found v. ListEntries E w False (kh_know s) = Inr found \<and> NextSnapshotVersion E i (kh_kb s) = Inr v")
  case True
  then obtain found v where found: "ListEntries E w False (kh_know s) = Inr found" and v: "NextSnapshotVersion E i (kh_kb s) = Inr v" by blast
  have next_v: "v = next_version (versions_of i (kh_kb s))"
    using v by (auto simp: NextSnapshotVersion_def versions_of_def db_simps split: sum.splits)
  let ?es = "sort_key kn_entry_id (filterKnowledgeEntries found ids)"
  show ?thesis
  proof (cases "store_snapshot E C w i v ?es (kh_objects s)")
    case (Pair r obs)
    show ?thesis
    proof (cases r)
      case (Inl e)
      with Pair found v show ?thesis by (simp add: PublishSnapshot_def Let_def split: sum.split)
    next
      case (Inr zr)
      then obtain z rows where zr: "r = Inr (z, rows)" by (cases zr) auto
      have "kz_version z = next_version (versions_of (kz_collection_id z) (kh_kb (s\<lparr>kh_objects := obs\<rparr>)))"
        using store_snapshot_version [OF Pair [unfolded zr]] next_v by simp
      from record_snapshot_step [OF this, of E C rows "contents_of ?es"] Pair zr found v show ?thesis
        by (simp add: PublishSnapshot_def Let_def split: sum.split)
    qed
  qed
next
  case False
  then have "kh_kb (snd (PublishSnapshot E C w i ids s)) = kh_kb s"
    by (auto simp: PublishSnapshot_def Let_def split: sum.split)
  then show ?thesis by simp
qed

lemma status_step:
  assumes "\<And>z. core (f z) = core z"
  shows "publication_step t (t\<lparr>kt_snapshots := upd_where P f (kt_snapshots t)\<rparr>)"
  using assms by (simp add: publication_step_def map_upd_where)

lemma archive_restore_step:
  "publication_step t (snd (ArchiveSnapshot_repo E i z t)) \<and> kt_subscriptions (snd (ArchiveSnapshot_repo E i z t)) = kt_subscriptions t"
  "publication_step t (snd (RestoreSnapshot_repo E i z t)) \<and> kt_subscriptions (snd (RestoreSnapshot_repo E i z t)) = kt_subscriptions t"
  by (auto simp: ArchiveSnapshot_repo_def RestoreSnapshot_repo_def Let_def db_simps core_def intro!: status_step split: sum.split)

lemma snapshot_governed_step:
  assumes "\<And>t. publication_step t (snd (f t)) \<and> kt_subscriptions (snd (f t)) = kt_subscriptions t"
  shows "publication_step (kh_kb s) (kh_kb (snd (snapshot_governed E C w i z cap f s)))
    \<and> kt_subscriptions (kh_kb (snd (snapshot_governed E C w i z cap f s))) = kt_subscriptions (kh_kb s)"
proof (cases "kb_GetCollection E w i s")
  case (Inr c)
  obtain v s1 where g: "enforceKBGovernance E C w (e_uuid_str E z) cap ''medium''
      [(''collection_id'', AStr (e_uuid_str E i)), (''snapshot_id'', AStr (e_uuid_str E z))] s = (v, s1)" by fastforce
  then have "kh_kb s1 = kh_kb s" using enforceKBGovernance_kb' by blast
  then show ?thesis
    using assms [of "kh_kb s"] Inr unfolding snapshot_governed_def g map_kb_def by (auto split: sum.split prod.split)
qed (simp add: snapshot_governed_def)

lemma kb_serve_publication: "publication_step (kh_kb s) (kh_kb (kb_serve q s))"
  by (cases q) (simp_all add: PublishSnapshot_step kb_ArchiveSnapshot_def kb_RestoreSnapshot_def snapshot_governed_step
      archive_restore_step reading_requests_kb publication_step_same kb_CreateCollection_kb UpdateCollectionDeclarations_kb
      ReviewCollection_kb report_requests_kb UpdateCollectionPricing_kb InstallCollection_kb kb_ExpireSubscriptions_kb
      kb_CancelSubscription_kb)

text \<open>Versions are numbered from one, and identifiers of snapshots are distinct.\<close>

definition numbered :: "kb_tables \<Rightarrow> bool" where
  "numbered t \<longleftrightarrow> (\<forall>c. versions_of c t = [1..int (length (versions_of c t))]) \<and> distinct (map kz_id (kt_snapshots t))"

lemma versions_of_core: "versions_of c t = map kz_version (filter (\<lambda>z. kz_collection_id z = c) (map core (kt_snapshots t)))"
  by (simp add: versions_of_def filter_map comp_def)

lemma numbered_step:
  assumes "publication_step t t'" "numbered t"
  shows "numbered t'"
  using assms(1) unfolding publication_step_def
proof (elim disjE exE conjE)
  assume same: "map core (kt_snapshots t') = map core (kt_snapshots t)"
  then have "versions_of c t' = versions_of c t" for c by (simp add: versions_of_core)
  moreover have "map kz_id (kt_snapshots t') = map kz_id (kt_snapshots t)"
    using arg_cong [OF same, of "map kz_id"] by (simp add: comp_def)
  ultimately show ?thesis using assms(2) by (simp add: numbered_def)
next
  fix z xs
  assume z: "kt_snapshots t' = kt_snapshots t @ [z]" "kz_id z \<notin> kz_id ` set (kt_snapshots t)"
    "kz_version z = next_version (versions_of (kz_collection_id z) t)"
  let ?c = "kz_collection_id z"
  have vs: "versions_of ?c t = [1..int (length (versions_of ?c t))]" using assms(2) by (simp add: numbered_def)
  then have "kz_version z = int (length (versions_of ?c t)) + 1"
    using fold_max_upto [of "int (length (versions_of ?c t))"] by (simp add: z(3) next_version_def)
  then have "versions_of c t' = [1..int (length (versions_of c t'))]" for c
    using assms(2) vs upto_rec2 [of 1 "int (length (versions_of ?c t)) + 1"]
    by (cases "c = ?c") (auto simp: versions_of_def z(1) numbered_def add.commute)
  then show ?thesis using assms(2) z by (simp add: numbered_def)
qed

lemma numbered_run: "numbered (kh_kb (fold kb_serve qs kb_hub_init))"
proof -
  have "numbered (kh_kb (fold kb_serve qs s))" if "numbered (kh_kb s)" for s
    using that by (induction qs arbitrary: s) (simp_all add: numbered_step [OF kb_serve_publication])
  moreover have "numbered (kh_kb kb_hub_init)" by (simp add: numbered_def versions_of_def kb_hub_init_def kb_init_def)
  ultimately show ?thesis by blast
qed

text \<open>A published snapshot keeps its contents.\<close>

definition same_content :: "uuid \<Rightarrow> kb_tables \<Rightarrow> kb_tables \<Rightarrow> bool" where
  "same_content z t t' \<longleftrightarrow>
     filter (\<lambda>x. ke_snapshot_id x = z) (kt_entries t') = filter (\<lambda>x. ke_snapshot_id x = z) (kt_entries t)
     \<and> filter (\<lambda>x. kz_id x = z) (map core (kt_snapshots t')) = filter (\<lambda>x. kz_id x = z) (map core (kt_snapshots t))"

lemma content_step:
  assumes "publication_step t t'" "z \<in> kz_id ` set (kt_snapshots t)"
  shows "same_content z t t' \<and> z \<in> kz_id ` set (kt_snapshots t')"
  using assms(1) unfolding publication_step_def
proof (elim disjE exE conjE)
  assume same: "map core (kt_snapshots t') = map core (kt_snapshots t)" "kt_entries t' = kt_entries t"
  have "kz_id ` set (kt_snapshots t') = kz_id ` set (kt_snapshots t)"
    using arg_cong [OF same(1), of "\<lambda>zs. kz_id ` set zs"] by (simp add: image_image)
  with same assms(2) show ?thesis by (simp add: same_content_def)
qed (use assms(2) in \<open>auto simp: same_content_def filter_empty_conv\<close>)

lemma content_run:
  assumes "z \<in> kz_id ` set (kt_snapshots (kh_kb s))"
  shows "same_content z (kh_kb s) (kh_kb (fold kb_serve qs s))"
  using assms
proof (induction qs arbitrary: s)
  case (Cons q qs)
  note step = content_step [OF kb_serve_publication [of s q] Cons.prems]
  from step Cons.IH [of "kb_serve q s"] show ?case by (simp add: same_content_def)
qed (simp add: same_content_def)

text \<open>
  C34: The snapshots of a collection are its versions 1, 2, 3 and so on in the order they were published, whatever the
  requests: publications that fail half way, archiving and restoring leave no gap and no duplicate.
\<close>

theorem snapshots_are_numbered:
  "let zs = filter (\<lambda>z. kz_collection_id z = c) (kt_snapshots (kh_kb (fold kb_serve qs kb_hub_init)))
   in map kz_version zs = [1..int (length zs)]"
  using numbered_run [of qs] by (simp add: numbered_def versions_of_def Let_def)

text \<open>
  C12: A published snapshot never changes: whatever happens after its publication, its entries and every column of its
  row but the status and the time of archiving stay as they were.
\<close>

theorem published_snapshots_never_change:
  assumes "z \<in> kz_id ` set (kt_snapshots (kh_kb s))"
  shows "let t = kh_kb s; t' = kh_kb (fold kb_serve qs s) in
     filter (\<lambda>x. ke_snapshot_id x = z) (kt_entries t') = filter (\<lambda>x. ke_snapshot_id x = z) (kt_entries t)
     \<and> filter (\<lambda>x. kz_id x = z) (map core (kt_snapshots t')) = filter (\<lambda>x. kz_id x = z) (map core (kt_snapshots t))"
  using content_run [OF assms, of qs] by (simp add: same_content_def Let_def)

section \<open>Access\<close>

lemma not_found_as_Inr [simp]: "not_found_as e r = Inr x \<longleftrightarrow> r = Inr x"
  by (auto simp: not_found_as_def split: sum.splits)

lemma not_found_as_found [simp]: "not_found_as e (Inr x) = Inr x"
  by (simp add: not_found_as_def)

text \<open>The snapshot a subscription gives: the pinned version, or the active one with the greatest version.\<close>

definition gives :: "kb_subscription \<Rightarrow> kb_snapshot \<Rightarrow> kb_tables \<Rightarrow> bool" where
  "gives b z t \<longleftrightarrow>
     kb_track_mode b = ''pinned'' \<and> kb_pinned_version b = Some (kz_version z)
     \<or> kb_track_mode b = ''latest'' \<and> kz_status z = ''active''
       \<and> (\<forall>y\<in>set (kt_snapshots t). kz_collection_id y = kz_collection_id z \<and> kz_status y = ''active'' \<longrightarrow> kz_version y \<le> kz_version z)"

lemma authorize_Inr:
  assumes "authorizeSnapshotAccess E u i z t = Inr b"
  shows "b \<in> set (kt_subscriptions t) \<and> kb_user_id b = u \<and> kb_collection_id b = i \<and> kb_status b = ''active''
    \<and> (\<exists>zz\<in>set (kt_snapshots t). kz_id zz = z \<and> kz_collection_id zz = i \<and> gives b zz t)"
proof -
  obtain zz where zz: "GetSnapshot_repo E 0 i z t = Inr zz" and b: "GetActiveSubscription E u i t = Inr b"
    using assms by (auto simp: authorizeSnapshotAccess_def split: if_splits sum.splits option.splits)
  have sub: "b \<in> set (kt_subscriptions t) \<and> kb_user_id b = u \<and> kb_collection_id b = i \<and> kb_status b = ''active''"
    using b unfolding GetActiveSubscription_def by (auto simp: kb_is_def dest: db_first_found)
  have row: "zz \<in> set (kt_snapshots t)" "kz_id zz = z" "kz_collection_id zz = i"
    using zz unfolding GetSnapshot_repo_def by (auto dest: db_first_found)
  show ?thesis
  proof (cases "kb_track_mode b = ''pinned''")
    case True
    then have "kb_pinned_version b = Some (kz_version zz)"
      using assms zz b by (auto simp: authorizeSnapshotAccess_def split: if_splits option.splits)
    with True row sub show ?thesis by (auto simp: gives_def)
  next
    case False
    then have mode: "kb_track_mode b = ''latest''"
      using assms zz b by (simp add: authorizeSnapshotAccess_def split: if_splits)
    obtain y where y: "GetLatestSnapshot E 0 i t = Inr y" "kz_id y = z"
      using assms zz b False mode by (simp add: authorizeSnapshotAccess_def split: if_splits sum.splits)
    then have f: "first_by (\<lambda>z. - kz_version z) (\<lambda>z. kz_collection_id z = i \<and> kz_status z = ''active'') (kt_snapshots t) = Some y"
      by (simp add: GetLatestSnapshot_def db_simps)
    have in_y: "y \<in> set (kt_snapshots t)" "kz_collection_id y = i" "kz_status y = ''active''" using first_by_Some [OF f] by auto
    moreover have "kz_version w \<le> kz_version y" if "w \<in> set (kt_snapshots t)" "kz_collection_id w = i" "kz_status w = ''active''" for w
      using first_by_least [OF f that(1)] that by simp
    ultimately have "gives b y t" using mode by (simp add: gives_def)
    with in_y y(2) sub show ?thesis by blast
  qed
qed

text \<open>
  C10: The text of an entry is only read with a subscription: whenever a full text is returned, the user has an active
  subscription to the collection, the snapshot is one of the collection and exactly the one the subscription gives
  (its pinned version, or the newest active one), and the entry returned is the one asked for and part of it.
\<close>

theorem content_needs_the_subscription:
  assumes "fst (FetchInstalledEntryFullText E C u i z x s) = Inr r"
  shows "\<exists>b\<in>set (kt_subscriptions (kh_kb s)). kb_user_id b = u \<and> kb_collection_id b = i \<and> kb_status b = ''active''
     \<and> (\<exists>zz\<in>set (kt_snapshots (kh_kb s)). kz_id zz = z \<and> kz_collection_id zz = i \<and> gives b zz (kh_kb s))
     \<and> ft_entry r \<in> set (kt_entries (kh_kb s)) \<and> ke_id (ft_entry r) = x \<and> ke_snapshot_id (ft_entry r) = z"
proof -
  obtain b entry where b: "authorizeSnapshotAccess E u i z (kh_kb s) = Inr b"
      and entry: "GetSnapshotEntry E z x (kh_kb s) = Inr entry" "ft_entry r = entry"
    using assms by (auto simp: FetchInstalledEntryFullText_def split: sum.splits prod.splits)
  have "entry \<in> set (kt_entries (kh_kb s)) \<and> ke_id entry = x \<and> ke_snapshot_id entry = z"
    using entry(1) unfolding GetSnapshotEntry_def by (auto dest: db_first_found)
  with authorize_Inr [OF b] entry(2) show ?thesis by blast
qed

text \<open>
  The expiry job ends access: right after it has run for a time, no user reads a snapshot with a subscription that
  had expired by that time.
\<close>

theorem expiry_job_ends_access:
  assumes "kb_ExpireSubscriptions E now s = (Inr n, s')" "now \<noteq> time_zero" "authorizeSnapshotAccess E' u i z (kh_kb s') = Inr b"
  shows "(case kb_expires_at b of None \<Rightarrow> True | Some t \<Rightarrow> now < t)"
proof -
  let ?P = "\<lambda>b. kb_status b = ''active'' \<and> (case kb_expires_at b of None \<Rightarrow> False | Some t \<Rightarrow> t \<le> now)"
  have "kt_subscriptions (kh_kb s') = upd_where ?P
      (\<lambda>b. b\<lparr>kb_status := ''expired'', kb_renewal_status := ''expired'', kb_updated_at := e_now E\<rparr>) (kt_subscriptions (kh_kb s))"
    using assms(1,2) by (auto simp: kb_ExpireSubscriptions_def ExpireSubscriptions_repo_def map_kb_def Let_def db_simps split: sum.splits)
  moreover have "b \<in> set (kt_subscriptions (kh_kb s'))" "kb_status b = ''active''" using authorize_Inr [OF assms(3)] by auto
  ultimately have "\<not> ?P b" by (auto simp: upd_where_def split: if_splits)
  with \<open>kb_status b = ''active''\<close> show ?thesis by (auto split: option.splits)
qed

section \<open>Subscriptions\<close>

text \<open>
  C33: Subscription periods: a collection is only installed while it is published and approved, and the subscription
  starts now. An end the user names is taken as it is. Otherwise a paid monthly subscription (month is also the blank
  interval) ends on the same day of the next month, or as many days into the month after as that day is missing there;
  a yearly one on the same day of the next year, or on the first of March when it starts on a 29th of February; both at
  the same time of the day. A paid subscription with any other interval ends at once, a trial lasts exactly its days (14
  if none are set), and free and granted subscriptions have no end.
\<close>

theorem subscription_period_fits_the_calendar:
  assumes "InstallCollection E u i input s = (Inr b, s')"
  shows "\<exists>c\<in>set (kt_collections (kh_kb s)). kc_id c = i \<and> kc_status c = ''published'' \<and> kc_review_status c = ''approved''
     \<and> kb_started_at b = e_now E
     \<and> (case lj_expires_at input of
          Some t \<Rightarrow> kb_expires_at b = Some t
        | None \<Rightarrow>
            if kb_entitlement_type b = ''trial''
            then kb_expires_at b = Some (e_now E + days (if kc_trial_days c \<le> 0 then 14 else kc_trial_days c))
            else if kb_entitlement_type b = ''paid''
            then \<exists>t. kb_expires_at b = Some t \<and> t mod days 1 = e_now E mod days 1
               \<and> civil (day_of t) =
                   (if trim (kc_billing_interval c) \<in> {''month'', ''''} then month_later (civil (day_of (e_now E)))
                    else if trim (kc_billing_interval c) = ''year'' then year_later (civil (day_of (e_now E)))
                    else civil (day_of (e_now E)))
            else kb_expires_at b = None)"
proof -
  obtain c z where pub: "GetPublicCollection E i s = Inr (c, z)"
    using assms by (auto simp: InstallCollection_def split: if_splits sum.splits)
  then have "GetPublishedCollection E i (kh_kb s) = Inr c"
    by (auto simp: GetPublicCollection_def split: sum.splits if_splits)
  then have c: "c \<in> set (kt_collections (kh_kb s)) \<and> kc_id c = i \<and> is_public c"
    unfolding GetPublishedCollection_def by (auto dest: db_first_found)
  have upsert: "kb_expires_at b' = kb_expires_at n \<and> kb_entitlement_type b' = kb_entitlement_type n \<and> kb_started_at b' = kb_started_at n"
    if "UpsertSubscription E n t = Inr (b', t')" for n b' t t'
    using that by (auto simp: UpsertSubscription_def Let_def split: sum.splits if_splits)
  have b: "kb_expires_at b = install_period_end (e_now E) c input" "kb_entitlement_type b = install_entitlement c input"
      "kb_started_at b = e_now E"
    using assms pub by (auto simp: InstallCollection_def Let_def dest!: upsert split: if_splits sum.splits prod.splits)
  define t where "t = addBillingPeriod (e_now E) (kc_billing_interval c)"
  have t: "t mod days 1 = e_now E mod days 1" "civil (day_of t) =
      (if trim (kc_billing_interval c) \<in> {''month'', ''''} then month_later (civil (day_of (e_now E)))
       else if trim (kc_billing_interval c) = ''year'' then year_later (civil (day_of (e_now E))) else civil (day_of (e_now E)))"
    by (auto simp: t_def addBillingPeriod_def Let_def AddDate_month_date AddDate_year_date)
  show ?thesis
  proof (rule bexI [of _ c])
    have "case lj_expires_at input of
          Some t \<Rightarrow> kb_expires_at b = Some t
        | None \<Rightarrow> kb_expires_at b =
            (if kb_entitlement_type b = ''trial'' then Some (e_now E + days (if kc_trial_days c \<le> 0 then 14 else kc_trial_days c))
             else if kb_entitlement_type b = ''paid'' then Some t else None)"
      by (simp add: b install_period_end_def Let_def AddDate_days t_def split: option.split)
    then show "kc_id c = i \<and> kc_status c = ''published'' \<and> kc_review_status c = ''approved'' \<and> kb_started_at b = e_now E
     \<and> (case lj_expires_at input of
          Some t \<Rightarrow> kb_expires_at b = Some t
        | None \<Rightarrow>
            if kb_entitlement_type b = ''trial''
            then kb_expires_at b = Some (e_now E + days (if kc_trial_days c \<le> 0 then 14 else kc_trial_days c))
            else if kb_entitlement_type b = ''paid''
            then \<exists>t. kb_expires_at b = Some t \<and> t mod days 1 = e_now E mod days 1
               \<and> civil (day_of t) =
                   (if trim (kc_billing_interval c) \<in> {''month'', ''''} then month_later (civil (day_of (e_now E)))
                    else if trim (kc_billing_interval c) = ''year'' then year_later (civil (day_of (e_now E)))
                    else civil (day_of (e_now E)))
            else kb_expires_at b = None)"
      using c t b(3) by (auto simp: is_public_def split: option.split)
  qed (use c in simp)
qed

section \<open>Comparing snapshots\<close>

lemma by_entry_id_Some:
  assumes "distinct (map ke_entry_id xs)"
  shows "by_entry_id xs k = Some x \<longleftrightarrow> x \<in> set xs \<and> ke_entry_id x = k"
proof -
  have "map fst (rev (map (\<lambda>x. (ke_entry_id x, x)) xs)) = rev (map ke_entry_id xs)" by (simp add: rev_map comp_def)
  then have "distinct (map fst (rev (map (\<lambda>x. (ke_entry_id x, x)) xs)))" using assms by (simp only: distinct_rev)
  from map_of_eq_Some_iff [OF this, of k x] show ?thesis by (auto simp: by_entry_id_def)
qed

lemma by_entry_id_None: "by_entry_id xs k = None \<longleftrightarrow> k \<notin> ke_entry_id ` set xs"
  by (auto simp: by_entry_id_def map_of_eq_None_iff image_image)

lemma by_entry_id_the:
  assumes "distinct (map ke_entry_id xs)" "x \<in> set xs"
  shows "the (by_entry_id xs (ke_entry_id x)) = x"
  using by_entry_id_Some [OF assms(1), of "ke_entry_id x" x] assms(2) by simp

lemma set_range: "mset (range_of ks) = mset ks \<Longrightarrow> set (range_of ks) = set ks"
  by (metis set_mset_mset)

lemma filter_split: "length (filter P xs) + length (filter (\<lambda>x. \<not> P x) xs) = length xs"
  by (induction xs) simp_all

lemma diff_entries_accounts:
  assumes "\<forall>ks. mset (kg_range C ks) = mset ks" "distinct (map ke_entry_id xs)" "distinct (map ke_entry_id ys)"
  shows "let d = diff_entries C xs ys in
     set (kd_added d) = {y \<in> set ys. ke_entry_id y \<notin> ke_entry_id ` set xs}
     \<and> set (kd_removed d) = {x \<in> set xs. ke_entry_id x \<notin> ke_entry_id ` set ys}
     \<and> set (kd_changed d) = {(ke_entry_id x, x, y) | x y. x \<in> set xs \<and> y \<in> set ys \<and> ke_entry_id x = ke_entry_id y
          \<and> snapshotEntryChanged C x y}
     \<and> length ys = length (kd_added d) + length (kd_changed d) + kd_unchanged d
     \<and> length xs = length (kd_removed d) + length (kd_changed d) + kd_unchanged d"
proof -
  let ?from = "by_entry_id xs" and ?to = "by_entry_id ys"
  let ?xk = "kg_range C (map ke_entry_id xs)" and ?yk = "kg_range C (map ke_entry_id ys)"
  let ?changed = "\<lambda>k. snapshotEntryChanged C (the (?from k)) (the (?to k))"
  have keys: "remdups (map ke_entry_id xs) = map ke_entry_id xs" "remdups (map ke_entry_id ys) = map ke_entry_id ys"
    using assms(2,3) by (simp_all add: distinct_remdups_id)
  have m: "mset ?xk = mset (map ke_entry_id xs)" "mset ?yk = mset (map ke_entry_id ys)" using assms(1) by simp_all
  then have sets: "set ?xk = ke_entry_id ` set xs" "set ?yk = ke_entry_id ` set ys"
    by (metis set_map set_mset_mset)+
  have len: "length ?xk = length xs" "length ?yk = length ys" using m by (metis length_map size_mset)+
  have dist: "distinct ?xk" "distinct ?yk" using m assms(2,3) by (metis mset_eq_imp_distinct_iff)+
  let ?d = "diff_entries C xs ys"
  have d: "kd_added ?d = map (\<lambda>k. the (?to k)) (filter (\<lambda>k. ?from k = None) ?yk)"
    "kd_removed ?d = map (\<lambda>k. the (?from k)) (filter (\<lambda>k. ?to k = None) ?xk)"
    "kd_changed ?d = map (\<lambda>k. (k, the (?from k), the (?to k))) (filter ?changed (filter (\<lambda>k. ?from k \<noteq> None) ?yk))"
    "kd_unchanged ?d = length (filter (\<lambda>k. \<not> ?changed k) (filter (\<lambda>k. ?from k \<noteq> None) ?yk))"
    by (simp_all only: diff_entries_def Let_def keys snapshot_diff.simps)
  have the: "the (?from (ke_entry_id x)) = x" if "x \<in> set xs" for x using by_entry_id_the [OF assms(2) that] .
  have the': "the (?to (ke_entry_id y)) = y" if "y \<in> set ys" for y using by_entry_id_the [OF assms(3) that] .
  have added: "set (kd_added ?d) = {y \<in> set ys. ke_entry_id y \<notin> ke_entry_id ` set xs}"
    by (force simp: d(1) sets by_entry_id_None the')
  have removed: "set (kd_removed ?d) = {x \<in> set xs. ke_entry_id x \<notin> ke_entry_id ` set ys}"
    by (force simp: d(2) sets by_entry_id_None the)
  have changed: "set (kd_changed ?d) = {(ke_entry_id x, x, y) | x y. x \<in> set xs \<and> y \<in> set ys \<and> ke_entry_id x = ke_entry_id y
      \<and> snapshotEntryChanged C x y}"
    unfolding d(3) using the the' by (auto simp: sets by_entry_id_None image_iff) (metis+)?
  have both: "length (filter (\<lambda>k. ?from k \<noteq> None) ?yk) = length (kd_changed ?d) + kd_unchanged ?d"
    unfolding d(3,4) using filter_split [of ?changed "filter (\<lambda>k. ?from k \<noteq> None) ?yk"] by simp
  have "length (filter (\<lambda>k. ?from k \<noteq> None) ?yk) = card (ke_entry_id ` set ys \<inter> ke_entry_id ` set xs)"
    using dist(2) by (simp add: distinct_card [symmetric] sets by_entry_id_None Int_def)
  moreover have "length (filter (\<lambda>k. ?to k \<noteq> None) ?xk) = card (ke_entry_id ` set xs \<inter> ke_entry_id ` set ys)"
    using dist(1) by (simp add: distinct_card [symmetric] sets by_entry_id_None Int_def)
  ultimately have "length (filter (\<lambda>k. ?to k \<noteq> None) ?xk) = length (kd_changed ?d) + kd_unchanged ?d"
    using both by (simp add: Int_commute)
  moreover have "length (filter (\<lambda>k. ?to k = None) ?xk) = length (kd_removed ?d)" "length (filter (\<lambda>k. ?from k = None) ?yk) = length (kd_added ?d)"
    by (simp_all add: d)
  ultimately show ?thesis
    using added removed changed both filter_split [of "\<lambda>k. ?to k = None" ?xk] filter_split [of "\<lambda>k. ?from k = None" ?yk] len
    unfolding Let_def by (intro conjI) linarith+
qed

section \<open>What is published\<close>

definition entries_placed :: "kb_tables \<Rightarrow> bool" where
  "entries_placed t \<longleftrightarrow> (\<forall>x\<in>set (kt_entries t). ke_snapshot_id x \<in> kz_id ` set (kt_snapshots t))"

lemma entries_placed_step: "publication_step t t' \<Longrightarrow> entries_placed t \<Longrightarrow> entries_placed t'"
  unfolding publication_step_def
proof (elim disjE exE conjE)
  assume same: "map core (kt_snapshots t') = map core (kt_snapshots t)" "kt_entries t' = kt_entries t" and ok: "entries_placed t"
  have "kz_id ` set (kt_snapshots t') = kz_id ` set (kt_snapshots t)"
    using arg_cong [OF same(1), of "\<lambda>zs. kz_id ` set zs"] by (simp add: image_image)
  with same ok show ?thesis by (simp add: entries_placed_def)
qed (auto simp: entries_placed_def)

lemma entries_placed_run: "entries_placed (kh_kb (fold kb_serve qs kb_hub_init))"
proof -
  have "entries_placed (kh_kb (fold kb_serve qs s))" if "entries_placed (kh_kb s)" for s
    using that by (induction qs arbitrary: s) (simp_all add: entries_placed_step [OF kb_serve_publication])
  then show ?thesis by (simp add: entries_placed_def kb_hub_init_def kb_init_def)
qed

lemma StoreObject_Inr:
  assumes "StoreObject E C B w input s = (Inr r, s')"
  shows "obs_records s' = obs_records s @ [r] \<and> ob_owner_id r = w \<and> ob_status r = ''active''
    \<and> ob_content_hash r = e_sha256_hex E (so_content input)"
  using assms by (auto simp: StoreObject_def Let_def CreateObject_def db_simps split: if_splits sum.splits)

lemma nth_call_libraries [simp]: "e_sha256_hex (nth_call E k) = e_sha256_hex E" "e_now (nth_call E k) = e_now E"
  by (simp_all add: nth_call_def)

definition object_stored :: "env \<Rightarrow> uuid \<Rightarrow> object_state \<Rightarrow> string \<Rightarrow> string \<Rightarrow> bool" where
  "object_stored E w s uri content \<longleftrightarrow> list_ex (\<lambda>r. ob_object_uri r = uri \<and> ob_owner_id r = w \<and> ob_status r = ''active''
     \<and> ob_content_hash r = e_sha256_hex E content) (obs_records s)"

lemma stored_more: "object_stored E w s uri c \<Longrightarrow> obs_records s' = obs_records s @ rs \<Longrightarrow> object_stored E w s' uri c"
  by (auto simp: object_stored_def)

lemma store_entries_Inr:
  "store_entries E C w scope k xs s = (Inr uris, s') \<Longrightarrow> (\<exists>rs. obs_records s' = obs_records s @ rs)
     \<and> list_all2 (\<lambda>x uri. object_stored E w s' uri (kn_content x)) xs uris"
proof (induction xs arbitrary: k s uris)
  case (Cons x xs)
  obtain r s1 us where st: "StoreObject (nth_call E k) (kg_objects C) (kg_backend C) w
             \<lparr>so_scope = scope @ ''/entries'', so_filename = safeEntryFilename (kn_entry_id x),
              so_content_type = ''text/markdown; charset=utf-8'', so_content = kn_content x\<rparr> s = (Inr r, s1)"
      and rest: "store_entries E C w scope (k + 1) xs s1 = (Inr us, s')" and uris: "uris = ob_object_uri r # us"
    using Cons.prems by (auto split: prod.splits sum.splits)
  note r = StoreObject_Inr [OF st]
  from Cons.IH [OF rest] obtain rs where rs: "obs_records s' = obs_records s1 @ rs" by blast
  have "object_stored E w s1 (ob_object_uri r) (kn_content x)" using r by (simp add: object_stored_def)
  then have "object_stored E w s' (ob_object_uri r) (kn_content x)" using rs by (rule stored_more)
  with Cons.IH [OF rest] r rs uris show ?case by auto
qed simp

text \<open>The row of an entry: its identifier, title, summary and tokens, and the object that holds its content.\<close>

definition publishes :: "env \<Rightarrow> uuid \<Rightarrow> object_state \<Rightarrow> kb_snapshot_entry \<Rightarrow> knowledge_entry \<Rightarrow> bool" where
  "publishes E w s x e \<longleftrightarrow> ke_entry_id x = kn_entry_id e \<and> ke_title x = kn_title e \<and> ke_summary x = kn_summary e
     \<and> ke_tokens x = estimateTokens (kn_content e) \<and> object_stored E w s (ke_content_object_uri x) (kn_content e)"

lemma publishes_rows:
  assumes "list_all2 (\<lambda>e uri. object_stored E w s uri (kn_content e)) es uris"
  shows "list_all2 (publishes E w s) (map (\<lambda>x. x\<lparr>ke_snapshot_id := z\<rparr>) (map (snapshot_entry E) (enumerate k (zip es uris)))) es"
  using assms
proof (induction es uris arbitrary: k rule: list_all2_induct)
  case (Cons e es u us)
  then show ?case by (simp add: publishes_def snapshot_entry_def)
qed simp

lemma sorted_rows:
  assumes "list_all2 (publishes E w s) xs es" "sorted (map kn_entry_id es)"
  shows "sort_key ke_entry_id xs = xs"
proof -
  have "map ke_entry_id xs = map kn_entry_id es" using assms(1) by (induction rule: list_all2_induct) (simp_all add: publishes_def)
  with assms(2) show ?thesis by (simp add: sort_key_id_if_sorted)
qed

lemma store_snapshot_Inr:
  assumes "store_snapshot E C w i v es obs = (Inr (z, rows), obs')"
  shows "list_all2 (publishes E w obs') (map (\<lambda>x. x\<lparr>ke_snapshot_id := kz_id z\<rparr>) rows) es
    \<and> kz_entry_count z = int (length es) \<and> kz_total_tokens z = sum_list (map (\<lambda>e. estimateTokens (kn_content e)) es)"
proof -
  obtain uris obs1 manifest r where st: "store_entries E C w (snapshot_scope E i v) 0 es obs = (Inr uris, obs1)"
      and m: "StoreObject (nth_call E (length es)) (kg_objects C) (kg_backend C) w
        \<lparr>so_scope = snapshot_scope E i v, so_filename = ''manifest.json'', so_content_type = ''application/json'',
         so_content = manifest\<rparr> obs1 = (Inr r, obs')"
      and z: "z = snapshot_of E i v (zip es uris) manifest (ob_object_uri r)"
      and rows: "rows = map (snapshot_entry E) (enumerate 0 (zip es uris))"
    using assms by (auto simp: store_snapshot_def Let_def split: sum.splits prod.splits)
  have all: "list_all2 (\<lambda>e uri. object_stored E w obs' uri (kn_content e)) es uris"
    using store_entries_Inr [OF st] StoreObject_Inr [OF m] by (auto elim!: list_all2_mono stored_more)
  have "map fst (zip es uris) = es" using list_all2_lengthD [OF all] by simp
  then have "sum_list (map (\<lambda>(e, u). estimateTokens (kn_content e)) (zip es uris)) = sum_list (map (\<lambda>e. estimateTokens (kn_content e)) es)"
    by (metis (no_types, lifting) comp_apply list.map_comp map_eq_conv split_beta)
  moreover have "length (zip es uris) = length es" using list_all2_lengthD [OF all] by simp
  ultimately show ?thesis using publishes_rows [OF all] by (simp add: z rows snapshot_of_def)
qed

text \<open>
  C11: A publication is what was selected: a snapshot that is published has one row for each active knowledge entry of
  its owner that was asked for (all of them when none is named), in the order of their identifiers, with the entry's
  title, summary and tokens and the address of an active object of the owner that holds exactly its content; the
  counts of the snapshot are those of its rows.
\<close>

theorem publication_is_the_selection:
  assumes "PublishSnapshot E C w i ids (fold kb_serve qs kb_hub_init) = (Inr (z, rows), s')"
  shows "let es = sort_key kn_entry_id (filterKnowledgeEntries
           (sort_key kn_entry_id (filter (\<lambda>e. kn_user_id e = w \<and> kn_status e = ''active'')
             (ns_entries (kh_know (fold kb_serve qs kb_hub_init))))) ids)
     in es \<noteq> [] \<and> list_all2 (publishes E w (kh_objects s')) rows es
        \<and> kz_entry_count z = int (length rows) \<and> kz_total_tokens z = sum_list (map ke_tokens rows)"
proof -
  define s where "s = fold kb_serve qs kb_hub_init"
  define found where "found = sort_key kn_entry_id (filter (\<lambda>e. kn_user_id e = w \<and> kn_status e = ''active'') (ns_entries (kh_know s)))"
  define es where "es = sort_key kn_entry_id (filterKnowledgeEntries found ids)"
  have list: "ListEntries E w False (kh_know s) = Inr found"
    using assms by (auto simp: PublishSnapshot_def ListEntries_def s_def [symmetric] found_def db_find_def split: sum.splits if_splits)
  obtain v new obs where v: "NextSnapshotVersion E i (kh_kb s) = Inr v" and ne: "es \<noteq> []"
      and st: "store_snapshot E C w i v es (kh_objects s) = (Inr (z, new), obs)"
      and rec: "record_snapshot E C z new (contents_of es) (s\<lparr>kh_objects := obs\<rparr>) = (Inr (z, rows), s')"
  proof -
    obtain v where v: "NextSnapshotVersion E i (kh_kb s) = Inr v" and ne: "es \<noteq> []"
      using assms list by (auto simp: PublishSnapshot_def Let_def s_def [symmetric] es_def split: sum.splits if_splits)
    obtain z' new obs where st: "store_snapshot E C w i v es (kh_objects s) = (Inr (z', new), obs)"
        and rec: "record_snapshot E C z' new (contents_of es) (s\<lparr>kh_objects := obs\<rparr>) = (Inr (z, rows), s')"
      using assms list v ne
      by (auto simp: PublishSnapshot_def Let_def s_def [symmetric] es_def [symmetric] split: sum.splits prod.splits)
    moreover have "z' = z" using rec by (auto simp: record_snapshot_def Let_def split: sum.splits)
    ultimately show thesis using that v ne by blast
  qed
  note pub = store_snapshot_Inr [OF st]
  let ?new = "map (\<lambda>x. x\<lparr>ke_snapshot_id := kz_id z\<rparr>) new"
  obtain t1 t2 where t1: "CreateSnapshot E z new (kh_kb s) = Inr t1" and t2: "MarkCollectionPublished E (kz_collection_id z) t1 = Inr t2"
      and rows: "ListSnapshotEntries E 0 (kz_id z) t2 = Inr rows" and objs: "kh_objects s' = obs"
    using rec by (auto simp: record_snapshot_def Let_def split: sum.splits)
  have entries: "kt_entries t2 = kt_entries (kh_kb s) @ ?new" "kz_id z \<notin> kz_id ` set (kt_snapshots (kh_kb s))"
    using t1 MarkCollectionPublished_kb [OF t2] by (auto simp: CreateSnapshot_def published_def db_simps dest!: insert_entries_Inr split: sum.splits)
  have "entries_placed (kh_kb s)" using entries_placed_run by (simp add: s_def)
  then have "filter (\<lambda>x. ke_snapshot_id x = kz_id z) (kt_entries (kh_kb s)) = []"
    using entries(2) unfolding entries_placed_def filter_empty_conv by metis
  then have "rows = sort_key ke_entry_id ?new"
    using rows by (auto simp: ListSnapshotEntries_def db_simps entries(1) split: sum.splits)
  moreover have "sorted (map kn_entry_id es)" by (simp add: es_def)
  ultimately have rows: "rows = ?new" using pub sorted_rows by metis
  have all: "list_all2 (publishes E w obs) rows es" using pub rows by simp
  then have "map ke_tokens rows = map (\<lambda>e. estimateTokens (kn_content e)) es"
    by (induction rule: list_all2_induct) (simp_all add: publishes_def)
  then show ?thesis
    using all ne pub list_all2_lengthD [OF all] objs
    by (simp add: Let_def s_def [symmetric] found_def [symmetric] es_def [symmetric])
qed

section \<open>Comparing published snapshots\<close>

text \<open>The unique index of the knowledge table, which the knowledge service keeps; and requests that respect it.\<close>

definition know_unique :: "know_state \<Rightarrow> bool" where
  "know_unique k \<longleftrightarrow> distinct (map (\<lambda>e. (kn_user_id e, kn_entry_id e)) (ns_entries k))"

fun keyed_request :: "kb_req \<Rightarrow> bool" where
  "keyed_request (HKnowledge k) \<longleftrightarrow> know_unique k"
| "keyed_request _ \<longleftrightarrow> True"

definition rows_of :: "uuid \<Rightarrow> kb_tables \<Rightarrow> kb_snapshot_entry list" where
  "rows_of z t = filter (\<lambda>x. ke_snapshot_id x = z) (kt_entries t)"

definition rows_keyed :: "kb_tables \<Rightarrow> bool" where
  "rows_keyed t \<longleftrightarrow> (\<forall>z. distinct (map ke_entry_id (rows_of z t)))"

lemma enforceKBGovernance_know: "enforceKBGovernance E C a i c r x s = (v, s') \<Longrightarrow> kh_know s' = kh_know s"
  by (auto simp: enforceKBGovernance_def split: option.splits prod.splits)

lemma recordUsage_know: "recordUsage E input s = (v, s') \<Longrightarrow> kh_know s' = kh_know s"
  by (auto simp: recordUsage_def split: prod.splits)

lemma recordUsage_know' [simp]: "kh_know (snd (recordUsage E input s)) = kh_know s"
  by (simp add: recordUsage_def split: prod.split)

lemma map_kb_know: "map_kb f s = (v, s') \<Longrightarrow> kh_know s' = kh_know s"
  by (auto simp: map_kb_def split: prod.splits)

lemmas know_kept = enforceKBGovernance_know recordUsage_know map_kb_know

lemma record_snapshot_know [simp]: "kh_know (snd (record_snapshot E C z xs content s)) = kh_know s"
  by (simp add: record_snapshot_def Let_def split: sum.split)

lemma catalog_requests_know:
  "kh_know (snd (kb_CreateCollection E w input s)) = kh_know s"
  "kh_know (snd (UpdateCollectionDeclarations E w i input' s)) = kh_know s"
  "kh_know (snd (ReportCollection E u i r d s)) = kh_know s"
  "kh_know (snd (ResolveModerationReport E a j st r s)) = kh_know s"
  "kh_know (snd (InstallCollection E u i input'' s)) = kh_know s"
  "kh_know (snd (kb_ExpireSubscriptions E t s)) = kh_know s"
  "kh_know (snd (kb_CancelSubscription E u i s)) = kh_know s"
  by (auto simp: kb_CreateCollection_def UpdateCollectionDeclarations_def ReportCollection_def ResolveModerationReport_def
      InstallCollection_def kb_ExpireSubscriptions_def kb_CancelSubscription_def map_kb_def Let_def
      split: sum.split prod.split option.split list.split)

lemma governed_requests_know:
  "kh_know (snd (ReviewCollection E C a i st r s)) = kh_know s"
  "kh_know (snd (UpdateCollectionPricing E C w i input s)) = kh_know s"
  "kh_know (snd (snapshot_governed E C w i z cap f s)) = kh_know s"
  by (auto simp: ReviewCollection_def UpdateCollectionPricing_def snapshot_governed_def Let_def dest!: know_kept
      split: sum.split prod.split)

lemma reading_requests_know:
  "kh_know (snd (CreateSnapshotManifestDownloadURL E C i z s)) = kh_know s"
  "kh_know (snd (CreateInstalledManifestDownloadURL E C u i z s)) = kh_know s"
  "kh_know (snd (CreateInstalledEntryContentDownloadURL E C u i z x s)) = kh_know s"
  "kh_know (snd (FetchInstalledEntryFullText E C u i z x s)) = kh_know s"
  by (auto simp: CreateSnapshotManifestDownloadURL_def CreateInstalledManifestDownloadURL_def
      CreateInstalledEntryContentDownloadURL_def FetchInstalledEntryFullText_def split: sum.split prod.split dest: know_kept)

lemma PublishSnapshot_know: "kh_know (snd (PublishSnapshot E C w i ids s)) = kh_know s"
  by (auto simp: PublishSnapshot_def Let_def split: sum.split prod.split)

lemma kb_serve_know: "keyed_request q \<Longrightarrow> know_unique (kh_know s) \<Longrightarrow> know_unique (kh_know (kb_serve q s))"
  by (cases q) (simp_all add: catalog_requests_know governed_requests_know reading_requests_know PublishSnapshot_know
      kb_ArchiveSnapshot_def kb_RestoreSnapshot_def)

text \<open>Only a publication adds rows.\<close>

lemma snapshot_governed_rows:
  assumes "\<And>t. kt_entries (snd (f t)) = kt_entries t"
  shows "kt_entries (kh_kb (snd (snapshot_governed E C w i z cap f s))) = kt_entries (kh_kb s)"
proof -
  have "kt_entries t' = kt_entries t" if "f t = (v, t')" for t v t' using assms [of t] that by simp
  then show ?thesis
    by (auto simp: snapshot_governed_def map_kb_def dest!: enforceKBGovernance_kb' split: sum.split prod.split)
qed

lemma kb_serve_rows:
  assumes "\<not> (\<exists>E C w i ids. q = HPublish E C w i ids)"
  shows "kt_entries (kh_kb (kb_serve q s)) = kt_entries (kh_kb s)"
proof -
  have ar: "kt_entries (snd (ArchiveSnapshot_repo E i z t)) = kt_entries t" "kt_entries (snd (RestoreSnapshot_repo E i z t)) = kt_entries t" for E i z t
    by (simp_all add: ArchiveSnapshot_repo_def RestoreSnapshot_repo_def Let_def split: sum.split)
  have "published t' = published t \<Longrightarrow> kt_entries t' = kt_entries t" for t t' by (simp add: published_def)
  note rows = this [OF conjunct1, OF kb_CreateCollection_kb] this [OF conjunct1, OF UpdateCollectionDeclarations_kb]
    this [OF conjunct1, OF ReviewCollection_kb] this [OF conjunct1, OF report_requests_kb(1)] this [OF conjunct1, OF report_requests_kb(2)]
    this [OF conjunct1, OF UpdateCollectionPricing_kb] this [OF InstallCollection_kb] this [OF kb_ExpireSubscriptions_kb]
    this [OF kb_CancelSubscription_kb]
  show ?thesis using assms
    by (cases q) (simp_all add: rows reading_requests_kb kb_ArchiveSnapshot_def kb_RestoreSnapshot_def snapshot_governed_rows ar)
qed

lemma CreateSnapshot_rows:
  "CreateSnapshot E z xs t = Inr t' \<Longrightarrow> kt_entries t' = kt_entries t @ map (\<lambda>x. x\<lparr>ke_snapshot_id := kz_id z\<rparr>) xs
     \<and> kz_id z \<notin> kz_id ` set (kt_snapshots t)"
  by (auto simp: CreateSnapshot_def db_simps dest!: insert_entries_Inr split: sum.splits)

lemma record_snapshot_rows:
  assumes "record_snapshot E C z xs content s = (v, s')"
  shows "kt_entries (kh_kb s') = kt_entries (kh_kb s)
     \<or> kt_entries (kh_kb s') = kt_entries (kh_kb s) @ map (\<lambda>x. x\<lparr>ke_snapshot_id := kz_id z\<rparr>) xs \<and> kz_id z \<notin> kz_id ` set (kt_snapshots (kh_kb s))"
proof (cases "CreateSnapshot E z xs (kh_kb s)")
  case (Inr t1)
  have "kt_entries t2 = kt_entries t1" if "MarkCollectionPublished E c t1 = Inr t2" for c t2
    using MarkCollectionPublished_kb [OF that] by (simp add: published_def)
  then have "kt_entries (kh_kb s') = kt_entries t1"
    using assms Inr by (auto simp: record_snapshot_def Let_def split: sum.splits)
  then show ?thesis using CreateSnapshot_rows [OF Inr] by simp
qed (use assms in \<open>simp add: record_snapshot_def\<close>)

lemma rows_keyed_more:
  assumes "rows_keyed t" "entries_placed t" "kt_entries t' = kt_entries t @ map (\<lambda>x. x\<lparr>ke_snapshot_id := i\<rparr>) xs"
    "i \<notin> kz_id ` set (kt_snapshots t)" "distinct (map ke_entry_id xs)"
  shows "rows_keyed t'"
proof -
  have "rows_of i t = []" using assms(2,4) unfolding entries_placed_def rows_of_def filter_empty_conv by metis
  moreover have "rows_of z t' = rows_of z t @ (if z = i then map (\<lambda>x. x\<lparr>ke_snapshot_id := i\<rparr>) xs else [])" for z
    by (simp add: rows_of_def assms(3) filter_map comp_def)
  ultimately show ?thesis using assms(1,5) by (simp add: rows_keyed_def comp_def)
qed

lemma publishes_ids: "list_all2 (publishes E w s) xs es \<Longrightarrow> map ke_entry_id xs = map kn_entry_id es"
  by (induction rule: list_all2_induct) (simp_all add: publishes_def)

lemma selection_distinct:
  assumes "know_unique k" "ListEntries E w False k = Inr found"
  shows "distinct (map kn_entry_id (sort_key kn_entry_id (filterKnowledgeEntries found ids)))"
proof -
  have f: "found = sort_key kn_entry_id (filter (\<lambda>e. kn_user_id e = w \<and> kn_status e = ''active'') (ns_entries k))"
    using assms(2) by (auto simp: ListEntries_def db_find_def split: sum.splits if_splits)
  have "distinct (map kn_entry_id (filter (\<lambda>e. kn_user_id e = w \<and> P e) (ns_entries k)))" for P
    using assms(1) unfolding know_unique_def by (auto simp: distinct_map inj_on_def intro: distinct_filter)
  then have "distinct (map kn_entry_id (filterKnowledgeEntries found ids))"
    by (auto simp: filterKnowledgeEntries_def f distinct_map inj_on_def)
  then show ?thesis by (simp add: distinct_map)
qed

lemma PublishSnapshot_rows:
  assumes "know_unique (kh_know s)" "entries_placed (kh_kb s)" "rows_keyed (kh_kb s)"
  shows "rows_keyed (kh_kb (snd (PublishSnapshot E C w i ids s)))"
proof -
  have step: "rows_keyed (kh_kb s')" if found: "ListEntries E w False (kh_know s) = Inr found"
    and st: "store_snapshot E C w i v (sort_key kn_entry_id (filterKnowledgeEntries found ids)) obs = (Inr (z, rows), obs')"
    and rec: "record_snapshot E C z rows content (s\<lparr>kh_objects := obs'\<rparr>) = (r, s')" for found v obs z rows obs' content r s'
  proof -
    let ?es = "sort_key kn_entry_id (filterKnowledgeEntries found ids)"
    have "list_all2 (publishes E w obs') (map (\<lambda>x. x\<lparr>ke_snapshot_id := kz_id z\<rparr>) rows) ?es" using store_snapshot_Inr [OF st] by simp
    from publishes_ids [OF this] have "map ke_entry_id rows = map kn_entry_id ?es" by (simp add: comp_def)
    then have d: "distinct (map ke_entry_id rows)" using selection_distinct [OF assms(1) found, of ids] by (simp only:)
    from record_snapshot_rows [OF rec] show ?thesis
    proof
      assume "kt_entries (kh_kb s') = kt_entries (kh_kb (s\<lparr>kh_objects := obs'\<rparr>))"
      then show ?thesis using assms(3) by (simp add: rows_keyed_def rows_of_def)
    next
      assume "kt_entries (kh_kb s') = kt_entries (kh_kb (s\<lparr>kh_objects := obs'\<rparr>)) @ map (\<lambda>x. x\<lparr>ke_snapshot_id := kz_id z\<rparr>) rows
         \<and> kz_id z \<notin> kz_id ` set (kt_snapshots (kh_kb (s\<lparr>kh_objects := obs'\<rparr>)))"
      then show ?thesis by (intro rows_keyed_more [OF assms(3,2) _ _ d, where i = "kz_id z"]) simp_all
    qed
  qed
  have "rows_keyed (kh_kb (snd (record_snapshot E C z rows content (s\<lparr>kh_objects := obs'\<rparr>))))"
    if "ListEntries E w False (kh_know s) = Inr found"
      "store_snapshot E C w i v (sort_key kn_entry_id (filterKnowledgeEntries found ids)) obs = (Inr (z, rows), obs')"
    for found v obs z rows obs' content
    by (rule step [OF that prod.collapse [symmetric]])
  then show ?thesis using assms(3) by (auto simp: PublishSnapshot_def Let_def split: sum.split prod.split)
qed

lemma kb_run_rows:
  "know_unique (kh_know s) \<Longrightarrow> entries_placed (kh_kb s) \<Longrightarrow> rows_keyed (kh_kb s) \<Longrightarrow> list_all keyed_request qs
   \<Longrightarrow> rows_keyed (kh_kb (fold kb_serve qs s))"
proof (induction qs arbitrary: s)
  case (Cons q qs)
  have "rows_keyed (kh_kb (kb_serve q s))"
  proof (cases "\<exists>E C w i ids. q = HPublish E C w i ids")
    case True
    then show ?thesis using PublishSnapshot_rows Cons.prems by auto
  next
    case False
    then show ?thesis using kb_serve_rows [of q s] Cons.prems(3) by (simp add: rows_keyed_def rows_of_def)
  qed
  then show ?case using Cons.prems Cons.IH [of "kb_serve q s"]
    by (simp add: kb_serve_know entries_placed_step [OF kb_serve_publication])
qed simp

text \<open>
  C32: A comparison of two snapshots accounts for every entry once. After any requests, while the knowledge table keeps
  its unique index on user and entry, and whatever the order in which Go ranges over its maps (each key once), what
  \<open>DiffSnapshots\<close> answers for two published snapshots is this: the added entries are those of the newer one whose entry
  identifier the older one lacks, the removed ones the other way round, the changed ones the pairs that differ, and
  with the count of unchanged entries they add up to the sizes of the two snapshots.
\<close>

theorem diff_accounts_for_every_entry:
  assumes "\<forall>ks. mset (kg_range C ks) = mset ks" "list_all keyed_request qs"
    "DiffSnapshots E C w i z1 z2 (fold kb_serve qs kb_hub_init) = Inr d"
  shows "let xs = rows_of z1 (kh_kb (fold kb_serve qs kb_hub_init)); ys = rows_of z2 (kh_kb (fold kb_serve qs kb_hub_init)) in
     set (kd_added d) = {y \<in> set ys. ke_entry_id y \<notin> ke_entry_id ` set xs}
     \<and> set (kd_removed d) = {x \<in> set xs. ke_entry_id x \<notin> ke_entry_id ` set ys}
     \<and> set (kd_changed d) = {(ke_entry_id x, x, y) | x y. x \<in> set xs \<and> y \<in> set ys \<and> ke_entry_id x = ke_entry_id y
          \<and> snapshotEntryChanged C x y}
     \<and> length ys = length (kd_added d) + length (kd_changed d) + kd_unchanged d
     \<and> length xs = length (kd_removed d) + length (kd_changed d) + kd_unchanged d"
proof -
  let ?t = "kh_kb (fold kb_serve qs kb_hub_init)"
  have "know_unique (kh_know kb_hub_init)" "entries_placed (kh_kb kb_hub_init)" "rows_keyed (kh_kb kb_hub_init)"
    by (simp_all add: kb_hub_init_def kb_init_def know_init_def know_unique_def entries_placed_def rows_keyed_def rows_of_def)
  from kb_run_rows [OF this assms(2)] have "distinct (map ke_entry_id (sort_key ke_entry_id (rows_of z ?t)))" for z
    by (simp add: rows_keyed_def distinct_map)
  moreover have "d = diff_entries C (sort_key ke_entry_id (rows_of z1 ?t)) (sort_key ke_entry_id (rows_of z2 ?t))"
    using assms(3) by (auto simp: DiffSnapshots_def ListSnapshotEntries_def db_simps rows_of_def split: sum.splits)
  ultimately show ?thesis
    using diff_entries_accounts [OF assms(1), of "sort_key ke_entry_id (rows_of z1 ?t)" "sort_key ke_entry_id (rows_of z2 ?t)"]
    by (simp add: Let_def)
qed

section \<open>A run\<close>

definition demo_hub_config :: hub_config where
  "demo_hub_config = \<lparr>kg_objects = \<lparr>oc_bucket = ''b'', oc_upload_ttl_secs = 60, oc_download_ttl_secs = 60, oc_enforcer = None\<rparr>,
     kg_backend = \<lparr>sb_ensure_bucket = (\<lambda>_. Inr ()), sb_put = (\<lambda>_ _ _ _. Inr ()), sb_presign_put = (\<lambda>_ _ _ _. Inr ''u''),
       sb_presign_get = (\<lambda>_ _ _ _. Inr ''u''), sb_head = (\<lambda>_ _. Inl ErrRecordNotFound), sb_read = (\<lambda>_ _ _. Inr ''alpha'')\<rparr>,
     kg_enforcer = None, kg_marshal = (\<lambda>m. Inr (kw_snapshot_id m)), kg_format = (\<lambda>_. ''?''), kg_range = rev, kg_provider = None\<rparr>"

definition demo_knowledge :: "string \<Rightarrow> string \<Rightarrow> string list \<Rightarrow> knowledge_entry" where
  "demo_knowledge i content tags = \<lparr>kn_id = 0, kn_created_at = 0, kn_updated_at = 0, kn_user_id = 9, kn_entry_id = i, kn_title = i,
     kn_content = content, kn_summary = '''', kn_tags = Some tags, kn_metadata = [], kn_source_uri = '''', kn_status = ''active'',
     kn_version = 1, kn_content_hash = '''', kn_deleted_at = None, kn_updated_by_device_id = ''''\<rparr>"

definition demo_know :: know_state where
  "demo_know = know_init\<lparr>ns_entries := [demo_knowledge ''b'' ''beta'' [], demo_knowledge ''a'' ''alpha'' [''x'']]\<rparr>"

definition demo_price :: pricing_input where
  "demo_price = \<lparr>lp_pricing_model = '''', lp_monthly_price = 500, lp_is_free = Some False, lp_platform_min_price = 0,
     lp_platform_max_price = 0, lp_entitlement_mode = '''', lp_billing_interval = '''', lp_trial_days = 0, lp_currency = '''',
     lp_metadata = None\<rparr>"

definition demo_install :: "string \<Rightarrow> kb_install_input" where
  "demo_install entitlement = \<lparr>lj_track_mode = '''', lj_pinned_version = None, lj_expires_at = None,
     lj_entitlement_type = entitlement, lj_grant_reason = ''''\<rparr>"

text \<open>A collection (2000) of user 9, with a price, and its first snapshot (4000).\<close>

definition demo_published :: "kb_req list" where
  "demo_published = [HKnowledge demo_know, HCreate (env_at 1) 9 \<lparr>lc_name = ''kb'', lc_description = '''', lc_is_free = Some False\<rparr>,
     HPrice (env_at 2) demo_hub_config 9 2000 demo_price, HPublish (env_at 3) demo_hub_config 9 2000 []]"

definition demo_kb :: "kb_req list \<Rightarrow> kb_hub_state" where
  "demo_kb qs = fold kb_serve qs kb_hub_init"

definition demo_before :: kb_hub_state where
  "demo_before = demo_kb (take 3 demo_published)"

definition demo_pub :: "(kb_snapshot \<times> kb_snapshot_entry list) result \<times> kb_hub_state" where
  "demo_pub = PublishSnapshot (env_at 3) demo_hub_config 9 2000 [] demo_before"

definition demo_inst :: "string \<Rightarrow> kb_subscription result \<times> kb_hub_state" where
  "demo_inst entitlement = InstallCollection (env_at 4) 5 2000 (demo_install entitlement) (snd demo_pub)"

definition demo_read :: "string \<Rightarrow> full_text result \<times> kb_hub_state" where
  "demo_read entitlement = FetchInstalledEntryFullText (env_at 5) demo_hub_config 5 2000 4000 4000 (snd (demo_inst entitlement))"

definition later :: "int \<Rightarrow> env" where
  "later d = (env_at 9)\<lparr>e_now := seconds 1700000000 + days d\<rparr>"

definition demo_expired :: "int \<Rightarrow> nat result \<times> kb_hub_state" where
  "demo_expired d = kb_ExpireSubscriptions (later d) (seconds 1700000000 + days d) (snd (demo_inst ''paid''))"

definition authorized :: "env \<Rightarrow> kb_hub_state \<Rightarrow> bool" where
  "authorized E s \<longleftrightarrow> succeeds (authorizeSnapshotAccess E 5 2000 4000 (kh_kb s))"

definition demo_search :: "string \<Rightarrow> search_input" where
  "demo_search q = \<lparr>si_user_id = uuid_nil, si_q = q, si_mode = '''', si_collection_id = None, si_snapshot_id = None, si_limit = 0, si_offset = 0\<rparr>"

definition hits :: "string \<Rightarrow> kb_hub_state \<Rightarrow> string list" where
  "hits q s = (case fst (Search (env_at 6) (demo_search q) (kh_kb s) (kh_index s) (kh_billing s)) of
     Inl e \<Rightarrow> [] | Inr r \<Rightarrow> map sj_title (sl_items r))"

definition public_now :: "kb_hub_state \<Rightarrow> bool" where
  "public_now s \<longleftrightarrow> succeeds (GetPublicCollection (env_at 6) 2000 s)"

definition listed :: "kb_hub_state \<Rightarrow> uuid list" where
  "listed s = (case SearchPublicCollections (env_at 6) \<lparr>qc_q = '''', qc_owner_id = None, qc_is_free = None, qc_limit = 0, qc_offset = 0\<rparr> s of
     Inl e \<Rightarrow> [] | Inr r \<Rightarrow> map (\<lambda>c. kc_id (vc_collection c)) (vm_items r))"

text \<open>The published collection taken down, and with a new declaration whose review is pending; and another owner.\<close>

definition demo_taken_down :: kb_hub_state where
  "demo_taken_down = kb_serve (HReview (env_at 4) demo_hub_config 1 2000 ''takedown'' ''stolen'') (snd demo_pub)"

definition demo_republished :: kb_hub_state where
  "demo_republished = kb_serve (HPublish (env_at 5) demo_hub_config 9 2000 []) demo_taken_down"

definition demo_declared :: kb_hub_state where
  "demo_declared = kb_serve (HDeclare (env_at 4) 9 2000 \<lparr>ld_source = ''x'', ld_copyright = '''', ld_metadata = None\<rparr>) (snd demo_pub)"

definition demo_other_owner :: kb_hub_state where
  "demo_other_owner = kb_serve (HCreate (env_at 7) 66 \<lparr>lc_name = ''mine'', lc_description = '''', lc_is_free = None\<rparr>) (snd demo_pub)"

lemma demo_hub_run:
  "let s = demo_kb (take 3 demo_published); p = PublishSnapshot (env_at 3) demo_hub_config 9 2000 [] s; s1 = snd p;
       i = InstallCollection (env_at 4) 5 2000 (demo_install ''paid'') s1; s2 = snd i;
       r = FetchInstalledEntryFullText (env_at 5) demo_hub_config 5 2000 4000 4000 s2;
       f = InstallCollection (env_at 4) 5 2000 (demo_install '''') s1;
       r' = FetchInstalledEntryFullText (env_at 5) demo_hub_config 5 2000 4000 4000 (snd f);
       e = kb_ExpireSubscriptions (later 20) (seconds 1700000000 + days 20) s2;
       e' = kb_ExpireSubscriptions (later 40) (seconds 1700000000 + days 40) s2;
       t = kb_serve (HReview (env_at 4) demo_hub_config 1 2000 ''takedown'' ''stolen'') s1;
       t' = kb_serve (HPublish (env_at 5) demo_hub_config 9 2000 []) t;
       d = kb_serve (HDeclare (env_at 4) 9 2000 \<lparr>ld_source = ''x'', ld_copyright = '''', ld_metadata = None\<rparr>) s1;
       o2 = kb_serve (HCreate (env_at 7) 66 \<lparr>lc_name = ''mine'', lc_description = '''', lc_is_free = None\<rparr>) s1
   in (succeeds (fst p) \<and> map kz_id (kt_snapshots (kh_kb s1)) = [4000] \<and> map ke_entry_id (snd (projr (fst p))) = [''a'', ''b''])
      \<and> (succeeds (fst i) \<and> kb_entitlement_type (projr (fst i)) = ''paid''
          \<and> map (\<lambda>c. trim (kc_billing_interval c)) (kt_collections (kh_kb s1)) = [''month''])
      \<and> (succeeds (fst r) \<and> ft_content (projr (fst r)) = ''alpha'')
      \<and> (map kb_entitlement_type (kt_subscriptions (kh_kb (snd f))) = [''free''] \<and> map kb_expires_at (kt_subscriptions (kh_kb (snd f))) = [None]
          \<and> succeeds (fst r') \<and> map (\<lambda>c. (kc_is_free c, kc_monthly_price c, kc_entitlement_mode c)) (kt_collections (kh_kb s1)) = [(False, 500, ''paid'')]
          \<and> bs_txns (kh_billing (snd r')) = [])
      \<and> (fst e = Inr 0 \<and> authorized (later 20) (snd e) \<and> fst e' = Inr 1 \<and> authorized (later 400) s2 \<and> \<not> authorized (later 400) (snd e'))
      \<and> (\<not> public_now t \<and> public_now t' \<and> hits ''alph'' t = [''a''] \<and> hits ''omega'' t = [])
      \<and> (listed d = [2000] \<and> \<not> public_now d)
      \<and> (case DiffSnapshots (env_at 8) demo_hub_config 66 8000 0 4000 o2 of Inl e \<Rightarrow> False | Inr d \<Rightarrow> map ke_title (kd_added d) = [''b'', ''a''])"
  by code_simp

lemmas demo_run = demo_hub_run [unfolded Let_def, folded demo_before_def, folded demo_pub_def, folded demo_inst_def,
    folded demo_read_def demo_expired_def demo_taken_down_def, folded demo_republished_def demo_declared_def demo_other_owner_def]

theorem published_snapshots_never_change_witness:
  "filter (\<lambda>x. ke_snapshot_id x = 4000) (kt_entries (kh_kb (fold kb_serve [HArchive (env_at 4) demo_hub_config 9 2000 4000] (snd demo_pub))))
     = filter (\<lambda>x. ke_snapshot_id x = 4000) (kt_entries (kh_kb (snd demo_pub)))"
proof -
  have "4000 \<in> set (map kz_id (kt_snapshots (kh_kb (snd demo_pub))))" using demo_run by simp
  then have "4000 \<in> kz_id ` set (kt_snapshots (kh_kb (snd demo_pub)))" by (simp only: set_map)
  from published_snapshots_never_change [OF this, of "[HArchive (env_at 4) demo_hub_config 9 2000 4000]"]
  show ?thesis by (simp add: Let_def)
qed

theorem publication_is_the_selection_witness:
  "\<exists>z rows es. fst demo_pub = Inr (z, rows) \<and> list_all2 (publishes (env_at 3) 9 (kh_objects (snd demo_pub))) rows es
     \<and> map ke_entry_id rows = [''a'', ''b''] \<and> kz_entry_count z = 2"
proof -
  obtain z rows where p: "fst demo_pub = Inr (z, rows)" "map ke_entry_id rows = [''a'', ''b'']"
    using demo_run by (cases "fst demo_pub") auto
  then have "PublishSnapshot (env_at 3) demo_hub_config 9 2000 [] (fold kb_serve (take 3 demo_published) kb_hub_init)
      = (Inr (z, rows), snd demo_pub)"
    by (simp add: demo_pub_def demo_before_def demo_kb_def prod_eq_iff)
  from publication_is_the_selection [OF this] arg_cong [OF p(2), of length] p show ?thesis by (auto simp: Let_def)
qed

theorem content_needs_the_subscription_witness:
  "\<exists>r b zz. fst (demo_read ''paid'') = Inr r \<and> ft_content r = ''alpha''
     \<and> b \<in> set (kt_subscriptions (kh_kb (snd (demo_inst ''paid'')))) \<and> kb_status b = ''active'' \<and> gives b zz (kh_kb (snd (demo_inst ''paid'')))"
proof -
  obtain r where r: "fst (demo_read ''paid'') = Inr r" "ft_content r = ''alpha''"
    using demo_run by (cases "fst (demo_read ''paid'')") auto
  from content_needs_the_subscription [OF r(1) [unfolded demo_read_def]] r show ?thesis by blast
qed

theorem expiry_job_ends_access_witness:
  "\<exists>b t. authorizeSnapshotAccess (later 20) 5 2000 4000 (kh_kb (snd (demo_expired 20))) = Inr b
     \<and> (case kb_expires_at b of None \<Rightarrow> True | Some t \<Rightarrow> seconds 1700000000 + days 20 < t)"
proof -
  have e: "kb_ExpireSubscriptions (later 20) (seconds 1700000000 + days 20) (snd (demo_inst ''paid'')) = (Inr 0, snd (demo_expired 20))"
    using demo_run by (simp add: demo_expired_def prod_eq_iff)
  obtain b where b: "authorizeSnapshotAccess (later 20) 5 2000 4000 (kh_kb (snd (demo_expired 20))) = Inr b"
    using demo_run by (auto simp: authorized_def elim: succeedsE)
  have "seconds 1700000000 + days 20 \<noteq> time_zero" by code_simp
  from expiry_job_ends_access [OF e this b] b show ?thesis by blast
qed

theorem subscription_period_fits_the_calendar_witness:
  "\<exists>b t. fst (demo_inst ''paid'') = Inr b \<and> kb_expires_at b = Some t
     \<and> civil (day_of (e_now (env_at 4))) = (2023, 10, 14) \<and> civil (day_of t) = (2023, 11, 14)"
proof -
  obtain b where b: "demo_inst ''paid'' = (Inr b, snd (demo_inst ''paid''))" "kb_entitlement_type b = ''paid''"
    using demo_run by (cases "demo_inst ''paid''"; cases "fst (demo_inst ''paid'')") auto
  have m: "map (\<lambda>c. trim (kc_billing_interval c)) (kt_collections (kh_kb (snd demo_pub))) = [''month'']" using demo_run by blast
  have i: "trim (kc_billing_interval c) = ''month''" if "c \<in> set (kt_collections (kh_kb (snd demo_pub)))" for c
    using arg_cong [OF m, of set] that by auto
  have run: "InstallCollection (env_at 4) 5 2000 (demo_install ''paid'') (snd demo_pub) = (Inr b, snd (demo_inst ''paid''))"
    using b(1) by (simp add: demo_inst_def)
  have none: "lj_expires_at (demo_install ''paid'') = None" by (simp add: demo_install_def)
  have day: "civil (day_of (e_now (env_at 4))) = (2023, 10, 14)" by code_simp
  have later: "month_later (2023, 10, 14) = (2023, 11, 14)" by simp
  from subscription_period_fits_the_calendar [OF run] obtain c t where "c \<in> set (kt_collections (kh_kb (snd demo_pub)))"
      "kb_expires_at b = Some t" "civil (day_of t) = (if trim (kc_billing_interval c) \<in> {''month'', ''''} then month_later (civil (day_of (e_now (env_at 4))))
                    else if trim (kc_billing_interval c) = ''year'' then year_later (civil (day_of (e_now (env_at 4))))
                    else civil (day_of (e_now (env_at 4))))"
    using none b(2) by (auto split: option.splits)
  with i day later b(1) show ?thesis by (metis fst_conv insertI1)
qed

definition demo_rows :: "kb_snapshot_entry list \<times> kb_snapshot_entry list" where
  "demo_rows = (let x = \<lparr>ke_id = 1, ke_snapshot_id = 4000, ke_entry_id = ''a'', ke_title = ''t'', ke_summary = '''', ke_tags = [''x y''],
     ke_metadata = [], ke_content_object_uri = ''u'', ke_tokens = 1\<rparr>
     in ([x, x\<lparr>ke_entry_id := ''b''\<rparr>, x\<lparr>ke_entry_id := ''d''\<rparr>], [x, x\<lparr>ke_entry_id := ''c''\<rparr>, x\<lparr>ke_entry_id := ''d'', ke_title := ''T''\<rparr>]))"

text \<open>A second snapshot, after one entry was changed and one replaced.\<close>

definition demo_know2 :: know_state where
  "demo_know2 = know_init\<lparr>ns_entries := [demo_knowledge ''c'' ''gamma'' [], demo_knowledge ''a'' ''omega omega omega'' [''x'']]\<rparr>"

definition demo_two :: "kb_req list" where
  "demo_two = demo_published @ [HKnowledge demo_know2, HPublish (env_at 8) demo_hub_config 9 2000 []]"

lemma demo_diff_run:
  "case DiffSnapshots (env_at 9) demo_hub_config 9 2000 4000 9000 (fold kb_serve demo_two kb_hub_init) of
     Inl e \<Rightarrow> False
   | Inr d \<Rightarrow> map ke_entry_id (kd_added d) = [''c''] \<and> map ke_entry_id (kd_removed d) = [''b''] \<and> map fst (kd_changed d) = [''a'']"
  by code_simp

theorem diff_accounts_for_every_entry_witness:
  "\<exists>d. DiffSnapshots (env_at 9) demo_hub_config 9 2000 4000 9000 (fold kb_serve demo_two kb_hub_init) = Inr d
     \<and> map fst (kd_changed d) = [''a'']
     \<and> length (rows_of 9000 (kh_kb (fold kb_serve demo_two kb_hub_init))) = length (kd_added d) + length (kd_changed d) + kd_unchanged d"
proof -
  have r: "\<forall>ks. mset (kg_range demo_hub_config ks) = mset ks" by (simp add: demo_hub_config_def)
  have k: "list_all keyed_request demo_two" by code_simp
  obtain d where d: "DiffSnapshots (env_at 9) demo_hub_config 9 2000 4000 9000 (fold kb_serve demo_two kb_hub_init) = Inr d"
      "map fst (kd_changed d) = [''a'']"
    using demo_diff_run by (auto split: sum.splits)
  from diff_accounts_for_every_entry [OF r k d(1)] d show ?thesis by (auto simp: Let_def)
qed

section \<open>Where the hub gives away more than it means to\<close>

text \<open>
  Nothing that is read is ever charged: no caller of the billing service names a unit price, so every usage record the
  hub writes has the amount zero and no transaction is ever made, whatever the collections cost.
\<close>

lemma RecordUsage_unpriced:
  assumes "ru_unit_price input = 0" "\<forall>r\<in>set (bs_usage b). ku_amount r = 0"
  shows "(\<forall>r\<in>set (bs_usage (snd (RecordUsage E n input b))). ku_amount r = 0) \<and> bs_txns (snd (RecordUsage E n input b)) = bs_txns b"
proof -
  have z: "ku_amount (usage_row E n input) = 0" using assms(1) by (simp add: usage_row_def Let_def i64_def)
  then show ?thesis using assms(2)
    by (auto simp: RecordUsage_def Let_def CreateUsageRecord_def db_simps split: sum.split)
qed

definition uncharged :: "kb_hub_state \<Rightarrow> bool" where
  "uncharged s \<longleftrightarrow> (\<forall>r\<in>set (bs_usage (kh_billing s)). ku_amount r = 0) \<and> bs_txns (kh_billing s) = []"

lemma uncharged_billing: "kh_billing s' = kh_billing s \<Longrightarrow> uncharged s \<Longrightarrow> uncharged s'"
  by (simp add: uncharged_def)

lemma recordUsage_uncharged:
  assumes "uncharged s"
  shows "uncharged (snd (recordUsage E (kb_usage_input u f i z x op) s))"
  using assms RecordUsage_unpriced [of "kb_usage_input u f i z x op" "kh_billing s" E 0]
  by (auto simp: uncharged_def recordUsage_def kb_usage_input_def split: prod.split)

lemma recordUsage_uncharged': "recordUsage E (kb_usage_input u f i z x op) s = (v, s') \<Longrightarrow> uncharged s \<Longrightarrow> uncharged s'"
  using recordUsage_uncharged [of s E u f i z x op] by simp

lemma reading_requests_uncharged:
  assumes "uncharged s"
  shows "uncharged (snd (CreateSnapshotManifestDownloadURL E C i z s))"
    "uncharged (snd (CreateInstalledManifestDownloadURL E C u i z s))"
    "uncharged (snd (CreateInstalledEntryContentDownloadURL E C u i z x s))"
    "uncharged (snd (FetchInstalledEntryFullText E C u i z x s))"
  using assms by (auto simp: CreateSnapshotManifestDownloadURL_def CreateInstalledManifestDownloadURL_def recordUsage_uncharged
      CreateInstalledEntryContentDownloadURL_def FetchInstalledEntryFullText_def split: sum.split prod.split dest: recordUsage_uncharged')

lemma UpsertBillingPlan_usage: "bs_usage (snd (UpsertBillingPlan E input b)) = bs_usage b
    \<and> bs_txns (snd (UpsertBillingPlan E input b)) = bs_txns b"
  by (auto simp: UpsertBillingPlan_def NextPlanVersion_def replace_plan_def ArchiveActivePlans_def CreateBillingPlan_def
      split: sum.splits)

lemma UpdateCollectionPricing_uncharged:
  assumes "uncharged s"
  shows "uncharged (snd (UpdateCollectionPricing E C w i input s))"
proof -
  have up: "uncharged (t\<lparr>kh_kb := k, kh_billing := b\<rparr>)" if "UpsertBillingPlan E inp (kh_billing t) = (r, b)" "uncharged t" for t inp r b k
    using UpsertBillingPlan_usage [of E inp "kh_billing t"] that by (simp add: uncharged_def)
  have gov: "uncharged s'" if "enforceKBGovernance E C w x c r m s = (v, s')" for x c r m v s'
    using that assms enforceKBGovernance_kb' uncharged_billing by blast
  have kb: "uncharged (s'\<lparr>kh_kb := t\<rparr>)" if "uncharged s'" for s' t using that by (simp add: uncharged_def)
  show ?thesis using assms unfolding UpdateCollectionPricing_def Let_def
    by (auto split: sum.split prod.split dest: gov intro: up kb)
qed

lemma other_requests_billing:
  "kh_billing (snd (kb_CreateCollection E w ci s)) = kh_billing s"
  "kh_billing (snd (UpdateCollectionDeclarations E w i di s)) = kh_billing s"
  "kh_billing (snd (ReportCollection E u i rs d s)) = kh_billing s"
  "kh_billing (snd (ResolveModerationReport E a j st rs s)) = kh_billing s"
  "kh_billing (snd (InstallCollection E u i ii s)) = kh_billing s"
  "kh_billing (snd (kb_ExpireSubscriptions E t s)) = kh_billing s"
  "kh_billing (snd (kb_CancelSubscription E u i s)) = kh_billing s"
  by (simp_all add: kb_CreateCollection_def UpdateCollectionDeclarations_def ReportCollection_def ResolveModerationReport_def
      InstallCollection_def kb_ExpireSubscriptions_def kb_CancelSubscription_def map_kb_def Let_def split: sum.split prod.split list.split)

lemma governed_requests_billing:
  "kh_billing (snd (ReviewCollection E C a i st rs s)) = kh_billing s"
  "kh_billing (snd (snapshot_governed E C w i z cap f s)) = kh_billing s"
  by (auto simp: ReviewCollection_def snapshot_governed_def map_kb_def Let_def split: sum.split prod.split dest: enforceKBGovernance_kb')

lemma PublishSnapshot_billing: "kh_billing (snd (PublishSnapshot E C w i ids s)) = kh_billing s"
proof -
  have "kh_billing (snd (record_snapshot E C z rows c t)) = kh_billing t" for z rows c t
    by (simp add: record_snapshot_def Let_def split: sum.split)
  then show ?thesis by (simp add: PublishSnapshot_def Let_def split: sum.split prod.split)
qed

lemma kb_serve_uncharged: "uncharged s \<Longrightarrow> uncharged (kb_serve q s)"
  by (cases q) (simp_all add: reading_requests_uncharged UpdateCollectionPricing_uncharged kb_ArchiveSnapshot_def kb_RestoreSnapshot_def
      uncharged_billing [OF PublishSnapshot_billing] uncharged_billing [OF governed_requests_billing(1)]
      uncharged_billing [OF governed_requests_billing(2)] uncharged_billing [OF other_requests_billing(1)]
      uncharged_billing [OF other_requests_billing(2)] uncharged_billing [OF other_requests_billing(3)]
      uncharged_billing [OF other_requests_billing(4)] uncharged_billing [OF other_requests_billing(5)]
      uncharged_billing [OF other_requests_billing(6)] uncharged_billing [OF other_requests_billing(7)], simp_all add: uncharged_def)

text \<open>
  The hub never charges: after any requests to the hub, whatever the collections cost, every usage record has the
  amount zero, so there is not one transaction, and hence no earning of a contributor either.
\<close>

theorem hub_never_charges:
  "let b = kh_billing (fold kb_serve qs kb_hub_init)
   in list_all (\<lambda>r. ku_amount r = 0) (bs_usage b) \<and> bs_txns b = []"
proof -
  have "uncharged (fold kb_serve qs s)" if "uncharged s" for s
    using that by (induction qs arbitrary: s) (simp_all add: kb_serve_uncharged)
  from this [of kb_hub_init] show ?thesis
    by (simp add: uncharged_def kb_hub_init_def billing_init_def Let_def list_all_iff)
qed

text \<open>
  A collection with a monthly price is installed without naming an entitlement: the subscription is free, never ends,
  and the text is read.
\<close>

theorem paid_collection_installs_for_free:
  "map (\<lambda>c. (kc_is_free c, kc_monthly_price c, kc_entitlement_mode c)) (kt_collections (kh_kb (snd demo_pub))) = [(False, 500, ''paid'')]
   \<and> map kb_entitlement_type (kt_subscriptions (kh_kb (snd (demo_inst '''')))) = [''free'']
   \<and> map kb_expires_at (kt_subscriptions (kh_kb (snd (demo_inst '''')))) = [None]
   \<and> succeeds (fst (demo_read ''''))"
  using demo_run by blast

text \<open>A subscription that has expired still gives access until the job that expires it has run: access looks at the status alone.\<close>

theorem expired_subscription_still_reads:
  "authorized (later 400) (snd (demo_inst ''paid'')) \<and> \<not> authorized (later 400) (snd (demo_expired 40))"
  using demo_run by blast

text \<open>
  A collection is taken down by an administrator; its owner publishes another snapshot, and it is public again
  without a review.
\<close>

theorem publishing_undoes_a_takedown:
  "\<not> public_now demo_taken_down \<and> public_now demo_republished"
  using demo_run by blast

text \<open>
  A user who owns any collection compares two snapshots of somebody else's, and so reads titles, summaries and the
  addresses of the contents without a subscription.
\<close>

theorem diff_reads_foreign_snapshots:
  "case DiffSnapshots (env_at 8) demo_hub_config 66 8000 0 4000 demo_other_owner of
     Inl e \<Rightarrow> False | Inr d \<Rightarrow> map ke_title (kd_added d) = [''b'', ''a'']"
  using demo_run by blast

text \<open>The tags are compared as they print: one tag with a space in it and two tags are the same.\<close>

theorem tag_changes_go_unseen:
  "let x = hd (fst demo_rows) in ke_tags x \<noteq> [''x'', ''y''] \<and> \<not> snapshotEntryChanged demo_hub_config x (x\<lparr>ke_tags := [''x'', ''y'']\<rparr>)"
  by code_simp

text \<open>
  Anybody finds the entries of a collection that was taken down, and by words of the text they cannot read; while the
  collection itself is gone from the public.
\<close>

theorem takedown_stays_searchable:
  "hits ''alph'' demo_taken_down = [''a''] \<and> hits ''omega'' demo_taken_down = [] \<and> \<not> public_now demo_taken_down"
  using demo_run by blast

text \<open>The marketplace lists a collection whose review is pending, which the public view refuses to show.\<close>

theorem pending_review_is_listed:
  "listed demo_declared = [2000] \<and> \<not> public_now demo_declared"
  using demo_run by blast

end
