(* ===== verification/Router.thy ===== *)
theory Router
  imports Identity
begin

text \<open>
  The route table (\<open>internal/router/router.go\<close>): the four groups of \<open>Setup\<close> with the middleware each
  of them uses, and what their middleware lets through. A request reaches the chain of a route after the engine's own
  request id, CORS and rate-limit middleware, which refuse requests but let none through that a chain refuses. Which
  route serves a path is decided by the tree of gin; what is shown here holds for every registered route.
\<close>

section \<open>The table\<close>

datatype http_method = GET | POST | PUT | PATCH | DELETE

datatype middleware = JWTGuard | AdminGuard

record route_group =
  rg_prefix :: string
  rg_use :: "middleware list"
  rg_routes :: "(http_method \<times> string \<times> string) list"

record route =
  rt_method :: http_method
  rt_path :: string
  rt_chain :: "middleware list"
  rt_handler :: string

text \<open>Login and registration.\<close>

definition auth_routes :: route_group where
  "auth_routes = \<lparr>rg_prefix = ''/api/v1/auth'', rg_use = [], rg_routes =
    [(POST, ''/challenge'', ''identityH.Challenge''),
     (POST, ''/verify'', ''identityH.Verify''),
     (POST, ''/register'', ''identityH.Register'')]\<rparr>"

text \<open>The web socket, which takes its token itself, the claim of a pairing, which brings its own proof, and the
  public catalogs.\<close>

definition public_routes :: route_group where
  "public_routes = \<lparr>rg_prefix = ''/api/v1'', rg_use = [], rg_routes =
    [(GET, ''/ws'', ''wsH.HandleWS''),
     (POST, ''/devices/pairing/claim'', ''pairingH.Claim''),
     (GET, ''/sage/catalog/plugins'', ''sagePluginH.SearchCatalog''),
     (GET, ''/sage/catalog/plugins/:plugin_key'', ''sagePluginH.GetCatalogPlugin''),
     (GET, ''/skills/catalog'', ''skillHubH.SearchCatalog''),
     (GET, ''/skills/catalog/:skill_key'', ''skillHubH.GetCatalogSkill''),
     (GET, ''/kb/public/collections'', ''kbHubH.ListPublicCollections''),
     (GET, ''/kb/public/search'', ''kbHubH.Search''),
     (GET, ''/kb/public/collections/:id'', ''kbHubH.GetPublicCollection''),
     (GET, ''/kb/public/collections/:id/snapshots/:snapshot_id'', ''kbHubH.GetPublicSnapshot''),
     (POST, ''/kb/public/collections/:id/snapshots/:snapshot_id/manifest-download-url'', ''kbHubH.CreateManifestDownloadURL'')]\<rparr>"

definition protected_routes :: route_group where
  "protected_routes = \<lparr>rg_prefix = ''/api/v1'', rg_use = [JWTGuard], rg_routes =
    [(POST, ''/devices/pairing/start'', ''pairingH.Start''),
     (GET, ''/users/me'', ''identityH.GetProfile''),
     (PUT, ''/users/me'', ''identityH.UpdateProfile''),
     (POST, ''/users/me/password'', ''sensitiveOperationH.SetPassword''),
     (PUT, ''/users/me/password'', ''sensitiveOperationH.ChangePassword''),
     (POST, ''/users/me/devices'', ''identityH.PairDevice''),
     (GET, ''/users/me/devices'', ''identityH.GetDevices''),
     (PUT, ''/users/me/devices/:device_id'', ''identityH.RenameDevice''),
     (DELETE, ''/users/me/devices/:device_id'', ''identityH.RevokeDevice''),
     (POST, ''/conversations'', ''convH.Create''),
     (GET, ''/conversations'', ''convH.List''),
     (GET, ''/conversations/:id'', ''convH.Get''),
     (PATCH, ''/conversations/:id'', ''convH.Update''),
     (POST, ''/conversations/:id/read-state'', ''convH.MarkRead''),
     (GET, ''/conversations/:id/messages'', ''convH.GetMessages''),
     (PUT, ''/conversations/:id/messages/:message_id'', ''convH.UpdateMessage''),
     (DELETE, ''/conversations/:id/messages/:message_id'', ''convH.DeleteMessage''),
     (POST, ''/conversations/:id/messages/:message_id/reactions'', ''convH.AddReaction''),
     (DELETE, ''/conversations/:id/messages/:message_id/reactions/:emoji'', ''convH.RemoveReaction''),
     (POST, ''/conversations/:id/participants'', ''convH.AddParticipant''),
     (PATCH, ''/conversations/:id/participants/:user_id'', ''convH.UpdateParticipant''),
     (DELETE, ''/conversations/:id/participants/:user_id'', ''convH.RemoveParticipant''),
     (DELETE, ''/conversations/:id/participants/me'', ''convH.Leave''),
     (GET, ''/sync/capabilities'', ''syncH.GetCapabilities''),
     (GET, ''/sync/events'', ''syncH.GetEvents''),
     (POST, ''/sync/ack'', ''syncH.AckEvents''),
     (POST, ''/sensitive-operations/confirmations'', ''sensitiveOperationH.IssueConfirmation''),
     (POST, ''/governance/approval-receipts/consume'', ''governanceH.ConsumeApprovalReceipt''),
     (POST, ''/sage/plugins'', ''sagePluginH.CreatePlugin''),
     (POST, ''/sage/plugins/:plugin_id/versions'', ''sagePluginH.SubmitVersion''),
     (GET, ''/sage/plugins/:plugin_id/versions/:version_id/validation'', ''sagePluginH.GetValidation''),
     (POST, ''/sage/catalog/plugins/:plugin_key/install'', ''sagePluginH.InstallPlugin''),
     (GET, ''/sage/installations'', ''sagePluginH.ListInstallations''),
     (DELETE, ''/sage/installations/:installation_id'', ''sagePluginH.UninstallPlugin''),
     (POST, ''/sage/installations/:installation_id/disable'', ''sagePluginH.DisableInstallation''),
     (POST, ''/sage/installations/:installation_id/enable'', ''sagePluginH.EnableInstallation''),
     (POST, ''/sage/installations/:installation_id/grants'', ''sagePluginH.GrantPermission''),
     (DELETE, ''/sage/installations/:installation_id/grants/:grant_id'', ''sagePluginH.RevokeGrant''),
     (GET, ''/sage/installations/:installation_id/policy-bundle'', ''sagePluginH.PolicyBundle''),
     (POST, ''/sage/invocations'', ''sagePluginH.CreateInvocation''),
     (POST, ''/sage/invocations/:invocation_id/reports'', ''sagePluginH.SubmitReport''),
     (GET, ''/developer/sage/plugins/:plugin_id/metrics'', ''sagePluginH.DeveloperMetrics''),
     (POST, ''/skills'', ''skillHubH.CreateSkill''),
     (POST, ''/skills/:skill_id/versions'', ''skillHubH.SubmitVersion''),
     (GET, ''/skills/:skill_id/versions/:version_id/validation'', ''skillHubH.GetValidation''),
     (POST, ''/skills/catalog/:skill_key/install'', ''skillHubH.InstallSkill''),
     (PUT, ''/skills/catalog/:skill_key/rating'', ''skillHubH.RateSkill''),
     (DELETE, ''/skills/catalog/:skill_key/rating'', ''skillHubH.DeleteRating''),
     (GET, ''/skills/installations'', ''skillHubH.ListInstallations''),
     (PUT, ''/skills/installations/:installation_id/config'', ''skillHubH.UpdateInstallation''),
     (POST, ''/skills/installations/:installation_id/enable'', ''skillHubH.EnableInstallation''),
     (POST, ''/skills/installations/:installation_id/disable'', ''skillHubH.DisableInstallation''),
     (DELETE, ''/skills/installations/:installation_id'', ''skillHubH.UninstallSkill''),
     (GET, ''/skills/settings'', ''skillSettingsH.List''),
     (PUT, ''/skills/settings/:skill_id'', ''skillSettingsH.Update''),
     (POST, ''/skills/settings/:skill_id/enable'', ''skillSettingsH.Enable''),
     (POST, ''/skills/settings/:skill_id/disable'', ''skillSettingsH.Disable''),
     (GET, ''/agents/settings'', ''agentSettingsH.List''),
     (PUT, ''/agents/settings/:agent_id'', ''agentSettingsH.Update''),
     (GET, ''/servers'', ''serverConnectionsH.List''),
     (POST, ''/servers'', ''serverConnectionsH.Create''),
     (PUT, ''/servers/:id'', ''serverConnectionsH.Update''),
     (DELETE, ''/servers/:id'', ''serverConnectionsH.Delete''),
     (GET, ''/knowledge/entries'', ''knowledgeEntriesH.List''),
     (POST, ''/knowledge/entries'', ''knowledgeEntriesH.Create''),
     (GET, ''/knowledge/entries/*entry_id'', ''knowledgeEntriesH.Get''),
     (PUT, ''/knowledge/entries/*entry_id'', ''knowledgeEntriesH.Update''),
     (DELETE, ''/knowledge/entries/*entry_id'', ''knowledgeEntriesH.Delete''),
     (GET, ''/contacts'', ''contactsH.List''),
     (POST, ''/contacts'', ''contactsH.Create''),
     (GET, ''/contacts/:contact_id'', ''contactsH.Get''),
     (PUT, ''/contacts/:contact_id'', ''contactsH.Update''),
     (DELETE, ''/contacts/:contact_id'', ''contactsH.Delete''),
     (POST, ''/objects/upload-intents'', ''objectH.CreateUploadIntent''),
     (POST, ''/objects/uploads/:id/complete'', ''objectH.CompleteUpload''),
     (GET, ''/objects/:id'', ''objectH.Get''),
     (POST, ''/objects/:id/download-url'', ''objectH.CreateDownloadURL''),
     (DELETE, ''/objects/:id'', ''objectH.Delete''),
     (GET, ''/billing/account'', ''kbHubH.GetBillingAccount''),
     (GET, ''/billing/transactions'', ''kbHubH.ListBillingTransactions''),
     (GET, ''/billing/invoices'', ''kbHubH.ListBillingInvoices''),
     (GET, ''/billing/invoices/:invoice_id'', ''kbHubH.GetBillingInvoice''),
     (POST, ''/billing/refunds'', ''kbHubH.RequestBillingRefund''),
     (GET, ''/billing/refunds'', ''kbHubH.ListBillingRefunds''),
     (POST, ''/billing/disputes'', ''kbHubH.OpenBillingDispute''),
     (GET, ''/billing/disputes'', ''kbHubH.ListBillingDisputes''),
     (GET, ''/billing/payout-periods'', ''kbHubH.ListContributorPayoutPeriods''),
     (POST, ''/kb/collections'', ''kbHubH.CreateCollection''),
     (GET, ''/kb/collections'', ''kbHubH.ListCollections''),
     (PUT, ''/kb/collections/:id/pricing'', ''kbHubH.UpdateCollectionPricing''),
     (PUT, ''/kb/collections/:id/declarations'', ''kbHubH.UpdateCollectionDeclarations''),
     (POST, ''/kb/collections/:id/reports'', ''kbHubH.ReportCollection''),
     (GET, ''/kb/collections/:id/stats'', ''kbHubH.GetCollectionStats''),
     (GET, ''/kb/collections/:id/earnings'', ''kbHubH.ListContributorEarnings''),
     (GET, ''/kb/collections/:id/billing-plans'', ''kbHubH.ListCollectionBillingPlans''),
     (POST, ''/kb/collections/:id/snapshots'', ''kbHubH.PublishSnapshot''),
     (GET, ''/kb/collections/:id/snapshots'', ''kbHubH.ListSnapshots''),
     (GET, ''/kb/collections/:id/snapshots/:snapshot_id'', ''kbHubH.GetSnapshot''),
     (POST, ''/kb/collections/:id/snapshots/:snapshot_id/archive'', ''kbHubH.ArchiveSnapshot''),
     (POST, ''/kb/collections/:id/snapshots/:snapshot_id/restore'', ''kbHubH.RestoreSnapshot''),
     (GET, ''/kb/collections/:id/snapshot-diff'', ''kbHubH.DiffSnapshots''),
     (GET, ''/kb/collections/:id/snapshots/:snapshot_id/embedding-status'', ''kbHubH.GetSnapshotEmbeddingStatus''),
     (POST, ''/kb/collections/:id/snapshots/:snapshot_id/embedding-jobs/retry-failed'', ''kbHubH.RetrySnapshotEmbeddingJobs''),
     (POST, ''/kb/collections/:id/install'', ''kbHubH.InstallCollection''),
     (DELETE, ''/kb/collections/:id/install'', ''kbHubH.CancelSubscription''),
     (POST, ''/kb/collections/:id/snapshots/:snapshot_id/manifest-download-url'', ''kbHubH.CreateInstalledManifestDownloadURL''),
     (POST, ''/kb/collections/:id/snapshots/:snapshot_id/entries/:entry_id/content-download-url'', ''kbHubH.CreateInstalledEntryContentDownloadURL''),
     (POST, ''/kb/collections/:id/snapshots/:snapshot_id/entries/:entry_id/fulltext'', ''kbHubH.FetchInstalledEntryFullText''),
     (GET, ''/kb/collections/:id'', ''kbHubH.GetCollection''),
     (GET, ''/kb/subscriptions'', ''kbHubH.ListSubscriptions'')]\<rparr>"

definition admin_routes :: route_group where
  "admin_routes = \<lparr>rg_prefix = ''/api/v1/admin'', rg_use = [JWTGuard, AdminGuard], rg_routes =
    [(GET, ''/audit/events'', ''auditH.List''),
     (GET, ''/audit/verify-chain'', ''auditH.VerifyHashChain''),
     (POST, ''/governance/capabilities'', ''governanceH.CreateCapability''),
     (GET, ''/governance/capabilities'', ''governanceH.ListCapabilities''),
     (POST, ''/governance/policy-rules'', ''governanceH.CreatePolicyRule''),
     (GET, ''/governance/policy-rules'', ''governanceH.ListPolicyRules''),
     (POST, ''/governance/kill-switches'', ''governanceH.CreateKillSwitch''),
     (POST, ''/governance/evaluate'', ''governanceH.Evaluate''),
     (GET, ''/governance/summary'', ''governanceH.Summary''),
     (GET, ''/governance/policy-decisions'', ''governanceH.ListPolicyDecisions''),
     (GET, ''/governance/policy-decisions/:id'', ''governanceH.GetPolicyDecision''),
     (POST, ''/governance/approval-receipts'', ''governanceH.CreateApprovalReceipt''),
     (GET, ''/governance/approval-receipts'', ''governanceH.ListApprovalReceipts''),
     (POST, ''/governance/approval-receipts/:id/revoke'', ''governanceH.RevokeApprovalReceipt''),
     (POST, ''/governance/approval-receipts/:id/reissue-token'', ''governanceH.ReissueApprovalReceiptToken''),
     (GET, ''/governance/scan-results'', ''governanceH.ListScanResults''),
     (POST, ''/governance/scan-results/:id/resolve'', ''governanceH.ResolveScanResult''),
     (GET, ''/ops/background-job-runs'', ''opsH.ListBackgroundJobRuns''),
     (GET, ''/ops/background-job-runs/:id'', ''opsH.GetBackgroundJobRun''),
     (POST, ''/ops/background-jobs/run-once'', ''opsH.RunBackgroundJobsOnce''),
     (GET, ''/admission/policy'', ''admissionH.GetPolicy''),
     (PUT, ''/admission/policy'', ''admissionH.UpdatePolicy''),
     (PUT, ''/admission/invitation-code'', ''admissionH.UpdateInvitationCode''),
     (GET, ''/admission/requests'', ''admissionH.GetPending''),
     (POST, ''/admission/requests/:id/approve'', ''admissionH.Approve''),
     (POST, ''/admission/requests/:id/reject'', ''admissionH.Reject''),
     (GET, ''/sage/plugins/review-queue'', ''sagePluginH.ListReviewQueue''),
     (POST, ''/sage/plugins/:plugin_id/versions/:version_id/review'', ''sagePluginH.ReviewPlugin''),
     (POST, ''/sage/plugins/:plugin_id/suspend'', ''sagePluginH.SuspendPlugin''),
     (POST, ''/skills/:skill_id/takedown'', ''skillHubH.TakedownSkill''),
     (POST, ''/skills/publishers/:publisher_id/restrict'', ''skillHubH.RestrictPublisher''),
     (POST, ''/skills/publishers/:publisher_id/lift-restriction'', ''skillHubH.LiftPublisherRestriction''),
     (GET, ''/kb/collections/review'', ''kbHubH.AdminListCollectionsForReview''),
     (POST, ''/kb/collections/:id/review'', ''kbHubH.AdminReviewCollection''),
     (GET, ''/kb/moderation/reports'', ''kbHubH.AdminListModerationReports''),
     (POST, ''/kb/moderation/reports/:report_id/resolve'', ''kbHubH.AdminResolveModerationReport''),
     (POST, ''/kb/subscriptions/expire'', ''kbHubH.AdminExpireSubscriptions''),
     (POST, ''/kb/billing/invoices'', ''kbHubH.AdminCreateBillingInvoice''),
     (POST, ''/kb/billing/invoices/:invoice_id/pay'', ''kbHubH.AdminMarkInvoicePaid''),
     (POST, ''/kb/billing/refunds/:refund_id/resolve'', ''kbHubH.AdminResolveRefund''),
     (POST, ''/kb/billing/disputes/:dispute_id/resolve'', ''kbHubH.AdminResolveDispute''),
     (POST, ''/kb/billing/payout-periods/:payout_id/pay'', ''kbHubH.AdminMarkPayoutPaid'')]\<rparr>"

text \<open>A group registers a route under its prefix, behind the middleware it uses.\<close>

definition register_routes :: "route_group \<Rightarrow> route list" where
  "register_routes g = map (\<lambda>(m, p, h). \<lparr>rt_method = m, rt_path = rg_prefix g @ p, rt_chain = rg_use g, rt_handler = h\<rparr>) (rg_routes g)"

definition api_v1 :: "route list" where
  "api_v1 = register_routes auth_routes @ register_routes public_routes @ register_routes protected_routes @ register_routes admin_routes"

section \<open>Serving a route\<close>

text \<open>A middleware answers with a status and ends the request, or the next one runs. The handler finds the user and
  the device of the token in the context, and the zero user when there is none.\<close>

datatype served = Refused int | Handled string uuid string

fun run_chain :: "(string \<Rightarrow> time \<Rightarrow> (uuid \<times> string) option) \<Rightarrow> env \<Rightarrow> middleware list \<Rightarrow> string \<Rightarrow> string \<Rightarrow> uuid \<times> string
    \<Rightarrow> id_state \<Rightarrow> served" where
  "run_chain parse E [] handler auth context s = Handled handler (fst context) (snd context)"
| "run_chain parse E (JWTGuard # ms) handler auth context s =
     (case JWTAuth parse E auth of Inl _ \<Rightarrow> Refused 401 | Inr claims \<Rightarrow> run_chain parse E ms handler auth claims s)"
| "run_chain parse E (AdminGuard # ms) handler auth context s =
     (if AdminMiddleware E (fst context) s then run_chain parse E ms handler auth context s else Refused 403)"

definition serve_route :: "(string \<Rightarrow> time \<Rightarrow> (uuid \<times> string) option) \<Rightarrow> env \<Rightarrow> route \<Rightarrow> string \<Rightarrow> id_state \<Rightarrow> served" where
  "serve_route parse E r auth s = run_chain parse E (rt_chain r) (rt_handler r) auth (uuid_nil, '''') s"

section \<open>What the table promises\<close>

definition admin_only :: "route \<Rightarrow> bool" where
  "admin_only r \<longleftrightarrow> has_prefix (rt_path r) ''/api/v1/admin'' \<or> rt_handler r \<in> set (map (snd \<circ> snd) (rg_routes admin_routes))"

lemma register_fields:
  assumes "r \<in> set (register_routes g)"
  shows "rt_chain r = rg_use g"
    and "rt_handler r \<in> set (map (snd \<circ> snd) (rg_routes g))"
    and "list_all (\<lambda>(m, p, h). \<not> has_prefix (rg_prefix g @ p) x) (rg_routes g) \<Longrightarrow> \<not> has_prefix (rt_path r) x"
proof -
  obtain m p h where q: "(m, p, h) \<in> set (rg_routes g)"
    and r: "r = \<lparr>rt_method = m, rt_path = rg_prefix g @ p, rt_chain = rg_use g, rt_handler = h\<rparr>"
    using assms by (auto simp: register_routes_def)
  show "rt_chain r = rg_use g" by (simp add: r)
  show "rt_handler r \<in> set (map (snd \<circ> snd) (rg_routes g))" using q by (force simp: r)
  show "\<not> has_prefix (rt_path r) x" if "list_all (\<lambda>(m, p, h). \<not> has_prefix (rg_prefix g @ p) x) (rg_routes g)"
    using that q by (auto simp: r list_all_iff)
qed

lemma group_chains [simp]:
  "rg_use auth_routes = []" "rg_use public_routes = []"
  "rg_use protected_routes = [JWTGuard]" "rg_use admin_routes = [JWTGuard, AdminGuard]"
  by (simp_all add: auth_routes_def public_routes_def protected_routes_def admin_routes_def)

lemma api_v1_cases:
  assumes "r \<in> set api_v1"
  obtains g where "g \<in> {auth_routes, public_routes}" "r \<in> set (register_routes g)" | "r \<in> set (register_routes protected_routes)"
    | "r \<in> set (register_routes admin_routes)"
  using assms by (auto simp: api_v1_def)

text \<open>No handler of the admin group hangs on another group, and no other group has a path below its prefix.\<close>

lemma admin_group_apart:
  "list_all (\<lambda>g. list_all (\<lambda>h. h \<notin> set (map (snd \<circ> snd) (rg_routes admin_routes))) (map (snd \<circ> snd) (rg_routes g))
      \<and> list_all (\<lambda>(m, p, h). \<not> has_prefix (rg_prefix g @ p) ''/api/v1/admin'') (rg_routes g))
     [auth_routes, public_routes, protected_routes]"
  by code_simp

lemma admin_only_apart:
  assumes "g \<in> {auth_routes, public_routes, protected_routes}" and "r \<in> set (register_routes g)"
  shows "\<not> admin_only r"
proof -
  have "list_all (\<lambda>h. h \<notin> set (map (snd \<circ> snd) (rg_routes admin_routes))) (map (snd \<circ> snd) (rg_routes g))"
    and "list_all (\<lambda>(m, p, h). \<not> has_prefix (rg_prefix g @ p) ''/api/v1/admin'') (rg_routes g)"
    using admin_group_apart assms(1) by (auto simp only: list_all_iff list.set insert_iff empty_iff)
  with register_fields [OF assms(2)] show ?thesis
    unfolding admin_only_def list_all_iff by blast
qed

lemma admin_only_chain:
  assumes "r \<in> set api_v1" and "admin_only r"
  shows "rt_chain r = [JWTGuard, AdminGuard]"
  using assms(1)
proof (cases rule: api_v1_cases)
  case (1 g)
  with assms(2) admin_only_apart [of g r] show ?thesis by blast
next
  case 2
  with assms(2) admin_only_apart [of protected_routes r] show ?thesis by blast
next
  case 3
  from register_fields(1) [OF this] show ?thesis by simp
qed

lemma JWTAuth_Inr:
  "JWTAuth parse E auth = Inr c \<longleftrightarrow> (\<exists>token. auth = ''Bearer '' @ token \<and> parse token (e_now E) = Some c)"
proof
  assume "JWTAuth parse E auth = Inr c"
  then have p: "take (length ''Bearer '') auth = ''Bearer ''" and c: "parse (drop 7 auth) (e_now E) = Some c"
    unfolding JWTAuth_def has_prefix_def by (simp_all only: split: if_splits option.splits) blast+
  from p have "auth = ''Bearer '' @ drop (length ''Bearer '') auth" by (metis append_take_drop_id)
  then have "auth = ''Bearer '' @ drop 7 auth" by (simp add: eval_nat_numeral)
  with c show "\<exists>token. auth = ''Bearer '' @ token \<and> parse token (e_now E) = Some c" by blast
qed (auto simp: JWTAuth_def has_prefix_def)

text \<open>
  C7: A request reaches a handler of the API only with a valid token of the user the handler sees, unless the route
  is one of the fourteen public ones; and a path under /api/v1/admin, or a handler of the admin group wherever it is
  registered, is only reached by an active user who is an admin or owner at that moment.
\<close>

theorem handlers_see_authenticated_callers:
  assumes r: "r \<in> set api_v1" and served: "serve_route parse E r auth s = Handled h u d"
  shows "h = rt_handler r
    \<and> (r \<in> set (register_routes auth_routes @ register_routes public_routes)
        \<or> (\<exists>token. auth = ''Bearer '' @ token \<and> parse token (e_now E) = Some (u, d)))
    \<and> (admin_only r \<longrightarrow> (\<exists>user. GetByID E u s = Inr user \<and> us_status user = ''active''
        \<and> (us_is_admin user \<or> us_role user = ''admin'' \<or> us_role user = ''owner'')))"
proof -
  have chain: "rt_chain r = [] \<and> r \<in> set (register_routes auth_routes @ register_routes public_routes) \<or> rt_chain r = [JWTGuard]
      \<or> rt_chain r = [JWTGuard, AdminGuard]"
    using r
  proof (cases rule: api_v1_cases)
    case (1 g)
    from register_fields(1) [OF 1(2)] 1 show ?thesis by auto
  qed (auto dest: register_fields(1))
  show ?thesis
    using chain served admin_only_chain [OF r]
    by (auto simp: serve_route_def JWTAuth_Inr AdminMiddleware_def split: sum.splits if_splits)
qed

definition demo_token :: "string \<Rightarrow> time \<Rightarrow> (uuid \<times> string) option" where
  "demo_token t now = (if t = ''a'' then Some (1, ''phone'') else if t = ''b'' then Some (2, ''laptop'') else None)"

definition demo_person :: "uuid \<Rightarrow> string \<Rightarrow> string \<Rightarrow> user" where
  "demo_person i role status = \<lparr>us_id = i, us_created_at = 0, us_updated_at = 0, us_pubkey = '''', us_password_hash = '''',
     us_display_name = '''', us_avatar_url = '''', us_status = status, us_role = role, us_is_admin = False\<rparr>"

definition demo_people :: id_state where
  "demo_people = id_init\<lparr>is_users := [demo_person 1 ''admin'' ''active'', demo_person 2 ''user'' ''suspended'']\<rparr>"

definition kill_switch_route :: route where
  "kill_switch_route = \<lparr>rt_method = POST, rt_path = ''/api/v1/admin/governance/kill-switches'', rt_chain = [JWTGuard, AdminGuard],
     rt_handler = ''governanceH.CreateKillSwitch''\<rparr>"

lemma demo_routing:
  "kill_switch_route \<in> set api_v1"
  "serve_route demo_token env0 kill_switch_route ''Bearer a'' demo_people = Handled ''governanceH.CreateKillSwitch'' 1 ''phone''"
  "serve_route demo_token env0 kill_switch_route ''Bearer b'' demo_people = Refused 403"
  by code_simp+

lemma handlers_see_authenticated_callers_witness:
  "\<exists>user. GetByID env0 1 demo_people = Inr user \<and> us_status user = ''active''
     \<and> (us_is_admin user \<or> us_role user = ''admin'' \<or> us_role user = ''owner'')"
  using handlers_see_authenticated_callers [OF demo_routing(1,2)] by (simp add: admin_only_def kill_switch_route_def has_prefix_def)

text \<open>The token middleware does not look at the tables: a token of a revoked device or a suspended user is good for
  every protected route until it expires.\<close>

lemma access_outlives_revocation:
  assumes "r \<in> set (register_routes protected_routes)"
  shows "serve_route parse E r auth s = serve_route parse E r auth s'"
  using register_fields(1) [OF assms] by (simp add: serve_route_def split: sum.splits)

end
