(* ===== verification/AdmissionApi.thy ===== *)
theory AdmissionApi
  imports TokenProps
begin

text \<open>
  The administrators' endpoints for joining the server (\<open>internal/handler/admission.go\<close>): the policy and the
  invitation code change only with a confirmation, requests to join are approved or rejected without one, and every
  outcome is audited. And what the confirmation protects.
\<close>

section \<open>Endpoints\<close>

text \<open>The answer is the status. The fields that gin requires are not empty. Reading the policy for the first time stores
  the one of the configuration.\<close>

definition GetPolicy_endpoint :: "env \<Rightarrow> id_config \<Rightarrow> id_state \<Rightarrow> int \<times> id_state" where
  "GetPolicy_endpoint E cfg s = (case GetPolicy E cfg ''default'' s of (Inl e, s1) \<Rightarrow> (500, s1) | (Inr policy, s1) \<Rightarrow> (200, s1))"

definition GetPending_endpoint :: "env \<Rightarrow> id_state \<Rightarrow> int \<times> id_state" where
  "GetPending_endpoint E s = (case GetPendingAdmissionRequests E s of Inl e \<Rightarrow> (500, s) | Inr rs \<Rightarrow> (200, s))"

definition UpdatePolicy_endpoint :: "env \<Rightarrow> id_config \<Rightarrow> uuid \<Rightarrow> string \<Rightarrow> string \<Rightarrow> string \<Rightarrow> id_state \<Rightarrow> int \<times> id_state" where
  "UpdatePolicy_endpoint E cfg adminID d policyType token s =
     (if policyType = '''' \<or> token = '''' then (400, s)
      else case enforceSensitiveConfirmation E adminID d token ''admission.policy.update'' ''admission.policy.update''
                  ''admission.policy.updated'' ''server_admission'' ''default'' s of
             (False, s1) \<Rightarrow> (403, s1)
           | (True, s1) \<Rightarrow>
               (case UpdatePolicy E cfg ''default'' policyType adminID s1 of
                  (Inl e, s2) \<Rightarrow>
                    (400, recordAuditFromContext E 2 adminID d ''admission.policy.updated'' ''server_admission'' ''default'' ''failure''
                            (Some [(''policy_type'', AStr policyType), (''error'', AStr (err_text e))]) s2)
                | (Inr policy, s2) \<Rightarrow>
                    (200, recordAuditFromContext E 2 adminID d ''admission.policy.updated'' ''server_admission'' ''default''
                            AuditOutcomeSuccess (Some [(''policy_type'', AStr (sa_policy_type policy))]) s2)))"

definition UpdateInvitationCode_endpoint :: "env \<Rightarrow> id_config \<Rightarrow> uuid \<Rightarrow> string \<Rightarrow> string \<Rightarrow> string \<Rightarrow> id_state \<Rightarrow> int \<times> id_state" where
  "UpdateInvitationCode_endpoint E cfg adminID d code token s =
     (if code = '''' \<or> token = '''' then (400, s)
      else case enforceSensitiveConfirmation E adminID d token ''admission.invitation_code.update''
                  ''admission.invitation_code.update'' ''admission.invitation_code.set'' ''server_admission'' ''default'' s of
             (False, s1) \<Rightarrow> (403, s1)
           | (True, s1) \<Rightarrow>
               (case UpdateInvitationCode E cfg ''default'' code adminID s1 of
                  (Inl e, s2) \<Rightarrow>
                    (400, recordAuditFromContext E 2 adminID d ''admission.invitation_code.set'' ''server_admission'' ''default''
                            ''failure'' (Some [(''error'', AStr (err_text e))]) s2)
                | (Inr policy, s2) \<Rightarrow>
                    (200, recordAuditFromContext E 2 adminID d ''admission.invitation_code.set'' ''server_admission'' ''default''
                            AuditOutcomeSuccess (Some [(''policy_type'', AStr (sa_policy_type policy))]) s2)))"

definition Approve_endpoint :: "env \<Rightarrow> uuid \<Rightarrow> string \<Rightarrow> string \<Rightarrow> id_state \<Rightarrow> int \<times> id_state" where
  "Approve_endpoint E adminID d rid s =
     (case e_uuid_parse E rid of
        None \<Rightarrow> (400, s)
      | Some i \<Rightarrow>
          (case ApproveRequest E i s of
             Inl e \<Rightarrow>
               (400, recordAuditFromContext E 0 adminID d ''admission.request.approved'' ''admission_request'' (e_uuid_str E i)
                       ''failure'' (Some [(''error'', AStr (err_text e))]) s)
           | Inr s1 \<Rightarrow>
               (200, recordAuditFromContext E 0 adminID d ''admission.request.approved'' ''admission_request'' (e_uuid_str E i)
                       AuditOutcomeSuccess None s1)))"

text \<open>A body that cannot be decoded counts as one without a reason.\<close>

definition Reject_endpoint :: "env \<Rightarrow> uuid \<Rightarrow> string \<Rightarrow> string \<Rightarrow> string option \<Rightarrow> id_state \<Rightarrow> int \<times> id_state" where
  "Reject_endpoint E adminID d rid body s =
     (let reason = (case body of None \<Rightarrow> '''' | Some r \<Rightarrow> r) in
      case e_uuid_parse E rid of
        None \<Rightarrow> (400, s)
      | Some i \<Rightarrow>
          (case RejectRequest E i reason s of
             Inl e \<Rightarrow>
               (400, recordAuditFromContext E 0 adminID d ''admission.request.rejected'' ''admission_request'' (e_uuid_str E i)
                       ''failure'' (Some [(''error'', AStr (err_text e)), (''reason_present'', ABool (reason \<noteq> ''''))]) s)
           | Inr s1 \<Rightarrow>
               (200, recordAuditFromContext E 0 adminID d ''admission.request.rejected'' ''admission_request'' (e_uuid_str E i)
                       AuditOutcomeSuccess (Some [(''reason_present'', ABool (reason \<noteq> ''''))]) s1)))"

datatype admission_call =
    AReadPolicy
  | APending
  | APolicy string string
  | AInvitation string string
  | AApprove string
  | AReject string "string option"

fun admission_serve :: "env \<Rightarrow> id_config \<Rightarrow> uuid \<Rightarrow> string \<Rightarrow> admission_call \<Rightarrow> id_state \<Rightarrow> int \<times> id_state" where
  "admission_serve E cfg u d AReadPolicy s = GetPolicy_endpoint E cfg s"
| "admission_serve E cfg u d APending s = GetPending_endpoint E s"
| "admission_serve E cfg u d (APolicy p token) s = UpdatePolicy_endpoint E cfg u d p token s"
| "admission_serve E cfg u d (AInvitation code token) s = UpdateInvitationCode_endpoint E cfg u d code token s"
| "admission_serve E cfg u d (AApprove i) s = Approve_endpoint E u d i s"
| "admission_serve E cfg u d (AReject i body) s = Reject_endpoint E u d i body s"

section \<open>What a confirmation protects\<close>

lemma recordAuditFromContext_tables [simp]:
  "is_admissions (recordAuditFromContext E n u d a t i oc m s) = is_admissions s"
  "is_confirmations (recordAuditFromContext E n u d a t i oc m s) = is_confirmations s"
  by (simp_all add: recordAuditFromContext_def)

lemma ConsumeConfirmation_admissions [simp]: "is_admissions (snd (ConsumeConfirmation E u t op p s)) = is_admissions s"
  by (auto simp: ConsumeConfirmation_def MarkUsed_def record_id_audit_def db_update_def split: sum.splits)

lemma policy_updates_keep_confirmations [simp]:
  "is_confirmations (snd (UpdatePolicy E cfg i p u s)) = is_confirmations s"
  "is_confirmations (snd (UpdateInvitationCode E cfg i p u s)) = is_confirmations s"
proof -
  have g: "is_confirmations (snd (GetPolicy E cfg i s)) = is_confirmations s" for s
    by (auto simp: GetPolicy_def CreateServerAdmission_def Let_def split: sum.splits)
  have v: "SaveServerAdmission E a s = Inr s' \<Longrightarrow> is_confirmations s' = is_confirmations s" for a s s'
    by (auto simp: SaveServerAdmission_def split: sum.splits)
  obtain r s1 where p: "GetPolicy E cfg i s = (r, s1)" by fastforce
  with g [of s] have "is_confirmations s1 = is_confirmations s" by simp
  then show "is_confirmations (snd (UpdatePolicy E cfg i p u s)) = is_confirmations s"
    and "is_confirmations (snd (UpdateInvitationCode E cfg i p u s)) = is_confirmations s"
    by (auto simp: UpdatePolicy_def UpdateInvitationCode_def p Let_def dest: v split: sum.splits)
qed

text \<open>A live confirmation of a user for an operation, named by the token.\<close>

definition live_confirmation :: "env \<Rightarrow> uuid \<Rightarrow> string \<Rightarrow> string \<Rightarrow> confirmation \<Rightarrow> bool" where
  "live_confirmation E u operation token c \<longleftrightarrow> cf_user_id c = u \<and> cf_operation c = operation
     \<and> cf_token_hash c = e_sha256_hex E token \<and> cf_used_at c = None \<and> e_now E < cf_expires_at c"

lemma enforce_cases:
  assumes "enforceSensitiveConfirmation E u d token operation purpose action ty i s = (ok, s1)"
  shows "is_admissions s1 = is_admissions s \<and> (ok \<longrightarrow> (\<exists>c\<in>set (is_confirmations s). live_confirmation E u operation token c
     \<and> (\<forall>x\<in>set (is_confirmations s1). cf_id x = cf_id c \<longrightarrow> cf_used_at x \<noteq> None)))"
proof -
  obtain r s0 where c: "ConsumeConfirmation E u token operation purpose s = (r, s0)" by fastforce
  have a: "is_admissions s0 = is_admissions s" using ConsumeConfirmation_admissions [of E u token operation purpose s] by (simp add: c)
  show ?thesis
  proof (cases r)
    case (Inl e)
    with assms c a show ?thesis by (auto simp: enforceSensitiveConfirmation_def)
  next
    case (Inr x)
    with assms c have "ok" "s1 = s0" by (auto simp: enforceSensitiveConfirmation_def)
    moreover from c [unfolded Inr] obtain k where "k \<in> set (is_confirmations s)" "cf_user_id k = u" "cf_operation k = operation"
      "cf_token_hash k = e_sha256_hex E token" "cf_used_at k = None" "e_now E < cf_expires_at k"
      "is_confirmations s0 = upd_where (\<lambda>x. cf_id x = cf_id k \<and> cf_used_at x = None)
         (\<lambda>x. x\<lparr>cf_used_at := Some (e_now E), cf_consumed_by := purpose\<rparr>) (is_confirmations s)"
      by (rule ConsumeConfirmation_Inr)
    ultimately show ?thesis using a by (auto simp: live_confirmation_def upd_where_def intro!: bexI [of _ k])
  qed
qed

lemma requests_keep_policy:
  "ApproveRequest E i s = Inr s' \<Longrightarrow> is_admissions s' = is_admissions s"
  "RejectRequest E i r s = Inr s' \<Longrightarrow> is_admissions s' = is_admissions s"
  by (auto simp: ApproveRequest_def RejectRequest_def UpdateAdmissionRequest_def split: sum.splits if_splits)

lemma policy_confirmed:
  assumes a: "UpdatePolicy_endpoint E cfg u d p token s = (status, s')" and n: "is_admissions s' \<noteq> is_admissions s"
  shows "\<exists>c\<in>set (is_confirmations s). live_confirmation E u ''admission.policy.update'' token c
    \<and> (\<forall>x\<in>set (is_confirmations s'). cf_id x = cf_id c \<longrightarrow> cf_used_at x \<noteq> None)"
proof -
  obtain ok s1 where e: "enforceSensitiveConfirmation E u d token ''admission.policy.update'' ''admission.policy.update''
      ''admission.policy.updated'' ''server_admission'' ''default'' s = (ok, s1)" by fastforce
  obtain r s2 where u: "UpdatePolicy E cfg ''default'' p u s1 = (r, s2)" by fastforce
  have k: "is_confirmations s2 = is_confirmations s1"
    using policy_updates_keep_confirmations [of E cfg "''default''" p u s1] by (simp add: u)
  from enforce_cases [OF e] a n have ok by (cases ok) (auto simp: UpdatePolicy_endpoint_def e split: if_splits)
  moreover from a n \<open>ok\<close> have "is_confirmations s' = is_confirmations s2"
    by (auto simp: UpdatePolicy_endpoint_def e u split: if_splits sum.splits)
  ultimately show ?thesis using enforce_cases [OF e] k by simp
qed

lemma invitation_confirmed:
  assumes a: "UpdateInvitationCode_endpoint E cfg u d p token s = (status, s')" and n: "is_admissions s' \<noteq> is_admissions s"
  shows "\<exists>c\<in>set (is_confirmations s). live_confirmation E u ''admission.invitation_code.update'' token c
    \<and> (\<forall>x\<in>set (is_confirmations s'). cf_id x = cf_id c \<longrightarrow> cf_used_at x \<noteq> None)"
proof -
  obtain ok s1 where e: "enforceSensitiveConfirmation E u d token ''admission.invitation_code.update'' ''admission.invitation_code.update''
      ''admission.invitation_code.set'' ''server_admission'' ''default'' s = (ok, s1)" by fastforce
  obtain r s2 where u: "UpdateInvitationCode E cfg ''default'' p u s1 = (r, s2)" by fastforce
  have k: "is_confirmations s2 = is_confirmations s1"
    using policy_updates_keep_confirmations [of E cfg "''default''" p u s1] by (simp add: u)
  from enforce_cases [OF e] a n have ok by (cases ok) (auto simp: UpdateInvitationCode_endpoint_def e split: if_splits)
  moreover from a n \<open>ok\<close> have "is_confirmations s' = is_confirmations s2"
    by (auto simp: UpdateInvitationCode_endpoint_def e u split: if_splits sum.splits)
  ultimately show ?thesis using enforce_cases [OF e] k by simp
qed

text \<open>Requests to join and the policy are kept apart.\<close>

lemma recordAuditFromContext_requests [simp]: "is_requests (recordAuditFromContext E n u d a t i oc m s) = is_requests s"
  by (simp add: recordAuditFromContext_def)

lemma ConsumeConfirmation_requests [simp]: "is_requests (snd (ConsumeConfirmation E u t op p s)) = is_requests s"
  by (auto simp: ConsumeConfirmation_def MarkUsed_def record_id_audit_def db_update_def split: sum.splits)

lemma enforce_requests:
  assumes "enforceSensitiveConfirmation E u d token operation purpose action ty i s = (ok, s1)"
  shows "is_requests s1 = is_requests s"
proof -
  obtain r s0 where c: "ConsumeConfirmation E u token operation purpose s = (r, s0)" by fastforce
  have "is_requests s0 = is_requests s" using ConsumeConfirmation_requests [of E u token operation purpose s] by (simp add: c)
  with assms c show ?thesis by (auto simp: enforceSensitiveConfirmation_def split: sum.splits)
qed

lemma GetPolicy_requests: "is_requests (snd (GetPolicy E cfg i s)) = is_requests s"
  by (auto simp: GetPolicy_def CreateServerAdmission_def Let_def split: sum.splits)

lemma policy_updates_keep_requests:
  "is_requests (snd (UpdatePolicy E cfg i p u s)) = is_requests s"
  "is_requests (snd (UpdateInvitationCode E cfg i p u s)) = is_requests s"
proof -
  have v: "SaveServerAdmission E a s = Inr s' \<Longrightarrow> is_requests s' = is_requests s" for a s s'
    by (auto simp: SaveServerAdmission_def split: sum.splits)
  obtain r s1 where p: "GetPolicy E cfg i s = (r, s1)" by fastforce
  with GetPolicy_requests [of E cfg i s] have "is_requests s1 = is_requests s" by simp
  then show "is_requests (snd (UpdatePolicy E cfg i p u s)) = is_requests s"
    and "is_requests (snd (UpdateInvitationCode E cfg i p u s)) = is_requests s"
    by (auto simp: UpdatePolicy_def UpdateInvitationCode_def p Let_def dest: v split: sum.splits)
qed

lemma policy_call_requests:
  "is_requests (snd (UpdatePolicy_endpoint E cfg u d p token s)) = is_requests s"
  "is_requests (snd (UpdateInvitationCode_endpoint E cfg u d p token s)) = is_requests s"
proof -
  have a: "is_requests s2 = is_requests s1" if "UpdatePolicy E cfg i p u s1 = (r, s2)" for i p r s1 s2
    using policy_updates_keep_requests(1) [of E cfg i p u s1] that by simp
  have b: "is_requests s2 = is_requests s1" if "UpdateInvitationCode E cfg i p u s1 = (r, s2)" for i p r s1 s2
    using policy_updates_keep_requests(2) [of E cfg i p u s1] that by simp
  show "is_requests (snd (UpdatePolicy_endpoint E cfg u d p token s)) = is_requests s"
    by (auto simp: UpdatePolicy_endpoint_def dest!: enforce_requests a split: prod.splits sum.splits bool.splits)
  show "is_requests (snd (UpdateInvitationCode_endpoint E cfg u d p token s)) = is_requests s"
    by (auto simp: UpdateInvitationCode_endpoint_def dest!: enforce_requests b split: prod.splits sum.splits bool.splits)
qed

text \<open>The policy of the configuration, stored where there was none.\<close>

definition configured_policy_stored :: "env \<Rightarrow> id_config \<Rightarrow> id_state \<Rightarrow> id_state \<Rightarrow> bool" where
  "configured_policy_stored E cfg s s' \<longleftrightarrow> (\<forall>a\<in>set (is_admissions s). sa_server_id a \<noteq> ''default'')
     \<and> is_admissions s' = is_admissions s @ [\<lparr>sa_id = e_uuid E ''server_admissions'' 0, sa_server_id = ''default'',
         sa_policy_type = ic_policy_type cfg, sa_invitation_code_hash = '''',
         sa_admin_approval_required = (ic_policy_type cfg = ''approval''), sa_updated_by = None\<rparr>]"

lemma GetPolicy_stores:
  "is_admissions (snd (GetPolicy E cfg ''default'' s)) = is_admissions s
     \<or> configured_policy_stored E cfg s (snd (GetPolicy E cfg ''default'' s))"
proof -
  have "trim ''default'' = ''default''" by code_simp
  then show ?thesis
    by (auto simp: GetPolicy_def GetServerAdmission_def CreateServerAdmission_def configured_policy_stored_def db_simps Let_def
        split: sum.splits)
qed

text \<open>A confirmed request for the policy or the invitation code, which uses its confirmation up.\<close>

definition confirmed_call :: "env \<Rightarrow> uuid \<Rightarrow> admission_call \<Rightarrow> id_state \<Rightarrow> id_state \<Rightarrow> bool" where
  "confirmed_call E u q s s' \<longleftrightarrow> (\<exists>what token operation.
     (q = APolicy what token \<and> operation = ''admission.policy.update''
      \<or> q = AInvitation what token \<and> operation = ''admission.invitation_code.update'')
     \<and> (\<exists>c\<in>set (is_confirmations s). live_confirmation E u operation token c
          \<and> (\<forall>x\<in>set (is_confirmations s'). cf_id x = cf_id c \<longrightarrow> cf_used_at x \<noteq> None)))"

text \<open>The decision of one pending request that the call names.\<close>

definition request_decided :: "env \<Rightarrow> admission_call \<Rightarrow> id_state \<Rightarrow> id_state \<Rightarrow> bool" where
  "request_decided E q s s' \<longleftrightarrow> (\<exists>rid r. e_uuid_parse E rid = Some (ar_id r) \<and> r \<in> set (is_requests s) \<and> ar_status r = ''pending''
     \<and> (q = AApprove rid \<and> is_requests s' = save_row ar_id (r\<lparr>ar_status := ''approved''\<rparr>) (is_requests s)
        \<or> (\<exists>body. q = AReject rid body \<and> is_requests s' = save_row ar_id
             (r\<lparr>ar_status := ''rejected'', ar_reason := (case body of None \<Rightarrow> '''' | Some x \<Rightarrow> x)\<rparr>) (is_requests s))))"

lemma GetAdmissionRequest_Inr: "GetAdmissionRequest E i s = Inr r \<Longrightarrow> r \<in> set (is_requests s) \<and> ar_id r = i"
  by (auto simp: GetAdmissionRequest_def db_first_Inr dest: first_by_Some)

lemma decisions:
  "ApproveRequest E i s = Inr s' \<Longrightarrow> \<exists>r\<in>set (is_requests s). ar_id r = i \<and> ar_status r = ''pending''
     \<and> is_requests s' = save_row ar_id (r\<lparr>ar_status := ''approved''\<rparr>) (is_requests s)"
  "RejectRequest E i reason s = Inr s' \<Longrightarrow> \<exists>r\<in>set (is_requests s). ar_id r = i \<and> ar_status r = ''pending''
     \<and> is_requests s' = save_row ar_id (r\<lparr>ar_status := ''rejected'', ar_reason := reason\<rparr>) (is_requests s)"
  by (auto simp: ApproveRequest_def RejectRequest_def UpdateAdmissionRequest_def db_save_def
      dest!: GetAdmissionRequest_Inr split: sum.splits if_splits)

text \<open>
  C37: The administrators' endpoints for joining the server keep to their tables. The stored policy and invitation code
  change only by a request for just that, with a live confirmation of the same administrator for exactly that operation,
  which is used up; or when the policy is read where none is stored, and then the one of the configuration is
  stored. The requests to join change, without a confirmation, only by approving or rejecting a pending one by its
  identifier, and then only that one.
\<close>

theorem join_policy_needs_confirmation:
  assumes "admission_serve E cfg u d q s = (status, s')"
  shows "(is_admissions s' = is_admissions s \<or> confirmed_call E u q s s'
      \<or> q = AReadPolicy \<and> configured_policy_stored E cfg s s')
    \<and> (is_requests s' = is_requests s \<or> request_decided E q s s')"
proof (cases q)
  case AReadPolicy
  with assms have "s' = snd (GetPolicy E cfg ''default'' s)" by (auto simp: GetPolicy_endpoint_def split: prod.splits sum.splits)
  with AReadPolicy GetPolicy_stores [of E cfg s] show ?thesis by (auto simp: GetPolicy_requests)
next
  case APending
  with assms show ?thesis by (auto simp: GetPending_endpoint_def split: sum.splits)
next
  case (APolicy p token)
  with assms have e: "UpdatePolicy_endpoint E cfg u d p token s = (status, s')" by simp
  have "confirmed_call E u q s s'" if "is_admissions s' \<noteq> is_admissions s"
    unfolding confirmed_call_def APolicy
    by (rule exI [of _ p], rule exI [of _ token], rule exI [of _ "''admission.policy.update''"], rule conjI [OF _ policy_confirmed [OF e that]]) simp
  with policy_call_requests(1) [of E cfg u d p token s] e show ?thesis by auto
next
  case (AInvitation p token)
  with assms have e: "UpdateInvitationCode_endpoint E cfg u d p token s = (status, s')" by simp
  have "confirmed_call E u q s s'" if "is_admissions s' \<noteq> is_admissions s"
    unfolding confirmed_call_def AInvitation
    by (rule exI [of _ p], rule exI [of _ token], rule exI [of _ "''admission.invitation_code.update''"],
        rule conjI [OF _ invitation_confirmed [OF e that]]) simp
  with policy_call_requests(2) [of E cfg u d p token s] e show ?thesis by auto
next
  case (AApprove rid)
  show ?thesis
  proof (cases "\<exists>i s1. e_uuid_parse E rid = Some i \<and> ApproveRequest E i s = Inr s1")
    case True
    then obtain i s1 where i: "e_uuid_parse E rid = Some i" and s1: "ApproveRequest E i s = Inr s1" by blast
    then have t: "is_admissions s' = is_admissions s1" "is_requests s' = is_requests s1"
      using assms AApprove by (auto simp: Approve_endpoint_def)
    from decisions(1) [OF s1] i have "request_decided E q s s'" unfolding request_decided_def AApprove t by blast
    with t requests_keep_policy(1) [OF s1] show ?thesis by simp
  qed (use assms AApprove in \<open>auto simp: Approve_endpoint_def split: option.splits sum.splits\<close>)
next
  case (AReject rid body)
  let ?reason = "case body of None \<Rightarrow> '''' | Some x \<Rightarrow> x"
  show ?thesis
  proof (cases "\<exists>i s1. e_uuid_parse E rid = Some i \<and> RejectRequest E i ?reason s = Inr s1")
    case True
    then obtain i s1 where i: "e_uuid_parse E rid = Some i" and s1: "RejectRequest E i ?reason s = Inr s1" by blast
    then have t: "is_admissions s' = is_admissions s1" "is_requests s' = is_requests s1"
      using assms AReject by (auto simp: Reject_endpoint_def)
    from decisions(2) [OF s1] i have "request_decided E q s s'" unfolding request_decided_def AReject t by blast
    with t requests_keep_policy(2) [OF s1] show ?thesis by simp
  qed (use assms AReject in \<open>auto simp: Reject_endpoint_def Let_def split: option.splits sum.splits\<close>)
qed

definition demo_config :: id_config where
  "demo_config = \<lparr>ic_policy_type = ''protocol'', ic_invitation_code = '''', ic_token_mins = 60, ic_sign = (\<lambda>u d t. Inr '''')\<rparr>"

definition demo_ready :: id_state where
  "demo_ready = snd (IssueConfirmation (env_at 1) 7 ''laptop'' ''correct horse'' ''admission.policy.update'' demo_account)"

lemma demo_policy_change:
  "fst (admission_serve (env_at 2) demo_config 7 ''laptop'' (APolicy ''approval'' ''r'') demo_ready) = 200
   \<and> map sa_policy_type (is_admissions (snd (admission_serve (env_at 2) demo_config 7 ''laptop'' (APolicy ''approval'' ''r'') demo_ready)))
       = [''approval'']
   \<and> is_admissions demo_ready = []"
  by code_simp

theorem join_policy_needs_confirmation_witness:
  "confirmed_call (env_at 2) 7 (APolicy ''approval'' ''r'') demo_ready
     (snd (admission_serve (env_at 2) demo_config 7 ''laptop'' (APolicy ''approval'' ''r'') demo_ready))"
proof -
  let ?p = "admission_serve (env_at 2) demo_config 7 ''laptop'' (APolicy ''approval'' ''r'') demo_ready"
  have "is_admissions (snd ?p) \<noteq> is_admissions demo_ready" using demo_policy_change by auto
  moreover have "?p = (fst ?p, snd ?p)" by simp
  note join_policy_needs_confirmation [OF this]
  ultimately show ?thesis by blast
qed

end
