(* ===== verification/KBApi.thy ===== *)
theory KBApi
  imports KBAccess
begin

text \<open>
  The endpoints of the knowledge hub that leave a trace in the audit log (\<open>internal/handler/kb_hub.go\<close>): the body and
  the path parameters are decoded, the service is asked, its error becomes a status, and a success is recorded with
  \<open>recordAuditFromContext\<close>. Two endpoints that change the same tables and record nothing stand beside them. The body
  as gin decodes it is an argument, \<open>None\<close> for one it refuses. The user and device are those of the request's token.
\<close>

section \<open>State and answers\<close>

record kb_api_state =
  ka_hub :: kb_hub_state
  ka_audit :: audit_state

type_synonym 'a answer = "int \<times> 'a result"

definition bad_request :: "string \<Rightarrow> 'a answer" where
  "bad_request msg = (400, Inl (Errorf msg))"

text \<open>\<open>handleGovernanceError\<close>: the status of an error of the governance plane.\<close>

definition governance_status :: "error \<Rightarrow> int option" where
  "governance_status e =
     (if err_is e ErrGovernanceDenied then Some 403
      else if err_is e ErrGovernanceApprovalRequired then Some 428
      else if err_is e ErrGovernanceApprovalInvalid then Some 403
      else None)"

definition handleError :: "error \<Rightarrow> int" where
  "handleError e =
     (case governance_status e of
        Some st \<Rightarrow> st
      | None \<Rightarrow>
          if err_is e ErrKBCollectionNotFound \<or> err_is e ErrKBSnapshotNotFound then 404
          else if err_is e ErrKBSubscriptionNeeded then 403
          else if err_is e ErrKBNoEntries then 409
          else if err_is e ErrKBInvalid then 400
          else 500)"

text \<open>The error of the recording is dropped.\<close>

definition audit_from_context :: "env \<Rightarrow> uuid \<Rightarrow> string \<Rightarrow> string \<Rightarrow> string \<Rightarrow> string \<Rightarrow> string \<Rightarrow> json_map
    \<Rightarrow> audit_state \<Rightarrow> audit_state" where
  "audit_from_context E u d action resourceType resourceID outcome meta a =
     snd (Record_audit E 0
        \<lparr>ai_actor_user_id = Some u, ai_actor_device_id = d, ai_action = action, ai_resource_type = resourceType,
         ai_resource_id = resourceID, ai_outcome = outcome, ai_ip_address = e_client_ip E, ai_user_agent = e_user_agent E,
         ai_metadata = Some meta\<rparr> a)"

text \<open>How an audited endpoint ends: \<open>about\<close> is the identifier and the metadata of the event.\<close>

definition audited_end :: "env \<Rightarrow> uuid \<Rightarrow> string \<Rightarrow> string \<Rightarrow> string \<Rightarrow> ('a \<Rightarrow> string \<times> json_map) \<Rightarrow> int
    \<Rightarrow> 'a result \<times> kb_hub_state \<Rightarrow> kb_api_state \<Rightarrow> 'a answer \<times> kb_api_state" where
  "audited_end E u d action resourceType about code result s =
     (case result of
        (Inl e, h) \<Rightarrow> ((handleError e, Inl e), s\<lparr>ka_hub := h\<rparr>)
      | (Inr x, h) \<Rightarrow>
          ((code, Inr x),
           \<lparr>ka_hub = h,
            ka_audit = audit_from_context E u d action resourceType (fst (about x)) AuditOutcomeSuccess (snd (about x)) (ka_audit s)\<rparr>))"

definition plain_end :: "int \<Rightarrow> 'a result \<times> kb_hub_state \<Rightarrow> kb_api_state \<Rightarrow> 'a answer \<times> kb_api_state" where
  "plain_end code result s =
     (case result of
        (Inl e, h) \<Rightarrow> ((handleError e, Inl e), s\<lparr>ka_hub := h\<rparr>)
      | (Inr x, h) \<Rightarrow> ((code, Inr x), s\<lparr>ka_hub := h\<rparr>))"

definition map_billing :: "(billing_state \<Rightarrow> 'a result \<times> billing_state) \<Rightarrow> kb_hub_state \<Rightarrow> 'a result \<times> kb_hub_state" where
  "map_billing f h = (case f (kh_billing h) of (r, b) \<Rightarrow> (r, h\<lparr>kh_billing := b\<rparr>))"

section \<open>Snapshots and collections\<close>

definition ArchiveSnapshot_endpoint :: "env \<Rightarrow> hub_config \<Rightarrow> uuid \<Rightarrow> string \<Rightarrow> string \<Rightarrow> string \<Rightarrow> kb_api_state
    \<Rightarrow> kb_snapshot answer \<times> kb_api_state" where
  "ArchiveSnapshot_endpoint E C u d cid zid s =
     (case e_uuid_parse E cid of
        None \<Rightarrow> (bad_request ''invalid id'', s)
      | Some i \<Rightarrow>
          (case e_uuid_parse E zid of
             None \<Rightarrow> (bad_request ''invalid snapshot_id'', s)
           | Some z \<Rightarrow>
               audited_end E u d ''kb.snapshot.archived'' ''kb_snapshot''
                 (\<lambda>_. (e_uuid_str E z, [(''collection_id'', AStr (e_uuid_str E i))])) 200
                 (kb_ArchiveSnapshot E C u i z (ka_hub s)) s))"

definition RestoreSnapshot_endpoint :: "env \<Rightarrow> hub_config \<Rightarrow> uuid \<Rightarrow> string \<Rightarrow> string \<Rightarrow> string \<Rightarrow> kb_api_state
    \<Rightarrow> kb_snapshot answer \<times> kb_api_state" where
  "RestoreSnapshot_endpoint E C u d cid zid s =
     (case e_uuid_parse E cid of
        None \<Rightarrow> (bad_request ''invalid id'', s)
      | Some i \<Rightarrow>
          (case e_uuid_parse E zid of
             None \<Rightarrow> (bad_request ''invalid snapshot_id'', s)
           | Some z \<Rightarrow>
               audited_end E u d ''kb.snapshot.restored'' ''kb_snapshot''
                 (\<lambda>_. (e_uuid_str E z, [(''collection_id'', AStr (e_uuid_str E i))])) 200
                 (kb_RestoreSnapshot E C u i z (ka_hub s)) s))"

definition ReportCollection_endpoint :: "env \<Rightarrow> uuid \<Rightarrow> string \<Rightarrow> string \<Rightarrow> (string \<times> string) option \<Rightarrow> kb_api_state
    \<Rightarrow> kb_report answer \<times> kb_api_state" where
  "ReportCollection_endpoint E u d cid body s =
     (case e_uuid_parse E cid of
        None \<Rightarrow> (bad_request ''invalid id'', s)
      | Some i \<Rightarrow>
          (case body of
             None \<Rightarrow> (bad_request ''invalid body'', s)
           | Some (reason, detail) \<Rightarrow>
               audited_end E u d ''kb.collection.reported'' ''kb_collection''
                 (\<lambda>r. (e_uuid_str E i, [(''reason'', AStr (km_reason r)), (''report_id'', AStr (e_uuid_str E (km_id r)))])) 201
                 (ReportCollection E u i reason detail (ka_hub s)) s))"

definition UpdateCollectionPricing_endpoint :: "env \<Rightarrow> hub_config \<Rightarrow> uuid \<Rightarrow> string \<Rightarrow> pricing_input option \<Rightarrow> kb_api_state
    \<Rightarrow> kb_collection answer \<times> kb_api_state" where
  "UpdateCollectionPricing_endpoint E C u cid body s =
     (case e_uuid_parse E cid of
        None \<Rightarrow> (bad_request ''invalid id'', s)
      | Some i \<Rightarrow>
          (case body of
             None \<Rightarrow> (bad_request ''invalid body'', s)
           | Some input \<Rightarrow> plain_end 200 (UpdateCollectionPricing E C u i input (ka_hub s)) s))"

definition AdminReviewCollection :: "env \<Rightarrow> hub_config \<Rightarrow> uuid \<Rightarrow> string \<Rightarrow> string \<Rightarrow> (string \<times> string) option \<Rightarrow> kb_api_state
    \<Rightarrow> kb_collection answer \<times> kb_api_state" where
  "AdminReviewCollection E C u d cid body s =
     (case e_uuid_parse E cid of
        None \<Rightarrow> (bad_request ''invalid id'', s)
      | Some i \<Rightarrow>
          (case body of
             None \<Rightarrow> (bad_request ''invalid body'', s)
           | Some (status, reason) \<Rightarrow>
               audited_end E u d ''kb.collection.reviewed'' ''kb_collection''
                 (\<lambda>c. (e_uuid_str E i, [(''review_status'', AStr (kc_review_status c)), (''reason'', AStr reason)])) 200
                 (ReviewCollection E C u i status reason (ka_hub s)) s))"

definition AdminResolveModerationReport :: "env \<Rightarrow> uuid \<Rightarrow> string \<Rightarrow> (string \<times> string) option \<Rightarrow> kb_api_state
    \<Rightarrow> kb_report answer \<times> kb_api_state" where
  "AdminResolveModerationReport E u rid body s =
     (case e_uuid_parse E rid of
        None \<Rightarrow> (bad_request ''invalid report_id'', s)
      | Some i \<Rightarrow>
          (case body of
             None \<Rightarrow> (bad_request ''invalid body'', s)
           | Some (status, resolution) \<Rightarrow> plain_end 200 (ResolveModerationReport E u i status resolution (ka_hub s)) s))"

definition AdminExpireSubscriptions :: "env \<Rightarrow> uuid \<Rightarrow> string \<Rightarrow> kb_api_state \<Rightarrow> nat answer \<times> kb_api_state" where
  "AdminExpireSubscriptions E u d s =
     (case kb_ExpireSubscriptions E (e_now E) (ka_hub s) of
        (Inl e, h) \<Rightarrow> ((500, Inl e), s\<lparr>ka_hub := h\<rparr>)
      | (Inr n, h) \<Rightarrow>
          ((200, Inr n),
           \<lparr>ka_hub = h,
            ka_audit = audit_from_context E u d ''kb.subscriptions.expired'' ''kb_subscription'' ''expired'' AuditOutcomeSuccess
              [(''expired'', AInt (int n))] (ka_audit s)\<rparr>))"

section \<open>Billing\<close>

definition RequestBillingRefund :: "env \<Rightarrow> uuid \<Rightarrow> string \<Rightarrow> (uuid \<times> int \<times> string) option \<Rightarrow> kb_api_state
    \<Rightarrow> kb_refund answer \<times> kb_api_state" where
  "RequestBillingRefund E u d body s =
     (case body of
        None \<Rightarrow> (bad_request ''invalid body'', s)
      | Some (invoiceID, amount, reason) \<Rightarrow>
          audited_end E u d ''kb.refund.requested'' ''kb_refund''
            (\<lambda>r. (e_uuid_str E (br_id r), [(''invoice_id'', AStr (e_uuid_str E (br_invoice_id r))), (''amount'', AInt (br_amount r))])) 201
            (map_billing (RequestRefund E u invoiceID amount reason) (ka_hub s)) s)"

definition OpenBillingDispute :: "env \<Rightarrow> uuid \<Rightarrow> string \<Rightarrow> (uuid \<times> string \<times> string) option \<Rightarrow> kb_api_state
    \<Rightarrow> kb_dispute answer \<times> kb_api_state" where
  "OpenBillingDispute E u d body s =
     (case body of
        None \<Rightarrow> (bad_request ''invalid body'', s)
      | Some (invoiceID, reason, detail) \<Rightarrow>
          audited_end E u d ''kb.billing_dispute.opened'' ''kb_billing_dispute''
            (\<lambda>r. (e_uuid_str E (bd_id r), [(''invoice_id'', AStr (e_uuid_str E (bd_invoice_id r))), (''reason'', AStr (bd_reason r))])) 201
            (map_billing (OpenDispute E u invoiceID reason detail) (ka_hub s)) s)"

definition AdminCreateBillingInvoice :: "env \<Rightarrow> uuid \<Rightarrow> string \<Rightarrow> invoice_input option \<Rightarrow> kb_api_state
    \<Rightarrow> (kb_invoice \<times> invoice_item list) answer \<times> kb_api_state" where
  "AdminCreateBillingInvoice E u d body s =
     (case body of
        None \<Rightarrow> (bad_request ''invalid body'', s)
      | Some input \<Rightarrow>
          audited_end E u d ''kb.invoice.issued'' ''kb_invoice''
            (\<lambda>(v, _). (e_uuid_str E (bi_id v), [(''user_id'', AStr (e_uuid_str E (bi_user_id v))), (''total'', AInt (bi_total v))])) 201
            (map_billing (CreateInvoice E input) (ka_hub s)) s)"

definition AdminMarkInvoicePaid :: "env \<Rightarrow> uuid \<Rightarrow> string \<Rightarrow> string \<Rightarrow> kb_api_state \<Rightarrow> kb_invoice answer \<times> kb_api_state" where
  "AdminMarkInvoicePaid E u d vid s =
     (case e_uuid_parse E vid of
        None \<Rightarrow> (bad_request ''invalid invoice_id'', s)
      | Some i \<Rightarrow>
          audited_end E u d ''kb.invoice.paid'' ''kb_invoice''
            (\<lambda>v. (e_uuid_str E (bi_id v), [(''total'', AInt (bi_total v))])) 200
            (map_billing (MarkInvoicePaid E i) (ka_hub s)) s)"

definition AdminResolveRefund :: "env \<Rightarrow> uuid \<Rightarrow> string \<Rightarrow> string \<Rightarrow> string option \<Rightarrow> kb_api_state \<Rightarrow> kb_refund answer \<times> kb_api_state" where
  "AdminResolveRefund E u d rid body s =
     (case e_uuid_parse E rid of
        None \<Rightarrow> (bad_request ''invalid refund_id'', s)
      | Some i \<Rightarrow>
          (case body of
             None \<Rightarrow> (bad_request ''invalid body'', s)
           | Some status \<Rightarrow>
               audited_end E u d ''kb.refund.resolved'' ''kb_refund''
                 (\<lambda>r. (e_uuid_str E (br_id r), [(''status'', AStr (br_status r))])) 200
                 (map_billing (ResolveRefund E u i status) (ka_hub s)) s))"

definition AdminResolveDispute :: "env \<Rightarrow> uuid \<Rightarrow> string \<Rightarrow> string \<Rightarrow> (string \<times> string) option \<Rightarrow> kb_api_state
    \<Rightarrow> kb_dispute answer \<times> kb_api_state" where
  "AdminResolveDispute E u d did body s =
     (case e_uuid_parse E did of
        None \<Rightarrow> (bad_request ''invalid dispute_id'', s)
      | Some i \<Rightarrow>
          (case body of
             None \<Rightarrow> (bad_request ''invalid body'', s)
           | Some (status, resolution) \<Rightarrow>
               audited_end E u d ''kb.billing_dispute.resolved'' ''kb_billing_dispute''
                 (\<lambda>r. (e_uuid_str E (bd_id r), [(''status'', AStr (bd_status r))])) 200
                 (map_billing (ResolveDispute E u i status resolution) (ka_hub s)) s))"

definition AdminMarkPayoutPaid :: "env \<Rightarrow> uuid \<Rightarrow> string \<Rightarrow> string \<Rightarrow> kb_api_state \<Rightarrow> payout_period answer \<times> kb_api_state" where
  "AdminMarkPayoutPaid E u d pid s =
     (case e_uuid_parse E pid of
        None \<Rightarrow> (bad_request ''invalid payout_id'', s)
      | Some i \<Rightarrow>
          audited_end E u d ''kb.payout.paid'' ''contributor_payout_period''
            (\<lambda>p. (e_uuid_str E (po_id p), [(''period'', AStr (po_period p)), (''net_amount'', AInt (po_net p))])) 200
            (map_billing (MarkPayoutPaid E i) (ka_hub s)) s)"

end
