(* ===== verification/KBApiProps.thy ===== *)
theory KBApiProps
  imports KBApi AuditProps "HOL-Library.Sublist"
begin

text \<open>
  The trail of the knowledge hub: what the audit log says of a run of requests is what the requests were answered,
  in the same order, short of recordings that failed. And what happens without a trace.
\<close>

section \<open>Runs of requests\<close>

datatype kb_call =
    CArchive hub_config string string
  | CRestore hub_config string string
  | CReport string "(string \<times> string) option"
  | CPrice hub_config string "pricing_input option"
  | CReview hub_config string "(string \<times> string) option"
  | CResolveReport string "(string \<times> string) option"
  | CExpire
  | CRefund "(uuid \<times> int \<times> string) option"
  | CDispute "(uuid \<times> string \<times> string) option"
  | CInvoice "invoice_input option"
  | CInvoicePaid string
  | CResolveRefund string "string option"
  | CResolveDispute string "(string \<times> string) option"
  | CPayoutPaid string

text \<open>The status of the answer and the state after the request of user \<open>u\<close> from device \<open>d\<close>.\<close>

definition status_of :: "'a answer \<times> kb_api_state \<Rightarrow> int \<times> kb_api_state" where
  "status_of p = (fst (fst p), snd p)"

fun kb_serve_call :: "env \<Rightarrow> uuid \<Rightarrow> string \<Rightarrow> kb_call \<Rightarrow> kb_api_state \<Rightarrow> int \<times> kb_api_state" where
  "kb_serve_call E u d (CArchive C i z) s = status_of (ArchiveSnapshot_endpoint E C u d i z s)"
| "kb_serve_call E u d (CRestore C i z) s = status_of (RestoreSnapshot_endpoint E C u d i z s)"
| "kb_serve_call E u d (CReport i b) s = status_of (ReportCollection_endpoint E u d i b s)"
| "kb_serve_call E u d (CPrice C i b) s = status_of (UpdateCollectionPricing_endpoint E C u i b s)"
| "kb_serve_call E u d (CReview C i b) s = status_of (AdminReviewCollection E C u d i b s)"
| "kb_serve_call E u d (CResolveReport i b) s = status_of (AdminResolveModerationReport E u i b s)"
| "kb_serve_call E u d CExpire s = status_of (AdminExpireSubscriptions E u d s)"
| "kb_serve_call E u d (CRefund b) s = status_of (RequestBillingRefund E u d b s)"
| "kb_serve_call E u d (CDispute b) s = status_of (OpenBillingDispute E u d b s)"
| "kb_serve_call E u d (CInvoice b) s = status_of (AdminCreateBillingInvoice E u d b s)"
| "kb_serve_call E u d (CInvoicePaid i) s = status_of (AdminMarkInvoicePaid E u d i s)"
| "kb_serve_call E u d (CResolveRefund i b) s = status_of (AdminResolveRefund E u d i b s)"
| "kb_serve_call E u d (CResolveDispute i b) s = status_of (AdminResolveDispute E u d i b s)"
| "kb_serve_call E u d (CPayoutPaid i) s = status_of (AdminMarkPayoutPaid E u d i s)"

text \<open>The action under which a request is to be found in the log.\<close>

fun call_action :: "kb_call \<Rightarrow> string option" where
  "call_action (CArchive C i z) = Some ''kb.snapshot.archived''"
| "call_action (CRestore C i z) = Some ''kb.snapshot.restored''"
| "call_action (CReport i b) = Some ''kb.collection.reported''"
| "call_action (CPrice C i b) = None"
| "call_action (CReview C i b) = Some ''kb.collection.reviewed''"
| "call_action (CResolveReport i b) = None"
| "call_action CExpire = Some ''kb.subscriptions.expired''"
| "call_action (CRefund b) = Some ''kb.refund.requested''"
| "call_action (CDispute b) = Some ''kb.billing_dispute.opened''"
| "call_action (CInvoice b) = Some ''kb.invoice.issued''"
| "call_action (CInvoicePaid i) = Some ''kb.invoice.paid''"
| "call_action (CResolveRefund i b) = Some ''kb.refund.resolved''"
| "call_action (CResolveDispute i b) = Some ''kb.billing_dispute.resolved''"
| "call_action (CPayoutPaid i) = Some ''kb.payout.paid''"

text \<open>A line of the trail: who did what, with which outcome, when.\<close>

type_synonym trail_line = "uuid option \<times> string \<times> string"

definition trail :: "audit_state \<Rightarrow> trail_line list" where
  "trail a = map (\<lambda>e. (ae_actor_user_id e, ae_action e, ae_outcome e)) a"

definition due_line :: "uuid \<Rightarrow> kb_call \<Rightarrow> int \<Rightarrow> trail_line list" where
  "due_line u q status =
     (if status \<ge> 300 then [] else case call_action q of None \<Rightarrow> [] | Some a \<Rightarrow> [(Some u, a, ''success'')])"

text \<open>A run and the lines that its answers make due.\<close>

fun kb_run :: "(env \<times> uuid \<times> string \<times> kb_call) list \<Rightarrow> kb_api_state \<Rightarrow> trail_line list \<times> kb_api_state" where
  "kb_run [] s = ([], s)"
| "kb_run ((E, u, d, q) # qs) s =
     (case kb_serve_call E u d q s of
        (status, s1) \<Rightarrow> (case kb_run qs s1 of (due, s2) \<Rightarrow> (due_line u q status @ due, s2)))"

section \<open>One recording\<close>

text \<open>The recording of a request can succeed: the database takes it and an event can be written as JSON.\<close>

definition audit_up :: "env \<Rightarrow> bool" where
  "audit_up E \<longleftrightarrow> \<not> e_db E ''AppendHashChained.last'' 0 \<and> \<not> e_db E ''AppendHashChained.create'' 0 \<and> (\<forall>m. \<exists>t. e_json E m = Inr t)"

definition audit_id :: "env \<Rightarrow> uuid" where
  "audit_id E = e_uuid E ''audit_events'' 0"

lemma next_sequence_is_new:
  assumes "first_by (\<lambda>e. (- ae_sequence e, ae_id e)) (\<lambda>_. True) a = Some p" and "x \<in> set a"
  shows "ae_sequence x < ae_sequence p + 1"
  using first_by_least [OF assms TrueI] by (auto simp: less_eq_prod_def)

definition line_of :: "audit_event \<Rightarrow> trail_line" where
  "line_of e = (ae_actor_user_id e, ae_action e, ae_outcome e)"

lemma trail_simps [simp]: "trail [] = []" "trail (a @ b) = trail a @ trail b" "trail (e # a) = line_of e # trail a"
  by (simp_all add: trail_def line_of_def)

lemma audit_prepare_Inr:
  "audit_prepare E ev p n = Inr ev' \<Longrightarrow> line_of ev' = line_of ev \<and> ae_id ev' = ae_id ev \<and> ae_sequence ev' = n"
  by (auto simp: audit_prepare_def line_of_def Let_def split: sum.splits)

lemma append_prepared_Inr:
  assumes "append_prepared E k (audit_prepare E ev) p n a = Inr (ev', a')"
  shows "\<exists>e. a' = a @ [e] \<and> line_of e = line_of ev \<and> ae_id e = ae_id ev"
proof -
  from assms have p: "audit_prepare E ev p n = Inr ev'"
    and i: "a' = a @ [ev'\<lparr>ae_occurred_at := e_db_time E (ae_occurred_at ev')\<rparr>]"
    by (auto simp: append_prepared_def audit_insert_def db_insert_def split: sum.splits if_splits)
  from audit_prepare_Inr [OF p] i show ?thesis by (auto simp: line_of_def)
qed

lemma append_prepared_up:
  assumes "audit_up E" and "ae_outcome ev = ''success''" and "ae_id ev \<notin> ae_id ` set a" and "\<And>x. x \<in> set a \<Longrightarrow> ae_sequence x < n"
  shows "\<exists>r. append_prepared E 0 (audit_prepare E ev) p n a = Inr r"
proof -
  have "e_json E m \<noteq> Inl err" for m err
    using assms(1) by (metis audit_up_def Inl_Inr_False)
  then have "audit_prepare E ev p n \<noteq> Inl err" for err
    by (simp add: audit_prepare_def computeAuditEventHash_def Let_def split: sum.splits)
  then obtain ev' where e: "audit_prepare E ev p n = Inr ev'" by (cases "audit_prepare E ev p n") auto
  have "\<not> ae_clash (ev'\<lparr>ae_occurred_at := t\<rparr>) x" if "x \<in> set a" for x t
  proof -
    have "ae_id x \<noteq> ae_id ev" using assms(3) that by (metis imageI)
    with audit_prepare_Inr [OF e] assms(4) [OF that] show ?thesis by (simp add: ae_clash_def)
  qed
  moreover have "ae_outcome ev' = ''success''" using audit_prepare_Inr [OF e] assms(2) by (simp add: line_of_def)
  ultimately show ?thesis
    using assms(1) by (auto simp: append_prepared_def e audit_insert_def audit_up_def db_insert_def list_ex_iff)
qed

lemma AppendHashChained_Inr:
  "AppendHashChained E k (audit_prepare E ev) a = Inr (ev', a') \<Longrightarrow> \<exists>e. a' = a @ [e] \<and> line_of e = line_of ev \<and> ae_id e = ae_id ev"
  by (auto simp: AppendHashChained_def Let_def split: sum.splits if_splits dest!: append_prepared_Inr)

lemma AppendHashChained_up:
  assumes "audit_up E" and "ae_outcome ev = ''success''" and "ae_id ev \<notin> ae_id ` set a"
  shows "\<exists>r. AppendHashChained E 0 (audit_prepare E ev) a = Inr r"
proof (cases "first_by (\<lambda>e. (- ae_sequence e, ae_id e)) (\<lambda>_. True) a")
  case None
  then have "a = []" by (simp add: first_by_None)
  with None append_prepared_up [OF assms(1,2), of "[]" 1 None] assms(1) show ?thesis
    by (simp add: AppendHashChained_def db_first_def audit_up_def)
next
  case (Some p)
  with append_prepared_up [OF assms next_sequence_is_new [OF Some], of "Some p"] assms(1) show ?thesis
    by (simp add: AppendHashChained_def db_first_def audit_up_def)
qed

lemma audit_from_context_appends:
  assumes "trim action \<noteq> ''''" and "trim ty \<noteq> ''''"
  shows "(\<exists>e. audit_from_context E u d action ty i ''success'' meta a = a @ [e] \<and> ae_id e = audit_id E
          \<and> line_of e = (Some u, trim action, ''success''))
    \<or> audit_from_context E u d action ty i ''success'' meta a = a \<and> \<not> (audit_up E \<and> audit_id E \<notin> ae_id ` set a)"
proof -
  have t: "trim ''success'' = ''success''" by code_simp
  define ev where "ev = \<lparr>ae_id = audit_id E, ae_actor_user_id = Some u, ae_actor_device_id = trim d, ae_action = trim action,
     ae_resource_type = trim ty, ae_resource_id = trim i, ae_outcome = ''success'', ae_ip_address = trim (e_client_ip E),
     ae_user_agent = trim (e_user_agent E), ae_metadata = meta, ae_occurred_at = e_now E, ae_sequence = 0,
     ae_previous_hash = '''', ae_event_hash = '''', ae_hash_algorithm = ''''\<rparr>"
  have r: "audit_from_context E u d action ty i ''success'' meta a
      = (case AppendHashChained E 0 (audit_prepare E ev) a of Inl e \<Rightarrow> a | Inr (ev, a') \<Rightarrow> a')"
    using assms t by (simp add: audit_from_context_def Record_audit_def Let_def ev_def audit_id_def split: sum.splits prod.splits)
  have l: "line_of ev = (Some u, trim action, ''success'')" "ae_id ev = audit_id E" "ae_outcome ev = ''success''"
    by (simp_all add: ev_def line_of_def)
  show ?thesis
  proof (cases "AppendHashChained E 0 (audit_prepare E ev) a")
    case (Inl e)
    with AppendHashChained_up [of E ev a] l r show ?thesis by auto
  next
    case (Inr q)
    then show ?thesis using AppendHashChained_Inr [of E 0 ev a "fst q" "snd q"] l r by (auto split: prod.splits)
  qed
qed

section \<open>One request\<close>

text \<open>How a request ends: nothing is recorded and nothing is due, or one line is due and recorded unless the
  recording fails.\<close>

definition ends_well :: "env \<Rightarrow> uuid \<Rightarrow> string option \<Rightarrow> int \<times> kb_api_state \<Rightarrow> kb_api_state \<Rightarrow> bool" where
  "ends_well E u action p s \<longleftrightarrow>
     ((fst p \<ge> 300 \<or> action = None) \<and> ka_audit (snd p) = ka_audit s)
     \<or> (fst p < 300 \<and> (\<exists>a. action = Some a \<and>
         ((\<exists>e. ka_audit (snd p) = ka_audit s @ [e] \<and> ae_id e = audit_id E \<and> line_of e = (Some u, a, ''success''))
          \<or> ka_audit (snd p) = ka_audit s \<and> \<not> (audit_up E \<and> audit_id E \<notin> ae_id ` set (ka_audit s)))))"

lemma handleError_refuses: "handleError e \<ge> 300"
  by (simp add: handleError_def governance_status_def)

lemma bad_request_ends [simp]: "ends_well E u action (status_of (bad_request msg, s)) s"
  by (simp add: ends_well_def status_of_def bad_request_def)

lemma audited_end_ends:
  assumes "trim action = action" and "action \<noteq> ''''" and "trim ty \<noteq> ''''" and "code < 300"
  shows "ends_well E u (Some action) (status_of (audited_end E u d action ty about code p s)) s"
proof -
  obtain r h where p: "p = (r, h)" by fastforce
  show ?thesis
  proof (cases r)
    case (Inl e)
    then show ?thesis using handleError_refuses [of e] by (simp add: p ends_well_def status_of_def audited_end_def)
  next
    case (Inr x)
    then show ?thesis
      using audit_from_context_appends [of action ty E u d "fst (about x)" "snd (about x)" "ka_audit s"] assms
      by (simp add: p ends_well_def status_of_def audited_end_def)
  qed
qed

lemma plain_end_ends [simp]: "ends_well E u None (status_of (plain_end code p s)) s"
  by (auto simp: ends_well_def status_of_def plain_end_def split: prod.splits sum.splits)

lemma expire_ends: "ends_well E u (Some ''kb.subscriptions.expired'') (status_of (AdminExpireSubscriptions E u d s)) s"
proof -
  obtain r h where p: "kb_ExpireSubscriptions E (e_now E) (ka_hub s) = (r, h)" by fastforce
  have t: "trim ''kb.subscriptions.expired'' = ''kb.subscriptions.expired''" "trim ''kb_subscription'' \<noteq> ''''"
    by code_simp+
  show ?thesis
    using audit_from_context_appends [of "''kb.subscriptions.expired''" "''kb_subscription''" E u d "''expired''" _ "ka_audit s"] t
    by (cases r) (simp_all add: AdminExpireSubscriptions_def p ends_well_def status_of_def)
qed

lemma actions_trimmed:
  "list_all (\<lambda>a. trim a = a \<and> a \<noteq> '''')
     [''kb.snapshot.archived'', ''kb.snapshot.restored'', ''kb.collection.reported'', ''kb.collection.reviewed'',
      ''kb.refund.requested'', ''kb.billing_dispute.opened'', ''kb.invoice.issued'', ''kb.invoice.paid'',
      ''kb.refund.resolved'', ''kb.billing_dispute.resolved'', ''kb.payout.paid'']"
  "list_all (\<lambda>a. trim a \<noteq> '''')
     [''kb_snapshot'', ''kb_collection'', ''kb_refund'', ''kb_billing_dispute'', ''kb_invoice'', ''contributor_payout_period'']"
  by code_simp+

lemmas endpoint_defs =
  ArchiveSnapshot_endpoint_def RestoreSnapshot_endpoint_def ReportCollection_endpoint_def UpdateCollectionPricing_endpoint_def
  AdminReviewCollection_def AdminResolveModerationReport_def RequestBillingRefund_def OpenBillingDispute_def
  AdminCreateBillingInvoice_def AdminMarkInvoicePaid_def AdminResolveRefund_def AdminResolveDispute_def AdminMarkPayoutPaid_def

lemma kb_serve_call_ends: "ends_well E u (call_action q) (kb_serve_call E u d q s) s"
proof (cases q)
  case CExpire
  then show ?thesis by (simp add: expire_ends)
qed (use actions_trimmed in \<open>auto simp: endpoint_defs intro!: audited_end_ends split: option.splits prod.splits\<close>)

section \<open>Runs\<close>

lemma ends_well_line:
  assumes "ends_well E u (call_action q) (status, s') s"
  shows "\<exists>ls. trail (ka_audit s') = trail (ka_audit s) @ ls \<and> subseq ls (due_line u q status)
    \<and> (audit_up E \<and> audit_id E \<notin> ae_id ` set (ka_audit s) \<longrightarrow> ls = due_line u q status)
    \<and> ae_id ` set (ka_audit s') \<subseteq> insert (audit_id E) (ae_id ` set (ka_audit s))"
proof (cases "ka_audit s' = ka_audit s")
  case True
  with assms show ?thesis
    by (intro exI [of _ "[]"]) (auto simp: ends_well_def due_line_def split: option.splits)
next
  case False
  with assms obtain e a where "status < 300" "call_action q = Some a" "ka_audit s' = ka_audit s @ [e]"
    "ae_id e = audit_id E" "line_of e = (Some u, a, ''success'')"
    by (auto simp: ends_well_def)
  then show ?thesis by (intro exI [of _ "due_line u q status"]) (auto simp: due_line_def)
qed

definition recorded_properly :: "(env \<times> uuid \<times> string \<times> kb_call) list \<Rightarrow> kb_api_state \<Rightarrow> bool" where
  "recorded_properly qs s \<longleftrightarrow> list_all (audit_up \<circ> fst) qs \<and> distinct (map (audit_id \<circ> fst) qs)
     \<and> (\<forall>q\<in>set qs. audit_id (fst q) \<notin> ae_id ` set (ka_audit s))"

text \<open>
  C18: Of any run of requests to the knowledge hub the audit log tells what the requests were answered: the new lines
  of the log are, in order, lines of requests that were accepted, with the user who sent them; a refused request leaves
  none. And it tells of all of them, one line each, when the recordings themselves do not fail.
\<close>

theorem kb_trail_tells_what_was_answered:
  assumes "kb_run qs s = (due, s')"
  shows "\<exists>ls. trail (ka_audit s') = trail (ka_audit s) @ ls \<and> subseq ls due \<and> (recorded_properly qs s \<longrightarrow> ls = due)"
  using assms
proof (induction qs arbitrary: s due)
  case (Cons x qs)
  obtain E u d q where x: "x = (E, u, d, q)" by (cases x)
  obtain status s1 where c: "kb_serve_call E u d q s = (status, s1)" by fastforce
  obtain due' where r: "kb_run qs s1 = (due', s')" and due: "due = due_line u q status @ due'"
    using Cons.prems by (auto simp: x c split: prod.splits)
  from kb_serve_call_ends [of E u q d s] have w: "ends_well E u (call_action q) (status, s1) s" by (simp add: c)
  from ends_well_line [OF w] obtain ls where ls: "trail (ka_audit s1) = trail (ka_audit s) @ ls" "subseq ls (due_line u q status)"
    "audit_up E \<and> audit_id E \<notin> ae_id ` set (ka_audit s) \<longrightarrow> ls = due_line u q status"
    "ae_id ` set (ka_audit s1) \<subseteq> insert (audit_id E) (ae_id ` set (ka_audit s))" by blast
  from Cons.IH [OF r] obtain ms where ms: "trail (ka_audit s') = trail (ka_audit s1) @ ms" "subseq ms due'"
    "recorded_properly qs s1 \<longrightarrow> ms = due'" by blast
  have "recorded_properly qs s1 \<and> ls = due_line u q status" if p: "recorded_properly (x # qs) s"
  proof
    have "audit_id (fst y) \<notin> ae_id ` set (ka_audit s1)" if "y \<in> set qs" for y
    proof -
      from p that have "audit_id (fst y) \<noteq> audit_id E" "audit_id (fst y) \<notin> ae_id ` set (ka_audit s)"
        by (force simp: recorded_properly_def x)+
      with ls(4) show ?thesis by blast
    qed
    with p show "recorded_properly qs s1" by (simp add: recorded_properly_def)
    from p show "ls = due_line u q status" by (intro ls(3) [rule_format]) (simp add: recorded_properly_def x)
  qed
  with ls ms show ?case by (intro exI [of _ "ls @ ms"]) (auto simp: due intro: list_emb_append_mono)
qed simp

section \<open>Examples\<close>

text \<open>An administrator issues an invoice and marks it as paid, then names an invoice that is none.\<close>

definition parsing :: "nat \<Rightarrow> env" where
  "parsing k = (env_at k)\<lparr>e_uuid_parse := \<lambda>t. if t = ''2000'' then Some 2000 else if t = ''7'' then Some 7 else None\<rparr>"

definition demo_bill :: invoice_input where
  "demo_bill = \<lparr>vi_user_id = 5, vi_collection_id = None, vi_subscription_id = None, vi_currency = ''CNY'',
     vi_period_start = None, vi_period_end = None,
     vi_items = [\<lparr>jn_usage_record_id = None, jn_description = ''month'', jn_quantity = 1, jn_unit_price = 12, jn_amount = 0,
                  jn_metadata = None\<rparr>], vi_metadata = None\<rparr>"

definition kb_api_init :: kb_api_state where
  "kb_api_init = \<lparr>ka_hub = kb_hub_init, ka_audit = []\<rparr>"

definition demo_calls :: "(env \<times> uuid \<times> string \<times> kb_call) list" where
  "demo_calls = [(parsing 1, 9, ''desk'', CInvoice (Some demo_bill)), (parsing 2, 9, ''desk'', CInvoicePaid ''2000''),
     (parsing 3, 9, ''desk'', CInvoicePaid ''x'')]"

lemma demo_calls_due:
  "fst (kb_run demo_calls kb_api_init) = [(Some 9, ''kb.invoice.issued'', ''success''), (Some 9, ''kb.invoice.paid'', ''success'')]"
  by code_simp

lemma demo_calls_recorded: "recorded_properly demo_calls kb_api_init"
  by (simp add: recorded_properly_def demo_calls_def audit_up_def audit_id_def parsing_def env_at_def env0_def kb_api_init_def)

theorem kb_trail_tells_what_was_answered_witness:
  "trail (ka_audit (snd (kb_run demo_calls kb_api_init)))
     = [(Some 9, ''kb.invoice.issued'', ''success''), (Some 9, ''kb.invoice.paid'', ''success'')]"
proof -
  have "trail (ka_audit kb_api_init) = []" by (simp add: kb_api_init_def)
  with kb_trail_tells_what_was_answered [of demo_calls kb_api_init, OF surjective_pairing] demo_calls_recorded demo_calls_due
  show ?thesis by auto
qed

definition failing :: "string \<Rightarrow> env" where
  "failing op = (parsing 2)\<lparr>e_db := \<lambda>op' n. op' = op\<rparr>"

text \<open>
  An operation can be done and leave no trace: when the log cannot be written the invoice is paid all the same, and when
  only the row cannot be read back the administrator is told of a failure. An invoice that does not exist is answered with
  status 500.
\<close>

theorem paid_without_a_trace:
  "let s = snd (kb_serve_call (parsing 1) 9 ''desk'' (CInvoice (Some demo_bill)) kb_api_init);
       ends = (\<lambda>p. (fst p, map bi_status (bs_invoices (kh_billing (ka_hub (snd p)))), length (ka_audit (snd p))))
   in ends (kb_serve_call (failing ''AppendHashChained.create'') 9 ''desk'' (CInvoicePaid ''2000'') s) = (200, [''paid''], 1)
      \<and> ends (kb_serve_call (failing ''GetInvoice'') 9 ''desk'' (CInvoicePaid ''2000'') s) = (500, [''paid''], 1)
      \<and> ends (kb_serve_call (parsing 2) 9 ''desk'' (CInvoicePaid ''7'') s) = (500, [''issued''], 1)"
  by code_simp

end
