(* ===== verification/GovernanceSummary.thy ===== *)
theory GovernanceSummary
  imports Governance "HOL-Library.Multiset"
begin

text \<open>
  The dashboard of the governance plane (\<open>Summary\<close> of \<open>internal/service/governance.go\<close> over the three
  count queries of \<open>internal/repository/governance_repo.go\<close>), and what its numbers add up to.
\<close>

section \<open>Counting by a column\<close>

record count_row =
  ct_key :: string
  ct_count :: nat

text \<open>\<open>SELECT key, count(*) ... GROUP BY g ORDER BY count DESC\<close>: one row for each value of \<open>g\<close> that
  occurs, showing the column \<open>key\<close>. Rows with the same count keep the order of the table.\<close>

definition group_rows :: "('r \<Rightarrow> 'g) \<Rightarrow> ('g \<Rightarrow> string) \<Rightarrow> 'r list \<Rightarrow> count_row list" where
  "group_rows g key t =
     sort_key (\<lambda>r. - int (ct_count r))
       (map (\<lambda>v. \<lparr>ct_key = key v, ct_count = count_where (\<lambda>x. g x = v) t\<rparr>) (remdups (map g t)))"

section \<open>Repository\<close>

text \<open>
  The two grouped queries are built on the same \<open>db\<close>, which a chain method returned and which therefore is
  not a fresh session: gorm documents that such a value accumulates what is chained to it. The first query groups
  by the decision; the second adds the risk to that, so it groups by both and shows the risk.
\<close>

definition CountPolicyDecisionsSince :: "env \<Rightarrow> time \<Rightarrow> gov_state \<Rightarrow> (nat \<times> count_row list \<times> count_row list) result" where
  "CountPolicyDecisionsSince E since s =
     (let t = filter (\<lambda>d. since \<le> pd_decided_at d) (gs_decisions s) in
      if e_db E ''CountPolicyDecisionsSince'' 0 \<or> e_db E ''CountPolicyDecisionsSince'' 1 \<or> e_db E ''CountPolicyDecisionsSince'' 2
      then Inl (ErrDB ''CountPolicyDecisionsSince'')
      else Inr (length t, group_rows pd_decision (\<lambda>v. v) t, group_rows (\<lambda>d. (pd_decision d, pd_risk_level d)) snd t))"

definition CountApprovalReceiptsSince :: "env \<Rightarrow> time \<Rightarrow> gov_state \<Rightarrow> (nat \<times> count_row list) result" where
  "CountApprovalReceiptsSince E since s =
     (let t = filter (\<lambda>r. since \<le> rc_created_at r) (gs_receipts s) in
      if e_db E ''CountApprovalReceiptsSince'' 0 \<or> e_db E ''CountApprovalReceiptsSince'' 1
      then Inl (ErrDB ''CountApprovalReceiptsSince'')
      else Inr (length t, group_rows rc_status (\<lambda>v. v) t))"

definition CountOpenScanResults :: "env \<Rightarrow> gov_state \<Rightarrow> (nat \<times> count_row list) result" where
  "CountOpenScanResults E s =
     (let t = filter (\<lambda>r. sr_status r = ''open'') (gs_scans s) in
      if e_db E ''CountOpenScanResults'' 0 \<or> e_db E ''CountOpenScanResults'' 1
      then Inl (ErrDB ''CountOpenScanResults'')
      else Inr (length t, group_rows sr_severity (\<lambda>v. v) t))"

section \<open>Service\<close>

record governance_summary =
  gy_window_hours :: int
  gy_since :: time
  gy_decision_total :: nat
  gy_by_decision :: "count_row list"
  gy_by_risk :: "count_row list"
  gy_receipt_total :: nat
  gy_by_status :: "count_row list"
  gy_open_scan_total :: nat
  gy_by_severity :: "count_row list"

definition window_hours :: "int \<Rightarrow> int" where
  "window_hours h = (if h \<le> 0 \<or> 720 < h then 24 else h)"

definition Summary :: "env \<Rightarrow> int \<Rightarrow> gov_state \<Rightarrow> governance_summary result" where
  "Summary E hours s =
     (let h = window_hours hours; since = e_now E - minutes (60 * h) in
      case CountPolicyDecisionsSince E since s of
        Inl e \<Rightarrow> Inl e
      | Inr (decisions, by_decision, by_risk) \<Rightarrow>
          (case CountApprovalReceiptsSince E since s of
             Inl e \<Rightarrow> Inl e
           | Inr (receipts, by_status) \<Rightarrow>
               (case CountOpenScanResults E s of
                  Inl e \<Rightarrow> Inl e
                | Inr (scans, by_severity) \<Rightarrow>
                    Inr \<lparr>gy_window_hours = h, gy_since = since, gy_decision_total = decisions,
                      gy_by_decision = by_decision, gy_by_risk = by_risk, gy_receipt_total = receipts,
                      gy_by_status = by_status, gy_open_scan_total = scans, gy_by_severity = by_severity\<rparr>)))"

section \<open>What it adds up to\<close>

lemma sum_counts: "sum_list (map (\<lambda>v. count_where (\<lambda>x. g x = v) t) vs) = count_where (\<lambda>x. g x \<in> set vs) t" if "distinct vs"
  using that
proof (induction vs)
  case (Cons v vs)
  have "count_where (\<lambda>x. g x = v) t + count_where (\<lambda>x. g x \<in> set vs) t = count_where (\<lambda>x. g x = v \<or> g x \<in> set vs) t"
    using Cons.prems by (induction t) (auto simp: count_where_Cons)
  with Cons show ?case by simp
qed simp

text \<open>The counts of the groups add up to the number of rows, and every group has one.\<close>

lemma group_rows_sum: "sum_list (map ct_count (group_rows g key t)) = length t"
proof -
  let ?rows = "map (\<lambda>v. \<lparr>ct_key = key v, ct_count = count_where (\<lambda>x. g x = v) t\<rparr>) (remdups (map g t))"
  have "mset (map ct_count (group_rows g key t)) = mset (map ct_count ?rows)"
    by (simp only: group_rows_def mset_map mset_sort)
  then have "sum_list (map ct_count (group_rows g key t)) = sum_list (map ct_count ?rows)"
    by (metis sum_mset_sum_list)
  also have "\<dots> = count_where (\<lambda>x. g x \<in> set (map g t)) t"
    using sum_counts [of "remdups (map g t)" g t] by (simp add: comp_def)
  also have "\<dots> = length t" by (simp add: count_where_def)
  finally show ?thesis .
qed

lemma group_rows_distinct: "distinct (map ct_key (group_rows g (\<lambda>v. v) t))"
proof -
  let ?rows = "map (\<lambda>v. \<lparr>ct_key = v, ct_count = count_where (\<lambda>x. g x = v) t\<rparr>) (remdups (map g t))"
  have "map ct_key ?rows = remdups (map g t)" by (simp add: comp_def)
  then have d: "distinct (map ct_key ?rows)" by (simp only: distinct_remdups)
  have "mset (map ct_key (group_rows g (\<lambda>v. v) t)) = mset (map ct_key ?rows)"
    by (simp only: group_rows_def mset_map mset_sort)
  from mset_eq_imp_distinct_iff [OF this] d show ?thesis by (simp only:)
qed

text \<open>
  The dashboard adds up: the window is between one hour and thirty days; the decisions, receipts and open scan
  results of each breakdown sum to their total, which counts the rows of the window; and no decision, status or
  severity has two rows.
\<close>

theorem summary_adds_up:
  assumes "Summary E hours s = Inr y"
  shows "1 \<le> gy_window_hours y \<and> gy_window_hours y \<le> 720
     \<and> gy_decision_total y = count_where (\<lambda>d. gy_since y \<le> pd_decided_at d) (gs_decisions s)
     \<and> sum_list (map ct_count (gy_by_decision y)) = gy_decision_total y
     \<and> sum_list (map ct_count (gy_by_risk y)) = gy_decision_total y
     \<and> sum_list (map ct_count (gy_by_status y)) = gy_receipt_total y
     \<and> sum_list (map ct_count (gy_by_severity y)) = gy_open_scan_total y
     \<and> distinct (map ct_key (gy_by_decision y)) \<and> distinct (map ct_key (gy_by_status y))
     \<and> distinct (map ct_key (gy_by_severity y))"
proof -
  obtain n ds rs m ss k vs where d: "CountPolicyDecisionsSince E (gy_since y) s = Inr (n, ds, rs)"
      and r: "CountApprovalReceiptsSince E (gy_since y) s = Inr (m, ss)" and o: "CountOpenScanResults E s = Inr (k, vs)"
      and y: "gy_decision_total y = n" "gy_by_decision y = ds" "gy_by_risk y = rs" "gy_receipt_total y = m" "gy_by_status y = ss"
        "gy_open_scan_total y = k" "gy_by_severity y = vs" "gy_window_hours y = window_hours hours"
    using assms by (auto simp: Summary_def Let_def split: sum.splits)
  let ?t = "filter (\<lambda>d. gy_since y \<le> pd_decided_at d) (gs_decisions s)"
  have "n = length ?t" "ds = group_rows pd_decision (\<lambda>v. v) ?t" "rs = group_rows (\<lambda>d. (pd_decision d, pd_risk_level d)) snd ?t"
    using d by (simp_all add: CountPolicyDecisionsSince_def Let_def split: if_splits)
  moreover have "ss = group_rows rc_status (\<lambda>v. v) (filter (\<lambda>r. gy_since y \<le> rc_created_at r) (gs_receipts s))"
      "m = length (filter (\<lambda>r. gy_since y \<le> rc_created_at r) (gs_receipts s))"
    using r by (simp_all add: CountApprovalReceiptsSince_def Let_def split: if_splits)
  moreover have "vs = group_rows sr_severity (\<lambda>v. v) (filter (\<lambda>r. sr_status r = ''open'') (gs_scans s))"
      "k = length (filter (\<lambda>r. sr_status r = ''open'') (gs_scans s))"
    using o by (simp_all add: CountOpenScanResults_def Let_def split: if_splits)
  ultimately show ?thesis
    by (simp only: y group_rows_sum group_rows_distinct count_where_def) (simp add: window_hours_def)
qed

text \<open>
  The breakdown by risk is one by decision and risk: with a low-risk operation allowed and another one denied the
  dashboard has two rows for the low risk, of one decision each.
\<close>

definition demo_evaluate :: "string \<Rightarrow> evaluate_input" where
  "demo_evaluate subject =
     \<lparr>ei_actor_user_id = Some 5, ei_actor_device_id = '''', ei_subject_type = ''plugin'', ei_subject_id = subject,
      ei_capability_key = ''x'', ei_risk_level = '''', ei_context = None\<rparr>"

definition demo_switch :: kill_switch_input where
  "demo_switch = \<lparr>ki_scope_type = ''plugin'', ki_scope_id = ''p2'', ki_reason = ''stop'', ki_status = '''',
     ki_expires_at = None, ki_created_by = Some 1, ki_metadata = None\<rparr>"

definition demo_decided :: gov_state where
  "demo_decided = snd (projr (Evaluate (env_at 3) (demo_evaluate ''p2'')
     (snd (projr (Evaluate (env_at 2) (demo_evaluate ''p1'') (snd (projr (CreateKillSwitch (env_at 1) demo_switch gov_init))))))))"

theorem risk_has_two_rows:
  "case Summary (env_at 4) 0 demo_decided of
     Inl e \<Rightarrow> False
   | Inr y \<Rightarrow> gy_decision_total y = 2 \<and> map (\<lambda>r. (ct_key r, ct_count r)) (gy_by_risk y) = [(''low'', 1), (''low'', 1)]"
  by code_simp

theorem summary_adds_up_witness:
  "\<exists>y. Summary (env_at 4) 0 demo_decided = Inr y \<and> sum_list (map ct_count (gy_by_risk y)) = gy_decision_total y"
proof -
  have "succeeds (Summary (env_at 4) 0 demo_decided)" by code_simp
  then obtain y where "Summary (env_at 4) 0 demo_decided = Inr y" by (rule succeedsE)
  with summary_adds_up [OF this] show ?thesis by blast
qed

end
