(* ===== verification/Background.thy ===== *)
theory Background
  imports Conversation Tokens KBAccess
begin

text \<open>
  The maintenance of the server (\<open>internal/service/background.go\<close>), the table of its runs
  (\<open>internal/repository/background_job_run_repo.go\<close>) and the administrator's view of it
  (\<open>internal/service/ops.go\<close>). The jobs call the message, sync, confirmation and knowledge services on their
  tables; the sync tables are those the conversations carry.
\<close>

section \<open>State and configuration\<close>

record job_run =
  jr_id :: uuid
  jr_created_at :: time
  jr_updated_at :: time
  jr_job_name :: string
  jr_trigger :: string
  jr_status :: string
  jr_started_at :: time
  jr_finished_at :: "time option"
  jr_duration_ms :: int
  jr_error_message :: string
  jr_metadata :: json_map

record ops_state =
  op_conv :: conv_state
  op_ids :: id_state
  op_hub :: kb_hub_state
  op_runs :: "job_run list"

definition ops_init :: ops_state where
  "ops_init = \<lparr>op_conv = conv_init, op_ids = id_init, op_hub = kb_hub_init, op_runs = []\<rparr>"

record background_config =
  bc_offline_interval :: int
  bc_sync_interval :: int
  bc_confirmation_interval :: int
  bc_subscription_interval :: int
  bc_worker_enabled :: bool
  bc_worker_interval :: int
  bc_run_on_start :: bool

definition DefaultBackgroundTasksConfig :: background_config where
  "DefaultBackgroundTasksConfig =
     \<lparr>bc_offline_interval = minutes 60, bc_sync_interval = minutes 360, bc_confirmation_interval = minutes 15,
      bc_subscription_interval = minutes 15, bc_worker_enabled = False, bc_worker_interval = seconds 2, bc_run_on_start = False\<rparr>"

definition normalizeBackgroundConfig :: "background_config \<Rightarrow> background_config" where
  "normalizeBackgroundConfig c =
     (let d = DefaultBackgroundTasksConfig; pick = (\<lambda>f. if f c \<le> 0 then f d else f c) in
      c\<lparr>bc_offline_interval := pick bc_offline_interval, bc_sync_interval := pick bc_sync_interval,
        bc_confirmation_interval := pick bc_confirmation_interval, bc_subscription_interval := pick bc_subscription_interval,
        bc_worker_interval := pick bc_worker_interval\<rparr>)"

text \<open>The services the runner was built with; a job without its service is not enabled.\<close>

record job_services =
  js_messages :: bool
  js_sync :: bool
  js_sensitive :: bool
  js_kb :: bool

definition all_services :: job_services where
  "all_services = \<lparr>js_messages = True, js_sync = True, js_sensitive = True, js_kb = True\<rparr>"

section \<open>Jobs\<close>

datatype job = OfflineMessageCleanup | SyncEventCleanup | SensitiveConfirmationCleanup | KBSubscriptionExpiry

fun job_name :: "job \<Rightarrow> string" where
  "job_name OfflineMessageCleanup = ''offline_message_cleanup''"
| "job_name SyncEventCleanup = ''sync_event_cleanup''"
| "job_name SensitiveConfirmationCleanup = ''sensitive_confirmation_cleanup''"
| "job_name KBSubscriptionExpiry = ''kb_subscription_expiry''"

record background_job =
  bj_job :: job
  bj_interval :: time
  bj_run_on_start :: bool
  bj_enabled :: bool

definition jobs :: "background_config \<Rightarrow> job_services \<Rightarrow> background_job list" where
  "jobs c v =
     [\<lparr>bj_job = OfflineMessageCleanup, bj_interval = bc_offline_interval c, bj_run_on_start = bc_run_on_start c, bj_enabled = js_messages v\<rparr>,
      \<lparr>bj_job = SyncEventCleanup, bj_interval = bc_sync_interval c, bj_run_on_start = bc_run_on_start c, bj_enabled = js_sync v\<rparr>,
      \<lparr>bj_job = SensitiveConfirmationCleanup, bj_interval = bc_confirmation_interval c, bj_run_on_start = bc_run_on_start c,
       bj_enabled = js_sensitive v\<rparr>,
      \<lparr>bj_job = KBSubscriptionExpiry, bj_interval = bc_subscription_interval c, bj_run_on_start = bc_run_on_start c, bj_enabled = js_kb v\<rparr>]"

text \<open>The body of a job: the error it returns, if any. The count of rows is only logged.\<close>

fun run_job :: "env \<Rightarrow> job \<Rightarrow> ops_state \<Rightarrow> error option \<times> ops_state" where
  "run_job E OfflineMessageCleanup s =
     (case CleanupExpiredOffline E 7 (op_conv s) of
        Inl e \<Rightarrow> (Some e, s) | Inr (n, v) \<Rightarrow> (None, s\<lparr>op_conv := v\<rparr>))"
| "run_job E SyncEventCleanup s =
     (case CleanupOldEvents E 30 (vs_sync (op_conv s)) of
        Inl e \<Rightarrow> (Some e, s) | Inr (n, y) \<Rightarrow> (None, s\<lparr>op_conv := (op_conv s)\<lparr>vs_sync := y\<rparr>\<rparr>))"
| "run_job E SensitiveConfirmationCleanup s =
     (case CleanupExpiredConfirmations E (Some (e_now E)) (op_ids s) of
        Inl e \<Rightarrow> (Some e, s) | Inr (n, i) \<Rightarrow> (None, s\<lparr>op_ids := i\<rparr>))"
| "run_job E KBSubscriptionExpiry s =
     (case kb_ExpireSubscriptions E (e_now E) (op_hub s) of
        (Inl e, h) \<Rightarrow> (Some e, s\<lparr>op_hub := h\<rparr>) | (Inr n, h) \<Rightarrow> (None, s\<lparr>op_hub := h\<rparr>))"

section \<open>Runs\<close>

definition milliseconds :: "int \<Rightarrow> int" where
  "milliseconds d = (if d < 0 then - (- d div 1000000) else d div 1000000)"

text \<open>The row of a run is written before the job starts. When that fails the job runs without a row.\<close>

definition begin_run :: "env \<Rightarrow> job \<Rightarrow> string \<Rightarrow> ops_state \<Rightarrow> job_run option \<times> ops_state" where
  "begin_run E j trigger s =
     (let r = \<lparr>jr_id = e_uuid E ''background_job_runs'' 0, jr_created_at = e_now E, jr_updated_at = e_now E,
            jr_job_name = job_name j, jr_trigger = trigger, jr_status = ''running'', jr_started_at = e_now E,
            jr_finished_at = None, jr_duration_ms = 0, jr_error_message = '''', jr_metadata = []\<rparr>
      in case db_insert E ''CreateJobRun'' 0 (\<lambda>r x. jr_id x = jr_id r) r (op_runs s) of
           Inl e \<Rightarrow> (None, s) | Inr t \<Rightarrow> (Some r, s\<lparr>op_runs := t\<rparr>))"

definition finished_run :: "time \<Rightarrow> error option \<Rightarrow> job_run \<Rightarrow> job_run" where
  "finished_run fin err r =
     r\<lparr>jr_finished_at := Some fin, jr_duration_ms := milliseconds (fin - jr_started_at r),
       jr_status := (if err = None then ''success'' else ''failed''),
       jr_error_message := (case err of None \<Rightarrow> jr_error_message r | Some e \<Rightarrow> err_text e), jr_updated_at := fin\<rparr>"

text \<open>The end of a run, at a later time of the clock: a failing update is only logged.\<close>

definition finish_run :: "env \<Rightarrow> time \<Rightarrow> error option \<Rightarrow> job_run option \<Rightarrow> ops_state \<Rightarrow> ops_state" where
  "finish_run E fin err run s =
     (case run of
        None \<Rightarrow> s
      | Some r \<Rightarrow>
          (case db_save E ''UpdateJobRun'' 0 jr_id (finished_run fin err r) (op_runs s) of
             Inl e \<Rightarrow> s | Inr t \<Rightarrow> s\<lparr>op_runs := t\<rparr>))"

definition executeJob :: "env \<Rightarrow> time \<Rightarrow> job \<Rightarrow> string \<Rightarrow> ops_state \<Rightarrow> error option \<times> ops_state" where
  "executeJob E fin j trigger s =
     (case begin_run E j trigger s of
        (run, s1) \<Rightarrow> (case run_job E j s1 of (err, s2) \<Rightarrow> (err, finish_run E fin err run s2)))"

text \<open>Each job in turn, the k-th one in the environment \<open>Es k\<close> and finished at \<open>fin k\<close>.\<close>

fun run_jobs :: "(nat \<Rightarrow> env) \<Rightarrow> (nat \<Rightarrow> time) \<Rightarrow> nat \<Rightarrow> job list \<Rightarrow> ops_state \<Rightarrow> (string \<times> error option) list \<times> ops_state" where
  "run_jobs Es fin k [] s = ([], s)"
| "run_jobs Es fin k (j # js) s =
     (case executeJob (Es k) (fin k) j ''manual'' s of
        (err, s1) \<Rightarrow> (case run_jobs Es fin (k + 1) js s1 of (res, s2) \<Rightarrow> ((job_name j, err) # res, s2)))"

definition RunOnce :: "(nat \<Rightarrow> env) \<Rightarrow> (nat \<Rightarrow> time) \<Rightarrow> background_config \<Rightarrow> job_services \<Rightarrow> ops_state
    \<Rightarrow> (string \<times> error option) list \<times> ops_state" where
  "RunOnce Es fin c v s = run_jobs Es fin 0 (map bj_job (filter bj_enabled (jobs c v))) s"

section \<open>The administrator's view\<close>

record job_runs_query =
  qj_job_name :: string
  qj_status :: string
  qj_limit :: int
  qj_offset :: int

definition IsBackgroundJobRunStatus :: "string \<Rightarrow> bool" where
  "IsBackgroundJobRunStatus v \<longleftrightarrow> trim v \<in> {'''', ''running'', ''success'', ''failed''}"

definition normalizedLimit :: "int \<Rightarrow> int" where
  "normalizedLimit limit = (if limit \<le> 0 \<or> 200 < limit then 50 else limit)"

definition normalizedOffset :: "int \<Rightarrow> int" where
  "normalizedOffset offset = (if offset < 0 then 0 else offset)"

definition ListJobRuns :: "env \<Rightarrow> job_runs_query \<Rightarrow> ops_state \<Rightarrow> (job_run list \<times> nat) result" where
  "ListJobRuns E q s =
     (let P = (\<lambda>r. (trim (qj_job_name q) \<noteq> '''' \<longrightarrow> jr_job_name r = trim (qj_job_name q))
                \<and> (trim (qj_status q) \<noteq> '''' \<longrightarrow> jr_status r = trim (qj_status q))) in
      case db_count E ''ListJobRuns'' 0 P (op_runs s) of
        Inl e \<Rightarrow> Inl e
      | Inr n \<Rightarrow>
          (case db_find E ''ListJobRuns'' 1 P (op_runs s) of
             Inl e \<Rightarrow> Inl e
           | Inr rs \<Rightarrow>
               Inr (take (nat (normalizedLimit (qj_limit q)))
                      (drop (nat (normalizedOffset (qj_offset q))) (sort_key (\<lambda>r. - jr_started_at r) rs)), n)))"

record job_run_page =
  jp_items :: "job_run list"
  jp_limit :: int
  jp_offset :: int
  jp_total :: nat

definition ListBackgroundJobRuns :: "env \<Rightarrow> job_runs_query \<Rightarrow> ops_state \<Rightarrow> job_run_page result" where
  "ListBackgroundJobRuns E q s =
     (case ListJobRuns E q s of
        Inl e \<Rightarrow> Inl e
      | Inr (rs, n) \<Rightarrow>
          Inr \<lparr>jp_items = rs, jp_limit = normalizedLimit (qj_limit q), jp_offset = normalizedOffset (qj_offset q), jp_total = n\<rparr>)"

definition GetBackgroundJobRun :: "env \<Rightarrow> uuid \<Rightarrow> ops_state \<Rightarrow> job_run result" where
  "GetBackgroundJobRun E i s = db_first E ''GetJobRun'' 0 jr_id (\<lambda>r. jr_id r = i) (op_runs s)"

definition RunBackgroundJobsOnce :: "(nat \<Rightarrow> env) \<Rightarrow> (nat \<Rightarrow> time) \<Rightarrow> background_config \<Rightarrow> job_services \<Rightarrow> ops_state
    \<Rightarrow> (string \<times> string) list \<times> ops_state" where
  "RunBackgroundJobsOnce Es fin c v s =
     (case RunOnce Es fin c v s of
        (res, s') \<Rightarrow>
          (map (\<lambda>(j, err). (j, case err of None \<Rightarrow> ''success'' | Some e \<Rightarrow> ''failed: '' @ err_text e)) res, s'))"

end
