(* ===== verification/BackgroundProps.thy ===== *)
theory BackgroundProps
  imports Background
begin

text \<open>
  What the maintenance jobs take away and what they spare, whatever fails; that the runner's intervals suit a
  ticker; and that the table of runs tells the truth about jobs that run at the same time and servers that stop.
\<close>

section \<open>What a job does to the tables\<close>

definition offline_due :: "time \<Rightarrow> offline_message \<Rightarrow> bool" where
  "offline_due now w \<longleftrightarrow> om_created_at w < now - days 7"

definition event_due :: "time \<Rightarrow> sync_event \<Rightarrow> bool" where
  "event_due now e \<longleftrightarrow> ev_timestamp e < now - days 30"

definition confirmation_due :: "time \<Rightarrow> confirmation \<Rightarrow> bool" where
  "confirmation_due now c \<longleftrightarrow> cf_expires_at c \<le> now"

definition subscription_due :: "time \<Rightarrow> kb_subscription \<Rightarrow> bool" where
  "subscription_due now b \<longleftrightarrow> kb_status b = ''active'' \<and> (case kb_expires_at b of None \<Rightarrow> False | Some t \<Rightarrow> t \<le> now)"

definition expired :: "env \<Rightarrow> kb_subscription \<Rightarrow> kb_subscription" where
  "expired E b = b\<lparr>kb_status := ''expired'', kb_renewal_status := ''expired'', kb_updated_at := e_now E\<rparr>"

text \<open>The effect of a job that succeeds.\<close>

fun job_effect :: "env \<Rightarrow> job \<Rightarrow> ops_state \<Rightarrow> ops_state" where
  "job_effect E OfflineMessageCleanup s =
     s\<lparr>op_conv := (op_conv s)\<lparr>vs_offline := filter (\<lambda>w. \<not> offline_due (e_now E) w) (vs_offline (op_conv s))\<rparr>\<rparr>"
| "job_effect E SyncEventCleanup s =
     s\<lparr>op_conv := (op_conv s)\<lparr>vs_sync := (vs_sync (op_conv s))\<lparr>ss_events :=
       filter (\<lambda>e. \<not> event_due (e_now E) e) (ss_events (vs_sync (op_conv s)))\<rparr>\<rparr>\<rparr>"
| "job_effect E SensitiveConfirmationCleanup s =
     s\<lparr>op_ids := (op_ids s)\<lparr>is_confirmations := filter (\<lambda>c. \<not> confirmation_due (e_now E) c) (is_confirmations (op_ids s))\<rparr>\<rparr>"
| "job_effect E KBSubscriptionExpiry s =
     s\<lparr>op_hub := (op_hub s)\<lparr>kh_kb := (kh_kb (op_hub s))\<lparr>kt_subscriptions :=
       upd_where (subscription_due (e_now E)) (expired E) (kt_subscriptions (kh_kb (op_hub s)))\<rparr>\<rparr>\<rparr>"

lemma run_job_effect: "run_job E j s = (None, job_effect E j s) \<or> (\<exists>e. run_job E j s = (Some e, s))"
proof (cases j)
  case OfflineMessageCleanup
  then show ?thesis
    by (simp add: CleanupExpiredOffline_def CleanupExpiredOffline_repo_def db_delete_def del_where_def offline_due_def)
next
  case SyncEventCleanup
  then show ?thesis
    by (simp add: CleanupOldEvents_def CleanupOldEvents_repo_def db_delete_def del_where_def event_due_def)
next
  case SensitiveConfirmationCleanup
  then show ?thesis
    by (simp add: CleanupExpiredConfirmations_def DeleteExpired_def db_delete_def del_where_def confirmation_due_def)
next
  case KBSubscriptionExpiry
  have P: "(\<lambda>b. kb_status b = ''active'' \<and> (case kb_expires_at b of None \<Rightarrow> False | Some t \<Rightarrow> t \<le> n)) = subscription_due n" for n
    by (simp add: subscription_due_def fun_eq_iff)
  have f: "(\<lambda>b. b\<lparr>kb_status := ''expired'', kb_renewal_status := ''expired'', kb_updated_at := e_now E\<rparr>) = expired E"
    by (simp add: expired_def fun_eq_iff)
  have "(if e_now E = time_zero then e_now E else e_now E) = e_now E" by simp
  with KBSubscriptionExpiry P f show ?thesis
    by (simp add: kb_ExpireSubscriptions_def map_kb_def ExpireSubscriptions_repo_def Let_def db_update_def)
qed

lemma run_job_runs [simp]: "op_runs (snd (run_job E j s)) = op_runs s"
  using run_job_effect [of E j s] by (cases j) auto

lemma run_job_runs': "run_job E j s = (err, s') \<Longrightarrow> op_runs s' = op_runs s"
  using run_job_runs [of E j s] by simp

text \<open>The tables of the services, without the table of runs.\<close>

definition work_tables :: "ops_state \<Rightarrow> ops_state" where
  "work_tables s = s\<lparr>op_runs := []\<rparr>"

lemma work_tables_same [simp]:
  "work_tables (snd (begin_run E j tr s)) = work_tables s" "work_tables (finish_run E fin err run s) = work_tables s"
  by (simp_all add: work_tables_def begin_run_def finish_run_def Let_def split: sum.split option.split)

lemma run_job_tables:
  assumes "work_tables s = work_tables s'"
  shows "fst (run_job E j s) = fst (run_job E j s')" "work_tables (snd (run_job E j s)) = work_tables (snd (run_job E j s'))"
proof -
  have "op_conv s = op_conv s'" "op_ids s = op_ids s'" "op_hub s = op_hub s'"
    using assms by (cases s; cases s'; simp add: work_tables_def)+
  then show "fst (run_job E j s) = fst (run_job E j s')" "work_tables (snd (run_job E j s)) = work_tables (snd (run_job E j s'))"
    using assms by (cases j; simp add: work_tables_def split: sum.split prod.split)+
qed

lemma job_effect_work: "work_tables (job_effect E j s) = job_effect E j (work_tables s)"
  by (cases j) (simp_all add: work_tables_def)

lemma effect_tables:
  "vs_offline (op_conv (if p then job_effect E j t else t)) =
     (if p \<and> j = OfflineMessageCleanup then filter (\<lambda>w. \<not> offline_due (e_now E) w) (vs_offline (op_conv t)) else vs_offline (op_conv t))"
  "ss_events (vs_sync (op_conv (if p then job_effect E j t else t))) =
     (if p \<and> j = SyncEventCleanup then filter (\<lambda>e. \<not> event_due (e_now E) e) (ss_events (vs_sync (op_conv t)))
      else ss_events (vs_sync (op_conv t)))"
  "is_confirmations (op_ids (if p then job_effect E j t else t)) =
     (if p \<and> j = SensitiveConfirmationCleanup then filter (\<lambda>c. \<not> confirmation_due (e_now E) c) (is_confirmations (op_ids t))
      else is_confirmations (op_ids t))"
  "kt_subscriptions (kh_kb (op_hub (if p then job_effect E j t else t))) =
     (if p \<and> j = KBSubscriptionExpiry
      then upd_where (subscription_due (e_now E)) (expired E) (kt_subscriptions (kh_kb (op_hub t)))
      else kt_subscriptions (kh_kb (op_hub t)))"
  by (cases j; simp)+

lemma executeJob_tables:
  "executeJob E fin j tr s = (err, s') \<Longrightarrow>
     (if err = None then work_tables s' = job_effect E j (work_tables s) else work_tables s' = work_tables s)"
proof -
  assume run: "executeJob E fin j tr s = (err, s')"
  let ?s1 = "snd (begin_run E j tr s)"
  have err: "err = fst (run_job E j ?s1)" and s': "work_tables s' = work_tables (snd (run_job E j ?s1))"
    using run by (auto simp: executeJob_def split: prod.splits)
  have "run_job E j ?s1 = (None, job_effect E j ?s1) \<or> (\<exists>e. run_job E j ?s1 = (Some e, ?s1))"
    by (rule run_job_effect)
  then show ?thesis using err s' by (auto simp: job_effect_work)
qed

section \<open>One round of maintenance\<close>

lemma run_jobs_tables:
  "run_jobs Es fin k js s = (res, s') \<Longrightarrow>
     map fst res = map job_name js
     \<and> work_tables s' = fold (\<lambda>(i, j) t. if snd (res ! i) = None then job_effect (Es (k + i)) j t else t)
         (zip [0..<length js] js) (work_tables s)"
proof (induction js arbitrary: k s res)
  case (Cons j js)
  obtain err s1 where run: "executeJob (Es k) (fin k) j ''manual'' s = (err, s1)" by (cases "executeJob (Es k) (fin k) j ''manual'' s")
  obtain res1 s2 where rest: "run_jobs Es fin (k + 1) js s1 = (res1, s2)" by (cases "run_jobs Es fin (k + 1) js s1")
  have res: "res = (job_name j, err) # res1" "s' = s2" using Cons.prems run rest by auto
  note IH = Cons.IH [OF rest [folded res(2)]]
  have zip: "zip [0..<length (j # js)] (j # js) = (0, j) # map (\<lambda>(i, x). (Suc i, x)) (zip [0..<length js] js)"
    by (simp add: upt_conv_Cons zip_map1 flip: map_Suc_upt del: upt_Suc)
  have eq: "fold (\<lambda>(i, j) t. if snd (res ! i) = None then job_effect (Es (k + i)) j t else t)
        (map (\<lambda>(i, x). (Suc i, x)) (zip [0..<length js] js)) t
      = fold (\<lambda>(i, j) t. if snd (res1 ! i) = None then job_effect (Es (k + 1 + i)) j t else t) (zip [0..<length js] js) t" for t
    unfolding fold_map by (intro fold_cong) (auto simp: res fun_eq_iff)
  have "work_tables s1 = (if err = None then job_effect (Es k) j (work_tables s) else work_tables s)"
    using executeJob_tables [OF run] by simp
  then show ?case using IH unfolding zip fold_simps eq by (simp add: res(1))
qed simp

text \<open>
  C15: Maintenance does what is due and nothing else: one round gives one result for every job, in their order; a job
  that succeeds deletes exactly the offline copies older than 7 days, the sync events older than 30 days or the
  expired confirmations, or sets exactly the active subscriptions that have expired to expired; a job that fails
  leaves its table; and the failure of one job, or of the recording of a run, keeps no other job from its work.
\<close>

theorem maintenance_does_what_is_due:
  "case RunOnce Es fin c all_services s of (res, s') \<Rightarrow>
     map fst res = map job_name [OfflineMessageCleanup, SyncEventCleanup, SensitiveConfirmationCleanup, KBSubscriptionExpiry]
     \<and> vs_offline (op_conv s') =
         (if snd (res ! 0) = None then filter (\<lambda>w. \<not> offline_due (e_now (Es 0)) w) (vs_offline (op_conv s)) else vs_offline (op_conv s))
     \<and> ss_events (vs_sync (op_conv s')) =
         (if snd (res ! 1) = None then filter (\<lambda>e. \<not> event_due (e_now (Es 1)) e) (ss_events (vs_sync (op_conv s)))
          else ss_events (vs_sync (op_conv s)))
     \<and> is_confirmations (op_ids s') =
         (if snd (res ! 2) = None then filter (\<lambda>x. \<not> confirmation_due (e_now (Es 2)) x) (is_confirmations (op_ids s))
          else is_confirmations (op_ids s))
     \<and> kt_subscriptions (kh_kb (op_hub s')) =
         (if snd (res ! 3) = None
          then upd_where (subscription_due (e_now (Es 3))) (expired (Es 3)) (kt_subscriptions (kh_kb (op_hub s)))
          else kt_subscriptions (kh_kb (op_hub s)))"
proof -
  let ?js = "[OfflineMessageCleanup, SyncEventCleanup, SensitiveConfirmationCleanup, KBSubscriptionExpiry]"
  obtain res s' where run: "run_jobs Es fin 0 ?js s = (res, s')" by (cases "run_jobs Es fin 0 ?js s")
  then have once: "RunOnce Es fin c all_services s = (res, s')" by (simp add: RunOnce_def jobs_def all_services_def)
  have zip: "zip [0..<length ?js] ?js = [(0, OfflineMessageCleanup), (1, SyncEventCleanup), (2, SensitiveConfirmationCleanup),
      (3, KBSubscriptionExpiry)]" by (simp add: upt_rec numeral_eq_Suc)
  have W: "work_tables s' = fold (\<lambda>(i, j) t. if snd (res ! i) = None then job_effect (Es i) j t else t)
      [(0, OfflineMessageCleanup), (1, SyncEventCleanup), (2, SensitiveConfirmationCleanup), (3, KBSubscriptionExpiry)] (work_tables s)"
    by (rule run_jobs_tables [OF run, THEN conjunct2, unfolded zip add_0])
  have names: "map fst res = map job_name ?js" by (rule run_jobs_tables [OF run, THEN conjunct1])
  have parts: "op_conv s' = op_conv (work_tables s')" "op_ids s' = op_ids (work_tables s')" "op_hub s' = op_hub (work_tables s')"
    "op_conv (work_tables s) = op_conv s" "op_ids (work_tables s) = op_ids s" "op_hub (work_tables s) = op_hub s"
    by (simp_all add: work_tables_def)
  have W: "vs_offline (op_conv s') = (if snd (res ! 0) = None then filter (\<lambda>w. \<not> offline_due (e_now (Es 0)) w) (vs_offline (op_conv s))
        else vs_offline (op_conv s))"
    "ss_events (vs_sync (op_conv s')) = (if snd (res ! 1) = None
        then filter (\<lambda>e. \<not> event_due (e_now (Es 1)) e) (ss_events (vs_sync (op_conv s))) else ss_events (vs_sync (op_conv s)))"
    "is_confirmations (op_ids s') = (if snd (res ! 2) = None
        then filter (\<lambda>x. \<not> confirmation_due (e_now (Es 2)) x) (is_confirmations (op_ids s)) else is_confirmations (op_ids s))"
    "kt_subscriptions (kh_kb (op_hub s')) = (if snd (res ! 3) = None
        then upd_where (subscription_due (e_now (Es 3))) (expired (Es 3)) (kt_subscriptions (kh_kb (op_hub s)))
        else kt_subscriptions (kh_kb (op_hub s)))"
    unfolding parts(1-3) W fold_simps prod.case effect_tables parts(4-6) by simp_all
  from names W show ?thesis unfolding once by simp
qed

section \<open>What is still needed\<close>

text \<open>Nothing that is not due at a time is touched between two states of the tables.\<close>

definition spares :: "time \<Rightarrow> ops_state \<Rightarrow> ops_state \<Rightarrow> bool" where
  "spares T s s' \<longleftrightarrow>
     filter (\<lambda>w. \<not> offline_due T w) (vs_offline (op_conv s')) = filter (\<lambda>w. \<not> offline_due T w) (vs_offline (op_conv s))
     \<and> filter (\<lambda>e. \<not> event_due T e) (ss_events (vs_sync (op_conv s'))) = filter (\<lambda>e. \<not> event_due T e) (ss_events (vs_sync (op_conv s)))
     \<and> filter (\<lambda>c. \<not> confirmation_due T c) (is_confirmations (op_ids s')) = filter (\<lambda>c. \<not> confirmation_due T c) (is_confirmations (op_ids s))
     \<and> list_all2 (\<lambda>b b'. b' = b \<or> subscription_due T b) (kt_subscriptions (kh_kb (op_hub s))) (kt_subscriptions (kh_kb (op_hub s')))"

lemma spares_refl: "spares T s s"
  by (simp add: spares_def list.rel_refl)

lemma spares_trans:
  assumes "spares T s s'" "spares T s' s''"
  shows "spares T s s''"
proof -
  let ?Q = "\<lambda>b b'. b' = b \<or> subscription_due T b"
  have t: "list_all2 ?Q xs ys \<Longrightarrow> list_all2 ?Q ys zs \<Longrightarrow> list_all2 ?Q xs zs" for xs ys zs
    by (rule list_all2_trans [of ?Q ?Q ?Q]) auto
  note a = assms [unfolded spares_def, THEN conjunct2, THEN conjunct2, THEN conjunct2]
  from t [OF a] assms show ?thesis by (simp add: spares_def)
qed

lemma filter_filter_due: "(\<And>x. P x \<Longrightarrow> Q x) \<Longrightarrow> filter P (filter Q xs) = filter P xs"
  by (induction xs) auto

lemma job_effect_spares:
  assumes "e_now E \<le> T"
  shows "spares T s (job_effect E j s)"
proof -
  have same: "list_all2 (\<lambda>b b'. b' = b \<or> subscription_due T b) bs bs" for bs by (simp add: list.rel_refl)
  have upd: "list_all2 (\<lambda>b b'. b' = b \<or> subscription_due T b) bs (upd_where (subscription_due (e_now E)) (expired E) bs)" for bs
    using assms by (induction bs) (auto simp: upd_where_def subscription_due_def split: option.splits)
  have f: "filter (\<lambda>w. \<not> offline_due T w) (filter (\<lambda>w. \<not> offline_due (e_now E) w) ws) = filter (\<lambda>w. \<not> offline_due T w) ws"
    "filter (\<lambda>e. \<not> event_due T e) (filter (\<lambda>e. \<not> event_due (e_now E) e) es) = filter (\<lambda>e. \<not> event_due T e) es"
    "filter (\<lambda>c. \<not> confirmation_due T c) (filter (\<lambda>c. \<not> confirmation_due (e_now E) c) cs) = filter (\<lambda>c. \<not> confirmation_due T c) cs"
    for ws es cs
    using assms by (intro filter_filter_due; simp add: offline_due_def event_due_def confirmation_due_def)+
  note e = effect_tables [of True E j s, unfolded if_True simp_thms]
  show ?thesis unfolding spares_def e by (cases j; simp only: if_True if_False job.simps f same upd simp_thms)
qed

lemma spares_work: "spares T (work_tables s) (work_tables s') = spares T s s'"
  by (simp add: spares_def work_tables_def)

text \<open>
  C16: Maintenance spares what is needed: however often and in whatever order the jobs are run, and whatever fails, up
  to a time, no offline copy younger than 7 days at that time, no sync event younger than 30 days and no
  unexpired confirmation is lost, and no subscription that has not expired by then is changed.
\<close>

theorem maintenance_spares_the_live:
  assumes "\<forall>(E, fin, j, tr)\<in>set ms. e_now E \<le> T"
  shows "spares T s (fold (\<lambda>(E, fin, j, tr) t. snd (executeJob E fin j tr t)) ms s)"
  using assms
proof (induction ms arbitrary: s)
  case (Cons m ms)
  obtain E fin j tr where m: "m = (E, fin, j, tr)" by (cases m)
  obtain err s1 where run: "executeJob E fin j tr s = (err, s1)" by (cases "executeJob E fin j tr s")
  have "spares T (work_tables s) (work_tables s1)"
    using executeJob_tables [OF run] job_effect_spares [of E T "work_tables s" j] Cons.prems m
    by (cases "err = None") (simp_all add: spares_refl)
  then have "spares T s s1" by (simp only: spares_work)
  moreover have "spares T s1 (fold (\<lambda>(E, fin, j, tr) t. snd (executeJob E fin j tr t)) ms s1)"
    using Cons by simp
  ultimately show ?case using spares_trans m run by simp
qed (simp add: spares_refl)

section \<open>Intervals\<close>

text \<open>
  A ticker panics on an interval that is not positive: after normalisation every interval is positive, whatever
  was configured, and a positive one is kept.
\<close>

theorem intervals_suit_a_ticker:
  "let c' = normalizeBackgroundConfig c in
     list_all (\<lambda>j. 0 < bj_interval j) (jobs c' v) \<and> 0 < bc_worker_interval c'
     \<and> normalizeBackgroundConfig c' = c'
     \<and> (0 < bc_offline_interval c \<longrightarrow> bc_offline_interval c' = bc_offline_interval c)"
  by (cases c) (simp add: normalizeBackgroundConfig_def DefaultBackgroundTasksConfig_def jobs_def Let_def minutes_def seconds_def)

section \<open>Jobs that run at the same time\<close>

text \<open>
  Each job has a loop of its own, and an administrator can start a round at any time: a run is begun, its job
  works, and it is finished, with the steps of other runs and the requests of the services in between; a server
  that stops takes all its runs with it. The ledger notes what the job of a recorded run returned.
\<close>

record live_run =
  lv_job :: job
  lv_run :: "job_run option"
  lv_outcome :: "error option option"

record background_system =
  by_ops :: ops_state
  by_live :: "live_run list"
  by_ledger :: "(uuid \<times> error option) list"

definition note_outcome :: "job_run option \<Rightarrow> error option \<Rightarrow> (uuid \<times> error option) list \<Rightarrow> (uuid \<times> error option) list" where
  "note_outcome run err l = (case run of None \<Rightarrow> l | Some r \<Rightarrow> l @ [(jr_id r, err)])"

inductive bg_step :: "background_system \<Rightarrow> background_system \<Rightarrow> bool" where
  bg_begin: "begin_run E j tr (by_ops S) = (run, s') \<Longrightarrow>
    bg_step S (S\<lparr>by_ops := s', by_live := by_live S @ [\<lparr>lv_job = j, lv_run = run, lv_outcome = None\<rparr>]\<rparr>)"
| bg_work: "by_live S = ls @ x # ms \<Longrightarrow> lv_outcome x = None \<Longrightarrow> run_job E (lv_job x) (by_ops S) = (err, s') \<Longrightarrow>
    bg_step S (S\<lparr>by_ops := s', by_live := ls @ x\<lparr>lv_outcome := Some err\<rparr> # ms, by_ledger := note_outcome (lv_run x) err (by_ledger S)\<rparr>)"
| bg_finish: "by_live S = ls @ x # ms \<Longrightarrow> lv_outcome x = Some err \<Longrightarrow>
    bg_step S (S\<lparr>by_ops := finish_run E fin err (lv_run x) (by_ops S), by_live := ls @ ms\<rparr>)"
| bg_stop: "bg_step S (S\<lparr>by_live := []\<rparr>)"
| bg_request: "op_runs s' = op_runs (by_ops S) \<Longrightarrow> bg_step S (S\<lparr>by_ops := s'\<rparr>)"

definition bg_init :: background_system where
  "bg_init = \<lparr>by_ops = ops_init, by_live = [], by_ledger = []\<rparr>"

text \<open>What a row says against what its job returned.\<close>

definition row_truthful :: "(uuid \<times> error option) list \<Rightarrow> job_run \<Rightarrow> bool" where
  "row_truthful l r \<longleftrightarrow>
     jr_status r = ''running'' \<and> jr_finished_at r = None \<and> jr_error_message r = ''''
     \<or> (\<exists>err. (jr_id r, err) \<in> set l \<and> jr_finished_at r \<noteq> None
          \<and> jr_status r = (if err = None then ''success'' else ''failed'')
          \<and> jr_error_message r = (case err of None \<Rightarrow> '''' | Some e \<Rightarrow> err_text e))"

definition live_ids :: "live_run list \<Rightarrow> uuid list" where
  "live_ids ls = concat (map (\<lambda>x. case lv_run x of None \<Rightarrow> [] | Some r \<Rightarrow> [jr_id r]) ls)"

definition waiting_ids :: "live_run list \<Rightarrow> uuid list" where
  "waiting_ids ls = live_ids (filter (\<lambda>x. lv_outcome x = None) ls)"

definition bg_inv :: "background_system \<Rightarrow> bool" where
  "bg_inv S \<longleftrightarrow>
     distinct (map jr_id (op_runs (by_ops S)))
     \<and> distinct (live_ids (by_live S))
     \<and> distinct (map fst (by_ledger S))
     \<and> set (map fst (by_ledger S)) \<subseteq> jr_id ` set (op_runs (by_ops S))
     \<and> set (waiting_ids (by_live S)) \<inter> set (map fst (by_ledger S)) = {}
     \<and> list_all (row_truthful (by_ledger S)) (op_runs (by_ops S))
     \<and> (\<forall>x\<in>set (by_live S). \<forall>r. lv_run x = Some r \<longrightarrow>
          r \<in> set (op_runs (by_ops S)) \<and> jr_status r = ''running'' \<and> jr_error_message r = ''''
          \<and> (\<forall>err. lv_outcome x = Some err \<longrightarrow> (jr_id r, err) \<in> set (by_ledger S)))"

lemma live_ids_simps [simp]:
  "live_ids [] = []" "live_ids (xs @ ys) = live_ids xs @ live_ids ys"
  "live_ids (x # xs) = (case lv_run x of None \<Rightarrow> [] | Some r \<Rightarrow> [jr_id r]) @ live_ids xs"
  by (simp_all add: live_ids_def)

lemma in_live_ids: "i \<in> set (live_ids ls) \<longleftrightarrow> (\<exists>x\<in>set ls. \<exists>r. lv_run x = Some r \<and> jr_id r = i)"
proof (induction ls)
  case (Cons x ls)
  then show ?case by (cases "lv_run x") auto
qed simp

lemma live_ids_filter: "i \<in> set (live_ids (filter P ls)) \<Longrightarrow> i \<in> set (live_ids ls)"
  unfolding in_live_ids by auto

lemma row_truthful_mono: "set l \<subseteq> set l' \<Longrightarrow> row_truthful l r \<Longrightarrow> row_truthful l' r"
  unfolding row_truthful_def by blast

lemma begin_run_cases:
  "begin_run E j tr s = (run, s') \<Longrightarrow>
     (run = None \<and> s' = s)
     \<or> (\<exists>r. run = Some r \<and> op_runs s' = op_runs s @ [r] \<and> jr_id r \<notin> jr_id ` set (op_runs s)
          \<and> jr_status r = ''running'' \<and> jr_finished_at r = None \<and> jr_error_message r = '''')"
proof -
  assume run: "begin_run E j tr s = (run, s')"
  show ?thesis
  proof (cases "e_db E ''CreateJobRun'' 0 \<or> list_ex (\<lambda>x. jr_id x = e_uuid E ''background_job_runs'' 0) (op_runs s)")
    case True
    with run show ?thesis by (simp add: begin_run_def db_insert_def Let_def split: if_split_asm)
  next
    case False
    then have "e_uuid E ''background_job_runs'' 0 \<notin> jr_id ` set (op_runs s)" by (auto simp: list_ex_iff)
    with False run show ?thesis by (simp add: begin_run_def db_insert_def Let_def) (clarify, simp)
  qed
qed

lemma finish_run_cases:
  "op_runs (finish_run E fin err run s) = op_runs s
   \<or> (\<exists>r. run = Some r \<and> op_runs (finish_run E fin err run s) = save_row jr_id (finished_run fin err r) (op_runs s))"
  by (auto simp: finish_run_def db_simps split: sum.splits option.split)

lemma bg_step_inv: "bg_step S S' \<Longrightarrow> bg_inv S \<Longrightarrow> bg_inv S'"
proof (induction rule: bg_step.induct)
  case (bg_begin E j tr S run s')
  from begin_run_cases [OF bg_begin.hyps] show ?case
  proof (elim disjE exE conjE)
    assume "run = None" "s' = by_ops S"
    with bg_begin.prems show ?thesis by (auto simp: bg_inv_def waiting_ids_def)
  next
    fix r
    assume r: "run = Some r" "op_runs s' = op_runs (by_ops S) @ [r]" "jr_id r \<notin> jr_id ` set (op_runs (by_ops S))"
      "jr_status r = ''running''" "jr_finished_at r = None" "jr_error_message r = ''''"
    have "jr_id y \<in> jr_id ` set (op_runs (by_ops S))" if "x \<in> set (by_live S)" "lv_run x = Some y" for x y
      using bg_begin.prems that by (simp add: bg_inv_def)
    then have "jr_id r \<notin> set (live_ids (by_live S))" using r(3) unfolding in_live_ids by metis
    moreover have "jr_id r \<notin> set (map fst (by_ledger S))" using bg_begin.prems r(3) unfolding bg_inv_def by blast
    moreover have "row_truthful (by_ledger S) r" using r by (simp add: row_truthful_def)
    ultimately show ?thesis using bg_begin.prems r unfolding bg_inv_def waiting_ids_def by auto
  qed
next
  case (bg_stop S)
  then show ?case by (simp add: bg_inv_def waiting_ids_def)
next
  case (bg_request s' S)
  then show ?case by (simp add: bg_inv_def)
next
  case (bg_work S ls x ms E err s')
  have runs: "op_runs s' = op_runs (by_ops S)" using run_job_runs [of E "lv_job x" "by_ops S"] bg_work.hyps(3) by simp
  show ?case
  proof (cases "lv_run x")
    case None
    with bg_work runs show ?thesis by (auto simp: bg_inv_def waiting_ids_def note_outcome_def)
  next
    case (Some r)
    have fresh: "jr_id r \<notin> set (map fst (by_ledger S))" "jr_id r \<in> jr_id ` set (op_runs (by_ops S))"
      using bg_work.prems bg_work.hyps(1,2) Some by (auto simp: bg_inv_def waiting_ids_def)
    have t: "list_all (row_truthful (by_ledger S @ [(jr_id r, err)])) (op_runs (by_ops S))"
      using bg_work.prems row_truthful_mono [of "by_ledger S" "by_ledger S @ [(jr_id r, err)]"]
      by (simp add: bg_inv_def list_all_iff subset_insertI)
    show ?thesis using bg_work.prems bg_work.hyps(1,2) Some fresh t runs
      by (auto simp: bg_inv_def waiting_ids_def note_outcome_def dest: live_ids_filter)
  qed
next
  case (bg_finish S ls x ms err E fin)
  have rest: "bg_inv (S\<lparr>by_live := ls @ ms\<rparr>)"
    using bg_finish.prems bg_finish.hyps by (cases "lv_run x") (auto simp: bg_inv_def waiting_ids_def)
  from finish_run_cases [of E fin err "lv_run x" "by_ops S"] show ?case
  proof (elim disjE exE conjE)
    assume "op_runs (finish_run E fin err (lv_run x) (by_ops S)) = op_runs (by_ops S)"
    with rest show ?thesis by (simp add: bg_inv_def)
  next
    fix r
    assume r: "lv_run x = Some r"
      "op_runs (finish_run E fin err (lv_run x) (by_ops S)) = save_row jr_id (finished_run fin err r) (op_runs (by_ops S))"
    let ?r = "finished_run fin err r"
    have id: "jr_id ?r = jr_id r" by (simp add: finished_run_def)
    have live: "r \<in> set (op_runs (by_ops S))" "(jr_id r, err) \<in> set (by_ledger S)" "jr_error_message r = ''''"
      using bg_finish r(1) by (auto simp: bg_inv_def)
    have t: "row_truthful (by_ledger S) ?r"
      using live by (auto simp: row_truthful_def finished_run_def intro!: exI [of _ err] split: option.splits)
    have ids: "map jr_id (save_row jr_id ?r (op_runs (by_ops S))) = map jr_id (op_runs (by_ops S))"
      by (rule map_key_save_row [OF live(1)]) (simp add: id)
    have gone: "jr_id r \<notin> set (live_ids (ls @ ms))" using bg_finish r(1) by (auto simp: bg_inv_def)
    have keep: "r' \<in> set (save_row jr_id ?r (op_runs (by_ops S)))"
      if "y \<in> set (ls @ ms)" "lv_run y = Some r'" for y r'
    proof -
      have "r' \<in> set (op_runs (by_ops S))" using rest that by (auto simp: bg_inv_def)
      moreover have "jr_id r' \<noteq> jr_id r" using gone that unfolding in_live_ids by blast
      ultimately show ?thesis by (simp add: table_simps id)
    qed
    have all: "list_all (row_truthful (by_ledger S)) (save_row jr_id ?r (op_runs (by_ops S)))"
      using rest t by (auto simp: bg_inv_def list_all_iff table_simps)
    have "jr_id ` set (save_row jr_id ?r (op_runs (by_ops S))) = jr_id ` set (op_runs (by_ops S))"
      by (metis ids set_map)
    with rest r(2) ids keep all show ?thesis by (simp add: bg_inv_def)
  qed
qed

definition bg_reach :: "background_system \<Rightarrow> bool" where
  "bg_reach S \<longleftrightarrow> bg_step\<^sup>*\<^sup>* bg_init S"

lemma bg_reach_inv: "bg_reach S \<Longrightarrow> bg_inv S"
  unfolding bg_reach_def
proof (induction rule: rtranclp_induct)
  case base
  show ?case by (simp add: bg_init_def ops_init_def bg_inv_def waiting_ids_def)
qed (rule bg_step_inv)

text \<open>
  C17: The table of runs tells the truth: however runs, requests and stops of the server are interleaved and whatever
  fails, the rows have distinct identifiers, and a row says running, or it says success or failed with an error
  text because that is what its job returned the one time it worked.
\<close>

theorem run_table_is_truthful:
  assumes "bg_reach S" "r \<in> set (op_runs (by_ops S))"
  shows "distinct (map jr_id (op_runs (by_ops S)))
     \<and> (jr_status r = ''running'' \<and> jr_finished_at r = None
        \<or> (\<exists>err. filter (\<lambda>l. fst l = jr_id r) (by_ledger S) = [(jr_id r, err)] \<and> jr_finished_at r \<noteq> None
             \<and> jr_status r = (if err = None then ''success'' else ''failed'')
             \<and> jr_error_message r = (case err of None \<Rightarrow> '''' | Some e \<Rightarrow> err_text e)))"
proof -
  have inv: "bg_inv S" by (rule bg_reach_inv [OF assms(1)])
  have one: "filter (\<lambda>l. fst l = jr_id r) ls = [(jr_id r, err)]" if "distinct (map fst ls)" "(jr_id r, err) \<in> set ls" for ls err
    using that
  proof (induction ls)
    case (Cons l ls)
    then show ?case by (cases "l = (jr_id r, err)") (auto simp: filter_empty_conv rev_image_eqI image_iff)
  qed simp
  have "row_truthful (by_ledger S) r" using inv assms(2) by (simp add: bg_inv_def list_all_iff)
  show ?thesis
  proof (cases "jr_status r = ''running'' \<and> jr_finished_at r = None")
    case True
    then show ?thesis using inv by (simp add: bg_inv_def)
  next
    case False
    with \<open>row_truthful (by_ledger S) r\<close> obtain err where err: "(jr_id r, err) \<in> set (by_ledger S)"
      and row: "jr_finished_at r \<noteq> None \<and> jr_status r = (if err = None then ''success'' else ''failed'')
        \<and> jr_error_message r = (case err of None \<Rightarrow> '''' | Some e \<Rightarrow> err_text e)"
      unfolding row_truthful_def by metis
    have d: "distinct (map fst (by_ledger S))" "distinct (map jr_id (op_runs (by_ops S)))" using inv by (simp_all add: bg_inv_def)
    from one [OF d(1) err] row d(2) show ?thesis by (intro conjI disjI2 exI [of _ err]) simp_all
  qed
qed

text \<open>The steps of one run, one after the other, are the run of the job.\<close>

lemma executeJob_is_three_steps:
  assumes "executeJob E fin j tr (by_ops S) = (err, s')"
  shows "\<exists>l. bg_step\<^sup>*\<^sup>* S (S\<lparr>by_ops := s', by_ledger := l\<rparr>)"
proof -
  obtain run s1 where b: "begin_run E j tr (by_ops S) = (run, s1)" by (cases "begin_run E j tr (by_ops S)")
  obtain s2 where w: "run_job E j s1 = (err, s2)" and s': "s' = finish_run E fin err run s2"
    using assms b by (auto simp: executeJob_def split: prod.splits)
  let ?x = "\<lparr>lv_job = j, lv_run = run, lv_outcome = None\<rparr>"
  let ?S1 = "S\<lparr>by_ops := s1, by_live := by_live S @ [?x]\<rparr>"
  let ?l = "note_outcome run err (by_ledger S)"
  let ?S2 = "?S1\<lparr>by_ops := s2, by_live := by_live S @ [?x\<lparr>lv_outcome := Some err\<rparr>], by_ledger := ?l\<rparr>"
  have 1: "bg_step S ?S1" by (rule bg_begin [OF b])
  have 2: "bg_step ?S1 ?S2" using bg_work [of ?S1 "by_live S" ?x "[]" E err s2] w by simp
  have "S\<lparr>by_ops := s', by_ledger := ?l\<rparr> = ?S2\<lparr>by_ops := finish_run E fin err run s2, by_live := by_live S @ []\<rparr>"
    by (simp add: s')
  then have 3: "bg_step ?S2 (S\<lparr>by_ops := s', by_ledger := ?l\<rparr>)"
    using bg_finish [of ?S2 "by_live S" "?x\<lparr>lv_outcome := Some err\<rparr>" "[]" err E fin] by simp
  show ?thesis
    using 1 2 3 by (intro exI [of _ ?l]) (rule converse_rtranclp_into_rtranclp [where r = bg_step], assumption,
        rule converse_rtranclp_into_rtranclp [where r = bg_step], assumption, rule r_into_rtranclp)
qed

text \<open>
  A server that stops while a job runs leaves its row behind, and nothing ever closes it: a row that says running
  and belongs to no live run says so for ever.
\<close>

definition orphan :: "job_run \<Rightarrow> background_system \<Rightarrow> bool" where
  "orphan r S \<longleftrightarrow> r \<in> set (op_runs (by_ops S)) \<and> jr_id r \<notin> set (live_ids (by_live S))"

lemma bg_step_orphan: "bg_step S S' \<Longrightarrow> orphan r S \<Longrightarrow> orphan r S'"
proof (induction rule: bg_step.induct)
  case (bg_begin E j tr S run s')
  then show ?case using begin_run_cases [OF bg_begin.hyps] by (auto simp: orphan_def image_iff)
next
  case (bg_finish S ls x ms err E fin)
  have "r \<in> set (op_runs (finish_run E fin err (lv_run x) (by_ops S)))"
    using finish_run_cases [of E fin err "lv_run x" "by_ops S"] bg_finish
    by (auto simp: orphan_def table_simps finished_run_def)
  with bg_finish show ?case by (auto simp: orphan_def)
qed (auto simp: orphan_def note_outcome_def dest: run_job_runs')

theorem interrupted_runs_stay_open:
  assumes "bg_reach S" "r \<in> set (op_runs (by_ops S))" "jr_status r = ''running''" "bg_step\<^sup>*\<^sup>* (S\<lparr>by_live := []\<rparr>) S'"
  shows "r \<in> set (op_runs (by_ops S')) \<and> jr_status r = ''running''"
proof -
  have "orphan r (S\<lparr>by_live := []\<rparr>)" using assms(2) by (simp add: orphan_def)
  with assms(4) have "orphan r S'" by (induction rule: rtranclp_induct) (auto intro: bg_step_orphan)
  with assms(3) show ?thesis by (simp add: orphan_def)
qed

section \<open>Runs to look at\<close>

text \<open>Two confirmations, one of which has expired when the job runs.\<close>

definition demo_confirmation :: "uuid \<Rightarrow> time \<Rightarrow> confirmation" where
  "demo_confirmation i t = \<lparr>cf_id = i, cf_user_id = 7, cf_device_id = ''phone'', cf_operation = ''x'', cf_token_hash = ''h'',
     cf_expires_at = t, cf_used_at = None, cf_consumed_by = ''''\<rparr>"

definition demo_ops :: ops_state where
  "demo_ops = ops_init\<lparr>op_ids := id_init\<lparr>is_confirmations := [demo_confirmation 1 0, demo_confirmation 2 (seconds 2000000000)]\<rparr>\<rparr>"

definition demo_cleanup :: "error option \<times> ops_state" where
  "demo_cleanup = executeJob (env_at 1) (seconds 1700000002) SensitiveConfirmationCleanup ''manual'' demo_ops"

lemma demo_cleanup_run:
  "let r = executeJob (env_at 1) (seconds 1700000002) SensitiveConfirmationCleanup ''manual'' demo_ops
   in fst r = None \<and> map cf_id (is_confirmations (op_ids (snd r))) = [2]
      \<and> map jr_status (op_runs (snd r)) = [''success''] \<and> map jr_duration_ms (op_runs (snd r)) = [1000]
      \<and> e_now (env_at 1) \<le> seconds 1700000002"
  by code_simp

lemmas demo_cleanup_facts = demo_cleanup_run [unfolded Let_def, folded demo_cleanup_def]

theorem maintenance_spares_the_live_witness:
  "map cf_id (is_confirmations (op_ids (snd demo_cleanup))) = [2]
   \<and> filter (\<lambda>c. \<not> confirmation_due (seconds 1700000002) c) (is_confirmations (op_ids (snd demo_cleanup)))
       = filter (\<lambda>c. \<not> confirmation_due (seconds 1700000002) c) (is_confirmations (op_ids demo_ops))"
proof -
  have "\<forall>(E, fin, j, tr)\<in>set [(env_at 1, seconds 1700000002, SensitiveConfirmationCleanup, ''manual'')]. e_now E \<le> seconds 1700000002"
    using demo_cleanup_facts by simp
  from maintenance_spares_the_live [OF this, of demo_ops] demo_cleanup_facts show ?thesis
    by (simp add: spares_def demo_cleanup_def)
qed

theorem run_table_is_truthful_witness:
  "\<exists>S r. bg_reach S \<and> op_runs (by_ops S) = [r] \<and> jr_status r = ''success''
     \<and> (\<exists>err. filter (\<lambda>l. fst l = jr_id r) (by_ledger S) = [(jr_id r, err)])"
proof -
  have "bg_step bg_init (bg_init\<lparr>by_ops := demo_ops\<rparr>)"
    by (rule bg_request) (simp add: demo_ops_def bg_init_def ops_init_def)
  moreover have "executeJob (env_at 1) (seconds 1700000002) SensitiveConfirmationCleanup ''manual'' (by_ops (bg_init\<lparr>by_ops := demo_ops\<rparr>))
      = (None, snd demo_cleanup)"
    using demo_cleanup_facts by (simp add: demo_cleanup_def prod_eq_iff)
  ultimately obtain l where reach: "bg_reach (bg_init\<lparr>by_ops := demo_ops\<rparr>\<lparr>by_ops := snd demo_cleanup, by_ledger := l\<rparr>)"
    using executeJob_is_three_steps unfolding bg_reach_def by (meson converse_rtranclp_into_rtranclp)
  obtain r where r: "op_runs (snd demo_cleanup) = [r]" "jr_status r = ''success''" using demo_cleanup_facts by auto
  from run_table_is_truthful [OF reach, of r] r reach show ?thesis by fastforce
qed

end
