(* ===== verification/Spec2Isabelle.thy ===== *)
theory Spec2Isabelle
  imports SyncRace AuditProps IdentityProps GovernanceProps MessageProps KnowledgeProps ContactsProps SettingsProps ObjectProps SkillHubProps WsDispatchProps PairingProps SageProps BillingProps EmbeddingProps KBProps Router AdmissionApi KBApiProps GovernanceSummary BackgroundProps
begin

text \<open>
  A model of agent-os-backend, the Go server behind the agent-os clients, and what its services promise.

  The program. A client is a device of a user. It logs in by signing a challenge and gets a token
  (\<open>internal/service/identity.go\<close>); further devices are paired with a QR code (\<open>device_pairing.go\<close>). What the user
  keeps on the server (conversations and messages, knowledge entries, contacts, settings, installed skills and
  plugins) is changed through HTTP endpoints and web socket messages (\<open>internal/handler\<close>, \<open>internal/ws\<close>); each change
  is written to the tables by a service and its repository and, in the same breath, recorded as a numbered event in the
  log of the user (\<open>sync.go\<close>), from which the other devices catch up. Around this core lie an audit log that is
  chained by hashes, a governance layer that can block operations or ask for an approval, one-time confirmations for
  sensitive operations, object storage, a hub for skills, a platform for plugins, a hub where knowledge is published in
  snapshots and subscribed to, its billing, a queue of embedding jobs, and the maintenance jobs.

  How it is modelled. The state of a service is a record of tables; a table is the list of its rows in insertion
  order, a row a record with the columns of the gorm model. An operation is a function with the name and the branches
  of the Go function, from the state to a result and the next state; an error is a value of \<open>error\<close>, and \<open>Inl e\<close> the
  answer that is an error. A name that clashes with one of HOL or of another component has a prefix or a suffix
  (\<open>kb_GetCollection\<close>, \<open>Record_audit\<close>, \<open>SetInstallationStatus_sage\<close>), the function of a repository that has the name of a
  service function the suffix \<open>_repo\<close>, and the endpoint around one \<open>_endpoint\<close>. Everything outside the
  program is in the record \<open>env\<close> that each request brings along (theory Prelude): the clock, the identifiers and random
  tokens it draws, the failures of its database calls (\<open>e_db\<close>, by name and number of the call, so that every error
  path can be taken), the resolution of the database's clock, and the libraries for JSON, base64, SHA-256, bcrypt,
  signatures and identifiers. Storage backends, governance enforcers and embedding providers are arguments of the
  operations that call them. What a property needs of these libraries is a named hypothesis of it
  (\<open>no_faults\<close>, \<open>reads_back\<close>, \<open>previous_hash_readable\<close>), and its witness runs the model with \<open>env0\<close> or \<open>env_at\<close>, toy libraries with
  which the definitions can be evaluated. Counters that the source keeps as BIGINT and that a property counts with are
  64-bit words (sync numbers); amounts of money are integers brought back into 64 bits by \<open>i64\<close> after each
  operation. A transaction is a step: its error gives back the state before it. Where the source does without one,
  the half-done state is what the model returns.
\<close>

text \<open>
  The theories, with the files they model under \<open>src/internal\<close>.

  Prelude: times, errors, JSON values, text functions, the environment, tables and their rewrite rules (the collections
  \<open>table_simps\<close> and \<open>db_simps\<close>). Calendar and CalendarProps: dates, month ends and \<open>Time.AddDate\<close> of Go in UTC, with the rule it
  amounts to. Float64: rounding to 53 binary digits, for the quotients the source stores as \<open>float64\<close>. SingleUse: the
  interface of everything that can be used once. VersionedStore: the abstract store of versioned objects.

  SyncContract (\<open>service/sync_contract.go\<close>), Sync (\<open>service/sync.go\<close>, \<open>repository/sync_repo.go\<close>, \<open>handler/sync.go\<close>) and
  SyncProps: the event log, its counters and cursors; the tables stay sound, retries append nothing, reuse of a key
  is refused. SyncPaging: a client that pages through the log gets all of it; the number of pages is the measure. SyncRace: what a
  device can rely on when recordings do not overlap (\<open>quiet_reach\<close>), and the interleaving of two of them that loses an
  event (\<open>racing_step\<close>).

  AuditLog and AuditProps (\<open>service/audit.go\<close>, \<open>repository/audit_repo.go\<close>): append, verification, what the head hash commits to.

  Identity and IdentityProps (\<open>service/identity.go\<close>, \<open>service/admission.go\<close>, their repositories): accounts, devices,
  challenges, admission. Tokens and TokenProps (\<open>service/sensitive_operation.go\<close>, \<open>service/device_pairing.go\<close>): passwords,
  confirmations, pairing sessions. PairingProps: the life of a pairing code. Router (\<open>router/router.go\<close>, \<open>middleware/jwt.go\<close>,
  \<open>middleware/admin.go\<close>): the groups of routes and their guards. AdmissionApi (\<open>handler/admission.go\<close>): who may join.

  Governance, GovernanceProps and GovernanceSummary (\<open>service/governance.go\<close>, \<open>service/governance_enforcer.go\<close>,
  \<open>repository/governance_repo.go\<close>): rules, kill switches, decisions, approval receipts, the enforcer, the dashboard.

  Conversation, ConversationProps and MessageProps (\<open>service/conversation.go\<close>, \<open>service/message.go\<close>,
  \<open>repository/conversation_repo.go\<close>): participants and roles, messages, offline copies. WsHub and WsHubProps (\<open>ws/hub.go\<close>,
  \<open>ws/client.go\<close>): connections, bounded queues, the panic of sending on a closed channel as the result \<open>None\<close>. WsDispatch and
  WsDispatchProps (\<open>ws/handler.go\<close>): the messages a client can send.

  Knowledge and KnowledgeProps (\<open>service/knowledge_entries.go\<close>), Contacts and ContactsProps (\<open>service/contacts.go\<close>): two
  services that refine the versioned store. Settings and SettingsProps (\<open>service/skill_settings.go\<close>, \<open>agent_settings.go\<close>,
  \<open>server_connections.go\<close>). Objects and ObjectProps (\<open>service/object_storage.go\<close>): keys and the life of an object.

  SkillManifest (\<open>service/skill_manifest_validator.go\<close>), SkillHub and SkillHubProps (\<open>service/skill_hub.go\<close>). SageManifest
  (\<open>service/sage_manifest_validator.go\<close>, \<open>governance_scanner.go\<close>), Sage and SageProps (\<open>service/sage_plugin_service.go\<close>).

  Billing and BillingProps (\<open>service/kb_billing.go\<close>). EmbeddingJobs and EmbeddingProps (\<open>repository/kb_embedding_repo.go\<close>,
  \<open>service/kb_embedding_worker.go\<close>). KBCatalog, KBSearch, KBHub, KBAccess and KBProps (\<open>service/kb_hub.go\<close>, \<open>kb_search.go\<close>, their
  repositories): collections, index, publication, access. KBApi and KBApiProps (\<open>handler/kb_hub.go\<close>): the audited endpoints.
  Background and BackgroundProps (\<open>service/background.go\<close>, \<open>service/ops.go\<close>): the maintenance jobs and the table of their runs.
\<close>

text \<open>
  The interfaces. \<open>append_log\<close> and its extension \<open>event_log\<close> (SyncProps) are what the other services rely on when they
  record an event: the log only grows, a success is in the log, a repeated keyed recording appends nothing;
  the sync service provides it (\<open>sync_log\<close>). \<open>single_use\<close> (SingleUse) says that of all attempts with a key at most one
  succeeds, in any history; it is provided by approval receipts, confirmations and pairing sessions (\<open>receipts\<close>,
  \<open>confirmations\<close>, \<open>pairings\<close>), and by every versioned store for the changes that name one base version
  (the sublocale \<open>one_change\<close>). \<open>versioned_store\<close> (VersionedStore) is the refinement of an abstract store of versioned
  objects; knowledge entries and contacts provide it.

  The step relations. Histories of requests are lists that a serve function folds over the state, one request at a time
  (\<open>sync_serve\<close>, \<open>gov_serve\<close>, \<open>conv_serve\<close>, \<open>kb_serve\<close> and so on). Where a property is about overlap there is a relation of
  finer steps: \<open>racing_step\<close> for recordings, \<open>queue_step\<close> for embedding workers that claim, finish, fail or die,
  \<open>bg_step\<close> for runs of jobs, requests and stops of the server, \<open>ws_reach\<close> for connections. \<open>life_step\<close> and
  \<open>catalog_step\<close> say what a request may do to an object and to the plugin catalog.

  The lemmas go from an operation to its service to all histories: what an operation does on each branch (\<open>..._Inr\<close>,
  \<open>..._cases\<close>), which tables it leaves alone (\<open>..._tables\<close>, \<open>..._kb\<close>), that it keeps the invariant of the service
  (\<open>sync_inv\<close>, \<open>know_inv\<close>, \<open>books_ok\<close>, \<open>hub_ok\<close>, \<open>catalog_ok\<close>), and the run lemma. The properties rest on these. Theorems that
  are not properties show where the code does something else than it means to: each comes with a witness run, and the
  findings beside the development name them.

  Bounds. No definition takes fuel: the recursions are structural or decrease a stated measure. The numbers of a user's
  events are below the counter as long as fewer than two to the 64 minus 1 requests were served; ratings add up as long as there are
  fewer than two to the 50 of them. The cutoffs of the retention jobs, \<open>AddDate(0, 0, -n)\<close> in the source, are taken as n times 24
  hours: the model's times are in UTC, and a server whose local zone has daylight saving would differ by its hour.

  What is left out. The endpoints that only bind JSON, call a modelled operation and write its answer; the response
  helpers, the rate limiter, CORS and request identifiers; start-up, configuration and connections; the loops that tick or
  read sockets, whose bodies are modelled; pgvector, embeddings and everything that ranks by floating-point similarity; the
  clients of MinIO, of the embedding providers and of the native signature library, which are parameters; migrations and
  scripts, whose unique indexes and checks are part of the table operations. Requests of one service are served one after
  the other except where a step relation says otherwise; serialisation failures of PostgreSQL are errors of the
  environment.
\<close>

end
